(* ===== verification/Prelude.thy ===== *)
theory Prelude
  imports Main "HOL-Library.AList" "HOL-Library.Word" "HOL-Library.Sublist"
begin

text \<open>
  The base of the development: results, Go maps and the small list facts every
  component shares.

  \<^item> An operation of the program returns \<open>err + 'a\<close>: \<open>Inl e\<close> is the Go error
    return, \<open>Inr a\<close> the value.  \<open>err\<close> has the sentinel errors of
    \<^verbatim>\<open>workspace/store.go\<close>, \<open>ErrInvalid w\<close> for \<^verbatim>\<open>invalid(w)\<close>, \<open>ErrText\<close> for
    \<^verbatim>\<open>errors.New\<close> and \<open>ErrInvalidClaim e\<close> for \<^verbatim>\<open>errors.Join(ErrInvalidClaim, e)\<close>.
  \<^item> A Go \<^verbatim>\<open>map[string]V\<close> is an association list.  Its order stands for the
    iteration order of \<^verbatim>\<open>range\<close>, which Go leaves open: the theorems hold for every
    order.  A lookup of a missing key gives the zero value (\<open>mget\<close>).
  \<^item> Go's \<^verbatim>\<open>uint64\<close> is \<open>64 word\<close>, so counters wrap; \<^verbatim>\<open>int\<close> and \<^verbatim>\<open>int64\<close> values are
    lengths, budgets and clock readings and are \<open>int\<close>.  A \<^verbatim>\<open>time.Time\<close> is the
    number of nanoseconds since Go's zero time, so \<^verbatim>\<open>IsZero\<close> is \<open>t = 0\<close>.
\<close>

named_theorems step_intro "how an operation changes the journal, as an introduction rule"
named_theorems frame "what an operation leaves unchanged"
named_theorems eval "definitions to unfold when a concrete instance is evaluated"

type_synonym u64 = "64 word"
type_synonym time = int
type_synonym 'v gomap = "(string \<times> 'v) list"

datatype err =
    ErrAdmissionBudget
  | ErrStorageBusy
  | ErrUnauthorized
  | ErrPodBindingPending
  | ErrConflict
  | ErrResidentCapacity
  | ErrInvalid string
  | ErrText string
  | ErrInvalidClaim err

section \<open>Results\<close>

definition bind_res :: "err + 'a \<Rightarrow> ('a \<Rightarrow> err + 'b) \<Rightarrow> err + 'b" where
  "bind_res m f = (case m of Inl e \<Rightarrow> Inl e | Inr a \<Rightarrow> f a)"

lemma bind_res_simps [simp]:
  "bind_res (Inl e) f = Inl e"
  "bind_res (Inr a) f = f a"
  by (simp_all add: bind_res_def)

lemma bind_res_eq_Inr:
  "bind_res m f = Inr b \<longleftrightarrow> (\<exists>a. m = Inr a \<and> f a = Inr b)"
  by (cases m) simp_all

lemma bind_resE:
  assumes "bind_res m f = Inr b"
  obtains a where "m = Inr a" "f a = Inr b"
  using assms by (auto simp: bind_res_eq_Inr)

lemma if_Inl_eq_Inr [simp]:
  "((if c then Inl e else r) = Inr a) \<longleftrightarrow> \<not> c \<and> r = Inr a"
  by simp

lemma case_option_Inl_eq_Inr:
  "((case x of None \<Rightarrow> Inl e | Some y \<Rightarrow> f y) = Inr a) \<longleftrightarrow> (\<exists>y. x = Some y \<and> f y = Inr a)"
  by (cases x) simp_all

section \<open>Go maps\<close>

definition mget :: "'v \<Rightarrow> 'v gomap \<Rightarrow> string \<Rightarrow> 'v" where
  "mget z m k = (case map_of m k of None \<Rightarrow> z | Some v \<Rightarrow> v)"

definition mvals :: "'v gomap \<Rightarrow> 'v list" where
  "mvals m = map snd m"

definition distinct_keys :: "'v gomap \<Rightarrow> bool" where
  "distinct_keys m \<longleftrightarrow> distinct (map fst m)"

lemma map_of_AList_update [simp]:
  "map_of (AList.update k v m) = (map_of m)(k \<mapsto> v)"
  by (rule update_conv')

lemma mget_Some [simp]: "map_of m k = Some v \<Longrightarrow> mget z m k = v"
  by (simp add: mget_def)

lemma mget_None [simp]: "map_of m k = None \<Longrightarrow> mget z m k = z"
  by (simp add: mget_def)

lemma mget_update: "mget z (AList.update k v m) j = (if j = k then v else mget z m j)"
  by (simp add: mget_def)

lemma mget_update_same [simp]: "mget z (AList.update k v m) k = v"
  by (simp add: mget_update)

lemma mget_update_other [simp]: "j \<noteq> k \<Longrightarrow> mget z (AList.update k v m) j = mget z m j"
  by (simp add: mget_update)

lemma distinct_keys_Nil [simp]: "distinct_keys []"
  by (simp add: distinct_keys_def)

lemma keys_AList_update: "map fst (AList.update k v m) = (if k \<in> fst ` set m then map fst m else map fst m @ [k])"
  by (induction m) auto

lemma distinct_keys_AList_update [simp]: "distinct_keys (AList.update k v m) = distinct_keys m"
  by (auto simp: distinct_keys_def keys_AList_update)

lemma distinct_keys_map_values [simp]: "distinct_keys (map (\<lambda>(k, v). (k, f k v)) m) = distinct_keys m"
  by (simp add: distinct_keys_def case_prod_beta' comp_def)

lemma mvals_iff:
  "distinct_keys m \<Longrightarrow> v \<in> set (mvals m) \<longleftrightarrow> (\<exists>k. map_of m k = Some v)"
  by (force simp: mvals_def distinct_keys_def map_of_eq_Some_iff)

lemma mem_map_of:
  "distinct_keys m \<Longrightarrow> (k, v) \<in> set m \<longleftrightarrow> map_of m k = Some v"
  by (simp add: distinct_keys_def map_of_eq_Some_iff)

lemma AList_update_id: "map_of m k = Some v \<Longrightarrow> AList.update k v m = m"
  by (induction m) (auto split: if_splits)

lemma AList_update_new: "map_of m k = None \<Longrightarrow> AList.update k v m = m @ [(k, v)]"
  by (induction m) (auto split: if_splits)

text \<open>A value stored in an updated map is the new one or an old one.\<close>

lemma set_update_cases:
  assumes "(j, w) \<in> set (AList.update k v m)"
  shows "j = k \<and> w = v \<or> (j, w) \<in> set m"
  using assms by (induction m) (auto split: if_splits)

end
