(* ===== verification/Journal_Types.thy ===== *)
theory Journal_Types
  imports Prelude
begin

text \<open>
  The data of the private journal, struct by struct (\<^verbatim>\<open>internal/workspace\<close>,
  \<^verbatim>\<open>internal/runtimeimage/types.go\<close>, \<^verbatim>\<open>internal/core/core.go\<close>).

  A field keeps its Go name behind a prefix of its record (\<open>g_State\<close> is
  \<^verbatim>\<open>TaskGrant.State\<close>).  Strings, \<^verbatim>\<open>[]byte\<close> and \<^verbatim>\<open>json.RawMessage\<close> are byte
  strings; a nil slice or map and an empty one are one value, except in \<open>prepared\<close>, \<open>authority_evidence\<close> and
  \<open>native_metadata\<close>, whose digests tell them apart (\<open>None\<close> is nil there);
  a pointer is an \<open>option\<close>; string constants that name a state or kind are the constructors of a datatype, with \<open>Other\<close> for every
  remaining string (its zero value is \<open>Other ''''\<close>), which the code's \<^verbatim>\<open>default\<close>
  branches see.  \<open>zero_r\<close> is the zero value of the record type \<open>r\<close>.
\<close>

section \<open>Identities\<close>

record repository =
  repo_ID :: string
  repo_URL :: string
  repo_Ref :: string
  repo_Description :: string

record preparation_process =
  pp_PodName :: string
  pp_PodUID :: string
  pp_ContainerID :: string

datatype conversation_kind =
  ConversationIssue | ConversationAgentDM | ConversationTask | OtherConversation string

record conversation_key =
  ck_OwnerID :: string
  ck_WorkspaceID :: string
  ck_Kind :: conversation_kind
  ck_SubjectID :: string
  ck_AgentID :: string

definition zero_conversation_key :: conversation_key where
  "zero_conversation_key =
    \<lparr>ck_OwnerID = [], ck_WorkspaceID = [], ck_Kind = OtherConversation [], ck_SubjectID = [], ck_AgentID = []\<rparr>"

section \<open>The runtime image\<close>

record executable =
  ex_Path :: string
  ex_Version :: string
  ex_SHA256 :: string

record contract =
  co_BuildID :: string
  co_Platform :: string
  co_RuntimePath :: string
  co_RuntimeSHA256 :: string
  co_GoVersion :: string

record daemon =
  dm_Executable :: executable
  dm_AdapterContract :: string

record runtime_ref =
  rr_Image :: string
  rr_Platform :: string
  rr_ImageBuildID :: string
  rr_DescriptorDigest :: string
  rr_Controller :: contract
  rr_Daemon :: daemon
  rr_Providers :: "executable gomap"
  rr_ConfigurationDigest :: string

definition zero_runtime_ref :: runtime_ref where
  "zero_runtime_ref =
    \<lparr>rr_Image = [], rr_Platform = [], rr_ImageBuildID = [], rr_DescriptorDigest = [],
     rr_Controller = \<lparr>co_BuildID = [], co_Platform = [], co_RuntimePath = [], co_RuntimeSHA256 = [], co_GoVersion = []\<rparr>,
     rr_Daemon = \<lparr>dm_Executable = \<lparr>ex_Path = [], ex_Version = [], ex_SHA256 = []\<rparr>, dm_AdapterContract = []\<rparr>,
     rr_Providers = [], rr_ConfigurationDigest = []\<rparr>"

section \<open>Authority and compatibility\<close>

datatype integration_state = IntegrationUnknown | IntegrationVerifiedEmpty | OtherIntegration string

record integration_evidence =
  ie_State :: integration_state
  ie_Reason :: string

record authority_membership =
  am_UserID :: string
  am_Role :: string

record authority_evidence =
  ae_Version :: int
  ae_WorkspaceID :: string
  ae_RuntimeID :: string
  ae_AgentID :: string
  ae_PrincipalID :: string
  ae_AgentOwnerID :: string
  ae_OriginatorID :: string
  ae_DelegationKnown :: bool
  ae_Memberships :: "authority_membership list option"
  ae_Integrations :: integration_evidence

record skill_content_hash =
  sk_ID :: string
  sk_Digest :: string

record compatibility =
  cc_Conversation :: conversation_key
  cc_RuntimeID :: string
  cc_Authority :: authority_evidence
  cc_Repositories :: "repository list"
  cc_ResourceScope :: "string list"
  cc_Provider :: string
  cc_ProviderOptionsResolved :: bool
  cc_RuntimeRef :: runtime_ref
  cc_ConfigurationDigest :: string
  cc_AgentInstructions :: string
  cc_Model :: string
  cc_ThinkingLevel :: string
  cc_ServiceTier :: string
  cc_CustomArgs :: "string list"
  cc_CustomEnv :: "string gomap"
  cc_SkillHashes :: "skill_content_hash list"
  cc_DisabledRuntimeSkills :: "string list"
  cc_StableMCP :: string
  cc_StablePlugins :: string

section \<open>Continuity\<close>

record checkpoint_source =
  src_TaskID :: string
  src_AttemptID :: string

definition no_source :: checkpoint_source where
  "no_source = \<lparr>src_TaskID = [], src_AttemptID = []\<rparr>"

datatype selection_mode =
  SelectionResume | SelectionFreshSession | SelectionFreshWorkspace | OtherMode string

record selection =
  sel_Conversation :: conversation_key
  sel_ReuseEligible :: bool
  sel_WorkspaceReuseEligible :: bool
  sel_Mode :: selection_mode
  sel_StorageID :: string
  sel_SessionSource :: checkpoint_source
  sel_WorkspaceSource :: checkpoint_source
  sel_LatestWriter :: checkpoint_source
  sel_SessionID :: string
  sel_WorkDir :: string
  sel_EvidenceDigest :: string
  sel_Reason :: string

definition zero_selection :: selection where
  "zero_selection =
    \<lparr>sel_Conversation = zero_conversation_key, sel_ReuseEligible = False, sel_WorkspaceReuseEligible = False,
     sel_Mode = OtherMode [], sel_StorageID = [], sel_SessionSource = no_source, sel_WorkspaceSource = no_source,
     sel_LatestWriter = no_source, sel_SessionID = [], sel_WorkDir = [], sel_EvidenceDigest = [], sel_Reason = []\<rparr>"

record completion_witness =
  cw_TaskID :: string
  cw_AttemptID :: string
  cw_WorkerSessionID :: string
  cw_StorageID :: string
  cw_TurnSequence :: u64
  cw_RequestDigest :: string
  cw_ResultDigest :: string
  cw_Status :: string
  cw_SessionID :: string
  cw_WorkDir :: string
  cw_AcknowledgedAt :: time

record session_checkpoint =
  cp_SealingSessionID :: string
  cp_SealedAt :: time
  cp_Source :: checkpoint_source
  cp_SessionSource :: checkpoint_source
  cp_WorkspaceSource :: checkpoint_source
  cp_WorkerSessionID :: string
  cp_TurnSequence :: u64
  cp_CompatibilityDigest :: string
  cp_WorkspaceCompatibilityDigest :: string
  cp_SessionID :: string
  cp_WorkDir :: string
  cp_PublishedAt :: time

record conversation =
  cv_Key :: conversation_key
  cv_CurrentStorageID :: string
  cv_CurrentSessionID :: string
  cv_Revision :: u64

definition zero_conversation :: conversation where
  "zero_conversation =
    \<lparr>cv_Key = zero_conversation_key, cv_CurrentStorageID = [], cv_CurrentSessionID = [], cv_Revision = 0\<rparr>"

section \<open>Signed control messages\<close>

record session_challenge =
  ch_Operation :: string
  ch_WorkerSessionID :: string
  ch_PodUID :: string
  ch_PVCUID :: string
  ch_TurnSequence :: u64
  ch_AttemptID :: string
  ch_BodyDigest :: string
  ch_Nonce :: string
  ch_ExpiresAt :: time

record session_proof =
  pf_Challenge :: session_challenge
  pf_Signature :: string

record turn_receipt =
  tr_WorkerSessionID :: string
  tr_TaskID :: string
  tr_AttemptID :: string
  tr_Generation :: u64
  tr_TurnSequence :: u64
  tr_InputDigest :: string
  tr_PodUID :: string
  tr_PVCUID :: string
  tr_ResultDigest :: string
  tr_RequestDigest :: string
  tr_Nonce :: string
  tr_WritersStopped :: bool
  tr_FlushOK :: bool
  tr_Signature :: string

record turn_execution_receipt =
  ter_WorkerSessionID :: string
  ter_Conversation :: conversation_key
  ter_StorageID :: string
  ter_TaskID :: string
  ter_AttemptID :: string
  ter_Generation :: u64
  ter_TurnSequence :: u64
  ter_InputDigest :: string
  ter_PodUID :: string
  ter_PVCUID :: string
  ter_ResultDigest :: string
  ter_RequestDigest :: string
  ter_Nonce :: string
  ter_TaskProcessesStopped :: bool
  ter_LocalRequestsClosed :: bool
  ter_PrivateStateCleared :: bool
  ter_Signature :: string

record signed_receipt =
  sg_TaskID :: string
  sg_AttemptID :: string
  sg_RequestDigest :: string
  sg_PodUID :: string
  sg_PVCUID :: string
  sg_Nonce :: string
  sg_WritersStopped :: bool
  sg_FlushOK :: bool
  sg_Signature :: string

record result_receipt =
  rc_WorkerSessionID :: string
  rc_TurnSequence :: u64
  rc_TaskID :: string
  rc_AttemptID :: string
  rc_PodUID :: string
  rc_PVCUID :: string
  rc_RequestDigest :: string
  rc_Nonce :: string
  rc_Signature :: string

record stop_receipt =
  sr_WorkerSessionID :: string
  sr_TurnSequence :: u64
  sr_TaskID :: string
  sr_AttemptID :: string
  sr_Generation :: u64
  sr_PodUID :: string
  sr_PVCUID :: string
  sr_Revision :: u64
  sr_Nonce :: string
  sr_WritersStopped :: bool
  sr_FlushOK :: bool
  sr_Signature :: string

datatype evidence_kind = EvTerminated | EvNeverStarted | EvNoWorker | OtherEvidence string

record stop_evidence =
  se_PodUID :: string
  se_PVCUID :: string
  se_Kind :: evidence_kind
  se_ObservedAt :: time
  se_PreparedFlushOK :: bool

record stop_record =
  sp_Reason :: string
  sp_Revision :: u64
  sp_Nonce :: string
  sp_RequestedAt :: time
  sp_Receipt :: "stop_receipt option"
  sp_Evidence :: "stop_evidence option"

record session_stop_receipt =
  ssr_WorkerSessionID :: string
  ssr_AttemptID :: string
  ssr_InputDigest :: string
  ssr_TurnSequence :: u64
  ssr_PodUID :: string
  ssr_PVCUID :: string
  ssr_Revision :: u64
  ssr_Nonce :: string
  ssr_WritersStopped :: bool
  ssr_FlushOK :: bool
  ssr_Signature :: string

record session_stop_record =
  ssp_ActiveAttempt :: string
  ssp_ControllerWritersStopped :: bool
  ssp_Reason :: string
  ssp_Revision :: u64
  ssp_Nonce :: string
  ssp_RequestedAt :: time
  ssp_Receipt :: "session_stop_receipt option"
  ssp_Evidence :: "stop_evidence option"
  ssp_RequestProof :: "session_proof option"
  ssp_RequestReason :: string
  ssp_ReceiptProof :: "session_proof option"

section \<open>Results and events\<close>

record resume_pointers =
  rp_MissingSessionID :: string
  rp_SessionID :: string
  rp_WorkDir :: string
  rp_RetiredSessionID :: string
  rp_SessionRolloutMissing :: bool
  rp_ResumeRejectedTransient :: bool

datatype delivery =
  DReceived | DSealed | DForwarding | DDelivered | DRejected | DUncertain | OtherDelivery string

datatype terminal_source = SourceWorker | SourceController | OtherSource string

datatype terminal_kind = KindComplete | KindFail | KindCancelAck | OtherKind string

record recovery_failure =
  rf_Body :: string
  rf_State :: delivery
  rf_DecidedAt :: time

record terminal =
  t_ResultDigest :: string
  t_Source :: terminal_source
  t_ReceiptID :: string
  t_TaskID :: string
  t_AttemptID :: string
  t_PodUID :: string
  t_PVCUID :: string
  t_Kind :: terminal_kind
  t_Body :: string
  t_RequestDigest :: string
  t_Nonce :: string
  t_State :: delivery
  t_Seal :: "signed_receipt option"
  t_ResultReceipt :: "result_receipt option"
  t_ReceivedAt :: time
  t_RecoveryFailure :: "recovery_failure option"

definition zero_terminal :: terminal where
  "zero_terminal =
    \<lparr>t_ResultDigest = [], t_Source = OtherSource [], t_ReceiptID = [], t_TaskID = [], t_AttemptID = [],
     t_PodUID = [], t_PVCUID = [], t_Kind = OtherKind [], t_Body = [], t_RequestDigest = [], t_Nonce = [],
     t_State = OtherDelivery [], t_Seal = None, t_ResultReceipt = None, t_ReceivedAt = 0, t_RecoveryFailure = None\<rparr>"

datatype event_state = EvReceived | EvForwarding | EvLocal | EvDelivered | EvUncertain | OtherEvent string

record event =
  e_Sequence :: u64
  e_UpstreamSequence :: u64
  e_Body :: string
  e_State :: event_state

record capability =
  cap_WorkerSessionID :: string
  cap_TurnSequence :: u64
  cap_Token :: string
  cap_AttemptID :: string
  cap_Audience :: string
  cap_Generation :: u64
  cap_PodUID :: string
  cap_ExpiresAt :: time

section \<open>Preparation\<close>

record native_artifact =
  na_Path :: string
  na_SHA256 :: string
  na_Size :: int

record native_metadata =
  nm_WorkerSessionID :: string
  nm_TurnSequence :: u64
  nm_ArtifactRoot :: string
  nm_Artifacts :: "native_artifact list option"
  nm_CodexConfig :: string
  nm_ClaudeSettings :: string
  nm_ServiceTier :: string
  nm_TaskMarker :: string
  nm_ProjectResources :: string

record native_environment =
  ne_RootDir :: string
  ne_WorkDir :: string
  ne_MulticaConfigRoot :: string
  ne_CodexHome :: string
  ne_ClaudeSettingsPath :: string

record prepared =
  p_Conversation :: "conversation_key option"
  p_WorkspaceAnchorTaskID :: string
  p_Digest :: string
  p_OwnerID :: string
  p_WorkspaceID :: string
  p_TaskID :: string
  p_AgentID :: string
  p_AttemptID :: string
  p_Generation :: u64
  p_PVCUID :: string
  p_TaskRoot :: string
  p_Provider :: string
  p_Executable :: string
  p_RuntimeDigest :: string
  p_ConfigurationDigest :: string
  p_Environment :: native_environment
  p_Repositories :: "repository list option"
  p_SkillIDs :: "string list option"
  p_CreatedAt :: time
  p_CleanupManifest :: string
  p_AllowedLinks :: "string gomap option"
  p_NativeMetadata :: "native_metadata option"

end
