(* ===== verification/Journal_State.thy ===== *)
theory Journal_State
  imports Journal_Types
begin

text \<open>
  The journal's state: grants, storages, worker sessions and the registry that holds them
  (\<^verbatim>\<open>grant.go\<close>, \<^verbatim>\<open>conversation_types.go\<close>, \<^verbatim>\<open>store.go\<close>), what the model takes as
  a parameter (\<open>env\<close>) and what one call observes of its surroundings (\<open>call\<close>).
\<close>

datatype grant_state =
    WaitingStorage | Intent | Assigned | Ready | Offered | Starting | Started
  | TerminalReceived | Quarantined | Unexecuted | Closed | OtherState string

record task_grant =
  g_Legacy :: bool
  g_SessionProtocol :: bool
  g_Conversation :: conversation_key
  g_WorkerSessionID :: string
  g_TurnSequence :: u64
  g_WorkspaceAnchorTaskID :: string
  g_CompatibilityDigest :: string
  g_WorkspaceCompatibilityDigest :: string
  g_Compatibility :: "compatibility option"
  g_Assignment :: string
  g_InputDigest :: string
  g_TurnAccepted :: bool
  g_TurnComplete :: bool
  g_TurnReceipt :: "turn_receipt option"
  g_TurnExecutionReceipt :: "turn_execution_receipt option"
  g_TurnExecutionProof :: "session_proof option"
  g_AcceptProof :: "session_proof option"
  g_CompletionWitness :: "completion_witness option"
  g_Selection :: "selection option"
  g_BackendSelection :: "selection option"
  g_PendingResume :: "resume_pointers option"
  g_StartConfirmed :: bool
  g_CheckoutClosed :: bool
  g_CheckoutNeedsFlush :: bool
  g_CheckoutProcess :: "preparation_process option"
  g_ExecutionRevoked :: bool
  g_OwnerID :: string
  g_TaskID :: string
  g_AttemptID :: string
  g_RuntimeID :: string
  g_WorkspaceID :: string
  g_AgentID :: string
  g_Repositories :: "repository list"
  g_ResourceScope :: "string list"
  g_StorageID :: string
  g_PVCName :: string
  g_PVCUID :: string
  g_PodName :: string
  g_PodUID :: string
  g_NodeID :: string
  g_Fingerprint :: string
  g_RuntimeRef :: runtime_ref
  g_ScopeDigest :: string
  g_RequestDigest :: string
  g_Envelope :: string
  g_Metadata :: string
  g_Resources :: string
  g_Bootstrap :: string
  g_BootstrapDigest :: string
  g_Generation :: u64
  g_State :: grant_state
  g_CleanupComplete :: bool
  g_ResumeSession :: string
  g_ResumeWorkDir :: string
  g_SupervisorKey :: string
  g_StopKey :: string
  g_Stop :: "stop_record option"
  g_TaskRoot :: string
  g_Reuse :: bool
  g_Prepared :: "prepared option"
  g_Events :: "event list"
  g_Execution :: string
  g_PreparationStarted :: bool
  g_PreparationStopped :: bool
  g_CreatedAt :: time
  g_PreparationProcess :: "preparation_process option"

definition zero_grant :: task_grant where
  "zero_grant =
    \<lparr>g_Legacy = False, g_SessionProtocol = False, g_Conversation = zero_conversation_key,
     g_WorkerSessionID = [], g_TurnSequence = 0, g_WorkspaceAnchorTaskID = [], g_CompatibilityDigest = [],
     g_WorkspaceCompatibilityDigest = [], g_Compatibility = None, g_Assignment = [], g_InputDigest = [],
     g_TurnAccepted = False, g_TurnComplete = False, g_TurnReceipt = None, g_TurnExecutionReceipt = None,
     g_TurnExecutionProof = None, g_AcceptProof = None, g_CompletionWitness = None, g_Selection = None,
     g_BackendSelection = None, g_PendingResume = None, g_StartConfirmed = False, g_CheckoutClosed = False,
     g_CheckoutNeedsFlush = False, g_CheckoutProcess = None, g_ExecutionRevoked = False, g_OwnerID = [],
     g_TaskID = [], g_AttemptID = [], g_RuntimeID = [], g_WorkspaceID = [], g_AgentID = [],
     g_Repositories = [], g_ResourceScope = [], g_StorageID = [], g_PVCName = [], g_PVCUID = [],
     g_PodName = [], g_PodUID = [], g_NodeID = [], g_Fingerprint = [], g_RuntimeRef = zero_runtime_ref,
     g_ScopeDigest = [], g_RequestDigest = [], g_Envelope = [], g_Metadata = [], g_Resources = [],
     g_Bootstrap = [], g_BootstrapDigest = [], g_Generation = 0, g_State = OtherState [],
     g_CleanupComplete = False, g_ResumeSession = [], g_ResumeWorkDir = [], g_SupervisorKey = [],
     g_StopKey = [], g_Stop = None, g_TaskRoot = [], g_Reuse = False, g_Prepared = None, g_Events = [],
     g_Execution = [], g_PreparationStarted = False, g_PreparationStopped = False, g_CreatedAt = 0,
     g_PreparationProcess = None\<rparr>"

record storage =
  b_Conversation :: conversation_key
  b_WorkspaceAnchorTaskID :: string
  b_CompatibilityDigest :: string
  b_WorkspaceCompatibilityDigest :: string
  b_WriterSessionID :: string
  b_LatestWriter :: checkpoint_source
  b_Checkpoint :: "session_checkpoint option"
  b_RetiredSessions :: "string list"
  b_CreatedIssueIDs :: "string list"
  b_EventSequence :: u64
  b_ID :: string
  b_ScopeDigest :: string
  b_Fingerprint :: string
  b_PVCName :: string
  b_PVCUID :: string
  b_WorkspaceID :: string
  b_TaskID :: string
  b_AgentID :: string
  b_TaskRoot :: string
  b_Prepared :: "prepared option"
  b_SessionID :: string
  b_ActiveAttempt :: string
  b_Quarantined :: bool
  b_Dirty :: bool

definition zero_storage :: storage where
  "zero_storage =
    \<lparr>b_Conversation = zero_conversation_key, b_WorkspaceAnchorTaskID = [], b_CompatibilityDigest = [],
     b_WorkspaceCompatibilityDigest = [], b_WriterSessionID = [], b_LatestWriter = no_source,
     b_Checkpoint = None, b_RetiredSessions = [], b_CreatedIssueIDs = [], b_EventSequence = 0, b_ID = [],
     b_ScopeDigest = [], b_Fingerprint = [], b_PVCName = [], b_PVCUID = [], b_WorkspaceID = [],
     b_TaskID = [], b_AgentID = [], b_TaskRoot = [], b_Prepared = None, b_SessionID = [],
     b_ActiveAttempt = [], b_Quarantined = False, b_Dirty = False\<rparr>"

datatype session_state =
    SessionCreating | SessionReserved | SessionRunning | SessionFinishing | SessionIdle
  | SessionDraining | SessionQuarantined | SessionClosed | OtherSession string

record worker_session =
  ws_ProtocolVersion :: int
  ws_ID :: string
  ws_Conversation :: conversation_key
  ws_StorageID :: string
  ws_WorkspaceAnchorTaskID :: string
  ws_CompatibilityDigest :: string
  ws_WorkspaceCompatibilityDigest :: string
  ws_RuntimeID :: string
  ws_RuntimeRef :: runtime_ref
  ws_Fingerprint :: string
  ws_PodName :: string
  ws_PodUID :: string
  ws_PVCName :: string
  ws_PVCUID :: string
  ws_NodeID :: string
  ws_TaskRoot :: string
  ws_Revision :: u64
  ws_TurnSequence :: u64
  ws_ActiveAttempt :: string
  ws_LastAttemptID :: string
  ws_InputDigest :: string
  ws_LastCompleteAttempt :: string
  ws_State :: session_state
  ws_SupervisorKey :: string
  ws_ControlToken :: string
  ws_Bootstrap :: string
  ws_BootstrapDigest :: string
  ws_Resources :: string
  ws_CreatedAt :: time
  ws_LastObservedAt :: time
  ws_IdleSince :: time
  ws_IdleDeadline :: time
  ws_Retention :: int
  ws_ResourcesCleaned :: bool
  ws_Stop :: "session_stop_record option"

definition zero_session :: worker_session where
  "zero_session =
    \<lparr>ws_ProtocolVersion = 0, ws_ID = [], ws_Conversation = zero_conversation_key, ws_StorageID = [],
     ws_WorkspaceAnchorTaskID = [], ws_CompatibilityDigest = [], ws_WorkspaceCompatibilityDigest = [],
     ws_RuntimeID = [], ws_RuntimeRef = zero_runtime_ref, ws_Fingerprint = [], ws_PodName = [],
     ws_PodUID = [], ws_PVCName = [], ws_PVCUID = [], ws_NodeID = [], ws_TaskRoot = [], ws_Revision = 0,
     ws_TurnSequence = 0, ws_ActiveAttempt = [], ws_LastAttemptID = [], ws_InputDigest = [],
     ws_LastCompleteAttempt = [], ws_State = OtherSession [], ws_SupervisorKey = [], ws_ControlToken = [],
     ws_Bootstrap = [], ws_BootstrapDigest = [], ws_Resources = [], ws_CreatedAt = 0, ws_LastObservedAt = 0,
     ws_IdleSince = 0, ws_IdleDeadline = 0, ws_Retention = 0, ws_ResourcesCleaned = False, ws_Stop = None\<rparr>"

record registry =
  r_SchemaVersion :: int
  r_OwnerID :: string
  r_Grants :: "task_grant gomap"
  r_Storages :: "storage gomap"
  r_NFSServer :: string
  r_WorkspaceClaim :: string
  r_WorkspaceUID :: string
  r_Terminals :: "terminal gomap"
  r_Capabilities :: "capability gomap"
  r_Conversations :: "conversation gomap"
  r_Sessions :: "worker_session gomap"

text \<open>
  What is not code of the repository and not the language: SHA-256 in hexadecimal
  (\<open>e_digest\<close>), Ed25519 verification (\<open>e_verify key message signature\<close>), the
  \<^verbatim>\<open>google/uuid\<close> package (\<^verbatim>\<open>Parse\<close> to the 16 bytes, \<^verbatim>\<open>String\<close>), and whether
  \<^verbatim>\<open>net.ParseIP\<close> accepts a text.  The remaining fields are \<^verbatim>\<open>Store.options\<close>.
\<close>

record env =
  e_digest :: "string \<Rightarrow> string"
  e_verify :: "string \<Rightarrow> string \<Rightarrow> string \<Rightarrow> bool"
  e_uuid_parse :: "string \<Rightarrow> string option"
  e_uuid_string :: "string \<Rightarrow> string"
  e_parse_ip :: "string \<Rightarrow> bool"
  o_OwnerID :: string
  o_MaxRecordBytes :: int
  o_MaxStoreBytes :: int
  o_MaxTasks :: int
  o_MaxPendingResults :: int
  o_MaxPendingResultBytes :: int

text \<open>
  What one call observes: the journal's clock \<^verbatim>\<open>s.now()\<close>, the wall clock
  \<^verbatim>\<open>time.Now().UTC()\<close>, the results of \<^verbatim>\<open>uuid.NewString()\<close> by call site, the bytes
  of \<^verbatim>\<open>crypto/rand\<close>, and what \<^verbatim>\<open>ValidateSession\<close> finds in the task's files.
\<close>

record call =
  c_now :: time
  c_wall :: time
  c_uuid :: "nat \<Rightarrow> string"
  c_random :: string
  c_session_ok :: "prepared \<Rightarrow> string \<Rightarrow> bool"

section \<open>Lookups with Go's zero value\<close>

definition get_grant :: "registry \<Rightarrow> string \<Rightarrow> task_grant" where
  "get_grant st i = mget zero_grant (r_Grants st) i"

definition get_storage :: "registry \<Rightarrow> string \<Rightarrow> storage" where
  "get_storage st i = mget zero_storage (r_Storages st) i"

definition get_terminal :: "registry \<Rightarrow> string \<Rightarrow> terminal" where
  "get_terminal st i = mget zero_terminal (r_Terminals st) i"

definition get_session :: "registry \<Rightarrow> string \<Rightarrow> worker_session" where
  "get_session st i = mget zero_session (r_Sessions st) i"

definition get_conversation :: "registry \<Rightarrow> string \<Rightarrow> conversation" where
  "get_conversation st i = mget zero_conversation (r_Conversations st) i"

definition put_grant :: "string \<Rightarrow> task_grant \<Rightarrow> registry \<Rightarrow> registry" where
  "put_grant i g st = st\<lparr>r_Grants := AList.update i g (r_Grants st)\<rparr>"

definition put_storage :: "string \<Rightarrow> storage \<Rightarrow> registry \<Rightarrow> registry" where
  "put_storage i b st = st\<lparr>r_Storages := AList.update i b (r_Storages st)\<rparr>"

definition put_terminal :: "string \<Rightarrow> terminal \<Rightarrow> registry \<Rightarrow> registry" where
  "put_terminal i t st = st\<lparr>r_Terminals := AList.update i t (r_Terminals st)\<rparr>"

definition put_session :: "string \<Rightarrow> worker_session \<Rightarrow> registry \<Rightarrow> registry" where
  "put_session i w st = st\<lparr>r_Sessions := AList.update i w (r_Sessions st)\<rparr>"

definition put_conversation :: "string \<Rightarrow> conversation \<Rightarrow> registry \<Rightarrow> registry" where
  "put_conversation i v st = st\<lparr>r_Conversations := AList.update i v (r_Conversations st)\<rparr>"

definition put_capabilities :: "capability gomap \<Rightarrow> registry \<Rightarrow> registry" where
  "put_capabilities m st = st\<lparr>r_Capabilities := m\<rparr>"

definition grant_of :: "registry \<Rightarrow> string \<Rightarrow> task_grant option" where
  "grant_of st i = map_of (r_Grants st) i"

definition storage_of :: "registry \<Rightarrow> string \<Rightarrow> storage option" where
  "storage_of st i = map_of (r_Storages st) i"

definition terminal_of :: "registry \<Rightarrow> string \<Rightarrow> terminal option" where
  "terminal_of st i = map_of (r_Terminals st) i"

definition session_of :: "registry \<Rightarrow> string \<Rightarrow> worker_session option" where
  "session_of st i = map_of (r_Sessions st) i"

definition conversation_of :: "registry \<Rightarrow> string \<Rightarrow> conversation option" where
  "conversation_of st i = map_of (r_Conversations st) i"

definition capability_of :: "registry \<Rightarrow> string \<Rightarrow> capability option" where
  "capability_of st i = map_of (r_Capabilities st) i"

end
