(* ===== verification/Go_Strings.thy ===== *)
theory Go_Strings
  imports Prelude "HOL-Library.Char_ord" "HOL-Library.List_Lexorder"
begin

text \<open>
  What the source uses of Go's \<^verbatim>\<open>strings\<close>, \<^verbatim>\<open>slices\<close>, \<^verbatim>\<open>encoding/hex\<close>,
  \<^verbatim>\<open>encoding/base64\<close>, \<^verbatim>\<open>path/filepath\<close> and \<^verbatim>\<open>io/fs\<close>, on byte strings
  (\<open>char list\<close>, one \<open>char\<close> per byte).  \<^verbatim>\<open>strings.TrimSpace\<close> trims the UTF-8
  encodings of all Unicode white space, as Go does.
\<close>

section \<open>Bytes and substrings\<close>

definition byte :: "nat \<Rightarrow> char" where
  "byte n = char_of n"

definition nl_char :: char where "nl_char = CHR 0x0A"
definition cr_char :: char where "cr_char = CHR 0x0D"
definition nul_char :: char where "nul_char = CHR 0x00"

definition contains_any :: "string \<Rightarrow> string \<Rightarrow> bool" where
  "contains_any s chars = list_ex (\<lambda>c. c \<in> set chars) s"

definition trim_suffix :: "string \<Rightarrow> string \<Rightarrow> string" where
  "trim_suffix s suf = (if suffix suf s then take (length s - length suf) s else s)"

definition trim_prefix :: "string \<Rightarrow> string \<Rightarrow> string" where
  "trim_prefix s pre = (if prefix pre s then drop (length pre) s else s)"

text \<open>\<^verbatim>\<open>strings.Cut(s, sep)\<close>: what is before and after the first \<open>sep\<close>.\<close>

fun cut :: "string \<Rightarrow> string \<Rightarrow> (string \<times> string) option" where
  "cut sep [] = (if sep = [] then Some ([], []) else None)"
| "cut sep (c # s) =
    (if prefix sep (c # s) then Some ([], drop (length sep) (c # s))
     else map_option (\<lambda>(a, b). (c # a, b)) (cut sep s))"

text \<open>\<^verbatim>\<open>strings.Split(s, sep)\<close> for a separator of one byte.\<close>

fun split_on :: "char \<Rightarrow> string \<Rightarrow> string list" where
  "split_on d [] = [[]]"
| "split_on d (c # s) =
    (if c = d then [] # split_on d s
     else (case split_on d s of [] \<Rightarrow> [[c]] | w # ws \<Rightarrow> (c # w) # ws))"

fun join_with :: "char \<Rightarrow> string list \<Rightarrow> string" where
  "join_with d [] = []"
| "join_with d [w] = w"
| "join_with d (w # ws) = w @ d # join_with d ws"

text \<open>\<^verbatim>\<open>strings.Contains\<close>.\<close>

definition contains :: "string \<Rightarrow> string \<Rightarrow> bool" where
  "contains s sub = sublist sub s"

section \<open>White space and case\<close>

text \<open>The UTF-8 encodings of the code points with Unicode's White\_Space property.\<close>

definition space_runes :: "string list" where
  "space_runes =
    [[CHR 0x09], [CHR 0x0A], [CHR 0x0B], [CHR 0x0C], [CHR 0x0D], [CHR 0x20]] @
    [[CHR 0xC2, CHR 0x85], [CHR 0xC2, CHR 0xA0], [CHR 0xE1, CHR 0x9A, CHR 0x80]] @
    [[CHR 0xE2, CHR 0x80, CHR 0x80], [CHR 0xE2, CHR 0x80, CHR 0x81], [CHR 0xE2, CHR 0x80, CHR 0x82], [CHR 0xE2, CHR 0x80, CHR 0x83],
     [CHR 0xE2, CHR 0x80, CHR 0x84], [CHR 0xE2, CHR 0x80, CHR 0x85], [CHR 0xE2, CHR 0x80, CHR 0x86], [CHR 0xE2, CHR 0x80, CHR 0x87],
     [CHR 0xE2, CHR 0x80, CHR 0x88], [CHR 0xE2, CHR 0x80, CHR 0x89], [CHR 0xE2, CHR 0x80, CHR 0x8A], [CHR 0xE2, CHR 0x80, CHR 0xA8],
     [CHR 0xE2, CHR 0x80, CHR 0xA9], [CHR 0xE2, CHR 0x80, CHR 0xAF]] @
    [[CHR 0xE2, CHR 0x81, CHR 0x9F], [CHR 0xE3, CHR 0x80, CHR 0x80]]"

definition leading :: "string list \<Rightarrow> string \<Rightarrow> string option" where
  "leading runes s = find (\<lambda>r. prefix r s) runes"

text \<open>Drops leading runes; \<open>fuel\<close> is at least the length of the string.\<close>

fun trim_runes :: "string list \<Rightarrow> nat \<Rightarrow> string \<Rightarrow> string" where
  "trim_runes runes 0 s = s"
| "trim_runes runes (Suc n) s =
    (case leading runes s of None \<Rightarrow> s | Some r \<Rightarrow> trim_runes runes n (drop (length r) s))"

definition trim_space :: "string \<Rightarrow> string" where
  "trim_space s =
    (let l = trim_runes space_runes (length s) s
     in rev (trim_runes (map rev space_runes) (length l) (rev l)))"

definition lower_char :: "char \<Rightarrow> char" where
  "lower_char c = (if 65 \<le> (of_char c :: nat) \<and> (of_char c :: nat) \<le> 90
                   then char_of ((of_char c :: nat) + 32) else c)"

text \<open>
  \<^verbatim>\<open>strings.ToLower\<close> as far as an ASCII result can tell: apart from \<^verbatim>\<open>A-Z\<close> only the
  Kelvin sign (U+212A) and the dotted capital I (U+0130) have an ASCII lower case.  Bytes of
  other runes are kept; no lower case of theirs is an ASCII letter or digit.
\<close>

fun to_lower :: "string \<Rightarrow> string" where
  "to_lower [] = []"
| "to_lower (c # s) =
    (if prefix [CHR 0xE2, CHR 0x84, CHR 0xAA] (c # s) then CHR ''k'' # to_lower (drop 2 s)
     else if prefix [CHR 0xC4, CHR 0xB0] (c # s) then CHR ''i'' # to_lower (drop 1 s)
     else lower_char c # to_lower s)"

section \<open>Character classes\<close>

definition in_range :: "nat \<Rightarrow> nat \<Rightarrow> char \<Rightarrow> bool" where
  "in_range a b c = (a \<le> (of_char c :: nat) \<and> (of_char c :: nat) \<le> b)"

definition is_digit :: "char \<Rightarrow> bool" where "is_digit = in_range 48 57"
definition is_lower :: "char \<Rightarrow> bool" where "is_lower = in_range 97 122"
definition is_upper :: "char \<Rightarrow> bool" where "is_upper = in_range 65 90"
definition is_lower_hex :: "char \<Rightarrow> bool" where
  "is_lower_hex c = (is_digit c \<or> in_range 97 102 c)"

section \<open>Hexadecimal and base64\<close>

definition hex_digit :: "nat \<Rightarrow> char" where
  "hex_digit n = (if n < 10 then char_of (48 + n) else char_of (87 + n))"

fun hex_encode :: "string \<Rightarrow> string" where
  "hex_encode [] = []"
| "hex_encode (c # s) =
    hex_digit ((of_char c :: nat) div 16) # hex_digit ((of_char c :: nat) mod 16) # hex_encode s"

definition b64_char :: "string \<Rightarrow> nat \<Rightarrow> char" where
  "b64_char tail n =
    (if n < 26 then char_of (65 + n) else if n < 52 then char_of (71 + n)
     else if n < 62 then char_of (n - 4) else tail ! (n - 62))"

text \<open>Standard base64 with padding (\<^verbatim>\<open>encoding/json\<close> writes \<^verbatim>\<open>[]byte\<close> so).\<close>

fun b64_std :: "string \<Rightarrow> string" where
  "b64_std [] = []"
| "b64_std [a] =
    (let x = (of_char a :: nat) in
     [b64_char ''+/'' (x div 4), b64_char ''+/'' (x mod 4 * 16), CHR ''='', CHR ''=''])"
| "b64_std [a, b] =
    (let x = (of_char a :: nat); y = (of_char b :: nat) in
     [b64_char ''+/'' (x div 4), b64_char ''+/'' (x mod 4 * 16 + y div 16),
      b64_char ''+/'' (y mod 16 * 4), CHR ''=''])"
| "b64_std (a # b # c # s) =
    (let x = (of_char a :: nat); y = (of_char b :: nat); z = (of_char c :: nat) in
     b64_char ''+/'' (x div 4) # b64_char ''+/'' (x mod 4 * 16 + y div 16) #
     b64_char ''+/'' (y mod 16 * 4 + z div 64) # b64_char ''+/'' (z mod 64) # b64_std s)"

text \<open>\<^verbatim>\<open>base64.RawURLEncoding\<close>: the URL alphabet, no padding.\<close>

fun b64_raw_url :: "string \<Rightarrow> string" where
  "b64_raw_url [] = []"
| "b64_raw_url [a] =
    (let x = (of_char a :: nat) in
     [b64_char ''-_'' (x div 4), b64_char ''-_'' (x mod 4 * 16)])"
| "b64_raw_url [a, b] =
    (let x = (of_char a :: nat); y = (of_char b :: nat) in
     [b64_char ''-_'' (x div 4), b64_char ''-_'' (x mod 4 * 16 + y div 16),
      b64_char ''-_'' (y mod 16 * 4)])"
| "b64_raw_url (a # b # c # s) =
    (let x = (of_char a :: nat); y = (of_char b :: nat); z = (of_char c :: nat) in
     b64_char ''-_'' (x div 4) # b64_char ''-_'' (x mod 4 * 16 + y div 16) #
     b64_char ''-_'' (y mod 16 * 4 + z div 64) # b64_char ''-_'' (z mod 64) # b64_raw_url s)"

section \<open>Decimal numbers\<close>

fun decimal :: "nat \<Rightarrow> string" where
  "decimal n = (if n < 10 then [char_of (48 + n)] else decimal (n div 10) @ [char_of (48 + n mod 10)])"

declare decimal.simps [simp del]

definition digit_val :: "char \<Rightarrow> nat" where
  "digit_val c = (of_char c :: nat) - 48"

definition decimal_val :: "string \<Rightarrow> nat" where
  "decimal_val s = foldl (\<lambda>n c. 10 * n + digit_val c) 0 s"

section \<open>UTF-8\<close>

text \<open>The first rune of a byte string: its code point and width, \<open>None\<close> where Go's
  decoder reports an encoding error (it then consumes one byte).\<close>

definition cont :: "char \<Rightarrow> bool" where
  "cont = in_range 0x80 0xBF"

definition low6 :: "char \<Rightarrow> nat" where
  "low6 c = (of_char c :: nat) mod 64"

fun utf8_rune :: "string \<Rightarrow> (nat \<times> nat) option" where
  "utf8_rune [] = None"
| "utf8_rune (c # s) =
    (let n = (of_char c :: nat) in
     if n < 0x80 then Some (n, 1)
     else if 0xC2 \<le> n \<and> n \<le> 0xDF then
       (case s of a # _ \<Rightarrow> (if cont a then Some (n mod 32 * 64 + low6 a, 2) else None) | _ \<Rightarrow> None)
     else if 0xE0 \<le> n \<and> n \<le> 0xEF then
       (case s of a # b # _ \<Rightarrow>
          (if cont b \<and> (if n = 0xE0 then in_range 0xA0 0xBF a
                      else if n = 0xED then in_range 0x80 0x9F a else cont a)
           then Some (n mod 16 * 4096 + low6 a * 64 + low6 b, 3) else None)
        | _ \<Rightarrow> None)
     else if 0xF0 \<le> n \<and> n \<le> 0xF4 then
       (case s of a # b # d # _ \<Rightarrow>
          (if cont b \<and> cont d \<and> (if n = 0xF0 then in_range 0x90 0xBF a
                      else if n = 0xF4 then in_range 0x80 0x8F a else cont a)
           then Some (n mod 8 * 262144 + low6 a * 4096 + low6 b * 64 + low6 d, 4) else None)
        | _ \<Rightarrow> None)
     else None)"

definition utf8_encode :: "nat \<Rightarrow> string" where
  "utf8_encode n =
    (if n < 0x80 then [byte n]
     else if n < 0x800 then [byte (0xC0 + n div 64), byte (0x80 + n mod 64)]
     else if n < 0x10000 then
       [byte (0xE0 + n div 4096), byte (0x80 + n div 64 mod 64), byte (0x80 + n mod 64)]
     else [byte (0xF0 + n div 262144), byte (0x80 + n div 4096 mod 64),
           byte (0x80 + n div 64 mod 64), byte (0x80 + n mod 64)])"

fun utf8_valid_fuel :: "nat \<Rightarrow> string \<Rightarrow> bool" where
  "utf8_valid_fuel 0 s = (s = [])"
| "utf8_valid_fuel (Suc n) s =
    (s = [] \<or> (case utf8_rune s of None \<Rightarrow> False | Some (_, w) \<Rightarrow> utf8_valid_fuel n (drop w s)))"

definition utf8_valid :: "string \<Rightarrow> bool" where
  "utf8_valid s = utf8_valid_fuel (length s) s"

section \<open>Slash paths\<close>

text \<open>\<^verbatim>\<open>filepath.Clean\<close> on Unix: resolve \<^verbatim>\<open>.\<close> and \<^verbatim>\<open>..\<close> lexically, one slash between
  elements.  The accumulator is the output so far, reversed.\<close>

fun clean_elems :: "bool \<Rightarrow> string list \<Rightarrow> string list \<Rightarrow> string list" where
  "clean_elems rooted out [] = rev out"
| "clean_elems rooted out (e # es) =
    (if e = '''' \<or> e = ''.'' then clean_elems rooted out es
     else if e = ''..'' then
       (case out of
          [] \<Rightarrow> clean_elems rooted (if rooted then [] else [''..'']) es
        | o1 # os \<Rightarrow> (if o1 = ''..'' then clean_elems rooted (''..'' # out) es
                    else clean_elems rooted os es))
     else clean_elems rooted (e # out) es)"

definition is_abs :: "string \<Rightarrow> bool" where
  "is_abs p = prefix ''/'' p"

definition clean_path :: "string \<Rightarrow> string" where
  "clean_path p =
    (let es = clean_elems (is_abs p) [] (split_on CHR ''/'' p)
     in if is_abs p then CHR ''/'' # join_with CHR ''/'' es
        else if es = [] then ''.'' else join_with CHR ''/'' es)"

definition path_join :: "string list \<Rightarrow> string" where
  "path_join es =
    (let ne = filter (\<lambda>e. e \<noteq> []) es
     in if ne = [] then [] else clean_path (join_with CHR ''/'' ne))"

definition strip_slashes :: "string \<Rightarrow> string" where
  "strip_slashes p = rev (dropWhile (\<lambda>c. c = CHR ''/'') (rev p))"

definition path_base :: "string \<Rightarrow> string" where
  "path_base p =
    (if p = [] then ''.''
     else let q = rev (takeWhile (\<lambda>c. c \<noteq> CHR ''/'') (rev (strip_slashes p)))
          in if q = [] then ''/'' else q)"

definition path_dir :: "string \<Rightarrow> string" where
  "path_dir p = clean_path (rev (dropWhile (\<lambda>c. c \<noteq> CHR ''/'') (rev p)))"

text \<open>\<^verbatim>\<open>fs.ValidPath\<close>.\<close>

definition fs_valid_path :: "string \<Rightarrow> bool" where
  "fs_valid_path p =
    (utf8_valid p \<and>
     (p = ''.'' \<or>
      list_all (\<lambda>e. e \<noteq> '''' \<and> e \<noteq> ''.'' \<and> e \<noteq> ''..'') (split_on CHR ''/'' p)))"

text \<open>\<^verbatim>\<open>filepath.Rel(base, target)\<close> for two cleaned absolute paths.\<close>

fun rel_elems :: "string list \<Rightarrow> string list \<Rightarrow> string list" where
  "rel_elems (a # as) (b # bs) =
    (if a = b then rel_elems as bs else map (\<lambda>_. ''..'') (a # as) @ b # bs)"
| "rel_elems as bs = map (\<lambda>_. ''..'') as @ bs"

definition path_elems :: "string \<Rightarrow> string list" where
  "path_elems p = clean_elems (is_abs p) [] (split_on CHR ''/'' p)"

definition path_rel :: "string \<Rightarrow> string \<Rightarrow> string option" where
  "path_rel base target =
    (if is_abs base \<noteq> is_abs target then None
     else let r = rel_elems (path_elems base) (path_elems target)
          in if \<not> is_abs base \<and> prefix [''..''] (path_elems base) \<and>
               \<not> prefix [''..''] (path_elems target) then None
             else Some (if r = [] then ''.'' else join_with CHR ''/'' r))"

section \<open>Slices\<close>

text \<open>\<^verbatim>\<open>slices.Compact\<close> drops every element equal to its predecessor.\<close>

fun compact :: "'a list \<Rightarrow> 'a list" where
  "compact [] = []"
| "compact [x] = [x]"
| "compact (x # y # xs) = (if x = y then compact (y # xs) else x # compact (y # xs))"

lemma set_compact [simp]: "set (compact xs) = set xs"
  by (induction xs rule: compact.induct) auto

lemma compact_ne [simp]: "compact xs = [] \<longleftrightarrow> xs = []"
  by (induction xs rule: compact.induct) auto

lemma hd_compact: "xs \<noteq> [] \<Longrightarrow> hd (compact xs) = hd xs"
  by (induction xs rule: compact.induct) auto

lemma sorted_compact: "sorted (xs :: 'a::linorder list) \<Longrightarrow> sorted (compact xs)"
  by (induction xs rule: compact.induct) auto

lemma distinct_compact: "sorted (xs :: 'a::linorder list) \<Longrightarrow> distinct (compact xs)"
  by (induction xs rule: compact.induct) auto

lemma compact_distinct_id: "distinct xs \<Longrightarrow> compact xs = xs"
  by (induction xs rule: compact.induct) auto

lemma compact_sort:
  "compact (sort (xs :: 'a::linorder list)) = sorted_list_of_set (set xs)"
proof -
  have "sorted (compact (sort xs))" "distinct (compact (sort xs))"
    by (simp_all add: sorted_compact distinct_compact)
  moreover have "set (compact (sort xs)) = set xs" by simp
  ultimately show ?thesis
    by (metis sorted_list_of_set_sort_remdups sorted_sort_id distinct_remdups_id)
qed

section \<open>Facts about substrings\<close>

lemma contains_any_iff: "contains_any s cs \<longleftrightarrow> (\<exists>c\<in>set s. c \<in> set cs)"
  by (simp add: contains_any_def list_ex_iff)

lemma trim_suffix_append [simp]: "trim_suffix (s @ t) t = s"
  by (simp add: trim_suffix_def suffix_def)

lemma split_on_ne [simp]: "split_on d s \<noteq> []"
  by (induction s) (auto split: list.splits)

lemma split_on_nosep: "d \<notin> set s \<Longrightarrow> split_on d s = [s]"
  by (induction s) auto

lemma split_on_append:
  "d \<notin> set t \<Longrightarrow> split_on d (s @ d # t) = split_on d s @ [t]"
proof (induction s)
  case Nil
  then show ?case by (simp add: split_on_nosep)
next
  case (Cons c s)
  then show ?case by (cases "split_on d s") auto
qed

lemma join_split [simp]: "join_with d (split_on d s) = s"
proof (induction s)
  case Nil
  show ?case by simp
next
  case (Cons c s)
  then show ?case
    by (cases "split_on d s"; cases "tl (split_on d s)") (auto split: list.splits)
qed

lemma split_on_no_sep_mem: "w \<in> set (split_on d s) \<Longrightarrow> d \<notin> set w"
  by (induction s arbitrary: w) (auto split: list.splits if_splits)

lemma join_with_append:
  "ws \<noteq> [] \<Longrightarrow> join_with d (ws @ [w]) = join_with d ws @ d # w"
  by (induction ws rule: join_with.induct) auto

lemma split_join:
  assumes "ws \<noteq> []" "\<forall>w\<in>set ws. d \<notin> set w"
  shows "split_on d (join_with d ws) = ws"
  using assms
proof (induction ws rule: rev_induct)
  case Nil
  then show ?case by simp
next
  case (snoc w ws)
  show ?case
  proof (cases "ws = []")
    case True
    with snoc show ?thesis by (simp add: split_on_nosep)
  next
    case False
    with snoc show ?thesis by (simp add: join_with_append split_on_append)
  qed
qed

section \<open>Evaluating concrete instances\<close>

lemma trim_runes_numeral:
  "trim_runes runes (numeral k) s =
    (case leading runes s of None \<Rightarrow> s
     | Some r \<Rightarrow> trim_runes runes (pred_numeral k) (drop (length r) s))"
  by (simp add: numeral_eq_Suc)

lemmas go_strings_eval [eval] =
  trim_runes_numeral byte_def nl_char_def cr_char_def nul_char_def contains_any_def trim_suffix_def trim_prefix_def
  contains_def space_runes_def leading_def trim_space_def lower_char_def in_range_def is_digit_def
  is_lower_def is_upper_def is_lower_hex_def hex_digit_def b64_char_def digit_val_def decimal_val_def
  is_abs_def clean_path_def path_join_def strip_slashes_def path_base_def path_dir_def Let_def suffix_def
  char_of_def bit_Suc_0_iff

end
