(* ===== verification/Go_Json.thy ===== *)
theory Go_Json
  imports Go_Strings
begin

text \<open>
  What the source uses of Go's \<^verbatim>\<open>encoding/json\<close>: a byte-exact syntax tree, its parser
  (\<^verbatim>\<open>json.Valid\<close>, \<^verbatim>\<open>json.Unmarshal\<close>), its compact text (\<^verbatim>\<open>json.Compact\<close>),
  the encoder's string quoting and the lookup of a struct field by its name.

  The tree keeps the literal text of strings and numbers, so \<open>json_text\<close> of a parsed
  document is exactly what \<^verbatim>\<open>json.Compact\<close> leaves of it.  The parser takes a fuel
  argument; \<open>parse_json\<close> gives it twice the document's length plus one, and every nested
  call is on a shorter rest.  The nesting limit (10000) is Go's.
\<close>

datatype json =
    JNull
  | JBool bool
  | JNum string
  | JStr string
  | JArr "json list"
  | JObj "(string \<times> json) list"

section \<open>Scanning\<close>

definition json_ws :: "char \<Rightarrow> bool" where
  "json_ws c = (c = CHR 0x20 \<or> c = CHR 0x09 \<or> c = CHR 0x0A \<or> c = CHR 0x0D)"

definition skip_ws :: "string \<Rightarrow> string" where
  "skip_ws s = dropWhile json_ws s"

definition is_hex :: "char \<Rightarrow> bool" where
  "is_hex c = (is_digit c \<or> in_range 97 102 c \<or> in_range 65 70 c)"

text \<open>The literal text of a string up to its closing quote, and what follows.\<close>

fun scan_string :: "string \<Rightarrow> (string \<times> string) option" where
  "scan_string [] = None"
| "scan_string (c # s) =
    (if c = CHR 0x22 then Some ([], s)
     else if (of_char c :: nat) < 32 then None
     else if c = CHR 0x5C then
       (case s of
          [] \<Rightarrow> None
        | e # s1 \<Rightarrow>
            (if e \<in> set [CHR 0x22, CHR 0x5C, CHR ''/'', CHR ''b'', CHR ''f'', CHR ''n'', CHR ''r'', CHR ''t'']
             then map_option (\<lambda>(l, r). (c # e # l, r)) (scan_string s1)
             else if e = CHR ''u'' then
               (case s1 of
                  h1 # h2 # h3 # h4 # s2 \<Rightarrow>
                    (if is_hex h1 \<and> is_hex h2 \<and> is_hex h3 \<and> is_hex h4
                     then map_option (\<lambda>(l, r). (c # e # h1 # h2 # h3 # h4 # l, r)) (scan_string s2)
                     else None)
                | _ \<Rightarrow> None)
             else None))
     else map_option (\<lambda>(l, r). (c # l, r)) (scan_string s))"

definition digits1 :: "string \<Rightarrow> (string \<times> string) option" where
  "digits1 s = (let d = takeWhile is_digit s in if d = [] then None else Some (d, drop (length d) s))"

definition scan_int :: "string \<Rightarrow> (string \<times> string) option" where
  "scan_int s =
    (case s of
       c # r \<Rightarrow> (if c = CHR ''0'' then Some ([c], r) else digits1 s)
     | [] \<Rightarrow> None)"

definition scan_frac :: "string \<Rightarrow> (string \<times> string) option" where
  "scan_frac s =
    (case s of
       c # r \<Rightarrow> (if c = CHR ''.'' then map_option (\<lambda>(d, t). (c # d, t)) (digits1 r) else Some ([], s))
     | [] \<Rightarrow> Some ([], []))"

definition scan_exp :: "string \<Rightarrow> (string \<times> string) option" where
  "scan_exp s =
    (case s of
       c # r \<Rightarrow>
         (if c = CHR ''e'' \<or> c = CHR ''E'' then
            (case r of
               g # r1 \<Rightarrow> (if g = CHR ''+'' \<or> g = CHR ''-''
                         then map_option (\<lambda>(d, t). (c # g # d, t)) (digits1 r1)
                         else map_option (\<lambda>(d, t). (c # d, t)) (digits1 r))
             | [] \<Rightarrow> None)
          else Some ([], s))
     | [] \<Rightarrow> Some ([], []))"

definition scan_number :: "string \<Rightarrow> (string \<times> string) option" where
  "scan_number s =
    (let (sg, s0) = (case s of c # r \<Rightarrow> (if c = CHR ''-'' then ([c], r) else ([], s)) | [] \<Rightarrow> ([], []))
     in case scan_int s0 of
          None \<Rightarrow> None
        | Some (i, s1) \<Rightarrow>
            (case scan_frac s1 of
               None \<Rightarrow> None
             | Some (f, s2) \<Rightarrow>
                 map_option (\<lambda>(e, t). (sg @ i @ f @ e, t)) (scan_exp s2)))"

section \<open>Parsing\<close>

definition max_depth :: nat where
  "max_depth = 10000"

fun parse_val :: "nat \<Rightarrow> nat \<Rightarrow> string \<Rightarrow> (json \<times> string) option"
and parse_elems :: "nat \<Rightarrow> nat \<Rightarrow> string \<Rightarrow> (json list \<times> string) option"
and parse_members :: "nat \<Rightarrow> nat \<Rightarrow> string \<Rightarrow> ((string \<times> json) list \<times> string) option" where
  "parse_val 0 d s = None"
| "parse_val (Suc n) d s =
    (case skip_ws s of
       [] \<Rightarrow> None
     | c # r \<Rightarrow>
         (if c = CHR ''n'' then (if prefix ''ull'' r then Some (JNull, drop 3 r) else None)
          else if c = CHR ''t'' then (if prefix ''rue'' r then Some (JBool True, drop 3 r) else None)
          else if c = CHR ''f'' then (if prefix ''alse'' r then Some (JBool False, drop 4 r) else None)
          else if c = CHR 0x22 then map_option (\<lambda>(l, t). (JStr l, t)) (scan_string r)
          else if c = CHR ''['' then
            (if d = 0 then None
             else (case skip_ws r of
                     b # t \<Rightarrow> (if b = CHR '']'' then Some (JArr [], t)
                              else map_option (\<lambda>(vs, u). (JArr vs, u)) (parse_elems n (d - 1) (b # t)))
                   | [] \<Rightarrow> None))
          else if c = CHR ''{'' then
            (if d = 0 then None
             else (case skip_ws r of
                     b # t \<Rightarrow> (if b = CHR ''}'' then Some (JObj [], t)
                              else map_option (\<lambda>(ms, u). (JObj ms, u)) (parse_members n (d - 1) (b # t)))
                   | [] \<Rightarrow> None))
          else map_option (\<lambda>(l, t). (JNum l, t)) (scan_number (c # r))))"
| "parse_elems 0 d s = None"
| "parse_elems (Suc n) d s =
    (case parse_val n d s of
       None \<Rightarrow> None
     | Some (v, s1) \<Rightarrow>
         (case skip_ws s1 of
            [] \<Rightarrow> None
          | c # r \<Rightarrow>
              (if c = CHR '']'' then Some ([v], r)
               else if c = CHR '','' then map_option (\<lambda>(vs, t). (v # vs, t)) (parse_elems n d r)
               else None)))"
| "parse_members 0 d s = None"
| "parse_members (Suc n) d s =
    (case skip_ws s of
       [] \<Rightarrow> None
     | q # s0 \<Rightarrow>
         (if q \<noteq> CHR 0x22 then None
          else (case scan_string s0 of
                  None \<Rightarrow> None
                | Some (k, s1) \<Rightarrow>
                    (case skip_ws s1 of
                       [] \<Rightarrow> None
                     | c # s2 \<Rightarrow>
                         (if c \<noteq> CHR '':'' then None
                          else (case parse_val n d s2 of
                                  None \<Rightarrow> None
                                | Some (v, s3) \<Rightarrow>
                                    (case skip_ws s3 of
                                       [] \<Rightarrow> None
                                     | e # r \<Rightarrow>
                                         (if e = CHR ''}'' then Some ([(k, v)], r)
                                          else if e = CHR '','' then
                                            map_option (\<lambda>(ms, t). ((k, v) # ms, t)) (parse_members n d r)
                                          else None))))))))"

definition parse_fuel :: "string \<Rightarrow> nat" where
  "parse_fuel s = 2 * length s + 1"

definition parse_json :: "string \<Rightarrow> json option" where
  "parse_json s =
    (case parse_val (parse_fuel s) max_depth s of
       None \<Rightarrow> None
     | Some (v, r) \<Rightarrow> (if skip_ws r = [] then Some v else None))"

text \<open>\<^verbatim>\<open>Decoder.Decode\<close>: the first value, whatever follows it.\<close>

definition decode_first :: "string \<Rightarrow> json option" where
  "decode_first s = map_option fst (parse_val (parse_fuel s) max_depth s)"

definition json_valid :: "string \<Rightarrow> bool" where
  "json_valid s = (parse_json s \<noteq> None)"

section \<open>Compact text\<close>

fun json_text :: "json \<Rightarrow> string" where
  "json_text JNull = ''null''"
| "json_text (JBool b) = (if b then ''true'' else ''false'')"
| "json_text (JNum l) = l"
| "json_text (JStr l) = CHR 0x22 # l @ [CHR 0x22]"
| "json_text (JArr vs) = CHR ''['' # join_with CHR '','' (map json_text vs) @ '']''"
| "json_text (JObj ms) =
    CHR ''{'' # join_with CHR '','' (map (\<lambda>(k, v). CHR 0x22 # k @ CHR 0x22 # CHR '':'' # json_text v) ms) @ ''}''"

text \<open>\<^verbatim>\<open>compactJSON\<close> relies on \<^verbatim>\<open>json.Compact\<close> failing on invalid input.\<close>

definition json_compact :: "string \<Rightarrow> string option" where
  "json_compact s = map_option json_text (parse_json s)"

section \<open>Strings\<close>

definition u_escape :: "nat \<Rightarrow> string" where
  "u_escape n = [CHR 0x5C, CHR ''u'', hex_digit (n div 4096), hex_digit (n div 256 mod 16),
                 hex_digit (n div 16 mod 16), hex_digit (n mod 16)]"

text \<open>The encoder's quoting of a string, with its default HTML escaping.  A byte that is no
  valid UTF-8 becomes the replacement character.\<close>

definition quote_ascii :: "nat \<Rightarrow> string" where
  "quote_ascii n =
    (if n = 0x22 \<or> n = 0x5C then [CHR 0x5C, char_of n]
     else if n = 8 then [CHR 0x5C, CHR ''b''] else if n = 12 then [CHR 0x5C, CHR ''f'']
     else if n = 10 then [CHR 0x5C, CHR ''n''] else if n = 13 then [CHR 0x5C, CHR ''r'']
     else if n = 9 then [CHR 0x5C, CHR ''t'']
     else if n < 32 \<or> n = 0x3C \<or> n = 0x3E \<or> n = 0x26 then u_escape n
     else [char_of n])"

fun quote_fuel :: "nat \<Rightarrow> string \<Rightarrow> string" where
  "quote_fuel 0 s = []"
| "quote_fuel (Suc n) s =
    (case s of
       [] \<Rightarrow> []
     | c # r \<Rightarrow>
         (if (of_char c :: nat) < 128 then quote_ascii (of_char c) @ quote_fuel n r
          else (case utf8_rune s of
                  None \<Rightarrow> u_escape 0xFFFD @ quote_fuel n r
                | Some (u, w) \<Rightarrow>
                    (if u = 0x2028 \<or> u = 0x2029 then u_escape u else take w s) @ quote_fuel n (drop w s))))"

definition quote :: "string \<Rightarrow> string" where
  "quote s = quote_fuel (length s) s"

definition hex_val :: "char \<Rightarrow> nat" where
  "hex_val c = (if is_digit c then (of_char c :: nat) - 48
                else if in_range 97 102 c then (of_char c :: nat) - 87 else (of_char c :: nat) - 55)"

definition hex4 :: "string \<Rightarrow> nat" where
  "hex4 s = foldl (\<lambda>n c. 16 * n + hex_val c) 0 (take 4 s)"

definition unescape_char :: "char \<Rightarrow> char" where
  "unescape_char e =
    (if e = CHR ''b'' then byte 8 else if e = CHR ''f'' then byte 12
     else if e = CHR ''n'' then byte 10 else if e = CHR ''r'' then byte 13
     else if e = CHR ''t'' then byte 9 else e)"

definition rune_out :: "nat \<Rightarrow> string" where
  "rune_out u = (if 0xD800 \<le> u \<and> u \<le> 0xDFFF then utf8_encode 0xFFFD else utf8_encode u)"

text \<open>The value of a string literal: escapes decoded, surrogate pairs joined, a lone
  surrogate or an invalid byte replaced by U+FFFD.\<close>

fun unquote_fuel :: "nat \<Rightarrow> string \<Rightarrow> string" where
  "unquote_fuel 0 s = []"
| "unquote_fuel (Suc n) s =
    (case s of
       [] \<Rightarrow> []
     | c # r \<Rightarrow>
         (if c = CHR 0x5C then
            (case r of
               [] \<Rightarrow> []
             | e # r1 \<Rightarrow>
                 (if e = CHR ''u'' then
                    (let u = hex4 r1; r2 = drop 4 r1 in
                     if 0xD800 \<le> u \<and> u \<le> 0xDBFF \<and> prefix [CHR 0x5C, CHR ''u''] r2 \<and>
                        0xDC00 \<le> hex4 (drop 2 r2) \<and> hex4 (drop 2 r2) \<le> 0xDFFF
                     then utf8_encode (0x10000 + (u - 0xD800) * 1024 + (hex4 (drop 2 r2) - 0xDC00)) @
                          unquote_fuel n (drop 6 r2)
                     else rune_out u @ unquote_fuel n r2)
                  else unescape_char e # unquote_fuel n r1))
          else if (of_char c :: nat) < 128 then c # unquote_fuel n r
          else (case utf8_rune s of
                  None \<Rightarrow> utf8_encode 0xFFFD @ unquote_fuel n r
                | Some (u, w) \<Rightarrow> take w s @ unquote_fuel n (drop w s))))"

definition unquote :: "string \<Rightarrow> string" where
  "unquote s = unquote_fuel (length s) s"

section \<open>Encoding values\<close>

definition jstr :: "string \<Rightarrow> json" where
  "jstr s = JStr (quote s)"

definition jnat :: "nat \<Rightarrow> json" where
  "jnat n = JNum (decimal n)"

definition ju64 :: "u64 \<Rightarrow> json" where
  "ju64 n = jnat (unat n)"

definition jint :: "int \<Rightarrow> json" where
  "jint i = JNum (if i < 0 then CHR ''-'' # decimal (nat (- i)) else decimal (nat i))"

definition jbytes :: "string \<Rightarrow> json" where
  "jbytes s = JStr (b64_std s)"

definition jfield :: "string \<Rightarrow> json \<Rightarrow> (string \<times> json) list" where
  "jfield k v = [(k, v)]"

text \<open>Fields with \<^verbatim>\<open>omitempty\<close>.\<close>

definition jomit :: "bool \<Rightarrow> string \<Rightarrow> json \<Rightarrow> (string \<times> json) list" where
  "jomit omit k v = (if omit then [] else [(k, v)])"

definition jopt :: "('a \<Rightarrow> json) \<Rightarrow> 'a option \<Rightarrow> json" where
  "jopt f x = (case x of None \<Rightarrow> JNull | Some a \<Rightarrow> f a)"

text \<open>A Go map is written with its keys sorted.\<close>

definition jmap :: "('v \<Rightarrow> json) \<Rightarrow> 'v gomap \<Rightarrow> json" where
  "jmap f m = JObj (map (\<lambda>(k, v). (quote k, f v)) (sort_key fst m))"

text \<open>A \<^verbatim>\<open>json.RawMessage\<close> is embedded compacted and HTML-escaped; nil is \<^verbatim>\<open>null\<close>.
  \<open>None\<close> is the encoder's error on an invalid message.\<close>

fun html_escape :: "string \<Rightarrow> string" where
  "html_escape [] = []"
| "html_escape (c # s) =
    (if c = CHR ''<'' \<or> c = CHR ''>'' \<or> c = CHR ''&'' then u_escape (of_char c) @ html_escape s
     else if prefix [CHR 0xE2, CHR 0x80, CHR 0xA8] (c # s) then u_escape 0x2028 @ html_escape (drop 2 s)
     else if prefix [CHR 0xE2, CHR 0x80, CHR 0xA9] (c # s) then u_escape 0x2029 @ html_escape (drop 2 s)
     else c # html_escape s)"

fun escape_literals :: "json \<Rightarrow> json" where
  "escape_literals (JStr l) = JStr (html_escape l)"
| "escape_literals (JArr vs) = JArr (map escape_literals vs)"
| "escape_literals (JObj ms) = JObj (map (\<lambda>(k, v). (html_escape k, escape_literals v)) ms)"
| "escape_literals v = v"

definition marshal_raw :: "string \<Rightarrow> json option" where
  "marshal_raw raw = (if raw = [] then Some JNull else map_option escape_literals (parse_json raw))"

text \<open>\<^verbatim>\<open>sameJSON\<close> on raw messages: two failed encodings are both nil, hence equal.\<close>

definition same_raw :: "string \<Rightarrow> string \<Rightarrow> bool" where
  "same_raw a b = (map_option json_text (marshal_raw a) = map_option json_text (marshal_raw b))"

text \<open>\<^verbatim>\<open>canonicalJSON\<close>: decode into \<^verbatim>\<open>any\<close> with \<^verbatim>\<open>UseNumber\<close> and encode again; the
  last of several equal keys counts and keys are sorted.\<close>

fun last_wins :: "'v gomap \<Rightarrow> 'v gomap \<Rightarrow> 'v gomap" where
  "last_wins acc [] = acc"
| "last_wins acc ((k, v) # ms) = last_wins (AList.update k v acc) ms"

fun canonical_value :: "json \<Rightarrow> json" where
  "canonical_value (JStr l) = jstr (unquote l)"
| "canonical_value (JArr vs) = JArr (map canonical_value vs)"
| "canonical_value (JObj ms) =
    JObj (map (\<lambda>(k, v). (quote k, v))
      (sort_key fst (last_wins [] (map (\<lambda>(k, v). (unquote k, canonical_value v)) ms))))"
| "canonical_value v = v"

section \<open>Reading struct fields\<close>

text \<open>Go matches an object key to a field by its exact name, else ignoring case; it folds
  the Kelvin sign and the long s (U+017F) too.\<close>

fun fold_name :: "string \<Rightarrow> string" where
  "fold_name [] = []"
| "fold_name (c # s) =
    (if prefix [CHR 0xE2, CHR 0x84, CHR 0xAA] (c # s) then CHR ''k'' # fold_name (drop 2 s)
     else if prefix [CHR 0xC5, CHR 0xBF] (c # s) then CHR ''s'' # fold_name (drop 1 s)
     else lower_char c # fold_name s)"

text \<open>The values given for a field, in document order.  \<open>names\<close> are all field names of
  the struct: a key that is the exact name of another field belongs to that field.\<close>

definition field_values :: "string list \<Rightarrow> string \<Rightarrow> (string \<times> json) list \<Rightarrow> json list" where
  "field_values names name ms =
    map snd (filter (\<lambda>(k, v). let u = unquote k in
      u = name \<or> u \<notin> set names \<and> fold_name u = fold_name name) ms)"

text \<open>Decoders: the value so far, one more JSON value, the new value or a type error.\<close>

definition dec_string :: "string \<Rightarrow> json \<Rightarrow> string option" where
  "dec_string z v = (case v of JNull \<Rightarrow> Some z | JStr l \<Rightarrow> Some (unquote l) | _ \<Rightarrow> None)"

definition dec_bool :: "bool \<Rightarrow> json \<Rightarrow> bool option" where
  "dec_bool z v = (case v of JNull \<Rightarrow> Some z | JBool b \<Rightarrow> Some b | _ \<Rightarrow> None)"

definition dec_bool_ptr :: "bool option \<Rightarrow> json \<Rightarrow> bool option option" where
  "dec_bool_ptr z v = (case v of JNull \<Rightarrow> Some None | JBool b \<Rightarrow> Some (Some b) | _ \<Rightarrow> None)"

definition dec_u64 :: "u64 \<Rightarrow> json \<Rightarrow> u64 option" where
  "dec_u64 z v =
    (case v of
       JNull \<Rightarrow> Some z
     | JNum l \<Rightarrow> (if list_all is_digit l \<and> decimal_val l < 2 ^ 64
                 then Some (of_nat (decimal_val l)) else None)
     | _ \<Rightarrow> None)"

definition dec_int :: "int \<Rightarrow> json \<Rightarrow> int option" where
  "dec_int z v =
    (case v of
       JNull \<Rightarrow> Some z
     | JNum l \<Rightarrow>
         (let (neg, d) = (case l of c # r \<Rightarrow> (if c = CHR ''-'' then (True, r) else (False, l)) | [] \<Rightarrow> (False, []));
              i = (if neg then - int (decimal_val d) else int (decimal_val d))
          in if list_all is_digit d \<and> - (2 ^ 63) \<le> i \<and> i < 2 ^ 63 then Some i else None)
     | _ \<Rightarrow> None)"

definition dec_raw :: "string \<Rightarrow> json \<Rightarrow> string option" where
  "dec_raw z v = Some (json_text v)"

fun dec_fold :: "('a \<Rightarrow> json \<Rightarrow> 'a option) \<Rightarrow> 'a \<Rightarrow> json list \<Rightarrow> 'a option" where
  "dec_fold f z [] = Some z"
| "dec_fold f z (v # vs) = (case f z v of None \<Rightarrow> None | Some a \<Rightarrow> dec_fold f a vs)"

definition dec_field ::
  "('a \<Rightarrow> json \<Rightarrow> 'a option) \<Rightarrow> 'a \<Rightarrow> string list \<Rightarrow> string \<Rightarrow> (string \<times> json) list \<Rightarrow> 'a option" where
  "dec_field f z names name ms = dec_fold f z (field_values names name ms)"

text \<open>A struct: null leaves it unchanged, anything but an object is a type error.\<close>

definition dec_struct :: "'a \<Rightarrow> ((string \<times> json) list \<Rightarrow> 'a option) \<Rightarrow> json \<Rightarrow> 'a option" where
  "dec_struct z f v = (case v of JNull \<Rightarrow> Some z | JObj ms \<Rightarrow> f ms | _ \<Rightarrow> None)"

definition unmarshal :: "(json \<Rightarrow> 'a option) \<Rightarrow> string \<Rightarrow> 'a option" where
  "unmarshal dec raw = (case parse_json raw of None \<Rightarrow> None | Some v \<Rightarrow> dec v)"

end
