(* ===== verification/Identity.thy ===== *)
theory Identity
  imports Journal_State Go_Json
begin

text \<open>
  Identities and names: canonical UUIDs, fingerprints, opaque values, canonical paths and the
  task root of a storage (\<^verbatim>\<open>paths.go\<close>, helpers of \<^verbatim>\<open>store.go\<close>,
  \<^verbatim>\<open>grant.go\<close> and \<^verbatim>\<open>prepare.go\<close>).  The last section proves that a frozen task root
  can be checked without the labels it was made of.
\<close>

section \<open>Canonical values\<close>

definition nil_uuid :: string where
  "nil_uuid = replicate 16 nul_char"

definition canonicalUUID :: "env \<Rightarrow> string \<Rightarrow> bool" where
  "canonicalUUID e v =
    (case e_uuid_parse e v of
       None \<Rightarrow> False
     | Some raw \<Rightarrow> raw \<noteq> nil_uuid \<and> e_uuid_string e raw = v)"

text \<open>\<^verbatim>\<open>hex.DecodeString\<close> accepts both cases; re-encoding admits the lower case only.\<close>

definition fingerprint :: "string \<Rightarrow> bool" where
  "fingerprint v = (length v = 64 \<and> list_all is_lower_hex v)"

definition validOpaque :: "string \<Rightarrow> bool" where
  "validOpaque v =
    (v \<noteq> [] \<and> length v \<le> 8192 \<and> trim_space v = v \<and> \<not> contains_any v [nul_char, cr_char, nl_char])"

definition canonicalPath :: "string \<Rightarrow> bool" where
  "canonicalPath p =
    (is_abs p \<and> clean_path p = p \<and> \<not> contains_any p [nul_char, cr_char, nl_char])"

definition compactJSON :: "string \<Rightarrow> string" where
  "compactJSON raw = (case json_compact raw of None \<Rightarrow> [] | Some t \<Rightarrow> t)"

definition preparation_process_valid :: "env \<Rightarrow> preparation_process \<Rightarrow> bool" where
  "preparation_process_valid e p =
    (case cut ''://'' (pp_ContainerID p) of
       None \<Rightarrow> False
     | Some (runtime, i) \<Rightarrow>
         validOpaque (pp_PodName p) \<and> canonicalUUID e (pp_PodUID p) \<and> validOpaque runtime \<and> validOpaque i \<and>
         \<not> contains_any (pp_ContainerID p) [CHR '' '', CHR 0x09])"

section \<open>Task roots\<close>

definition word_char :: "char \<Rightarrow> bool" where
  "word_char c = (is_lower c \<or> is_digit c)"

text \<open>\<^verbatim>\<open>pathSeparators.ReplaceAllString(s, "-")\<close>: every run of other bytes is one dash.\<close>

function dash_runs :: "string \<Rightarrow> string" where
  "dash_runs [] = []"
| "dash_runs (c # s) =
    (if word_char c then c # dash_runs s else CHR ''-'' # dash_runs (dropWhile (\<lambda>x. \<not> word_char x) s))"
  by pat_completeness auto
termination
  by (relation "measure length") (auto simp: le_imp_less_Suc length_dropWhile_le)

definition trim_right_dashes :: "string \<Rightarrow> string" where
  "trim_right_dashes s = rev (dropWhile (\<lambda>c. c = CHR ''-'') (rev s))"

definition trim_dashes :: "string \<Rightarrow> string" where
  "trim_dashes s = trim_right_dashes (dropWhile (\<lambda>c. c = CHR ''-'') s)"

definition id_suffix :: "string \<Rightarrow> string" where
  "id_suffix i = drop (length i - 12) i"

definition readablePathSegment :: "string \<Rightarrow> string \<Rightarrow> string \<Rightarrow> string" where
  "readablePathSegment label fallback i =
    (let p0 = trim_dashes (dash_runs (to_lower (trim_space label)));
         p1 = (if p0 = [] then fallback else p0);
         suf = id_suffix i;
         limit = 24 - length suf - 1;
         p2 = (if length p1 > limit then trim_right_dashes (take limit p1) else p1)
     in p2 @ CHR ''-'' # suf)"

definition TaskRoot :: "env \<Rightarrow> string \<Rightarrow> string \<Rightarrow> string \<Rightarrow> string \<Rightarrow> string \<Rightarrow> err + string" where
  "TaskRoot e workspacesRoot workspaceID taskID workspaceSlug issueIdentifier =
    (if \<not> canonicalPath workspacesRoot \<or> \<not> canonicalUUID e workspaceID \<or> \<not> canonicalUUID e taskID
     then Inl (ErrText ''canonical workspace path and complete UUIDs required'')
     else Inr (path_join [workspacesRoot, readablePathSegment workspaceSlug ''workspace'' workspaceID,
                          readablePathSegment issueIdentifier ''task'' taskID]))"

definition ValidateTaskRoot :: "env \<Rightarrow> string \<Rightarrow> string \<Rightarrow> string \<Rightarrow> string \<Rightarrow> err + unit" where
  "ValidateTaskRoot e workspacesRoot root workspaceID taskID =
    (if \<not> canonicalPath root \<or> \<not> canonicalUUID e workspaceID \<or> \<not> canonicalUUID e taskID
     then Inl (ErrText ''invalid task root'')
     else let suf = CHR ''-'' # id_suffix taskID;
              workspaceSuffix = CHR ''-'' # id_suffix workspaceID;
              leaf = path_base root;
              parent = path_base (path_dir root)
          in if \<not> suffix suf leaf \<or> \<not> suffix workspaceSuffix parent
             then Inl (ErrText ''task root does not match task identity'')
             else (case TaskRoot e workspacesRoot workspaceID taskID
                          (trim_suffix parent workspaceSuffix) (trim_suffix leaf suf) of
                     Inl _ \<Rightarrow> Inl (ErrText ''task root is not a canonical native path'')
                   | Inr expected \<Rightarrow>
                       (if expected \<noteq> root then Inl (ErrText ''task root is not a canonical native path'')
                        else Inr ())))"

text \<open>
  What the \<^verbatim>\<open>google/uuid\<close> package documents: \<^verbatim>\<open>Parse\<close> returns 16 bytes and
  \<^verbatim>\<open>String\<close> writes them as lower-case hexadecimal in groups of 8, 4, 4, 4 and 12 digits.
\<close>

definition uuid_text :: "string \<Rightarrow> string" where
  "uuid_text raw =
    hex_encode (take 4 raw) @ CHR ''-'' # hex_encode (take 2 (drop 4 raw)) @ CHR ''-'' #
    hex_encode (take 2 (drop 6 raw)) @ CHR ''-'' # hex_encode (take 2 (drop 8 raw)) @ CHR ''-'' #
    hex_encode (drop 10 raw)"

definition uuid_laws :: "env \<Rightarrow> bool" where
  "uuid_laws e \<longleftrightarrow>
    (\<forall>v raw. e_uuid_parse e v = Some raw \<longrightarrow> length raw = 16) \<and>
    (\<forall>raw. length raw = 16 \<longrightarrow> e_uuid_string e raw = uuid_text raw)"

section \<open>Facts about path elements\<close>

definition good_elem :: "string \<Rightarrow> bool" where
  "good_elem w \<longleftrightarrow> w \<noteq> '''' \<and> w \<noteq> ''.'' \<and> w \<noteq> ''..'' \<and> CHR ''/'' \<notin> set w"

definition abs_path :: "string list \<Rightarrow> string" where
  "abs_path es = CHR ''/'' # join_with CHR ''/'' es"

lemma clean_elems_good:
  "\<forall>w\<in>set es. good_elem w \<Longrightarrow> clean_elems rooted out es = rev out @ es"
  by (induction es arbitrary: out) (auto simp: good_elem_def)

lemma clean_elems_keeps:
  "\<forall>w\<in>set out. good_elem w \<Longrightarrow> \<forall>w\<in>set es. CHR ''/'' \<notin> set w \<Longrightarrow>
   \<forall>w\<in>set (clean_elems True out es). good_elem w"
proof (induction es arbitrary: out)
  case Nil
  then show ?case by simp
next
  case (Cons a es)
  then have es: "\<forall>w\<in>set es. CHR ''/'' \<notin> set w" by simp
  consider "a = '''' \<or> a = ''.''" | "a = ''..''" | "good_elem a"
    using Cons.prems(2) unfolding good_elem_def by (metis list.set_intros(1))
  then show ?case
  proof cases
    case 1
    then show ?thesis using Cons.IH [OF Cons.prems(1) es] by auto
  next
    case 2
    show ?thesis
    proof (cases out)
      case Nil
      with 2 show ?thesis using Cons.IH [OF _ es, of "[]"] by simp
    next
      case (Cons o1 os)
      with Cons.prems(1) have "o1 \<noteq> ''..''" "\<forall>w\<in>set os. good_elem w"
        by (auto simp: good_elem_def)
      with 2 Cons show ?thesis using Cons.IH [OF _ es, of os] by simp
    qed
  next
    case 3
    then have "clean_elems True out (a # es) = clean_elems True (a # out) es"
      by (simp add: good_elem_def)
    then show ?thesis using Cons.IH [OF _ es, of "a # out"] Cons.prems(1) 3 by simp
  qed
qed

lemma split_abs_path:
  assumes "\<forall>w\<in>set es. good_elem w"
  shows "split_on CHR ''/'' (abs_path es) = '''' # (if es = [] then [''''] else es)"
proof (cases "es = []")
  case True
  then show ?thesis by (simp add: abs_path_def)
next
  case False
  have "\<forall>w\<in>set es. CHR ''/'' \<notin> set w"
    using assms by (auto simp: good_elem_def)
  with False show ?thesis
    by (simp add: abs_path_def split_join)
qed

lemma clean_abs_path:
  "\<forall>w\<in>set es. good_elem w \<Longrightarrow> clean_path (abs_path es) = abs_path es"
  unfolding clean_path_def split_abs_path
  by (auto simp: abs_path_def is_abs_def clean_elems_good)

lemma canonicalPath_elems:
  assumes "canonicalPath p"
  obtains es where "p = abs_path es" "\<forall>w\<in>set es. good_elem w"
proof -
  let ?es = "clean_elems True [] (split_on CHR ''/'' p)"
  from assms have "is_abs p" "clean_path p = p"
    by (simp_all add: canonicalPath_def)
  then have "p = abs_path ?es"
    by (simp add: clean_path_def abs_path_def)
  moreover have "\<forall>w\<in>set ?es. good_elem w"
    by (rule clean_elems_keeps) (auto dest: split_on_no_sep_mem)
  ultimately show thesis by (rule that)
qed

lemma join_with_two:
  "ws \<noteq> [] \<Longrightarrow> join_with d (ws @ [v, w]) = join_with d ws @ d # v @ d # w"
  using join_with_append [of "ws @ [v]" d w] by (simp add: join_with_append)

lemma split_two:
  assumes "CHR ''/'' \<notin> set v" "CHR ''/'' \<notin> set w"
  shows "split_on CHR ''/'' (s @ CHR ''/'' # v @ CHR ''/'' # w) = split_on CHR ''/'' s @ [v, w]"
  using split_on_append [of "CHR ''/''" w "s @ CHR ''/'' # v"] assms
  by (simp add: split_on_append)

lemma clean_elems_append:
  "\<forall>w\<in>set es. good_elem w \<Longrightarrow>
   clean_elems True out (xs @ es) = clean_elems True out xs @ es"
  by (induction xs arbitrary: out) (auto simp: clean_elems_good split: list.splits)

lemma path_join_abs:
  assumes "\<forall>w\<in>set es. good_elem w" "good_elem v" "good_elem w"
  shows "path_join [abs_path es, v, w] = abs_path (es @ [v, w])"
proof -
  have ns: "CHR ''/'' \<notin> set v" "CHR ''/'' \<notin> set w" "v \<noteq> []" "w \<noteq> []"
    using assms by (auto simp: good_elem_def)
  have "path_join [abs_path es, v, w] = clean_path (abs_path es @ CHR ''/'' # v @ CHR ''/'' # w)"
    using ns by (simp add: path_join_def abs_path_def)
  also have "\<dots> = abs_path (clean_elems True [] (split_on CHR ''/'' (abs_path es) @ [v, w]))"
    using ns split_two [OF ns(1,2), of "abs_path es"]
    by (simp add: clean_path_def del: split_on.simps) (simp add: is_abs_def abs_path_def del: split_on.simps)
  also have "\<dots> = abs_path (es @ [v, w])"
    using assms by (simp add: split_abs_path clean_elems_append clean_elems_good)
  finally show ?thesis .
qed

lemma strip_slashes_abs:
  "good_elem w \<Longrightarrow> strip_slashes (s @ w) = s @ w"
  unfolding good_elem_def strip_slashes_def by (cases w rule: rev_cases) auto

lemma abs_path_snoc: "abs_path (es @ [w]) = (if es = [] then [] else abs_path es) @ CHR ''/'' # w"
  by (simp add: abs_path_def join_with_append)

lemma takeWhile_rev_elem:
  "CHR ''/'' \<notin> set w \<Longrightarrow> takeWhile (\<lambda>c. c \<noteq> CHR ''/'') (rev w @ CHR ''/'' # t) = rev w"
  by (induction w arbitrary: t rule: rev_induct) (auto simp: takeWhile_append)

lemma dropWhile_rev_elem:
  "CHR ''/'' \<notin> set w \<Longrightarrow> dropWhile (\<lambda>c. c \<noteq> CHR ''/'') (rev w @ CHR ''/'' # t) = CHR ''/'' # t"
  by (induction w arbitrary: t rule: rev_induct) (auto simp: dropWhile_append)

lemma path_base_abs:
  assumes "good_elem w"
  shows "path_base (abs_path (es @ [w])) = w"
proof -
  let ?s = "(if es = [] then [] else abs_path es)"
  have "strip_slashes (abs_path (es @ [w])) = ?s @ CHR ''/'' # w"
    using strip_slashes_abs [OF assms, of "?s @ ''/''"] by (simp add: abs_path_snoc)
  moreover have "CHR ''/'' \<notin> set w" "w \<noteq> []"
    using assms by (auto simp: good_elem_def)
  ultimately show ?thesis
    by (simp add: path_base_def takeWhile_rev_elem) (simp add: abs_path_def)
qed

lemma clean_trailing_slash:
  assumes "\<forall>w\<in>set es. good_elem w" "es \<noteq> []"
  shows "clean_path (abs_path es @ ''/'') = abs_path es"
proof -
  have "split_on CHR ''/'' (abs_path es @ CHR ''/'' # []) = split_on CHR ''/'' (abs_path es) @ [[]]"
    by (rule split_on_append) simp
  moreover have "clean_elems True [] ((xs :: string list) @ [[]]) = clean_elems True [] xs" for xs
  proof -
    have "clean_elems True out (xs @ [[]]) = clean_elems True out xs" for out
      by (induction xs arbitrary: out) (auto split: list.splits)
    then show ?thesis .
  qed
  ultimately have "clean_elems True [] (split_on CHR ''/'' (abs_path es @ ''/'')) = es"
    using assms by (simp add: split_abs_path clean_elems_good del: split_on.simps)
  then show ?thesis
    by (simp add: clean_path_def is_abs_def) (simp add: abs_path_def)
qed

lemma path_dir_abs:
  assumes "\<forall>w\<in>set es. good_elem w" "es \<noteq> []" "good_elem w"
  shows "path_dir (abs_path (es @ [w])) = abs_path es"
proof -
  have "CHR ''/'' \<notin> set w" using assms by (simp add: good_elem_def)
  then have "rev (dropWhile (\<lambda>c. c \<noteq> CHR ''/'') (rev (abs_path (es @ [w])))) = abs_path es @ ''/''"
    using assms(2) by (simp add: abs_path_snoc dropWhile_rev_elem)
  then show ?thesis
    unfolding path_dir_def using clean_trailing_slash [OF assms(1,2)] by simp
qed

section \<open>Facts about readable segments\<close>

text \<open>A label that the normalisation leaves as it is.\<close>

fun no_double_dash :: "string \<Rightarrow> bool" where
  "no_double_dash (a # b # s) = (\<not> (a = CHR ''-'' \<and> b = CHR ''-'') \<and> no_double_dash (b # s))"
| "no_double_dash s = True"

definition label_char :: "char \<Rightarrow> bool" where
  "label_char c = (word_char c \<or> c = CHR ''-'')"

definition normal_label :: "string \<Rightarrow> bool" where
  "normal_label p \<longleftrightarrow>
    p \<noteq> [] \<and> list_all label_char p \<and> no_double_dash p \<and> hd p \<noteq> CHR ''-'' \<and> last p \<noteq> CHR ''-''"

lemma label_char_ascii: "label_char c \<Longrightarrow> (of_char c :: nat) \<le> 122 \<and> 45 \<le> (of_char c :: nat)"
  by (auto simp: label_char_def word_char_def is_lower_def is_digit_def in_range_def)

lemma not_word_dash [simp]: "\<not> word_char CHR ''-''"
  by (simp add: word_char_def is_lower_def is_digit_def in_range_def)

lemma lower_label_char: "label_char c \<Longrightarrow> lower_char c = c"
  by (auto simp: label_char_def word_char_def is_lower_def is_digit_def in_range_def lower_char_def)

lemma not_label_high: "\<not> label_char CHR 0xE2" "\<not> label_char CHR 0xC4"
  using label_char_ascii by fastforce+

lemma to_lower_label: "list_all label_char s \<Longrightarrow> to_lower s = s"
  by (induction s) (auto simp: lower_label_char not_label_high)

lemma space_runes_head:
  "r \<in> set space_runes \<Longrightarrow> label_char c \<Longrightarrow> \<not> prefix r (c # s) \<and> \<not> prefix (rev r) (c # s)"
  using label_char_ascii [of c] by (auto simp: space_runes_def)

lemma trim_runes_label:
  "list_all label_char s \<Longrightarrow> trim_runes space_runes n s = s \<and> trim_runes (map rev space_runes) n s = s"
proof (cases n)
  case 0
  then show ?thesis by simp
next
  case (Suc k)
  assume l: "list_all label_char s"
  have "leading space_runes s = None \<and> leading (map rev space_runes) s = None"
  proof (cases s)
    case Nil
    have "[] \<notin> set space_runes" by (simp add: space_runes_def)
    with Nil show ?thesis by (auto simp: leading_def find_None_iff)
  next
    case (Cons c t)
    with l space_runes_head show ?thesis by (auto simp: leading_def find_None_iff)
  qed
  with Suc show ?thesis by simp
qed

lemma trim_space_label: "list_all label_char s \<Longrightarrow> trim_space s = s"
  by (simp add: trim_space_def trim_runes_label Let_def list_all_rev)

lemma dash_runs_label: "list_all label_char s \<Longrightarrow> no_double_dash s \<Longrightarrow> dash_runs s = s"
proof (induction s rule: no_double_dash.induct)
  case (1 a b s)
  then show ?case by (auto simp: label_char_def)
qed (auto simp: label_char_def)

lemma dash_runs_chars: "list_all label_char (dash_runs s)"
  by (induction s rule: dash_runs.induct) (auto simp: label_char_def)

lemma dash_runs_hd:
  "dash_runs s = c # t \<Longrightarrow> word_char c \<or> s \<noteq> [] \<and> \<not> word_char (hd s)"
  by (cases s) (auto split: if_splits)

lemma dash_runs_no_double: "no_double_dash (dash_runs s)"
proof (induction s rule: dash_runs.induct)
  case 1
  show ?case by simp
next
  case (2 c s)
  show ?case
  proof (cases "word_char c")
    case True
    with 2 show ?thesis by (cases "dash_runs s") auto
  next
    case False
    let ?t = "dropWhile (\<lambda>x. \<not> word_char x) s"
    have "dash_runs ?t = [] \<or> hd (dash_runs ?t) \<noteq> CHR ''-''"
    proof (cases ?t)
      case Nil
      then show ?thesis by (simp only: dash_runs.simps) simp
    next
      case (Cons d u)
      then have "word_char d"
        using hd_dropWhile [of "\<lambda>x. \<not> word_char x" s] by simp
      then show ?thesis unfolding Cons by auto
    qed
    with False 2 show ?thesis by (cases "dash_runs ?t") auto
  qed
qed

lemma no_double_dash_Cons:
  "no_double_dash (a # s) \<longleftrightarrow> no_double_dash s \<and> \<not> (a = CHR ''-'' \<and> s \<noteq> [] \<and> hd s = CHR ''-'')"
  by (cases s) auto

lemma no_double_dash_appendD: "no_double_dash (xs @ ys) \<Longrightarrow> no_double_dash xs \<and> no_double_dash ys"
  by (induction xs) (auto simp: no_double_dash_Cons)

lemma dropWhile_append_eq: "\<exists>ys. s = ys @ dropWhile P s"
  by (metis takeWhile_dropWhile_id)

lemma trim_right_prefix: "\<exists>ys. s = trim_right_dashes s @ ys"
  using dropWhile_append_eq [of "rev s" "\<lambda>c. c = CHR ''-''"]
  unfolding trim_right_dashes_def by (metis rev_append rev_rev_ident)

lemma trim_right_last: "trim_right_dashes s \<noteq> [] \<Longrightarrow> last (trim_right_dashes s) \<noteq> CHR ''-''"
  unfolding trim_right_dashes_def
  using hd_dropWhile [of "\<lambda>c. c = CHR ''-''" "rev s"] by (simp add: last_rev)

lemma trim_right_keeps:
  assumes "list_all label_char s" "no_double_dash s" "s \<noteq> []" "hd s \<noteq> CHR ''-''"
  shows "normal_label (trim_right_dashes s)"
proof -
  obtain ys where s: "s = trim_right_dashes s @ ys"
    using trim_right_prefix by blast
  have ne: "trim_right_dashes s \<noteq> []"
    using assms(3,4) by (cases s) (auto simp: trim_right_dashes_def dropWhile_eq_Nil_conv)
  then have "hd (trim_right_dashes s) = hd s" using s by (metis hd_append2)
  moreover have "list_all label_char (trim_right_dashes s)" "no_double_dash (trim_right_dashes s)"
    using assms(1,2) s no_double_dash_appendD by (metis list_all_append, metis)
  ultimately show ?thesis
    using ne assms(4) trim_right_last by (simp add: normal_label_def)
qed

lemma trim_right_id: "s \<noteq> [] \<Longrightarrow> last s \<noteq> CHR ''-'' \<Longrightarrow> trim_right_dashes s = s"
  by (cases s rule: rev_cases) (auto simp: trim_right_dashes_def)

lemma trim_dashes_id: "normal_label s \<Longrightarrow> trim_dashes s = s"
  by (cases s) (auto simp: trim_dashes_def normal_label_def trim_right_id)

lemma trim_dashes_normal:
  assumes "list_all label_char s" "no_double_dash s" "trim_dashes s \<noteq> []"
  shows "normal_label (trim_dashes s)"
proof -
  let ?d = "dropWhile (\<lambda>c. c = CHR ''-'') s"
  obtain ys where ys: "s = ys @ ?d" using dropWhile_append_eq by blast
  have ne: "?d \<noteq> []"
  proof
    assume "?d = []"
    then have "trim_dashes s = trim_right_dashes []" by (simp only: trim_dashes_def)
    with assms(3) show False by (simp add: trim_right_dashes_def)
  qed
  have "hd ?d \<noteq> CHR ''-''" using hd_dropWhile [OF ne] by simp
  moreover have "list_all label_char ?d" "no_double_dash ?d"
    using assms(1,2) ys no_double_dash_appendD by (metis list_all_append, metis)
  ultimately show ?thesis using ne trim_right_keeps by (simp add: trim_dashes_def)
qed

definition segment_label :: "string \<Rightarrow> string \<Rightarrow> string" where
  "segment_label label fallback =
    (let p0 = trim_dashes (dash_runs (to_lower (trim_space label)));
         p1 = (if p0 = [] then fallback else p0)
     in if length p1 > 11 then trim_right_dashes (take 11 p1) else p1)"

lemma segment_label_normal:
  assumes "normal_label fallback"
  shows "normal_label (segment_label label fallback)" "length (segment_label label fallback) \<le> 11"
proof -
  let ?p0 = "trim_dashes (dash_runs (to_lower (trim_space label)))"
  let ?p1 = "if ?p0 = [] then fallback else ?p0"
  have n: "normal_label ?p1"
    using assms trim_dashes_normal [OF dash_runs_chars dash_runs_no_double] by auto
  have "normal_label (trim_right_dashes (take 11 ?p1))"
  proof (rule trim_right_keeps)
    show "list_all label_char (take 11 ?p1)"
      using n unfolding normal_label_def by (metis append_take_drop_id list_all_append)
    show "no_double_dash (take 11 ?p1)"
      using n no_double_dash_appendD [of "take 11 ?p1" "drop 11 ?p1"] by (simp add: normal_label_def)
    show "take 11 ?p1 \<noteq> []" "hd (take 11 ?p1) \<noteq> CHR ''-''"
      using n by (auto simp: normal_label_def hd_take)
  qed
  with n show "normal_label (segment_label label fallback)"
    by (simp add: segment_label_def Let_def)
  have "length (trim_right_dashes (take 11 ?p1)) \<le> 11"
    unfolding trim_right_dashes_def by (metis length_dropWhile_le length_rev length_take min.bounded_iff order_trans min.cobounded2)
  then show "length (segment_label label fallback) \<le> 11"
    by (simp add: segment_label_def Let_def)
qed

lemma segment_label_id:
  assumes "normal_label p" "length p \<le> 11"
  shows "segment_label p fallback = p"
proof -
  have "list_all label_char p" "no_double_dash p" using assms by (simp_all add: normal_label_def)
  then have "trim_dashes (dash_runs (to_lower (trim_space p))) = p"
    using assms by (simp add: trim_space_label to_lower_label dash_runs_label trim_dashes_id)
  then show ?thesis using assms by (auto simp: segment_label_def normal_label_def)
qed

lemma readable_segment_eq:
  "length (id_suffix i) = 12 \<Longrightarrow>
   readablePathSegment label fallback i = segment_label label fallback @ CHR ''-'' # id_suffix i"
  by (simp add: readablePathSegment_def segment_label_def Let_def)

lemma segment_good:
  assumes "normal_label p" "list_all label_char q"
  shows "good_elem (p @ CHR ''-'' # q)"
proof -
  have l: "list_all label_char (p @ CHR ''-'' # q)"
    using assms by (simp add: normal_label_def) (simp add: label_char_def)
  have "\<not> label_char CHR ''/''" "\<not> label_char CHR ''.''"
    by (simp_all add: label_char_def word_char_def is_lower_def is_digit_def in_range_def)
  with l show ?thesis
    unfolding good_elem_def by (auto simp: list_all_iff Cons_eq_append_conv append_eq_Cons_conv)
qed

section \<open>Facts about UUIDs\<close>

lemma length_hex_encode [simp]: "length (hex_encode s) = 2 * length s"
  by (induction s) auto

lemma hex_digit_label: "n < 16 \<Longrightarrow> label_char (hex_digit n)"
  by (simp add: hex_digit_def label_char_def word_char_def is_lower_def is_digit_def in_range_def)

lemma hex_encode_label: "list_all label_char (hex_encode s)"
  by (induction s) (auto simp: hex_digit_label div_less_iff_less_mult less_mult_imp_div_less)

lemma canonical_uuid_suffix:
  assumes "uuid_laws e" "canonicalUUID e v"
  shows "length (id_suffix v) = 12" "list_all label_char (id_suffix v)"
proof -
  from assms obtain raw where "length raw = 16" "v = uuid_text raw"
    by (auto simp: canonicalUUID_def uuid_laws_def split: option.splits)
  then have "id_suffix v = hex_encode (drop 10 raw)" "length (drop 10 raw) = 6"
    by (simp_all add: id_suffix_def uuid_text_def)
  then show "length (id_suffix v) = 12" "list_all label_char (id_suffix v)"
    by (simp_all add: hex_encode_label)
qed

section \<open>A concrete environment\<close>

text \<open>An environment that satisfies \<open>uuid_laws\<close>, for the concrete instances of the
  theorems: \<open>Parse\<close> reads the 36 byte form, \<open>String\<close> writes it, the digest is a
  constant and every signature of the text \<open>''ok''\<close> is accepted.\<close>

definition sample_uuid_parse :: "string \<Rightarrow> string option" where
  "sample_uuid_parse v =
    (if length v = 36 then
       Some (map (\<lambda>k. byte (16 * hex_val (v ! k) + hex_val (v ! (k + 1))))
         [0, 2, 4, 6, 9, 11, 14, 16, 19, 21, 24, 26, 28, 30, 32, 34])
     else None)"

definition sample_env :: "string \<Rightarrow> env" where
  "sample_env owner =
    \<lparr>e_digest = (\<lambda>_. replicate 64 CHR ''a''), e_verify = (\<lambda>_ _ sig. sig = ''ok''),
     e_uuid_parse = sample_uuid_parse, e_uuid_string = uuid_text, e_parse_ip = (\<lambda>s. s = ''10.0.0.1''),
     o_OwnerID = owner, o_MaxRecordBytes = 8388608, o_MaxStoreBytes = 67108864, o_MaxTasks = 10000,
     o_MaxPendingResults = 1000, o_MaxPendingResultBytes = 33554432\<rparr>"

lemma sample_uuid_laws [simp]: "uuid_laws (sample_env owner)"
  by (simp add: uuid_laws_def sample_env_def sample_uuid_parse_def)

text \<open>Four UUIDs for these instances.\<close>

definition uuid_a :: string where "uuid_a = ''11111111-1111-4111-8111-11111111111a''"
definition uuid_b :: string where "uuid_b = ''22222222-2222-4222-8222-22222222222b''"
definition uuid_c :: string where "uuid_c = ''33333333-3333-4333-8333-33333333333c''"
definition uuid_d :: string where "uuid_d = ''44444444-4444-4444-8444-44444444444d''"

lemma replicate_numeral_eval: "replicate (numeral k) x = x # replicate (pred_numeral k) x"
  by (simp add: numeral_eq_Suc)

lemmas identity_eval [eval] = replicate_numeral_eval
  canonicalPath_def nil_uuid_def fingerprint_def validOpaque_def word_char_def trim_right_dashes_def
  trim_dashes_def id_suffix_def readablePathSegment_def uuid_text_def sample_uuid_parse_def hex_val_def

lemma sample_uuids [simp]:
  "canonicalUUID (sample_env owner) uuid_a" "canonicalUUID (sample_env owner) uuid_b"
  "canonicalUUID (sample_env owner) uuid_c" "canonicalUUID (sample_env owner) uuid_d"
  by (simp_all add: canonicalUUID_def sample_env_def uuid_a_def uuid_b_def uuid_c_def uuid_d_def eval)

section \<open>Properties\<close>

lemma fallback_normal: "normal_label ''workspace''" "normal_label ''task''"
  by code_simp+

lemma readable_segment_good:
  assumes "uuid_laws e" "canonicalUUID e i" "normal_label fallback"
  shows "good_elem (readablePathSegment label fallback i)"
  using assms by (simp add: readable_segment_eq canonical_uuid_suffix segment_good segment_label_normal)

lemma good_elem_chars:
  "good_elem (readablePathSegment label fallback i) \<Longrightarrow> normal_label fallback \<Longrightarrow>
   length (id_suffix i) = 12 \<Longrightarrow> list_all label_char (id_suffix i) \<Longrightarrow>
   list_all label_char (readablePathSegment label fallback i)"
  using segment_label_normal [of fallback label]
  by (simp add: readable_segment_eq normal_label_def) (simp add: label_char_def)

lemma TaskRoot_form:
  assumes "uuid_laws e" "TaskRoot e root ws t slug issue = Inr r"
  obtains es where "root = abs_path es" "\<forall>w\<in>set es. good_elem w"
    "r = abs_path (es @ [readablePathSegment slug ''workspace'' ws, readablePathSegment issue ''task'' t])"
    "canonicalUUID e ws" "canonicalUUID e t" "canonicalPath root"
proof -
  from assms(2) have c: "canonicalPath root" "canonicalUUID e ws" "canonicalUUID e t"
    and r: "r = path_join [root, readablePathSegment slug ''workspace'' ws, readablePathSegment issue ''task'' t]"
    by (auto simp: TaskRoot_def split: if_splits)
  from c(1) obtain es where es: "root = abs_path es" "\<forall>w\<in>set es. good_elem w"
    by (rule canonicalPath_elems)
  have "r = abs_path (es @ [readablePathSegment slug ''workspace'' ws, readablePathSegment issue ''task'' t])"
    unfolding r es(1) using c assms(1) fallback_normal
    by (intro path_join_abs es(2) readable_segment_good)
  then show thesis using that es c by blast
qed

lemma label_not_control: "label_char c \<Longrightarrow> c \<notin> set [nul_char, cr_char, nl_char]"
  using label_char_ascii [of c] by (auto simp: nul_char_def cr_char_def nl_char_def)

lemma contains_any_join:
  "contains_any (join_with d ws) cs \<longleftrightarrow> (\<exists>w\<in>set ws. contains_any w cs) \<or> (1 < length ws \<and> d \<in> set cs)"
  by (induction ws rule: join_with.induct) (auto simp: contains_any_iff)

lemma canonical_abs_extend:
  assumes "canonicalPath (abs_path es)" "\<forall>w\<in>set (es @ fs). good_elem w"
    "\<forall>w\<in>set fs. list_all label_char w"
  shows "canonicalPath (abs_path (es @ fs))"
proof -
  have "\<not> contains_any (join_with CHR ''/'' (es @ fs)) [nul_char, cr_char, nl_char]"
  proof
    assume "contains_any (join_with CHR ''/'' (es @ fs)) [nul_char, cr_char, nl_char]"
    moreover have "CHR ''/'' \<notin> set [nul_char, cr_char, nl_char]"
      by (simp add: nul_char_def cr_char_def nl_char_def)
    ultimately obtain w where w: "w \<in> set es \<or> w \<in> set fs" "contains_any w [nul_char, cr_char, nl_char]"
      unfolding contains_any_join by auto
    then have "w \<in> set es"
      using assms(3) label_not_control by (metis contains_any_iff list_all_iff)
    with w(2) have "contains_any (join_with CHR ''/'' es) [nul_char, cr_char, nl_char]"
      by (auto simp: contains_any_join)
    with assms(1) show False
      by (auto simp: canonicalPath_def abs_path_def contains_any_iff)
  qed
  moreover have "\<not> contains_any ''/'' [nul_char, cr_char, nl_char]"
    by (simp add: contains_any_def nul_char_def cr_char_def nl_char_def)
  ultimately show ?thesis
    using clean_abs_path [OF assms(2)]
    by (simp add: canonicalPath_def contains_any_iff abs_path_def is_abs_def)
qed

text \<open>
  A task root is at most 24 bytes long in each of its two readable segments, the
  segments end in the last twelve characters of the workspace and task UUIDs, and
  \<^verbatim>\<open>ValidateTaskRoot\<close> accepts exactly the frozen path for these UUIDs, whatever labels the
  path was made of: the check needs no display label.
\<close>

theorem TaskRoot_roundtrip:
  assumes "uuid_laws e" "TaskRoot e root ws t slug issue = Inr r"
  shows "ValidateTaskRoot e root r ws t = Inr ()
    \<and> path_base r = readablePathSegment issue ''task'' t \<and> length (path_base r) \<le> 24
    \<and> path_base (path_dir r) = readablePathSegment slug ''workspace'' ws \<and> length (path_base (path_dir r)) \<le> 24
    \<and> suffix (id_suffix t) (path_base r) \<and> suffix (id_suffix ws) (path_base (path_dir r))"
proof -
  let ?a = "readablePathSegment slug ''workspace'' ws"
  let ?b = "readablePathSegment issue ''task'' t"
  obtain es where es: "root = abs_path es" "\<forall>w\<in>set es. good_elem w" "r = abs_path (es @ [?a, ?b])"
    and c: "canonicalUUID e ws" "canonicalUUID e t" "canonicalPath root"
    using TaskRoot_form [OF assms] .
  note s = canonical_uuid_suffix [OF assms(1) c(1)] canonical_uuid_suffix [OF assms(1) c(2)]
  have good: "good_elem ?a" "good_elem ?b"
    using readable_segment_good assms(1) c fallback_normal by blast+
  have base: "path_base r = ?b" "path_dir r = abs_path (es @ [?a])"
    using path_base_abs [OF good(2), of "es @ [?a]"] path_dir_abs [OF _ _ good(2), of "es @ [?a]"] es(2,3) good
    by simp_all
  have base2: "path_base (path_dir r) = ?a"
    unfolding base by (rule path_base_abs [OF good(1)])
  have seg: "?a = segment_label slug ''workspace'' @ CHR ''-'' # id_suffix ws"
    "?b = segment_label issue ''task'' @ CHR ''-'' # id_suffix t"
    using s by (simp_all add: readable_segment_eq)
  note n = segment_label_normal [OF fallback_normal(1), of slug] segment_label_normal [OF fallback_normal(2), of issue]
  have again: "readablePathSegment (trim_suffix ?a (CHR ''-'' # id_suffix ws)) ''workspace'' ws = ?a"
    "readablePathSegment (trim_suffix ?b (CHR ''-'' # id_suffix t)) ''task'' t = ?b"
    using s n by (simp_all add: seg readable_segment_eq segment_label_id)
  have "list_all label_char ?a" "list_all label_char ?b"
    using good_elem_chars good fallback_normal s by blast+
  then have "canonicalPath r"
    unfolding es(3) using c(3) es(1,2) good by (intro canonical_abs_extend) auto
  moreover have "TaskRoot e root ws t (trim_suffix ?a (CHR ''-'' # id_suffix ws)) (trim_suffix ?b (CHR ''-'' # id_suffix t)) = Inr r"
    using assms(2) c by (simp add: TaskRoot_def again split: if_splits)
  moreover have "suffix (CHR ''-'' # id_suffix t) ?b" "suffix (CHR ''-'' # id_suffix ws) ?a"
    unfolding seg by (simp_all add: suffix_def)
  moreover have "suffix (id_suffix t) ?b" "suffix (id_suffix ws) ?a"
    unfolding seg by (simp_all add: suffix_def)
  ultimately show ?thesis
    using c n s by (simp add: ValidateTaskRoot_def base(1) base2 Let_def) (simp add: seg)
qed

lemma TaskRoot_roundtrip_witness:
  "ValidateTaskRoot (sample_env uuid_a) ''/workspace'' ''/workspace/acme-inc-11111111111a/ab-12-22222222222b'' uuid_a uuid_b = Inr ()"
proof -
  have "TaskRoot (sample_env uuid_a) ''/workspace'' uuid_a uuid_b '' Acme  Inc. '' ''AB--12''
      = Inr ''/workspace/acme-inc-11111111111a/ab-12-22222222222b''"
    by (simp add: TaskRoot_def) (simp add: uuid_a_def uuid_b_def eval)
  then show ?thesis
    using TaskRoot_roundtrip [of "sample_env uuid_a" "''/workspace''"] by simp
qed

end
