(* ===== verification/Go_Time.thy ===== *)
theory Go_Time
  imports Go_Json
begin

text \<open>
  What the source uses of Go's \<^verbatim>\<open>time\<close>: the RFC 3339 text of an instant in UTC
  (\<^verbatim>\<open>Format(time.RFC3339Nano)\<close>) and the strict RFC 3339 reader behind
  \<^verbatim>\<open>json.Unmarshal\<close>.  An instant is the number of nanoseconds since 0001-01-01 UTC.
\<close>

definition second :: time where "second = 1000000000"

definition days_from_civil :: "int \<Rightarrow> int \<Rightarrow> int \<Rightarrow> int" where
  "days_from_civil y m d =
    (let y1 = (if m \<le> 2 then y - 1 else y);
         era = y1 div 400;
         yoe = y1 mod 400;
         doy = (153 * (if m > 2 then m - 3 else m + 9) + 2) div 5 + d - 1;
         doe = yoe * 365 + yoe div 4 - yoe div 100 + doy
     in era * 146097 + doe - 306)"

definition civil_from_days :: "int \<Rightarrow> int \<times> int \<times> int" where
  "civil_from_days n =
    (let z = n + 306;
         era = z div 146097;
         doe = z mod 146097;
         yoe = (doe - doe div 1460 + doe div 36524 - doe div 146096) div 365;
         doy = doe - (365 * yoe + yoe div 4 - yoe div 100);
         mp = (5 * doy + 2) div 153;
         d = doy - (153 * mp + 2) div 5 + 1;
         m = (if mp < 10 then mp + 3 else mp - 9)
     in (yoe + era * 400 + (if m \<le> 2 then 1 else 0), m, d))"

definition pad_left :: "nat \<Rightarrow> string \<Rightarrow> string" where
  "pad_left w s = replicate (w - length s) CHR ''0'' @ s"

definition pad_int :: "nat \<Rightarrow> int \<Rightarrow> string" where
  "pad_int w i = (if i < 0 then CHR ''-'' # pad_left w (decimal (nat (- i))) else pad_left w (decimal (nat i)))"

definition fraction_text :: "int \<Rightarrow> string" where
  "fraction_text ns =
    (if ns = 0 then []
     else CHR ''.'' # rev (dropWhile (\<lambda>c. c = CHR ''0'') (rev (pad_int 9 ns))))"

definition rfc3339_nano :: "time \<Rightarrow> string" where
  "rfc3339_nano t =
    (let secs = t div second; ns = t mod second; days = secs div 86400; sod = secs mod 86400;
         (y, m, d) = civil_from_days days
     in pad_int 4 y @ ''-'' @ pad_int 2 m @ ''-'' @ pad_int 2 d @ ''T'' @ pad_int 2 (sod div 3600) @ '':'' @
        pad_int 2 (sod div 60 mod 60) @ '':'' @ pad_int 2 (sod mod 60) @ fraction_text ns @ ''Z'')"

section \<open>Reading\<close>

definition leap :: "int \<Rightarrow> bool" where
  "leap y = (y mod 4 = 0 \<and> (y mod 100 \<noteq> 0 \<or> y mod 400 = 0))"

definition days_in :: "int \<Rightarrow> int \<Rightarrow> int" where
  "days_in y m =
    (if m = 2 then (if leap y then 29 else 28) else if m \<in> {4, 6, 9, 11} then 30 else 31)"

definition num_range :: "int \<Rightarrow> int \<Rightarrow> string \<Rightarrow> int option" where
  "num_range lo hi s =
    (if s \<noteq> [] \<and> list_all is_digit s \<and> lo \<le> int (decimal_val s) \<and> int (decimal_val s) \<le> hi
     then Some (int (decimal_val s)) else None)"

definition field_at :: "nat \<Rightarrow> nat \<Rightarrow> string \<Rightarrow> string" where
  "field_at k w s = take w (drop k s)"

text \<open>The fraction after the seconds: its nanoseconds (digits after the ninth are cut) and
  what follows it.\<close>

definition scan_fraction :: "string \<Rightarrow> (int \<times> string) option" where
  "scan_fraction s =
    (case s of
       c # r \<Rightarrow>
         (if c = CHR ''.'' then
            (let d = takeWhile is_digit r
             in if d = [] then None
                else Some (int (decimal_val (take 9 (d @ replicate 9 CHR ''0''))), drop (length d) r))
          else Some (0, s))
     | [] \<Rightarrow> Some (0, []))"

text \<open>The zone: \<^verbatim>\<open>Z\<close> or an offset of whole minutes, in seconds.\<close>

definition scan_zone :: "string \<Rightarrow> int option" where
  "scan_zone s =
    (if s = ''Z'' then Some 0
     else if length s = 6 \<and> (hd s = CHR ''+'' \<or> hd s = CHR ''-'') \<and> s ! 3 = CHR '':'' then
       (case (num_range 0 23 (field_at 1 2 s), num_range 0 59 (field_at 4 2 s)) of
          (Some h, Some m) \<Rightarrow> Some ((if hd s = CHR ''-'' then - 1 else 1) * (h * 3600 + m * 60))
        | _ \<Rightarrow> None)
     else None)"

definition parse_rfc3339 :: "string \<Rightarrow> time option" where
  "parse_rfc3339 s =
    (if length s < 20 \<or> s ! 4 \<noteq> CHR ''-'' \<or> s ! 7 \<noteq> CHR ''-'' \<or> s ! 10 \<noteq> CHR ''T'' \<or>
        s ! 13 \<noteq> CHR '':'' \<or> s ! 16 \<noteq> CHR '':'' then None
     else
       (case (num_range 0 9999 (field_at 0 4 s), num_range 1 12 (field_at 5 2 s)) of
          (Some y, Some m) \<Rightarrow>
            (case (num_range 1 (days_in y m) (field_at 8 2 s), num_range 0 23 (field_at 11 2 s),
                   num_range 0 59 (field_at 14 2 s), num_range 0 59 (field_at 17 2 s)) of
               (Some d, Some h, Some mi, Some sec) \<Rightarrow>
                 (case scan_fraction (drop 19 s) of
                    None \<Rightarrow> None
                  | Some (ns, r) \<Rightarrow>
                      map_option (\<lambda>off.
                        (days_from_civil y m d * 86400 + h * 3600 + mi * 60 + sec - off) * second + ns)
                        (scan_zone r))
             | _ \<Rightarrow> None)
        | _ \<Rightarrow> None))"

text \<open>\<^verbatim>\<open>Time.UnmarshalJSON\<close> reads the literal without decoding escapes; null leaves the
  value.\<close>

definition dec_time :: "time \<Rightarrow> json \<Rightarrow> time option" where
  "dec_time z v = (case v of JNull \<Rightarrow> Some z | JStr l \<Rightarrow> parse_rfc3339 l | _ \<Rightarrow> None)"

end
