(* ===== verification/Messages.thy ===== *)
theory Messages
  imports Identity Go_Time
begin

text \<open>
  The signed messages and digests of the journal: fixed JSON tuples, one per purpose
  (\<^verbatim>\<open>conversation_types.go\<close>, \<^verbatim>\<open>result_receipt.go\<close>, \<^verbatim>\<open>stop.go\<close>,
  \<^verbatim>\<open>outbox.go\<close>, \<^verbatim>\<open>conversation.go\<close>), and the predicates that accept a signed
  receipt for a grant or a session.
\<close>

section \<open>Names of states and kinds\<close>

fun kind_text :: "conversation_kind \<Rightarrow> string" where
  "kind_text ConversationIssue = ''issue''"
| "kind_text ConversationAgentDM = ''agent_dm''"
| "kind_text ConversationTask = ''task''"
| "kind_text (OtherConversation s) = s"

fun terminal_kind_text :: "terminal_kind \<Rightarrow> string" where
  "terminal_kind_text KindComplete = ''complete''"
| "terminal_kind_text KindFail = ''fail''"
| "terminal_kind_text KindCancelAck = ''cancel-ack''"
| "terminal_kind_text (OtherKind s) = s"

definition terminal_kind_of :: "string \<Rightarrow> terminal_kind" where
  "terminal_kind_of s =
    (if s = ''complete'' then KindComplete else if s = ''fail'' then KindFail
     else if s = ''cancel-ack'' then KindCancelAck else OtherKind s)"

definition delivery_of :: "string \<Rightarrow> delivery" where
  "delivery_of s =
    (if s = ''received'' then DReceived else if s = ''sealed'' then DSealed
     else if s = ''forwarding'' then DForwarding else if s = ''delivered'' then DDelivered
     else if s = ''rejected'' then DRejected else if s = ''uncertain'' then DUncertain else OtherDelivery s)"

definition event_state_of :: "string \<Rightarrow> event_state" where
  "event_state_of s =
    (if s = ''received'' then EvReceived else if s = ''forwarding'' then EvForwarding
     else if s = ''local'' then EvLocal else if s = ''delivered'' then EvDelivered
     else if s = ''uncertain'' then EvUncertain else OtherEvent s)"

section \<open>Messages\<close>

definition tuple_text :: "json list \<Rightarrow> string" where
  "tuple_text vs = json_text (JArr vs)"

definition ConversationKey_Valid :: "env \<Rightarrow> conversation_key \<Rightarrow> bool" where
  "ConversationKey_Valid e k =
    (canonicalUUID e (ck_OwnerID k) \<and> canonicalUUID e (ck_WorkspaceID k) \<and> canonicalUUID e (ck_SubjectID k) \<and>
     canonicalUUID e (ck_AgentID k) \<and>
     (ck_Kind k = ConversationIssue \<or> ck_Kind k = ConversationAgentDM \<or> ck_Kind k = ConversationTask))"

definition ConversationKey_Digest :: "env \<Rightarrow> conversation_key \<Rightarrow> string" where
  "ConversationKey_Digest e k =
    e_digest e (tuple_text [jstr ''multica-conversation-v1'', jstr (ck_OwnerID k), jstr (ck_WorkspaceID k),
      jstr (kind_text (ck_Kind k)), jstr (ck_SubjectID k), jstr (ck_AgentID k)])"

definition SessionProofMessage :: "session_proof \<Rightarrow> string" where
  "SessionProofMessage p =
    (let c = pf_Challenge p in
     tuple_text [jstr ''multica-session-control-v1'', jstr (ch_Operation c), jstr (ch_WorkerSessionID c),
       jstr (ch_PodUID c), jstr (ch_PVCUID c), ju64 (ch_TurnSequence c), jstr (ch_AttemptID c),
       jstr (ch_BodyDigest c), jstr (ch_Nonce c), jstr (rfc3339_nano (ch_ExpiresAt c))])"

definition TurnReceiptMessage :: "turn_receipt \<Rightarrow> string" where
  "TurnReceiptMessage r =
    tuple_text [jstr ''multica-turn-quiescence-v1'', jstr (tr_WorkerSessionID r), jstr (tr_TaskID r),
      jstr (tr_AttemptID r), ju64 (tr_Generation r), ju64 (tr_TurnSequence r), jstr (tr_InputDigest r),
      jstr (tr_PodUID r), jstr (tr_PVCUID r), jstr (tr_ResultDigest r), jstr (tr_RequestDigest r),
      jstr (tr_Nonce r), JBool (tr_WritersStopped r), JBool (tr_FlushOK r)]"

definition TurnExecutionReceiptMessage :: "turn_execution_receipt \<Rightarrow> string" where
  "TurnExecutionReceiptMessage r =
    (let k = ter_Conversation r in
     tuple_text [jstr ''multica-turn-execution-v2'', jstr (ter_WorkerSessionID r),
       jstr (ck_OwnerID k), jstr (ck_WorkspaceID k), jstr (kind_text (ck_Kind k)), jstr (ck_SubjectID k),
       jstr (ck_AgentID k), jstr (ter_StorageID r), jstr (ter_TaskID r), jstr (ter_AttemptID r),
       ju64 (ter_Generation r), ju64 (ter_TurnSequence r), jstr (ter_InputDigest r), jstr (ter_PodUID r),
       jstr (ter_PVCUID r), jstr (ter_ResultDigest r), jstr (ter_RequestDigest r), jstr (ter_Nonce r),
       JBool (ter_TaskProcessesStopped r), JBool (ter_LocalRequestsClosed r), JBool (ter_PrivateStateCleared r)])"

definition SessionStopReceiptMessage :: "session_stop_receipt \<Rightarrow> string" where
  "SessionStopReceiptMessage r =
    tuple_text [jstr ''multica-session-stop-v1'', jstr (ssr_WorkerSessionID r), jstr (ssr_AttemptID r),
      jstr (ssr_InputDigest r), ju64 (ssr_TurnSequence r), jstr (ssr_PodUID r), jstr (ssr_PVCUID r),
      ju64 (ssr_Revision r), jstr (ssr_Nonce r), JBool (ssr_WritersStopped r), JBool (ssr_FlushOK r)]"

definition ResultReceiptMessage :: "result_receipt \<Rightarrow> string" where
  "ResultReceiptMessage r =
    (if rc_WorkerSessionID r \<noteq> [] \<or> rc_TurnSequence r \<noteq> 0 then
       tuple_text [jstr ''multica-result-v2'', jstr (rc_WorkerSessionID r), ju64 (rc_TurnSequence r),
         jstr (rc_TaskID r), jstr (rc_AttemptID r), jstr (rc_PodUID r), jstr (rc_PVCUID r),
         jstr (rc_RequestDigest r), jstr (rc_Nonce r)]
     else
       tuple_text [jstr ''multica-result-v1'', jstr (rc_TaskID r), jstr (rc_AttemptID r), jstr (rc_PodUID r),
         jstr (rc_PVCUID r), jstr (rc_RequestDigest r), jstr (rc_Nonce r)])"

definition StopReceiptMessage :: "stop_receipt \<Rightarrow> string" where
  "StopReceiptMessage r =
    (if sr_WorkerSessionID r \<noteq> [] \<or> sr_TurnSequence r \<noteq> 0 then
       tuple_text [jstr ''multica-stop-v2'', jstr (sr_WorkerSessionID r), ju64 (sr_TurnSequence r),
         jstr (sr_TaskID r), jstr (sr_AttemptID r), ju64 (sr_Generation r), jstr (sr_PodUID r),
         jstr (sr_PVCUID r), ju64 (sr_Revision r), jstr (sr_Nonce r), JBool (sr_WritersStopped r),
         JBool (sr_FlushOK r)]
     else
       tuple_text [jstr ''multica-stop-v1'', jstr (sr_TaskID r), jstr (sr_AttemptID r), ju64 (sr_Generation r),
         jstr (sr_PodUID r), jstr (sr_PVCUID r), ju64 (sr_Revision r), jstr (sr_Nonce r),
         JBool (sr_WritersStopped r), JBool (sr_FlushOK r)])"

definition ReceiptMessage :: "signed_receipt \<Rightarrow> string" where
  "ReceiptMessage r =
    tuple_text [jstr (sg_TaskID r), jstr (sg_AttemptID r), jstr (sg_RequestDigest r), jstr (sg_PodUID r),
      jstr (sg_PVCUID r), jstr (sg_Nonce r), JBool (sg_WritersStopped r), JBool (sg_FlushOK r)]"

text \<open>\<^verbatim>\<open>json.Marshal\<close> of a turn execution receipt, whose digest a proof binds.\<close>

definition conversation_key_json :: "conversation_key \<Rightarrow> json" where
  "conversation_key_json k =
    JObj [(''ownerID'', jstr (ck_OwnerID k)), (''workspaceID'', jstr (ck_WorkspaceID k)),
      (''kind'', jstr (kind_text (ck_Kind k))), (''subjectID'', jstr (ck_SubjectID k)),
      (''agentID'', jstr (ck_AgentID k))]"

definition jbytes_or_null :: "string \<Rightarrow> json" where
  "jbytes_or_null s = (if s = [] then JNull else jbytes s)"

definition turn_execution_receipt_json :: "turn_execution_receipt \<Rightarrow> json" where
  "turn_execution_receipt_json r =
    JObj [(''workerSessionID'', jstr (ter_WorkerSessionID r)),
      (''conversation'', conversation_key_json (ter_Conversation r)), (''storageID'', jstr (ter_StorageID r)),
      (''taskID'', jstr (ter_TaskID r)), (''attemptID'', jstr (ter_AttemptID r)),
      (''generation'', ju64 (ter_Generation r)), (''turnSequence'', ju64 (ter_TurnSequence r)),
      (''inputDigest'', jstr (ter_InputDigest r)), (''podUID'', jstr (ter_PodUID r)),
      (''pvcUID'', jstr (ter_PVCUID r)), (''resultDigest'', jstr (ter_ResultDigest r)),
      (''requestDigest'', jstr (ter_RequestDigest r)), (''nonce'', jstr (ter_Nonce r)),
      (''taskProcessesStopped'', JBool (ter_TaskProcessesStopped r)),
      (''localRequestsClosed'', JBool (ter_LocalRequestsClosed r)),
      (''privateStateCleared'', JBool (ter_PrivateStateCleared r)),
      (''signature'', jbytes_or_null (ter_Signature r))]"

definition session_stop_receipt_json :: "session_stop_receipt \<Rightarrow> json" where
  "session_stop_receipt_json r =
    JObj (jfield ''workerSessionID'' (jstr (ssr_WorkerSessionID r)) @
      jomit (ssr_AttemptID r = []) ''attemptID'' (jstr (ssr_AttemptID r)) @
      jomit (ssr_InputDigest r = []) ''inputDigest'' (jstr (ssr_InputDigest r)) @
      [(''turnSequence'', ju64 (ssr_TurnSequence r)), (''podUID'', jstr (ssr_PodUID r)),
       (''pvcUID'', jstr (ssr_PVCUID r)), (''revision'', ju64 (ssr_Revision r)), (''nonce'', jstr (ssr_Nonce r)),
       (''writersStopped'', JBool (ssr_WritersStopped r)), (''flushOK'', JBool (ssr_FlushOK r)),
       (''signature'', jbytes_or_null (ssr_Signature r))])"

section \<open>Accepting a signed receipt\<close>

text \<open>\<^verbatim>\<open>ed25519.PublicKeySize\<close>.\<close>

definition key_size :: nat where "key_size = 32"

definition validTurnReceipt :: "env \<Rightarrow> task_grant \<Rightarrow> terminal \<Rightarrow> turn_receipt \<Rightarrow> bool" where
  "validTurnReceipt e g t r =
    (g_WorkerSessionID g \<noteq> [] \<and> tr_WorkerSessionID r = g_WorkerSessionID g \<and> tr_TaskID r = g_TaskID g \<and>
     tr_AttemptID r = g_AttemptID g \<and> tr_Generation r = g_Generation g \<and> tr_TurnSequence r = g_TurnSequence g \<and>
     tr_InputDigest r = g_InputDigest g \<and> fingerprint (g_InputDigest g) \<and> tr_PodUID r = g_PodUID g \<and>
     tr_PVCUID r = g_PVCUID g \<and> tr_ResultDigest r = t_ResultDigest t \<and> tr_RequestDigest r = t_RequestDigest t \<and>
     tr_Nonce r = t_Nonce t \<and> tr_WritersStopped r \<and> tr_FlushOK r \<and> length (g_SupervisorKey g) = key_size \<and>
     e_verify e (g_SupervisorKey g) (TurnReceiptMessage r) (tr_Signature r))"

definition validTurnExecutionReceipt :: "env \<Rightarrow> task_grant \<Rightarrow> terminal \<Rightarrow> turn_execution_receipt \<Rightarrow> bool" where
  "validTurnExecutionReceipt e g t r =
    (g_WorkerSessionID g \<noteq> [] \<and> ConversationKey_Valid e (g_Conversation g) \<and>
     ter_WorkerSessionID r = g_WorkerSessionID g \<and> ter_Conversation r = g_Conversation g \<and>
     ter_StorageID r = g_StorageID g \<and> ter_TaskID r = g_TaskID g \<and> ter_AttemptID r = g_AttemptID g \<and>
     ter_Generation r = g_Generation g \<and> ter_TurnSequence r = g_TurnSequence g \<and>
     ter_InputDigest r = g_InputDigest g \<and> fingerprint (g_InputDigest g) \<and> ter_PodUID r = g_PodUID g \<and>
     ter_PVCUID r = g_PVCUID g \<and> ter_ResultDigest r = t_ResultDigest t \<and>
     ter_RequestDigest r = t_RequestDigest t \<and> ter_Nonce r = t_Nonce t \<and>
     ter_TaskProcessesStopped r \<and> ter_LocalRequestsClosed r \<and> ter_PrivateStateCleared r \<and>
     length (g_SupervisorKey g) = key_size \<and>
     e_verify e (g_SupervisorKey g) (TurnExecutionReceiptMessage r) (ter_Signature r))"

definition validResultReceipt :: "env \<Rightarrow> task_grant \<Rightarrow> terminal \<Rightarrow> result_receipt \<Rightarrow> bool" where
  "validResultReceipt e g t r =
    (t_Source t = SourceWorker \<and> (g_StartConfirmed g \<or> t_Kind t = KindCancelAck \<and> g_ExecutionRevoked g) \<and>
     rc_WorkerSessionID r = g_WorkerSessionID g \<and> rc_TurnSequence r = g_TurnSequence g \<and>
     rc_TaskID r = g_TaskID g \<and> rc_AttemptID r = g_AttemptID g \<and> rc_PodUID r = g_PodUID g \<and>
     rc_PVCUID r = g_PVCUID g \<and> rc_RequestDigest r = t_RequestDigest t \<and> rc_Nonce r = t_Nonce t \<and>
     length (g_SupervisorKey g) = key_size \<and>
     e_verify e (g_SupervisorKey g) (ResultReceiptMessage r) (rc_Signature r))"

definition validStopReceipt :: "env \<Rightarrow> task_grant \<Rightarrow> stop_receipt \<Rightarrow> bool" where
  "validStopReceipt e g r =
    (case g_Stop g of
       None \<Rightarrow> False
     | Some stop \<Rightarrow>
         g_PodUID g \<noteq> [] \<and> g_PVCUID g \<noteq> [] \<and> sr_TaskID r = g_TaskID g \<and> sr_AttemptID r = g_AttemptID g \<and>
         sr_WorkerSessionID r = g_WorkerSessionID g \<and> sr_TurnSequence r = g_TurnSequence g \<and>
         sr_Generation r = g_Generation g \<and> sr_PodUID r = g_PodUID g \<and> sr_PVCUID r = g_PVCUID g \<and>
         sr_Revision r = sp_Revision stop \<and> sr_Nonce r = sp_Nonce stop \<and> length (g_StopKey g) = key_size \<and>
         e_verify e (g_StopKey g) (StopReceiptMessage r) (sr_Signature r))"

definition validSessionStopReceipt :: "env \<Rightarrow> worker_session \<Rightarrow> session_stop_receipt \<Rightarrow> bool" where
  "validSessionStopReceipt e ws r =
    (case ws_Stop ws of
       None \<Rightarrow> False
     | Some stop \<Rightarrow>
         ssr_WorkerSessionID r = ws_ID ws \<and> ssr_AttemptID r = ws_LastAttemptID ws \<and>
         ssr_InputDigest r = ws_InputDigest ws \<and> ssr_TurnSequence r = ws_TurnSequence ws \<and>
         ssr_PodUID r = ws_PodUID ws \<and> ssr_PVCUID r = ws_PVCUID ws \<and> ssr_Revision r = ssp_Revision stop \<and>
         ssr_Nonce r = ssp_Nonce stop \<and> length (ws_SupervisorKey ws) = key_size \<and>
         e_verify e (ws_SupervisorKey ws) (SessionStopReceiptMessage r) (ssr_Signature r))"

text \<open>\<^verbatim>\<open>LegacySessionProtocolVersion\<close>, \<^verbatim>\<open>SessionProtocolVersion\<close> and the control
  operations.\<close>

definition legacy_protocol :: int where "legacy_protocol = 1"
definition session_protocol :: int where "session_protocol = 2"

definition op_poll :: string where "op_poll = ''poll''"
definition op_accept :: string where "op_accept = ''accept''"
definition op_stop_control :: string where "op_stop_control = ''stop-control''"
definition op_stop_request :: string where "op_stop_request = ''stop-request''"
definition op_stop_receipt :: string where "op_stop_receipt = ''stop-receipt''"
definition op_turn_execution :: string where "op_turn_execution = ''turn-execution-receipt''"

definition validSessionOperation :: "string \<Rightarrow> bool" where
  "validSessionOperation op =
    (op \<in> set [op_poll, op_accept, op_stop_control, op_stop_request, op_stop_receipt, op_turn_execution])"

definition challengeAttempt :: "worker_session \<Rightarrow> string \<Rightarrow> string" where
  "challengeAttempt ws op =
    (case ws_Stop ws of
       Some stop \<Rightarrow> (if op = op_stop_control \<or> op = op_stop_receipt \<or> op = op_stop_request
                     then ssp_ActiveAttempt stop else ws_ActiveAttempt ws)
     | None \<Rightarrow> ws_ActiveAttempt ws)"

definition validStoredTurnExecutionProof ::
  "env \<Rightarrow> worker_session \<Rightarrow> task_grant \<Rightarrow> turn_execution_receipt \<Rightarrow> session_proof \<Rightarrow> bool" where
  "validStoredTurnExecutionProof e ws g r p =
    (let c = pf_Challenge p in
     ws_ProtocolVersion ws = session_protocol \<and> ch_Operation c = op_turn_execution \<and>
     ch_BodyDigest c = e_digest e (json_text (turn_execution_receipt_json r)) \<and>
     ch_WorkerSessionID c = ws_ID ws \<and> ch_PodUID c = g_PodUID g \<and> ch_PVCUID c = g_PVCUID g \<and>
     ch_TurnSequence c = g_TurnSequence g \<and> ch_AttemptID c = g_AttemptID g \<and> canonicalUUID e (ch_Nonce c) \<and>
     ch_ExpiresAt c \<noteq> 0 \<and> length (ws_SupervisorKey ws) = key_size \<and>
     e_verify e (ws_SupervisorKey ws) (SessionProofMessage p) (pf_Signature p))"

text \<open>\<^verbatim>\<open>SessionChallengeTTL\<close> is 30 seconds.\<close>

definition challenge_ttl :: time where "challenge_ttl = 30 * second"

type_synonym challenges = "session_challenge gomap gomap"

definition validSessionProof ::
  "env \<Rightarrow> challenges \<Rightarrow> worker_session \<Rightarrow> session_proof \<Rightarrow> string \<Rightarrow> time \<Rightarrow> bool" where
  "validSessionProof e chs ws p op now =
    (let c = pf_Challenge p in
     case map_of (mget [] chs (ws_ID ws)) op of
       None \<Rightarrow> False
     | Some challenge \<Rightarrow>
         op = ch_Operation c \<and> validSessionOperation op \<and> c = challenge \<and>
         ch_WorkerSessionID c = ws_ID ws \<and> ch_PodUID c = ws_PodUID ws \<and> ch_PVCUID c = ws_PVCUID ws \<and>
         ch_TurnSequence c = ws_TurnSequence ws \<and> ch_AttemptID c = challengeAttempt ws op \<and>
         now < ch_ExpiresAt c \<and> \<not> ch_ExpiresAt c > now + challenge_ttl \<and> \<not> now < ws_LastObservedAt ws \<and>
         length (ws_SupervisorKey ws) = key_size \<and>
         e_verify e (ws_SupervisorKey ws) (SessionProofMessage p) (pf_Signature p))"

end
