(* ===== verification/Journal_Updates.thy ===== *)
theory Journal_Updates
  imports Messages
begin

text \<open>
  What the operations share: \<^verbatim>\<open>updateGrant\<close> and \<^verbatim>\<open>updateTerminal\<close>, the
  predicates on one grant or session (\<^verbatim>\<open>currentSessionTurn\<close>,
  \<^verbatim>\<open>stopGenerationCurrent\<close>, \<^verbatim>\<open>deliverySettled\<close>, \<^verbatim>\<open>noWorkerCreated\<close>,
  \<^verbatim>\<open>preservesResourceCreation\<close>, \dots), \<^verbatim>\<open>requestSessionStop\<close> and the pending result
  budget.

  A handler of \<^verbatim>\<open>updateGrant\<close> gets the registry and its copy of the grant and returns
  both; the copy is written back after it, over whatever the handler put at that key.
\<close>

section \<open>Updating one record\<close>

definition update_grant ::
  "string \<Rightarrow> (registry \<Rightarrow> task_grant \<Rightarrow> err + (registry \<times> task_grant \<times> 'a)) \<Rightarrow> registry \<Rightarrow>
   err + (registry \<times> 'a)" where
  "update_grant i fn st =
    (case grant_of st i of
       None \<Rightarrow> Inl ErrUnauthorized
     | Some g \<Rightarrow>
         (case fn st g of
            Inl x \<Rightarrow> Inl x
          | Inr (st1, g1, a) \<Rightarrow> Inr (put_grant i g1 st1, a)))"

definition update_terminal ::
  "string \<Rightarrow> (terminal \<Rightarrow> err + terminal) \<Rightarrow> registry \<Rightarrow> err + (registry \<times> unit)" where
  "update_terminal i fn st =
    (case terminal_of st i of
       None \<Rightarrow> Inl ErrUnauthorized
     | Some t \<Rightarrow> (case fn t of Inl x \<Rightarrow> Inl x | Inr t1 \<Rightarrow> Inr (put_terminal i t1 st, ())))"

section \<open>Predicates on the records\<close>

definition currentSessionTurn :: "registry \<Rightarrow> task_grant \<Rightarrow> bool" where
  "currentSessionTurn st g =
    (case session_of st (g_WorkerSessionID g) of
       None \<Rightarrow> False
     | Some ws \<Rightarrow>
         ws_ActiveAttempt ws = g_AttemptID g \<and> ws_TurnSequence ws = g_TurnSequence g \<and>
         ws_StorageID ws = g_StorageID g \<and> ws_PodUID ws = g_PodUID g \<and> ws_PVCUID ws = g_PVCUID g \<and>
         ws_Conversation ws = g_Conversation g \<and> \<not> g_TurnComplete g)"

definition preparedMatchesConversation :: "prepared \<Rightarrow> task_grant \<Rightarrow> bool" where
  "preparedMatchesConversation p g =
    (if g_WorkerSessionID g = [] then p_Conversation p = None \<and> p_WorkspaceAnchorTaskID p = []
     else p_Conversation p = Some (g_Conversation g) \<and>
          p_WorkspaceAnchorTaskID p = g_WorkspaceAnchorTaskID g)"

definition eventsSettled :: "task_grant \<Rightarrow> bool" where
  "eventsSettled g = list_all (\<lambda>ev. e_State ev = EvDelivered \<or> e_State ev = EvLocal) (g_Events g)"

definition deliverySettled :: "registry \<Rightarrow> string \<Rightarrow> bool" where
  "deliverySettled st i =
    (case terminal_of st i of
       None \<Rightarrow> True
     | Some t \<Rightarrow>
         (case t_RecoveryFailure t of
            Some rf \<Rightarrow> rf_State rf = DDelivered \<or> rf_State rf = DRejected
          | None \<Rightarrow> t_State t = DDelivered \<or> t_State t = DRejected))"

definition stopGenerationCurrent :: "registry \<Rightarrow> task_grant \<Rightarrow> bool" where
  "stopGenerationCurrent st g =
    (if g_StorageID g = [] then False
     else let b = get_storage st (g_StorageID g) in
       if b_ActiveAttempt b \<noteq> g_AttemptID g \<and> \<not> (g_State g = Closed \<and> b_ActiveAttempt b = []) then False
       else list_all (\<lambda>other. \<not> (g_TaskID other = g_TaskID g \<and> g_Generation other > g_Generation g))
              (mvals (r_Grants st)))"

definition pending_total :: "registry \<Rightarrow> nat \<times> int" where
  "pending_total st =
    (let ps = filter (\<lambda>(i, _). \<not> deliverySettled st i) (r_Terminals st) in
     (length ps,
      sum_list (map (\<lambda>(_, t). int (length (t_Body t)) +
        (case t_RecoveryFailure t of None \<Rightarrow> 0 | Some rf \<Rightarrow> int (length (rf_Body rf)))) ps)))"

definition checkPendingBudget :: "env \<Rightarrow> registry \<Rightarrow> int \<Rightarrow> err + unit" where
  "checkPendingBudget e st incoming =
    (let (count, total) = pending_total st in
     if int count \<ge> o_MaxPendingResults e \<or> total \<ge> o_MaxPendingResultBytes e \<or>
        incoming > o_MaxPendingResultBytes e - total
     then Inl ErrAdmissionBudget else Inr ())"

section \<open>Resource creation intent\<close>

record resource_creation =
  rs_PodCreateRequested :: "bool option"
  rs_SecretCreateRequested :: "bool option"
  rs_PodRequest :: string
  rs_PodUID :: string
  rs_SecretUID :: string
  rs_PodDigest :: string

definition zero_resource_creation :: resource_creation where
  "zero_resource_creation =
    \<lparr>rs_PodCreateRequested = None, rs_SecretCreateRequested = None, rs_PodRequest = [], rs_PodUID = [],
     rs_SecretUID = [], rs_PodDigest = []\<rparr>"

definition dec_reference :: "string \<times> string \<times> string \<Rightarrow> json \<Rightarrow> (string \<times> string \<times> string) option" where
  "dec_reference z v =
    (let names = [''podUID'', ''secretUID'', ''podDigest''] in
     dec_struct z (\<lambda>ms.
       case (dec_field dec_string (fst z) names ''podUID'' ms,
             dec_field dec_string (fst (snd z)) names ''secretUID'' ms,
             dec_field dec_string (snd (snd z)) names ''podDigest'' ms) of
         (Some p, Some s, Some d) \<Rightarrow> Some (p, s, d)
       | _ \<Rightarrow> None) v)"

definition dec_resource_creation :: "json \<Rightarrow> resource_creation option" where
  "dec_resource_creation v =
    (let names = [''podCreateRequested'', ''secretCreateRequested'', ''podRequest'', ''reference''] in
     dec_struct zero_resource_creation (\<lambda>ms.
       case (dec_field dec_bool_ptr None names ''podCreateRequested'' ms,
             dec_field dec_bool_ptr None names ''secretCreateRequested'' ms,
             dec_field dec_raw [] names ''podRequest'' ms,
             dec_field dec_reference ([], [], []) names ''reference'' ms) of
         (Some pc, Some sc, Some pr, Some (pu, su, pd)) \<Rightarrow>
           Some \<lparr>rs_PodCreateRequested = pc, rs_SecretCreateRequested = sc, rs_PodRequest = pr,
                 rs_PodUID = pu, rs_SecretUID = su, rs_PodDigest = pd\<rparr>
       | _ \<Rightarrow> None) v)"

definition resources_without_worker :: "string \<Rightarrow> bool" where
  "resources_without_worker raw =
    (raw = [] \<or>
     (case unmarshal dec_resource_creation raw of
        None \<Rightarrow> False
      | Some r \<Rightarrow> rs_PodCreateRequested r = Some False \<and> rs_PodUID r = []))"

definition noWorkerCreated :: "task_grant \<Rightarrow> bool" where
  "noWorkerCreated g =
    (if g_PodUID g \<noteq> [] \<or> g_SupervisorKey g \<noteq> [] \<or> g_StopKey g \<noteq> [] then False
     else resources_without_worker (g_Resources g))"

definition preservesResourceCreation :: "string \<Rightarrow> string \<Rightarrow> bool \<Rightarrow> bool" where
  "preservesResourceCreation old nxt stopping =
    (case (if old = [] then Some zero_resource_creation else unmarshal dec_resource_creation old,
           unmarshal dec_resource_creation nxt) of
       (Some before, Some after) \<Rightarrow>
         (if stopping \<and>
             (rs_SecretCreateRequested after = Some True \<and> rs_SecretCreateRequested before \<noteq> Some True \<or>
              rs_PodCreateRequested after = Some True \<and> rs_PodCreateRequested before \<noteq> Some True) then False
          else if rs_PodCreateRequested before = Some True \<and> rs_PodCreateRequested after \<noteq> Some True \<or>
             rs_SecretCreateRequested before = Some True \<and> rs_SecretCreateRequested after \<noteq> Some True then False
          else if rs_PodCreateRequested before = Some True \<and>
             (rs_PodDigest before \<noteq> [] \<and> rs_PodDigest before \<noteq> rs_PodDigest after \<or>
              rs_PodRequest before \<noteq> [] \<and>
                compactJSON (rs_PodRequest before) \<noteq> compactJSON (rs_PodRequest after)) then False
          else (rs_PodUID before = [] \<or> rs_PodUID before = rs_PodUID after) \<and>
               (rs_SecretUID before = [] \<or> rs_SecretUID before = rs_SecretUID after))
     | _ \<Rightarrow> False)"

text \<open>\<^verbatim>\<open>preparationStoppedWithoutWorker\<close> reads one plain boolean of the same document.\<close>

definition dec_pod_create :: "json \<Rightarrow> bool option" where
  "dec_pod_create v =
    dec_struct False (\<lambda>ms. dec_field dec_bool False [''podCreateRequested''] ''podCreateRequested'' ms) v"

definition preparationStoppedWithoutWorker :: "task_grant \<Rightarrow> bool" where
  "preparationStoppedWithoutWorker g =
    (if g_PreparationStarted g \<and> \<not> g_PreparationStopped g \<or> g_PodUID g \<noteq> [] \<or> g_SupervisorKey g \<noteq> [] then False
     else if g_Resources g = [] then True
     else (case unmarshal dec_pod_create (g_Resources g) of None \<Rightarrow> False | Some b \<Rightarrow> \<not> b))"

section \<open>Deadlines and fences\<close>

definition turn_deadline :: "task_grant \<Rightarrow> time option" where
  "turn_deadline g =
    unmarshal (\<lambda>v. dec_struct 0 (\<lambda>ms. dec_field dec_time 0 [''deadline''] ''deadline'' ms) v) (g_Assignment g)"

definition turnBeforeDeadline :: "task_grant \<Rightarrow> time \<Rightarrow> bool" where
  "turnBeforeDeadline g now =
    (case turn_deadline g of None \<Rightarrow> False | Some d \<Rightarrow> d \<noteq> 0 \<and> now < d)"

definition sessionWritersFenced :: "registry \<Rightarrow> worker_session \<Rightarrow> bool" where
  "sessionWritersFenced st ws =
    (let i = (if ws_ActiveAttempt ws = [] then (case ws_Stop ws of None \<Rightarrow> [] | Some s \<Rightarrow> ssp_ActiveAttempt s)
              else ws_ActiveAttempt ws)
     in if i = [] then True
        else let g = get_grant st i in
          g_CheckoutClosed g \<and> \<not> g_CheckoutNeedsFlush g \<and> g_CheckoutProcess g = None \<and>
          (\<not> g_PreparationStarted g \<or> g_PreparationStopped g))"

section \<open>Stopping a session\<close>

text \<open>The nonces are the call's fresh UUIDs 0 (session) and 1 (grant).  The grant is stored
  under its own attempt identity, as the code does.\<close>

definition stopped_session :: "call \<Rightarrow> string \<Rightarrow> time \<Rightarrow> worker_session \<Rightarrow> worker_session" where
  "stopped_session c reason now ws =
    (let ws1 = (case ws_Stop ws of
                  Some _ \<Rightarrow> ws
                | None \<Rightarrow> ws\<lparr>ws_Revision := ws_Revision ws + 1,
                    ws_Stop := Some \<lparr>ssp_ActiveAttempt = ws_ActiveAttempt ws, ssp_ControllerWritersStopped = False,
                      ssp_Reason = reason, ssp_Revision = ws_Revision ws + 1, ssp_Nonce = c_uuid c 0,
                      ssp_RequestedAt = now, ssp_Receipt = None, ssp_Evidence = None, ssp_RequestProof = None,
                      ssp_RequestReason = [], ssp_ReceiptProof = None\<rparr>\<rparr>)
     in if ws_State ws1 \<noteq> SessionClosed \<and> ws_State ws1 \<noteq> SessionQuarantined
        then ws1\<lparr>ws_State := SessionDraining\<rparr> else ws1)"

definition stop_record_for :: "string \<Rightarrow> time \<Rightarrow> string \<Rightarrow> stop_record" where
  "stop_record_for reason now nonce =
    \<lparr>sp_Reason = reason, sp_Revision = 1, sp_Nonce = nonce, sp_RequestedAt = now, sp_Receipt = None,
     sp_Evidence = None\<rparr>"

definition revoked_grant :: "call \<Rightarrow> string \<Rightarrow> time \<Rightarrow> task_grant \<Rightarrow> task_grant" where
  "revoked_grant c reason now g =
    g\<lparr>g_ExecutionRevoked := True,
      g_Stop := (case g_Stop g of Some s \<Rightarrow> Some s | None \<Rightarrow> Some (stop_record_for reason now (c_uuid c 1)))\<rparr>"

definition requestSessionStop ::
  "call \<Rightarrow> string \<Rightarrow> time \<Rightarrow> registry \<Rightarrow> worker_session \<Rightarrow> registry \<times> worker_session" where
  "requestSessionStop c reason now st ws =
    (let ws1 = stopped_session c reason now ws in
     if ws_ActiveAttempt ws1 \<noteq> [] then
       let g = revoked_grant c reason now (get_grant st (ws_ActiveAttempt ws1))
       in (put_grant (g_AttemptID g) g st, ws1)
     else (st, ws1))"

end
