(* ===== verification/Resident.thy ===== *)
theory Resident
  imports Journal_Updates
begin

text \<open>
  The bound on physical Pods (\<^verbatim>\<open>resident.go\<close>): \<^verbatim>\<open>admitResident\<close> counts live
  sessions and live Pods of earlier grants, refuses at the limit and then drains at most one
  idle session, the one idle longest.
\<close>

definition counts_session :: "worker_session \<Rightarrow> bool" where
  "counts_session ws = (\<not> (ws_State ws = SessionClosed \<and> ws_ResourcesCleaned ws))"

definition counts_legacy :: "task_grant \<Rightarrow> bool" where
  "counts_legacy g =
    (g_WorkerSessionID g = [] \<and> g_StorageID g \<noteq> [] \<and> \<not> (g_State g = Closed \<and> g_CleanupComplete g) \<and>
     (\<not> noWorkerCreated g \<or> g_State g = Intent \<and> g_Stop g = None))"

definition session_leaving :: "worker_session \<Rightarrow> bool" where
  "session_leaving ws = (ws_State ws = SessionDraining \<or> ws_State ws = SessionClosed)"

definition legacy_leaving :: "task_grant \<Rightarrow> bool" where
  "legacy_leaving g = (g_Stop g \<noteq> None \<or> g_State g = Closed)"

definition resident_count :: "registry \<Rightarrow> nat" where
  "resident_count st =
    length (filter counts_session (mvals (r_Sessions st))) + length (filter counts_legacy (mvals (r_Grants st)))"

definition draining_count :: "registry \<Rightarrow> nat" where
  "draining_count st =
    length (filter (\<lambda>ws. counts_session ws \<and> session_leaving ws) (mvals (r_Sessions st))) +
    length (filter (\<lambda>g. counts_legacy g \<and> legacy_leaving g) (mvals (r_Grants st)))"

definition idle_before :: "worker_session \<Rightarrow> worker_session \<Rightarrow> bool" where
  "idle_before a b = (ws_IdleSince a < ws_IdleSince b \<or> ws_IdleSince a = ws_IdleSince b \<and> ws_ID a < ws_ID b)"

definition older_idle :: "worker_session option \<Rightarrow> worker_session \<Rightarrow> worker_session option" where
  "older_idle oldest ws =
    (if ws_State ws = SessionIdle \<and> (case oldest of None \<Rightarrow> True | Some b \<Rightarrow> idle_before ws b)
     then Some ws else oldest)"

definition oldest_idle :: "registry \<Rightarrow> worker_session option" where
  "oldest_idle st = foldl older_idle None (mvals (r_Sessions st))"

definition admitResident :: "call \<Rightarrow> registry \<Rightarrow> int \<Rightarrow> time \<Rightarrow> bool \<times> registry" where
  "admitResident c st limit now =
    (if int (resident_count st) < limit then (True, st)
     else case oldest_idle st of
            None \<Rightarrow> (False, st)
          | Some ws \<Rightarrow>
              (if int (draining_count st) < int (resident_count st) - limit + 1 then
                 (let (st1, ws1) = requestSessionStop c ''resident_capacity'' now st ws
                  in (False, put_session (ws_ID ws1) ws1 st1))
               else (False, st)))"

end
