(* ===== verification/Go_Regexp.thy ===== *)
theory Go_Regexp
  imports Go_Strings
begin

text \<open>
  What the source uses of Go's \<^verbatim>\<open>regexp\<close>: whole-text matching of regular expressions
  over bytes, by Brzozowski derivatives.  \<open>matches_iff\<close> relates the matcher to the language
  an expression denotes.
\<close>

datatype rx =
    Empty
  | Eps
  | Cls "(nat \<times> nat) list"
  | Alt rx rx
  | Cat rx rx
  | Rep rx

definition in_class :: "(nat \<times> nat) list \<Rightarrow> char \<Rightarrow> bool" where
  "in_class rs c = list_ex (\<lambda>(a, b). in_range a b c) rs"

fun nullable :: "rx \<Rightarrow> bool" where
  "nullable Empty = False"
| "nullable Eps = True"
| "nullable (Cls rs) = False"
| "nullable (Alt r s) = (nullable r \<or> nullable s)"
| "nullable (Cat r s) = (nullable r \<and> nullable s)"
| "nullable (Rep r) = True"

definition mk_alt :: "rx \<Rightarrow> rx \<Rightarrow> rx" where
  "mk_alt r s = (if r = Empty then s else if s = Empty then r else if r = s then r else Alt r s)"

definition mk_cat :: "rx \<Rightarrow> rx \<Rightarrow> rx" where
  "mk_cat r s = (if r = Empty \<or> s = Empty then Empty else if r = Eps then s else Cat r s)"

fun deriv :: "char \<Rightarrow> rx \<Rightarrow> rx" where
  "deriv c Empty = Empty"
| "deriv c Eps = Empty"
| "deriv c (Cls rs) = (if in_class rs c then Eps else Empty)"
| "deriv c (Alt r s) = mk_alt (deriv c r) (deriv c s)"
| "deriv c (Cat r s) =
    (if nullable r then mk_alt (mk_cat (deriv c r) s) (deriv c s) else mk_cat (deriv c r) s)"
| "deriv c (Rep r) = mk_cat (deriv c r) (Rep r)"

fun matches :: "rx \<Rightarrow> string \<Rightarrow> bool" where
  "matches r [] = nullable r"
| "matches r (c # s) = matches (deriv c r) s"

fun lit :: "string \<Rightarrow> rx" where
  "lit [] = Eps"
| "lit [c] = Cls [(of_char c, of_char c)]"
| "lit (c # s) = Cat (Cls [(of_char c, of_char c)]) (lit s)"

fun times_rx :: "nat \<Rightarrow> rx \<Rightarrow> rx" where
  "times_rx 0 r = Eps"
| "times_rx (Suc n) r = Cat r (times_rx n r)"

definition plus_rx :: "rx \<Rightarrow> rx" where "plus_rx r = Cat r (Rep r)"
definition opt_rx :: "rx \<Rightarrow> rx" where "opt_rx r = Alt Eps r"

section \<open>The language of an expression\<close>

inductive_set star :: "string set \<Rightarrow> string set" for A where
  star_nil: "[] \<in> star A"
| star_cons: "u \<in> A \<Longrightarrow> v \<in> star A \<Longrightarrow> u @ v \<in> star A"

fun lang :: "rx \<Rightarrow> string set" where
  "lang Empty = {}"
| "lang Eps = {[]}"
| "lang (Cls rs) = {[c] |c. in_class rs c}"
| "lang (Alt r s) = lang r \<union> lang s"
| "lang (Cat r s) = {u @ v |u v. u \<in> lang r \<and> v \<in> lang s}"
| "lang (Rep r) = star (lang r)"

lemma nullable_lang: "nullable r \<longleftrightarrow> [] \<in> lang r"
  by (induction r) (auto intro: star_nil)

lemma lang_mk_alt [simp]: "lang (mk_alt r s) = lang r \<union> lang s"
  by (auto simp: mk_alt_def)

lemma lang_mk_cat [simp]: "lang (mk_cat r s) = lang (Cat r s)"
  by (auto simp: mk_cat_def)

lemma star_Cons:
  assumes "c # w \<in> star A"
  shows "\<exists>u v. w = u @ v \<and> c # u \<in> A \<and> v \<in> star A"
proof -
  have "x \<in> star A \<Longrightarrow> x = c # w \<Longrightarrow> \<exists>u v. w = u @ v \<and> c # u \<in> A \<and> v \<in> star A" for x
    by (induction x rule: star.induct) (auto simp: append_eq_Cons_conv)
  with assms show ?thesis by blast
qed

lemma lang_deriv: "w \<in> lang (deriv c r) \<longleftrightarrow> c # w \<in> lang r"
proof (induction r arbitrary: w)
  case (Cat r s)
  then show ?case
    by (auto simp: nullable_lang Cons_eq_append_conv)
next
  case (Rep r)
  show ?case
  proof
    assume "w \<in> lang (deriv c (Rep r))"
    with Rep show "c # w \<in> lang (Rep r)"
      by auto (metis append_Cons star_cons)
  next
    assume "c # w \<in> lang (Rep r)"
    with Rep show "w \<in> lang (deriv c (Rep r))"
      by (auto dest!: star_Cons)
  qed
qed auto

lemma matches_iff: "matches r w \<longleftrightarrow> w \<in> lang r"
  by (induction w arbitrary: r) (simp_all add: nullable_lang lang_deriv)

end
