(* ===== verification/Runtime_Image.thy ===== *)
theory Runtime_Image
  imports Go_Regexp Messages
begin

text \<open>
  The immutable runtime image a grant is bound to (\<^verbatim>\<open>internal/runtimeimage/types.go\<close>,
  \<^verbatim>\<open>internal/core/core.go\<close>): the reference grammar of a pullable image, the checks of a
  reference and its fingerprint.
\<close>

section \<open>The controller contract\<close>

definition digit_rx :: rx where "digit_rx = Cls [(48, 57)]"

definition go_version_rx :: rx where
  "go_version_rx =
    Cat (lit ''go'') (Cat (Cls [(49, 57)]) (Cat (Rep digit_rx)
      (Cat (lit ''.'') (Cat (plus_rx digit_rx) (Cat (lit ''.'') (plus_rx digit_rx))))))"

definition ValidSHA :: "string \<Rightarrow> bool" where
  "ValidSHA v = (length v = 64 \<and> list_all is_lower_hex v)"

definition SupportedPlatform :: "string \<Rightarrow> bool" where
  "SupportedPlatform v = (v = ''linux/amd64'' \<or> v = ''linux/arm64'')"

definition Contract_Validate :: "contract \<Rightarrow> string \<Rightarrow> err + unit" where
  "Contract_Validate c platform =
    (if \<not> ValidSHA (co_BuildID c) \<or> \<not> SupportedPlatform (co_Platform c) \<or> co_Platform c \<noteq> platform
     then Inl (ErrText ''controller build/platform mismatch'')
     else if \<not> ValidSHA (co_RuntimeSHA256 c) \<or> \<not> matches go_version_rx (co_GoVersion c) \<or>
        \<not> is_abs (co_RuntimePath c) \<or> clean_path (co_RuntimePath c) \<noteq> co_RuntimePath c \<or>
        path_base (co_RuntimePath c) \<noteq> ''runtime'' \<or> path_dir (co_RuntimePath c) = ''/''
     then Inl (ErrText ''invalid controller executable or Go SDK contract'')
     else Inr ())"

section \<open>The image reference\<close>

definition alnum_rx :: rx where "alnum_rx = Cls [(97, 122), (48, 57)]"

definition component_rx :: rx where
  "component_rx =
    Cat (plus_rx alnum_rx)
      (Rep (Cat (Alt (Cls [(46, 46), (95, 95)]) (Alt (lit ''__'') (plus_rx (lit ''-'')))) (plus_rx alnum_rx)))"

definition any_alnum_rx :: rx where "any_alnum_rx = Cls [(97, 122), (65, 90), (48, 57)]"

definition label_rx :: rx where
  "label_rx =
    Cat any_alnum_rx (opt_rx (Cat (Rep (Cls [(97, 122), (65, 90), (48, 57), (45, 45)])) any_alnum_rx))"

definition registry_host_rx :: rx where
  "registry_host_rx =
    Cat (Alt (Cat label_rx (Rep (Cat (lit ''.'') label_rx)))
             (Cat (lit ''['') (Cat (plus_rx (Cls [(97, 102), (65, 70), (48, 57), (58, 58)])) (lit '']''))))
        (opt_rx (Cat (lit '':'') (plus_rx digit_rx)))"

definition repository_digest_rx :: rx where
  "repository_digest_rx =
    Cat (opt_rx (Cat registry_host_rx (lit ''/'')))
      (Cat component_rx (Cat (Rep (Cat (lit ''/'') component_rx))
        (Cat (lit ''@sha256:'') (times_rx 64 (Cls [(97, 102), (48, 57)])))))"

definition NormalizeImageID :: "string \<Rightarrow> err + string" where
  "NormalizeImageID v0 =
    (let v = trim_prefix v0 ''docker-pullable://''
     in if \<not> matches repository_digest_rx v
        then Inl (ErrText ''runtime imageID is not a pullable repository digest'') else Inr v)"

section \<open>Installed executables\<close>

definition mutable_roots :: "string list" where
  "mutable_roots =
    [''/home'', ''/workspace'', ''/tmp'', ''/run'', ''/var'', ''/proc'', ''/sys'', ''/dev'', ''/mnt'', ''/media'']"

definition ImmutablePath :: "string \<Rightarrow> bool" where
  "ImmutablePath p =
    (if \<not> is_abs p \<or> clean_path p \<noteq> p \<or> p = ''/'' \<or> contains_any p [nul_char, nl_char, cr_char] then False
     else list_all (\<lambda>root. \<not> (p = root \<or> prefix (root @ ''/'') p)) mutable_roots)"

definition core_root :: string where "core_root = ''/opt/multica/controller''"
definition adapter_contract :: string where "adapter_contract = ''multica-v0.4.43-helper-agent-v1''"

definition Executable_validate :: "executable \<Rightarrow> err + unit" where
  "Executable_validate x =
    (if \<not> ImmutablePath (ex_Path x) \<or> trim_space (ex_Version x) \<noteq> ex_Version x \<or> ex_Version x = [] \<or>
        contains_any (ex_Version x) [nul_char, nl_char, cr_char] \<or> \<not> ValidSHA (ex_SHA256 x)
     then Inl (ErrText ''invalid installed executable descriptor'')
     else if ex_Path x = core_root \<or> prefix (core_root @ ''/'') (ex_Path x)
     then Inl (ErrText ''provider or daemon points at controller code'') else Inr ())"

fun validate_providers :: "executable gomap \<Rightarrow> err + unit" where
  "validate_providers [] = Inr ()"
| "validate_providers ((i, p) # ps) =
    (if trim_space i \<noteq> i \<or> i = [] \<or> contains_any i [nul_char, cr_char, nl_char]
     then Inl (ErrText ''invalid runtime inventory identifier'')
     else case Executable_validate p of Inl x \<Rightarrow> Inl x | Inr _ \<Rightarrow> validate_providers ps)"

definition validateComponents :: "contract \<Rightarrow> daemon \<Rightarrow> executable gomap \<Rightarrow> string \<Rightarrow> err + unit" where
  "validateComponents controller d installed platform =
    bind_res (Contract_Validate controller platform) (\<lambda>_.
    bind_res (Executable_validate (dm_Executable d)) (\<lambda>_.
      if dm_AdapterContract d \<noteq> adapter_contract
      then Inl (ErrText ''unsupported official daemon adapter contract'')
      else if installed = [] then Inl (ErrText ''runtime image must enable a supported provider'')
      else validate_providers installed))"

definition Ref_Validate :: "env \<Rightarrow> runtime_ref \<Rightarrow> err + unit" where
  "Ref_Validate e r =
    (if NormalizeImageID (rr_Image r) \<noteq> Inr (rr_Image r) \<or> \<not> canonicalUUID e (rr_ImageBuildID r) \<or>
        \<not> ValidSHA (rr_DescriptorDigest r) \<or> \<not> ValidSHA (rr_ConfigurationDigest r)
     then Inl (ErrText ''invalid runtime reference; bound image/configuration required'')
     else validateComponents (rr_Controller r) (rr_Daemon r) (rr_Providers r) (rr_Platform r))"

section \<open>The fingerprint\<close>

definition executable_json :: "executable \<Rightarrow> (string \<times> json) list" where
  "executable_json x =
    [(''path'', jstr (ex_Path x)), (''version'', jstr (ex_Version x)), (''sha256'', jstr (ex_SHA256 x))]"

definition contract_json :: "contract \<Rightarrow> json" where
  "contract_json c =
    JObj [(''buildID'', jstr (co_BuildID c)), (''platform'', jstr (co_Platform c)),
      (''runtimePath'', jstr (co_RuntimePath c)), (''runtimeSHA256'', jstr (co_RuntimeSHA256 c)),
      (''goVersion'', jstr (co_GoVersion c))]"

definition ref_json :: "runtime_ref \<Rightarrow> json" where
  "ref_json r =
    JObj [(''image'', jstr (rr_Image r)), (''platform'', jstr (rr_Platform r)),
      (''imageBuildID'', jstr (rr_ImageBuildID r)), (''descriptorDigest'', jstr (rr_DescriptorDigest r)),
      (''controller'', contract_json (rr_Controller r)),
      (''daemon'', JObj (executable_json (dm_Executable (rr_Daemon r)) @
        [(''adapterContract'', jstr (dm_AdapterContract (rr_Daemon r)))])),
      (''providers'', jmap (\<lambda>x. JObj (executable_json x)) (rr_Providers r)),
      (''configurationDigest'', jstr (rr_ConfigurationDigest r))]"

definition RuntimeFingerprint :: "env \<Rightarrow> runtime_ref \<Rightarrow> string" where
  "RuntimeFingerprint e r = e_digest e (json_text (ref_json r))"

text \<open>\<^verbatim>\<open>Ref.Equal\<close> compares the encodings.\<close>

definition Ref_Equal :: "runtime_ref \<Rightarrow> runtime_ref \<Rightarrow> bool" where
  "Ref_Equal a b = (json_text (ref_json a) = json_text (ref_json b))"

section \<open>A concrete reference\<close>

definition sample_sha :: string where
  "sample_sha = ''aaaaaaaaaaaaaaaaaaaaaaaaaaaaaaaaaaaaaaaaaaaaaaaaaaaaaaaaaaaaaaaa''"

definition sample_ref :: runtime_ref where
  "sample_ref =
    \<lparr>rr_Image = ''ghcr.io/korio/rt@sha256:aaaaaaaaaaaaaaaaaaaaaaaaaaaaaaaaaaaaaaaaaaaaaaaaaaaaaaaaaaaaaaaa'',
     rr_Platform = ''linux/amd64'', rr_ImageBuildID = uuid_a, rr_DescriptorDigest = sample_sha,
     rr_Controller = \<lparr>co_BuildID = sample_sha, co_Platform = ''linux/amd64'',
       co_RuntimePath = ''/opt/multica/controller/runtime'', co_RuntimeSHA256 = sample_sha, co_GoVersion = ''go1.25.0''\<rparr>,
     rr_Daemon = \<lparr>dm_Executable = \<lparr>ex_Path = ''/usr/bin/multica'', ex_Version = ''0.4.43'', ex_SHA256 = sample_sha\<rparr>,
       dm_AdapterContract = adapter_contract\<rparr>,
     rr_Providers = [(''codex'', \<lparr>ex_Path = ''/usr/bin/codex'', ex_Version = ''1.0'', ex_SHA256 = sample_sha\<rparr>)],
     rr_ConfigurationDigest = sample_sha\<rparr>"

lemma times_rx_numeral: "times_rx (numeral k) r = Cat r (times_rx (pred_numeral k) r)"
  by (simp add: numeral_eq_Suc)

lemmas runtime_image_eval [eval] =
  times_rx_numeral in_class_def mk_alt_def mk_cat_def plus_rx_def opt_rx_def digit_rx_def go_version_rx_def
  ValidSHA_def SupportedPlatform_def Contract_Validate_def alnum_rx_def component_rx_def any_alnum_rx_def
  label_rx_def registry_host_rx_def repository_digest_rx_def NormalizeImageID_def mutable_roots_def
  ImmutablePath_def core_root_def adapter_contract_def Executable_validate_def sample_sha_def

lemma sample_image: "NormalizeImageID (rr_Image sample_ref) = Inr (rr_Image sample_ref)"
  by (simp add: sample_ref_def eval)

lemma sample_components:
  "validateComponents (rr_Controller sample_ref) (rr_Daemon sample_ref) (rr_Providers sample_ref)
    (rr_Platform sample_ref) = Inr ()"
  by (simp add: sample_ref_def validateComponents_def eval)

lemma sample_ref_valid [simp]: "Ref_Validate (sample_env owner) sample_ref = Inr ()"
proof -
  have "canonicalUUID (sample_env owner) (rr_ImageBuildID sample_ref)"
    "ValidSHA (rr_DescriptorDigest sample_ref)" "ValidSHA (rr_ConfigurationDigest sample_ref)"
    by (simp add: sample_ref_def, simp_all add: sample_ref_def eval)
  then show ?thesis
    using sample_components by (simp add: Ref_Validate_def sample_image)
qed

end
