(* ===== verification/Prepared.thy ===== *)
theory Prepared
  imports Runtime_Image
begin

text \<open>
  The preparation a grant carries: private native metadata
  (\<^verbatim>\<open>native_metadata.go\<close>), the cleanup manifest and \<^verbatim>\<open>ValidatePrepared\<close>
  (\<^verbatim>\<open>prepare.go\<close>).  What \<^verbatim>\<open>ValidateSession\<close> finds in the task's files is the field
  \<open>c_session_ok\<close> of a call.
\<close>

section \<open>Encoding\<close>

text \<open>An object one of whose fields may fail to encode.\<close>

fun obj_opt :: "(string \<times> json option) list \<Rightarrow> json option" where
  "obj_opt [] = Some (JObj [])"
| "obj_opt ((k, v) # fs) =
    (case (v, obj_opt fs) of
       (Some j, Some (JObj ms)) \<Rightarrow> Some (JObj ((k, j) # ms))
     | _ \<Rightarrow> None)"

text \<open>\<^verbatim>\<open>Time.MarshalJSON\<close> fails outside the years 0 to 9999.\<close>

definition jtime :: "time \<Rightarrow> json option" where
  "jtime t =
    (let (y, _, _) = civil_from_days (t div second div 86400)
     in if 0 \<le> y \<and> y \<le> 9999 then Some (JStr (rfc3339_nano t)) else None)"

definition omit_if :: "bool \<Rightarrow> string \<Rightarrow> json option \<Rightarrow> (string \<times> json option) list" where
  "omit_if b k v = (if b then [] else [(k, v)])"

definition native_artifact_json :: "native_artifact \<Rightarrow> json" where
  "native_artifact_json a =
    JObj [(''path'', jstr (na_Path a)), (''sha256'', jstr (na_SHA256 a)), (''size'', jint (na_Size a))]"

definition native_metadata_json :: "native_metadata \<Rightarrow> json option" where
  "native_metadata_json m =
    obj_opt ([(''workerSessionID'', Some (jstr (nm_WorkerSessionID m))),
        (''turnSequence'', Some (ju64 (nm_TurnSequence m))), (''artifactRoot'', Some (jstr (nm_ArtifactRoot m))),
        (''artifacts'', Some (jopt (\<lambda>as. JArr (map native_artifact_json as)) (nm_Artifacts m)))] @
      omit_if (nm_CodexConfig m = []) ''codexConfig'' (Some (jbytes (nm_CodexConfig m))) @
      omit_if (nm_ClaudeSettings m = []) ''claudeSettings'' (marshal_raw (nm_ClaudeSettings m)) @
      omit_if (nm_ServiceTier m = []) ''serviceTier'' (marshal_raw (nm_ServiceTier m)) @
      [(''taskMarker'', marshal_raw (nm_TaskMarker m))] @
      omit_if (nm_ProjectResources m = []) ''projectResources'' (marshal_raw (nm_ProjectResources m)))"

definition NativeMetadata_Digest :: "env \<Rightarrow> native_metadata \<Rightarrow> string" where
  "NativeMetadata_Digest e m =
    (case native_metadata_json m of None \<Rightarrow> [] | Some j \<Rightarrow> e_digest e (json_text j))"

definition repository_json :: "repository \<Rightarrow> json" where
  "repository_json r =
    JObj (jomit (repo_ID r = []) ''id'' (jstr (repo_ID r)) @ [(''url'', jstr (repo_URL r))] @
      jomit (repo_Ref r = []) ''ref'' (jstr (repo_Ref r)) @
      jomit (repo_Description r = []) ''description'' (jstr (repo_Description r)))"

definition native_environment_json :: "native_environment \<Rightarrow> json" where
  "native_environment_json n =
    JObj ([(''rootDir'', jstr (ne_RootDir n)), (''workDir'', jstr (ne_WorkDir n)),
        (''multicaConfigRoot'', jstr (ne_MulticaConfigRoot n))] @
      jomit (ne_CodexHome n = []) ''codexHome'' (jstr (ne_CodexHome n)) @
      jomit (ne_ClaudeSettingsPath n = []) ''claudeSettingsPath'' (jstr (ne_ClaudeSettingsPath n)))"

definition prepared_json :: "prepared \<Rightarrow> json option" where
  "prepared_json p =
    obj_opt (omit_if (p_Conversation p = None) ''conversation'' (map_option conversation_key_json (p_Conversation p)) @
      omit_if (p_WorkspaceAnchorTaskID p = []) ''workspaceAnchorTaskID'' (Some (jstr (p_WorkspaceAnchorTaskID p))) @
      [(''digest'', Some (jstr (p_Digest p))), (''ownerID'', Some (jstr (p_OwnerID p))),
       (''workspaceID'', Some (jstr (p_WorkspaceID p))), (''taskID'', Some (jstr (p_TaskID p))),
       (''agentID'', Some (jstr (p_AgentID p))), (''attemptID'', Some (jstr (p_AttemptID p))),
       (''generation'', Some (ju64 (p_Generation p))), (''pvcUID'', Some (jstr (p_PVCUID p))),
       (''taskRoot'', Some (jstr (p_TaskRoot p))), (''provider'', Some (jstr (p_Provider p))),
       (''executable'', Some (jstr (p_Executable p))), (''runtimeDigest'', Some (jstr (p_RuntimeDigest p))),
       (''configurationDigest'', Some (jstr (p_ConfigurationDigest p))),
       (''environment'', Some (native_environment_json (p_Environment p))),
       (''repositories'', Some (jopt (\<lambda>rs. JArr (map repository_json rs)) (p_Repositories p))),
       (''skillIDs'', Some (jopt (\<lambda>rs. JArr (map jstr rs)) (p_SkillIDs p))),
       (''createdAt'', jtime (p_CreatedAt p)), (''cleanupManifest'', marshal_raw (p_CleanupManifest p)),
       (''allowedLinks'', Some (jopt (jmap jstr) (p_AllowedLinks p)))] @
      (case p_NativeMetadata p of None \<Rightarrow> [] | Some m \<Rightarrow> [(''nativeMetadata'', native_metadata_json m)]))"

text \<open>A failed encoding leaves nil bytes, whose digest is taken all the same.\<close>

definition preparedDigest :: "env \<Rightarrow> prepared \<Rightarrow> string" where
  "preparedDigest e p =
    e_digest e (case prepared_json (p\<lparr>p_Digest := []\<rparr>) of None \<Rightarrow> [] | Some j \<Rightarrow> json_text j)"

definition OmitNativeResources :: "env \<Rightarrow> prepared \<Rightarrow> prepared" where
  "OmitNativeResources e p =
    (case p_NativeMetadata p of
       None \<Rightarrow> p
     | Some m \<Rightarrow>
         (let p1 = p\<lparr>p_NativeMetadata := Some (m\<lparr>nm_ProjectResources := []\<rparr>)\<rparr>
          in p1\<lparr>p_Digest := preparedDigest e p1\<rparr>))"

section \<open>Native metadata\<close>

definition SupportedProvider :: "string \<Rightarrow> bool" where
  "SupportedProvider p = (p = ''codex'' \<or> p = ''pi'' \<or> p = ''claude'')"

definition native_task_bytes :: int where "native_task_bytes = 67108864"
definition preparation_bytes :: int where "preparation_bytes = 1048576"
definition max_assignment_bytes :: int where "max_assignment_bytes = 8388608"

definition native_metadata_view :: string where "native_metadata_view = ''/run/multica/native-metadata/current''"
definition task_resources_relative :: string where
  "task_resources_relative = ''workdir/.multica/project/resources.json''"

definition NativeArtifactRoot :: "string \<Rightarrow> string \<Rightarrow> u64 \<Rightarrow> string" where
  "NativeArtifactRoot taskRoot sessionID turn =
    path_join [taskRoot, ''.multica-runtime-artifacts'', sessionID, decimal (unat turn)]"

text \<open>The guard's fields, read as an untyped map: the last of equal keys counts.\<close>

definition raw_field :: "string \<Rightarrow> (string \<times> json) list \<Rightarrow> string option" where
  "raw_field k ms =
    (case map_of (rev (map (\<lambda>(x, v). (unquote x, v)) ms)) k of
       None \<Rightarrow> None
     | Some v \<Rightarrow> dec_string [] v)"

definition valid_marker :: "env \<Rightarrow> string \<Rightarrow> bool" where
  "valid_marker e raw =
    (case parse_json raw of
       Some (JObj ms) \<Rightarrow>
         (case (raw_field ''managed_by'' ms, raw_field ''agent_id'' ms) of
            (Some by, Some agent) \<Rightarrow> by = ''multica-daemon-task'' \<and> canonicalUUID e agent
          | _ \<Rightarrow> False)
     | _ \<Rightarrow> False)"

fun valid_artifacts :: "string \<Rightarrow> native_artifact list \<Rightarrow> bool" where
  "valid_artifacts prev [] = True"
| "valid_artifacts prev (a # as) =
    (fs_valid_path (na_Path a) \<and> \<not> contains (na_Path a) [CHR 0x5C] \<and> prefix ''skills/'' (na_Path a) \<and>
     ValidSHA (na_SHA256 a) \<and> 0 \<le> na_Size a \<and> na_Size a \<le> native_task_bytes \<and> prev < na_Path a \<and>
     valid_artifacts (na_Path a) as)"

definition NativeMetadata_Validate :: "env \<Rightarrow> native_metadata \<Rightarrow> string \<Rightarrow> string \<Rightarrow> err + unit" where
  "NativeMetadata_Validate e m provider taskRoot =
    (if \<not> SupportedProvider provider \<or> \<not> canonicalUUID e (nm_WorkerSessionID m) \<or> nm_TurnSequence m = 0 \<or>
        nm_ArtifactRoot m \<noteq> NativeArtifactRoot taskRoot (nm_WorkerSessionID m) (nm_TurnSequence m) \<or>
        nm_Artifacts m = None \<or> \<not> json_valid (nm_TaskMarker m)
     then Inl (ErrText ''invalid native metadata identity'')
     else if \<not> valid_marker e (nm_TaskMarker m) then Inl (ErrText ''invalid native task guard'')
     else if \<not> list_all (\<lambda>raw. raw = [] \<or> json_valid raw)
                [nm_ClaudeSettings m, nm_ServiceTier m, nm_ProjectResources m]
     then Inl (ErrText ''invalid private native JSON'')
     else if provider = ''codex'' \<and> nm_CodexConfig m = [] \<or> provider \<noteq> ''codex'' \<and> nm_CodexConfig m \<noteq> [] \<or>
        provider \<noteq> ''claude'' \<and> nm_ClaudeSettings m \<noteq> [] \<or> provider \<noteq> ''pi'' \<and> nm_ServiceTier m \<noteq> []
     then Inl (ErrText ''private native configuration belongs to a different provider'')
     else (case nm_Artifacts m of
             None \<Rightarrow> Inl (ErrText ''invalid native metadata identity'')
           | Some as \<Rightarrow>
               (if \<not> valid_artifacts [] as then Inl (ErrText ''invalid native artifact manifest'')
                else (case native_metadata_json m of
                        None \<Rightarrow> Inl (ErrText ''native metadata exceeds assignment or artifact budget'')
                      | Some j \<Rightarrow>
                          (if int (length (json_text j)) > max_assignment_bytes \<or>
                              sum_list (map na_Size as) > native_task_bytes
                           then Inl (ErrText ''native metadata exceeds assignment or artifact budget'')
                           else Inr ())))))"

definition NativeProjectionLinks :: "string \<Rightarrow> string gomap" where
  "NativeProjectionLinks provider =
    [(''workdir/.multica/daemon_task_context.json'', ''/run/multica/native-task-marker.json''),
     (task_resources_relative, native_metadata_view @ ''/resources.json'')] @
    (if provider = ''codex'' then
       [(''codex-home/config.toml'', native_metadata_view @ ''/codex/config.toml''),
        (''codex-home/skills'', native_metadata_view @ ''/codex/skills'')]
     else if provider = ''pi'' then
       [(''workdir/.pi/extensions/pi-openai-service-tier.json'',
         native_metadata_view @ ''/pi-openai-service-tier.json'')]
     else [])"

section \<open>The cleanup manifest\<close>

text \<open>A list of strings: elements decode over what is already at their place.\<close>

fun dec_strings_at :: "string list \<Rightarrow> json list \<Rightarrow> string list option" where
  "dec_strings_at old [] = Some []"
| "dec_strings_at old (v # vs) =
    (case (dec_string (case old of [] \<Rightarrow> [] | o1 # _ \<Rightarrow> o1) v, dec_strings_at (drop 1 old) vs) of
       (Some s, Some ss) \<Rightarrow> Some (s # ss)
     | _ \<Rightarrow> None)"

definition dec_strings :: "string list \<Rightarrow> json \<Rightarrow> string list option" where
  "dec_strings z v = (case v of JNull \<Rightarrow> Some [] | JArr vs \<Rightarrow> dec_strings_at z vs | _ \<Rightarrow> None)"

definition cleanup_names :: "string list" where "cleanup_names = [''files'', ''dirs'']"

definition dec_cleanup :: "json \<Rightarrow> (string list \<times> string list) option" where
  "dec_cleanup v =
    dec_struct ([], []) (\<lambda>ms.
      if \<not> list_all (\<lambda>(k, _). fold_name (unquote k) \<in> set cleanup_names) ms then None
      else (case (dec_field dec_strings [] cleanup_names ''files'' ms,
                  dec_field dec_strings [] cleanup_names ''dirs'' ms) of
              (Some fs, Some ds) \<Rightarrow> Some (fs, ds)
            | _ \<Rightarrow> None)) v"

fun cleanup_targets_ok :: "string \<Rightarrow> string list \<Rightarrow> string list \<Rightarrow> bool" where
  "cleanup_targets_ok root seen [] = True"
| "cleanup_targets_ok root seen (p # ps) =
    ((case path_rel root p of
        None \<Rightarrow> False
      | Some r \<Rightarrow> canonicalPath p \<and> fs_valid_path r \<and> r \<noteq> ''.'' \<and> p \<notin> set seen) \<and>
     cleanup_targets_ok root (p # seen) ps)"

definition decodeCleanup :: "string \<Rightarrow> string \<Rightarrow> err + (string list \<times> string list)" where
  "decodeCleanup taskRoot raw =
    (case decode_first raw of
       None \<Rightarrow> Inl (ErrText ''invalid native cleanup manifest'')
     | Some v \<Rightarrow>
         (case dec_cleanup v of
            None \<Rightarrow> Inl (ErrText ''invalid native cleanup manifest'')
          | Some (fs, ds) \<Rightarrow>
              (if parse_json raw = None then Inl (ErrText ''invalid trailing cleanup data'')
               else if \<not> cleanup_targets_ok taskRoot [] (fs @ ds)
               then Inl (ErrText ''cleanup target escapes or aliases the task'')
               else Inr (fs, ds))))"

section \<open>The whole preparation\<close>

definition nativeHomeRelative :: "string \<Rightarrow> string option" where
  "nativeHomeRelative p =
    (if p = ''codex-home/auth.json'' then Some ''.codex/auth.json''
     else if p = ''codex-home/plugins/cache'' then Some ''.codex/plugins/cache''
     else if \<not> prefix ''codex-home/skills/'' p then None
     else (let name = trim_prefix p ''codex-home/skills/'' in
       if name = ''.'' \<or> \<not> fs_valid_path name \<or>
          contains_any name [CHR ''/'', CHR 0x5C, nul_char, cr_char, nl_char]
       then None else Some (''.codex/skills/'' @ name)))"

definition preparedAnchor :: "prepared \<Rightarrow> string" where
  "preparedAnchor p = (if p_WorkspaceAnchorTaskID p \<noteq> [] then p_WorkspaceAnchorTaskID p else p_TaskID p)"

definition allowed_link_ok :: "prepared \<Rightarrow> string \<times> string \<Rightarrow> bool" where
  "allowed_link_ok p link =
    (let (path, target) = link in
     if p_NativeMetadata p \<noteq> None \<and> mget [] (NativeProjectionLinks (p_Provider p)) path = target then True
     else (case nativeHomeRelative path of
             None \<Rightarrow> False
           | Some relative \<Rightarrow>
               p_Provider p = ''codex'' \<and> canonicalPath target \<and> suffix (CHR ''/'' # relative) target))"

definition links_of :: "prepared \<Rightarrow> string gomap" where
  "links_of p = (case p_AllowedLinks p of None \<Rightarrow> [] | Some m \<Rightarrow> m)"

definition wanted_environment :: "prepared \<Rightarrow> native_environment" where
  "wanted_environment p =
    \<lparr>ne_RootDir = p_TaskRoot p, ne_WorkDir = path_join [p_TaskRoot p, ''workdir''],
     ne_MulticaConfigRoot = path_join [p_TaskRoot p, ''multica-config''],
     ne_CodexHome = (if p_Provider p = ''codex'' then path_join [p_TaskRoot p, ''codex-home''] else []),
     ne_ClaudeSettingsPath =
       (if p_Provider p = ''claude'' \<and> ne_ClaudeSettingsPath (p_Environment p) \<noteq> []
        then if p_NativeMetadata p \<noteq> None
             then native_metadata_view @ ''/claude-runtime-skill-settings.json''
             else path_join [p_TaskRoot p, ''claude-runtime-skill-settings.json'']
        else [])\<rparr>"

definition marker_agent :: "string \<Rightarrow> string option" where
  "marker_agent raw =
    unmarshal (\<lambda>v. dec_struct [] (\<lambda>ms. dec_field dec_string [] [''agent_id''] ''agent_id'' ms) v) raw"

definition ValidatePrepared :: "env \<Rightarrow> prepared \<Rightarrow> err + unit" where
  "ValidatePrepared e p =
    (if \<not> canonicalUUID e (p_OwnerID p) \<or> \<not> canonicalUUID e (p_WorkspaceID p) \<or> \<not> canonicalUUID e (p_TaskID p) \<or>
        \<not> canonicalUUID e (p_AgentID p) \<or> \<not> canonicalUUID e (p_AttemptID p) \<or> p_Generation p = 0 \<or>
        \<not> validOpaque (p_PVCUID p) \<or> \<not> canonicalPath (p_TaskRoot p) \<or> \<not> canonicalPath (p_Executable p) \<or>
        \<not> fingerprint (p_RuntimeDigest p) \<or> \<not> fingerprint (p_ConfigurationDigest p) \<or> p_CreatedAt p = 0 \<or>
        p_Digest p \<noteq> preparedDigest e p
     then Inl (ErrText ''invalid prepared task authority'')
     else if p_WorkspaceAnchorTaskID p \<noteq> [] \<and>
        (\<not> canonicalUUID e (p_WorkspaceAnchorTaskID p) \<or>
         (case p_Conversation p of
            None \<Rightarrow> True
          | Some k \<Rightarrow>
              \<not> ConversationKey_Valid e k \<or> ck_OwnerID k \<noteq> p_OwnerID p \<or> ck_WorkspaceID k \<noteq> p_WorkspaceID p \<or>
              ck_AgentID k \<noteq> p_AgentID p \<or> ck_Kind k = ConversationTask \<and> ck_SubjectID k \<noteq> p_TaskID p)) \<or>
        p_Conversation p \<noteq> None \<and> p_WorkspaceAnchorTaskID p = []
     then Inl (ErrText ''invalid conversation preparation authority'')
     else if \<not> SupportedProvider (p_Provider p) then Inl (ErrText ''unsupported prepared provider'')
     else if ValidateTaskRoot e (path_dir (path_dir (p_TaskRoot p))) (p_TaskRoot p) (p_WorkspaceID p)
               (preparedAnchor p) \<noteq> Inr ()
     then Inl (ErrText ''prepared root does not match task identity'')
     else if \<not> list_all (allowed_link_ok p) (links_of p)
     then Inl (ErrText ''prepared task contains an unsupported HOME link'')
     else if p_Environment p \<noteq> wanted_environment p \<or> p_CleanupManifest p = [] \<or>
        int (length (p_CleanupManifest p)) > preparation_bytes
     then Inl (ErrText ''invalid prepared environment'')
     else (case decodeCleanup (p_TaskRoot p) (p_CleanupManifest p) of
             Inl x \<Rightarrow> Inl x
           | Inr _ \<Rightarrow>
               (case p_NativeMetadata p of
                  None \<Rightarrow> Inr ()
                | Some m \<Rightarrow>
                    (if marker_agent (nm_TaskMarker m) \<noteq> Some (p_AgentID p)
                     then Inl (ErrText ''native guard belongs to a different agent'')
                     else if \<not> list_all (\<lambda>(path, target).
                            path = task_resources_relative \<or> mget [] (links_of p) path = target)
                            (NativeProjectionLinks (p_Provider p))
                     then Inl (ErrText ''required native projection is missing'')
                     else NativeMetadata_Validate e m (p_Provider p) (p_TaskRoot p)))))"

definition samePreparationConversation :: "prepared \<Rightarrow> prepared \<Rightarrow> bool" where
  "samePreparationConversation prior current =
    (case (p_Conversation prior, p_Conversation current) of
       (Some a, Some b) \<Rightarrow> a = b \<and> preparedAnchor prior = preparedAnchor current
     | (None, None) \<Rightarrow> p_TaskID prior = p_TaskID current
     | _ \<Rightarrow> False)"

end
