(* ===== verification/Claims.thy ===== *)
theory Claims
  imports Resident Prepared
begin

text \<open>
  Taking responsibility for a claim (\<^verbatim>\<open>grant.go\<close>): normalisation and its digests, the
  durable queue, the activation of a claim on a storage and the binding of the workspace
  volume.  \<open>Create\<close> may commit a drained idle session and still report that capacity is
  reserved, so its committed result is itself an \<open>err + task_grant\<close>.
\<close>

section \<open>Normalisation\<close>

definition scopeDigest :: "env \<Rightarrow> task_grant \<Rightarrow> string" where
  "scopeDigest e g =
    e_digest e (tuple_text [jstr (g_OwnerID g), jstr (g_WorkspaceID g), jstr (g_TaskID g), jstr (g_AgentID g),
      JArr (map repository_json (g_Repositories g)), JArr (map jstr (g_ResourceScope g))])"

fun repositories_ok :: "string option \<Rightarrow> repository list \<Rightarrow> bool" where
  "repositories_ok prev [] = True"
| "repositories_ok prev (r # rs) =
    (validOpaque (repo_URL r) \<and> prev \<noteq> Some (repo_URL r) \<and>
     \<not> contains_any (repo_Ref r) [nul_char, cr_char, nl_char] \<and> repositories_ok (Some (repo_URL r)) rs)"

definition supplies_execution :: "task_grant \<Rightarrow> bool" where
  "supplies_execution g =
    (g_StartConfirmed g \<or> g_CheckoutClosed g \<or> g_CheckoutNeedsFlush g \<or> g_CheckoutProcess g \<noteq> None \<or>
     g_ExecutionRevoked g \<or> g_CleanupComplete g \<or> g_StorageID g \<noteq> [] \<or> g_PVCName g \<noteq> [] \<or> g_PVCUID g \<noteq> [] \<or>
     g_PodName g \<noteq> [] \<or> g_PodUID g \<noteq> [] \<or> g_NodeID g \<noteq> [] \<or> g_State g \<noteq> OtherState [] \<or>
     g_SupervisorKey g \<noteq> [] \<or> g_StopKey g \<noteq> [] \<or> g_Stop g \<noteq> None \<or> g_Bootstrap g \<noteq> [] \<or>
     g_Resources g \<noteq> [] \<or> g_ResumeSession g \<noteq> [] \<or> g_ResumeWorkDir g \<noteq> [] \<or> g_TaskRoot g \<noteq> [] \<or>
     g_Prepared g \<noteq> None \<or> g_Execution g \<noteq> [] \<or> g_Events g \<noteq> [] \<or> g_PreparationStarted g \<or>
     g_PreparationStopped g \<or> g_PreparationProcess g \<noteq> None \<or> g_Reuse g)"

definition supplies_conversation :: "task_grant \<Rightarrow> bool" where
  "supplies_conversation g =
    (g_Legacy g \<or> g_WorkerSessionID g \<noteq> [] \<or> g_Conversation g \<noteq> zero_conversation_key \<or> g_TurnSequence g \<noteq> 0 \<or>
     g_WorkspaceAnchorTaskID g \<noteq> [] \<or> g_Compatibility g \<noteq> None \<or> g_CompatibilityDigest g \<noteq> [] \<or>
     g_WorkspaceCompatibilityDigest g \<noteq> [] \<or> g_Assignment g \<noteq> [] \<or> g_InputDigest g \<noteq> [] \<or> g_TurnAccepted g \<or>
     g_TurnComplete g \<or> g_TurnReceipt g \<noteq> None \<or> g_TurnExecutionReceipt g \<noteq> None \<or>
     g_TurnExecutionProof g \<noteq> None \<or> g_AcceptProof g \<noteq> None \<or> g_CompletionWitness g \<noteq> None \<or>
     g_Selection g \<noteq> None \<or> g_BackendSelection g \<noteq> None \<or> g_PendingResume g \<noteq> None)"

definition claim_identity_ok :: "env \<Rightarrow> task_grant \<Rightarrow> bool" where
  "claim_identity_ok e g =
    (g_OwnerID g = o_OwnerID e \<and> canonicalUUID e (g_TaskID g) \<and> canonicalUUID e (g_AttemptID g) \<and>
     g_RuntimeID g \<noteq> [] \<and> g_WorkspaceID g \<noteq> [] \<and> g_AgentID g \<noteq> [] \<and> Ref_Validate e (g_RuntimeRef g) = Inr () \<and>
     json_valid (g_Envelope g) \<and> int (length (g_Envelope g)) \<le> o_MaxRecordBytes e)"

definition with_identity :: "env \<Rightarrow> call \<Rightarrow> task_grant \<Rightarrow> task_grant" where
  "with_identity e c g =
    g\<lparr>g_OwnerID := (if g_OwnerID g = [] then o_OwnerID e else g_OwnerID g),
      g_AttemptID := (if g_AttemptID g = [] then c_uuid c 0 else g_AttemptID g)\<rparr>"

definition with_scope :: "env \<Rightarrow> task_grant \<Rightarrow> task_grant" where
  "with_scope e g =
    (let g1 = g\<lparr>g_Repositories := sort_key repo_URL (g_Repositories g),
                g_ResourceScope := compact (sort (g_ResourceScope g))\<rparr>
     in g1\<lparr>g_ScopeDigest := scopeDigest e g1\<rparr>)"

definition normalize :: "env \<Rightarrow> call \<Rightarrow> task_grant \<Rightarrow> err + task_grant" where
  "normalize e c input =
    (let g0 = with_identity e c input in
     if \<not> claim_identity_ok e g0 then Inl (ErrInvalid ''task grant'')
     else if supplies_execution g0 then Inl (ErrText ''new grants cannot supply storage or execution authority'')
     else if supplies_conversation g0 then Inl (ErrText ''new grants cannot supply conversation authority'')
     else
       (let g1 = with_scope e g0;
            calculated = RuntimeFingerprint e (g_RuntimeRef g1);
            metadata = (if g_Metadata g1 = [] then ''{}'' else g_Metadata g1)
        in if \<not> repositories_ok None (g_Repositories g1) then Inl (ErrInvalid ''repository scope'')
           else if \<not> list_all validOpaque (g_ResourceScope g1) then Inl (ErrInvalid ''resource scope'')
           else if g_Fingerprint g1 \<noteq> [] \<and> g_Fingerprint g1 \<noteq> calculated then Inl (ErrInvalid ''runtime fingerprint'')
           else if \<not> json_valid metadata \<or> int (length metadata) > o_MaxRecordBytes e
           then Inl (ErrInvalid ''claim metadata'')
           else Inr (g1\<lparr>g_Envelope := compactJSON (g_Envelope g1), g_Metadata := compactJSON metadata,
                        g_Fingerprint := calculated,
                        g_RequestDigest := e_digest e (compactJSON (g_Envelope g1)),
                        g_State := WaitingStorage, g_Generation := 1, g_CreatedAt := c_wall c\<rparr>)))"

definition normalizeClaim :: "env \<Rightarrow> call \<Rightarrow> task_grant \<Rightarrow> err + task_grant" where
  "normalizeClaim e c input =
    (case normalize e c input of Inl x \<Rightarrow> Inl (ErrInvalidClaim x) | Inr g \<Rightarrow> Inr g)"

section \<open>The queue\<close>

text \<open>\<^verbatim>\<open>sameJSON\<close> of two grants: raw messages are compared by what the encoder makes of
  them.  Of a queued claim's raw messages only these two can differ from the candidate's.\<close>

definition json_norm :: "string \<Rightarrow> string" where
  "json_norm raw = (case marshal_raw raw of None \<Rightarrow> raw | Some j \<Rightarrow> json_text j)"

definition same_claim :: "task_grant \<Rightarrow> task_grant \<Rightarrow> bool" where
  "same_claim a b =
    (a\<lparr>g_Envelope := json_norm (g_Envelope a), g_Metadata := json_norm (g_Metadata a)\<rparr> =
     b\<lparr>g_Envelope := json_norm (g_Envelope b), g_Metadata := json_norm (g_Metadata b)\<rparr>)"

text \<open>The scan of the grants of the same task: a replayed claim (\<open>True\<close>), or the new claim
  with its generation above every closed one.\<close>

fun queue_scan :: "task_grant \<Rightarrow> task_grant list \<Rightarrow> err + (task_grant \<times> bool)" where
  "queue_scan g [] = Inr (g, False)"
| "queue_scan g (old # olds) =
    (if g_TaskID old \<noteq> g_TaskID g then queue_scan g olds
     else if g_State old \<noteq> Closed then
       (if g_State old \<noteq> WaitingStorage then Inl ErrStorageBusy
        else
          (let candidate = g\<lparr>g_AttemptID := g_AttemptID old, g_CreatedAt := g_CreatedAt old,
                 g_Generation := g_Generation old, g_Conversation := g_Conversation old,
                 g_Selection := g_Selection old, g_CompatibilityDigest := g_CompatibilityDigest old,
                 g_WorkspaceCompatibilityDigest := g_WorkspaceCompatibilityDigest old,
                 g_Compatibility := g_Compatibility old, g_BackendSelection := g_BackendSelection old\<rparr>
           in if \<not> same_claim candidate old then Inl ErrConflict else Inr (old, True)))
     else queue_scan (if g_Generation old \<ge> g_Generation g
                      then g\<lparr>g_Generation := g_Generation old + 1\<rparr> else g) olds)"

definition QueueClaim :: "env \<Rightarrow> call \<Rightarrow> task_grant \<Rightarrow> registry \<Rightarrow> err + (registry \<times> task_grant)" where
  "QueueClaim e c input st =
    bind_res (normalizeClaim e c input) (\<lambda>g0.
    bind_res (queue_scan g0 (mvals (r_Grants st))) (\<lambda>(g, replay).
      if replay then Inr (st, g)
      else if grant_of st (g_AttemptID g) \<noteq> None then Inl ErrConflict
      else Inr (put_grant (g_AttemptID g) g st, g)))"

section \<open>Activation\<close>

fun create_scan :: "registry \<Rightarrow> task_grant \<Rightarrow> task_grant list \<Rightarrow> err + task_grant" where
  "create_scan st g [] = Inr g"
| "create_scan st g (old # olds) =
    (if g_TaskID old \<noteq> g_TaskID g \<or> g_AttemptID old = g_AttemptID g then create_scan st g olds
     else if g_State old \<noteq> Closed \<or> \<not> g_CleanupComplete old \<or> \<not> deliverySettled st (g_AttemptID old)
     then Inl ErrStorageBusy
     else create_scan st (if g_Generation old \<ge> g_Generation g
                          then g\<lparr>g_Generation := g_Generation old + 1\<rparr> else g) olds)"

definition dec_labels :: "json \<Rightarrow> (string \<times> string) option" where
  "dec_labels v =
    (let names = [''workspace_slug'', ''issue_identifier''] in
     dec_struct ([], []) (\<lambda>ms.
       case (dec_field dec_string [] names ''workspace_slug'' ms,
             dec_field dec_string [] names ''issue_identifier'' ms) of
         (Some a, Some b) \<Rightarrow> Some (a, b)
       | _ \<Rightarrow> None) v)"

text \<open>The queued claim that \<^verbatim>\<open>Create\<close> activates, and the grant it continues with.\<close>

definition queued_claim :: "registry \<Rightarrow> task_grant \<Rightarrow> bool \<Rightarrow> err + task_grant" where
  "queued_claim st g pending =
    (case grant_of st (g_AttemptID g) of
       None \<Rightarrow> (if pending then Inl ErrConflict else Inr g)
     | Some queued \<Rightarrow>
         (if \<not> pending \<or> g_State queued \<noteq> WaitingStorage then Inl ErrConflict
          else let candidate = g\<lparr>g_CreatedAt := g_CreatedAt queued, g_Generation := g_Generation queued,
                                 g_Legacy := g_Legacy queued\<rparr>
               in if \<not> same_claim candidate queued then Inl ErrConflict else Inr candidate))"

definition matching_storage :: "registry \<Rightarrow> task_grant \<Rightarrow> err + (storage option)" where
  "matching_storage st g =
    (case find (\<lambda>b. b_WorkspaceID b = g_WorkspaceID g \<and> b_TaskID b = g_TaskID g) (mvals (r_Storages st)) of
       None \<Rightarrow> Inr None
     | Some b \<Rightarrow>
         (if b_AgentID b \<noteq> g_AgentID g \<or> b_ScopeDigest b \<noteq> g_ScopeDigest g \<or> b_Fingerprint b \<noteq> g_Fingerprint g
          then Inl ErrConflict
          else if b_ActiveAttempt b \<noteq> [] \<or> b_Quarantined b \<or> b_Dirty b then Inl ErrStorageBusy
          else if list_ex (\<lambda>prior. g_StorageID prior = b_ID b \<and> \<not> g_CleanupComplete prior) (mvals (r_Grants st))
          then Inl ErrStorageBusy
          else Inr (Some b)))"

definition new_storage :: "env \<Rightarrow> call \<Rightarrow> registry \<Rightarrow> task_grant \<Rightarrow> err + storage" where
  "new_storage e c st g =
    (if int (length (r_Storages st)) \<ge> o_MaxTasks e then Inl ErrAdmissionBudget
     else case unmarshal dec_labels (g_Envelope g) of
            None \<Rightarrow> Inl (ErrInvalid ''task naming input'')
          | Some (slug, issue) \<Rightarrow>
              bind_res (TaskRoot e ''/workspace'' (g_WorkspaceID g) (g_TaskID g) slug issue) (\<lambda>root.
                if list_ex (\<lambda>b. b_TaskRoot b = root) (mvals (r_Storages st)) then Inl ErrConflict
                else Inr (zero_storage\<lparr>b_ID := c_uuid c 2, b_WorkspaceID := g_WorkspaceID g,
                       b_TaskID := g_TaskID g, b_AgentID := g_AgentID g, b_TaskRoot := root,
                       b_ScopeDigest := g_ScopeDigest g, b_Fingerprint := g_Fingerprint g,
                       b_PVCName := r_WorkspaceClaim st, b_PVCUID := r_WorkspaceUID st\<rparr>)))"

text \<open>The code tests \<^verbatim>\<open>storage.ID == ""\<close> to see whether a storage was found.\<close>

definition storage_for :: "env \<Rightarrow> call \<Rightarrow> registry \<Rightarrow> task_grant \<Rightarrow> err + (storage \<times> bool)" where
  "storage_for e c st g =
    bind_res (matching_storage st g) (\<lambda>found.
      (let b = (case found of None \<Rightarrow> zero_storage | Some b \<Rightarrow> b);
           reuse = (case found of None \<Rightarrow> g_Reuse g | Some b \<Rightarrow> b_Prepared b \<noteq> None)
       in if b_ID b = [] then map_sum (\<lambda>x. x) (\<lambda>n. (n, reuse)) (new_storage e c st g) else Inr (b, reuse)))"

definition activated :: "task_grant \<Rightarrow> storage \<Rightarrow> bool \<Rightarrow> task_grant" where
  "activated g b reuse =
    g\<lparr>g_Reuse := reuse, g_StorageID := b_ID b, g_PVCName := b_PVCName b, g_PVCUID := b_PVCUID b,
      g_TaskRoot := b_TaskRoot b, g_ResumeSession := b_SessionID b,
      g_ResumeWorkDir := (if b_SessionID b \<noteq> [] then b_TaskRoot b @ ''/workdir'' else g_ResumeWorkDir g),
      g_PodName := ''task-'' @ g_AttemptID g, g_State := Intent\<rparr>"

definition Create ::
  "env \<Rightarrow> call \<Rightarrow> task_grant \<Rightarrow> int option \<Rightarrow> registry \<Rightarrow> err + (registry \<times> (err + task_grant))" where
  "Create e c input residentLimit st =
    (if (case residentLimit of None \<Rightarrow> False | Some n \<Rightarrow> n < 1) then Inl (ErrInvalid ''resident Pod limit'')
     else if g_SessionProtocol input then Inl (ErrText ''session claims must use QueueClaim and ReserveTurn'')
     else
       (let limit = (case residentLimit of None \<Rightarrow> o_MaxTasks e | Some n \<Rightarrow> n);
            pending = (g_State input = WaitingStorage);
            claim = (if pending then input\<lparr>g_State := OtherState [], g_Legacy := False\<rparr> else input)
        in bind_res (normalizeClaim e c claim) (\<lambda>g0.
           bind_res (queued_claim st g0 pending) (\<lambda>g1.
           bind_res (create_scan st g1 (mvals (r_Grants st))) (\<lambda>g2.
           bind_res (checkPendingBudget e st 0) (\<lambda>_.
             if r_WorkspaceClaim st = [] \<or> r_WorkspaceUID st = []
             then Inl (ErrText ''workspace volume has not been bound'')
             else bind_res (storage_for e c st g2) (\<lambda>(b, reuse).
               (let (admitted, st1) = admitResident c st limit (c_now c) in
                if \<not> admitted then Inr (st1, Inl ErrResidentCapacity)
                else let g3 = activated g2 b reuse
                     in Inr (put_grant (g_AttemptID g3) g3
                               (put_storage (b_ID b) (b\<lparr>b_ActiveAttempt := g_AttemptID g3\<rparr>) st1), Inr g3)))))))))"

section \<open>The workspace volume\<close>

definition BindWorkspace :: "env \<Rightarrow> string \<Rightarrow> string \<Rightarrow> string \<Rightarrow> registry \<Rightarrow> err + (registry \<times> unit)" where
  "BindWorkspace e name uid server st =
    (if \<not> validOpaque name \<or> \<not> validOpaque uid \<or> \<not> e_parse_ip e server then Inl (ErrInvalid ''workspace claim'')
     else if r_WorkspaceClaim st \<noteq> [] \<and>
        (r_WorkspaceClaim st \<noteq> name \<or> r_WorkspaceUID st \<noteq> uid \<or> r_NFSServer st \<noteq> server)
     then Inl ErrConflict
     else Inr (st\<lparr>r_WorkspaceClaim := name, r_WorkspaceUID := uid, r_NFSServer := server\<rparr>, ()))"

end
