(* ===== verification/Grant_Ops.thy ===== *)
theory Grant_Ops
  imports Prepared Journal_Updates
begin

text \<open>
  The life of one grant (\<^verbatim>\<open>grant.go\<close>, \<^verbatim>\<open>checkout.go\<close>, \<^verbatim>\<open>events.go\<close>):
  preparation, Pod binding, admission, the offer and the start, quarantine and cleanup, the
  checkout fence and the event journal.  Each operation is the body the code passes to
  \<^verbatim>\<open>updateGrant\<close> (\<open>\<dots>_step\<close>) and the call itself.
\<close>

section \<open>Preparation\<close>

definition BeginPreparation_step ::
  "preparation_process \<Rightarrow> registry \<Rightarrow> task_grant \<Rightarrow> err + (registry \<times> task_grant \<times> unit)" where
  "BeginPreparation_step process st g =
    (if g_State g \<noteq> Intent \<or> g_ExecutionRevoked g \<or> g_PreparationStarted g \<or> g_Prepared g \<noteq> None \<or>
        g_WorkerSessionID g = [] \<and> g_PodUID g \<noteq> [] \<or> g_WorkerSessionID g \<noteq> [] \<and> \<not> currentSessionTurn st g
     then Inl ErrConflict
     else Inr (st, g\<lparr>g_PreparationStarted := True, g_PreparationProcess := Some process\<rparr>, ()))"

definition BeginPreparation ::
  "env \<Rightarrow> string \<Rightarrow> preparation_process \<Rightarrow> registry \<Rightarrow> err + (registry \<times> unit)" where
  "BeginPreparation e i process st =
    (if \<not> preparation_process_valid e process then Inl (ErrInvalid ''preparation process'')
     else update_grant i (BeginPreparation_step process) st)"

definition put_prepared :: "string \<Rightarrow> prepared \<Rightarrow> registry \<Rightarrow> registry" where
  "put_prepared sid p st = put_storage sid ((get_storage st sid)\<lparr>b_Prepared := Some p\<rparr>) st"

definition set_quarantined :: "string \<Rightarrow> bool \<Rightarrow> registry \<Rightarrow> registry" where
  "set_quarantined sid q st = put_storage sid ((get_storage st sid)\<lparr>b_Quarantined := q\<rparr>) st"

definition CheckpointPreparation_step ::
  "string \<Rightarrow> prepared \<Rightarrow> registry \<Rightarrow> task_grant \<Rightarrow> err + (registry \<times> task_grant \<times> unit)" where
  "CheckpointPreparation_step i p st g =
    (if g_State g \<noteq> Intent \<or> \<not> g_PreparationStarted g \<or> g_PreparationStopped g \<or> g_Prepared g \<noteq> None \<or>
        g_WorkerSessionID g = [] \<and> g_PodUID g \<noteq> [] \<or> p_OwnerID p \<noteq> g_OwnerID g \<or>
        p_WorkspaceID p \<noteq> g_WorkspaceID g \<or> p_TaskID p \<noteq> g_TaskID g \<or> p_AgentID p \<noteq> g_AgentID g \<or>
        p_AttemptID p \<noteq> i \<or> p_Generation p \<noteq> g_Generation g \<or> p_PVCUID p \<noteq> g_PVCUID g \<or>
        p_TaskRoot p \<noteq> g_TaskRoot g \<or> p_RuntimeDigest p \<noteq> g_Fingerprint g \<or>
        p_ConfigurationDigest p \<noteq> rr_ConfigurationDigest (g_RuntimeRef g)
     then Inl ErrConflict
     else if \<not> preparedMatchesConversation p g then Inl ErrConflict
     else Inr (put_prepared (g_StorageID g) p st, g, ()))"

definition CheckpointPreparation :: "env \<Rightarrow> string \<Rightarrow> prepared \<Rightarrow> registry \<Rightarrow> err + (registry \<times> unit)" where
  "CheckpointPreparation e i p st =
    (if ValidatePrepared e p \<noteq> Inr () then Inl (ErrInvalid ''preparation checkpoint'')
     else update_grant i (CheckpointPreparation_step i p) st)"

text \<open>The resource document of an interrupted preparation: both requests are recorded as not
  made and no identity was observed.\<close>

definition interrupt_reference_names :: "string list" where
  "interrupt_reference_names = [''podUID'', ''secretUID'', ''nodeID'', ''requestDigest'', ''podDigest'']"

text \<open>Decodes to whether every field is empty; an earlier value stays where null follows.\<close>

definition dec_empty_reference :: "string list \<Rightarrow> json \<Rightarrow> string list option" where
  "dec_empty_reference z v =
    dec_struct z (\<lambda>ms.
      those (map2 (\<lambda>z1 n. dec_field dec_string z1 interrupt_reference_names n ms) z interrupt_reference_names)) v"

definition no_resources_requested :: "string \<Rightarrow> bool" where
  "no_resources_requested raw =
    (let names = [''podCreateRequested'', ''secretCreateRequested'', ''reference''];
         empty = [[], [], [], [], []]
     in case unmarshal (\<lambda>v. dec_struct (None, None, empty) (\<lambda>ms.
               case (dec_field dec_bool_ptr None names ''podCreateRequested'' ms,
                     dec_field dec_bool_ptr None names ''secretCreateRequested'' ms,
                     dec_field dec_empty_reference empty names ''reference'' ms) of
                 (Some a, Some b, Some r) \<Rightarrow> Some (a, b, r) | _ \<Rightarrow> None) v) raw of
          None \<Rightarrow> False
        | Some (a, b, r) \<Rightarrow> a = Some False \<and> b = Some False \<and> list_all (\<lambda>s. s = []) r)"

text \<open>The controller's unsealed failure of this attempt.\<close>

definition controller_failure :: "registry \<Rightarrow> string \<Rightarrow> bool" where
  "controller_failure st i =
    (case terminal_of st i of
       None \<Rightarrow> False
     | Some t \<Rightarrow> t_Source t = SourceController \<and> t_Kind t = KindFail \<and> t_Seal t = None)"

definition InterruptPreparation_step ::
  "call \<Rightarrow> string \<Rightarrow> preparation_process \<Rightarrow> registry \<Rightarrow> task_grant \<Rightarrow>
   err + (registry \<times> task_grant \<times> unit)" where
  "InterruptPreparation_step c i expected st g =
    (if g_WorkerSessionID g \<noteq> [] then
       (if \<not> currentSessionTurn st g \<or> g_PreparationProcess g \<noteq> Some expected \<or> \<not> g_PreparationStarted g \<or>
           g_PreparationStopped g \<or> g_Prepared g \<noteq> None \<or> (g_State g \<noteq> Intent \<and> g_State g \<noteq> Quarantined)
        then Inl ErrConflict
        else (let (st1, ws) = requestSessionStop c ''preparation_interrupted'' (c_now c) st
                                (get_session st (g_WorkerSessionID g))
              in Inr (put_session (ws_ID ws) ws st1,
                      g\<lparr>g_PreparationStopped := True, g_ExecutionRevoked := True, g_Stop := g_Stop (get_grant st1 i)\<rparr>,
                      ())))
     else if g_PreparationProcess g \<noteq> Some expected \<or> \<not> g_PreparationStarted g \<or> g_PreparationStopped g \<or>
        (g_State g \<noteq> Intent \<and> g_State g \<noteq> Quarantined) \<or> g_Prepared g \<noteq> None \<or> g_PodUID g \<noteq> [] \<or>
        g_NodeID g \<noteq> [] \<or> g_Bootstrap g \<noteq> [] \<or> g_BootstrapDigest g \<noteq> [] \<or> g_Execution g \<noteq> [] \<or>
        g_SupervisorKey g \<noteq> []
     then Inl ErrConflict
     else if \<not> no_resources_requested (g_Resources g) then Inl ErrConflict
     else if g_State g = Quarantined \<and> g_Stop g = None then
       (if \<not> controller_failure st i then Inl ErrConflict
        else Inr (set_quarantined (g_StorageID g) False st,
                  g\<lparr>g_State := Unexecuted, g_PreparationStopped := True\<rparr>, ()))
     else Inr (st, g\<lparr>g_PreparationStopped := True\<rparr>, ()))"

definition InterruptPreparation ::
  "env \<Rightarrow> call \<Rightarrow> string \<Rightarrow> preparation_process \<Rightarrow> registry \<Rightarrow> err + (registry \<times> unit)" where
  "InterruptPreparation e c i expected st =
    (if \<not> preparation_process_valid e expected then Inl (ErrInvalid ''preparation process'')
     else update_grant i (InterruptPreparation_step c i expected) st)"

definition CompletePreparation_step ::
  "string \<Rightarrow> prepared option \<Rightarrow> string \<Rightarrow> registry \<Rightarrow> task_grant \<Rightarrow> err + (registry \<times> task_grant \<times> unit)" where
  "CompletePreparation_step i prep execution st g =
    (if (g_State g \<noteq> Intent \<and> g_State g \<noteq> Quarantined) \<or> \<not> g_PreparationStarted g \<or> g_PreparationStopped g \<or>
        g_WorkerSessionID g = [] \<and> g_PodUID g \<noteq> []
     then Inl ErrConflict
     else
       (let g1 = g\<lparr>g_PreparationStopped := True\<rparr> in
        if g_State g1 = Quarantined \<and> g_Stop g1 = None \<and> g_WorkerSessionID g1 = [] then
          (if \<not> controller_failure st i \<or> g_Prepared g1 \<noteq> None \<or> g_Execution g1 \<noteq> [] \<or> g_Bootstrap g1 \<noteq> [] \<or>
              g_BootstrapDigest g1 \<noteq> [] \<or> \<not> preparationStoppedWithoutWorker g1
           then Inl ErrConflict
           else Inr (set_quarantined (g_StorageID g1) False st, g1\<lparr>g_State := Unexecuted\<rparr>, ()))
        else
          (case prep of
             None \<Rightarrow> Inr (st, g1, ())
           | Some p \<Rightarrow>
               (if p_OwnerID p \<noteq> g_OwnerID g1 \<or> p_TaskID p \<noteq> g_TaskID g1 \<or> p_WorkspaceID p \<noteq> g_WorkspaceID g1 \<or>
                   p_AgentID p \<noteq> g_AgentID g1 \<or> p_AttemptID p \<noteq> i \<or> p_Generation p \<noteq> g_Generation g1 \<or>
                   p_PVCUID p \<noteq> g_PVCUID g1 \<or> p_TaskRoot p \<noteq> g_TaskRoot g1 \<or>
                   \<not> preparedMatchesConversation p g1
                then Inl ErrConflict
                else Inr (put_prepared (g_StorageID g1) p st,
                          g1\<lparr>g_Prepared := Some p, g_Execution := compactJSON execution\<rparr>, ())))))"

definition CompletePreparation ::
  "env \<Rightarrow> string \<Rightarrow> prepared option \<Rightarrow> string \<Rightarrow> registry \<Rightarrow> err + (registry \<times> unit)" where
  "CompletePreparation e i prep execution st =
    (if (case prep of None \<Rightarrow> False
         | Some p \<Rightarrow> ValidatePrepared e p \<noteq> Inr () \<or> \<not> json_valid execution \<or>
             int (length execution) > o_MaxRecordBytes e)
     then Inl (ErrInvalid ''prepared execution'')
     else update_grant i (CompletePreparation_step i prep execution) st)"

section \<open>The Pod and its supervisor\<close>

definition bind_capabilities :: "string \<Rightarrow> string \<Rightarrow> registry \<Rightarrow> registry" where
  "bind_capabilities i uid st =
    st\<lparr>r_Capabilities := map (\<lambda>(k, c). (k, if cap_AttemptID c = i then c\<lparr>cap_PodUID := uid\<rparr> else c))
         (r_Capabilities st)\<rparr>"

definition bind_failure :: "string \<Rightarrow> string \<Rightarrow> registry \<Rightarrow> registry" where
  "bind_failure i uid st =
    (case terminal_of st i of
       None \<Rightarrow> st
     | Some t \<Rightarrow>
         (if t_Source t = SourceController \<and> t_PodUID t = [] then put_terminal i (t\<lparr>t_PodUID := uid\<rparr>) st else st))"

definition BindPod_step ::
  "string \<Rightarrow> string \<Rightarrow> string \<Rightarrow> string \<Rightarrow> registry \<Rightarrow> task_grant \<Rightarrow>
   err + (registry \<times> task_grant \<times> unit)" where
  "BindPod_step i name uid node st g =
    (if (g_State g \<noteq> Intent \<and> \<not> (g_Stop g \<noteq> None \<and> g_State g = Quarantined)) \<or> g_Prepared g = None \<or>
        \<not> g_PreparationStopped g \<or> g_PVCUID g = [] \<or> name \<noteq> g_PodName g \<or> \<not> validOpaque uid \<or>
        (g_PodUID g \<noteq> [] \<and> g_PodUID g \<noteq> uid) \<or> (g_NodeID g \<noteq> [] \<and> node \<noteq> [] \<and> g_NodeID g \<noteq> node)
     then Inl ErrConflict
     else Inr (bind_capabilities i uid (bind_failure i uid st),
               g\<lparr>g_PodUID := uid, g_NodeID := (if node \<noteq> [] then node else g_NodeID g)\<rparr>, ()))"

definition BindPod :: "string \<Rightarrow> string \<Rightarrow> string \<Rightarrow> string \<Rightarrow> registry \<Rightarrow> err + (registry \<times> unit)" where
  "BindPod i name uid node st = update_grant i (BindPod_step i name uid node) st"

definition Admit_step :: "string \<Rightarrow> registry \<Rightarrow> task_grant \<Rightarrow> err + (registry \<times> task_grant \<times> unit)" where
  "Admit_step key st g =
    (if g_WorkerSessionID g \<noteq> [] then
       (let ws = get_session st (g_WorkerSessionID g) in
        if \<not> currentSessionTurn st g \<or> ws_Stop ws \<noteq> None \<or> g_ExecutionRevoked g \<or> g_Prepared g = None \<or>
           \<not> g_PreparationStopped g \<or> ws_SupervisorKey ws \<noteq> key \<or> length key \<noteq> key_size \<or> g_PodUID g = [] \<or>
           \<not> g_TurnAccepted g \<or>
           (g_State g \<noteq> Assigned \<and> g_State g \<noteq> Offered \<and> g_State g \<noteq> Ready \<and> g_State g \<noteq> Starting \<and>
            g_State g \<noteq> Started)
        then Inl ErrConflict
        else Inr (st, g\<lparr>g_SupervisorKey := key, g_StopKey := key,
                        g_State := (if g_State g = Assigned then Ready else g_State g)\<rparr>, ()))
     else if (g_State g \<noteq> Intent \<and> g_State g \<noteq> Ready) \<or> g_ExecutionRevoked g \<or> g_Prepared g = None \<or>
        \<not> g_PreparationStopped g \<or> g_PodUID g = [] \<or> g_PVCUID g = [] \<or> g_NodeID g = [] \<or> length key \<noteq> key_size
     then Inl ErrConflict
     else if g_SupervisorKey g \<noteq> [] \<and> g_SupervisorKey g \<noteq> key then Inl ErrConflict
     else if g_StopKey g \<noteq> [] \<and> g_StopKey g \<noteq> key then Inl ErrConflict
     else Inr (st, g\<lparr>g_SupervisorKey := key, g_State := Ready\<rparr>, ()))"

definition Admit :: "string \<Rightarrow> string \<Rightarrow> registry \<Rightarrow> err + (registry \<times> unit)" where
  "Admit i key st = update_grant i (Admit_step key) st"

section \<open>Offer and start\<close>

definition Offer_step :: "registry \<Rightarrow> task_grant \<Rightarrow> err + (registry \<times> task_grant \<times> (task_grant \<times> bool))" where
  "Offer_step st g =
    (if g_State g \<noteq> Ready \<or> g_ExecutionRevoked g \<or>
        g_WorkerSessionID g \<noteq> [] \<and> (\<not> currentSessionTurn st g \<or> \<not> g_TurnAccepted g)
     then Inr (st, g, g, False)
     else let g1 = g\<lparr>g_State := Offered\<rparr> in Inr (st, g1, g1, True))"

definition Offer :: "string \<Rightarrow> registry \<Rightarrow> err + (registry \<times> (task_grant \<times> bool))" where
  "Offer i st = update_grant i Offer_step st"

text \<open>\<^verbatim>\<open>transition\<close> for its two uses.\<close>

definition transition_step ::
  "call \<Rightarrow> grant_state \<Rightarrow> grant_state \<Rightarrow> registry \<Rightarrow> task_grant \<Rightarrow> err + (registry \<times> task_grant \<times> unit)" where
  "transition_step c from_state to_state st g =
    (if g_State g \<noteq> from_state \<or> g_ExecutionRevoked g \<or>
        g_WorkerSessionID g \<noteq> [] \<and>
          (\<not> currentSessionTurn st g \<or> \<not> g_TurnAccepted g \<or>
           to_state = Starting \<and> \<not> turnBeforeDeadline g (c_now c))
     then Inl ErrConflict
     else
       (let g1 = g\<lparr>g_State := to_state\<rparr> in
        if to_state = Started then
          (let g2 = g1\<lparr>g_StartConfirmed := True\<rparr> in
           if g_WorkerSessionID g2 \<noteq> [] then
             (let ws = get_session st (g_WorkerSessionID g2);
                  ws1 = ws\<lparr>ws_State := SessionRunning, ws_Revision := ws_Revision ws + 1\<rparr>
              in Inr (put_session (ws_ID ws1) ws1 st, g2, ()))
           else Inr (st, g2, ()))
        else Inr (st, g1, ())))"

definition BeginStart :: "call \<Rightarrow> string \<Rightarrow> registry \<Rightarrow> err + (registry \<times> unit)" where
  "BeginStart c i st = update_grant i (transition_step c Offered Starting) st"

definition MarkStarted :: "call \<Rightarrow> string \<Rightarrow> registry \<Rightarrow> err + (registry \<times> unit)" where
  "MarkStarted c i st = update_grant i (transition_step c Starting Started) st"

section \<open>Quarantine and cleanup\<close>

definition Quarantine_step :: "call \<Rightarrow> string \<Rightarrow> registry \<Rightarrow> task_grant \<Rightarrow> err + (registry \<times> task_grant \<times> unit)" where
  "Quarantine_step c i st g =
    (if g_State g = Closed \<or> g_State g = WaitingStorage then Inl ErrConflict
     else
       (let st1 = set_quarantined (g_StorageID g) True st; g1 = g\<lparr>g_State := Quarantined\<rparr> in
        if g_WorkerSessionID g1 \<noteq> [] then
          (let (st2, ws) = requestSessionStop c ''turn_unproven'' (c_now c) st1
                             (get_session st1 (g_WorkerSessionID g1));
               ws1 = ws\<lparr>ws_State := SessionQuarantined\<rparr>
           in Inr (put_session (ws_ID ws1) ws1 st2,
                   g1\<lparr>g_ExecutionRevoked := True, g_Stop := g_Stop (get_grant st2 i)\<rparr>, ()))
        else Inr (st1, g1, ())))"

definition Quarantine :: "call \<Rightarrow> string \<Rightarrow> registry \<Rightarrow> err + (registry \<times> unit)" where
  "Quarantine c i st = update_grant i (Quarantine_step c i) st"

definition MarkCleaned_step :: "string \<Rightarrow> registry \<Rightarrow> task_grant \<Rightarrow> err + (registry \<times> task_grant \<times> unit)" where
  "MarkCleaned_step i st g =
    (if g_WorkerSessionID g \<noteq> [] then Inl ErrConflict
     else if g_State g = Closed \<and> (case g_Stop g of None \<Rightarrow> False | Some s \<Rightarrow> sp_Evidence s \<noteq> None)
     then Inr (st, g\<lparr>g_CleanupComplete := True\<rparr>, ())
     else if g_State g \<noteq> Closed \<or>
        (case terminal_of st i of
           None \<Rightarrow> True
         | Some t \<Rightarrow> t_Source t \<noteq> SourceWorker \<or> t_Seal t = None \<or>
             (t_State t \<noteq> DDelivered \<and> t_State t \<noteq> DRejected))
     then Inl ErrConflict
     else Inr (st, g\<lparr>g_CleanupComplete := True\<rparr>, ()))"

definition MarkCleaned :: "string \<Rightarrow> registry \<Rightarrow> err + (registry \<times> unit)" where
  "MarkCleaned i st = update_grant i (MarkCleaned_step i) st"

section \<open>Bootstrap and resources\<close>

definition SetBootstrap_step ::
  "env \<Rightarrow> string \<Rightarrow> registry \<Rightarrow> task_grant \<Rightarrow> err + (registry \<times> task_grant \<times> unit)" where
  "SetBootstrap_step e raw st g =
    (if g_State g \<noteq> Intent \<or> g_ExecutionRevoked g \<or> g_WorkerSessionID g = [] \<and> g_PodUID g \<noteq> []
     then Inl ErrConflict
     else if g_Bootstrap g \<noteq> [] \<and> g_Bootstrap g \<noteq> raw then Inl ErrConflict
     else Inr (st, g\<lparr>g_Bootstrap := raw, g_BootstrapDigest := e_digest e raw\<rparr>, ()))"

definition SetBootstrap :: "env \<Rightarrow> string \<Rightarrow> string \<Rightarrow> registry \<Rightarrow> err + (registry \<times> unit)" where
  "SetBootstrap e i raw st =
    (if \<not> json_valid raw \<or> int (length raw) > o_MaxRecordBytes e then Inl (ErrInvalid ''worker bootstrap'')
     else update_grant i (SetBootstrap_step e (compactJSON raw)) st)"

definition SetResources_step :: "string \<Rightarrow> registry \<Rightarrow> task_grant \<Rightarrow> err + (registry \<times> task_grant \<times> unit)" where
  "SetResources_step raw st g =
    (if g_State g \<noteq> Intent \<and> \<not> (g_Stop g \<noteq> None \<and> g_State g \<noteq> Closed) then Inl ErrConflict
     else if \<not> preservesResourceCreation (g_Resources g) raw (g_Stop g \<noteq> None) then Inl ErrConflict
     else Inr (st, g\<lparr>g_Resources := raw\<rparr>, ()))"

definition SetResources :: "env \<Rightarrow> string \<Rightarrow> string \<Rightarrow> registry \<Rightarrow> err + (registry \<times> unit)" where
  "SetResources e i raw st =
    (if \<not> json_valid raw \<or> int (length raw) > o_MaxRecordBytes e then Inl (ErrInvalid ''resource journal'')
     else update_grant i (SetResources_step (compactJSON raw)) st)"

section \<open>Checkouts\<close>

definition BeginCheckout_step ::
  "preparation_process \<Rightarrow> registry \<Rightarrow> task_grant \<Rightarrow> err + (registry \<times> task_grant \<times> unit)" where
  "BeginCheckout_step process st g =
    (if g_CheckoutClosed g \<or> g_CheckoutProcess g \<noteq> None \<or> g_Stop g \<noteq> None \<or> g_ExecutionRevoked g \<or>
        g_Prepared g = None \<or>
        (g_State g \<noteq> Ready \<and> g_State g \<noteq> Offered \<and> g_State g \<noteq> Starting \<and> g_State g \<noteq> Started)
     then Inl ErrConflict
     else Inr (st, g\<lparr>g_CheckoutProcess := Some process, g_CheckoutNeedsFlush := True\<rparr>, ()))"

definition BeginCheckout :: "env \<Rightarrow> string \<Rightarrow> preparation_process \<Rightarrow> registry \<Rightarrow> err + (registry \<times> unit)" where
  "BeginCheckout e i process st =
    (if \<not> preparation_process_valid e process then Inl (ErrInvalid ''checkout controller process'')
     else update_grant i (BeginCheckout_step process) st)"

definition CompleteCheckout_step ::
  "preparation_process \<Rightarrow> registry \<Rightarrow> task_grant \<Rightarrow> err + (registry \<times> task_grant \<times> unit)" where
  "CompleteCheckout_step process st g =
    (if g_CheckoutProcess g \<noteq> Some process then Inl ErrConflict
     else Inr (st, g\<lparr>g_CheckoutProcess := None\<rparr>, ()))"

definition CompleteCheckout :: "string \<Rightarrow> preparation_process \<Rightarrow> registry \<Rightarrow> err + (registry \<times> unit)" where
  "CompleteCheckout i process st = update_grant i (CompleteCheckout_step process) st"

definition CloseCheckouts_step :: "registry \<Rightarrow> task_grant \<Rightarrow> err + (registry \<times> task_grant \<times> unit)" where
  "CloseCheckouts_step st g =
    Inr (st, g\<lparr>g_CheckoutClosed := True,
               g_ExecutionRevoked := (if g_WorkerSessionID g \<noteq> [] then True else g_ExecutionRevoked g)\<rparr>, ())"

definition CloseCheckouts :: "string \<Rightarrow> registry \<Rightarrow> err + (registry \<times> unit)" where
  "CloseCheckouts i st = update_grant i CloseCheckouts_step st"

definition CheckoutsFlushed_step :: "registry \<Rightarrow> task_grant \<Rightarrow> err + (registry \<times> task_grant \<times> unit)" where
  "CheckoutsFlushed_step st g =
    (if \<not> g_CheckoutClosed g \<or> g_CheckoutProcess g \<noteq> None then Inl ErrConflict
     else Inr (st, g\<lparr>g_CheckoutNeedsFlush := False\<rparr>, ()))"

definition CheckoutsFlushed :: "string \<Rightarrow> registry \<Rightarrow> err + (registry \<times> unit)" where
  "CheckoutsFlushed i st = update_grant i CheckoutsFlushed_step st"

section \<open>Events\<close>

definition events_size :: "task_grant \<Rightarrow> int" where
  "events_size g = sum_list (map (\<lambda>ev. int (length (e_Body ev))) (g_Events g))"

definition ReceiveEvent_step ::
  "env \<Rightarrow> u64 \<Rightarrow> string \<Rightarrow> registry \<Rightarrow> task_grant \<Rightarrow> err + (registry \<times> task_grant \<times> event)" where
  "ReceiveEvent_step e sequence body st g =
    (if g_State g \<noteq> Started then Inl ErrConflict
     else if sequence \<le> of_nat (length (g_Events g)) then
       (let ev = g_Events g ! (unat sequence - 1)
        in if e_Body ev \<noteq> body then Inl ErrConflict else Inr (st, g, ev))
     else if sequence \<noteq> of_nat (length (g_Events g)) + 1 then Inl ErrConflict
     else if events_size g + int (length body) > o_MaxRecordBytes e
     then Inl (ErrText ''provider event journal budget exhausted'')
     else
       (let b = get_storage st (g_StorageID g); b1 = b\<lparr>b_EventSequence := b_EventSequence b + 1\<rparr> in
        if b_EventSequence b1 = 0 then Inl ErrConflict
        else let ev = \<lparr>e_Sequence = sequence, e_UpstreamSequence = b_EventSequence b1, e_Body = body,
                       e_State = EvReceived\<rparr>
             in Inr (put_storage (g_StorageID g) b1 st, g\<lparr>g_Events := g_Events g @ [ev]\<rparr>, ev)))"

definition ReceiveEvent :: "env \<Rightarrow> string \<Rightarrow> u64 \<Rightarrow> string \<Rightarrow> registry \<Rightarrow> err + (registry \<times> event)" where
  "ReceiveEvent e i sequence body st =
    (if sequence = 0 \<or> \<not> json_valid body \<or> int (length body) > o_MaxRecordBytes e
     then Inl (ErrInvalid ''provider event'')
     else update_grant i (ReceiveEvent_step e sequence (compactJSON body)) st)"

definition event_may :: "event_state \<Rightarrow> event_state \<Rightarrow> bool" where
  "event_may from_state to_state =
    (from_state = EvReceived \<and> (to_state = EvForwarding \<or> to_state = EvLocal) \<or>
     from_state = EvForwarding \<and> (to_state = EvReceived \<or> to_state = EvDelivered \<or> to_state = EvUncertain))"

definition EventDelivery_step ::
  "u64 \<Rightarrow> event_state \<Rightarrow> event_state \<Rightarrow> registry \<Rightarrow> task_grant \<Rightarrow> err + (registry \<times> task_grant \<times> unit)" where
  "EventDelivery_step sequence from_state to_state st g =
    (if sequence = 0 \<or> sequence > of_nat (length (g_Events g)) then Inl ErrConflict
     else let ev = g_Events g ! (unat sequence - 1) in
       if e_State ev \<noteq> from_state \<or> \<not> event_may from_state to_state then Inl ErrConflict
       else Inr (st, g\<lparr>g_Events := (g_Events g)[unat sequence - 1 := ev\<lparr>e_State := to_state\<rparr>]\<rparr>, ()))"

definition EventDelivery ::
  "string \<Rightarrow> u64 \<Rightarrow> event_state \<Rightarrow> event_state \<Rightarrow> registry \<Rightarrow> err + (registry \<times> unit)" where
  "EventDelivery i sequence from_state to_state st =
    update_grant i (EventDelivery_step sequence from_state to_state) st"

section \<open>Reading\<close>

definition Get :: "string \<Rightarrow> registry \<Rightarrow> err + task_grant" where
  "Get i st = (case grant_of st i of None \<Rightarrow> Inl ErrUnauthorized | Some g \<Rightarrow> Inr g)"

definition List_grants :: "registry \<Rightarrow> task_grant list" where
  "List_grants st = sort_key g_CreatedAt (mvals (r_Grants st))"

definition still_pending :: "registry \<Rightarrow> task_grant \<Rightarrow> bool" where
  "still_pending st g =
    (let t = get_terminal st (g_AttemptID g);
         cleaned = (if g_WorkerSessionID g \<noteq> [] then g_TurnComplete g else g_CleanupComplete g)
     in g_State g \<noteq> Closed \<or> \<not> cleaned \<or>
        t_Source t \<noteq> OtherSource [] \<and> \<not> deliverySettled st (g_AttemptID g))"

definition ReconcileGrants :: "registry \<Rightarrow> task_grant list" where
  "ReconcileGrants st = sort_key g_CreatedAt (filter (still_pending st) (mvals (r_Grants st)))"

definition PreviousPrepared :: "string \<Rightarrow> registry \<Rightarrow> err + (prepared option)" where
  "PreviousPrepared i st =
    (case grant_of st i of
       None \<Rightarrow> Inl ErrUnauthorized
     | Some g \<Rightarrow> (if g_StorageID g = [] then Inl ErrUnauthorized
                  else Inr (b_Prepared (get_storage st (g_StorageID g)))))"

end
