(* ===== verification/Compatibility.thy ===== *)
theory Compatibility
  imports Claims Grant_Ops
begin

text \<open>
  What binds a conversation to its authority and configuration (\<^verbatim>\<open>authority.go\<close>,
  \<^verbatim>\<open>conversation.go\<close>): reuse authority, the workspace and full compatibility digests, the
  digest of a turn's input and \<^verbatim>\<open>RecordCompatibility\<close>.
\<close>

section \<open>Authority\<close>

fun integration_text :: "integration_state \<Rightarrow> string" where
  "integration_text IntegrationUnknown = ''unknown''"
| "integration_text IntegrationVerifiedEmpty = ''verified_empty''"
| "integration_text (OtherIntegration s) = s"

definition member_list :: "authority_evidence \<Rightarrow> authority_membership list" where
  "member_list a = (case ae_Memberships a of None \<Rightarrow> [] | Some ms \<Rightarrow> ms)"

text \<open>The loop over the memberships: what is still wanted, and the previous user.\<close>

fun members_ok :: "string list \<Rightarrow> string \<Rightarrow> authority_membership list \<Rightarrow> bool" where
  "members_ok wanted previous [] = (wanted = [])"
| "members_ok wanted previous (m # ms) =
    (if am_UserID m \<notin> set wanted \<or> am_UserID m \<le> previous \<or>
        (am_Role m \<noteq> ''owner'' \<and> am_Role m \<noteq> ''admin'' \<and> am_Role m \<noteq> ''member'') then False
     else members_ok (removeAll (am_UserID m) wanted) (am_UserID m) ms)"

definition wanted_users :: "authority_evidence \<Rightarrow> string list" where
  "wanted_users a =
    [ae_PrincipalID a, ae_AgentOwnerID a] @ (if ae_OriginatorID a \<noteq> [] then [ae_OriginatorID a] else [])"

definition ValidForWorkspaceReuse :: "env \<Rightarrow> authority_evidence \<Rightarrow> bool" where
  "ValidForWorkspaceReuse e a =
    (if ae_Version a \<noteq> 1 \<or> \<not> canonicalUUID e (ae_WorkspaceID a) \<or> \<not> canonicalUUID e (ae_RuntimeID a) \<or>
        \<not> canonicalUUID e (ae_AgentID a) \<or> \<not> canonicalUUID e (ae_PrincipalID a) \<or>
        \<not> canonicalUUID e (ae_AgentOwnerID a) \<or> \<not> ae_DelegationKnown a \<or>
        (ae_OriginatorID a \<noteq> [] \<and> \<not> canonicalUUID e (ae_OriginatorID a)) then False
     else members_ok (wanted_users a) [] (member_list a))"

definition ValidForReuse :: "env \<Rightarrow> authority_evidence \<Rightarrow> bool" where
  "ValidForReuse e a =
    (ValidForWorkspaceReuse e a \<and> ie_State (ae_Integrations a) = IntegrationVerifiedEmpty \<and>
     ie_Reason (ae_Integrations a) = [])"

section \<open>Encoding\<close>

definition authority_json :: "authority_evidence \<Rightarrow> json" where
  "authority_json a =
    JObj ([(''version'', jint (ae_Version a)), (''workspace_id'', jstr (ae_WorkspaceID a)),
        (''runtime_id'', jstr (ae_RuntimeID a)), (''agent_id'', jstr (ae_AgentID a)),
        (''principal_id'', jstr (ae_PrincipalID a)), (''agent_owner_id'', jstr (ae_AgentOwnerID a))] @
      jomit (ae_OriginatorID a = []) ''originator_id'' (jstr (ae_OriginatorID a)) @
      [(''delegation_known'', JBool (ae_DelegationKnown a)),
       (''memberships'', jopt (\<lambda>ms. JArr (map (\<lambda>m.
          JObj [(''user_id'', jstr (am_UserID m)), (''role'', jstr (am_Role m))]) ms)) (ae_Memberships a)),
       (''integrations'', JObj ((''state'', jstr (integration_text (ie_State (ae_Integrations a)))) #
          jomit (ie_Reason (ae_Integrations a) = []) ''reason'' (jstr (ie_Reason (ae_Integrations a)))))])"

definition compatibility_json :: "compatibility \<Rightarrow> json option" where
  "compatibility_json k =
    obj_opt [(''conversation'', Some (conversation_key_json (cc_Conversation k))),
      (''runtimeID'', Some (jstr (cc_RuntimeID k))), (''authority'', Some (authority_json (cc_Authority k))),
      (''repositories'', Some (JArr (map repository_json (cc_Repositories k)))),
      (''resourceScope'', Some (JArr (map jstr (cc_ResourceScope k)))),
      (''provider'', Some (jstr (cc_Provider k))),
      (''providerOptionsResolved'', Some (JBool (cc_ProviderOptionsResolved k))),
      (''runtimeRef'', Some (ref_json (cc_RuntimeRef k))),
      (''configurationDigest'', Some (jstr (cc_ConfigurationDigest k))),
      (''agentInstructions'', Some (jstr (cc_AgentInstructions k))), (''model'', Some (jstr (cc_Model k))),
      (''thinkingLevel'', Some (jstr (cc_ThinkingLevel k))), (''serviceTier'', Some (jstr (cc_ServiceTier k))),
      (''customArgs'', Some (JArr (map jstr (cc_CustomArgs k)))),
      (''customEnv'', Some (jmap jstr (cc_CustomEnv k))),
      (''skillHashes'', Some (JArr (map (\<lambda>s.
         JObj [(''id'', jstr (sk_ID s)), (''digest'', jstr (sk_Digest s))]) (cc_SkillHashes k)))),
      (''disabledRuntimeSkills'', Some (JArr (map jstr (cc_DisabledRuntimeSkills k)))),
      (''stableMCP'', marshal_raw (cc_StableMCP k)), (''stablePlugins'', marshal_raw (cc_StablePlugins k))]"

text \<open>\<^verbatim>\<open>canonicalJSON\<close>: the first value, decoded with \<^verbatim>\<open>UseNumber\<close> and encoded again.\<close>

definition canonicalJSON :: "string \<Rightarrow> string" where
  "canonicalJSON raw = (case decode_first raw of None \<Rightarrow> [] | Some v \<Rightarrow> json_text (canonical_value v))"

section \<open>Digests\<close>

definition sort_repositories :: "repository list \<Rightarrow> repository list" where
  "sort_repositories rs = sort_key repo_URL (sort_key repo_Ref (sort_key repo_ID rs))"

definition normalizedWorkspace :: "env \<Rightarrow> compatibility \<Rightarrow> err + compatibility" where
  "normalizedWorkspace e k =
    (if \<not> ConversationKey_Valid e (cc_Conversation k) \<or> \<not> canonicalUUID e (cc_RuntimeID k) \<or>
        Ref_Validate e (cc_RuntimeRef k) \<noteq> Inr () \<or> \<not> fingerprint (cc_ConfigurationDigest k) \<or>
        cc_ConfigurationDigest k \<noteq> rr_ConfigurationDigest (cc_RuntimeRef k) \<or>
        \<not> SupportedProvider (cc_Provider k)
     then Inl (ErrInvalid ''conversation compatibility'')
     else if ae_WorkspaceID (cc_Authority k) \<noteq> [] \<and>
               ae_WorkspaceID (cc_Authority k) \<noteq> ck_WorkspaceID (cc_Conversation k) \<or>
        ae_AgentID (cc_Authority k) \<noteq> [] \<and> ae_AgentID (cc_Authority k) \<noteq> ck_AgentID (cc_Conversation k) \<or>
        ae_RuntimeID (cc_Authority k) \<noteq> [] \<and> ae_RuntimeID (cc_Authority k) \<noteq> cc_RuntimeID k
     then Inl (ErrInvalid ''conversation authority'')
     else if \<not> list_all (\<lambda>r. validOpaque (repo_URL r)) (cc_Repositories k)
     then Inl (ErrInvalid ''conversation repository'')
     else Inr (k\<lparr>cc_Repositories :=
                   map (\<lambda>r. r\<lparr>repo_Description := []\<rparr>) (sort_repositories (cc_Repositories k)),
                 cc_ResourceScope := compact (sort (cc_ResourceScope k))\<rparr>))"

definition no_integrations :: integration_evidence where
  "no_integrations = \<lparr>ie_State = OtherIntegration [], ie_Reason = []\<rparr>"

definition WorkspaceDigest :: "env \<Rightarrow> compatibility \<Rightarrow> err + string" where
  "WorkspaceDigest e k0 =
    bind_res (normalizedWorkspace e k0) (\<lambda>k.
      Inr (e_digest e (tuple_text [jstr ''multica-workspace-compatibility-v1'',
        conversation_key_json (cc_Conversation k), jstr (cc_RuntimeID k),
        authority_json ((cc_Authority k)\<lparr>ae_Integrations := no_integrations\<rparr>),
        JArr (map repository_json (cc_Repositories k)), JArr (map jstr (cc_ResourceScope k)),
        jstr (cc_Provider k), ref_json (cc_RuntimeRef k), jstr (cc_ConfigurationDigest k)])))"

fun skills_ok :: "string option \<Rightarrow> skill_content_hash list \<Rightarrow> bool" where
  "skills_ok prev [] = True"
| "skills_ok prev (s # ss) =
    (validOpaque (sk_ID s) \<and> fingerprint (sk_Digest s) \<and> prev \<noteq> Some (sk_ID s) \<and> skills_ok (Some (sk_ID s)) ss)"

definition Compatibility_Digest :: "env \<Rightarrow> compatibility \<Rightarrow> err + string" where
  "Compatibility_Digest e k0 =
    bind_res (normalizedWorkspace e k0) (\<lambda>k.
      if \<not> json_valid (cc_StableMCP k) \<or> \<not> json_valid (cc_StablePlugins k)
      then Inl (ErrInvalid ''conversation integrations'')
      else
        (let k1 = k\<lparr>cc_DisabledRuntimeSkills := compact (sort (cc_DisabledRuntimeSkills k)),
                    cc_SkillHashes := sort_key sk_ID (cc_SkillHashes k)\<rparr>;
             k2 = k1\<lparr>cc_StableMCP := canonicalJSON (cc_StableMCP k), cc_StablePlugins := canonicalJSON (cc_StablePlugins k)\<rparr>
         in if \<not> skills_ok None (cc_SkillHashes k1) then Inl (ErrInvalid ''conversation skill'')
            else case compatibility_json k2 of
                   None \<Rightarrow> Inl (ErrText ''unencodable compatibility'')
                 | Some j \<Rightarrow> Inr (e_digest e (tuple_text [jstr ''multica-conversation-compatibility-v1'', j]))))"

definition TurnInputDigest :: "env \<Rightarrow> string \<Rightarrow> err + string" where
  "TurnInputDigest e raw =
    (case parse_json raw of
       Some (JObj ms) \<Rightarrow>
         Inr (e_digest e (json_text (canonical_value
           (JObj (filter (\<lambda>(k, _). unquote k \<noteq> ''inputDigest'') ms)))))
     | _ \<Rightarrow> Inl (ErrText ''turn assignment must be an object''))"

section \<open>Recording and proving compatibility\<close>

definition compatibilityScopeMatches :: "env \<Rightarrow> task_grant \<Rightarrow> compatibility \<Rightarrow> string \<Rightarrow> bool" where
  "compatibilityScopeMatches e g k expected =
    (WorkspaceDigest e (k\<lparr>cc_Repositories := g_Repositories g, cc_ResourceScope := g_ResourceScope g\<rparr>) = Inr expected)"

definition RecordCompatibility_step ::
  "env \<Rightarrow> compatibility \<Rightarrow> string \<Rightarrow> string \<Rightarrow> registry \<Rightarrow> task_grant \<Rightarrow> err + (registry \<times> task_grant \<times> unit)" where
  "RecordCompatibility_step e k calculated workspaceDigest st g =
    (let key = cc_Conversation k in
     if \<not> g_SessionProtocol g \<or> g_Legacy g \<or> g_ExecutionRevoked g \<or>
        (g_State g \<noteq> WaitingStorage \<and> g_State g \<noteq> Intent) \<or> ck_OwnerID key \<noteq> g_OwnerID g \<or>
        ck_WorkspaceID key \<noteq> g_WorkspaceID g \<or> ck_AgentID key \<noteq> g_AgentID g \<or> cc_RuntimeID k \<noteq> g_RuntimeID g \<or>
        \<not> Ref_Equal (cc_RuntimeRef k) (g_RuntimeRef g) \<or>
        ck_Kind key = ConversationTask \<and> ck_SubjectID key \<noteq> g_TaskID g \<or>
        g_CompatibilityDigest g \<noteq> [] \<and> g_CompatibilityDigest g \<noteq> calculated \<or>
        g_Conversation g \<noteq> zero_conversation_key \<and> g_Conversation g \<noteq> key \<or>
        \<not> compatibilityScopeMatches e g k workspaceDigest
     then Inl ErrConflict
     else if (case g_Selection g of
                None \<Rightarrow> False
              | Some s \<Rightarrow>
                  sel_WorkspaceReuseEligible s \<and> \<not> ValidForWorkspaceReuse e (cc_Authority k) \<or>
                  sel_ReuseEligible s \<and> (\<not> sel_WorkspaceReuseEligible s \<or> \<not> cc_ProviderOptionsResolved k \<or>
                    \<not> ValidForReuse e (cc_Authority k)))
     then Inl ErrConflict
     else case g_Compatibility g of
       Some old \<Rightarrow> (if Compatibility_Digest e old \<noteq> Inr calculated then Inl ErrConflict else Inr (st, g, ()))
     | None \<Rightarrow> Inr (st, g\<lparr>g_Compatibility := Some k, g_CompatibilityDigest := calculated, g_Conversation := key,
                         g_WorkspaceCompatibilityDigest := workspaceDigest\<rparr>, ()))"

definition RecordCompatibility :: "env \<Rightarrow> string \<Rightarrow> compatibility \<Rightarrow> registry \<Rightarrow> err + (registry \<times> unit)" where
  "RecordCompatibility e i k st =
    bind_res (Compatibility_Digest e k) (\<lambda>calculated.
    bind_res (WorkspaceDigest e k) (\<lambda>workspaceDigest.
      update_grant i (RecordCompatibility_step e k calculated workspaceDigest) st))"

definition provenCompatibility :: "env \<Rightarrow> task_grant \<Rightarrow> selection \<Rightarrow> string \<Rightarrow> bool" where
  "provenCompatibility e g s expected =
    (case g_Compatibility g of
       None \<Rightarrow> False
     | Some k \<Rightarrow>
         (if g_CompatibilityDigest g \<noteq> expected \<or> cc_Conversation k \<noteq> sel_Conversation s \<or>
             cc_RuntimeID k \<noteq> g_RuntimeID g \<or> \<not> Ref_Equal (cc_RuntimeRef k) (g_RuntimeRef g) then False
          else Compatibility_Digest e k = Inr expected \<and>
               WorkspaceDigest e k = Inr (g_WorkspaceCompatibilityDigest g) \<and>
               compatibilityScopeMatches e g k (g_WorkspaceCompatibilityDigest g) \<and>
               (\<not> sel_WorkspaceReuseEligible s \<or> ValidForWorkspaceReuse e (cc_Authority k)) \<and>
               (\<not> sel_ReuseEligible s \<or> sel_WorkspaceReuseEligible s \<and> cc_ProviderOptionsResolved k \<and>
                  ValidForReuse e (cc_Authority k))))"

end
