(* ===== verification/Stop_Ops.thy ===== *)
theory Stop_Ops
  imports Grant_Ops
begin

text \<open>
  Stopping an attempt (\<^verbatim>\<open>stop.go\<close>): the immutable stop record, the pinned supervisor
  key, the signed receipt, the controller's termination evidence and the release of the
  storage.
\<close>

definition RequestStop_step ::
  "call \<Rightarrow> string \<Rightarrow> registry \<Rightarrow> task_grant \<Rightarrow> err + (registry \<times> task_grant \<times> task_grant)" where
  "RequestStop_step c reason st g =
    (if g_Stop g \<noteq> None then Inr (st, g, g)
     else if g_State g = Closed then Inl ErrConflict
     else
       (let g1 = g\<lparr>g_Stop := Some (stop_record_for reason (c_wall c) (c_uuid c 2)), g_ExecutionRevoked := True\<rparr> in
        if g_WorkerSessionID g1 \<noteq> [] then
          (let (st1, ws) = requestSessionStop c reason (c_now c) st (get_session st (g_WorkerSessionID g1))
           in Inr (put_session (ws_ID ws) ws st1, g1, g1))
        else Inr (st, g1, g1)))"

definition RequestStop :: "call \<Rightarrow> string \<Rightarrow> string \<Rightarrow> registry \<Rightarrow> err + (registry \<times> task_grant)" where
  "RequestStop c i reason st =
    (if \<not> validOpaque reason \<or> length reason > 256 then Inl (ErrInvalid ''stop reason'')
     else update_grant i (RequestStop_step c reason) st)"

definition PinStopSupervisor_step ::
  "string \<Rightarrow> string \<Rightarrow> string \<Rightarrow> string \<Rightarrow> registry \<Rightarrow> task_grant \<Rightarrow> err + (registry \<times> task_grant \<times> unit)" where
  "PinStopSupervisor_step podUID pvcUID node key st g =
    (if g_WorkerSessionID g \<noteq> [] then
       (let ws = get_session st (g_WorkerSessionID g) in
        if \<not> currentSessionTurn st g \<or> ws_SupervisorKey ws \<noteq> key \<or> length key \<noteq> key_size \<or>
           podUID \<noteq> g_PodUID g \<or> pvcUID \<noteq> g_PVCUID g \<or> node \<noteq> g_NodeID g \<or> \<not> validOpaque node
        then Inl ErrConflict
        else Inr (st, g\<lparr>g_StopKey := key\<rparr>, ()))
     else if g_PodUID g = [] \<or> podUID \<noteq> g_PodUID g \<or> pvcUID \<noteq> g_PVCUID g \<or> \<not> validOpaque node \<or>
        (g_NodeID g \<noteq> [] \<and> node \<noteq> g_NodeID g) \<or> length key \<noteq> key_size \<or>
        \<not> stopGenerationCurrent st g \<or> (g_State g = Closed \<and> g_StopKey g = [])
     then Inl ErrConflict
     else if g_StopKey g \<noteq> [] \<and> g_StopKey g \<noteq> key \<or> g_SupervisorKey g \<noteq> [] \<and> g_SupervisorKey g \<noteq> key
     then Inl ErrConflict
     else Inr (st, g\<lparr>g_NodeID := node, g_StopKey := key\<rparr>, ()))"

definition PinStopSupervisor ::
  "string \<Rightarrow> string \<Rightarrow> string \<Rightarrow> string \<Rightarrow> string \<Rightarrow> registry \<Rightarrow> err + (registry \<times> unit)" where
  "PinStopSupervisor i podUID pvcUID node key st =
    update_grant i (PinStopSupervisor_step podUID pvcUID node key) st"

definition ReceiveStopReceipt_step ::
  "env \<Rightarrow> stop_receipt \<Rightarrow> registry \<Rightarrow> task_grant \<Rightarrow> err + (registry \<times> task_grant \<times> unit)" where
  "ReceiveStopReceipt_step e receipt st g =
    (case g_Stop g of
       None \<Rightarrow> Inl ErrConflict
     | Some stop \<Rightarrow>
         (if \<not> stopGenerationCurrent st g \<or> \<not> validStopReceipt e g receipt then Inl ErrConflict
          else case sp_Receipt stop of
            Some old \<Rightarrow> (if old \<noteq> receipt then Inl ErrConflict else Inr (st, g, ()))
          | None \<Rightarrow>
              (if g_State g = Closed \<or>
                  sr_WritersStopped receipt \<and> sr_FlushOK receipt \<and>
                    (\<not> g_CheckoutClosed g \<or> g_CheckoutNeedsFlush g \<or> g_CheckoutProcess g \<noteq> None)
               then Inl ErrConflict
               else Inr (st, g\<lparr>g_Stop := Some (stop\<lparr>sp_Receipt := Some receipt\<rparr>)\<rparr>, ()))))"

definition ReceiveStopReceipt :: "env \<Rightarrow> string \<Rightarrow> stop_receipt \<Rightarrow> registry \<Rightarrow> err + (registry \<times> unit)" where
  "ReceiveStopReceipt e i receipt st = update_grant i (ReceiveStopReceipt_step e receipt) st"

definition validStopEvidence :: "task_grant \<Rightarrow> stop_evidence \<Rightarrow> bool" where
  "validStopEvidence g ev =
    (if g_CheckoutProcess g \<noteq> None \<or> se_ObservedAt ev = 0 \<or> se_PodUID ev \<noteq> g_PodUID g \<or>
        se_PVCUID ev \<noteq> g_PVCUID g \<or> g_PreparationStarted g \<and> \<not> g_PreparationStopped g then False
     else if se_PreparedFlushOK ev \<and>
        (g_Prepared g = None \<or> \<not> g_PreparationStopped g \<or>
         se_Kind ev \<noteq> EvNoWorker \<and> se_Kind ev \<noteq> EvNeverStarted) then False
     else case se_Kind ev of
            EvTerminated \<Rightarrow> g_PodUID g \<noteq> [] \<and> g_PVCUID g \<noteq> []
          | EvNeverStarted \<Rightarrow>
              g_PodUID g \<noteq> [] \<and> g_PVCUID g \<noteq> [] \<and> g_SupervisorKey g = [] \<and> g_StopKey g = []
          | EvNoWorker \<Rightarrow> noWorkerCreated g
          | OtherEvidence _ \<Rightarrow> False)"

definition ObserveStop_step ::
  "stop_evidence \<Rightarrow> registry \<Rightarrow> task_grant \<Rightarrow> err + (registry \<times> task_grant \<times> unit)" where
  "ObserveStop_step ev st g =
    (case g_Stop g of
       None \<Rightarrow> Inl ErrConflict
     | Some stop \<Rightarrow>
         (if \<not> validStopEvidence g ev then Inl ErrConflict
          else case sp_Evidence stop of
            Some old \<Rightarrow>
              (if se_Kind old \<noteq> se_Kind ev \<or> se_PodUID old \<noteq> se_PodUID ev \<or> se_PVCUID old \<noteq> se_PVCUID ev \<or>
                  se_PreparedFlushOK old \<noteq> se_PreparedFlushOK ev
               then Inl ErrConflict else Inr (st, g, ()))
          | None \<Rightarrow>
              (if g_State g = Closed then Inl ErrConflict
               else Inr (st, g\<lparr>g_Stop := Some (stop\<lparr>sp_Evidence := Some ev\<rparr>)\<rparr>, ()))))"

definition ObserveStop :: "string \<Rightarrow> stop_evidence \<Rightarrow> registry \<Rightarrow> err + (registry \<times> unit)" where
  "ObserveStop i ev st = update_grant i (ObserveStop_step ev) st"

definition stop_evidence_of :: "task_grant \<Rightarrow> stop_evidence option" where
  "stop_evidence_of g = (case g_Stop g of None \<Rightarrow> None | Some s \<Rightarrow> sp_Evidence s)"

text \<open>\<open>t\<close> is the attempt's terminal or the zero terminal.\<close>

definition stoppedClean :: "task_grant \<Rightarrow> terminal \<Rightarrow> bool" where
  "stoppedClean g t =
    (case g_Stop g of
       None \<Rightarrow> False
     | Some stop \<Rightarrow>
         (case sp_Evidence stop of
            None \<Rightarrow> False
          | Some ev \<Rightarrow>
              (case sp_Receipt stop of
                 Some r \<Rightarrow> sr_WritersStopped r \<and> sr_FlushOK r
               | None \<Rightarrow>
                   (if t_Source t = SourceWorker \<and> t_Seal t \<noteq> None then True
                    else if se_Kind ev = EvNoWorker \<or> se_Kind ev = EvNeverStarted
                    then \<not> g_PreparationStarted g \<or>
                         g_Prepared g \<noteq> None \<and> g_PreparationStopped g \<and> se_PreparedFlushOK ev
                    else False))))"

text \<open>A worker result that is neither authenticated nor replaced by a recovery failure.\<close>

definition unsettled_worker_result :: "terminal \<Rightarrow> bool" where
  "unsettled_worker_result t =
    (t_Source t = SourceWorker \<and> t_State t = DReceived \<and> t_RecoveryFailure t = None \<and> t_ResultReceipt t = None)"

definition CloseStopped_step :: "string \<Rightarrow> registry \<Rightarrow> task_grant \<Rightarrow> err + (registry \<times> task_grant \<times> unit)" where
  "CloseStopped_step i st g =
    (if g_WorkerSessionID g \<noteq> [] then Inl ErrConflict
     else if (case stop_evidence_of g of None \<Rightarrow> True | Some ev \<Rightarrow> \<not> validStopEvidence g ev) then Inl ErrConflict
     else if g_State g = Closed then Inr (st, g, ())
     else if unsettled_worker_result (get_terminal st i) then Inl ErrConflict
     else if g_StorageID g \<noteq> [] then
       (let b = get_storage st (g_StorageID g) in
        if b_ActiveAttempt b \<noteq> i then Inl ErrConflict
        else Inr (put_storage (g_StorageID g)
                    (b\<lparr>b_ActiveAttempt := [], b_Quarantined := False,
                       b_Dirty := (b_Dirty b \<or> \<not> stoppedClean g (get_terminal st i))\<rparr>) st,
                  g\<lparr>g_State := Closed\<rparr>, ()))
     else Inr (st, g\<lparr>g_State := Closed\<rparr>, ()))"

definition CloseStopped :: "string \<Rightarrow> registry \<Rightarrow> err + (registry \<times> unit)" where
  "CloseStopped i st = update_grant i (CloseStopped_step i) st"

end
