(* ===== verification/Outbox.thy ===== *)
theory Outbox
  imports Stop_Ops
begin

text \<open>
  The durable result of an attempt (\<^verbatim>\<open>outbox.go\<close>, \<^verbatim>\<open>result_receipt.go\<close>): the terminal
  the worker or the controller publishes, the three competing settlements (seal, result
  receipt, recovery failure) and the delivery state machine.
\<close>

section \<open>Receiving a terminal\<close>

definition TerminalDigest :: "env \<Rightarrow> string \<Rightarrow> string \<Rightarrow> string" where
  "TerminalDigest e kind body = e_digest e (kind @ nul_char # body)"

definition effectiveSession :: "resume_pointers \<Rightarrow> string" where
  "effectiveSession r =
    (if rp_SessionRolloutMissing r \<or> rp_SessionID r = rp_RetiredSessionID r then [] else rp_SessionID r)"

definition validTransientResumeResult :: "task_grant \<Rightarrow> terminal_kind \<Rightarrow> resume_pointers \<Rightarrow> bool" where
  "validTransientResumeResult g kind r =
    (if \<not> rp_ResumeRejectedTransient r then True
     else g_WorkerSessionID g \<noteq> [] \<and> kind = KindFail \<and>
       (case g_Prepared g of None \<Rightarrow> False | Some p \<Rightarrow> p_Provider p = ''pi'') \<and>
       (case g_Compatibility g of None \<Rightarrow> False | Some k \<Rightarrow> cc_Provider k = ''pi'') \<and>
       (case g_Selection g of
          None \<Rightarrow> False
        | Some s \<Rightarrow> sel_Mode s = SelectionResume \<and> g_ResumeSession g \<noteq> [] \<and> sel_SessionID s = g_ResumeSession g) \<and>
       rp_WorkDir r = g_TaskRoot g @ ''/workdir'' \<and> rp_SessionID r = [] \<and> rp_RetiredSessionID r = [] \<and>
       rp_MissingSessionID r = [] \<and> \<not> rp_SessionRolloutMissing r)"

definition publishResume ::
  "call \<Rightarrow> string \<Rightarrow> string \<Rightarrow> registry \<Rightarrow> task_grant \<Rightarrow> err + (registry \<times> task_grant)" where
  "publishResume c session workdir st g =
    (if workdir \<noteq> [] \<and> workdir \<noteq> g_TaskRoot g @ ''/workdir'' then Inl (ErrInvalid ''session workdir'')
     else bind_res
       (if session \<noteq> [] then
          (case g_Prepared g of
             None \<Rightarrow> Inl (ErrInvalid ''session'')
           | Some p \<Rightarrow>
               (if \<not> validOpaque session then Inl (ErrInvalid ''session'')
                else if \<not> c_session_ok c p session then Inl (ErrText ''native session is unavailable'')
                else Inr (put_storage (g_StorageID g) ((get_storage st (g_StorageID g))\<lparr>b_SessionID := session\<rparr>) st,
                          g\<lparr>g_ResumeSession := session\<rparr>)))
        else Inr (st, g))
       (\<lambda>(st1, g1). Inr (st1, if workdir \<noteq> [] then g1\<lparr>g_ResumeWorkDir := workdir\<rparr> else g1)))"

text \<open>Sessions a result retires are remembered, sorted and once each.\<close>

definition retire_sessions :: "resume_pointers \<Rightarrow> storage \<Rightarrow> storage" where
  "retire_sessions r b =
    (let retired = compact (sort (b_RetiredSessions b @
           filter (\<lambda>s. s \<noteq> []) [rp_RetiredSessionID r, rp_MissingSessionID r]));
         b1 = b\<lparr>b_RetiredSessions := retired\<rparr>
     in case b_Checkpoint b1 of
          None \<Rightarrow> b1
        | Some cp \<Rightarrow>
            (if cp_SessionID cp \<in> set retired
             then b1\<lparr>b_Checkpoint := Some (cp\<lparr>cp_SessionID := [], cp_SessionSource := no_source\<rparr>),
                     b_SessionID := []\<rparr>
             else b1))"

fun invalidate_sessions :: "string list \<Rightarrow> registry \<Rightarrow> task_grant \<Rightarrow> err + (registry \<times> task_grant)" where
  "invalidate_sessions [] st g = Inr (st, g)"
| "invalidate_sessions (s # ss) st g =
    (if s = [] then invalidate_sessions ss st g
     else if \<not> validOpaque s then Inl (ErrInvalid ''retired session'')
     else
       (let b = get_storage st (g_StorageID g);
            st1 = (if b_SessionID b = s then put_storage (g_StorageID g) (b\<lparr>b_SessionID := []\<rparr>) st else st);
            g1 = (if g_ResumeSession g = s then g\<lparr>g_ResumeSession := []\<rparr> else g)
        in invalidate_sessions ss st1 g1))"

definition terminalResume ::
  "call \<Rightarrow> resume_pointers \<Rightarrow> registry \<Rightarrow> task_grant \<Rightarrow> err + (registry \<times> task_grant)" where
  "terminalResume c r st g =
    (if g_WorkerSessionID g \<noteq> [] then
       (if rp_WorkDir r \<noteq> [] \<and> rp_WorkDir r \<noteq> g_TaskRoot g @ ''/workdir'' \<or>
           rp_RetiredSessionID r \<noteq> [] \<and> \<not> validOpaque (rp_RetiredSessionID r) \<or>
           rp_MissingSessionID r \<noteq> [] \<and> (\<not> rp_SessionRolloutMissing r \<or> \<not> validOpaque (rp_MissingSessionID r))
        then Inl (ErrInvalid ''turn resume result'')
        else if effectiveSession r \<noteq> [] \<and>
           (case g_Prepared g of None \<Rightarrow> True | Some p \<Rightarrow> \<not> c_session_ok c p (effectiveSession r))
        then Inl (ErrInvalid ''turn session'')
        else (let b = retire_sessions r (get_storage st (g_StorageID g))
              in Inr (put_storage (b_ID b) b st, g\<lparr>g_PendingResume := Some r\<rparr>)))
     else
       bind_res (invalidate_sessions (rp_RetiredSessionID r #
           (if rp_SessionRolloutMissing r then [g_ResumeSession g, rp_SessionID r] else [])) st g)
         (\<lambda>(st1, g1). publishResume c (effectiveSession r) (rp_WorkDir r) st1 g1))"

text \<open>A session with a recorded stop keeps its state.\<close>

definition finish_session :: "string \<Rightarrow> registry \<Rightarrow> registry" where
  "finish_session sid st =
    (let ws = get_session st sid;
         ws1 = (if ws_Stop ws = None then ws\<lparr>ws_State := SessionFinishing\<rparr> else ws)
     in put_session (ws_ID ws1) ws1 st)"

definition worker_terminal ::
  "env \<Rightarrow> call \<Rightarrow> string \<Rightarrow> string \<Rightarrow> string \<Rightarrow> string \<Rightarrow> task_grant \<Rightarrow> terminal" where
  "worker_terminal e c i kind body resultDigest g =
    zero_terminal\<lparr>t_Source := SourceWorker, t_ResultDigest := resultDigest, t_ReceiptID := c_uuid c 2,
      t_TaskID := g_TaskID g, t_AttemptID := i, t_PodUID := g_PodUID g, t_PVCUID := g_PVCUID g,
      t_Kind := terminal_kind_of kind, t_Body := body, t_RequestDigest := TerminalDigest e kind body,
      t_Nonce := c_uuid c 3, t_State := DReceived, t_ReceivedAt := c_wall c\<rparr>"

definition ReceiveTerminal_step ::
  "env \<Rightarrow> call \<Rightarrow> string \<Rightarrow> string \<Rightarrow> string \<Rightarrow> resume_pointers \<Rightarrow> string \<Rightarrow> registry \<Rightarrow> task_grant \<Rightarrow>
   err + (registry \<times> task_grant \<times> terminal)" where
  "ReceiveTerminal_step e c i kind body resume resultDigest st g =
    (case terminal_of st i of
       Some old \<Rightarrow>
         (if t_Source old \<noteq> SourceWorker \<or> t_ResultDigest old \<noteq> resultDigest \<or> t_Kind old \<noteq> terminal_kind_of kind \<or>
             t_RequestDigest old \<noteq> TerminalDigest e kind body \<or> t_Body old \<noteq> body
          then Inl ErrConflict else Inr (st, g, old))
     | None \<Rightarrow>
         bind_res (checkPendingBudget e st (int (length body))) (\<lambda>_.
           if (g_State g \<noteq> Started \<and> g_State g \<noteq> Starting \<and> g_State g \<noteq> Offered) \<or> g_SupervisorKey g = [] \<or>
              g_PodUID g = [] \<or> g_PVCUID g = []
           then Inl ErrConflict
           else if g_WorkerSessionID g \<noteq> [] \<and> \<not> currentSessionTurn st g then Inl ErrConflict
           else if \<not> validTransientResumeResult g (terminal_kind_of kind) resume
           then Inl (ErrInvalid ''transient resume rejection'')
           else bind_res (terminalResume c resume st g) (\<lambda>(st1, g1).
             (let t = worker_terminal e c i kind body resultDigest g1;
                  st2 = put_terminal i t st1;
                  st3 = (if g_WorkerSessionID g1 \<noteq> [] then finish_session (g_WorkerSessionID g1) st2 else st2)
              in Inr (st3, g1\<lparr>g_State := TerminalReceived\<rparr>, t)))))"

definition ReceiveTerminal ::
  "env \<Rightarrow> call \<Rightarrow> string \<Rightarrow> string \<Rightarrow> string \<Rightarrow> resume_pointers \<Rightarrow> string \<Rightarrow> registry \<Rightarrow>
   err + (registry \<times> terminal)" where
  "ReceiveTerminal e c i kind body resume resultDigest st =
    (if \<not> fingerprint resultDigest \<or> (kind \<noteq> ''complete'' \<and> kind \<noteq> ''fail'' \<and> kind \<noteq> ''cancel-ack'') \<or>
        \<not> json_valid body \<or> int (length body) > o_MaxRecordBytes e
     then Inl (ErrInvalid ''terminal payload'')
     else update_grant i (ReceiveTerminal_step e c i kind body resume resultDigest) st)"

definition controller_terminal :: "env \<Rightarrow> call \<Rightarrow> string \<Rightarrow> string \<Rightarrow> task_grant \<Rightarrow> terminal" where
  "controller_terminal e c i body g =
    zero_terminal\<lparr>t_Source := SourceController, t_ReceiptID := c_uuid c 2, t_TaskID := g_TaskID g,
      t_AttemptID := i, t_PodUID := g_PodUID g, t_PVCUID := g_PVCUID g, t_Kind := KindFail, t_Body := body,
      t_RequestDigest := TerminalDigest e ''fail'' body, t_Nonce := c_uuid c 3, t_State := DReceived,
      t_ReceivedAt := c_wall c\<rparr>"

definition ReceiveFailure_step ::
  "env \<Rightarrow> call \<Rightarrow> string \<Rightarrow> string \<Rightarrow> registry \<Rightarrow> task_grant \<Rightarrow> err + (registry \<times> task_grant \<times> terminal)" where
  "ReceiveFailure_step e c i body st g =
    (case terminal_of st i of
       Some old \<Rightarrow>
         (if t_Source old \<noteq> SourceController \<or> t_Kind old \<noteq> KindFail \<or>
             t_RequestDigest old \<noteq> TerminalDigest e ''fail'' body \<or> t_Body old \<noteq> body
          then Inl ErrConflict else Inr (st, g, old))
     | None \<Rightarrow>
         (if g_State g = Closed then Inl ErrConflict
          else bind_res (checkPendingBudget e st (int (length body))) (\<lambda>_.
            (let t = controller_terminal e c i body g in
             if g_WorkerSessionID g \<noteq> [] then
               (let (st1, ws) = requestSessionStop c ''controller_failure'' (c_now c) st
                                  (get_session st (g_WorkerSessionID g));
                    b = (get_storage st1 (g_StorageID g))\<lparr>b_Quarantined := True\<rparr>;
                    st2 = put_session (ws_ID ws) ws (put_storage (b_ID b) b st1)
                in Inr (put_terminal i t st2,
                        g\<lparr>g_State := Quarantined, g_ExecutionRevoked := True, g_Stop := g_Stop (get_grant st1 i)\<rparr>, t))
             else if g_State g = WaitingStorage \<or> g_State g = Intent \<and> preparationStoppedWithoutWorker g
             then Inr (put_terminal i t st, g\<lparr>g_State := Unexecuted\<rparr>, t)
             else Inr (put_terminal i t (set_quarantined (g_StorageID g) True st), g\<lparr>g_State := Quarantined\<rparr>, t)))))"

definition ReceiveFailure ::
  "env \<Rightarrow> call \<Rightarrow> string \<Rightarrow> string \<Rightarrow> registry \<Rightarrow> err + (registry \<times> terminal)" where
  "ReceiveFailure e c i body st =
    (if \<not> json_valid body \<or> int (length body) > o_MaxRecordBytes e then Inl (ErrInvalid ''controller failure'')
     else update_grant i (ReceiveFailure_step e c i body) st)"

section \<open>Settling a worker result\<close>

definition seal_proves :: "env \<Rightarrow> string \<Rightarrow> task_grant \<Rightarrow> terminal \<Rightarrow> signed_receipt \<Rightarrow> bool" where
  "seal_proves e i g t r =
    (sg_TaskID r = g_TaskID g \<and> sg_AttemptID r = i \<and> sg_PodUID r = g_PodUID g \<and> sg_PVCUID r = g_PVCUID g \<and>
     sg_RequestDigest r = t_RequestDigest t \<and> sg_Nonce r = t_Nonce t \<and> sg_WritersStopped r \<and> sg_FlushOK r \<and>
     length (g_SupervisorKey g) = key_size \<and> e_verify e (g_SupervisorKey g) (ReceiptMessage r) (sg_Signature r))"

definition Seal_step ::
  "env \<Rightarrow> string \<Rightarrow> signed_receipt \<Rightarrow> registry \<Rightarrow> task_grant \<Rightarrow> err + (registry \<times> task_grant \<times> unit)" where
  "Seal_step e i receipt st g =
    (if g_WorkerSessionID g \<noteq> [] then Inl ErrConflict
     else case terminal_of st i of
       None \<Rightarrow> Inl ErrConflict
     | Some t \<Rightarrow>
         (if t_Source t \<noteq> SourceWorker \<or> g_State g \<noteq> TerminalReceived \<or> t_RecoveryFailure t \<noteq> None
          then Inl ErrConflict
          else if \<not> seal_proves e i g t receipt
          then Inl (ErrText ''supervisor seal identity or flush proof failed'')
          else case t_Seal t of
            Some old \<Rightarrow> (if old \<noteq> receipt then Inl ErrConflict else Inr (st, g, ()))
          | None \<Rightarrow>
              (if t_State t \<noteq> DReceived \<and> t_ResultReceipt t = None \<or> \<not> g_CheckoutClosed g \<or>
                  g_CheckoutNeedsFlush g \<or> g_CheckoutProcess g \<noteq> None
               then Inl ErrConflict
               else Inr (put_terminal i (t\<lparr>t_Seal := Some receipt,
                             t_State := (if t_State t = DReceived then DSealed else t_State t)\<rparr>) st, g, ()))))"

definition Seal :: "env \<Rightarrow> string \<Rightarrow> signed_receipt \<Rightarrow> registry \<Rightarrow> err + (registry \<times> unit)" where
  "Seal e i receipt st = update_grant i (Seal_step e i receipt) st"

definition RecordResultReceipt_step ::
  "env \<Rightarrow> string \<Rightarrow> result_receipt \<Rightarrow> registry \<Rightarrow> task_grant \<Rightarrow> err + (registry \<times> task_grant \<times> unit)" where
  "RecordResultReceipt_step e i receipt st g =
    (case terminal_of st i of
       None \<Rightarrow> Inl ErrConflict
     | Some t \<Rightarrow>
         (if t_RecoveryFailure t \<noteq> None \<or> \<not> validResultReceipt e g t receipt then Inl ErrConflict
          else case t_ResultReceipt t of
            Some old \<Rightarrow> (if old \<noteq> receipt then Inl ErrConflict else Inr (st, g, ()))
          | None \<Rightarrow>
              (if g_State g \<noteq> TerminalReceived then Inl ErrConflict
               else Inr (put_terminal i (t\<lparr>t_ResultReceipt := Some receipt\<rparr>) st, g, ()))))"

definition RecordResultReceipt ::
  "env \<Rightarrow> string \<Rightarrow> result_receipt \<Rightarrow> registry \<Rightarrow> err + (registry \<times> unit)" where
  "RecordResultReceipt e i receipt st = update_grant i (RecordResultReceipt_step e i receipt) st"

definition RecordRecoveryFailure_step ::
  "env \<Rightarrow> call \<Rightarrow> string \<Rightarrow> string \<Rightarrow> registry \<Rightarrow> task_grant \<Rightarrow> err + (registry \<times> task_grant \<times> unit)" where
  "RecordRecoveryFailure_step e c i body st g =
    (case terminal_of st i of
       None \<Rightarrow> Inl ErrConflict
     | Some t \<Rightarrow>
         (if t_Source t \<noteq> SourceWorker \<or> t_State t \<noteq> DReceived \<or> t_Seal t \<noteq> None \<or> t_ResultReceipt t \<noteq> None \<or>
             (case stop_evidence_of g of
                None \<Rightarrow> True
              | Some ev \<Rightarrow> se_Kind ev \<noteq> EvTerminated \<or> \<not> validStopEvidence g ev) \<or>
             \<not> g_CheckoutClosed g \<or> g_CheckoutProcess g \<noteq> None \<or> g_PreparationStarted g \<and> \<not> g_PreparationStopped g
          then Inl ErrConflict
          else case t_RecoveryFailure t of
            Some rf \<Rightarrow> (if rf_Body rf \<noteq> body then Inl ErrConflict else Inr (st, g, ()))
          | None \<Rightarrow>
              (if int (length body) + snd (pending_total st) > o_MaxPendingResultBytes e then Inl ErrAdmissionBudget
               else
                 (let b = (get_storage st (g_StorageID g))\<lparr>b_Dirty := True\<rparr>;
                      rf = \<lparr>rf_Body = body, rf_State = DReceived, rf_DecidedAt = c_wall c\<rparr>
                  in Inr (put_terminal i (t\<lparr>t_RecoveryFailure := Some rf\<rparr>) (put_storage (g_StorageID g) b st), g, ())))))"

definition RecordRecoveryFailure ::
  "env \<Rightarrow> call \<Rightarrow> string \<Rightarrow> string \<Rightarrow> registry \<Rightarrow> err + (registry \<times> unit)" where
  "RecordRecoveryFailure e c i body st =
    (if \<not> json_valid body \<or> int (length body) > o_MaxRecordBytes e then Inl (ErrInvalid ''recovery failure'')
     else update_grant i (RecordRecoveryFailure_step e c i body) st)"

section \<open>Delivery\<close>

definition BeginForward_step :: "terminal \<Rightarrow> err + terminal" where
  "BeginForward_step t =
    (if t_Source t \<noteq> SourceWorker \<or> (t_State t \<noteq> DSealed \<and> t_State t \<noteq> DReceived) \<or>
        t_Seal t = None \<and> t_ResultReceipt t = None
     then Inl ErrConflict else Inr (t\<lparr>t_State := DForwarding\<rparr>))"

definition BeginForward :: "string \<Rightarrow> registry \<Rightarrow> err + (registry \<times> unit)" where
  "BeginForward i st = update_terminal i BeginForward_step st"

definition RejectTerminal_step :: "terminal \<Rightarrow> err + terminal" where
  "RejectTerminal_step t =
    (if t_Source t \<noteq> SourceWorker \<or>
        (t_State t \<noteq> DReceived \<and> t_State t \<noteq> DSealed \<and> t_State t \<noteq> DUncertain \<and> t_State t \<noteq> DForwarding) \<or>
        t_Seal t = None \<and> t_ResultReceipt t = None
     then Inl ErrConflict else Inr (t\<lparr>t_State := DRejected\<rparr>))"

definition RejectTerminal :: "string \<Rightarrow> registry \<Rightarrow> err + (registry \<times> unit)" where
  "RejectTerminal i st = update_terminal i RejectTerminal_step st"

definition ResumeForward_step :: "string \<Rightarrow> registry \<Rightarrow> task_grant \<Rightarrow> err + (registry \<times> task_grant \<times> unit)" where
  "ResumeForward_step i st g =
    (case terminal_of st i of
       None \<Rightarrow> Inl ErrConflict
     | Some t \<Rightarrow>
         (if \<not> g_StartConfirmed g \<and>
             (t_RecoveryFailure t \<noteq> None \<or> t_Source t \<noteq> SourceWorker \<or> t_Kind t \<noteq> KindCancelAck)
          then Inl ErrConflict
          else case t_RecoveryFailure t of
            Some rf \<Rightarrow>
              (if rf_State rf \<noteq> DUncertain \<and> rf_State rf \<noteq> DForwarding then Inl ErrConflict
               else Inr (put_terminal i (t\<lparr>t_RecoveryFailure := Some (rf\<lparr>rf_State := DReceived\<rparr>)\<rparr>) st, g, ()))
          | None \<Rightarrow>
              (if t_State t \<noteq> DUncertain \<and> t_State t \<noteq> DForwarding then Inl ErrConflict
               else if t_Source t = SourceWorker \<and> t_Seal t = None \<and> t_ResultReceipt t = None then Inl ErrConflict
               else Inr (put_terminal i (t\<lparr>t_State :=
                           (if t_Source t = SourceWorker \<and> t_Seal t \<noteq> None then DSealed else DReceived)\<rparr>) st, g, ()))))"

definition ResumeForward :: "string \<Rightarrow> registry \<Rightarrow> err + (registry \<times> unit)" where
  "ResumeForward i st = update_grant i (ResumeForward_step i) st"

definition BeginRecoveryForward_step :: "terminal \<Rightarrow> err + terminal" where
  "BeginRecoveryForward_step t =
    (case t_RecoveryFailure t of
       None \<Rightarrow> Inl ErrConflict
     | Some rf \<Rightarrow> (if rf_State rf \<noteq> DReceived then Inl ErrConflict
                   else Inr (t\<lparr>t_RecoveryFailure := Some (rf\<lparr>rf_State := DForwarding\<rparr>)\<rparr>)))"

definition BeginRecoveryForward :: "string \<Rightarrow> registry \<Rightarrow> err + (registry \<times> unit)" where
  "BeginRecoveryForward i st = update_terminal i BeginRecoveryForward_step st"

definition FinishRecoveryForward_step :: "string \<Rightarrow> terminal \<Rightarrow> err + terminal" where
  "FinishRecoveryForward_step outcome t =
    (case t_RecoveryFailure t of
       None \<Rightarrow> Inl ErrConflict
     | Some rf \<Rightarrow>
         (if rf_State rf \<noteq> DForwarding then Inl ErrConflict
          else if outcome = ''delivered'' \<or> outcome = ''rejected'' \<or> outcome = ''uncertain''
          then Inr (t\<lparr>t_RecoveryFailure := Some (rf\<lparr>rf_State := delivery_of outcome\<rparr>)\<rparr>)
          else if outcome = ''not-sent'' then Inr (t\<lparr>t_RecoveryFailure := Some (rf\<lparr>rf_State := DReceived\<rparr>)\<rparr>)
          else Inl (ErrInvalid ''recovery delivery outcome'')))"

definition FinishRecoveryForward :: "string \<Rightarrow> string \<Rightarrow> registry \<Rightarrow> err + (registry \<times> unit)" where
  "FinishRecoveryForward i outcome st = update_terminal i (FinishRecoveryForward_step outcome) st"

definition RejectRecoveryFailure_step :: "terminal \<Rightarrow> err + terminal" where
  "RejectRecoveryFailure_step t =
    (case t_RecoveryFailure t of
       None \<Rightarrow> Inl ErrConflict
     | Some rf \<Rightarrow> (if rf_State rf = DDelivered then Inl ErrConflict
                   else Inr (t\<lparr>t_RecoveryFailure := Some (rf\<lparr>rf_State := DRejected\<rparr>)\<rparr>)))"

definition RejectRecoveryFailure :: "string \<Rightarrow> registry \<Rightarrow> err + (registry \<times> unit)" where
  "RejectRecoveryFailure i st = update_terminal i RejectRecoveryFailure_step st"

definition FinishForward_step :: "string \<Rightarrow> terminal \<Rightarrow> err + terminal" where
  "FinishForward_step outcome t =
    (if t_State t \<noteq> DForwarding then Inl ErrConflict
     else if outcome = ''delivered'' \<or> outcome = ''rejected'' \<or> outcome = ''uncertain''
     then Inr (t\<lparr>t_State := delivery_of outcome\<rparr>)
     else if outcome = ''not-sent'' then Inr (t\<lparr>t_State := (if t_Seal t \<noteq> None then DSealed else DReceived)\<rparr>)
     else Inl (ErrInvalid ''delivery outcome''))"

definition FinishForward :: "string \<Rightarrow> string \<Rightarrow> registry \<Rightarrow> err + (registry \<times> unit)" where
  "FinishForward i outcome st = update_terminal i (FinishForward_step outcome) st"

definition BeginFailureForward_step :: "terminal \<Rightarrow> err + terminal" where
  "BeginFailureForward_step t =
    (if t_Source t \<noteq> SourceController \<or> t_Kind t \<noteq> KindFail \<or> t_State t \<noteq> DReceived \<or> t_Seal t \<noteq> None
     then Inl ErrConflict else Inr (t\<lparr>t_State := DForwarding\<rparr>))"

definition BeginFailureForward :: "string \<Rightarrow> registry \<Rightarrow> err + (registry \<times> unit)" where
  "BeginFailureForward i st = update_terminal i BeginFailureForward_step st"

definition RejectFailure_step :: "terminal \<Rightarrow> err + terminal" where
  "RejectFailure_step t =
    (if t_Source t \<noteq> SourceController \<or>
        (t_State t \<noteq> DReceived \<and> t_State t \<noteq> DUncertain \<and> t_State t \<noteq> DForwarding) \<or>
        t_Kind t \<noteq> KindFail \<or> t_Seal t \<noteq> None
     then Inl ErrConflict else Inr (t\<lparr>t_State := DRejected\<rparr>))"

definition RejectFailure :: "string \<Rightarrow> registry \<Rightarrow> err + (registry \<times> unit)" where
  "RejectFailure i st = update_terminal i RejectFailure_step st"

definition Terminal_get :: "string \<Rightarrow> registry \<Rightarrow> err + terminal" where
  "Terminal_get i st = (case terminal_of st i of None \<Rightarrow> Inl ErrUnauthorized | Some t \<Rightarrow> Inr t)"

end
