(* ===== verification/Session_Control.thy ===== *)
theory Session_Control
  imports Compatibility Outbox
begin

text \<open>
  Controlling a resident worker (\<^verbatim>\<open>session_control.go\<close>): enrollment, one-time challenges
  and signed proofs, the session's bootstrap, resources, Pod and key, publishing and accepting
  a turn, and the stop of a session.  The challenges live in memory beside the journal; an
  operation that creates one returns the new challenge table.
\<close>

section \<open>Enrollment and challenges\<close>

definition sessionTokenMatches :: "worker_session \<Rightarrow> string \<Rightarrow> bool" where
  "sessionTokenMatches ws token = (token \<noteq> [] \<and> ws_ControlToken ws = token)"

definition AuthorizeSessionEnrollment :: "string \<Rightarrow> string \<Rightarrow> registry \<Rightarrow> err + worker_session" where
  "AuthorizeSessionEnrollment i token st =
    (case session_of st i of
       None \<Rightarrow> Inl ErrUnauthorized
     | Some ws \<Rightarrow> (if \<not> sessionTokenMatches ws token then Inl ErrUnauthorized else Inr ws))"

text \<open>An idle session past its deadline is stopped first; that change is committed on its own.\<close>

definition expire_for_challenge :: "call \<Rightarrow> string \<Rightarrow> registry \<Rightarrow> worker_session \<Rightarrow> registry \<times> worker_session" where
  "expire_for_challenge c i st ws =
    (if ws_State ws = SessionIdle \<and> \<not> c_now c < ws_IdleDeadline ws then
       (let (st1, ws1) = requestSessionStop c ''idle_expired'' (c_now c) st ws in (put_session i ws1 st1, ws1))
     else (st, ws))"

definition CreateSessionChallenge ::
  "call \<Rightarrow> challenges \<Rightarrow> string \<Rightarrow> string \<Rightarrow> string \<Rightarrow> string \<Rightarrow> registry \<Rightarrow>
   err + (registry \<times> challenges \<times> session_challenge)" where
  "CreateSessionChallenge c chs i token op bodyDigest st =
    (if \<not> validSessionOperation op \<or> \<not> fingerprint bodyDigest then Inl ErrUnauthorized
     else case session_of st i of
       None \<Rightarrow> Inl ErrUnauthorized
     | Some ws0 \<Rightarrow>
         (if \<not> sessionTokenMatches ws0 token \<or> ws_PodUID ws0 = [] \<or> length (ws_SupervisorKey ws0) \<noteq> key_size
          then Inl ErrUnauthorized
          else if op = op_turn_execution \<and> ws_ProtocolVersion ws0 \<noteq> session_protocol then Inl ErrUnauthorized
          else if c_now c < ws_LastObservedAt ws0 then Inl ErrUnauthorized
          else
            (let (st1, ws) = expire_for_challenge c i st ws0;
                 mine = mget [] chs i;
                 attempt = challengeAttempt ws op;
                 fresh = \<lparr>ch_Operation = op, ch_WorkerSessionID = i, ch_PodUID = ws_PodUID ws,
                   ch_PVCUID = ws_PVCUID ws, ch_TurnSequence = ws_TurnSequence ws, ch_AttemptID = attempt,
                   ch_BodyDigest = bodyDigest, ch_Nonce = c_uuid c 2, ch_ExpiresAt = c_now c + challenge_ttl\<rparr>
             in case map_of mine op of
                  Some previous \<Rightarrow>
                    (if ch_BodyDigest previous = bodyDigest \<and> ch_TurnSequence previous = ws_TurnSequence ws \<and>
                        ch_AttemptID previous = attempt \<and> c_now c < ch_ExpiresAt previous \<and>
                        \<not> ch_ExpiresAt previous > c_now c + challenge_ttl
                     then Inr (st1, chs, previous)
                     else Inr (st1, AList.update i (AList.update op fresh mine) chs, fresh))
                | None \<Rightarrow> Inr (st1, AList.update i (AList.update op fresh mine) chs, fresh))))"

definition AuthorizeSession :: "env \<Rightarrow> call \<Rightarrow> challenges \<Rightarrow> session_proof \<Rightarrow> registry \<Rightarrow> err + worker_session" where
  "AuthorizeSession e c chs p st =
    (let op = ch_Operation (pf_Challenge p) in
     if op \<noteq> op_poll \<and> op \<noteq> op_stop_control then Inl ErrUnauthorized
     else case session_of st (ch_WorkerSessionID (pf_Challenge p)) of
       None \<Rightarrow> Inl ErrUnauthorized
     | Some ws \<Rightarrow> (if \<not> validSessionProof e chs ws p op (c_now c) then Inl ErrUnauthorized else Inr ws))"

section \<open>Bootstrap, resources, Pod and key\<close>

definition dec_key :: "conversation_key \<Rightarrow> json \<Rightarrow> conversation_key option" where
  "dec_key z v =
    (let names = [''ownerID'', ''workspaceID'', ''kind'', ''subjectID'', ''agentID''];
         str = (\<lambda>z1 n ms. dec_field dec_string z1 names n ms)
     in dec_struct z (\<lambda>ms.
       case (str (ck_OwnerID z) ''ownerID'' ms, str (ck_WorkspaceID z) ''workspaceID'' ms,
             str (kind_text (ck_Kind z)) ''kind'' ms, str (ck_SubjectID z) ''subjectID'' ms,
             str (ck_AgentID z) ''agentID'' ms) of
         (Some a, Some b, Some k, Some d, Some f) \<Rightarrow>
           Some \<lparr>ck_OwnerID = a, ck_WorkspaceID = b,
             ck_Kind = (if k = ''issue'' then ConversationIssue else if k = ''agent_dm'' then ConversationAgentDM
                        else if k = ''task'' then ConversationTask else OtherConversation k),
             ck_SubjectID = d, ck_AgentID = f\<rparr>
       | _ \<Rightarrow> None) v)"

definition bootstrap_names :: "string list" where
  "bootstrap_names =
    [''Version'', ''WorkerSessionID'', ''StorageID'', ''WorkspaceAnchorTaskID'', ''CompatibilityDigest'',
     ''TaskRoot'', ''PVCName'', ''PVCUID'', ''RuntimeID'', ''ControlCapability'', ''Conversation'']"

definition sessionBootstrapMatches :: "worker_session \<Rightarrow> string \<Rightarrow> bool" where
  "sessionBootstrapMatches ws raw =
    (let str = (\<lambda>n ms. dec_field dec_string [] bootstrap_names n ms) in
     case parse_json raw of
       None \<Rightarrow> False
     | Some v \<Rightarrow>
         (let ms = (case v of JObj m \<Rightarrow> m | _ \<Rightarrow> []) in
          (v = JNull \<or> v = JObj ms) \<and>
          dec_field dec_int 0 bootstrap_names ''Version'' ms = Some (ws_ProtocolVersion ws) \<and>
          str ''WorkerSessionID'' ms = Some (ws_ID ws) \<and>
          dec_field dec_key zero_conversation_key bootstrap_names ''Conversation'' ms = Some (ws_Conversation ws) \<and>
          str ''StorageID'' ms = Some (ws_StorageID ws) \<and>
          str ''WorkspaceAnchorTaskID'' ms = Some (ws_WorkspaceAnchorTaskID ws) \<and>
          str ''CompatibilityDigest'' ms = Some (ws_CompatibilityDigest ws) \<and>
          str ''TaskRoot'' ms = Some (ws_TaskRoot ws) \<and> str ''PVCName'' ms = Some (ws_PVCName ws) \<and>
          str ''PVCUID'' ms = Some (ws_PVCUID ws) \<and> str ''RuntimeID'' ms = Some (ws_RuntimeID ws) \<and>
          str ''ControlCapability'' ms = Some (ws_ControlToken ws)))"

definition SetSessionBootstrap :: "env \<Rightarrow> string \<Rightarrow> string \<Rightarrow> registry \<Rightarrow> err + (registry \<times> unit)" where
  "SetSessionBootstrap e i raw0 st =
    (if \<not> json_valid raw0 \<or> int (length raw0) > o_MaxRecordBytes e then Inl (ErrInvalid ''session bootstrap'')
     else
       (let raw = compactJSON raw0 in
        case session_of st i of
          None \<Rightarrow> Inl ErrConflict
        | Some ws \<Rightarrow>
            (if ws_ProtocolVersion ws \<noteq> session_protocol \<or> ws_Stop ws \<noteq> None \<or> ws_PodUID ws \<noteq> [] then Inl ErrConflict
             else if ws_Bootstrap ws \<noteq> [] \<and> ws_Bootstrap ws \<noteq> raw then Inl ErrConflict
             else if \<not> sessionBootstrapMatches ws raw then Inl (ErrInvalid ''session bootstrap identity'')
             else Inr (put_session i (ws\<lparr>ws_Bootstrap := raw, ws_BootstrapDigest := e_digest e raw\<rparr>) st, ()))))"

definition SetSessionResources :: "env \<Rightarrow> string \<Rightarrow> string \<Rightarrow> registry \<Rightarrow> err + (registry \<times> unit)" where
  "SetSessionResources e i raw0 st =
    (if \<not> json_valid raw0 \<or> int (length raw0) > o_MaxRecordBytes e then Inl (ErrInvalid ''session resources'')
     else
       (let raw = compactJSON raw0 in
        case session_of st i of
          None \<Rightarrow> Inl ErrConflict
        | Some ws \<Rightarrow>
            (if ws_ResourcesCleaned ws \<or> \<not> preservesResourceCreation (ws_Resources ws) raw (ws_Stop ws \<noteq> None)
             then Inl ErrConflict
             else Inr (put_session i (ws\<lparr>ws_Resources := raw\<rparr>) st, ()))))"

definition BindSessionPod ::
  "string \<Rightarrow> string \<Rightarrow> string \<Rightarrow> string \<Rightarrow> registry \<Rightarrow> err + (registry \<times> unit)" where
  "BindSessionPod i name uid node st =
    (case session_of st i of
       None \<Rightarrow> Inl ErrConflict
     | Some ws \<Rightarrow>
         (if name \<noteq> ws_PodName ws \<or> \<not> validOpaque uid \<or> ws_State ws = SessionClosed \<or>
             ws_PodUID ws \<noteq> [] \<and> ws_PodUID ws \<noteq> uid \<or> ws_NodeID ws \<noteq> [] \<and> node \<noteq> [] \<and> ws_NodeID ws \<noteq> node
          then Inl ErrConflict
          else
            (let ws1 = ws\<lparr>ws_PodUID := uid, ws_NodeID := (if node \<noteq> [] then node else ws_NodeID ws)\<rparr> in
             if ws_ActiveAttempt ws1 \<noteq> [] then
               (let g = get_grant st (ws_ActiveAttempt ws1) in
                if g_Prepared g = None \<or> \<not> g_PreparationStopped g then Inl ErrConflict
                else Inr (put_session i ws1
                            (bind_capabilities (g_AttemptID g) uid
                              (put_grant (g_AttemptID g) (g\<lparr>g_PodUID := ws_PodUID ws1, g_NodeID := ws_NodeID ws1\<rparr>)
                                (bind_failure (g_AttemptID g) uid st))), ()))
             else Inr (put_session i ws1 st, ()))))"

definition AdmitSession :: "string \<Rightarrow> string \<Rightarrow> string \<Rightarrow> registry \<Rightarrow> err + (registry \<times> unit)" where
  "AdmitSession i bootstrapDigest key st =
    (case session_of st i of
       None \<Rightarrow> Inl ErrConflict
     | Some ws \<Rightarrow>
         (if \<not> fingerprint bootstrapDigest \<or> bootstrapDigest \<noteq> ws_BootstrapDigest ws \<or> ws_PodUID ws = [] \<or>
             ws_NodeID ws = [] \<or> length key \<noteq> key_size \<or> ws_State ws = SessionClosed then Inl ErrConflict
          else if ws_SupervisorKey ws \<noteq> [] \<and> ws_SupervisorKey ws \<noteq> key then Inl ErrConflict
          else Inr (put_session i (ws\<lparr>ws_SupervisorKey := key\<rparr>) st, ())))"

section \<open>Publishing a turn\<close>

record turn_assignment =
  ta_WorkerSessionID :: string
  ta_PodUID :: string
  ta_TurnSequence :: u64
  ta_InputDigest :: string
  ta_Bootstrap :: string
  ta_Run :: string
  ta_Deadline :: time

definition assignment_names :: "string list" where
  "assignment_names =
    [''WorkerSessionID'', ''PodUID'', ''TurnSequence'', ''InputDigest'', ''Bootstrap'', ''Run'', ''Deadline'']"

definition dec_assignment :: "json \<Rightarrow> turn_assignment option" where
  "dec_assignment v =
    (let str = (\<lambda>n ms. dec_field dec_string [] assignment_names n ms) in
     dec_struct \<lparr>ta_WorkerSessionID = [], ta_PodUID = [], ta_TurnSequence = 0, ta_InputDigest = [],
                 ta_Bootstrap = [], ta_Run = [], ta_Deadline = 0\<rparr> (\<lambda>ms.
       case (str ''WorkerSessionID'' ms, str ''PodUID'' ms, dec_field dec_u64 0 assignment_names ''TurnSequence'' ms,
             str ''InputDigest'' ms, dec_field dec_raw [] assignment_names ''Bootstrap'' ms,
             dec_field dec_raw [] assignment_names ''Run'' ms, dec_field dec_time 0 assignment_names ''Deadline'' ms) of
         (Some w, Some p, Some t, Some d, Some b, Some r, Some l) \<Rightarrow>
           Some \<lparr>ta_WorkerSessionID = w, ta_PodUID = p, ta_TurnSequence = t, ta_InputDigest = d,
                 ta_Bootstrap = b, ta_Run = r, ta_Deadline = l\<rparr>
       | _ \<Rightarrow> None) v)"

record turn_bootstrap =
  tb_OwnerID :: string
  tb_WorkspaceID :: string
  tb_TaskID :: string
  tb_AgentID :: string
  tb_AttemptID :: string
  tb_WorkerSessionID :: string
  tb_WorkspaceAnchorTaskID :: string
  tb_StorageID :: string
  tb_TaskRoot :: string
  tb_PVCUID :: string
  tb_NativeMetadataDigest :: string
  tb_TurnSequence :: u64
  tb_Generation :: u64

definition turn_bootstrap_names :: "string list" where
  "turn_bootstrap_names =
    [''OwnerID'', ''WorkspaceID'', ''TaskID'', ''AgentID'', ''AttemptID'', ''WorkerSessionID'',
     ''WorkspaceAnchorTaskID'', ''StorageID'', ''TaskRoot'', ''PVCUID'', ''NativeMetadataDigest'',
     ''TurnSequence'', ''Generation'']"

definition dec_turn_bootstrap :: "json \<Rightarrow> turn_bootstrap option" where
  "dec_turn_bootstrap v =
    (let str = (\<lambda>n ms. dec_field dec_string [] turn_bootstrap_names n ms);
         num = (\<lambda>n ms. dec_field dec_u64 0 turn_bootstrap_names n ms)
     in dec_struct \<lparr>tb_OwnerID = [], tb_WorkspaceID = [], tb_TaskID = [], tb_AgentID = [], tb_AttemptID = [],
          tb_WorkerSessionID = [], tb_WorkspaceAnchorTaskID = [], tb_StorageID = [], tb_TaskRoot = [],
          tb_PVCUID = [], tb_NativeMetadataDigest = [], tb_TurnSequence = 0, tb_Generation = 0\<rparr> (\<lambda>ms.
       case (those (map (\<lambda>n. str n ms) (take 11 turn_bootstrap_names)), num ''TurnSequence'' ms, num ''Generation'' ms) of
         (Some ss, Some t, Some gen) \<Rightarrow>
           Some \<lparr>tb_OwnerID = ss ! 0, tb_WorkspaceID = ss ! 1, tb_TaskID = ss ! 2, tb_AgentID = ss ! 3,
             tb_AttemptID = ss ! 4, tb_WorkerSessionID = ss ! 5, tb_WorkspaceAnchorTaskID = ss ! 6,
             tb_StorageID = ss ! 7, tb_TaskRoot = ss ! 8, tb_PVCUID = ss ! 9, tb_NativeMetadataDigest = ss ! 10,
             tb_TurnSequence = t, tb_Generation = gen\<rparr>
       | _ \<Rightarrow> None) v)"

definition assignment_binds :: "env \<Rightarrow> call \<Rightarrow> string \<Rightarrow> turn_assignment \<Rightarrow> turn_bootstrap \<Rightarrow> worker_session \<Rightarrow> task_grant \<Rightarrow> bool" where
  "assignment_binds e c i a b ws g =
    (ta_WorkerSessionID a = ws_ID ws \<and> ta_PodUID a = ws_PodUID ws \<and> ta_TurnSequence a = g_TurnSequence g \<and>
     ta_Deadline a > c_now c \<and> same_raw (ta_Run a) (g_Execution g) \<and>
     tb_OwnerID b = g_OwnerID g \<and> tb_WorkspaceID b = g_WorkspaceID g \<and> tb_TaskID b = g_TaskID g \<and>
     tb_AgentID b = g_AgentID g \<and> tb_AttemptID b = i \<and> tb_WorkerSessionID b = ws_ID ws \<and>
     tb_TurnSequence b = g_TurnSequence g \<and> tb_Generation b = g_Generation g \<and> tb_StorageID b = g_StorageID g \<and>
     tb_WorkspaceAnchorTaskID b = g_WorkspaceAnchorTaskID g \<and> tb_TaskRoot b = g_TaskRoot g \<and>
     tb_PVCUID b = g_PVCUID g \<and>
     (case g_Prepared g of
        None \<Rightarrow> False
      | Some p \<Rightarrow> (case p_NativeMetadata p of
                     None \<Rightarrow> False
                   | Some m \<Rightarrow> tb_NativeMetadataDigest b = NativeMetadata_Digest e m)))"

definition PublishTurn_step ::
  "env \<Rightarrow> call \<Rightarrow> string \<Rightarrow> string \<Rightarrow> string \<Rightarrow> turn_assignment \<Rightarrow> turn_bootstrap \<Rightarrow> registry \<Rightarrow> task_grant \<Rightarrow>
   err + (registry \<times> task_grant \<times> unit)" where
  "PublishTurn_step e c i raw inputDigest a b st g =
    (if g_Assignment g \<noteq> [] then (if g_Assignment g \<noteq> raw then Inl ErrConflict else Inr (st, g, ()))
     else case session_of st (g_WorkerSessionID g) of
       None \<Rightarrow> Inl ErrConflict
     | Some ws \<Rightarrow>
         (if ws_ProtocolVersion ws \<noteq> session_protocol \<or> ws_ActiveAttempt ws \<noteq> i \<or>
             ws_TurnSequence ws \<noteq> g_TurnSequence g \<or> ws_Stop ws \<noteq> None \<or> g_ExecutionRevoked g \<or>
             g_State g \<noteq> Intent \<or> g_Prepared g = None \<or> \<not> g_PreparationStopped g \<or> ws_PodUID ws = [] \<or>
             length (ws_SupervisorKey ws) \<noteq> key_size \<or> \<not> assignment_binds e c i a b ws g
          then Inl ErrConflict
          else
            (let ws1 = ws\<lparr>ws_State := SessionReserved, ws_LastAttemptID := i, ws_InputDigest := inputDigest,
                         ws_Revision := ws_Revision ws + 1\<rparr>
             in Inr (put_session (ws_ID ws1) ws1 st,
                     g\<lparr>g_SupervisorKey := ws_SupervisorKey ws, g_StopKey := ws_SupervisorKey ws,
                       g_Assignment := raw, g_InputDigest := inputDigest, g_Bootstrap := compactJSON (ta_Bootstrap a),
                       g_BootstrapDigest := e_digest e (compactJSON (ta_Bootstrap a)), g_State := Assigned\<rparr>, ()))))"

definition PublishTurn :: "env \<Rightarrow> call \<Rightarrow> string \<Rightarrow> string \<Rightarrow> registry \<Rightarrow> err + (registry \<times> unit)" where
  "PublishTurn e c i raw st =
    (case TurnInputDigest e raw of
       Inl _ \<Rightarrow> Inl (ErrInvalid ''turn assignment'')
     | Inr inputDigest \<Rightarrow>
         (if int (length raw) > o_MaxRecordBytes e then Inl (ErrInvalid ''turn assignment'')
          else case unmarshal dec_assignment raw of
            None \<Rightarrow> Inl (ErrInvalid ''turn assignment digest'')
          | Some a \<Rightarrow>
              (if ta_InputDigest a \<noteq> inputDigest \<or> ta_Deadline a = 0 then Inl (ErrInvalid ''turn assignment digest'')
               else case unmarshal dec_turn_bootstrap (ta_Bootstrap a) of
                 None \<Rightarrow> Inl (ErrInvalid ''turn bootstrap'')
               | Some b \<Rightarrow> update_grant i (PublishTurn_step e c i (compactJSON raw) inputDigest a b) st)))"

section \<open>Accepting a turn\<close>

definition accept_body :: "u64 \<Rightarrow> string \<Rightarrow> string" where
  "accept_body sequence inputDigest =
    json_text (JObj [(''turnSequence'', ju64 sequence), (''inputDigest'', jstr inputDigest)])"

definition AcceptTurn ::
  "env \<Rightarrow> call \<Rightarrow> challenges \<Rightarrow> string \<Rightarrow> u64 \<Rightarrow> string \<Rightarrow> session_proof \<Rightarrow> registry \<Rightarrow>
   err + (registry \<times> task_grant)" where
  "AcceptTurn e c chs i sequence inputDigest p st =
    (case session_of st i of
       None \<Rightarrow> Inl ErrUnauthorized
     | Some ws \<Rightarrow>
         (if ch_WorkerSessionID (pf_Challenge p) \<noteq> i \<or> ch_Operation (pf_Challenge p) \<noteq> op_accept \<or>
             sequence = 0 \<or> \<not> fingerprint inputDigest then Inl ErrUnauthorized
          else if ch_BodyDigest (pf_Challenge p) \<noteq> e_digest e (accept_body sequence inputDigest) then Inl ErrUnauthorized
          else case find (\<lambda>old. g_WorkerSessionID old = i \<and> g_TurnSequence old = sequence \<and>
                       g_InputDigest old = inputDigest \<and> g_AcceptProof old = Some p) (mvals (r_Grants st)) of
            Some old \<Rightarrow> Inr (st, old)
          | None \<Rightarrow>
              (if \<not> validSessionProof e chs ws p op_accept (c_now c) \<or> ws_Stop ws \<noteq> None \<or>
                  ws_State ws \<noteq> SessionReserved \<or> sequence \<noteq> ws_TurnSequence ws then Inl ErrUnauthorized
               else
                 (let g = get_grant st (ws_ActiveAttempt ws) in
                  if g_State g \<noteq> Assigned \<or> g_ExecutionRevoked g \<or> g_InputDigest g \<noteq> inputDigest \<or>
                     g_TurnAccepted g \<or> \<not> turnBeforeDeadline g (c_now c) then Inl ErrConflict
                  else let g1 = g\<lparr>g_TurnAccepted := True, g_AcceptProof := Some p\<rparr>
                       in Inr (put_grant (g_AttemptID g1) g1 st, g1)))))"

section \<open>Stopping a session\<close>

definition RequestSessionStop :: "call \<Rightarrow> string \<Rightarrow> string \<Rightarrow> registry \<Rightarrow> err + (registry \<times> worker_session)" where
  "RequestSessionStop c i reason st =
    (if \<not> validOpaque reason \<or> length reason > 256 then Inl (ErrInvalid ''session stop reason'')
     else case session_of st i of
       None \<Rightarrow> Inl ErrUnauthorized
     | Some ws \<Rightarrow>
         (if ws_State ws = SessionClosed \<and> ws_Stop ws = None then Inl ErrConflict
          else let (st1, ws1) = requestSessionStop c reason (c_now c) st ws in Inr (put_session i ws1 st1, ws1)))"

definition reason_body :: "string \<Rightarrow> string" where
  "reason_body reason = json_text (JObj [(''reason'', jstr reason)])"

definition RequestSessionStopSigned ::
  "env \<Rightarrow> call \<Rightarrow> challenges \<Rightarrow> string \<Rightarrow> string \<Rightarrow> session_proof \<Rightarrow> registry \<Rightarrow>
   err + (registry \<times> worker_session)" where
  "RequestSessionStopSigned e c chs i reason p st =
    (if \<not> validOpaque reason \<or> length reason > 256 then Inl (ErrInvalid ''session stop reason'')
     else case session_of st i of
       None \<Rightarrow> Inl ErrUnauthorized
     | Some ws \<Rightarrow>
         (if (case ws_Stop ws of None \<Rightarrow> False
              | Some stop \<Rightarrow> ssp_RequestProof stop = Some p \<and> ssp_RequestReason stop = reason)
          then Inr (st, ws)
          else if \<not> validSessionProof e chs ws p op_stop_request (c_now c) \<or>
             ch_BodyDigest (pf_Challenge p) \<noteq> e_digest e (reason_body reason) then Inl ErrUnauthorized
          else
            (let (st1, ws1) = requestSessionStop c reason (c_now c) st ws;
                 ws2 = ws1\<lparr>ws_Stop := map_option (\<lambda>s. s\<lparr>ssp_RequestProof := Some p, ssp_RequestReason := reason\<rparr>)
                             (ws_Stop ws1)\<rparr>
             in Inr (put_session i ws2 st1, ws2))))"

end
