(* ===== verification/Session_Lifecycle.thy ===== *)
theory Session_Lifecycle
  imports Session_Control
begin

text \<open>
  The end of a turn and of a session (\<^verbatim>\<open>session_lifecycle.go\<close>): turn receipts, the
  completion witness, \<^verbatim>\<open>CompleteTurn\<close> and its checkpoint, the session's stop receipt and
  evidence, \<^verbatim>\<open>CloseSession\<close>, quarantine and the idle timer.
\<close>

section \<open>Execution receipts\<close>

definition RecordTurnReceipt_step ::
  "env \<Rightarrow> string \<Rightarrow> turn_receipt \<Rightarrow> registry \<Rightarrow> task_grant \<Rightarrow> err + (registry \<times> task_grant \<times> unit)" where
  "RecordTurnReceipt_step e i receipt st g =
    (let ws = get_session st (g_WorkerSessionID g) in
     if ws_ProtocolVersion ws \<noteq> legacy_protocol then Inl ErrConflict
     else case terminal_of st i of
       None \<Rightarrow> Inl ErrConflict
     | Some t \<Rightarrow>
         (if t_Source t \<noteq> SourceWorker \<or> t_RecoveryFailure t \<noteq> None \<or> \<not> validTurnReceipt e g t receipt
          then Inl ErrConflict
          else case g_TurnReceipt g of
            Some old \<Rightarrow> (if old \<noteq> receipt then Inl ErrConflict else Inr (st, g, ()))
          | None \<Rightarrow>
              (if g_State g \<noteq> TerminalReceived \<or> ws_ActiveAttempt ws \<noteq> i \<or>
                  ws_TurnSequence ws \<noteq> g_TurnSequence g \<or> \<not> g_CheckoutClosed g \<or> g_CheckoutNeedsFlush g \<or>
                  g_CheckoutProcess g \<noteq> None \<or> \<not> g_PreparationStopped g
               then Inl ErrConflict
               else Inr (finish_session (g_WorkerSessionID g) st,
                         g\<lparr>g_TurnReceipt := Some receipt, g_ExecutionRevoked := True\<rparr>, ()))))"

definition RecordTurnReceipt :: "env \<Rightarrow> string \<Rightarrow> turn_receipt \<Rightarrow> registry \<Rightarrow> err + (registry \<times> unit)" where
  "RecordTurnReceipt e i receipt st = update_grant i (RecordTurnReceipt_step e i receipt) st"

definition RecordTurnExecutionReceipt_step ::
  "env \<Rightarrow> call \<Rightarrow> challenges \<Rightarrow> string \<Rightarrow> turn_execution_receipt \<Rightarrow> session_proof \<Rightarrow> registry \<Rightarrow> task_grant \<Rightarrow>
   err + (registry \<times> task_grant \<times> unit)" where
  "RecordTurnExecutionReceipt_step e c chs i receipt p st g =
    (case (session_of st (g_WorkerSessionID g), terminal_of st i) of
       (Some ws, Some t) \<Rightarrow>
         (if ws_ProtocolVersion ws \<noteq> session_protocol \<or> t_Source t \<noteq> SourceWorker \<or> t_RecoveryFailure t \<noteq> None \<or>
             \<not> validTurnExecutionReceipt e g t receipt
          then Inl ErrConflict
          else case g_TurnExecutionReceipt g of
            Some old \<Rightarrow>
              (if old \<noteq> receipt \<or> g_TurnExecutionProof g \<noteq> Some p then Inl ErrConflict else Inr (st, g, ()))
          | None \<Rightarrow>
              (if \<not> validSessionProof e chs ws p op_turn_execution (c_now c) \<or>
                  ch_BodyDigest (pf_Challenge p) \<noteq> e_digest e (json_text (turn_execution_receipt_json receipt))
               then Inl ErrUnauthorized
               else if g_State g \<noteq> TerminalReceived \<or> ws_ActiveAttempt ws \<noteq> i \<or>
                  ws_TurnSequence ws \<noteq> g_TurnSequence g \<or> \<not> g_CheckoutClosed g \<or> g_CheckoutNeedsFlush g \<or>
                  g_CheckoutProcess g \<noteq> None \<or> \<not> g_PreparationStopped g
               then Inl ErrConflict
               else Inr (finish_session (g_WorkerSessionID g) st,
                         g\<lparr>g_TurnExecutionReceipt := Some receipt, g_TurnExecutionProof := Some p,
                           g_ExecutionRevoked := True\<rparr>, ())))
     | _ \<Rightarrow> Inl ErrConflict)"

definition RecordTurnExecutionReceipt ::
  "env \<Rightarrow> call \<Rightarrow> challenges \<Rightarrow> string \<Rightarrow> turn_execution_receipt \<Rightarrow> session_proof \<Rightarrow> registry \<Rightarrow>
   err + (registry \<times> unit)" where
  "RecordTurnExecutionReceipt e c chs i receipt p st =
    update_grant i (RecordTurnExecutionReceipt_step e c chs i receipt p) st"

definition turnExecutionSettled :: "env \<Rightarrow> registry \<Rightarrow> task_grant \<Rightarrow> terminal \<Rightarrow> bool" where
  "turnExecutionSettled e st g t =
    (let ws = get_session st (g_WorkerSessionID g) in
     if ws_ProtocolVersion ws = legacy_protocol then
       (case g_TurnReceipt g of None \<Rightarrow> False | Some r \<Rightarrow> validTurnReceipt e g t r)
     else ws_ProtocolVersion ws = session_protocol \<and>
       (case (g_TurnExecutionReceipt g, g_TurnExecutionProof g) of
          (Some r, Some p) \<Rightarrow> validTurnExecutionReceipt e g t r \<and> validStoredTurnExecutionProof e ws g r p
        | _ \<Rightarrow> False))"

section \<open>The completion witness\<close>

fun completion_status :: "terminal_kind \<Rightarrow> string" where
  "completion_status KindComplete = ''completed''"
| "completion_status KindFail = ''failed''"
| "completion_status KindCancelAck = ''cancelled''"
| "completion_status (OtherKind _) = ''''"

definition witnessMatches :: "task_grant \<Rightarrow> terminal \<Rightarrow> completion_witness \<Rightarrow> bool" where
  "witnessMatches g t w =
    (case g_PendingResume g of
       None \<Rightarrow> False
     | Some r \<Rightarrow>
         (if cw_TaskID w \<noteq> g_TaskID g \<or> cw_AttemptID w \<noteq> g_AttemptID g \<or>
             cw_WorkerSessionID w \<noteq> g_WorkerSessionID g \<or> cw_StorageID w \<noteq> g_StorageID g \<or>
             cw_TurnSequence w \<noteq> g_TurnSequence g \<or> cw_RequestDigest w \<noteq> t_RequestDigest t \<or>
             cw_ResultDigest w \<noteq> t_ResultDigest t \<or> cw_Status w \<noteq> completion_status (t_Kind t) \<or>
             cw_AcknowledgedAt w = 0 then False
          else cw_SessionID w = (if t_Kind t = KindFail \<and> \<not> rp_ResumeRejectedTransient r then []
                                 else effectiveSession r) \<and>
               cw_WorkDir w = rp_WorkDir r))"

definition RecordCompletionWitness_step ::
  "env \<Rightarrow> string \<Rightarrow> completion_witness \<Rightarrow> registry \<Rightarrow> task_grant \<Rightarrow> err + (registry \<times> task_grant \<times> unit)" where
  "RecordCompletionWitness_step e i w st g =
    (case terminal_of st i of
       None \<Rightarrow> Inl ErrConflict
     | Some t \<Rightarrow>
         (if g_WorkerSessionID g = [] \<or> t_Source t \<noteq> SourceWorker \<or> t_State t = DRejected \<or>
             t_RecoveryFailure t \<noteq> None \<or>
             (case t_ResultReceipt t of None \<Rightarrow> True | Some r \<Rightarrow> \<not> validResultReceipt e g t r) \<or>
             \<not> witnessMatches g t w
          then Inl ErrConflict
          else case g_CompletionWitness g of
            Some original \<Rightarrow>
              (if original \<noteq> w\<lparr>cw_AcknowledgedAt := cw_AcknowledgedAt original\<rparr> then Inl ErrConflict
               else Inr (st, g, ()))
          | None \<Rightarrow>
              Inr (put_terminal i (t\<lparr>t_State := DDelivered\<rparr>) st, g\<lparr>g_CompletionWitness := Some w\<rparr>, ())))"

definition RecordCompletionWitness ::
  "env \<Rightarrow> string \<Rightarrow> completion_witness \<Rightarrow> registry \<Rightarrow> err + (registry \<times> unit)" where
  "RecordCompletionWitness e i w st = update_grant i (RecordCompletionWitness_step e i w) st"

section \<open>Settled attempts and checkpoints\<close>

definition checkpointOutcome :: "terminal \<Rightarrow> bool" where
  "checkpointOutcome t = (t_Kind t = KindComplete \<or> t_Kind t = KindFail \<or> t_Kind t = KindCancelAck)"

definition nativeCheckpointOutcome :: "task_grant \<Rightarrow> terminal \<Rightarrow> bool" where
  "nativeCheckpointOutcome g t =
    (t_Kind t = KindComplete \<or> t_Kind t = KindFail \<and>
       (case g_PendingResume g of None \<Rightarrow> False | Some r \<Rightarrow> rp_ResumeRejectedTransient r))"

definition CheckpointSource_valid :: "env \<Rightarrow> checkpoint_source \<Rightarrow> bool" where
  "CheckpointSource_valid e s = (canonicalUUID e (src_TaskID s) \<and> canonicalUUID e (src_AttemptID s))"

definition legacyWriterReleased :: "registry \<Rightarrow> task_grant \<Rightarrow> bool" where
  "legacyWriterReleased st g =
    (g_State g = Closed \<and> g_CleanupComplete g \<and> deliverySettled st (g_AttemptID g))"

definition attemptSettled :: "registry \<Rightarrow> task_grant \<Rightarrow> bool" where
  "attemptSettled st g =
    (if g_WorkerSessionID g = [] then legacyWriterReleased st g
     else g_TurnComplete g \<and> deliverySettled st (g_AttemptID g) \<and> eventsSettled g)"

definition workspace_eligible :: "task_grant \<Rightarrow> bool" where
  "workspace_eligible g = (case g_Selection g of None \<Rightarrow> False | Some s \<Rightarrow> sel_WorkspaceReuseEligible s)"

definition session_eligible :: "task_grant \<Rightarrow> bool" where
  "session_eligible g = (case g_Selection g of None \<Rightarrow> False | Some s \<Rightarrow> sel_ReuseEligible s)"

definition selectedWitness :: "env \<Rightarrow> registry \<Rightarrow> checkpoint_source \<Rightarrow> string \<Rightarrow> err + completion_witness" where
  "selectedWitness e st source storageID =
    (case grant_of st (src_AttemptID source) of
       None \<Rightarrow> Inl ErrConflict
     | Some g \<Rightarrow>
         (case g_CompletionWitness g of
            None \<Rightarrow> Inl ErrConflict
          | Some w \<Rightarrow>
              (if \<not> CheckpointSource_valid e source \<or> g_TaskID g \<noteq> src_TaskID source \<or> g_StorageID g \<noteq> storageID \<or>
                  \<not> g_TurnComplete g \<or> \<not> workspace_eligible g \<or>
                  \<not> checkpointOutcome (get_terminal st (g_AttemptID g)) \<or> \<not> attemptSettled st g
               then Inl ErrConflict else Inr w)))"

definition grant_source :: "task_grant \<Rightarrow> checkpoint_source" where
  "grant_source g = \<lparr>src_TaskID = g_TaskID g, src_AttemptID = g_AttemptID g\<rparr>"

definition session_file_ok :: "call \<Rightarrow> task_grant \<Rightarrow> string \<Rightarrow> bool" where
  "session_file_ok c g session = (case g_Prepared g of None \<Rightarrow> False | Some p \<Rightarrow> c_session_ok c p session)"

text \<open>The native session a checkpoint keeps: the one the turn produced, or the one it resumed.\<close>

definition checkpoint_session ::
  "env \<Rightarrow> call \<Rightarrow> registry \<Rightarrow> task_grant \<Rightarrow> storage \<Rightarrow> completion_witness \<Rightarrow> selection \<Rightarrow> bool \<Rightarrow>
   string \<times> checkpoint_source" where
  "checkpoint_session e c st g b w s revalidate =
    (let nativeEligible = sel_ReuseEligible s \<and> nativeCheckpointOutcome g (get_terminal st (g_AttemptID g));
         session = cw_SessionID w
     in if nativeEligible \<and> session \<noteq> [] \<and> session \<notin> set (b_RetiredSessions b) \<and>
           (\<not> revalidate \<or> session_file_ok c g session)
        then (session, grant_source g)
        else if nativeEligible \<and> session = [] \<and> sel_Mode s = SelectionResume \<and>
           sel_SessionID s \<notin> set (b_RetiredSessions b)
        then (case selectedWitness e st (sel_SessionSource s) (g_StorageID g) of
                Inl _ \<Rightarrow> ([], no_source)
              | Inr selected \<Rightarrow>
                  (let source = get_grant st (src_AttemptID (sel_SessionSource s)) in
                   if session_eligible source \<and> g_CompatibilityDigest source = g_CompatibilityDigest g \<and>
                      cw_SessionID selected = sel_SessionID s \<and> session_file_ok c g (cw_SessionID selected)
                   then (cw_SessionID selected, sel_SessionSource s) else ([], no_source)))
        else ([], no_source))"

text \<open>The callers have a witness and a workspace-eligible selection (the code dereferences
  both).\<close>

definition completedCheckpoint ::
  "env \<Rightarrow> call \<Rightarrow> registry \<Rightarrow> task_grant \<Rightarrow> storage \<Rightarrow> completion_witness \<Rightarrow> selection \<Rightarrow> time \<Rightarrow> bool \<Rightarrow>
   session_checkpoint" where
  "completedCheckpoint e c st g b w s now revalidate =
    (let (session, source) = checkpoint_session e c st g b w s revalidate;
         workDir = g_TaskRoot g @ ''/workdir'';
         workspaceSource =
           (if cw_WorkDir w = workDir then grant_source g
            else case selectedWitness e st (sel_WorkspaceSource s) (g_StorageID g) of
              Inl _ \<Rightarrow> no_source
            | Inr selected \<Rightarrow> (if cw_WorkDir selected = workDir then sel_WorkspaceSource s else no_source))
     in \<lparr>cp_SealingSessionID = [], cp_SealedAt = 0, cp_Source = grant_source g, cp_SessionSource = source,
         cp_WorkspaceSource = workspaceSource, cp_WorkerSessionID = g_WorkerSessionID g,
         cp_TurnSequence = g_TurnSequence g, cp_CompatibilityDigest = g_CompatibilityDigest g,
         cp_WorkspaceCompatibilityDigest = g_WorkspaceCompatibilityDigest g, cp_SessionID = session,
         cp_WorkDir = workDir, cp_PublishedAt = now\<rparr>)"

section \<open>Stop evidence of a session\<close>

definition session_resources_without_worker :: "worker_session \<Rightarrow> bool" where
  "session_resources_without_worker ws = resources_without_worker (ws_Resources ws)"

definition stop_active_attempt :: "worker_session \<Rightarrow> string" where
  "stop_active_attempt ws =
    (if ws_ActiveAttempt ws = [] then (case ws_Stop ws of None \<Rightarrow> [] | Some s \<Rightarrow> ssp_ActiveAttempt s)
     else ws_ActiveAttempt ws)"

definition validSessionStopEvidence :: "registry \<Rightarrow> worker_session \<Rightarrow> stop_evidence \<Rightarrow> bool" where
  "validSessionStopEvidence st ws ev =
    (if se_ObservedAt ev = 0 \<or> se_PodUID ev \<noteq> ws_PodUID ws \<or> se_PVCUID ev \<noteq> ws_PVCUID ws then False
     else
       (let active = stop_active_attempt ws; g = get_grant st active in
        if active \<noteq> [] \<and> (g_CheckoutProcess g \<noteq> None \<or> g_PreparationStarted g \<and> \<not> g_PreparationStopped g) then False
        else if active \<noteq> [] \<and> se_PreparedFlushOK ev \<and> (g_Prepared g = None \<or> \<not> g_PreparationStopped g) then False
        else case se_Kind ev of
               EvTerminated \<Rightarrow> ws_PodUID ws \<noteq> [] \<and> \<not> se_PreparedFlushOK ev
             | EvNeverStarted \<Rightarrow> ws_PodUID ws \<noteq> [] \<and> ws_SupervisorKey ws = []
             | EvNoWorker \<Rightarrow>
                 (if ws_PodUID ws \<noteq> [] \<or> ws_SupervisorKey ws \<noteq> [] then False
                  else session_resources_without_worker ws)
             | OtherEvidence _ \<Rightarrow> False))"

definition session_evidence :: "worker_session \<Rightarrow> stop_evidence option" where
  "session_evidence ws = (case ws_Stop ws of None \<Rightarrow> None | Some s \<Rightarrow> ssp_Evidence s)"

definition sessionStoppedClean :: "registry \<Rightarrow> worker_session \<Rightarrow> bool" where
  "sessionStoppedClean st ws =
    (case ws_Stop ws of
       None \<Rightarrow> False
     | Some stop \<Rightarrow>
         (case ssp_Evidence stop of
            None \<Rightarrow> False
          | Some ev \<Rightarrow>
              (case ssp_Receipt stop of
                 Some r \<Rightarrow>
                   ssr_WritersStopped r \<and> ssr_FlushOK r \<and> ssp_ControllerWritersStopped stop \<and>
                   sessionWritersFenced st ws
               | None \<Rightarrow>
                   (if se_Kind ev = EvNoWorker \<or> se_Kind ev = EvNeverStarted then
                      (if ws_ActiveAttempt ws = [] then True
                       else (let g = get_grant st (ws_ActiveAttempt ws) in
                         \<not> g_PreparationStarted g \<or>
                         g_Prepared g \<noteq> None \<and> g_PreparationStopped g \<and> se_PreparedFlushOK ev))
                    else False))))"

section \<open>Completing a turn\<close>

definition recoverClosedCheckpoint ::
  "env \<Rightarrow> call \<Rightarrow> registry \<Rightarrow> task_grant \<Rightarrow> time \<Rightarrow> err + registry" where
  "recoverClosedCheckpoint e c st g now =
    (case (session_of st (g_WorkerSessionID g), g_Selection g) of
       (Some ws, Some s) \<Rightarrow>
         (if ws_State ws \<noteq> SessionClosed \<or> \<not> sel_WorkspaceReuseEligible s then Inr st
          else
            (let b = get_storage st (g_StorageID g); t = get_terminal st (g_AttemptID g) in
             if b_LatestWriter b \<noteq> grant_source g \<or> b_ActiveAttempt b \<noteq> [] \<or> b_WriterSessionID b \<noteq> [] \<or>
                (case b_Checkpoint b of None \<Rightarrow> False | Some cp \<Rightarrow> cp_Source cp = b_LatestWriter b \<and> \<not> b_Dirty b)
             then Inr st
             else if \<not> checkpointOutcome t then Inr st
             else case (g_CompletionWitness g, session_evidence ws) of
               (Some w, Some ev) \<Rightarrow>
                 (if \<not> witnessMatches g t w \<or> t_State t \<noteq> DDelivered \<or> t_ResultReceipt t = None \<or>
                     t_RecoveryFailure t \<noteq> None \<or> \<not> eventsSettled g \<or> \<not> g_CheckoutClosed g \<or>
                     g_CheckoutNeedsFlush g \<or> g_CheckoutProcess g \<noteq> None \<or> g_Prepared g = None \<or>
                     \<not> g_PreparationStopped g \<or> \<not> sessionStoppedClean st ws \<or> \<not> validSessionStopEvidence st ws ev
                  then Inl ErrConflict
                  else
                    (let cp0 = completedCheckpoint e c st g b w s now True;
                         cp = (if ws_ProtocolVersion ws = session_protocol
                               then cp0\<lparr>cp_SealingSessionID := ws_ID ws, cp_SealedAt := se_ObservedAt ev\<rparr> else cp0)
                     in Inr (put_storage (b_ID b) (b\<lparr>b_Checkpoint := Some cp, b_SessionID := cp_SessionID cp,
                               b_Dirty := False, b_Quarantined := False\<rparr>) st)))
             | _ \<Rightarrow> Inl ErrConflict))
     | _ \<Rightarrow> Inr st)"

definition turn_storage ::
  "env \<Rightarrow> call \<Rightarrow> registry \<Rightarrow> task_grant \<Rightarrow> worker_session \<Rightarrow> storage \<Rightarrow> completion_witness \<Rightarrow> storage" where
  "turn_storage e c st g ws b0 w =
    (let b = b0\<lparr>b_ActiveAttempt := [], b_Dirty := (ws_ProtocolVersion ws = session_protocol),
               b_Quarantined := False, b_Checkpoint := None, b_SessionID := []\<rparr>
     in case g_Selection g of
          None \<Rightarrow> b
        | Some s \<Rightarrow>
            (if sel_WorkspaceReuseEligible s \<and> checkpointOutcome (get_terminal st (g_AttemptID g)) \<and>
                ws_ProtocolVersion ws = legacy_protocol
             then (let cp = completedCheckpoint e c st g b w s (c_now c) False
                   in b\<lparr>b_Checkpoint := Some cp, b_SessionID := cp_SessionID cp\<rparr>)
             else b))"

text \<open>A resident worker goes idle when nothing stopped it and it is to be retained; otherwise
  its stop is requested.  The turn is no longer active then, so no grant is touched.\<close>

definition turn_session :: "call \<Rightarrow> string \<Rightarrow> task_grant \<Rightarrow> registry \<Rightarrow> worker_session \<Rightarrow> registry \<times> worker_session" where
  "turn_session c i g st ws0 =
    (let ws = ws0\<lparr>ws_ActiveAttempt := [], ws_LastCompleteAttempt := i, ws_Revision := ws_Revision ws0 + 1\<rparr> in
     if ws_ProtocolVersion ws = session_protocol \<and> g_Stop g = None \<and> ws_Stop ws = None \<and> ws_Retention ws > 0 \<and>
        \<not> c_now c < ws_LastObservedAt ws
     then (st, ws\<lparr>ws_State := SessionIdle, ws_IdleSince := c_now c, ws_IdleDeadline := c_now c + ws_Retention ws,
                  ws_LastObservedAt := c_now c\<rparr>)
     else requestSessionStop c ''retention_disabled'' (c_now c) st ws)"

definition turn_completable :: "env \<Rightarrow> registry \<Rightarrow> string \<Rightarrow> worker_session \<Rightarrow> task_grant \<Rightarrow> bool" where
  "turn_completable e st i ws g =
    (let t = get_terminal st i in
     ws_ActiveAttempt ws = i \<and> ws_TurnSequence ws = g_TurnSequence g \<and> turnExecutionSettled e st g t \<and>
     t_State t = DDelivered \<and> t_RecoveryFailure t = None \<and>
     (case g_CompletionWitness g of None \<Rightarrow> False | Some w \<Rightarrow> witnessMatches g t w) \<and> eventsSettled g \<and>
     g_CheckoutClosed g \<and> \<not> g_CheckoutNeedsFlush g \<and> g_CheckoutProcess g = None \<and>
     (\<not> g_PreparationStarted g \<or> g_PreparationStopped g))"

definition CompleteTurn_step ::
  "env \<Rightarrow> call \<Rightarrow> string \<Rightarrow> registry \<Rightarrow> task_grant \<Rightarrow> err + (registry \<times> task_grant \<times> unit)" where
  "CompleteTurn_step e c i st g =
    (if g_TurnComplete g then bind_res (recoverClosedCheckpoint e c st g (c_now c)) (\<lambda>st1. Inr (st1, g, ()))
     else case session_of st (g_WorkerSessionID g) of
       None \<Rightarrow> Inl ErrConflict
     | Some ws0 \<Rightarrow>
         (if \<not> turn_completable e st i ws0 g then Inl ErrConflict
          else
            (let b0 = get_storage st (g_StorageID g) in
             if b_ActiveAttempt b0 \<noteq> i \<or> b_WriterSessionID b0 \<noteq> ws_ID ws0 then Inl ErrConflict
             else case g_CompletionWitness g of
               None \<Rightarrow> Inl ErrConflict
             | Some w \<Rightarrow>
                 (let b = turn_storage e c st g ws0 b0 w;
                      g1 = g\<lparr>g_TurnComplete := True, g_ExecutionRevoked := True, g_State := Closed\<rparr>;
                      (st1, ws) = turn_session c i g1 st ws0
                  in Inr (put_session (ws_ID ws) ws (put_storage (b_ID b) b st1), g1, ())))))"

definition CompleteTurn :: "env \<Rightarrow> call \<Rightarrow> string \<Rightarrow> registry \<Rightarrow> err + (registry \<times> unit)" where
  "CompleteTurn e c i st = update_grant i (CompleteTurn_step e c i) st"

section \<open>Ending a session\<close>

definition RecordSessionStopReceipt ::
  "env \<Rightarrow> call \<Rightarrow> challenges \<Rightarrow> string \<Rightarrow> session_stop_receipt \<Rightarrow> session_proof \<Rightarrow> registry \<Rightarrow>
   err + (registry \<times> unit)" where
  "RecordSessionStopReceipt e c chs i receipt p st =
    (case session_of st i of
       None \<Rightarrow> Inl ErrConflict
     | Some ws \<Rightarrow>
         (case ws_Stop ws of
            None \<Rightarrow> Inl ErrConflict
          | Some stop \<Rightarrow>
              (if \<not> validSessionStopReceipt e ws receipt then Inl ErrConflict
               else case ssp_Receipt stop of
                 Some old \<Rightarrow>
                   (if old \<noteq> receipt \<or> ssp_ReceiptProof stop \<noteq> Some p then Inl ErrConflict else Inr (st, ()))
               | None \<Rightarrow>
                   (if \<not> validSessionProof e chs ws p op_stop_receipt (c_now c) \<or>
                       ch_BodyDigest (pf_Challenge p) \<noteq> e_digest e (json_text (session_stop_receipt_json receipt)) \<or>
                       ssr_WritersStopped receipt \<and> ssr_FlushOK receipt \<and>
                         (\<not> ssp_ControllerWritersStopped stop \<or> \<not> sessionWritersFenced st ws)
                    then Inl ErrUnauthorized
                    else Inr (put_session i (ws\<lparr>ws_Stop :=
                                Some (stop\<lparr>ssp_Receipt := Some receipt, ssp_ReceiptProof := Some p\<rparr>)\<rparr>) st, ())))))"

definition ObserveSessionStop :: "string \<Rightarrow> stop_evidence \<Rightarrow> registry \<Rightarrow> err + (registry \<times> unit)" where
  "ObserveSessionStop i ev st =
    (case session_of st i of
       None \<Rightarrow> Inl ErrConflict
     | Some ws \<Rightarrow>
         (case ws_Stop ws of
            None \<Rightarrow> Inl ErrConflict
          | Some stop \<Rightarrow>
              (if \<not> validSessionStopEvidence st ws ev then Inl ErrConflict
               else case ssp_Evidence stop of
                 Some previous \<Rightarrow>
                   (if previous \<noteq> ev\<lparr>se_ObservedAt := se_ObservedAt previous\<rparr> then Inl ErrConflict else Inr (st, ()))
               | None \<Rightarrow>
                   (let ws1 = ws\<lparr>ws_Stop := Some (stop\<lparr>ssp_Evidence := Some ev\<rparr>)\<rparr>;
                        g = get_grant st (ws_ActiveAttempt ws);
                        st1 = (if ws_ActiveAttempt ws \<noteq> [] then
                                 (case g_Stop g of
                                    None \<Rightarrow> st
                                  | Some s \<Rightarrow> put_grant (g_AttemptID g) (g\<lparr>g_Stop := Some (s\<lparr>sp_Evidence := Some ev\<rparr>)\<rparr>) st)
                               else st)
                    in Inr (put_session i ws1 st1, ())))))"

definition RecordSessionControllerFlush :: "string \<Rightarrow> registry \<Rightarrow> err + (registry \<times> unit)" where
  "RecordSessionControllerFlush i st =
    (case session_of st i of
       None \<Rightarrow> Inl ErrConflict
     | Some ws \<Rightarrow>
         (case ws_Stop ws of
            None \<Rightarrow> Inl ErrConflict
          | Some stop \<Rightarrow>
              (if \<not> sessionWritersFenced st ws then Inl ErrConflict
               else Inr (put_session i (ws\<lparr>ws_Stop := Some (stop\<lparr>ssp_ControllerWritersStopped := True\<rparr>)\<rparr>) st, ()))))"

text \<open>The effect of \<^verbatim>\<open>CloseSession\<close> on the active turn and the storage.\<close>

definition closed_turn :: "task_grant \<Rightarrow> task_grant" where
  "closed_turn g = g\<lparr>g_State := Closed, g_TurnComplete := True, g_ExecutionRevoked := True\<rparr>"

definition closed_storage :: "bool \<Rightarrow> bool \<Rightarrow> storage \<Rightarrow> storage" where
  "closed_storage active clean b =
    (let b1 = (if active then b\<lparr>b_ActiveAttempt := [], b_Checkpoint := None, b_SessionID := []\<rparr> else b);
         b2 = b1\<lparr>b_WriterSessionID := [], b_Quarantined := False, b_Dirty := \<not> clean\<rparr>
     in if clean then b2 else b2\<lparr>b_Checkpoint := None, b_SessionID := []\<rparr>)"

definition may_recover :: "registry \<Rightarrow> task_grant \<Rightarrow> bool" where
  "may_recover st latest =
    (g_CompletionWitness latest \<noteq> None \<and> workspace_eligible latest \<and> g_Prepared latest \<noteq> None \<and>
     g_PreparationStopped latest \<and> eventsSettled latest \<and>
     t_State (get_terminal st (g_AttemptID latest)) = DDelivered)"

definition CloseSession :: "env \<Rightarrow> call \<Rightarrow> string \<Rightarrow> registry \<Rightarrow> err + (registry \<times> unit)" where
  "CloseSession e c i st =
    (case session_of st i of
       None \<Rightarrow> Inl ErrConflict
     | Some ws \<Rightarrow>
         (if (case session_evidence ws of None \<Rightarrow> True | Some ev \<Rightarrow> \<not> validSessionStopEvidence st ws ev)
          then Inl ErrConflict
          else if ws_State ws = SessionClosed then Inr (st, ())
          else
            (let b = get_storage st (ws_StorageID ws);
                 clean = sessionStoppedClean st ws;
                 active = (ws_ActiveAttempt ws \<noteq> []);
                 g = get_grant st (ws_ActiveAttempt ws)
             in if b_WriterSessionID b \<noteq> i then Inl ErrConflict
                else if active \<and> unsettled_worker_result (get_terminal st (g_AttemptID g)) then Inl ErrConflict
                else
                  (let st1 = (if active then put_grant (g_AttemptID g) (closed_turn g) st else st);
                       b1 = closed_storage active clean b;
                       ws1 = ws\<lparr>ws_ActiveAttempt := [], ws_State := SessionClosed, ws_Revision := ws_Revision ws + 1\<rparr>;
                       st2 = put_session i ws1 (put_storage (b_ID b1) b1 st1);
                       latest = get_grant st2 (src_AttemptID (b_LatestWriter b1))
                   in if clean \<and> may_recover st2 latest then
                        (case recoverClosedCheckpoint e c st2 latest (c_now c) of
                           Inr st3 \<Rightarrow> Inr (st3, ())
                         | Inl x \<Rightarrow> (if x = ErrConflict then Inr (st2, ()) else Inl x))
                      else Inr (st2, ())))))"

definition MarkSessionCleaned :: "string \<Rightarrow> registry \<Rightarrow> err + (registry \<times> unit)" where
  "MarkSessionCleaned i st =
    (case session_of st i of
       None \<Rightarrow> Inl ErrConflict
     | Some ws \<Rightarrow>
         (if ws_State ws \<noteq> SessionClosed \<or> session_evidence ws = None then Inl ErrConflict
          else Inr (put_session i (ws\<lparr>ws_ResourcesCleaned := True\<rparr>) st, ())))"

definition QuarantineSession :: "call \<Rightarrow> string \<Rightarrow> registry \<Rightarrow> err + (registry \<times> unit)" where
  "QuarantineSession c i st =
    (case session_of st i of
       None \<Rightarrow> Inl ErrConflict
     | Some ws \<Rightarrow>
         (if ws_State ws = SessionClosed then Inl ErrConflict
          else
            (let (st1, ws1) = requestSessionStop c ''session_unproven'' (c_now c) st ws;
                 b = (get_storage st1 (ws_StorageID ws1))\<lparr>b_Quarantined := True\<rparr>
             in Inr (put_session i (ws1\<lparr>ws_State := SessionQuarantined\<rparr>) (put_storage (b_ID b) b st1), ()))))"

section \<open>The idle timer\<close>

definition ExpireSession :: "call \<Rightarrow> string \<Rightarrow> int \<Rightarrow> registry \<Rightarrow> err + (registry \<times> bool)" where
  "ExpireSession c i retention st =
    (if retention < 0 then Inl (ErrInvalid ''session retention'')
     else case session_of st i of
       None \<Rightarrow> Inl ErrUnauthorized
     | Some ws0 \<Rightarrow>
         (if ws_State ws0 \<noteq> SessionIdle then Inr (st, False)
          else
            (let shorter = ws_IdleSince ws0 + retention;
                 ws = (if shorter < ws_IdleDeadline ws0 then ws0\<lparr>ws_IdleDeadline := shorter\<rparr> else ws0)
             in if c_now c < ws_LastObservedAt ws \<or> \<not> c_now c < ws_IdleDeadline ws then
                  (let (st1, ws1) = requestSessionStop c ''idle_expired'' (c_now c) st ws
                   in Inr (put_session i ws1 st1, True))
                else Inr (put_session i (ws\<lparr>ws_LastObservedAt := c_now c\<rparr>) st, False))))"

definition DrainIdleSession :: "call \<Rightarrow> string \<Rightarrow> u64 \<Rightarrow> string \<Rightarrow> registry \<Rightarrow> err + (registry \<times> bool)" where
  "DrainIdleSession c i revision reason st =
    (if revision = 0 \<or> \<not> validOpaque reason \<or> length reason > 256 then Inl (ErrInvalid ''idle timer'')
     else case session_of st i of
       None \<Rightarrow> Inl ErrUnauthorized
     | Some ws \<Rightarrow>
         (if ws_Revision ws \<noteq> revision \<or> ws_State ws \<noteq> SessionIdle then Inr (st, False)
          else let (st1, ws1) = requestSessionStop c reason (c_now c) st ws in Inr (put_session i ws1 st1, True)))"

end
