(* ===== verification/Session_Reservation.thy ===== *)
theory Session_Reservation
  imports Session_Lifecycle
begin

text \<open>
  Choosing the continuity of a turn and reserving it (\<^verbatim>\<open>session_reservation.go\<close>): the
  recorded backend and local selections, the proof that a storage may be written again
  (cold: the sealed checkpoint of a closed session; warm: the idle session that owns it), and
  \<^verbatim>\<open>ReserveTurn\<close>, which takes the next sequence number and the exclusive writer.

  \<^verbatim>\<open>ReserveTurn\<close> may commit a session it stops and still report an error, so its committed
  result is itself an \<open>err + \<dots>\<close>, as for \<open>Create\<close>.
\<close>

section \<open>Sources\<close>

definition mode_known :: "selection \<Rightarrow> bool" where
  "mode_known s =
    (sel_Mode s = SelectionResume \<or> sel_Mode s = SelectionFreshSession \<or> sel_Mode s = SelectionFreshWorkspace)"

definition no_sources :: "selection \<Rightarrow> bool" where
  "no_sources s =
    (sel_StorageID s = [] \<and> sel_SessionID s = [] \<and> sel_WorkDir s = [] \<and> sel_SessionSource s = no_source \<and>
     sel_WorkspaceSource s = no_source \<and> sel_LatestWriter s = no_source)"

definition sameSelectedSources :: "selection \<Rightarrow> selection \<Rightarrow> bool" where
  "sameSelectedSources a b =
    (sel_Conversation a = sel_Conversation b \<and> sel_Mode a = sel_Mode b \<and> sel_StorageID a = sel_StorageID b \<and>
     sel_SessionSource a = sel_SessionSource b \<and> sel_WorkspaceSource a = sel_WorkspaceSource b \<and>
     sel_LatestWriter a = sel_LatestWriter b \<and> sel_SessionID a = sel_SessionID b \<and> sel_WorkDir a = sel_WorkDir b)"

definition sameBackendSources :: "selection \<Rightarrow> selection \<Rightarrow> bool" where
  "sameBackendSources a b =
    sameSelectedSources (a\<lparr>sel_LatestWriter := no_source\<rparr>) (b\<lparr>sel_LatestWriter := no_source\<rparr>)"

definition preservesBackendSelection :: "task_grant \<Rightarrow> selection \<Rightarrow> bool" where
  "preservesBackendSelection g s =
    (if sel_Mode s = SelectionFreshWorkspace then
       (case g_BackendSelection g of None \<Rightarrow> True | Some b \<Rightarrow> sel_Conversation b = sel_Conversation s)
     else case g_BackendSelection g of
       None \<Rightarrow> False
     | Some b \<Rightarrow>
         (if sel_Conversation b \<noteq> sel_Conversation s then False
          else if sel_Mode s = SelectionFreshSession \<and> sel_SessionID s = [] \<and> sel_SessionSource s = no_source then
            (if sel_Mode b = SelectionFreshWorkspace then True
             else sameSelectedSources
               (b\<lparr>sel_Mode := SelectionFreshSession, sel_SessionID := [], sel_SessionSource := no_source\<rparr>) s)
          else sameSelectedSources b s))"

definition validateBackendSelectionSources :: "env \<Rightarrow> registry \<Rightarrow> selection \<Rightarrow> err + unit" where
  "validateBackendSelectionSources e st s =
    (if \<not> ConversationKey_Valid e (sel_Conversation s) \<or> \<not> mode_known s
     then Inl (ErrInvalid ''backend selection identity'')
     else if sel_EvidenceDigest s \<noteq> [] \<and> \<not> fingerprint (sel_EvidenceDigest s)
     then Inl (ErrInvalid ''backend selection evidence'')
     else if sel_Mode s = SelectionFreshWorkspace then (if no_sources s then Inr () else Inl ErrConflict)
     else case storage_of st (sel_StorageID s) of
       None \<Rightarrow> Inl ErrConflict
     | Some b \<Rightarrow>
         (if b_Conversation b \<noteq> sel_Conversation s \<or> sel_WorkDir s \<noteq> b_TaskRoot b @ ''/workdir''
          then Inl ErrConflict
          else if sel_Mode s = SelectionResume \<and> \<not> validOpaque (sel_SessionID s) then Inl ErrConflict
          else if sel_Mode s \<noteq> SelectionResume \<and> (sel_SessionID s \<noteq> [] \<or> sel_SessionSource s \<noteq> no_source)
          then Inl ErrConflict
          else
            (let sources = [sel_WorkspaceSource s, sel_LatestWriter s] @
                   (if sel_Mode s = SelectionResume then [sel_SessionSource s] else [])
             in if list_all (\<lambda>source.
                     CheckpointSource_valid e source \<and>
                     (case grant_of st (src_AttemptID source) of
                        None \<Rightarrow> False
                      | Some prior \<Rightarrow> g_TaskID prior = src_TaskID source \<and> g_StorageID prior = b_ID b \<and>
                          g_Conversation prior = sel_Conversation s)) sources
                then Inr () else Inl ErrConflict)))"

definition selectedSourceWitnesses ::
  "env \<Rightarrow> registry \<Rightarrow> selection \<Rightarrow> storage \<Rightarrow> string \<Rightarrow> err + unit" where
  "selectedSourceWitnesses e st s b compatDigest =
    (case selectedWitness e st (sel_WorkspaceSource s) (b_ID b) of
       Inl _ \<Rightarrow> Inl ErrConflict
     | Inr w \<Rightarrow>
         (if cw_WorkDir w \<noteq> sel_WorkDir s \<or> sel_WorkDir s \<noteq> b_TaskRoot b @ ''/workdir'' then Inl ErrConflict
          else case selectedWitness e st (sel_LatestWriter s) (b_ID b) of
            Inl x \<Rightarrow> Inl x
          | Inr _ \<Rightarrow>
              (if sel_Mode s = SelectionResume then
                 (let source = get_grant st (src_AttemptID (sel_SessionSource s));
                      latest = get_grant st (src_AttemptID (sel_LatestWriter s))
                  in case selectedWitness e st (sel_SessionSource s) (b_ID b) of
                       Inl _ \<Rightarrow> Inl ErrConflict
                     | Inr sw \<Rightarrow>
                         (if \<not> sel_ReuseEligible s \<or> \<not> session_eligible source \<or> \<not> session_eligible latest \<or>
                             \<not> nativeCheckpointOutcome latest (get_terminal st (g_AttemptID latest)) \<or>
                             g_CompatibilityDigest source \<noteq> compatDigest \<or>
                             \<not> nativeCheckpointOutcome source (get_terminal st (g_AttemptID source)) \<or>
                             sel_SessionID s = [] \<or> cw_SessionID sw \<noteq> sel_SessionID s \<or>
                             sel_SessionID s \<in> set (b_RetiredSessions b)
                          then Inl ErrConflict else Inr ()))
               else if sel_SessionID s \<noteq> [] \<or> sel_SessionSource s \<noteq> no_source then Inl ErrConflict
               else Inr ())))"

section \<open>Cold reuse\<close>

definition selectedStorage ::
  "env \<Rightarrow> call \<Rightarrow> registry \<Rightarrow> selection \<Rightarrow> string \<Rightarrow> string \<Rightarrow> err + storage" where
  "selectedStorage e c st s compatDigest workspaceCompat =
    (case storage_of st (sel_StorageID s) of
       None \<Rightarrow> Inl ErrConflict
     | Some b \<Rightarrow>
         (if \<not> sel_WorkspaceReuseEligible s \<or> b_Conversation b \<noteq> sel_Conversation s \<or>
             b_WorkspaceCompatibilityDigest b \<noteq> workspaceCompat \<or> b_Prepared b = None then Inl ErrConflict
          else if b_ActiveAttempt b \<noteq> [] \<or> b_WriterSessionID b \<noteq> [] \<or> b_Quarantined b \<or> b_Dirty b
          then Inl ErrStorageBusy
          else case (b_Checkpoint b, b_Prepared b) of
            (Some cp, Some p) \<Rightarrow>
              (if cp_Source cp \<noteq> sel_LatestWriter s \<or> b_LatestWriter b \<noteq> sel_LatestWriter s then Inl ErrConflict
               else
                 (let producer = get_grant st (src_AttemptID (cp_Source cp));
                      predecessor = get_session st (g_WorkerSessionID producer)
                  in if ws_State predecessor \<noteq> SessionClosed \<or> \<not> sessionStoppedClean st predecessor \<or>
                        (case session_evidence predecessor of
                           None \<Rightarrow> True
                         | Some ev \<Rightarrow> \<not> validSessionStopEvidence st predecessor ev)
                     then Inl ErrConflict
                     else bind_res (selectedSourceWitnesses e st s b compatDigest) (\<lambda>_.
                       if sel_Mode s = SelectionResume \<and> cp_SessionID cp \<noteq> sel_SessionID s \<and>
                          \<not> c_session_ok c p (sel_SessionID s)
                       then Inl ErrConflict else Inr b)))
          | _ \<Rightarrow> Inl ErrConflict))"

section \<open>Warm reuse\<close>

definition warm_session_ok :: "env \<Rightarrow> storage \<Rightarrow> worker_session \<Rightarrow> bool" where
  "warm_session_ok e b ws =
    (ws_ProtocolVersion ws = session_protocol \<and> ws_State ws = SessionIdle \<and> ws_Stop ws = None \<and>
     ws_ActiveAttempt ws = [] \<and> b_ActiveAttempt b = [] \<and> b_Dirty b \<and> \<not> b_Quarantined b \<and> b_Prepared b \<noteq> None \<and>
     b_Checkpoint b = None \<and> ws_StorageID ws = b_ID b \<and> ws_Conversation ws = b_Conversation b \<and>
     ws_WorkspaceCompatibilityDigest ws = b_WorkspaceCompatibilityDigest b \<and> ws_TaskRoot ws = b_TaskRoot b \<and>
     ws_PVCUID ws = b_PVCUID b \<and> ws_PVCName ws = b_PVCName b \<and> ws_Fingerprint ws = b_Fingerprint b \<and>
     canonicalUUID e (ws_PodUID ws) \<and> ws_SupervisorKey ws \<noteq> [])"

definition warm_turn_ok :: "env \<Rightarrow> registry \<Rightarrow> storage \<Rightarrow> worker_session \<Rightarrow> task_grant \<Rightarrow> bool" where
  "warm_turn_ok e st b ws g =
    (let conversation = get_conversation st (ConversationKey_Digest e (b_Conversation b));
         t = get_terminal st (g_AttemptID g)
     in cv_CurrentStorageID conversation = b_ID b \<and> cv_CurrentSessionID conversation = ws_ID ws \<and>
        b_LatestWriter b = grant_source g \<and> g_WorkerSessionID g = ws_ID ws \<and>
        g_TurnSequence g = ws_TurnSequence ws \<and> g_PodUID g = ws_PodUID ws \<and> g_PVCUID g = ws_PVCUID ws \<and>
        g_Conversation g = ws_Conversation ws \<and> g_StorageID g = b_ID b \<and>
        Ref_Equal (g_RuntimeRef g) (ws_RuntimeRef ws) \<and> workspace_eligible g \<and> g_TurnComplete g \<and>
        turnExecutionSettled e st g t \<and>
        (case g_CompletionWitness g of None \<Rightarrow> False | Some w \<Rightarrow> witnessMatches g t w) \<and> checkpointOutcome t \<and>
        t_State t = DDelivered \<and> t_RecoveryFailure t = None \<and> attemptSettled st g \<and> g_CheckoutClosed g \<and>
        \<not> g_CheckoutNeedsFlush g \<and> g_CheckoutProcess g = None \<and> g_PreparationStopped g)"

definition warmStorageSession :: "env \<Rightarrow> registry \<Rightarrow> storage \<Rightarrow> err + worker_session" where
  "warmStorageSession e st b =
    (case session_of st (b_WriterSessionID b) of
       None \<Rightarrow> Inl ErrStorageBusy
     | Some ws \<Rightarrow>
         (if \<not> warm_session_ok e b ws then Inl ErrStorageBusy
          else case grant_of st (ws_LastCompleteAttempt ws) of
            None \<Rightarrow> Inl ErrConflict
          | Some g \<Rightarrow> (if warm_turn_ok e st b ws g then Inr ws else Inl ErrConflict)))"

definition WarmSession :: "env \<Rightarrow> string \<Rightarrow> registry \<Rightarrow> err + worker_session" where
  "WarmSession e storageID st = warmStorageSession e st (get_storage st storageID)"

definition selectedWarmStorage ::
  "env \<Rightarrow> registry \<Rightarrow> task_grant \<Rightarrow> selection \<Rightarrow> string \<Rightarrow> err + (storage \<times> worker_session)" where
  "selectedWarmStorage e st g s compatDigest =
    (case storage_of st (sel_StorageID s) of
       None \<Rightarrow> Inl ErrConflict
     | Some b \<Rightarrow>
         (if \<not> sel_WorkspaceReuseEligible s \<or> sel_Conversation s \<noteq> b_Conversation b \<or>
             b_WorkspaceCompatibilityDigest b \<noteq> g_WorkspaceCompatibilityDigest g then Inl ErrConflict
          else if b_ActiveAttempt b \<noteq> [] then Inl ErrStorageBusy
          else if b_LatestWriter b \<noteq> sel_LatestWriter s then Inl ErrConflict
          else bind_res (warmStorageSession e st b) (\<lambda>ws.
            if g_RuntimeID g \<noteq> ws_RuntimeID ws \<or> \<not> Ref_Equal (g_RuntimeRef g) (ws_RuntimeRef ws) \<or>
               g_Fingerprint g \<noteq> ws_Fingerprint ws then Inl ErrConflict
            else bind_res (selectedSourceWitnesses e st s b compatDigest) (\<lambda>_. Inr (b, ws)))))"

definition validateLocalWorkspaceSelection ::
  "env \<Rightarrow> call \<Rightarrow> registry \<Rightarrow> task_grant \<Rightarrow> selection \<Rightarrow> err + unit" where
  "validateLocalWorkspaceSelection e c st g s =
    (if sel_Mode s \<noteq> SelectionFreshSession \<or>
        (case g_BackendSelection g of None \<Rightarrow> True | Some b \<Rightarrow> sel_Mode b \<noteq> SelectionFreshWorkspace)
     then Inr ()
     else
       (let b = get_storage st (sel_StorageID s) in
        if b_WriterSessionID b \<noteq> [] then
          (case selectedWarmStorage e st g s (g_CompatibilityDigest g) of
             Inl _ \<Rightarrow> Inl ErrConflict
           | Inr (_, ws) \<Rightarrow>
               (if sel_WorkspaceSource s \<noteq> b_LatestWriter b \<or>
                   ws_LastCompleteAttempt ws \<noteq> src_AttemptID (sel_LatestWriter s)
                then Inl ErrConflict else Inr ()))
        else case b_Checkpoint b of
          None \<Rightarrow> Inl ErrConflict
        | Some cp \<Rightarrow>
            (if cv_CurrentStorageID (get_conversation st (ConversationKey_Digest e (sel_Conversation s))) \<noteq> b_ID b \<or>
                sel_WorkspaceSource s \<noteq> cp_WorkspaceSource cp \<or> sel_LatestWriter s \<noteq> cp_Source cp
             then Inl ErrConflict
             else bind_res (selectedStorage e c st s (g_CompatibilityDigest g) (g_WorkspaceCompatibilityDigest g))
               (\<lambda>_. Inr ()))))"

section \<open>Recording a selection\<close>

text \<open>A selection names the task's own conversation; neither record may change once it is set,
  except that the backend's latest writer may advance before a local selection exists.\<close>

definition selection_scope_ok :: "task_grant \<Rightarrow> selection \<Rightarrow> bool" where
  "selection_scope_ok g s =
    (ck_OwnerID (sel_Conversation s) = g_OwnerID g \<and> ck_WorkspaceID (sel_Conversation s) = g_WorkspaceID g \<and>
     ck_AgentID (sel_Conversation s) = g_AgentID g \<and>
     \<not> (ck_Kind (sel_Conversation s) = ConversationTask \<and> ck_SubjectID (sel_Conversation s) \<noteq> g_TaskID g))"

definition awaiting_selection :: "task_grant \<Rightarrow> bool" where
  "awaiting_selection g =
    (g_SessionProtocol g \<and> \<not> g_Legacy g \<and> g_State g = WaitingStorage \<and> \<not> g_ExecutionRevoked g \<and>
     g_WorkerSessionID g = [])"

definition reuse_claim_ok :: "selection \<Rightarrow> bool" where
  "reuse_claim_ok s =
    (\<not> (\<not> sel_WorkspaceReuseEligible s \<and> sel_Mode s \<noteq> SelectionFreshWorkspace \<or>
        sel_Mode s = SelectionResume \<and> \<not> sel_ReuseEligible s))"

definition RecordSelection_step ::
  "env \<Rightarrow> call \<Rightarrow> selection \<Rightarrow> string \<Rightarrow> registry \<Rightarrow> task_grant \<Rightarrow> err + (registry \<times> task_grant \<times> unit)" where
  "RecordSelection_step e c s compatDigest st g =
    (if \<not> awaiting_selection g \<or> \<not> selection_scope_ok g s \<or> \<not> reuse_claim_ok s then Inl ErrConflict
     else if \<not> provenCompatibility e g s compatDigest \<or> \<not> preservesBackendSelection g s then Inl ErrConflict
     else bind_res (validateLocalWorkspaceSelection e c st g s) (\<lambda>_.
       case g_Selection g of
         Some old \<Rightarrow>
           (if old \<noteq> s \<or> g_CompatibilityDigest g \<noteq> compatDigest then Inl ErrConflict else Inr (st, g, ()))
       | None \<Rightarrow>
           bind_res (validateBackendSelectionSources e st s) (\<lambda>_.
             if sel_Mode s \<noteq> SelectionFreshWorkspace \<and>
                b_WorkspaceCompatibilityDigest (get_storage st (sel_StorageID s)) \<noteq> g_WorkspaceCompatibilityDigest g
             then Inl ErrConflict
             else Inr (st, g\<lparr>g_Conversation := sel_Conversation s, g_CompatibilityDigest := compatDigest,
                             g_Selection := Some s\<rparr>, ()))))"

definition RecordSelection ::
  "env \<Rightarrow> call \<Rightarrow> string \<Rightarrow> selection \<Rightarrow> string \<Rightarrow> registry \<Rightarrow> err + (registry \<times> unit)" where
  "RecordSelection e c i s compatDigest st =
    (if \<not> ConversationKey_Valid e (sel_Conversation s) \<or> \<not> fingerprint compatDigest \<or> \<not> mode_known s
     then Inl (ErrInvalid ''continuity selection'')
     else update_grant i (RecordSelection_step e c s compatDigest) st)"

definition latest_writer_matches :: "registry \<Rightarrow> selection \<Rightarrow> bool" where
  "latest_writer_matches st s =
    (sel_Mode s = SelectionFreshWorkspace \<or>
     b_LatestWriter (get_storage st (sel_StorageID s)) = sel_LatestWriter s)"

definition RecordBackendSelection_step ::
  "env \<Rightarrow> selection \<Rightarrow> registry \<Rightarrow> task_grant \<Rightarrow> err + (registry \<times> task_grant \<times> unit)" where
  "RecordBackendSelection_step e s st g =
    (if \<not> awaiting_selection g \<or> \<not> selection_scope_ok g s \<or>
        (g_Conversation g \<noteq> zero_conversation_key \<and> g_Conversation g \<noteq> sel_Conversation s)
     then Inl ErrConflict
     else case g_BackendSelection g of
       Some old \<Rightarrow>
         (if old = s then Inr (st, g, ())
          else if g_Selection g \<noteq> None \<or> \<not> sameBackendSources old s \<or>
            validateBackendSelectionSources e st s \<noteq> Inr () \<or> \<not> latest_writer_matches st s
          then Inl ErrConflict
          else Inr (st, g\<lparr>g_BackendSelection := Some s\<rparr>, ()))
     | None \<Rightarrow>
         bind_res (validateBackendSelectionSources e st s) (\<lambda>_.
           if \<not> latest_writer_matches st s then Inl ErrConflict
           else if (case g_Selection g of
                      None \<Rightarrow> False
                    | Some l \<Rightarrow> \<not> sameSelectedSources l s \<and> sel_Mode l \<noteq> SelectionFreshWorkspace)
           then Inl ErrConflict
           else Inr (st, g\<lparr>g_BackendSelection := Some s, g_Conversation := sel_Conversation s\<rparr>, ())))"

definition RecordBackendSelection ::
  "env \<Rightarrow> string \<Rightarrow> selection \<Rightarrow> registry \<Rightarrow> err + (registry \<times> unit)" where
  "RecordBackendSelection e i s st =
    (if \<not> ConversationKey_Valid e (sel_Conversation s) \<or> \<not> mode_known s
     then Inl (ErrInvalid ''backend continuity selection'')
     else update_grant i (RecordBackendSelection_step e s) st)"

section \<open>Reserving a turn\<close>

text \<open>A released reservation of the same task may be taken again when no worker ever ran on it.\<close>

definition task_storages :: "registry \<Rightarrow> task_grant \<Rightarrow> storage list" where
  "task_storages st g =
    filter (\<lambda>b. b_WorkspaceID b = g_WorkspaceID g \<and> b_TaskID b = g_TaskID g) (mvals (r_Storages st))"

fun prior_owners_ok :: "registry \<Rightarrow> task_grant \<Rightarrow> storage \<Rightarrow> task_grant list \<Rightarrow> err + unit" where
  "prior_owners_ok st g b [] = Inr ()"
| "prior_owners_ok st g b (prior # rest) =
    (if g_StorageID prior \<noteq> b_ID b then prior_owners_ok st g b rest
     else
       (let ws = get_session st (g_WorkerSessionID prior) in
        if g_Legacy prior \<or> \<not> g_SessionProtocol prior \<or> g_TaskID prior \<noteq> g_TaskID g \<or> g_PreparationStarted prior \<or>
           (case session_evidence ws of None \<Rightarrow> True | Some ev \<Rightarrow> se_Kind ev \<noteq> EvNoWorker)
        then Inl ErrConflict
        else if \<not> attemptSettled st prior \<or> ws_State ws \<noteq> SessionClosed \<or> \<not> ws_ResourcesCleaned ws
        then Inl ErrStorageBusy
        else prior_owners_ok st g b rest))"

text \<open>The loop stops at the second storage of the task only when the first one's identity is
  not empty; the result keeps \<^verbatim>\<open>storage.ID == ""\<close> as "none found".\<close>

fun last_task_storage :: "storage \<Rightarrow> storage list \<Rightarrow> err + storage" where
  "last_task_storage found [] = Inr found"
| "last_task_storage found (b # bs) = (if b_ID found \<noteq> [] then Inl ErrConflict else last_task_storage b bs)"

definition unusedTaskStorage ::
  "registry \<Rightarrow> task_grant \<Rightarrow> conversation_key \<Rightarrow> string \<Rightarrow> err + storage" where
  "unusedTaskStorage st g key compatDigest =
    bind_res (last_task_storage zero_storage (task_storages st g)) (\<lambda>b.
      if b_ID b = [] then Inr b
      else if b_WorkspaceAnchorTaskID b \<noteq> g_TaskID g \<or> b_Conversation b \<noteq> key \<or>
        b_CompatibilityDigest b \<noteq> compatDigest \<or> b_AgentID b \<noteq> g_AgentID g \<or> b_ScopeDigest b \<noteq> g_ScopeDigest g \<or>
        b_Fingerprint b \<noteq> g_Fingerprint g \<or> b_Prepared b \<noteq> None \<or> b_Checkpoint b \<noteq> None \<or> b_SessionID b \<noteq> [] \<or>
        b_RetiredSessions b \<noteq> []
      then Inl ErrConflict
      else if b_ActiveAttempt b \<noteq> [] \<or> b_WriterSessionID b \<noteq> [] \<or> b_Dirty b \<or> b_Quarantined b
      then Inl ErrStorageBusy
      else bind_res (prior_owners_ok st g b (mvals (r_Grants st))) (\<lambda>_. Inr b))"

definition transientResumeSettled :: "env \<Rightarrow> registry \<Rightarrow> task_grant \<Rightarrow> bool" where
  "transientResumeSettled e st g =
    (let b = get_storage st (g_StorageID g) in
     case warmStorageSession e st b of
       Inr ws \<Rightarrow> ws_LastCompleteAttempt ws = g_AttemptID g
     | Inl _ \<Rightarrow>
         g_TurnComplete g \<and> g_CompletionWitness g \<noteq> None \<and> attemptSettled st g \<and> \<not> b_Dirty b \<and>
         \<not> b_Quarantined b \<and>
         (case b_Checkpoint b of None \<Rightarrow> False | Some cp \<Rightarrow> cp_Source cp = b_LatestWriter b))"

definition resolvedCompatibilityChanged :: "env \<Rightarrow> task_grant \<Rightarrow> task_grant \<Rightarrow> bool" where
  "resolvedCompatibilityChanged e g prior =
    (g_CompatibilityDigest g \<noteq> g_CompatibilityDigest prior \<and>
     (case g_Compatibility g of
        None \<Rightarrow> False
      | Some k \<Rightarrow> cc_ProviderOptionsResolved k \<and> ValidForReuse e (cc_Authority k)))"

definition dec_legacy_scope ::
  "json \<Rightarrow> (string \<times> string \<times> string \<times> string \<times> string \<times> string) option" where
  "dec_legacy_scope v =
    (let names = [''kind'', ''issue_id'', ''chat_session_id'', ''autopilot_run_id'', ''chat_channel_type'', ''chat_type''];
         fld = (\<lambda>n ms. dec_field dec_string [] names n ms)
     in dec_struct ([], [], [], [], [], []) (\<lambda>ms.
       case (fld ''kind'' ms, fld ''issue_id'' ms, fld ''chat_session_id'' ms, fld ''autopilot_run_id'' ms,
             fld ''chat_channel_type'' ms, fld ''chat_type'' ms) of
         (Some a, Some b, Some c, Some d, Some x, Some y) \<Rightarrow> Some (a, b, c, d, x, y)
       | _ \<Rightarrow> None) v)"

definition legacyConversationConflicts :: "env \<Rightarrow> task_grant \<Rightarrow> conversation_key \<Rightarrow> bool" where
  "legacyConversationConflicts e g key =
    (if g_WorkspaceID g \<noteq> ck_WorkspaceID key \<or> g_AgentID g \<noteq> ck_AgentID key then False
     else case unmarshal dec_legacy_scope (g_Envelope g) of
       None \<Rightarrow> True
     | Some (kind, issue, chat, run, channel, ctype) \<Rightarrow>
         (if canonicalUUID e issue \<and> (kind = ''direct'' \<or> kind = ''comment'') \<and> chat = [] \<and> run = []
          then ck_Kind key = ConversationIssue \<and> ck_SubjectID key = issue
          else if canonicalUUID e chat \<and> kind = ''chat'' \<and> issue = [] \<and> run = [] \<and> channel = [] \<and> ctype = []
          then ck_Kind key = ConversationAgentDM \<and> ck_SubjectID key = chat
          else True))"

text \<open>The loop over the other grants: whether one of them keeps the turn waiting.\<close>

definition blocks_turn :: "env \<Rightarrow> registry \<Rightarrow> string \<Rightarrow> task_grant \<Rightarrow> selection \<Rightarrow> task_grant \<Rightarrow> bool" where
  "blocks_turn e st i g s other =
    (g_AttemptID other \<noteq> i \<and>
     (g_TaskID other = g_TaskID g \<and> \<not> attemptSettled st other \<or>
      g_WorkerSessionID other = [] \<and> g_StorageID other \<noteq> [] \<and> \<not> legacyWriterReleased st other \<and>
        legacyConversationConflicts e other (sel_Conversation s) \<or>
      sel_Mode s = SelectionFreshWorkspace \<and> g_Conversation other = sel_Conversation s \<and>
        g_StorageID other =
          cv_CurrentStorageID (get_conversation st (ConversationKey_Digest e (sel_Conversation s))) \<and>
        (case g_PendingResume other of None \<Rightarrow> False | Some r \<Rightarrow> rp_ResumeRejectedTransient r) \<and>
        \<not> transientResumeSettled e st other \<and> \<not> resolvedCompatibilityChanged e g other))"

text \<open>The conversation's record, the storage the selection names (the zero storage when it
  asks for a fresh one) and the warm session that owns it (the zero session when cold).\<close>

definition turn_conversation :: "env \<Rightarrow> registry \<Rightarrow> selection \<Rightarrow> err + conversation" where
  "turn_conversation e st s =
    (let found = get_conversation st (ConversationKey_Digest e (sel_Conversation s));
         v = (if cv_Revision found = 0
              then zero_conversation\<lparr>cv_Key := sel_Conversation s, cv_Revision := 1\<rparr> else found)
     in if cv_Key v \<noteq> sel_Conversation s then Inl ErrConflict else Inr v)"

definition turn_source ::
  "env \<Rightarrow> call \<Rightarrow> registry \<Rightarrow> task_grant \<Rightarrow> selection \<Rightarrow> string \<Rightarrow> err + (storage \<times> worker_session)" where
  "turn_source e c st g s compatDigest =
    (if sel_Mode s \<noteq> SelectionFreshWorkspace then
       (if b_WriterSessionID (get_storage st (sel_StorageID s)) \<noteq> []
        then selectedWarmStorage e st g s compatDigest
        else bind_res (selectedStorage e c st s compatDigest (g_WorkspaceCompatibilityDigest g))
          (\<lambda>b. Inr (b, zero_session)))
     else if \<not> no_sources s then Inl (ErrInvalid ''fresh workspace source'')
     else Inr (zero_storage, zero_session))"

text \<open>What happens to the conversation's current session: it is released (\<open>CurrentFree\<close>), it
  continues with this turn, it is still busy, or it is idle and must be stopped first.\<close>

datatype current_session = CurrentFree | CurrentContinues worker_session | CurrentBusy | CurrentReplaced worker_session string

definition turn_current ::
  "call \<Rightarrow> registry \<Rightarrow> task_grant \<Rightarrow> selection \<Rightarrow> storage \<Rightarrow> int \<Rightarrow> conversation \<Rightarrow> current_session" where
  "turn_current c st g s b retention v =
    (if cv_CurrentSessionID v = [] then CurrentFree
     else
       (let current = get_session st (cv_CurrentSessionID v);
            now = c_now c
        in if ws_State current = SessionClosed \<and> ws_ResourcesCleaned current then CurrentFree
           else if ws_State current \<noteq> SessionIdle then CurrentBusy
           else
             (let shorter = ws_IdleSince current + retention;
                  deadline = (if shorter < ws_IdleDeadline current then shorter else ws_IdleDeadline current)
              in if now < ws_LastObservedAt current \<or> retention = 0 \<or> \<not> now < deadline \<or>
                    ws_WorkspaceCompatibilityDigest current \<noteq> g_WorkspaceCompatibilityDigest g \<or>
                    ws_StorageID current \<noteq> b_ID b \<or> \<not> sel_WorkspaceReuseEligible s \<or>
                    sel_Mode s = SelectionFreshWorkspace
                 then CurrentReplaced current
                        (if \<not> now < deadline \<or> retention = 0 then ''idle_expired'' else ''conversation_replacement'')
                 else CurrentContinues current)))"

definition fresh_storage ::
  "env \<Rightarrow> call \<Rightarrow> registry \<Rightarrow> task_grant \<Rightarrow> selection \<Rightarrow> string \<Rightarrow> err + storage" where
  "fresh_storage e c st g s compatDigest =
    (if int (length (r_Storages st)) \<ge> o_MaxTasks e then Inl ErrAdmissionBudget
     else case unmarshal dec_labels (g_Envelope g) of
            None \<Rightarrow> Inl (ErrInvalid ''task naming input'')
          | Some (slug, issue) \<Rightarrow>
              bind_res (TaskRoot e ''/workspace'' (g_WorkspaceID g) (g_TaskID g) slug issue) (\<lambda>root.
                if list_ex (\<lambda>b. b_TaskRoot b = root) (mvals (r_Storages st)) then Inl ErrConflict
                else Inr (zero_storage\<lparr>b_ID := c_uuid c 2, b_Conversation := sel_Conversation s,
                       b_WorkspaceAnchorTaskID := g_TaskID g, b_CompatibilityDigest := compatDigest,
                       b_WorkspaceCompatibilityDigest := g_WorkspaceCompatibilityDigest g,
                       b_WorkspaceID := g_WorkspaceID g, b_TaskID := g_TaskID g, b_AgentID := g_AgentID g,
                       b_TaskRoot := root, b_ScopeDigest := g_ScopeDigest g, b_Fingerprint := g_Fingerprint g,
                       b_PVCName := r_WorkspaceClaim st, b_PVCUID := r_WorkspaceUID st\<rparr>)))"

definition turn_storage_for ::
  "env \<Rightarrow> call \<Rightarrow> registry \<Rightarrow> task_grant \<Rightarrow> selection \<Rightarrow> string \<Rightarrow> storage \<Rightarrow> err + storage" where
  "turn_storage_for e c st g s compatDigest b =
    bind_res (if b_ID b = [] then unusedTaskStorage st g (sel_Conversation s) compatDigest else Inr b) (\<lambda>b1.
      if b_ID b1 = [] then fresh_storage e c st g s compatDigest else Inr b1)"

text \<open>The storage may take this turn: nobody writes it, or the continuing session does.\<close>

definition turn_storage_free :: "storage \<Rightarrow> worker_session \<Rightarrow> bool" where
  "turn_storage_free b ws =
    (\<not> (b_ActiveAttempt b \<noteq> [] \<or> b_Quarantined b \<or>
        b_WriterSessionID b \<noteq> [] \<and> b_WriterSessionID b \<noteq> ws_ID ws \<or>
        b_Dirty b \<and> (ws_ID ws = [] \<or> ws_ProtocolVersion ws \<noteq> session_protocol \<or> b_WriterSessionID b \<noteq> ws_ID ws)))"

definition new_session ::
  "call \<Rightarrow> string \<Rightarrow> task_grant \<Rightarrow> selection \<Rightarrow> string \<Rightarrow> storage \<Rightarrow> int \<Rightarrow> worker_session" where
  "new_session c key g s compatDigest b retention =
    zero_session\<lparr>ws_ID := c_uuid c 3, ws_ProtocolVersion := session_protocol, ws_Conversation := sel_Conversation s,
      ws_StorageID := b_ID b, ws_WorkspaceAnchorTaskID := b_WorkspaceAnchorTaskID b,
      ws_CompatibilityDigest := compatDigest,
      ws_WorkspaceCompatibilityDigest := g_WorkspaceCompatibilityDigest g, ws_RuntimeID := g_RuntimeID g,
      ws_RuntimeRef := g_RuntimeRef g, ws_Fingerprint := g_Fingerprint g,
      ws_PodName := ''worker-'' @ take 16 key @ ''-'' @ take 12 (c_uuid c 3), ws_PVCName := b_PVCName b,
      ws_PVCUID := b_PVCUID b, ws_TaskRoot := b_TaskRoot b, ws_Revision := 1, ws_State := SessionCreating,
      ws_ControlToken := ''mts_'' @ b64_raw_url (c_random c), ws_CreatedAt := c_now c,
      ws_LastObservedAt := c_now c, ws_Retention := retention\<rparr>"

definition reserved_session :: "call \<Rightarrow> string \<Rightarrow> int \<Rightarrow> worker_session \<Rightarrow> worker_session" where
  "reserved_session c i retention ws =
    ws\<lparr>ws_TurnSequence := ws_TurnSequence ws + 1, ws_ActiveAttempt := i, ws_Retention := retention,
       ws_LastObservedAt := c_now c, ws_IdleSince := 0, ws_IdleDeadline := 0\<rparr>"

definition reserved_grant :: "task_grant \<Rightarrow> selection \<Rightarrow> string \<Rightarrow> storage \<Rightarrow> worker_session \<Rightarrow> task_grant" where
  "reserved_grant g s compatDigest b ws =
    g\<lparr>g_Conversation := sel_Conversation s, g_WorkerSessionID := ws_ID ws, g_TurnSequence := ws_TurnSequence ws,
      g_WorkspaceAnchorTaskID := b_WorkspaceAnchorTaskID b, g_CompatibilityDigest := compatDigest,
      g_StorageID := b_ID b, g_PVCName := b_PVCName b, g_PVCUID := b_PVCUID b, g_TaskRoot := b_TaskRoot b,
      g_PodName := ws_PodName ws, g_PodUID := ws_PodUID ws, g_NodeID := ws_NodeID ws,
      g_Reuse := (b_Prepared b \<noteq> None), g_Selection := Some s, g_State := Intent,
      g_ResumeSession := (if sel_Mode s = SelectionResume then sel_SessionID s else g_ResumeSession g),
      g_ResumeWorkDir := (if sel_Mode s = SelectionResume \<or> sel_Mode s = SelectionFreshSession
                          then b_TaskRoot b @ ''/workdir'' else g_ResumeWorkDir g)\<rparr>"

definition reserved_storage :: "string \<Rightarrow> task_grant \<Rightarrow> worker_session \<Rightarrow> storage \<Rightarrow> storage" where
  "reserved_storage i g ws b =
    b\<lparr>b_ActiveAttempt := i, b_WriterSessionID := ws_ID ws, b_LatestWriter := grant_source g, b_Dirty := True\<rparr>"

definition commit_turn ::
  "env \<Rightarrow> string \<Rightarrow> selection \<Rightarrow> string \<Rightarrow> task_grant \<Rightarrow> conversation \<Rightarrow> storage \<Rightarrow> worker_session \<Rightarrow> registry \<Rightarrow>
   registry \<times> task_grant" where
  "commit_turn e i s compatDigest g v b ws st =
    (let g1 = reserved_grant g s compatDigest b ws;
         b1 = reserved_storage i g ws b;
         v1 = v\<lparr>cv_CurrentStorageID := b_ID b, cv_CurrentSessionID := ws_ID ws, cv_Revision := cv_Revision v + 1\<rparr>
     in (put_grant i g1 (put_session (ws_ID ws) ws (put_storage (b_ID b) b1
           (put_conversation (ConversationKey_Digest e (sel_Conversation s)) v1 st))), g1))"

text \<open>Taking the writer: a continuing session, or a new one that has to be admitted.\<close>

definition take_turn ::
  "env \<Rightarrow> call \<Rightarrow> string \<Rightarrow> selection \<Rightarrow> string \<Rightarrow> int \<Rightarrow> int \<Rightarrow> task_grant \<Rightarrow> conversation \<Rightarrow> storage \<Rightarrow>
   worker_session \<Rightarrow> registry \<Rightarrow> err + (registry \<times> (err + (task_grant \<times> worker_session)))" where
  "take_turn e c i s compatDigest retention limit g v b ws0 st =
    (if \<not> turn_storage_free b ws0 then Inl ErrStorageBusy
     else
       (let (admitted, st1) = (if ws_ID ws0 = [] then admitResident c st limit (c_now c) else (True, st));
            ws1 = (if ws_ID ws0 = []
                   then new_session c (ConversationKey_Digest e (sel_Conversation s)) g s compatDigest b retention
                   else ws0\<lparr>ws_State := SessionReserved, ws_Revision := ws_Revision ws0 + 1\<rparr>)
        in if \<not> admitted then Inr (st1, Inl ErrResidentCapacity)
           else if ws_TurnSequence ws1 = - 1 then Inl ErrConflict
           else
             (let ws = reserved_session c i retention ws1;
                  (st2, g1) = commit_turn e i s compatDigest g v b ws st1
              in Inr (st2, Inr (g1, ws)))))"

definition reservation_ok :: "env \<Rightarrow> selection \<Rightarrow> string \<Rightarrow> int \<Rightarrow> int \<Rightarrow> err + unit" where
  "reservation_ok e s compatDigest retention limit =
    (if \<not> ConversationKey_Valid e (sel_Conversation s) \<or> \<not> fingerprint compatDigest \<or> retention < 0 \<or> limit < 1
     then Inl (ErrInvalid ''turn reservation'')
     else if \<not> mode_known s then Inl (ErrInvalid ''continuity selection'')
     else if sel_EvidenceDigest s \<noteq> [] \<and> \<not> fingerprint (sel_EvidenceDigest s)
     then Inl (ErrInvalid ''selection evidence'')
     else if \<not> reuse_claim_ok s then Inl (ErrInvalid ''unproven conversation reuse'')
     else Inr ())"

definition turn_requested :: "env \<Rightarrow> call \<Rightarrow> string \<Rightarrow> selection \<Rightarrow> string \<Rightarrow> task_grant \<Rightarrow> registry \<Rightarrow> err + unit" where
  "turn_requested e c i s compatDigest g st =
    (if (case g_Selection g of None \<Rightarrow> False | Some old \<Rightarrow> old \<noteq> s \<or> g_CompatibilityDigest g \<noteq> compatDigest)
     then Inl ErrConflict
     else if \<not> provenCompatibility e g s compatDigest \<or> \<not> preservesBackendSelection g s then Inl ErrConflict
     else bind_res (validateLocalWorkspaceSelection e c st g s) (\<lambda>_.
       if g_State g \<noteq> WaitingStorage \<or> g_ExecutionRevoked g then Inl ErrConflict
       else if r_WorkspaceClaim st = [] \<or> r_WorkspaceUID st = []
       then Inl (ErrText ''workspace volume has not been bound'')
       else bind_res (checkPendingBudget e st 0) (\<lambda>_.
         if list_ex (blocks_turn e st i g s) (mvals (r_Grants st)) then Inl ErrStorageBusy else Inr ())))"

definition reserve_turn ::
  "env \<Rightarrow> call \<Rightarrow> string \<Rightarrow> selection \<Rightarrow> string \<Rightarrow> int \<Rightarrow> int \<Rightarrow> task_grant \<Rightarrow> registry \<Rightarrow>
   err + (registry \<times> (err + (task_grant \<times> worker_session)))" where
  "reserve_turn e c i s compatDigest retention limit g st =
    bind_res (turn_requested e c i s compatDigest g st) (\<lambda>_.
    bind_res (turn_conversation e st s) (\<lambda>v.
    bind_res (turn_source e c st g s compatDigest) (\<lambda>(b0, ws0).
      case turn_current c st g s b0 retention v of
        CurrentBusy \<Rightarrow> Inl ErrStorageBusy
      | CurrentReplaced current reason \<Rightarrow>
          (let (st1, stopped) = requestSessionStop c reason (c_now c) st current
           in Inr (put_session (ws_ID stopped) stopped st1, Inl ErrStorageBusy))
      | CurrentContinues current \<Rightarrow>
          bind_res (turn_storage_for e c st g s compatDigest b0) (\<lambda>b.
            take_turn e c i s compatDigest retention limit g v b current st)
      | CurrentFree \<Rightarrow>
          bind_res (turn_storage_for e c st g s compatDigest b0) (\<lambda>b.
            take_turn e c i s compatDigest retention limit g v b ws0 st))))"

definition ReserveTurn ::
  "env \<Rightarrow> call \<Rightarrow> string \<Rightarrow> selection \<Rightarrow> string \<Rightarrow> int \<Rightarrow> int \<Rightarrow> registry \<Rightarrow>
   err + (registry \<times> (err + (task_grant \<times> worker_session)))" where
  "ReserveTurn e c i s compatDigest retention residentLimit st =
    bind_res (reservation_ok e s compatDigest retention residentLimit) (\<lambda>_.
      case grant_of st i of
        None \<Rightarrow> Inl ErrConflict
      | Some g \<Rightarrow>
          (if \<not> g_SessionProtocol g \<or> g_Legacy g \<or> \<not> selection_scope_ok g s then Inl ErrConflict
           else if g_WorkerSessionID g \<noteq> [] then
             (if g_Selection g \<noteq> Some s \<or> g_CompatibilityDigest g \<noteq> compatDigest then Inl ErrConflict
              else Inr (st, Inr (g, get_session st (g_WorkerSessionID g))))
           else reserve_turn e c i s compatDigest retention residentLimit g st))"

section \<open>Reading the journal\<close>

definition GetSession :: "string \<Rightarrow> registry \<Rightarrow> err + worker_session" where
  "GetSession i st = (case session_of st i of None \<Rightarrow> Inl ErrUnauthorized | Some ws \<Rightarrow> Inr ws)"

definition GetConversation :: "env \<Rightarrow> conversation_key \<Rightarrow> registry \<Rightarrow> err + conversation" where
  "GetConversation e key st =
    (case conversation_of st (ConversationKey_Digest e key) of
       None \<Rightarrow> Inl ErrUnauthorized
     | Some v \<Rightarrow> (if cv_Key v \<noteq> key then Inl ErrUnauthorized else Inr v))"

definition ListSessions :: "registry \<Rightarrow> worker_session list" where
  "ListSessions st = sort_key ws_ID (mvals (r_Sessions st))"

definition GetStorage :: "string \<Rightarrow> registry \<Rightarrow> err + storage" where
  "GetStorage i st = (case storage_of st i of None \<Rightarrow> Inl ErrUnauthorized | Some b \<Rightarrow> Inr b)"

definition ListStorages :: "registry \<Rightarrow> storage list" where
  "ListStorages st = sort_key b_ID (mvals (r_Storages st))"

end
