(* ===== verification/Capabilities.thy ===== *)
theory Capabilities
  imports Stop_Ops
begin

text \<open>
  Bearer capabilities of an attempt (\<^verbatim>\<open>capability.go\<close>): issuing one per audience and
  deciding what a presented token still authorises.
\<close>

definition capability_token :: "string \<Rightarrow> string" where
  "capability_token secret = ''mtc_'' @ b64_raw_url secret"

definition IssueCapability_step ::
  "env \<Rightarrow> string \<Rightarrow> string \<Rightarrow> string \<Rightarrow> time \<Rightarrow> registry \<Rightarrow> task_grant \<Rightarrow>
   err + (registry \<times> task_grant \<times> string)" where
  "IssueCapability_step e i token audience expiry st g =
    (if (g_State g \<noteq> Intent \<and> g_State g \<noteq> Ready) \<or> g_ExecutionRevoked g then Inl ErrUnauthorized
     else if g_WorkerSessionID g \<noteq> [] \<and> \<not> currentSessionTurn st g then Inl ErrUnauthorized
     else if list_ex (\<lambda>c. cap_AttemptID c = i \<and> cap_Audience c = audience) (mvals (r_Capabilities st))
     then Inl (ErrText ''capability audience already issued'')
     else
       (let cap = \<lparr>cap_WorkerSessionID = g_WorkerSessionID g, cap_TurnSequence = g_TurnSequence g,
              cap_Token = token, cap_AttemptID = i, cap_Audience = audience, cap_Generation = g_Generation g,
              cap_PodUID = g_PodUID g, cap_ExpiresAt = expiry\<rparr>
        in Inr (put_capabilities (AList.update (e_digest e token) cap (r_Capabilities st)) st, g, token)))"

definition IssueCapability ::
  "env \<Rightarrow> call \<Rightarrow> string \<Rightarrow> string \<Rightarrow> time \<Rightarrow> registry \<Rightarrow> err + (registry \<times> string)" where
  "IssueCapability e c i audience expiry st =
    (if \<not> validOpaque audience \<or> \<not> expiry > c_wall c then Inl (ErrInvalid ''capability'')
     else update_grant i (IssueCapability_step e i (capability_token (c_random c)) audience expiry) st)"

definition CapabilityToken :: "string \<Rightarrow> string \<Rightarrow> registry \<Rightarrow> err + string" where
  "CapabilityToken i audience st =
    (case find (\<lambda>c. cap_AttemptID c = i \<and> cap_Audience c = audience) (mvals (r_Capabilities st)) of
       None \<Rightarrow> Inl ErrUnauthorized | Some c \<Rightarrow> Inr (cap_Token c))"

definition AuthorizeWithExpiry ::
  "env \<Rightarrow> call \<Rightarrow> string \<Rightarrow> string \<Rightarrow> registry \<Rightarrow> err + (task_grant \<times> time)" where
  "AuthorizeWithExpiry e c token audience st =
    (if audience = ''stop'' then Inl ErrUnauthorized
     else case capability_of st (e_digest e token) of
       None \<Rightarrow> Inl ErrUnauthorized
     | Some cap \<Rightarrow>
         (if cap_Token cap \<noteq> token \<or> cap_Audience cap \<noteq> audience \<or> \<not> c_wall c < cap_ExpiresAt cap
          then Inl ErrUnauthorized
          else case grant_of st (cap_AttemptID cap) of
            None \<Rightarrow> Inl ErrUnauthorized
          | Some g \<Rightarrow>
              (if g_Generation g \<noteq> cap_Generation cap \<or> g_PodUID g = [] \<or> g_PodUID g \<noteq> cap_PodUID cap
               then Inl ErrUnauthorized
               else if cap_WorkerSessionID cap \<noteq> g_WorkerSessionID g \<or> cap_TurnSequence cap \<noteq> g_TurnSequence g \<or>
                  g_WorkerSessionID g \<noteq> [] \<and> \<not> currentSessionTurn st g
               then Inl ErrUnauthorized
               else if g_ExecutionRevoked g \<and> audience \<noteq> ''supervisor'' then Inl ErrUnauthorized
               else if b_ActiveAttempt (get_storage st (g_StorageID g)) \<noteq> g_AttemptID g \<or>
                  b_Quarantined (get_storage st (g_StorageID g))
               then Inl ErrUnauthorized
               else if audience = ''supervisor'' \<and> g_State g = Intent then Inr (g, cap_ExpiresAt cap)
               else if g_SupervisorKey g = [] then Inl ErrUnauthorized
               else case g_State g of
                 Assigned \<Rightarrow>
                   (if g_WorkerSessionID g \<noteq> [] \<and> g_TurnAccepted g \<and> audience = ''supervisor''
                    then Inr (g, cap_ExpiresAt cap) else Inl ErrUnauthorized)
               | Ready \<Rightarrow> Inr (g, cap_ExpiresAt cap)
               | Offered \<Rightarrow> Inr (g, cap_ExpiresAt cap)
               | Starting \<Rightarrow> Inr (g, cap_ExpiresAt cap)
               | Started \<Rightarrow> Inr (g, cap_ExpiresAt cap)
               | TerminalReceived \<Rightarrow>
                   (if audience = ''supervisor'' then Inr (g, cap_ExpiresAt cap) else Inl ErrUnauthorized)
               | _ \<Rightarrow> Inl ErrUnauthorized)))"

definition Authorize :: "env \<Rightarrow> call \<Rightarrow> string \<Rightarrow> string \<Rightarrow> registry \<Rightarrow> err + task_grant" where
  "Authorize e c token audience st =
    (case AuthorizeWithExpiry e c token audience st of Inl x \<Rightarrow> Inl x | Inr (g, _) \<Rightarrow> Inr g)"

text \<open>With the Pod not yet observed the grant is returned beside the error.\<close>

definition AuthorizeStop :: "env \<Rightarrow> call \<Rightarrow> string \<Rightarrow> registry \<Rightarrow> task_grant \<times> err option" where
  "AuthorizeStop e c token st =
    (case capability_of st (e_digest e token) of
       None \<Rightarrow> (zero_grant, Some ErrUnauthorized)
     | Some cap \<Rightarrow>
         (if cap_Token cap \<noteq> token \<or> cap_Audience cap \<noteq> ''stop'' \<or> \<not> c_wall c < cap_ExpiresAt cap
          then (zero_grant, Some ErrUnauthorized)
          else case grant_of st (cap_AttemptID cap) of
            None \<Rightarrow> (zero_grant, Some ErrUnauthorized)
          | Some g \<Rightarrow>
              (if g_Generation g \<noteq> cap_Generation cap \<or> g_PodUID g \<noteq> cap_PodUID cap \<or>
                  \<not> stopGenerationCurrent st g
               then (zero_grant, Some ErrUnauthorized)
               else if cap_WorkerSessionID cap \<noteq> g_WorkerSessionID g \<or> cap_TurnSequence cap \<noteq> g_TurnSequence g \<or>
                  g_WorkerSessionID g \<noteq> [] \<and> \<not> currentSessionTurn st g
               then (zero_grant, Some ErrUnauthorized)
               else if g_PodUID g = [] then (g, Some ErrPodBindingPending)
               else (g, None))))"

end
