(* ===== verification/Validate_Grants.thy ===== *)
theory Validate_Grants
  imports Session_Reservation Capabilities
begin

text \<open>
  The journal's well-formedness, first part: grants, terminals and capabilities
  (\<^verbatim>\<open>validate.go\<close>, and the grant half of \<^verbatim>\<open>session_validate.go\<close>).  Every commit
  and every start passes the whole check.  A check is a list of failures with the error each
  one gives, in the order of the code.
\<close>

section \<open>Checks\<close>

fun first_failure :: "(bool \<times> string) list \<Rightarrow> err + unit" where
  "first_failure [] = Inr ()"
| "first_failure ((bad, what) # cs) = (if bad then Inl (ErrInvalid what) else first_failure cs)"

fun each_ok :: "('a \<Rightarrow> err + unit) \<Rightarrow> 'a list \<Rightarrow> err + unit" where
  "each_ok f [] = Inr ()"
| "each_ok f (x # xs) = (case f x of Inl y \<Rightarrow> Inl y | Inr _ \<Rightarrow> each_ok f xs)"

text \<open>A condition on a pointer that is not nil.\<close>

definition given :: "'a option \<Rightarrow> ('a \<Rightarrow> bool) \<Rightarrow> bool" where
  "given x p = (case x of None \<Rightarrow> False | Some a \<Rightarrow> p a)"

lemma given_simps [simp]: "given None p = False" "given (Some a) p = p a"
  by (simp_all add: given_def)

lemma first_failure_Inr:
  "first_failure cs = Inr u \<longleftrightarrow> list_all (\<lambda>(bad, _). \<not> bad) cs"
  by (induction cs rule: first_failure.induct) auto

lemma each_ok_Inr: "each_ok f xs = Inr u \<longleftrightarrow> (\<forall>x\<in>set xs. f x = Inr ())"
  by (induction xs) (auto split: sum.splits)

lemma first_failure_Inl: "first_failure cs = Inl x \<Longrightarrow> \<exists>what. x = ErrInvalid what \<and> (True, what) \<in> set cs"
  by (induction cs rule: first_failure.induct) (auto split: if_splits)

section \<open>One grant\<close>

definition record_fits :: "env \<Rightarrow> string \<Rightarrow> bool" where
  "record_fits e raw = (int (length raw) \<le> o_MaxRecordBytes e)"

definition grant_identity_ok :: "env \<Rightarrow> registry \<Rightarrow> string \<Rightarrow> task_grant \<Rightarrow> bool" where
  "grant_identity_ok e st i g =
    (i = g_AttemptID g \<and> canonicalUUID e i \<and> g_OwnerID g = r_OwnerID st \<and> canonicalUUID e (g_TaskID g) \<and>
     validOpaque (g_RuntimeID g) \<and> validOpaque (g_WorkspaceID g) \<and> validOpaque (g_AgentID g) \<and>
     g_Generation g \<noteq> 0 \<and> g_CreatedAt g \<noteq> 0 \<and> Ref_Validate e (g_RuntimeRef g) = Inr () \<and>
     g_Fingerprint g = RuntimeFingerprint e (g_RuntimeRef g) \<and> g_ScopeDigest g = scopeDigest e g \<and>
     json_valid (g_Envelope g) \<and> json_valid (g_Metadata g) \<and> g_RequestDigest g = e_digest e (g_Envelope g) \<and>
     record_fits e (g_Envelope g) \<and> record_fits e (g_Metadata g))"

fun events_ok :: "env \<Rightarrow> nat \<Rightarrow> event list \<Rightarrow> bool" where
  "events_ok e n [] = True"
| "events_ok e n (ev # evs) =
    (e_Sequence ev = of_nat (n + 1) \<and> e_UpstreamSequence ev \<noteq> 0 \<and> json_valid (e_Body ev) \<and>
     record_fits e (e_Body ev) \<and>
     (e_State ev = EvLocal \<or> e_State ev = EvReceived \<or> e_State ev = EvForwarding \<or> e_State ev = EvDelivered \<or>
      e_State ev = EvUncertain) \<and> events_ok e (n + 1) evs)"

definition start_unproven :: "task_grant \<Rightarrow> bool" where
  "start_unproven g =
    (g_StartConfirmed g \<and>
     (g_PodUID g = [] \<or> length (g_SupervisorKey g) \<noteq> key_size \<or>
      g_State g = Intent \<or> g_State g = Assigned \<or> g_State g = Ready \<or> g_State g = Offered \<or> g_State g = Starting))"

definition stop_key_unbound :: "task_grant \<Rightarrow> bool" where
  "stop_key_unbound g =
    (g_StopKey g \<noteq> [] \<and>
     (length (g_StopKey g) \<noteq> key_size \<or> g_PodUID g = [] \<or> g_PVCUID g = [] \<or> g_NodeID g = [] \<or>
      g_SupervisorKey g \<noteq> [] \<and> g_StopKey g \<noteq> g_SupervisorKey g))"

definition stop_intent_bad :: "env \<Rightarrow> task_grant \<Rightarrow> stop_record \<Rightarrow> bool" where
  "stop_intent_bad e g stop =
    (\<not> g_ExecutionRevoked g \<or> \<not> validOpaque (sp_Reason stop) \<or> length (sp_Reason stop) > 256 \<or>
     sp_Revision stop = 0 \<or> \<not> canonicalUUID e (sp_Nonce stop) \<or> sp_RequestedAt stop = 0)"

definition backend_selection_bad :: "env \<Rightarrow> registry \<Rightarrow> task_grant \<Rightarrow> selection \<Rightarrow> bool" where
  "backend_selection_bad e st g s =
    (sel_Conversation s \<noteq> g_Conversation g \<or> ck_OwnerID (g_Conversation g) \<noteq> g_OwnerID g \<or>
     ck_WorkspaceID (g_Conversation g) \<noteq> g_WorkspaceID g \<or> ck_AgentID (g_Conversation g) \<noteq> g_AgentID g \<or>
     ck_Kind (g_Conversation g) = ConversationTask \<and> ck_SubjectID (g_Conversation g) \<noteq> g_TaskID g \<or>
     validateBackendSelectionSources e st s \<noteq> Inr ())"

definition grant_checks :: "env \<Rightarrow> registry \<Rightarrow> string \<Rightarrow> task_grant \<Rightarrow> (bool \<times> string) list" where
  "grant_checks e st i g =
    [(\<not> grant_identity_ok e st i g, ''grant''),
     (\<not> events_ok e 0 (g_Events g), ''event journal''),
     (g_CleanupComplete g \<and> g_State g \<noteq> Closed, ''cleanup authority''),
     (start_unproven g, ''confirmed execution start''),
     (given (g_CheckoutProcess g) (\<lambda>p. \<not> preparation_process_valid e p \<or> \<not> g_CheckoutNeedsFlush g \<or>
        g_Prepared g = None \<or> g_State g = Closed), ''checkout writer authority''),
     (g_CheckoutNeedsFlush g \<and> g_Prepared g = None, ''checkout flush obligation''),
     (given (g_PreparationProcess g) (\<lambda>p. \<not> g_PreparationStarted g \<or> \<not> preparation_process_valid e p),
        ''preparation process''),
     (stop_key_unbound g, ''stop supervisor identity''),
     (given (g_Stop g) (stop_intent_bad e g), ''stop intent''),
     (given (g_Stop g) (\<lambda>stop. given (sp_Receipt stop) (\<lambda>r. \<not> validStopReceipt e g r)), ''stop receipt''),
     (given (g_Stop g) (\<lambda>stop. given (sp_Evidence stop) (\<lambda>ev. \<not> validStopEvidence g ev)), ''stop evidence''),
     (given (g_Stop g) (\<lambda>stop. g_State g = Closed \<and> sp_Evidence stop = None \<and> g_WorkerSessionID g = []),
        ''stop writer release''),
     (g_Resources g \<noteq> [] \<and> (\<not> json_valid (g_Resources g) \<or> \<not> record_fits e (g_Resources g)), ''resource journal''),
     (g_Bootstrap g \<noteq> [] \<and> (\<not> json_valid (g_Bootstrap g) \<or> g_BootstrapDigest g \<noteq> e_digest e (g_Bootstrap g) \<or>
        \<not> record_fits e (g_Bootstrap g)), ''worker bootstrap''),
     (\<not> sorted (g_ResourceScope g), ''scope''),
     (\<not> list_all (\<lambda>r. validOpaque (repo_URL r)) (g_Repositories g) \<or>
        \<not> sorted_wrt (<) (map repo_URL (g_Repositories g)), ''repository''),
     (\<not> list_all validOpaque (g_ResourceScope g) \<or> \<not> sorted_wrt (<) (g_ResourceScope g), ''resource''),
     (given (g_BackendSelection g) (backend_selection_bad e st g), ''backend selection journal'')]"

section \<open>A grant without a storage\<close>

definition turn_authority :: "task_grant \<Rightarrow> bool" where
  "turn_authority g =
    (g_WorkerSessionID g \<noteq> [] \<or> g_TurnSequence g \<noteq> 0 \<or> g_WorkspaceAnchorTaskID g \<noteq> [] \<or> g_Assignment g \<noteq> [] \<or>
     g_InputDigest g \<noteq> [] \<or> g_TurnAccepted g \<or> g_AcceptProof g \<noteq> None \<or> g_TurnReceipt g \<noteq> None \<or>
     g_TurnExecutionReceipt g \<noteq> None \<or> g_TurnExecutionProof g \<noteq> None \<or> g_CompletionWitness g \<noteq> None \<or>
     g_PendingResume g \<noteq> None \<or> g_TurnComplete g)"

definition validatePendingSessionGrant :: "env \<Rightarrow> task_grant \<Rightarrow> err + unit" where
  "validatePendingSessionGrant e g =
    (if turn_authority g then Inl (ErrInvalid ''pending session authority'')
     else case g_Selection g of
       Some s \<Rightarrow>
         (if \<not> g_SessionProtocol g \<or> g_Legacy g \<or> \<not> ConversationKey_Valid e (g_Conversation g) \<or>
             g_Conversation g \<noteq> sel_Conversation s \<or> ck_OwnerID (g_Conversation g) \<noteq> g_OwnerID g \<or>
             ck_WorkspaceID (g_Conversation g) \<noteq> g_WorkspaceID g \<or> ck_AgentID (g_Conversation g) \<noteq> g_AgentID g \<or>
             \<not> fingerprint (g_CompatibilityDigest g) \<or> \<not> provenCompatibility e g s (g_CompatibilityDigest g)
          then Inl (ErrInvalid ''pending continuity selection'') else Inr ())
     | None \<Rightarrow>
         (if g_Compatibility g \<noteq> None then
            (if \<not> provenCompatibility e g (zero_selection\<lparr>sel_Conversation := g_Conversation g\<rparr>)
                  (g_CompatibilityDigest g)
             then Inl (ErrInvalid ''pending compatibility'') else Inr ())
          else case g_BackendSelection g of
            Some b \<Rightarrow>
              (if \<not> g_SessionProtocol g \<or> g_Legacy g \<or> g_Conversation g \<noteq> sel_Conversation b \<or>
                  \<not> ConversationKey_Valid e (g_Conversation g) \<or> g_CompatibilityDigest g \<noteq> [] \<or>
                  g_WorkspaceCompatibilityDigest g \<noteq> []
               then Inl (ErrInvalid ''pending backend selection'') else Inr ())
          | None \<Rightarrow>
              (if g_Conversation g \<noteq> zero_conversation_key \<or> g_CompatibilityDigest g \<noteq> [] \<or>
                  g_WorkspaceCompatibilityDigest g \<noteq> []
               then Inl (ErrInvalid ''missing compatibility evidence'') else Inr ())))"

definition settled_state :: "terminal \<Rightarrow> bool" where
  "settled_state t = (t_State t = DDelivered \<or> t_State t = DRejected)"

definition pending_checks :: "registry \<Rightarrow> string \<Rightarrow> task_grant \<Rightarrow> (bool \<times> string) list" where
  "pending_checks st i g =
    [(g_State g \<noteq> WaitingStorage \<and> g_State g \<noteq> Unexecuted \<and> g_State g \<noteq> Closed, ''unbound execution''),
     (g_PVCName g \<noteq> [] \<or> g_PVCUID g \<noteq> [] \<or> g_PodName g \<noteq> [] \<or> g_PodUID g \<noteq> [] \<or> g_NodeID g \<noteq> [] \<or>
        g_SupervisorKey g \<noteq> [] \<or> g_StopKey g \<noteq> [] \<or> g_Bootstrap g \<noteq> [] \<or> g_BootstrapDigest g \<noteq> [] \<or>
        g_Resources g \<noteq> [] \<or> g_ResumeSession g \<noteq> [] \<or> g_ResumeWorkDir g \<noteq> [], ''pending claim execution''),
     (g_State g \<noteq> WaitingStorage \<and> \<not> (g_State g = Closed \<and> stop_evidence_of g \<noteq> None) \<and>
        \<not> given (terminal_of st i) (\<lambda>t. t_Source t = SourceController \<and>
            \<not> (g_State g = Closed \<and> (\<not> g_CleanupComplete g \<or> \<not> settled_state t))),
        ''unexecuted failure settlement'')]"

section \<open>A grant of the single-task protocol\<close>

definition session_fields_set :: "task_grant \<Rightarrow> bool" where
  "session_fields_set g =
    (g_SessionProtocol g \<or> g_Conversation g \<noteq> zero_conversation_key \<or> g_TurnSequence g \<noteq> 0 \<or>
     g_WorkspaceAnchorTaskID g \<noteq> [] \<or> g_CompatibilityDigest g \<noteq> [] \<or> g_WorkspaceCompatibilityDigest g \<noteq> [] \<or>
     g_Compatibility g \<noteq> None \<or> g_Selection g \<noteq> None \<or> g_BackendSelection g \<noteq> None \<or> g_Assignment g \<noteq> [] \<or>
     g_InputDigest g \<noteq> [] \<or> g_TurnComplete g \<or> g_TurnAccepted g \<or> g_AcceptProof g \<noteq> None \<or>
     g_CompletionWitness g \<noteq> None \<or> g_TurnReceipt g \<noteq> None \<or> g_TurnExecutionReceipt g \<noteq> None \<or>
     g_TurnExecutionProof g \<noteq> None \<or> g_PendingResume g \<noteq> None)"

definition storage_binds :: "registry \<Rightarrow> task_grant \<Rightarrow> bool" where
  "storage_binds st g =
    (case storage_of st (g_StorageID g) of
       None \<Rightarrow> False
     | Some b \<Rightarrow>
         b_ScopeDigest b = g_ScopeDigest g \<and> b_Fingerprint b = g_Fingerprint g \<and> b_PVCName b = g_PVCName g \<and>
         b_PVCUID b = g_PVCUID g \<and> b_TaskRoot b = g_TaskRoot g \<and> b_WorkspaceID b = g_WorkspaceID g \<and>
         b_TaskID b = g_TaskID g \<and> b_AgentID b = g_AgentID g)"

definition prepared_for_attempt :: "env \<Rightarrow> string \<Rightarrow> task_grant \<Rightarrow> prepared \<Rightarrow> bool" where
  "prepared_for_attempt e i g p =
    (ValidatePrepared e p = Inr () \<and> p_OwnerID p = g_OwnerID g \<and> p_WorkspaceID p = g_WorkspaceID g \<and>
     p_TaskID p = g_TaskID g \<and> p_AgentID p = g_AgentID g \<and> p_AttemptID p = i \<and> p_Generation p = g_Generation g \<and>
     p_TaskRoot p = g_TaskRoot g \<and> p_PVCUID p = g_PVCUID g \<and> g_PreparationStarted g \<and> g_PreparationStopped g \<and>
     json_valid (g_Execution g) \<and> record_fits e (g_Execution g))"

definition task_state_checks :: "registry \<Rightarrow> string \<Rightarrow> task_grant \<Rightarrow> (bool \<times> string) list" where
  "task_state_checks st i g =
    (let b = get_storage st (g_StorageID g); t = terminal_of st i in
     case g_State g of
       Intent \<Rightarrow> [(g_SupervisorKey g \<noteq> [], ''unadmitted supervisor'')]
     | Quarantined \<Rightarrow> [(\<not> b_Quarantined b, ''quarantine'')]
     | Unexecuted \<Rightarrow>
         [(\<not> given t (\<lambda>t. t_Source t = SourceController \<and> preparationStoppedWithoutWorker g),
           ''unexecuted preparation'')]
     | Closed \<Rightarrow>
         (if stop_evidence_of g \<noteq> None
          then [(\<not> stoppedClean g (get_terminal st i) \<and> \<not> b_Dirty b, ''dirty stopped storage'')]
          else if given t (\<lambda>t. t_Source t = SourceController \<and> preparationStoppedWithoutWorker g \<and>
                    g_CleanupComplete g \<and> settled_state t) then []
          else [(\<not> given t (\<lambda>t. t_Source t = SourceWorker \<and> t_Seal t \<noteq> None \<and> settled_state t), ''writer release'')])
     | WaitingStorage \<Rightarrow> [(True, ''dispatch state'')]
     | Assigned \<Rightarrow> [(True, ''dispatch state'')]
     | OtherState _ \<Rightarrow> [(True, ''dispatch state'')]
     | _ \<Rightarrow> [(g_PodUID g = [] \<or> g_PVCUID g = [] \<or> g_NodeID g = [] \<or> length (g_SupervisorKey g) \<noteq> key_size,
              ''admission'')])"

definition task_checks :: "env \<Rightarrow> registry \<Rightarrow> string \<Rightarrow> task_grant \<Rightarrow> (bool \<times> string) list" where
  "task_checks e st i g =
    [(session_fields_set g, ''unbound session grant''),
     (\<not> storage_binds st g, ''storage binding''),
     (given (g_Prepared g) (\<lambda>p. \<not> prepared_for_attempt e i g p), ''prepared ownership''),
     (g_Prepared g = None \<and> g_Execution g \<noteq> [], ''unprepared execution''),
     (g_PreparationStopped g \<and> \<not> g_PreparationStarted g, ''preparation termination''),
     (g_PodName g \<noteq> ''task-'' @ g_AttemptID g, ''Pod name''),
     (g_PodUID g \<noteq> [] \<and> (g_PVCUID g = [] \<or> g_Prepared g = None \<or> \<not> g_PreparationStopped g), ''Pod volume'')] @
    task_state_checks st i g @
    [(g_State g \<noteq> Closed \<and> b_ActiveAttempt (get_storage st (g_StorageID g)) \<noteq> i, ''exclusive writer''),
     (g_State g = TerminalReceived \<and> terminal_of st i = None, ''terminal grant'')]"

section \<open>A turn of a session\<close>

definition turn_binding_ok :: "env \<Rightarrow> worker_session \<Rightarrow> storage \<Rightarrow> task_grant \<Rightarrow> bool" where
  "turn_binding_ok e ws b g =
    (g_SessionProtocol g \<and> \<not> g_Legacy g \<and> ConversationKey_Valid e (g_Conversation g) \<and>
     ck_OwnerID (g_Conversation g) = g_OwnerID g \<and> ck_WorkspaceID (g_Conversation g) = g_WorkspaceID g \<and>
     ck_AgentID (g_Conversation g) = g_AgentID g \<and> g_Conversation g = ws_Conversation ws \<and>
     g_Conversation g = b_Conversation b \<and> g_TurnSequence g \<noteq> 0 \<and> g_TurnSequence g \<le> ws_TurnSequence ws \<and>
     g_WorkspaceAnchorTaskID g = b_WorkspaceAnchorTaskID b \<and>
     g_WorkspaceAnchorTaskID g = ws_WorkspaceAnchorTaskID ws \<and>
     g_WorkspaceCompatibilityDigest g = b_WorkspaceCompatibilityDigest b \<and>
     g_WorkspaceCompatibilityDigest g = ws_WorkspaceCompatibilityDigest ws \<and>
     \<not> (g_TurnSequence g = 1 \<and> g_CompatibilityDigest g \<noteq> ws_CompatibilityDigest ws) \<and>
     g_TaskRoot g = b_TaskRoot b \<and> g_PVCName g = b_PVCName b \<and> g_PVCUID g = b_PVCUID b \<and>
     g_PodName g = ws_PodName ws \<and> g_PodUID g = ws_PodUID ws \<and> g_NodeID g = ws_NodeID ws \<and>
     g_RuntimeID g = ws_RuntimeID ws \<and> g_Fingerprint g = ws_Fingerprint ws \<and> \<not> g_CleanupComplete g \<and>
     given (g_Selection g) (\<lambda>s. sel_Conversation s = g_Conversation g \<and>
        provenCompatibility e g s (g_CompatibilityDigest g)) \<and>
     \<not> (ck_Kind (g_Conversation g) = ConversationTask \<and> ck_SubjectID (g_Conversation g) \<noteq> g_TaskID g))"

text \<open>Decoding \<^verbatim>\<open>NativeMetadata\<close> from the run document: \<^verbatim>\<open>[]byte\<close> is standard base64,
  in which the decoder skips line breaks.\<close>

definition b64_value :: "char \<Rightarrow> nat option" where
  "b64_value c =
    (let n = of_char c in
     if is_upper c then Some (n - 65) else if is_lower c then Some (n - 71)
     else if is_digit c then Some (n + 4) else if c = CHR ''+'' then Some 62
     else if c = CHR ''/'' then Some 63 else None)"

fun b64_groups :: "string \<Rightarrow> string option" where
  "b64_groups [] = Some []"
| "b64_groups (a # b # c # d # s) =
    (case (b64_value a, b64_value b) of
       (Some x, Some y) \<Rightarrow>
         (if c = CHR ''='' \<and> d = CHR ''='' \<and> s = [] then Some [byte (4 * x + y div 16)]
          else case b64_value c of
            None \<Rightarrow> None
          | Some z \<Rightarrow>
              (if d = CHR ''='' \<and> s = []
               then Some [byte (4 * x + y div 16), byte (16 * (y mod 16) + z div 4)]
               else case (b64_value d, b64_groups s) of
                 (Some w, Some r) \<Rightarrow>
                   Some (byte (4 * x + y div 16) # byte (16 * (y mod 16) + z div 4) # byte (64 * (z mod 4) + w) # r)
               | _ \<Rightarrow> None))
     | _ \<Rightarrow> None)"
| "b64_groups _ = None"

definition dec_bytes :: "string \<Rightarrow> json \<Rightarrow> string option" where
  "dec_bytes z v =
    (case v of
       JNull \<Rightarrow> Some []
     | JStr l \<Rightarrow> b64_groups (filter (\<lambda>c. c \<noteq> cr_char \<and> c \<noteq> nl_char) (unquote l))
     | _ \<Rightarrow> None)"

definition dec_artifact :: "json \<Rightarrow> native_artifact option" where
  "dec_artifact v =
    (let names = [''path'', ''sha256'', ''size''] in
     dec_struct \<lparr>na_Path = [], na_SHA256 = [], na_Size = 0\<rparr> (\<lambda>ms.
       case (dec_field dec_string [] names ''path'' ms, dec_field dec_string [] names ''sha256'' ms,
             dec_field dec_int 0 names ''size'' ms) of
         (Some p, Some h, Some n) \<Rightarrow> Some \<lparr>na_Path = p, na_SHA256 = h, na_Size = n\<rparr>
       | _ \<Rightarrow> None) v)"

definition dec_artifacts :: "native_artifact list option \<Rightarrow> json \<Rightarrow> native_artifact list option option" where
  "dec_artifacts z v =
    (case v of
       JNull \<Rightarrow> Some None
     | JArr vs \<Rightarrow> map_option Some (those (map dec_artifact vs))
     | _ \<Rightarrow> None)"

definition zero_native_metadata :: native_metadata where
  "zero_native_metadata =
    \<lparr>nm_WorkerSessionID = [], nm_TurnSequence = 0, nm_ArtifactRoot = [], nm_Artifacts = None,
     nm_CodexConfig = [], nm_ClaudeSettings = [], nm_ServiceTier = [], nm_TaskMarker = [], nm_ProjectResources = []\<rparr>"

definition native_metadata_names :: "string list" where
  "native_metadata_names =
    [''workerSessionID'', ''turnSequence'', ''artifactRoot'', ''artifacts'', ''codexConfig'', ''claudeSettings'',
     ''serviceTier'', ''taskMarker'', ''projectResources'']"

definition dec_native_metadata :: "native_metadata \<Rightarrow> json \<Rightarrow> native_metadata option" where
  "dec_native_metadata z v =
    (let names = native_metadata_names in
     dec_struct z (\<lambda>ms.
       case (dec_field dec_string (nm_WorkerSessionID z) names ''workerSessionID'' ms,
             dec_field dec_u64 (nm_TurnSequence z) names ''turnSequence'' ms,
             dec_field dec_string (nm_ArtifactRoot z) names ''artifactRoot'' ms,
             dec_field dec_artifacts (nm_Artifacts z) names ''artifacts'' ms,
             dec_field dec_bytes (nm_CodexConfig z) names ''codexConfig'' ms,
             dec_field dec_raw (nm_ClaudeSettings z) names ''claudeSettings'' ms,
             dec_field dec_raw (nm_ServiceTier z) names ''serviceTier'' ms,
             dec_field dec_raw (nm_TaskMarker z) names ''taskMarker'' ms,
             dec_field dec_raw (nm_ProjectResources z) names ''projectResources'' ms) of
         (Some a, Some b, Some c, Some d, Some f, Some g, Some h, Some k, Some l) \<Rightarrow>
           Some \<lparr>nm_WorkerSessionID = a, nm_TurnSequence = b, nm_ArtifactRoot = c, nm_Artifacts = d,
             nm_CodexConfig = f, nm_ClaudeSettings = g, nm_ServiceTier = h, nm_TaskMarker = k,
             nm_ProjectResources = l\<rparr>
       | _ \<Rightarrow> None) v)"

definition dec_metadata_ptr :: "native_metadata option \<Rightarrow> json \<Rightarrow> native_metadata option option" where
  "dec_metadata_ptr z v =
    (if v = JNull then Some None
     else map_option Some (dec_native_metadata (case z of None \<Rightarrow> zero_native_metadata | Some m \<Rightarrow> m) v))"

definition run_metadata :: "string \<Rightarrow> native_metadata option" where
  "run_metadata raw =
    (case unmarshal (dec_struct None (dec_field dec_metadata_ptr None [''NativeMetadata''] ''NativeMetadata'')) raw of
       None \<Rightarrow> None
     | Some m \<Rightarrow> m)"

definition turn_prepared_checks :: "env \<Rightarrow> worker_session \<Rightarrow> task_grant \<Rightarrow> (bool \<times> string) list" where
  "turn_prepared_checks e ws g =
    (case g_Prepared g of
       None \<Rightarrow> [(g_Execution g \<noteq> [], ''unprepared conversation input'')]
     | Some p \<Rightarrow>
         [(\<not> prepared_for_attempt e (g_AttemptID g) g p \<or> \<not> preparedMatchesConversation p g,
             ''conversation prepared ownership''),
          (if ws_ProtocolVersion ws = session_protocol then
             (\<not> given (p_NativeMetadata p) (\<lambda>m. nm_WorkerSessionID m = ws_ID ws \<and>
                 nm_TurnSequence m = g_TurnSequence g \<and>
                 given (run_metadata (g_Execution g)) (\<lambda>r.
                   NativeMetadata_Digest e r = NativeMetadata_Digest e m)),
              ''resident preparation binding'')
           else (p_NativeMetadata p \<noteq> None, ''historical resident metadata''))])"

definition identity_names :: "string list" where
  "identity_names = [''WorkerSessionID'', ''PodUID'', ''InputDigest'', ''TurnSequence'', ''Bootstrap'', ''Run'']"

text \<open>Worker session, Pod, input digest, sequence, bootstrap and run of a persisted assignment.\<close>

definition dec_assignment_identity ::
  "json \<Rightarrow> (string \<times> string \<times> string \<times> u64 \<times> string \<times> string) option" where
  "dec_assignment_identity v =
    (let str = (\<lambda>n ms. dec_field dec_string [] identity_names n ms) in
     dec_struct ([], [], [], 0, [], []) (\<lambda>ms.
       case (str ''WorkerSessionID'' ms, str ''PodUID'' ms, str ''InputDigest'' ms,
             dec_field dec_u64 0 identity_names ''TurnSequence'' ms,
             dec_field dec_raw [] identity_names ''Bootstrap'' ms, dec_field dec_raw [] identity_names ''Run'' ms) of
         (Some w, Some p, Some d, Some t, Some b, Some r) \<Rightarrow> Some (w, p, d, t, b, r)
       | _ \<Rightarrow> None) v)"

definition assignment_ok :: "env \<Rightarrow> task_grant \<Rightarrow> string \<times> string \<times> string \<times> u64 \<times> string \<times> string \<Rightarrow> bool" where
  "assignment_ok e g a =
    (case a of (worker, pod, inputDigest, sequence, bootstrap, run) \<Rightarrow>
       TurnInputDigest e (g_Assignment g) = Inr (g_InputDigest g) \<and> fingerprint (g_InputDigest g) \<and>
       record_fits e (g_Assignment g) \<and> worker = g_WorkerSessionID g \<and> pod = g_PodUID g \<and>
       inputDigest = g_InputDigest g \<and> sequence = g_TurnSequence g \<and> g_Prepared g \<noteq> None \<and>
       length (g_SupervisorKey g) = key_size \<and> same_raw bootstrap (g_Bootstrap g) \<and> same_raw run (g_Execution g))"

definition bootstrap_digest :: "string \<Rightarrow> string option" where
  "bootstrap_digest raw =
    unmarshal (dec_struct [] (dec_field dec_string [] [''NativeMetadataDigest''] ''NativeMetadataDigest'')) raw"

definition metadata_bound :: "env \<Rightarrow> worker_session \<Rightarrow> task_grant \<Rightarrow> string \<Rightarrow> bool" where
  "metadata_bound e ws g bootstrap =
    (case bootstrap_digest bootstrap of
       None \<Rightarrow> False
     | Some d \<Rightarrow>
         \<not> (ws_ProtocolVersion ws = session_protocol \<and>
            \<not> given (g_Prepared g) (\<lambda>p. given (p_NativeMetadata p) (\<lambda>m. d = NativeMetadata_Digest e m))) \<and>
         \<not> (ws_ProtocolVersion ws = legacy_protocol \<and> d \<noteq> []))"

definition turn_assignment_checks :: "env \<Rightarrow> worker_session \<Rightarrow> task_grant \<Rightarrow> (bool \<times> string) list" where
  "turn_assignment_checks e ws g =
    (if g_Assignment g = [] then [(g_InputDigest g \<noteq> [] \<or> g_TurnAccepted g, ''missing turn assignment'')]
     else
       (let identity = unmarshal dec_assignment_identity (g_Assignment g) in
        [(\<not> given identity (assignment_ok e g), ''persisted turn assignment''),
         (\<not> given identity (\<lambda>(_, _, _, _, bootstrap, _). metadata_bound e ws g bootstrap),
           ''assignment native metadata binding'')]))"

definition accept_proof_ok :: "env \<Rightarrow> worker_session \<Rightarrow> task_grant \<Rightarrow> session_proof \<Rightarrow> bool" where
  "accept_proof_ok e ws g p =
    (let c = pf_Challenge p in
     ch_Operation c = op_accept \<and> ch_WorkerSessionID c = ws_ID ws \<and> ch_PodUID c = g_PodUID g \<and>
     ch_PVCUID c = g_PVCUID g \<and> ch_TurnSequence c = g_TurnSequence g \<and> ch_AttemptID c = g_AttemptID g \<and>
     ch_BodyDigest c = e_digest e (accept_body (g_TurnSequence g) (g_InputDigest g)) \<and>
     canonicalUUID e (ch_Nonce c) \<and> ch_ExpiresAt c \<noteq> 0 \<and>
     e_verify e (ws_SupervisorKey ws) (SessionProofMessage p) (pf_Signature p))"

definition turn_receipt_checks ::
  "env \<Rightarrow> registry \<Rightarrow> worker_session \<Rightarrow> task_grant \<Rightarrow> terminal \<Rightarrow> (bool \<times> string) list" where
  "turn_receipt_checks e st ws g t =
    [(g_TurnAccepted g \<noteq> (g_AcceptProof g \<noteq> None), ''turn acceptance''),
     (given (g_AcceptProof g) (\<lambda>p. \<not> accept_proof_ok e ws g p), ''accepted session proof''),
     (ws_ProtocolVersion ws = session_protocol \<and> g_TurnReceipt g \<noteq> None \<or>
        ws_ProtocolVersion ws = legacy_protocol \<and> (g_TurnExecutionReceipt g \<noteq> None \<or> g_TurnExecutionProof g \<noteq> None),
        ''changed execution receipt domain''),
     (given (g_TurnReceipt g) (\<lambda>r. \<not> validTurnReceipt e g t r \<or> \<not> g_CheckoutClosed g \<or> g_CheckoutNeedsFlush g \<or>
        g_CheckoutProcess g \<noteq> None), ''turn quiescence''),
     ((g_TurnExecutionReceipt g \<noteq> None) \<noteq> (g_TurnExecutionProof g \<noteq> None) \<or>
        g_TurnExecutionReceipt g \<noteq> None \<and>
        (\<not> turnExecutionSettled e st g t \<or> \<not> g_CheckoutClosed g \<or> g_CheckoutNeedsFlush g \<or>
         g_CheckoutProcess g \<noteq> None \<or> \<not> g_PreparationStopped g), ''resident turn execution proof''),
     (given (g_CompletionWitness g) (\<lambda>w. t_State t \<noteq> DDelivered \<or> t_ResultReceipt t = None \<or>
        \<not> witnessMatches g t w), ''completion witness''),
     (given (g_PendingResume g) (\<lambda>r. rp_WorkDir r \<noteq> [] \<and> rp_WorkDir r \<noteq> g_TaskRoot g @ ''/workdir''),
        ''turn result workspace''),
     (given (g_PendingResume g) (\<lambda>r. \<not> validTransientResumeResult g (t_Kind t) r),
        ''transient resume rejection'')]"

definition turn_state_checks ::
  "env \<Rightarrow> registry \<Rightarrow> worker_session \<Rightarrow> storage \<Rightarrow> task_grant \<Rightarrow> terminal \<Rightarrow> (bool \<times> string) list" where
  "turn_state_checks e st ws b g t =
    [if g_TurnComplete g then
       (g_State g \<noteq> Closed \<or> \<not> g_ExecutionRevoked g \<or>
        \<not> (turnExecutionSettled e st g t \<and> g_CompletionWitness g \<noteq> None \<and> eventsSettled g) \<and>
        \<not> (ws_State ws = SessionClosed \<and> session_evidence ws \<noteq> None), ''completed turn'')
     else
       (ws_ActiveAttempt ws \<noteq> g_AttemptID g \<or> ws_TurnSequence ws \<noteq> g_TurnSequence g \<or>
        b_ActiveAttempt b \<noteq> g_AttemptID g \<or> b_WriterSessionID b \<noteq> ws_ID ws, ''current turn writer'')] @
    (case g_State g of
       Intent \<Rightarrow> []
     | Quarantined \<Rightarrow>
         [(\<not> b_Quarantined b \<or> ws_State ws \<noteq> SessionQuarantined \<and> ws_State ws \<noteq> SessionDraining, ''turn quarantine'')]
     | Unexecuted \<Rightarrow> [(t_Source t \<noteq> SourceController \<or> g_StartConfirmed g, ''unexecuted session turn'')]
     | Closed \<Rightarrow> [(\<not> g_TurnComplete g, ''turn closure'')]
     | WaitingStorage \<Rightarrow> [(True, ''session turn state'')]
     | OtherState _ \<Rightarrow> [(True, ''session turn state'')]
     | _ \<Rightarrow>
         [(g_PodUID g = [] \<or> g_NodeID g = [] \<or> length (g_SupervisorKey g) \<noteq> key_size \<or> g_Prepared g = None \<or>
             g_Assignment g = [], ''session turn admission''),
          (g_State g = TerminalReceived \<and> t_Source t = OtherSource [], ''turn terminal'')])"

definition turn_checks :: "env \<Rightarrow> registry \<Rightarrow> worker_session \<Rightarrow> storage \<Rightarrow> task_grant \<Rightarrow> (bool \<times> string) list" where
  "turn_checks e st ws b g =
    (let t = get_terminal st (g_AttemptID g) in
     [(\<not> turn_binding_ok e ws b g, ''session grant binding''),
      (given (g_Selection g) (\<lambda>s. \<not> preservesBackendSelection g s) \<or>
         given (g_BackendSelection g) (\<lambda>s. validateBackendSelectionSources e st s \<noteq> Inr ()),
         ''changed backend selection''),
      (g_SupervisorKey g \<noteq> [] \<and> g_SupervisorKey g \<noteq> ws_SupervisorKey ws \<or>
         g_StopKey g \<noteq> [] \<and> g_StopKey g \<noteq> ws_SupervisorKey ws, ''session supervisor key'')] @
     turn_prepared_checks e ws g @
     [(g_PreparationStopped g \<and> \<not> g_PreparationStarted g, ''conversation preparation termination'')] @
     turn_assignment_checks e ws g @ turn_receipt_checks e st ws g t @ turn_state_checks e st ws b g t)"

definition validateSessionGrant :: "env \<Rightarrow> registry \<Rightarrow> task_grant \<Rightarrow> err + unit" where
  "validateSessionGrant e st g =
    (case (session_of st (g_WorkerSessionID g), storage_of st (g_StorageID g)) of
       (Some ws, Some b) \<Rightarrow> first_failure (turn_checks e st ws b g)
     | _ \<Rightarrow> Inl (ErrInvalid ''session grant binding''))"

definition validate_grant :: "env \<Rightarrow> registry \<Rightarrow> string \<times> task_grant \<Rightarrow> err + unit" where
  "validate_grant e st entry =
    (case entry of (i, g) \<Rightarrow>
       bind_res (first_failure (grant_checks e st i g)) (\<lambda>_.
         if g_StorageID g = [] then
           bind_res (validatePendingSessionGrant e g) (\<lambda>_. first_failure (pending_checks st i g))
         else if g_WorkerSessionID g \<noteq> [] then validateSessionGrant e st g
         else first_failure (task_checks e st i g)))"

section \<open>Capabilities and terminals\<close>

definition capability_ok :: "env \<Rightarrow> registry \<Rightarrow> string \<Rightarrow> capability \<Rightarrow> bool" where
  "capability_ok e st key c =
    (case grant_of st (cap_AttemptID c) of
       None \<Rightarrow> False
     | Some g \<Rightarrow>
         g_StorageID g \<noteq> [] \<and> key = e_digest e (cap_Token c) \<and> validOpaque (cap_Token c) \<and>
         validOpaque (cap_Audience c) \<and> cap_Generation c = g_Generation g \<and> cap_PodUID c = g_PodUID g \<and>
         cap_ExpiresAt c \<noteq> 0 \<and> cap_WorkerSessionID c = g_WorkerSessionID g \<and> cap_TurnSequence c = g_TurnSequence g)"

definition validate_capability :: "env \<Rightarrow> registry \<Rightarrow> string \<times> capability \<Rightarrow> err + unit" where
  "validate_capability e st entry =
    (case entry of (key, c) \<Rightarrow> first_failure [(\<not> capability_ok e st key c, ''capability'')])"

definition recovery_bad :: "env \<Rightarrow> task_grant \<Rightarrow> terminal \<Rightarrow> recovery_failure \<Rightarrow> bool" where
  "recovery_bad e g t rf =
    (t_Source t \<noteq> SourceWorker \<or> t_State t \<noteq> DReceived \<or> t_Seal t \<noteq> None \<or> t_ResultReceipt t \<noteq> None \<or>
     rf_DecidedAt rf = 0 \<or> \<not> json_valid (rf_Body rf) \<or> \<not> record_fits e (rf_Body rf) \<or>
     \<not> given (stop_evidence_of g) (\<lambda>ev. se_Kind ev = EvTerminated \<and> validStopEvidence g ev) \<or>
     \<not> g_CheckoutClosed g)"

definition source_checks :: "task_grant \<Rightarrow> terminal \<Rightarrow> (bool \<times> string) list" where
  "source_checks g t =
    (case t_Source t of
       SourceWorker \<Rightarrow>
         [(\<not> fingerprint (t_ResultDigest t), ''provider result digest''),
          (g_PodUID g = [] \<or> g_PVCUID g = [] \<or> length (g_SupervisorKey g) \<noteq> key_size, ''native terminal identity'')]
     | SourceController \<Rightarrow>
         [(t_Kind t \<noteq> KindFail \<or>
           g_State g \<noteq> Quarantined \<and> g_State g \<noteq> Unexecuted \<and>
             \<not> (g_State g = Closed \<and>
                (g_StorageID g = [] \<or> preparationStoppedWithoutWorker g \<or> stop_evidence_of g \<noteq> None)) \<or>
           t_Seal t \<noteq> None \<or> t_ResultReceipt t \<noteq> None \<or> t_State t = DSealed, ''controller failure authority'')]
     | OtherSource _ \<Rightarrow> [(True, ''terminal source'')])"

definition delivery_checks :: "terminal \<Rightarrow> (bool \<times> string) list" where
  "delivery_checks t =
    (case t_State t of
       DReceived \<Rightarrow> [(t_Seal t \<noteq> None, ''unsealed receipt'')]
     | DSealed \<Rightarrow> [(t_Seal t = None, ''missing storage seal'')]
     | OtherDelivery _ \<Rightarrow> [(True, ''delivery state'')]
     | _ \<Rightarrow> [(t_Source t = SourceWorker \<and> t_Seal t = None \<and> t_ResultReceipt t = None,
              ''missing result authentication'')])"

definition seal_bad :: "env \<Rightarrow> string \<Rightarrow> task_grant \<Rightarrow> terminal \<Rightarrow> signed_receipt \<Rightarrow> bool" where
  "seal_bad e i g t r =
    (sg_TaskID r \<noteq> g_TaskID g \<or> sg_AttemptID r \<noteq> i \<or> sg_PodUID r \<noteq> g_PodUID g \<or> sg_PVCUID r \<noteq> g_PVCUID g \<or>
     sg_RequestDigest r \<noteq> t_RequestDigest t \<or> sg_Nonce r \<noteq> t_Nonce t \<or> \<not> sg_WritersStopped r \<or> \<not> sg_FlushOK r \<or>
     length (g_SupervisorKey g) \<noteq> key_size \<or>
     \<not> e_verify e (g_SupervisorKey g) (ReceiptMessage r) (sg_Signature r))"

definition terminal_identity_ok :: "env \<Rightarrow> string \<Rightarrow> task_grant \<Rightarrow> terminal \<Rightarrow> bool" where
  "terminal_identity_ok e i g t =
    (t_AttemptID t = i \<and> t_TaskID t = g_TaskID g \<and> t_PodUID t = g_PodUID g \<and> t_PVCUID t = g_PVCUID g \<and>
     canonicalUUID e (t_ReceiptID t) \<and> canonicalUUID e (t_Nonce t) \<and> json_valid (t_Body t) \<and>
     record_fits e (t_Body t) \<and> t_RequestDigest t = TerminalDigest e (terminal_kind_text (t_Kind t)) (t_Body t) \<and>
     t_ReceivedAt t \<noteq> 0)"

definition terminal_checks :: "env \<Rightarrow> string \<Rightarrow> task_grant \<Rightarrow> terminal \<Rightarrow> (bool \<times> string) list" where
  "terminal_checks e i g t =
    [(\<not> terminal_identity_ok e i g t, ''terminal''),
     (t_Kind t \<noteq> KindComplete \<and> t_Kind t \<noteq> KindFail \<and> t_Kind t \<noteq> KindCancelAck, ''terminal kind''),
     (given (t_RecoveryFailure t) (recovery_bad e g t), ''unsealed result recovery''),
     (given (t_RecoveryFailure t) (\<lambda>rf. rf_State rf \<noteq> DReceived \<and> rf_State rf \<noteq> DForwarding \<and>
        rf_State rf \<noteq> DUncertain \<and> rf_State rf \<noteq> DDelivered \<and> rf_State rf \<noteq> DRejected), ''recovery delivery state''),
     (g_State g \<noteq> TerminalReceived \<and> g_State g \<noteq> Quarantined \<and> g_State g \<noteq> Unexecuted \<and> g_State g \<noteq> Closed,
        ''terminal dispatch'')] @
    source_checks g t @ delivery_checks t @
    [(given (t_Seal t) (seal_bad e i g t), ''signed receipt''),
     (given (t_ResultReceipt t) (\<lambda>r. \<not> validResultReceipt e g t r), ''signed provider result'')]"

definition validate_terminal :: "env \<Rightarrow> registry \<Rightarrow> string \<times> terminal \<Rightarrow> err + unit" where
  "validate_terminal e st entry =
    (case entry of (i, t) \<Rightarrow>
       (case grant_of st i of
          None \<Rightarrow> Inl (ErrInvalid ''terminal'')
        | Some g \<Rightarrow> first_failure (terminal_checks e i g t)))"

end
