(* ===== verification/Validate.thy ===== *)
theory Validate
  imports Validate_Grants
begin

text \<open>
  The journal's well-formedness, second part: storages, conversations and sessions
  (\<^verbatim>\<open>session_validate.go\<close>, \<^verbatim>\<open>validate.go\<close>), and \<^verbatim>\<open>validateRegistry\<close>, the
  whole check.
\<close>

section \<open>Storages\<close>

definition checkpoint_source_ok ::
  "registry \<Rightarrow> storage \<Rightarrow> session_checkpoint \<Rightarrow> task_grant \<Rightarrow> worker_session \<Rightarrow> bool" where
  "checkpoint_source_ok st b cp g ws =
    (g_TaskID g = src_TaskID (cp_Source cp) \<and> g_StorageID g = b_ID b \<and> g_TurnComplete g \<and>
     g_CompletionWitness g \<noteq> None \<and> workspace_eligible g \<and> checkpointOutcome (get_terminal st (g_AttemptID g)) \<and>
     (ws_ProtocolVersion ws = legacy_protocol \<and> g_TurnReceipt g \<noteq> None \<or>
      ws_State ws = SessionClosed \<and> sessionStoppedClean st ws) \<and>
     cp_WorkerSessionID cp = g_WorkerSessionID g \<and> cp_TurnSequence cp = g_TurnSequence g \<and>
     cp_CompatibilityDigest cp = g_CompatibilityDigest g \<and>
     cp_WorkspaceCompatibilityDigest cp = b_WorkspaceCompatibilityDigest b \<and>
     cp_WorkspaceCompatibilityDigest cp = g_WorkspaceCompatibilityDigest g \<and>
     cp_WorkDir cp = b_TaskRoot b @ ''/workdir'' \<and> cp_PublishedAt cp \<noteq> 0 \<and>
     \<not> (b_ActiveAttempt b = [] \<and> \<not> b_Dirty b \<and> cp_Source cp \<noteq> b_LatestWriter b) \<and>
     b_SessionID b = cp_SessionID cp)"

definition checkpoint_seal_checks ::
  "registry \<Rightarrow> session_checkpoint \<Rightarrow> worker_session \<Rightarrow> (bool \<times> string) list" where
  "checkpoint_seal_checks st cp ws =
    (if ws_ProtocolVersion ws = session_protocol then
       [(cp_SealingSessionID cp \<noteq> ws_ID ws \<or> ws_State ws \<noteq> SessionClosed \<or> \<not> sessionStoppedClean st ws \<or>
         \<not> given (session_evidence ws) (\<lambda>ev. cp_SealedAt cp = se_ObservedAt ev \<and> validSessionStopEvidence st ws ev),
         ''resident final checkpoint seal'')]
     else [(cp_SealingSessionID cp \<noteq> [] \<or> cp_SealedAt cp \<noteq> 0, ''historical checkpoint seal'')])"

definition checkpoint_session_checks ::
  "env \<Rightarrow> registry \<Rightarrow> storage \<Rightarrow> session_checkpoint \<Rightarrow> task_grant \<Rightarrow> (bool \<times> string) list" where
  "checkpoint_session_checks e st b cp g =
    [if cp_SessionID cp \<noteq> [] then
       (let source = get_grant st (src_AttemptID (cp_SessionSource cp)) in
        ((case selectedWitness e st (cp_SessionSource cp) (b_ID b) of
            Inl _ \<Rightarrow> True
          | Inr w \<Rightarrow> cw_SessionID w \<noteq> cp_SessionID cp) \<or>
         \<not> session_eligible g \<or> \<not> nativeCheckpointOutcome g (get_terminal st (g_AttemptID g)) \<or>
         \<not> session_eligible source \<or> g_CompatibilityDigest source \<noteq> g_CompatibilityDigest g \<or>
         cp_SessionID cp \<in> set (b_RetiredSessions b), ''checkpoint session source''))
     else (cp_SessionSource cp \<noteq> no_source, ''empty checkpoint session source''),
     (cp_WorkspaceSource cp \<noteq> no_source \<and>
        (case selectedWitness e st (cp_WorkspaceSource cp) (b_ID b) of
           Inl _ \<Rightarrow> True
         | Inr w \<Rightarrow> cw_WorkDir w \<noteq> cp_WorkDir cp), ''checkpoint workspace source'')]"

definition checkpoint_checks :: "env \<Rightarrow> registry \<Rightarrow> storage \<Rightarrow> session_checkpoint \<Rightarrow> (bool \<times> string) list" where
  "checkpoint_checks e st b cp =
    (case grant_of st (src_AttemptID (cp_Source cp)) of
       None \<Rightarrow> [(True, ''conversation checkpoint'')]
     | Some g \<Rightarrow>
         (let ws = get_session st (g_WorkerSessionID g) in
          [(\<not> checkpoint_source_ok st b cp g ws, ''conversation checkpoint'')] @
          checkpoint_seal_checks st cp ws @ checkpoint_session_checks e st b cp g))"

definition latest_writer_ok :: "env \<Rightarrow> registry \<Rightarrow> storage \<Rightarrow> bool" where
  "latest_writer_ok e st b =
    (CheckpointSource_valid e (b_LatestWriter b) \<and>
     given (grant_of st (src_AttemptID (b_LatestWriter b))) (\<lambda>w.
       g_TaskID w = src_TaskID (b_LatestWriter b) \<and> g_StorageID w = b_ID b \<and> g_Conversation w = b_Conversation b))"

definition retained_preparation_ok :: "env \<Rightarrow> registry \<Rightarrow> storage \<Rightarrow> prepared \<Rightarrow> bool" where
  "retained_preparation_ok e st b p =
    (ValidatePrepared e p = Inr () \<and> p_Conversation p = Some (b_Conversation b) \<and>
     p_WorkspaceAnchorTaskID p = b_WorkspaceAnchorTaskID b \<and> p_OwnerID p = r_OwnerID st \<and>
     p_WorkspaceID p = b_WorkspaceID b \<and> p_AgentID p = b_AgentID b \<and> p_TaskRoot p = b_TaskRoot b \<and>
     p_PVCUID p = b_PVCUID b)"

definition writer_lease_ok :: "registry \<Rightarrow> storage \<Rightarrow> bool" where
  "writer_lease_ok st b =
    given (session_of st (b_WriterSessionID b)) (\<lambda>ws.
      ws_StorageID ws = b_ID b \<and> ws_State ws \<noteq> SessionClosed \<and> ws_ActiveAttempt ws = b_ActiveAttempt b)"

definition conversation_storage_checks :: "env \<Rightarrow> registry \<Rightarrow> storage \<Rightarrow> (bool \<times> string) list" where
  "conversation_storage_checks e st b =
    [(\<not> ConversationKey_Valid e (b_Conversation b) \<or> ck_OwnerID (b_Conversation b) \<noteq> r_OwnerID st \<or>
        ck_WorkspaceID (b_Conversation b) \<noteq> b_WorkspaceID b \<or> ck_AgentID (b_Conversation b) \<noteq> b_AgentID b \<or>
        b_WorkspaceAnchorTaskID b \<noteq> b_TaskID b \<or> \<not> fingerprint (b_CompatibilityDigest b) \<or>
        \<not> fingerprint (b_WorkspaceCompatibilityDigest b), ''conversation storage''),
     (\<not> list_all validOpaque (b_RetiredSessions b) \<or> \<not> sorted_wrt (<) (b_RetiredSessions b),
        ''retired conversation session''),
     (\<not> latest_writer_ok e st b, ''latest conversation writer''),
     (given (b_Prepared b) (\<lambda>p. \<not> retained_preparation_ok e st b p), ''conversation retained preparation''),
     if b_WriterSessionID b \<noteq> [] then (\<not> writer_lease_ok st b, ''conversation writer lease'')
     else (b_ActiveAttempt b \<noteq> [], ''orphaned conversation turn'')] @
    (case b_Checkpoint b of
       Some cp \<Rightarrow> checkpoint_checks e st b cp
     | None \<Rightarrow> [(b_SessionID b \<noteq> [], ''unwitnessed conversation session'')])"

definition validateConversationStorage :: "env \<Rightarrow> registry \<Rightarrow> storage \<Rightarrow> err + unit" where
  "validateConversationStorage e st b = first_failure (conversation_storage_checks e st b)"

definition task_storage_checks :: "env \<Rightarrow> registry \<Rightarrow> string \<Rightarrow> storage \<Rightarrow> (bool \<times> string) list" where
  "task_storage_checks e st i b =
    [(b_Conversation b \<noteq> zero_conversation_key \<or> b_CompatibilityDigest b \<noteq> [] \<or>
        b_WorkspaceCompatibilityDigest b \<noteq> [] \<or> b_WriterSessionID b \<noteq> [] \<or> b_LatestWriter b \<noteq> no_source \<or>
        b_Checkpoint b \<noteq> None \<or> b_RetiredSessions b \<noteq> [], ''unanchored conversation storage''),
     (given (b_Prepared b) (\<lambda>p. ValidatePrepared e p \<noteq> Inr () \<or> p_OwnerID p \<noteq> r_OwnerID st \<or>
        p_TaskID p \<noteq> b_TaskID b \<or> p_WorkspaceID p \<noteq> b_WorkspaceID b \<or> p_AgentID p \<noteq> b_AgentID b \<or>
        p_TaskRoot p \<noteq> b_TaskRoot b \<or> p_PVCUID p \<noteq> b_PVCUID b), ''retained preparation''),
     (b_ActiveAttempt b \<noteq> [] \<and>
        \<not> given (grant_of st (b_ActiveAttempt b)) (\<lambda>g. g_StorageID g = i \<and> g_State g \<noteq> Closed),
        ''active storage writer'')]"

definition storage_identity_ok :: "env \<Rightarrow> registry \<Rightarrow> string \<Rightarrow> storage \<Rightarrow> bool" where
  "storage_identity_ok e st i b =
    (i = b_ID b \<and> canonicalUUID e i \<and> b_PVCName b = r_WorkspaceClaim st \<and> b_PVCUID b = r_WorkspaceUID st \<and>
     canonicalUUID e (b_WorkspaceID b) \<and> canonicalUUID e (b_TaskID b) \<and> fingerprint (b_ScopeDigest b) \<and>
     fingerprint (b_Fingerprint b))"

text \<open>The loop over the storages keeps the task roots it has seen.\<close>

fun storages_ok :: "env \<Rightarrow> registry \<Rightarrow> string list \<Rightarrow> storage gomap \<Rightarrow> err + unit" where
  "storages_ok e st roots [] = Inr ()"
| "storages_ok e st roots ((i, b) # bs) =
    bind_res (first_failure
      [(\<not> storage_identity_ok e st i b, ''storage''),
       (ValidateTaskRoot e ''/workspace'' (b_TaskRoot b) (b_WorkspaceID b) (b_TaskID b) \<noteq> Inr (),
          ''canonical task root''),
       (b_TaskRoot b \<in> set roots, ''shared task root'')]) (\<lambda>_.
    bind_res (if b_WorkspaceAnchorTaskID b \<noteq> [] then validateConversationStorage e st b
              else first_failure (task_storage_checks e st i b)) (\<lambda>_.
      storages_ok e st (b_TaskRoot b # roots) bs))"

section \<open>Conversations\<close>

definition conversation_ok :: "env \<Rightarrow> registry \<Rightarrow> string \<Rightarrow> conversation \<Rightarrow> bool" where
  "conversation_ok e st i v =
    (case (storage_of st (cv_CurrentStorageID v), session_of st (cv_CurrentSessionID v)) of
       (Some b, Some ws) \<Rightarrow>
         ConversationKey_Valid e (cv_Key v) \<and> ck_OwnerID (cv_Key v) = r_OwnerID st \<and>
         i = ConversationKey_Digest e (cv_Key v) \<and> cv_Revision v \<noteq> 0 \<and> b_Conversation b = cv_Key v \<and>
         ws_Conversation ws = cv_Key v \<and> ws_StorageID ws = b_ID b
     | _ \<Rightarrow> False)"

definition validate_conversation :: "env \<Rightarrow> registry \<Rightarrow> string \<times> conversation \<Rightarrow> err + unit" where
  "validate_conversation e st entry =
    (case entry of (i, v) \<Rightarrow> first_failure [(\<not> conversation_ok e st i v, ''conversation index'')])"

section \<open>Sessions\<close>

definition session_identity_ok :: "env \<Rightarrow> registry \<Rightarrow> string \<Rightarrow> storage \<Rightarrow> worker_session \<Rightarrow> bool" where
  "session_identity_ok e st i b ws =
    (canonicalUUID e i \<and> i = ws_ID ws \<and> ConversationKey_Valid e (ws_Conversation ws) \<and>
     ws_Conversation ws = b_Conversation b \<and>
     (ws_ProtocolVersion ws = session_protocol \<or> ws_ProtocolVersion ws = legacy_protocol) \<and>
     ck_OwnerID (ws_Conversation ws) = r_OwnerID st \<and> ws_WorkspaceAnchorTaskID ws = b_WorkspaceAnchorTaskID b \<and>
     fingerprint (ws_CompatibilityDigest ws) \<and>
     ws_WorkspaceCompatibilityDigest ws = b_WorkspaceCompatibilityDigest b \<and> ws_PVCName ws = b_PVCName b \<and>
     ws_PVCUID ws = b_PVCUID b \<and> ws_TaskRoot ws = b_TaskRoot b \<and> canonicalUUID e (ws_RuntimeID ws) \<and>
     Ref_Validate e (ws_RuntimeRef ws) = Inr () \<and> ws_Fingerprint ws = RuntimeFingerprint e (ws_RuntimeRef ws) \<and>
     ws_Fingerprint ws = b_Fingerprint b \<and> ws_Revision ws \<noteq> 0 \<and> ws_TurnSequence ws \<noteq> 0 \<and> ws_CreatedAt ws \<noteq> 0 \<and>
     ws_LastObservedAt ws \<noteq> 0 \<and> ws_Retention ws \<ge> 0 \<and> validOpaque (ws_ControlToken ws) \<and>
     length (ws_ControlToken ws) \<ge> 32 \<and>
     \<not> (ws_SupervisorKey ws \<noteq> [] \<and>
        (length (ws_SupervisorKey ws) \<noteq> key_size \<or> ws_PodUID ws = [] \<or> ws_NodeID ws = [])))"

definition kind_prefix :: "conversation_key \<Rightarrow> string" where
  "kind_prefix k = (if ck_Kind k = ConversationAgentDM then ''dm'' else kind_text (ck_Kind k))"

definition pod_suffix :: "env \<Rightarrow> string \<Rightarrow> conversation_key \<Rightarrow> string" where
  "pod_suffix e i k = ''-'' @ take 16 (ConversationKey_Digest e k) @ ''-'' @ take 12 i"

definition pod_name_ok :: "env \<Rightarrow> string \<Rightarrow> worker_session \<Rightarrow> bool" where
  "pod_name_ok e i ws =
    (let k = ws_Conversation ws in
     ws_PodName ws = ''worker'' @ pod_suffix e i k \<or> ws_PodName ws = kind_prefix k @ pod_suffix e i k)"

definition session_journal_checks ::
  "env \<Rightarrow> registry \<Rightarrow> string \<Rightarrow> storage \<Rightarrow> worker_session \<Rightarrow> (bool \<times> string) list" where
  "session_journal_checks e st i b ws =
    [(ws_Bootstrap ws \<noteq> [] \<and>
        (\<not> json_valid (ws_Bootstrap ws) \<or> \<not> sessionBootstrapMatches ws (ws_Bootstrap ws) \<or>
         ws_BootstrapDigest ws \<noteq> e_digest e (ws_Bootstrap ws) \<or> \<not> record_fits e (ws_Bootstrap ws)) \<or>
      ws_Bootstrap ws = [] \<and> ws_BootstrapDigest ws \<noteq> [] \<or>
      ws_Resources ws \<noteq> [] \<and> (\<not> json_valid (ws_Resources ws) \<or> \<not> record_fits e (ws_Resources ws)),
        ''session creation journal''),
     (ws_PodUID ws \<noteq> [] \<and> ws_Bootstrap ws = [], ''unpublished session bootstrap''),
     if ws_LastAttemptID ws \<noteq> [] then
       (\<not> given (grant_of st (ws_LastAttemptID ws)) (\<lambda>last. g_WorkerSessionID last = i \<and>
          g_InputDigest last = ws_InputDigest ws \<and> fingerprint (ws_InputDigest ws)), ''latest session assignment'')
     else (ws_InputDigest ws \<noteq> [], ''session input without assignment''),
     (ws_ActiveAttempt ws \<noteq> [] \<and>
        \<not> given (grant_of st (ws_ActiveAttempt ws)) (\<lambda>g. g_WorkerSessionID g = i \<and>
          g_TurnSequence g = ws_TurnSequence ws \<and> \<not> g_TurnComplete g \<and> b_ActiveAttempt b = g_AttemptID g),
        ''session active turn''),
     (ws_LastCompleteAttempt ws \<noteq> [] \<and>
        \<not> given (grant_of st (ws_LastCompleteAttempt ws)) (\<lambda>g. g_WorkerSessionID g = i \<and> g_TurnComplete g \<and>
          turnExecutionSettled e st g (get_terminal st (g_AttemptID g)) \<and> g_CompletionWitness g \<noteq> None),
        ''session completed turn'')]"

definition session_state_checks :: "string \<Rightarrow> storage \<Rightarrow> worker_session \<Rightarrow> (bool \<times> string) list" where
  "session_state_checks i b ws =
    (case ws_State ws of
       SessionIdle \<Rightarrow>
         [(ws_ActiveAttempt ws \<noteq> [] \<or> ws_Stop ws \<noteq> None \<or> ws_LastCompleteAttempt ws = [] \<or> ws_IdleSince ws = 0 \<or>
           ws_IdleDeadline ws = 0 \<or> ws_IdleDeadline ws < ws_IdleSince ws \<or> ws_Retention ws \<le> 0 \<or>
           b_Dirty b \<noteq> (ws_ProtocolVersion ws = session_protocol) \<or> b_Quarantined b \<or>
           ws_ProtocolVersion ws = session_protocol \<and> b_Checkpoint b \<noteq> None, ''idle session authority'')]
     | SessionDraining \<Rightarrow> [(ws_Stop ws = None, ''session stop intent'')]
     | SessionQuarantined \<Rightarrow> [(ws_Stop ws = None, ''session stop intent'')]
     | SessionClosed \<Rightarrow>
         [(ws_ActiveAttempt ws \<noteq> [] \<or> session_evidence ws = None \<or> b_WriterSessionID b = i, ''session writer release'')]
     | OtherSession _ \<Rightarrow> [(True, ''session lifecycle state'')]
     | _ \<Rightarrow> [(ws_ActiveAttempt ws = [] \<or> ws_Stop ws \<noteq> None, ''session execution state'')]) @
    [(ws_ResourcesCleaned ws \<and> ws_State ws \<noteq> SessionClosed, ''session resource cleanup''),
     (ws_State ws \<noteq> SessionClosed \<and> b_WriterSessionID b \<noteq> i, ''session exclusive writer'')]"

definition validStoredStopProof :: "env \<Rightarrow> worker_session \<Rightarrow> session_proof \<Rightarrow> string \<Rightarrow> string \<Rightarrow> bool" where
  "validStoredStopProof e ws p op body =
    (let c = pf_Challenge p in
     given (ws_Stop ws) (\<lambda>stop.
       ch_Operation c = op \<and> ch_BodyDigest c = e_digest e body \<and> ch_WorkerSessionID c = ws_ID ws \<and>
       ch_PodUID c = ws_PodUID ws \<and> ch_PVCUID c = ws_PVCUID ws \<and> ch_TurnSequence c = ws_TurnSequence ws \<and>
       ch_AttemptID c = ssp_ActiveAttempt stop \<and> ch_ExpiresAt c \<noteq> 0 \<and> canonicalUUID e (ch_Nonce c) \<and>
       length (ws_SupervisorKey ws) = key_size \<and>
       e_verify e (ws_SupervisorKey ws) (SessionProofMessage p) (pf_Signature p)))"

definition session_stop_checks ::
  "env \<Rightarrow> registry \<Rightarrow> string \<Rightarrow> worker_session \<Rightarrow> session_stop_record \<Rightarrow> (bool \<times> string) list" where
  "session_stop_checks e st i ws stop =
    [(\<not> validOpaque (ssp_Reason stop) \<or> length (ssp_Reason stop) > 256 \<or> ssp_Revision stop = 0 \<or>
        ssp_Revision stop > ws_Revision ws \<or> \<not> canonicalUUID e (ssp_Nonce stop) \<or> ssp_RequestedAt stop = 0,
        ''session stop record''),
     (ssp_ControllerWritersStopped stop \<and> \<not> sessionWritersFenced st ws, ''session controller writer proof''),
     (given (ssp_Receipt stop) (\<lambda>r. ssr_WritersStopped r \<and> ssr_FlushOK r \<and> \<not> ssp_ControllerWritersStopped stop),
        ''session flush ordering''),
     (given (ssp_Receipt stop) (\<lambda>r. \<not> validSessionStopReceipt e ws r) \<or>
        given (ssp_Evidence stop) (\<lambda>ev. \<not> validSessionStopEvidence st ws ev), ''session termination proof''),
     (ssp_ActiveAttempt stop \<noteq> [] \<and>
        \<not> given (grant_of st (ssp_ActiveAttempt stop)) (\<lambda>g. g_WorkerSessionID g = i \<and>
          g_TurnSequence g = ws_TurnSequence ws), ''stopped turn identity''),
     (case ssp_RequestProof stop of
        Some p \<Rightarrow>
          (\<not> validOpaque (ssp_RequestReason stop) \<or> length (ssp_RequestReason stop) > 256 \<or>
           \<not> validStoredStopProof e ws p op_stop_request (reason_body (ssp_RequestReason stop)),
           ''accepted stop request'')
      | None \<Rightarrow> (ssp_RequestReason stop \<noteq> [], ''unaccepted stop request'')),
     (case ssp_Receipt stop of
        Some r \<Rightarrow>
          (\<not> given (ssp_ReceiptProof stop) (\<lambda>p.
              validStoredStopProof e ws p op_stop_receipt (json_text (session_stop_receipt_json r))),
           ''accepted stop receipt'')
      | None \<Rightarrow> (ssp_ReceiptProof stop \<noteq> None, ''missing accepted stop receipt''))]"

definition session_resident :: "worker_session \<Rightarrow> bool" where
  "session_resident ws = (ws_State ws \<noteq> SessionClosed \<or> \<not> ws_ResourcesCleaned ws)"

text \<open>The loop over the sessions keeps the Pod names it has seen and the conversations that
  have a resident.  \<open>historical\<close> is \<^verbatim>\<open>historicalMigration\<close>.\<close>

fun sessions_ok ::
  "env \<Rightarrow> registry \<Rightarrow> bool \<Rightarrow> string list \<Rightarrow> string list \<Rightarrow> worker_session gomap \<Rightarrow> err + unit" where
  "sessions_ok e st historical names live [] = Inr ()"
| "sessions_ok e st historical names live ((i, ws) # rest) =
    (let b = get_storage st (ws_StorageID ws); key = ConversationKey_Digest e (ws_Conversation ws) in
     bind_res (first_failure
       ([(storage_of st (ws_StorageID ws) = None \<or> \<not> session_identity_ok e st i b ws, ''worker session''),
         (\<not> historical \<and> ws_ProtocolVersion ws = legacy_protocol \<and> ws_State ws \<noteq> SessionClosed \<and> ws_Stop ws = None,
            ''undrained historical session''),
         (\<not> pod_name_ok e i ws \<or> ws_PodName ws \<in> set names, ''session Pod identity'')] @
        session_journal_checks e st i b ws @ session_state_checks i b ws @
        [(session_resident ws \<and> key \<in> set live, ''multiple conversation residents'')] @
        (case ws_Stop ws of None \<Rightarrow> [] | Some stop \<Rightarrow> session_stop_checks e st i ws stop))) (\<lambda>_.
       sessions_ok e st historical (ws_PodName ws # names) (if session_resident ws then key # live else live) rest))"

definition validateConversations :: "env \<Rightarrow> registry \<Rightarrow> bool \<Rightarrow> err + unit" where
  "validateConversations e st historical =
    bind_res (each_ok (validate_conversation e st) (r_Conversations st)) (\<lambda>_.
      sessions_ok e st historical [] [] (r_Sessions st))"

section \<open>The whole journal\<close>

text \<open>\<^verbatim>\<open>SchemaVersion\<close>.\<close>

definition schema_version :: int where "schema_version = 16"

definition registry_checks :: "env \<Rightarrow> registry \<Rightarrow> (bool \<times> string) list" where
  "registry_checks e st =
    [(r_SchemaVersion st \<noteq> schema_version \<or> r_OwnerID st \<noteq> o_OwnerID e, ''journal schema or owner''),
     (r_WorkspaceClaim st \<noteq> [] \<and> (r_WorkspaceUID st = [] \<or> \<not> e_parse_ip e (r_NFSServer st)),
        ''workspace endpoint binding'')]"

definition validateRegistry :: "env \<Rightarrow> registry \<Rightarrow> bool \<Rightarrow> err + unit" where
  "validateRegistry e st historical =
    bind_res (first_failure (registry_checks e st)) (\<lambda>_.
    bind_res (each_ok (validate_grant e st) (r_Grants st)) (\<lambda>_.
    bind_res (storages_ok e st [] (r_Storages st)) (\<lambda>_.
    bind_res (each_ok (validate_capability e st) (r_Capabilities st)) (\<lambda>_.
    bind_res (each_ok (validate_terminal e st) (r_Terminals st)) (\<lambda>_.
      validateConversations e st historical)))))"

definition validate_registry :: "env \<Rightarrow> registry \<Rightarrow> err + unit" where
  "validate_registry e st = validateRegistry e st False"

end
