(* ===== verification/Migration.thy ===== *)
theory Migration
  imports Validate
begin

text \<open>
  Reading an older journal (\<^verbatim>\<open>session_migration.go\<close>, \<^verbatim>\<open>readJournal\<close> of
  \<^verbatim>\<open>store.go\<close>): old records may not carry authority their schema did not have, the
  workspace digests are derived from existing evidence, and every live session of an older
  schema is told to stop.  The decoded document is the argument; decoding is
  \<^verbatim>\<open>encoding/json\<close>.
\<close>

section \<open>Loops that rewrite a map\<close>

fun each_map :: "(string \<Rightarrow> 'a \<Rightarrow> err + 'a) \<Rightarrow> 'a gomap \<Rightarrow> err + 'a gomap" where
  "each_map f [] = Inr []"
| "each_map f ((i, a) # m) =
    bind_res (f i a) (\<lambda>b. bind_res (each_map f m) (\<lambda>n. Inr ((i, b) # n)))"

lemma each_map_map_of:
  "each_map f m = Inr n \<Longrightarrow> map_of m i = Some a \<Longrightarrow> \<exists>b. f i a = Inr b \<and> map_of n i = Some b"
  by (induction m arbitrary: n) (auto simp: bind_res_eq_Inr split: if_splits)

lemma each_map_keys: "each_map f m = Inr n \<Longrightarrow> map fst n = map fst m"
  by (induction m arbitrary: n) (auto simp: bind_res_eq_Inr)

section \<open>The session protocol\<close>

definition restore_session :: "string \<Rightarrow> worker_session \<Rightarrow> err + worker_session" where
  "restore_session i ws =
    (if ws_ProtocolVersion ws \<noteq> 0 then Inl (ErrInvalid ''previous session protocol'')
     else Inr (ws\<lparr>ws_ProtocolVersion := legacy_protocol\<rparr>))"

definition has_native_metadata :: "prepared option \<Rightarrow> bool" where
  "has_native_metadata p = given p (\<lambda>q. p_NativeMetadata q \<noteq> None)"

definition restoreHistoricalSessionProtocol :: "registry \<Rightarrow> err + registry" where
  "restoreHistoricalSessionProtocol st =
    bind_res (each_map restore_session (r_Sessions st)) (\<lambda>sessions.
    bind_res (first_failure (map (\<lambda>g.
        (g_TurnExecutionReceipt g \<noteq> None \<or> g_TurnExecutionProof g \<noteq> None \<or> has_native_metadata (g_Prepared g),
         ''previous resident execution proof'')) (mvals (r_Grants st)))) (\<lambda>_.
    bind_res (first_failure (concat (map (\<lambda>b.
        [(has_native_metadata (b_Prepared b), ''previous resident metadata''),
         (given (b_Checkpoint b) (\<lambda>cp. cp_SealingSessionID cp \<noteq> [] \<or> cp_SealedAt cp \<noteq> 0),
          ''previous resident storage seal'')]) (mvals (r_Storages st))))) (\<lambda>_.
      Inr (st\<lparr>r_Sessions := sessions\<rparr>))))"

section \<open>Workspace compatibility\<close>

definition claims_workspace_reuse :: "selection option \<Rightarrow> bool" where
  "claims_workspace_reuse s = given s sel_WorkspaceReuseEligible"

definition previous_selection_checks :: "env \<Rightarrow> task_grant \<Rightarrow> (bool \<times> string) list" where
  "previous_selection_checks e g =
    (let task = (ck_Kind (g_Conversation g) = ConversationTask) in
     [(given (g_Selection g) (\<lambda>s.
         (\<not> sel_ReuseEligible s \<or> task) \<and> sel_Mode s \<noteq> SelectionFreshWorkspace \<or>
         sel_Mode s \<noteq> SelectionFreshWorkspace \<and> \<not> given (g_BackendSelection g) (sameSelectedSources s)),
         ''previous continuity selection''),
      (given (g_Selection g) (\<lambda>s. sel_ReuseEligible s \<and>
         (\<not> given (g_Compatibility g) (\<lambda>k. cc_ProviderOptionsResolved k \<and> ValidForReuse e (cc_Authority k)) \<or> task)),
         ''previous native reuse authority''),
      (given (g_BackendSelection g) (\<lambda>s. ck_Kind (sel_Conversation s) = ConversationTask \<and>
         (sel_ReuseEligible s \<or> sel_Mode s \<noteq> SelectionFreshWorkspace)), ''previous task continuity'')])"

definition migrated_selection :: "selection \<Rightarrow> selection" where
  "migrated_selection s = s\<lparr>sel_WorkspaceReuseEligible := sel_ReuseEligible s\<rparr>"

definition migrate_grant :: "env \<Rightarrow> registry \<Rightarrow> string \<Rightarrow> task_grant \<Rightarrow> err + task_grant" where
  "migrate_grant e st i g =
    (if g_WorkspaceCompatibilityDigest g \<noteq> [] \<or> claims_workspace_reuse (g_Selection g) \<or>
        claims_workspace_reuse (g_BackendSelection g)
     then Inl (ErrInvalid ''previous workspace reuse authority'')
     else
       bind_res (case g_Compatibility g of
           None \<Rightarrow> Inr (g_WorkspaceCompatibilityDigest g)
         | Some k \<Rightarrow>
             (if Compatibility_Digest e k \<noteq> Inr (g_CompatibilityDigest g)
              then Inl (ErrInvalid ''previous full compatibility'') else WorkspaceDigest e k)) (\<lambda>workspaceDigest.
       bind_res (first_failure (previous_selection_checks e g)) (\<lambda>_.
         if g_WorkerSessionID g \<noteq> [] \<and>
            (g_CompatibilityDigest g \<noteq> b_CompatibilityDigest (get_storage st (g_StorageID g)) \<or>
             g_CompatibilityDigest g \<noteq> ws_CompatibilityDigest (get_session st (g_WorkerSessionID g)))
         then Inl (ErrInvalid ''previous session compatibility'')
         else Inr (g\<lparr>g_WorkspaceCompatibilityDigest := workspaceDigest,
                     g_Selection := map_option migrated_selection (g_Selection g),
                     g_BackendSelection := map_option migrated_selection (g_BackendSelection g)\<rparr>))))"

definition migrate_storage :: "registry \<Rightarrow> string \<Rightarrow> storage \<Rightarrow> err + storage" where
  "migrate_storage st i b =
    (if b_WorkspaceCompatibilityDigest b \<noteq> [] then Inl (ErrInvalid ''previous workspace compatibility'')
     else
       bind_res (if b_Conversation b = zero_conversation_key then Inr b
         else case grant_of st (src_AttemptID (b_LatestWriter b)) of
           None \<Rightarrow> Inl (ErrInvalid ''previous storage compatibility'')
         | Some w \<Rightarrow>
             (if g_StorageID w \<noteq> i \<or> g_CompatibilityDigest w \<noteq> b_CompatibilityDigest b \<or>
                 \<not> fingerprint (g_WorkspaceCompatibilityDigest w)
              then Inl (ErrInvalid ''previous storage compatibility'')
              else Inr (b\<lparr>b_WorkspaceCompatibilityDigest := g_WorkspaceCompatibilityDigest w\<rparr>))) (\<lambda>b1.
       case b_Checkpoint b1 of
         None \<Rightarrow> Inr b1
       | Some cp \<Rightarrow>
           (let g = get_grant st (src_AttemptID (cp_Source cp)) in
            if cp_WorkspaceCompatibilityDigest cp \<noteq> [] \<or> cp_CompatibilityDigest cp \<noteq> b_CompatibilityDigest b1 \<or>
               \<not> session_eligible g \<or> \<not> nativeCheckpointOutcome g (get_terminal st (g_AttemptID g))
            then Inl (ErrInvalid ''previous checkpoint compatibility'')
            else Inr (b1\<lparr>b_Checkpoint :=
              Some (cp\<lparr>cp_WorkspaceCompatibilityDigest := b_WorkspaceCompatibilityDigest b1\<rparr>)\<rparr>))))"

definition migrate_session :: "env \<Rightarrow> registry \<Rightarrow> string \<Rightarrow> worker_session \<Rightarrow> err + worker_session" where
  "migrate_session e st i ws =
    (let b = get_storage st (ws_StorageID ws); k = ws_Conversation ws in
     if ws_WorkspaceCompatibilityDigest ws \<noteq> [] \<or> ws_CompatibilityDigest ws \<noteq> b_CompatibilityDigest b \<or>
        ws_State ws = SessionIdle \<and> (b_Checkpoint b = None \<or> ck_Kind k = ConversationTask)
     then Inl (ErrInvalid ''previous resident compatibility'')
     else if \<not> canonicalUUID e i \<or> ws_PodName ws \<noteq> kind_prefix k @ pod_suffix e i k
     then Inl (ErrInvalid ''previous resident Pod identity'')
     else Inr (ws\<lparr>ws_WorkspaceCompatibilityDigest := b_WorkspaceCompatibilityDigest b\<rparr>))"

definition migrateWorkspaceCompatibility :: "env \<Rightarrow> registry \<Rightarrow> err + registry" where
  "migrateWorkspaceCompatibility e st =
    bind_res (each_map (migrate_grant e st) (r_Grants st)) (\<lambda>gs.
    (let st1 = st\<lparr>r_Grants := gs\<rparr> in
     bind_res (each_map (migrate_storage st1) (r_Storages st1)) (\<lambda>bs.
     (let st2 = st1\<lparr>r_Storages := bs\<rparr> in
      bind_res (each_map (migrate_session e st2) (r_Sessions st2)) (\<lambda>wss.
        Inr (st2\<lparr>r_Sessions := wss\<rparr>))))))"

section \<open>Authority an old schema did not have\<close>

definition prepared_anchored :: "prepared option \<Rightarrow> bool" where
  "prepared_anchored p = given p (\<lambda>q. p_Conversation q \<noteq> None \<or> p_WorkspaceAnchorTaskID q \<noteq> [])"

definition previous_turn_authority :: "task_grant \<Rightarrow> bool" where
  "previous_turn_authority g = (g_Legacy g \<or> g_WorkerSessionID g \<noteq> [] \<or> session_fields_set g)"

definition previous_storage_authority :: "storage \<Rightarrow> bool" where
  "previous_storage_authority b =
    (b_Conversation b \<noteq> zero_conversation_key \<or> b_WorkspaceAnchorTaskID b \<noteq> [] \<or> b_CompatibilityDigest b \<noteq> [] \<or>
     b_WorkspaceCompatibilityDigest b \<noteq> [] \<or> b_WriterSessionID b \<noteq> [] \<or> b_LatestWriter b \<noteq> no_source \<or>
     b_Checkpoint b \<noteq> None \<or> b_RetiredSessions b \<noteq> [])"

definition schema13_checks :: "registry \<Rightarrow> (bool \<times> string) list" where
  "schema13_checks st =
    [(r_Sessions st \<noteq> [] \<or> r_Conversations st \<noteq> [], ''previous conversation authority'')] @
    concat (map (\<lambda>g. [(previous_turn_authority g, ''previous turn authority''),
      (prepared_anchored (g_Prepared g), ''previous native anchor authority'')]) (mvals (r_Grants st))) @
    concat (map (\<lambda>b. [(previous_storage_authority b, ''previous conversation storage''),
      (prepared_anchored (b_Prepared b), ''previous retained anchor authority'')]) (mvals (r_Storages st)))"

definition schema11_checks :: "registry \<Rightarrow> (bool \<times> string) list" where
  "schema11_checks st =
    map (\<lambda>t. (t_ResultReceipt t \<noteq> None, ''previous provider result authority'')) (mvals (r_Terminals st))"

definition schema10_grant :: "registry \<Rightarrow> string \<Rightarrow> task_grant \<Rightarrow> err + task_grant" where
  "schema10_grant st i g =
    (if g_StartConfirmed g \<or> t_RecoveryFailure (get_terminal st i) \<noteq> None
     then Inl (ErrInvalid ''previous result recovery authority'')
     else Inr (g\<lparr>g_StartConfirmed := (g_State g = Started)\<rparr>))"

definition schema9_checks :: "registry \<Rightarrow> (bool \<times> string) list" where
  "schema9_checks st =
    map (\<lambda>g. (g_CheckoutClosed g \<or> g_CheckoutNeedsFlush g \<or> g_CheckoutProcess g \<noteq> None,
      ''previous checkout authority'')) (mvals (r_Grants st))"

definition schema6_checks :: "registry \<Rightarrow> (bool \<times> string) list" where
  "schema6_checks st =
    map (\<lambda>g. (g_Stop g \<noteq> None \<or> g_StopKey g \<noteq> [], ''schema 6 stop authority'')) (mvals (r_Grants st)) @
    map (\<lambda>b. (b_Dirty b, ''schema 6 data safety'')) (mvals (r_Storages st))"

definition root_ok_before :: "env \<Rightarrow> int \<Rightarrow> storage \<Rightarrow> bool" where
  "root_ok_before e schema b =
    (case TaskRoot e ''/workspace'' (b_WorkspaceID b) (b_TaskID b) [] [] of
       Inl _ \<Rightarrow> False
     | Inr root \<Rightarrow>
         path_dir root = path_dir (b_TaskRoot b) \<and> \<not> (schema < 8 \<and> root \<noteq> b_TaskRoot b))"

text \<open>Stopping the live sessions of an older journal: every iteration reads the clock and
  draws fresh nonces.\<close>

fun drain_sessions :: "(nat \<Rightarrow> call) \<Rightarrow> nat \<Rightarrow> string list \<Rightarrow> registry \<Rightarrow> registry" where
  "drain_sessions cs n [] st = st"
| "drain_sessions cs n (i # is) st =
    (let ws = get_session st i in
     if ws_State ws = SessionClosed then drain_sessions cs (Suc n) is st
     else
       (let (st1, ws1) = requestSessionStop (cs n) ''session_protocol_upgrade'' (c_now (cs n)) st ws
        in drain_sessions cs (Suc n) is (put_session i ws1 st1)))"

definition upgraded :: "env \<Rightarrow> registry \<Rightarrow> err + registry" where
  "upgraded e st =
    (let v = r_SchemaVersion st in
     bind_res (if v \<le> 13 then first_failure (schema13_checks st) else Inr ()) (\<lambda>_.
     bind_res (if v = 14 then migrateWorkspaceCompatibility e st else Inr st) (\<lambda>st1.
     bind_res (if v < schema_version then restoreHistoricalSessionProtocol st1 else Inr st1) (\<lambda>st2.
     bind_res (if v < 12 then first_failure (schema11_checks st2) else Inr ()) (\<lambda>_.
     bind_res (if v < 11 then map_sum (\<lambda>x. x) (\<lambda>gs. st2\<lparr>r_Grants := gs\<rparr>)
                 (each_map (schema10_grant st2) (r_Grants st2)) else Inr st2) (\<lambda>st3.
     bind_res (if v < 10 then first_failure (schema9_checks st3) else Inr ()) (\<lambda>_.
     bind_res (if v = 6 then first_failure (schema6_checks st3) else Inr ()) (\<lambda>_. Inr st3))))))))"

definition read_journal :: "env \<Rightarrow> (nat \<Rightarrow> call) \<Rightarrow> registry \<Rightarrow> err + registry" where
  "read_journal e cs doc =
    (let v = r_SchemaVersion doc in
     if v \<noteq> schema_version \<and> \<not> (6 \<le> v \<and> v \<le> 15) then Inl (ErrText ''unsupported journal schema'')
     else bind_res (upgraded e doc) (\<lambda>st.
       if v = schema_version then bind_res (validate_registry e st) (\<lambda>_. Inr st)
       else if v < 9 \<and> \<not> list_all (root_ok_before e v) (mvals (r_Storages st))
       then Inl (ErrInvalid ''previous task root'')
       else bind_res (validateRegistry e (st\<lparr>r_SchemaVersion := schema_version\<rparr>) True) (\<lambda>_.
         (let st1 = drain_sessions cs 0 (map fst (r_Sessions st)) st in
          Inr (if v \<le> 13 then st1\<lparr>r_Grants := map (\<lambda>(i, g). (i, g\<lparr>g_Legacy := True\<rparr>)) (r_Grants st1)\<rparr>
               else st1)))))"

end
