(* ===== verification/Store.thy ===== *)
theory Store
  imports Migration
begin

text \<open>
  The store (\<^verbatim>\<open>store.go\<close>): the journal on disk, the committed copy in memory, the
  transaction that moves from one to the next, opening and closing.

  What the file system does is an \<open>io\<close> value: whether \<^verbatim>\<open>journal.json\<close> is still the file
  the store wrote (before and after a publication), the bytes already in the directory, what
  became of an atomic write, and the length the encoder gives the candidate (\<open>None\<close> when it
  fails).  \<^verbatim>\<open>ErrText\<close> stands for the operating system's errors.
\<close>

section \<open>The store and its surroundings\<close>

datatype publication =
    Published | NotPublished | PublicationUnknown

record io =
  io_intact :: bool
  io_entries :: "int list option"
  io_publication :: publication
  io_intact_after :: bool
  io_encoded :: "registry \<Rightarrow> int option"

record store =
  s_lock :: bool
  s_failed :: bool
  s_committed :: registry
  s_disk :: registry
  s_challenges :: challenges

definition closed_error :: err where "closed_error = ErrText ''controller store is closed''"
definition failed_error :: err where
  "failed_error = ErrText ''controller store publication failed; reconciliation requires restart''"
definition unavailable_error :: err where "unavailable_error = ErrText ''controller store is unavailable''"
definition changed_error :: err where "changed_error = ErrText ''controller journal changed outside its owner''"
definition system_error :: err where "system_error = ErrText ''''"

definition checkJournal :: "bool \<Rightarrow> store \<Rightarrow> store \<times> (err + unit)" where
  "checkJournal intact s = (if intact then (s, Inr ()) else (s\<lparr>s_failed := True\<rparr>, Inl changed_error))"

section \<open>Publication\<close>

text \<open>\<^verbatim>\<open>checkBudget\<close> adds the new copy to what the directory holds.\<close>

definition checkBudget :: "env \<Rightarrow> io \<Rightarrow> int \<Rightarrow> err + unit" where
  "checkBudget e io publication =
    (case io_entries io of
       None \<Rightarrow> Inl system_error
     | Some sizes \<Rightarrow>
         (if list_ex (\<lambda>n. publication + sum_list (take (Suc n) sizes) > o_MaxStoreBytes e) [0..<length sizes]
          then Inl ErrAdmissionBudget else Inr ()))"

definition write_bytes :: "env \<Rightarrow> io \<Rightarrow> registry \<Rightarrow> err + unit" where
  "write_bytes e io st =
    (case io_encoded io st of
       None \<Rightarrow> Inl system_error
     | Some n \<Rightarrow> (if n > o_MaxStoreBytes e then Inl ErrAdmissionBudget else checkBudget e io n))"

definition write_store :: "env \<Rightarrow> io \<Rightarrow> registry \<Rightarrow> store \<Rightarrow> store \<times> (err + unit)" where
  "write_store e io st s =
    (case bind_res (validate_registry e st) (\<lambda>_. write_bytes e io st) of
       Inl x \<Rightarrow> (s, Inl x)
     | Inr _ \<Rightarrow>
         (case io_publication io of
            NotPublished \<Rightarrow> (s\<lparr>s_failed := True\<rparr>, Inl system_error)
          | PublicationUnknown \<Rightarrow> (s\<lparr>s_failed := True, s_disk := st\<rparr>, Inl system_error)
          | Published \<Rightarrow>
              (case checkJournal (io_intact_after io) (s\<lparr>s_disk := st\<rparr>) of
                 (s1, Inl x) \<Rightarrow> (s1, Inl x)
               | (s1, Inr _) \<Rightarrow> (s1\<lparr>s_committed := st\<rparr>, Inr ()))))"

section \<open>Transactions\<close>

definition transaction ::
  "env \<Rightarrow> io \<Rightarrow> (registry \<Rightarrow> err + (registry \<times> 'a)) \<Rightarrow> store \<Rightarrow> store \<times> (err + 'a)" where
  "transaction e io fn s =
    (if \<not> s_lock s then (s, Inl closed_error)
     else if s_failed s then (s, Inl failed_error)
     else case checkJournal (io_intact io) s of
       (s1, Inl x) \<Rightarrow> (s1, Inl x)
     | (s1, Inr _) \<Rightarrow>
         (case fn (s_committed s1) of
            Inl x \<Rightarrow> (s1, Inl x)
          | Inr (st, a) \<Rightarrow>
              (if st = s_committed s1 then (s1, Inr a)
               else case write_store e io st s1 of
                 (s2, Inl x) \<Rightarrow> (s2, Inl x)
               | (s2, Inr _) \<Rightarrow> (s2, Inr a))))"

text \<open>An operation that commits a change and still reports an error.\<close>

definition deferred ::
  "env \<Rightarrow> io \<Rightarrow> (registry \<Rightarrow> err + (registry \<times> (err + 'a))) \<Rightarrow> store \<Rightarrow> store \<times> (err + 'a)" where
  "deferred e io fn s =
    (case transaction e io fn s of
       (s1, Inl x) \<Rightarrow> (s1, Inl x)
     | (s1, Inr r) \<Rightarrow> (s1, r))"

definition snapshot :: "io \<Rightarrow> store \<Rightarrow> store \<times> (err + registry)" where
  "snapshot io s =
    (if \<not> s_lock s \<or> s_failed s then (s, Inl unavailable_error)
     else case checkJournal (io_intact io) s of
       (s1, Inl x) \<Rightarrow> (s1, Inl x)
     | (s1, Inr _) \<Rightarrow> (s1, Inr (s_committed s1)))"

definition reading :: "io \<Rightarrow> (registry \<Rightarrow> err + 'a) \<Rightarrow> store \<Rightarrow> store \<times> (err + 'a)" where
  "reading io fn s =
    (case snapshot io s of
       (s1, Inl x) \<Rightarrow> (s1, Inl x)
     | (s1, Inr st) \<Rightarrow> (s1, fn st))"

text \<open>\<^verbatim>\<open>ReserveTurn\<close> forgets the control challenges of its session, also when the
  publication then fails.\<close>

definition reserve_turn_store ::
  "env \<Rightarrow> io \<Rightarrow> call \<Rightarrow> string \<Rightarrow> selection \<Rightarrow> string \<Rightarrow> int \<Rightarrow> int \<Rightarrow> store \<Rightarrow>
   store \<times> (err + (task_grant \<times> worker_session))" where
  "reserve_turn_store e io c i sel compatDigest retention limit s =
    (let fn = ReserveTurn e c i sel compatDigest retention limit;
         reserved = (if s_lock s \<and> \<not> s_failed s \<and> io_intact io then
                       (case fn (s_committed s) of
                          Inr (st, Inr (g, ws)) \<Rightarrow> (if st \<noteq> s_committed s then Some (ws_ID ws) else None)
                        | _ \<Rightarrow> None)
                     else None);
         (s1, r) = deferred e io fn s
     in (case reserved of
           None \<Rightarrow> s1
         | Some w \<Rightarrow> s1\<lparr>s_challenges := AList.delete w (s_challenges s1)\<rparr>, r))"

text \<open>\<^verbatim>\<open>CreateSessionChallenge\<close> reads the committed session without a transaction and publishes
  only the stop of an expired one; its challenge is kept in memory alone.\<close>

definition create_challenge_store ::
  "env \<Rightarrow> io \<Rightarrow> call \<Rightarrow> string \<Rightarrow> string \<Rightarrow> string \<Rightarrow> string \<Rightarrow> store \<Rightarrow> store \<times> (err + session_challenge)" where
  "create_challenge_store e io c i token op bodyDigest s =
    (if \<not> s_lock s \<or> s_failed s then (s, Inl ErrUnauthorized)
     else case checkJournal (io_intact io) s of
       (s1, Inl _) \<Rightarrow> (s1, Inl ErrUnauthorized)
     | (s1, Inr _) \<Rightarrow>
         (case CreateSessionChallenge c (s_challenges s1) i token op bodyDigest (s_committed s1) of
            Inl x \<Rightarrow> (s1, Inl x)
          | Inr (st, chs, ch) \<Rightarrow>
              (if st = s_committed s1 then (s1\<lparr>s_challenges := chs\<rparr>, Inr ch)
               else case write_store e io st s1 of
                 (s2, Inl x) \<Rightarrow> (s2, Inl x)
               | (s2, Inr _) \<Rightarrow> (s2\<lparr>s_challenges := chs\<rparr>, Inr ch))))"

section \<open>Opening\<close>

text \<open>What a restart does to deliveries that were under way: nobody knows whether they
  arrived.\<close>

definition restart_terminal :: "terminal \<Rightarrow> terminal" where
  "restart_terminal t =
    (let t1 = (if t_State t = DForwarding then t\<lparr>t_State := DUncertain\<rparr> else t) in
     case t_RecoveryFailure t1 of
       None \<Rightarrow> t1
     | Some rf \<Rightarrow>
         (if rf_State rf = DForwarding then t1\<lparr>t_RecoveryFailure := Some (rf\<lparr>rf_State := DUncertain\<rparr>)\<rparr> else t1))"

definition restart_event :: "event \<Rightarrow> event" where
  "restart_event ev = (if e_State ev = EvForwarding then ev\<lparr>e_State := EvUncertain\<rparr> else ev)"

definition restart_grant :: "task_grant \<Rightarrow> task_grant" where
  "restart_grant g = g\<lparr>g_Events := map restart_event (g_Events g)\<rparr>"

definition restarted :: "registry \<Rightarrow> registry" where
  "restarted st =
    st\<lparr>r_Terminals := map (\<lambda>(i, t). (i, restart_terminal t)) (r_Terminals st),
       r_Grants := map (\<lambda>(i, g). (i, restart_grant g)) (r_Grants st)\<rparr>"

definition empty_registry :: "env \<Rightarrow> registry" where
  "empty_registry e =
    \<lparr>r_SchemaVersion = schema_version, r_OwnerID = o_OwnerID e, r_Grants = [], r_Storages = [], r_NFSServer = [],
     r_WorkspaceClaim = [], r_WorkspaceUID = [], r_Terminals = [], r_Capabilities = [], r_Conversations = [],
     r_Sessions = []\<rparr>"

text \<open>The default budgets, and the options \<^verbatim>\<open>Open\<close> accepts.\<close>

definition with_defaults :: "env \<Rightarrow> env" where
  "with_defaults e =
    e\<lparr>o_MaxTasks := (if o_MaxTasks e = 0 then 10000 else o_MaxTasks e),
      o_MaxPendingResults := (if o_MaxPendingResults e = 0 then 1000 else o_MaxPendingResults e),
      o_MaxPendingResultBytes := (if o_MaxPendingResultBytes e = 0 then 32 * 2 ^ 20 else o_MaxPendingResultBytes e),
      o_MaxRecordBytes := (if o_MaxRecordBytes e = 0 then 8 * 2 ^ 20 else o_MaxRecordBytes e),
      o_MaxStoreBytes := (if o_MaxStoreBytes e = 0 then 64 * 2 ^ 20 else o_MaxStoreBytes e)\<rparr>"

definition options_ok :: "env \<Rightarrow> string \<Rightarrow> err + env" where
  "options_ok e0 dir =
    (let e = with_defaults e0 in
     if \<not> is_abs dir \<or> clean_path dir \<noteq> dir \<or> \<not> canonicalUUID e (o_OwnerID e)
     then Inl (ErrText ''controller store requires canonical directory and owner UUID'')
     else if o_MaxTasks e < 1 \<or> o_MaxPendingResults e < 1 \<or> o_MaxPendingResultBytes e < 1
     then Inl (ErrText ''invalid admission budget'')
     else if o_MaxRecordBytes e < 1 \<or> o_MaxStoreBytes e < o_MaxRecordBytes e
     then Inl (ErrText ''invalid controller storage budget'')
     else Inr e)"

text \<open>The directory's entries: only the journal, the lock, the private preparation directory and
  unpublished temporary files may be there.\<close>

datatype entry_type = RegularFile | Directory bool | OtherFile

definition classify_entry :: "string \<times> entry_type \<Rightarrow> err + bool" where
  "classify_entry entry =
    (case entry of
       (name, Directory private) \<Rightarrow>
         (if name = ''preparation'' then
            (if private then Inr False else Inl (ErrText ''controller preparation directory must remain private''))
          else Inl (ErrText ''populated metadata is not a current controller journal; use fresh storage''))
     | (name, RegularFile) \<Rightarrow>
         (if name = ''journal.json'' then Inr True
          else if name = ''controller.lock'' \<or> prefix ''.pending-'' name \<and> length name > 9 then Inr False
          else Inl (ErrText ''populated metadata is not a current controller journal; use fresh storage''))
     | (name, OtherFile) \<Rightarrow>
         Inl (ErrText ''populated metadata is not a current controller journal; use fresh storage''))"

fun journal_exists :: "(string \<times> entry_type) list \<Rightarrow> err + bool" where
  "journal_exists [] = Inr False"
| "journal_exists (en # ens) =
    bind_res (classify_entry en) (\<lambda>b. bind_res (journal_exists ens) (\<lambda>r. Inr (b \<or> r)))"

definition opened :: "registry \<Rightarrow> store" where
  "opened disk = \<lparr>s_lock = True, s_failed = False, s_committed = disk, s_disk = disk, s_challenges = []\<rparr>"

text \<open>Opening with the lock held: \<open>disk\<close> is the decoded journal when the file exists.  An
  opening that fails closes the store.  When nothing changes, \<open>io_publication\<close> is the outcome of
  syncing the directory.\<close>

definition Open_store ::
  "env \<Rightarrow> io \<Rightarrow> (nat \<Rightarrow> call) \<Rightarrow> (string \<times> entry_type) list \<Rightarrow> registry \<Rightarrow> err + store" where
  "Open_store e io cs entries disk =
    bind_res (journal_exists entries) (\<lambda>ex.
      if \<not> ex then
        (if length entries > 1 then Inl (ErrText ''unpublished metadata requires operator recovery'')
         else case write_store e io (empty_registry e) (opened (empty_registry e)) of
           (_, Inl x) \<Rightarrow> Inl x
         | (s, Inr _) \<Rightarrow> Inr s)
      else
        bind_res (read_journal e cs disk) (\<lambda>st.
          (let st1 = restarted (st\<lparr>r_SchemaVersion := schema_version\<rparr>) in
           if r_SchemaVersion st \<noteq> schema_version \<or> st1 \<noteq> st then
             (if \<not> io_intact io then Inl changed_error
              else case write_store e io st1 (opened disk) of
                (_, Inl x) \<Rightarrow> Inl x
              | (s, Inr _) \<Rightarrow> Inr s)
           else if io_publication io \<noteq> Published then Inl system_error
           else if \<not> io_intact io then Inl changed_error
           else Inr (opened st))))"

definition zero_registry :: registry where
  "zero_registry =
    \<lparr>r_SchemaVersion = 0, r_OwnerID = [], r_Grants = [], r_Storages = [], r_NFSServer = [], r_WorkspaceClaim = [],
     r_WorkspaceUID = [], r_Terminals = [], r_Capabilities = [], r_Conversations = [], r_Sessions = []\<rparr>"

definition Close_store :: "store \<Rightarrow> store" where
  "Close_store s =
    (if \<not> s_lock s then s else s\<lparr>s_lock := False, s_committed := zero_registry, s_challenges := []\<rparr>)"

end
