(* ===== verification/Wellformed.thy ===== *)
theory Wellformed
  imports Store
begin

text \<open>
  What a journal that passes \<^verbatim>\<open>validateRegistry\<close> satisfies, in the form the proofs use:
  every record is stored under its own identity, an active turn is a grant of its session,
  and the consistency of each record on its own.
\<close>

section \<open>Frames of the updates\<close>

lemma put_other [simp, frame]:
  "grant_of (put_storage i b st) = grant_of st" "grant_of (put_terminal i t st) = grant_of st"
  "grant_of (put_session i w st) = grant_of st" "grant_of (put_conversation i v st) = grant_of st"
  "grant_of (put_capabilities m st) = grant_of st"
  "storage_of (put_grant i g st) = storage_of st" "storage_of (put_terminal i t st) = storage_of st"
  "storage_of (put_session i w st) = storage_of st" "storage_of (put_conversation i v st) = storage_of st"
  "storage_of (put_capabilities m st) = storage_of st"
  "session_of (put_grant i g st) = session_of st" "session_of (put_storage i b st) = session_of st"
  "session_of (put_terminal i t st) = session_of st" "session_of (put_conversation i v st) = session_of st"
  "session_of (put_capabilities m st) = session_of st"
  "terminal_of (put_grant i g st) = terminal_of st" "terminal_of (put_storage i b st) = terminal_of st"
  "terminal_of (put_session i w st) = terminal_of st" "terminal_of (put_conversation i v st) = terminal_of st"
  "terminal_of (put_capabilities m st) = terminal_of st"
  by (simp_all add: fun_eq_iff grant_of_def storage_of_def session_of_def terminal_of_def put_grant_def
      put_storage_def put_session_def put_terminal_def put_conversation_def put_capabilities_def)

lemma put_same [simp, frame]:
  "grant_of (put_grant i g st) = (grant_of st)(i \<mapsto> g)"
  "storage_of (put_storage i b st) = (storage_of st)(i \<mapsto> b)"
  "session_of (put_session i w st) = (session_of st)(i \<mapsto> w)"
  "terminal_of (put_terminal i t st) = (terminal_of st)(i \<mapsto> t)"
  by (simp_all add: fun_eq_iff grant_of_def storage_of_def session_of_def terminal_of_def put_grant_def
      put_storage_def put_session_def put_terminal_def)

lemma get_by_lookup:
  "get_grant st i = (case grant_of st i of None \<Rightarrow> zero_grant | Some g \<Rightarrow> g)"
  "get_storage st i = (case storage_of st i of None \<Rightarrow> zero_storage | Some b \<Rightarrow> b)"
  "get_session st i = (case session_of st i of None \<Rightarrow> zero_session | Some w \<Rightarrow> w)"
  "get_terminal st i = (case terminal_of st i of None \<Rightarrow> zero_terminal | Some t \<Rightarrow> t)"
  by (simp_all add: get_grant_def get_storage_def get_session_def get_terminal_def grant_of_def storage_of_def
      session_of_def terminal_of_def mget_def)

section \<open>Validated journals\<close>

definition validated :: "env \<Rightarrow> registry \<Rightarrow> bool" where
  "validated e st \<longleftrightarrow> validate_registry e st = Inr ()"

lemma map_of_mem: "map_of m k = Some v \<Longrightarrow> (k, v) \<in> set m"
  by (rule map_of_SomeD)

lemma validated_parts:
  assumes "validated e st"
  shows "each_ok (validate_grant e st) (r_Grants st) = Inr ()"
    "storages_ok e st [] (r_Storages st) = Inr ()"
    "each_ok (validate_capability e st) (r_Capabilities st) = Inr ()"
    "each_ok (validate_terminal e st) (r_Terminals st) = Inr ()"
    "each_ok (validate_conversation e st) (r_Conversations st) = Inr ()"
    "sessions_ok e st False [] [] (r_Sessions st) = Inr ()"
  using assms
  by (auto simp: validated_def validate_registry_def validateRegistry_def validateConversations_def bind_res_eq_Inr)

lemma validated_grant:
  "validated e st \<Longrightarrow> grant_of st i = Some g \<Longrightarrow> validate_grant e st (i, g) = Inr ()"
  by (auto simp: grant_of_def each_ok_Inr dest!: validated_parts(1) map_of_mem)

lemma validated_terminal:
  "validated e st \<Longrightarrow> terminal_of st i = Some t \<Longrightarrow> validate_terminal e st (i, t) = Inr ()"
  by (auto simp: terminal_of_def each_ok_Inr dest!: validated_parts(4) map_of_mem)

definition session_checks :: "env \<Rightarrow> registry \<Rightarrow> string \<Rightarrow> worker_session \<Rightarrow> (bool \<times> string) list" where
  "session_checks e st i ws =
    (let b = get_storage st (ws_StorageID ws) in
     [(storage_of st (ws_StorageID ws) = None \<or> \<not> session_identity_ok e st i b ws, ''worker session''),
      (ws_ProtocolVersion ws = legacy_protocol \<and> ws_State ws \<noteq> SessionClosed \<and> ws_Stop ws = None,
        ''undrained historical session'')] @
     session_journal_checks e st i b ws @ session_state_checks i b ws @
     (case ws_Stop ws of None \<Rightarrow> [] | Some stop \<Rightarrow> session_stop_checks e st i ws stop))"

lemma sessions_ok_each:
  "sessions_ok e st False names live m = Inr u \<Longrightarrow> (i, ws) \<in> set m \<Longrightarrow>
   list_all (\<lambda>(bad, _). \<not> bad) (session_checks e st i ws)"
  by (induction e st False names live m arbitrary: u rule: sessions_ok.induct)
    (auto simp: Let_def bind_res_eq_Inr first_failure_Inr session_checks_def split: option.splits)

lemma validated_session:
  "validated e st \<Longrightarrow> session_of st i = Some ws \<Longrightarrow> list_all (\<lambda>(bad, _). \<not> bad) (session_checks e st i ws)"
  by (metis map_of_mem session_of_def sessions_ok_each validated_parts(6))

lemma storages_ok_each:
  "storages_ok e st roots m = Inr u \<Longrightarrow> (i, b) \<in> set m \<Longrightarrow>
   storage_identity_ok e st i b \<and> b_TaskRoot b \<notin> set roots \<and>
   (if b_WorkspaceAnchorTaskID b \<noteq> [] then validateConversationStorage e st b = Inr ()
    else first_failure (task_storage_checks e st i b) = Inr ())"
proof (induction e st roots m arbitrary: u rule: storages_ok.induct)
  case (2 e st roots j c m)
  then show ?case
    by (auto simp: bind_res_eq_Inr first_failure_Inr split: if_splits)
qed simp

lemma validated_storage:
  "validated e st \<Longrightarrow> storage_of st i = Some b \<Longrightarrow>
   storage_identity_ok e st i b \<and>
   (if b_WorkspaceAnchorTaskID b \<noteq> [] then validateConversationStorage e st b = Inr ()
    else first_failure (task_storage_checks e st i b) = Inr ())"
  by (metis map_of_mem storage_of_def storages_ok_each validated_parts(2))

section \<open>Identities\<close>

lemma validated_grant_identity:
  assumes "validated e st" "grant_of st i = Some g"
  shows "grant_identity_ok e st i g" "list_all (\<lambda>(bad, _). \<not> bad) (grant_checks e st i g)"
  using validated_grant [OF assms]
  by (auto simp: validate_grant_def bind_res_eq_Inr first_failure_Inr grant_checks_def)

lemma grant_key: "validated e st \<Longrightarrow> grant_of st i = Some g \<Longrightarrow> g_AttemptID g = i"
  by (auto dest!: validated_grant_identity(1) simp: grant_identity_ok_def)

lemma storage_key: "validated e st \<Longrightarrow> storage_of st i = Some b \<Longrightarrow> b_ID b = i"
  by (auto dest!: validated_storage simp: storage_identity_ok_def)

lemma session_key: "validated e st \<Longrightarrow> session_of st i = Some ws \<Longrightarrow> ws_ID ws = i"
  by (auto dest!: validated_session simp: session_checks_def session_identity_ok_def Let_def)

lemma session_active:
  assumes "validated e st" "session_of st i = Some ws" "ws_ActiveAttempt ws \<noteq> []"
  obtains g where "grant_of st (ws_ActiveAttempt ws) = Some g" "g_AttemptID g = ws_ActiveAttempt ws"
    "g_WorkerSessionID g = i" "g_TurnSequence g = ws_TurnSequence ws" "\<not> g_TurnComplete g"
proof -
  from validated_session [OF assms(1,2)] assms(3) obtain g where
    "grant_of st (ws_ActiveAttempt ws) = Some g" "g_WorkerSessionID g = i" "g_TurnSequence g = ws_TurnSequence ws"
    "\<not> g_TurnComplete g"
    by (auto simp: session_checks_def session_journal_checks_def Let_def given_def split: option.splits)
  with grant_key [OF assms(1)] that show thesis
    by auto
qed

text \<open>A session that is stored, or the zero session of a missing one, may be told to stop.\<close>

definition active_known :: "registry \<Rightarrow> worker_session \<Rightarrow> bool" where
  "active_known st ws \<longleftrightarrow>
    ws_ActiveAttempt ws = [] \<or>
    (\<exists>g. grant_of st (ws_ActiveAttempt ws) = Some g \<and> g_AttemptID g = ws_ActiveAttempt ws)"

lemma active_known_zero [simp]: "active_known st zero_session"
  by (simp add: active_known_def zero_session_def)

lemma active_known_session: "validated e st \<Longrightarrow> session_of st i = Some ws \<Longrightarrow> active_known st ws"
  by (metis active_known_def session_active)

lemma active_known_get: "validated e st \<Longrightarrow> active_known st (get_session st i)"
  by (auto simp: get_by_lookup split: option.splits intro: active_known_session)

section \<open>Keys are not empty\<close>

text \<open>The association lists that stand for Go maps have each key once.\<close>

definition maps_ok :: "registry \<Rightarrow> bool" where
  "maps_ok st \<longleftrightarrow>
    distinct_keys (r_Grants st) \<and> distinct_keys (r_Storages st) \<and> distinct_keys (r_Terminals st) \<and>
    distinct_keys (r_Capabilities st) \<and> distinct_keys (r_Conversations st) \<and> distinct_keys (r_Sessions st)"

lemma maps_ok_put [simp]:
  "maps_ok (put_grant i g st) = maps_ok st" "maps_ok (put_storage i b st) = maps_ok st"
  "maps_ok (put_terminal i t st) = maps_ok st" "maps_ok (put_session i w st) = maps_ok st"
  "maps_ok (put_conversation i v st) = maps_ok st"
  "maps_ok (put_capabilities (AList.update k cap (r_Capabilities st)) st) = maps_ok st"
  "maps_ok (bind_capabilities i uid st) = maps_ok st"
  by (simp_all add: maps_ok_def put_grant_def put_storage_def put_terminal_def put_session_def put_conversation_def
      put_capabilities_def bind_capabilities_def)

definition sound :: "env \<Rightarrow> registry \<Rightarrow> bool" where
  "sound e st \<longleftrightarrow> uuid_laws e \<and> maps_ok st \<and> validated e st"

lemma canonical_nonempty: "uuid_laws e \<Longrightarrow> canonicalUUID e v \<Longrightarrow> v \<noteq> []"
  by (auto simp: canonicalUUID_def uuid_laws_def uuid_text_def split: option.splits)

lemma grant_key_nonempty: "sound e st \<Longrightarrow> grant_of st i = Some g \<Longrightarrow> i \<noteq> []"
  by (auto simp: sound_def grant_identity_ok_def dest!: validated_grant_identity(1) canonical_nonempty)

lemma validated_session_canonical: "validated e st \<Longrightarrow> session_of st i = Some ws \<Longrightarrow> canonicalUUID e i"
  by (auto simp: session_checks_def session_identity_ok_def Let_def dest!: validated_session)

lemma session_key_nonempty: "sound e st \<Longrightarrow> session_of st i = Some ws \<Longrightarrow> i \<noteq> []"
  unfolding sound_def using validated_session_canonical canonical_nonempty by blast

lemma no_empty_session [simp]: "sound e st \<Longrightarrow> session_of st [] = None"
  using session_key_nonempty by (cases "session_of st []") blast+

lemma sound_key [simp]:
  "sound e st \<Longrightarrow> grant_of st i = Some g \<Longrightarrow> g_AttemptID g = i"
  "sound e st \<Longrightarrow> session_of st i = Some ws \<Longrightarrow> ws_ID ws = i"
  "sound e st \<Longrightarrow> storage_of st i = Some b \<Longrightarrow> b_ID b = i"
  by (auto simp: sound_def intro: grant_key session_key storage_key)

lemma sound_active_known [simp]: "sound e st \<Longrightarrow> active_known st (get_session st i)"
  unfolding sound_def using active_known_get by blast

lemma sound_active_known_of: "sound e st \<Longrightarrow> session_of st i = Some ws \<Longrightarrow> active_known st ws"
  by (auto simp: sound_def intro: active_known_session)

section \<open>Sessions and their turns\<close>

lemma closed_session:
  assumes "validated e st" "session_of st i = Some ws" "ws_State ws = SessionClosed"
  shows "ws_ActiveAttempt ws = []" "ws_Stop ws \<noteq> None"
  using validated_session [OF assms(1,2)] assms(3)
  by (auto simp: session_checks_def session_state_checks_def Let_def session_evidence_def split: option.splits)

lemma idle_session:
  assumes "validated e st" "session_of st i = Some ws" "ws_State ws = SessionIdle"
  shows "ws_ActiveAttempt ws = []" "ws_Stop ws = None"
  using validated_session [OF assms(1,2)] assms(3)
  by (auto simp: session_checks_def session_state_checks_def Let_def)

text \<open>A grant of a session that is not closed is the session's active turn.\<close>

lemma live_turn:
  assumes "sound e st" "grant_of st i = Some g" "g_WorkerSessionID g \<noteq> []" "g_State g \<noteq> Closed"
  obtains ws b where "session_of st (g_WorkerSessionID g) = Some ws" "ws_State ws \<noteq> SessionClosed"
    "ws_ActiveAttempt ws = i" "storage_of st (g_StorageID g) = Some b" "b_ActiveAttempt b = i"
    "b_WriterSessionID b = g_WorkerSessionID g"
proof -
  have v: "validated e st"
    using assms(1) by (simp add: sound_def)
  have "g_StorageID g \<noteq> []"
    using validated_grant [OF v assms(2)] assms(3)
    by (auto simp: validate_grant_def validatePendingSessionGrant_def turn_authority_def bind_res_eq_Inr)
  then have "validateSessionGrant e st g = Inr ()"
    using validated_grant [OF v assms(2)] assms(3) by (simp add: validate_grant_def bind_res_eq_Inr)
  then obtain ws b where ws: "session_of st (g_WorkerSessionID g) = Some ws"
    and b: "storage_of st (g_StorageID g) = Some b"
    and ok: "list_all (\<lambda>(bad, _). \<not> bad) (turn_checks e st ws b g)"
    by (auto simp: validateSessionGrant_def first_failure_Inr split: option.splits)
  have st: "list_all (\<lambda>(bad, _). \<not> bad) (turn_state_checks e st ws b g (get_terminal st (g_AttemptID g)))"
    using ok by (simp add: turn_checks_def Let_def)
  then have "\<not> g_TurnComplete g"
    using assms(4) by (auto simp: turn_state_checks_def)
  then have *: "ws_ActiveAttempt ws = i" "b_ActiveAttempt b = i" "b_WriterSessionID b = g_WorkerSessionID g"
    using st assms(1,2) ws by (auto simp: turn_state_checks_def)
  moreover have "ws_State ws \<noteq> SessionClosed"
    using closed_session(1) [OF v ws] * grant_key_nonempty [OF assms(1,2)] by auto
  ultimately show thesis
    using that ws b by blast
qed

end
