(* ===== verification/Histories.thy ===== *)
theory Histories
  imports Wellformed
begin

text \<open>
  The orders in which the journal's records may change.

  \<^item> \<open>grant_le\<close>: identity and scope are fixed, the dispatch state only advances, what was
    revoked, stopped, accepted or completed stays so, and what a turn was given (session,
    storage, selection, assignment, signed receipts) and where it runs (claim, Pod, node, keys)
    is set once.
  \<^item> \<open>terminal_le\<close>: the result itself is fixed, its seal, result receipt and recovery failure
    are set once, and a delivered or rejected result stays that.
  \<^item> \<open>session_le\<close>: identity and binding are fixed, the Pod, the key and the stop record are set
    once, the turn sequence never falls and does not move after a stop, and a closed session
    stays closed.

  \<open>advances\<close> says that every record that is in the journal is still there and changed along its
  order, and that the maps keep their shape.  The locale \<open>history\<close> turns such a relation of single steps into facts on runs.
\<close>

section \<open>Values that are set once\<close>

definition kept :: "'a \<Rightarrow> 'a \<Rightarrow> 'a \<Rightarrow> bool" where
  "kept zero old new \<longleftrightarrow> old = zero \<or> new = old"

lemma kept_refl [simp]: "kept z a a"
  by (simp add: kept_def)

lemma kept_zero [simp]: "kept z z a"
  by (simp add: kept_def)

lemma kept_trans: "kept z a b \<Longrightarrow> kept z b c \<Longrightarrow> kept z a c"
  by (auto simp: kept_def)

section \<open>Grants\<close>

fun state_rank :: "grant_state \<Rightarrow> nat" where
  "state_rank (OtherState _) = 0"
| "state_rank WaitingStorage = 0"
| "state_rank Intent = 1"
| "state_rank Assigned = 2"
| "state_rank Ready = 3"
| "state_rank Offered = 4"
| "state_rank Starting = 5"
| "state_rank Started = 6"
| "state_rank TerminalReceived = 7"
| "state_rank Quarantined = 8"
| "state_rank Unexecuted = 8"
| "state_rank Closed = 9"

definition same_grant :: "task_grant \<Rightarrow> task_grant \<Rightarrow> bool" where
  "same_grant g h \<longleftrightarrow>
    g_AttemptID h = g_AttemptID g \<and> g_OwnerID h = g_OwnerID g \<and> g_TaskID h = g_TaskID g \<and>
    g_RuntimeID h = g_RuntimeID g \<and> g_WorkspaceID h = g_WorkspaceID g \<and> g_AgentID h = g_AgentID g \<and>
    g_SessionProtocol h = g_SessionProtocol g \<and> g_Fingerprint h = g_Fingerprint g \<and>
    g_ScopeDigest h = g_ScopeDigest g \<and> g_RequestDigest h = g_RequestDigest g \<and> g_CreatedAt h = g_CreatedAt g"

definition flags_advance :: "task_grant \<Rightarrow> task_grant \<Rightarrow> bool" where
  "flags_advance g h \<longleftrightarrow>
    state_rank (g_State g) \<le> state_rank (g_State h) \<and>
    (g_ExecutionRevoked g \<longrightarrow> g_ExecutionRevoked h) \<and> (g_TurnAccepted g \<longrightarrow> g_TurnAccepted h) \<and>
    (g_TurnComplete g \<longrightarrow> g_TurnComplete h) \<and> (g_StartConfirmed g \<longrightarrow> g_StartConfirmed h) \<and>
    (g_CheckoutClosed g \<longrightarrow> g_CheckoutClosed h) \<and> (g_PreparationStarted g \<longrightarrow> g_PreparationStarted h) \<and>
    (g_PreparationStopped g \<longrightarrow> g_PreparationStopped h) \<and> (g_CleanupComplete g \<longrightarrow> g_CleanupComplete h)"

definition same_stop :: "stop_record option \<Rightarrow> stop_record option \<Rightarrow> bool" where
  "same_stop s t \<longleftrightarrow>
    (case s of
       None \<Rightarrow> True
     | Some x \<Rightarrow>
         (case t of
            None \<Rightarrow> False
          | Some y \<Rightarrow>
              sp_Reason y = sp_Reason x \<and> sp_Revision y = sp_Revision x \<and> sp_Nonce y = sp_Nonce x \<and>
              sp_RequestedAt y = sp_RequestedAt x \<and> kept None (sp_Receipt x) (sp_Receipt y)))"

text \<open>What a Pod's supervisor is trusted by: claim, Pod, node and keys, each given once; and the
  backend's choice, which no longer changes once the attempt has its selection.\<close>

definition places_kept :: "task_grant \<Rightarrow> task_grant \<Rightarrow> bool" where
  "places_kept g h \<longleftrightarrow>
    kept [] (g_PVCName g) (g_PVCName h) \<and> kept [] (g_PVCUID g) (g_PVCUID h) \<and>
    kept [] (g_PodName g) (g_PodName h) \<and> kept [] (g_PodUID g) (g_PodUID h) \<and>
    kept [] (g_NodeID g) (g_NodeID h) \<and> kept [] (g_SupervisorKey g) (g_SupervisorKey h) \<and>
    kept [] (g_StopKey g) (g_StopKey h) \<and>
    (g_Selection g \<noteq> None \<longrightarrow> kept None (g_BackendSelection g) (g_BackendSelection h))"

definition bindings_kept :: "task_grant \<Rightarrow> task_grant \<Rightarrow> bool" where
  "bindings_kept g h \<longleftrightarrow>
    kept [] (g_WorkerSessionID g) (g_WorkerSessionID h) \<and> kept [] (g_StorageID g) (g_StorageID h) \<and>
    kept None (g_Selection g) (g_Selection h) \<and> kept [] (g_Assignment g) (g_Assignment h) \<and>
    kept None (g_AcceptProof g) (g_AcceptProof h) \<and> kept None (g_TurnReceipt g) (g_TurnReceipt h) \<and>
    kept None (g_TurnExecutionReceipt g) (g_TurnExecutionReceipt h) \<and>
    kept None (g_CompletionWitness g) (g_CompletionWitness h) \<and> same_stop (g_Stop g) (g_Stop h) \<and>
    places_kept g h"

definition grant_le :: "task_grant \<Rightarrow> task_grant \<Rightarrow> bool" where
  "grant_le g h \<longleftrightarrow> same_grant g h \<and> flags_advance g h \<and> bindings_kept g h"

lemmas grant_le_defs = grant_le_def same_grant_def flags_advance_def bindings_kept_def
  places_kept_def

lemma same_stop_refl [simp]: "same_stop s s"
  by (simp add: same_stop_def split: option.splits)

lemma same_stop_None [simp]: "same_stop None s"
  by (simp add: same_stop_def)

lemma same_stop_trans: "same_stop a b \<Longrightarrow> same_stop b c \<Longrightarrow> same_stop a c"
  by (auto simp: same_stop_def intro: kept_trans split: option.splits)

lemma grant_le_refl [simp]: "grant_le g g"
  by (simp add: grant_le_defs)

lemma flags_advance_trans: "flags_advance a b \<Longrightarrow> flags_advance b c \<Longrightarrow> flags_advance a c"
  unfolding flags_advance_def by (elim conjE, intro conjI, erule (1) le_trans, simp_all)

lemma chosen_kept_trans:
  "(p \<noteq> None \<longrightarrow> kept None a b) \<Longrightarrow> (q \<noteq> None \<longrightarrow> kept None b c) \<Longrightarrow> kept None p q \<Longrightarrow> p \<noteq> None \<longrightarrow> kept None a c"
  by (auto simp: kept_def)

lemma places_kept_trans:
  "places_kept a b \<Longrightarrow> places_kept b c \<Longrightarrow> kept None (g_Selection a) (g_Selection b) \<Longrightarrow> places_kept a c"
  unfolding places_kept_def
  by (elim conjE, intro conjI, (erule (1) kept_trans)+, erule (2) chosen_kept_trans)

lemma bindings_kept_trans: "bindings_kept a b \<Longrightarrow> bindings_kept b c \<Longrightarrow> bindings_kept a c"
  unfolding bindings_kept_def
  by (elim conjE, intro conjI, (erule (1) kept_trans)+, erule (1) same_stop_trans, erule (2) places_kept_trans)

lemma grant_le_trans: "grant_le a b \<Longrightarrow> grant_le b c \<Longrightarrow> grant_le a c"
  unfolding grant_le_def
  by (elim conjE, intro conjI, simp add: same_grant_def, erule (1) flags_advance_trans, erule (1) bindings_kept_trans)

section \<open>Terminals\<close>

definition same_terminal :: "terminal \<Rightarrow> terminal \<Rightarrow> bool" where
  "same_terminal t u \<longleftrightarrow>
    t_Source u = t_Source t \<and> t_ResultDigest u = t_ResultDigest t \<and> t_ReceiptID u = t_ReceiptID t \<and>
    t_TaskID u = t_TaskID t \<and> t_AttemptID u = t_AttemptID t \<and> t_PVCUID u = t_PVCUID t \<and> t_Kind u = t_Kind t \<and>
    t_Body u = t_Body t \<and> t_RequestDigest u = t_RequestDigest t \<and> t_Nonce u = t_Nonce t \<and>
    t_ReceivedAt u = t_ReceivedAt t"

definition final_kept :: "delivery \<Rightarrow> delivery \<Rightarrow> bool" where
  "final_kept d d' \<longleftrightarrow> (d = DDelivered \<longrightarrow> d' = DDelivered) \<and> (d = DRejected \<longrightarrow> d' = DRejected)"

definition recovery_le :: "recovery_failure option \<Rightarrow> recovery_failure option \<Rightarrow> bool" where
  "recovery_le r s \<longleftrightarrow>
    (case r of
       None \<Rightarrow> True
     | Some x \<Rightarrow>
         (case s of
            None \<Rightarrow> False
          | Some y \<Rightarrow> rf_Body y = rf_Body x \<and> rf_DecidedAt y = rf_DecidedAt x \<and> final_kept (rf_State x) (rf_State y)))"

definition terminal_le :: "terminal \<Rightarrow> terminal \<Rightarrow> bool" where
  "terminal_le t u \<longleftrightarrow>
    same_terminal t u \<and> kept [] (t_PodUID t) (t_PodUID u) \<and> kept None (t_Seal t) (t_Seal u) \<and>
    kept None (t_ResultReceipt t) (t_ResultReceipt u) \<and> final_kept (t_State t) (t_State u) \<and>
    recovery_le (t_RecoveryFailure t) (t_RecoveryFailure u)"

lemmas terminal_le_defs = terminal_le_def same_terminal_def final_kept_def recovery_le_def

lemma terminal_le_refl [simp]: "terminal_le t t"
  by (simp add: terminal_le_defs split: option.splits)

lemma terminal_le_trans: "terminal_le a b \<Longrightarrow> terminal_le b c \<Longrightarrow> terminal_le a c"
  unfolding terminal_le_def
  by (elim conjE, intro conjI, simp add: same_terminal_def, (erule (1) kept_trans)+, simp add: final_kept_def)
    (auto simp: recovery_le_def final_kept_def split: option.splits)

section \<open>Sessions\<close>

definition same_session :: "worker_session \<Rightarrow> worker_session \<Rightarrow> bool" where
  "same_session v w \<longleftrightarrow>
    ws_ID w = ws_ID v \<and> ws_ProtocolVersion w = ws_ProtocolVersion v \<and> ws_Conversation w = ws_Conversation v \<and>
    ws_StorageID w = ws_StorageID v \<and> ws_RuntimeID w = ws_RuntimeID v \<and> ws_RuntimeRef w = ws_RuntimeRef v \<and>
    ws_Fingerprint w = ws_Fingerprint v \<and> ws_PodName w = ws_PodName v \<and> ws_PVCName w = ws_PVCName v \<and>
    ws_PVCUID w = ws_PVCUID v \<and> ws_TaskRoot w = ws_TaskRoot v \<and> ws_ControlToken w = ws_ControlToken v \<and>
    ws_CreatedAt w = ws_CreatedAt v"

definition same_session_stop :: "session_stop_record option \<Rightarrow> session_stop_record option \<Rightarrow> bool" where
  "same_session_stop s t \<longleftrightarrow>
    (case s of
       None \<Rightarrow> True
     | Some x \<Rightarrow>
         (case t of
            None \<Rightarrow> False
          | Some y \<Rightarrow>
              ssp_ActiveAttempt y = ssp_ActiveAttempt x \<and> ssp_Reason y = ssp_Reason x \<and>
              ssp_Revision y = ssp_Revision x \<and> ssp_Nonce y = ssp_Nonce x \<and>
              ssp_RequestedAt y = ssp_RequestedAt x \<and> kept None (ssp_Receipt x) (ssp_Receipt y) \<and>
              kept None (ssp_Evidence x) (ssp_Evidence y) \<and>
              (ssp_ControllerWritersStopped x \<longrightarrow> ssp_ControllerWritersStopped y)))"

definition session_le :: "worker_session \<Rightarrow> worker_session \<Rightarrow> bool" where
  "session_le v w \<longleftrightarrow>
    same_session v w \<and> kept [] (ws_PodUID v) (ws_PodUID w) \<and> kept [] (ws_NodeID v) (ws_NodeID w) \<and>
    kept [] (ws_SupervisorKey v) (ws_SupervisorKey w) \<and> kept [] (ws_Bootstrap v) (ws_Bootstrap w) \<and>
    same_session_stop (ws_Stop v) (ws_Stop w) \<and> ws_TurnSequence v \<le> ws_TurnSequence w \<and>
    (ws_Stop v \<noteq> None \<longrightarrow> ws_TurnSequence w = ws_TurnSequence v) \<and>
    (ws_State v = SessionClosed \<longrightarrow> ws_State w = SessionClosed) \<and>
    (ws_ResourcesCleaned v \<longrightarrow> ws_ResourcesCleaned w)"

lemmas session_le_defs = session_le_def same_session_def

lemma same_session_stop_refl [simp]: "same_session_stop s s"
  by (simp add: same_session_stop_def split: option.splits)

lemma same_session_stop_None [simp]: "same_session_stop None s"
  by (simp add: same_session_stop_def)

lemma same_session_stop_trans: "same_session_stop a b \<Longrightarrow> same_session_stop b c \<Longrightarrow> same_session_stop a c"
  by (auto simp: same_session_stop_def intro: kept_trans split: option.splits)

lemma session_le_refl [simp]: "session_le w w"
  by (simp add: session_le_defs)

lemma same_session_stop_Some: "same_session_stop s t \<Longrightarrow> s \<noteq> None \<Longrightarrow> t \<noteq> None"
  by (auto simp: same_session_stop_def split: option.splits)

lemma session_le_trans:
  assumes "session_le a b" "session_le b c"
  shows "session_le a c"
proof -
  have "same_session a c"
    using assms by (simp add: session_le_def same_session_def)
  moreover have "same_session_stop (ws_Stop a) (ws_Stop c)"
    using assms same_session_stop_trans by (auto simp: session_le_def)
  moreover have "ws_Stop a \<noteq> None \<longrightarrow> ws_TurnSequence c = ws_TurnSequence a"
    using assms same_session_stop_Some by (auto simp: session_le_def)
  ultimately show ?thesis
    using assms unfolding session_le_def by (elim conjE, intro conjI) (auto intro: kept_trans)
qed

section \<open>Histories\<close>

definition keeps ::
  "(registry \<Rightarrow> string \<Rightarrow> 'a option) \<Rightarrow> ('a \<Rightarrow> 'a \<Rightarrow> bool) \<Rightarrow> registry \<Rightarrow> registry \<Rightarrow> bool" where
  "keeps look le st st' \<longleftrightarrow> (\<forall>i a. look st i = Some a \<longrightarrow> (\<exists>b. look st' i = Some b \<and> le a b))"

lemma keepsD: "keeps look le st st' \<Longrightarrow> look st i = Some a \<Longrightarrow> \<exists>b. look st' i = Some b \<and> le a b"
  by (auto simp: keeps_def)

locale history =
  fixes look :: "registry \<Rightarrow> string \<Rightarrow> 'a option"
    and le :: "'a \<Rightarrow> 'a \<Rightarrow> bool"
    and step :: "registry \<Rightarrow> registry \<Rightarrow> bool"
  assumes le_refl: "le a a"
    and le_trans: "le a b \<Longrightarrow> le b c \<Longrightarrow> le a c"
    and step_keeps: "step st st' \<Longrightarrow> keeps look le st st'"
begin

lemma run_keeps: "step\<^sup>*\<^sup>* st st' \<Longrightarrow> keeps look le st st'"
proof (induction rule: rtranclp_induct)
  case base
  show ?case by (auto simp: keeps_def intro: le_refl)
next
  case (step st1 st2)
  then show ?case
    using step_keeps [OF step.hyps(2)] by (fastforce simp: keeps_def intro: le_trans)
qed

lemma run_record:
  "step\<^sup>*\<^sup>* st st' \<Longrightarrow> look st i = Some a \<Longrightarrow> \<exists>b. look st' i = Some b \<and> le a b"
  by (rule keepsD [OF run_keeps])

text \<open>What an order fixes for ever: a predicate that \<open>le\<close> carries on.\<close>

lemma run_stable:
  assumes "step\<^sup>*\<^sup>* st st'" "look st i = Some a" "P a" "\<And>x y. le x y \<Longrightarrow> P x \<Longrightarrow> P y"
  obtains b where "look st' i = Some b" "P b" "le a b"
  using run_record [OF assms(1,2)] assms(3,4) by blast

end

section \<open>Advancing the whole journal\<close>

definition advances :: "registry \<Rightarrow> registry \<Rightarrow> bool" where
  "advances st st' \<longleftrightarrow>
    keeps grant_of grant_le st st' \<and> keeps terminal_of terminal_le st st' \<and>
    keeps session_of session_le st st' \<and> (maps_ok st \<longrightarrow> maps_ok st')"

lemma advances_refl [simp, intro]: "advances st st"
  by (simp add: advances_def keeps_def)

lemma advances_frame [simp]:
  "advances st (put_storage i b st1) = advances st st1"
  "advances st (put_conversation i v st1) = advances st st1"
  "advances st (put_capabilities (AList.update k cap (r_Capabilities st1)) st1) = advances st st1"
  by (simp_all add: advances_def keeps_def)

lemma advances_lookups:
  "advances st st1 \<Longrightarrow> grant_of st2 = grant_of st1 \<Longrightarrow> terminal_of st2 = terminal_of st1 \<Longrightarrow>
   session_of st2 = session_of st1 \<Longrightarrow> maps_ok st2 = maps_ok st1 \<Longrightarrow> advances st st2"
  by (simp add: advances_def keeps_def)

lemma advances_grant:
  "advances st st1 \<Longrightarrow> (\<And>g. grant_of st i = Some g \<Longrightarrow> grant_le g h) \<Longrightarrow> advances st (put_grant i h st1)"
  by (auto simp: advances_def keeps_def)

lemma advances_terminal:
  "advances st st1 \<Longrightarrow> (\<And>t. terminal_of st i = Some t \<Longrightarrow> terminal_le t u) \<Longrightarrow> advances st (put_terminal i u st1)"
  by (auto simp: advances_def keeps_def)

lemma advances_session:
  "advances st st1 \<Longrightarrow> (\<And>v. session_of st i = Some v \<Longrightarrow> session_le v w) \<Longrightarrow> advances st (put_session i w st1)"
  by (auto simp: advances_def keeps_def)

lemma advances_grant_of:
  "advances st st' \<Longrightarrow> grant_of st i = Some g \<Longrightarrow> \<exists>h. grant_of st' i = Some h \<and> grant_le g h"
  by (auto simp: advances_def keeps_def)

lemma advances_stop:
  "advances st st' \<Longrightarrow> grant_of st i = Some g \<Longrightarrow> same_stop (g_Stop g) (g_Stop (get_grant st' i))"
  by (auto simp: get_by_lookup grant_le_def bindings_kept_def dest!: advances_grant_of)

text \<open>A handler of \<^verbatim>\<open>updateGrant\<close> and of \<^verbatim>\<open>updateTerminal\<close>.\<close>

lemma update_grant_advances:
  assumes "update_grant i fn st = Inr (st', a)"
    and "\<And>g st1 h. grant_of st i = Some g \<Longrightarrow> fn st g = Inr (st1, h, a) \<Longrightarrow> grant_le g h \<and> advances st st1"
  shows "advances st st'"
proof -
  from assms(1) obtain g st1 h where "grant_of st i = Some g" "fn st g = Inr (st1, h, a)" "st' = put_grant i h st1"
    by (auto simp: update_grant_def split: option.splits sum.splits)
  with assms(2) show ?thesis
    by (auto intro!: advances_grant)
qed

lemma update_terminal_advances:
  assumes "update_terminal i fn st = Inr (st', a)"
    and "\<And>t u. terminal_of st i = Some t \<Longrightarrow> fn t = Inr u \<Longrightarrow> terminal_le t u"
  shows "advances st st'"
proof -
  from assms(1) obtain t u where "terminal_of st i = Some t" "fn t = Inr u" "st' = put_terminal i u st"
    by (auto simp: update_terminal_def split: option.splits sum.splits)
  with assms(2) show ?thesis
    by (auto intro!: advances_terminal)
qed

section \<open>Stopping a session\<close>

lemma revoked_le: "grant_le g (revoked_grant c reason now g)"
  by (auto simp: grant_le_defs revoked_grant_def split: option.splits)

lemma stopped_session_le: "session_le ws (stopped_session c reason now ws)"
  by (auto simp: session_le_defs stopped_session_def split: option.splits)

lemma stopped_session_fields [simp]:
  "ws_ID (stopped_session c reason now ws) = ws_ID ws"
  "ws_ActiveAttempt (stopped_session c reason now ws) = ws_ActiveAttempt ws"
  "ws_StorageID (stopped_session c reason now ws) = ws_StorageID ws"
  "ws_Stop (stopped_session c reason now ws) \<noteq> None"
  by (auto simp: stopped_session_def Let_def split: option.splits)

lemma requestSessionStop_form:
  assumes "requestSessionStop c reason now st ws = (st1, ws1)"
  shows "ws1 = stopped_session c reason now ws"
    "st1 = st \<or> ws_ActiveAttempt ws \<noteq> [] \<and>
      st1 = put_grant (g_AttemptID (get_grant st (ws_ActiveAttempt ws)))
              (revoked_grant c reason now (get_grant st (ws_ActiveAttempt ws))) st"
  using assms by (auto simp: requestSessionStop_def Let_def revoked_grant_def split: if_splits)

lemma requestSessionStop_frame:
  assumes "requestSessionStop c reason now st ws = (st1, ws1)"
  shows "storage_of st1 = storage_of st" "terminal_of st1 = terminal_of st" "session_of st1 = session_of st"
  using requestSessionStop_form(2) [OF assms] by auto

lemma requestSessionStop_advances:
  assumes "requestSessionStop c reason now st1 ws = (st2, ws2)" "advances st st1" "grant_of st1 = grant_of st"
    "active_known st ws"
  shows "advances st st2"
  using requestSessionStop_form(2) [OF assms(1)] assms(2-4)
  by (auto simp: active_known_def get_by_lookup intro!: advances_grant revoked_le)

end
