(* ===== verification/Advance_Grants.thy ===== *)
theory Advance_Grants
  imports Histories
begin

text \<open>Every operation of one grant advances the journal.\<close>

lemmas step_splits = if_splits option.splits sum.splits prod.splits

lemma set_quarantined_frame [simp]:
  "advances st (set_quarantined i q st1) = advances st st1" "grant_of (set_quarantined i q st) = grant_of st"
  "terminal_of (set_quarantined i q st) = terminal_of st" "session_of (set_quarantined i q st) = session_of st"
  by (simp_all add: set_quarantined_def)

lemma put_prepared_frame [simp]: "advances st (put_prepared i p st1) = advances st st1"
  by (simp add: put_prepared_def)

lemma bind_capabilities_frame [simp]: "advances st (bind_capabilities i uid st1) = advances st st1"
  by (simp add: advances_def keeps_def) (simp add: bind_capabilities_def grant_of_def terminal_of_def session_of_def)

lemma bind_failure_advances: "advances st (bind_failure i uid st)"
  by (auto simp: bind_failure_def terminal_le_defs intro!: advances_terminal split: option.splits)

section \<open>What the checks say of a grant's turn\<close>

lemma validated_turn:
  assumes "validated e st" "grant_of st i = Some g" "g_WorkerSessionID g \<noteq> []"
  obtains ws b where "session_of st (g_WorkerSessionID g) = Some ws" "storage_of st (g_StorageID g) = Some b"
    "list_all (\<lambda>(bad, _). \<not> bad) (turn_checks e st ws b g)"
proof -
  have "g_StorageID g \<noteq> []"
    using validated_grant [OF assms(1,2)] assms(3)
    by (auto simp: validate_grant_def validatePendingSessionGrant_def turn_authority_def bind_res_eq_Inr)
  then have "validateSessionGrant e st g = Inr ()"
    using validated_grant [OF assms(1,2)] assms(3) by (simp add: validate_grant_def bind_res_eq_Inr)
  with that show thesis
    by (auto simp: validateSessionGrant_def first_failure_Inr split: option.splits)
qed

lemma turn_places:
  assumes "sound e st" "grant_of st i = Some g" "session_of st (g_WorkerSessionID g) = Some ws"
  shows "g_PodName g = ws_PodName ws" "g_PodUID g = ws_PodUID ws" "g_NodeID g = ws_NodeID ws"
    "kept [] (g_SupervisorKey g) (ws_SupervisorKey ws)" "kept [] (g_StopKey g) (ws_SupervisorKey ws)"
proof -
  have "g_WorkerSessionID g \<noteq> []"
    using assms(3) no_empty_session [OF assms(1)] by auto
  then obtain b where "list_all (\<lambda>(bad, _). \<not> bad) (turn_checks e st ws b g)"
    using validated_turn [OF _ assms(2), of e] assms(1,3) by (auto simp: sound_def)
  then show "g_PodName g = ws_PodName ws" "g_PodUID g = ws_PodUID ws" "g_NodeID g = ws_NodeID ws"
    "kept [] (g_SupervisorKey g) (ws_SupervisorKey ws)" "kept [] (g_StopKey g) (ws_SupervisorKey ws)"
    by (auto simp: turn_checks_def turn_binding_ok_def kept_def Let_def)
qed

section \<open>Operations that only rewrite their grant\<close>

lemmas grant_op_defs =
  BeginPreparation_def BeginPreparation_step_def CheckpointPreparation_def
  CheckpointPreparation_step_def CompletePreparation_def CompletePreparation_step_def BindPod_def
  BindPod_step_def Offer_def Offer_step_def BeginStart_def
  transition_step_def SetBootstrap_def SetBootstrap_step_def SetResources_def SetResources_step_def
  MarkCleaned_def MarkCleaned_step_def BeginCheckout_def BeginCheckout_step_def CompleteCheckout_def
  CompleteCheckout_step_def CloseCheckouts_def CloseCheckouts_step_def CheckoutsFlushed_def
  CheckoutsFlushed_step_def ReceiveEvent_def ReceiveEvent_step_def EventDelivery_def
  EventDelivery_step_def RecordCompatibility_def RecordCompatibility_step_def RecordSelection_def
  RecordSelection_step_def RecordBackendSelection_def RecordBackendSelection_step_def
  IssueCapability_def IssueCapability_step_def

lemma grant_op_advances:
  "BeginPreparation x1a x1b x1c st = Inr (st', r1) \<Longrightarrow> advances st st'"
  "CheckpointPreparation x2a x2b x2c st = Inr (st', r2) \<Longrightarrow> advances st st'"
  "CompletePreparation x3a x3b x3c x3d st = Inr (st', r3) \<Longrightarrow> advances st st'"
  "BindPod x4a x4b x4c x4d st = Inr (st', r4) \<Longrightarrow> advances st st'"
  "Offer x6a st = Inr (st', r6) \<Longrightarrow> advances st st'"
  "BeginStart x7a x7b st = Inr (st', r7) \<Longrightarrow> advances st st'"
  "SetBootstrap x8a x8b x8c st = Inr (st', r8) \<Longrightarrow> advances st st'"
  "SetResources x9a x9b x9c st = Inr (st', r9) \<Longrightarrow> advances st st'"
  "MarkCleaned x10a st = Inr (st', r10) \<Longrightarrow> advances st st'"
  "BeginCheckout x11a x11b x11c st = Inr (st', r11) \<Longrightarrow> advances st st'"
  "CompleteCheckout x12a x12b st = Inr (st', r12) \<Longrightarrow> advances st st'"
  "CloseCheckouts x13a st = Inr (st', r13) \<Longrightarrow> advances st st'"
  "CheckoutsFlushed x14a st = Inr (st', r14) \<Longrightarrow> advances st st'"
  "ReceiveEvent x15a x15b x15c x15d st = Inr (st', r15) \<Longrightarrow> advances st st'"
  "EventDelivery x16a x16b x16c x16d st = Inr (st', r16) \<Longrightarrow> advances st st'"
  "RecordCompatibility x17a x17b x17c st = Inr (st', r17) \<Longrightarrow> advances st st'"
  "RecordSelection x18a x18b x18c x18d x18e st = Inr (st', r18) \<Longrightarrow> advances st st'"
  "RecordBackendSelection x19a x19b x19c st = Inr (st', r19) \<Longrightarrow> advances st st'"
  "IssueCapability x20a x20b x20c x20d x20e st = Inr (st', r20) \<Longrightarrow> advances st st'"
  by (auto elim!: update_grant_advances
      simp: grant_op_defs Let_def grant_le_defs kept_def bind_res_eq_Inr bind_failure_advances split: step_splits)

text \<open>A turn takes its session's key, which is the one it already has.\<close>

lemma current_turn_keys:
  assumes "sound e st" "grant_of st i = Some g" "currentSessionTurn st g"
  shows "kept [] (g_SupervisorKey g) (ws_SupervisorKey (get_session st (g_WorkerSessionID g)))"
    "kept [] (g_StopKey g) (ws_SupervisorKey (get_session st (g_WorkerSessionID g)))"
  using assms turn_places [OF assms(1,2)] by (auto simp: currentSessionTurn_def get_by_lookup split: option.splits)

lemma Admit_advances: "sound e st \<Longrightarrow> Admit i key st = Inr (st', a) \<Longrightarrow> advances st st'"
  unfolding Admit_def
  by (erule update_grant_advances)
    (use current_turn_keys in \<open>auto simp: Admit_step_def Let_def grant_le_defs split: if_splits\<close>)

section \<open>The start of a turn\<close>

lemma running_session_le:
  assumes "sound e st" "grant_of st i = Some g" "currentSessionTurn st g" "session_of st k = Some v"
  shows "session_le v ((get_session st (g_WorkerSessionID g))\<lparr>ws_State := SessionRunning, ws_Revision := r\<rparr>) \<or>
    ws_ID (get_session st (g_WorkerSessionID g)) \<noteq> k"
proof -
  from assms(3) obtain ws where ws: "session_of st (g_WorkerSessionID g) = Some ws" "ws_ActiveAttempt ws = g_AttemptID g"
    by (auto simp: currentSessionTurn_def split: option.splits)
  then have "ws_State ws \<noteq> SessionClosed"
    using closed_session(1) [of e st _ ws] assms(1,2) grant_key_nonempty [OF assms(1,2)] by (auto simp: sound_def)
  then show ?thesis
    using assms(1,4) ws(1) by (auto simp: get_by_lookup session_le_defs)
qed

lemma MarkStarted_advances: "sound e st \<Longrightarrow> MarkStarted c i st = Inr (st', a) \<Longrightarrow> advances st st'"
  unfolding MarkStarted_def
  by (erule update_grant_advances)
    (use running_session_le in \<open>fastforce simp: transition_step_def Let_def grant_le_defs intro!: advances_session split: if_splits\<close>)

end
