(* ===== verification/Advance_Stops.thy ===== *)
theory Advance_Stops
  imports Advance_Grants
begin

text \<open>
  Every operation that stops an attempt or settles its result advances the journal
  (\<^verbatim>\<open>stop.go\<close>, \<^verbatim>\<open>outbox.go\<close>, \<^verbatim>\<open>result_receipt.go\<close>).
\<close>

section \<open>Storing a session again\<close>

lemma zero_session_fields [simp]:
  "ws_ID zero_session = []" "ws_State zero_session \<noteq> SessionClosed" "ws_ActiveAttempt zero_session = []"
  "ws_Stop zero_session = None"
  by (simp_all add: zero_session_def)

lemma advances_same_session:
  "sound e st \<Longrightarrow> advances st st1 \<Longrightarrow> session_le (get_session st k) w \<Longrightarrow> ws_ID w = ws_ID (get_session st k) \<Longrightarrow>
   advances st (put_session (ws_ID w) w st1)"
  by (rule advances_session) (auto simp: get_by_lookup dest!: no_empty_session split: option.splits)

lemma open_session:
  "sound e st \<Longrightarrow> ws_Stop (get_session st k) = None \<Longrightarrow> ws_State (get_session st k) \<noteq> SessionClosed"
  by (auto simp: get_by_lookup sound_def dest: closed_session(2) split: option.splits)

lemma advances_storage_between [simp]:
  "advances st (put_session i w (put_storage j b st1)) = advances st (put_session i w st1)"
  by (simp add: advances_def keeps_def)

lemma stop_and_put_advances:
  assumes "requestSessionStop c reason now st1 (get_session st k) = (st2, ws)" "sound e st" "advances st st1"
    "grant_of st1 = grant_of st"
  shows "advances st (put_session (ws_ID ws) ws st2)"
  using assms(2) requestSessionStop_form(1) [OF assms(1)] requestSessionStop_advances [OF assms(1,3,4)]
  by (intro advances_same_session) (auto intro: stopped_session_le)

lemma get_session_cong: "session_of st1 = session_of st \<Longrightarrow> get_session st1 k = get_session st k"
  by (simp add: get_by_lookup)

lemma finish_session_advances:
  assumes "sound e st" "advances st st1" "session_of st1 = session_of st"
  shows "advances st (finish_session k st1)"
proof -
  let ?ws = "get_session st k"
  let ?w = "if ws_Stop ?ws = None then ?ws\<lparr>ws_State := SessionFinishing\<rparr> else ?ws"
  have "session_le ?ws ?w" "ws_ID ?w = ws_ID ?ws"
    using open_session [OF assms(1), of k] by (auto simp: session_le_defs)
  then have "advances st (put_session (ws_ID ?w) ?w st1)"
    by (rule advances_same_session [OF assms(1,2)])
  then show ?thesis
    by (simp only: finish_session_def Let_def get_session_cong [OF assms(3)])
qed

section \<open>Stopping an attempt\<close>

lemma state_rank_bounds [simp]: "state_rank s \<le> 9" "s \<noteq> Closed \<Longrightarrow> state_rank s \<le> 8" "\<not> 9 < state_rank s"
  by (cases s; simp)+

lemma session_stop_kept:
  assumes "requestSessionStop c reason now st1 (get_session st k) = (st2, ws)" "sound e st"
    "grant_of st i = Some g" "advances st st1" "grant_of st1 = grant_of st"
  shows "same_stop (g_Stop g) (g_Stop (get_grant st2 i))"
  using requestSessionStop_advances [OF assms(1,4,5)] assms(2,3) advances_stop by fastforce

lemmas session_stop_intros = stop_and_put_advances session_stop_kept

lemma RequestStop_advances: "sound e st \<Longrightarrow> RequestStop c i reason st = Inr (st', a) \<Longrightarrow> advances st st'"
  by (auto elim!: update_grant_advances simp: RequestStop_def RequestStop_step_def Let_def grant_le_defs
      split: step_splits) (blast intro: session_stop_intros)+

lemma stop_op_advances:
  "ReceiveStopReceipt e2 i2 a2 st = Inr (st', r2) \<Longrightarrow> advances st st'"
  "ObserveStop i3 a3 st = Inr (st', r3) \<Longrightarrow> advances st st'"
  "CloseStopped i4 st = Inr (st', r4) \<Longrightarrow> advances st st'"
  by (auto elim!: update_grant_advances simp: ReceiveStopReceipt_def ReceiveStopReceipt_step_def ObserveStop_def ObserveStop_step_def CloseStopped_def
      CloseStopped_step_def Let_def grant_le_defs same_stop_def kept_def split: step_splits)

lemma PinStopSupervisor_advances:
  "sound e st \<Longrightarrow> PinStopSupervisor i podUID pvcUID node key st = Inr (st', a) \<Longrightarrow> advances st st'"
  unfolding PinStopSupervisor_def
  by (erule update_grant_advances)
    (use current_turn_keys(2) in
      \<open>auto simp: PinStopSupervisor_step_def Let_def grant_le_defs kept_def split: if_splits\<close>)

lemma InterruptPreparation_advances:
  "sound e st \<Longrightarrow> InterruptPreparation e c i p st = Inr (st', a) \<Longrightarrow> advances st st'"
  by (auto elim!: update_grant_advances simp: InterruptPreparation_def InterruptPreparation_step_def Let_def
      grant_le_defs split: step_splits) (blast intro: session_stop_intros)+

text \<open>A grant that is quarantined is not the turn of a closed session.\<close>

lemma quarantined_session_le:
  assumes "sound e st" "grant_of st i = Some g" "g_WorkerSessionID g \<noteq> []" "g_State g \<noteq> Closed"
    "requestSessionStop c reason now st1 (get_session st (g_WorkerSessionID g)) = (st2, ws)" "advances st st1"
    "grant_of st1 = grant_of st"
  shows "advances st (put_session (ws_ID ws) (ws\<lparr>ws_State := SessionQuarantined\<rparr>) st2)"
proof -
  obtain v where "session_of st (g_WorkerSessionID g) = Some v" and live: "ws_State v \<noteq> SessionClosed"
    by (rule live_turn [OF assms(1-4)])
  then have v: "get_session st (g_WorkerSessionID g) = v"
    by (simp add: get_by_lookup)
  then have ws: "session_le v ws" "ws_ID ws = ws_ID v"
    using requestSessionStop_form(1) [OF assms(5)] by (simp_all add: stopped_session_le)
  let ?w = "ws\<lparr>ws_State := SessionQuarantined\<rparr>"
  have "session_le v ?w" "ws_ID ?w = ws_ID v"
    using ws live by (auto simp: session_le_defs)
  then have "advances st (put_session (ws_ID ?w) ?w st2)"
    using advances_same_session [OF assms(1) requestSessionStop_advances [OF assms(5-7)]] v assms(1) by auto
  then show ?thesis
    by simp
qed

lemma Quarantine_advances: "sound e st \<Longrightarrow> Quarantine c i st = Inr (st', a) \<Longrightarrow> advances st st'"
  by (auto elim!: update_grant_advances simp: Quarantine_def Quarantine_step_def Let_def grant_le_defs
      get_session_cong [of "set_quarantined _ _ _"] split: step_splits)
    (force intro: session_stop_kept quarantined_session_le)+

section \<open>Delivery\<close>

lemma delivery_advances:
  "BeginForward i1 st = Inr (st', r1) \<Longrightarrow> advances st st'"
  "RejectTerminal i2 st = Inr (st', r2) \<Longrightarrow> advances st st'"
  "BeginRecoveryForward i3 st = Inr (st', r3) \<Longrightarrow> advances st st'"
  "FinishRecoveryForward i4 o4 st = Inr (st', r4) \<Longrightarrow> advances st st'"
  "FinishForward i6 o6 st = Inr (st', r6) \<Longrightarrow> advances st st'"
  "BeginFailureForward i7 st = Inr (st', r7) \<Longrightarrow> advances st st'"
  "RejectFailure i8 st = Inr (st', r8) \<Longrightarrow> advances st st'"
  by (auto elim!: update_terminal_advances simp: BeginForward_def BeginForward_step_def RejectTerminal_def
      RejectTerminal_step_def BeginRecoveryForward_def BeginRecoveryForward_step_def FinishRecoveryForward_def
      FinishRecoveryForward_step_def FinishForward_def FinishForward_step_def BeginFailureForward_def
      BeginFailureForward_step_def RejectFailure_def RejectFailure_step_def terminal_le_defs split: step_splits)

lemma RejectRecoveryFailure_advances: "RejectRecoveryFailure i st = Inr (st', a) \<Longrightarrow> advances st st'"
  by (auto elim!: update_terminal_advances simp: RejectRecoveryFailure_def RejectRecoveryFailure_step_def
      terminal_le_defs split: step_splits)

section \<open>Receipts\<close>

lemma receipt_advances:
  "Seal e1 i1 a1 st = Inr (st', r1) \<Longrightarrow> advances st st'"
  "RecordResultReceipt e2 i2 a2 st = Inr (st', r2) \<Longrightarrow> advances st st'"
  "RecordRecoveryFailure e3 c3 i3 a3 st = Inr (st', r3) \<Longrightarrow> advances st st'"
  "ResumeForward i4 st = Inr (st', r4) \<Longrightarrow> advances st st'"
  by (auto elim!: update_grant_advances simp: Seal_def Seal_step_def RecordResultReceipt_def
      RecordResultReceipt_step_def RecordRecoveryFailure_def RecordRecoveryFailure_step_def ResumeForward_def
      ResumeForward_step_def Let_def terminal_le_defs intro!: advances_terminal split: step_splits)

section \<open>Receiving a result\<close>

lemma grant_le_resume [simp]:
  "grant_le g (h\<lparr>g_ResumeSession := x\<rparr>) = grant_le g h" "grant_le g (h\<lparr>g_ResumeWorkDir := x\<rparr>) = grant_le g h"
  "grant_le g (h\<lparr>g_PendingResume := y\<rparr>) = grant_le g h" "grant_le (g\<lparr>g_ResumeSession := x\<rparr>) h = grant_le g h"
  by (simp_all add: grant_le_defs)

text \<open>A step that touches storages only, and the resume fields of its grant.\<close>

definition resume_step :: "registry \<Rightarrow> task_grant \<Rightarrow> registry \<Rightarrow> task_grant \<Rightarrow> bool" where
  "resume_step st g st1 g1 \<longleftrightarrow>
    grant_of st1 = grant_of st \<and> terminal_of st1 = terminal_of st \<and> session_of st1 = session_of st \<and>
    maps_ok st1 = maps_ok st \<and> grant_le g g1 \<and> g_State g1 = g_State g"

lemma resume_step_trans: "resume_step st g st1 g1 \<Longrightarrow> resume_step st1 g1 st2 g2 \<Longrightarrow> resume_step st g st2 g2"
  by (auto simp: resume_step_def intro: grant_le_trans)

lemma resume_step_simps [simp]:
  "resume_step st g st g"
  "resume_step st g (put_storage i b st1) h = resume_step st g st1 h"
  "resume_step st g st1 (h\<lparr>g_ResumeSession := x\<rparr>) = resume_step st g st1 h"
  "resume_step st g st1 (h\<lparr>g_ResumeWorkDir := x\<rparr>) = resume_step st g st1 h"
  "resume_step st g st1 (h\<lparr>g_PendingResume := y\<rparr>) = resume_step st g st1 h"
  "resume_step (put_storage i b st) g st1 h = resume_step st g st1 h"
  "resume_step st (g\<lparr>g_ResumeSession := x\<rparr>) st1 h = resume_step st g st1 h"
  by (simp_all add: resume_step_def)

lemma invalidate_sessions_quiet: "invalidate_sessions ss st g = Inr (st1, g1) \<Longrightarrow> resume_step st g st1 g1"
  by (induction ss st g rule: invalidate_sessions.induct) (auto simp: Let_def split: if_splits)

lemma publishResume_quiet: "publishResume c s w st g = Inr (st1, g1) \<Longrightarrow> resume_step st g st1 g1"
  unfolding publishResume_def bind_res_eq_Inr if_Inl_eq_Inr
  by (elim conjE exE, cases "s = []") (clarsimp split: if_splits option.splits)+

lemma terminalResume_quiet: "terminalResume c r st g = Inr (st1, g1) \<Longrightarrow> resume_step st g st1 g1"
  by (cases "g_WorkerSessionID g = []")
    (auto simp: terminalResume_def bind_res_eq_Inr Let_def simp del: invalidate_sessions.simps
      dest!: invalidate_sessions_quiet publishResume_quiet elim: resume_step_trans)

lemma grant_le_state: "grant_le g g1 \<Longrightarrow> state_rank (g_State g1) \<le> state_rank s \<Longrightarrow> grant_le g (g1\<lparr>g_State := s\<rparr>)"
  by (auto simp: grant_le_defs)

lemma ReceiveTerminal_step_advances:
  assumes "sound e st" "ReceiveTerminal_step e c i k b r d st g = Inr (st1, h, t)"
  shows "grant_le g h \<and> advances st st1"
proof (cases "terminal_of st i")
  case (Some old)
  then show ?thesis
    using assms(2) by (auto simp: ReceiveTerminal_step_def split: if_splits)
next
  case None
  with assms(2) obtain st2 g1 where
    r: "terminalResume c r st g = Inr (st2, g1)" "state_rank (g_State g) \<le> 6" "h = g1\<lparr>g_State := TerminalReceived\<rparr>"
    and st1: "st1 = (if g_WorkerSessionID g1 \<noteq> [] then finish_session (g_WorkerSessionID g1) (put_terminal i t st2)
                     else put_terminal i t st2)"
    by (auto simp: ReceiveTerminal_step_def Let_def bind_res_eq_Inr split: if_splits)
  note frame = terminalResume_quiet [OF r(1), unfolded resume_step_def]
  then have "advances st (put_terminal i t st2)" "session_of (put_terminal i t st2) = session_of st"
    using None by (auto intro!: advances_terminal intro: advances_lookups [OF advances_refl])
  then have "advances st st1"
    using st1 finish_session_advances [OF assms(1)] by simp
  then show ?thesis
    using r frame by (auto intro: grant_le_state)
qed

lemma ReceiveTerminal_advances:
  "sound e st \<Longrightarrow> ReceiveTerminal e c i k b r d st = Inr (st', a) \<Longrightarrow> advances st st'"
  by (auto simp: ReceiveTerminal_def elim!: update_grant_advances dest: ReceiveTerminal_step_advances split: if_splits)

lemma ReceiveFailure_advances:
  "sound e st \<Longrightarrow> ReceiveFailure e c i b st = Inr (st', a) \<Longrightarrow> advances st st'"
  by (auto elim!: update_grant_advances simp: ReceiveFailure_def ReceiveFailure_step_def Let_def bind_res_eq_Inr
      grant_le_defs intro!: advances_terminal split: step_splits) (blast intro: session_stop_intros)+

end
