(* ===== verification/Advance_Sessions.thy ===== *)
theory Advance_Sessions
  imports Advance_Stops
begin

text \<open>
  Claims, admission and every operation of a worker session advance the journal
  (\<^verbatim>\<open>grant.go\<close>, \<^verbatim>\<open>session_control.go\<close>, \<^verbatim>\<open>session_lifecycle.go\<close>,
  \<^verbatim>\<open>session_reservation.go\<close>).
\<close>

section \<open>What the checks say of a grant's turn\<close>

lemma waiting_unbound:
  assumes "sound e st" "grant_of st i = Some g" "g_State g = WaitingStorage" "g_WorkerSessionID g = []"
  shows "g_StorageID g = []"
proof (rule ccontr)
  assume "g_StorageID g \<noteq> []"
  moreover have "validate_grant e st (i, g) = Inr ()"
    using assms(1,2) validated_grant by (auto simp: sound_def)
  ultimately have "list_all (\<lambda>(bad, _). \<not> bad) (task_checks e st i g)"
    using assms(4) by (simp add: validate_grant_def bind_res_eq_Inr first_failure_Inr)
  with assms(3) show False
    by (simp add: task_checks_def task_state_checks_def)
qed

text \<open>A grant that has no storage has no place to run yet.\<close>

definition unplaced :: "task_grant \<Rightarrow> bool" where
  "unplaced g \<longleftrightarrow>
    g_PVCName g = [] \<and> g_PVCUID g = [] \<and> g_PodName g = [] \<and> g_PodUID g = [] \<and> g_NodeID g = [] \<and>
    g_SupervisorKey g = [] \<and> g_StopKey g = []"

lemma unbound_unplaced:
  assumes "sound e st" "grant_of st i = Some g" "g_StorageID g = []"
  shows "unplaced g"
proof -
  have "validate_grant e st (i, g) = Inr ()"
    using assms(1,2) validated_grant by (auto simp: sound_def)
  with assms(3) show ?thesis
    by (simp add: validate_grant_def bind_res_eq_Inr first_failure_Inr pending_checks_def unplaced_def)
qed

lemma accepted_once:
  assumes "sound e st" "grant_of st i = Some g" "\<not> g_TurnAccepted g"
  shows "g_AcceptProof g = None"
proof (cases "g_WorkerSessionID g = []")
  case True
  have "validate_grant e st (i, g) = Inr ()"
    using assms(1,2) validated_grant by (auto simp: sound_def)
  with True show ?thesis
    by (auto simp: validate_grant_def bind_res_eq_Inr first_failure_Inr task_checks_def session_fields_set_def
        validatePendingSessionGrant_def turn_authority_def split: if_splits)
next
  case False
  obtain ws b where "list_all (\<lambda>(bad, _). \<not> bad) (turn_checks e st ws b g)"
    using validated_turn [OF conjunct2 [OF conjunct2 [OF assms(1) [unfolded sound_def]]] assms(2) False] .
  then show ?thesis
    using assms(3) by (simp add: turn_checks_def turn_receipt_checks_def Let_def)
qed

lemma open_stored: "sound e st \<Longrightarrow> session_of st k = Some ws \<Longrightarrow> ws_Stop ws = None \<Longrightarrow> ws_State ws \<noteq> SessionClosed"
  by (auto simp: sound_def dest: closed_session(2))

section \<open>Claims\<close>

lemma same_claim_le:
  assumes "same_claim a b"
  shows "grant_le b a"
proof -
  have "grant_le x (y\<lparr>g_Envelope := u, g_Metadata := v\<rparr>) = grant_le x y"
    "grant_le (x\<lparr>g_Envelope := u, g_Metadata := v\<rparr>) y = grant_le x y" for x y u v
    by (simp_all add: grant_le_defs)
  then show ?thesis
    using assms by (metis grant_le_refl same_claim_def)
qed

lemma QueueClaim_advances: "QueueClaim e c input st = Inr (st', a) \<Longrightarrow> advances st st'"
  by (auto simp: QueueClaim_def bind_res_eq_Inr intro!: advances_grant split: prod.splits if_splits)

lemma create_scan_form: "create_scan st g olds = Inr g1 \<Longrightarrow> \<exists>n. g1 = g\<lparr>g_Generation := n\<rparr>"
proof (induction st g olds rule: create_scan.induct)
  case (1 st g)
  then show ?case by (auto intro: exI [of _ "g_Generation g"])
next
  case (2 st g old olds)
  then show ?case by (auto split: if_splits)
qed

lemma normalizeClaim_form:
  assumes "normalizeClaim e c input = Inr g"
  defines "g0 \<equiv> with_identity e c input"
  shows "\<not> supplies_execution g0" "\<not> supplies_conversation g0"
    "\<exists>env meta fp d. g = (with_scope e g0)\<lparr>g_Envelope := env, g_Metadata := meta, g_Fingerprint := fp,
       g_RequestDigest := d, g_State := WaitingStorage, g_Generation := 1, g_CreatedAt := c_wall c\<rparr>"
  using assms(1) unfolding normalizeClaim_def normalize_def g0_def [symmetric]
  by (simp_all add: Let_def split: if_splits sum.splits) blast+

lemma with_scope_fields [simp]:
  "g_StorageID (with_scope e g) = g_StorageID g" "g_WorkerSessionID (with_scope e g) = g_WorkerSessionID g"
  "g_Stop (with_scope e g) = g_Stop g" "g_Selection (with_scope e g) = g_Selection g"
  "g_ExecutionRevoked (with_scope e g) = g_ExecutionRevoked g" "g_TurnComplete (with_scope e g) = g_TurnComplete g"
  by (simp_all add: with_scope_def Let_def)

lemma normalizeClaim_fields:
  assumes "normalizeClaim e c input = Inr g"
  shows "g_State g = WaitingStorage" "g_StorageID g = []" "g_WorkerSessionID g = []" "g_Stop g = None"
    "g_Selection g = None" "\<not> g_ExecutionRevoked g" "\<not> g_TurnComplete g"
proof -
  note form = normalizeClaim_form [OF assms]
  have g0: "g_StorageID (with_identity e c input) = []" "g_WorkerSessionID (with_identity e c input) = []"
    "g_Stop (with_identity e c input) = None" "g_Selection (with_identity e c input) = None"
    "\<not> g_ExecutionRevoked (with_identity e c input)" "\<not> g_TurnComplete (with_identity e c input)"
    using form(1,2) unfolding supplies_execution_def supplies_conversation_def by (simp_all only: de_Morgan_disj not_not not_False_eq_True)
  obtain env meta fp d where g: "g = (with_scope e (with_identity e c input))\<lparr>g_Envelope := env,
      g_Metadata := meta, g_Fingerprint := fp, g_RequestDigest := d, g_State := WaitingStorage, g_Generation := 1,
      g_CreatedAt := c_wall c\<rparr>"
    using form(3) by blast
  show "g_State g = WaitingStorage" "g_StorageID g = []" "g_WorkerSessionID g = []" "g_Stop g = None"
    "g_Selection g = None" "\<not> g_ExecutionRevoked g" "\<not> g_TurnComplete g"
    using g0 by (simp_all add: g)
qed

lemma grant_le_activated:
  "grant_le q g \<Longrightarrow> g_State q = WaitingStorage \<Longrightarrow> g_StorageID q = [] \<Longrightarrow> unplaced q \<Longrightarrow>
   grant_le q (activated (g\<lparr>g_Generation := n\<rparr>) b reuse)"
  by (simp add: grant_le_defs activated_def unplaced_def)

lemma queued_claim_le:
  assumes "queued_claim st g pending = Inr g1" "g_State g = WaitingStorage" "g_StorageID g = []"
    "grant_of st (g_AttemptID g) = Some q" "sound e st"
  shows "grant_le q (activated (g1\<lparr>g_Generation := n\<rparr>) b reuse)"
proof -
  from assms have q: "grant_le q g1" "g_StorageID g1 = []" "g_State q = WaitingStorage"
    by (auto simp: queued_claim_def Let_def dest: same_claim_le split: if_splits)
  moreover from q(1,2) have "g_StorageID q = []"
    by (simp add: grant_le_def bindings_kept_def kept_def) metis
  ultimately show ?thesis
    using unbound_unplaced [OF assms(5,4)] by (simp add: grant_le_activated)
qed

lemma queued_claim_key: "queued_claim st g pending = Inr g1 \<Longrightarrow> g_AttemptID g1 = g_AttemptID g"
  by (auto simp: queued_claim_def Let_def split: option.splits if_splits)

section \<open>Admission\<close>

lemma older_idle_mem: "foldl older_idle acc xs = Some ws \<Longrightarrow> acc = Some ws \<or> ws \<in> set xs \<and> ws_State ws = SessionIdle"
  by (induction xs arbitrary: acc) (auto simp: older_idle_def split: option.splits if_splits)

lemma stored_session:
  assumes "sound e st" "ws \<in> set (mvals (r_Sessions st))"
  shows "session_of st (ws_ID ws) = Some ws"
proof -
  from assms obtain i where "session_of st i = Some ws"
    by (auto simp: sound_def maps_ok_def mvals_iff session_of_def)
  with assms(1) show ?thesis
    by simp
qed

lemma oldest_idle_stored:
  assumes "sound e st" "oldest_idle st = Some ws"
  shows "session_of st (ws_ID ws) = Some ws" "ws_State ws = SessionIdle"
  using assms older_idle_mem [of None "mvals (r_Sessions st)" ws]
  by (auto simp: oldest_idle_def intro: stored_session)

lemma stop_stored_advances:
  assumes "requestSessionStop c reason now st ws = (st1, ws1)" "sound e st" "session_of st i = Some ws"
  shows "advances st (put_session i ws1 st1)" "advances st (put_session (ws_ID ws1) ws1 st1)"
proof -
  show "advances st (put_session i ws1 st1)"
    using assms requestSessionStop_form(1) [OF assms(1)]
    by (auto intro!: advances_session requestSessionStop_advances [OF assms(1)] intro: sound_active_known_of
        simp: stopped_session_le)
  then show "advances st (put_session (ws_ID ws1) ws1 st1)"
    using assms requestSessionStop_form(1) [OF assms(1)] by simp
qed

lemma admitResident_advances:
  "sound e st \<Longrightarrow> admitResident c st limit now = (ok, st1) \<Longrightarrow> advances st st1"
  by (auto simp: admitResident_def split: if_splits option.splits prod.splits
      dest: stop_stored_advances(2) oldest_idle_stored(1))

lemma admitted_state: "admitResident c st limit now = (True, st1) \<Longrightarrow> st1 = st"
  by (auto simp: admitResident_def split: if_splits option.splits prod.splits)


lemma Create_advances:
  assumes "sound e st" "Create e c input limit st = Inr (st', a)"
  shows "advances st st'"
proof -
  from assms(2) obtain g0 g1 g2 b reuse ok st1 claim l where
    g0: "normalizeClaim e c claim = Inr g0" and
    g1: "queued_claim st g0 (g_State input = WaitingStorage) = Inr g1" and
    g2: "create_scan st g1 (mvals (r_Grants st)) = Inr g2" and
    admit: "admitResident c st l (c_now c) = (ok, st1)" and
    st': "st' = st1 \<or>
      ok \<and> st' = put_grant (g_AttemptID (activated g2 b reuse)) (activated g2 b reuse)
                   (put_storage (b_ID b) (b\<lparr>b_ActiveAttempt := g_AttemptID (activated g2 b reuse)\<rparr>) st1)"
    unfolding Create_def Let_def bind_res_eq_Inr if_Inl_eq_Inr
    by (elim conjE exE) (simp split: if_splits prod.splits, blast+)
  have st1: "advances st st1"
    by (rule admitResident_advances [OF assms(1) admit])
  obtain n where n: "g2 = g1\<lparr>g_Generation := n\<rparr>"
    using create_scan_form [OF g2] by blast
  have "grant_le q (activated g2 b reuse)" if "grant_of st (g_AttemptID (activated g2 b reuse)) = Some q" for q
    using that queued_claim_le [OF g1 _ _ _ assms(1)] normalizeClaim_fields [OF g0] queued_claim_key [OF g1]
    by (simp add: n activated_def)
  with st1 st' show ?thesis
    by (auto intro!: advances_grant)
qed

section \<open>Operations on one session\<close>

lemma BindWorkspace_advances: "BindWorkspace e n u v st = Inr (st', a) \<Longrightarrow> advances st st'"
  by (auto simp: BindWorkspace_def advances_def keeps_def maps_ok_def grant_of_def terminal_of_def session_of_def
      split: if_splits)

lemma put_stored_advances: "session_of st i = Some v \<Longrightarrow> session_le v w \<Longrightarrow> advances st (put_session i w st)"
  by (auto intro: advances_session)

lemma session_op_advances:
  "SetSessionBootstrap e1 i1 a1 st = Inr (st', r1) \<Longrightarrow> advances st st'"
  "SetSessionResources e2 i2 a2 st = Inr (st', r2) \<Longrightarrow> advances st st'"
  "AdmitSession i3 a3 b3 st = Inr (st', r3) \<Longrightarrow> advances st st'"
  "RecordSessionStopReceipt e4 c4 chs4 i4 a4 b4 st = Inr (st', r4) \<Longrightarrow> advances st st'"
  "RecordSessionControllerFlush i5 st = Inr (st', r5) \<Longrightarrow> advances st st'"
  "MarkSessionCleaned i6 st = Inr (st', r6) \<Longrightarrow> advances st st'"
  by (auto simp: SetSessionBootstrap_def SetSessionResources_def AdmitSession_def RecordSessionStopReceipt_def
      RecordSessionControllerFlush_def MarkSessionCleaned_def Let_def session_le_defs kept_def same_session_stop_def
      intro!: put_stored_advances split: step_splits)

lemma put_known_grant_advances:
  "sound e st \<Longrightarrow> session_of st i = Some ws \<Longrightarrow> ws_ActiveAttempt ws \<noteq> [] \<Longrightarrow>
   grant_le (get_grant st (ws_ActiveAttempt ws)) h \<Longrightarrow>
   g_AttemptID h = g_AttemptID (get_grant st (ws_ActiveAttempt ws)) \<Longrightarrow>
   advances st st1 \<Longrightarrow> advances st (put_grant (g_AttemptID h) h st1)"
  by (auto simp: active_known_def get_by_lookup dest!: sound_active_known_of intro!: advances_grant)

lemma stop_put_advances:
  assumes "requestSessionStop c reason now st ws = (st1, ws1)" "active_known st ws"
    "\<And>v. session_of st i = Some v \<Longrightarrow> session_le v ws"
  shows "advances st (put_session i ws1 st1)"
  using assms(2,3) requestSessionStop_form(1) [OF assms(1)]
  by (auto intro!: advances_session requestSessionStop_advances [OF assms(1)]
      intro: session_le_trans stopped_session_le)

lemma BindSessionPod_advances:
  assumes "sound e st" "BindSessionPod i n u d st = Inr (st', a)"
  shows "advances st st'"
proof -
  from assms(2) obtain ws where ws: "session_of st i = Some ws"
    by (auto simp: BindSessionPod_def split: option.splits)
  let ?w = "ws\<lparr>ws_PodUID := u, ws_NodeID := (if d \<noteq> [] then d else ws_NodeID ws)\<rparr>"
  let ?g = "get_grant st (ws_ActiveAttempt ws)"
  let ?h = "?g\<lparr>g_PodUID := u, g_NodeID := ws_NodeID ?w\<rparr>"
  from assms(2) ws have le: "session_le ws ?w" and
    st': "st' = put_session i ?w st \<or> ws_ActiveAttempt ws \<noteq> [] \<and>
      st' = put_session i ?w (bind_capabilities (g_AttemptID ?h) u (put_grant (g_AttemptID ?h) ?h
        (bind_failure (g_AttemptID ?g) u st)))"
    by (auto simp: BindSessionPod_def Let_def session_le_defs kept_def split: if_splits)
  have "grant_le ?g ?h" if active: "ws_ActiveAttempt ws \<noteq> []"
  proof -
    obtain g where g: "grant_of st (ws_ActiveAttempt ws) = Some g" "g_WorkerSessionID g = i"
      using session_active [OF _ ws active] assms(1) by (auto simp: sound_def)
    then have "g_PodUID g = ws_PodUID ws" "g_NodeID g = ws_NodeID ws"
      using turn_places [OF assms(1) g(1)] ws by simp_all
    then show ?thesis
      using le g(1) by (simp add: grant_le_defs session_le_def get_by_lookup)
  qed
  then have "advances st (put_grant (g_AttemptID ?h) ?h (bind_failure (g_AttemptID ?g) u st))" if "ws_ActiveAttempt ws \<noteq> []"
    using that by (intro put_known_grant_advances [OF assms(1) ws that]) (simp_all add: bind_failure_advances)
  then show ?thesis
    using st' le ws by (auto intro!: advances_session)
qed

section \<open>Turns\<close>

lemma PublishTurn_advances: "sound e st \<Longrightarrow> PublishTurn e c i raw st = Inr (st', a) \<Longrightarrow> advances st st'"
  by (auto elim!: update_grant_advances simp: PublishTurn_def PublishTurn_step_def Let_def grant_le_defs
      session_le_defs intro!: advances_session split: step_splits) (blast dest: open_stored turn_places(4,5))+

lemma AcceptTurn_advances:
  assumes "sound e st" "AcceptTurn e c chs i n d p st = Inr (st', a)"
  shows "advances st st'"
proof -
  from assms(2) obtain ws where ws: "session_of st i = Some ws"
    by (auto simp: AcceptTurn_def split: option.splits)
  let ?g = "get_grant st (ws_ActiveAttempt ws)"
  let ?h = "?g\<lparr>g_TurnAccepted := True, g_AcceptProof := Some p\<rparr>"
  from assms ws have "st' = st \<or> \<not> g_TurnAccepted ?g \<and> g_State ?g = Assigned \<and> st' = put_grant (g_AttemptID ?h) ?h st"
    by (auto simp: AcceptTurn_def Let_def split: if_splits option.splits)
  moreover have "advances st (put_grant (g_AttemptID ?h) ?h st)" if "\<not> g_TurnAccepted ?g" "g_State ?g = Assigned"
  proof -
    from that(2) obtain g where g: "grant_of st (ws_ActiveAttempt ws) = Some g" "?g = g"
      by (auto simp: get_by_lookup zero_grant_def split: option.splits)
    then have "g_AcceptProof g = None"
      using accepted_once [OF assms(1) g(1)] that(1) by simp
    then show ?thesis
      using g assms(1) by (auto simp: grant_le_defs intro!: advances_grant)
  qed
  ultimately show ?thesis
    by auto
qed

lemma turn_receipt_advances:
  "sound e st \<Longrightarrow> RecordTurnReceipt e i r st = Inr (st', a) \<Longrightarrow> advances st st'"
  "sound e st \<Longrightarrow> RecordTurnExecutionReceipt e c chs i x p st = Inr (st', a) \<Longrightarrow> advances st st'"
  by (auto elim!: update_grant_advances simp: RecordTurnReceipt_def RecordTurnReceipt_step_def
      RecordTurnExecutionReceipt_def RecordTurnExecutionReceipt_step_def Let_def grant_le_defs
      intro!: finish_session_advances split: step_splits)

lemma RecordCompletionWitness_advances: "RecordCompletionWitness e i w st = Inr (st', a) \<Longrightarrow> advances st st'"
  by (auto elim!: update_grant_advances simp: RecordCompletionWitness_def RecordCompletionWitness_step_def
      grant_le_defs terminal_le_defs intro!: advances_terminal split: step_splits)

lemma recoverClosedCheckpoint_advances:
  "recoverClosedCheckpoint e c st1 g now = Inr st2 \<Longrightarrow> advances st st2 = advances st st1"
  by (auto simp: recoverClosedCheckpoint_def Let_def split: step_splits)

lemma turn_session_le:
  assumes "turn_session c i g st ws0 = (st1, ws)" "ws_State ws0 \<noteq> SessionClosed"
  shows "st1 = st" "session_le ws0 ws" "ws_ID ws = ws_ID ws0"
proof -
  let ?w = "ws0\<lparr>ws_ActiveAttempt := [], ws_LastCompleteAttempt := i, ws_Revision := ws_Revision ws0 + 1\<rparr>"
  have "session_le ws0 ?w"
    by (simp add: session_le_defs)
  then have "session_le ws0 (stopped_session c r n ?w)" for r n
    by (rule session_le_trans [OF _ stopped_session_le])
  with assms show "st1 = st" "session_le ws0 ws" "ws_ID ws = ws_ID ws0"
    by (auto simp: turn_session_def Let_def requestSessionStop_def session_le_defs split: if_splits)
qed

lemma CompleteTurn_advances:
  assumes "sound e st" "CompleteTurn e c i st = Inr (st', a)"
  shows "advances st st'"
  using assms(2) unfolding CompleteTurn_def
proof (rule update_grant_advances)
  fix g st1 h
  assume g: "grant_of st i = Some g" and s: "CompleteTurn_step e c i st g = Inr (st1, h, a)"
  show "grant_le g h \<and> advances st st1"
  proof (cases "g_TurnComplete g")
    case True
    then show ?thesis
      using s by (auto simp: CompleteTurn_step_def bind_res_eq_Inr recoverClosedCheckpoint_advances)
  next
    case False
    with s obtain ws0 ws b st2 where
      ws0: "session_of st (g_WorkerSessionID g) = Some ws0" "turn_completable e st i ws0 g" and
      h: "h = g\<lparr>g_TurnComplete := True, g_ExecutionRevoked := True, g_State := Closed\<rparr>" and
      t: "turn_session c i h st ws0 = (st2, ws)" "st1 = put_session (ws_ID ws) ws (put_storage (b_ID b) b st2)"
      by (auto simp: CompleteTurn_step_def Let_def split: if_splits option.splits prod.splits)
    have "ws_State ws0 \<noteq> SessionClosed"
      using assms(1) ws0 closed_session(1) grant_key_nonempty [OF assms(1) g]
      by (auto simp: sound_def turn_completable_def Let_def)
    note le = turn_session_le [OF t(1) this]
    show ?thesis
      using h t(2) le ws0(1) assms(1) by (auto simp: grant_le_defs intro!: advances_session)
  qed
qed

section \<open>Stopping and closing a session\<close>

lemma RequestSessionStop_advances:
  "sound e st \<Longrightarrow> RequestSessionStop c i reason st = Inr (st', a) \<Longrightarrow> advances st st'"
  by (auto simp: RequestSessionStop_def split: step_splits intro: stop_stored_advances)

lemma RequestSessionStopSigned_advances:
  assumes "sound e st" "RequestSessionStopSigned e c chs i reason p st = Inr (st', a)"
  shows "advances st st'"
proof -
  from assms(2) obtain ws where ws: "session_of st i = Some ws"
    by (auto simp: RequestSessionStopSigned_def split: if_splits option.splits)
  obtain st1 ws1 where r: "requestSessionStop c reason (c_now c) st ws = (st1, ws1)"
    by force
  let ?w = "ws1\<lparr>ws_Stop := map_option (\<lambda>s. s\<lparr>ssp_RequestProof := Some p, ssp_RequestReason := reason\<rparr>) (ws_Stop ws1)\<rparr>"
  have "session_le ws1 ?w"
    by (auto simp: session_le_defs same_session_stop_def split: option.splits)
  then have "session_le ws ?w"
    using requestSessionStop_form(1) [OF r] by (auto intro: session_le_trans stopped_session_le)
  then have "advances st (put_session i ?w st1)"
    using assms(1) ws by (auto intro!: advances_session requestSessionStop_advances [OF r] intro: sound_active_known_of)
  then show ?thesis
    using assms(2) ws r by (auto simp: RequestSessionStopSigned_def Let_def split: if_splits)
qed

lemma ObserveSessionStop_advances:
  assumes "sound e st" "ObserveSessionStop i ev st = Inr (st', a)"
  shows "advances st st'"
proof -
  from assms(2) obtain ws stop where ws: "session_of st i = Some ws" "ws_Stop ws = Some stop"
    by (auto simp: ObserveSessionStop_def split: option.splits)
  let ?w = "ws\<lparr>ws_Stop := Some (stop\<lparr>ssp_Evidence := Some ev\<rparr>)\<rparr>"
  let ?g = "get_grant st (ws_ActiveAttempt ws)"
  let ?h = "\<lambda>s. ?g\<lparr>g_Stop := Some (s\<lparr>sp_Evidence := Some ev\<rparr>)\<rparr>"
  from assms(2) ws have st': "st' = st \<or> ssp_Evidence stop = None \<and> (st' = put_session i ?w st \<or>
      (\<exists>s. ws_ActiveAttempt ws \<noteq> [] \<and> g_Stop ?g = Some s \<and>
           st' = put_session i ?w (put_grant (g_AttemptID (?h s)) (?h s) st)))"
    by (auto simp: ObserveSessionStop_def Let_def split: if_splits option.splits)
  have w: "session_le ws ?w" if "ssp_Evidence stop = None"
    using that ws(2) by (simp add: session_le_defs same_session_stop_def)
  have "advances st (put_grant (g_AttemptID (?h s)) (?h s) st)" if "ws_ActiveAttempt ws \<noteq> []" "g_Stop ?g = Some s" for s
    by (rule put_known_grant_advances [OF assms(1) ws(1) that(1)])
      (use that(2) in \<open>simp_all add: grant_le_defs same_stop_def\<close>)
  then show ?thesis
    using st' w ws(1) by (auto intro!: advances_session)
qed

lemma CloseSession_advances:
  assumes "sound e st" "CloseSession e c i st = Inr (st', a)"
  shows "advances st st'"
proof -
  from assms(2) obtain ws where ws: "session_of st i = Some ws"
    by (auto simp: CloseSession_def split: option.splits)
  let ?h = "closed_turn (get_grant st (ws_ActiveAttempt ws))"
  let ?st1 = "if ws_ActiveAttempt ws \<noteq> [] then put_grant (g_AttemptID ?h) ?h st else st"
  let ?w = "ws\<lparr>ws_ActiveAttempt := [], ws_State := SessionClosed, ws_Revision := ws_Revision ws + 1\<rparr>"
  have 1: "advances st ?st1"
    using put_known_grant_advances [OF assms(1) ws, of ?h st] by (auto simp: closed_turn_def grant_le_defs)
  have 2: "session_le ws ?w"
    by (simp add: session_le_defs)
  let ?b = "closed_storage (ws_ActiveAttempt ws \<noteq> []) (sessionStoppedClean st ws) (get_storage st (ws_StorageID ws))"
  let ?st2 = "put_session i ?w (put_storage (b_ID ?b) ?b ?st1)"
  have key: "g_AttemptID (closed_turn g) = g_AttemptID g" for g
    by (simp add: closed_turn_def)
  have "st' = st \<or> st' = ?st2 \<or> (\<exists>latest. recoverClosedCheckpoint e c ?st2 latest (c_now c) = Inr st')"
    using assms(2) unfolding CloseSession_def Let_def key ws option.case by (simp split: if_splits sum.splits) blast+
  then have "st' = st \<or> advances st st' = advances st ?st2"
    by (auto simp only: recoverClosedCheckpoint_advances)
  with 1 2 ws show ?thesis
    by (auto intro!: advances_session)
qed

lemma QuarantineSession_advances:
  assumes "sound e st" "QuarantineSession c i st = Inr (st', a)"
  shows "advances st st'"
proof -
  from assms(2) obtain ws where ws: "session_of st i = Some ws" "ws_State ws \<noteq> SessionClosed"
    by (auto simp: QuarantineSession_def split: option.splits if_splits)
  obtain st1 ws1 where r: "requestSessionStop c ''session_unproven'' (c_now c) st ws = (st1, ws1)"
    by force
  define b where "b = (get_storage st1 (ws_StorageID ws1))\<lparr>b_Quarantined := True\<rparr>"
  have st': "st' = put_session i (ws1\<lparr>ws_State := SessionQuarantined\<rparr>) (put_storage (b_ID b) b st1)"
    using assms(2) ws r by (simp add: QuarantineSession_def Let_def b_def)
  have "session_le ws ws1"
    using requestSessionStop_form(1) [OF r] by (simp add: stopped_session_le)
  with ws(2) have "session_le ws (ws1\<lparr>ws_State := SessionQuarantined\<rparr>)"
    by (simp add: session_le_defs)
  with ws(1) assms(1) show ?thesis
    unfolding st' by (auto intro!: advances_session requestSessionStop_advances [OF r] intro: sound_active_known_of)
qed

lemma ExpireSession_advances:
  assumes "sound e st" "ExpireSession c i retention st = Inr (st', a)"
  shows "advances st st'"
proof -
  from assms(2) obtain ws where ws: "session_of st i = Some ws"
    by (auto simp: ExpireSession_def split: if_splits option.splits)
  have le: "session_le ws (ws\<lparr>ws_IdleDeadline := d\<rparr>)" "session_le ws (ws\<lparr>ws_IdleDeadline := d, ws_LastObservedAt := t\<rparr>)"
    "session_le ws (ws\<lparr>ws_LastObservedAt := t\<rparr>)" for d t
    by (simp_all add: session_le_defs)
  have known: "active_known st ws" "active_known st (ws\<lparr>ws_IdleDeadline := d\<rparr>)" for d
    using sound_active_known_of [OF assms(1) ws] by (simp_all add: active_known_def)
  show ?thesis
    using assms(2) ws le known
    by (auto simp: ExpireSession_def Let_def intro: put_stored_advances stop_put_advances split: if_splits prod.splits)
qed

lemma DrainIdleSession_advances:
  "sound e st \<Longrightarrow> DrainIdleSession c i r reason st = Inr (st', a) \<Longrightarrow> advances st st'"
  by (auto simp: DrainIdleSession_def split: step_splits intro: stop_stored_advances)

lemma CreateSessionChallenge_advances:
  "sound e st \<Longrightarrow> CreateSessionChallenge c chs i token op d st = Inr (st', r) \<Longrightarrow> advances st st'"
  by (auto simp: CreateSessionChallenge_def expire_for_challenge_def Let_def split: step_splits
      intro: stop_stored_advances)

section \<open>Reserving a turn\<close>

text \<open>The two identities that \<^verbatim>\<open>uuid.NewString\<close> draws for a new storage and a new session are
  not in the journal yet.\<close>

definition fresh_ids :: "call \<Rightarrow> registry \<Rightarrow> bool" where
  "fresh_ids c st \<longleftrightarrow> session_of st (c_uuid c 3) = None \<and> storage_of st (c_uuid c 2) = None"

lemma sequence_rises: "n \<noteq> - 1 \<Longrightarrow> n \<le> n + (1 :: u64)"
proof -
  assume "n \<noteq> - 1"
  then have "1 + n \<noteq> 0"
    by (metis add.commute eq_neg_iff_add_eq_0)
  then show ?thesis
    by (simp add: word_le_nat_alt unatSuc add.commute)
qed

definition idle_writer :: "registry \<Rightarrow> worker_session \<Rightarrow> bool" where
  "idle_writer st ws \<longleftrightarrow> ws_ID ws = [] \<or> session_of st (ws_ID ws) = Some ws \<and> ws_State ws = SessionIdle"

lemma reserved_session_le:
  "ws_State ws = SessionIdle \<Longrightarrow> ws_Stop ws = None \<Longrightarrow> ws_TurnSequence ws \<noteq> - 1 \<Longrightarrow>
   session_le ws (reserved_session c i retention (ws\<lparr>ws_State := s, ws_Revision := r\<rparr>))"
  by (simp add: session_le_defs reserved_session_def sequence_rises)

lemma reserved_grant_le:
  "g_State g = WaitingStorage \<Longrightarrow> g_WorkerSessionID g = [] \<Longrightarrow> g_StorageID g = [] \<Longrightarrow> unplaced g \<Longrightarrow>
   g_Selection g = None \<or> g_Selection g = Some s \<Longrightarrow> grant_le g (reserved_grant g s d b ws)"
  by (auto simp: grant_le_defs reserved_grant_def kept_def unplaced_def)

lemma take_turn_advances:
  assumes "sound e st" "fresh_ids c st" "take_turn e c i s d retention limit g v b ws0 st = Inr (st', r)"
    and "grant_of st i = Some g" "\<And>b ws. grant_le g (reserved_grant g s d b ws)" "idle_writer st ws0"
  shows "advances st st'"
proof -
  let ?new = "new_session c (ConversationKey_Digest e (sel_Conversation s)) g s d b retention"
  obtain ok st1 where admit: "(if ws_ID ws0 = [] then admitResident c st limit (c_now c) else (True, st)) = (ok, st1)"
    by force
  then have st1: "advances st st1" "ok \<Longrightarrow> st1 = st"
    using admitResident_advances [OF assms(1)] admitted_state by (auto split: if_splits)
  define ws1 where "ws1 =
    (if ws_ID ws0 = [] then ?new else ws0\<lparr>ws_State := SessionReserved, ws_Revision := ws_Revision ws0 + 1\<rparr>)"
  define ws where "ws = reserved_session c i retention ws1"
  have "take_turn e c i s d retention limit g v b ws0 st =
      (if \<not> turn_storage_free b ws0 then Inl ErrStorageBusy else if \<not> ok then Inr (st1, Inl ErrResidentCapacity)
       else if ws_TurnSequence ws1 = - 1 then Inl ErrConflict
       else let (st2, g1) = commit_turn e i s d g v b ws st1 in Inr (st2, Inr (g1, ws)))"
    unfolding take_turn_def Let_def admit ws1_def [symmetric] ws_def [symmetric] by simp
  moreover have "ws_ID ws0 \<noteq> [] \<Longrightarrow> ws_TurnSequence ws1 = ws_TurnSequence ws0"
    by (simp add: ws1_def)
  ultimately have "st' = st1 \<or> ok \<and> st' = fst (commit_turn e i s d g v b ws st1) \<and>
      (ws_ID ws0 \<noteq> [] \<longrightarrow> ws_TurnSequence ws0 \<noteq> - 1)"
    using assms(3) by (auto split: if_splits prod.splits)
  moreover have "session_le u ws" if "session_of st (ws_ID ws) = Some u" "ws_ID ws0 \<noteq> [] \<longrightarrow> ws_TurnSequence ws0 \<noteq> - 1" for u
  proof (cases "ws_ID ws0 = []")
    case True
    then show ?thesis
      using that assms(2) by (simp add: ws_def ws1_def reserved_session_def new_session_def fresh_ids_def)
  next
    case False
    then have "u = ws0" "ws_State ws0 = SessionIdle"
      using assms(6) that(1) by (auto simp: ws_def ws1_def reserved_session_def idle_writer_def)
    moreover have "ws_Stop ws0 = None"
      using assms(1,6) False idle_session(2) [of e st "ws_ID ws0" ws0] by (simp add: sound_def idle_writer_def)
    ultimately show ?thesis
      using False that(2) by (simp add: ws_def ws1_def reserved_session_le)
  qed
  ultimately show ?thesis
    using st1 assms(4,5) by (auto simp: commit_turn_def Let_def intro!: advances_grant advances_session)
qed

lemma turn_requested_fields:
  assumes "turn_requested e c i s d g st = Inr ()"
  shows "g_State g = WaitingStorage" "g_Selection g = None \<or> g_Selection g = Some s" "\<not> g_ExecutionRevoked g"
  using assms by (auto simp: turn_requested_def bind_res_eq_Inr split: if_splits option.splits)

lemma turn_source_idle:
  "sound e st \<Longrightarrow> turn_source e c st g s d = Inr (b, ws) \<Longrightarrow> idle_writer st ws"
  by (auto simp: turn_source_def selectedWarmStorage_def warmStorageSession_def warm_session_ok_def bind_res_eq_Inr
      idle_writer_def split: if_splits option.splits)

lemma turn_current_idle:
  "turn_current c st g s b retention v = CurrentContinues ws \<Longrightarrow> ws = get_session st (cv_CurrentSessionID v) \<and> ws_State ws = SessionIdle"
  "turn_current c st g s b retention v = CurrentReplaced ws reason \<Longrightarrow> ws = get_session st (cv_CurrentSessionID v)"
  by (auto simp: turn_current_def Let_def split: if_splits)

lemma get_idle_writer: "sound e st \<Longrightarrow> ws_State (get_session st k) = SessionIdle \<Longrightarrow> idle_writer st (get_session st k)"
  by (auto simp: get_by_lookup idle_writer_def split: option.splits)

lemma reserve_turn_advances:
  assumes "sound e st" "fresh_ids c st" "reserve_turn e c i s d retention limit g st = Inr (st', r)"
    and "grant_of st i = Some g" "g_WorkerSessionID g = []"
  shows "advances st st'"
proof -
  from assms(3) obtain v b0 ws0 where req: "turn_requested e c i s d g st = Inr ()"
    and src: "turn_source e c st g s d = Inr (b0, ws0)" and v: "turn_conversation e st s = Inr v"
    by (auto simp: reserve_turn_def bind_res_eq_Inr)
  note g = turn_requested_fields [OF req]
  have le: "grant_le g (reserved_grant g s d b ws)" for b ws
    using g assms(5) waiting_unbound [OF assms(1,4)] unbound_unplaced [OF assms(1,4)] by (simp add: reserved_grant_le)
  note take = take_turn_advances [OF assms(1,2) _ assms(4) le]
  show ?thesis
  proof (cases "turn_current c st g s b0 retention v")
    case CurrentFree
    then show ?thesis
      using assms(3) req src v turn_source_idle [OF assms(1) src]
      by (auto simp: reserve_turn_def bind_res_eq_Inr intro: take)
  next
    case (CurrentContinues ws)
    then show ?thesis
      using assms(1,3) req src v
      by (auto simp: reserve_turn_def bind_res_eq_Inr dest!: turn_current_idle(1) intro: take get_idle_writer)
  next
    case CurrentBusy
    then show ?thesis
      using assms(3) req src v by (simp add: reserve_turn_def)
  next
    case (CurrentReplaced ws reason)
    then show ?thesis
      using assms(1,3) req src v
      by (auto simp: reserve_turn_def dest!: turn_current_idle(2) intro: stop_and_put_advances split: prod.splits)
  qed
qed

lemma ReserveTurn_advances:
  "sound e st \<Longrightarrow> fresh_ids c st \<Longrightarrow> ReserveTurn e c i s d retention limit st = Inr (st', r) \<Longrightarrow> advances st st'"
  by (auto simp: ReserveTurn_def bind_res_eq_Inr split: if_splits option.splits intro: reserve_turn_advances)

end
