(* ===== verification/Journal_Runs.thy ===== *)
theory Journal_Runs
  imports Advance_Sessions
begin

text \<open>
  The journal as a state machine.  \<open>journal_step\<close> has one rule per operation of the store's
  interface (in any order, with any arguments and any surroundings \<open>call\<close>) and one for the
  restart.  \<open>committed\<close> adds what \<^verbatim>\<open>transaction\<close> guarantees: the journal before and after is
  valid.  Every committed step advances the journal, and so does every run, which the
  interpretations of \<open>history\<close> turn into facts on grants, terminals and sessions.
\<close>

section \<open>Restarting\<close>

lemma restarted_lookups [simp]:
  "grant_of (restarted st) i = map_option restart_grant (grant_of st i)"
  "terminal_of (restarted st) i = map_option restart_terminal (terminal_of st i)"
  "session_of (restarted st) = session_of st" "storage_of (restarted st) = storage_of st"
  by (simp_all add: restarted_def grant_of_def terminal_of_def session_of_def [abs_def] storage_of_def [abs_def]
      map_of_map comp_def)

lemma restart_grant_le: "grant_le g (restart_grant g)"
  by (simp add: grant_le_defs restart_grant_def)

lemma restart_terminal_le: "terminal_le t (restart_terminal t)"
  by (auto simp: terminal_le_defs restart_terminal_def Let_def split: option.splits)

lemma restarted_advances: "advances st (restarted st)"
  by (auto simp: advances_def keeps_def restart_grant_le restart_terminal_le) (simp add: maps_ok_def restarted_def)

section \<open>Steps\<close>

inductive journal_step :: "env \<Rightarrow> registry \<Rightarrow> registry \<Rightarrow> bool" for e where
  do_BeginPreparation: "BeginPreparation e i p st = Inr (st', a0) \<Longrightarrow> journal_step e st st'"
| do_CheckpointPreparation: "CheckpointPreparation e i pr st = Inr (st', a1) \<Longrightarrow> journal_step e st st'"
| do_InterruptPreparation: "InterruptPreparation e c i p st = Inr (st', a2) \<Longrightarrow> journal_step e st st'"
| do_CompletePreparation: "CompletePreparation e i prep x st = Inr (st', a3) \<Longrightarrow> journal_step e st st'"
| do_BindPod: "BindPod i name uid node st = Inr (st', a4) \<Longrightarrow> journal_step e st st'"
| do_Admit: "Admit i key st = Inr (st', a5) \<Longrightarrow> journal_step e st st'"
| do_Offer: "Offer i st = Inr (st', a6) \<Longrightarrow> journal_step e st st'"
| do_BeginStart: "BeginStart c i st = Inr (st', a7) \<Longrightarrow> journal_step e st st'"
| do_MarkStarted: "MarkStarted c i st = Inr (st', a8) \<Longrightarrow> journal_step e st st'"
| do_SetBootstrap: "SetBootstrap e i raw st = Inr (st', a9) \<Longrightarrow> journal_step e st st'"
| do_SetResources: "SetResources e i raw st = Inr (st', a10) \<Longrightarrow> journal_step e st st'"
| do_MarkCleaned: "MarkCleaned i st = Inr (st', a11) \<Longrightarrow> journal_step e st st'"
| do_Quarantine: "Quarantine c i st = Inr (st', a12) \<Longrightarrow> journal_step e st st'"
| do_BeginCheckout: "BeginCheckout e i p st = Inr (st', a13) \<Longrightarrow> journal_step e st st'"
| do_CompleteCheckout: "CompleteCheckout i p st = Inr (st', a14) \<Longrightarrow> journal_step e st st'"
| do_CloseCheckouts: "CloseCheckouts i st = Inr (st', a15) \<Longrightarrow> journal_step e st st'"
| do_CheckoutsFlushed: "CheckoutsFlushed i st = Inr (st', a16) \<Longrightarrow> journal_step e st st'"
| do_ReceiveEvent: "ReceiveEvent e i n body st = Inr (st', a17) \<Longrightarrow> journal_step e st st'"
| do_EventDelivery: "EventDelivery i n before after st = Inr (st', a18) \<Longrightarrow> journal_step e st st'"
| do_RecordCompatibility: "RecordCompatibility e i k st = Inr (st', a19) \<Longrightarrow> journal_step e st st'"
| do_RecordSelection: "RecordSelection e c i s d st = Inr (st', a20) \<Longrightarrow> journal_step e st st'"
| do_RecordBackendSelection: "RecordBackendSelection e i s st = Inr (st', a21) \<Longrightarrow> journal_step e st st'"
| do_IssueCapability: "IssueCapability e c i audience expiry st = Inr (st', a22) \<Longrightarrow> journal_step e st st'"
| do_RequestStop: "RequestStop c i reason st = Inr (st', a23) \<Longrightarrow> journal_step e st st'"
| do_PinStopSupervisor: "PinStopSupervisor i podUID pvcUID node key st = Inr (st', a24) \<Longrightarrow> journal_step e st st'"
| do_ReceiveStopReceipt: "ReceiveStopReceipt e i sr st = Inr (st', a25) \<Longrightarrow> journal_step e st st'"
| do_ObserveStop: "ObserveStop i ev st = Inr (st', a26) \<Longrightarrow> journal_step e st st'"
| do_CloseStopped: "CloseStopped i st = Inr (st', a27) \<Longrightarrow> journal_step e st st'"
| do_ReceiveTerminal: "ReceiveTerminal e c i kind body resume d st = Inr (st', a28) \<Longrightarrow> journal_step e st st'"
| do_ReceiveFailure: "ReceiveFailure e c i body st = Inr (st', a29) \<Longrightarrow> journal_step e st st'"
| do_Seal: "Seal e i sg st = Inr (st', a30) \<Longrightarrow> journal_step e st st'"
| do_RecordResultReceipt: "RecordResultReceipt e i rr st = Inr (st', a31) \<Longrightarrow> journal_step e st st'"
| do_RecordRecoveryFailure: "RecordRecoveryFailure e c i body st = Inr (st', a32) \<Longrightarrow> journal_step e st st'"
| do_BeginForward: "BeginForward i st = Inr (st', a33) \<Longrightarrow> journal_step e st st'"
| do_RejectTerminal: "RejectTerminal i st = Inr (st', a34) \<Longrightarrow> journal_step e st st'"
| do_ResumeForward: "ResumeForward i st = Inr (st', a35) \<Longrightarrow> journal_step e st st'"
| do_BeginRecoveryForward: "BeginRecoveryForward i st = Inr (st', a36) \<Longrightarrow> journal_step e st st'"
| do_FinishRecoveryForward: "FinishRecoveryForward i outcome st = Inr (st', a37) \<Longrightarrow> journal_step e st st'"
| do_RejectRecoveryFailure: "RejectRecoveryFailure i st = Inr (st', a38) \<Longrightarrow> journal_step e st st'"
| do_FinishForward: "FinishForward i outcome st = Inr (st', a39) \<Longrightarrow> journal_step e st st'"
| do_BeginFailureForward: "BeginFailureForward i st = Inr (st', a40) \<Longrightarrow> journal_step e st st'"
| do_RejectFailure: "RejectFailure i st = Inr (st', a41) \<Longrightarrow> journal_step e st st'"
| do_QueueClaim: "QueueClaim e c g st = Inr (st', a42) \<Longrightarrow> journal_step e st st'"
| do_Create: "Create e c g limit st = Inr (st', a43) \<Longrightarrow> journal_step e st st'"
| do_BindWorkspace: "BindWorkspace e name uid server st = Inr (st', a44) \<Longrightarrow> journal_step e st st'"
| do_SetSessionBootstrap: "SetSessionBootstrap e i raw st = Inr (st', a45) \<Longrightarrow> journal_step e st st'"
| do_SetSessionResources: "SetSessionResources e i raw st = Inr (st', a46) \<Longrightarrow> journal_step e st st'"
| do_BindSessionPod: "BindSessionPod i name uid node st = Inr (st', a47) \<Longrightarrow> journal_step e st st'"
| do_AdmitSession: "AdmitSession i d key st = Inr (st', a48) \<Longrightarrow> journal_step e st st'"
| do_PublishTurn: "PublishTurn e c i raw st = Inr (st', a49) \<Longrightarrow> journal_step e st st'"
| do_AcceptTurn: "AcceptTurn e c chs i n d pf st = Inr (st', a50) \<Longrightarrow> journal_step e st st'"
| do_RequestSessionStop: "RequestSessionStop c i reason st = Inr (st', a51) \<Longrightarrow> journal_step e st st'"
| do_RequestSessionStopSigned: "RequestSessionStopSigned e c chs i reason pf st = Inr (st', a52) \<Longrightarrow> journal_step e st st'"
| do_RecordTurnReceipt: "RecordTurnReceipt e i tr st = Inr (st', a53) \<Longrightarrow> journal_step e st st'"
| do_RecordTurnExecutionReceipt: "RecordTurnExecutionReceipt e c chs i xr pf st = Inr (st', a54) \<Longrightarrow> journal_step e st st'"
| do_RecordCompletionWitness: "RecordCompletionWitness e i w st = Inr (st', a55) \<Longrightarrow> journal_step e st st'"
| do_CompleteTurn: "CompleteTurn e c i st = Inr (st', a56) \<Longrightarrow> journal_step e st st'"
| do_RecordSessionStopReceipt: "RecordSessionStopReceipt e c chs i ssr pf st = Inr (st', a57) \<Longrightarrow> journal_step e st st'"
| do_ObserveSessionStop: "ObserveSessionStop i ev st = Inr (st', a58) \<Longrightarrow> journal_step e st st'"
| do_RecordSessionControllerFlush: "RecordSessionControllerFlush i st = Inr (st', a59) \<Longrightarrow> journal_step e st st'"
| do_CloseSession: "CloseSession e c i st = Inr (st', a60) \<Longrightarrow> journal_step e st st'"
| do_MarkSessionCleaned: "MarkSessionCleaned i st = Inr (st', a61) \<Longrightarrow> journal_step e st st'"
| do_QuarantineSession: "QuarantineSession c i st = Inr (st', a62) \<Longrightarrow> journal_step e st st'"
| do_ExpireSession: "ExpireSession c i retention st = Inr (st', a63) \<Longrightarrow> journal_step e st st'"
| do_DrainIdleSession: "DrainIdleSession c i revision reason st = Inr (st', a64) \<Longrightarrow> journal_step e st st'"
| do_CreateSessionChallenge: "CreateSessionChallenge c chs i token op d st = Inr (st', a65) \<Longrightarrow> journal_step e st st'"
| do_ReserveTurn: "fresh_ids c st \<Longrightarrow> ReserveTurn e c i s d retention limit st = Inr (st', a66) \<Longrightarrow> journal_step e st st'"
| do_restart: "journal_step e st (restarted st)"


lemmas free_step_advances =
  grant_op_advances stop_op_advances delivery_advances RejectRecoveryFailure_advances receipt_advances
  QueueClaim_advances BindWorkspace_advances session_op_advances RecordCompletionWitness_advances

lemmas sound_step_advances =
  Admit_advances PinStopSupervisor_advances MarkStarted_advances RequestStop_advances InterruptPreparation_advances Quarantine_advances
  ReceiveTerminal_advances ReceiveFailure_advances Create_advances BindSessionPod_advances PublishTurn_advances
  AcceptTurn_advances turn_receipt_advances CompleteTurn_advances RequestSessionStop_advances
  RequestSessionStopSigned_advances ObserveSessionStop_advances CloseSession_advances QuarantineSession_advances
  ExpireSession_advances DrainIdleSession_advances CreateSessionChallenge_advances

lemma journal_step_advances: "journal_step e st st' \<Longrightarrow> sound e st \<Longrightarrow> advances st st'"
  by (induction rule: journal_step.induct)
    ((rule free_step_advances, assumption) | (rule sound_step_advances, assumption, assumption) |
      (rule ReserveTurn_advances, assumption, assumption, assumption) | rule restarted_advances)+

definition committed :: "env \<Rightarrow> registry \<Rightarrow> registry \<Rightarrow> bool" where
  "committed e st st' \<longleftrightarrow> sound e st \<and> journal_step e st st' \<and> validated e st'"

lemma committed_advances: "committed e st st' \<Longrightarrow> advances st st'"
  by (auto simp: committed_def intro: journal_step_advances)

lemma committed_sound: "committed e st st' \<Longrightarrow> sound e st'"
  using committed_advances by (fastforce simp: committed_def sound_def advances_def)

interpretation grants: history grant_of grant_le "committed e" for e
  by unfold_locales (auto intro: grant_le_trans dest: committed_advances simp: advances_def)

interpretation terminals: history terminal_of terminal_le "committed e" for e
  by unfold_locales (auto intro: terminal_le_trans dest: committed_advances simp: advances_def)

interpretation sessions: history session_of session_le "committed e" for e
  by unfold_locales (auto intro: session_le_trans dest: committed_advances simp: advances_def)

lemma run_sound: "(committed e)\<^sup>*\<^sup>* st st' \<Longrightarrow> sound e st \<Longrightarrow> sound e st'"
  by (induction rule: rtranclp_induct) (auto dest: committed_sound)

end
