(* ===== verification/Samples.thy ===== *)
theory Samples
  imports Journal_Runs
begin

text \<open>
  Concrete journals for the instances of the properties: a journal with one queued claim, and
  the proof that it is sound.
\<close>

lemma sample_env_fields [simp]:
  "e_digest (sample_env owner) s = sample_sha" "e_verify (sample_env owner) k m sig = (sig = ''ok'')"
  "e_parse_ip (sample_env owner) s = (s = ''10.0.0.1'')" "o_OwnerID (sample_env owner) = owner"
  "o_MaxRecordBytes (sample_env owner) = 8388608" "o_MaxStoreBytes (sample_env owner) = 67108864"
  "o_MaxTasks (sample_env owner) = 10000" "o_MaxPendingResults (sample_env owner) = 1000"
  "o_MaxPendingResultBytes (sample_env owner) = 33554432"
  by (simp_all add: sample_env_def, simp add: sample_sha_def eval)

lemma empty_object_valid [simp]: "json_valid ''{}''"
  by (simp add: json_valid_def parse_json_def parse_fuel_def numeral_eq_Suc max_depth_def skip_ws_def json_ws_def)

definition sample_call :: call where
  "sample_call = \<lparr>c_now = 100, c_wall = 100, c_uuid = (\<lambda>n. if n = 2 then uuid_d else uuid_b), c_random = [],
     c_session_ok = (\<lambda>_ _. True)\<rparr>"

definition sample_grant :: "stop_record option \<Rightarrow> bool \<Rightarrow> grant_state \<Rightarrow> task_grant" where
  "sample_grant stop revoked state = zero_grant\<lparr>g_OwnerID := uuid_a, g_TaskID := uuid_b, g_AttemptID := uuid_c,
     g_RuntimeID := ''rt'', g_WorkspaceID := ''ws'', g_AgentID := ''agent'', g_Fingerprint := sample_sha,
     g_RuntimeRef := sample_ref, g_ScopeDigest := sample_sha, g_RequestDigest := sample_sha, g_Envelope := ''{}'',
     g_Metadata := ''{}'', g_Generation := 1, g_CreatedAt := 7, g_Stop := stop, g_ExecutionRevoked := revoked,
     g_State := state\<rparr>"

lemma sample_grant_fields [simp]:
  "g_OwnerID (sample_grant stop r s) = uuid_a" "g_TaskID (sample_grant stop r s) = uuid_b"
  "g_AttemptID (sample_grant stop r s) = uuid_c" "g_StorageID (sample_grant stop r s) = []"
  "g_State (sample_grant stop r s) = s" "g_Stop (sample_grant stop r s) = stop" "g_PodUID (sample_grant stop r s) = []"
  "g_PVCUID (sample_grant stop r s) = []" "g_CleanupComplete (sample_grant stop r s) = False"
  "g_WorkerSessionID (sample_grant stop r s) = []" "g_Events (sample_grant stop r s) = []"
  "g_ExecutionRevoked (sample_grant stop r s) = r"
  "(sample_grant stop r s)\<lparr>g_Stop := stop1, g_ExecutionRevoked := r1\<rparr> = sample_grant stop1 r1 s"
  "(sample_grant stop r s)\<lparr>g_State := s1\<rparr> = sample_grant stop r s1"
  by (simp_all add: sample_grant_def zero_grant_def)

lemma sample_grant_unset [simp]:
  "\<not> g_StartConfirmed (sample_grant stop r s)" "g_CheckoutProcess (sample_grant stop r s) = None"
  "\<not> g_CheckoutNeedsFlush (sample_grant stop r s)" "g_PreparationProcess (sample_grant stop r s) = None"
  "g_StopKey (sample_grant stop r s) = []" "g_Resources (sample_grant stop r s) = []"
  "g_Bootstrap (sample_grant stop r s) = []" "g_ResourceScope (sample_grant stop r s) = []"
  "g_Repositories (sample_grant stop r s) = []" "g_BackendSelection (sample_grant stop r s) = None"
  "g_Selection (sample_grant stop r s) = None" "g_Compatibility (sample_grant stop r s) = None"
  "g_Conversation (sample_grant stop r s) = zero_conversation_key" "g_CompatibilityDigest (sample_grant stop r s) = []"
  "g_WorkspaceCompatibilityDigest (sample_grant stop r s) = []" "\<not> turn_authority (sample_grant stop r s)"
  "g_PVCName (sample_grant stop r s) = []" "g_PodName (sample_grant stop r s) = []"
  "g_NodeID (sample_grant stop r s) = []" "g_SupervisorKey (sample_grant stop r s) = []"
  "g_BootstrapDigest (sample_grant stop r s) = []" "g_ResumeSession (sample_grant stop r s) = []"
  "g_ResumeWorkDir (sample_grant stop r s) = []"
  by (simp_all add: turn_authority_def, simp_all add: sample_grant_def zero_grant_def)

definition sample_journal :: "task_grant \<Rightarrow> terminal option \<Rightarrow> registry" where
  "sample_journal g t =
    (empty_registry (sample_env uuid_a))\<lparr>r_Grants := [(uuid_c, g)],
       r_Terminals := (case t of None \<Rightarrow> [] | Some u \<Rightarrow> [(uuid_c, u)])\<rparr>"

lemma sample_lookups [simp]:
  "grant_of (sample_journal g t) uuid_c = Some g" "terminal_of (sample_journal g t) uuid_c = t"
  "put_grant uuid_c h (sample_journal g t) = sample_journal h t"
  "put_terminal uuid_c u (sample_journal g t) = sample_journal g (Some u)"
  "r_OwnerID (sample_journal g t) = uuid_a"
  "r_Terminals (sample_journal g t) = (case t of None \<Rightarrow> [] | Some u \<Rightarrow> [(uuid_c, u)])"
  "r_Grants (sample_journal g t) = [(uuid_c, g)]"
  by (simp_all add: sample_journal_def empty_registry_def grant_of_def terminal_of_def put_grant_def put_terminal_def
      split: option.splits)

section \<open>They are sound\<close>

lemma sample_identity: "r_OwnerID st = uuid_a \<Longrightarrow> grant_identity_ok (sample_env uuid_a) st uuid_c (sample_grant stop r s)"
  by (simp add: grant_identity_ok_def RuntimeFingerprint_def scopeDigest_def record_fits_def)
    (simp add: sample_grant_def zero_grant_def validOpaque_def contains_any_def eval)

lemma sample_valid_grant:
  assumes "case stop of None \<Rightarrow> True | Some x \<Rightarrow> \<not> stop_intent_bad (sample_env uuid_a) (sample_grant stop r s) x \<and>
      sp_Receipt x = None \<and> sp_Evidence x = None"
    and "r_OwnerID st = uuid_a" "s = WaitingStorage \<or> s = Unexecuted \<and> (\<exists>t. terminal_of st uuid_c = Some t \<and> t_Source t = SourceController)"
  shows "validate_grant (sample_env uuid_a) st (uuid_c, sample_grant stop r s) = Inr ()"
proof -
  have "list_all (\<lambda>(bad, _). \<not> bad) (grant_checks (sample_env uuid_a) st uuid_c (sample_grant stop r s))"
    using assms by (cases stop)
      (auto simp: grant_checks_def sample_identity given_def start_unproven_def stop_key_unbound_def)
  with assms(3) show ?thesis
    by (auto simp: validate_grant_def first_failure_Inr bind_res_eq_Inr pending_checks_def given_def
        validatePendingSessionGrant_def)
qed

lemma sample_sound:
  assumes "validate_grant (sample_env uuid_a) (sample_journal g t) (uuid_c, g) = Inr ()"
    and "case t of None \<Rightarrow> True | Some u \<Rightarrow> list_all (\<lambda>(bad, _). \<not> bad) (terminal_checks (sample_env uuid_a) uuid_c g u)"
  shows "sound (sample_env uuid_a) (sample_journal g t)"
proof -
  have "each_ok (validate_terminal (sample_env uuid_a) (sample_journal g t)) (r_Terminals (sample_journal g t)) = Inr ()"
    using assms(2) by (auto simp: each_ok_Inr validate_terminal_def first_failure_Inr split: option.splits)
  moreover have "each_ok (validate_grant (sample_env uuid_a) (sample_journal g t)) (r_Grants (sample_journal g t)) = Inr ()"
    using assms(1) by (simp add: sample_journal_def)
  ultimately show ?thesis
    by (simp add: sound_def validated_def validate_registry_def validateRegistry_def first_failure_Inr bind_res_eq_Inr)
      (simp add: sample_journal_def empty_registry_def registry_checks_def validateConversations_def maps_ok_def
        distinct_keys_def split: option.splits)
qed

section \<open>A queued claim, stopped\<close>

definition sample_stop :: stop_record where "sample_stop = stop_record_for ''stop'' 100 uuid_d"
definition queued_journal :: registry where "queued_journal = sample_journal (sample_grant None False WaitingStorage) None"
definition stopped_journal :: registry where
  "stopped_journal = sample_journal (sample_grant (Some sample_stop) True WaitingStorage) None"

lemma queued_sound: "sound (sample_env uuid_a) queued_journal"
  unfolding queued_journal_def by (intro sample_sound sample_valid_grant) simp_all

lemma stopped_sound: "sound (sample_env uuid_a) stopped_journal"
  unfolding stopped_journal_def
  by (intro sample_sound sample_valid_grant)
    (simp_all add: sample_stop_def stop_record_for_def stop_intent_bad_def validOpaque_def contains_any_def eval)

lemma queued_stop:
  "RequestStop sample_call uuid_c ''stop'' queued_journal =
   Inr (stopped_journal, sample_grant (Some sample_stop) True WaitingStorage)"
  by (simp add: RequestStop_def update_grant_def RequestStop_step_def queued_journal_def stopped_journal_def
      sample_stop_def sample_call_def validOpaque_def contains_any_def eval)

lemma queued_stopped: "committed (sample_env uuid_a) queued_journal stopped_journal"
  using queued_sound stopped_sound do_RequestStop [OF queued_stop]
  by (simp add: committed_def sound_def)

section \<open>A queued claim that failed\<close>

definition sample_failure :: "delivery \<Rightarrow> terminal" where
  "sample_failure d = (controller_terminal (sample_env uuid_a) sample_call uuid_c ''{}''
     (sample_grant None False WaitingStorage))\<lparr>t_State := d\<rparr>"

definition failed_journal :: "delivery \<Rightarrow> registry" where
  "failed_journal d = sample_journal (sample_grant None False Unexecuted) (Some (sample_failure d))"

lemma failed_sound:
  assumes "d = DReceived \<or> d = DForwarding \<or> d = DUncertain \<or> d = DDelivered \<or> d = DRejected"
  shows "sound (sample_env uuid_a) (failed_journal d)"
proof -
  have "list_all (\<lambda>(bad, _). \<not> bad)
      (terminal_checks (sample_env uuid_a) uuid_c (sample_grant None False Unexecuted) (sample_failure d))"
    using assms by (auto simp: terminal_checks_def terminal_identity_ok_def source_checks_def delivery_checks_def
        sample_failure_def controller_terminal_def zero_terminal_def sample_call_def TerminalDigest_def given_def record_fits_def)
  moreover have "t_Source (sample_failure d) = SourceController"
    by (simp add: sample_failure_def controller_terminal_def)
  ultimately show ?thesis
    unfolding failed_journal_def by (intro sample_sound sample_valid_grant) simp_all
qed

lemma queued_failure:
  "ReceiveFailure (sample_env uuid_a) sample_call uuid_c ''{}'' queued_journal =
   Inr (failed_journal DReceived, sample_failure DReceived)"
  by (simp add: ReceiveFailure_def update_grant_def ReceiveFailure_step_def queued_journal_def failed_journal_def
      checkPendingBudget_def pending_total_def mvals_def Let_def)
    (simp add: sample_failure_def controller_terminal_def zero_terminal_def)

lemma queued_failed: "committed (sample_env uuid_a) queued_journal (failed_journal DReceived)"
  using queued_sound failed_sound [of DReceived] do_ReceiveFailure [OF queued_failure]
  by (simp add: committed_def sound_def)

lemma sample_failure_fields [simp]:
  "t_Source (sample_failure d) = SourceController" "t_Kind (sample_failure d) = KindFail"
  "t_State (sample_failure d) = d" "t_Seal (sample_failure d) = None" "t_RecoveryFailure (sample_failure d) = None"
  "t_ResultReceipt (sample_failure d) = None" "t_Body (sample_failure d) = ''{}''"
  "(sample_failure d)\<lparr>t_State := d1\<rparr> = sample_failure d1" "t_RequestDigest (sample_failure d) = sample_sha"
  by (simp_all add: sample_failure_def controller_terminal_def zero_terminal_def TerminalDigest_def)

lemma failed_forward: "BeginFailureForward uuid_c (failed_journal DReceived) = Inr (failed_journal DForwarding, ())"
  by (simp add: BeginFailureForward_def update_terminal_def BeginFailureForward_step_def failed_journal_def)

lemma failed_forwarded: "committed (sample_env uuid_a) (failed_journal DReceived) (failed_journal DForwarding)"
  using failed_sound [of DReceived] failed_sound [of DForwarding] do_BeginFailureForward [OF failed_forward]
  by (simp add: committed_def sound_def)

lemma failed_finish:
  "FinishForward uuid_c ''delivered'' (failed_journal DForwarding) = Inr (failed_journal DDelivered, ())"
  by (simp add: FinishForward_def update_terminal_def FinishForward_step_def failed_journal_def delivery_of_def)

lemma failed_delivered: "committed (sample_env uuid_a) (failed_journal DForwarding) (failed_journal DDelivered)"
  using failed_sound [of DForwarding] failed_sound [of DDelivered] do_FinishForward [OF failed_finish]
  by (simp add: committed_def sound_def)

section \<open>A session that was stopped and closed\<close>

definition sample_session :: worker_session where
  "sample_session = zero_session\<lparr>ws_ID := uuid_a, ws_State := SessionClosed, ws_TurnSequence := 3,
     ws_Stop := ws_Stop (stopped_session sample_call ''idle_expired'' 100 zero_session)\<rparr>"

definition session_journal :: registry where
  "session_journal = (empty_registry (sample_env uuid_a))\<lparr>r_Sessions := [(uuid_a, sample_session)]\<rparr>"

lemma sample_session_facts [simp]:
  "session_of session_journal uuid_a = Some sample_session" "ws_State sample_session = SessionClosed"
  "ws_TurnSequence sample_session = 3"
  by (simp_all add: session_journal_def session_of_def sample_session_def)

lemma sample_session_stop [simp]: "\<exists>s. ws_Stop sample_session = Some s"
  by (simp add: sample_session_def stopped_session_def Let_def)

lemmas sample_steps = queued_stopped queued_failed failed_forwarded failed_delivered

end
