(* ===== verification/Journal_Properties.thy ===== *)
theory Journal_Properties
  imports Samples
begin

text \<open>What holds over every history of the journal.\<close>

section \<open>Grants\<close>

text \<open>C9: Over any committed history an attempt's grant stays in the journal and only advances: its
  identity, scope and fingerprint never change, its dispatch state never falls back, revocation,
  acceptance and completion are never undone, and what it was given once is never replaced: session,
  storage, selection, assignment, acceptance proof, turn receipts, completion witness and stop intent;
  the volume claim and its uid, the Pod's name, uid and node, the supervisor's key and the stop key;
  and, once it has a selection, the backend selection.\<close>

theorem grant_history:
  assumes "(committed e)\<^sup>*\<^sup>* st st'" "grant_of st i = Some g"
  shows "\<exists>h. grant_of st' i = Some h \<and> grant_le g h"
  by (rule grants.run_record [OF assms])

theorem grant_history_witness:
  "\<exists>h. grant_of stopped_journal uuid_c = Some h \<and> grant_le (sample_grant None False WaitingStorage) h"
  by (rule grant_history [OF r_into_rtranclp [of "committed (sample_env uuid_a)", OF queued_stopped]])
    (simp add: queued_journal_def)

lemma update_grant_same: "grant_of st i = Some g \<Longrightarrow> fn st g = Inr (st, g, a) \<Longrightarrow> update_grant i fn st = Inr (st, a)"
  by (simp add: update_grant_def put_grant_def grant_of_def AList_update_id)

lemma update_grant_refused: "grant_of st i = Some g \<Longrightarrow> fn st g = Inl x \<Longrightarrow> update_grant i fn st = Inl x"
  by (simp add: update_grant_def)

lemma update_grant_Inl: "(\<And>g. grant_of st i = Some g \<Longrightarrow> \<exists>x. fn st g = Inl x) \<Longrightarrow> \<exists>x. update_grant i fn st = Inl x"
  by (cases "grant_of st i") (fastforce simp: update_grant_def)+

lemma update_grant_result:
  assumes "update_grant i fn st = Inr (st', a)"
  obtains g st1 h where "grant_of st i = Some g" "fn st g = Inr (st1, h, a)" "st' = put_grant i h st1"
  using assms by (auto simp: update_grant_def split: option.splits sum.splits)

text \<open>A grant that ran past a rank has passed it for ever.\<close>

lemma rank_history:
  assumes "(committed e)\<^sup>*\<^sup>* st st'" "grant_of st i = Some g" "n \<le> state_rank (g_State g)"
  obtains h where "grant_of st' i = Some h" "n \<le> state_rank (g_State h)"
proof -
  obtain h where h: "grant_of st' i = Some h" "grant_le g h"
    using grants.run_record [OF assms(1,2)] by blast
  with assms(3) have "n \<le> state_rank (g_State h)"
    by (simp add: grant_le_def flags_advance_def)
  with h(1) that show thesis
    by blast
qed

text \<open>An attempt is offered at most once: once \<^verbatim>\<open>Offer\<close> has answered yes, every later \<^verbatim>\<open>Offer\<close> of
  that attempt, after any committed history, answers no and changes nothing.\<close>

theorem offered_once:
  assumes "Offer i st = Inr (st1, g, True)" "(committed e)\<^sup>*\<^sup>* st1 st2"
  shows "\<exists>h. Offer i st2 = Inr (st2, h, False)"
proof -
  have "grant_of st1 i = Some (g)" "g_State g = Offered"
    using assms(1) by (auto simp: Offer_def Offer_step_def Let_def elim!: update_grant_result split: if_splits)
  then obtain h where "grant_of st2 i = Some h" "4 \<le> state_rank (g_State h)"
    using rank_history [OF assms(2), of i g 4] by auto
  then have "Offer i st2 = Inr (st2, h, False)"
    unfolding Offer_def by (intro update_grant_same) (auto simp: Offer_step_def)
  then show ?thesis ..
qed

theorem offered_once_witness:
  "\<exists>h. Offer uuid_c (sample_journal (sample_grant None False Offered) None) =
     Inr (sample_journal (sample_grant None False Offered) None, h, False)"
proof (rule offered_once [OF _ rtranclp.rtrancl_refl [of "committed (sample_env uuid_a)"]])
  show "Offer uuid_c (sample_journal (sample_grant None False Ready) None) =
      Inr (sample_journal (sample_grant None False Offered) None, sample_grant None False Offered, True)"
    by (simp add: Offer_def update_grant_def Offer_step_def Let_def)
qed

text \<open>C5: An attempt is started at most once: after a committed \<^verbatim>\<open>BeginStart\<close> every later \<^verbatim>\<open>Offer\<close>
  answers no and every later \<^verbatim>\<open>BeginStart\<close> is refused, whatever was committed in between.\<close>

theorem started_once:
  assumes "BeginStart c i st = Inr (st1, u)" "(committed e)\<^sup>*\<^sup>* st1 st2"
  shows "BeginStart c' i st2 = Inl ErrConflict \<and> (\<exists>h. Offer i st2 = Inr (st2, h, False))"
proof -
  obtain g where "grant_of st1 i = Some g" "g_State g = Starting"
    using assms(1) by (auto simp: BeginStart_def transition_step_def Let_def elim!: update_grant_result split: if_splits)
  then obtain h where h: "grant_of st2 i = Some h" "5 \<le> state_rank (g_State h)"
    using rank_history [OF assms(2), of i g 5] by auto
  then have "BeginStart c' i st2 = Inl ErrConflict"
    unfolding BeginStart_def by (intro update_grant_refused) (auto simp: transition_step_def)
  moreover from h have "Offer i st2 = Inr (st2, h, False)"
    unfolding Offer_def by (intro update_grant_same) (auto simp: Offer_step_def)
  ultimately show ?thesis
    by blast
qed

theorem started_once_witness:
  "BeginStart sample_call uuid_c (sample_journal (sample_grant None False Starting) None) = Inl ErrConflict \<and>
   (\<exists>h. Offer uuid_c (sample_journal (sample_grant None False Starting) None) =
     Inr (sample_journal (sample_grant None False Starting) None, h, False))"
proof (rule started_once [OF _ rtranclp.rtrancl_refl [of "committed (sample_env uuid_a)"]])
  show "BeginStart sample_call uuid_c (sample_journal (sample_grant None False Offered) None) =
      Inr (sample_journal (sample_grant None False Starting) None, ())"
    by (simp add: BeginStart_def update_grant_def transition_step_def Let_def)
qed

text \<open>A revoked attempt.\<close>

lemma revoked_refuses:
  assumes "grant_of st i = Some g" "g_ExecutionRevoked g"
  shows "Offer i st = Inr (st, g, False)" "BeginStart c i st = Inl ErrConflict" "MarkStarted c i st = Inl ErrConflict"
    "\<exists>x. IssueCapability e c i audience expiry st = Inl x"
proof -
  show "Offer i st = Inr (st, g, False)"
    unfolding Offer_def using assms by (intro update_grant_same) (auto simp: Offer_step_def)
  show "BeginStart c i st = Inl ErrConflict" "MarkStarted c i st = Inl ErrConflict"
    unfolding BeginStart_def MarkStarted_def using assms
    by (auto intro!: update_grant_refused simp: transition_step_def)
  show "\<exists>x. IssueCapability e c i audience expiry st = Inl x"
    using assms by (auto simp: IssueCapability_def IssueCapability_step_def intro: update_grant_Inl)
qed

lemma stopped_revoked: "sound e st \<Longrightarrow> grant_of st i = Some g \<Longrightarrow> g_Stop g \<noteq> None \<Longrightarrow> g_ExecutionRevoked g"
  by (auto simp: sound_def grant_checks_def given_def stop_intent_bad_def dest!: validated_grant_identity(2)
      split: option.splits)

text \<open>C6: A requested stop is final: once \<^verbatim>\<open>RequestStop\<close> has succeeded on a valid journal the
  attempt is never again offered, started or confirmed and gets no capability, whatever was
  committed in between, and the stop's reason, revision, nonce and time are the ones first
  recorded.\<close>

theorem stop_final:
  assumes "sound e st" "RequestStop c i reason st = Inr (st1, g)" "(committed e)\<^sup>*\<^sup>* st1 st2"
  shows "\<exists>h. grant_of st2 i = Some h \<and> same_stop (g_Stop g) (g_Stop h) \<and> g_Stop h \<noteq> None \<and>
    Offer i st2 = Inr (st2, h, False) \<and> BeginStart c' i st2 = Inl ErrConflict \<and>
    MarkStarted c' i st2 = Inl ErrConflict \<and> (\<exists>x. IssueCapability e' c' i audience expiry st2 = Inl x)"
proof -
  have "grant_of st1 i = Some g" "g_ExecutionRevoked g" "g_Stop g \<noteq> None"
    using assms(2) stopped_revoked [OF assms(1)]
    by (auto simp: RequestStop_def RequestStop_step_def Let_def elim!: update_grant_result split: if_splits prod.splits)
  then obtain h where h: "grant_of st2 i = Some h" "g_ExecutionRevoked h" "same_stop (g_Stop g) (g_Stop h)"
    using grants.run_record [OF assms(3)] by (fastforce simp: grant_le_def flags_advance_def bindings_kept_def)
  moreover have "g_Stop h \<noteq> None"
    using h(3) \<open>g_Stop g \<noteq> None\<close> by (auto simp: same_stop_def split: option.splits)
  ultimately show ?thesis
    using revoked_refuses [OF h(1,2)] by blast
qed

theorem stop_final_witness:
  "\<exists>h. grant_of stopped_journal uuid_c = Some h \<and> same_stop (Some sample_stop) (g_Stop h) \<and> g_Stop h \<noteq> None \<and>
    Offer uuid_c stopped_journal = Inr (stopped_journal, h, False) \<and>
    BeginStart sample_call uuid_c stopped_journal = Inl ErrConflict \<and>
    MarkStarted sample_call uuid_c stopped_journal = Inl ErrConflict \<and>
    (\<exists>x. IssueCapability (sample_env uuid_a) sample_call uuid_c ''mcp'' 200 stopped_journal = Inl x)"
  using stop_final [OF queued_sound queued_stop rtranclp.rtrancl_refl] by simp

section \<open>Terminals\<close>

text \<open>C10: A result is durable: once an attempt has a terminal, whatever is committed later, a
  repeated \<^verbatim>\<open>ReceiveTerminal\<close> or \<^verbatim>\<open>ReceiveFailure\<close> that is answered at all returns the stored
  receipt with the first body, kind and digest, and leaves the journal as it is.\<close>

theorem result_final:
  assumes "terminal_of st i = Some t" "(committed e)\<^sup>*\<^sup>* st st'"
    and "ReceiveTerminal e' c i kind body resume d st' = Inr (st'', u) \<or> ReceiveFailure e' c i body st' = Inr (st'', u)"
  shows "st'' = st' \<and> t_Body t = body \<and> same_terminal t u"
proof -
  obtain v where v: "terminal_of st' i = Some v" "same_terminal t v"
    using terminals.run_record [OF assms(2,1)] by (auto simp: terminal_le_def)
  have "st'' = st' \<and> u = v \<and> t_Body v = body"
    using assms(3) v(1)
    by (auto simp: ReceiveTerminal_def ReceiveTerminal_step_def ReceiveFailure_def ReceiveFailure_step_def
        put_grant_def grant_of_def AList_update_id elim!: update_grant_result split: if_splits)
  with v(2) show ?thesis
    by (simp add: same_terminal_def)
qed

theorem result_final_witness:
  "failed_journal DDelivered = failed_journal DDelivered \<and> t_Body (sample_failure DReceived) = ''{}'' \<and>
   same_terminal (sample_failure DReceived) (sample_failure DDelivered)"
proof (rule result_final)
  show "(committed (sample_env uuid_a))\<^sup>*\<^sup>* (failed_journal DReceived) (failed_journal DDelivered)"
    using failed_forwarded failed_delivered by (rule converse_rtranclp_into_rtranclp [OF _ r_into_rtranclp])
  show "terminal_of (failed_journal DReceived) uuid_c = Some (sample_failure DReceived)"
    by (simp add: failed_journal_def)
  show "ReceiveTerminal (sample_env uuid_a) sample_call uuid_c [] ''{}'' r [] (failed_journal DDelivered) =
      Inr (failed_journal DDelivered, sample_failure DDelivered) \<or>
    ReceiveFailure (sample_env uuid_a) sample_call uuid_c ''{}'' (failed_journal DDelivered) =
      Inr (failed_journal DDelivered, sample_failure DDelivered)" for r
    by (simp add: ReceiveFailure_def update_grant_def ReceiveFailure_step_def failed_journal_def TerminalDigest_def)
qed

lemma update_terminal_refused:
  "(\<And>t. terminal_of st i = Some t \<Longrightarrow> fn t = Inl ErrConflict) \<Longrightarrow> terminal_of st i \<noteq> None \<Longrightarrow>
   update_terminal i fn st = Inl ErrConflict"
  by (auto simp: update_terminal_def)

text \<open>C12: A delivered or rejected result stays that for ever: after any committed history every
  operation that would forward, finish or reject it again is refused.\<close>

theorem delivery_final:
  assumes "terminal_of st i = Some t" "t_State t = DDelivered \<or> t_State t = DRejected" "(committed e)\<^sup>*\<^sup>* st st'"
  shows "(\<exists>u. terminal_of st' i = Some u \<and> t_State u = t_State t) \<and> BeginForward i st' = Inl ErrConflict \<and>
    FinishForward i outcome st' = Inl ErrConflict \<and> RejectTerminal i st' = Inl ErrConflict \<and>
    BeginFailureForward i st' = Inl ErrConflict \<and> RejectFailure i st' = Inl ErrConflict"
proof -
  obtain u where u: "terminal_of st' i = Some u" "final_kept (t_State t) (t_State u)"
    using terminals.run_record [OF assms(3,1)] by (auto simp: terminal_le_def)
  with assms(2) have "t_State u = t_State t"
    by (auto simp: final_kept_def)
  with u(1) assms(2) show ?thesis
    by (auto intro!: update_terminal_refused simp: BeginForward_def BeginForward_step_def FinishForward_def
        FinishForward_step_def RejectTerminal_def RejectTerminal_step_def BeginFailureForward_def
        BeginFailureForward_step_def RejectFailure_def RejectFailure_step_def)
qed

theorem delivery_final_witness:
  "BeginForward uuid_c (failed_journal DDelivered) = Inl ErrConflict \<and>
   FinishForward uuid_c ''rejected'' (failed_journal DDelivered) = Inl ErrConflict"
  using delivery_final [OF _ _ rtranclp.rtrancl_refl [of "committed (sample_env uuid_a)"], of "failed_journal DDelivered"
      uuid_c "sample_failure DDelivered" "''rejected''"]
  by (simp add: failed_journal_def)

text \<open>C11: A worker result is settled one way only.  Once a recovery failure has replaced it, no
  history lets a seal or a result receipt be recorded; once a seal or a result receipt has
  authenticated it, no history lets a recovery failure replace it.\<close>

theorem settlement_exclusive:
  assumes "terminal_of st i = Some t" "(committed e)\<^sup>*\<^sup>* st st'"
  shows "(t_RecoveryFailure t \<noteq> None \<longrightarrow>
      (\<exists>x. Seal e' i sg st' = Inl x) \<and> (\<exists>x. RecordResultReceipt e' i rr st' = Inl x)) \<and>
    (t_Seal t \<noteq> None \<or> t_ResultReceipt t \<noteq> None \<longrightarrow> (\<exists>x. RecordRecoveryFailure e' c i body st' = Inl x))"
proof -
  obtain u where u: "terminal_of st' i = Some u" "terminal_le t u"
    using terminals.run_record [OF assms(2,1)] by blast
  have "\<exists>x. Seal e' i sg st' = Inl x" "\<exists>x. RecordResultReceipt e' i rr st' = Inl x" if "t_RecoveryFailure t \<noteq> None"
  proof -
    have "t_RecoveryFailure u \<noteq> None"
      using that u(2) by (auto simp: terminal_le_def recovery_le_def split: option.splits)
    with u(1) show "\<exists>x. Seal e' i sg st' = Inl x" "\<exists>x. RecordResultReceipt e' i rr st' = Inl x"
      by (auto simp: Seal_def Seal_step_def RecordResultReceipt_def RecordResultReceipt_step_def
          intro!: update_grant_Inl)
  qed
  moreover have "\<exists>x. RecordRecoveryFailure e' c i body st' = Inl x" if "t_Seal t \<noteq> None \<or> t_ResultReceipt t \<noteq> None"
  proof -
    have "t_Seal u \<noteq> None \<or> t_ResultReceipt u \<noteq> None"
      using that u(2) by (auto simp: terminal_le_def kept_def)
    with u(1) show ?thesis
      by (auto simp: RecordRecoveryFailure_def RecordRecoveryFailure_step_def intro!: update_grant_Inl)
  qed
  ultimately show ?thesis
    by blast
qed

theorem settlement_exclusive_witness:
  "\<forall>sg. \<exists>x. Seal (sample_env uuid_a) uuid_c sg
      (sample_journal (sample_grant None False TerminalReceived)
        (Some ((sample_failure DReceived)\<lparr>t_RecoveryFailure := Some \<lparr>rf_Body = [], rf_State = DReceived, rf_DecidedAt = 1\<rparr>\<rparr>))) =
    Inl x"
  using settlement_exclusive [OF _ rtranclp.rtrancl_refl [of "committed (sample_env uuid_a)"], of
      "sample_journal (sample_grant None False TerminalReceived)
        (Some ((sample_failure DReceived)\<lparr>t_RecoveryFailure := Some \<lparr>rf_Body = [], rf_State = DReceived, rf_DecidedAt = 1\<rparr>\<rparr>))"
      uuid_c]
  by simp

section \<open>Sessions\<close>

lemma stopped_publishes_nothing:
  assumes "session_of st i = Some w" "ws_Stop w \<noteq> None"
    "grant_of st k = Some g" "g_WorkerSessionID g = i" "g_Assignment g = []"
  shows "\<exists>x. PublishTurn e c k raw st = Inl x"
  using assms
  by (auto simp: PublishTurn_def PublishTurn_step_def intro!: update_grant_Inl split: sum.splits option.splits)

lemma stopped_accepts_nothing:
  assumes "session_of st i = Some w" "ws_Stop w \<noteq> None" "AcceptTurn e c chs i n d p st = Inr (st1, g)"
  shows "st1 = st \<and> g \<in> set (mvals (r_Grants st)) \<and> g_AcceptProof g = Some p"
  using assms by (auto simp: AcceptTurn_def find_Some_iff in_set_conv_nth split: if_splits option.splits)

text \<open>C13: A closed session that carries its stop record, as every closed session of a valid journal
  does, stays closed, with the Pod, key and stop record it had and an unmoved turn sequence.  After
  any committed history it is not bound to another Pod, admits no key and no bootstrap and is not
  quarantined; no assignment is newly published to it, an \<^verbatim>\<open>AcceptTurn\<close> that is answered only
  repeats an acceptance recorded before, and expiring or draining it changes nothing.\<close>

theorem session_closed_final:
  assumes "session_of st i = Some v" "ws_State v = SessionClosed" "ws_Stop v \<noteq> None" "(committed e)\<^sup>*\<^sup>* st st'"
  shows "\<exists>w. session_of st' i = Some w \<and> ws_State w = SessionClosed \<and> session_le v w \<and>
    ws_TurnSequence w = ws_TurnSequence v \<and> BindSessionPod i name uid node st' = Inl ErrConflict \<and>
    AdmitSession i digest key st' = Inl ErrConflict \<and> QuarantineSession c i st' = Inl ErrConflict \<and>
    SetSessionBootstrap e' i raw st' \<noteq> Inr (st'', ()) \<and>
    (\<forall>g. grant_of st' k = Some g \<and> g_WorkerSessionID g = i \<and> g_Assignment g = [] \<longrightarrow>
      (\<exists>x. PublishTurn e' c k raw st' = Inl x)) \<and>
    (\<forall>st3 g. AcceptTurn e' c chs i n d p st' = Inr (st3, g) \<longrightarrow>
      st3 = st' \<and> g \<in> set (mvals (r_Grants st')) \<and> g_AcceptProof g = Some p) \<and>
    (\<forall>st3 b. ExpireSession c i retention st' = Inr (st3, b) \<or> DrainIdleSession c i revision reason st' = Inr (st3, b) \<longrightarrow>
      st3 = st' \<and> \<not> b)"
proof -
  obtain w where w: "session_of st' i = Some w" "session_le v w"
    using sessions.run_record [OF assms(4,1)] by blast
  with assms(2,3) have *: "ws_State w = SessionClosed" "ws_TurnSequence w = ws_TurnSequence v" "ws_Stop w \<noteq> None"
    by (auto simp: session_le_def dest: same_session_stop_Some)
  have "BindSessionPod i name uid node st' = Inl ErrConflict" "AdmitSession i digest key st' = Inl ErrConflict"
    "QuarantineSession c i st' = Inl ErrConflict" "SetSessionBootstrap e' i raw st' \<noteq> Inr (st'', ())"
    using w(1) * by (auto simp: BindSessionPod_def AdmitSession_def QuarantineSession_def SetSessionBootstrap_def Let_def)
  moreover have "st3 = st' \<and> \<not> b"
    if "ExpireSession c i retention st' = Inr (st3, b) \<or> DrainIdleSession c i revision reason st' = Inr (st3, b)" for st3 b
    using that w(1) *(1) by (auto simp: ExpireSession_def DrainIdleSession_def split: if_splits)
  ultimately show ?thesis
    using w * stopped_publishes_nothing [OF w(1) *(3)] stopped_accepts_nothing [OF w(1) *(3)] by blast
qed

theorem session_closed_final_witness:
  "BindSessionPod uuid_a ''worker'' uuid_b ''node'' session_journal = Inl ErrConflict \<and>
   AdmitSession uuid_a [] [] session_journal = Inl ErrConflict"
  using session_closed_final [OF _ _ _ rtranclp.rtrancl_refl [of "committed (sample_env uuid_a)"], of session_journal
      uuid_a sample_session "''worker''" uuid_b "''node''" "[]" "[]"]
  by simp

text \<open>C14: A stop of a session is final: once one is recorded, no committed history changes its
  active attempt, reason, revision, nonce or time, gives the session another turn, publishes an
  assignment to it or lets the worker accept one it had not accepted.\<close>

theorem session_stop_final:
  assumes "session_of st i = Some v" "ws_Stop v = Some s" "(committed e)\<^sup>*\<^sup>* st st'"
  shows "\<exists>w s'. session_of st' i = Some w \<and> ws_Stop w = Some s' \<and> same_session_stop (Some s) (Some s') \<and>
    ws_TurnSequence w = ws_TurnSequence v \<and>
    (\<forall>g. grant_of st' k = Some g \<and> g_WorkerSessionID g = i \<and> g_Assignment g = [] \<longrightarrow>
      (\<exists>x. PublishTurn e' c k raw st' = Inl x)) \<and>
    (\<forall>st'' g. AcceptTurn e' c chs i n d p st' = Inr (st'', g) \<longrightarrow>
      st'' = st' \<and> g \<in> set (mvals (r_Grants st')) \<and> g_AcceptProof g = Some p)"
proof -
  obtain w where w: "session_of st' i = Some w" "session_le v w"
    using sessions.run_record [OF assms(3,1)] by blast
  then have "same_session_stop (Some s) (ws_Stop w)" and seq: "ws_TurnSequence w = ws_TurnSequence v"
    using assms(2) by (simp_all add: session_le_def)
  then obtain s' where s': "ws_Stop w = Some s'" "same_session_stop (Some s) (Some s')"
    by (cases "ws_Stop w") (auto simp: same_session_stop_def)
  have w': "ws_Stop w \<noteq> None"
    using s'(1) by simp
  show ?thesis
    using w(1) s' seq stopped_publishes_nothing [OF w(1) w'] stopped_accepts_nothing [OF w(1) w'] by blast
qed

theorem session_stop_final_witness:
  "\<exists>w s'. session_of session_journal uuid_a = Some w \<and> ws_Stop w = Some s' \<and> ws_TurnSequence w = 3"
proof -
  obtain s where "ws_Stop sample_session = Some s"
    using sample_session_stop by blast
  then show ?thesis
    using session_stop_final [OF sample_session_facts(1) _ rtranclp.rtrancl_refl [of "committed (sample_env uuid_a)"]]
    by fastforce
qed

end
