(* ===== verification/Store_Properties.thy ===== *)
theory Store_Properties
  imports Samples
begin

text \<open>
  What the store adds to the journal: transactions are atomic and commit only valid journals,
  a store whose publication failed stays stopped, the lives of a store with its crashes refine
  the abstract journal, reservations drop old challenges, and opening restores a valid journal
  with nothing left in delivery.
\<close>

section \<open>The store's invariant\<close>

definition store_ok :: "env \<Rightarrow> store \<Rightarrow> bool" where
  "store_ok e s \<longleftrightarrow>
    (s_lock s \<longrightarrow> validated e (s_committed s)) \<and> (s_lock s \<and> \<not> s_failed s \<longrightarrow> s_disk s = s_committed s)"

lemma write_store_cases:
  assumes "write_store e io st s = (s', r)"
  shows "r = Inr () \<and> s' = s\<lparr>s_disk := st, s_committed := st\<rparr> \<and> validated e st \<or>
    (\<exists>x. r = Inl x) \<and> s_committed s' = s_committed s \<and> s_lock s' = s_lock s \<and>
      s_challenges s' = s_challenges s \<and> (s' = s \<or> s_failed s')"
proof (cases "bind_res (validate_registry e st) (\<lambda>_. write_bytes e io st)")
  case (Inl x)
  with assms have "s' = s" "r = Inl x"
    by (simp_all add: write_store_def)
  then show ?thesis
    by simp
next
  case (Inr u)
  then have "validated e st"
    by (auto simp: validated_def bind_res_eq_Inr)
  with Inr assms show ?thesis
    by (auto simp: write_store_def checkJournal_def split: publication.splits if_splits)
qed

lemma transaction_cases:
  assumes "transaction e io fn s = (s', r)"
  shows "(\<exists>x. r = Inl x) \<and> s_committed s' = s_committed s \<and> s_lock s' = s_lock s \<and> s_challenges s' = s_challenges s \<and>
      (s' = s \<or> s_failed s') \<or>
    (\<exists>st a. s_lock s \<and> \<not> s_failed s \<and> io_intact io \<and> fn (s_committed s) = Inr (st, a) \<and> r = Inr a \<and>
      (st = s_committed s \<and> s' = s \<or> validated e st \<and> s' = s\<lparr>s_disk := st, s_committed := st\<rparr>))"
  using assms
  by (auto simp: transaction_def checkJournal_def split: if_splits sum.splits prod.splits dest!: write_store_cases)

text \<open>C7: A transaction is atomic.  It keeps the store's invariant (the committed journal is valid and,
  unless the store has failed, it is the one on disk); when it reports an error the committed journal
  is the old one and the disk has changed only if the store is now marked failed; when it succeeds the
  operation's result is both committed and on disk.\<close>

theorem transaction_atomic:
  assumes "store_ok e s" "transaction e io fn s = (s', r)"
  shows "store_ok e s' \<and>
    (case r of
       Inl x \<Rightarrow> s_committed s' = s_committed s \<and> (s' = s \<or> s_failed s')
     | Inr a \<Rightarrow> \<not> s_failed s' \<and> validated e (s_committed s') \<and> s_disk s' = s_committed s' \<and>
         fn (s_committed s) = Inr (s_committed s', a))"
  using transaction_cases [OF assms(2)] assms(1) by (auto simp: store_ok_def)

text \<open>A store whose file system does everything it is asked.\<close>

definition sample_io :: io where
  "sample_io = \<lparr>io_intact = True, io_entries = Some [], io_publication = Published, io_intact_after = True,
     io_encoded = (\<lambda>_. Some 0)\<rparr>"

lemma sample_io_fields [simp]:
  "io_intact sample_io" "io_entries sample_io = Some []" "io_publication sample_io = Published"
  "io_intact_after sample_io" "io_encoded sample_io st = Some 0"
  by (simp_all add: sample_io_def)

lemma opened_fields [simp]:
  "s_lock (opened st)" "\<not> s_failed (opened st)" "s_committed (opened st) = st" "s_disk (opened st) = st"
  "s_challenges (opened st) = []" "(opened st)\<lparr>s_disk := st1, s_committed := st1\<rparr> = opened st1"
  "(opened st)\<lparr>s_disk := st1\<rparr>\<lparr>s_committed := st1\<rparr> = opened st1"
  by (simp_all add: opened_def)

lemma sample_write: "validated (sample_env uuid_a) st \<Longrightarrow>
    write_store (sample_env uuid_a) sample_io st (opened st0) = (opened st, Inr ())"
  by (simp add: write_store_def validated_def write_bytes_def checkBudget_def checkJournal_def)

lemma sample_transaction:
  assumes "fn st = Inr (st', a)" "validated (sample_env uuid_a) st'"
  shows "transaction (sample_env uuid_a) sample_io fn (opened st) = (opened st', Inr a)"
  using assms by (simp add: transaction_def checkJournal_def sample_write)

lemma stopping:
  "transaction (sample_env uuid_a) sample_io (RequestStop sample_call uuid_c ''stop'') (opened queued_journal) =
   (opened stopped_journal, Inr (sample_grant (Some sample_stop) True WaitingStorage))"
  using stopped_sound by (intro sample_transaction queued_stop) (simp add: sound_def)

theorem transaction_atomic_witness:
  "store_ok (sample_env uuid_a) (opened stopped_journal) \<and> validated (sample_env uuid_a) stopped_journal"
  using transaction_atomic [OF _ stopping] queued_sound by (simp add: store_ok_def sound_def)

section \<open>Refinement\<close>

text \<open>
  The life of the store's directory.  The live process runs operations of the journal in
  transactions, reserves turns, creates challenges and reads, with any outcome of the file
  system; it closes the store; and at any moment, in the middle of a failed publication too, it
  may be gone and another process opens what is on disk.  \<open>forget\<close> drops an operation's answer, which
  the store's state does not depend on.
\<close>

definition forget :: "(registry \<Rightarrow> err + (registry \<times> 'a)) \<Rightarrow> registry \<Rightarrow> err + (registry \<times> unit)" where
  "forget fn st = map_sum (\<lambda>x. x) (\<lambda>(st', _). (st', ())) (fn st)"

inductive store_step :: "env \<Rightarrow> store \<Rightarrow> store \<Rightarrow> bool" for e where
  runs: "\<forall>st. fn (s_committed s) = Inr (st, ()) \<longrightarrow> st = s_committed s \<or> journal_step e (s_committed s) st \<Longrightarrow>
    store_step e s (fst (transaction e io fn s))"
| reserves: "fresh_ids c (s_committed s) \<Longrightarrow>
    store_step e s (fst (reserve_turn_store e io c i sel digest retention limit s))"
| challenges: "store_step e s (fst (create_challenge_store e io c i token op digest s))"
| reads: "store_step e s (fst (snapshot io s))"
| closes: "store_step e s (Close_store s)"
| reopens: "journal_exists entries = Inr True \<Longrightarrow> Open_store e io cs entries (s_disk s) = Inr s' \<Longrightarrow> store_step e s s'"

lemma forget_simps [simp]:
  "forget fn st = Inl x \<longleftrightarrow> fn st = Inl x" "forget fn st = Inr (st', u) \<longleftrightarrow> (\<exists>a. fn st = Inr (st', a))"
  by (auto simp: forget_def map_sum_def split: sum.splits prod.splits)

text \<open>Every operation's transaction is a step, whatever it answers.\<close>

lemma transaction_forget: "fst (transaction e io (forget fn) s) = fst (transaction e io fn s)"
  by (auto simp: transaction_def forget_def map_sum_def split: sum.splits prod.splits)

lemma transaction_step:
  fixes fn :: "registry \<Rightarrow> err + (registry \<times> 'a)"
  assumes "\<And>st a. fn (s_committed s) = Inr (st, a) \<Longrightarrow> st = s_committed s \<or> journal_step e (s_committed s) st"
  shows "store_step e s (fst (transaction e io fn s))"
  using runs [of "forget fn" s e io] assms by (auto simp: transaction_forget)

text \<open>What holds between steps: the disk is ahead of a failed store's memory by at most the one
  step whose publication is in doubt.\<close>

definition store_sound :: "env \<Rightarrow> store \<Rightarrow> bool" where
  "store_sound e s \<longleftrightarrow>
    sound e (s_disk s) \<and>
    (s_lock s \<longrightarrow> s_disk s = s_committed s \<or> s_failed s \<and> committed e (s_committed s) (s_disk s))"

definition store_follows :: "env \<Rightarrow> store \<Rightarrow> store \<Rightarrow> bool" where
  "store_follows e s s' \<longleftrightarrow>
    store_sound e s' \<and> (committed e)\<^sup>*\<^sup>* (s_disk s) (s_disk s') \<and>
    (s_lock s' \<longrightarrow> s_lock s \<and> s_committed s' = s_committed s \<or> s_committed s' = s_disk s')"

lemma follows_same:
  "store_sound e s \<Longrightarrow> s_disk s' = s_disk s \<Longrightarrow> s_committed s' = s_committed s \<Longrightarrow> s_lock s' = s_lock s \<Longrightarrow>
   (s_failed s \<longrightarrow> s_failed s') \<Longrightarrow> store_follows e s s'"
  by (auto simp: store_follows_def store_sound_def)

lemma follows_write:
  assumes "store_sound e s" "s_lock s" "\<not> s_failed s" "journal_step e (s_committed s) st" "write_store e io st s = (s', r)"
  shows "store_follows e s s'"
proof (cases "bind_res (validate_registry e st) (\<lambda>_. write_bytes e io st)")
  case (Inl x)
  then show ?thesis
    using assms by (auto simp: write_store_def intro: follows_same)
next
  case (Inr u)
  then have "validated e st"
    by (auto simp: validated_def bind_res_eq_Inr)
  then have c: "committed e (s_disk s) st" "s_disk s = s_committed s"
    using assms(1-4) by (auto simp: committed_def store_sound_def)
  moreover have "sound e st"
    by (rule committed_sound [OF c(1)])
  ultimately show ?thesis
    using assms(1,2,5) Inr
    by (auto simp: write_store_def checkJournal_def store_follows_def store_sound_def split: publication.splits if_splits)
qed

lemma follows_transaction:
  assumes "store_sound e s"
    and "\<And>st a. fn (s_committed s) = Inr (st, a) \<Longrightarrow> st = s_committed s \<or> journal_step e (s_committed s) st"
  shows "store_follows e s (fst (transaction e io fn s))"
  using assms(1) follows_write [OF assms(1)] assms(2)
  by (auto simp: transaction_def checkJournal_def intro: follows_same split: if_splits sum.splits prod.splits)

lemma follows_challenges: "store_follows e s (s'\<lparr>s_challenges := chs\<rparr>) = store_follows e s s'"
  by (simp add: store_follows_def store_sound_def)

lemma follows_reserve:
  assumes "store_sound e s" "fresh_ids c (s_committed s)"
  shows "store_follows e s (fst (reserve_turn_store e io c i sel digest retention limit s))"
proof -
  obtain s1 r where t: "transaction e io (ReserveTurn e c i sel digest retention limit) s = (s1, r)"
    by force
  have "store_follows e s s1"
    using follows_transaction [OF assms(1), of "ReserveTurn e c i sel digest retention limit" io] t
      do_ReserveTurn [OF assms(2)] by auto
  then show ?thesis
    using t by (auto simp: reserve_turn_store_def deferred_def Let_def follows_challenges split: sum.splits option.splits)
qed

lemma follows_challenge:
  assumes "store_sound e s"
  shows "store_follows e s (fst (create_challenge_store e io c i token op digest s))"
  using follows_same [OF assms, of s] follows_same [OF assms, of "s\<lparr>s_failed := True\<rparr>"] follows_write [OF assms]
    do_CreateSessionChallenge
  by (auto simp: create_challenge_store_def checkJournal_def follows_challenges split: sum.splits prod.splits if_splits)
    (meson)+

lemma read_current: "validated e st \<Longrightarrow> read_journal e cs st = Inr st"
  by (auto simp: validated_def validate_registry_def validateRegistry_def registry_checks_def bind_res_eq_Inr
      read_journal_def upgraded_def schema_version_def first_failure_Inr)

lemma follows_open:
  assumes "store_sound e s" "journal_exists entries = Inr True" "Open_store e io cs entries (s_disk s) = Inr s'"
  shows "store_follows e s s'"
proof -
  let ?d = "s_disk s" and ?r = "restarted (s_disk s)"
  have sd: "sound e ?d"
    using assms(1) by (simp add: store_sound_def)
  then have v: "validated e ?d" "r_SchemaVersion ?d = schema_version" "?d\<lparr>r_SchemaVersion := schema_version\<rparr> = ?d"
    by (auto simp: sound_def validated_def validate_registry_def validateRegistry_def registry_checks_def bind_res_eq_Inr)
  have "s' = opened ?d \<or> validated e ?r \<and> s' = opened ?r"
    using assms(2,3) v(1,2) read_current [OF v(1)]
    by (auto simp: Open_store_def Let_def opened_def v(3) split: if_splits prod.splits sum.splits dest!: write_store_cases)
  moreover have "committed e ?d ?r" if "validated e ?r"
    using that sd do_restart by (simp add: committed_def)
  ultimately show ?thesis
    using sd by (auto simp: store_follows_def store_sound_def opened_def dest: committed_sound)
qed

lemma store_step_follows: "store_step e s s' \<Longrightarrow> store_sound e s \<Longrightarrow> store_follows e s s'"
proof (induction rule: store_step.induct)
  case (runs fn s io)
  then show ?case by (intro follows_transaction) auto
next
  case (reads s io)
  then show ?case
    by (auto simp: snapshot_def checkJournal_def intro: follows_same)
next
  case (closes s)
  then show ?case
    by (auto simp: Close_store_def store_follows_def store_sound_def)
qed (auto intro: follows_reserve follows_challenge follows_open)

text \<open>C15: The store implements the journal's state machine over its whole lives.  From an opened valid
  journal, after any sequence of transactions of journal operations, turn reservations, challenges,
  readings, closings, crashes and openings, with every outcome of the file system, the disk holds a
  journal that the state machine reaches from the first one by committed steps; so does the memory of
  the live process, and the two differ only in a store that has failed, by one committed step.  Nothing
  that was committed or on disk is lost later: the disk of any later moment is reached from it.\<close>

theorem store_refines_journal:
  assumes "sound e st" "(store_step e)\<^sup>*\<^sup>* (opened st) s" "(store_step e)\<^sup>*\<^sup>* s s'"
  shows "(committed e)\<^sup>*\<^sup>* st (s_disk s) \<and> (committed e)\<^sup>*\<^sup>* (s_disk s) (s_disk s') \<and>
    (s_lock s \<longrightarrow> (committed e)\<^sup>*\<^sup>* st (s_committed s) \<and> (committed e)\<^sup>*\<^sup>* (s_committed s) (s_disk s') \<and>
      (s_disk s = s_committed s \<or> s_failed s \<and> committed e (s_committed s) (s_disk s)))"
proof -
  have later: "store_sound e t' \<and> (committed e)\<^sup>*\<^sup>* (s_disk t) (s_disk t')"
    if "(store_step e)\<^sup>*\<^sup>* t t'" "store_sound e t" for t t'
    using that
    by (induction rule: rtranclp_induct)
      (simp, meson store_step_follows store_follows_def rtranclp_trans)
  have "store_sound e s \<and> (committed e)\<^sup>*\<^sup>* st (s_disk s) \<and> (s_lock s \<longrightarrow> (committed e)\<^sup>*\<^sup>* st (s_committed s))"
    using assms(2)
  proof (induction rule: rtranclp_induct)
    case base
    show ?case using assms(1) by (simp add: store_sound_def opened_def)
  next
    case (step t t')
    then have "store_follows e t t'"
      by (blast intro: store_step_follows)
    with step.IH show ?case
      by (auto simp: store_follows_def)
  qed
  with later [OF assms(3)] show ?thesis
    by (auto simp: store_sound_def)
qed

theorem store_refines_journal_witness:
  "(committed (sample_env uuid_a))\<^sup>*\<^sup>* queued_journal stopped_journal \<and>
   (committed (sample_env uuid_a))\<^sup>*\<^sup>* stopped_journal (s_disk (Close_store (opened stopped_journal)))"
proof -
  have "store_step (sample_env uuid_a) (opened queued_journal) (opened stopped_journal)"
    using transaction_step [of "RequestStop sample_call uuid_c ''stop''" "opened queued_journal" "sample_env uuid_a" sample_io]
      stopping do_RequestStop by simp
  then show ?thesis
    using store_refines_journal [OF queued_sound r_into_rtranclp [of "store_step _"]
        r_into_rtranclp [of "store_step _", OF closes [of _ "opened stopped_journal"]]] by simp
qed

section \<open>Failing\<close>

text \<open>A store that is closed or whose publication failed is inert: every transaction and every
  reading is refused and nothing changes.\<close>

theorem failed_store_inert:
  assumes "\<not> s_lock s \<or> s_failed s"
  shows "fst (transaction e io fn s) = s \<and> (\<exists>x. snd (transaction e io fn s) = Inl x) \<and>
    reading io rd s = (s, Inl unavailable_error) \<and>
    create_challenge_store e io c i token op d s = (s, Inl ErrUnauthorized) \<and>
    reserve_turn_store e io c i sel digest retention limit s = (s, if s_lock s then Inl failed_error else Inl closed_error)"
  using assms
  by (auto simp: transaction_def reading_def snapshot_def create_challenge_store_def reserve_turn_store_def
      deferred_def Let_def split: prod.splits)

theorem failed_store_inert_witness:
  "fst (transaction (sample_env uuid_a) sample_io (RequestStop sample_call uuid_c ''stop'')
     (Close_store (opened queued_journal))) = Close_store (opened queued_journal)"
  by (rule conjunct1 [OF failed_store_inert]) (simp add: Close_store_def)

section \<open>Challenges\<close>

lemma map_of_delete_same: "map_of (AList.delete k m) k = None"
  by (simp add: delete_conv')

text \<open>A reserved turn starts without challenges: when \<^verbatim>\<open>ReserveTurn\<close> commits a reservation, every
  control challenge its session still had is forgotten, so no proof bound to an earlier turn can be
  used for it.\<close>

theorem reservation_forgets_challenges:
  "case reserve_turn_store e io c i sel digest retention limit s of
     (s', Inl x) \<Rightarrow> True
   | (s', Inr (g, ws)) \<Rightarrow> s_committed s' = s_committed s \<or>
       map_of (s_challenges s') (ws_ID ws) = None \<and> validSessionProof e' (s_challenges s') ws p op now = False"
proof -
  have "map_of (s_challenges s') (ws_ID ws) = None"
    if "reserve_turn_store e io c i sel digest retention limit s = (s', Inr (g, ws))" "s_committed s' \<noteq> s_committed s"
    for s' g ws
    using that transaction_cases [of e io "ReserveTurn e c i sel digest retention limit" s]
    by (auto simp: reserve_turn_store_def deferred_def Let_def map_of_delete_same split: prod.splits sum.splits)
  then show ?thesis
    by (auto simp: validSessionProof_def split: prod.splits sum.splits)
qed

end
