(* ===== verification/Delivery_Frames.thy ===== *)
theory Delivery_Frames
  imports Journal_Runs
begin

text \<open>
  What \<^verbatim>\<open>validateRegistry\<close> sees of a result's delivery state: a journal stays valid when an
  unsettled worker result goes on to another delivery state, as long as the result itself stays
  consistent.  So the operations that forward a result are never refused by the validation of
  the journal they would commit.
\<close>

section \<open>Checks that do not look at the delivery state\<close>

lemma delivery_blind [simp]:
  "checkpointOutcome (t\<lparr>t_State := d\<rparr>) = checkpointOutcome t"
  "nativeCheckpointOutcome g (t\<lparr>t_State := d\<rparr>) = nativeCheckpointOutcome g t"
  "witnessMatches g (t\<lparr>t_State := d\<rparr>) w = witnessMatches g t w"
  "validTurnReceipt e g (t\<lparr>t_State := d\<rparr>) r = validTurnReceipt e g t r"
  "validTurnExecutionReceipt e g (t\<lparr>t_State := d\<rparr>) x = validTurnExecutionReceipt e g t x"
  "turnExecutionSettled e st g (t\<lparr>t_State := d\<rparr>) = turnExecutionSettled e st g t"
  "stoppedClean g (t\<lparr>t_State := d\<rparr>) = stoppedClean g t"
  "terminal_identity_ok e i g (t\<lparr>t_State := d\<rparr>) = terminal_identity_ok e i g t"
  "seal_bad e i g (t\<lparr>t_State := d\<rparr>) = seal_bad e i g t"
  "validResultReceipt e g (t\<lparr>t_State := d\<rparr>) rr = validResultReceipt e g t rr"
  by (simp_all add: fun_eq_iff checkpointOutcome_def nativeCheckpointOutcome_def witnessMatches_def validTurnReceipt_def
      validTurnExecutionReceipt_def turnExecutionSettled_def stoppedClean_def terminal_identity_ok_def seal_bad_def
      validResultReceipt_def split: option.splits)

section \<open>An unsettled result has no completion witness\<close>

lemma unsettled_witness:
  assumes "validated e st" "grant_of st i = Some g" "t_State (get_terminal st i) \<noteq> DDelivered"
  shows "g_CompletionWitness g = None"
proof (cases "g_WorkerSessionID g = []")
  case True
  then show ?thesis
    using validated_grant [OF assms(1,2)]
    by (auto simp: validate_grant_def bind_res_eq_Inr first_failure_Inr task_checks_def session_fields_set_def
        validatePendingSessionGrant_def turn_authority_def split: if_splits)
next
  case False
  obtain ws b where "list_all (\<lambda>(bad, _). \<not> bad) (turn_checks e st ws b g)"
    using validated_turn [OF assms(1,2) False] .
  then show ?thesis
    using assms(3) grant_key [OF assms(1,2)]
    by (cases "g_CompletionWitness g") (auto simp: turn_checks_def turn_receipt_checks_def Let_def)
qed

section \<open>One result goes on\<close>

lemma get_other [simp]:
  "get_session (put_terminal i u st) = get_session st" "get_storage (put_terminal i u st) = get_storage st"
  "get_grant (put_terminal i u st) = get_grant st"
  by (simp_all add: fun_eq_iff get_by_lookup)

lemma registry_other [simp]:
  "r_Grants (put_terminal i u st) = r_Grants st" "r_Storages (put_terminal i u st) = r_Storages st"
  "r_Sessions (put_terminal i u st) = r_Sessions st" "r_Conversations (put_terminal i u st) = r_Conversations st"
  "r_Capabilities (put_terminal i u st) = r_Capabilities st" "r_OwnerID (put_terminal i u st) = r_OwnerID st"
  "r_SchemaVersion (put_terminal i u st) = r_SchemaVersion st" "r_WorkspaceClaim (put_terminal i u st) = r_WorkspaceClaim st"
  "r_WorkspaceUID (put_terminal i u st) = r_WorkspaceUID st" "r_NFSServer (put_terminal i u st) = r_NFSServer st"
  by (simp_all add: put_terminal_def)

lemma get_terminal_put: "get_terminal (put_terminal i u st) j = (if j = i then u else get_terminal st j)"
  by (simp add: get_by_lookup)

definition delivers :: "env \<Rightarrow> registry \<Rightarrow> string \<Rightarrow> terminal \<Rightarrow> delivery \<Rightarrow> registry \<Rightarrow> bool" where
  "delivers e st i t d st' \<longleftrightarrow>
    validated e st \<and> terminal_of st i = Some t \<and> t_State t \<noteq> DDelivered \<and> t_State t \<noteq> DRejected \<and>
    t_Source t = SourceWorker \<and> st' = put_terminal i (t\<lparr>t_State := d\<rparr>) st"

lemma delivers_facts:
  assumes "delivers e st i t d st'"
  shows "validated e st" "get_terminal st i = t" "st' = put_terminal i (t\<lparr>t_State := d\<rparr>) st"
    "\<And>j g. grant_of st j = Some g \<Longrightarrow> g_AttemptID g = j"
    "\<And>g. grant_of st i = Some g \<Longrightarrow> g_CompletionWitness g = None"
proof -
  show v: "validated e st" "st' = put_terminal i (t\<lparr>t_State := d\<rparr>) st" and t: "get_terminal st i = t"
    using assms by (simp_all add: delivers_def get_by_lookup)
  then show "g_AttemptID g = j" if "grant_of st j = Some g" for j g
    using grant_key that by blast
  show "g_CompletionWitness g = None" if "grant_of st i = Some g" for g
    using unsettled_witness [OF v(1) that] t assms by (simp add: delivers_def)
qed

lemma delivers_terminals:
  assumes "delivers e st i t d st'"
  shows "checkpointOutcome (get_terminal st' j) = checkpointOutcome (get_terminal st j)"
    "nativeCheckpointOutcome g (get_terminal st' j) = nativeCheckpointOutcome g (get_terminal st j)"
    "witnessMatches g (get_terminal st' j) w = witnessMatches g (get_terminal st j) w"
    "validTurnReceipt e g (get_terminal st' j) r = validTurnReceipt e g (get_terminal st j) r"
    "turnExecutionSettled e st' g (get_terminal st' j) = turnExecutionSettled e st g (get_terminal st j)"
    "stoppedClean g (get_terminal st' j) = stoppedClean g (get_terminal st j)"
    "t_Kind (get_terminal st' j) = t_Kind (get_terminal st j)"
    "t_Source (get_terminal st' j) = t_Source (get_terminal st j)"
    "(terminal_of st' j = None) = (terminal_of st j = None)"
  using delivers_facts [OF assms] assms
  by (auto simp: get_terminal_put delivers_def) (auto simp: turnExecutionSettled_def)

lemma delivers_selectedWitness:
  assumes "delivers e st i t d st'"
  shows "selectedWitness e st' s k = selectedWitness e st s k"
proof -
  note f = delivers_facts [OF assms]
  have "attemptSettled st' g = attemptSettled st g" if "g_AttemptID g \<noteq> i" for g
    using that by (simp add: f(3) attemptSettled_def legacyWriterReleased_def deliverySettled_def)
  moreover have "g_AttemptID g \<noteq> i" if "grant_of st (src_AttemptID s) = Some g" "g_CompletionWitness g \<noteq> None" for g
    using that f(4,5) by auto
  ultimately show ?thesis
    using delivers_terminals(1) [OF assms]
    by (auto simp: selectedWitness_def f(3) split: option.splits)
qed

lemma delivers_sources:
  assumes "delivers e st i t d st'"
  shows "validateBackendSelectionSources e st' = validateBackendSelectionSources e st"
proof -
  have "grant_of st' = grant_of st" "storage_of st' = storage_of st"
    using assms by (simp_all add: delivers_def)
  then show ?thesis
    by (simp only: fun_eq_iff validateBackendSelectionSources_def) simp
qed

lemma delivers_grant_checks:
  assumes "delivers e st i t d st'"
  shows "grant_checks e st' j g = grant_checks e st j g"
proof -
  have "backend_selection_bad e st' g = backend_selection_bad e st g"
    by (simp add: fun_eq_iff backend_selection_bad_def delivers_sources [OF assms])
  moreover have "grant_identity_ok e st' j g = grant_identity_ok e st j g"
    using assms by (simp add: delivers_def grant_identity_ok_def)
  ultimately show ?thesis
    by (simp add: grant_checks_def)
qed

lemma delivers_grant:
  assumes "delivers e st i t d st'" "grant_of st j = Some g"
  shows "validate_grant e st' (j, g) = Inr ()"
proof -
  note f = delivers_facts [OF assms(1)] and blind = delivers_terminals [OF assms(1)]
  have old: "validate_grant e st (j, g) = Inr ()"
    by (rule validated_grant [OF f(1) assms(2)])
  have other: "terminal_of st' j = terminal_of st j \<or> j = i \<and> terminal_of st j = Some t \<and>
      terminal_of st' j = Some (t\<lparr>t_State := d\<rparr>)"
    using assms(1) by (auto simp: delivers_def)
  have worker: "t_Source t = SourceWorker" "\<not> settled_state t"
    using assms(1) by (simp_all add: delivers_def settled_state_def)
  have pending: "pending_checks st' j g = pending_checks st j g"
    using other worker by (auto simp: pending_checks_def)
  have state: "list_all (\<lambda>(bad, _). \<not> bad) (task_state_checks st' j g)"
    if old: "list_all (\<lambda>(bad, _). \<not> bad) (task_state_checks st j g)"
  proof (cases "j = i")
    case True
    then have "terminal_of st j = Some t" "terminal_of st' j = Some (t\<lparr>t_State := d\<rparr>)"
      using assms(1) by (simp_all add: delivers_def)
    then show ?thesis
      using old worker blind(6) [of g j] f(3)
      by (cases "g_State g") (simp_all add: task_state_checks_def Let_def split: if_splits)
  next
    case False
    then have same: "get_storage st' = get_storage st" "terminal_of st' j = terminal_of st j" "get_terminal st' j = get_terminal st j"
      by (simp_all add: f(3) get_terminal_put)
    have "task_state_checks st' j g = task_state_checks st j g"
      unfolding task_state_checks_def same ..
    with old show ?thesis
      by simp
  qed
  have binds: "storage_binds st' g = storage_binds st g"
    by (simp add: f(3) storage_binds_def)
  have task: "list_all (\<lambda>(bad, _). \<not> bad) (task_checks e st' j g)" if "list_all (\<lambda>(bad, _). \<not> bad) (task_checks e st j g)"
    using that state blind(9) f(3) binds by (simp add: task_checks_def)
  have turn: "turn_checks e st' ws b g = turn_checks e st ws b g" for ws b
  proof -
    have j: "g_AttemptID g = j"
      using f(4) assms(2) by blast
    have "turn_receipt_checks e st' ws g (get_terminal st' j) = turn_receipt_checks e st ws g (get_terminal st j)"
    proof (cases "g_CompletionWitness g")
      case None
      then show ?thesis
        unfolding turn_receipt_checks_def blind by simp
    next
      case (Some w)
      then have same: "get_terminal st' j = get_terminal st j"
        using f(3,5) assms(2) by (auto simp: get_terminal_put)
      show ?thesis
        unfolding turn_receipt_checks_def blind unfolding same ..
    qed
    moreover have "turn_state_checks e st' ws b g (get_terminal st' j) = turn_state_checks e st ws b g (get_terminal st j)"
      unfolding turn_state_checks_def blind ..
    ultimately show ?thesis
      unfolding turn_checks_def Let_def j delivers_sources [OF assms(1)] by simp
  qed
  have session: "validateSessionGrant e st' g = validateSessionGrant e st g"
    unfolding validateSessionGrant_def turn by (simp add: f(3))
  show ?thesis
    using old task
    by (simp add: validate_grant_def bind_res_eq_Inr first_failure_Inr delivers_grant_checks [OF assms(1)] pending session
        split: if_splits)
qed

section \<open>The other parts of the journal\<close>

lemma delivers_storage:
  assumes "delivers e st i t d st'"
  shows "validateConversationStorage e st' b = validateConversationStorage e st b"
    "task_storage_checks e st' j b = task_storage_checks e st j b" "storage_identity_ok e st' j b = storage_identity_ok e st j b"
proof -
  note f = delivers_facts(3) [OF assms] and blind = delivers_terminals [OF assms] and w = delivers_selectedWitness [OF assms]
  have look: "grant_of st' = grant_of st" "session_of st' = session_of st" "get_session st' = get_session st"
    "get_grant st' = get_grant st" "r_OwnerID st' = r_OwnerID st" "r_WorkspaceClaim st' = r_WorkspaceClaim st"
    "r_WorkspaceUID st' = r_WorkspaceUID st"
    by (simp_all add: f)
  have fenced: "sessionWritersFenced st' = sessionWritersFenced st"
    unfolding fun_eq_iff sessionWritersFenced_def look by simp
  have session: "sessionStoppedClean st' = sessionStoppedClean st" "validSessionStopEvidence st' = validSessionStopEvidence st"
    unfolding fun_eq_iff sessionStoppedClean_def validSessionStopEvidence_def look fenced by simp_all
  have "checkpoint_checks e st' b cp = checkpoint_checks e st b cp" for cp
    unfolding checkpoint_checks_def checkpoint_source_ok_def checkpoint_seal_checks_def checkpoint_session_checks_def
      look session blind w by simp
  moreover have "latest_writer_ok e st' b = latest_writer_ok e st b" "retained_preparation_ok e st' b = retained_preparation_ok e st b"
    "writer_lease_ok st' b = writer_lease_ok st b"
    unfolding fun_eq_iff latest_writer_ok_def retained_preparation_ok_def writer_lease_ok_def look by simp_all
  ultimately show "validateConversationStorage e st' b = validateConversationStorage e st b"
    unfolding validateConversationStorage_def conversation_storage_checks_def look by (simp cong: option.case_cong)
  show "task_storage_checks e st' j b = task_storage_checks e st j b" "storage_identity_ok e st' j b = storage_identity_ok e st j b"
    unfolding task_storage_checks_def storage_identity_ok_def look by simp_all
qed

lemma delivers_storages:
  assumes "delivers e st i t d st'"
  shows "storages_ok e st' roots m = storages_ok e st roots m"
proof (induction m arbitrary: roots)
  case (Cons p m)
  then show ?case
    by (cases p) (simp only: storages_ok.simps delivers_storage [OF assms])
qed simp

lemma delivers_session:
  assumes "delivers e st i t d st'"
  shows "session_journal_checks e st' j b ws = session_journal_checks e st j b ws"
    "session_stop_checks e st' j ws stop = session_stop_checks e st j ws stop"
    "session_identity_ok e st' j b ws = session_identity_ok e st j b ws"
proof -
  note f = delivers_facts(3) [OF assms] and blind = delivers_terminals [OF assms]
  have look: "grant_of st' = grant_of st" "get_grant st' = get_grant st" "r_OwnerID st' = r_OwnerID st"
    by (simp_all add: f)
  have fenced: "sessionWritersFenced st' = sessionWritersFenced st" "validSessionStopEvidence st' = validSessionStopEvidence st"
    unfolding fun_eq_iff sessionWritersFenced_def validSessionStopEvidence_def look by simp_all
  show "session_journal_checks e st' j b ws = session_journal_checks e st j b ws"
    unfolding session_journal_checks_def look blind ..
  show "session_stop_checks e st' j ws stop = session_stop_checks e st j ws stop"
    unfolding session_stop_checks_def look fenced ..
  show "session_identity_ok e st' j b ws = session_identity_ok e st j b ws"
    unfolding session_identity_ok_def look ..
qed

lemma delivers_sessions:
  assumes "delivers e st i t d st'"
  shows "sessions_ok e st' h names live m = sessions_ok e st h names live m"
proof (induction m arbitrary: names live)
  case (Cons p m)
  have "get_storage st' = get_storage st" "storage_of st' = storage_of st"
    by (simp_all add: delivers_facts(3) [OF assms])
  moreover have "session_stop_checks e st' j ws = session_stop_checks e st j ws" for j ws
    by (rule ext) (rule delivers_session(2) [OF assms])
  ultimately show ?case
    using Cons by (cases p) (simp only: sessions_ok.simps delivers_session(1,3) [OF assms])
qed simp

lemma delivers_conversation:
  assumes "delivers e st i t d st'"
  shows "validate_conversation e st' = validate_conversation e st"
proof -
  have look: "session_of st' = session_of st" "storage_of st' = storage_of st" "r_OwnerID st' = r_OwnerID st"
    by (simp_all add: delivers_facts(3) [OF assms])
  show ?thesis
    unfolding fun_eq_iff validate_conversation_def conversation_ok_def look by simp
qed

lemma delivers_capability:
  assumes "delivers e st i t d st'"
  shows "validate_capability e st' = validate_capability e st"
proof -
  have look: "grant_of st' = grant_of st"
    by (simp add: delivers_facts(3) [OF assms])
  show ?thesis
    unfolding fun_eq_iff validate_capability_def capability_ok_def look by simp
qed

text \<open>The result itself: sealed means that there is a seal, and on its way means that it is authenticated.\<close>

definition proven_delivery :: "terminal \<Rightarrow> delivery \<Rightarrow> bool" where
  "proven_delivery t d \<longleftrightarrow>
    (case d of
       DReceived \<Rightarrow> t_Seal t = None
     | DSealed \<Rightarrow> t_Seal t \<noteq> None
     | OtherDelivery _ \<Rightarrow> False
     | _ \<Rightarrow> t_Seal t \<noteq> None \<or> t_ResultReceipt t \<noteq> None)"

lemma delivers_terminal:
  assumes "delivers e st i t d st'" "t_RecoveryFailure t = None" "proven_delivery t d" "terminal_of st' j = Some u"
  shows "validate_terminal e st' (j, u) = Inr ()"
proof (cases "j = i")
  case True
  have old: "validate_terminal e st (i, t) = Inr ()"
    using validated_terminal [of e st i t] assms(1) by (simp add: delivers_def)
  then obtain g where g: "grant_of st i = Some g" "list_all (\<lambda>(bad, _). \<not> bad) (terminal_checks e i g t)"
    by (auto simp: validate_terminal_def first_failure_Inr split: option.splits)
  have u: "u = t\<lparr>t_State := d\<rparr>" "t_Source t = SourceWorker"
    using assms(1,4) True by (simp_all add: delivers_def)
  have "list_all (\<lambda>(bad, _). \<not> bad) (delivery_checks u)"
    using assms(3) u by (cases d) (simp_all add: delivery_checks_def proven_delivery_def)
  then have "list_all (\<lambda>(bad, _). \<not> bad) (terminal_checks e i g u)"
    using g(2) u assms(2) by (simp add: terminal_checks_def source_checks_def)
  then show ?thesis
    using True g(1) by (simp add: validate_terminal_def first_failure_Inr delivers_facts(3) [OF assms(1)])
next
  case False
  then show ?thesis
    using validated_terminal [OF delivers_facts(1) [OF assms(1)], of j u] assms(4)
    by (simp add: validate_terminal_def delivers_facts(3) [OF assms(1)] cong: option.case_cong)
qed

lemma delivers_validated:
  assumes "delivers e st i t d st'" "t_RecoveryFailure t = None" "proven_delivery t d" "maps_ok st"
  shows "validated e st'"
proof -
  note f = delivers_facts(3) [OF assms(1)] and old = validated_parts [OF delivers_facts(1) [OF assms(1)]]
  have distinct: "distinct_keys (r_Grants st)" "distinct_keys (r_Terminals st')"
    using assms(4) maps_ok_put(3) [of i "t\<lparr>t_State := d\<rparr>" st] by (simp_all add: f maps_ok_def)
  have "each_ok (validate_grant e st') (r_Grants st') = Inr ()"
    using delivers_grant [OF assms(1)] distinct(1)
    by (auto simp: each_ok_Inr f grant_of_def distinct_keys_def)
  moreover have "each_ok (validate_terminal e st') (r_Terminals st') = Inr ()"
    using delivers_terminal [OF assms(1-3)] distinct(2)
    by (auto simp: each_ok_Inr terminal_of_def distinct_keys_def)
  moreover have "first_failure (registry_checks e st') = Inr ()"
    using delivers_facts(1) [OF assms(1)]
    by (simp add: f registry_checks_def validated_def validate_registry_def validateRegistry_def bind_res_eq_Inr)
  moreover have "storages_ok e st' [] (r_Storages st') = Inr ()" "sessions_ok e st' False [] [] (r_Sessions st') = Inr ()"
    using old(2,6) delivers_storages [OF assms(1)] delivers_sessions [OF assms(1)] by (simp_all add: f)
  moreover have "each_ok (validate_capability e st') (r_Capabilities st') = Inr ()"
    "each_ok (validate_conversation e st') (r_Conversations st') = Inr ()"
    using old(3,5) delivers_capability [OF assms(1)] delivers_conversation [OF assms(1)] by (simp_all add: f)
  ultimately show ?thesis
    by (simp add: validated_def validate_registry_def validateRegistry_def validateConversations_def)
qed

end
