(* ===== verification/Sample_Claims.thy ===== *)
theory Sample_Claims
  imports Samples
begin

text \<open>
  A concrete claim, activated by \<^verbatim>\<open>Create\<close> on a journal whose volume is bound: a grant that
  writes a storage, and the journal that holds both.
\<close>

definition sample_claim :: task_grant where
  "sample_claim = zero_grant\<lparr>g_TaskID := uuid_b, g_AttemptID := uuid_c, g_RuntimeID := ''rt'', g_WorkspaceID := uuid_a,
     g_AgentID := ''agent'', g_RuntimeRef := sample_ref, g_Envelope := ''{}'', g_ResourceScope := [''b'', ''a'']\<rparr>"

definition volume_journal :: registry where
  "volume_journal = (empty_registry (sample_env uuid_a))\<lparr>r_WorkspaceClaim := ''claim'', r_WorkspaceUID := ''uid'',
     r_NFSServer := ''10.0.0.1''\<rparr>"

definition claimed_grant :: task_grant where
  "claimed_grant = sample_claim\<lparr>g_OwnerID := uuid_a, g_ResourceScope := [''a'', ''b''], g_ScopeDigest := sample_sha,
     g_Metadata := ''{}'', g_Fingerprint := sample_sha, g_RequestDigest := sample_sha, g_State := WaitingStorage,
     g_Generation := 1, g_CreatedAt := 100\<rparr>"

definition sample_root :: string where
  "sample_root = ''/workspace/workspace-11111111111a/task-22222222222b''"

lemma sample_owner [simp]: "canonicalUUID (sample_env uuid_a) uuid_a" "canonicalUUID (sample_env uuid_a) uuid_b"
   "canonicalUUID (sample_env uuid_a) uuid_c" "canonicalUUID (sample_env uuid_a) uuid_d"
  by (simp_all add: eval)

lemma uuid_nonempty [simp]: "uuid_a \<noteq> []" "uuid_b \<noteq> []" "uuid_c \<noteq> []" "uuid_d \<noteq> []"
  by (simp_all add: uuid_a_def uuid_b_def uuid_c_def uuid_d_def)

lemma sample_claim_ok:
  "claim_identity_ok (sample_env uuid_a) (with_identity (sample_env uuid_a) sample_call sample_claim)"
  "\<not> supplies_execution (with_identity (sample_env uuid_a) sample_call sample_claim)"
  "\<not> supplies_conversation (with_identity (sample_env uuid_a) sample_call sample_claim)"
  by (simp_all add: claim_identity_ok_def supplies_execution_def supplies_conversation_def with_identity_def
      sample_claim_def zero_grant_def sample_ref_valid)

lemma parse_empty_object [simp]: "parse_json ''{}'' = Some (JObj [])"
  by (simp add: parse_json_def parse_fuel_def numeral_eq_Suc max_depth_def skip_ws_def json_ws_def)

lemma compact_empty_object [simp]: "compactJSON ''{}'' = ''{}''"
  by (simp add: compactJSON_def json_compact_def)

lemma claim_normal: "normalizeClaim (sample_env uuid_a) sample_call sample_claim = Inr claimed_grant"
  unfolding normalizeClaim_def normalize_def
  apply (simp add: sample_claim_ok Let_def)
  apply (simp add: with_scope_def with_identity_def sample_claim_def zero_grant_def claimed_grant_def scopeDigest_def
    RuntimeFingerprint_def validOpaque_def contains_any_def eval sample_call_def)
  done

lemma sample_task_root: "TaskRoot (sample_env uuid_a) ''/workspace'' uuid_a uuid_b '''' '''' = Inr sample_root"
  by (simp add: TaskRoot_def) (simp add: uuid_a_def uuid_b_def sample_root_def eval)

definition writing_grant :: task_grant where
  "writing_grant = claimed_grant\<lparr>g_StorageID := uuid_d, g_PVCName := ''claim'', g_PVCUID := ''uid'', g_TaskRoot := sample_root,
     g_PodName := ''task-'' @ uuid_c, g_State := Intent\<rparr>"

definition written_storage :: storage where
  "written_storage = zero_storage\<lparr>b_ID := uuid_d, b_WorkspaceID := uuid_a, b_TaskID := uuid_b, b_AgentID := ''agent'',
     b_TaskRoot := sample_root, b_ScopeDigest := sample_sha, b_Fingerprint := sample_sha, b_PVCName := ''claim'',
     b_PVCUID := ''uid'', b_ActiveAttempt := uuid_c\<rparr>"

definition writing_journal :: registry where
  "writing_journal = volume_journal\<lparr>r_Grants := [(uuid_c, writing_grant)], r_Storages := [(uuid_d, written_storage)]\<rparr>"

lemma no_labels: "unmarshal dec_labels ''{}'' = Some ([], [])"
  by (simp add: unmarshal_def dec_labels_def dec_struct_def dec_field_def field_values_def)

lemma volume_fields [simp]:
  "r_WorkspaceClaim volume_journal = ''claim''" "r_WorkspaceUID volume_journal = ''uid''" "r_Grants volume_journal = []"
  "r_Storages volume_journal = []" "r_Terminals volume_journal = []" "r_Sessions volume_journal = []"
  by (simp_all add: volume_journal_def empty_registry_def)

lemma claimed_fields [simp]:
  "g_TaskID claimed_grant = uuid_b" "g_AttemptID claimed_grant = uuid_c" "g_WorkspaceID claimed_grant = uuid_a"
  "g_AgentID claimed_grant = ''agent''" "g_ScopeDigest claimed_grant = sample_sha"
  "g_Fingerprint claimed_grant = sample_sha" "g_Envelope claimed_grant = ''{}''" "\<not> g_Reuse claimed_grant"
  "g_ResumeWorkDir claimed_grant = []" "g_ResumeSession claimed_grant = []"
  by (simp_all add: claimed_grant_def sample_claim_def zero_grant_def)

lemma sample_claim_fields [simp]: "\<not> g_SessionProtocol sample_claim" "g_State sample_claim = OtherState []"
  by (simp_all add: sample_claim_def zero_grant_def)

lemma sample_storage_for:
  "storage_for (sample_env uuid_a) sample_call volume_journal claimed_grant =
    Inr (written_storage\<lparr>b_ActiveAttempt := []\<rparr>, False)"
  by (simp add: storage_for_def matching_storage_def new_storage_def mvals_def no_labels sample_task_root)
    (simp add: sample_call_def zero_storage_def written_storage_def)

lemma sample_activated: "activated claimed_grant (written_storage\<lparr>b_ActiveAttempt := []\<rparr>) False = writing_grant"
  by (simp add: activated_def writing_grant_def)
   (simp add: claimed_grant_def sample_claim_def zero_grant_def written_storage_def zero_storage_def)

lemma sample_created:
  "Create (sample_env uuid_a) sample_call sample_claim (Some 1) volume_journal = Inr (writing_journal, Inr writing_grant)"
  by (simp add: Create_def claim_normal queued_claim_def grant_of_def mvals_def checkPendingBudget_def pending_total_def
      admitResident_def resident_count_def sample_storage_for sample_activated Let_def)
   (simp add: writing_journal_def put_grant_def put_storage_def writing_grant_def written_storage_def)

lemma writing_fields [simp]:
  "r_OwnerID writing_journal = uuid_a" "r_Terminals writing_journal = []" "r_Grants writing_journal = [(uuid_c, writing_grant)]"
  "r_Storages writing_journal = [(uuid_d, written_storage)]" "r_Capabilities writing_journal = []"
  "r_Conversations writing_journal = []" "r_Sessions writing_journal = []" "r_WorkspaceClaim writing_journal = ''claim''"
  "r_WorkspaceUID writing_journal = ''uid''" "r_NFSServer writing_journal = ''10.0.0.1''"
  "r_SchemaVersion writing_journal = schema_version"
  by (simp_all add: writing_journal_def volume_journal_def empty_registry_def)

lemma writing_lookups [simp]:
  "grant_of writing_journal i = (if i = uuid_c then Some writing_grant else None)"
  "storage_of writing_journal i = (if i = uuid_d then Some written_storage else None)"
  "terminal_of writing_journal i = None" "session_of writing_journal i = None"
  by (auto simp: grant_of_def storage_of_def terminal_of_def session_of_def)

lemma writing_grant_fields [simp]:
  "g_State writing_grant = Intent" "g_AttemptID writing_grant = uuid_c" "g_StorageID writing_grant = uuid_d"
  "g_WorkerSessionID writing_grant = []" "b_ActiveAttempt written_storage = uuid_c" "b_ID written_storage = uuid_d"
  "g_TaskID writing_grant = uuid_b" "b_WorkspaceAnchorTaskID written_storage = []" "b_TaskRoot written_storage = sample_root"
  "b_WorkspaceID written_storage = uuid_a" "b_TaskID written_storage = uuid_b"
  by (simp_all add: writing_grant_def written_storage_def claimed_grant_def sample_claim_def zero_grant_def zero_storage_def)

lemma sample_root_valid: "ValidateTaskRoot (sample_env uuid_a) ''/workspace'' sample_root uuid_a uuid_b = Inr ()"
proof -
  have "TaskRoot (sample_env uuid_a) ''/workspace'' uuid_a uuid_b ''workspace'' ''task'' = Inr sample_root"
    by (simp add: TaskRoot_def) (simp add: uuid_a_def uuid_b_def sample_root_def eval)
  then show ?thesis
    by (simp add: ValidateTaskRoot_def) (simp add: sample_root_def uuid_a_def uuid_b_def eval)
qed

lemma uuid_opaque [simp]: "validOpaque uuid_a" "validOpaque uuid_b" "validOpaque uuid_c" "validOpaque uuid_d"
  by (simp_all add: uuid_a_def uuid_b_def uuid_c_def uuid_d_def validOpaque_def contains_any_def eval)

lemma sample_opaque: "validOpaque ''rt''" "validOpaque ''agent''" "validOpaque ''a''" "validOpaque ''b''"
  by (simp_all add: validOpaque_def contains_any_def eval)

lemma writing_validated_grant: "validate_grant (sample_env uuid_a) writing_journal (uuid_c, writing_grant) = Inr ()"
proof -
  have "list_all (\<lambda>(bad, _). \<not> bad) (grant_checks (sample_env uuid_a) writing_journal uuid_c writing_grant)"
    by (simp add: grant_checks_def grant_identity_ok_def)
     (simp add: writing_grant_def claimed_grant_def sample_claim_def zero_grant_def given_def start_unproven_def stop_key_unbound_def
        RuntimeFingerprint_def scopeDigest_def record_fits_def sample_opaque)
  moreover have "list_all (\<lambda>(bad, _). \<not> bad) (task_checks (sample_env uuid_a) writing_journal uuid_c writing_grant)"
    by (simp add: task_checks_def task_state_checks_def storage_binds_def get_by_lookup given_def Let_def)
     (simp add: writing_grant_def claimed_grant_def sample_claim_def zero_grant_def given_def session_fields_set_def
         written_storage_def zero_storage_def)
  ultimately show ?thesis
    by (simp add: validate_grant_def bind_res_eq_Inr first_failure_Inr)
qed

lemma writing_sound: "sound (sample_env uuid_a) writing_journal"
proof -
  have "storages_ok (sample_env uuid_a) writing_journal [] (r_Storages writing_journal) = Inr ()"
    by (simp add: storage_identity_ok_def sample_root_valid task_storage_checks_def first_failure_Inr)
      (simp add: written_storage_def zero_storage_def given_def eval)
  then show ?thesis
    using writing_validated_grant sample_uuid_laws
    by (simp add: sound_def validated_def validate_registry_def validateRegistry_def registry_checks_def
        first_failure_Inr validateConversations_def maps_ok_def distinct_keys_def)
qed

lemma sample_create_committed: "committed (sample_env uuid_a) volume_journal writing_journal"
proof -
  have "sound (sample_env uuid_a) volume_journal"
    using sample_uuid_laws
    by (simp add: sound_def validated_def validate_registry_def validateRegistry_def registry_checks_def
        first_failure_Inr validateConversations_def maps_ok_def distinct_keys_def)
      (simp add: volume_journal_def empty_registry_def)
  then show ?thesis
    using writing_sound do_Create [OF sample_created] by (simp add: committed_def sound_def)
qed

section \<open>A task in service\<close>

text \<open>
  A concrete task whose preparation is done: its journal while the Pod is created, bound and
  admitted, with the capability that was issued before the Pod was there.
\<close>

definition unplaced_preparation :: prepared where
  "unplaced_preparation = \<lparr>p_Conversation = None, p_WorkspaceAnchorTaskID = [], p_Digest = sample_sha, p_OwnerID = uuid_a,
     p_WorkspaceID = uuid_a, p_TaskID = uuid_b, p_AgentID = uuid_d, p_AttemptID = uuid_c, p_Generation = 1,
     p_PVCUID = ''uid'', p_TaskRoot = sample_root, p_Provider = ''claude'', p_Executable = ''/bin/claude'',
     p_RuntimeDigest = sample_sha, p_ConfigurationDigest = sample_sha,
     p_Environment = \<lparr>ne_RootDir = [], ne_WorkDir = [], ne_MulticaConfigRoot = [], ne_CodexHome = [], ne_ClaudeSettingsPath = []\<rparr>,
     p_Repositories = None, p_SkillIDs = None, p_CreatedAt = 5, p_CleanupManifest = ''{}'', p_AllowedLinks = None,
     p_NativeMetadata = None\<rparr>"

definition sample_preparation :: prepared where
  "sample_preparation = unplaced_preparation\<lparr>p_Environment := wanted_environment unplaced_preparation\<rparr>"

definition service_grant :: "string \<Rightarrow> string \<Rightarrow> grant_state \<Rightarrow> task_grant" where
  "service_grant uid key s = writing_grant\<lparr>g_AgentID := uuid_d, g_Prepared := Some sample_preparation, g_Execution := ''{}'',
     g_PreparationStarted := True, g_PreparationStopped := True, g_PodUID := uid,
     g_NodeID := (if uid = [] then [] else ''node''), g_SupervisorKey := key, g_State := s\<rparr>"

definition service_capability :: "string \<Rightarrow> capability" where
  "service_capability uid = \<lparr>cap_WorkerSessionID = [], cap_TurnSequence = 0, cap_Token = capability_token [],
     cap_AttemptID = uuid_c, cap_Audience = ''mcp'', cap_Generation = 1, cap_PodUID = uid, cap_ExpiresAt = 200\<rparr>"

definition service_storage :: storage where
  "service_storage = written_storage\<lparr>b_AgentID := uuid_d\<rparr>"

definition service_journal :: "task_grant \<Rightarrow> capability gomap \<Rightarrow> registry" where
  "service_journal g caps = volume_journal\<lparr>r_Grants := [(uuid_c, g)], r_Storages := [(uuid_d, service_storage)],
     r_Capabilities := caps\<rparr>"

lemma sample_texts:
  "canonicalPath sample_root" "canonicalPath ''/bin/claude''" "validOpaque ''uid''" "validOpaque ''node''"
  "fingerprint sample_sha" "path_dir (path_dir sample_root) = ''/workspace''"
  "decodeCleanup sample_root ''{}'' = Inr ([], [])"
  by code_simp+

lemma preparation_valid: "ValidatePrepared (sample_env uuid_a) sample_preparation = Inr ()"
  using sample_root_valid
  by (simp add: ValidatePrepared_def sample_preparation_def unplaced_preparation_def preparedAnchor_def links_of_def
      wanted_environment_def preparedDigest_def SupportedProvider_def preparation_bytes_def sample_texts)

lemma service_grant_fields [simp]:
  "g_State (service_grant uid key s) = s" "g_AttemptID (service_grant uid key s) = uuid_c"
  "g_StorageID (service_grant uid key s) = uuid_d" "g_PodUID (service_grant uid key s) = uid"
  "g_NodeID (service_grant uid key s) = (if uid = [] then [] else ''node'')" "g_SupervisorKey (service_grant uid key s) = key"
  "g_WorkerSessionID (service_grant uid key s) = []" "\<not> g_ExecutionRevoked (service_grant uid key s)"
  "g_Prepared (service_grant uid key s) = Some sample_preparation" "g_PreparationStopped (service_grant uid key s)"
  "g_PVCUID (service_grant uid key s) = ''uid''" "g_PodName (service_grant uid key s) = ''task-'' @ uuid_c"
  "g_StopKey (service_grant uid key s) = []" "g_Generation (service_grant uid key s) = 1"
  "g_TurnSequence (service_grant uid key s) = 0" "g_Stop (service_grant uid key s) = None"
  "(service_grant uid key s)\<lparr>g_SupervisorKey := key1, g_State := s1\<rparr> = service_grant uid key1 s1"
  by (simp_all add: service_grant_def) (simp_all add: writing_grant_def claimed_grant_def sample_claim_def zero_grant_def)

lemma service_fields [simp]:
  "r_OwnerID (service_journal g caps) = uuid_a" "r_Terminals (service_journal g caps) = []"
  "r_Grants (service_journal g caps) = [(uuid_c, g)]" "r_Storages (service_journal g caps) = [(uuid_d, service_storage)]"
  "r_Capabilities (service_journal g caps) = caps" "r_Conversations (service_journal g caps) = []"
  "r_Sessions (service_journal g caps) = []" "r_WorkspaceClaim (service_journal g caps) = ''claim''"
  "r_WorkspaceUID (service_journal g caps) = ''uid''" "r_NFSServer (service_journal g caps) = ''10.0.0.1''"
  "r_SchemaVersion (service_journal g caps) = schema_version"
  "grant_of (service_journal g caps) i = (if i = uuid_c then Some g else None)"
  "storage_of (service_journal g caps) i = (if i = uuid_d then Some service_storage else None)"
  "terminal_of (service_journal g caps) i = None" "session_of (service_journal g caps) i = None"
  "put_grant uuid_c h (service_journal g caps) = service_journal h caps"
  "put_capabilities caps1 (service_journal g caps) = service_journal g caps1"
  by (auto simp: service_journal_def volume_journal_def empty_registry_def grant_of_def storage_of_def terminal_of_def
      session_of_def put_grant_def put_capabilities_def)

lemma service_validated_grant:
  assumes "s = Intent \<and> key = [] \<or>
      (s = Ready \<or> s = TerminalReceived \<and> terminal_of st uuid_c \<noteq> None) \<and> length key = key_size \<and> uid \<noteq> []"
    "r_OwnerID st = uuid_a" "storage_of st uuid_d = Some service_storage"
  shows "validate_grant (sample_env uuid_a) st (uuid_c, service_grant uid key s) = Inr ()"
proof -
  let ?g = "service_grant uid key s"
  have open_state: "s \<noteq> Closed" and received: "s = TerminalReceived \<Longrightarrow> \<exists>t. terminal_of st uuid_c = Some t"
    using assms(1) by auto
  have checks: "list_all (\<lambda>(bad, _). \<not> bad) (grant_checks (sample_env uuid_a) st uuid_c ?g)"
    by (simp add: grant_checks_def grant_identity_ok_def)
     (simp add: open_state service_grant_def writing_grant_def claimed_grant_def sample_claim_def zero_grant_def given_def
        start_unproven_def stop_key_unbound_def RuntimeFingerprint_def scopeDigest_def record_fits_def sample_opaque assms(2))
  have prepared: "prepared_for_attempt (sample_env uuid_a) uuid_c ?g sample_preparation"
    by (simp add: prepared_for_attempt_def preparation_valid record_fits_def)
     (simp add: sample_preparation_def unplaced_preparation_def service_grant_def writing_grant_def claimed_grant_def
        sample_claim_def zero_grant_def)
  have state: "list_all (\<lambda>(bad, _). \<not> bad) (task_state_checks st uuid_c ?g)"
    using assms(1,3)
    by (elim disjE conjE)
      (simp_all add: task_state_checks_def storage_binds_def get_by_lookup Let_def service_storage_def written_storage_def
        zero_storage_def)
  have "list_all (\<lambda>(bad, _). \<not> bad) (task_checks (sample_env uuid_a) st uuid_c ?g)"
    using received
    by (simp add: task_checks_def storage_binds_def get_by_lookup assms(3) open_state prepared state)
     (simp add: service_grant_def writing_grant_def claimed_grant_def sample_claim_def zero_grant_def
        session_fields_set_def service_storage_def written_storage_def zero_storage_def)
  with checks show ?thesis
    by (simp add: validate_grant_def bind_res_eq_Inr first_failure_Inr)
qed

lemma token_opaque [simp]: "validOpaque (capability_token [])" "validOpaque ''mcp''"
  by code_simp+

lemma service_storages:
  "grant_of st uuid_c = Some (service_grant uid key s) \<Longrightarrow> s \<noteq> Closed \<Longrightarrow> r_OwnerID st = uuid_a \<Longrightarrow>
   r_WorkspaceClaim st = ''claim'' \<Longrightarrow> r_WorkspaceUID st = ''uid'' \<Longrightarrow>
   storages_ok (sample_env uuid_a) st [] [(uuid_d, service_storage)] = Inr ()"
  by (simp add: storage_identity_ok_def task_storage_checks_def first_failure_Inr service_storage_def)
    (simp add: written_storage_def zero_storage_def given_def sample_root_valid sample_texts)

lemma service_sound:
  assumes "s = Intent \<and> key = [] \<or> s = Ready \<and> length key = key_size \<and> uid \<noteq> []"
    "caps = [] \<or> caps = [(sample_sha, service_capability uid)]"
  shows "sound (sample_env uuid_a) (service_journal (service_grant uid key s) caps)"
proof -
  let ?st = "service_journal (service_grant uid key s) caps"
  have "validate_grant (sample_env uuid_a) ?st (uuid_c, service_grant uid key s) = Inr ()"
    using assms(1) by (intro service_validated_grant) auto
  moreover have "storages_ok (sample_env uuid_a) ?st [] [(uuid_d, service_storage)] = Inr ()"
    using assms(1) by (intro service_storages [of _ uid key s]) auto
  ultimately show ?thesis
    using sample_uuid_laws assms(2)
    by (auto simp: sound_def validated_def validate_registry_def validateRegistry_def registry_checks_def
        first_failure_Inr validateConversations_def maps_ok_def distinct_keys_def validate_capability_def capability_ok_def
        service_capability_def)
qed

section \<open>The steps\<close>

definition service_key :: string where "service_key = replicate 32 CHR ''k''"

lemma service_issued:
  "IssueCapability (sample_env uuid_a) sample_call uuid_c ''mcp'' 200 (service_journal (service_grant [] [] Intent) []) =
   Inr (service_journal (service_grant [] [] Intent) [(sample_sha, service_capability [])], capability_token [])"
  by (simp add: IssueCapability_def IssueCapability_step_def update_grant_def Let_def mvals_def)
   (simp add: service_capability_def sample_call_def)

lemma service_bound:
  "BindPod uuid_c (''task-'' @ uuid_c) uuid_d ''node'' (service_journal (service_grant [] [] Intent) [(sample_sha, service_capability [])]) =
   Inr (service_journal (service_grant uuid_d [] Intent) [(sample_sha, service_capability uuid_d)], ())"
proof -
  have "bind_capabilities uuid_c uuid_d (service_journal g [(sample_sha, service_capability [])]) =
      service_journal g [(sample_sha, service_capability uuid_d)]" for g
    by (simp add: bind_capabilities_def service_journal_def service_capability_def)
  moreover have "(service_grant [] [] Intent)\<lparr>g_PodUID := uuid_d, g_NodeID := ''node''\<rparr> = service_grant uuid_d [] Intent"
    by (simp add: service_grant_def uuid_d_def)
  ultimately show ?thesis
    by (simp add: BindPod_def update_grant_def BindPod_step_def bind_failure_def)
qed

lemma service_admitted:
  "Admit uuid_c service_key (service_journal (service_grant uuid_d [] Intent) [(sample_sha, service_capability uuid_d)]) =
   Inr (service_journal (service_grant uuid_d service_key Ready) [(sample_sha, service_capability uuid_d)], ())"
  by (simp add: Admit_def update_grant_def Admit_step_def service_key_def key_size_def uuid_d_def)

section \<open>A result on its way\<close>

text \<open>The task's cancellation, acknowledged by its worker and sealed.\<close>

definition sealed_result :: "delivery \<Rightarrow> terminal" where
  "sealed_result d = zero_terminal\<lparr>t_Source := SourceWorker, t_ResultDigest := sample_sha, t_ReceiptID := uuid_d,
     t_TaskID := uuid_b, t_AttemptID := uuid_c, t_PodUID := uuid_d, t_PVCUID := ''uid'', t_Kind := KindCancelAck,
     t_Body := ''{}'', t_RequestDigest := sample_sha, t_Nonce := uuid_d, t_ReceivedAt := 9, t_State := d,
     t_Seal := Some \<lparr>sg_TaskID = uuid_b, sg_AttemptID = uuid_c, sg_RequestDigest = sample_sha,
       sg_PodUID = uuid_d, sg_PVCUID = ''uid'', sg_Nonce = uuid_d, sg_WritersStopped = True, sg_FlushOK = True, sg_Signature = ''ok''\<rparr>\<rparr>"

definition sealed_journal :: "delivery \<Rightarrow> registry" where
  "sealed_journal d =
    put_terminal uuid_c (sealed_result d) (service_journal (service_grant uuid_d service_key TerminalReceived) [])"

lemma sealed_lookups [simp]:
  "terminal_of (sealed_journal d) uuid_c = Some (sealed_result d)"
  "grant_of (sealed_journal d) uuid_c = Some (service_grant uuid_d service_key TerminalReceived)"
  by (simp_all add: sealed_journal_def)

lemma sealed_sound:
  assumes "d = DUncertain \<or> d = DForwarding"
  shows "sound (sample_env uuid_a) (sealed_journal d)"
proof -
  let ?g = "service_grant uuid_d service_key TerminalReceived" and ?st = "sealed_journal d"
  have fields: "r_OwnerID ?st = uuid_a" "r_WorkspaceClaim ?st = ''claim''" "r_WorkspaceUID ?st = ''uid''"
    "r_NFSServer ?st = ''10.0.0.1''" "r_SchemaVersion ?st = schema_version" "r_Grants ?st = [(uuid_c, ?g)]"
    "r_Storages ?st = [(uuid_d, service_storage)]" "r_Capabilities ?st = []" "r_Conversations ?st = []"
    "r_Sessions ?st = []" "r_Terminals ?st = [(uuid_c, sealed_result d)]" "storage_of ?st uuid_d = Some service_storage"
    by (simp_all add: sealed_journal_def) (simp_all add: put_terminal_def)
  have placed: "uuid_d \<noteq> []"
    by (simp add: uuid_d_def)
  have "validate_grant (sample_env uuid_a) ?st (uuid_c, ?g) = Inr ()"
    by (rule service_validated_grant) (simp_all add: fields placed service_key_def key_size_def)
  moreover have "storages_ok (sample_env uuid_a) ?st [] [(uuid_d, service_storage)] = Inr ()"
    by (rule service_storages [of _ uuid_d service_key TerminalReceived]) (simp_all add: fields)
  moreover have "validate_terminal (sample_env uuid_a) ?st (uuid_c, sealed_result d) = Inr ()"
    using assms
    by (auto simp: validate_terminal_def first_failure_Inr terminal_checks_def terminal_identity_ok_def source_checks_def
        delivery_checks_def seal_bad_def sealed_result_def zero_terminal_def record_fits_def TerminalDigest_def
        service_key_def key_size_def sample_texts)
      (simp_all add: service_grant_def writing_grant_def claimed_grant_def sample_claim_def zero_grant_def uuid_d_def)
  ultimately show ?thesis
    using sample_uuid_laws
    by (simp add: sound_def validated_def validate_registry_def validateRegistry_def registry_checks_def
        first_failure_Inr validateConversations_def maps_ok_def distinct_keys_def fields)
qed

lemma sealed_restarted: "restarted (sealed_journal DForwarding) = sealed_journal DUncertain"
proof -
  have "restart_grant (service_grant uuid_d service_key TerminalReceived) = service_grant uuid_d service_key TerminalReceived"
    by (simp add: restart_grant_def service_grant_def writing_grant_def claimed_grant_def sample_claim_def zero_grant_def)
  moreover have "restart_terminal (sealed_result DForwarding) = sealed_result DUncertain"
    by (simp add: restart_terminal_def sealed_result_def zero_terminal_def)
  ultimately show ?thesis
    by (simp add: restarted_def sealed_journal_def put_terminal_def service_journal_def volume_journal_def empty_registry_def)
qed

end
