(* ===== verification/Outbox_Properties.thy ===== *)
theory Outbox_Properties
  imports Store_Properties Delivery_Frames Sample_Claims
begin

text \<open>
  Results and events on their way out: the budget of unsettled results, the numbering of a turn's
  events, what a restart does to deliveries under way and that the journal lets a proven result be
  delivered after one.
\<close>

section \<open>The budget of unsettled results\<close>

definition result_size :: "terminal \<Rightarrow> int" where
  "result_size t = int (length (t_Body t)) + (case t_RecoveryFailure t of None \<Rightarrow> 0 | Some rf \<Rightarrow> int (length (rf_Body rf)))"

lemma pending_new:
  assumes "terminal_of st i = None" "t_State t = DReceived" "t_RecoveryFailure t = None"
    and "r_Terminals st' = AList.update i t (r_Terminals st)"
  shows "pending_total st' = (fst (pending_total st) + 1, snd (pending_total st) + int (length (t_Body t)))"
proof -
  have settled: "deliverySettled st' j = deliverySettled st j" if "j \<noteq> i" for j
    using that assms(4) by (simp add: deliverySettled_def terminal_of_def)
  have "\<not> deliverySettled st' i"
    using assms by (simp add: deliverySettled_def terminal_of_def)
  moreover have "filter (\<lambda>(j, _). \<not> deliverySettled st' j) (r_Terminals st) =
      filter (\<lambda>(j, _). \<not> deliverySettled st j) (r_Terminals st)"
  proof (intro filter_cong refl)
    fix p
    assume "p \<in> set (r_Terminals st)"
    then have "fst p \<noteq> i"
      using assms(1) by (auto simp: terminal_of_def map_of_eq_None_iff)
    then show "(case p of (j, _) \<Rightarrow> \<not> deliverySettled st' j) = (case p of (j, _) \<Rightarrow> \<not> deliverySettled st j)"
      using settled by (simp add: case_prod_beta')
  qed
  moreover have "r_Terminals st' = r_Terminals st @ [(i, t)]"
    using assms(1,4) by (simp add: terminal_of_def AList_update_new)
  ultimately show ?thesis
    using assms(3) by (simp add: pending_total_def Let_def)
qed

lemma put_terminals [simp]:
  "r_Terminals (put_grant i g st) = r_Terminals st" "r_Terminals (put_session j w st) = r_Terminals st"
  "r_Terminals (put_storage k b st) = r_Terminals st" "r_Terminals (set_quarantined k q st) = r_Terminals st"
  "r_Terminals (put_terminal i t st) = AList.update i t (r_Terminals st)"
  "r_Terminals (finish_session j st) = r_Terminals st"
  by (simp_all add: put_grant_def put_session_def put_storage_def put_terminal_def set_quarantined_def finish_session_def Let_def)

lemma invalidate_terminals: "invalidate_sessions ss st g = Inr (st1, g1) \<Longrightarrow> r_Terminals st1 = r_Terminals st"
  by (induction ss st g rule: invalidate_sessions.induct) (auto simp: Let_def split: if_splits)

lemma publishResume_terminals: "publishResume c s w st g = Inr (st1, g1) \<Longrightarrow> r_Terminals st1 = r_Terminals st"
  unfolding publishResume_def bind_res_eq_Inr if_Inl_eq_Inr
  by (elim conjE exE, cases "s = []") (clarsimp split: if_splits option.splits)+

lemma terminalResume_terminals: "terminalResume c r st g = Inr (st1, g1) \<Longrightarrow> r_Terminals st1 = r_Terminals st"
  by (cases "g_WorkerSessionID g = []")
    (auto simp: terminalResume_def bind_res_eq_Inr Let_def simp del: invalidate_sessions.simps
      dest!: invalidate_terminals publishResume_terminals)

lemma requestSessionStop_terminals:
  "requestSessionStop c reason now st ws = (st1, ws1) \<Longrightarrow> r_Terminals st1 = r_Terminals st"
  by (auto simp: requestSessionStop_def Let_def split: if_splits)

lemma terminal_taken:
  assumes "ReceiveTerminal_step e c i kind body resume d st g = Inr (st1, h, t)" "terminal_of st i = None"
  shows "r_Terminals st1 = AList.update i t (r_Terminals st) \<and> t_State t = DReceived \<and> t_RecoveryFailure t = None \<and>
    t_Body t = body \<and> checkPendingBudget e st (int (length body)) = Inr ()"
proof -
  obtain st2 g1 where *: "terminalResume c resume st g = Inr (st2, g1)" "t = worker_terminal e c i kind body d g1"
    "st1 = (if g_WorkerSessionID g1 \<noteq> [] then finish_session (g_WorkerSessionID g1) (put_terminal i t st2)
            else put_terminal i t st2)" "checkPendingBudget e st (int (length body)) = Inr ()"
    using assms by (auto simp: ReceiveTerminal_step_def Let_def bind_res_eq_Inr split: if_splits)
  then show ?thesis
    using terminalResume_terminals [OF *(1)] by (simp add: worker_terminal_def zero_terminal_def)
qed

lemma failure_taken:
  assumes "ReceiveFailure_step e c i body st g = Inr (st1, h, t)" "terminal_of st i = None"
  shows "r_Terminals st1 = AList.update i t (r_Terminals st) \<and> t_State t = DReceived \<and> t_RecoveryFailure t = None \<and>
    t_Body t = body \<and> checkPendingBudget e st (int (length body)) = Inr ()"
  using assms
  by (auto simp: ReceiveFailure_step_def bind_res_eq_Inr Let_def controller_terminal_def zero_terminal_def
      dest!: requestSessionStop_terminals split: if_splits prod.splits)

lemma received_result:
  assumes "terminal_of st i = None"
    and "ReceiveTerminal e c i kind body resume d st = Inr (st', t) \<or> ReceiveFailure e c i body st = Inr (st', t)"
  shows "r_Terminals st' = AList.update i t (r_Terminals st) \<and> t_State t = DReceived \<and> t_RecoveryFailure t = None \<and>
    t_Body t = body \<and> checkPendingBudget e st (int (length body)) = Inr ()"
  using assms(2) terminal_taken [OF _ assms(1)] failure_taken [OF _ assms(1)]
  by (fastforce simp: ReceiveTerminal_def ReceiveFailure_def update_grant_def split: option.splits sum.splits if_splits)

text \<open>C27: The outbox stays within its budget: a result that is taken in, from a worker or from the
  controller, is one more unsettled result with its body's bytes, and afterwards neither the number of
  unsettled results nor their bytes exceed the limits.\<close>

theorem pending_within_budget:
  assumes "terminal_of st i = None"
    and "ReceiveTerminal e c i kind body resume d st = Inr (st', t) \<or> ReceiveFailure e c i body st = Inr (st', t)"
  shows "pending_total st' = (fst (pending_total st) + 1, snd (pending_total st) + int (length body)) \<and>
    int (fst (pending_total st')) \<le> o_MaxPendingResults e \<and> snd (pending_total st') \<le> o_MaxPendingResultBytes e"
proof -
  have "pending_total st' = (fst (pending_total st) + 1, snd (pending_total st) + int (length body))"
    using received_result [OF assms] pending_new [OF assms(1), of t st'] by auto
  with received_result [OF assms] show ?thesis
    by (auto simp: checkPendingBudget_def split: prod.splits if_splits)
qed

theorem pending_within_budget_witness:
  "pending_total (failed_journal DReceived) = (1, 2)"
proof -
  have "pending_total queued_journal = (0, 0)"
    by (simp add: pending_total_def queued_journal_def)
  moreover have "terminal_of queued_journal uuid_c = None"
    by (simp add: queued_journal_def)
  ultimately show ?thesis
    using pending_within_budget [OF _ disjI2 [OF queued_failure]] by simp
qed

section \<open>Events\<close>

text \<open>C2: Events are numbered without gaps and taken once: an accepted event is either one the attempt
  already has under that number, with the same body, and then nothing changes, or the next in the
  attempt's log, one past the last, with the storage's next upstream number (which does not wrap around),
  and the bodies of the log stay within the record budget; and repeating the call returns the same event
  and changes nothing.  The log is assumed to be shorter than the range of its 64-bit numbers.\<close>

theorem event_taken_once:
  assumes "ReceiveEvent e i n body st = Inr (st', ev)" "grant_of st i = Some g" "length (g_Events g) + 1 < 2 ^ 64"
  shows "ReceiveEvent e i n body st' = Inr (st', ev) \<and> e_Body ev = compactJSON body \<and>
    (if unat n \<le> length (g_Events g) then st' = st \<and> ev = g_Events g ! (unat n - 1)
     else unat n = length (g_Events g) + 1 \<and> e_Sequence ev = n \<and> e_State ev = EvReceived \<and>
       grant_of st' i = Some (g\<lparr>g_Events := g_Events g @ [ev]\<rparr>) \<and>
       unat (e_UpstreamSequence ev) = unat (b_EventSequence (get_storage st (g_StorageID g))) + 1 \<and>
       b_EventSequence (get_storage st' (g_StorageID g)) = e_UpstreamSequence ev \<and>
       (\<Sum>x\<leftarrow>g_Events g @ [ev]. int (length (e_Body x))) \<le> o_MaxRecordBytes e)"
proof -
  let ?m = "length (g_Events g)"
  have n: "n \<noteq> 0" "0 < unat n" and guard: "\<not> (n = 0 \<or> \<not> json_valid body \<or> int (length body) > o_MaxRecordBytes e)"
    using assms(1) by (auto simp: ReceiveEvent_def unat_gt_0 split: if_splits)
  have le: "n \<le> of_nat k \<longleftrightarrow> unat n \<le> k" if "k < 2 ^ 64" for k
    using that by (simp add: word_le_nat_alt unat_of_nat)
  have succ: "n = of_nat ?m + 1 \<longleftrightarrow> unat n = ?m + 1"
  proof -
    have "unat (of_nat (?m + 1) :: u64) = ?m + 1"
      using assms(3) by (simp only: unat_of_nat) simp
    moreover have "of_nat ?m + 1 = (of_nat (?m + 1) :: u64)"
      by simp
    ultimately show ?thesis
      by (simp only: word_unat_eq_iff)
  qed
  obtain st1 h where step: "ReceiveEvent_step e n (compactJSON body) st g = Inr (st1, h, ev)" and st': "st' = put_grant i h st1"
    using assms(1,2) by (auto simp: ReceiveEvent_def update_grant_def split: if_splits sum.splits)
  have again: "ReceiveEvent e i n body st' = Inr (st', ev)"
    if "grant_of st' i = Some h" "g_State h = Started" "unat n \<le> length (g_Events h)" "length (g_Events h) < 2 ^ 64"
      "g_Events h ! (unat n - 1) = ev" "e_Body ev = compactJSON body"
  proof -
    have "n \<le> of_nat (length (g_Events h))"
      using le that by simp
    then show ?thesis
      using guard that by (simp add: ReceiveEvent_def update_grant_def ReceiveEvent_step_def Let_def put_grant_def
        grant_of_def AList_update_id)
  qed
  show ?thesis
  proof (cases "unat n \<le> ?m")
    case True
    then have "st1 = st" "h = g" "g_State g = Started" "g_Events g ! (unat n - 1) = ev" "e_Body ev = compactJSON body"
      using step le [of ?m] assms(3) by (auto simp: ReceiveEvent_step_def Let_def split: if_splits)
    moreover from this have "st' = st"
      using st' assms(2) by (simp add: put_grant_def grant_of_def AList_update_id)
    ultimately show ?thesis
      using True again assms(2,3) by simp
  next
    case False
    let ?b = "b_EventSequence (get_storage st (g_StorageID g))"
    from False have new: "unat n = ?m + 1" "g_State g = Started" "h = g\<lparr>g_Events := g_Events g @ [ev]\<rparr>"
      "ev = \<lparr>e_Sequence = n, e_UpstreamSequence = b_EventSequence (get_storage st (g_StorageID g)) + 1,
        e_Body = compactJSON body, e_State = EvReceived\<rparr>"
      "st1 = put_storage (g_StorageID g) ((get_storage st (g_StorageID g))\<lparr>b_EventSequence := e_UpstreamSequence ev\<rparr>) st"
      using step le [of ?m] succ assms(3) by (auto simp: ReceiveEvent_step_def Let_def split: if_splits)
    have "?b + 1 \<noteq> 0" "events_size g + int (length (e_Body ev)) \<le> o_MaxRecordBytes e"
      using step False le [of ?m] assms(3) by (auto simp: ReceiveEvent_step_def Let_def split: if_splits)
    then have "unat (?b + 1) = unat ?b + 1"
      "(\<Sum>x\<leftarrow>g_Events g @ [ev]. int (length (e_Body x))) \<le> o_MaxRecordBytes e"
      by (simp_all add: unatSuc [unfolded add.commute [of 1]] events_size_def)
    moreover have "e_UpstreamSequence ev = ?b + 1"
      using new(4) by simp
    moreover note new
    moreover have "grant_of st' i = Some h"
      by (simp add: st' put_grant_def grant_of_def)
    moreover have "get_storage st' (g_StorageID g) = (get_storage st (g_StorageID g))\<lparr>b_EventSequence := e_UpstreamSequence ev\<rparr>"
      by (simp add: st' new(5) put_grant_def put_storage_def get_storage_def)
    ultimately show ?thesis
      using again assms(3) False by simp
  qed
qed

theorem event_taken_once_witness:
  "\<exists>st' ev. ReceiveEvent (sample_env uuid_a) uuid_c 1 ''{}'' (sample_journal (sample_grant None False Started) None) = Inr (st', ev) \<and>
    ReceiveEvent (sample_env uuid_a) uuid_c 1 ''{}'' st' = Inr (st', ev) \<and> unat (e_UpstreamSequence ev) = 1"
proof -
  have compact: "compactJSON ''{}'' = ''{}''"
    by (simp add: compactJSON_def json_compact_def parse_json_def parse_fuel_def numeral_eq_Suc max_depth_def skip_ws_def json_ws_def)
  have zero: "get_storage (sample_journal g t) [] = zero_storage" for g t
    by (simp add: get_storage_def sample_journal_def empty_registry_def)
  let ?st = "sample_journal (sample_grant None False Started) None"
  obtain st' ev where *: "ReceiveEvent (sample_env uuid_a) uuid_c 1 ''{}'' ?st = Inr (st', ev)"
    by (simp add: ReceiveEvent_def update_grant_def ReceiveEvent_step_def compact zero events_size_def Let_def zero_storage_def)
  from event_taken_once [OF this, of "sample_grant None False Started"] show ?thesis
    using * by (auto simp: zero) (simp_all add: zero_storage_def)
qed

section \<open>Delivery after a crash\<close>

lemma goes_on:
  assumes "sound e st" "terminal_of st i = Some t" "t_Source t = SourceWorker" "t_RecoveryFailure t = None"
    and "t_State t \<noteq> DDelivered" "t_State t \<noteq> DRejected" "proven_delivery t d"
    and "journal_step e st (put_terminal i (t\<lparr>t_State := d\<rparr>) st)"
  shows "committed e st (put_terminal i (t\<lparr>t_State := d\<rparr>) st)"
proof -
  have "delivers e st i t d (put_terminal i (t\<lparr>t_State := d\<rparr>) st)"
    using assms(1-6) by (simp add: delivers_def sound_def)
  then have "validated e (put_terminal i (t\<lparr>t_State := d\<rparr>) st)"
    using assms(1,4,7) by (auto simp: sound_def intro: delivers_validated)
  with assms(1,8) show ?thesis
    by (simp add: committed_def)
qed

lemma put_grant_same: "grant_of st i = Some g \<Longrightarrow> put_grant i g st = st"
  by (simp add: put_grant_def grant_of_def AList_update_id)

lemma resumed:
  assumes "sound e st" "terminal_of st i = Some t" "grant_of st i = Some g" "t_Source t = SourceWorker"
    and "t_Seal t \<noteq> None \<or> t_ResultReceipt t \<noteq> None" "t_RecoveryFailure t = None"
    and "g_StartConfirmed g \<or> t_Kind t = KindCancelAck" "t_State t = DUncertain"
  shows "committed e st (put_terminal i (t\<lparr>t_State := (if t_Seal t \<noteq> None then DSealed else DReceived)\<rparr>) st)"
proof (rule goes_on [OF assms(1,2,4,6)])
  show "proven_delivery t (if t_Seal t \<noteq> None then DSealed else DReceived)"
    by (simp add: proven_delivery_def)
  let ?st = "put_terminal i (t\<lparr>t_State := (if t_Seal t \<noteq> None then DSealed else DReceived)\<rparr>) st"
  have "put_grant i g ?st = ?st"
    using assms(3) by (simp add: put_grant_same)
  then have "ResumeForward i st = Inr (?st, ())"
    using assms by (auto simp: ResumeForward_def update_grant_def ResumeForward_step_def)
  then show "journal_step e st ?st"
    by (rule do_ResumeForward)
qed (simp_all add: assms(8))

lemma forwarded:
  assumes "sound e st" "terminal_of st i = Some t" "t_Source t = SourceWorker"
    and "t_Seal t \<noteq> None \<or> t_ResultReceipt t \<noteq> None" "t_RecoveryFailure t = None"
    and "t_State t = DReceived \<or> t_State t = DSealed"
  shows "(committed e)\<^sup>*\<^sup>* st (put_terminal i (t\<lparr>t_State := DDelivered\<rparr>) (put_terminal i (t\<lparr>t_State := DForwarding\<rparr>) st))"
proof -
  let ?t = "t\<lparr>t_State := DForwarding\<rparr>"
  let ?st = "put_terminal i ?t st"
  have "BeginForward i st = Inr (?st, ())"
    using assms by (auto simp: BeginForward_def update_terminal_def BeginForward_step_def)
  then have 1: "committed e st ?st"
    using assms by (intro goes_on [OF assms(1-3,5)]) (auto simp: proven_delivery_def intro: do_BeginForward)
  have "FinishForward i ''delivered'' ?st = Inr (put_terminal i (?t\<lparr>t_State := DDelivered\<rparr>) ?st, ())"
    by (simp add: FinishForward_def update_terminal_def FinishForward_step_def delivery_of_def)
  then have "committed e ?st (put_terminal i (?t\<lparr>t_State := DDelivered\<rparr>) ?st)"
    using assms(3-5) committed_sound [OF 1]
    by (intro goes_on) (auto simp: proven_delivery_def intro: do_FinishForward)
  with 1 show ?thesis
    by (simp add: converse_rtranclp_into_rtranclp)
qed

text \<open>C28: A proven result is never stranded.  Wherever in its delivery the controller was interrupted, once
  the restarted journal is a valid one, a worker result that a seal or a result receipt authenticates and
  no recovery failure has replaced, of an attempt whose start is confirmed or as the acknowledgement of a
  cancellation, can be brought to delivered by committed operations, each of which the journal's
  validation accepts, and it is delivered unchanged.\<close>

theorem result_deliverable:
  assumes "sound e (restarted st)" "terminal_of st i = Some t" "grant_of st i = Some g" "t_Source t = SourceWorker"
    and "t_Seal t \<noteq> None \<or> t_ResultReceipt t \<noteq> None" "t_RecoveryFailure t = None"
    and "g_StartConfirmed g \<or> t_Kind t = KindCancelAck"
    and "t_State t \<in> {DReceived, DSealed, DForwarding, DUncertain}"
  shows "\<exists>st' u. (committed e)\<^sup>*\<^sup>* (restarted st) st' \<and> terminal_of st' i = Some u \<and> t_State u = DDelivered \<and>
    same_terminal t u \<and> deliverySettled st' i"
proof -
  let ?t = "restart_terminal t"
  have t: "terminal_of (restarted st) i = Some ?t" and g: "grant_of (restarted st) i = Some (restart_grant g)"
    using assms(2,3) by simp_all
  have kept: "t_Source ?t = SourceWorker" "t_Seal ?t = t_Seal t" "t_ResultReceipt ?t = t_ResultReceipt t"
    "t_RecoveryFailure ?t = None" "t_Kind ?t = t_Kind t" "t_State ?t \<in> {DReceived, DSealed, DUncertain}"
    "g_StartConfirmed (restart_grant g) = g_StartConfirmed g" "same_terminal t ?t"
    using assms(4,6,8) by (auto simp: restart_terminal_def restart_grant_def same_terminal_def)
  obtain st1 u1 where ready: "(committed e)\<^sup>*\<^sup>* (restarted st) st1" "terminal_of st1 i = Some u1"
    "t_State u1 = DReceived \<or> t_State u1 = DSealed" "u1 = ?t\<lparr>t_State := t_State u1\<rparr>"
  proof (cases "t_State ?t = DUncertain")
    case True
    then show thesis
      using resumed [OF assms(1) t g] kept assms(5,7)
      by (intro that [OF r_into_rtranclp]) (assumption | simp)+
  next
    case False
    then show thesis
      using t kept by (intro that [OF rtranclp.rtrancl_refl, of ?t]) simp_all
  qed
  have u1: "t_Source u1 = SourceWorker" "t_Seal u1 = t_Seal t" "t_ResultReceipt u1 = t_ResultReceipt t" "t_RecoveryFailure u1 = None"
    by (subst ready(4); simp add: kept)+
  let ?st = "put_terminal i (u1\<lparr>t_State := DDelivered\<rparr>) (put_terminal i (u1\<lparr>t_State := DForwarding\<rparr>) st1)"
  have "(committed e)\<^sup>*\<^sup>* st1 ?st"
    using forwarded [OF run_sound [OF ready(1) assms(1)] ready(2)] u1 assms(5) ready(3) by simp
  then have "(committed e)\<^sup>*\<^sup>* (restarted st) ?st"
    using ready(1) by (rule rtranclp_trans [rotated])
  moreover have "same_terminal t (u1\<lparr>t_State := DDelivered\<rparr>)"
    using kept(8) by (subst ready(4)) (simp add: same_terminal_def)
  ultimately show ?thesis
    using u1(4) by (intro exI [of _ ?st] exI [of _ "u1\<lparr>t_State := DDelivered\<rparr>"]) (simp add: deliverySettled_def)
qed

theorem result_deliverable_witness:
  "\<exists>st' u. (committed (sample_env uuid_a))\<^sup>*\<^sup>* (sealed_journal DUncertain) st' \<and> terminal_of st' uuid_c = Some u \<and>
    t_State u = DDelivered \<and> same_terminal (sealed_result DForwarding) u \<and> deliverySettled st' uuid_c"
  using result_deliverable [of "sample_env uuid_a" "sealed_journal DForwarding" uuid_c] sealed_sound [of DUncertain]
  by (simp add: sealed_restarted) (simp add: sealed_result_def zero_terminal_def)

section \<open>Opening\<close>

definition quiet :: "registry \<Rightarrow> bool" where
  "quiet st \<longleftrightarrow>
    list_all (\<lambda>t. t_State t \<noteq> DForwarding \<and> \<not> given (t_RecoveryFailure t) (\<lambda>rf. rf_State rf = DForwarding)) (mvals (r_Terminals st)) \<and>
    list_all (\<lambda>g. list_all (\<lambda>ev. e_State ev \<noteq> EvForwarding) (g_Events g)) (mvals (r_Grants st))"

lemma restart_terminal_quiet:
  "t_State (restart_terminal t) \<noteq> DForwarding" "\<not> given (t_RecoveryFailure (restart_terminal t)) (\<lambda>rf. rf_State rf = DForwarding)"
  by (cases "t_State t = DForwarding"; cases "t_RecoveryFailure t"; simp add: restart_terminal_def Let_def)+

lemma restarted_quiet: "quiet (restarted st)"
  by (auto simp: quiet_def restarted_def mvals_def list_all_iff restart_grant_def restart_event_def restart_terminal_quiet)

lemma upgrade_versions:
  "migrateWorkspaceCompatibility e st = Inr st1 \<Longrightarrow> r_SchemaVersion st1 = r_SchemaVersion st"
  "restoreHistoricalSessionProtocol st = Inr st1 \<Longrightarrow> r_SchemaVersion st1 = r_SchemaVersion st"
  "map_sum (\<lambda>x. x) (\<lambda>gs. st\<lparr>r_Grants := gs\<rparr>) r = Inr st1 \<Longrightarrow> r_SchemaVersion st1 = r_SchemaVersion st"
  by (cases r; auto simp: bind_res_eq_Inr Let_def migrateWorkspaceCompatibility_def restoreHistoricalSessionProtocol_def)+

lemma upgraded_version:
  assumes "upgraded e st = Inr st1"
  shows "r_SchemaVersion st1 = r_SchemaVersion st"
proof -
  let ?v = "r_SchemaVersion st"
  obtain sa sb where migrate: "(if ?v = 14 then migrateWorkspaceCompatibility e st else Inr st) = Inr sa"
    and restore: "(if ?v < schema_version then restoreHistoricalSessionProtocol sa else Inr sa) = Inr sb"
    and grants: "(if ?v < 11 then map_sum (\<lambda>x. x) (\<lambda>gs. sb\<lparr>r_Grants := gs\<rparr>) (each_map (schema10_grant sb) (r_Grants sb))
      else Inr sb) = Inr st1"
    using assms unfolding upgraded_def Let_def bind_res_eq_Inr by blast
  have "r_SchemaVersion sa = ?v"
    using migrate by (auto dest: upgrade_versions(1) split: if_splits)
  moreover have "r_SchemaVersion sb = r_SchemaVersion sa"
    using restore by (auto dest: upgrade_versions(2) split: if_splits)
  moreover have "r_SchemaVersion st1 = r_SchemaVersion sb"
    using grants by (cases "?v < 11") (simp only: if_True, erule upgrade_versions(3), simp)
  ultimately show ?thesis
    by simp
qed

lemma drain_version: "r_SchemaVersion (drain_sessions cs n is st) = r_SchemaVersion st"
  by (induction cs n "is" st rule: drain_sessions.induct)
    (auto simp: Let_def requestSessionStop_def put_session_def put_grant_def split: prod.splits if_splits)

lemma read_version:
  "read_journal e cs doc = Inr st \<Longrightarrow> r_SchemaVersion st = r_SchemaVersion doc"
  "read_journal e cs doc = Inr st \<Longrightarrow> r_SchemaVersion doc = schema_version \<Longrightarrow> validated e st"
  by (auto simp: read_journal_def bind_res_eq_Inr Let_def drain_version validated_def dest!: upgraded_version split: if_splits)

lemma written: "write_store e io st s = (s', Inr u) \<Longrightarrow> s' = s\<lparr>s_disk := st, s_committed := st\<rparr> \<and> validated e st"
  by (drule write_store_cases) auto

lemma quiet_empty: "quiet (empty_registry e)"
  by (simp add: quiet_def empty_registry_def mvals_def)

lemma opened_forms:
  assumes "Open_store e io cs entries disk = Inr s"
  shows "\<exists>st. s = opened st \<and> validated e st \<and> quiet st"
proof (cases "journal_exists entries = Inr False")
  case True
  then have "write_store e io (empty_registry e) (opened (empty_registry e)) = (s, Inr ())"
    using assms by (auto simp: Open_store_def split: if_splits prod.splits sum.splits)
  then show ?thesis
    using written quiet_empty by fastforce
next
  case False
  then obtain st where st: "read_journal e cs disk = Inr st"
    using assms by (auto simp: Open_store_def bind_res_eq_Inr split: if_splits)
  define st1 where "st1 = restarted (st\<lparr>r_SchemaVersion := schema_version\<rparr>)"
  have run: "(if r_SchemaVersion st \<noteq> schema_version \<or> st1 \<noteq> st then
      (if \<not> io_intact io then Inl changed_error
       else case write_store e io st1 (opened disk) of (_, Inl x) \<Rightarrow> Inl x | (s, Inr _) \<Rightarrow> Inr s)
    else if io_publication io \<noteq> Published then Inl system_error
    else if \<not> io_intact io then Inl changed_error else Inr (opened st)) = Inr s"
    using assms False st by (auto simp: Open_store_def bind_res_eq_Inr Let_def st1_def split: if_splits)
  show ?thesis
  proof (cases "r_SchemaVersion st \<noteq> schema_version \<or> st1 \<noteq> st")
    case True
    then have "write_store e io st1 (opened disk) = (s, Inr ())"
      using run by (auto split: if_splits prod.splits sum.splits)
    then show ?thesis
      using written restarted_quiet st1_def by fastforce
  next
    case False
    then have "s = opened st" "validated e st" "quiet st"
      using run read_version [OF st] restarted_quiet [of "st\<lparr>r_SchemaVersion := schema_version\<rparr>"]
      by (auto simp: st1_def split: if_splits)
    then show ?thesis
      by blast
  qed
qed

text \<open>C29: A store that opens is ready: the journal it holds is valid, of the current schema and the one on disk,
  no challenge is remembered, and no result and no event is still marked as being forwarded, whatever
  the file said.\<close>

theorem opened_store_ready:
  assumes "Open_store e io cs entries disk = Inr s"
  shows "store_ok e s \<and> s_lock s \<and> \<not> s_failed s \<and> validated e (s_committed s) \<and> s_disk s = s_committed s \<and>
    s_challenges s = [] \<and> quiet (s_committed s)"
  using opened_forms [OF assms] by (auto simp: store_ok_def)

theorem opened_store_ready_witness:
  "store_ok (sample_env uuid_a) (opened queued_journal) \<and> quiet queued_journal"
proof -
  have "r_SchemaVersion queued_journal = schema_version"
    by (simp add: queued_journal_def sample_journal_def empty_registry_def)
  moreover have "restarted queued_journal = queued_journal"
    by (simp add: restarted_def queued_journal_def sample_journal_def restart_grant_def empty_registry_def)
  moreover have "restarted (queued_journal\<lparr>r_SchemaVersion := 16\<rparr>) = queued_journal"
    by (simp add: restarted_def queued_journal_def sample_journal_def restart_grant_def empty_registry_def schema_version_def)
  moreover have "validate_registry (sample_env uuid_a) queued_journal = Inr ()"
    using queued_sound by (simp add: sound_def validated_def)
  ultimately have "Open_store (sample_env uuid_a) sample_io (\<lambda>_. sample_call) [(''journal.json'', RegularFile)] queued_journal =
      Inr (opened queued_journal)"
    by (simp add: Open_store_def classify_entry_def read_journal_def upgraded_def Let_def schema_version_def)
  from opened_store_ready [OF this] show ?thesis
    by simp
qed

end
