(* ===== verification/Sample_Turns.thy ===== *)
theory Sample_Turns
  imports Sample_Claims
begin

text \<open>
  A concrete claim of a conversation with proven compatibility, and the turn \<^verbatim>\<open>ReserveTurn\<close>
  reserves for it: a journal with a live session.
\<close>

definition sample_key :: conversation_key where
  "sample_key = \<lparr>ck_OwnerID = uuid_a, ck_WorkspaceID = uuid_a, ck_Kind = ConversationIssue, ck_SubjectID = uuid_c,
     ck_AgentID = uuid_d\<rparr>"

definition sample_authority :: authority_evidence where
  "sample_authority = \<lparr>ae_Version = 1, ae_WorkspaceID = uuid_a, ae_RuntimeID = uuid_d, ae_AgentID = uuid_d,
     ae_PrincipalID = uuid_b, ae_AgentOwnerID = uuid_b, ae_OriginatorID = [], ae_DelegationKnown = True,
     ae_Memberships = Some [\<lparr>am_UserID = uuid_b, am_Role = ''owner''\<rparr>], ae_Integrations = no_integrations\<rparr>"

definition sample_compatibility :: compatibility where
  "sample_compatibility = \<lparr>cc_Conversation = sample_key, cc_RuntimeID = uuid_d, cc_Authority = sample_authority,
     cc_Repositories = [], cc_ResourceScope = [''a'', ''b''], cc_Provider = ''codex'', cc_ProviderOptionsResolved = True,
     cc_RuntimeRef = sample_ref, cc_ConfigurationDigest = sample_sha, cc_AgentInstructions = [], cc_Model = [],
     cc_ThinkingLevel = [], cc_ServiceTier = [], cc_CustomArgs = [], cc_CustomEnv = [], cc_SkillHashes = [],
     cc_DisabledRuntimeSkills = [], cc_StableMCP = ''{}'', cc_StablePlugins = ''{}''\<rparr>"

definition sample_selection :: selection where
  "sample_selection = zero_selection\<lparr>sel_Conversation := sample_key, sel_Mode := SelectionFreshWorkspace\<rparr>"

definition turn_claim :: task_grant where
  "turn_claim = claimed_grant\<lparr>g_SessionProtocol := True, g_AgentID := uuid_d, g_RuntimeID := uuid_d,
     g_Conversation := sample_key, g_Compatibility := Some sample_compatibility, g_CompatibilityDigest := sample_sha,
     g_WorkspaceCompatibilityDigest := sample_sha\<rparr>"

definition turn_journal :: registry where
  "turn_journal = volume_journal\<lparr>r_Grants := [(uuid_c, turn_claim)]\<rparr>"

definition turn_call :: call where
  "turn_call = sample_call\<lparr>c_random := replicate 32 CHR ''x''\<rparr>"

lemma sample_key_valid [simp]: "ConversationKey_Valid (sample_env uuid_a) sample_key"
  by (simp add: ConversationKey_Valid_def sample_key_def)

lemma sample_fingerprint [simp]: "fingerprint sample_sha"
  by (simp add: eval)

lemma sample_normalized: "normalizedWorkspace (sample_env uuid_a) sample_compatibility = Inr sample_compatibility"
  by (simp add: normalizedWorkspace_def sample_compatibility_def sample_authority_def sort_repositories_def SupportedProvider_def eval)
    (simp add: sample_ref_def sample_key_def sample_sha_def)

lemma canonical_empty_object [simp]: "canonicalJSON ''{}'' = ''{}''"
  by (simp add: canonicalJSON_def decode_first_def parse_fuel_def numeral_eq_Suc max_depth_def skip_ws_def json_ws_def
      canonical_value.simps)

lemma marshal_empty_object [simp]: "marshal_raw ''{}'' = Some (JObj [])"
  by (simp add: marshal_raw_def)

lemma sample_digests [simp]:
  "Compatibility_Digest (sample_env uuid_a) sample_compatibility = Inr sample_sha"
  "WorkspaceDigest (sample_env uuid_a) sample_compatibility = Inr sample_sha"
  by (simp_all add: Compatibility_Digest_def WorkspaceDigest_def sample_normalized)
   (simp add: sample_compatibility_def compatibility_json_def)

lemma turn_claim_fields [simp]:
  "g_SessionProtocol turn_claim" "\<not> g_Legacy turn_claim" "g_WorkerSessionID turn_claim = []" "g_Selection turn_claim = None"
  "g_State turn_claim = WaitingStorage" "\<not> g_ExecutionRevoked turn_claim" "g_AttemptID turn_claim = uuid_c"
  "g_TaskID turn_claim = uuid_b" "g_WorkspaceID turn_claim = uuid_a" "g_AgentID turn_claim = uuid_d"
  "g_OwnerID turn_claim = uuid_a" "g_CompatibilityDigest turn_claim = sample_sha" "g_Envelope turn_claim = ''{}''"
  "g_WorkspaceCompatibilityDigest turn_claim = sample_sha" "g_Compatibility turn_claim = Some sample_compatibility"
  "g_BackendSelection turn_claim = None" "g_StorageID turn_claim = []" "g_Conversation turn_claim = sample_key"
  "g_RuntimeID turn_claim = uuid_d" "g_RuntimeRef turn_claim = sample_ref" "g_Repositories turn_claim = []"
  "g_ResourceScope turn_claim = [''a'', ''b'']" "g_ScopeDigest turn_claim = sample_sha" "g_Fingerprint turn_claim = sample_sha"
  by (simp_all add: turn_claim_def claimed_grant_def sample_claim_def zero_grant_def)

lemma sample_compatibility_scope [simp]:
  "sample_compatibility\<lparr>cc_Repositories := [], cc_ResourceScope := [''a'', ''b'']\<rparr> = sample_compatibility"
  "cc_Conversation sample_compatibility = sample_key" "cc_RuntimeID sample_compatibility = uuid_d"
  "cc_RuntimeRef sample_compatibility = sample_ref"
  by (simp_all add: sample_compatibility_def)

lemma sample_selection_fields [simp]:
  "sel_Conversation sample_selection = sample_key" "sel_Mode sample_selection = SelectionFreshWorkspace"
  "\<not> sel_WorkspaceReuseEligible sample_selection" "\<not> sel_ReuseEligible sample_selection"
  "sel_EvidenceDigest sample_selection = []" "no_sources sample_selection"
  by (simp_all add: sample_selection_def zero_selection_def no_sources_def)

lemma sample_proven: "sel_Conversation s = sample_key \<Longrightarrow> \<not> sel_WorkspaceReuseEligible s \<Longrightarrow> \<not> sel_ReuseEligible s \<Longrightarrow>
   provenCompatibility (sample_env uuid_a) turn_claim s sample_sha"
  by (simp add: provenCompatibility_def compatibilityScopeMatches_def Ref_Equal_def)

lemma turn_journal_fields [simp]:
  "r_OwnerID turn_journal = uuid_a" "r_Grants turn_journal = [(uuid_c, turn_claim)]" "r_Storages turn_journal = []"
  "r_Terminals turn_journal = []" "r_Sessions turn_journal = []" "r_Capabilities turn_journal = []"
  "r_Conversations turn_journal = []" "r_WorkspaceClaim turn_journal = ''claim''" "r_WorkspaceUID turn_journal = ''uid''"
  "r_NFSServer turn_journal = ''10.0.0.1''" "r_SchemaVersion turn_journal = schema_version"
  "grant_of turn_journal i = (if i = uuid_c then Some turn_claim else None)"
  "session_of turn_journal i = None" "storage_of turn_journal i = None"
  by (simp_all add: turn_journal_def volume_journal_def empty_registry_def grant_of_def session_of_def storage_of_def)

definition turn_storage_rec :: storage where
  "turn_storage_rec = zero_storage\<lparr>b_ID := uuid_d, b_Conversation := sample_key, b_WorkspaceAnchorTaskID := uuid_b,
     b_CompatibilityDigest := sample_sha, b_WorkspaceCompatibilityDigest := sample_sha, b_WorkspaceID := uuid_a,
     b_TaskID := uuid_b, b_AgentID := uuid_d, b_TaskRoot := sample_root, b_ScopeDigest := sample_sha,
     b_Fingerprint := sample_sha, b_PVCName := ''claim'', b_PVCUID := ''uid''\<rparr>"

lemma turn_fresh_storage:
  "fresh_storage (sample_env uuid_a) turn_call turn_journal turn_claim sample_selection sample_sha = Inr turn_storage_rec"
  by (simp add: fresh_storage_def no_labels sample_task_root mvals_def)
   (simp add: turn_storage_rec_def turn_call_def sample_call_def)

definition turn_session_rec :: worker_session where
  "turn_session_rec = reserved_session turn_call uuid_c 60
     (new_session turn_call sample_sha turn_claim sample_selection sample_sha turn_storage_rec 60)"

definition turn_grant :: task_grant where
  "turn_grant = reserved_grant turn_claim sample_selection sample_sha turn_storage_rec turn_session_rec"

definition reserved_journal :: registry where
  "reserved_journal = turn_journal\<lparr>r_Grants := [(uuid_c, turn_grant)],
     r_Storages := [(uuid_d, reserved_storage uuid_c turn_claim turn_session_rec turn_storage_rec)],
     r_Sessions := [(uuid_b, turn_session_rec)],
     r_Conversations := [(sample_sha, \<lparr>cv_Key = sample_key, cv_CurrentStorageID = uuid_d, cv_CurrentSessionID = uuid_b, cv_Revision = 2\<rparr>)]\<rparr>"

lemma sample_requested:
  "turn_requested (sample_env uuid_a) turn_call uuid_c sample_selection sample_sha turn_claim turn_journal = Inr ()"
  by (simp add: turn_requested_def sample_proven preservesBackendSelection_def validateLocalWorkspaceSelection_def
      checkPendingBudget_def pending_total_def mvals_def blocks_turn_def)

lemma sample_source:
  "turn_source (sample_env uuid_a) turn_call turn_journal turn_claim sample_selection sample_sha =
   Inr (zero_storage, zero_session)"
  by (simp add: turn_source_def)

lemma sample_conversation:
  "turn_conversation (sample_env uuid_a) turn_journal sample_selection =
   Inr (zero_conversation\<lparr>cv_Key := sample_key, cv_Revision := 1\<rparr>)"
  by (simp add: turn_conversation_def get_conversation_def mget_def zero_conversation_def)

lemma sample_storage:
  "turn_storage_for (sample_env uuid_a) turn_call turn_journal turn_claim sample_selection sample_sha zero_storage =
   Inr turn_storage_rec"
  by (simp add: turn_storage_for_def unusedTaskStorage_def task_storages_def mvals_def turn_fresh_storage)
    (simp add: zero_storage_def)

lemma sample_conversation_digest [simp]: "ConversationKey_Digest (sample_env uuid_a) k = sample_sha"
  by (simp add: ConversationKey_Digest_def)

lemma turn_session_fields [simp]:
  "ws_ID turn_session_rec = uuid_b" "ws_TurnSequence turn_session_rec = 1" "ws_ActiveAttempt turn_session_rec = uuid_c"
  "ws_State turn_session_rec = SessionCreating" "ws_Stop turn_session_rec = None" "ws_StorageID turn_session_rec = uuid_d"
  "ws_Conversation turn_session_rec = sample_key"
  by (simp_all add: turn_session_rec_def reserved_session_def new_session_def turn_call_def sample_call_def zero_session_def
      turn_storage_rec_def)

lemma turn_storage_rec_fields [simp]: "b_ID turn_storage_rec = uuid_d" "turn_storage_free turn_storage_rec zero_session"
  by (simp_all add: turn_storage_rec_def turn_storage_free_def zero_storage_def)

lemma turn_reserved:
  "ReserveTurn (sample_env uuid_a) turn_call uuid_c sample_selection sample_sha 60 1 turn_journal =
   Inr (reserved_journal, Inr (turn_grant, turn_session_rec))"
proof -
  have admit: "admitResident turn_call turn_journal 1 now = (True, turn_journal)" for now
    by (simp add: admitResident_def resident_count_def mvals_def counts_legacy_def)
  have "selection_scope_ok turn_claim sample_selection" "reservation_ok (sample_env uuid_a) sample_selection sample_sha 60 1 = Inr ()"
    by (simp_all add: selection_scope_ok_def reservation_ok_def mode_known_def reuse_claim_ok_def)
      (simp add: sample_key_def)
  moreover have "turn_current turn_call turn_journal turn_claim sample_selection zero_storage 60 (zero_conversation\<lparr>cv_Key := sample_key, cv_Revision := 1\<rparr>) = CurrentFree"
    by (simp add: turn_current_def zero_conversation_def)
  moreover have "commit_turn (sample_env uuid_a) uuid_c sample_selection sample_sha turn_claim
      (zero_conversation\<lparr>cv_Key := sample_key, cv_Revision := 1\<rparr>) turn_storage_rec turn_session_rec turn_journal =
      (reserved_journal, turn_grant)"
    by (simp add: commit_turn_def turn_grant_def [symmetric] reserved_journal_def put_grant_def put_session_def put_storage_def
        put_conversation_def)
  moreover have "ws_TurnSequence (new_session turn_call sample_sha turn_claim sample_selection sample_sha turn_storage_rec 60) = 0"
    by (simp add: new_session_def zero_session_def)
  ultimately show ?thesis
    by (simp add: ReserveTurn_def reserve_turn_def sample_requested sample_conversation sample_source sample_storage
        take_turn_def admit turn_session_rec_def [symmetric] Let_def)
qed

lemma turn_identity:
  assumes "r_OwnerID st = uuid_a"
  shows "list_all (\<lambda>(bad, _). \<not> bad) (grant_checks (sample_env uuid_a) st uuid_c turn_claim)"
    "list_all (\<lambda>(bad, _). \<not> bad) (grant_checks (sample_env uuid_a) st uuid_c turn_grant)"
  using assms by (simp_all add: grant_checks_def grant_identity_ok_def turn_grant_def reserved_grant_def)
   (simp_all add: turn_claim_def claimed_grant_def sample_claim_def zero_grant_def given_def start_unproven_def stop_key_unbound_def
        RuntimeFingerprint_def scopeDigest_def record_fits_def sample_opaque)

lemma turn_sound: "sound (sample_env uuid_a) turn_journal"
proof -
  have "validate_grant (sample_env uuid_a) turn_journal (uuid_c, turn_claim) = Inr ()"
  proof -
    have "provenCompatibility (sample_env uuid_a) turn_claim (zero_selection\<lparr>sel_Conversation := sample_key\<rparr>) sample_sha"
      by (rule sample_proven) (simp_all add: zero_selection_def)
    then have "validatePendingSessionGrant (sample_env uuid_a) turn_claim = Inr ()"
      by (simp add: validatePendingSessionGrant_def turn_authority_def)
        (simp add: turn_claim_def claimed_grant_def sample_claim_def zero_grant_def)
    moreover have "list_all (\<lambda>(bad, _). \<not> bad) (pending_checks turn_journal uuid_c turn_claim)"
      by (simp add: pending_checks_def) (simp add: turn_claim_def claimed_grant_def sample_claim_def zero_grant_def)
    ultimately show ?thesis
      using turn_identity(1) [of turn_journal] by (simp add: validate_grant_def bind_res_eq_Inr first_failure_Inr)
  qed
  then show ?thesis
    using sample_uuid_laws
    by (simp add: sound_def validated_def validate_registry_def validateRegistry_def registry_checks_def
        first_failure_Inr validateConversations_def maps_ok_def distinct_keys_def)
qed


section \<open>The reserved turn is valid\<close>

definition turn_storage_now :: storage where
  "turn_storage_now = reserved_storage uuid_c turn_claim turn_session_rec turn_storage_rec"

lemma reserved_journal_fields [simp]:
  "r_OwnerID reserved_journal = uuid_a" "r_Terminals reserved_journal = []" "r_Capabilities reserved_journal = []"
  "r_WorkspaceClaim reserved_journal = ''claim''" "r_WorkspaceUID reserved_journal = ''uid''"
  "r_NFSServer reserved_journal = ''10.0.0.1''" "r_SchemaVersion reserved_journal = schema_version"
  "r_Grants reserved_journal = [(uuid_c, turn_grant)]" "r_Storages reserved_journal = [(uuid_d, turn_storage_now)]"
  "r_Sessions reserved_journal = [(uuid_b, turn_session_rec)]"
  "r_Conversations reserved_journal = [(sample_sha, \<lparr>cv_Key = sample_key, cv_CurrentStorageID = uuid_d, cv_CurrentSessionID = uuid_b, cv_Revision = 2\<rparr>)]"
  "grant_of reserved_journal i = (if i = uuid_c then Some turn_grant else None)"
  "session_of reserved_journal i = (if i = uuid_b then Some turn_session_rec else None)"
  "storage_of reserved_journal i = (if i = uuid_d then Some turn_storage_now else None)"
  by (simp_all add: reserved_journal_def grant_of_def session_of_def storage_of_def turn_storage_now_def)

lemmas turn_values = turn_grant_def reserved_grant_def turn_storage_now_def reserved_storage_def turn_session_rec_def
  reserved_session_def new_session_def turn_storage_rec_def turn_call_def sample_call_def zero_session_def zero_storage_def
  zero_grant_def

lemma turn_grant_fields [simp]:
  "g_StorageID turn_grant = uuid_d" "g_WorkerSessionID turn_grant = uuid_b" "g_State turn_grant = Intent"
  "g_AttemptID turn_grant = uuid_c" "g_TurnSequence turn_grant = 1" "g_Selection turn_grant = Some sample_selection"
  "g_Conversation turn_grant = sample_key" "g_SessionProtocol turn_grant" "\<not> g_Legacy turn_grant"
  "g_OwnerID turn_grant = uuid_a" "g_WorkspaceID turn_grant = uuid_a" "g_AgentID turn_grant = uuid_d" "g_TaskID turn_grant = uuid_b"
  "g_WorkspaceAnchorTaskID turn_grant = uuid_b" "g_CompatibilityDigest turn_grant = sample_sha"
  "g_WorkspaceCompatibilityDigest turn_grant = sample_sha" "g_Compatibility turn_grant = Some sample_compatibility"
  "g_BackendSelection turn_grant = None" "g_Fingerprint turn_grant = sample_sha" "g_RuntimeID turn_grant = uuid_d"
  "g_RuntimeRef turn_grant = sample_ref" "g_Repositories turn_grant = []" "g_ResourceScope turn_grant = [''a'', ''b'']"
  by (simp_all add: turn_grant_def reserved_grant_def) (simp_all add: turn_storage_rec_def)

lemma turn_storage_now_fields [simp]:
  "b_ActiveAttempt turn_storage_now = uuid_c" "b_WriterSessionID turn_storage_now = uuid_b" "b_ID turn_storage_now = uuid_d"
  "b_Conversation turn_storage_now = sample_key" "b_WorkspaceAnchorTaskID turn_storage_now = uuid_b" "b_TaskRoot turn_storage_now = sample_root"
  "b_WorkspaceID turn_storage_now = uuid_a" "b_TaskID turn_storage_now = uuid_b" "b_AgentID turn_storage_now = uuid_d"
  "b_Prepared turn_storage_now = None" "b_Checkpoint turn_storage_now = None" "b_SessionID turn_storage_now = []"
  "b_RetiredSessions turn_storage_now = []" "b_LatestWriter turn_storage_now = \<lparr>src_TaskID = uuid_b, src_AttemptID = uuid_c\<rparr>"
  "b_CompatibilityDigest turn_storage_now = sample_sha" "b_WorkspaceCompatibilityDigest turn_storage_now = sample_sha"
  "b_PVCName turn_storage_now = ''claim''" "b_PVCUID turn_storage_now = ''uid''" "b_ScopeDigest turn_storage_now = sample_sha"
  "b_Fingerprint turn_storage_now = sample_sha"
  by (simp_all add: turn_storage_now_def reserved_storage_def grant_source_def)
   (simp_all add: turn_storage_rec_def zero_storage_def)

lemma sample_key_fields [simp]:
  "ck_OwnerID sample_key = uuid_a" "ck_WorkspaceID sample_key = uuid_a" "ck_AgentID sample_key = uuid_d"
  "ck_Kind sample_key = ConversationIssue"
  by (simp_all add: sample_key_def)

lemma turn_grant_proven: "provenCompatibility (sample_env uuid_a) turn_grant sample_selection sample_sha"
  by (simp add: provenCompatibility_def compatibilityScopeMatches_def Ref_Equal_def)

lemma turn_validated: "validate_grant (sample_env uuid_a) reserved_journal (uuid_c, turn_grant) = Inr ()"
proof -
  have "turn_binding_ok (sample_env uuid_a) turn_session_rec turn_storage_now turn_grant"
    by (simp add: turn_binding_ok_def given_def turn_grant_proven)
     (simp add: turn_values, simp add: turn_claim_def claimed_grant_def sample_claim_def zero_grant_def)
  moreover have "list_all (\<lambda>(bad, _). \<not> bad) (turn_prepared_checks (sample_env uuid_a) turn_session_rec turn_grant)"
    "list_all (\<lambda>(bad, _). \<not> bad) (turn_assignment_checks (sample_env uuid_a) turn_session_rec turn_grant)"
    "list_all (\<lambda>(bad, _). \<not> bad) (turn_receipt_checks (sample_env uuid_a) reserved_journal turn_session_rec turn_grant t)"
    "list_all (\<lambda>(bad, _). \<not> bad) (turn_state_checks (sample_env uuid_a) reserved_journal turn_session_rec turn_storage_now turn_grant t)" for t
    by (simp_all add: turn_prepared_checks_def turn_assignment_checks_def turn_receipt_checks_def turn_state_checks_def given_def)
      (simp_all add: turn_grant_def reserved_grant_def turn_claim_def claimed_grant_def sample_claim_def zero_grant_def)
  ultimately have "list_all (\<lambda>(bad, _). \<not> bad) (turn_checks (sample_env uuid_a) reserved_journal turn_session_rec turn_storage_now turn_grant)"
    by (simp add: turn_checks_def preservesBackendSelection_def given_def Let_def)
      (simp add: turn_grant_def reserved_grant_def turn_claim_def claimed_grant_def sample_claim_def zero_grant_def)
  then show ?thesis
    using turn_identity(2) [of reserved_journal]
    by (simp add: validate_grant_def validateSessionGrant_def bind_res_eq_Inr first_failure_Inr)
qed

lemma turn_session_validated: "sessions_ok (sample_env uuid_a) reserved_journal False [] [] [(uuid_b, turn_session_rec)] = Inr ()"
proof -
  have "session_identity_ok (sample_env uuid_a) reserved_journal uuid_b turn_storage_now turn_session_rec"
    by (simp add: session_identity_ok_def RuntimeFingerprint_def)
      (simp add: turn_session_rec_def reserved_session_def new_session_def turn_call_def sample_call_def zero_session_def
          turn_storage_rec_def session_protocol_def, simp add: validOpaque_def contains_any_def eval)
  moreover have "pod_name_ok (sample_env uuid_a) uuid_b turn_session_rec" "ws_ProtocolVersion turn_session_rec = 2"
    "ws_Bootstrap turn_session_rec = []" "ws_BootstrapDigest turn_session_rec = []" "ws_Resources turn_session_rec = []"
    "ws_PodUID turn_session_rec = []" "ws_LastAttemptID turn_session_rec = []" "ws_InputDigest turn_session_rec = []"
    "ws_LastCompleteAttempt turn_session_rec = []" "\<not> ws_ResourcesCleaned turn_session_rec" "\<not> g_TurnComplete turn_grant"
    by (simp_all add: pod_name_ok_def pod_suffix_def turn_session_rec_def reserved_session_def new_session_def turn_call_def
        sample_call_def zero_session_def session_protocol_def turn_grant_def reserved_grant_def turn_claim_def claimed_grant_def
        sample_claim_def zero_grant_def)
  ultimately show ?thesis
    by (simp add: get_by_lookup bind_res_eq_Inr first_failure_Inr session_journal_checks_def session_state_checks_def given_def Let_def
        legacy_protocol_def)
qed

lemma reserved_sound: "sound (sample_env uuid_a) reserved_journal"
proof -
  have "validateConversationStorage (sample_env uuid_a) reserved_journal turn_storage_now = Inr ()"
    by (simp add: validateConversationStorage_def first_failure_Inr conversation_storage_checks_def latest_writer_ok_def
        CheckpointSource_valid_def given_def writer_lease_ok_def)
  then have "storages_ok (sample_env uuid_a) reserved_journal [] (r_Storages reserved_journal) = Inr ()"
    by (simp add: storage_identity_ok_def sample_root_valid first_failure_Inr)
  then show ?thesis
    using turn_validated turn_session_validated sample_uuid_laws
    by (simp add: sound_def validated_def validate_registry_def validateRegistry_def registry_checks_def
        first_failure_Inr validateConversations_def maps_ok_def distinct_keys_def validate_conversation_def conversation_ok_def)
qed

lemma reserved_committed: "committed (sample_env uuid_a) turn_journal reserved_journal"
  using turn_sound reserved_sound do_ReserveTurn [OF _ turn_reserved] by (simp add: committed_def sound_def fresh_ids_def)

end
