(* ===== verification/Lifecycle_Properties.thy ===== *)
theory Lifecycle_Properties
  imports Sample_Turns
begin

text \<open>
  The end of a turn and of a session: what \<^verbatim>\<open>CompleteTurn\<close> hands back, what
  \<^verbatim>\<open>CloseSession\<close> releases, when an idle worker is stopped, and that the resident workers of an
  older journal are all told to stop.
\<close>

section \<open>Linked journals\<close>

text \<open>Every record is stored under its own identity and a session's active attempt is known: what the
  properties of this theory need of a valid journal.\<close>

definition linked :: "registry \<Rightarrow> bool" where
  "linked st \<longleftrightarrow>
    list_all (\<lambda>(i, g). i \<noteq> [] \<and> g_AttemptID g = i) (r_Grants st) \<and>
    list_all (\<lambda>(i, b). b_ID b = i) (r_Storages st) \<and>
    list_all (\<lambda>(i, ws). i \<noteq> [] \<and> ws_ID ws = i \<and>
      (ws_ActiveAttempt ws = [] \<or> grant_of st (ws_ActiveAttempt ws) \<noteq> None)) (r_Sessions st)"

lemma linked_lookups:
  assumes "linked st"
  shows "grant_of st i = Some g \<Longrightarrow> i \<noteq> [] \<and> g_AttemptID g = i" "storage_of st k = Some b \<Longrightarrow> b_ID b = k"
    "session_of st j = Some ws \<Longrightarrow> j \<noteq> [] \<and> ws_ID ws = j \<and> (ws_ActiveAttempt ws = [] \<or> grant_of st (ws_ActiveAttempt ws) \<noteq> None)"
  using assms by (auto simp: linked_def list_all_iff grant_of_def storage_of_def session_of_def dest!: map_of_SomeD)

lemma list_all_lookup: "distinct_keys m \<Longrightarrow> (\<And>k v. map_of m k = Some v \<Longrightarrow> P k v) \<Longrightarrow> list_all (\<lambda>(k, v). P k v) m"
  by (auto simp: list_all_iff mem_map_of)

lemma sound_linked:
  assumes "sound e st"
  shows "linked st"
proof -
  have "distinct_keys (r_Grants st)" "distinct_keys (r_Storages st)" "distinct_keys (r_Sessions st)"
    using assms by (simp_all add: sound_def maps_ok_def)
  moreover have "i \<noteq> [] \<and> g_AttemptID g = i" if "grant_of st i = Some g" for i g
    using grant_key_nonempty [OF assms that] sound_key(1) [OF assms that] by simp
  moreover have "j \<noteq> [] \<and> ws_ID ws = j \<and> (ws_ActiveAttempt ws = [] \<or> grant_of st (ws_ActiveAttempt ws) \<noteq> None)"
    if "session_of st j = Some ws" for j ws
    using session_key_nonempty [OF assms that] sound_key(2) [OF assms that] sound_active_known_of [OF assms that]
    by (auto simp: active_known_def)
  moreover have "b_ID b = k" if "storage_of st k = Some b" for k b
    using sound_key(3) [OF assms that] .
  ultimately show ?thesis
    unfolding linked_def by (intro conjI list_all_lookup) (simp_all add: grant_of_def storage_of_def session_of_def)
qed

section \<open>The end of a turn\<close>

lemma turn_session_facts:
  assumes "turn_session c i g st ws = (st1, w)"
  shows "st1 = st \<and> ws_ID w = ws_ID ws \<and> ws_ActiveAttempt w = [] \<and> ws_LastCompleteAttempt w = i \<and>
    (ws_State w = SessionIdle \<and> ws_Stop w = None \<and> ws_IdleDeadline w = c_now c + ws_Retention ws \<and> ws_Retention ws > 0 \<or>
     ws_Stop w \<noteq> None)"
  using assms
  by (auto simp: turn_session_def requestSessionStop_def stopped_session_def Let_def split: if_splits option.splits)

lemma turn_storage_facts [simp]:
  "b_ID (turn_storage e c st g ws b w) = b_ID b" "b_ActiveAttempt (turn_storage e c st g ws b w) = []"
  "b_WriterSessionID (turn_storage e c st g ws b w) = b_WriterSessionID b" "\<not> b_Quarantined (turn_storage e c st g ws b w)"
  "b_Dirty (turn_storage e c st g ws b w) = (ws_ProtocolVersion ws = session_protocol)"
  by (simp_all add: turn_storage_def Let_def split: option.splits)

lemma settled_in_session: "turnExecutionSettled e st g t \<Longrightarrow> g_WorkerSessionID g \<noteq> []"
  by (auto simp: turnExecutionSettled_def validTurnReceipt_def validTurnExecutionReceipt_def Let_def
      split: if_splits option.splits)

text \<open>C35: The hand-over at the end of a turn.  On a turn that is not complete yet (a repeated call on a complete
  one only answers again), \<^verbatim>\<open>CompleteTurn\<close> succeeds only when the result was delivered, the grant holds a
  completion witness that matches that result, and the execution is settled; it closes and revokes the attempt, takes it off the storage, leaves the
  storage to the same resident session (dirty while a current-protocol worker is still in it), and the
  session is either idle with its deadline set from now or already told to stop.\<close>

theorem complete_turn_hands_over:
  assumes "CompleteTurn e c i st = Inr (st', u)" "linked st" "grant_of st i = Some g" "\<not> g_TurnComplete g"
    and "session_of st (g_WorkerSessionID g) = Some ws"
  shows "t_State (get_terminal st i) = DDelivered \<and> turnExecutionSettled e st g (get_terminal st i) \<and>
    (\<exists>cw. g_CompletionWitness g = Some cw \<and> witnessMatches g (get_terminal st i) cw) \<and>
    grant_of st' i = Some (g\<lparr>g_TurnComplete := True, g_ExecutionRevoked := True, g_State := Closed\<rparr>) \<and>
    (\<exists>b. storage_of st' (g_StorageID g) = Some b \<and> b_ActiveAttempt b = [] \<and> b_WriterSessionID b = g_WorkerSessionID g \<and>
      b_Dirty b = (ws_ProtocolVersion ws = session_protocol) \<and> \<not> b_Quarantined b) \<and>
    (\<exists>w. session_of st' (g_WorkerSessionID g) = Some w \<and> ws_ActiveAttempt w = [] \<and> ws_LastCompleteAttempt w = i \<and>
      (ws_State w = SessionIdle \<and> ws_Stop w = None \<and> ws_IdleDeadline w = c_now c + ws_Retention ws \<or> ws_Stop w \<noteq> None))"
proof -
  let ?b0 = "get_storage st (g_StorageID g)"
  let ?g1 = "g\<lparr>g_TurnComplete := True, g_ExecutionRevoked := True, g_State := Closed\<rparr>"
  obtain cw st1 w where ok: "turn_completable e st i ws g" and writer: "b_WriterSessionID ?b0 = ws_ID ws"
    and next_session: "turn_session c i ?g1 st ws = (st1, w)"
    and st': "st' = put_grant i ?g1 (put_session (ws_ID w) w
      (put_storage (b_ID (turn_storage e c st g ws ?b0 cw)) (turn_storage e c st g ws ?b0 cw) st1))"
    using assms(1,3-5)
    by (auto simp: CompleteTurn_def update_grant_def CompleteTurn_step_def Let_def split: if_splits option.splits prod.splits sum.splits)
  have session: "ws_ID ws = g_WorkerSessionID g" "g_WorkerSessionID g \<noteq> []"
    using linked_lookups(3) [OF assms(2,5)] by auto
  have "b_ID ?b0 = g_StorageID g"
    using writer session linked_lookups(2) [OF assms(2)] by (auto simp: get_by_lookup zero_storage_def split: option.splits)
  then show ?thesis
    using ok writer session turn_session_facts [OF next_session]
    by (auto simp: st' turn_completable_def given_def Let_def split: option.splits)
qed

lemma turn_unprepared:
  "g_TurnExecutionReceipt turn_grant = None" "g_TurnExecutionProof turn_grant = None" "g_Prepared turn_grant = None"
  "g_TurnReceipt turn_grant = None" "\<not> g_TurnComplete turn_grant"
  by (simp_all add: turn_grant_def reserved_grant_def turn_claim_def claimed_grant_def sample_claim_def zero_grant_def)

text \<open>A turn of a resident worker whose result was delivered.\<close>

definition done_receipt :: turn_execution_receipt where
  "done_receipt = \<lparr>ter_WorkerSessionID = uuid_b, ter_Conversation = sample_key, ter_StorageID = uuid_d, ter_TaskID = uuid_b,
     ter_AttemptID = uuid_c, ter_Generation = 1, ter_TurnSequence = 1, ter_InputDigest = sample_sha, ter_PodUID = [],
     ter_PVCUID = ''uid'', ter_ResultDigest = [], ter_RequestDigest = [], ter_Nonce = [], ter_TaskProcessesStopped = True,
     ter_LocalRequestsClosed = True, ter_PrivateStateCleared = True, ter_Signature = ''ok''\<rparr>"

definition done_proof :: session_proof where
  "done_proof = \<lparr>pf_Challenge = \<lparr>ch_Operation = op_turn_execution, ch_WorkerSessionID = uuid_b, ch_PodUID = [],
     ch_PVCUID = ''uid'', ch_TurnSequence = 1, ch_AttemptID = uuid_c, ch_BodyDigest = sample_sha, ch_Nonce = uuid_d,
     ch_ExpiresAt = 1\<rparr>, pf_Signature = ''ok''\<rparr>"

definition done_grant :: task_grant where
  "done_grant = turn_grant\<lparr>g_InputDigest := sample_sha, g_SupervisorKey := replicate 32 CHR ''k'', g_CheckoutClosed := True,
     g_State := TerminalReceived, g_TurnExecutionReceipt := Some done_receipt, g_TurnExecutionProof := Some done_proof,
     g_PendingResume := Some \<lparr>rp_MissingSessionID = [], rp_SessionID = [], rp_WorkDir = [], rp_RetiredSessionID = [],
       rp_SessionRolloutMissing = False, rp_ResumeRejectedTransient = False\<rparr>,
     g_CompletionWitness := Some \<lparr>cw_TaskID = uuid_b, cw_AttemptID = uuid_c, cw_WorkerSessionID = uuid_b,
       cw_StorageID = uuid_d, cw_TurnSequence = 1, cw_RequestDigest = [], cw_ResultDigest = [], cw_Status = ''completed'',
       cw_SessionID = [], cw_WorkDir = [], cw_AcknowledgedAt = 1\<rparr>\<rparr>"

definition done_session :: worker_session where
  "done_session = turn_session_rec\<lparr>ws_SupervisorKey := replicate 32 CHR ''k''\<rparr>"

definition done_terminal :: terminal where
  "done_terminal = zero_terminal\<lparr>t_Source := SourceWorker, t_Kind := KindComplete, t_State := DDelivered\<rparr>"

definition done_journal :: registry where
  "done_journal = reserved_journal\<lparr>r_Grants := [(uuid_c, done_grant)], r_Sessions := [(uuid_b, done_session)],
     r_Terminals := [(uuid_c, done_terminal)]\<rparr>"

lemma done_lookups [simp]:
  "grant_of done_journal i = (if i = uuid_c then Some done_grant else None)"
  "session_of done_journal i = (if i = uuid_b then Some done_session else None)"
  "terminal_of done_journal i = (if i = uuid_c then Some done_terminal else None)"
  "storage_of done_journal i = (if i = uuid_d then Some turn_storage_now else None)"
  "r_Grants done_journal = [(uuid_c, done_grant)]" "r_Sessions done_journal = [(uuid_b, done_session)]"
  "r_Storages done_journal = [(uuid_d, turn_storage_now)]"
  using reserved_journal_fields by (simp_all add: done_journal_def grant_of_def session_of_def terminal_of_def storage_of_def)

lemma turn_worker_fields [simp]:
  "ws_PodUID turn_session_rec = []" "ws_PVCUID turn_session_rec = ''uid''" "ws_SupervisorKey turn_session_rec = []"
  "ws_Resources turn_session_rec = []" "ws_Retention turn_session_rec = 60" "ws_LastObservedAt turn_session_rec = 100"
  "ws_ProtocolVersion turn_session_rec = session_protocol"
  by (simp_all add: turn_session_rec_def reserved_session_def new_session_def zero_session_def turn_storage_rec_def turn_call_def
      sample_call_def)

lemma done_fields [simp]:
  "ws_ID done_session = uuid_b" "ws_ActiveAttempt done_session = uuid_c" "ws_TurnSequence done_session = 1"
  "ws_ProtocolVersion done_session = session_protocol" "length (ws_SupervisorKey done_session) = key_size"
  "ws_PodUID done_session = []" "ws_Stop done_session = None" "ws_Retention done_session = 60" "ws_LastObservedAt done_session = 100"
  by (simp_all add: done_session_def key_size_def)

lemma done_grant_fields [simp]:
  "g_PodUID done_grant = []" "g_PVCUID done_grant = ''uid''" "g_Generation done_grant = 1" "g_Events done_grant = []"
  "\<not> g_CheckoutNeedsFlush done_grant" "g_CheckoutProcess done_grant = None" "\<not> g_PreparationStarted done_grant"
  "\<not> g_TurnComplete done_grant" "g_Stop done_grant = None" "g_WorkerSessionID done_grant = uuid_b" "g_AttemptID done_grant = uuid_c"
  "g_StorageID done_grant = uuid_d" "g_TurnSequence done_grant = 1" "g_Conversation done_grant = sample_key"
  "g_Selection done_grant = Some sample_selection" "g_TaskID done_grant = uuid_b"
  by (simp_all add: done_grant_def turn_unprepared)
    (simp_all add: turn_grant_def reserved_grant_def turn_storage_rec_def turn_claim_def claimed_grant_def sample_claim_def zero_grant_def)

lemma done_linked: "linked done_journal"
  by (simp add: linked_def)

lemma done_proofs [simp]:
  "g_TurnExecutionReceipt done_grant = Some done_receipt" "g_TurnExecutionProof done_grant = Some done_proof"
  "g_InputDigest done_grant = sample_sha" "length (g_SupervisorKey done_grant) = key_size" "g_CheckoutClosed done_grant"
  by (simp_all add: done_grant_def key_size_def)

lemma done_settled: "turnExecutionSettled (sample_env uuid_a) done_journal done_grant done_terminal"
proof -
  have "validTurnExecutionReceipt (sample_env uuid_a) done_grant done_terminal done_receipt"
    by (simp add: validTurnExecutionReceipt_def) (simp add: done_receipt_def done_terminal_def zero_terminal_def)
  moreover have "validStoredTurnExecutionProof (sample_env uuid_a) done_session done_grant done_receipt done_proof"
    by (simp add: validStoredTurnExecutionProof_def Let_def) (simp add: done_proof_def)
  ultimately show ?thesis
    by (simp add: turnExecutionSettled_def get_by_lookup Let_def session_protocol_def legacy_protocol_def)
qed

lemma done_completes: "\<exists>st'. CompleteTurn (sample_env uuid_a) sample_call uuid_c done_journal = Inr (st', ())"
proof -
  have "turn_completable (sample_env uuid_a) done_journal uuid_c done_session done_grant"
    using done_settled
    by (simp add: turn_completable_def get_by_lookup Let_def eventsSettled_def)
      (simp add: done_grant_def done_terminal_def zero_terminal_def witnessMatches_def effectiveSession_def)
  moreover have "g_CompletionWitness done_grant \<noteq> None"
    by (simp add: done_grant_def)
  ultimately show ?thesis
    by (auto simp: CompleteTurn_def update_grant_def CompleteTurn_step_def get_by_lookup Let_def split: prod.splits)
qed

theorem complete_turn_hands_over_witness:
  "\<exists>st' w. CompleteTurn (sample_env uuid_a) sample_call uuid_c done_journal = Inr (st', ()) \<and>
    session_of st' uuid_b = Some w \<and> ws_ActiveAttempt w = [] \<and> ws_LastCompleteAttempt w = uuid_c"
  using done_completes complete_turn_hands_over [OF _ done_linked, of "sample_env uuid_a" sample_call uuid_c] by fastforce

section \<open>The end of a session\<close>

lemma recover_effect:
  assumes "recoverClosedCheckpoint e c st g now = Inr st'"
  obtains "st' = st" | k b where "st' = put_storage k b st" "b_ActiveAttempt b = []" "b_WriterSessionID b = []"
    "\<not> b_Dirty b" "\<not> b_Quarantined b"
proof (cases "st' = st")
  case False
  let ?b = "get_storage st (g_StorageID g)"
  have "b_ActiveAttempt ?b = []" "b_WriterSessionID ?b = []"
    "\<exists>cp sid. st' = put_storage (b_ID ?b) (?b\<lparr>b_Checkpoint := Some cp, b_SessionID := sid, b_Dirty := False,
      b_Quarantined := False\<rparr>) st"
    using assms False unfolding recoverClosedCheckpoint_def Let_def by (auto split: if_splits option.splits)
  then show thesis
    using that(2) by fastforce
qed (rule that(1))

text \<open>C36: What closing a session releases: \<^verbatim>\<open>CloseSession\<close> needs stop evidence; then the session is closed with no
  active attempt, its storage has no writer, no quarantine, and is dirty exactly when the stop was not
  proven clean (and then keeps no checkpoint), and the turn that was active is closed, complete and revoked.\<close>

theorem close_session_releases:
  assumes "CloseSession e c i st = Inr (st', u)" "linked st" "session_of st i = Some ws" "ws_State ws \<noteq> SessionClosed"
  shows "session_evidence ws \<noteq> None \<and>
    (\<exists>w. session_of st' i = Some w \<and> ws_State w = SessionClosed \<and> ws_ActiveAttempt w = [] \<and> ws_Revision w = ws_Revision ws + 1) \<and>
    (\<exists>b. storage_of st' (ws_StorageID ws) = Some b \<and> b_WriterSessionID b = [] \<and> \<not> b_Quarantined b \<and>
      b_Dirty b = (\<not> sessionStoppedClean st ws) \<and> (b_Dirty b \<longrightarrow> b_Checkpoint b = None \<and> b_SessionID b = [])) \<and>
    (ws_ActiveAttempt ws \<noteq> [] \<longrightarrow> (\<exists>g. grant_of st' (ws_ActiveAttempt ws) = Some g \<and> g_State g = Closed \<and>
      g_TurnComplete g \<and> g_ExecutionRevoked g))"
proof -
  let ?b = "get_storage st (ws_StorageID ws)"
  let ?clean = "sessionStoppedClean st ws"
  let ?b1 = "closed_storage (ws_ActiveAttempt ws \<noteq> []) ?clean ?b"
  let ?g = "get_grant st (ws_ActiveAttempt ws)"
  let ?st1 = "if ws_ActiveAttempt ws \<noteq> [] then put_grant (g_AttemptID ?g) (closed_turn ?g) st else st"
  let ?ws1 = "ws\<lparr>ws_ActiveAttempt := [], ws_State := SessionClosed, ws_Revision := ws_Revision ws + 1\<rparr>"
  let ?st2 = "put_session i ?ws1 (put_storage (b_ID ?b1) ?b1 ?st1)"
  let ?latest = "get_grant ?st2 (src_AttemptID (b_LatestWriter ?b1))"
  have evidence: "session_evidence ws \<noteq> None" and writer: "b_WriterSessionID ?b = i"
    and run: "st' = ?st2 \<or> ?clean \<and> recoverClosedCheckpoint e c ?st2 ?latest (c_now c) = Inr st'"
    using assms(1,3,4) by (auto simp: CloseSession_def Let_def split: if_splits option.splits sum.splits)
  have key: "i \<noteq> []" "ws_ActiveAttempt ws = [] \<or> grant_of st (ws_ActiveAttempt ws) \<noteq> None"
    using linked_lookups(3) [OF assms(2,3)] by auto
  have "b_ID ?b = ws_StorageID ws"
    using writer key(1) linked_lookups(2) [OF assms(2)] by (auto simp: get_by_lookup zero_storage_def split: option.splits)
  then have id: "b_ID ?b1 = ws_StorageID ws"
    by (simp add: closed_storage_def Let_def)
  have b1: "b_WriterSessionID ?b1 = []" "\<not> b_Quarantined ?b1" "b_Dirty ?b1 = (\<not> ?clean)"
    "\<not> ?clean \<longrightarrow> b_Checkpoint ?b1 = None \<and> b_SessionID ?b1 = []"
    by (simp_all add: closed_storage_def Let_def)
  have turn: "ws_ActiveAttempt ws \<noteq> [] \<longrightarrow> grant_of ?st2 (ws_ActiveAttempt ws) = Some (closed_turn ?g)"
    using key(2) linked_lookups(1) [OF assms(2)] by (auto simp: get_by_lookup)
  have st2: "session_of ?st2 i = Some ?ws1" "storage_of ?st2 (ws_StorageID ws) = Some ?b1"
    using id by simp_all
  have frame: "session_of st' = session_of ?st2 \<and> grant_of st' = grant_of ?st2 \<and>
    (\<exists>b. storage_of st' (ws_StorageID ws) = Some b \<and> b_WriterSessionID b = [] \<and> \<not> b_Quarantined b \<and>
      b_Dirty b = (\<not> ?clean) \<and> (b_Dirty b \<longrightarrow> b_Checkpoint b = None \<and> b_SessionID b = []))"
  proof (cases "st' = ?st2")
    case True
    then show ?thesis
      using st2 b1 by auto
  next
    case False
    with run have clean: "?clean" and recovered: "recoverClosedCheckpoint e c ?st2 ?latest (c_now c) = Inr st'"
      by blast+
    from recovered show ?thesis
    proof (rule recover_effect)
      assume "st' = ?st2"
      with False show ?thesis
        by contradiction
    next
      fix k b
      assume st': "st' = put_storage k b ?st2" and b: "b_WriterSessionID b = []" "\<not> b_Dirty b" "\<not> b_Quarantined b"
      show ?thesis
        using clean b b1 st2(2) unfolding st' by (cases "k = ws_StorageID ws") simp_all
    qed
  qed
  show ?thesis
    using evidence frame st2(1) turn by (auto simp: closed_turn_def)
qed

text \<open>A reserved turn whose session was stopped before a worker existed.\<close>

definition stopped_turn :: worker_session where
  "stopped_turn = turn_session_rec\<lparr>ws_State := SessionDraining, ws_Stop := Some \<lparr>ssp_ActiveAttempt = uuid_c,
     ssp_ControllerWritersStopped = False, ssp_Reason = ''stop'', ssp_Revision = 1, ssp_Nonce = uuid_d, ssp_RequestedAt = 100,
     ssp_Receipt = None, ssp_Evidence = Some \<lparr>se_PodUID = [], se_PVCUID = ''uid'', se_Kind = EvNoWorker, se_ObservedAt = 100,
     se_PreparedFlushOK = False\<rparr>, ssp_RequestProof = None, ssp_RequestReason = [], ssp_ReceiptProof = None\<rparr>\<rparr>"

definition closing_journal :: registry where
  "closing_journal = reserved_journal\<lparr>r_Sessions := [(uuid_b, stopped_turn)]\<rparr>"

lemma closing_lookups [simp]:
  "grant_of closing_journal i = (if i = uuid_c then Some turn_grant else None)"
  "session_of closing_journal i = (if i = uuid_b then Some stopped_turn else None)" "terminal_of closing_journal i = None"
  "storage_of closing_journal i = (if i = uuid_d then Some turn_storage_now else None)"
  "r_Grants closing_journal = [(uuid_c, turn_grant)]" "r_Sessions closing_journal = [(uuid_b, stopped_turn)]"
  "r_Storages closing_journal = [(uuid_d, turn_storage_now)]"
  using reserved_journal_fields by (simp_all add: closing_journal_def grant_of_def session_of_def terminal_of_def storage_of_def)

lemma stopped_turn_fields [simp]:
  "ws_ID stopped_turn = uuid_b" "ws_ActiveAttempt stopped_turn = uuid_c" "ws_StorageID stopped_turn = uuid_d"
  "ws_PodUID stopped_turn = []" "ws_PVCUID stopped_turn = ''uid''" "ws_SupervisorKey stopped_turn = []" "ws_Resources stopped_turn = []"
  "ws_State stopped_turn = SessionDraining"
  by (simp_all add: stopped_turn_def)

definition no_worker :: stop_evidence where
  "no_worker = \<lparr>se_PodUID = [], se_PVCUID = ''uid'', se_Kind = EvNoWorker, se_ObservedAt = 100, se_PreparedFlushOK = False\<rparr>"

lemma turn_grant_idle: "g_CheckoutProcess turn_grant = None" "\<not> g_PreparationStarted turn_grant" "g_CompletionWitness turn_grant = None"
  by (simp_all add: turn_grant_def reserved_grant_def turn_claim_def claimed_grant_def sample_claim_def zero_grant_def)

lemma closing_grant [simp]: "get_grant closing_journal uuid_c = turn_grant"
  by (simp add: get_by_lookup)

lemma closing_clean: "sessionStoppedClean closing_journal stopped_turn"
  by (simp add: sessionStoppedClean_def turn_grant_idle) (simp add: stopped_turn_def turn_grant_idle)

lemma closing_closes: "\<exists>st'. CloseSession (sample_env uuid_a) sample_call uuid_b closing_journal = Inr (st', ())"
proof -
  have "session_evidence stopped_turn = Some no_worker" "stop_active_attempt stopped_turn = uuid_c"
    by (simp_all add: session_evidence_def stop_active_attempt_def) (simp add: stopped_turn_def no_worker_def)
  moreover from this(2) have "validSessionStopEvidence closing_journal stopped_turn no_worker"
    by (simp add: validSessionStopEvidence_def get_by_lookup Let_def)
      (simp add: no_worker_def turn_grant_idle session_resources_without_worker_def resources_without_worker_def)
  moreover have "\<not> unsettled_worker_result zero_terminal"
    by (simp add: unsettled_worker_result_def zero_terminal_def)
  moreover have "\<not> may_recover st (closed_turn turn_grant)" for st
    by (simp add: may_recover_def closed_turn_def turn_grant_idle)
  ultimately show ?thesis
    by (simp add: CloseSession_def get_by_lookup closing_clean Let_def closed_storage_def)
qed

theorem close_session_releases_witness:
  "\<exists>st' b. CloseSession (sample_env uuid_a) sample_call uuid_b closing_journal = Inr (st', ()) \<and>
    storage_of st' uuid_d = Some b \<and> b_WriterSessionID b = [] \<and> \<not> b_Dirty b"
proof -
  have "linked closing_journal"
    by (simp add: linked_def)
  with closing_closes close_session_releases [of "sample_env uuid_a" sample_call uuid_b closing_journal] show ?thesis
    using closing_clean by fastforce
qed

section \<open>Idle workers\<close>

text \<open>No worker idles past its time: \<^verbatim>\<open>ExpireSession\<close> on an idle session always succeeds and gives it a
  stop, draining it, exactly when the clock is at or past the earlier of its deadline and the current retention
  limit, or ran backwards; otherwise it only shortens the deadline and records the observation.\<close>

theorem idle_session_expires:
  assumes "session_of st i = Some ws" "ws_State ws = SessionIdle" "0 \<le> retention" "ws_Stop ws = None"
  defines "deadline \<equiv> min (ws_IdleDeadline ws) (ws_IdleSince ws + retention)"
  shows "\<exists>st' w. ExpireSession c i retention st = Inr (st', c_now c < ws_LastObservedAt ws \<or> deadline \<le> c_now c) \<and>
    session_of st' i = Some w \<and>
    (if c_now c < ws_LastObservedAt ws \<or> deadline \<le> c_now c
     then ws_State w = SessionDraining \<and> (\<exists>s. ws_Stop w = Some s \<and> ssp_Reason s = ''idle_expired'' \<and> ssp_RequestedAt s = c_now c)
     else w = ws\<lparr>ws_IdleDeadline := deadline, ws_LastObservedAt := c_now c\<rparr>)"
  using assms
  by (auto simp: ExpireSession_def Let_def requestSessionStop_def stopped_session_def min_def split: if_splits)

definition expiring_worker :: worker_session where
  "expiring_worker = zero_session\<lparr>ws_ID := uuid_a, ws_State := SessionIdle, ws_IdleSince := 10, ws_IdleDeadline := 200,
     ws_LastObservedAt := 20\<rparr>"

theorem idle_session_expires_witness:
  "\<exists>st' w. ExpireSession sample_call uuid_a 60 (session_journal\<lparr>r_Sessions := [(uuid_a, expiring_worker)]\<rparr>) = Inr (st', True) \<and>
    session_of st' uuid_a = Some w \<and> ws_State w = SessionDraining"
proof -
  let ?st = "session_journal\<lparr>r_Sessions := [(uuid_a, expiring_worker)]\<rparr>"
  have "session_of ?st uuid_a = Some expiring_worker" "ws_State expiring_worker = SessionIdle" "ws_Stop expiring_worker = None"
    by (simp_all add: session_of_def expiring_worker_def zero_session_def)
  from idle_session_expires [OF this(1,2) _ this(3), of 60 sample_call] show ?thesis
    by (simp add: sample_call_def expiring_worker_def) blast
qed

section \<open>Upgrading\<close>

lemma requested_stop:
  "requestSessionStop c reason now st ws = (st1, ws1) \<Longrightarrow> session_of st1 = session_of st \<and> ws_Stop ws1 \<noteq> None"
  by (auto simp: requestSessionStop_def stopped_session_def Let_def split: if_splits option.splits)

lemma drained:
  "session_of (drain_sessions cs n is st) j = Some w \<Longrightarrow>
   j \<in> set is \<or> (\<forall>v. session_of st j = Some v \<longrightarrow> ws_State v = SessionClosed \<or> ws_Stop v \<noteq> None) \<Longrightarrow>
   ws_State w = SessionClosed \<or> ws_Stop w \<noteq> None"
proof (induction cs n "is" st rule: drain_sessions.induct)
  case (2 cs n i "is" st)
  obtain st1 ws1 where stop: "requestSessionStop (cs n) ''session_protocol_upgrade'' (c_now (cs n)) st (get_session st i) = (st1, ws1)"
    by fastforce
  show ?case
  proof (cases "ws_State (get_session st i) = SessionClosed")
    case True
    then have "j = i \<longrightarrow> (\<forall>v. session_of st j = Some v \<longrightarrow> ws_State v = SessionClosed)"
      by (auto simp: get_by_lookup)
    then show ?thesis
      using 2(1) [OF refl True] 2(3,4) True by auto
  next
    case False
    have "j \<in> set is \<or> (\<forall>v. session_of (put_session i ws1 st1) j = Some v \<longrightarrow> ws_State v = SessionClosed \<or> ws_Stop v \<noteq> None)"
      using 2(4) requested_stop [OF stop] by auto
    then show ?thesis
      using 2(2) [OF refl False stop [symmetric] refl] 2(3) False stop by simp
  qed
qed auto

text \<open>C37: An upgrade retires every old worker: a journal of an older schema that can be read at all leaves no resident
  worker running unasked: each of its sessions is closed or has a stop recorded.\<close>

theorem upgrade_drains:
  assumes "read_journal e cs doc = Inr st" "r_SchemaVersion doc \<noteq> schema_version" "session_of st i = Some ws"
  shows "ws_State ws = SessionClosed \<or> ws_Stop ws \<noteq> None"
proof -
  obtain old where "upgraded e doc = Inr old"
    and st: "st = (let st1 = drain_sessions cs 0 (map fst (r_Sessions old)) old in
      if r_SchemaVersion doc \<le> 13 then st1\<lparr>r_Grants := map (\<lambda>(i, g). (i, g\<lparr>g_Legacy := True\<rparr>)) (r_Grants st1)\<rparr> else st1)"
    using assms(1,2) by (auto simp: read_journal_def bind_res_eq_Inr Let_def split: if_splits)
  have "session_of st = session_of (drain_sessions cs 0 (map fst (r_Sessions old)) old)"
    by (simp add: st Let_def session_of_def [abs_def])
  moreover have "i \<in> set (map fst (r_Sessions old)) \<or> session_of old i = None"
    by (auto simp: session_of_def map_of_eq_None_iff)
  ultimately show ?thesis
    using drained assms(3) by (metis option.distinct(1))
qed

text \<open>A reserved turn as a journal of schema 15 holds it.\<close>

definition old_journal :: registry where
  "old_journal = reserved_journal\<lparr>r_SchemaVersion := 15, r_Sessions := [(uuid_b, turn_session_rec\<lparr>ws_ProtocolVersion := 0\<rparr>)]\<rparr>"

definition legacy_session :: worker_session where
  "legacy_session = turn_session_rec\<lparr>ws_ProtocolVersion := legacy_protocol\<rparr>"

definition legacy_journal :: "int \<Rightarrow> registry" where
  "legacy_journal v = reserved_journal\<lparr>r_SchemaVersion := v, r_Sessions := [(uuid_b, legacy_session)]\<rparr>"

lemma old_upgraded: "upgraded (sample_env uuid_a) old_journal = Inr (legacy_journal 15)"
proof -
  have "ws_ProtocolVersion (turn_session_rec\<lparr>ws_ProtocolVersion := 0\<rparr>) = 0"
    by simp
  moreover have "has_native_metadata (g_Prepared turn_grant) = False" "has_native_metadata (b_Prepared turn_storage_now) = False"
    by (simp_all add: has_native_metadata_def turn_unprepared)
  ultimately have "restoreHistoricalSessionProtocol old_journal = Inr (legacy_journal 15)"
    by (simp add: restoreHistoricalSessionProtocol_def old_journal_def legacy_journal_def legacy_session_def restore_session_def
      bind_res_eq_Inr first_failure_Inr mvals_def turn_unprepared)
  then show ?thesis
    by (simp add: upgraded_def old_journal_def schema_version_def)
qed

lemma legacy_lookups [simp]:
  "r_OwnerID (legacy_journal v) = uuid_a" "r_Terminals (legacy_journal v) = []" "r_Capabilities (legacy_journal v) = []"
  "r_WorkspaceClaim (legacy_journal v) = ''claim''" "r_WorkspaceUID (legacy_journal v) = ''uid''"
  "r_NFSServer (legacy_journal v) = ''10.0.0.1''" "r_SchemaVersion (legacy_journal v) = v"
  "r_Grants (legacy_journal v) = [(uuid_c, turn_grant)]" "r_Storages (legacy_journal v) = [(uuid_d, turn_storage_now)]"
  "r_Sessions (legacy_journal v) = [(uuid_b, legacy_session)]" "r_Conversations (legacy_journal v) = r_Conversations reserved_journal"
  "grant_of (legacy_journal v) i = (if i = uuid_c then Some turn_grant else None)"
  "session_of (legacy_journal v) i = (if i = uuid_b then Some legacy_session else None)"
  "storage_of (legacy_journal v) i = (if i = uuid_d then Some turn_storage_now else None)"
  using reserved_journal_fields by (simp_all add: legacy_journal_def grant_of_def session_of_def storage_of_def)

lemma legacy_fields [simp]:
  "ws_ID legacy_session = uuid_b" "ws_TurnSequence legacy_session = 1" "ws_ActiveAttempt legacy_session = uuid_c"
  "ws_State legacy_session = SessionCreating" "ws_Stop legacy_session = None" "ws_StorageID legacy_session = uuid_d"
  "ws_Conversation legacy_session = sample_key" "ws_ProtocolVersion legacy_session = 1"
  by (simp_all add: legacy_session_def legacy_protocol_def)

lemma legacy_turn: "validate_grant (sample_env uuid_a) (legacy_journal v) (uuid_c, turn_grant) = Inr ()"
proof -
  have "turn_binding_ok (sample_env uuid_a) legacy_session turn_storage_now turn_grant"
    by (simp add: turn_binding_ok_def given_def turn_grant_proven)
     (simp add: legacy_session_def, simp add: turn_values, simp add: turn_claim_def claimed_grant_def sample_claim_def zero_grant_def)
  moreover have "list_all (\<lambda>(bad, _). \<not> bad) (turn_prepared_checks (sample_env uuid_a) legacy_session turn_grant)"
    "list_all (\<lambda>(bad, _). \<not> bad) (turn_assignment_checks (sample_env uuid_a) legacy_session turn_grant)"
    "list_all (\<lambda>(bad, _). \<not> bad) (turn_receipt_checks (sample_env uuid_a) (legacy_journal v) legacy_session turn_grant t)"
    "list_all (\<lambda>(bad, _). \<not> bad) (turn_state_checks (sample_env uuid_a) (legacy_journal v) legacy_session turn_storage_now turn_grant t)" for t
    by (simp_all add: turn_prepared_checks_def turn_assignment_checks_def turn_receipt_checks_def turn_state_checks_def given_def)
      (simp_all add: turn_grant_def reserved_grant_def turn_claim_def claimed_grant_def sample_claim_def zero_grant_def)
  ultimately have "list_all (\<lambda>(bad, _). \<not> bad) (turn_checks (sample_env uuid_a) (legacy_journal v) legacy_session turn_storage_now turn_grant)"
    by (simp add: turn_checks_def preservesBackendSelection_def given_def Let_def)
      (simp add: turn_grant_def reserved_grant_def turn_claim_def claimed_grant_def sample_claim_def zero_grant_def)
  then show ?thesis
    using turn_identity(2) [of "legacy_journal v"]
    by (simp add: validate_grant_def validateSessionGrant_def bind_res_eq_Inr first_failure_Inr)
qed

lemma legacy_session_validated: "sessions_ok (sample_env uuid_a) (legacy_journal v) True [] [] [(uuid_b, legacy_session)] = Inr ()"
proof -
  have "session_identity_ok (sample_env uuid_a) (legacy_journal v) uuid_b turn_storage_now legacy_session"
    by (simp add: session_identity_ok_def RuntimeFingerprint_def)
      (simp add: legacy_session_def turn_session_rec_def reserved_session_def new_session_def turn_call_def sample_call_def zero_session_def
          turn_storage_rec_def legacy_protocol_def, simp add: validOpaque_def contains_any_def eval)
  moreover have "pod_name_ok (sample_env uuid_a) uuid_b legacy_session"
    "ws_Bootstrap legacy_session = []" "ws_BootstrapDigest legacy_session = []" "ws_Resources legacy_session = []"
    "ws_PodUID legacy_session = []" "ws_LastAttemptID legacy_session = []" "ws_InputDigest legacy_session = []"
    "ws_LastCompleteAttempt legacy_session = []" "\<not> ws_ResourcesCleaned legacy_session" "\<not> g_TurnComplete turn_grant"
    by (simp_all add: pod_name_ok_def pod_suffix_def legacy_session_def turn_session_rec_def reserved_session_def new_session_def turn_call_def
        sample_call_def zero_session_def session_protocol_def turn_unprepared)
  ultimately show ?thesis
    by (simp add: get_by_lookup bind_res_eq_Inr first_failure_Inr session_journal_checks_def session_state_checks_def given_def Let_def
        legacy_protocol_def)
qed

lemma legacy_current [simp]: "(legacy_journal v)\<lparr>r_SchemaVersion := w\<rparr> = legacy_journal w"
  by (simp add: legacy_journal_def)

lemma old_read: "\<exists>st w. read_journal (sample_env uuid_a) (\<lambda>_. sample_call) old_journal = Inr st \<and> session_of st uuid_b = Some w"
proof -
  have "validateConversationStorage (sample_env uuid_a) (legacy_journal v) turn_storage_now = Inr ()" for v
    by (simp add: validateConversationStorage_def first_failure_Inr conversation_storage_checks_def latest_writer_ok_def
        CheckpointSource_valid_def given_def writer_lease_ok_def)
  then have "storages_ok (sample_env uuid_a) (legacy_journal v) [] (r_Storages (legacy_journal v)) = Inr ()" for v
    by (simp add: storage_identity_ok_def sample_root_valid first_failure_Inr)
  then have "validateRegistry (sample_env uuid_a) (legacy_journal schema_version) True = Inr ()"
    using legacy_turn legacy_session_validated
    by (simp add: validateRegistry_def registry_checks_def first_failure_Inr validateConversations_def validate_conversation_def
        conversation_ok_def)
  moreover have "r_SchemaVersion old_journal = 15"
    by (simp add: old_journal_def)
  ultimately have "read_journal (sample_env uuid_a) (\<lambda>_. sample_call) old_journal =
      Inr (drain_sessions (\<lambda>_. sample_call) 0 [uuid_b] (legacy_journal 15))"
    by (simp add: read_journal_def old_upgraded schema_version_def)
  moreover have "\<exists>w. session_of (drain_sessions (\<lambda>_. sample_call) 0 [uuid_b] (legacy_journal 15)) uuid_b = Some w"
    by (simp add: get_by_lookup Let_def requestSessionStop_def)
  ultimately show ?thesis
    by blast
qed

theorem upgrade_drains_witness:
  "\<exists>st w. read_journal (sample_env uuid_a) (\<lambda>_. sample_call) old_journal = Inr st \<and> session_of st uuid_b = Some w \<and>
    (if ws_Stop w = None then ws_State w = SessionClosed else True)"
proof -
  obtain st w where "read_journal (sample_env uuid_a) (\<lambda>_. sample_call) old_journal = Inr st" "session_of st uuid_b = Some w"
    using old_read by blast
  moreover from upgrade_drains [OF this(1) _ this(2)] have "if ws_Stop w = None then ws_State w = SessionClosed else True"
    by (auto simp: old_journal_def schema_version_def)
  ultimately show ?thesis
    by blast
qed

end
