(* ===== verification/Invariant_Properties.thy ===== *)
theory Invariant_Properties
  imports Sample_Claims
begin

text \<open>
  What holds of the journal after every committed history: a storage has one writer, a task
  root one storage, a conversation one resident session and a Pod name one session.
\<close>

section \<open>Writers\<close>

text \<open>A grant that may still write its storage.\<close>

definition writes :: "task_grant \<Rightarrow> bool" where
  "writes g \<longleftrightarrow> g_StorageID g \<noteq> [] \<and> g_State g \<noteq> Closed"

lemma sound_writer:
  assumes "sound e st" "grant_of st i = Some g" "writes g"
  shows "\<exists>b. storage_of st (g_StorageID g) = Some b \<and> b_ActiveAttempt b = i"
proof (cases "g_WorkerSessionID g = []")
  case True
  with assms have "list_all (\<lambda>(bad, _). \<not> bad) (task_checks e st i g)"
    using validated_grant [of e st i g] by (simp add: sound_def validate_grant_def writes_def bind_res_eq_Inr first_failure_Inr)
  with assms(3) show ?thesis
    by (auto simp: task_checks_def writes_def storage_binds_def get_by_lookup split: option.splits)
next
  case False
  with assms show ?thesis
    using live_turn [OF assms(1,2) False] by (metis writes_def)
qed

text \<open>C19: Exclusive writers: after every committed history from a sound journal each grant that holds a
  storage and is not closed is that storage's active attempt, so no two attempts ever hold one
  storage at the same time.\<close>

theorem exclusive_writer:
  assumes "sound e st0" "(committed e)\<^sup>*\<^sup>* st0 st" "grant_of st i = Some g" "writes g"
  shows "b_ActiveAttempt (get_storage st (g_StorageID g)) = i \<and>
    (\<forall>j h. grant_of st j = Some h \<and> writes h \<and> g_StorageID h = g_StorageID g \<longrightarrow> j = i)"
proof -
  note w = sound_writer [OF run_sound [OF assms(2,1)]]
  show ?thesis
    using w [OF assms(3,4)] w by (fastforce simp: get_by_lookup)
qed

theorem exclusive_writer_witness:
  "b_ActiveAttempt (get_storage writing_journal (g_StorageID writing_grant)) = uuid_c"
  using exclusive_writer [OF committed_sound [OF sample_create_committed] rtranclp.rtrancl_refl, of uuid_c writing_grant]
  by (simp add: writes_def)

section \<open>Roots, sessions and Pods\<close>

lemma storages_ok_distinct:
  "storages_ok e st roots m = Inr u \<Longrightarrow>
   distinct (map (b_TaskRoot \<circ> snd) m) \<and> set (map (b_TaskRoot \<circ> snd) m) \<inter> set roots = {}"
  by (induction e st roots m arbitrary: u rule: storages_ok.induct) (auto simp: bind_res_eq_Inr split: if_splits)

definition conversation_digest :: "env \<Rightarrow> worker_session \<Rightarrow> string" where
  "conversation_digest e w = ConversationKey_Digest e (ws_Conversation w)"

lemma sessions_ok_Cons:
  assumes "sessions_ok e st h names live ((i, w) # rest) = Inr u"
  shows "sessions_ok e st h (ws_PodName w # names) (if session_resident w then conversation_digest e w # live else live) rest = Inr u"
    "ws_PodName w \<notin> set names" "session_resident w \<Longrightarrow> conversation_digest e w \<notin> set live"
  using assms by (auto simp: Let_def bind_res_eq_Inr first_failure_Inr conversation_digest_def)

lemma sessions_ok_distinct:
  "sessions_ok e st h names live m = Inr u \<Longrightarrow>
   distinct (map (ws_PodName \<circ> snd) m) \<and> set (map (ws_PodName \<circ> snd) m) \<inter> set names = {} \<and>
   distinct (map (conversation_digest e \<circ> snd) (filter (session_resident \<circ> snd) m)) \<and>
   set (map (conversation_digest e \<circ> snd) (filter (session_resident \<circ> snd) m)) \<inter> set live = {}"
proof (induction m arbitrary: names live)
  case (Cons p rest)
  obtain i w where p: "p = (i, w)"
    by fastforce
  note s = sessions_ok_Cons [OF Cons.prems [unfolded p]]
  show ?case
    using Cons.IH [OF s(1)] s(2,3) by (auto simp: p split: if_splits)
qed simp

text \<open>After every committed history from a sound journal no two storages share a task root, no
  two sessions share a Pod name, at most one session of a conversation is a resident (is not both
  closed and cleaned), and a session that is not closed is the writer its storage names.\<close>

theorem residents_distinct:
  assumes "sound e st0" "(committed e)\<^sup>*\<^sup>* st0 st"
  shows "distinct (map (b_TaskRoot \<circ> snd) (r_Storages st)) \<and> distinct (map (ws_PodName \<circ> snd) (r_Sessions st)) \<and>
    distinct (map (conversation_digest e \<circ> snd) (filter (session_resident \<circ> snd) (r_Sessions st))) \<and>
    (\<forall>i w. session_of st i = Some w \<and> ws_State w \<noteq> SessionClosed \<longrightarrow>
      b_WriterSessionID (get_storage st (ws_StorageID w)) = i)"
proof -
  have v: "validated e st"
    using run_sound [OF assms(2,1)] by (simp add: sound_def)
  have "b_WriterSessionID (get_storage st (ws_StorageID w)) = i"
    if "session_of st i = Some w" "ws_State w \<noteq> SessionClosed" for i w
    using validated_session [OF v that(1)] that(2) by (auto simp: session_checks_def session_state_checks_def Let_def)
  then show ?thesis
    using storages_ok_distinct [OF validated_parts(2) [OF v]] sessions_ok_distinct [OF validated_parts(6) [OF v]] by blast
qed

theorem residents_distinct_witness:
  "distinct (map (b_TaskRoot \<circ> snd) (r_Storages writing_journal)) \<and>
   distinct (map (ws_PodName \<circ> snd) (r_Sessions writing_journal))"
  using residents_distinct [OF committed_sound [OF sample_create_committed] rtranclp.rtrancl_refl] by simp

end
