(* ===== verification/Capability_Runs.thy ===== *)
theory Capability_Runs
  imports Journal_Runs
begin

text \<open>
  What an operation does to the bearer capabilities: nothing, but for \<^verbatim>\<open>IssueCapability\<close>, which
  adds one, and for the two bindings of a Pod, which give the capabilities of the attempt the Pod's uid.
\<close>

section \<open>Frames\<close>

lemma caps_put [simp]:
  "r_Capabilities (put_grant i g st) = r_Capabilities st" "r_Capabilities (put_storage i b st) = r_Capabilities st"
  "r_Capabilities (put_terminal i t st) = r_Capabilities st" "r_Capabilities (put_session i w st) = r_Capabilities st"
  "r_Capabilities (put_conversation i v st) = r_Capabilities st" "r_Capabilities (put_capabilities m st) = m"
  "r_Capabilities (set_quarantined i q st) = r_Capabilities st" "r_Capabilities (put_prepared i p st) = r_Capabilities st"
  by (simp_all add: put_grant_def put_storage_def put_terminal_def put_session_def put_conversation_def
      put_capabilities_def set_quarantined_def put_prepared_def)

lemma caps_bind_failure [simp]: "r_Capabilities (bind_failure i uid st) = r_Capabilities st"
  by (simp add: bind_failure_def split: option.splits)

lemma caps_finish [simp]: "r_Capabilities (finish_session k st) = r_Capabilities st"
  by (simp add: finish_session_def Let_def)

lemma caps_session_stop: "requestSessionStop c reason now st ws = (st1, ws1) \<Longrightarrow> r_Capabilities st1 = r_Capabilities st"
  by (auto simp: requestSessionStop_def Let_def split: if_splits)

lemma update_grant_caps:
  assumes "update_grant i fn st = Inr (st', a)"
    and "\<And>g st1 h. grant_of st i = Some g \<Longrightarrow> fn st g = Inr (st1, h, a) \<Longrightarrow> r_Capabilities st1 = r_Capabilities st"
  shows "r_Capabilities st' = r_Capabilities st"
proof -
  from assms(1) obtain g st1 h where "grant_of st i = Some g" "fn st g = Inr (st1, h, a)" "st' = put_grant i h st1"
    by (auto simp: update_grant_def split: option.splits sum.splits)
  with assms(2) show ?thesis
    by simp
qed

lemma update_terminal_caps: "update_terminal i fn st = Inr (st', a) \<Longrightarrow> r_Capabilities st' = r_Capabilities st"
  by (auto simp: update_terminal_def split: option.splits sum.splits)

section \<open>Operations that leave the capabilities alone\<close>

lemma grant_op_caps:
  "BeginPreparation x1a x1b x1c st = Inr (st', r1) \<Longrightarrow> r_Capabilities st' = r_Capabilities st"
  "CheckpointPreparation x2a x2b x2c st = Inr (st', r2) \<Longrightarrow> r_Capabilities st' = r_Capabilities st"
  "CompletePreparation x3a x3b x3c x3d st = Inr (st', r3) \<Longrightarrow> r_Capabilities st' = r_Capabilities st"
  "Admit x5a x5b st = Inr (st', r5) \<Longrightarrow> r_Capabilities st' = r_Capabilities st"
  "Offer x6a st = Inr (st', r6) \<Longrightarrow> r_Capabilities st' = r_Capabilities st"
  "BeginStart x7a x7b st = Inr (st', r7) \<Longrightarrow> r_Capabilities st' = r_Capabilities st"
  "SetBootstrap x8a x8b x8c st = Inr (st', r8) \<Longrightarrow> r_Capabilities st' = r_Capabilities st"
  "SetResources x9a x9b x9c st = Inr (st', r9) \<Longrightarrow> r_Capabilities st' = r_Capabilities st"
  "MarkCleaned x10a st = Inr (st', r10) \<Longrightarrow> r_Capabilities st' = r_Capabilities st"
  "BeginCheckout x11a x11b x11c st = Inr (st', r11) \<Longrightarrow> r_Capabilities st' = r_Capabilities st"
  "CompleteCheckout x12a x12b st = Inr (st', r12) \<Longrightarrow> r_Capabilities st' = r_Capabilities st"
  "CloseCheckouts x13a st = Inr (st', r13) \<Longrightarrow> r_Capabilities st' = r_Capabilities st"
  "CheckoutsFlushed x14a st = Inr (st', r14) \<Longrightarrow> r_Capabilities st' = r_Capabilities st"
  "ReceiveEvent x15a x15b x15c x15d st = Inr (st', r15) \<Longrightarrow> r_Capabilities st' = r_Capabilities st"
  "EventDelivery x16a x16b x16c x16d st = Inr (st', r16) \<Longrightarrow> r_Capabilities st' = r_Capabilities st"
  "RecordCompatibility x17a x17b x17c st = Inr (st', r17) \<Longrightarrow> r_Capabilities st' = r_Capabilities st"
  "RecordSelection x18a x18b x18c x18d x18e st = Inr (st', r18) \<Longrightarrow> r_Capabilities st' = r_Capabilities st"
  "RecordBackendSelection x19a x19b x19c st = Inr (st', r19) \<Longrightarrow> r_Capabilities st' = r_Capabilities st"
  by (auto elim!: update_grant_caps simp: grant_op_defs Admit_def Admit_step_def Let_def bind_res_eq_Inr split: step_splits)

lemma stop_op_caps:
  "MarkStarted x1a x1b st = Inr (st', r1) \<Longrightarrow> r_Capabilities st' = r_Capabilities st"
  "RequestStop x2a x2b x2c st = Inr (st', r2) \<Longrightarrow> r_Capabilities st' = r_Capabilities st"
  "PinStopSupervisor x3a x3b x3c x3d x3e st = Inr (st', r3) \<Longrightarrow> r_Capabilities st' = r_Capabilities st"
  "ReceiveStopReceipt x4a x4b x4c st = Inr (st', r4) \<Longrightarrow> r_Capabilities st' = r_Capabilities st"
  "ObserveStop x5a x5b st = Inr (st', r5) \<Longrightarrow> r_Capabilities st' = r_Capabilities st"
  "CloseStopped x6a st = Inr (st', r6) \<Longrightarrow> r_Capabilities st' = r_Capabilities st"
  "InterruptPreparation x7a x7b x7c x7d st = Inr (st', r7) \<Longrightarrow> r_Capabilities st' = r_Capabilities st"
  "Quarantine x8a x8b st = Inr (st', r8) \<Longrightarrow> r_Capabilities st' = r_Capabilities st"
  by (auto elim!: update_grant_caps dest!: caps_session_stop simp: MarkStarted_def transition_step_def RequestStop_def
      RequestStop_step_def PinStopSupervisor_def PinStopSupervisor_step_def ReceiveStopReceipt_def
      ReceiveStopReceipt_step_def ObserveStop_def ObserveStop_step_def CloseStopped_def CloseStopped_step_def
      InterruptPreparation_def InterruptPreparation_step_def Quarantine_def Quarantine_step_def Let_def split: step_splits)

lemma delivery_caps:
  "BeginForward i1 st = Inr (st', r1) \<Longrightarrow> r_Capabilities st' = r_Capabilities st"
  "RejectTerminal i2 st = Inr (st', r2) \<Longrightarrow> r_Capabilities st' = r_Capabilities st"
  "BeginRecoveryForward i3 st = Inr (st', r3) \<Longrightarrow> r_Capabilities st' = r_Capabilities st"
  "FinishRecoveryForward i4 o4 st = Inr (st', r4) \<Longrightarrow> r_Capabilities st' = r_Capabilities st"
  "FinishForward i6 o6 st = Inr (st', r6) \<Longrightarrow> r_Capabilities st' = r_Capabilities st"
  "BeginFailureForward i7 st = Inr (st', r7) \<Longrightarrow> r_Capabilities st' = r_Capabilities st"
  "RejectFailure i8 st = Inr (st', r8) \<Longrightarrow> r_Capabilities st' = r_Capabilities st"
  "RejectRecoveryFailure i9 st = Inr (st', r9) \<Longrightarrow> r_Capabilities st' = r_Capabilities st"
  by (auto dest: update_terminal_caps simp: BeginForward_def RejectTerminal_def BeginRecoveryForward_def
      FinishRecoveryForward_def FinishForward_def BeginFailureForward_def RejectFailure_def RejectRecoveryFailure_def)

lemma receipt_caps:
  "Seal e1 i1 a1 st = Inr (st', r1) \<Longrightarrow> r_Capabilities st' = r_Capabilities st"
  "RecordResultReceipt e2 i2 a2 st = Inr (st', r2) \<Longrightarrow> r_Capabilities st' = r_Capabilities st"
  "RecordRecoveryFailure e3 c3 i3 a3 st = Inr (st', r3) \<Longrightarrow> r_Capabilities st' = r_Capabilities st"
  "ResumeForward i4 st = Inr (st', r4) \<Longrightarrow> r_Capabilities st' = r_Capabilities st"
  "ReceiveFailure e5 c5 i5 b5 st = Inr (st', r5) \<Longrightarrow> r_Capabilities st' = r_Capabilities st"
  by (auto elim!: update_grant_caps dest!: caps_session_stop simp: Seal_def Seal_step_def RecordResultReceipt_def
      RecordResultReceipt_step_def RecordRecoveryFailure_def RecordRecoveryFailure_step_def ResumeForward_def
      ResumeForward_step_def ReceiveFailure_def ReceiveFailure_step_def Let_def bind_res_eq_Inr split: step_splits)

lemma caps_invalidate: "invalidate_sessions ss st g = Inr (st1, g1) \<Longrightarrow> r_Capabilities st1 = r_Capabilities st"
  by (induction ss st g rule: invalidate_sessions.induct) (auto simp: Let_def split: if_splits)

lemma caps_publish: "publishResume c s w st g = Inr (st1, g1) \<Longrightarrow> r_Capabilities st1 = r_Capabilities st"
  unfolding publishResume_def bind_res_eq_Inr if_Inl_eq_Inr
  by (elim conjE exE, cases "s = []") (clarsimp split: if_splits option.splits)+

lemma caps_terminalResume: "terminalResume c r st g = Inr (st1, g1) \<Longrightarrow> r_Capabilities st1 = r_Capabilities st"
  by (cases "g_WorkerSessionID g = []")
    (auto simp: terminalResume_def bind_res_eq_Inr Let_def simp del: invalidate_sessions.simps
      dest!: caps_invalidate caps_publish)

lemma ReceiveTerminal_caps: "ReceiveTerminal e c i k b r d st = Inr (st', a) \<Longrightarrow> r_Capabilities st' = r_Capabilities st"
  by (auto elim!: update_grant_caps dest!: caps_terminalResume simp: ReceiveTerminal_def ReceiveTerminal_step_def
      Let_def bind_res_eq_Inr split: step_splits)

section \<open>Claims, sessions and turns\<close>

lemma caps_admit: "admitResident c st limit now = (ok, st1) \<Longrightarrow> r_Capabilities st1 = r_Capabilities st"
  by (auto simp: admitResident_def dest!: caps_session_stop split: if_splits option.splits prod.splits)

lemma claim_caps:
  "QueueClaim e1 c1 g1 st = Inr (st', r1) \<Longrightarrow> r_Capabilities st' = r_Capabilities st"
  "BindWorkspace e3 n3 u3 v3 st = Inr (st', r3) \<Longrightarrow> r_Capabilities st' = r_Capabilities st"
  by (auto simp: QueueClaim_def BindWorkspace_def bind_res_eq_Inr split: prod.splits if_splits)

lemma Create_caps:
  assumes "Create e c input limit st = Inr (st', a)"
  shows "r_Capabilities st' = r_Capabilities st"
proof -
  from assms obtain g b reuse ok st1 l where "admitResident c st l (c_now c) = (ok, st1)" and
    "st' = st1 \<or> st' = put_grant (g_AttemptID (activated g b reuse)) (activated g b reuse)
       (put_storage (b_ID b) (b\<lparr>b_ActiveAttempt := g_AttemptID (activated g b reuse)\<rparr>) st1)"
    unfolding Create_def Let_def bind_res_eq_Inr if_Inl_eq_Inr
    by (elim conjE exE) (simp split: if_splits prod.splits, blast+)
  then show ?thesis
    by (auto dest!: caps_admit)
qed

lemma session_op_caps:
  "SetSessionBootstrap e1 i1 a1 st = Inr (st', r1) \<Longrightarrow> r_Capabilities st' = r_Capabilities st"
  "SetSessionResources e2 i2 a2 st = Inr (st', r2) \<Longrightarrow> r_Capabilities st' = r_Capabilities st"
  "AdmitSession i3 a3 b3 st = Inr (st', r3) \<Longrightarrow> r_Capabilities st' = r_Capabilities st"
  "RecordSessionStopReceipt e4 c4 chs4 i4 a4 b4 st = Inr (st', r4) \<Longrightarrow> r_Capabilities st' = r_Capabilities st"
  "RecordSessionControllerFlush i5 st = Inr (st', r5) \<Longrightarrow> r_Capabilities st' = r_Capabilities st"
  "MarkSessionCleaned i6 st = Inr (st', r6) \<Longrightarrow> r_Capabilities st' = r_Capabilities st"
  "RequestSessionStop c7 i7 x7 st = Inr (st', r7) \<Longrightarrow> r_Capabilities st' = r_Capabilities st"
  "RequestSessionStopSigned e8 c8 chs8 i8 x8 p8 st = Inr (st', r8) \<Longrightarrow> r_Capabilities st' = r_Capabilities st"
  "ObserveSessionStop i9 ev9 st = Inr (st', r9) \<Longrightarrow> r_Capabilities st' = r_Capabilities st"
  "QuarantineSession c10 i10 st = Inr (st', r10) \<Longrightarrow> r_Capabilities st' = r_Capabilities st"
  "ExpireSession c11 i11 x11 st = Inr (st', r11) \<Longrightarrow> r_Capabilities st' = r_Capabilities st"
  "DrainIdleSession c12 i12 n12 x12 st = Inr (st', r12) \<Longrightarrow> r_Capabilities st' = r_Capabilities st"
  "CreateSessionChallenge c13 chs13 i13 t13 o13 d13 st = Inr (st', r13) \<Longrightarrow> r_Capabilities st' = r_Capabilities st"
  by (auto simp: SetSessionBootstrap_def SetSessionResources_def AdmitSession_def RecordSessionStopReceipt_def
      RecordSessionControllerFlush_def MarkSessionCleaned_def RequestSessionStop_def RequestSessionStopSigned_def
      ObserveSessionStop_def QuarantineSession_def ExpireSession_def DrainIdleSession_def CreateSessionChallenge_def
      expire_for_challenge_def Let_def dest!: caps_session_stop split: step_splits)

lemma caps_recover: "recoverClosedCheckpoint e c st g now = Inr st1 \<Longrightarrow> r_Capabilities st1 = r_Capabilities st"
  by (auto simp: recoverClosedCheckpoint_def Let_def split: if_splits option.splits)

lemma caps_turn_session: "turn_session c i g st ws = (st1, ws1) \<Longrightarrow> r_Capabilities st1 = r_Capabilities st"
  by (auto simp: turn_session_def Let_def dest!: caps_session_stop split: if_splits)

lemma turn_op_caps:
  "PublishTurn e1 c1 i1 raw1 st = Inr (st', r1) \<Longrightarrow> r_Capabilities st' = r_Capabilities st"
  "AcceptTurn e2 c2 chs2 i2 n2 d2 p2 st = Inr (st', r2) \<Longrightarrow> r_Capabilities st' = r_Capabilities st"
  "RecordTurnReceipt e3 i3 x3 st = Inr (st', r3) \<Longrightarrow> r_Capabilities st' = r_Capabilities st"
  "RecordTurnExecutionReceipt e4 c4 chs4 i4 x4 p4 st = Inr (st', r4) \<Longrightarrow> r_Capabilities st' = r_Capabilities st"
  "RecordCompletionWitness e5 i5 w5 st = Inr (st', r5) \<Longrightarrow> r_Capabilities st' = r_Capabilities st"
  "CompleteTurn e6 c6 i6 st = Inr (st', r6) \<Longrightarrow> r_Capabilities st' = r_Capabilities st"
  by (auto elim!: update_grant_caps simp: PublishTurn_def PublishTurn_step_def AcceptTurn_def RecordTurnReceipt_def
      RecordTurnReceipt_step_def RecordTurnExecutionReceipt_def RecordTurnExecutionReceipt_step_def
      RecordCompletionWitness_def RecordCompletionWitness_step_def CompleteTurn_def CompleteTurn_step_def Let_def
      bind_res_eq_Inr dest!: caps_recover caps_turn_session split: step_splits)

lemma CloseSession_caps: "CloseSession e c i st = Inr (st', a) \<Longrightarrow> r_Capabilities st' = r_Capabilities st"
  by (auto simp: CloseSession_def Let_def dest!: caps_recover split: step_splits)

lemma caps_take_turn: "take_turn e c i s d retention limit g v b ws st = Inr (st', r) \<Longrightarrow> r_Capabilities st' = r_Capabilities st"
  by (auto simp: take_turn_def commit_turn_def Let_def dest!: caps_admit split: if_splits prod.splits)

lemma reserve_turn_caps:
  assumes "reserve_turn e c i s d retention limit g st = Inr (st', r)"
  shows "r_Capabilities st' = r_Capabilities st"
proof -
  obtain v b ws where "turn_requested e c i s d g st = Inr ()" "turn_conversation e st s = Inr v"
    "turn_source e c st g s d = Inr (b, ws)"
    using assms by (auto simp: reserve_turn_def bind_res_eq_Inr)
  then show ?thesis
    using assms
    by (cases "turn_current c st g s b retention v")
      (auto simp: reserve_turn_def bind_res_eq_Inr dest!: caps_take_turn caps_session_stop split: prod.splits)
qed

lemma ReserveTurn_caps: "ReserveTurn e c i s d retention limit st = Inr (st', r) \<Longrightarrow> r_Capabilities st' = r_Capabilities st"
  by (auto simp: ReserveTurn_def bind_res_eq_Inr dest!: reserve_turn_caps split: if_splits option.splits)

section \<open>Steps\<close>

text \<open>The same capabilities for the same attempts and audiences, some for another Pod.\<close>

definition rebound :: "registry \<Rightarrow> registry \<Rightarrow> bool" where
  "rebound st st' \<longleftrightarrow> (\<exists>f. r_Capabilities st' = map (\<lambda>(k, c). (k, c\<lparr>cap_PodUID := f k c\<rparr>)) (r_Capabilities st))"

lemma rebound_same: "r_Capabilities st' = r_Capabilities st \<Longrightarrow> rebound st st'"
  unfolding rebound_def by (rule exI [of _ "\<lambda>k c. cap_PodUID c"]) (simp add: case_prod_beta)

lemma rebound_bind:
  assumes "r_Capabilities st1 = r_Capabilities st" "r_Capabilities st' = r_Capabilities (bind_capabilities i uid st1)"
  shows "rebound st st'"
  unfolding rebound_def
  by (rule exI [of _ "\<lambda>k c. if cap_AttemptID c = i then uid else cap_PodUID c"])
    (auto simp: assms bind_capabilities_def)

lemma bind_rebound:
  "BindPod i name uid node st = Inr (st', a) \<Longrightarrow> rebound st st'"
  "BindSessionPod i name uid node st = Inr (st', b) \<Longrightarrow> rebound st st'"
  by (auto simp: BindPod_def BindPod_step_def update_grant_def BindSessionPod_def Let_def
      intro: rebound_bind [of "bind_failure _ uid st"] rebound_bind [of "put_grant _ _ (bind_failure _ uid st)"] rebound_same
      split: if_splits option.splits sum.splits)

lemmas step_caps = grant_op_caps stop_op_caps delivery_caps receipt_caps ReceiveTerminal_caps claim_caps Create_caps
  session_op_caps turn_op_caps CloseSession_caps ReserveTurn_caps

definition issued :: "env \<Rightarrow> string \<Rightarrow> registry \<Rightarrow> registry \<Rightarrow> bool" where
  "issued e token st st' \<longleftrightarrow> (\<exists>c i audience expiry. IssueCapability e c i audience expiry st = Inr (st', token))"

lemma caps_restarted: "r_Capabilities (restarted st) = r_Capabilities st"
  by (simp add: restarted_def)

lemma journal_step_caps: "journal_step e st st' \<Longrightarrow> rebound st st' \<or> (\<exists>token. issued e token st st')"
  by (induction rule: journal_step.induct)
    ((rule disjI1, rule rebound_same, rule step_caps, assumption) | (rule disjI1, rule bind_rebound, assumption) |
      (rule disjI2, unfold issued_def, blast) | (rule disjI1, rule rebound_same, rule caps_restarted))+

end
