(* ===== verification/Authority_Properties.thy ===== *)
theory Authority_Properties
  imports Invariant_Properties Capability_Runs Sample_Claims
begin

text \<open>
  Who may do what: the authority that allows a conversation to be reused, stated without the loop
  that checks it, and what a bearer capability authorises, for how long and for which attempt.
\<close>

section \<open>Reuse authority\<close>

definition known_role :: "authority_membership \<Rightarrow> bool" where
  "known_role m = (am_Role m = ''owner'' \<or> am_Role m = ''admin'' \<or> am_Role m = ''member'')"

lemma members_ok_iff:
  "members_ok wanted previous ms \<longleftrightarrow>
   sorted_wrt (<) (previous # map am_UserID ms) \<and> am_UserID ` set ms = set wanted \<and> list_all known_role ms"
proof (induction wanted previous ms rule: members_ok.induct)
  case (2 wanted previous m ms)
  have "am_UserID m \<notin> am_UserID ` set ms" if "sorted_wrt (<) (am_UserID m # map am_UserID ms)"
    using that by auto
  moreover have "previous < am_UserID m \<and> sorted_wrt (<) (am_UserID m # map am_UserID ms) \<longleftrightarrow>
      sorted_wrt (<) (previous # map am_UserID (m # ms))"
    by (auto intro: less_trans)
  ultimately show ?case
    using 2 by (auto simp: known_role_def not_le)
qed auto

lemma strict_list_of_set:
  "sorted_wrt (<) ([] # us) \<and> set us = A \<longleftrightarrow> us = sorted_list_of_set A \<and> [] \<notin> A"
  if "finite A" for us :: "string list"
proof
  assume us: "sorted_wrt (<) ([] # us) \<and> set us = A"
  then have "us = sorted_list_of_set A"
    by (intro strict_sorted_equal) auto
  with us show "us = sorted_list_of_set A \<and> [] \<notin> A"
    by auto
next
  assume us: "us = sorted_list_of_set A \<and> [] \<notin> A"
  have "[] < x" if "x \<noteq> []" for x :: string
    using that by (cases x) auto
  with us have "\<forall>x\<in>A. [] < x"
    by metis
  with us that show "sorted_wrt (<) ([] # us) \<and> set us = A"
    by simp
qed

text \<open>The loop of \<^verbatim>\<open>ValidForWorkspaceReuse\<close> accepts exactly the evidence of the current version with
  canonical identities and known delegation whose membership list is the sorted list, each once, of the
  principal, the agent's owner and the originator (when there is one), each with a known role.\<close>

theorem reuse_authority_exact:
  "ValidForWorkspaceReuse e a \<longleftrightarrow>
    ae_Version a = 1 \<and> ae_DelegationKnown a \<and>
    list_all (canonicalUUID e) ([ae_WorkspaceID a, ae_RuntimeID a, ae_AgentID a] @ wanted_users a) \<and>
    [] \<notin> set (wanted_users a) \<and> map am_UserID (member_list a) = sorted_list_of_set (set (wanted_users a)) \<and>
    list_all (\<lambda>m. am_Role m \<in> {''owner'', ''admin'', ''member''}) (member_list a)"
proof -
  have role: "known_role = (\<lambda>m. am_Role m \<in> {''owner'', ''admin'', ''member''})"
    by (auto simp: known_role_def)
  have "members_ok (wanted_users a) [] (member_list a) \<longleftrightarrow>
      map am_UserID (member_list a) = sorted_list_of_set (set (wanted_users a)) \<and> [] \<notin> set (wanted_users a) \<and>
      list_all known_role (member_list a)"
    using strict_list_of_set [of "set (wanted_users a)" "map am_UserID (member_list a)"]
    unfolding members_ok_iff by auto
  then show ?thesis
    unfolding ValidForWorkspaceReuse_def role by (auto simp: wanted_users_def)
qed

section \<open>Capabilities\<close>

lemma authorized_facts:
  assumes "AuthorizeWithExpiry e c token audience st = Inr (g, x)"
  obtains cap where "capability_of st (e_digest e token) = Some cap" "grant_of st (cap_AttemptID cap) = Some g"
    "cap_Token cap = token" "cap_Audience cap = audience" "x = cap_ExpiresAt cap" "c_wall c < x" "audience \<noteq> ''stop''"
    "g_PodUID g = cap_PodUID cap" "g_PodUID g \<noteq> []" "g_ExecutionRevoked g \<longrightarrow> audience = ''supervisor''"
    "b_ActiveAttempt (get_storage st (g_StorageID g)) = g_AttemptID g" "\<not> b_Quarantined (get_storage st (g_StorageID g))"
    "1 \<le> state_rank (g_State g)" "state_rank (g_State g) \<le> 7"
    "g_State g = TerminalReceived \<longrightarrow> audience = ''supervisor''"
  using assms
  by (cases "g_State g")
    (auto simp: AuthorizeWithExpiry_def split: if_splits option.splits grant_state.splits)

lemma authorized_grant:
  "AuthorizeWithExpiry e c token audience st = Inr (g, x) \<Longrightarrow>
   \<exists>cap :: capability. grant_of st (cap_AttemptID cap) = Some g \<and> (g_ExecutionRevoked g \<longrightarrow> audience = ''supervisor'') \<and>
     state_rank (g_State g) \<le> 7"
  by (erule authorized_facts) blast

text \<open>An attempt that a token authorises writes its storage, and so does no other attempt.\<close>

lemma capability_grant:
  assumes "sound e st" "capability_of st k = Some cap"
  obtains g where "grant_of st (cap_AttemptID cap) = Some g" "g_StorageID g \<noteq> []" "g_AttemptID g = cap_AttemptID cap"
    "cap_Generation cap = g_Generation g" "cap_PodUID cap = g_PodUID g"
    "cap_WorkerSessionID cap = g_WorkerSessionID g" "cap_TurnSequence cap = g_TurnSequence g"
proof -
  have "validate_capability e st (k, cap) = Inr ()"
    using assms by (auto simp: sound_def capability_of_def each_ok_Inr dest!: validated_parts(3) map_of_mem)
  then show thesis
    using that assms(1) by (auto simp: validate_capability_def capability_ok_def split: option.splits if_splits)
qed

lemma authorized_writes:
  assumes "sound e st" "AuthorizeWithExpiry e c token audience st = Inr (g, x)"
  shows "grant_of st (g_AttemptID g) = Some g" "writes g" "b_ActiveAttempt (get_storage st (g_StorageID g)) = g_AttemptID g"
proof -
  obtain cap where cap: "capability_of st (e_digest e token) = Some cap" "grant_of st (cap_AttemptID cap) = Some g"
    and g: "b_ActiveAttempt (get_storage st (g_StorageID g)) = g_AttemptID g" "state_rank (g_State g) \<le> 7"
    using assms(2) by (rule authorized_facts)
  obtain h where "grant_of st (cap_AttemptID cap) = Some h" "g_StorageID h \<noteq> []" "g_AttemptID h = cap_AttemptID cap"
    using capability_grant [OF assms(1) cap(1)] .
  with cap g show "grant_of st (g_AttemptID g) = Some g" "writes g"
      "b_ActiveAttempt (get_storage st (g_StorageID g)) = g_AttemptID g"
    by (auto simp: writes_def)
qed

lemma authorized_later:
  assumes "sound e st" "(committed e)\<^sup>*\<^sup>* st st'" "grant_of st i = Some g" "8 \<le> state_rank (g_State g)"
  shows "AuthorizeWithExpiry e c token audience st' = Inr (h, x) \<Longrightarrow> g_AttemptID h \<noteq> i"
proof
  assume a: "AuthorizeWithExpiry e c token audience st' = Inr (h, x)" "g_AttemptID h = i"
  then have "grant_of st' i = Some h"
    using authorized_writes(1) [OF run_sound [OF assms(2,1)] a(1)] by simp
  moreover have "state_rank (g_State h) \<le> 7"
    using a(1) by (rule authorized_facts)
  ultimately show False
    using grants.run_record [OF assms(2,3)] assms(4) by (auto simp: grant_le_def flags_advance_def)
qed

text \<open>C17: A workspace serves one attempt after the other.  When a token is authorised on an attempt and,
  after any committed history, a token is authorised on an attempt that uses the same storage, then it
  is the same attempt (always so at one moment), or the first attempt is closed by then and no token is
  ever authorised on it again, whatever is committed later.\<close>

theorem authorization_exclusive:
  assumes "sound e st" "AuthorizeWithExpiry e c token audience st = Inr (g, x)"
    and "(committed e)\<^sup>*\<^sup>* st st'" "AuthorizeWithExpiry e c' token' audience' st' = Inr (h, y)"
    and "g_StorageID g = g_StorageID h"
  shows "\<not> b_Quarantined (get_storage st' (g_StorageID g)) \<and> (st' = st \<longrightarrow> g_AttemptID h = g_AttemptID g) \<and>
    (g_AttemptID h = g_AttemptID g \<or>
      (\<exists>g'. grant_of st' (g_AttemptID g) = Some g' \<and> g_State g' = Closed \<and>
        (\<forall>st'' c token audience k z. (committed e)\<^sup>*\<^sup>* st' st'' \<and>
          AuthorizeWithExpiry e c token audience st'' = Inr (k, z) \<longrightarrow> g_AttemptID k \<noteq> g_AttemptID g)))"
proof -
  have sd: "sound e st'"
    by (rule run_sound [OF assms(3,1)])
  note g = authorized_writes [OF assms(1,2)] and h = authorized_writes [OF sd assms(4)]
  obtain g' where g': "grant_of st' (g_AttemptID g) = Some g'" "grant_le g g'"
    using grants.run_record [OF assms(3) g(1)] by blast
  then have same: "g_StorageID g' = g_StorageID h"
    using g(2) assms(5) by (auto simp: grant_le_def bindings_kept_def kept_def writes_def)
  have closed: "g_State g' = Closed" if "g_AttemptID h \<noteq> g_AttemptID g"
  proof (rule ccontr)
    assume "g_State g' \<noteq> Closed"
    then have "writes g'"
      using h(2) same by (simp add: writes_def)
    then have "b_ActiveAttempt (get_storage st' (g_StorageID h)) = g_AttemptID g"
      using sound_writer [OF sd g'(1)] same by (auto simp: get_by_lookup)
    with h(3) that show False
      by simp
  qed
  have "\<not> b_Quarantined (get_storage st' (g_StorageID g))"
    using assms(4,5) by (auto elim!: authorized_facts)
  moreover have "st' = st \<longrightarrow> g_AttemptID h = g_AttemptID g"
    using h(3) g(3) assms(5) by auto
  ultimately show ?thesis
    using g'(1) closed authorized_later [OF sd _ g'(1)] by force
qed

text \<open>A token that is authorised on a sound journal: the task's Pod is admitted.\<close>

abbreviation "serving_grant \<equiv> service_grant uuid_d service_key Ready"
abbreviation "serving_journal \<equiv> service_journal serving_grant [(sample_sha, service_capability uuid_d)]"

lemma serving_sound: "sound (sample_env uuid_a) serving_journal"
  by (rule service_sound) (simp_all add: service_key_def key_size_def uuid_d_def)

lemma serving_authorized:
  "AuthorizeWithExpiry (sample_env uuid_a) sample_call (capability_token []) ''mcp'' serving_journal = Inr (serving_grant, 200)"
  by (simp add: AuthorizeWithExpiry_def capability_of_def service_capability_def sample_call_def get_by_lookup
      service_storage_def service_key_def)
    (simp add: uuid_d_def written_storage_def zero_storage_def)

theorem authorization_exclusive_witness:
  "\<not> b_Quarantined (get_storage serving_journal (g_StorageID serving_grant))"
  using authorization_exclusive [OF serving_sound serving_authorized rtranclp.rtrancl_refl serving_authorized refl] by blast

text \<open>C16: Revocation is final for every bearer of execution authority: once an attempt's execution is
  revoked, no token, however it was issued, is authorised by \<^verbatim>\<open>AuthorizeWithExpiry\<close> on that attempt
  after any committed history, except the supervisor's; and once the attempt is quarantined, unexecuted or
  closed not even that one is.  Reporting a stop stays possible: \<^verbatim>\<open>AuthorizeStop\<close> may still accept a
  token of the attempt, but a token it accepts is one that \<^verbatim>\<open>AuthorizeWithExpiry\<close> refuses for every
  audience.\<close>

theorem revoked_never_authorized:
  assumes "sound e st" "(committed e)\<^sup>*\<^sup>* st st'" "grant_of st i = Some g"
    and "g_ExecutionRevoked g \<or> 8 \<le> state_rank (g_State g)"
  shows "(AuthorizeWithExpiry e c token audience st' = Inr (h, x) \<and> g_AttemptID h = i \<longrightarrow>
      g_ExecutionRevoked g \<and> audience = ''supervisor'' \<and> state_rank (g_State g) \<le> 7) \<and>
    (snd (AuthorizeStop e c token st') \<noteq> Some ErrUnauthorized \<longrightarrow>
      AuthorizeWithExpiry e c' token audience' st' = Inl ErrUnauthorized)"
proof (intro conjI impI)
  assume a: "AuthorizeWithExpiry e c token audience st' = Inr (h, x) \<and> g_AttemptID h = i"
  then have "grant_of st' i = Some h"
    using authorized_writes(1) [OF run_sound [OF assms(2,1)], of c token audience h x] by simp
  then have "grant_le g h"
    using grants.run_record [OF assms(2,3)] by auto
  then have "state_rank (g_State g) \<le> state_rank (g_State h)" "g_ExecutionRevoked g \<longrightarrow> g_ExecutionRevoked h"
    by (simp_all add: grant_le_def flags_advance_def)
  moreover have "g_ExecutionRevoked h \<longrightarrow> audience = ''supervisor''" "state_rank (g_State h) \<le> 7"
    using a by (auto elim: authorized_facts)
  ultimately show "g_ExecutionRevoked g" "audience = ''supervisor''" "state_rank (g_State g) \<le> 7"
    using assms(4) by auto
next
  assume "snd (AuthorizeStop e c token st') \<noteq> Some ErrUnauthorized"
  then obtain cap where "capability_of st' (e_digest e token) = Some cap" "cap_Audience cap = ''stop''"
    by (auto simp: AuthorizeStop_def split: option.splits if_splits)
  then show "AuthorizeWithExpiry e c' token audience' st' = Inl ErrUnauthorized"
    by (simp add: AuthorizeWithExpiry_def)
qed

theorem revoked_never_authorized_witness:
  "{audience. \<exists>c token h x. AuthorizeWithExpiry (sample_env uuid_a) c token audience stopped_journal = Inr (h, x) \<and>
    g_AttemptID h = uuid_c} \<subseteq> {''supervisor''}"
  using revoked_never_authorized [OF queued_sound r_into_rtranclp [of "committed (sample_env uuid_a)", OF queued_stopped]]
    revoked_never_authorized [OF stopped_sound rtranclp.rtrancl_refl, of uuid_c]
  by (auto simp: stopped_journal_def)

section \<open>Issuing\<close>

lemma find_updated:
  "list_all (\<lambda>v. \<not> P v) (mvals m) \<Longrightarrow> P v \<Longrightarrow> find P (mvals (AList.update k v m)) = Some v"
  by (induction m) (auto simp: mvals_def)

text \<open>While no token with the same digest is drawn again.\<close>

definition undrawn :: "env \<Rightarrow> string \<Rightarrow> registry \<Rightarrow> registry \<Rightarrow> bool" where
  "undrawn e token st st' \<longleftrightarrow>
    committed e st st' \<and> (\<forall>token'. issued e token' st st' \<longrightarrow> e_digest e token' \<noteq> e_digest e token)"

text \<open>The journal holds the token as the only capability of its attempt and audience.\<close>

definition holds_token :: "env \<Rightarrow> string \<Rightarrow> string \<Rightarrow> time \<Rightarrow> string \<Rightarrow> registry \<Rightarrow> bool" where
  "holds_token e i audience expiry token st \<longleftrightarrow>
    (\<exists>cap. capability_of st (e_digest e token) = Some cap \<and> cap_Token cap = token \<and> cap_AttemptID cap = i \<and>
      cap_Audience cap = audience \<and> cap_ExpiresAt cap = expiry) \<and>
    (\<forall>k cap. capability_of st k = Some cap \<and> cap_AttemptID cap = i \<and> cap_Audience cap = audience \<longrightarrow> k = e_digest e token)"

lemma issued_form:
  assumes "IssueCapability e c i audience expiry st = Inr (st', token)"
  obtains cap where "capability_of st' = (capability_of st)(e_digest e token \<mapsto> cap)" "cap_Token cap = token"
    "cap_AttemptID cap = i" "cap_Audience cap = audience" "cap_ExpiresAt cap = expiry"
    "\<And>k v. capability_of st k = Some v \<Longrightarrow> \<not> (cap_AttemptID v = i \<and> cap_Audience v = audience)"
proof -
  obtain cap where g: "list_all (\<lambda>v. \<not> (cap_AttemptID v = i \<and> cap_Audience v = audience)) (mvals (r_Capabilities st))"
    "r_Capabilities st' = AList.update (e_digest e token) cap (r_Capabilities st)"
    and cap: "cap_Token cap = token" "cap_AttemptID cap = i" "cap_Audience cap = audience" "cap_ExpiresAt cap = expiry"
    using assms
    by (auto simp: IssueCapability_def IssueCapability_step_def update_grant_def Let_def list_all_iff list_ex_iff
        split: if_splits option.splits sum.splits)
  have "\<not> (cap_AttemptID v = i \<and> cap_Audience v = audience)" if v: "capability_of st k = Some v" for k v
    using g(1) v map_of_SomeD [of "r_Capabilities st" k v] by (fastforce simp: capability_of_def mvals_def list_all_iff)
  moreover have "capability_of st' = (capability_of st)(e_digest e token \<mapsto> cap)"
    by (simp add: capability_of_def [abs_def] g(2) update_conv' fun_eq_iff)
  ultimately show thesis
    using that cap by blast
qed

lemma issue_holds: "IssueCapability e c i audience expiry st = Inr (st', token) \<Longrightarrow> holds_token e i audience expiry token st'"
  by (erule issued_form) (auto simp: holds_token_def split: if_splits)

lemma map_of_rebound:
  "map_of (map (\<lambda>(k, c). (k, F k c)) m) k = map_option (F k) (map_of m k)"
  by (induction m) auto

lemma capability_of_rebound:
  assumes "rebound st st'"
  obtains f where "\<And>k. capability_of st' k = map_option (\<lambda>c. c\<lparr>cap_PodUID := f k c\<rparr>) (capability_of st k)"
proof -
  obtain f where "r_Capabilities st' = map (\<lambda>(k, c). (k, c\<lparr>cap_PodUID := f k c\<rparr>)) (r_Capabilities st)"
    using assms unfolding rebound_def by blast
  with that [of f] show thesis
    by (simp add: capability_of_def map_of_rebound)
qed

lemma undrawn_holds:
  assumes "undrawn e token st st'" "holds_token e i audience expiry token st"
  shows "holds_token e i audience expiry token st'"
proof -
  consider "rebound st st'" | token' where "issued e token' st st'"
    using assms(1) journal_step_caps [of e st st'] unfolding undrawn_def committed_def by blast
  then show ?thesis
  proof cases
    case 1
    then obtain f where "capability_of st' k = map_option (\<lambda>c. c\<lparr>cap_PodUID := f k c\<rparr>) (capability_of st k)" for k
      using capability_of_rebound by blast
    with assms(2) show ?thesis
      by (auto simp: holds_token_def)
  next
    case 2
    then obtain c j audience' expiry' where iss: "IssueCapability e c j audience' expiry' st = Inr (st', token')"
      by (auto simp: issued_def)
    moreover have "e_digest e token' \<noteq> e_digest e token"
      using assms(1) 2 by (auto simp: undrawn_def)
    ultimately show ?thesis
      using assms(2) iss
    proof (elim issued_form)
      fix cap
      assume cap: "capability_of st' = (capability_of st)(e_digest e token' \<mapsto> cap)" "cap_AttemptID cap = j"
        "cap_Audience cap = audience'"
        and new: "\<And>k v. capability_of st k = Some v \<Longrightarrow> \<not> (cap_AttemptID v = j \<and> cap_Audience v = audience')"
      obtain held where "capability_of st (e_digest e token) = Some held" "cap_AttemptID held = i" "cap_Audience held = audience"
        using assms(2) by (auto simp: holds_token_def)
      then have "\<not> (j = i \<and> audience' = audience)"
        using new [of "e_digest e token" held] by auto
      then show ?thesis
        using assms(2) cap \<open>e_digest e token' \<noteq> e_digest e token\<close> by (auto simp: holds_token_def)
    qed
  qed
qed

text \<open>What of the attempt's state decides whether its tokens are good.\<close>

definition serves :: "registry \<Rightarrow> task_grant \<Rightarrow> string \<Rightarrow> bool" where
  "serves st g audience \<longleftrightarrow>
    g_PodUID g \<noteq> [] \<and> \<not> b_Quarantined (get_storage st (g_StorageID g)) \<and>
    (g_State g \<in> {Ready, Offered, Starting, Started} \<and> (g_ExecutionRevoked g \<longrightarrow> audience = ''supervisor'') \<or>
     audience = ''supervisor'' \<and>
       (g_State g = Intent \<or> g_State g = TerminalReceived \<or> g_State g = Assigned \<and> g_TurnAccepted g))"

lemma grant_on_storage:
  assumes "sound e st" "grant_of st i = Some g" "g_StorageID g \<noteq> []"
  shows "g_State g \<noteq> Closed \<Longrightarrow> b_ActiveAttempt (get_storage st (g_StorageID g)) = i"
    "g_State g \<in> {Ready, Offered, Starting, Started, TerminalReceived, Assigned} \<Longrightarrow> g_SupervisorKey g \<noteq> []"
    "g_State g = Assigned \<Longrightarrow> g_WorkerSessionID g \<noteq> []"
proof -
  show "b_ActiveAttempt (get_storage st (g_StorageID g)) = i" if "g_State g \<noteq> Closed"
    using sound_writer [OF assms(1,2)] that assms(3) by (auto simp: writes_def get_by_lookup)
  have v: "validate_grant e st (i, g) = Inr ()"
    using assms(1,2) validated_grant by (auto simp: sound_def)
  have task: "list_all (\<lambda>(bad, _). \<not> bad) (task_checks e st i g)" if "g_WorkerSessionID g = []"
    using v assms(3) that by (simp add: validate_grant_def bind_res_eq_Inr first_failure_Inr)
  then show "g_WorkerSessionID g \<noteq> []" if "g_State g = Assigned"
    using that by (auto simp: task_checks_def task_state_checks_def)
  show "g_SupervisorKey g \<noteq> []" if s: "g_State g \<in> {Ready, Offered, Starting, Started, TerminalReceived, Assigned}"
  proof (cases "g_WorkerSessionID g = []")
    case True
    with task s show ?thesis
      by (auto simp: task_checks_def task_state_checks_def Let_def key_size_def)
  next
    case False
    obtain ws b where "list_all (\<lambda>(bad, _). \<not> bad) (turn_checks e st ws b g)"
      using validated_turn [OF conjunct2 [OF conjunct2 [OF assms(1) [unfolded sound_def]]] assms(2) False] .
    with s show ?thesis
      by (auto simp: turn_checks_def turn_state_checks_def Let_def key_size_def)
  qed
qed

lemma live_current:
  assumes "sound e st" "grant_of st i = Some g" "g_WorkerSessionID g \<noteq> []" "g_State g \<noteq> Closed"
  shows "currentSessionTurn st g"
proof -
  have v: "validated e st"
    using assms(1) by (simp add: sound_def)
  obtain ws b where ws: "session_of st (g_WorkerSessionID g) = Some ws" and b: "storage_of st (g_StorageID g) = Some b"
    and ok: "list_all (\<lambda>(bad, _). \<not> bad) (turn_checks e st ws b g)"
    using validated_turn [OF v assms(2,3)] .
  obtain ws' b' where l: "session_of st (g_WorkerSessionID g) = Some ws'" "ws_ActiveAttempt ws' = i"
    "storage_of st (g_StorageID g) = Some b'" "b_WriterSessionID b' = g_WorkerSessionID g"
    using live_turn [OF assms] .
  then have writer: "b_WriterSessionID b = g_WorkerSessionID g" "ws_ActiveAttempt ws = i"
    using ws b by simp_all
  have "conversation_storage_checks e st b \<noteq> [] \<and> ws_StorageID ws = g_StorageID g"
    using validated_storage [OF v b] writer assms(1,3) b ws
    by (auto simp: validateConversationStorage_def first_failure_Inr conversation_storage_checks_def writer_lease_ok_def
        task_storage_checks_def split: if_splits)
  moreover have "ws_PVCUID ws = b_PVCUID (get_storage st (ws_StorageID ws))"
    using validated_session [OF v ws] by (simp add: session_checks_def session_identity_ok_def Let_def)
  moreover have "\<not> g_TurnComplete g"
    using ok assms(4) by (auto simp: turn_checks_def turn_state_checks_def Let_def)
  ultimately show ?thesis
    using ok ws b writer assms(1,2)
    by (auto simp: currentSessionTurn_def turn_checks_def turn_binding_ok_def turn_state_checks_def get_by_lookup Let_def)
qed

lemma holder_authorized:
  assumes "sound e st" "holds_token e i audience expiry token st" "grant_of st i = Some g"
  shows "AuthorizeWithExpiry e c token audience' st =
    (if audience' = audience \<and> audience \<noteq> ''stop'' \<and> c_wall c < expiry \<and> serves st g audience
     then Inr (g, expiry) else Inl ErrUnauthorized)"
proof -
  obtain cap where cap: "capability_of st (e_digest e token) = Some cap" "cap_Token cap = token" "cap_AttemptID cap = i"
    "cap_Audience cap = audience" "cap_ExpiresAt cap = expiry"
    using assms(2) by (auto simp: holds_token_def)
  then have g: "g_StorageID g \<noteq> []" "cap_Generation cap = g_Generation g" "cap_PodUID cap = g_PodUID g"
    "cap_WorkerSessionID cap = g_WorkerSessionID g" "cap_TurnSequence cap = g_TurnSequence g" "g_AttemptID g = i"
    using capability_grant [OF assms(1) cap(1)] assms(3) by auto
  note live = grant_on_storage [OF assms(1,3) g(1)] live_current [OF assms(1,3)]
  show ?thesis
  proof (cases "g_State g = Closed")
    case True
    then show ?thesis
      using cap assms(3) by (simp add: AuthorizeWithExpiry_def serves_def)
  next
    case False
    then show ?thesis
      using live cap g assms(3)
      by (cases "g_State g") (auto simp: AuthorizeWithExpiry_def serves_def)
  qed
qed

text \<open>C18: A token lives as long as its attempt serves.  A token that \<^verbatim>\<open>IssueCapability\<close> returned for
  an audience of an attempt, in production before the Pod exists, is after any committed history in which
  no token with the same digest is drawn again read back by \<^verbatim>\<open>CapabilityToken\<close>, and no other can be
  issued for that audience.  \<^verbatim>\<open>AuthorizeWithExpiry\<close> then answers it with the attempt's grant and the
  token's expiry exactly when it is presented for its own audience, which is not the stop audience, before
  the expiry, and the attempt serves that audience: its Pod is bound, its storage is not quarantined, and it
  is ready, offered, starting or started and not revoked, where the supervisor's token is also good while
  the attempt is revoked, intended, accepted or has its result received.\<close>

theorem issued_capability_authorizes:
  assumes "sound e st" "IssueCapability e c i audience expiry st = Inr (st1, token)" "validated e st1"
    and "(undrawn e token)\<^sup>*\<^sup>* st1 st2"
  shows "\<exists>g. grant_of st2 i = Some g \<and> CapabilityToken i audience st2 = Inr token \<and>
    (\<exists>x. IssueCapability e c'' i audience expiry' st2 = Inl x) \<and>
    AuthorizeWithExpiry e c' token audience' st2 =
      (if audience' = audience \<and> audience \<noteq> ''stop'' \<and> c_wall c' < expiry \<and> serves st2 g audience
       then Inr (g, expiry) else Inl ErrUnauthorized)"
proof -
  have c1: "committed e st st1"
    using assms(1-3) do_IssueCapability by (auto simp: committed_def)
  have "(committed e)\<^sup>*\<^sup>* st1 st2"
    using assms(4) by (rule rtranclp_mono [THEN predicate2D, rotated]) (auto simp: undrawn_def)
  then have sd: "sound e st2"
    using run_sound committed_sound [OF c1] by blast
  have h: "holds_token e i audience expiry token st2"
    using assms(4) by (induction rule: rtranclp_induct) (auto intro: undrawn_holds issue_holds [OF assms(2)])
  then obtain cap where cap: "capability_of st2 (e_digest e token) = Some cap" "cap_Token cap = token"
    "cap_AttemptID cap = i" "cap_Audience cap = audience"
    by (auto simp: holds_token_def)
  obtain g where g: "grant_of st2 i = Some g"
    using capability_grant [OF sd cap(1)] cap(3) by blast
  have "cap_Token v = token"
    if mem: "v \<in> set (mvals (r_Capabilities st2))" and v: "cap_AttemptID v = i" "cap_Audience v = audience" for v
  proof -
    obtain k where "capability_of st2 k = Some v"
      using mem sd by (auto simp: sound_def maps_ok_def mvals_iff capability_of_def)
    then show ?thesis
      using h v cap by (auto simp: holds_token_def)
  qed
  moreover have mem: "cap \<in> set (mvals (r_Capabilities st2))"
    using cap(1) by (auto simp: capability_of_def mvals_def dest!: map_of_SomeD intro: rev_image_eqI)
  ultimately have "CapabilityToken i audience st2 = Inr token"
    using cap(3,4)
    by (auto simp: CapabilityToken_def find_Some_iff find_None_iff in_set_conv_nth split: option.splits)
  moreover have "\<exists>x. IssueCapability e c'' i audience expiry' st2 = Inl x"
    using mem cap(3,4) g by (auto simp: IssueCapability_def update_grant_def IssueCapability_step_def list_ex_iff)
  ultimately show ?thesis
    using g holder_authorized [OF sd h g] by blast
qed

lemma service_not_issued:
  "\<not> issued (sample_env uuid_a) token (service_journal g [(sample_sha, service_capability u)])
      (service_journal h [(sample_sha, service_capability v)])" (is "\<not> issued ?e token ?s ?t")
proof
  have held: "capability_of ?s sample_sha = Some (service_capability u)" "capability_of ?t sample_sha = Some (service_capability v)"
    by (simp_all add: capability_of_def)
  assume "issued ?e token ?s ?t"
  then obtain c i audience expiry where "IssueCapability ?e c i audience expiry ?s = Inr (?t, token)"
    by (auto simp: issued_def)
  then show False
  proof (rule issued_form)
    fix cap
    assume "capability_of ?t = (capability_of ?s)(e_digest ?e token \<mapsto> cap)" "cap_AttemptID cap = i" "cap_Audience cap = audience"
      and new: "\<And>k w. capability_of ?s k = Some w \<Longrightarrow> \<not> (cap_AttemptID w = i \<and> cap_Audience w = audience)"
    then have "cap_AttemptID (service_capability v) = i" "cap_Audience (service_capability v) = audience"
      using held(2) by (simp_all del: fun_upd_apply) (simp_all)
    with new [OF held(1)] show False
      by (simp add: service_capability_def)
  qed
qed

theorem issued_capability_authorizes_witness:
  "CapabilityToken uuid_c ''mcp'' serving_journal = Inr (capability_token []) \<and>
   AuthorizeWithExpiry (sample_env uuid_a) sample_call (capability_token []) ''mcp'' serving_journal = Inr (serving_grant, 200)"
proof -
  let ?e = "sample_env uuid_a" and ?t = "capability_token []"
  let ?i = "service_journal (service_grant [] [] Intent)"
  let ?b = "service_journal (service_grant uuid_d [] Intent) [(sample_sha, service_capability uuid_d)]"
  have "committed ?e (?i [(sample_sha, service_capability [])]) ?b" "committed ?e ?b serving_journal"
    using service_sound [of Intent "[]" "[]"] service_sound [of Intent "[]" uuid_d] serving_sound
      do_BindPod [OF service_bound] do_Admit [OF service_admitted]
    by (auto simp: committed_def sound_def)
  then have "undrawn ?e ?t (?i [(sample_sha, service_capability [])]) ?b" "undrawn ?e ?t ?b serving_journal"
    by (simp_all add: undrawn_def service_not_issued)
  then have "(undrawn ?e ?t)\<^sup>*\<^sup>* (?i [(sample_sha, service_capability [])]) serving_journal"
    by (rule converse_rtranclp_into_rtranclp [OF _ r_into_rtranclp])
  moreover have "sound ?e (?i [])" "validated ?e (?i [(sample_sha, service_capability [])])"
    using service_sound [of Intent "[]" "[]"] by (auto simp: sound_def)
  ultimately show ?thesis
    using issued_capability_authorizes [OF _ service_issued, where ?st2.0 = serving_journal and audience' = "''mcp''"
        and c' = sample_call]
    by (auto simp: serves_def get_by_lookup service_storage_def written_storage_def zero_storage_def sample_call_def uuid_d_def)
qed

end
