(* ===== verification/Admission_Properties.thy ===== *)
theory Admission_Properties
  imports Sample_Claims
begin

text \<open>
  The Pod budget: what an admission does to the number of residents, and that neither
  \<^verbatim>\<open>Create\<close> nor \<^verbatim>\<open>ReserveTurn\<close> takes a Pod slot beyond its limit.
\<close>

section \<open>Counting in a map\<close>

definition mcount :: "('v \<Rightarrow> bool) \<Rightarrow> 'v gomap \<Rightarrow> nat" where
  "mcount p m = length (filter p (mvals m))"

definition held :: "('v \<Rightarrow> bool) \<Rightarrow> 'v gomap \<Rightarrow> string \<Rightarrow> nat" where
  "held p m k = (case map_of m k of None \<Rightarrow> 0 | Some v \<Rightarrow> of_bool (p v))"

lemma mcount_update: "mcount p (AList.update k v m) + held p m k = mcount p m + of_bool (p v)"
  by (induction m) (auto simp: mcount_def held_def mvals_def)

lemma resident_count_eq: "resident_count st = mcount counts_session (r_Sessions st) + mcount counts_legacy (r_Grants st)"
  by (simp add: resident_count_def mcount_def)

lemma resident_count_puts [simp]:
  "resident_count (put_storage i b st) = resident_count st"
  "resident_count (put_conversation j v st) = resident_count st"
  "resident_count (put_terminal i t st) = resident_count st"
  by (simp_all add: resident_count_def put_storage_def put_conversation_def put_terminal_def)

lemma resident_count_grant:
  "resident_count (put_grant i g st) + (case grant_of st i of None \<Rightarrow> 0 | Some h \<Rightarrow> of_bool (counts_legacy h)) =
   resident_count st + of_bool (counts_legacy g)"
  using mcount_update [of counts_legacy i g "r_Grants st"]
  by (simp add: resident_count_eq put_grant_def grant_of_def held_def)

lemma resident_count_session:
  "resident_count (put_session i w st) + (case session_of st i of None \<Rightarrow> 0 | Some v \<Rightarrow> of_bool (counts_session v)) =
   resident_count st + of_bool (counts_session w)"
  using mcount_update [of counts_session i w "r_Sessions st"]
  by (simp add: resident_count_eq put_session_def session_of_def held_def)

lemma resident_count_put_grant_le: "resident_count (put_grant i g st) \<le> Suc (resident_count st)"
  using resident_count_grant [of i g st] by (cases "grant_of st i"; cases "counts_legacy g"; simp)

lemma resident_count_same_session:
  "session_of st i = Some v \<Longrightarrow> counts_session w = counts_session v \<Longrightarrow> resident_count (put_session i w st) = resident_count st"
  using resident_count_session [of i w st] by simp

lemma resident_count_leaving_grant:
  "\<not> counts_legacy g \<Longrightarrow> (\<And>h. grant_of st i = Some h \<Longrightarrow> \<not> counts_legacy h) \<Longrightarrow>
   resident_count (put_grant i g st) = resident_count st"
  using resident_count_grant [of i g st] by (auto split: option.splits)

section \<open>Stopping an idle session\<close>

lemma stopped_session_counts: "ws_State ws \<noteq> SessionClosed \<Longrightarrow> counts_session (stopped_session c reason now ws)"
  by (cases "ws_Stop ws") (auto simp: stopped_session_def counts_session_def Let_def)

lemma stop_idle:
  assumes "ws_ActiveAttempt ws = []"
  shows "requestSessionStop c reason now st ws = (st, stopped_session c reason now ws)"
  using assms by (cases "ws_Stop ws") (simp_all add: requestSessionStop_def Let_def stopped_session_def)

lemma stop_idle_count:
  assumes "session_of st i = Some ws" "ws_State ws = SessionIdle"
  shows "resident_count (put_session i (stopped_session c reason now ws) st) = resident_count st"
  using assms by (intro resident_count_same_session [OF assms(1)]) (simp add: stopped_session_counts, simp add: counts_session_def)

section \<open>Admission\<close>

text \<open>All that admission relies on: an idle session is stored under its own identity and has no
  active attempt.  Every sound journal is like that.\<close>

definition idle_stored :: "registry \<Rightarrow> bool" where
  "idle_stored st \<longleftrightarrow> distinct_keys (r_Sessions st) \<and>
    (\<forall>i w. session_of st i = Some w \<and> ws_State w = SessionIdle \<longrightarrow> ws_ID w = i \<and> ws_ActiveAttempt w = [])"

lemma sound_idle_stored: "sound e st \<Longrightarrow> idle_stored st"
  unfolding idle_stored_def using sound_key(2) idle_session(1) by (auto simp: sound_def maps_ok_def)

lemma oldest_idle_kept:
  assumes "idle_stored st" "oldest_idle st = Some ws"
  shows "session_of st (ws_ID ws) = Some ws" "ws_State ws = SessionIdle" "ws_ActiveAttempt ws = []"
proof -
  have "ws \<in> set (mvals (r_Sessions st))" and idle: "ws_State ws = SessionIdle"
    using assms(2) older_idle_mem [of None "mvals (r_Sessions st)" ws] by (auto simp: oldest_idle_def)
  then obtain i where "session_of st i = Some ws"
    using assms(1) by (auto simp: idle_stored_def mvals_iff session_of_def)
  then show "session_of st (ws_ID ws) = Some ws" "ws_State ws = SessionIdle" "ws_ActiveAttempt ws = []"
    using assms(1) idle by (auto simp: idle_stored_def)
qed

lemma oldest_idle_minimal:
  "foldl older_idle acc xs = Some w \<Longrightarrow>
   (\<forall>v\<in>set xs. ws_State v = SessionIdle \<longrightarrow> \<not> idle_before v w) \<and> (\<forall>a. acc = Some a \<longrightarrow> \<not> idle_before a w)"
proof (induction xs arbitrary: acc)
  case (Cons x xs)
  have IH: "\<forall>v\<in>set xs. ws_State v = SessionIdle \<longrightarrow> \<not> idle_before v w" "\<forall>a. older_idle acc x = Some a \<longrightarrow> \<not> idle_before a w"
    using Cons.IH [of "older_idle acc x"] Cons.prems by simp_all
  have trans: "\<not> idle_before b w" if "idle_before x b" "\<not> idle_before x w" for b
    using that by (auto simp: idle_before_def)
  have trans2: "\<not> idle_before x w" if "\<not> idle_before x b" "\<not> idle_before b w" for b
    using that by (auto simp: idle_before_def)
  show ?case
    using IH trans trans2 by (auto simp: older_idle_def split: if_splits option.splits)
qed (auto simp: idle_before_def)

lemma oldest_idle_exists:
  "ws_State v = SessionIdle \<Longrightarrow> v \<in> set xs \<or> acc \<noteq> None \<Longrightarrow> foldl older_idle acc xs \<noteq> None"
  by (induction xs arbitrary: acc) (auto simp: older_idle_def split: option.splits if_splits)

lemma session_listed: "session_of st j = Some v \<Longrightarrow> v \<in> set (mvals (r_Sessions st))"
  by (force simp: session_of_def mvals_def dest!: map_of_SomeD)

lemma admitResident_outcome:
  assumes "idle_stored st" "admitResident c st limit now = (ok, st')"
  obtains "int (resident_count st) < limit" "ok" "st' = st"
    | "\<not> int (resident_count st) < limit" "\<not> ok" "st' = st"
        "oldest_idle st = None \<or> \<not> int (draining_count st) < int (resident_count st) - limit + 1"
    | ws where "\<not> int (resident_count st) < limit" "\<not> ok" "oldest_idle st = Some ws" "session_of st (ws_ID ws) = Some ws"
        "ws_State ws = SessionIdle" "int (draining_count st) < int (resident_count st) - limit + 1"
        "st' = put_session (ws_ID ws) (stopped_session c ''resident_capacity'' now ws) st"
proof (cases "int (resident_count st) < limit")
  case True
  then show ?thesis
    using assms(2) by (intro that(1)) (simp_all add: admitResident_def)
next
  case full: False
  show ?thesis
  proof (cases "oldest_idle st = None \<or> \<not> int (draining_count st) < int (resident_count st) - limit + 1")
    case True
    then have "admitResident c st limit now = (False, st)"
      using full unfolding admitResident_def by (cases "oldest_idle st") simp_all
    then show ?thesis
      using assms(2) full True by (intro that(2)) simp_all
  next
    case False
    then obtain ws where ws: "oldest_idle st = Some ws" "int (draining_count st) < int (resident_count st) - limit + 1"
      by auto
    note i = oldest_idle_kept [OF assms(1) ws(1)]
    have "requestSessionStop c ''resident_capacity'' now st ws = (st, stopped_session c ''resident_capacity'' now ws)"
      by (rule stop_idle [OF i(3)])
    moreover have "ws_ID (stopped_session c ''resident_capacity'' now ws) = ws_ID ws"
      by (cases "ws_Stop ws") (simp_all add: stopped_session_def Let_def)
    ultimately have "admitResident c st limit now = (False, put_session (ws_ID ws) (stopped_session c ''resident_capacity'' now ws) st)"
      using full ws unfolding admitResident_def by simp
    then have "\<not> ok" "st' = put_session (ws_ID ws) (stopped_session c ''resident_capacity'' now ws) st"
      using assms(2) by simp_all
    then show ?thesis
      by (rule that(3) [OF full _ ws(1) i(1,2) ws(2)])
  qed
qed

lemma admission_decision_core:
  assumes "idle_stored st" "admitResident c st limit now = (ok, st')"
  shows "(ok \<longleftrightarrow> int (resident_count st) < limit) \<and> (ok \<longrightarrow> st' = st) \<and> resident_count st' = resident_count st"
  using assms by (cases rule: admitResident_outcome) (simp_all add: stop_idle_count)

text \<open>C20: Admission: a Pod slot is granted exactly when fewer residents than the limit hold one, and then
  the journal is unchanged.  A refusal changes at most one session, the idle one that has been idle
  longest (ties broken by identity), which is told to stop for lack of capacity; no refusal or grant
  changes the number of residents.\<close>

theorem admission_decision:
  assumes "idle_stored st" "admitResident c st limit now = (ok, st')"
  shows "(ok \<longleftrightarrow> int (resident_count st) < limit) \<and> (ok \<longrightarrow> st' = st) \<and> resident_count st' = resident_count st \<and>
    (st' \<noteq> st \<longrightarrow>
      (\<exists>ws. session_of st (ws_ID ws) = Some ws \<and> ws_State ws = SessionIdle \<and>
        (\<forall>j v. session_of st j = Some v \<and> ws_State v = SessionIdle \<longrightarrow> \<not> idle_before v ws) \<and>
        st' = put_session (ws_ID ws) (stopped_session c ''resident_capacity'' now ws) st))"
  using assms
proof (cases rule: admitResident_outcome)
  case (3 ws)
  have "\<not> idle_before v ws" if "session_of st j = Some v" "ws_State v = SessionIdle" for j v
    using oldest_idle_minimal [of None "mvals (r_Sessions st)" ws] 3(3) that
    by (auto simp: oldest_idle_def session_of_def mvals_def dest!: map_of_SomeD)
  with 3 show ?thesis
    by (auto simp: stop_idle_count)
qed simp_all

theorem admission_decision_witness:
  "resident_count writing_journal = 1 \<and> admitResident sample_call writing_journal 1 100 = (False, writing_journal) \<and>
   (False \<longleftrightarrow> int (resident_count writing_journal) < 1)"
proof -
  have n: "resident_count writing_journal = 1"
    by (simp add: resident_count_def mvals_def counts_legacy_def noWorkerCreated_def)
      (simp add: writing_grant_def claimed_grant_def sample_claim_def zero_grant_def)
  then have "admitResident sample_call writing_journal 1 100 = (False, writing_journal)"
    by (simp add: admitResident_def oldest_idle_def mvals_def)
  with n show ?thesis
    using admission_decision [OF sound_idle_stored [OF writing_sound]] by blast
qed

lemma draining_count_session:
  "draining_count (put_session i w st) +
     (case session_of st i of None \<Rightarrow> 0 | Some v \<Rightarrow> of_bool (counts_session v \<and> session_leaving v)) =
   draining_count st + of_bool (counts_session w \<and> session_leaving w)"
  using mcount_update [of "\<lambda>w. counts_session w \<and> session_leaving w" i w "r_Sessions st"]
  by (simp add: draining_count_def mcount_def put_session_def session_of_def held_def)

text \<open>Capacity is reclaimed: when a Pod slot is refused, some session is idle and the residents that are
  already leaving would not bring the number under the limit, one more resident is leaving
  afterwards.\<close>

theorem refusal_reclaims:
  assumes "idle_stored st" "admitResident c st limit now = (False, st')" "session_of st j = Some v" "ws_State v = SessionIdle"
    and "int (resident_count st) - int (draining_count st) \<ge> limit"
  shows "draining_count st' = Suc (draining_count st) \<and> resident_count st' = resident_count st"
proof -
  have "oldest_idle st \<noteq> None"
    unfolding oldest_idle_def using assms(4) session_listed [OF assms(3)] by (intro oldest_idle_exists [of v]) simp_all
  then obtain ws where ws: "session_of st (ws_ID ws) = Some ws" "ws_State ws = SessionIdle"
     "st' = put_session (ws_ID ws) (stopped_session c ''resident_capacity'' now ws) st"
    using assms(5) by (cases rule: admitResident_outcome [OF assms(1,2)]) auto
  have "counts_session (stopped_session c ''resident_capacity'' now ws)"
    using ws(2) by (simp add: stopped_session_counts)
  moreover have "session_leaving (stopped_session c ''resident_capacity'' now ws)"
    using ws(2) by (cases "ws_Stop ws") (simp_all add: session_leaving_def stopped_session_def Let_def)
  ultimately show ?thesis
    using draining_count_session [of "ws_ID ws" "stopped_session c ''resident_capacity'' now ws" st] ws
      stop_idle_count [OF ws(1,2)] by (simp add: session_leaving_def)
qed


definition idle_worker :: "string \<Rightarrow> time \<Rightarrow> worker_session" where
  "idle_worker i since = zero_session\<lparr>ws_ID := i, ws_State := SessionIdle, ws_IdleSince := since\<rparr>"

definition idle_journal :: registry where
  "idle_journal = volume_journal\<lparr>r_Sessions := [(uuid_a, idle_worker uuid_a 9), (uuid_b, idle_worker uuid_b 5)]\<rparr>"

lemma idle_journal_facts [simp]:
  "idle_stored idle_journal" "resident_count idle_journal = 2" "draining_count idle_journal = 0"
  "session_of idle_journal uuid_b = Some (idle_worker uuid_b 5)" "oldest_idle idle_journal = Some (idle_worker uuid_b 5)"
  by (auto simp: idle_journal_def idle_stored_def session_of_def idle_worker_def resident_count_def draining_count_def
      mvals_def counts_session_def session_leaving_def distinct_keys_def zero_session_def oldest_idle_def older_idle_def
      idle_before_def uuid_a_def uuid_b_def volume_journal_def empty_registry_def)

theorem refusal_reclaims_witness:
  "draining_count (snd (admitResident sample_call idle_journal 2 100)) = 1 \<and>
   resident_count (snd (admitResident sample_call idle_journal 2 100)) = 2"
proof -
  obtain st' where st': "admitResident sample_call idle_journal 2 100 = (False, st')"
    by (simp add: admitResident_def requestSessionStop_def stopped_session_def Let_def idle_worker_def zero_session_def)
  have "ws_State (idle_worker uuid_b 5) = SessionIdle"
    by (simp add: idle_worker_def)
  from refusal_reclaims [OF _ st' _ this, of uuid_b] show ?thesis
    by (simp add: st')
qed

section \<open>Create\<close>

text \<open>C21: \<^verbatim>\<open>Create\<close> respects the Pod budget: when it activates a claim under a resident limit the
  journal afterwards has at most that many residents, the activated grant is stored and is the
  active attempt of its storage; when it is refused for capacity the number of residents is what
  it was.\<close>

theorem create_within_limit:
  assumes "sound e st" "Create e c input (Some limit) st = Inr (st', r)"
  shows "case r of
      Inl x \<Rightarrow> x = ErrResidentCapacity \<and> resident_count st' = resident_count st
    | Inr g \<Rightarrow> int (resident_count st') \<le> limit \<and> grant_of st' (g_AttemptID g) = Some g \<and>
        b_ActiveAttempt (get_storage st' (g_StorageID g)) = g_AttemptID g"
proof -
  from assms(2) obtain b b1 :: storage and g ok st1 where admit: "admitResident c st limit (c_now c) = (ok, st1)" and
    out: "\<not> ok \<and> st' = st1 \<and> r = Inl ErrResidentCapacity \<or>
      ok \<and> r = Inr g \<and> st' = put_grant (g_AttemptID g) g (put_storage (b_ID b) b1 st1)" and
    g: "g_StorageID g = b_ID b" "b_ActiveAttempt b1 = g_AttemptID g"
  proof -
    from assms(2) obtain g2 b reuse ok st1 where "admitResident c st limit (c_now c) = (ok, st1)" and
      "\<not> ok \<and> st' = st1 \<and> r = Inl ErrResidentCapacity \<or>
      ok \<and> r = Inr (activated g2 b reuse) \<and>
      st' = put_grant (g_AttemptID (activated g2 b reuse)) (activated g2 b reuse)
              (put_storage (b_ID b) (b\<lparr>b_ActiveAttempt := g_AttemptID (activated g2 b reuse)\<rparr>) st1)"
      unfolding Create_def Let_def bind_res_eq_Inr if_Inl_eq_Inr
      by (elim conjE exE) (simp split: if_splits prod.splits, blast+)
    then show thesis
      by (intro that [of ok st1 "activated g2 b reuse" b "b\<lparr>b_ActiveAttempt := g_AttemptID (activated g2 b reuse)\<rparr>"])
        (simp_all add: activated_def)
  qed
  note d = admission_decision_core [OF sound_idle_stored [OF assms(1)] admit]
  show ?thesis
  proof (cases ok)
    case True
    then have "int (resident_count st) < limit" "st1 = st"
      using d by simp_all
    with out True g show ?thesis
      using resident_count_put_grant_le [of "g_AttemptID g" g "put_storage (b_ID b) b1 st"]
      by (simp add: get_by_lookup)
  next
    case False
    with out d show ?thesis
      by simp
  qed
qed

theorem create_within_limit_witness:
  "int (resident_count writing_journal) \<le> 1 \<and> grant_of writing_journal uuid_c = Some writing_grant"
proof -
  have "sound (sample_env uuid_a) volume_journal"
    using sample_create_committed by (simp add: committed_def)
  from create_within_limit [OF this sample_created] show ?thesis
    by simp
qed

end
