(* ===== verification/Reservation_Properties.thy ===== *)
theory Reservation_Properties
  imports Sample_Turns Admission_Properties
begin

text \<open>
  What \<^verbatim>\<open>ReserveTurn\<close> gives a turn: the only three outcomes it can commit, the turn sequence and
  writer lease of a reserved turn, its replay, and the Pod budget.
\<close>

section \<open>The outcomes\<close>

text \<open>The session that takes the turn: a new one, or the idle one that continues.\<close>

definition taking_session ::
  "env \<Rightarrow> call \<Rightarrow> registry \<Rightarrow> task_grant \<Rightarrow> selection \<Rightarrow> string \<Rightarrow> int \<Rightarrow> int \<Rightarrow> storage \<Rightarrow> worker_session \<Rightarrow> bool" where
  "taking_session e c st g s d retention limit b ws \<longleftrightarrow>
    ws = new_session c (ConversationKey_Digest e (sel_Conversation s)) g s d b retention \<and> int (resident_count st) < limit \<or>
    (\<exists>v. session_of st (ws_ID v) = Some v \<and> ws_State v = SessionIdle \<and>
      ws = v\<lparr>ws_State := SessionReserved, ws_Revision := ws_Revision v + 1\<rparr>)"

lemma resident_count_put_session_le: "resident_count (put_session i w st) \<le> Suc (resident_count st)"
  using resident_count_session [of i w st] by (cases "session_of st i"; cases "counts_session w"; simp)

lemma resident_count_nested [simp]:
  "resident_count (put_session k w (put_storage i b st)) = resident_count (put_session k w st)"
  "resident_count (put_session k w (put_conversation j v st)) = resident_count (put_session k w st)"
  by (simp_all add: resident_count_def put_session_def put_storage_def put_conversation_def)

lemma take_turn_outcome:
  assumes "sound e st" "take_turn e c i s d retention limit g v b ws0 st = Inr (st', r)" "idle_writer st ws0"
  shows "r = Inl ErrResidentCapacity \<and> resident_count st' = resident_count st \<or>
    (\<exists>ws1. taking_session e c st g s d retention limit b ws1 \<and> ws_TurnSequence ws1 \<noteq> - 1 \<and>
       r = Inr (reserved_grant g s d b (reserved_session c i retention ws1), reserved_session c i retention ws1) \<and>
       st' = fst (commit_turn e i s d g v b (reserved_session c i retention ws1) st))"
proof -
  obtain ok st1 where admit: "(if ws_ID ws0 = [] then admitResident c st limit (c_now c) else (True, st)) = (ok, st1)"
    by force
  have core: "(ok \<longrightarrow> st1 = st) \<and> resident_count st1 = resident_count st \<and> (ws_ID ws0 = [] \<and> ok \<longrightarrow> int (resident_count st) < limit)"
    using admit admission_decision_core [OF sound_idle_stored [OF assms(1)]] by (auto split: if_splits)
  define ws1 where "ws1 =
    (if ws_ID ws0 = [] then new_session c (ConversationKey_Digest e (sel_Conversation s)) g s d b retention
     else ws0\<lparr>ws_State := SessionReserved, ws_Revision := ws_Revision ws0 + 1\<rparr>)"
  have taking: "ok \<Longrightarrow> taking_session e c st g s d retention limit b ws1"
    using core assms(3) by (auto simp: taking_session_def ws1_def idle_writer_def)
  have "take_turn e c i s d retention limit g v b ws0 st =
      (if \<not> turn_storage_free b ws0 then Inl ErrStorageBusy else if \<not> ok then Inr (st1, Inl ErrResidentCapacity)
       else if ws_TurnSequence ws1 = - 1 then Inl ErrConflict
       else let (st2, g1) = commit_turn e i s d g v b (reserved_session c i retention ws1) st1
            in Inr (st2, Inr (g1, reserved_session c i retention ws1)))"
    unfolding take_turn_def Let_def admit ws1_def [symmetric] by simp
  with assms(2) core taking show ?thesis
    by (auto simp: commit_turn_def Let_def split: if_splits)
qed

lemma reserve_turn_outcome:
  assumes "sound e st" "reserve_turn e c i s d retention limit g st = Inr (st', r)"
  shows "(\<exists>x. r = Inl x) \<and> resident_count st' = resident_count st \<or>
    (\<exists>v b ws1. taking_session e c st g s d retention limit b ws1 \<and> ws_TurnSequence ws1 \<noteq> - 1 \<and>
       r = Inr (reserved_grant g s d b (reserved_session c i retention ws1), reserved_session c i retention ws1) \<and>
       st' = fst (commit_turn e i s d g v b (reserved_session c i retention ws1) st))"
proof -
  from assms(2) obtain v b0 ws0 where req: "turn_requested e c i s d g st = Inr ()"
    and src: "turn_source e c st g s d = Inr (b0, ws0)" and v: "turn_conversation e st s = Inr v"
    by (auto simp: reserve_turn_def bind_res_eq_Inr)
  note take = take_turn_outcome [OF assms(1)]
  show ?thesis
  proof (cases "turn_current c st g s b0 retention v")
    case CurrentFree
    then obtain b where "take_turn e c i s d retention limit g v b ws0 st = Inr (st', r)"
      using assms(2) req src v by (auto simp: reserve_turn_def bind_res_eq_Inr)
    from take [OF this turn_source_idle [OF assms(1) src]] show ?thesis
      by blast
  next
    case (CurrentContinues ws)
    then obtain b where "take_turn e c i s d retention limit g v b ws st = Inr (st', r)"
      using assms(2) req src v by (auto simp: reserve_turn_def bind_res_eq_Inr)
    moreover have "idle_writer st ws"
      using turn_current_idle(1) [OF CurrentContinues] get_idle_writer [OF assms(1)] by blast
    ultimately show ?thesis
      using take by blast
  next
    case CurrentBusy
    then show ?thesis
      using assms(2) req src v by (simp add: reserve_turn_def)
  next
    case (CurrentReplaced ws reason)
    then have ws: "ws = get_session st (cv_CurrentSessionID v)" "ws_State ws = SessionIdle"
      by (auto simp: turn_current_def Let_def split: if_splits)
    then have k: "session_of st (ws_ID ws) = Some ws" "ws_ActiveAttempt ws = []"
      using get_idle_writer [OF assms(1), of "cv_CurrentSessionID v"] sound_idle_stored [OF assms(1)]
      by (auto simp: idle_writer_def idle_stored_def get_by_lookup zero_session_def split: option.splits)
    then show ?thesis
      using assms(2) req src v CurrentReplaced stop_idle_count [OF k(1) ws(2)]
      by (auto simp: reserve_turn_def stop_idle)
  qed
qed


lemma ReserveTurn_unbound:
  assumes "ReserveTurn e c i s d retention limit st = Inr (st', r)" "grant_of st i = Some old" "g_WorkerSessionID old = []"
  shows "reserve_turn e c i s d retention limit old st = Inr (st', r)" "reservation_ok e s d retention limit = Inr ()"
    "g_SessionProtocol old" "\<not> g_Legacy old" "selection_scope_ok old s"
  using assms by (auto simp: ReserveTurn_def bind_res_eq_Inr split: if_splits)

lemma taking_sequence:
  assumes "taking_session e c st g s d retention limit b ws" "ws_TurnSequence ws \<noteq> - 1" "fresh_ids c st"
  shows "unat (ws_TurnSequence (reserved_session c i retention ws)) =
    Suc (case session_of st (ws_ID ws) of None \<Rightarrow> 0 | Some v \<Rightarrow> unat (ws_TurnSequence v))"
proof -
  have "unat (ws_TurnSequence ws + 1) = Suc (unat (ws_TurnSequence ws))"
    using assms(2) by (metis add.commute add.left_inverse add_right_cancel unatSuc)
  with assms(1,3) show ?thesis
    by (auto simp: taking_session_def reserved_session_def new_session_def fresh_ids_def zero_session_def)
qed

lemma taking_named:
  assumes "sound e st" "taking_session e c st g s d retention limit b ws" "c_uuid c 3 \<noteq> []"
  shows "ws_ID ws \<noteq> []"
  using assms(2,3) no_empty_session [OF assms(1)] unfolding taking_session_def by (auto simp: new_session_def)

lemma taking_count:
  assumes "taking_session e c st g s d retention limit b ws"
  shows "int (resident_count (put_session (ws_ID ws) (reserved_session c i retention ws) st)) \<le> max limit (int (resident_count st))"
  using assms unfolding taking_session_def
proof (elim disjE exE conjE)
  assume "int (resident_count st) < limit"
  then show ?thesis
    using resident_count_put_session_le [of "ws_ID ws" "reserved_session c i retention ws" st] by linarith
next
  fix v
  assume v: "session_of st (ws_ID v) = Some v" "ws_State v = SessionIdle"
    "ws = v\<lparr>ws_State := SessionReserved, ws_Revision := ws_Revision v + 1\<rparr>"
  have "resident_count (put_session (ws_ID v) (reserved_session c i retention ws) st) = resident_count st"
    by (rule resident_count_same_session [OF v(1)]) (use v in \<open>simp add: counts_session_def reserved_session_def\<close>)
  with v(3) show ?thesis
    by simp
qed

section \<open>Properties\<close>

text \<open>C8: A reserved turn: when \<^verbatim>\<open>ReserveTurn\<close> reserves a turn for an attempt that had no session, the
  attempt, its session and its storage are stored naming one another, the session runs this
  attempt and no other, its turn sequence is the previous one plus one (without wrapping), and
  the storage is dirty and leased to the session with the attempt as its latest writer.\<close>

theorem reserve_turn_binds:
  assumes "sound e st" "fresh_ids c st" "ReserveTurn e c i s d retention limit st = Inr (st', Inr (g, ws))"
    and "grant_of st i = Some old" "g_WorkerSessionID old = []"
  shows "grant_of st' i = Some g \<and> session_of st' (ws_ID ws) = Some ws \<and>
    g_WorkerSessionID g = ws_ID ws \<and> ws_ActiveAttempt ws = i \<and> g_TurnSequence g = ws_TurnSequence ws \<and>
    unat (ws_TurnSequence ws) = Suc (case session_of st (ws_ID ws) of None \<Rightarrow> 0 | Some v \<Rightarrow> unat (ws_TurnSequence v)) \<and>
    (\<exists>b. storage_of st' (g_StorageID g) = Some b \<and> b_ActiveAttempt b = i \<and> b_WriterSessionID b = ws_ID ws \<and>
       b_Dirty b \<and> b_LatestWriter b = grant_source old)"
proof -
  from reserve_turn_outcome [OF assms(1) ReserveTurn_unbound(1) [OF assms(3-5)]] obtain v b ws1
    where t: "taking_session e c st old s d retention limit b ws1" "ws_TurnSequence ws1 \<noteq> - 1"
      "ws = reserved_session c i retention ws1" "g = reserved_grant old s d b ws"
      "st' = fst (commit_turn e i s d old v b ws st)"
    by auto
  then show ?thesis
    using taking_sequence [OF t(1,2) assms(2), of i]
    by (simp add: commit_turn_def Let_def) (simp add: reserved_grant_def reserved_session_def reserved_storage_def)
qed

theorem reserve_turn_binds_witness:
  "grant_of reserved_journal uuid_c = Some turn_grant \<and> unat (ws_TurnSequence turn_session_rec) = 1"
  using reserve_turn_binds [OF turn_sound _ turn_reserved, of turn_claim] by (simp add: fresh_ids_def)

text \<open>C23: Reserving is idempotent: repeating a \<^verbatim>\<open>ReserveTurn\<close> that succeeded, at any later time and under
  any valid limit, returns the same attempt and session and leaves the journal as it is.\<close>

theorem reserve_turn_replays:
  assumes "sound e st" "ReserveTurn e c i s d retention limit st = Inr (st', Inr (g, ws))" "c_uuid c 3 \<noteq> []" "limit' \<ge> 1"
  shows "ReserveTurn e c' i s d retention limit' st' = Inr (st', Inr (g, ws))"
proof -
  obtain old where old: "grant_of st i = Some old"
    using assms(2) by (auto simp: ReserveTurn_def bind_res_eq_Inr split: option.splits)
  have ok: "reservation_ok e s d retention limit' = Inr ()"
    using assms(2,4) by (auto simp: ReserveTurn_def bind_res_eq_Inr reservation_ok_def split: if_splits)
  show ?thesis
  proof (cases "g_WorkerSessionID old = []")
    case True
    note u = ReserveTurn_unbound [OF assms(2) old True]
    from reserve_turn_outcome [OF assms(1) u(1)] obtain v b ws1
      where t: "taking_session e c st old s d retention limit b ws1" "ws = reserved_session c i retention ws1"
        "g = reserved_grant old s d b ws" "st' = fst (commit_turn e i s d old v b ws st)"
      by auto
    have "ws_ID ws \<noteq> []"
      using taking_named [OF assms(1) t(1) assms(3)] by (simp add: t(2) reserved_session_def)
    moreover have "grant_of st' i = Some g" "get_session st' (ws_ID ws) = ws"
      using t(3,4) by (simp_all add: commit_turn_def Let_def get_by_lookup)
    moreover have "g_SessionProtocol g" "\<not> g_Legacy g" "selection_scope_ok g s" "g_Selection g = Some s"
      "g_CompatibilityDigest g = d" "g_WorkerSessionID g = ws_ID ws"
      using t(3) u(3-5) by (simp_all add: reserved_grant_def selection_scope_ok_def)
    ultimately show ?thesis
      using ok by (simp add: ReserveTurn_def)
  next
    case False
    with assms(2) old ok show ?thesis
      by (auto simp: ReserveTurn_def bind_res_eq_Inr split: if_splits)
  qed
qed

theorem reserve_turn_replays_witness:
  "ReserveTurn (sample_env uuid_a) sample_call uuid_c sample_selection sample_sha 60 5 reserved_journal =
    Inr (reserved_journal, Inr (turn_grant, turn_session_rec))"
  by (rule reserve_turn_replays [OF turn_sound turn_reserved]) (simp_all add: turn_call_def sample_call_def)

text \<open>\<^verbatim>\<open>ReserveTurn\<close> respects the Pod budget: afterwards there are no more residents than before or
  no more than the limit, and when it commits an error (a refused admission or a stopped idle
  session) their number is what it was.\<close>

theorem reserve_turn_within_limit:
  assumes "sound e st" "ReserveTurn e c i s d retention limit st = Inr (st', r)" "c_uuid c 3 \<noteq> []"
  shows "int (resident_count st') \<le> max limit (int (resident_count st)) \<and>
    (\<forall>x. r = Inl x \<longrightarrow> resident_count st' = resident_count st)"
proof -
  obtain old where old: "grant_of st i = Some old"
    using assms(2) by (auto simp: ReserveTurn_def bind_res_eq_Inr split: option.splits)
  show ?thesis
  proof (cases "g_WorkerSessionID old = []")
    case True
    from reserve_turn_outcome [OF assms(1) ReserveTurn_unbound(1) [OF assms(2) old True]] show ?thesis
    proof (elim disjE exE conjE)
      fix v b ws1
      assume t: "taking_session e c st old s d retention limit b ws1"
        and st': "st' = fst (commit_turn e i s d old v b (reserved_session c i retention ws1) st)"
        and r: "r = Inr (reserved_grant old s d b (reserved_session c i retention ws1), reserved_session c i retention ws1)"
      let ?ws = "reserved_session c i retention ws1"
      have old_out: "\<not> counts_legacy old"
        using waiting_unbound [OF assms(1) old] ReserveTurn_unbound(1) [OF assms(2) old True] True
        by (auto simp: counts_legacy_def reserve_turn_def bind_res_eq_Inr dest: turn_requested_fields)
      have "\<not> counts_legacy (reserved_grant old s d b ?ws)"
        using taking_named [OF assms(1) t assms(3)] by (simp add: counts_legacy_def reserved_grant_def reserved_session_def)
      then have "resident_count st' = resident_count (put_session (ws_ID ws1) ?ws st)"
        unfolding st' commit_turn_def Let_def fst_conv
        by (subst resident_count_leaving_grant) (use old old_out in \<open>auto simp: reserved_session_def\<close>)
      then show ?thesis
        using r taking_count [OF t, of i] by simp
    qed auto
  next
    case False
    with assms(2) old show ?thesis
      by (auto simp: ReserveTurn_def bind_res_eq_Inr split: if_splits)
  qed
qed


theorem reserve_turn_within_limit_witness:
  "int (resident_count reserved_journal) \<le> max 1 (int (resident_count turn_journal))"
  using reserve_turn_within_limit [OF turn_sound turn_reserved] by (simp add: turn_call_def sample_call_def)

end
