(* ===== verification/Admission_Retries.thy ===== *)
theory Admission_Retries
  imports Admission_Properties
begin

text \<open>
  A refused caller tries again: repeating an admission drains idle sessions one at a time and
  reaches, after at most as many attempts as there are idle sessions, a journal that no further
  attempt changes.
\<close>

text \<open>The journal after \<open>n\<close> attempts, the \<open>k\<close>-th of them made by the call \<open>cs k\<close>.\<close>

primrec retries :: "(nat \<Rightarrow> call) \<Rightarrow> int \<Rightarrow> nat \<Rightarrow> registry \<Rightarrow> registry" where
  "retries cs limit 0 st = st"
| "retries cs limit (Suc n) st = snd (admitResident (cs n) (retries cs limit n st) limit (c_now (cs n)))"

definition idle_count :: "registry \<Rightarrow> nat" where
  "idle_count st = mcount (\<lambda>ws. ws_State ws = SessionIdle) (r_Sessions st)"

text \<open>Nothing is left to do for a request under this limit.\<close>

definition settled :: "int \<Rightarrow> registry \<Rightarrow> bool" where
  "settled limit st \<longleftrightarrow> int (resident_count st) < limit \<or> idle_count st = 0 \<or>
     int (resident_count st) - int (draining_count st) < limit"

lemma idle_count_none: "idle_count st = 0 \<Longrightarrow> oldest_idle st = None"
  using older_idle_mem [of None "mvals (r_Sessions st)"]
  by (cases "oldest_idle st") (auto simp: idle_count_def mcount_def oldest_idle_def filter_empty_conv)

lemma settled_stays:
  assumes "idle_stored st" "settled limit st"
  shows "snd (admitResident c st limit now) = st"
proof -
  obtain ok st' where a: "admitResident c st limit now = (ok, st')"
    by (cases "admitResident c st limit now")
  from assms(1) a show ?thesis
  proof (cases rule: admitResident_outcome)
    case (3 ws)
    then show ?thesis
      using assms(2) idle_count_none [of st] by (simp add: settled_def)
  qed (simp_all add: a)
qed

lemma stopped_not_idle: "ws_State ws = SessionIdle \<Longrightarrow> ws_State (stopped_session c reason now ws) = SessionDraining"
  by (cases "ws_Stop ws") (simp_all add: stopped_session_def Let_def)

lemma idle_count_stopped:
  assumes "session_of st i = Some ws" "ws_State ws = SessionIdle"
  shows "Suc (idle_count (put_session i (stopped_session c reason now ws) st)) = idle_count st"
  using mcount_update [of "\<lambda>ws. ws_State ws = SessionIdle" i "stopped_session c reason now ws" "r_Sessions st"] assms
  by (simp add: idle_count_def put_session_def session_of_def held_def stopped_not_idle)

lemma stop_idle_stored:
  assumes "idle_stored st" "session_of st i = Some ws" "ws_State ws = SessionIdle"
  shows "idle_stored (put_session i (stopped_session c reason now ws) st)"
  using assms stopped_not_idle [OF assms(3), of c reason now]
  by (auto simp: idle_stored_def put_session_def session_of_def distinct_keys_def update_conv distinct_update)

lemma admission_progress:
  assumes "idle_stored st"
  shows "idle_stored (snd (admitResident c st limit now)) \<and>
    (settled limit st \<or> Suc (idle_count (snd (admitResident c st limit now))) = idle_count st)"
proof -
  obtain ok st' where a: "admitResident c st limit now = (ok, st')"
    by (cases "admitResident c st limit now")
  from assms a show ?thesis
  proof (cases rule: admitResident_outcome)
    case 2
    then show ?thesis
      using a assms oldest_idle_exists [of _ "mvals (r_Sessions st)" None]
      by (auto simp: settled_def idle_count_def mcount_def oldest_idle_def filter_empty_conv)
  next
    case (3 ws)
    then show ?thesis
      using a idle_count_stopped stop_idle_stored [OF assms] by simp
  qed (simp_all add: a assms settled_def)
qed

lemma retries_progress:
  "idle_stored st \<Longrightarrow> idle_stored (retries cs limit n st) \<and>
    (settled limit (retries cs limit n st) \<or> idle_count (retries cs limit n st) + n \<le> idle_count st)"
proof (induction n)
  case (Suc n)
  let ?s = "retries cs limit n st"
  have IH: "idle_stored ?s" "settled limit ?s \<or> idle_count ?s + n \<le> idle_count st"
    using Suc by blast+
  then show ?case
    using admission_progress [OF IH(1), of "cs n" limit "c_now (cs n)"] settled_stays [OF IH(1), of limit "cs n" "c_now (cs n)"]
    by auto
qed simp

text \<open>C22: Retrying ends: whatever calls repeat a request for a Pod slot, after as many attempts as there were
  idle sessions the journal no longer changes, and then a slot is free, no session is idle any
  more, or the residents already leaving bring the number under the limit.\<close>

theorem admission_retries_settle:
  assumes "idle_stored st"
  shows "settled limit (retries cs limit (idle_count st) st) \<and>
    retries cs limit (idle_count st + m) st = retries cs limit (idle_count st) st"
proof -
  let ?s = "retries cs limit (idle_count st) st"
  have s: "idle_stored ?s" "settled limit ?s"
    using retries_progress [OF assms, of cs limit "idle_count st"] by (auto simp: settled_def)
  have "retries cs limit (idle_count st + m) st = ?s"
    by (induction m) (simp_all add: settled_stays [OF s])
  with s(2) show ?thesis
    by blast
qed

lemma idle_journal_count: "idle_count idle_journal = 2"
  by (simp add: idle_count_def mcount_def idle_journal_def mvals_def idle_worker_def)

theorem admission_retries_settle_witness:
  "retries (\<lambda>_. sample_call) 2 5 idle_journal = retries (\<lambda>_. sample_call) 2 2 idle_journal"
  using admission_retries_settle [of idle_journal 2 "\<lambda>_. sample_call" 3] by (simp add: idle_journal_count)

end
