(* ===== verification/Claim_Properties.thy ===== *)
theory Claim_Properties
  imports Sample_Claims "HOL-Library.Multiset"
begin

text \<open>
  Claims: their canonical form does not depend on the order in which repositories and resources
  are listed, and queueing one twice is queueing it once.
\<close>

section \<open>Canonical scope\<close>

lemma compact_sorted: "sorted xs \<Longrightarrow> sorted_wrt (<) (compact xs)"
  by (induction xs rule: compact.induct) (auto simp: less_le)

lemma compact_sort_set: "compact (sort xs) = sorted_list_of_set (set xs)"
  by (rule strict_sorted_equal) (simp_all add: compact_sorted)

lemma repositories_ok_distinct:
  "repositories_ok prev rs \<Longrightarrow> sorted (map repo_URL rs) \<Longrightarrow>
   distinct (map repo_URL rs) \<and> (\<forall>p. prev = Some p \<and> (\<forall>r\<in>set rs. p \<le> repo_URL r) \<longrightarrow> p \<notin> repo_URL ` set rs)"
proof (induction prev rs rule: repositories_ok.induct)
  case (2 prev r rs)
  then show ?case
    by force
qed simp


lemma sort_key_same:
  assumes "mset xs = mset ys" "distinct (map f xs)"
  shows "sort_key f xs = sort_key f ys"
  using assms by (intro sort_key_inj_key_eq) (auto simp: distinct_map)

lemma same_mset_distinct: "mset xs = mset ys \<Longrightarrow> distinct xs = distinct ys"
  by (metis card_distinct distinct_card set_mset_mset size_mset)

definition scoped :: "task_grant \<Rightarrow> repository list \<Rightarrow> string list \<Rightarrow> task_grant" where
  "scoped g repos scope = g\<lparr>g_Repositories := repos, g_ResourceScope := scope\<rparr>"

lemma scoped_checks [simp]:
  "with_identity e c (scoped g repos scope) = scoped (with_identity e c g) repos scope"
  "claim_identity_ok e (scoped g repos scope) = claim_identity_ok e g"
  "supplies_execution (scoped g repos scope) = supplies_execution g"
  "supplies_conversation (scoped g repos scope) = supplies_conversation g"
  by (simp_all add: scoped_def with_identity_def claim_identity_ok_def supplies_execution_def supplies_conversation_def)

lemma scoped_same:
  assumes "mset repos = mset repos'" "set scope = set scope'" "distinct (map repo_URL repos)"
  shows "with_scope e (scoped g repos scope) = with_scope e (scoped g repos' scope')"
  using assms(2) sort_key_same [OF assms(1,3)] by (simp add: with_scope_def scoped_def compact_sort_set Let_def)

lemma scoped_repositories [simp]:
  "g_Repositories (with_scope e (scoped g repos scope)) = sort_key repo_URL repos"
  "g_ResourceScope (with_scope e (scoped g repos scope)) = sorted_list_of_set (set scope)"
  by (simp_all add: with_scope_def scoped_def compact_sort_set Let_def)

lemma repeated_refused: "\<not> distinct (map repo_URL repos) \<Longrightarrow> \<not> repositories_ok None (sort_key repo_URL repos)"
  using repositories_ok_distinct [of None "sort_key repo_URL repos"] distinct_map [of repo_URL "sort_key repo_URL repos"]
    distinct_map [of repo_URL repos] by auto

text \<open>C25: The canonical scope: two claims that differ only in the order of their repositories and in the
  order or repetition of their resources are normalised to the same grant, scope digest included,
  or refused with the same error; and a normalised claim lists its repositories by strictly rising
  URL and its resources strictly rising.\<close>

theorem claim_scope_canonical:
  assumes "mset repos = mset repos'" "set scope = set scope'"
  shows "normalizeClaim e c (g\<lparr>g_Repositories := repos, g_ResourceScope := scope\<rparr>) =
      normalizeClaim e c (g\<lparr>g_Repositories := repos', g_ResourceScope := scope'\<rparr>) \<and>
    (\<forall>h. normalizeClaim e c (g\<lparr>g_Repositories := repos, g_ResourceScope := scope\<rparr>) = Inr h \<longrightarrow>
      sorted_wrt (<) (map repo_URL (g_Repositories h)) \<and> sorted_wrt (<) (g_ResourceScope h) \<and>
      set (g_ResourceScope h) = set scope \<and> mset (g_Repositories h) = mset repos)"
proof -
  let ?n = "\<lambda>rs ss. normalize e c (scoped g rs ss)"
  have same: "?n repos scope = ?n repos' scope'"
  proof (cases "distinct (map repo_URL repos)")
    case True
    then show ?thesis
      by (simp add: normalize_def Let_def scoped_same [OF assms True])
  next
    case False
    have "\<not> distinct (map repo_URL repos')"
      using False same_mset_distinct [of "map repo_URL repos" "map repo_URL repos'"] assms(1) by simp
    with False show ?thesis
      by (simp add: normalize_def repeated_refused Let_def)
  qed
  have "sorted_wrt (<) (map repo_URL (g_Repositories h)) \<and> sorted_wrt (<) (g_ResourceScope h) \<and>
      set (g_ResourceScope h) = set scope \<and> mset (g_Repositories h) = mset repos" if "?n repos scope = Inr h" for h
  proof -
    have h: "g_Repositories h = sort_key repo_URL repos" "g_ResourceScope h = sorted_list_of_set (set scope)"
      "distinct (map repo_URL (sort_key repo_URL repos))"
      using that repositories_ok_distinct [of None "sort_key repo_URL repos"]
      by (auto simp: normalize_def Let_def split: if_splits)
    then show ?thesis
      by (simp add: strict_sorted_iff)
  qed
  with same show ?thesis
    unfolding normalizeClaim_def scoped_def [symmetric] by (auto split: sum.splits)
qed

theorem claim_scope_canonical_witness:
  "normalizeClaim (sample_env uuid_a) sample_call (sample_claim\<lparr>g_Repositories := [], g_ResourceScope := [''b'', ''a'']\<rparr>) =
   normalizeClaim (sample_env uuid_a) sample_call (sample_claim\<lparr>g_Repositories := [], g_ResourceScope := [''a'', ''b'', ''a'']\<rparr>)"
  using claim_scope_canonical [of "[]" "[]" "[''b'', ''a'']" "[''a'', ''b'', ''a'']" "sample_env uuid_a" sample_call sample_claim]
  by (simp add: insert_commute)

section \<open>Queueing\<close>

definition retried :: "string \<Rightarrow> time \<Rightarrow> u64 \<Rightarrow> task_grant \<Rightarrow> task_grant" where
  "retried a t n g = g\<lparr>g_AttemptID := a, g_CreatedAt := t, g_Generation := n\<rparr>"

lemma retried_fields [simp]:
  "g_TaskID (retried a t n g) = g_TaskID g"
  "g_Generation (retried a t n g) = n"
  "(retried a t n g)\<lparr>g_Generation := m\<rparr> = retried a t m g"
  "retried a t n (g\<lparr>g_Generation := m\<rparr>) = retried a t n g"
  by (simp_all add: retried_def)

lemma retried_candidate [simp]:
  "(retried a t n g)\<lparr>g_AttemptID := x, g_CreatedAt := y, g_Generation := z, g_Conversation := k, g_Selection := s,
     g_CompatibilityDigest := d, g_WorkspaceCompatibilityDigest := w, g_Compatibility := v, g_BackendSelection := b\<rparr> =
   g\<lparr>g_AttemptID := x, g_CreatedAt := y, g_Generation := z, g_Conversation := k, g_Selection := s,
     g_CompatibilityDigest := d, g_WorkspaceCompatibilityDigest := w, g_Compatibility := v, g_BackendSelection := b\<rparr>"
  by (simp add: retried_def)

lemma scan_bumps [simp]:
  "queue_scan (g\<lparr>g_Generation := n\<rparr>) olds = Inr (q, True) \<longleftrightarrow> queue_scan g olds = Inr (q, True)"
  by (induction olds arbitrary: g n) (simp_all add: Let_def)

lemma scan_replays: "queue_scan g olds = Inr (q, True) \<Longrightarrow> queue_scan (retried a t n g) olds = Inr (q, True)"
  by (induction g olds arbitrary: n rule: queue_scan.induct) (auto simp: Let_def split: if_splits)

lemma scan_queued:
  "queue_scan g olds = Inr (h, False) \<Longrightarrow> g_State g = WaitingStorage \<Longrightarrow>
   (\<exists>m. h = g\<lparr>g_Generation := m\<rparr>) \<and> queue_scan (retried a t n g) (olds @ [h]) = Inr (h, True)"
proof (induction olds arbitrary: g n)
  case Nil
  then have "h = g"
    by simp
  moreover have "g = g\<lparr>g_Generation := g_Generation g\<rparr>"
    by simp
  moreover have "queue_scan (retried a t n g) [g] = Inr (g, True)"
    using Nil by (simp add: same_claim_def Let_def)
  ultimately show ?case
    unfolding append_Nil by blast
next
  case (Cons old olds)
  define g' where "g' = (if g_TaskID old = g_TaskID g \<and> g_Generation old \<ge> g_Generation g
    then g\<lparr>g_Generation := g_Generation old + 1\<rparr> else g)"
  have "queue_scan g' olds = Inr (h, False)" "g_State g' = WaitingStorage" "g_TaskID old = g_TaskID g \<longrightarrow> g_State old = Closed"
    using Cons.prems by (auto simp: g'_def Let_def split: if_splits)
  note scan = Cons.IH [OF this(1,2)] this(3)
  have "g'\<lparr>g_Generation := m\<rparr> = g\<lparr>g_Generation := m\<rparr>" for m
    by (simp add: g'_def)
  then have "\<exists>m. h = g\<lparr>g_Generation := m\<rparr>"
    using scan(1) by simp
  moreover have "retried a t m g' = retried a t m g" for m
    by (simp add: g'_def)
  ultimately show ?case
    using scan by simp
qed

lemma renamed_checks:
  "a \<noteq> [] \<Longrightarrow> with_identity e c' (g\<lparr>g_AttemptID := a\<rparr>) = (with_identity e c g)\<lparr>g_AttemptID := a\<rparr>"
  "canonicalUUID e a \<Longrightarrow> claim_identity_ok e g \<Longrightarrow> claim_identity_ok e (g\<lparr>g_AttemptID := a\<rparr>)"
  "supplies_execution (g\<lparr>g_AttemptID := a\<rparr>) = supplies_execution g"
  "supplies_conversation (g\<lparr>g_AttemptID := a\<rparr>) = supplies_conversation g"
  "with_scope e (g\<lparr>g_AttemptID := a\<rparr>) = (with_scope e g)\<lparr>g_AttemptID := a\<rparr>"
  by (simp_all add: with_identity_def claim_identity_ok_def supplies_execution_def supplies_conversation_def
      with_scope_def scopeDigest_def Let_def)

lemma normalize_retried:
  assumes "normalizeClaim e c g = Inr h" "a \<noteq> []" "canonicalUUID e a"
  shows "normalizeClaim e c' (g\<lparr>g_AttemptID := a\<rparr>) = Inr (retried a (c_wall c') 1 h) \<and> g_State h = WaitingStorage"
proof -
  have "normalize e c g = Inr h"
    using assms(1) by (simp add: normalizeClaim_def split: sum.splits)
  then show ?thesis
    unfolding normalizeClaim_def normalize_def Let_def renamed_checks(1) [OF assms(2), where c = c]
    by (auto simp: renamed_checks(2-5) assms(3) retried_def)
qed

text \<open>C24: Queueing is idempotent: a claim that was queued (or found queued) is answered again with the very grant
  the journal holds, the journal unchanged, when it is repeated later, also under another
  attempt id.\<close>

theorem queue_claim_replays:
  assumes "QueueClaim e c g st = Inr (st', q)" "a \<noteq> []" "canonicalUUID e a"
  shows "QueueClaim e c' (g\<lparr>g_AttemptID := a\<rparr>) st' = Inr (st', q)"
proof -
  obtain h q' replay where h: "normalizeClaim e c g = Inr h" "queue_scan h (mvals (r_Grants st)) = Inr (q', replay)"
    using assms(1) by (auto simp: QueueClaim_def elim!: bind_resE)
  note retry = normalize_retried [OF h(1) assms(2,3), of c']
  have "queue_scan (retried a (c_wall c') 1 h) (mvals (r_Grants st')) = Inr (q, True)"
  proof (cases replay)
    case True
    then show ?thesis
      using assms(1) h scan_replays by (auto simp: QueueClaim_def)
  next
    case False
    then have "st' = put_grant (g_AttemptID q) q st" "grant_of st (g_AttemptID q) = None" "q' = q"
      using assms(1) h by (auto simp: QueueClaim_def split: if_splits)
    then have "mvals (r_Grants st') = mvals (r_Grants st) @ [q]"
      by (simp add: put_grant_def grant_of_def mvals_def AList_update_new)
    then show ?thesis
      using scan_queued [of h "mvals (r_Grants st)" q] h(2) retry \<open>q' = q\<close> False by simp
  qed
  with retry show ?thesis
    by (simp add: QueueClaim_def)
qed

theorem queue_claim_replays_witness:
  "\<exists>st q. QueueClaim (sample_env uuid_a) sample_call sample_claim volume_journal = Inr (st, q) \<and>
    QueueClaim (sample_env uuid_a) sample_call (sample_claim\<lparr>g_AttemptID := uuid_d\<rparr>) st = Inr (st, q)"
proof -
  have "QueueClaim (sample_env uuid_a) sample_call sample_claim volume_journal =
      Inr (put_grant uuid_c claimed_grant volume_journal, claimed_grant)"
    by (simp add: QueueClaim_def claim_normal volume_journal_def grant_of_def mvals_def empty_registry_def put_grant_def)
  with queue_claim_replays [OF this, of uuid_d sample_call] show ?thesis
    by simp
qed

end
