(* ===== verification/Json_Text.thy ===== *)
theory Json_Text
  imports Go_Json
begin

text \<open>
  The compact text of a parsed document: it parses to the same document, so compacting is
  idempotent, keeps a document valid and never makes it longer; the parser's fuel is enough.
\<close>

section \<open>Scanners stop where they stopped\<close>

text \<open>What may follow a number in a compact document.\<close>

definition stops :: "string \<Rightarrow> bool" where
  "stops t \<longleftrightarrow> t = [] \<or> hd t \<in> {CHR '','', CHR '']'', CHR ''}''}"

lemma stops_simps [simp]: "stops []" "stops (c # t) \<longleftrightarrow> c = CHR '','' \<or> c = CHR '']'' \<or> c = CHR ''}''"
  by (auto simp: stops_def)

lemma guarded_Some:
  "((if b then None else x) = Some y) \<longleftrightarrow> \<not> b \<and> x = Some y" "((if b then x else None) = Some y) \<longleftrightarrow> b \<and> x = Some y"
  by auto

definition simple_escape :: "char \<Rightarrow> bool" where
  "simple_escape e \<longleftrightarrow> e \<in> set [CHR 0x22, CHR 0x5C, CHR ''/'', CHR ''b'', CHR ''f'', CHR ''n'', CHR ''r'', CHR ''t'']"

lemma simple_escape_u [simp]: "\<not> simple_escape CHR ''u''"
  by (simp add: simple_escape_def)

lemma scan_string_cases:
  assumes "scan_string (c # s) = Some (l, r)"
  obtains "c = CHR 0x22" "l = []" "s = r"
    | k where "c \<noteq> CHR 0x22" "\<not> (of_char c :: nat) < 32" "c \<noteq> CHR 0x5C" "scan_string s = Some (k, r)" "l = c # k"
    | e s1 k where "c = CHR 0x5C" "s = e # s1" "simple_escape e" "scan_string s1 = Some (k, r)" "l = c # e # k"
    | h1 h2 h3 h4 s2 k where "c = CHR 0x5C" "s = CHR ''u'' # h1 # h2 # h3 # h4 # s2"
        "is_hex h1 \<and> is_hex h2 \<and> is_hex h3 \<and> is_hex h4" "scan_string s2 = Some (k, r)"
        "l = c # CHR ''u'' # h1 # h2 # h3 # h4 # k"
proof (cases "c = CHR 0x22 \<or> c \<noteq> CHR 0x5C")
  case True
  then show thesis
    using assms that(1,2) by (cases "c = CHR 0x22") (auto simp: guarded_Some)
next
  case False
  then have c: "c = CHR 0x5C"
    by simp
  then obtain e s1 where s: "s = e # s1"
    using assms by (cases s) auto
  show thesis
  proof (cases "simple_escape e")
    case True
    then show thesis
      using assms c s that(3) by (auto simp: simple_escape_def [symmetric] simp del: list.set insert_iff)
  next
    case False
    then have "e = CHR ''u''"
      using assms c s by (simp add: simple_escape_def [symmetric] guarded_Some del: list.set insert_iff)
    then show thesis
      using assms c s False that(4)
      by (simp add: simple_escape_def [symmetric] guarded_Some del: list.set insert_iff split: list.splits) blast
  qed
qed

lemma scan_string_escapes:
  "simple_escape e \<Longrightarrow> scan_string s1 = Some (k, t) \<Longrightarrow> scan_string (CHR 0x5C # e # s1) = Some (CHR 0x5C # e # k, t)"
  "is_hex h1 \<Longrightarrow> is_hex h2 \<Longrightarrow> is_hex h3 \<Longrightarrow> is_hex h4 \<Longrightarrow> scan_string s1 = Some (k, t) \<Longrightarrow>
   scan_string (CHR 0x5C # CHR ''u'' # h1 # h2 # h3 # h4 # s1) = Some (CHR 0x5C # CHR ''u'' # h1 # h2 # h3 # h4 # k, t)"
  by (simp_all add: simple_escape_def)

lemma scan_string_text: "scan_string s = Some (l, r) \<Longrightarrow> s = l @ CHR 0x22 # r \<and> scan_string (l @ CHR 0x22 # t) = Some (l, t)"
proof (induction "length s" arbitrary: s l rule: less_induct)
  case less
  obtain c s' where s: "s = c # s'"
    using less.prems by (cases s) auto
  from less.prems [unfolded s] show ?case
  proof (cases rule: scan_string_cases)
    case (2 k)
    then show ?thesis
      using less.hyps [of s' k] s by simp
  next
    case (3 e s1 k)
    then show ?thesis
      using less.hyps [of s1 k] s by (simp add: scan_string_escapes(1) del: scan_string.simps)
  next
    case (4 h1 h2 h3 h4 s2 k)
    then show ?thesis
      using less.hyps [of s2 k] s by (simp add: scan_string_escapes(2) del: scan_string.simps)
  qed (simp add: s)
qed

lemma digits1_text:
  assumes "digits1 s = Some (d, r)" "t = [] \<or> \<not> is_digit (hd t)"
  shows "s = d @ r \<and> d \<noteq> [] \<and> list_all is_digit d \<and> digits1 (d @ t) = Some (d, t)"
proof -
  have d: "d = takeWhile is_digit s" "d \<noteq> []" "r = drop (length d) s"
    using assms(1) by (auto simp: digits1_def Let_def split: if_splits)
  then have "list_all is_digit d"
    by (auto simp: list_all_iff dest: set_takeWhileD)
  moreover from this have "takeWhile is_digit (d @ t) = d"
    using assms(2) by (cases t) (auto simp: takeWhile_append list_all_iff)
  moreover have "s = d @ r"
    by (metis d(1,3) append_eq_conv_conj takeWhile_eq_take append_take_drop_id)
  ultimately show ?thesis
    using d(2) by (simp add: digits1_def Let_def)
qed

lemma stops_digit: "stops t \<Longrightarrow> t = [] \<or> \<not> is_digit (hd t)"
  by (cases t) (auto simp: is_digit_def in_range_def)

lemma scan_exp_text:
  assumes "scan_exp s = Some (x, r)" "stops t"
  shows "s = x @ r \<and> scan_exp (x @ t) = Some (x, t) \<and> (x = [] \<or> hd x = CHR ''e'' \<or> hd x = CHR ''E'')"
proof (cases s)
  case Nil
  then show ?thesis
    using assms by (cases t) (auto simp: scan_exp_def)
next
  case (Cons c u)
  show ?thesis
  proof (cases "c = CHR ''e'' \<or> c = CHR ''E''")
    case False
    then show ?thesis
      using assms Cons by (cases t) (auto simp: scan_exp_def)
  next
    case True
    then obtain g w where u: "u = g # w"
      using assms(1) Cons by (cases u) (auto simp: scan_exp_def)
    show ?thesis
    proof (cases "g = CHR ''+'' \<or> g = CHR ''-''")
      case sign: True
      then obtain d where d: "digits1 w = Some (d, r)" "x = c # g # d"
        using assms(1) Cons True u by (auto simp: scan_exp_def)
      show ?thesis
        using digits1_text [OF d(1) stops_digit [OF assms(2)]] d(2) Cons True sign u by (auto simp: scan_exp_def)
    next
      case False
      then obtain d where d: "digits1 u = Some (d, r)" "x = c # d"
        using assms(1) Cons True u by (auto simp: scan_exp_def)
      note e = digits1_text [OF d(1) stops_digit [OF assms(2)]]
      then obtain h k where "d = h # k" "is_digit h"
        by (cases d) auto
      moreover from this(2) have "h \<noteq> CHR ''+''" "h \<noteq> CHR ''-''"
        by (auto simp: is_digit_def in_range_def)
      ultimately show ?thesis
        using e d(2) Cons True by (auto simp: scan_exp_def)
    qed
  qed
qed

lemma scan_frac_text:
  assumes "scan_frac s = Some (f, r)" "t = [] \<or> \<not> is_digit (hd t) \<and> hd t \<noteq> CHR ''.''"
  shows "s = f @ r \<and> scan_frac (f @ t) = Some (f, t) \<and> (f = [] \<or> hd f = CHR ''.'')"
proof (cases s)
  case Nil
  then show ?thesis
    using assms by (cases t) (auto simp: scan_frac_def)
next
  case (Cons c u)
  have "t = [] \<or> \<not> is_digit (hd t)"
    using assms(2) by blast
  then show ?thesis
    using assms Cons digits1_text [of u _ r t] by (cases "c = CHR ''.''"; cases t) (auto simp: scan_frac_def)
qed

lemma scan_int_text:
  assumes "scan_int s = Some (i, r)" "t = [] \<or> \<not> is_digit (hd t)"
  shows "s = i @ r \<and> scan_int (i @ t) = Some (i, t) \<and> i \<noteq> [] \<and> is_digit (hd i)"
proof (cases s)
  case Nil
  then show ?thesis
    using assms by (simp add: scan_int_def)
next
  case (Cons c u)
  show ?thesis
  proof (cases "c = CHR ''0''")
    case True
    then show ?thesis
      using assms Cons by (auto simp: scan_int_def is_digit_def in_range_def)
  next
    case False
    then have d: "digits1 s = Some (i, r)"
      using assms Cons by (simp add: scan_int_def)
    note e = digits1_text [OF this assms(2)]
    then obtain c' i' where i: "i = c' # i'"
      by (cases i) auto
    then have "c' = c"
      using e Cons by simp
    then show ?thesis
      using e i False by (auto simp: scan_int_def)
  qed
qed

definition number_head :: "string \<Rightarrow> bool" where
  "number_head l \<longleftrightarrow> l \<noteq> [] \<and> (hd l = CHR ''-'' \<or> is_digit (hd l))"

lemma scan_number_text:
  assumes "scan_number s = Some (l, r)" "stops t"
  shows "s = l @ r \<and> scan_number (l @ t) = Some (l, t) \<and> number_head l"
proof -
  obtain sg s0 i s1 f s2 x where sg: "(sg, s0) = (case s of c # r \<Rightarrow> (if c = CHR ''-'' then ([c], r) else ([], s)) | [] \<Rightarrow> ([], []))"
    and parts: "scan_int s0 = Some (i, s1)" "scan_frac s1 = Some (f, s2)" "scan_exp s2 = Some (x, r)" "l = sg @ i @ f @ x"
    using assms(1) unfolding scan_number_def
    by (auto simp: Let_def split: option.splits prod.splits)
  have x: "s2 = x @ r \<and> scan_exp (x @ t) = Some (x, t) \<and> (x = [] \<or> hd x = CHR ''e'' \<or> hd x = CHR ''E'')"
    by (rule scan_exp_text [OF parts(3) assms(2)])
  then have "x @ t = [] \<or> \<not> is_digit (hd (x @ t)) \<and> hd (x @ t) \<noteq> CHR ''.''"
    using assms(2) by (cases x; cases t) (auto simp: is_digit_def in_range_def)
  from scan_frac_text [OF parts(2) this]
  have f: "s1 = f @ s2 \<and> scan_frac (f @ x @ t) = Some (f, x @ t) \<and> (f = [] \<or> hd f = CHR ''.'')" .
  then have "f @ x @ t = [] \<or> \<not> is_digit (hd (f @ x @ t))"
    using x assms(2) by (cases f; cases x; cases t) (auto simp: is_digit_def in_range_def)
  from scan_int_text [OF parts(1) this]
  have i: "s0 = i @ s1 \<and> scan_int (i @ f @ x @ t) = Some (i, f @ x @ t) \<and> i \<noteq> [] \<and> is_digit (hd i)" .
  have sign: "(sg = [CHR ''-''] \<and> s = CHR ''-'' # s0) \<or> sg = [] \<and> s = s0"
    using sg by (auto split: list.splits if_splits)
  moreover have "hd i \<noteq> CHR ''-''"
    using i by (auto simp: is_digit_def in_range_def)
  ultimately show ?thesis
    using parts(4) x f i by (cases i) (auto simp: scan_number_def number_head_def)
qed

section \<open>Documents the parser makes\<close>

definition string_text :: "string \<Rightarrow> bool" where
  "string_text l \<longleftrightarrow> (\<forall>t. scan_string (l @ CHR 0x22 # t) = Some (l, t))"

definition number_text :: "string \<Rightarrow> bool" where
  "number_text l \<longleftrightarrow> number_head l \<and> (\<forall>t. stops t \<longrightarrow> scan_number (l @ t) = Some (l, t))"

fun parsed :: "json \<Rightarrow> nat \<Rightarrow> bool" where
  "parsed (JNum l) d = number_text l"
| "parsed (JStr l) d = string_text l"
| "parsed (JArr vs) d = (d \<noteq> 0 \<and> (\<forall>v\<in>set vs. parsed v (d - 1)))"
| "parsed (JObj ms) d = (d \<noteq> 0 \<and> (\<forall>p\<in>set ms. string_text (fst p) \<and> parsed (snd p) (d - 1)))"
| "parsed _ d = True"

lemma join_length: "xs \<noteq> [] \<Longrightarrow> length (join_with c (x # xs)) = length x + 1 + length (join_with c xs)"
  by (cases xs) auto

definition member_text :: "string \<times> json \<Rightarrow> string" where
  "member_text p = CHR 0x22 # fst p @ CHR 0x22 # CHR '':'' # json_text (snd p)"

definition elems_text :: "json list \<Rightarrow> string" where
  "elems_text vs = join_with CHR '','' (map json_text vs)"

definition members_text :: "(string \<times> json) list \<Rightarrow> string" where
  "members_text ms = join_with CHR '','' (map member_text ms)"

lemma json_texts:
  "json_text (JArr vs) = CHR ''['' # elems_text vs @ '']''" "json_text (JObj ms) = CHR ''{'' # members_text ms @ ''}''"
  by (simp_all add: elems_text_def members_text_def member_text_def [abs_def] case_prod_beta')

lemma skip_length: "length (skip_ws s) \<le> length s"
  by (simp add: skip_ws_def length_dropWhile_le)

lemma skip_shorter: "skip_ws s = c # r \<Longrightarrow> length r < length s"
  using skip_length [of s] by simp

lemma parse_val_cases:
  assumes "parse_val (Suc n) d s = Some (v, r)"
  obtains c u where "skip_ws s = c # u" "v = JNull \<and> r = drop 3 u \<and> prefix ''ull'' u \<or>
      v = JBool True \<and> r = drop 3 u \<and> prefix ''rue'' u \<or> v = JBool False \<and> r = drop 4 u \<and> prefix ''alse'' u"
    | l where "skip_ws s = CHR 0x22 # l @ CHR 0x22 # r" "v = JStr l" "string_text l"
    | u where "d \<noteq> 0" "skip_ws s = CHR ''['' # u" "skip_ws u = CHR '']'' # r" "v = JArr []"
    | u b t vs where "d \<noteq> 0" "skip_ws s = CHR ''['' # u" "skip_ws u = b # t" "parse_elems n (d - 1) (b # t) = Some (vs, r)" "v = JArr vs"
    | u where "d \<noteq> 0" "skip_ws s = CHR ''{'' # u" "skip_ws u = CHR ''}'' # r" "v = JObj []"
    | u b t ms where "d \<noteq> 0" "skip_ws s = CHR ''{'' # u" "skip_ws u = b # t" "parse_members n (d - 1) (b # t) = Some (ms, r)" "v = JObj ms"
    | l where "skip_ws s = l @ r" "v = JNum l" "number_text l"
proof -
  obtain c u where s: "skip_ws s = c # u"
    using assms by (cases "skip_ws s") simp_all
  consider "c = CHR ''n''" | "c = CHR ''t''" | "c = CHR ''f''" | "c = CHR 0x22" | "c = CHR ''[''" | "c = CHR ''{''"
    | "c \<notin> {CHR ''n'', CHR ''t'', CHR ''f'', CHR 0x22, CHR ''['', CHR ''{''}"
    by blast
  then show thesis
  proof cases
    case 1
    then show thesis
      using assms s by (intro that(1) [OF s]) (auto split: if_splits)
  next
    case 2
    then show thesis
      using assms s by (intro that(1) [OF s]) (auto split: if_splits)
  next
    case 3
    then show thesis
      using assms s by (intro that(1) [OF s]) (auto split: if_splits)
  next
    case 4
    then obtain l where "scan_string u = Some (l, r)" "v = JStr l"
      using assms s by auto
    with 4 s scan_string_text [of u l r] show thesis
      by (intro that(2) [of l]) (auto simp: string_text_def)
  next
    case 5
    then obtain b t where u: "skip_ws u = b # t" and d: "d \<noteq> 0"
      using assms s by (cases "skip_ws u") (auto split: if_splits)
    show thesis
    proof (cases "b = CHR '']''")
      case True
      then show thesis
        using assms s u d 5 by (intro that(3)) auto
    next
      case False
      then obtain vs where "parse_elems n (d - 1) (b # t) = Some (vs, r)" "v = JArr vs"
        using assms s u d 5 by auto
      with s u d 5 show thesis
        by (intro that(4)) auto
    qed
  next
    case 6
    then obtain b t where u: "skip_ws u = b # t" and d: "d \<noteq> 0"
      using assms s by (cases "skip_ws u") (auto split: if_splits)
    show thesis
    proof (cases "b = CHR ''}''")
      case True
      then show thesis
        using assms s u d 6 by (intro that(5)) auto
    next
      case False
      then obtain ms where "parse_members n (d - 1) (b # t) = Some (ms, r)" "v = JObj ms"
        using assms s u d 6 by auto
      with s u d 6 show thesis
        by (intro that(6)) auto
    qed
  next
    case 7
    then obtain l where "scan_number (c # u) = Some (l, r)" "v = JNum l"
      using assms s by auto
    moreover from this(1) have "c # u = l @ r" "number_text l"
      using scan_number_text [of "c # u" l r] by (auto simp: number_text_def intro: stops_simps(1))
    ultimately show thesis
      using s by (intro that(7) [of l]) simp_all
  qed
qed

lemma parse_elems_cases:
  assumes "parse_elems (Suc n) d s = Some (vs, r)"
  obtains v s1 where "parse_val n d s = Some (v, s1)" "skip_ws s1 = CHR '']'' # r" "vs = [v]"
    | v s1 u ws where "parse_val n d s = Some (v, s1)" "skip_ws s1 = CHR '','' # u" "parse_elems n d u = Some (ws, r)" "vs = v # ws"
  using assms by (auto split: option.splits prod.splits list.splits if_splits)

lemma parse_members_cases:
  assumes "parse_members (Suc n) d s = Some (ms, r)"
  obtains k s1 s2 v s3 e u where "skip_ws s = CHR 0x22 # k @ CHR 0x22 # s1" "string_text k" "skip_ws s1 = CHR '':'' # s2"
    "parse_val n d s2 = Some (v, s3)" "skip_ws s3 = e # u"
    "e = CHR ''}'' \<and> r = u \<and> ms = [(k, v)] \<or> e = CHR '','' \<and> (\<exists>ns. parse_members n d u = Some (ns, r) \<and> ms = (k, v) # ns)"
proof -
  obtain q s0 where q: "skip_ws s = q # s0" "q = CHR 0x22"
    using assms by (auto split: list.splits if_splits)
  then obtain k s1 where k: "scan_string s0 = Some (k, s1)"
    using assms by (auto split: option.splits)
  then obtain c s2 where c: "skip_ws s1 = c # s2" "c = CHR '':''"
    using assms q by (auto split: list.splits if_splits)
  then obtain v s3 where v: "parse_val n d s2 = Some (v, s3)"
    using assms q k by (auto split: option.splits)
  then obtain e u where e: "skip_ws s3 = e # u"
    using assms q k c by (auto split: list.splits)
  have "s0 = k @ CHR 0x22 # s1" "string_text k"
    using scan_string_text [OF k] by (auto simp: string_text_def)
  then show thesis
    using assms q k c v e by (intro that [of k s1 s2 v s3 e u]) (auto split: if_splits)
qed

definition val_made :: "nat \<Rightarrow> string \<Rightarrow> json \<Rightarrow> string \<Rightarrow> bool" where
  "val_made d s v r \<longleftrightarrow> parsed v d \<and> length (json_text v) + length r \<le> length s"

definition elems_made :: "nat \<Rightarrow> string \<Rightarrow> json list \<Rightarrow> string \<Rightarrow> bool" where
  "elems_made d s vs r \<longleftrightarrow> vs \<noteq> [] \<and> (\<forall>v\<in>set vs. parsed v d) \<and> length (elems_text vs) + 1 + length r \<le> length s"

definition members_made :: "nat \<Rightarrow> string \<Rightarrow> (string \<times> json) list \<Rightarrow> string \<Rightarrow> bool" where
  "members_made d s ms r \<longleftrightarrow> ms \<noteq> [] \<and> (\<forall>p\<in>set ms. string_text (fst p) \<and> parsed (snd p) d) \<and>
    length (members_text ms) + 1 + length r \<le> length s"

lemma elems_text_simps [simp]:
  "elems_text [v] = json_text v" "vs \<noteq> [] \<Longrightarrow> elems_text (v # vs) = json_text v @ CHR '','' # elems_text vs"
  by (simp_all add: elems_text_def, cases vs) simp_all

lemma members_text_simps [simp]:
  "members_text [p] = member_text p" "ms \<noteq> [] \<Longrightarrow> members_text (p # ms) = member_text p @ CHR '','' # members_text ms"
  by (simp_all add: members_text_def, cases ms) simp_all

lemma word_made:
  "prefix ''ull'' u \<Longrightarrow> Suc (length u) \<le> n \<Longrightarrow> Suc (Suc (Suc (Suc (length u - 3)))) \<le> n"
  "prefix ''rue'' u \<Longrightarrow> Suc (length u) \<le> n \<Longrightarrow> Suc (Suc (Suc (Suc (length u - 3)))) \<le> n"
  "prefix ''alse'' u \<Longrightarrow> Suc (length u) \<le> n \<Longrightarrow> Suc (Suc (Suc (Suc (Suc (length u - 4))))) \<le> n"
  by (auto simp: prefix_def)

lemma parse_made_all:
  "(\<forall>d s v r. parse_val n d s = Some (v, r) \<longrightarrow> val_made d s v r) \<and>
   (\<forall>d s vs r. parse_elems n d s = Some (vs, r) \<longrightarrow> elems_made d s vs r) \<and>
   (\<forall>d s ms r. parse_members n d s = Some (ms, r) \<longrightarrow> members_made d s ms r)"
proof (induction n)
  case (Suc n)
  have IH: "parse_val n d s = Some (v, r) \<Longrightarrow> val_made d s v r" "parse_elems n d s = Some (vs, r) \<Longrightarrow> elems_made d s vs r"
    "parse_members n d s = Some (ms, r) \<Longrightarrow> members_made d s ms r" for d s v r vs ms
    using Suc by blast+
  have val: "val_made d s v r" if "parse_val (Suc n) d s = Some (v, r)" for d s v r
    using that
  proof (cases rule: parse_val_cases)
    case (1 c u)
    then show ?thesis
      using skip_length [of s] by (elim disjE) (simp_all add: val_made_def word_made)
  next
    case (2 l)
    then show ?thesis
      using skip_length [of s] by (simp add: val_made_def)
  next
    case (3 u)
    then show ?thesis
      using skip_length [of s] skip_length [of u] by (simp add: val_made_def)
  next
    case (4 u b t vs)
    then show ?thesis
      using skip_length [of s] skip_length [of u] IH(2) [OF 4(4)] by (simp add: val_made_def elems_made_def json_texts del: json_text.simps)
  next
    case (5 u)
    then show ?thesis
      using skip_length [of s] skip_length [of u] by (simp add: val_made_def)
  next
    case (6 u b t ms)
    then show ?thesis
      using skip_length [of s] skip_length [of u] IH(3) [OF 6(4)] by (simp add: val_made_def members_made_def json_texts del: json_text.simps)
  next
    case (7 l)
    then show ?thesis
      using skip_length [of s] by (simp add: val_made_def)
  qed
  have elems: "elems_made d s vs r" if "parse_elems (Suc n) d s = Some (vs, r)" for d s vs r
    using that
  proof (cases rule: parse_elems_cases)
    case (1 v s1)
    then show ?thesis
      using IH(1) [OF 1(1)] skip_length [of s1] by (simp add: val_made_def elems_made_def)
  next
    case (2 v s1 u ws)
    then show ?thesis
      using IH(1) [OF 2(1)] IH(2) [OF 2(3)] skip_length [of s1] by (auto simp: val_made_def elems_made_def)
  qed
  have members: "members_made d s ms r" if "parse_members (Suc n) d s = Some (ms, r)" for d s ms r
    using that
  proof (cases rule: parse_members_cases)
    case (1 k s1 s2 v s3 e u)
    have v: "val_made d s2 v s3"
      by (rule IH(1) [OF 1(4)])
    have len: "length (member_text (k, v)) + length s3 \<le> length s"
      using v 1(1,3) skip_length [of s] skip_length [of s1] by (simp add: val_made_def member_text_def)
    from 1(6) show ?thesis
    proof
      assume "e = CHR ''}'' \<and> r = u \<and> ms = [(k, v)]"
      then show ?thesis
        using len v 1(2,5) skip_length [of s3] by (simp add: members_made_def val_made_def)
    next
      assume "e = CHR '','' \<and> (\<exists>ns. parse_members n d u = Some (ns, r) \<and> ms = (k, v) # ns)"
      then obtain ns where "members_made d u ns r" "ms = (k, v) # ns"
        using IH(3) by blast
      then show ?thesis
        using len v 1(2,5) skip_length [of s3] by (auto simp: members_made_def val_made_def)
    qed
  qed
  show ?case
    using val elems members by blast
qed simp

lemma parse_made: "parse_val n d s = Some (v, r) \<Longrightarrow> parsed v d \<and> length (json_text v) + length r \<le> length s"
  using parse_made_all [of n] by (auto simp: val_made_def)

section \<open>The text of a parsed document parses\<close>

lemma number_head_cases:
  assumes "number_text l"
  obtains c u where "l = c # u" "c = CHR ''-'' \<or> is_digit c"
  using assms by (cases l) (auto simp: number_text_def number_head_def)

lemma number_char:
  assumes "c = CHR ''-'' \<or> is_digit c"
  shows "c \<notin> {CHR ''n'', CHR ''t'', CHR ''f'', CHR 0x22, CHR ''['', CHR ''{''}" "c \<noteq> CHR '']''" "\<not> json_ws c"
  using assms by (auto simp: is_digit_def in_range_def json_ws_def)

lemma json_text_hd: "parsed v d \<Longrightarrow> json_text v \<noteq> [] \<and> \<not> json_ws (hd (json_text v)) \<and> hd (json_text v) \<noteq> CHR '']''"
proof (cases v)
  case (JNum l)
  assume "parsed v d"
  with JNum have "number_text l"
    by simp
  then obtain c u where l: "l = c # u" "c = CHR ''-'' \<or> is_digit c"
    by (rule number_head_cases)
  then show ?thesis
    using JNum number_char [OF l(2)] by simp
qed (auto simp: json_ws_def)

lemma json_text_head:
  assumes "parsed v d"
  obtains c u where "json_text v = c # u" "\<not> json_ws c" "c \<noteq> CHR '']''"
  using json_text_hd [OF assms] by (cases "json_text v") auto

lemma skip_token: "\<not> json_ws c \<Longrightarrow> skip_ws (c # u) = c # u"
  by (simp add: skip_ws_def)

lemma parse_number_text:
  assumes "number_text l" "stops t"
  shows "parse_val (Suc n) d (l @ t) = Some (JNum l, t)"
proof -
  obtain c u where l: "l = c # u" "c = CHR ''-'' \<or> is_digit c"
    by (rule number_head_cases [OF assms(1)])
  then have "c \<notin> {CHR ''n'', CHR ''t'', CHR ''f'', CHR 0x22, CHR ''['', CHR ''{''}" "\<not> json_ws c"
    using number_char [of c] by blast+
  moreover have "scan_number (c # u @ t) = Some (l, t)"
    using assms l by (simp add: number_text_def)
  ultimately show ?thesis
    using l(1) by (simp add: skip_token)
qed

lemma parse_elems_text:
  assumes "\<And>v t n. v \<in> set vs \<Longrightarrow> stops t \<Longrightarrow> 2 * length (json_text v) + 1 \<le> n \<Longrightarrow> parse_val n d (json_text v @ t) = Some (v, t)"
    "vs \<noteq> []" "2 * length (elems_text vs) + 2 \<le> n"
  shows "parse_elems n d (elems_text vs @ CHR '']'' # t) = Some (vs, t)"
  using assms
proof (induction vs arbitrary: n)
  case (Cons v vs)
  obtain m where n: "n = Suc m"
    using Cons.prems(3) by (cases n) auto
  show ?case
  proof (cases "vs = []")
    case True
    then show ?thesis
      using Cons.prems(1) [of v "CHR '']'' # t" m] Cons.prems(3) n by (simp add: skip_token json_ws_def)
  next
    case False
    then have "parse_elems m d (elems_text vs @ CHR '']'' # t) = Some (vs, t)"
      using Cons.prems(3) n by (intro Cons.IH Cons.prems(1)) auto
    then show ?thesis
      using False Cons.prems(1) [of v "CHR '','' # elems_text vs @ CHR '']'' # t" m] Cons.prems(3) n
      by (simp add: skip_token json_ws_def)
  qed
qed simp

lemma parse_members_text:
  assumes "\<And>p t n. p \<in> set ms \<Longrightarrow> stops t \<Longrightarrow> 2 * length (json_text (snd p)) + 1 \<le> n \<Longrightarrow>
      parse_val n d (json_text (snd p) @ t) = Some (snd p, t)"
    "\<And>p. p \<in> set ms \<Longrightarrow> string_text (fst p)"
    "ms \<noteq> []" "2 * length (members_text ms) + 2 \<le> n"
  shows "parse_members n d (members_text ms @ CHR ''}'' # t) = Some (ms, t)"
  using assms
proof (induction ms arbitrary: n)
  case (Cons p ms)
  obtain m where n: "n = Suc m"
    using Cons.prems(4) by (cases n) auto
  have p: "scan_string (fst p @ CHR 0x22 # s) = Some (fst p, s)" for s
    using Cons.prems(2) [of p] by (simp add: string_text_def)
  show ?case
  proof (cases "ms = []")
    case True
    then show ?thesis
      using Cons.prems(1) [of p "CHR ''}'' # t" m] Cons.prems(4) n p
      by (simp add: member_text_def skip_token json_ws_def)
  next
    case False
    then have "parse_members m d (members_text ms @ CHR ''}'' # t) = Some (ms, t)"
      using Cons.prems(4) n by (intro Cons.IH Cons.prems(1,2)) auto
    then show ?thesis
      using False Cons.prems(1) [of p "CHR '','' # members_text ms @ CHR ''}'' # t" m] Cons.prems(4) n p
      by (simp add: member_text_def skip_token json_ws_def)
  qed
qed simp

lemma members_text_head: "ms \<noteq> [] \<Longrightarrow> \<exists>u. members_text ms = CHR 0x22 # u"
  by (cases ms; cases "tl ms = []") (auto simp: member_text_def)

lemma elems_text_head:
  assumes "vs \<noteq> []" "\<forall>v\<in>set vs. parsed v d"
  obtains c u where "elems_text vs = c # u" "\<not> json_ws c" "c \<noteq> CHR '']''"
proof -
  obtain v ws where vs: "vs = v # ws"
    using assms(1) by (cases vs) auto
  then obtain c u where "json_text v = c # u" "\<not> json_ws c" "c \<noteq> CHR '']''"
    using assms(2) json_text_head [of v d] by auto
  then show thesis
    using vs by (cases "ws = []") (auto intro: that)
qed

lemma parse_text: "parsed v d \<Longrightarrow> stops t \<Longrightarrow> 2 * length (json_text v) + 1 \<le> n \<Longrightarrow> parse_val n d (json_text v @ t) = Some (v, t)"
proof (induction v arbitrary: d t n)
  case (JArr vs)
  obtain m where n: "n = Suc m" and d: "d \<noteq> 0"
    using JArr.prems by (cases n) auto
  show ?case
  proof (cases "vs = []")
    case True
    then show ?thesis
      using n d by (simp add: skip_token json_ws_def)
  next
    case False
    have vs: "\<forall>v\<in>set vs. parsed v (d - 1)"
      using JArr.prems(1) by simp
    obtain c u where c: "elems_text vs = c # u" "\<not> json_ws c" "c \<noteq> CHR '']''"
      by (rule elems_text_head [OF False vs])
    have "parse_elems m (d - 1) (elems_text vs @ CHR '']'' # t) = Some (vs, t)"
      using JArr.IH vs JArr.prems(3) n False
      by (intro parse_elems_text) (auto simp: json_texts simp del: json_text.simps)
    then show ?thesis
      using n d c by (simp add: json_texts skip_token json_ws_def [of "CHR ''[''"] del: json_text.simps)
  qed
next
  case (JObj ms)
  obtain m where n: "n = Suc m" and d: "d \<noteq> 0"
    using JObj.prems by (cases n) auto
  show ?case
  proof (cases "ms = []")
    case True
    then show ?thesis
      using n d by (simp add: skip_token json_ws_def)
  next
    case False
    then obtain u where u: "members_text ms = CHR 0x22 # u"
      using members_text_head by blast
    have "parse_members m (d - 1) (members_text ms @ CHR ''}'' # t) = Some (ms, t)"
    proof (rule parse_members_text)
      show "parse_val k (d - 1) (json_text (snd p) @ t) = Some (snd p, t)"
        if "p \<in> set ms" "stops t" "2 * length (json_text (snd p)) + 1 \<le> k" for p t k
        using that JObj.prems(1) by (intro JObj.IH [of p "snd p"]) (auto simp: snds.simps)
      show "2 * length (members_text ms) + 2 \<le> m"
        using JObj.prems(3) n by (simp add: json_texts del: json_text.simps)
    qed (use JObj.prems(1) False in auto)
    then show ?thesis
      using n d u by (simp add: json_texts skip_token json_ws_def del: json_text.simps)
  qed
next
  case (JNum l)
  then show ?case
    by (cases n) (auto simp: parse_number_text simp del: parse_val.simps)
next
  case (JStr l)
  then show ?case
    by (cases n) (auto simp: string_text_def skip_token json_ws_def)
next
  case (JBool b)
  then show ?case
    by (cases n) (auto simp: skip_token json_ws_def)
next
  case JNull
  then show ?case
    by (cases n) (auto simp: skip_token json_ws_def)
qed

lemma parse_json_text:
  assumes "parse_json s = Some v"
  shows "parse_json (json_text v) = Some v" "length (json_text v) \<le> length s"
proof -
  obtain r where r: "parse_val (parse_fuel s) max_depth s = Some (v, r)"
    using assms by (auto simp: parse_json_def split: option.splits if_splits)
  show "length (json_text v) \<le> length s"
    using parse_made [OF r] by simp
  have "parse_val (parse_fuel (json_text v)) max_depth (json_text v @ []) = Some (v, [])"
    using parse_made [OF r] by (intro parse_text) (auto simp: parse_fuel_def)
  then show "parse_json (json_text v) = Some v"
    by (simp add: parse_json_def skip_ws_def)
qed

end
