(* ===== verification/Claim_Types.thy ===== *)
theory Claim_Types
  imports Claim_Properties Json_Text
begin

text \<open>
  The type of a normalised claim: what \<^verbatim>\<open>normalizeClaim\<close> accepts is a grant the journal's
  check accepts, up to the opaque identifiers and the bootstrap digest, which the code tests later.
  It rests on the compact form of the claim's documents.
\<close>

section \<open>Compact documents\<close>

lemma json_text_ne: "parse_json s = Some v \<Longrightarrow> json_text v \<noteq> []"
  using parse_json_text [of s v] by (cases "json_text v = []") (auto simp: parse_json_def parse_fuel_def skip_ws_def)

text \<open>The compact form of a valid document denotes the same document, is no longer than the document,
  is its own compact form and is never empty, so it cannot be taken for the failure of an invalid
  one.\<close>

theorem compact_json_roundtrip:
  assumes "json_valid s"
  shows "parse_json (compactJSON s) = parse_json s \<and> length (compactJSON s) \<le> length s \<and>
    compactJSON (compactJSON s) = compactJSON s \<and> compactJSON s \<noteq> []"
proof -
  obtain v where v: "parse_json s = Some v"
    using assms by (auto simp: json_valid_def)
  then have "compactJSON s = json_text v"
    by (simp add: compactJSON_def json_compact_def)
  then show ?thesis
    using v parse_json_text [OF v] json_text_ne [OF v] by (simp add: compactJSON_def json_compact_def)
qed

lemma spaced_object: "parse_json '' { } '' = Some (JObj [])"
  by (simp add: parse_json_def parse_fuel_def numeral_eq_Suc max_depth_def skip_ws_def json_ws_def)

theorem compact_json_roundtrip_witness: "parse_json (compactJSON '' { } '') = Some (JObj [])"
  using compact_json_roundtrip [of "'' { } ''"] by (simp add: json_valid_def spaced_object)

lemma compacted:
  assumes "json_valid s"
  shows "json_valid (compactJSON s)" "length (compactJSON s) \<le> length s"
proof -
  obtain v where v: "parse_json s = Some v"
    using assms by (auto simp: json_valid_def)
  then show "json_valid (compactJSON s)" "length (compactJSON s) \<le> length s"
    using parse_json_text [OF v] by (simp_all add: compactJSON_def json_compact_def json_valid_def)
qed

section \<open>Normalised claims\<close>

lemma repositories_rising:
  "repositories_ok prev rs \<Longrightarrow> sorted (map repo_URL rs) \<Longrightarrow> (\<forall>p. prev = Some p \<longrightarrow> (\<forall>r\<in>set rs. p \<le> repo_URL r)) \<Longrightarrow>
   list_all (\<lambda>r. validOpaque (repo_URL r)) rs \<and> sorted_wrt (<) (map repo_URL rs) \<and>
   (\<forall>p. prev = Some p \<longrightarrow> (\<forall>r\<in>set rs. p < repo_URL r))"
proof (induction prev rs rule: repositories_ok.induct)
  case (2 prev r rs)
  then show ?case
    by (auto simp: less_le)
qed simp

text \<open>The claim \<^verbatim>\<open>normalizeClaim\<close> returns, from the input \<open>k\<close> with its identity filled in and the
  metadata \<open>m\<close> with the empty document for none.\<close>

definition normal_form :: "env \<Rightarrow> call \<Rightarrow> task_grant \<Rightarrow> string \<Rightarrow> task_grant" where
  "normal_form e c k m =
    (with_scope e k)\<lparr>g_Envelope := compactJSON (g_Envelope k), g_Metadata := compactJSON m,
       g_Fingerprint := RuntimeFingerprint e (g_RuntimeRef k), g_RequestDigest := e_digest e (compactJSON (g_Envelope k)),
       g_State := WaitingStorage, g_Generation := 1, g_CreatedAt := c_wall c\<rparr>"

lemma scope_fields:
  "g_Metadata (with_scope e k) = g_Metadata k" "g_RuntimeRef (with_scope e k) = g_RuntimeRef k"
  "g_Envelope (with_scope e k) = g_Envelope k" "g_Fingerprint (with_scope e k) = g_Fingerprint k"
  by (simp_all add: with_scope_def Let_def)

lemma normalized_facts:
  assumes "normalizeClaim e c g = Inr h"
  obtains k m where "h = normal_form e c k m" "claim_identity_ok e k" "\<not> supplies_execution k" "\<not> supplies_conversation k"
    "g_RuntimeID k = g_RuntimeID g" "g_WorkspaceID k = g_WorkspaceID g" "g_AgentID k = g_AgentID g"
      "g_BootstrapDigest k = g_BootstrapDigest g"
    "repositories_ok None (g_Repositories (with_scope e k))" "list_all validOpaque (g_ResourceScope (with_scope e k))"
    "json_valid m" "int (length m) \<le> o_MaxRecordBytes e"
proof -
  define k where "k = with_identity e c g"
  define m where "m = (if g_Metadata k = [] then ''{}'' else g_Metadata k)"
  have n: "normalize e c g = Inr h"
    using assms by (simp add: normalizeClaim_def split: sum.splits)
  note n = n [unfolded normalize_def Let_def k_def [symmetric] scope_fields m_def [symmetric]]
  show thesis
  proof (rule that [of k m])
    show "h = normal_form e c k m"
      using n by (simp add: normal_form_def split: if_splits)
    show "g_RuntimeID k = g_RuntimeID g" "g_WorkspaceID k = g_WorkspaceID g" "g_AgentID k = g_AgentID g"
      "g_BootstrapDigest k = g_BootstrapDigest g"
      by (simp_all add: k_def with_identity_def)
  qed (use n in \<open>simp_all split: if_splits\<close>)
qed

lemma normal_scope [simp]:
  "g_ResourceScope (normal_form e c k m) = sorted_list_of_set (set (g_ResourceScope k))"
  "g_Repositories (normal_form e c k m) = sort_key repo_URL (g_Repositories k)"
  by (simp_all add: normal_form_def with_scope_def compact_sort_set Let_def)

lemma normal_supplies:
  "supplies_execution ((normal_form e c k m)\<lparr>g_State := s\<rparr>) = supplies_execution (k\<lparr>g_State := s\<rparr>)"
  "supplies_conversation (normal_form e c k m) = supplies_conversation k"
  "g_State (normal_form e c k m) = WaitingStorage"
  by (simp_all add: normal_form_def with_scope_def Let_def supplies_execution_def supplies_conversation_def)

lemma normal_bootstrap: "g_BootstrapDigest (normal_form e c k m) = g_BootstrapDigest k"
  by (simp add: normal_form_def with_scope_def Let_def)

lemma normal_identity:
  assumes "claim_identity_ok e k" "c_wall c \<noteq> 0" "r_OwnerID st = o_OwnerID e" "json_valid m" "int (length m) \<le> o_MaxRecordBytes e"
  shows "grant_identity_ok e st (g_AttemptID (normal_form e c k m)) (normal_form e c k m) \<longleftrightarrow>
    validOpaque (g_RuntimeID k) \<and> validOpaque (g_WorkspaceID k) \<and> validOpaque (g_AgentID k)"
  using assms compacted [of "g_Envelope k"] compacted [of m]
  by (simp add: grant_identity_ok_def claim_identity_ok_def normal_form_def with_scope_def scopeDigest_def record_fits_def Let_def)

text \<open>A claim that supplies no authority passes every other test of a waiting grant.\<close>

definition bare :: "task_grant \<Rightarrow> bool" where
  "bare h \<longleftrightarrow> \<not> supplies_execution (h\<lparr>g_State := OtherState []\<rparr>) \<and> \<not> supplies_conversation h \<and> g_State h = WaitingStorage"

lemma bare_grant_checks:
  assumes "bare h" "list_all (\<lambda>r. validOpaque (repo_URL r)) (g_Repositories h)" "sorted_wrt (<) (map repo_URL (g_Repositories h))"
    "list_all validOpaque (g_ResourceScope h)" "sorted (g_ResourceScope h)" "sorted_wrt (<) (g_ResourceScope h)"
  shows "first_failure (grant_checks e st i h) = Inr () \<longleftrightarrow> grant_identity_ok e st i h"
  using assms
  by (simp add: grant_checks_def first_failure_Inr bare_def supplies_execution_def supplies_conversation_def
      start_unproven_def stop_key_unbound_def)

lemma bare_pending_checks:
  assumes "bare h"
  shows "g_StorageID h = []" "validatePendingSessionGrant e h = Inr ()"
    "first_failure (pending_checks st i h) = Inr () \<longleftrightarrow> g_BootstrapDigest h = []"
  using assms
  by (simp_all add: bare_def supplies_execution_def supplies_conversation_def validatePendingSessionGrant_def
      turn_authority_def pending_checks_def first_failure_Inr)

text \<open>C26: The type of a normalised claim: a claim that \<^verbatim>\<open>normalizeClaim\<close> returns passes the journal's check of
  a grant, in any journal of the owner, exactly when its runtime, workspace and agent identifiers
  are opaque values, of which \<^verbatim>\<open>normalizeClaim\<close> only demands that they are not empty, and it
  brings no bootstrap digest, which \<^verbatim>\<open>normalizeClaim\<close> does not look at.  Its documents,
  digests, scope, repositories and state need no further test.\<close>

theorem normalized_claim_valid:
  assumes "normalizeClaim e c g = Inr h" "c_wall c \<noteq> 0" "r_OwnerID st = o_OwnerID e"
  shows "validate_grant e st (g_AttemptID h, h) = Inr () \<longleftrightarrow>
    validOpaque (g_RuntimeID g) \<and> validOpaque (g_WorkspaceID g) \<and> validOpaque (g_AgentID g) \<and> g_BootstrapDigest g = []"
proof -
  from assms(1) obtain k m where h: "h = normal_form e c k m" and k: "claim_identity_ok e k" "\<not> supplies_execution k" "\<not> supplies_conversation k"
      "g_RuntimeID k = g_RuntimeID g" "g_WorkspaceID k = g_WorkspaceID g" "g_AgentID k = g_AgentID g"
      "g_BootstrapDigest k = g_BootstrapDigest g"
      "repositories_ok None (g_Repositories (with_scope e k))" "list_all validOpaque (g_ResourceScope (with_scope e k))"
      "json_valid m" "int (length m) \<le> o_MaxRecordBytes e"
    by (rule normalized_facts)
  have scope: "g_ResourceScope (with_scope e k) = g_ResourceScope h" "g_Repositories (with_scope e k) = g_Repositories h"
    by (simp_all add: h normal_form_def)
  have "g_State k = OtherState []"
    using k(2) by (simp add: supplies_execution_def)
  then have "k\<lparr>g_State := OtherState []\<rparr> = k"
    by simp
  then have bare: "bare h"
    using k(2,3) by (simp add: h bare_def normal_supplies)
  have "sorted (map repo_URL (g_Repositories h))"
    by (simp add: h)
  from repositories_rising [OF k(8) [unfolded scope] this]
  have "first_failure (grant_checks e st i h) = Inr () \<longleftrightarrow> grant_identity_ok e st i h" for i
    using k(9) [unfolded scope] by (intro bare_grant_checks bare) (simp_all add: h)
  then show ?thesis
    using bare_pending_checks [OF bare] normal_identity [OF k(1) assms(2,3) k(10,11)] k(4-7)
    by (simp add: validate_grant_def bind_res_eq_Inr h normal_bootstrap conj_assoc)
qed

theorem normalized_claim_valid_witness:
  "validate_grant (sample_env uuid_a) volume_journal (uuid_c, claimed_grant) = Inr ()"
proof -
  have "r_OwnerID volume_journal = o_OwnerID (sample_env uuid_a)" "c_wall sample_call \<noteq> 0"
    by (simp_all add: volume_journal_def empty_registry_def sample_call_def sample_env_def)
  from normalized_claim_valid [OF claim_normal this(2,1)] show ?thesis
    by simp (simp add: sample_claim_def zero_grant_def sample_opaque)
qed

end
