(* ===== verification/Observation.thy ===== *)
theory Observation
  imports Session_Reservation "HOL-Library.Monad_Syntax"
begin

text \<open>
  What the backend says of tasks (\<^verbatim>\<open>daemonapi/claim.go\<close>, \<^verbatim>\<open>observation.go\<close> and the helpers
  of \<^verbatim>\<open>client.go\<close>, \<^verbatim>\<open>compatibility.go\<close>): the claim a grant was made of, the rows of a task
  history, and when a row proves that the backend accepted a result that was sent.

  The classification of failure texts is a package outside the repository and a parameter
  (\<open>failure_rules\<close>).
\<close>

section \<open>Times and text\<close>

text \<open>\<^verbatim>\<open>time.Parse(time.RFC3339Nano, s)\<close>.  It is laxer than the JSON decoder: the hour may be one
  digit, the fraction may follow a comma, the offset may be 24 hours or 60 minutes.\<close>

definition comma_or_period :: "char \<Rightarrow> bool" where
  "comma_or_period c = (c = CHR ''.'' \<or> c = CHR '','')"

definition lax_fraction :: "string \<Rightarrow> int \<times> string" where
  "lax_fraction s =
    (case s of
       c # d # _ \<Rightarrow>
         (if comma_or_period c \<and> is_digit d then
            (let ds = takeWhile is_digit (tl s)
             in (int (decimal_val (take 9 (ds @ replicate 9 CHR ''0''))), drop (length ds) (tl s)))
          else (0, s))
     | _ \<Rightarrow> (0, s))"

definition lax_zone :: "string \<Rightarrow> (int \<times> string) option" where
  "lax_zone s =
    (if prefix ''Z'' s then Some (0, tl s)
     else if length s < 6 \<or> s ! 3 \<noteq> CHR '':'' then None
     else
       (case (num_range 0 24 (field_at 1 2 s), num_range 0 60 (field_at 4 2 s)) of
          (Some h, Some m) \<Rightarrow>
            (if hd s = CHR ''+'' then Some (h * 3600 + m * 60, drop 6 s)
             else if hd s = CHR ''-'' then Some (- (h * 3600 + m * 60), drop 6 s) else None)
        | _ \<Rightarrow> None))"

text \<open>A number of exactly two digits with the separator that follows it.\<close>

definition two_digits :: "int \<Rightarrow> int \<Rightarrow> string \<Rightarrow> string \<Rightarrow> (int \<times> string) option" where
  "two_digits lo hi sep s =
    (if length s < 2 \<or> \<not> prefix sep (drop 2 s) then None
     else map_option (\<lambda>n. (n, drop (2 + length sep) s)) (num_range lo hi (take 2 s)))"

definition lax_hour :: "string \<Rightarrow> (int \<times> string) option" where
  "lax_hour s =
    (if prefix '':'' (drop 1 s) then map_option (\<lambda>n. (n, drop 2 s)) (num_range 0 23 (take 1 s))
     else two_digits 0 23 '':'' s)"

definition parse_time :: "string \<Rightarrow> time option" where
  "parse_time s =
    (if length s < 5 \<or> s ! 4 \<noteq> CHR ''-'' then None
     else do {
       y \<leftarrow> num_range 0 9999 (take 4 s);
       (m, s1) \<leftarrow> two_digits 1 12 ''-'' (drop 5 s);
       (d, s2) \<leftarrow> two_digits 0 99 ''T'' s1;
       (h, s3) \<leftarrow> lax_hour s2;
       (mi, s4) \<leftarrow> two_digits 0 59 '':'' s3;
       (sec, s5) \<leftarrow> two_digits 0 59 '''' s4;
       (case lax_fraction s5 of (ns, s6) \<Rightarrow> do {
         (off, rest) \<leftarrow> lax_zone s6;
         (if rest \<noteq> [] \<or> d < 1 \<or> d > days_in y m then None
          else Some ((days_from_civil y m d * 86400 + h * 3600 + mi * 60 + sec - off) * second + ns))
       })
     })"

text \<open>\<^verbatim>\<open>strings.ToValidUTF8(s, "\uFFFD")\<close>: one replacement for each run of invalid bytes.\<close>

fun to_valid_fuel :: "nat \<Rightarrow> bool \<Rightarrow> string \<Rightarrow> string" where
  "to_valid_fuel 0 bad s = []"
| "to_valid_fuel (Suc n) bad s =
    (case s of
       [] \<Rightarrow> []
     | c # r \<Rightarrow>
         (case utf8_rune s of
            None \<Rightarrow> (if bad then [] else utf8_encode 0xFFFD) @ to_valid_fuel n True r
          | Some (_, w) \<Rightarrow> take w s @ to_valid_fuel n False (drop w s)))"

definition stored_text :: "string \<Rightarrow> string" where
  "stored_text s = filter (\<lambda>c. c \<noteq> nul_char) (to_valid_fuel (length s) False s)"

section \<open>Identifiers\<close>

definition observationID :: "env \<Rightarrow> string \<Rightarrow> bool" where
  "observationID e v =
    (case e_uuid_parse e v of
       None \<Rightarrow> False
     | Some raw \<Rightarrow> raw \<noteq> nil_uuid \<and> e_uuid_string e raw = v)"

definition wire_UUID :: "env \<Rightarrow> string \<Rightarrow> bool" where
  "wire_UUID e v =
    (case e_uuid_parse e v of
       None \<Rightarrow> False
     | Some raw \<Rightarrow> raw \<noteq> nil_uuid \<and> e_uuid_string e raw = v)"

text \<open>\<^verbatim>\<open>segment\<close> ranges over runes; a byte of a longer rune is in none of the ranges either.\<close>

definition segment :: "string \<Rightarrow> bool" where
  "segment v =
    (\<not> (v = [] \<or> v = ''.'' \<or> v = ''..'' \<or> length v > 512) \<and>
     list_all (\<lambda>c. in_range 97 122 c \<or> in_range 65 90 c \<or> is_digit c \<or> c = CHR ''-'' \<or> c = CHR ''_'' \<or>
                   c = CHR ''.'' \<or> c = CHR '':'') v)"

definition MaxPayload :: int where "MaxPayload = 8388608"

section \<open>Claims\<close>

record task_evidence =
  te_Kind :: string
  te_RefID :: string

record attribution_user =
  au_ID :: string

record attribution =
  at_Source :: string
  at_Precise :: bool
  at_Initiator :: "attribution_user option"
  at_Originator :: "attribution_user option"
  at_Evidence :: "task_evidence option"
  at_RuleVersionID :: string
  at_DelegatedFromTaskID :: string
  at_RetryOfTaskID :: string
  at_RerunOfTaskID :: string

record claim_repository =
  cr_URL :: string
  cr_Description :: string
  cr_Ref :: string

record project_resource =
  pr_ID :: string

record remote_connection =
  rc_InstallationID :: string
  rc_ContributionID :: string

record plugin_hook =
  ph_InstallationID :: string
  ph_HookKey :: string

record claim_agent =
  ca_ID :: string
  ca_SkillRefs :: "string list"
  ca_MCPConfig :: string

record claim =
  cl_Kind :: string
  cl_ID :: string
  cl_AgentID :: string
  cl_RuntimeID :: string
  cl_DispatchedAt :: string
  cl_WorkspaceID :: string
  cl_WorkspaceSlug :: string
  cl_IssueID :: string
  cl_IssueIdentifier :: string
  cl_Repos :: "claim_repository list"
  cl_AuthToken :: string
  cl_RemoteMCPDaemonToken :: string
  cl_PriorSessionID :: string
  cl_PriorWorkDir :: string
  cl_StartClaimSupported :: bool
  cl_CreatedAt :: string
  cl_ChatSessionID :: string
  cl_ChatChannelType :: string
  cl_ChatType :: string
  cl_AutopilotRunID :: string
  cl_AutopilotID :: string
  cl_QuickCreatePrompt :: string
  cl_NewCommentsDeltaKnown :: bool
  cl_IssueStateDeltaKnown :: bool
  cl_PriorSessionResumeUnavailable :: bool
  cl_Attribution :: "attribution option"
  cl_InitiatorID :: string
  cl_InitiatorType :: string
  cl_ConnectedApps :: string
  cl_ProjectResources :: "project_resource list"
  cl_RemoteMCPConnections :: "remote_connection list"
  cl_PluginHookTools :: "plugin_hook list"
  cl_Agent :: claim_agent
  cl_Envelope :: string

section \<open>Decoding claims\<close>

text \<open>A slice is decoded afresh, null is the nil slice.\<close>

definition dec_list :: "(json \<Rightarrow> 'a option) \<Rightarrow> 'a list \<Rightarrow> json \<Rightarrow> 'a list option" where
  "dec_list f z v = (case v of JNull \<Rightarrow> Some [] | JArr vs \<Rightarrow> those (map f vs) | _ \<Rightarrow> None)"

text \<open>A pointer: null is nil, else the object is decoded into what it points to, or a new zero.\<close>

definition dec_ptr :: "('a \<Rightarrow> json \<Rightarrow> 'a option) \<Rightarrow> 'a \<Rightarrow> 'a option \<Rightarrow> json \<Rightarrow> 'a option option" where
  "dec_ptr f zero z v =
    (if v = JNull then Some None else map_option Some (f (case z of None \<Rightarrow> zero | Some a \<Rightarrow> a) v))"

definition dec_user :: "attribution_user \<Rightarrow> json \<Rightarrow> attribution_user option" where
  "dec_user z = dec_struct z (\<lambda>ms. map_option (\<lambda>i. \<lparr>au_ID = i\<rparr>) (dec_field dec_string (au_ID z) [''id''] ''id'' ms))"

definition dec_evidence :: "task_evidence \<Rightarrow> json \<Rightarrow> task_evidence option" where
  "dec_evidence z =
    (let names = [''kind'', ''ref_id''] in
     dec_struct z (\<lambda>ms. do {
       k \<leftarrow> dec_field dec_string (te_Kind z) names ''kind'' ms;
       r \<leftarrow> dec_field dec_string (te_RefID z) names ''ref_id'' ms;
       Some \<lparr>te_Kind = k, te_RefID = r\<rparr>
     }))"

definition zero_attribution :: attribution where
  "zero_attribution =
    \<lparr>at_Source = [], at_Precise = False, at_Initiator = None, at_Originator = None, at_Evidence = None,
     at_RuleVersionID = [], at_DelegatedFromTaskID = [], at_RetryOfTaskID = [], at_RerunOfTaskID = []\<rparr>"

definition attribution_names :: "string list" where
  "attribution_names =
    [''source'', ''precise'', ''initiator'', ''originator'', ''evidence'', ''rule_version_id'',
     ''delegated_from_task_id'', ''retry_of_task_id'', ''rerun_of_task_id'']"

definition dec_attribution :: "attribution \<Rightarrow> json \<Rightarrow> attribution option" where
  "dec_attribution z =
    (let names = attribution_names; user = dec_ptr dec_user \<lparr>au_ID = []\<rparr> in
     dec_struct z (\<lambda>ms. do {
       source \<leftarrow> dec_field dec_string (at_Source z) names ''source'' ms;
       precise \<leftarrow> dec_field dec_bool (at_Precise z) names ''precise'' ms;
       initiator \<leftarrow> dec_field user (at_Initiator z) names ''initiator'' ms;
       originator \<leftarrow> dec_field user (at_Originator z) names ''originator'' ms;
       evidence \<leftarrow> dec_field (dec_ptr dec_evidence \<lparr>te_Kind = [], te_RefID = []\<rparr>) (at_Evidence z) names ''evidence'' ms;
       rule \<leftarrow> dec_field dec_string (at_RuleVersionID z) names ''rule_version_id'' ms;
       delegated \<leftarrow> dec_field dec_string (at_DelegatedFromTaskID z) names ''delegated_from_task_id'' ms;
       retry \<leftarrow> dec_field dec_string (at_RetryOfTaskID z) names ''retry_of_task_id'' ms;
       rerun \<leftarrow> dec_field dec_string (at_RerunOfTaskID z) names ''rerun_of_task_id'' ms;
       Some \<lparr>at_Source = source, at_Precise = precise, at_Initiator = initiator, at_Originator = originator,
         at_Evidence = evidence, at_RuleVersionID = rule, at_DelegatedFromTaskID = delegated,
         at_RetryOfTaskID = retry, at_RerunOfTaskID = rerun\<rparr>
     }))"

definition dec_claim_repository :: "json \<Rightarrow> claim_repository option" where
  "dec_claim_repository =
    (let names = [''url'', ''description'', ''ref'']; str = (\<lambda>n ms. dec_field dec_string [] names n ms) in
     dec_struct \<lparr>cr_URL = [], cr_Description = [], cr_Ref = []\<rparr> (\<lambda>ms. do {
       u \<leftarrow> str ''url'' ms; d \<leftarrow> str ''description'' ms; r \<leftarrow> str ''ref'' ms;
       Some \<lparr>cr_URL = u, cr_Description = d, cr_Ref = r\<rparr>
     }))"

definition dec_project_resource :: "json \<Rightarrow> project_resource option" where
  "dec_project_resource =
    dec_struct \<lparr>pr_ID = []\<rparr> (\<lambda>ms. map_option (\<lambda>i. \<lparr>pr_ID = i\<rparr>) (dec_field dec_string [] [''id''] ''id'' ms))"

definition dec_remote_connection :: "json \<Rightarrow> remote_connection option" where
  "dec_remote_connection =
    (let names = [''installation_id'', ''contribution_id''] in
     dec_struct \<lparr>rc_InstallationID = [], rc_ContributionID = []\<rparr> (\<lambda>ms. do {
       i \<leftarrow> dec_field dec_string [] names ''installation_id'' ms;
       c \<leftarrow> dec_field dec_string [] names ''contribution_id'' ms;
       Some \<lparr>rc_InstallationID = i, rc_ContributionID = c\<rparr>
     }))"

definition dec_plugin_hook :: "json \<Rightarrow> plugin_hook option" where
  "dec_plugin_hook =
    (let names = [''installation_id'', ''hook_key''] in
     dec_struct \<lparr>ph_InstallationID = [], ph_HookKey = []\<rparr> (\<lambda>ms. do {
       i \<leftarrow> dec_field dec_string [] names ''installation_id'' ms;
       h \<leftarrow> dec_field dec_string [] names ''hook_key'' ms;
       Some \<lparr>ph_InstallationID = i, ph_HookKey = h\<rparr>
     }))"

definition zero_claim_agent :: claim_agent where
  "zero_claim_agent = \<lparr>ca_ID = [], ca_SkillRefs = [], ca_MCPConfig = []\<rparr>"

definition dec_claim_agent :: "claim_agent \<Rightarrow> json \<Rightarrow> claim_agent option" where
  "dec_claim_agent z =
    (let names = [''id'', ''skill_refs'', ''mcp_config''] in
     dec_struct z (\<lambda>ms. do {
       i \<leftarrow> dec_field dec_string (ca_ID z) names ''id'' ms;
       refs \<leftarrow> dec_field (dec_list (dec_raw [])) (ca_SkillRefs z) names ''skill_refs'' ms;
       mcp \<leftarrow> dec_field dec_raw (ca_MCPConfig z) names ''mcp_config'' ms;
       Some \<lparr>ca_ID = i, ca_SkillRefs = refs, ca_MCPConfig = mcp\<rparr>
     }))"

definition claim_names :: "string list" where
  "claim_names =
    [''kind'', ''id'', ''agent_id'', ''runtime_id'', ''dispatched_at'', ''workspace_id'', ''workspace_slug'', ''issue_id'',
     ''issue_identifier'', ''repos'', ''auth_token'', ''remote_mcp_daemon_token'', ''prior_session_id'', ''prior_work_dir'',
     ''start_claim_supported'', ''created_at'', ''chat_session_id'', ''chat_channel_type'', ''chat_type'',
     ''autopilot_run_id'', ''autopilot_id'', ''quick_create_prompt'', ''new_comments_delta_known'',
     ''issue_state_delta_known'', ''prior_session_resume_unavailable'', ''attribution'', ''initiator_id'',
     ''initiator_type'', ''connected_apps'', ''project_resources'', ''remote_mcp_connections'', ''plugin_hook_tools'',
     ''agent'']"

definition claim_string :: "string \<Rightarrow> (string \<times> json) list \<Rightarrow> string option" where
  "claim_string n ms = dec_field dec_string [] claim_names n ms"

definition claim_bool :: "string \<Rightarrow> (string \<times> json) list \<Rightarrow> bool option" where
  "claim_bool n ms = dec_field dec_bool False claim_names n ms"

definition zero_claim :: claim where
  "zero_claim =
    \<lparr>cl_Kind = [], cl_ID = [], cl_AgentID = [], cl_RuntimeID = [], cl_DispatchedAt = [], cl_WorkspaceID = [],
     cl_WorkspaceSlug = [], cl_IssueID = [], cl_IssueIdentifier = [], cl_Repos = [], cl_AuthToken = [],
     cl_RemoteMCPDaemonToken = [], cl_PriorSessionID = [], cl_PriorWorkDir = [], cl_StartClaimSupported = False,
     cl_CreatedAt = [], cl_ChatSessionID = [], cl_ChatChannelType = [], cl_ChatType = [], cl_AutopilotRunID = [],
     cl_AutopilotID = [], cl_QuickCreatePrompt = [], cl_NewCommentsDeltaKnown = False, cl_IssueStateDeltaKnown = False,
     cl_PriorSessionResumeUnavailable = False, cl_Attribution = None, cl_InitiatorID = [], cl_InitiatorType = [],
     cl_ConnectedApps = [], cl_ProjectResources = [], cl_RemoteMCPConnections = [], cl_PluginHookTools = [],
     cl_Agent = zero_claim_agent, cl_Envelope = []\<rparr>"

definition dec_claim :: "json \<Rightarrow> claim option" where
  "dec_claim =
    dec_struct zero_claim (\<lambda>ms. do {
      kind \<leftarrow> claim_string ''kind'' ms; i \<leftarrow> claim_string ''id'' ms;
      agent_id \<leftarrow> claim_string ''agent_id'' ms; runtime_id \<leftarrow> claim_string ''runtime_id'' ms;
      dispatched \<leftarrow> claim_string ''dispatched_at'' ms; workspace_id \<leftarrow> claim_string ''workspace_id'' ms;
      slug \<leftarrow> claim_string ''workspace_slug'' ms; issue \<leftarrow> claim_string ''issue_id'' ms;
      identifier \<leftarrow> claim_string ''issue_identifier'' ms;
      repos \<leftarrow> dec_field (dec_list dec_claim_repository) [] claim_names ''repos'' ms;
      token \<leftarrow> claim_string ''auth_token'' ms; broker \<leftarrow> claim_string ''remote_mcp_daemon_token'' ms;
      prior_session \<leftarrow> claim_string ''prior_session_id'' ms; prior_dir \<leftarrow> claim_string ''prior_work_dir'' ms;
      start_claim \<leftarrow> claim_bool ''start_claim_supported'' ms; created \<leftarrow> claim_string ''created_at'' ms;
      chat \<leftarrow> claim_string ''chat_session_id'' ms; channel \<leftarrow> claim_string ''chat_channel_type'' ms;
      chat_type \<leftarrow> claim_string ''chat_type'' ms; autopilot_run \<leftarrow> claim_string ''autopilot_run_id'' ms;
      autopilot \<leftarrow> claim_string ''autopilot_id'' ms; quick \<leftarrow> claim_string ''quick_create_prompt'' ms;
      comments \<leftarrow> claim_bool ''new_comments_delta_known'' ms; delta \<leftarrow> claim_bool ''issue_state_delta_known'' ms;
      unavailable \<leftarrow> claim_bool ''prior_session_resume_unavailable'' ms;
      attribution \<leftarrow> dec_field (dec_ptr dec_attribution zero_attribution) None claim_names ''attribution'' ms;
      initiator \<leftarrow> claim_string ''initiator_id'' ms; initiator_type \<leftarrow> claim_string ''initiator_type'' ms;
      apps \<leftarrow> dec_field dec_raw [] claim_names ''connected_apps'' ms;
      resources \<leftarrow> dec_field (dec_list dec_project_resource) [] claim_names ''project_resources'' ms;
      connections \<leftarrow> dec_field (dec_list dec_remote_connection) [] claim_names ''remote_mcp_connections'' ms;
      hooks \<leftarrow> dec_field (dec_list dec_plugin_hook) [] claim_names ''plugin_hook_tools'' ms;
      agent \<leftarrow> dec_field dec_claim_agent zero_claim_agent claim_names ''agent'' ms;
      Some \<lparr>cl_Kind = kind, cl_ID = i, cl_AgentID = agent_id, cl_RuntimeID = runtime_id, cl_DispatchedAt = dispatched,
        cl_WorkspaceID = workspace_id, cl_WorkspaceSlug = slug, cl_IssueID = issue, cl_IssueIdentifier = identifier,
        cl_Repos = repos, cl_AuthToken = token, cl_RemoteMCPDaemonToken = broker, cl_PriorSessionID = prior_session,
        cl_PriorWorkDir = prior_dir, cl_StartClaimSupported = start_claim, cl_CreatedAt = created,
        cl_ChatSessionID = chat, cl_ChatChannelType = channel, cl_ChatType = chat_type,
        cl_AutopilotRunID = autopilot_run, cl_AutopilotID = autopilot, cl_QuickCreatePrompt = quick,
        cl_NewCommentsDeltaKnown = comments, cl_IssueStateDeltaKnown = delta,
        cl_PriorSessionResumeUnavailable = unavailable, cl_Attribution = attribution, cl_InitiatorID = initiator,
        cl_InitiatorType = initiator_type, cl_ConnectedApps = apps, cl_ProjectResources = resources,
        cl_RemoteMCPConnections = connections, cl_PluginHookTools = hooks, cl_Agent = agent, cl_Envelope = []\<rparr>
    })"

definition claim_ok :: "claim \<Rightarrow> bool" where
  "claim_ok cl =
    (segment (cl_ID cl) \<and> segment (cl_AgentID cl) \<and> segment (cl_RuntimeID cl) \<and> segment (cl_WorkspaceID cl) \<and>
     ca_ID (cl_Agent cl) = cl_AgentID cl \<and> prefix ''mat_'' (cl_AuthToken cl) \<and> length (cl_AuthToken cl) > 4 \<and>
     \<not> contains_any (cl_AuthToken cl) [cr_char, nl_char])"

definition ParseClaim :: "string \<Rightarrow> err + claim" where
  "ParseClaim body =
    (if int (length body) > MaxPayload then Inl (ErrText ''invalid official task claim'')
     else case unmarshal dec_claim body of
       None \<Rightarrow> Inl (ErrText ''invalid official task claim'')
     | Some cl \<Rightarrow>
         (if \<not> claim_ok cl then Inl (ErrText ''invalid official task claim'')
          else if cl_RemoteMCPConnections cl \<noteq> [] \<and> cl_RemoteMCPDaemonToken cl = []
          then Inl (ErrText ''missing task broker credential'')
          else if \<not> list_all (\<lambda>x. segment (rc_InstallationID x) \<and> segment (rc_ContributionID x)) (cl_RemoteMCPConnections cl)
          then Inl (ErrText ''invalid task contribution scope'')
          else if \<not> list_all (\<lambda>h. segment (ph_InstallationID h) \<and> segment (ph_HookKey h)) (cl_PluginHookTools cl)
          then Inl (ErrText ''invalid task hook scope'')
          else Inr (cl\<lparr>cl_Envelope := body\<rparr>)))"

text \<open>The conversation a claim belongs to (\<^verbatim>\<open>compatibility.go\<close>).\<close>

definition ConversationIdentity :: "env \<Rightarrow> string \<Rightarrow> claim \<Rightarrow> conversation_key" where
  "ConversationIdentity e owner cl =
    (let key = \<lparr>ck_OwnerID = owner, ck_WorkspaceID = cl_WorkspaceID cl, ck_Kind = ConversationTask,
                ck_SubjectID = cl_ID cl, ck_AgentID = cl_AgentID cl\<rparr>;
         plain = (cl_AutopilotRunID cl = [] \<and> cl_AutopilotID cl = [] \<and> cl_QuickCreatePrompt cl = [])
     in if cl_Kind cl = ''direct'' \<or> cl_Kind cl = ''comment'' then
          (if wire_UUID e (cl_IssueID cl) \<and> cl_ChatSessionID cl = [] \<and> plain
           then key\<lparr>ck_Kind := ConversationIssue, ck_SubjectID := cl_IssueID cl\<rparr> else key)
        else if cl_Kind cl = ''chat'' then
          (if wire_UUID e (cl_ChatSessionID cl) \<and> cl_IssueID cl = [] \<and> cl_ChatChannelType cl = [] \<and>
              cl_ChatType cl = [] \<and> plain
           then key\<lparr>ck_Kind := ConversationAgentDM, ck_SubjectID := cl_ChatSessionID cl\<rparr> else key)
        else key)"

end
