(* ===== verification/Task_History.thy ===== *)
theory Task_History
  imports Observation
begin

text \<open>
  The rows of the backend's task history (\<^verbatim>\<open>daemonapi/observation.go\<close>): how a row is decoded
  and when it proves that the backend stored exactly the result the controller sent.
\<close>

section \<open>Completion requests\<close>

record complete_request =
  cq_PRURL :: string
  cq_Output :: string
  cq_SessionID :: string
  cq_WorkDir :: string
  cq_DurableWorkDir :: string
  cq_BranchName :: string
  cq_SessionRolloutMissing :: bool
  cq_RetiredSessionID :: string

text \<open>Decoding an object into \<^verbatim>\<open>map[string]json.RawMessage\<close>: the last of several equal keys counts.\<close>

definition raw_fields :: "string \<Rightarrow> json gomap option" where
  "raw_fields raw =
    (case parse_json raw of
       Some (JObj ms) \<Rightarrow> Some (last_wins [] (map (\<lambda>(k, v). (unquote k, v)) ms))
     | _ \<Rightarrow> None)"

text \<open>\<^verbatim>\<open>DisallowUnknownFields\<close>\<close>

definition known_keys :: "string list \<Rightarrow> (string \<times> json) list \<Rightarrow> bool" where
  "known_keys names ms =
    list_all (\<lambda>(k, v). let u = unquote k in u \<in> set names \<or> fold_name u \<in> set (map fold_name names)) ms"

definition dec_strict :: "'a \<Rightarrow> string list \<Rightarrow> ((string \<times> json) list \<Rightarrow> 'a option) \<Rightarrow> json \<Rightarrow> 'a option" where
  "dec_strict z names f = dec_struct z (\<lambda>ms. if known_keys names ms then f ms else None)"

definition completion_names :: "string list" where
  "completion_names =
    [''pr_url'', ''output'', ''session_id'', ''work_dir'', ''durable_work_dir'', ''branch_name'',
     ''session_rollout_missing'', ''retired_session_id'']"

definition zero_completion :: complete_request where
  "zero_completion =
    \<lparr>cq_PRURL = [], cq_Output = [], cq_SessionID = [], cq_WorkDir = [], cq_DurableWorkDir = [], cq_BranchName = [],
     cq_SessionRolloutMissing = False, cq_RetiredSessionID = []\<rparr>"

definition dec_completion :: "json \<Rightarrow> complete_request option" where
  "dec_completion =
    (let str = (\<lambda>n ms. dec_field dec_string [] completion_names n ms) in
     dec_strict zero_completion completion_names (\<lambda>ms. do {
       url \<leftarrow> str ''pr_url'' ms; output \<leftarrow> str ''output'' ms; session \<leftarrow> str ''session_id'' ms;
       dir \<leftarrow> str ''work_dir'' ms; durable \<leftarrow> str ''durable_work_dir'' ms; branch \<leftarrow> str ''branch_name'' ms;
       missing \<leftarrow> dec_field dec_bool False completion_names ''session_rollout_missing'' ms;
       retired \<leftarrow> str ''retired_session_id'' ms;
       Some \<lparr>cq_PRURL = url, cq_Output = output, cq_SessionID = session, cq_WorkDir = dir, cq_DurableWorkDir = durable,
         cq_BranchName = branch, cq_SessionRolloutMissing = missing, cq_RetiredSessionID = retired\<rparr>
     }))"

definition stored_completion :: "complete_request \<Rightarrow> complete_request" where
  "stored_completion r =
    \<lparr>cq_PRURL = stored_text (cq_PRURL r), cq_Output = stored_text (cq_Output r), cq_SessionID = stored_text (cq_SessionID r),
     cq_WorkDir = stored_text (cq_WorkDir r), cq_DurableWorkDir = stored_text (cq_DurableWorkDir r),
     cq_BranchName = stored_text (cq_BranchName r), cq_SessionRolloutMissing = cq_SessionRolloutMissing r,
     cq_RetiredSessionID = stored_text (cq_RetiredSessionID r)\<rparr>"

definition parseCompletion :: "string \<Rightarrow> bool \<Rightarrow> err + complete_request" where
  "parseCompletion raw stored =
    (case (if raw = [] \<or> int (length raw) > MaxPayload then None else raw_fields raw) of
       None \<Rightarrow> Inl (ErrText ''completion witness unavailable'')
     | Some found \<Rightarrow>
         (if stored \<and> \<not> list_all (\<lambda>k. map_of found k \<noteq> None) [''pr_url'', ''output'', ''session_id'', ''work_dir'']
          then Inl (ErrText ''completion witness incomplete'')
          else if stored \<and> JNull \<in> set (mvals found) then Inl (ErrText ''completion witness unsupported'')
          else case unmarshal dec_completion raw of
            None \<Rightarrow> Inl (ErrText ''completion witness unsupported'')
          | Some r \<Rightarrow> Inr (if stored then r else stored_completion r)))"

section \<open>Rows\<close>

record observation =
  ob_ID :: string
  ob_WorkspaceID :: string
  ob_AgentID :: string
  ob_RuntimeID :: string
  ob_IssueID :: string
  ob_ChatSessionID :: string
  ob_Kind :: string
  ob_Status :: string
  ob_Error :: string
  ob_FailureReason :: string
  ob_CreatedAt :: string
  ob_DispatchedAt :: string
  ob_StartedAt :: string
  ob_CompletedAt :: string
  ob_WorkDir :: string
  ob_DurableWorkDir :: string
  ob_BranchName :: string
  ob_Attribution :: "attribution option"
  ob_Result :: "complete_request option"

definition zero_observation :: observation where
  "zero_observation =
    \<lparr>ob_ID = [], ob_WorkspaceID = [], ob_AgentID = [], ob_RuntimeID = [], ob_IssueID = [], ob_ChatSessionID = [],
     ob_Kind = [], ob_Status = [], ob_Error = [], ob_FailureReason = [], ob_CreatedAt = [], ob_DispatchedAt = [],
     ob_StartedAt = [], ob_CompletedAt = [], ob_WorkDir = [], ob_DurableWorkDir = [], ob_BranchName = [],
     ob_Attribution = None, ob_Result = None\<rparr>"

definition observation_names :: "string list" where
  "observation_names =
    [''id'', ''workspace_id'', ''agent_id'', ''runtime_id'', ''issue_id'', ''chat_session_id'', ''kind'', ''status'',
     ''error'', ''failure_reason'', ''created_at'', ''dispatched_at'', ''started_at'', ''completed_at'', ''work_dir'',
     ''durable_work_dir'', ''branch_name'', ''attribution'', ''result'']"

text \<open>\<^verbatim>\<open>TaskObservation.UnmarshalJSON\<close>: the result is kept only for a completed row whose stored request
  is complete and supported.\<close>

definition dec_observation :: "json \<Rightarrow> observation option" where
  "dec_observation =
    (let str = (\<lambda>n ms. dec_field dec_string [] observation_names n ms) in
     dec_struct zero_observation (\<lambda>ms. do {
       i \<leftarrow> str ''id'' ms; workspace \<leftarrow> str ''workspace_id'' ms; agent \<leftarrow> str ''agent_id'' ms;
       runtime \<leftarrow> str ''runtime_id'' ms; issue \<leftarrow> str ''issue_id'' ms; chat \<leftarrow> str ''chat_session_id'' ms;
       kind \<leftarrow> str ''kind'' ms; status \<leftarrow> str ''status'' ms; err \<leftarrow> str ''error'' ms;
       reason \<leftarrow> str ''failure_reason'' ms; created \<leftarrow> str ''created_at'' ms; dispatched \<leftarrow> str ''dispatched_at'' ms;
       started \<leftarrow> str ''started_at'' ms; completed \<leftarrow> str ''completed_at'' ms; dir \<leftarrow> str ''work_dir'' ms;
       durable \<leftarrow> str ''durable_work_dir'' ms; branch \<leftarrow> str ''branch_name'' ms;
       attribution \<leftarrow> dec_field (dec_ptr dec_attribution zero_attribution) None observation_names ''attribution'' ms;
       raw \<leftarrow> dec_field dec_raw [] observation_names ''result'' ms;
       Some \<lparr>ob_ID = i, ob_WorkspaceID = workspace, ob_AgentID = agent, ob_RuntimeID = runtime, ob_IssueID = issue,
         ob_ChatSessionID = chat, ob_Kind = kind, ob_Status = status, ob_Error = err, ob_FailureReason = reason,
         ob_CreatedAt = created, ob_DispatchedAt = dispatched, ob_StartedAt = started, ob_CompletedAt = completed,
         ob_WorkDir = dir, ob_DurableWorkDir = durable, ob_BranchName = branch, ob_Attribution = attribution,
         ob_Result = (if status = ''completed''
                      then (case parseCompletion raw True of Inl _ \<Rightarrow> None | Inr r \<Rightarrow> Some r) else None)\<rparr>
     }))"

section \<open>What a row proves\<close>

definition observedWorkDir :: "string \<Rightarrow> bool" where
  "observedWorkDir d = (d \<noteq> [] \<and> is_abs d \<and> clean_path d = d \<and> \<not> contains_any d [nul_char, CHR 0x5C])"

text \<open>\<^verbatim>\<open>Truncate(time.Second)\<close>\<close>

definition whole_second :: "time \<Rightarrow> time" where
  "whole_second t = t - t mod second"

definition MatchesResultClaim :: "env \<Rightarrow> observation \<Rightarrow> claim \<Rightarrow> bool" where
  "MatchesResultClaim e t cl =
    (let issue = (ob_IssueID t = cl_IssueID cl \<or>
                  cl_Kind cl = ''quick_create'' \<and> cl_IssueID cl = [] \<and> observationID e (ob_IssueID t))
     in if ob_ID t \<noteq> cl_ID cl \<or> ob_WorkspaceID t \<noteq> cl_WorkspaceID cl \<or> ob_AgentID t \<noteq> cl_AgentID cl \<or>
           ob_RuntimeID t \<noteq> cl_RuntimeID cl \<or> \<not> issue \<or> ob_ChatSessionID t \<noteq> cl_ChatSessionID cl \<or>
           ob_Kind t \<noteq> cl_Kind cl \<or> \<not> observationID e (ob_ID t) \<or> \<not> observationID e (ob_WorkspaceID t) \<or>
           \<not> observationID e (ob_AgentID t) \<or> \<not> observationID e (ob_RuntimeID t)
        then False
        else case (parse_time (cl_DispatchedAt cl), parse_time (ob_DispatchedAt t)) of
               (Some a, Some b) \<Rightarrow> whole_second a = whole_second b
             | _ \<Rightarrow> False)"

definition matchesStartedClaim :: "env \<Rightarrow> observation \<Rightarrow> claim \<Rightarrow> bool" where
  "matchesStartedClaim e t cl =
    (cl_StartClaimSupported cl \<and> MatchesResultClaim e t cl \<and>
     parse_time (ob_StartedAt t) \<noteq> None \<and> parse_time (ob_CompletedAt t) \<noteq> None)"

definition AcceptsCompletion :: "env \<Rightarrow> observation \<Rightarrow> claim \<Rightarrow> string \<Rightarrow> bool" where
  "AcceptsCompletion e t cl sent =
    (case parseCompletion sent False of
       Inl _ \<Rightarrow> False
     | Inr expected \<Rightarrow>
         ob_Result t \<noteq> None \<and> ob_Status t = ''completed'' \<and> matchesStartedClaim e t cl \<and>
         observedWorkDir (cq_WorkDir expected) \<and> ob_WorkDir t = cq_WorkDir expected \<and>
         ob_DurableWorkDir t = cq_DurableWorkDir expected \<and> ob_Result t = Some expected)"

text \<open>The classification of failures (\<^verbatim>\<open>taskfailure.Classify\<close>, \<^verbatim>\<open>NormalizeDaemonReason\<close>).\<close>

record failure_rules =
  fr_classify :: "string \<Rightarrow> string"
  fr_normalize :: "string \<Rightarrow> string \<Rightarrow> string"

definition transient_names :: "string list" where
  "transient_names = [''error'', ''work_dir'']"

definition dec_transient :: "json \<Rightarrow> (string \<times> string) option" where
  "dec_transient =
    dec_strict ([], []) transient_names (\<lambda>ms. do {
      err \<leftarrow> dec_field dec_string [] transient_names ''error'' ms;
      dir \<leftarrow> dec_field dec_string [] transient_names ''work_dir'' ms;
      Some (err, dir)
    })"

definition AcceptsTransientFailure :: "env \<Rightarrow> failure_rules \<Rightarrow> observation \<Rightarrow> claim \<Rightarrow> string \<Rightarrow> bool" where
  "AcceptsTransientFailure e fr t cl sent =
    (case (if sent = [] \<or> int (length sent) > MaxPayload then None else raw_fields sent) of
       None \<Rightarrow> False
     | Some found \<Rightarrow>
         (if length found \<noteq> 2 \<or> map_of found ''error'' = None \<or> map_of found ''work_dir'' = None then False
          else case unmarshal dec_transient sent of
            None \<Rightarrow> False
          | Some (err0, dir0) \<Rightarrow>
              (let err = stored_text err0; dir = stored_text dir0; reason = fr_normalize fr (fr_classify fr err) err
               in ob_Status t = ''failed'' \<and> matchesStartedClaim e t cl \<and> err \<noteq> [] \<and> observedWorkDir dir \<and>
                  ob_Error t = err \<and> ob_FailureReason t = reason \<and> ob_WorkDir t = dir \<and> ob_DurableWorkDir t = [])))"

record fail_request =
  fq_Error :: string
  fq_SessionID :: string
  fq_WorkDir :: string
  fq_DurableWorkDir :: string
  fq_FailureReason :: string
  fq_BranchName :: string
  fq_SessionRolloutMissing :: bool
  fq_RetiredSessionID :: string

definition failure_names :: "string list" where
  "failure_names =
    [''error'', ''session_id'', ''work_dir'', ''durable_work_dir'', ''failure_reason'', ''branch_name'',
     ''session_rollout_missing'', ''retired_session_id'']"

definition dec_failure :: "json \<Rightarrow> fail_request option" where
  "dec_failure =
    (let str = (\<lambda>n ms. dec_field dec_string [] failure_names n ms) in
     dec_strict \<lparr>fq_Error = [], fq_SessionID = [], fq_WorkDir = [], fq_DurableWorkDir = [], fq_FailureReason = [],
         fq_BranchName = [], fq_SessionRolloutMissing = False, fq_RetiredSessionID = []\<rparr> failure_names (\<lambda>ms. do {
       err \<leftarrow> str ''error'' ms; session \<leftarrow> str ''session_id'' ms; dir \<leftarrow> str ''work_dir'' ms;
       durable \<leftarrow> str ''durable_work_dir'' ms; reason \<leftarrow> str ''failure_reason'' ms; branch \<leftarrow> str ''branch_name'' ms;
       missing \<leftarrow> dec_field dec_bool False failure_names ''session_rollout_missing'' ms;
       retired \<leftarrow> str ''retired_session_id'' ms;
       Some \<lparr>fq_Error = err, fq_SessionID = session, fq_WorkDir = dir, fq_DurableWorkDir = durable,
         fq_FailureReason = reason, fq_BranchName = branch, fq_SessionRolloutMissing = missing,
         fq_RetiredSessionID = retired\<rparr>
     }))"

definition AcceptsFailure :: "env \<Rightarrow> failure_rules \<Rightarrow> observation \<Rightarrow> claim \<Rightarrow> string \<Rightarrow> bool" where
  "AcceptsFailure e fr t cl sent =
    (case (if sent = [] \<or> int (length sent) > MaxPayload then None else unmarshal dec_failure sent) of
       None \<Rightarrow> False
     | Some f \<Rightarrow>
         (let err = stored_text (fq_Error f); dir = stored_text (fq_WorkDir f);
              durable = stored_text (fq_DurableWorkDir f); given_reason = stored_text (fq_FailureReason f);
              branch = stored_text (fq_BranchName f);
              reason = fr_normalize fr (if given_reason = [] then fr_classify fr err else given_reason) err
          in ob_Status t = ''failed'' \<and> matchesStartedClaim e t cl \<and> err \<noteq> [] \<and> observedWorkDir dir \<and>
             ob_Error t = err \<and> ob_FailureReason t = reason \<and> ob_WorkDir t = dir \<and>
             (durable = [] \<or> ob_DurableWorkDir t = durable) \<and> (branch = [] \<or> ob_BranchName t = branch)))"

section \<open>Authority of a claim\<close>

definition observationClaim :: "env \<Rightarrow> claim \<Rightarrow> bool" where
  "observationClaim e cl =
    (observationID e (cl_ID cl) \<and> observationID e (cl_WorkspaceID cl) \<and> observationID e (cl_AgentID cl) \<and>
     observationID e (cl_RuntimeID cl) \<and> ca_ID (cl_Agent cl) = cl_AgentID cl \<and> prefix ''mat_'' (cl_AuthToken cl) \<and>
     length (cl_AuthToken cl) > 4 \<and> \<not> contains_any (cl_AuthToken cl) [cr_char, nl_char])"

definition attribution_sources :: "string list" where
  "attribution_sources =
    [''direct_human'', ''delegation'', ''comment_source'', ''trigger_owner'', ''rule_owner'', ''owner_fallback'',
     ''backfill'', ''unattributed'']"

definition validAttribution :: "env \<Rightarrow> attribution option \<Rightarrow> bool" where
  "validAttribution e attribution =
    (case attribution of
       None \<Rightarrow> True
     | Some a \<Rightarrow>
         at_Source a \<in> set attribution_sources \<and>
         list_all (\<lambda>user. case user of None \<Rightarrow> True | Some u \<Rightarrow> observationID e (au_ID u)) [at_Initiator a, at_Originator a] \<and>
         list_all (\<lambda>i. i = [] \<or> observationID e i)
           [at_DelegatedFromTaskID a, at_RetryOfTaskID a, at_RerunOfTaskID a, at_RuleVersionID a] \<and>
         (case at_Evidence a of
            None \<Rightarrow> True
          | Some ev \<Rightarrow> te_Kind ev \<noteq> [] \<and> (te_RefID ev = [] \<or> observationID e (te_RefID ev))))"

definition emptyDeliveryArray :: "string \<Rightarrow> bool" where
  "emptyDeliveryArray raw =
    (raw = [] \<or> trim_space raw = ''null'' \<or> unmarshal (dec_list (dec_raw []) []) raw = Some [])"

definition emptyMCPDocument :: "string \<Rightarrow> bool" where
  "emptyMCPDocument raw =
    (raw = [] \<or> trim_space raw = ''null'' \<or>
     (case raw_fields raw of
        None \<Rightarrow> False
      | Some document \<Rightarrow>
          list_all (\<lambda>(key, value). (key = ''mcpServers'' \<or> key = ''mcp'') \<and> (value = JNull \<or> value = JObj [])) document))"

end
