(* ===== verification/Continuity.thy ===== *)
theory Continuity
  imports Task_History Validate_Grants
begin

text \<open>
  Choosing the execution a conversation continues (\<^verbatim>\<open>controller/continuity_selection.go\<close>).
  \<open>selectConversationSource\<close> compares what the backend hints at (the claim and its task history)
  with the executions the journal has witnessed, and either selects a storage with the sources of
  its session and workspace or refuses with a reason.  Where the code returns a reason beside a
  zero value the model returns \<open>Inl\<close> of the reason.
\<close>

section \<open>Evidence\<close>

record continuity_evidence =
  ev_Grants :: "task_grant list"
  ev_Storages :: "storage list"
  ev_Terminals :: "terminal gomap"
  ev_History :: "observation list"
  ev_HistoryKnown :: bool
  ev_WarmSessions :: "worker_session gomap"

record continuity_facts =
  cf_key :: conversation_key
  cf_compatibility :: string
  cf_history :: "observation list"
  cf_rows :: "observation gomap"
  cf_grants :: "task_grant gomap"
  cf_witnesses :: "task_grant gomap"
  cf_storages :: "storage gomap"
  cf_terminals :: "terminal gomap"

definition grantSource :: "task_grant \<Rightarrow> checkpoint_source" where
  "grantSource g = \<lparr>src_TaskID = g_TaskID g, src_AttemptID = g_AttemptID g\<rparr>"

text \<open>The witness of a grant that has one; the code dereferences it only there.\<close>

definition zero_witness :: completion_witness where
  "zero_witness =
    \<lparr>cw_TaskID = [], cw_AttemptID = [], cw_WorkerSessionID = [], cw_StorageID = [], cw_TurnSequence = 0,
     cw_RequestDigest = [], cw_ResultDigest = [], cw_Status = [], cw_SessionID = [], cw_WorkDir = [],
     cw_AcknowledgedAt = 0\<rparr>"

definition witness_of :: "task_grant \<Rightarrow> completion_witness" where
  "witness_of g = (case g_CompletionWitness g of None \<Rightarrow> zero_witness | Some w \<Rightarrow> w)"

definition observesConversation :: "claim \<Rightarrow> conversation_key \<Rightarrow> bool" where
  "observesConversation cl key =
    (if cl_WorkspaceID cl \<noteq> ck_WorkspaceID key \<or> cl_AgentID cl \<noteq> ck_AgentID key \<or> cl_AutopilotRunID cl \<noteq> [] \<or>
        cl_AutopilotID cl \<noteq> [] \<or> cl_QuickCreatePrompt cl \<noteq> [] then False
     else if ck_Kind key = ConversationIssue then
       cl_IssueID cl = ck_SubjectID key \<and> cl_ChatSessionID cl = [] \<and> (cl_Kind cl = ''direct'' \<or> cl_Kind cl = ''comment'')
     else ck_Kind key = ConversationAgentDM \<and> cl_ChatSessionID cl = ck_SubjectID key \<and> cl_Kind cl = ''chat'' \<and>
       cl_ChatChannelType cl = [] \<and> cl_ChatType cl = [])"

definition workspace_root :: string where "workspace_root = ''/workspace''"

definition validLocalWriter :: "env \<Rightarrow> continuity_facts \<Rightarrow> task_grant \<Rightarrow> storage \<Rightarrow> bool" where
  "validLocalWriter e f g b =
    (if g_Legacy g \<or> \<not> g_SessionProtocol g \<or> g_Conversation g \<noteq> cf_key f \<or>
        g_CompatibilityDigest g \<noteq> cf_compatibility f \<or> \<not> wire_UUID e (g_TaskID g) \<or>
        \<not> wire_UUID e (g_WorkerSessionID g) \<or> \<not> wire_UUID e (g_RuntimeID g) \<or> g_TurnSequence g = 0 \<or>
        \<not> given (g_Selection g) sel_ReuseEligible \<or> g_StorageID g \<noteq> b_ID b \<or> g_TaskRoot g \<noteq> b_TaskRoot b \<or>
        g_WorkspaceAnchorTaskID g \<noteq> b_WorkspaceAnchorTaskID b \<or> b_Conversation b \<noteq> cf_key f \<or>
        g_WorkspaceCompatibilityDigest g \<noteq> b_WorkspaceCompatibilityDigest b \<or>
        ValidateTaskRoot e workspace_root (b_TaskRoot b) (ck_WorkspaceID (cf_key f)) (b_WorkspaceAnchorTaskID b) \<noteq> Inr ()
     then False
     else case ParseClaim (g_Envelope g) of
       Inl _ \<Rightarrow> False
     | Inr original \<Rightarrow>
         cl_StartClaimSupported original \<and> cl_ID original = g_TaskID g \<and> cl_RuntimeID original = g_RuntimeID g \<and>
         cl_WorkspaceID original = g_WorkspaceID g \<and> cl_AgentID original = g_AgentID g \<and>
         observesConversation original (cf_key f))"

section \<open>Witnessed executions\<close>

text \<open>What a witness says of a turn that failed before it resumed, and of one that completed.\<close>

definition transient_witness :: "task_grant \<Rightarrow> terminal \<Rightarrow> completion_witness \<Rightarrow> resume_pointers \<Rightarrow> bool" where
  "transient_witness g t w r =
    (t_Kind t = KindFail \<and> rp_ResumeRejectedTransient r \<and> rp_SessionID r = [] \<and> cw_SessionID w = [] \<and>
     \<not> rp_SessionRolloutMissing r \<and> rp_MissingSessionID r = [] \<and> rp_RetiredSessionID r = [] \<and>
     given (g_Prepared g) (\<lambda>p. p_Provider p = ''pi'') \<and>
     given (g_Selection g) (\<lambda>s. sel_Mode s = SelectionResume \<and> sel_SessionID s \<noteq> [] \<and>
       g_ResumeSession g = sel_SessionID s \<and> sel_StorageID s = g_StorageID g \<and> sel_WorkDir s = cw_WorkDir w))"

definition completed_witness :: "terminal \<Rightarrow> completion_witness \<Rightarrow> resume_pointers \<Rightarrow> bool" where
  "completed_witness t w r =
    (t_Kind t = KindComplete \<and> cw_Status w = ''completed'' \<and> \<not> rp_ResumeRejectedTransient r \<and>
     cw_SessionID w = (if rp_SessionRolloutMissing r \<or> rp_SessionID r = rp_RetiredSessionID r then [] else rp_SessionID r))"

definition validWitness :: "env \<Rightarrow> continuity_facts \<Rightarrow> task_grant \<Rightarrow> bool" where
  "validWitness e f g =
    (case (map_of (cf_storages f) (g_StorageID g), g_CompletionWitness g, map_of (cf_terminals f) (g_AttemptID g)) of
       (Some b, Some w, Some t) \<Rightarrow>
         (if \<not> validLocalWriter e f g b \<or> \<not> g_StartConfirmed g \<or> t_TaskID t \<noteq> g_TaskID g \<or>
             t_AttemptID t \<noteq> g_AttemptID g \<or> t_Source t \<noteq> SourceWorker \<or> t_State t \<noteq> DDelivered \<or>
             t_RecoveryFailure t \<noteq> None \<or> t_ResultReceipt t = None \<or> cw_TaskID w \<noteq> g_TaskID g \<or>
             cw_AttemptID w \<noteq> g_AttemptID g \<or> cw_WorkerSessionID w \<noteq> g_WorkerSessionID g \<or>
             cw_StorageID w \<noteq> g_StorageID g \<or> cw_TurnSequence w \<noteq> g_TurnSequence g \<or> cw_AcknowledgedAt w = 0 \<or>
             cw_RequestDigest w \<noteq> t_RequestDigest t \<or> cw_ResultDigest w \<noteq> t_ResultDigest t \<or>
             cw_WorkDir w \<noteq> g_TaskRoot g @ ''/workdir'' \<or>
             t_RequestDigest t \<noteq> TerminalDigest e (terminal_kind_text (t_Kind t)) (t_Body t)
          then False
          else case g_PendingResume g of
            None \<Rightarrow> False
          | Some r \<Rightarrow>
              (if rp_WorkDir r \<noteq> cw_WorkDir w then False
               else if cw_Status w = ''failed'' then transient_witness g t w r
               else completed_witness t w r))
     | _ \<Rightarrow> False)"

definition validTransientSource :: "continuity_facts \<Rightarrow> task_grant \<Rightarrow> bool" where
  "validTransientSource f g =
    given (g_Selection g) (\<lambda>s.
      given (map_of (cf_witnesses f) (src_TaskID (sel_SessionSource s))) (\<lambda>source.
        cw_Status (witness_of source) = ''completed'' \<and> grantSource source = sel_SessionSource s \<and>
        g_StorageID source = g_StorageID g \<and> cw_SessionID (witness_of source) = sel_SessionID s \<and>
        cw_WorkDir (witness_of source) = sel_WorkDir s))"

section \<open>Facts\<close>

text \<open>The time that orders a row: the first of its four timestamps that is given.\<close>

definition observationTime :: "observation \<Rightarrow> time option" where
  "observationTime row =
    (case filter (\<lambda>raw. raw \<noteq> []) [ob_CompletedAt row, ob_StartedAt row, ob_DispatchedAt row, ob_CreatedAt row] of
       [] \<Rightarrow> None
     | raw # _ \<Rightarrow> parse_time raw)"

fun observe_storages :: "env \<Rightarrow> storage gomap \<Rightarrow> storage list \<Rightarrow> storage gomap option" where
  "observe_storages e m [] = Some m"
| "observe_storages e m (b # bs) =
    (if map_of m (b_ID b) \<noteq> None \<or> \<not> wire_UUID e (b_ID b) then None
     else observe_storages e (AList.update (b_ID b) b m) bs)"

fun observe_grants :: "env \<Rightarrow> task_grant gomap \<Rightarrow> task_grant list \<Rightarrow> task_grant gomap option" where
  "observe_grants e m [] = Some m"
| "observe_grants e m (g # gs) =
    (if map_of m (g_AttemptID g) \<noteq> None \<or> \<not> wire_UUID e (g_AttemptID g) then None
     else observe_grants e (AList.update (g_AttemptID g) g m) gs)"

definition other_conversation :: "claim \<Rightarrow> conversation_key \<Rightarrow> observation \<Rightarrow> bool" where
  "other_conversation cl key row =
    (ob_ID row = cl_ID cl \<or> ob_AgentID row \<noteq> ck_AgentID key \<or>
     ck_Kind key = ConversationIssue \<and> ob_IssueID row \<noteq> ck_SubjectID key \<or>
     ck_Kind key = ConversationAgentDM \<and> ob_ChatSessionID row \<noteq> ck_SubjectID key)"

text \<open>The rows of the conversation in their order, and the rows by task.\<close>

fun observe_rows ::
  "env \<Rightarrow> claim \<Rightarrow> conversation_key \<Rightarrow> string list \<Rightarrow> observation list \<Rightarrow> observation list option" where
  "observe_rows e cl key seen [] = Some []"
| "observe_rows e cl key seen (row # rows) =
    (if \<not> wire_UUID e (ob_ID row) \<or> ob_ID row \<in> set seen \<or> ob_WorkspaceID row \<noteq> ck_WorkspaceID key then None
     else if other_conversation cl key row then observe_rows e cl key (ob_ID row # seen) rows
     else if observationTime row = None then None
     else map_option (\<lambda>kept. row # kept) (observe_rows e cl key (ob_ID row # seen) rows))"

definition row_map :: "observation list \<Rightarrow> observation gomap" where
  "row_map rows = map (\<lambda>row. (ob_ID row, row)) rows"

text \<open>A witnessed grant whose task the history shows must also be accepted there.\<close>

definition accepted_by_row :: "env \<Rightarrow> failure_rules \<Rightarrow> continuity_facts \<Rightarrow> task_grant \<Rightarrow> bool" where
  "accepted_by_row e fr f g =
    (case map_of (cf_rows f) (g_TaskID g) of
       None \<Rightarrow> True
     | Some row \<Rightarrow>
         (case ParseClaim (g_Envelope g) of
            Inl _ \<Rightarrow> False
          | Inr original \<Rightarrow>
              (let body = t_Body (mget zero_terminal (cf_terminals f) (g_AttemptID g)) in
               cw_Status (witness_of g) = ''completed'' \<and> AcceptsCompletion e row original body \<or>
               cw_Status (witness_of g) = ''failed'' \<and> AcceptsTransientFailure e fr row original body)))"

fun observe_witnesses ::
  "env \<Rightarrow> failure_rules \<Rightarrow> continuity_facts \<Rightarrow> task_grant gomap \<Rightarrow> string list \<Rightarrow> task_grant list \<Rightarrow>
   task_grant gomap \<times> string list" where
  "observe_witnesses e fr f m ambiguous [] = (m, ambiguous)"
| "observe_witnesses e fr f m ambiguous (g # gs) =
    (if \<not> validWitness e f g \<or> \<not> accepted_by_row e fr f g then observe_witnesses e fr f m ambiguous gs
     else observe_witnesses e fr f (AList.update (g_TaskID g) g m)
            (if map_of m (g_TaskID g) \<noteq> None then g_TaskID g # ambiguous else ambiguous) gs)"

text \<open>The ambiguous tasks are dropped, then the failed turns whose session source is not witnessed.  The second
  loop deletes only failed witnesses and looks only for completed ones, so its order does not matter.\<close>

definition settle_witnesses :: "continuity_facts \<Rightarrow> task_grant gomap \<times> string list \<Rightarrow> continuity_facts" where
  "settle_witnesses f found =
    (case found of (m, ambiguous) \<Rightarrow>
       (let f1 = f\<lparr>cf_witnesses := filter (\<lambda>(task, g). task \<notin> set ambiguous) m\<rparr>
        in f1\<lparr>cf_witnesses :=
             filter (\<lambda>(task, g). \<not> (cw_Status (witness_of g) = ''failed'' \<and> \<not> validTransientSource f1 g))
               (cf_witnesses f1)\<rparr>))"

definition observeContinuityFacts ::
  "env \<Rightarrow> failure_rules \<Rightarrow> claim \<Rightarrow> conversation_key \<Rightarrow> string \<Rightarrow> continuity_evidence \<Rightarrow> continuity_facts option" where
  "observeContinuityFacts e fr cl key compatibility ev =
    do {
      storages \<leftarrow> observe_storages e [] (ev_Storages ev);
      grants \<leftarrow> observe_grants e [] (ev_Grants ev);
      history \<leftarrow> observe_rows e cl key [] (ev_History ev);
      (let f = \<lparr>cf_key = key, cf_compatibility = compatibility, cf_history = history, cf_rows = row_map history,
                cf_grants = grants, cf_witnesses = [], cf_storages = storages, cf_terminals = ev_Terminals ev\<rparr>
       in Some (settle_witnesses f (observe_witnesses e fr f [] [] (ev_Grants ev))))
    }"

definition retired :: "continuity_facts \<Rightarrow> string \<Rightarrow> bool" where
  "retired f session =
    (list_ex (\<lambda>b. b_Conversation b = cf_key f \<and> session \<in> set (b_RetiredSessions b)) (mvals (cf_storages f)) \<or>
     list_ex (\<lambda>row. given (ob_Result row) (\<lambda>r. cq_RetiredSessionID r = session)) (cf_history f) \<or>
     list_ex (\<lambda>g. g_Conversation g = cf_key f \<and>
        given (g_PendingResume g) (\<lambda>r. rp_RetiredSessionID r = session \<or> rp_MissingSessionID r = session))
       (mvals (cf_grants f)))"

section \<open>The latest row\<close>

text \<open>\<^verbatim>\<open>compare\<close>: \<open>None\<close> when the order is not known.\<close>

definition turn_order :: "continuity_facts \<Rightarrow> observation \<Rightarrow> observation \<Rightarrow> int option" where
  "turn_order f a b =
    (case (map_of (cf_witnesses f) (ob_ID a), map_of (cf_witnesses f) (ob_ID b)) of
       (Some l, Some r) \<Rightarrow>
         (if g_WorkerSessionID l \<noteq> [] \<and> g_WorkerSessionID l = g_WorkerSessionID r \<and> g_TurnSequence l \<noteq> g_TurnSequence r
          then Some (if g_TurnSequence l > g_TurnSequence r then 1 else - 1) else None)
     | _ \<Rightarrow> None)"

definition compare_rows :: "continuity_facts \<Rightarrow> bool \<Rightarrow> observation \<Rightarrow> observation \<Rightarrow> int option" where
  "compare_rows f chat a b =
    (if ob_ID a = ob_ID b then Some 0
     else if chat \<and> turn_order f a b \<noteq> None then turn_order f a b
     else case (observationTime a, observationTime b) of
            (Some l, Some r) \<Rightarrow> (if l = r then None else Some (if l > r then 1 else - 1))
          | _ \<Rightarrow> None)"

definition comes_after :: "continuity_facts \<Rightarrow> bool \<Rightarrow> observation \<Rightarrow> observation \<Rightarrow> bool" where
  "comes_after f chat a b = (case compare_rows f chat a b of None \<Rightarrow> False | Some order \<Rightarrow> order > 0)"

definition latest :: "continuity_facts \<Rightarrow> observation list \<Rightarrow> bool \<Rightarrow> string + observation" where
  "latest f rows chat =
    (case rows of
       [] \<Rightarrow> Inl ''selected_producer_unavailable''
     | first # rest \<Rightarrow>
         (let selected = foldl (\<lambda>best row. if comes_after f chat row best then row else best) first rest
          in if list_all (\<lambda>row. ob_ID row = ob_ID selected \<or> comes_after f chat selected row) rows
             then Inr selected else Inl ''timestamp_ambiguous''))"

section \<open>Sources\<close>

definition completed_result :: "observation \<Rightarrow> (complete_request \<Rightarrow> bool) \<Rightarrow> bool" where
  "completed_result row p = (ob_Status row = ''completed'' \<and> given (ob_Result row) p)"

definition issueSource :: "continuity_facts \<Rightarrow> claim \<Rightarrow> string + task_grant" where
  "issueSource f cl =
    (case latest f (filter (\<lambda>row. completed_result row (\<lambda>r.
            \<not> cq_SessionRolloutMissing r \<and> cq_SessionID r = cl_PriorSessionID cl)) (cf_history f)) False of
       Inl reason \<Rightarrow> Inl reason
     | Inr selected \<Rightarrow>
         (if \<not> list_all (\<lambda>row. ob_Status row = ''completed'' \<and> ob_Result row = None \<longrightarrow>
                comes_after f False selected row) (cf_history f)
          then Inl ''completed_source_ambiguous''
          else case map_of (cf_witnesses f) (ob_ID selected) of
            None \<Rightarrow> Inl ''selected_producer_unwitnessed''
          | Some source \<Rightarrow>
              (if ob_RuntimeID selected \<noteq> cl_RuntimeID cl \<or> ob_WorkDir selected \<noteq> cl_PriorWorkDir cl \<or>
                  cw_SessionID (witness_of source) \<noteq> cl_PriorSessionID cl \<or>
                  cw_WorkDir (witness_of source) \<noteq> cl_PriorWorkDir cl
               then Inl ''selected_producer_unwitnessed'' else Inr source)))"

text \<open>A failed turn the journal has witnessed.\<close>

definition witnessed_failure :: "continuity_facts \<Rightarrow> observation \<Rightarrow> bool" where
  "witnessed_failure f row =
    given (map_of (cf_witnesses f) (ob_ID row)) (\<lambda>source. cw_Status (witness_of source) = ''failed'')"

definition session_row :: "observation \<Rightarrow> bool" where
  "session_row row = completed_result row (\<lambda>r. cq_SessionID r \<noteq> [] \<and> \<not> cq_SessionRolloutMissing r)"

definition workspace_row :: "continuity_facts \<Rightarrow> observation \<Rightarrow> bool" where
  "workspace_row f row =
    (ob_Status row = ''failed'' \<and> witnessed_failure f row \<or> completed_result row (\<lambda>r. cq_WorkDir r \<noteq> []))"

definition cancelledChatPinBlocked :: "observation \<Rightarrow> observation list \<Rightarrow> bool" where
  "cancelledChatPinBlocked cancelled rows =
    (case parse_time (ob_CreatedAt cancelled) of
       None \<Rightarrow> False
     | Some created \<Rightarrow> list_ex (\<lambda>newer. given (parse_time (ob_CreatedAt newer)) (\<lambda>t. t > created)) rows)"

text \<open>Whether a row of the chat leaves the pointers' writer unknown, and why.\<close>

definition chat_row_reason :: "continuity_facts \<Rightarrow> observation list \<Rightarrow> observation list \<Rightarrow> observation \<Rightarrow> string option" where
  "chat_row_reason f chosen sessions row =
    (if ob_Status row = ''queued'' then None
     else if ob_Status row = ''cancelled'' then
       (if cancelledChatPinBlocked row sessions then None else Some ''cancelled_chat_producer_unknown'')
     else if ob_Status row = ''completed'' \<or> ob_Status row = ''failed'' then
       (if ob_Status row = ''completed'' \<and> ob_Result row \<noteq> None \<or> ob_Status row = ''failed'' \<and> witnessed_failure f row
        then None
        else if list_all (\<lambda>selected. ob_ID selected = [] \<or> comes_after f True selected row) chosen then None
        else Some ''chat_pointer_writer_unknown'')
     else Some ''chat_writer_unresolved'')"

fun first_reason :: "string option list \<Rightarrow> string option" where
  "first_reason [] = None"
| "first_reason (None # rs) = first_reason rs"
| "first_reason (Some r # rs) = Some r"

text \<open>The producer of the session a chat claim names, when it names one.\<close>

definition chat_session :: "continuity_facts \<Rightarrow> claim \<Rightarrow> string + (observation \<times> task_grant)" where
  "chat_session f cl =
    (if cl_PriorSessionID cl = [] then Inr (zero_observation, zero_grant)
     else case latest f (filter session_row (cf_history f)) True of
       Inl reason \<Rightarrow> Inl reason
     | Inr session \<Rightarrow>
         (case map_of (cf_witnesses f) (ob_ID session) of
            None \<Rightarrow> Inl ''session_producer_unwitnessed''
          | Some source \<Rightarrow>
              (if ob_RuntimeID session \<noteq> cl_RuntimeID cl \<or>
                  \<not> given (ob_Result session) (\<lambda>r. cq_SessionID r = cl_PriorSessionID cl) \<or>
                  cw_SessionID (witness_of source) \<noteq> cl_PriorSessionID cl
               then Inl ''session_producer_unwitnessed'' else Inr (session, source))))"

definition chatSources :: "continuity_facts \<Rightarrow> claim \<Rightarrow> string + (task_grant \<times> task_grant)" where
  "chatSources f cl =
    (case latest f (filter (workspace_row f) (cf_history f)) True of
       Inl reason \<Rightarrow> Inl reason
     | Inr work \<Rightarrow>
         (case map_of (cf_witnesses f) (ob_ID work) of
            None \<Rightarrow> Inl ''workspace_producer_unwitnessed''
          | Some workspace \<Rightarrow>
              (if ob_WorkDir work \<noteq> cl_PriorWorkDir cl \<or> cw_WorkDir (witness_of workspace) \<noteq> cl_PriorWorkDir cl
               then Inl ''workspace_producer_unwitnessed''
               else case chat_session f cl of
                 Inl reason \<Rightarrow> Inl reason
               | Inr (session, source) \<Rightarrow>
                   (case first_reason (map (chat_row_reason f [work, session] (filter session_row (cf_history f)))
                           (cf_history f)) of
                      Some reason \<Rightarrow> Inl reason
                    | None \<Rightarrow> Inr (source, workspace)))))"

section \<open>Encoding the evidence\<close>

definition witness_json :: "completion_witness option \<Rightarrow> json option" where
  "witness_json x =
    (case x of
       None \<Rightarrow> Some JNull
     | Some w \<Rightarrow>
         obj_opt ([(''taskID'', Some (jstr (cw_TaskID w))), (''attemptID'', Some (jstr (cw_AttemptID w))),
           (''workerSessionID'', Some (jstr (cw_WorkerSessionID w))), (''storageID'', Some (jstr (cw_StorageID w))),
           (''turnSequence'', Some (ju64 (cw_TurnSequence w))), (''requestDigest'', Some (jstr (cw_RequestDigest w))),
           (''resultDigest'', Some (jstr (cw_ResultDigest w))), (''status'', Some (jstr (cw_Status w)))] @
           omit_if (cw_SessionID w = []) ''sessionID'' (Some (jstr (cw_SessionID w))) @
           omit_if (cw_WorkDir w = []) ''workDir'' (Some (jstr (cw_WorkDir w))) @
           [(''acknowledgedAt'', jtime (cw_AcknowledgedAt w))]))"

definition source_json :: "checkpoint_source \<Rightarrow> json" where
  "source_json s = JObj [(''taskID'', jstr (src_TaskID s)), (''attemptID'', jstr (src_AttemptID s))]"

fun mode_text :: "selection_mode \<Rightarrow> string" where
  "mode_text SelectionResume = ''resume''"
| "mode_text SelectionFreshSession = ''fresh_session''"
| "mode_text SelectionFreshWorkspace = ''fresh_workspace''"
| "mode_text (OtherMode s) = s"

definition selection_json :: "selection \<Rightarrow> json" where
  "selection_json s =
    JObj ([(''conversation'', conversation_key_json (sel_Conversation s)), (''reuseEligible'', JBool (sel_ReuseEligible s)),
      (''workspaceReuseEligible'', JBool (sel_WorkspaceReuseEligible s)), (''mode'', jstr (mode_text (sel_Mode s)))] @
      jomit (sel_StorageID s = []) ''storageID'' (jstr (sel_StorageID s)) @
      [(''sessionSource'', source_json (sel_SessionSource s)), (''workspaceSource'', source_json (sel_WorkspaceSource s)),
       (''latestWriter'', source_json (sel_LatestWriter s))] @
      jomit (sel_SessionID s = []) ''sessionID'' (jstr (sel_SessionID s)) @
      jomit (sel_WorkDir s = []) ''workDir'' (jstr (sel_WorkDir s)) @
      jomit (sel_EvidenceDigest s = []) ''evidenceDigest'' (jstr (sel_EvidenceDigest s)) @
      jomit (sel_Reason s = []) ''reason'' (jstr (sel_Reason s)))"

definition user_json :: "attribution_user \<Rightarrow> json" where
  "user_json u = JObj [(''id'', jstr (au_ID u))]"

definition attribution_json :: "attribution \<Rightarrow> json" where
  "attribution_json a =
    JObj ([(''source'', jstr (at_Source a)), (''precise'', JBool (at_Precise a))] @
      jomit (at_Initiator a = None) ''initiator'' (jopt user_json (at_Initiator a)) @
      jomit (at_Originator a = None) ''originator'' (jopt user_json (at_Originator a)) @
      jomit (at_Evidence a = None) ''evidence''
        (jopt (\<lambda>ev. JObj [(''kind'', jstr (te_Kind ev)), (''ref_id'', jstr (te_RefID ev))]) (at_Evidence a)) @
      jomit (at_RuleVersionID a = []) ''rule_version_id'' (jstr (at_RuleVersionID a)) @
      jomit (at_DelegatedFromTaskID a = []) ''delegated_from_task_id'' (jstr (at_DelegatedFromTaskID a)) @
      jomit (at_RetryOfTaskID a = []) ''retry_of_task_id'' (jstr (at_RetryOfTaskID a)) @
      jomit (at_RerunOfTaskID a = []) ''rerun_of_task_id'' (jstr (at_RerunOfTaskID a)))"

definition completion_json :: "complete_request \<Rightarrow> json" where
  "completion_json r =
    JObj ([(''pr_url'', jstr (cq_PRURL r)), (''output'', jstr (cq_Output r)), (''session_id'', jstr (cq_SessionID r)),
      (''work_dir'', jstr (cq_WorkDir r))] @
      jomit (cq_DurableWorkDir r = []) ''durable_work_dir'' (jstr (cq_DurableWorkDir r)) @
      jomit (cq_BranchName r = []) ''branch_name'' (jstr (cq_BranchName r)) @
      jomit (\<not> cq_SessionRolloutMissing r) ''session_rollout_missing'' (JBool True) @
      jomit (cq_RetiredSessionID r = []) ''retired_session_id'' (jstr (cq_RetiredSessionID r)))"

definition observation_json :: "observation \<Rightarrow> json" where
  "observation_json t =
    JObj ([(''id'', jstr (ob_ID t)), (''workspace_id'', jstr (ob_WorkspaceID t)), (''agent_id'', jstr (ob_AgentID t)),
      (''runtime_id'', jstr (ob_RuntimeID t)), (''issue_id'', jstr (ob_IssueID t)),
      (''chat_session_id'', jstr (ob_ChatSessionID t)), (''kind'', jstr (ob_Kind t)), (''status'', jstr (ob_Status t)),
      (''error'', jstr (ob_Error t)), (''failure_reason'', jstr (ob_FailureReason t)),
      (''created_at'', jstr (ob_CreatedAt t)), (''dispatched_at'', jstr (ob_DispatchedAt t)),
      (''started_at'', jstr (ob_StartedAt t)), (''completed_at'', jstr (ob_CompletedAt t)),
      (''work_dir'', jstr (ob_WorkDir t)), (''durable_work_dir'', jstr (ob_DurableWorkDir t)),
      (''branch_name'', jstr (ob_BranchName t)), (''attribution'', jopt attribution_json (ob_Attribution t))] @
      jomit (ob_Result t = None) ''result'' (jopt completion_json (ob_Result t)))"

fun grant_state_text :: "grant_state \<Rightarrow> string" where
  "grant_state_text WaitingStorage = ''waiting_storage''"
| "grant_state_text Intent = ''intent''"
| "grant_state_text Assigned = ''assigned''"
| "grant_state_text Ready = ''ready''"
| "grant_state_text Offered = ''offered''"
| "grant_state_text Starting = ''starting''"
| "grant_state_text Started = ''started''"
| "grant_state_text TerminalReceived = ''terminal_received''"
| "grant_state_text Quarantined = ''quarantined''"
| "grant_state_text Unexecuted = ''unexecuted''"
| "grant_state_text Closed = ''closed''"
| "grant_state_text (OtherState s) = s"

definition selection_evidence ::
  "claim \<Rightarrow> string \<Rightarrow> selection \<Rightarrow> task_grant \<Rightarrow> task_grant \<Rightarrow> task_grant \<Rightarrow> storage \<Rightarrow> bool \<Rightarrow> observation list \<Rightarrow> string" where
  "selection_evidence cl named s workspace session latest_grant b known history =
    (case (witness_json (g_CompletionWitness workspace), witness_json (g_CompletionWitness session),
           witness_json (g_CompletionWitness latest_grant)) of
       (Some w1, Some w2, Some w3) \<Rightarrow>
         tuple_text [jstr ''multica-continuity-selection-v1'', conversation_key_json (sel_Conversation s), jstr (cl_ID cl),
           jstr (cl_DispatchedAt cl), jstr named, selection_json s, w1, w2,
           JArr [source_json (grantSource latest_grant), jstr (g_WorkerSessionID latest_grant),
             ju64 (g_TurnSequence latest_grant), jstr (grant_state_text (g_State latest_grant)),
             JBool (g_StartConfirmed latest_grant), JBool (g_TurnComplete latest_grant), w3,
             jstr (b_ActiveAttempt b), JBool (b_Dirty b)],
           JBool known, (if history = [] then JNull else JArr (map observation_json (sort_key ob_ID history)))]
     | _ \<Rightarrow> [])"

section \<open>The selection\<close>

definition fresh_workspace :: "conversation_key \<Rightarrow> bool \<Rightarrow> selection" where
  "fresh_workspace key eligible =
    zero_selection\<lparr>sel_Conversation := key, sel_ReuseEligible := (eligible \<and> ck_Kind key \<noteq> ConversationTask),
      sel_WorkspaceReuseEligible := eligible, sel_Mode := SelectionFreshWorkspace\<rparr>"

text \<open>The task a rerun or a retry names.\<close>

definition named_task :: "claim \<Rightarrow> conversation_key \<Rightarrow> string" where
  "named_task cl key =
    (case cl_Attribution cl of
       None \<Rightarrow> []
     | Some a \<Rightarrow>
         (let rerun = (if ck_Kind key = ConversationIssue then at_RerunOfTaskID a else [])
          in if rerun = [] \<and> cl_PriorSessionID cl = [] then at_RetryOfTaskID a else rerun))"

definition named_sources :: "continuity_facts \<Rightarrow> claim \<Rightarrow> string \<Rightarrow> string + (task_grant \<times> task_grant)" where
  "named_sources f cl named =
    (case map_of (cf_witnesses f) named of
       None \<Rightarrow> Inl ''named_source_unwitnessed''
     | Some workspace \<Rightarrow>
         (if cw_WorkDir (witness_of workspace) \<noteq> cl_PriorWorkDir cl then Inl ''named_source_unwitnessed''
          else if cl_PriorSessionID cl = [] then Inr (zero_grant, workspace)
          else if cw_SessionID (witness_of workspace) \<noteq> cl_PriorSessionID cl then Inl ''named_session_mismatch''
          else Inr (workspace, workspace)))"

definition unnamed_sources ::
  "continuity_facts \<Rightarrow> claim \<Rightarrow> conversation_key \<Rightarrow> bool \<Rightarrow> string + (task_grant \<times> task_grant)" where
  "unnamed_sources f cl key known =
    (if \<not> known then Inl ''history_unavailable''
     else if ck_Kind key = ConversationIssue then
       (if cl_PriorSessionID cl = [] then Inl ''workspace_source_unselected''
        else if \<not> cl_IssueStateDeltaKnown cl \<and> \<not> cl_NewCommentsDeltaKnown cl then Inl ''completed_source_unproven''
        else case issueSource f cl of Inl reason \<Rightarrow> Inl reason | Inr source \<Rightarrow> Inr (source, source))
     else chatSources f cl)"

definition warm_owner :: "conversation_key \<Rightarrow> storage \<Rightarrow> worker_session gomap \<Rightarrow> bool" where
  "warm_owner key b warm =
    given (map_of warm (b_ID b)) (\<lambda>owner.
      ws_ProtocolVersion owner = session_protocol \<and> ws_ID owner = b_WriterSessionID b \<and> ws_Conversation owner = key \<and>
      ws_StorageID owner = b_ID b \<and> ws_State owner = SessionIdle \<and> ws_Stop owner = None \<and> ws_ActiveAttempt owner = [] \<and>
      ws_LastCompleteAttempt owner = src_AttemptID (b_LatestWriter b))"

text \<open>From the sources to the selected storage, its latest writer and the recorded selection.\<close>

definition select_storage ::
  "env \<Rightarrow> continuity_facts \<Rightarrow> claim \<Rightarrow> continuity_evidence \<Rightarrow> string \<Rightarrow> task_grant \<Rightarrow> task_grant \<Rightarrow> string + selection" where
  "select_storage e f cl ev named session workspace =
    (if cl_PriorSessionID cl \<noteq> [] \<and> retired f (cl_PriorSessionID cl) then Inl ''selected_session_retired''
     else case map_of (cf_storages f) (g_StorageID workspace) of
       None \<Rightarrow> Inl ''selected_storage_unavailable''
     | Some b \<Rightarrow>
         (if b_TaskRoot b @ ''/workdir'' \<noteq> cl_PriorWorkDir cl \<or> b_Quarantined b then Inl ''selected_storage_unavailable''
          else if b_ActiveAttempt b = [] \<and> b_Dirty b \<and> \<not> warm_owner (cf_key f) b (ev_WarmSessions ev)
          then Inl ''selected_storage_unavailable''
          else if g_AttemptID session \<noteq> [] \<and> g_StorageID session \<noteq> b_ID b
          then Inl ''independent_sources_use_different_storage''
          else case map_of (cf_grants f) (src_AttemptID (b_LatestWriter b)) of
            None \<Rightarrow> Inl ''latest_writer_unproven''
          | Some g \<Rightarrow>
              (if grantSource g \<noteq> b_LatestWriter b \<or> \<not> validLocalWriter e f g b then Inl ''latest_writer_unproven''
               else
                 (let s0 = zero_selection\<lparr>sel_Conversation := cf_key f, sel_ReuseEligible := True,
                        sel_WorkspaceReuseEligible := True, sel_Mode := SelectionFreshSession, sel_StorageID := b_ID b,
                        sel_WorkspaceSource := grantSource workspace, sel_LatestWriter := b_LatestWriter b,
                        sel_WorkDir := b_TaskRoot b @ ''/workdir''\<rparr>;
                      s = (if g_AttemptID session \<noteq> []
                           then s0\<lparr>sel_Mode := SelectionResume, sel_SessionSource := grantSource session,
                                   sel_SessionID := cl_PriorSessionID cl\<rparr> else s0)
                  in Inr (s\<lparr>sel_EvidenceDigest :=
                       e_digest e (selection_evidence cl named s workspace session g b (ev_HistoryKnown ev) (cf_history f))\<rparr>)))))"

definition hinted_dir_ok :: "claim \<Rightarrow> bool" where
  "hinted_dir_ok cl =
    (is_abs (cl_PriorWorkDir cl) \<and> clean_path (cl_PriorWorkDir cl) = cl_PriorWorkDir cl \<and>
     \<not> contains_any (cl_PriorWorkDir cl) [nul_char, cr_char, nl_char, CHR 0x5C])"

definition selectConversationSource ::
  "env \<Rightarrow> failure_rules \<Rightarrow> claim \<Rightarrow> conversation_key \<Rightarrow> string \<Rightarrow> bool \<Rightarrow> continuity_evidence \<Rightarrow> selection" where
  "selectConversationSource e fr cl key compatibility eligible ev =
    (let fresh = fresh_workspace key eligible; deny = (\<lambda>reason. fresh\<lparr>sel_Reason := reason\<rparr>) in
     if \<not> eligible \<or> \<not> ConversationKey_Valid e key \<or> ck_Kind key = ConversationTask \<or> \<not> ValidSHA compatibility \<or>
        cl_WorkspaceID cl \<noteq> ck_WorkspaceID key \<or> cl_AgentID cl \<noteq> ck_AgentID key \<or> \<not> cl_StartClaimSupported cl
     then (deny ''continuity_authority_unknown'')\<lparr>sel_ReuseEligible := False\<rparr>
     else if \<not> observesConversation cl key then (deny ''conversation_scope_mismatch'')\<lparr>sel_ReuseEligible := False\<rparr>
     else if cl_PriorWorkDir cl = [] then deny ''selected_workspace_unavailable''
     else if \<not> hinted_dir_ok cl then deny ''selected_workspace_invalid''
     else case observeContinuityFacts e fr cl key compatibility ev of
       None \<Rightarrow> deny ''history_scope_ambiguous''
     | Some f \<Rightarrow>
         (let named = named_task cl key in
          case (if named \<noteq> [] then named_sources f cl named else unnamed_sources f cl key (ev_HistoryKnown ev)) of
            Inl reason \<Rightarrow> deny reason
          | Inr (session, workspace) \<Rightarrow>
              (case select_storage e f cl ev named session workspace of Inl reason \<Rightarrow> deny reason | Inr s \<Rightarrow> s)))"

end
