(* ===== verification/Plain_Text.thy ===== *)
theory Plain_Text
  imports Json_Text
begin

text \<open>
  Documents whose strings need no escape: their text parses back, their strings decode to
  themselves, and a struct's field takes the members that have its name.
\<close>

definition plain_char :: "char \<Rightarrow> bool" where
  "plain_char c = (\<not> (of_char c :: nat) < 32 \<and> (of_char c :: nat) < 128 \<and> c \<noteq> CHR 0x22 \<and> c \<noteq> CHR 0x5C)"

lemma plain_string_text: "list_all plain_char l \<Longrightarrow> string_text l"
proof -
  have "scan_string (l @ CHR 0x22 # t) = Some (l, t)" if "list_all plain_char l" for t
    using that by (induction l) (auto simp: plain_char_def)
  then show "list_all plain_char l \<Longrightarrow> string_text l"
    by (simp add: string_text_def)
qed

lemma plain_unquote: "list_all plain_char l \<Longrightarrow> unquote l = l"
proof -
  assume "list_all plain_char l"
  then have "unquote_fuel (length l) l = l"
    by (induction l) (simp_all add: plain_char_def)
  then show "unquote l = l"
    by (simp add: unquote_def)
qed

fun plain_doc :: "json \<Rightarrow> nat \<Rightarrow> bool" where
  "plain_doc (JStr l) d = list_all plain_char l"
| "plain_doc (JNum l) d = False"
| "plain_doc (JArr vs) d = (d \<noteq> 0 \<and> (\<forall>v\<in>set vs. plain_doc v (d - 1)))"
| "plain_doc (JObj ms) d = (d \<noteq> 0 \<and> (\<forall>p\<in>set ms. list_all plain_char (fst p) \<and> plain_doc (snd p) (d - 1)))"
| "plain_doc _ d = True"

lemma plain_parsed: "plain_doc v d \<Longrightarrow> parsed v d"
  by (induction v d rule: plain_doc.induct) (auto simp: plain_string_text)

lemma plain_parses:
  assumes "plain_doc v max_depth"
  shows "parse_json (json_text v) = Some v"
proof -
  have "parse_val (parse_fuel (json_text v)) max_depth (json_text v @ []) = Some (v, [])"
    using assms by (intro parse_text) (auto simp: parse_fuel_def plain_parsed)
  then show ?thesis
    by (simp add: parse_json_def skip_ws_def)
qed

lemma plain_unmarshal: "plain_doc v max_depth \<Longrightarrow> unmarshal dec (json_text v) = dec v"
  by (simp add: unmarshal_def plain_parses)

text \<open>Members that all have exact field names.\<close>

definition exact_names :: "string list \<Rightarrow> (string \<times> json) list \<Rightarrow> bool" where
  "exact_names names ms = list_all (\<lambda>(k, v). list_all plain_char k \<and> k \<in> set names) ms"

lemma exact_field_values:
  "exact_names names ms \<Longrightarrow> field_values names name ms = map snd (filter (\<lambda>p. fst p = name) ms)"
  by (induction ms) (auto simp: exact_names_def field_values_def plain_unquote Let_def)

lemma exact_dec_field:
  "exact_names names ms \<Longrightarrow> dec_field f z names name ms = dec_fold f z (map snd (filter (\<lambda>p. fst p = name) ms))"
  by (simp add: dec_field_def exact_field_values)

lemma dec_plain: "list_all plain_char l \<Longrightarrow> dec_string z (JStr l) = Some l" "dec_bool w (JBool b) = Some b"
  by (simp_all add: dec_string_def dec_bool_def plain_unquote)

end
