(* ===== verification/Sample_Continuity.thy ===== *)
theory Sample_Continuity
  imports Continuity Sample_Turns Plain_Text
begin

text \<open>
  A conversation with one delivered turn: the envelope the turn was claimed with, its grant and
  storage, and a later claim that reruns it.
\<close>

lemma wire_UUID_canonical [simp]: "wire_UUID e = canonicalUUID e"
  by (simp add: wire_UUID_def [abs_def] canonicalUUID_def [abs_def])

definition told :: "(string \<times> string) list \<Rightarrow> (string \<times> json) list" where
  "told ms = map (\<lambda>(k, v). (k, JStr v)) ms"

definition turn_doc :: json where
  "turn_doc = JObj (told [(''kind'', ''direct''), (''id'', uuid_b), (''agent_id'', uuid_d), (''runtime_id'', uuid_d),
     (''workspace_id'', uuid_a), (''issue_id'', uuid_c), (''auth_token'', ''mat_x'')] @
     [(''start_claim_supported'', JBool True), (''agent'', JObj [(''id'', JStr uuid_d)])])"

definition past_witness :: completion_witness where
  "past_witness = \<lparr>cw_TaskID = uuid_b, cw_AttemptID = uuid_c, cw_WorkerSessionID = uuid_a, cw_StorageID = uuid_d,
     cw_TurnSequence = 1, cw_RequestDigest = sample_sha, cw_ResultDigest = sample_sha, cw_Status = ''completed'',
     cw_SessionID = ''s'', cw_WorkDir = sample_root @ ''/workdir'', cw_AcknowledgedAt = 9\<rparr>"

definition past_grant :: task_grant where
  "past_grant = zero_grant\<lparr>g_TaskID := uuid_b, g_AttemptID := uuid_c, g_WorkerSessionID := uuid_a, g_StorageID := uuid_d,
     g_TurnSequence := 1, g_RuntimeID := uuid_d, g_WorkspaceID := uuid_a, g_AgentID := uuid_d, g_SessionProtocol := True,
     g_Conversation := sample_key, g_CompatibilityDigest := sample_sha, g_WorkspaceCompatibilityDigest := sample_sha,
     g_Selection := Some (sample_selection\<lparr>sel_ReuseEligible := True\<rparr>), g_TaskRoot := sample_root,
     g_WorkspaceAnchorTaskID := uuid_b, g_StartConfirmed := True, g_CompletionWitness := Some past_witness,
     g_PendingResume := Some \<lparr>rp_MissingSessionID = [], rp_SessionID = ''s'', rp_WorkDir = sample_root @ ''/workdir'',
       rp_RetiredSessionID = [], rp_SessionRolloutMissing = False, rp_ResumeRejectedTransient = False\<rparr>,
     g_Envelope := json_text turn_doc\<rparr>"

definition past_receipt :: result_receipt where
  "past_receipt = \<lparr>rc_WorkerSessionID = uuid_a, rc_TurnSequence = 1, rc_TaskID = uuid_b, rc_AttemptID = uuid_c, rc_PodUID = [],
     rc_PVCUID = [], rc_RequestDigest = sample_sha, rc_Nonce = [], rc_Signature = ''ok''\<rparr>"

definition past_terminal :: terminal where
  "past_terminal = zero_terminal\<lparr>t_TaskID := uuid_b, t_AttemptID := uuid_c, t_Source := SourceWorker, t_State := DDelivered,
     t_Kind := KindComplete, t_ResultReceipt := Some past_receipt, t_RequestDigest := sample_sha, t_ResultDigest := sample_sha\<rparr>"

definition past_storage :: storage where
  "past_storage = turn_storage_rec\<lparr>b_LatestWriter := grantSource past_grant\<rparr>"

definition past_evidence :: continuity_evidence where
  "past_evidence = \<lparr>ev_Grants = [past_grant], ev_Storages = [past_storage], ev_Terminals = [(uuid_c, past_terminal)],
     ev_History = [], ev_HistoryKnown = False, ev_WarmSessions = []\<rparr>"

definition rerun_claim :: claim where
  "rerun_claim = zero_claim\<lparr>cl_Kind := ''direct'', cl_ID := uuid_a, cl_AgentID := uuid_d, cl_RuntimeID := uuid_d,
     cl_WorkspaceID := uuid_a, cl_IssueID := uuid_c, cl_StartClaimSupported := True, cl_PriorSessionID := ''s'',
     cl_PriorWorkDir := sample_root @ ''/workdir'',
     cl_Attribution := Some (zero_attribution\<lparr>at_RerunOfTaskID := uuid_b\<rparr>)\<rparr>"

definition no_rules :: failure_rules where
  "no_rules = \<lparr>fr_classify = (\<lambda>_. []), fr_normalize = (\<lambda>r _. r)\<rparr>"

definition turn_original :: claim where
  "turn_original = zero_claim\<lparr>cl_Kind := ''direct'', cl_ID := uuid_b, cl_AgentID := uuid_d, cl_RuntimeID := uuid_d,
     cl_WorkspaceID := uuid_a, cl_IssueID := uuid_c, cl_AuthToken := ''mat_x'', cl_StartClaimSupported := True,
     cl_Agent := zero_claim_agent\<lparr>ca_ID := uuid_d\<rparr>\<rparr>"

lemma plain_uuids [simp]: "list_all plain_char uuid_a" "list_all plain_char uuid_b" "list_all plain_char uuid_c" "list_all plain_char uuid_d"
  by (simp_all add: uuid_a_def uuid_b_def uuid_c_def uuid_d_def plain_char_def)

lemma turn_doc_plain: "plain_doc turn_doc max_depth"
  by (simp add: turn_doc_def told_def max_depth_def) (simp add: plain_char_def)

lemma turn_doc_decodes: "dec_claim turn_doc = Some turn_original"
proof -
  define ms where "ms = told [(''kind'', ''direct''), (''id'', uuid_b), (''agent_id'', uuid_d), (''runtime_id'', uuid_d),
     (''workspace_id'', uuid_a), (''issue_id'', uuid_c), (''auth_token'', ''mat_x'')] @
     [(''start_claim_supported'', JBool True), (''agent'', JObj [(''id'', JStr uuid_d)])]"
  have "exact_names claim_names ms"
    by (simp add: exact_names_def claim_names_def ms_def told_def) (simp add: plain_char_def)
  note f = exact_dec_field [OF this]
  have "exact_names [''id'', ''skill_refs'', ''mcp_config''] [(''id'', JStr uuid_d)]"
    by (simp add: exact_names_def) (simp add: plain_char_def)
  note g = exact_dec_field [OF this]
  have t: "list_all plain_char ''direct''" "list_all plain_char ''mat_x''"
    by (simp_all add: plain_char_def)
  have "dec_claim (JObj ms) = Some turn_original"
    unfolding dec_claim_def dec_struct_def claim_string_def claim_bool_def json.case f
    by (simp add: ms_def told_def dec_plain t [THEN dec_plain(1)] dec_claim_agent_def dec_struct_def g Let_def)
      (simp add: turn_original_def zero_claim_def zero_claim_agent_def)
  then show ?thesis
    by (simp add: turn_doc_def ms_def)
qed

lemma turn_original_parsed [simp]: "ParseClaim (json_text turn_doc) = Inr (turn_original\<lparr>cl_Envelope := json_text turn_doc\<rparr>)"
proof -
  have "length (json_text turn_doc) < 1000" "claim_ok turn_original"
    by code_simp+
  then show ?thesis
    by (simp add: ParseClaim_def plain_unmarshal [OF turn_doc_plain] turn_doc_decodes MaxPayload_def)
     (simp add: turn_original_def zero_claim_def)
qed

lemma turn_original_fields [simp]:
  "cl_StartClaimSupported turn_original" "cl_ID turn_original = uuid_b" "cl_RuntimeID turn_original = uuid_d"
  "cl_WorkspaceID turn_original = uuid_a" "cl_AgentID turn_original = uuid_d"
  by (simp_all add: turn_original_def)

lemma past_grant_fields [simp]:
  "g_TaskID past_grant = uuid_b" "g_AttemptID past_grant = uuid_c" "g_StorageID past_grant = uuid_d"
  "g_Envelope past_grant = json_text turn_doc" "g_CompletionWitness past_grant = Some past_witness"
  "g_Conversation past_grant = sample_key" "g_TaskRoot past_grant = sample_root"
  by (simp_all add: past_grant_def)

lemma past_storage_fields [simp]:
  "b_ID past_storage = uuid_d" "b_TaskRoot past_storage = sample_root" "b_LatestWriter past_storage = grantSource past_grant"
  "\<not> b_Quarantined past_storage" "\<not> b_Dirty past_storage" "b_RetiredSessions past_storage = []"
  by (simp_all add: past_storage_def turn_storage_rec_def zero_storage_def)

lemma past_writer:
  "cf_key f = sample_key \<Longrightarrow> cf_compatibility f = sample_sha \<Longrightarrow> validLocalWriter (sample_env uuid_a) f past_grant past_storage"
  using sample_root_valid
  by (simp add: validLocalWriter_def workspace_root_def)
   (simp add: past_grant_def zero_grant_def past_storage_def turn_storage_rec_def given_def sample_key_def
      observesConversation_def turn_original_def zero_claim_def)

definition past_facts :: continuity_facts where
  "past_facts = \<lparr>cf_key = sample_key, cf_compatibility = sample_sha, cf_history = [], cf_rows = [],
     cf_grants = [(uuid_c, past_grant)], cf_witnesses = [(uuid_b, past_grant)], cf_storages = [(uuid_d, past_storage)],
     cf_terminals = [(uuid_c, past_terminal)]\<rparr>"

lemma past_terminal_digest [simp]: "TerminalDigest (sample_env uuid_a) k body = sample_sha"
  by (simp add: TerminalDigest_def)

lemma past_valid_witness:
  assumes "cf_key f = sample_key" "cf_compatibility f = sample_sha" "cf_storages f = [(uuid_d, past_storage)]"
    "cf_terminals f = [(uuid_c, past_terminal)]"
  shows "validWitness (sample_env uuid_a) f past_grant"
  using past_writer [of f] assms
  by (simp add: validWitness_def)
    (simp add: past_grant_def past_terminal_def zero_terminal_def past_witness_def completed_witness_def)

lemma past_observed:
  "observeContinuityFacts (sample_env uuid_a) fr cl sample_key sample_sha past_evidence = Some past_facts"
  by (simp add: observeContinuityFacts_def past_evidence_def past_valid_witness accepted_by_row_def row_map_def
      settle_witnesses_def witness_of_def Let_def)
    (simp add: past_facts_def past_witness_def)

lemma past_session:
  "select_storage (sample_env uuid_a) past_facts rerun_claim past_evidence uuid_b past_grant past_grant =
   Inr (zero_selection\<lparr>sel_Conversation := sample_key, sel_ReuseEligible := True, sel_WorkspaceReuseEligible := True,
     sel_Mode := SelectionResume, sel_StorageID := uuid_d, sel_SessionSource := grantSource past_grant,
     sel_WorkspaceSource := grantSource past_grant, sel_LatestWriter := grantSource past_grant, sel_SessionID := ''s'',
     sel_WorkDir := sample_root @ ''/workdir'', sel_EvidenceDigest := sample_sha\<rparr>)"
proof -
  have "\<not> retired past_facts ''s''"
    by (simp add: retired_def past_facts_def mvals_def) (simp add: past_grant_def given_def)
  moreover have "cf_storages past_facts = [(uuid_d, past_storage)]" "cf_grants past_facts = [(uuid_c, past_grant)]"
    "cf_key past_facts = sample_key" "cf_compatibility past_facts = sample_sha"
    by (simp_all add: past_facts_def)
  moreover have "src_AttemptID (grantSource past_grant) = uuid_c"
    by (simp add: grantSource_def)
  ultimately show ?thesis
    using past_writer [of past_facts]
    by (simp add: select_storage_def rerun_claim_def Let_def)
qed

definition past_selection :: selection where
  "past_selection = selectConversationSource (sample_env uuid_a) no_rules rerun_claim sample_key sample_sha True past_evidence"

lemma past_selected: "sel_Mode past_selection = SelectionResume" "sel_StorageID past_selection = uuid_d"
  "sel_SessionID past_selection = ''s''"
proof -
  have a: "hinted_dir_ok rerun_claim" "ValidSHA sample_sha"
    by code_simp+
  have "named_task rerun_claim sample_key = uuid_b" "named_sources past_facts rerun_claim uuid_b = Inr (past_grant, past_grant)"
    by (simp_all add: named_task_def rerun_claim_def sample_key_def zero_attribution_def Let_def named_sources_def past_facts_def
        witness_of_def past_witness_def)
  moreover have "observesConversation rerun_claim sample_key"
    by (simp add: observesConversation_def rerun_claim_def sample_key_def zero_claim_def)
  ultimately show "sel_Mode past_selection = SelectionResume" "sel_StorageID past_selection = uuid_d"
    "sel_SessionID past_selection = ''s''"
    using a past_session past_observed
    by (simp_all add: past_selection_def selectConversationSource_def Let_def)
      (simp_all add: rerun_claim_def sample_key_def)
qed

definition early_row :: observation where
  "early_row = zero_observation\<lparr>ob_ID := ''a'', ob_CompletedAt := ''2026-01-02T03:04:05Z''\<rparr>"

definition late_row :: observation where
  "late_row = zero_observation\<lparr>ob_ID := ''b'', ob_CompletedAt := ''2026-01-02T03:04:06Z''\<rparr>"

lemma late_after_early: "latest past_facts [early_row, late_row] False = Inr late_row"
proof -
  have "compare_rows past_facts False late_row early_row = Some 1" "compare_rows past_facts False early_row early_row = Some 0"
    by code_simp+
  moreover have "ob_ID late_row = ''b''" "ob_ID early_row = ''a''"
    by (simp_all add: early_row_def late_row_def)
  ultimately show ?thesis
    by (simp add: latest_def comes_after_def)
qed

end
