(* ===== verification/Continuity_Properties.thy ===== *)
theory Continuity_Properties
  imports Sample_Continuity
begin

text \<open>
  What a continuity selection rests on: the latest row is the only one that comes after all
  others, a selected storage and its sources are witnessed executions of this conversation, and a
  selection made from the journal's own records is one the journal accepts.
\<close>

section \<open>The latest row\<close>

lemma turn_order_swap: "turn_order f b a = map_option uminus (turn_order f a b)"
  by (auto simp: turn_order_def not_less split: option.splits)

lemma comes_after_asym: "comes_after f chat a b \<Longrightarrow> \<not> comes_after f chat b a"
  using turn_order_swap [of f b a]
  by (auto simp: comes_after_def compare_rows_def split: option.splits if_splits)

lemma scan_keeps:
  assumes "\<forall>row\<in>set rows. row = s \<or> comes_after f chat s row"
  shows "foldl (\<lambda>best row. if comes_after f chat row best then row else best) s rows = s"
  using assms
proof (induction rows)
  case (Cons row rows)
  have "\<not> comes_after f chat row s \<or> row = s"
    using Cons.prems comes_after_asym by auto
  moreover have "\<not> comes_after f chat s s"
    using comes_after_asym by blast
  ultimately show ?case
    using Cons by auto
qed simp

lemma scan_finds:
  assumes "\<forall>row\<in>set (best # rows). row = s \<or> comes_after f chat s row" "s \<in> set (best # rows)"
  shows "foldl (\<lambda>best row. if comes_after f chat row best then row else best) best rows = s"
  using assms
proof (induction rows arbitrary: best)
  case (Cons row rows)
  show ?case
  proof (cases "best = s")
    case True
    have "\<forall>x\<in>set (row # rows). x = s \<or> comes_after f chat s x"
      using Cons.prems(1) by simp
    from scan_keeps [OF this] show ?thesis
      unfolding True .
  next
    case False
    define pick where "pick = (if comes_after f chat row best then row else best)"
    have "pick = row \<or> pick = best" "row = s \<Longrightarrow> pick = s"
      using Cons.prems(1) False by (auto simp: pick_def)
    then have "\<forall>x\<in>set (pick # rows). x = s \<or> comes_after f chat s x" "s \<in> set (pick # rows)"
      using Cons.prems False by auto
    from Cons.IH [OF this] show ?thesis
      by (simp add: pick_def)
  qed
qed simp

lemma scan_mem: "foldl (\<lambda>best row. if comes_after f chat row best then row else best) best rows \<in> set (best # rows)"
proof (induction rows arbitrary: best)
  case (Cons row rows)
  show ?case
    using Cons.IH [of row] Cons.IH [of best] by auto
qed simp

lemma latest_iff:
  assumes "\<forall>a\<in>set rows. \<forall>b\<in>set rows. ob_ID a = ob_ID b \<longrightarrow> a = b"
  shows "latest f rows chat = Inr s \<longleftrightarrow> s \<in> set rows \<and> (\<forall>row\<in>set rows. row = s \<or> comes_after f chat s row)"
proof (cases rows)
  case Nil
  then show ?thesis
    by (simp add: latest_def)
next
  case (Cons first rest)
  let ?s = "foldl (\<lambda>best row. if comes_after f chat row best then row else best) first rest"
  have mem: "?s \<in> set rows"
    using scan_mem [of f chat first rest] Cons by simp
  then have ok: "list_all (\<lambda>row. ob_ID row = ob_ID ?s \<or> comes_after f chat ?s row) rows \<longleftrightarrow>
      (\<forall>row\<in>set rows. row = ?s \<or> comes_after f chat ?s row)"
    using assms by (auto simp: list_all_iff)
  have "latest f rows chat = (if list_all (\<lambda>row. ob_ID row = ob_ID ?s \<or> comes_after f chat ?s row) rows
      then Inr ?s else Inl ''timestamp_ambiguous'')"
    by (simp add: latest_def Cons Let_def)
  moreover have "?s = s" if "s \<in> set rows" "\<forall>row\<in>set rows. row = s \<or> comes_after f chat s row"
    using scan_finds [of first rest s f chat] that Cons by simp
  ultimately show ?thesis
    using mem ok by auto
qed

lemma latest_reason:
  "latest f rows chat = Inl x \<Longrightarrow> x = (if rows = [] then ''selected_producer_unavailable'' else ''timestamp_ambiguous'')"
  by (auto simp: latest_def Let_def split: list.splits if_splits)

text \<open>C32: The latest row: among rows with distinct ids \<^verbatim>\<open>latest\<close> returns a row exactly when that row is known to
  come after every other one, although the order by turn numbers and by timestamps is neither total
  nor transitive; hence the answer, the reason of a refusal included, does not depend on the order
  in which the rows are listed.\<close>

theorem latest_exact:
  assumes "\<forall>a\<in>set rows. \<forall>b\<in>set rows. ob_ID a = ob_ID b \<longrightarrow> a = b" "set rows' = set rows"
  shows "(latest f rows chat = Inr s \<longleftrightarrow> s \<in> set rows \<and> (\<forall>row\<in>set rows. row = s \<or> comes_after f chat s row)) \<and>
    latest f rows' chat = latest f rows chat"
proof -
  have rows': "\<forall>a\<in>set rows'. \<forall>b\<in>set rows'. ob_ID a = ob_ID b \<longrightarrow> a = b"
    using assms by simp
  have "latest f rows' chat = Inr t \<longleftrightarrow> latest f rows chat = Inr t" for t
    unfolding latest_iff [OF assms(1)] latest_iff [OF rows'] assms(2) ..
  then have "latest f rows' chat = latest f rows chat"
    using latest_reason [of f rows chat] latest_reason [of f rows' chat] assms(2)
    by (cases "latest f rows chat"; cases "latest f rows' chat") (auto split: if_splits)
  with latest_iff [OF assms(1)] show ?thesis
    by blast
qed

theorem latest_exact_witness: "latest past_facts [late_row, early_row] False = Inr late_row"
proof -
  have ids: "ob_ID early_row = ''a''" "ob_ID late_row = ''b''"
    by (simp_all add: early_row_def late_row_def)
  have "latest past_facts [late_row, early_row] False = latest past_facts [early_row, late_row] False"
    by (rule latest_exact [THEN conjunct2]) (use ids in auto)
  then show ?thesis
    using late_after_early by simp
qed

section \<open>What the facts are made of\<close>

lemma observed_storages:
  "observe_storages e m bs = Some m' \<Longrightarrow> map_of m' k = Some b \<Longrightarrow> map_of m k = Some b \<or> b \<in> set bs \<and> b_ID b = k"
  by (induction e m bs rule: observe_storages.induct) (auto simp: update_conv split: if_splits)

lemma observed_grants:
  "observe_grants e m gs = Some m' \<Longrightarrow> map_of m' k = Some g \<Longrightarrow>
   map_of m k = Some g \<or> g \<in> set gs \<and> g_AttemptID g = k \<and> wire_UUID e k"
  by (induction e m gs rule: observe_grants.induct) (auto simp: update_conv split: if_splits)

lemma observed_grants_uuid: "observe_grants e m gs = Some m' \<Longrightarrow> g \<in> set gs \<Longrightarrow> wire_UUID e (g_AttemptID g)"
  by (induction e m gs rule: observe_grants.induct) (auto split: if_splits)

lemma observed_witnesses:
  "map_of (fst (observe_witnesses e fr f m ambiguous gs)) k = Some g \<Longrightarrow>
   map_of m k = Some g \<or> g \<in> set gs \<and> g_TaskID g = k \<and> validWitness e f g"
  by (induction e fr f m ambiguous gs rule: observe_witnesses.induct) (auto simp: update_conv split: if_splits)

lemma map_of_filtered: "map_of (filter P m) k = Some v \<Longrightarrow> distinct (map fst m) \<Longrightarrow> map_of m k = Some v"
  by (metis (no_types, lifting) map_of_SomeD map_of_is_SomeI distinct_map_filter filter_is_subset in_mono)

lemma observed_distinct: "distinct (map fst m) \<Longrightarrow> distinct (map fst (fst (observe_witnesses e fr f m ambiguous gs)))"
  by (induction e fr f m ambiguous gs rule: observe_witnesses.induct) (auto simp: distinct_update)

lemma validLocalWriter_witnesses [simp]: "validLocalWriter e (f\<lparr>cf_witnesses := x\<rparr>) g b = validLocalWriter e f g b"
  by (cases "ParseClaim (g_Envelope g)") (simp_all add: validLocalWriter_def)

lemma validWitness_witnesses [simp]: "validWitness e (f\<lparr>cf_witnesses := x\<rparr>) g = validWitness e f g"
  by (cases "map_of (cf_storages f) (g_StorageID g)"; cases "g_CompletionWitness g";
      cases "map_of (cf_terminals f) (g_AttemptID g)") (simp_all add: validWitness_def)

text \<open>The facts a selection uses, as far as the properties need them.\<close>

definition facts_of :: "env \<Rightarrow> conversation_key \<Rightarrow> string \<Rightarrow> continuity_evidence \<Rightarrow> continuity_facts \<Rightarrow> bool" where
  "facts_of e key compatibility ev f \<longleftrightarrow>
    cf_key f = key \<and> cf_compatibility f = compatibility \<and> cf_terminals f = ev_Terminals ev \<and>
    (\<forall>k b. map_of (cf_storages f) k = Some b \<longrightarrow> b \<in> set (ev_Storages ev) \<and> b_ID b = k) \<and>
    (\<forall>k g. map_of (cf_grants f) k = Some g \<longrightarrow> g \<in> set (ev_Grants ev) \<and> g_AttemptID g = k) \<and>
    (\<forall>g\<in>set (ev_Grants ev). wire_UUID e (g_AttemptID g)) \<and>
    (\<forall>k g. map_of (cf_witnesses f) k = Some g \<longrightarrow> g \<in> set (ev_Grants ev) \<and> g_TaskID g = k \<and> validWitness e f g)"

lemma observed_facts:
  assumes "observeContinuityFacts e fr cl key compatibility ev = Some f"
  shows "facts_of e key compatibility ev f"
proof -
  from assms obtain storages grants history f0 where o: "observe_storages e [] (ev_Storages ev) = Some storages"
      "observe_grants e [] (ev_Grants ev) = Some grants"
    and f0: "f0 = \<lparr>cf_key = key, cf_compatibility = compatibility, cf_history = history, cf_rows = row_map history,
          cf_grants = grants, cf_witnesses = [], cf_storages = storages, cf_terminals = ev_Terminals ev\<rparr>"
    and f: "f = settle_witnesses f0 (observe_witnesses e fr f0 [] [] (ev_Grants ev))"
    by (auto simp: observeContinuityFacts_def Let_def split: option.splits bind_splits)
  obtain m ambiguous where m: "observe_witnesses e fr f0 [] [] (ev_Grants ev) = (m, ambiguous)"
    by (cases "observe_witnesses e fr f0 [] [] (ev_Grants ev)")
  have d: "distinct (map fst m)"
    using observed_distinct [of "[]" e fr f0 "[]" "ev_Grants ev"] m by simp
  obtain P Q where ff: "f = f0\<lparr>cf_witnesses := filter Q (filter P m)\<rparr>"
    by (simp add: f m settle_witnesses_def Let_def)
  have "g \<in> set (ev_Grants ev) \<and> g_TaskID g = k \<and> validWitness e f g" if "map_of (cf_witnesses f) k = Some g" for k g
  proof -
    have "map_of (filter Q (filter P m)) k = Some g"
      using that by (simp add: ff)
    then have "map_of m k = Some g"
      using d by (blast intro: map_of_filtered distinct_map_filter)
    then show ?thesis
      using observed_witnesses [of e fr f0 "[]" "[]" "ev_Grants ev" k g] m by (simp add: ff)
  qed
  moreover have "cf_storages f = storages" "cf_grants f = grants" "cf_key f = key" "cf_compatibility f = compatibility"
    "cf_terminals f = ev_Terminals ev"
    by (simp_all add: ff f0)
  moreover have "b \<in> set (ev_Storages ev) \<and> b_ID b = k" if "map_of storages k = Some b" for k b
    using observed_storages [OF o(1) that] by simp
  moreover have "g \<in> set (ev_Grants ev) \<and> g_AttemptID g = k" if "map_of grants k = Some g" for k g
    using observed_grants [OF o(2) that] by simp
  ultimately show ?thesis
    using observed_grants_uuid [OF o(2)] unfolding facts_of_def by blast
qed

section \<open>What the sources are\<close>

text \<open>The workspace source is witnessed; a session source is too, has no other storage and produced the
  session the claim names.\<close>

definition sources_ok :: "continuity_facts \<Rightarrow> claim \<Rightarrow> task_grant \<Rightarrow> task_grant \<Rightarrow> bool" where
  "sources_ok f cl session workspace \<longleftrightarrow>
    (\<exists>k. map_of (cf_witnesses f) k = Some workspace) \<and> cw_WorkDir (witness_of workspace) = cl_PriorWorkDir cl \<and>
    (if cl_PriorSessionID cl = [] then session = zero_grant
     else (\<exists>k. map_of (cf_witnesses f) k = Some session) \<and> cw_SessionID (witness_of session) = cl_PriorSessionID cl)"

lemma named_sources_ok: "named_sources f cl named = Inr (session, workspace) \<Longrightarrow> sources_ok f cl session workspace"
  by (auto simp: named_sources_def sources_ok_def split: option.splits if_splits)

lemma issueSource_ok:
  assumes "issueSource f cl = Inr source" "cl_PriorSessionID cl \<noteq> []"
  shows "sources_ok f cl source source"
  using assms by (auto simp: issueSource_def sources_ok_def split: option.splits if_splits sum.splits)

lemma chat_session_ok:
  assumes "chat_session f cl = Inr (row, session)"
  shows "if cl_PriorSessionID cl = [] then session = zero_grant
    else (\<exists>k. map_of (cf_witnesses f) k = Some session) \<and> cw_SessionID (witness_of session) = cl_PriorSessionID cl"
  using assms by (auto simp: chat_session_def split: option.splits if_splits sum.splits)

lemma chatSources_ok:
  assumes "chatSources f cl = Inr (session, workspace)"
  shows "sources_ok f cl session workspace"
proof -
  from assms obtain work where a: "latest f (filter (workspace_row f) (cf_history f)) True = Inr work"
    by (cases "latest f (filter (workspace_row f) (cf_history f)) True") (simp_all add: chatSources_def)
  with assms obtain w where b: "map_of (cf_witnesses f) (ob_ID work) = Some w"
    by (cases "map_of (cf_witnesses f) (ob_ID work)") (simp_all add: chatSources_def)
  from assms a b have c: "cw_WorkDir (witness_of w) = cl_PriorWorkDir cl"
    by (simp add: chatSources_def split: if_splits)
  from assms a b obtain row source where d: "chat_session f cl = Inr (row, source)"
    by (cases "chat_session f cl") (auto simp: chatSources_def split: if_splits)
  from assms a b c d have "source = session" "w = workspace"
    by (auto simp: chatSources_def split: if_splits option.splits)
  with b c d show ?thesis
    using chat_session_ok [of f cl row session] by (auto simp: sources_ok_def)
qed

lemma unnamed_sources_ok: "unnamed_sources f cl key known = Inr (session, workspace) \<Longrightarrow> sources_ok f cl session workspace"
  using issueSource_ok chatSources_ok by (auto simp: unnamed_sources_def split: if_splits sum.splits)

lemma fresh_mode [simp]: "sel_Mode (fresh_workspace key eligible) = SelectionFreshWorkspace"
  by (simp add: fresh_workspace_def)

text \<open>A selection that is not a fresh workspace comes from \<open>select_storage\<close> on witnessed sources.\<close>

lemma selected_from:
  assumes "selectConversationSource e fr cl key compatibility eligible ev = s" "sel_Mode s \<noteq> SelectionFreshWorkspace"
  obtains f named session workspace where "facts_of e key compatibility ev f" "ConversationKey_Valid e key"
    "sources_ok f cl session workspace" "select_storage e f cl ev named session workspace = Inr s"
proof -
  from assms obtain f where f: "observeContinuityFacts e fr cl key compatibility ev = Some f" "ConversationKey_Valid e key"
    and s: "(case (if named_task cl key \<noteq> [] then named_sources f cl (named_task cl key)
                else unnamed_sources f cl key (ev_HistoryKnown ev)) of
            Inl reason \<Rightarrow> (fresh_workspace key eligible)\<lparr>sel_Reason := reason\<rparr>
          | Inr (session, workspace) \<Rightarrow>
              (case select_storage e f cl ev (named_task cl key) session workspace of
                 Inl reason \<Rightarrow> (fresh_workspace key eligible)\<lparr>sel_Reason := reason\<rparr> | Inr s \<Rightarrow> s)) = s"
    by (auto simp: selectConversationSource_def Let_def split: if_splits option.splits)
  have fresh: "s \<noteq> (fresh_workspace key eligible)\<lparr>sel_Reason := reason\<rparr>" for reason
    using assms(2) by auto
  obtain session workspace where src: "(if named_task cl key \<noteq> [] then named_sources f cl (named_task cl key)
                else unnamed_sources f cl key (ev_HistoryKnown ev)) = Inr (session, workspace)"
    using s fresh by (auto split: sum.splits)
  then have "select_storage e f cl ev (named_task cl key) session workspace = Inr s"
    using s fresh by (auto split: sum.splits)
  moreover have "sources_ok f cl session workspace"
    using src named_sources_ok unnamed_sources_ok by (auto split: if_splits)
  ultimately show thesis
    by (intro that [OF observed_facts [OF f(1)] f(2)])
qed

section \<open>What is selected\<close>

text \<open>A turn of the conversation whose result the worker produced and the backend took, with the witness of it.\<close>

definition delivered_turn :: "env \<Rightarrow> conversation_key \<Rightarrow> string \<Rightarrow> continuity_evidence \<Rightarrow> task_grant \<Rightarrow> completion_witness \<Rightarrow> bool" where
  "delivered_turn e key compatibility ev g w \<longleftrightarrow>
    g \<in> set (ev_Grants ev) \<and> g_CompletionWitness g = Some w \<and> g_Conversation g = key \<and>
    g_CompatibilityDigest g = compatibility \<and> g_StartConfirmed g \<and> cw_WorkDir w = g_TaskRoot g @ ''/workdir'' \<and>
    (\<exists>t. map_of (ev_Terminals ev) (g_AttemptID g) = Some t \<and> t_Source t = SourceWorker \<and> t_State t = DDelivered \<and>
      t_ResultReceipt t \<noteq> None \<and> t_RecoveryFailure t = None \<and>
      cw_RequestDigest w = TerminalDigest e (terminal_kind_text (t_Kind t)) (t_Body t) \<and>
      (cw_SessionID w \<noteq> [] \<longrightarrow> t_Kind t = KindComplete))"

lemma local_writer_facts:
  assumes "validLocalWriter e f g b"
  shows "g_Conversation g = cf_key f" "b_Conversation b = cf_key f" "g_StorageID g = b_ID b" "canonicalUUID e (g_TaskID g)"
    "g_CompatibilityDigest g = cf_compatibility f"
  using assms by (simp_all add: validLocalWriter_def split: if_splits)

lemma witness_facts:
  assumes "facts_of e key compatibility ev f" "map_of (cf_witnesses f) k = Some g"
  shows "delivered_turn e key compatibility ev g (witness_of g)" "canonicalUUID e (g_TaskID g)" "canonicalUUID e (g_AttemptID g)"
    "g \<in> set (ev_Grants ev)" "g_Conversation g = key"
proof -
  have g: "g \<in> set (ev_Grants ev)" "validWitness e f g" and f: "cf_key f = key" "cf_compatibility f = compatibility"
      "cf_terminals f = ev_Terminals ev" "canonicalUUID e (g_AttemptID g)"
    using assms by (auto simp: facts_of_def)
  then obtain b w t where s: "map_of (cf_storages f) (g_StorageID g) = Some b" "g_CompletionWitness g = Some w"
      "map_of (cf_terminals f) (g_AttemptID g) = Some t"
    by (auto simp: validWitness_def split: option.splits)
  note v = g(2) [unfolded validWitness_def s, simplified]
  then have "validLocalWriter e f g b"
    by (simp split: if_splits)
  note l = local_writer_facts [OF this]
  have "cw_SessionID w \<noteq> [] \<longrightarrow> t_Kind t = KindComplete"
    using v by (auto simp: transient_witness_def completed_witness_def split: if_splits option.splits)
  then show "delivered_turn e key compatibility ev g (witness_of g)"
    using v g(1) s l f by (auto simp: delivered_turn_def witness_of_def split: if_splits)
  show "canonicalUUID e (g_TaskID g)" "g_Conversation g = key"
    using l f by simp_all
qed (use assms in \<open>auto simp: facts_of_def\<close>)

lemma select_storage_facts:
  assumes "select_storage e f cl ev named session workspace = Inr s"
  obtains b g digest where "map_of (cf_storages f) (g_StorageID workspace) = Some b"
    "map_of (cf_grants f) (src_AttemptID (b_LatestWriter b)) = Some g" "grantSource g = b_LatestWriter b"
    "validLocalWriter e f g b" "b_TaskRoot b @ ''/workdir'' = cl_PriorWorkDir cl" "\<not> b_Quarantined b"
    "b_ActiveAttempt b = [] \<and> b_Dirty b \<longrightarrow> warm_owner (cf_key f) b (ev_WarmSessions ev)"
    "cl_PriorSessionID cl \<noteq> [] \<longrightarrow> \<not> retired f (cl_PriorSessionID cl)"
    "g_AttemptID session \<noteq> [] \<longrightarrow> g_StorageID session = b_ID b"
    "s = zero_selection\<lparr>sel_Conversation := cf_key f, sel_ReuseEligible := True, sel_WorkspaceReuseEligible := True,
           sel_Mode := (if g_AttemptID session \<noteq> [] then SelectionResume else SelectionFreshSession),
           sel_StorageID := b_ID b,
           sel_SessionSource := (if g_AttemptID session \<noteq> [] then grantSource session else no_source),
           sel_WorkspaceSource := grantSource workspace, sel_LatestWriter := b_LatestWriter b,
           sel_SessionID := (if g_AttemptID session \<noteq> [] then cl_PriorSessionID cl else []),
           sel_WorkDir := b_TaskRoot b @ ''/workdir'', sel_EvidenceDigest := e_digest e digest\<rparr>"
proof -
  from assms obtain b where b: "map_of (cf_storages f) (g_StorageID workspace) = Some b"
    by (auto simp: select_storage_def split: if_splits option.splits)
  from assms b obtain g where g: "map_of (cf_grants f) (src_AttemptID (b_LatestWriter b)) = Some g"
    by (auto simp: select_storage_def split: if_splits option.splits)
  note a = assms [unfolded select_storage_def b g option.case if_Inl_eq_Inr]
  define raw where "raw = selection_evidence cl named (s\<lparr>sel_EvidenceDigest := []\<rparr>) workspace session g b (ev_HistoryKnown ev) (cf_history f)"
  show thesis
  proof (rule that [OF b g])
    show "s = zero_selection\<lparr>sel_Conversation := cf_key f, sel_ReuseEligible := True, sel_WorkspaceReuseEligible := True,
           sel_Mode := (if g_AttemptID session \<noteq> [] then SelectionResume else SelectionFreshSession),
           sel_StorageID := b_ID b,
           sel_SessionSource := (if g_AttemptID session \<noteq> [] then grantSource session else no_source),
           sel_WorkspaceSource := grantSource workspace, sel_LatestWriter := b_LatestWriter b,
           sel_SessionID := (if g_AttemptID session \<noteq> [] then cl_PriorSessionID cl else []),
           sel_WorkDir := b_TaskRoot b @ ''/workdir'', sel_EvidenceDigest := e_digest e raw\<rparr>"
      using a by (auto simp: Let_def zero_selection_def raw_def)
  qed (use a in \<open>auto simp: Let_def\<close>)
qed

lemma resumes_iff:
  assumes "uuid_laws e" "facts_of e key compatibility ev f" "sources_ok f cl session workspace"
  shows "g_AttemptID session \<noteq> [] \<longleftrightarrow> cl_PriorSessionID cl \<noteq> []"
proof (cases "cl_PriorSessionID cl = []")
  case True
  then show ?thesis
    using assms(3) by (simp add: sources_ok_def zero_grant_def)
next
  case False
  then obtain k where "map_of (cf_witnesses f) k = Some session"
    using assms(3) by (auto simp: sources_ok_def)
  from witness_facts(3) [OF assms(2) this] show ?thesis
    using canonical_nonempty [OF assms(1)] False by auto
qed

text \<open>C30: What is selected is proven: when a claim continues an execution, the selected storage is one of the
  conversation's, not quarantined, at the directory the backend names (and if it is dirty with no
  active attempt an idle session of the current protocol owns it); its workspace source is a
  delivered turn of the conversation in that very directory; its latest writer is a turn of the
  conversation on that storage; and it resumes a session exactly when the claim names one, which a
  delivered turn on the same storage produced and which the storage has not retired.\<close>

theorem selection_sound:
  assumes "uuid_laws e" "selectConversationSource e fr cl key compatibility eligible ev = s" "sel_Mode s \<noteq> SelectionFreshWorkspace"
  shows "\<exists>b\<in>set (ev_Storages ev). \<exists>workspace\<in>set (ev_Grants ev). \<exists>writer\<in>set (ev_Grants ev).
    sel_StorageID s = b_ID b \<and> sel_WorkDir s = b_TaskRoot b @ ''/workdir'' \<and> cl_PriorWorkDir cl = sel_WorkDir s \<and>
    b_Conversation b = key \<and> \<not> b_Quarantined b \<and>
    (b_ActiveAttempt b = [] \<and> b_Dirty b \<longrightarrow> warm_owner key b (ev_WarmSessions ev)) \<and>
    delivered_turn e key compatibility ev workspace (witness_of workspace) \<and> g_StorageID workspace = b_ID b \<and>
    sel_WorkspaceSource s = grantSource workspace \<and> cw_WorkDir (witness_of workspace) = sel_WorkDir s \<and>
    g_Conversation writer = key \<and> g_StorageID writer = b_ID b \<and> sel_LatestWriter s = grantSource writer \<and>
    b_LatestWriter b = grantSource writer \<and> sel_SessionID s = cl_PriorSessionID cl \<and>
    (if cl_PriorSessionID cl = [] then sel_Mode s = SelectionFreshSession
     else sel_Mode s = SelectionResume \<and> cl_PriorSessionID cl \<notin> set (b_RetiredSessions b) \<and>
       (\<exists>session\<in>set (ev_Grants ev). delivered_turn e key compatibility ev session (witness_of session) \<and>
         cw_SessionID (witness_of session) = cl_PriorSessionID cl \<and> g_StorageID session = b_ID b \<and>
         sel_SessionSource s = grantSource session))"
proof -
  obtain f named session workspace where f: "facts_of e key compatibility ev f" and src: "sources_ok f cl session workspace"
    and sel: "select_storage e f cl ev named session workspace = Inr s"
    by (rule selected_from [OF assms(2,3)])
  from sel obtain b g digest where b: "map_of (cf_storages f) (g_StorageID workspace) = Some b"
    "map_of (cf_grants f) (src_AttemptID (b_LatestWriter b)) = Some g" "grantSource g = b_LatestWriter b"
    "validLocalWriter e f g b" "b_TaskRoot b @ ''/workdir'' = cl_PriorWorkDir cl" "\<not> b_Quarantined b"
    "b_ActiveAttempt b = [] \<and> b_Dirty b \<longrightarrow> warm_owner (cf_key f) b (ev_WarmSessions ev)"
    "cl_PriorSessionID cl \<noteq> [] \<longrightarrow> \<not> retired f (cl_PriorSessionID cl)"
    "g_AttemptID session \<noteq> [] \<longrightarrow> g_StorageID session = b_ID b"
    and s: "s = zero_selection\<lparr>sel_Conversation := cf_key f, sel_ReuseEligible := True, sel_WorkspaceReuseEligible := True,
           sel_Mode := (if g_AttemptID session \<noteq> [] then SelectionResume else SelectionFreshSession),
           sel_StorageID := b_ID b,
           sel_SessionSource := (if g_AttemptID session \<noteq> [] then grantSource session else no_source),
           sel_WorkspaceSource := grantSource workspace, sel_LatestWriter := b_LatestWriter b,
           sel_SessionID := (if g_AttemptID session \<noteq> [] then cl_PriorSessionID cl else []),
           sel_WorkDir := b_TaskRoot b @ ''/workdir'', sel_EvidenceDigest := e_digest e digest\<rparr>"
    by (rule select_storage_facts)
  have mem: "b \<in> set (ev_Storages ev)" "b_ID b = g_StorageID workspace" "g \<in> set (ev_Grants ev)" and key: "cf_key f = key"
    using f b(1,2) by (auto simp: facts_of_def)
  note l = local_writer_facts [OF b(4)]
  obtain k where k: "map_of (cf_witnesses f) k = Some workspace" "cw_WorkDir (witness_of workspace) = cl_PriorWorkDir cl"
    using src by (auto simp: sources_ok_def)
  note w = witness_facts [OF f k(1)] and r = resumes_iff [OF assms(1) f src]
  have session: "\<exists>session\<in>set (ev_Grants ev). delivered_turn e key compatibility ev session (witness_of session) \<and>
         cw_SessionID (witness_of session) = cl_PriorSessionID cl \<and> g_StorageID session = b_ID b \<and>
         sel_SessionSource s = grantSource session" "cl_PriorSessionID cl \<notin> set (b_RetiredSessions b)" if "cl_PriorSessionID cl \<noteq> []"
  proof -
    have "(\<exists>k'. map_of (cf_witnesses f) k' = Some session) \<and> cw_SessionID (witness_of session) = cl_PriorSessionID cl"
      using src that by (simp add: sources_ok_def)
    then obtain k' where k': "map_of (cf_witnesses f) k' = Some session" "cw_SessionID (witness_of session) = cl_PriorSessionID cl"
      by blast
    with witness_facts [OF f k'(1)] b(9) r that show "\<exists>session\<in>set (ev_Grants ev).
         delivered_turn e key compatibility ev session (witness_of session) \<and>
         cw_SessionID (witness_of session) = cl_PriorSessionID cl \<and> g_StorageID session = b_ID b \<and>
         sel_SessionSource s = grantSource session"
      by (intro bexI [of _ session]) (simp_all add: s)
    have "b \<in> set (mvals (cf_storages f))"
      using b(1) by (force simp: mvals_def dest: map_of_SomeD)
    then show "cl_PriorSessionID cl \<notin> set (b_RetiredSessions b)"
      using b(8) that l(2) by (auto simp: retired_def list_ex_iff)
  qed
  show ?thesis
    using mem w b(3,5-7) l k(2) key r session
    by (intro bexI [of _ b] bexI [of _ workspace] bexI [of _ g]) (simp_all add: s)
qed

theorem selection_sound_witness:
  "\<exists>b\<in>set (ev_Storages past_evidence). sel_StorageID past_selection = b_ID b \<and> \<not> b_Quarantined b \<and>
    (\<exists>g\<in>set (ev_Grants past_evidence). sel_SessionSource past_selection = grantSource g \<and>
       delivered_turn (sample_env uuid_a) sample_key sample_sha past_evidence g (witness_of g) \<and> cw_SessionID (witness_of g) = ''s'')"
proof -
  have "uuid_laws (sample_env uuid_a)" "sel_Mode past_selection \<noteq> SelectionFreshWorkspace" "cl_PriorSessionID rerun_claim = ''s''"
    using past_selected by (simp_all add: rerun_claim_def)
  with selection_sound [OF this(1) past_selection_def [symmetric] this(2)] show ?thesis
    by auto
qed

section \<open>What the journal makes of it\<close>

lemma selected_mode: "select_storage e f cl ev named session workspace = Inr s \<Longrightarrow> sel_Mode s \<noteq> SelectionFreshWorkspace"
  by (erule select_storage_facts) simp

text \<open>A refusal is the fresh workspace with a reason.\<close>

lemma refusal:
  "\<exists>b r'. s\<lparr>sel_Reason := r\<rparr> = s\<lparr>sel_ReuseEligible := b, sel_Reason := r'\<rparr>"
  "\<exists>b r'. s\<lparr>sel_Reason := r, sel_ReuseEligible := c\<rparr> = s\<lparr>sel_ReuseEligible := b, sel_Reason := r'\<rparr>"
  "\<exists>b r'. s\<lparr>sel_ReuseEligible := c, sel_Reason := r\<rparr> = s\<lparr>sel_ReuseEligible := b, sel_Reason := r'\<rparr>"
  by (rule exI [of _ "sel_ReuseEligible s"], rule exI [of _ r], simp)
     (rule exI [of _ c], rule exI [of _ r], simp)+

lemma fresh_selection:
  assumes "sel_Mode (selectConversationSource e fr cl key compatibility eligible ev) = SelectionFreshWorkspace"
  shows "\<exists>eligible' reason. selectConversationSource e fr cl key compatibility eligible ev =
      (fresh_workspace key eligible)\<lparr>sel_ReuseEligible := eligible', sel_Reason := reason\<rparr>"
proof -
  define P where "P s \<longleftrightarrow> sel_Mode s = SelectionFreshWorkspace \<longrightarrow>
    (\<exists>eligible' reason. s = (fresh_workspace key eligible)\<lparr>sel_ReuseEligible := eligible', sel_Reason := reason\<rparr>)" for s
  have fresh: "P ((fresh_workspace key eligible)\<lparr>sel_Reason := r\<rparr>)"
    "P ((fresh_workspace key eligible)\<lparr>sel_Reason := r, sel_ReuseEligible := c\<rparr>)" for r c
    unfolding P_def by (intro impI refusal)+
  have "P s" if "select_storage e f cl ev named session workspace = Inr s" for f named session workspace s
    using selected_mode [OF that] by (simp add: P_def)
  then have "P (selectConversationSource e fr cl key compatibility eligible ev)"
    unfolding selectConversationSource_def Let_def by (auto simp only: fresh split: if_split option.split sum.split prod.split)
  with assms show ?thesis
    by (simp add: P_def)
qed

text \<open>C31: The two components agree: a selection that the controller makes from the journal's own grants and
  storages passes the journal's independent check of a backend selection's sources, whatever the
  claim, the history and the backend's hints are, provided the session the claim names is an opaque
  value.\<close>

theorem selection_recordable:
  assumes "sound e st" "set (ev_Grants ev) = set (mvals (r_Grants st))" "set (ev_Storages ev) = set (mvals (r_Storages st))"
    and "ConversationKey_Valid e key" "\<forall>raw. fingerprint (e_digest e raw)"
    and "cl_PriorSessionID cl = [] \<or> validOpaque (cl_PriorSessionID cl)"
  shows "validateBackendSelectionSources e st (selectConversationSource e fr cl key compatibility eligible ev) = Inr ()"
proof (cases "sel_Mode (selectConversationSource e fr cl key compatibility eligible ev) = SelectionFreshWorkspace")
  case True
  obtain eligible' reason where "selectConversationSource e fr cl key compatibility eligible ev =
      (fresh_workspace key eligible)\<lparr>sel_ReuseEligible := eligible', sel_Reason := reason\<rparr>"
    using fresh_selection [OF True] by blast
  then show ?thesis
    using assms(4) by (simp add: validateBackendSelectionSources_def fresh_workspace_def zero_selection_def mode_known_def no_sources_def)
next
  case False
  define s where "s = selectConversationSource e fr cl key compatibility eligible ev"
  have laws: "uuid_laws e"
    using assms(1) by (simp add: sound_def)
  obtain f named session workspace where f: "facts_of e key compatibility ev f" and src: "sources_ok f cl session workspace"
    and sel: "select_storage e f cl ev named session workspace = Inr s"
    by (rule selected_from [OF s_def [symmetric] False [folded s_def]])
  have stored: "grant_of st (g_AttemptID g) = Some g" if "g \<in> set (ev_Grants ev)" for g
    using that assms(1,2) by (auto simp: mvals_iff sound_def maps_ok_def grant_of_def [symmetric] dest: grant_key)
  have writes: "CheckpointSource_valid e (grantSource g) \<and> grant_of st (src_AttemptID (grantSource g)) = Some g \<and>
      src_TaskID (grantSource g) = g_TaskID g" if "g \<in> set (ev_Grants ev)" "canonicalUUID e (g_TaskID g)" for g
    using that stored [OF that(1)] f by (simp add: CheckpointSource_valid_def grantSource_def facts_of_def)
  obtain b g digest where b: "map_of (cf_storages f) (g_StorageID workspace) = Some b"
    "map_of (cf_grants f) (src_AttemptID (b_LatestWriter b)) = Some g" "grantSource g = b_LatestWriter b"
    "validLocalWriter e f g b" "g_AttemptID session \<noteq> [] \<longrightarrow> g_StorageID session = b_ID b"
    and s: "s = zero_selection\<lparr>sel_Conversation := cf_key f, sel_ReuseEligible := True, sel_WorkspaceReuseEligible := True,
           sel_Mode := (if g_AttemptID session \<noteq> [] then SelectionResume else SelectionFreshSession),
           sel_StorageID := b_ID b,
           sel_SessionSource := (if g_AttemptID session \<noteq> [] then grantSource session else no_source),
           sel_WorkspaceSource := grantSource workspace, sel_LatestWriter := b_LatestWriter b,
           sel_SessionID := (if g_AttemptID session \<noteq> [] then cl_PriorSessionID cl else []),
           sel_WorkDir := b_TaskRoot b @ ''/workdir'', sel_EvidenceDigest := e_digest e digest\<rparr>"
    by (rule select_storage_facts [OF sel])
  have mem: "b \<in> set (ev_Storages ev)" "g_StorageID workspace = b_ID b" "g \<in> set (ev_Grants ev)" and key: "cf_key f = key"
    using f b(1,2) by (auto simp: facts_of_def)
  note l = local_writer_facts [OF b(4)] and r = resumes_iff [OF laws f src]
  obtain k where k: "map_of (cf_witnesses f) k = Some workspace"
    using src by (auto simp: sources_ok_def)
  note w = witness_facts [OF f k]
  have storage: "storage_of st (b_ID b) = Some b"
    using mem(1) assms(1,3) by (auto simp: mvals_iff sound_def maps_ok_def storage_of_def [symmetric] dest: storage_key)
  have session: "canonicalUUID e (g_TaskID session)" "session \<in> set (ev_Grants ev)" "g_Conversation session = key"
    if "cl_PriorSessionID cl \<noteq> []"
  proof -
    have "\<exists>k'. map_of (cf_witnesses f) k' = Some session"
      using src that by (simp add: sources_ok_def)
    then obtain k' where "map_of (cf_witnesses f) k' = Some session" ..
    from witness_facts [OF f this] show "canonicalUUID e (g_TaskID session)" "session \<in> set (ev_Grants ev)"
      "g_Conversation session = key"
      by simp_all
  qed
  have "validateBackendSelectionSources e st s = Inr ()"
  proof (cases "cl_PriorSessionID cl = []")
    case True
    then show ?thesis
      using assms(4,5) storage l key r w writes [OF w(4) w(2)] writes [OF mem(3) l(4)] mem b(3)
      by (simp add: s validateBackendSelectionSources_def mode_known_def zero_selection_def)
  next
    case False
    then show ?thesis
      using assms(4-6) storage l key r w writes [OF w(4) w(2)] writes [OF mem(3) l(4)] mem b(3,5)
        writes [OF session(2) [OF False] session(1) [OF False]] session(3)
      by (simp add: s validateBackendSelectionSources_def mode_known_def zero_selection_def)
  qed
  then show ?thesis
    by (simp add: s_def)
qed

theorem selection_recordable_witness:
  "validateBackendSelectionSources (sample_env uuid_a) reserved_journal
     (selectConversationSource (sample_env uuid_a) no_rules rerun_claim sample_key sample_sha True
       (past_evidence\<lparr>ev_Grants := [turn_grant], ev_Storages := [turn_storage_now]\<rparr>)) = Inr ()"
  by (rule selection_recordable [OF reserved_sound])
    (simp_all add: mvals_def rerun_claim_def validOpaque_def contains_any_def eval)

end
