(* ===== verification/Task_Gateway.thy ===== *)
theory Task_Gateway
  imports Observation Capabilities
begin

text \<open>
  The gateway through which a task reaches the backend (\<^verbatim>\<open>daemonapi/policy.go\<close>,
  \<^verbatim>\<open>gateway.go\<close>, \<^verbatim>\<open>proxy.go\<close>, \<^verbatim>\<open>newRequest\<close> of \<^verbatim>\<open>client.go\<close>): which requests are
  refused, what is sent on, and what of an answer is disclosed.  A header is kept under its
  canonical name; a body that cannot be read is \<open>None\<close>.
\<close>

section \<open>Policy\<close>

definition blockedEndpointCode :: string where "blockedEndpointCode = ''runtime_controller_endpoint_blocked''"

definition blockedEndpointMessage :: string where
  "blockedEndpointMessage = ''This endpoint is blocked by multica-runtime-controller and is unavailable.''"

definition credentialBlockReason :: string where
  "credentialBlockReason = ''Personal credentials and account authentication are unavailable to tasks.''"

definition daemonBlockReason :: string where "daemonBlockReason = ''Daemon APIs are reserved for controller operations.''"

definition workspaceBlockReason :: string where
  "workspaceBlockReason = ''Workspace creation and deletion are unavailable to tasks.''"

definition integrationBlockReason :: string where
  "integrationBlockReason = ''Personal integration authentication is unavailable to tasks.''"

definition machineBlockReason :: string where
  "machineBlockReason = ''Runtime configuration and machine control are unavailable to tasks.''"

definition onboardingBlockReason :: string where
  "onboardingBlockReason = ''Onboarding bootstrap is blocked until backend workspace validation is enforced.''"

definition blockedNamespaces :: "(string \<times> string) list" where
  "blockedNamespaces =
    [(''/api/tokens'', credentialBlockReason), (''/api/cli-token'', credentialBlockReason),
     (''/api/auth'', credentialBlockReason), (''/auth'', credentialBlockReason), (''/api/daemon'', daemonBlockReason)]"

definition blockedEndpoints :: "(string \<times> string \<times> string) list" where
  "blockedEndpoints =
    [(''POST'', ''/api/workspaces'', workspaceBlockReason),
     (''DELETE'', ''/api/workspaces/*'', workspaceBlockReason),
     (''POST'', ''/api/integrations/composio/connect/init'', integrationBlockReason),
     (''GET'', ''/api/integrations/composio/callback'', integrationBlockReason),
     (''DELETE'', ''/api/integrations/composio/connections/*'', integrationBlockReason),
     (''POST'', ''/api/lark/binding/redeem'', integrationBlockReason),
     (''POST'', ''/api/slack/binding/redeem'', integrationBlockReason),
     (''POST'', ''/api/dingtalk/binding/redeem'', integrationBlockReason),
     (''POST'', ''/api/wecom/binding/redeem'', integrationBlockReason),
     (''POST'', ''/api/telegram/binding/redeem'', integrationBlockReason),
     (''DELETE'', ''/api/runtimes/*'', machineBlockReason),
     (''POST'', ''/api/runtimes/*/unbind-agents-and-delete'', machineBlockReason),
     (''POST'', ''/api/runtimes/*/archive-agents-and-delete'', machineBlockReason),
     (''POST'', ''/api/runtimes/*/update'', machineBlockReason),
     (''POST'', ''/api/runtimes/*/models'', machineBlockReason),
     (''POST'', ''/api/runtimes/*/local-skills'', machineBlockReason),
     (''POST'', ''/api/runtimes/*/local-skills/import'', machineBlockReason),
     (''POST'', ''/api/workspaces/*/runtime-profiles'', machineBlockReason),
     (''PUT'', ''/api/workspaces/*/runtime-profiles/*'', machineBlockReason),
     (''PATCH'', ''/api/workspaces/*/runtime-profiles/*'', machineBlockReason),
     (''DELETE'', ''/api/workspaces/*/runtime-profiles/*'', machineBlockReason),
     (''POST'', ''/api/cloud-runtime/nodes'', machineBlockReason),
     (''DELETE'', ''/api/cloud-runtime/nodes'', machineBlockReason),
     (''POST'', ''/api/cloud-runtime/nodes/start'', machineBlockReason),
     (''POST'', ''/api/cloud-runtime/nodes/stop'', machineBlockReason),
     (''POST'', ''/api/cloud-runtime/nodes/reboot'', machineBlockReason),
     (''POST'', ''/api/cloud-runtime/nodes/exec'', machineBlockReason),
     (''POST'', ''/api/me/onboarding/runtime-bootstrap'', onboardingBlockReason),
     (''POST'', ''/api/me/onboarding/no-runtime-bootstrap'', onboardingBlockReason)]"

definition endpointNamespace :: "string \<Rightarrow> string \<Rightarrow> bool" where
  "endpointNamespace p namespace = (p = namespace \<or> prefix (namespace @ ''/'') p)"

definition endpointPath :: "string list \<Rightarrow> string \<Rightarrow> bool" where
  "endpointPath parts pattern =
    (let expected = split_on CHR ''/'' pattern
     in length parts = length expected \<and>
        list_all2 (\<lambda>part want. want = ''*'' \<or> want = part) parts expected)"

text \<open>The first rule that applies gives the reason; \<open>[]\<close> is no reason.\<close>

definition blockedEndpointReason :: "string \<Rightarrow> string \<Rightarrow> string" where
  "blockedEndpointReason meth p =
    (case find (\<lambda>(namespace, _). endpointNamespace p namespace) blockedNamespaces of
       Some (_, reason) \<Rightarrow> reason
     | None \<Rightarrow>
         (let m = (if meth = ''HEAD'' then ''GET'' else meth); parts = split_on CHR ''/'' p
          in case find (\<lambda>(rule_meth, pattern, _). rule_meth = m \<and> endpointPath parts pattern) blockedEndpoints of
               Some (_, _, reason) \<Rightarrow> reason
             | None \<Rightarrow> []))"

definition proxyMethod :: "string \<Rightarrow> bool" where
  "proxyMethod meth \<longleftrightarrow> meth \<in> set [''GET'', ''HEAD'', ''OPTIONS'', ''POST'', ''PUT'', ''PATCH'', ''DELETE'']"

definition blocked_body :: "string \<Rightarrow> string \<Rightarrow> string \<Rightarrow> string" where
  "blocked_body meth p reason =
    json_text (JObj [(''error'', jstr blockedEndpointMessage), (''code'', jstr blockedEndpointCode),
      (''method'', jstr meth), (''path'', jstr p), (''reason'', jstr reason)]) @ [nl_char]"

section \<open>Requests\<close>

type_synonym headers = "(string \<times> string list) list"

record http_request =
  hr_Method :: string
  hr_Path :: string
  hr_RawPath :: string
  hr_ForceQuery :: bool
  hr_RawQuery :: string
  hr_Fragment :: string
  hr_Absolute :: bool
  hr_Header :: headers
  hr_Body :: "string option"

definition header_get :: "headers \<Rightarrow> string \<Rightarrow> string" where
  "header_get h name = (case map_of h name of None \<Rightarrow> [] | Some vs \<Rightarrow> (case vs of [] \<Rightarrow> [] | v # _ \<Rightarrow> v))"

text \<open>\<^verbatim>\<open>URL.RequestURI\<close> of a request that passed the checks on its path.\<close>

definition request_uri :: "http_request \<Rightarrow> string" where
  "request_uri r = hr_Path r @ (if hr_RawQuery r = [] then [] else CHR ''?'' # hr_RawQuery r)"

text \<open>The client of the backend.  \<open>ac_Accepts\<close> is whether \<^verbatim>\<open>net/http\<close> takes a method and URL for a request,
  \<open>ac_Live\<close> whether the context still runs.\<close>

record api_client =
  ac_Origin :: string
  ac_Version :: string
  ac_OS :: string
  ac_Accepts :: "string \<Rightarrow> string \<Rightarrow> bool"
  ac_Live :: bool

record upstream_request =
  up_Method :: string
  up_URL :: string
  up_Header :: headers
  up_Body :: string

definition client_capabilities :: string where
  "client_capabilities =
    ''skill-bundles-v1,coalesced-comments-v1,execution-manifest-v1,agent-skill-v1,remote-mcp-v1,local-worktree-v1,source_context_quick_create_v1,rpc-v1,platform-skill-v1,checkout-keeps-work-v1''"

definition newRequest :: "api_client \<Rightarrow> string \<Rightarrow> string \<Rightarrow> string \<Rightarrow> string \<Rightarrow> string \<Rightarrow> err + upstream_request" where
  "newRequest ac meth p token workspace body =
    (if int (length body) > MaxPayload then Inl (ErrText ''daemon API payload exceeds limit'')
     else if \<not> ac_Accepts ac meth (ac_Origin ac @ p) then Inl (ErrText ''invalid daemon API request'')
     else if \<not> ac_Live ac then Inl (ErrText ''daemon API request not sent'')
     else Inr \<lparr>up_Method = meth, up_URL = ac_Origin ac @ p,
       up_Header = [(''Authorization'', [''Bearer '' @ token]), (''Content-Type'', [''application/json''])] @
         (if workspace = [] then [] else [(''X-Workspace-Id'', [workspace])]) @
         [(''X-Client-Platform'', [''daemon'']), (''X-Client-Version'', [ac_Version ac]), (''X-Client-Os'', [ac_OS ac]),
          (''X-Client-Capabilities'', [client_capabilities])],
       up_Body = body\<rparr>)"

section \<open>Sending a request on\<close>

definition maxProxyPayload :: int where "maxProxyPayload = 128 * 2 ^ 20"

definition carried_headers :: "string list" where
  "carried_headers =
    [''Content-Type'', ''Content-Encoding'', ''Accept'', ''Accept-Encoding'', ''Accept-Language'', ''If-Match'',
     ''If-None-Match'', ''If-Modified-Since'', ''If-Unmodified-Since'', ''Range'', ''If-Range'', ''Idempotency-Key'',
     ''X-Client-Capabilities'', ''X-Client-Version'', ''X-Client-Platform'', ''X-Client-Os'']"

fun carry :: "headers \<Rightarrow> string list \<Rightarrow> headers \<Rightarrow> headers" where
  "carry given_headers [] h = h"
| "carry given_headers (name # names) h =
    carry given_headers names
      (case map_of given_headers name of None \<Rightarrow> h | Some values \<Rightarrow> AList.update name values h)"

datatype gateway_answer =
    Rejected nat
  | PolicyBlocked string
  | ToTaskMCP task_grant claim string
  | Forwarded upstream_request

definition proxy :: "api_client \<Rightarrow> http_request \<Rightarrow> task_grant \<Rightarrow> string \<Rightarrow> gateway_answer" where
  "proxy ac r g token =
    (if length (hr_RawQuery r) > 4096 then Rejected 400
     else case hr_Body r of
       None \<Rightarrow> Rejected 400
     | Some body \<Rightarrow>
         (if int (length body) > maxProxyPayload then Rejected 400
          else case newRequest ac (hr_Method r) (request_uri r) token (g_WorkspaceID g) [] of
            Inl _ \<Rightarrow> Rejected 400
          | Inr upstream \<Rightarrow>
              Forwarded (upstream\<lparr>up_Header := carry (hr_Header r) carried_headers
                  (AList.delete ''Content-Type'' (up_Header upstream)), up_Body := body\<rparr>)))"

text \<open>The backend's answer: \<open>None\<close> is refused with status 502, else the body is cut off at the limit.\<close>

record backend_response =
  br_Status :: nat
  br_Length :: int
  br_Header :: headers

definition modify_response :: "string \<Rightarrow> backend_response \<Rightarrow> backend_response option" where
  "modify_response meth b =
    (if 300 \<le> br_Status b \<and> br_Status b < 400 \<and> br_Status b \<noteq> 304 then None
     else if meth \<noteq> ''HEAD'' \<and> br_Length b > maxProxyPayload then None
     else Some (b\<lparr>br_Header := AList.delete ''Set-Cookie'' (br_Header b)\<rparr>))"

section \<open>Serving\<close>

record gateway =
  gw_Ready :: bool
  gw_Client :: api_client
  gw_Admission :: "task_grant \<Rightarrow> bool"

definition path_ok :: "http_request \<Rightarrow> bool" where
  "path_ok r =
    (hr_RawPath r = [] \<and> \<not> hr_ForceQuery r \<and> hr_Fragment r = [] \<and> clean_path (hr_Path r) = hr_Path r \<and>
     \<not> contains_any (hr_Path r) [CHR 0x5C, nul_char, cr_char, nl_char] \<and> \<not> hr_Absolute r)"

text \<open>The capability is checked twice, the second time under the attempt's gate: each check sees the journal and
  the clock of its own moment.\<close>

definition ServeHTTP ::
  "env \<Rightarrow> gateway \<Rightarrow> http_request \<Rightarrow> call \<times> registry \<Rightarrow> call \<times> registry \<Rightarrow> gateway_answer" where
  "ServeHTTP e gw r before under_gate =
    (if \<not> path_ok r then Rejected 403
     else if \<not> list_all segment (split_on CHR ''/'' (trim_prefix (hr_Path r) ''/'')) then Rejected 403
     else if blockedEndpointReason (hr_Method r) (hr_Path r) \<noteq> []
     then PolicyBlocked (blockedEndpointReason (hr_Method r) (hr_Path r))
     else if \<not> gw_Ready gw then Rejected 503
     else
       (let token = trim_prefix (header_get (hr_Header r) ''Authorization'') ''Bearer '';
            capability = header_get (hr_Header r) ''X-Multica-Attempt-Capability''
        in if token = header_get (hr_Header r) ''Authorization'' \<or> token = [] then Rejected 401
           else if \<not> prefix ''mat_'' token then Rejected 403
           else case Authorize e (fst before) capability ''daemon'' (snd before) of
             Inl _ \<Rightarrow> Rejected 403
           | Inr _ \<Rightarrow>
               (case Authorize e (fst under_gate) capability ''daemon'' (snd under_gate) of
                  Inl _ \<Rightarrow> Rejected 403
                | Inr g \<Rightarrow>
                    (if \<not> gw_Admission gw g then Rejected 403
                     else case ParseClaim (g_Envelope g) of
                       Inl _ \<Rightarrow> Rejected 503
                     | Inr cl \<Rightarrow>
                         (if cl_ID cl \<noteq> g_TaskID g \<or> cl_RuntimeID cl \<noteq> g_RuntimeID g \<or>
                             cl_WorkspaceID cl \<noteq> g_WorkspaceID g \<or> cl_AgentID cl \<noteq> g_AgentID g
                          then Rejected 503
                          else if token \<noteq> cl_AuthToken cl then Rejected 403
                          else if endpointNamespace (hr_Path r) ''/api/task-mcp'' then
                            (case hr_Body r of
                               None \<Rightarrow> Rejected 400
                             | Some body \<Rightarrow>
                                 (if int (length body) > MaxPayload \<or> body \<noteq> [] \<and> \<not> json_valid body
                                  then Rejected 400 else ToTaskMCP g cl body))
                          else if \<not> endpointNamespace (hr_Path r) ''/api'' \<or> \<not> proxyMethod (hr_Method r)
                          then Rejected 403
                          else proxy (gw_Client gw) r g token)))))"

section \<open>Disclosure\<close>

text \<open>The response writer of an authorised request.  What the client is sent, in order.\<close>

datatype sent = SentStatus nat | SentBody string | SentExpired | SentFlush

record authorized_response =
  aw_started :: bool
  aw_denied :: bool
  aw_sent :: "sent list"

datatype write_op = WriteHeader nat | Write string | FlushError

definition new_response :: authorized_response where
  "new_response = \<lparr>aw_started = False, aw_denied = False, aw_sent = []\<rparr>"

text \<open>\<open>authority\<close> is whether the capability is still authorised when the check runs.\<close>

definition write_header :: "bool \<Rightarrow> nat \<Rightarrow> authorized_response \<Rightarrow> authorized_response" where
  "write_header authority status w =
    (if 100 \<le> status \<and> status < 200 \<and> status \<noteq> 101 then w
     else if aw_started w then w
     else if \<not> authority then w\<lparr>aw_started := True, aw_denied := True, aw_sent := aw_sent w @ [SentExpired]\<rparr>
     else w\<lparr>aw_started := True, aw_sent := aw_sent w @ [SentStatus status]\<rparr>)"

definition start_response :: "bool \<Rightarrow> authorized_response \<Rightarrow> authorized_response" where
  "start_response authority w = (if aw_started w then w else write_header authority 200 w)"

fun respond :: "bool \<Rightarrow> write_op \<Rightarrow> authorized_response \<Rightarrow> authorized_response" where
  "respond authority (WriteHeader status) w = write_header authority status w"
| "respond authority (Write raw) w =
    (let w1 = start_response authority w
     in if aw_denied w1 then w1 else w1\<lparr>aw_sent := aw_sent w1 @ [SentBody raw]\<rparr>)"
| "respond authority FlushError w =
    (let w1 = start_response authority w
     in if aw_denied w1 then w1 else w1\<lparr>aw_sent := aw_sent w1 @ [SentFlush]\<rparr>)"

fun responses :: "(bool \<times> write_op) list \<Rightarrow> authorized_response \<Rightarrow> authorized_response" where
  "responses [] w = w"
| "responses ((authority, op) # ops) w = responses ops (respond authority op w)"

end
