(* ===== verification/Gateway_Properties.thy ===== *)
theory Gateway_Properties
  imports Task_Gateway Authority_Properties Sample_Continuity
begin

text \<open>
  What the gateway lets through and what it discloses: a request that is sent on is one of a
  running attempt's own, on no protected path, under the attempt's own credentials; and an answer
  reaches the client only if the attempt still had its authority when the answer began.
\<close>

section \<open>Requests that are sent on\<close>

lemma blocked_reason_nonempty: "(x, reason) \<in> set blockedNamespaces \<Longrightarrow> reason \<noteq> []"
  "(m, x, reason) \<in> set blockedEndpoints \<Longrightarrow> reason \<noteq> []"
  by (auto simp: blockedNamespaces_def blockedEndpoints_def credentialBlockReason_def daemonBlockReason_def
      workspaceBlockReason_def integrationBlockReason_def machineBlockReason_def onboardingBlockReason_def)

definition protected_path :: "string \<Rightarrow> string \<Rightarrow> bool" where
  "protected_path meth p \<longleftrightarrow>
    (\<exists>(namespace, _)\<in>set blockedNamespaces. endpointNamespace p namespace) \<or>
    (\<exists>(rule_meth, pattern, _)\<in>set blockedEndpoints.
       (rule_meth = meth \<or> rule_meth = ''GET'' \<and> meth = ''HEAD'') \<and> endpointPath (split_on CHR ''/'' p) pattern)"

lemma blocked_no_head: "(m, x) \<in> set blockedEndpoints \<Longrightarrow> m \<noteq> ''HEAD''"
  by (auto simp: blockedEndpoints_def)

lemma unblocked: "blockedEndpointReason meth p = [] \<Longrightarrow> \<not> protected_path meth p"
  by (force simp: blockedEndpointReason_def protected_path_def Let_def find_None_iff find_Some_iff
      dest: blocked_reason_nonempty blocked_no_head nth_mem split: option.splits if_splits)

lemma carried_no_authority: "''Authorization'' \<notin> set carried_headers" "''X-Workspace-Id'' \<notin> set carried_headers"
  by (simp_all add: carried_headers_def)

lemma carry_other: "name \<notin> set names \<Longrightarrow> map_of (carry h names m) name = map_of m name"
  by (induction h names m rule: carry.induct) (auto split: option.splits)

text \<open>What is sent to the backend for a grant.\<close>

definition sent_for :: "api_client \<Rightarrow> http_request \<Rightarrow> task_grant \<Rightarrow> string \<Rightarrow> upstream_request \<Rightarrow> bool" where
  "sent_for ac r g token u \<longleftrightarrow>
    up_Method u = hr_Method r \<and> up_URL u = ac_Origin ac @ request_uri r \<and> hr_Body r = Some (up_Body u) \<and>
    int (length (up_Body u)) \<le> maxProxyPayload \<and>
    map_of (up_Header u) ''Authorization'' = Some [''Bearer '' @ token] \<and>
    map_of (up_Header u) ''X-Workspace-Id'' = (if g_WorkspaceID g = [] then None else Some [g_WorkspaceID g])"

lemma proxy_sends: "proxy ac r g token = Forwarded u \<Longrightarrow> sent_for ac r g token u"
  by (auto simp: proxy_def newRequest_def sent_for_def carry_other carried_no_authority delete_conv'
      split: if_splits option.splits sum.splits)

lemma authorize_cases:
  assumes "Authorize e c token audience st = Inr g"
  obtains x where "AuthorizeWithExpiry e c token audience st = Inr (g, x)"
  using assms by (auto simp: Authorize_def split: sum.splits)

text \<open>C33: What the gateway sends on: if a request reaches the backend then its path is a clean path of plain
  segments under /api that no policy rule protects, a GET rule protecting HEAD too; the capability
  is that of an attempt that is admitted, not revoked, dispatched and still without a result, and
  the active writer of its storage, at the moment the gate is held; and what is sent is the
  request's own method, path and body under the task token of that attempt's claim, which the
  bearer presented, and in the attempt's workspace.\<close>

theorem gateway_forward_sound:
  assumes "ServeHTTP e gw r (c0, st0) (c1, st1) = Forwarded u"
  shows "\<exists>g cl. endpointNamespace (hr_Path r) ''/api'' \<and> clean_path (hr_Path r) = hr_Path r \<and>
    list_all segment (split_on CHR ''/'' (trim_prefix (hr_Path r) ''/'')) \<and>
    \<not> protected_path (hr_Method r) (hr_Path r) \<and> gw_Admission gw g \<and> \<not> g_ExecutionRevoked g \<and>
    1 \<le> state_rank (g_State g) \<and> state_rank (g_State g) < state_rank TerminalReceived \<and>
    b_ActiveAttempt (get_storage st1 (g_StorageID g)) = g_AttemptID g \<and> \<not> b_Quarantined (get_storage st1 (g_StorageID g)) \<and>
    ParseClaim (g_Envelope g) = Inr cl \<and> cl_ID cl = g_TaskID g \<and> cl_WorkspaceID cl = g_WorkspaceID g \<and>
    header_get (hr_Header r) ''Authorization'' = ''Bearer '' @ cl_AuthToken cl \<and> sent_for (gw_Client gw) r g (cl_AuthToken cl) u"
proof -
  let ?token = "trim_prefix (header_get (hr_Header r) ''Authorization'') ''Bearer ''"
  from assms obtain g cl where a: "path_ok r" "list_all segment (split_on CHR ''/'' (trim_prefix (hr_Path r) ''/''))"
      "blockedEndpointReason (hr_Method r) (hr_Path r) = []" "?token \<noteq> header_get (hr_Header r) ''Authorization''"
      "Authorize e c1 (header_get (hr_Header r) ''X-Multica-Attempt-Capability'') ''daemon'' st1 = Inr g"
      "gw_Admission gw g" "ParseClaim (g_Envelope g) = Inr cl" "cl_ID cl = g_TaskID g" "cl_WorkspaceID cl = g_WorkspaceID g"
      "?token = cl_AuthToken cl" "endpointNamespace (hr_Path r) ''/api''" "proxy (gw_Client gw) r g ?token = Forwarded u"
    by (auto simp: ServeHTTP_def Let_def split: if_splits option.splits sum.splits)
  from a(5) obtain x where "AuthorizeWithExpiry e c1 (header_get (hr_Header r) ''X-Multica-Attempt-Capability'') ''daemon'' st1 = Inr (g, x)"
    by (rule authorize_cases)
  then have g: "\<not> g_ExecutionRevoked g" "b_ActiveAttempt (get_storage st1 (g_StorageID g)) = g_AttemptID g"
      "\<not> b_Quarantined (get_storage st1 (g_StorageID g))" "1 \<le> state_rank (g_State g)" "state_rank (g_State g) \<le> 7"
      "g_State g \<noteq> TerminalReceived"
    by (auto elim!: authorized_facts)
  then have "state_rank (g_State g) < state_rank TerminalReceived"
    by (cases "g_State g") auto
  moreover have "header_get (hr_Header r) ''Authorization'' = ''Bearer '' @ cl_AuthToken cl"
    using a(4,10) by (auto simp: trim_prefix_def prefix_def split: if_splits)
  ultimately show ?thesis
    using a g unblocked [OF a(3)] proxy_sends [OF a(12)] by (auto simp: path_ok_def)
qed

text \<open>A running attempt reads its issues.\<close>

definition running_grant :: task_grant where
  "running_grant = past_grant\<lparr>g_State := Ready, g_PodUID := uuid_a, g_SupervisorKey := ''key'', g_WorkerSessionID := [],
     g_TurnSequence := 0, g_Generation := 1\<rparr>"

definition running_journal :: registry where
  "running_journal = (empty_registry (sample_env uuid_a))\<lparr>r_Grants := [(uuid_c, running_grant)],
     r_Storages := [(uuid_d, zero_storage\<lparr>b_ActiveAttempt := uuid_c\<rparr>)],
     r_Capabilities := [(sample_sha, (service_capability uuid_a)\<lparr>cap_Audience := ''daemon''\<rparr>)]\<rparr>"

definition issues_request :: http_request where
  "issues_request = \<lparr>hr_Method = ''GET'', hr_Path = ''/api/issues'', hr_RawPath = [], hr_ForceQuery = False, hr_RawQuery = [],
     hr_Fragment = [], hr_Absolute = False,
     hr_Header = [(''Authorization'', [''Bearer mat_x'']), (''X-Multica-Attempt-Capability'', [capability_token []])],
     hr_Body = Some []\<rparr>"

definition open_gateway :: gateway where
  "open_gateway = \<lparr>gw_Ready = True, gw_Client = \<lparr>ac_Origin = ''https://backend'', ac_Version = ''1'', ac_OS = ''linux'',
     ac_Accepts = (\<lambda>_ _. True), ac_Live = True\<rparr>, gw_Admission = (\<lambda>_. True)\<rparr>"

lemma running_grant_fields:
  "g_PodUID running_grant = uuid_a" "g_StorageID running_grant = uuid_d" "g_SupervisorKey running_grant = ''key''"
  "g_State running_grant = Ready" "\<not> g_ExecutionRevoked running_grant" "g_WorkerSessionID running_grant = []"
  "g_TurnSequence running_grant = 0" "g_Generation running_grant = 1" "g_AttemptID running_grant = uuid_c"
  "g_Envelope running_grant = json_text turn_doc" "g_TaskID running_grant = uuid_b" "g_RuntimeID running_grant = uuid_d"
  "g_WorkspaceID running_grant = uuid_a" "g_AgentID running_grant = uuid_d"
  by (simp_all add: running_grant_def past_grant_def zero_grant_def)

lemma running_authorized:
  "Authorize (sample_env uuid_a) sample_call (capability_token []) ''daemon'' running_journal = Inr running_grant"
proof -
  have "capability_of running_journal sample_sha = Some ((service_capability uuid_a)\<lparr>cap_Audience := ''daemon''\<rparr>)"
    "grant_of running_journal uuid_c = Some running_grant"
    "get_storage running_journal uuid_d = zero_storage\<lparr>b_ActiveAttempt := uuid_c\<rparr>"
    by (simp_all add: running_journal_def capability_of_def grant_of_def get_storage_def mget_def)
  then show ?thesis
    by (simp add: Authorize_def AuthorizeWithExpiry_def running_grant_fields service_capability_def sample_call_def zero_storage_def)
qed

lemma issues_forwarded:
  "\<exists>u. ServeHTTP (sample_env uuid_a) open_gateway issues_request (sample_call, running_journal) (sample_call, running_journal) =
    Forwarded u"
proof -
  have a: "path_ok issues_request" "list_all segment (split_on CHR ''/'' (trim_prefix ''/api/issues'' ''/''))"
    "blockedEndpointReason ''GET'' ''/api/issues'' = []" "trim_prefix ''Bearer mat_x'' ''Bearer '' = ''mat_x''"
    "endpointNamespace ''/api/issues'' ''/api''" "\<not> endpointNamespace ''/api/issues'' ''/api/task-mcp''" "proxyMethod ''GET''"
    by code_simp+
  have b: "hr_Method issues_request = ''GET''" "hr_Path issues_request = ''/api/issues''"
    by (simp_all add: issues_request_def)
  have c: "header_get (hr_Header issues_request) ''Authorization'' = ''Bearer mat_x''"
    "header_get (hr_Header issues_request) ''X-Multica-Attempt-Capability'' = capability_token []" "gw_Ready open_gateway"
    by (simp_all add: header_get_def issues_request_def open_gateway_def)
  have d: "gw_Admission open_gateway running_grant" "prefix ''mat_'' ''mat_x''" "cl_AuthToken turn_original = ''mat_x''"
    by (simp_all add: open_gateway_def turn_original_def)
  have "\<exists>u. proxy (gw_Client open_gateway) issues_request running_grant ''mat_x'' = Forwarded u"
    by (simp add: proxy_def newRequest_def issues_request_def open_gateway_def maxProxyPayload_def MaxPayload_def)
  then show ?thesis
    unfolding ServeHTTP_def Let_def b c fst_conv snd_conv running_authorized sum.case
    by (simp add: a c d running_grant_fields)
qed

theorem gateway_forward_sound_witness:
  "\<exists>(g :: task_grant) cl. ParseClaim (g_Envelope g) = Inr cl \<and> cl_AuthToken cl = ''mat_x'' \<and> \<not> g_ExecutionRevoked g \<and>
    \<not> protected_path ''GET'' ''/api/issues''"
proof -
  obtain u where u: "ServeHTTP (sample_env uuid_a) open_gateway issues_request (sample_call, running_journal)
      (sample_call, running_journal) = Forwarded u"
    using issues_forwarded by blast
  have r: "hr_Method issues_request = ''GET''" "hr_Path issues_request = ''/api/issues''"
    "header_get (hr_Header issues_request) ''Authorization'' = ''Bearer '' @ ''mat_x''"
    by (simp_all add: issues_request_def header_get_def)
  from gateway_forward_sound [OF u] obtain g :: task_grant and cl where "ParseClaim (g_Envelope g) = Inr cl" "\<not> g_ExecutionRevoked g"
      "\<not> protected_path (hr_Method issues_request) (hr_Path issues_request)"
      "header_get (hr_Header issues_request) ''Authorization'' = ''Bearer '' @ cl_AuthToken cl"
    by blast
  with r show ?thesis
    by (intro exI [of _ g] exI [of _ cl]) (simp del: append.simps)
qed

section \<open>What is disclosed\<close>

definition informational :: "write_op \<Rightarrow> bool" where
  "informational op = (case op of WriteHeader s \<Rightarrow> 100 \<le> s \<and> s < 200 \<and> s \<noteq> 101 | _ \<Rightarrow> False)"

definition status_of :: "write_op \<Rightarrow> nat" where
  "status_of op = (case op of WriteHeader s \<Rightarrow> s | _ \<Rightarrow> 200)"

definition payload :: "write_op \<Rightarrow> sent list" where
  "payload op = (case op of WriteHeader _ \<Rightarrow> [] | Write raw \<Rightarrow> [SentBody raw] | FlushError \<Rightarrow> [SentFlush])"

lemma respond_started:
  "aw_started w \<Longrightarrow> respond a op w = w\<lparr>aw_sent := aw_sent w @ (if aw_denied w then [] else payload op)\<rparr>"
  by (cases op) (simp_all add: payload_def write_header_def start_response_def Let_def)

lemma responses_started:
  "aw_started w \<Longrightarrow> aw_sent (responses ops w) =
    aw_sent w @ (if aw_denied w then [] else concat (map (payload \<circ> snd) ops))"
  by (induction ops w rule: responses.induct) (auto simp: respond_started)

lemma respond_first:
  "respond a op new_response =
    (if informational op then new_response
     else \<lparr>aw_started = True, aw_denied = \<not> a, aw_sent = (if a then SentStatus (status_of op) # payload op else [SentExpired])\<rparr>)"
  by (cases op) (auto simp: informational_def status_of_def payload_def write_header_def start_response_def new_response_def Let_def)

text \<open>C34: Disclosure: whatever a handler writes and however often its authority changes meanwhile, the
  client is sent exactly this: nothing for informational statuses; from the first other write on,
  everything if the attempt had its authority at that moment and, if it had not, only the fixed
  refusal, none of the backend's status, headers or body, then or later.\<close>

theorem disclosure_exact:
  "aw_sent (responses ops new_response) =
    (case dropWhile (informational \<circ> snd) ops of
       [] \<Rightarrow> []
     | (authority, op) # rest \<Rightarrow>
         (if authority then SentStatus (status_of op) # concat (map (payload \<circ> snd) ((authority, op) # rest))
          else [SentExpired]))"
proof (induction ops)
  case Nil
  then show ?case
    by (simp add: new_response_def)
next
  case (Cons p ops)
  obtain a op where p: "p = (a, op)"
    by (cases p)
  show ?case
    using Cons.IH by (auto simp: p respond_first responses_started)
qed

end
