(* ===== verification/Configuration.thy ===== *)
theory Configuration
  imports Compatibility
begin

text \<open>
  The capture of the operator's files (\<^verbatim>\<open>internal/configuration/bundle.go\<close>, of \<^verbatim>\<open>capture.go\<close> the
  mapping and the collection of a tree, of \<^verbatim>\<open>home.go\<close> what the image keeps to itself): groups of files and
  directories below the agents' home, their digests, and the validation of a bundle.

  A file tree is a parameter, the value \<open>tree\<close> that \<^verbatim>\<open>WalkDir\<close> walks.  Go iterates over a map in any order;
  here it is the order of insertion, which decides only which of two errors is returned.
\<close>

datatype config_error =
    Refusal string
  | RefusalOf string string config_error

section \<open>Bundles\<close>

record copy_rule =
  cp_SourceGroup :: string
  cp_Source :: string
  cp_Target :: string

record config_file =
  cf_Target :: string
  cf_Mode :: "32 word"
  cf_SHA256 :: string
  cf_Content :: string

text \<open>\<open>None\<close> is the nil slice.\<close>

record config_group =
  cg_Name :: string
  cg_Directories :: "string list option"
  cg_Files :: "config_file list option"

record config_bundle =
  bu_Groups :: "config_group list option"
  bu_Digest :: string

definition agents_home :: string where "agents_home = ''/home/multica/agents''"

definition chrome_profile :: string where "chrome_profile = agents_home @ ''/.config/google-chrome''"

definition MaxGroupBytes :: int where "MaxGroupBytes = 2 ^ 20"

definition group_rx :: rx where
  "group_rx =
    (let alnum = Cls [(97, 122), (48, 57)] in
     Cat alnum (opt_rx (Cat (Rep (Cls [(45, 45), (97, 122), (48, 57)])) alnum)))"

definition GroupName :: "string \<Rightarrow> bool" where
  "GroupName v = (length v \<le> 63 \<and> matches group_rx v)"

section \<open>Paths\<close>

definition below :: "string \<Rightarrow> string \<Rightarrow> bool" where
  "below root path = prefix (root @ ''/'') path"

definition HomePath :: "string \<Rightarrow> bool \<Rightarrow> bool" where
  "HomePath path directory =
    (let protected = agents_home @ ''/.multica/config.json'' in
     clean_path path = path \<and> below agents_home path \<and> \<not> contains_any path [nul_char, nl_char, cr_char] \<and>
     path \<noteq> protected \<and> \<not> below protected path \<and> (directory \<or> \<not> below path protected))"

text \<open>\<^verbatim>\<open>filepath.IsLocal\<close>\<close>

definition is_local :: "string \<Rightarrow> bool" where
  "is_local path =
    (if is_abs path \<or> path = [] then False
     else
       (let elems = split_on CHR ''/'' path;
            cleaned = (if ''.'' \<in> set elems \<or> ''..'' \<in> set elems then clean_path path else path)
        in cleaned \<noteq> ''..'' \<and> \<not> prefix ''../'' cleaned))"

definition relativeTarget :: "string \<Rightarrow> bool \<Rightarrow> bool" where
  "relativeTarget v directory =
    (is_local v \<and> clean_path v = v \<and> v \<noteq> ''.'' \<and> HomePath (agents_home @ ''/'' @ v) directory)"

text \<open>The directories above a path, until \<^verbatim>\<open>filepath.Dir\<close> gives the dot.\<close>

fun parents_fuel :: "nat \<Rightarrow> string \<Rightarrow> string list" where
  "parents_fuel 0 _ = []"
| "parents_fuel (Suc n) path =
    (let parent = path_dir path in if parent = ''.'' then [] else parent # parents_fuel n parent)"

definition parents :: "string \<Rightarrow> string list" where
  "parents path = parents_fuel (length path) path"

section \<open>Validation of a group\<close>

definition directories_of :: "config_group \<Rightarrow> string list" where
  "directories_of g = (case cg_Directories g of None \<Rightarrow> [] | Some ds \<Rightarrow> ds)"

definition files_of :: "config_group \<Rightarrow> config_file list" where
  "files_of g = (case cg_Files g of None \<Rightarrow> [] | Some fs \<Rightarrow> fs)"

definition file_targets :: "config_group \<Rightarrow> string list" where
  "file_targets g = map cf_Target (files_of g)"

definition groups_of :: "config_bundle \<Rightarrow> config_group list" where
  "groups_of b = (case bu_Groups b of None \<Rightarrow> [] | Some gs \<Rightarrow> gs)"

text \<open>Each entry comes after the one before it.\<close>

fun rising :: "string option \<Rightarrow> string list \<Rightarrow> bool" where
  "rising prior [] = True"
| "rising prior (x # xs) = ((case prior of None \<Rightarrow> True | Some p \<Rightarrow> p < x) \<and> rising (Some x) xs)"

definition file_ok :: "env \<Rightarrow> config_file \<Rightarrow> bool" where
  "file_ok e f =
    (relativeTarget (cf_Target f) False \<and> (cf_Mode f = 0x180 \<or> cf_Mode f = 0x1C0) \<and>
     cf_SHA256 f = e_digest e (cf_Content f))"

definition group_size :: "config_group \<Rightarrow> int" where
  "group_size g = (\<Sum>f\<leftarrow>files_of g. int (length (cf_Content f)))"

definition Group_Validate :: "env \<Rightarrow> config_group \<Rightarrow> config_error + unit" where
  "Group_Validate e g =
    (if \<not> GroupName (cg_Name g) \<or> cg_Files g = None \<or> cg_Directories g = None
     then Inl (Refusal ''invalid configuration source group'')
     else if \<not> (list_all (\<lambda>d. relativeTarget d True) (directories_of g) \<and> rising None (directories_of g))
     then Inl (Refusal ''invalid configuration directories'')
     else if \<not> (list_all (file_ok e) (files_of g) \<and> rising None (file_targets g))
     then Inl (Refusal ''invalid configuration file integrity or target'')
     else if MaxGroupBytes < group_size g
     then Inl (RefusalOf ''configuration_payload_too_large'' (cg_Name g)
            (Refusal ''configuration source exceeds supported payload size''))
     else if list_ex (\<lambda>t. t \<in> set (directories_of g)) (file_targets g)
     then Inl (Refusal ''configuration target is both file and directory'')
     else if list_ex (\<lambda>t. list_ex (\<lambda>p. p \<in> set (file_targets g)) (parents t)) (file_targets g)
     then Inl (Refusal ''configuration file shadows a parent'')
     else if list_ex (\<lambda>t. list_ex (\<lambda>p. p \<in> set (file_targets g)) (parents t)) (directories_of g)
     then Inl (Refusal ''configuration file shadows a directory parent'')
     else Inr ())"

section \<open>Digests\<close>

definition GroupDigest :: "env \<Rightarrow> config_group \<Rightarrow> string" where
  "GroupDigest e g =
    e_digest e (json_text (JObj
      [(''name'', jstr (cg_Name g)),
       (''directories'', jopt (\<lambda>ds. JArr (map jstr ds)) (cg_Directories g)),
       (''files'', JArr (map (\<lambda>f. JObj [(''target'', jstr (cf_Target f)), (''mode'', jnat (unat (cf_Mode f))),
          (''sha256'', jstr (cf_SHA256 f))]) (files_of g)))]))"

definition groups_digest :: "env \<Rightarrow> config_group list \<Rightarrow> string" where
  "groups_digest e gs =
    e_digest e (json_text (JArr (map (\<lambda>g. JObj [(''name'', jstr (cg_Name g)), (''digest'', jstr (GroupDigest e g))]) gs)))"

definition ExecutionDigest :: "env \<Rightarrow> config_bundle \<Rightarrow> string list option \<Rightarrow> string" where
  "ExecutionDigest e b environment =
    e_digest e (json_text (JArr [jstr (bu_Digest b), jopt (\<lambda>values. JArr (map jstr (sort values))) environment]))"

section \<open>Validation of a bundle\<close>

text \<open>\<open>targets\<close> maps every target so far to its group.\<close>

fun claim_directories :: "string \<Rightarrow> (string \<times> string) list \<Rightarrow> string list \<Rightarrow> (string \<times> string) list option" where
  "claim_directories name targets [] = Some targets"
| "claim_directories name targets (d # ds) =
    (let prior = (case map_of targets d of None \<Rightarrow> [] | Some p \<Rightarrow> p) in
     if prior \<noteq> [] \<and> prior \<noteq> name then None
     else claim_directories name (AList.update d name targets) ds)"

fun claim_files :: "string \<Rightarrow> (string \<times> string) list \<Rightarrow> string list \<Rightarrow> (string \<times> string) list option" where
  "claim_files name targets [] = Some targets"
| "claim_files name targets (t # ts) =
    (let prior = (case map_of targets t of None \<Rightarrow> [] | Some p \<Rightarrow> p) in
     if prior \<noteq> [] then None else claim_files name (AList.update t name targets) ts)"

definition overlap :: config_error where
  "overlap = Refusal ''configuration source groups overlap''"

fun claim_groups ::
  "env \<Rightarrow> string option \<Rightarrow> (string \<times> string) list \<Rightarrow> config_group list \<Rightarrow> config_error + (string \<times> string) list" where
  "claim_groups e prior targets [] = Inr targets"
| "claim_groups e prior targets (g # gs) =
    (if (case prior of None \<Rightarrow> False | Some p \<Rightarrow> \<not> p < cg_Name g)
     then Inl (Refusal ''configuration source groups are not unique/canonical'')
     else case Group_Validate e g of
       Inl x \<Rightarrow> Inl x
     | Inr _ \<Rightarrow>
         (case claim_directories (cg_Name g) targets (directories_of g) of
            None \<Rightarrow> Inl overlap
          | Some ts \<Rightarrow>
              (case claim_files (cg_Name g) ts (file_targets g) of
                 None \<Rightarrow> Inl overlap
               | Some us \<Rightarrow> claim_groups e (Some (cg_Name g)) us gs)))"

definition Bundle_Validate :: "env \<Rightarrow> config_bundle \<Rightarrow> config_error + unit" where
  "Bundle_Validate e b =
    (if bu_Groups b = None \<or> \<not> ValidSHA (bu_Digest b) then Inl (Refusal ''invalid configuration bundle'')
     else case claim_groups e None [] (groups_of b) of
       Inl x \<Rightarrow> Inl x
     | Inr targets \<Rightarrow>
         (let files = concat (map file_targets (groups_of b)) in
          if list_ex (\<lambda>(t, _). list_ex (\<lambda>p. p \<in> set files) (parents t)) targets
          then Inl (Refusal ''configuration file shadows another target'')
          else if groups_digest e (groups_of b) \<noteq> bu_Digest b then Inl (Refusal ''configuration bundle digest mismatch'')
          else Inr ()))"

section \<open>What the image keeps\<close>

definition chromeProfileConflict :: "string \<Rightarrow> bool \<Rightarrow> bool" where
  "chromeProfileConflict target file =
    (let path = path_join [agents_home, target] in
     path = chrome_profile \<or> below chrome_profile path \<or> file \<and> below path chrome_profile)"

definition profile_refusal :: "string \<Rightarrow> config_error" where
  "profile_refusal name =
    RefusalOf ''configuration_chrome_profile_conflict'' name (Refusal ''configuration overlaps the retained Chrome profile'')"

definition profile_conflict :: "config_group \<Rightarrow> bool" where
  "profile_conflict g =
    (list_ex (\<lambda>t. chromeProfileConflict t True) (file_targets g) \<or>
     list_ex (\<lambda>d. chromeProfileConflict d False) (directories_of g))"

definition ValidateHomeConfiguration :: "env \<Rightarrow> config_bundle \<Rightarrow> config_error + unit" where
  "ValidateHomeConfiguration e b =
    (case Bundle_Validate e b of
       Inl x \<Rightarrow> Inl x
     | Inr _ \<Rightarrow>
         (case find profile_conflict (groups_of b) of
            None \<Rightarrow> Inr ()
          | Some g \<Rightarrow> Inl (profile_refusal (cg_Name g))))"

section \<open>Capturing\<close>

definition nested :: "string \<Rightarrow> string \<Rightarrow> bool" where
  "nested a b = (a = b \<or> below b a \<or> below a b)"

definition copy_ok :: "string \<Rightarrow> copy_rule \<Rightarrow> bool" where
  "copy_ok inputRoot c =
    (let base = path_join [inputRoot, cp_SourceGroup c] in
     GroupName (cp_SourceGroup c) \<and> clean_path (cp_Source c) = cp_Source c \<and>
     (cp_Source c = base \<or> below base (cp_Source c)) \<and> HomePath (cp_Target c) True)"

text \<open>\<open>priors\<close> are the rules before, the first one first.\<close>

fun copies_apart :: "copy_rule \<Rightarrow> copy_rule list \<Rightarrow> config_error + unit" where
  "copies_apart c [] = Inr ()"
| "copies_apart c (p # ps) =
    (if nested (cp_Target c) (cp_Target p) then Inl (Refusal ''configuration copy targets overlap'')
     else if cp_SourceGroup c = cp_SourceGroup p \<and> nested (cp_Source c) (cp_Source p)
     then Inl (Refusal ''configuration copy sources overlap'')
     else copies_apart c ps)"

fun validate_copies :: "string \<Rightarrow> copy_rule list \<Rightarrow> copy_rule list \<Rightarrow> config_error + unit" where
  "validate_copies inputRoot priors [] = Inr ()"
| "validate_copies inputRoot priors (c # cs) =
    (if \<not> copy_ok inputRoot c
     then Inl (Refusal ''configuration copy requires a source group, confined source and native target'')
     else case copies_apart c priors of
       Inl x \<Rightarrow> Inl x
     | Inr _ \<Rightarrow> validate_copies inputRoot (priors @ [c]) cs)"

definition ValidateCopies :: "copy_rule list \<Rightarrow> string \<Rightarrow> config_error + unit" where
  "ValidateCopies copies inputRoot =
    (if \<not> is_abs inputRoot \<or> clean_path inputRoot \<noteq> inputRoot
     then Inl (Refusal ''canonical configuration input root required'')
     else validate_copies inputRoot [] copies)"

definition normalize_group :: "config_group \<Rightarrow> config_group" where
  "normalize_group g =
    g\<lparr>cg_Directories := map_option (\<lambda>ds. compact (sort ds)) (cg_Directories g),
      cg_Files := map_option (sort_key cf_Target) (cg_Files g)\<rparr>"


text \<open>A file tree as the walk meets it, the entries of a directory in the order of their names.\<close>

datatype tree =
    Directory "(string \<times> tree) list"
  | Regular bool string
  | Special

definition ForGroup :: "string \<Rightarrow> string \<Rightarrow> config_error \<Rightarrow> config_error" where
  "ForGroup reason name cause = (case cause of RefusalOf _ _ _ \<Rightarrow> cause | Refusal _ \<Rightarrow> RefusalOf reason name cause)"

definition add_directory :: "string \<Rightarrow> config_group \<Rightarrow> config_group" where
  "add_directory name g = g\<lparr>cg_Directories := Some (directories_of g @ [name])\<rparr>"

definition add_file :: "env \<Rightarrow> string \<Rightarrow> bool \<Rightarrow> string \<Rightarrow> config_group \<Rightarrow> config_group" where
  "add_file e name executable content g =
    g\<lparr>cg_Files := Some (files_of g @ [\<lparr>cf_Target = name, cf_Mode = (if executable then 0x1C0 else 0x180),
      cf_SHA256 = e_digest e content, cf_Content = content\<rparr>])\<rparr>"

definition walk_refusal :: "string \<Rightarrow> string \<Rightarrow> bool \<Rightarrow> config_error option" where
  "walk_refusal name dest directory =
    (if \<not> HomePath dest directory
     then Some (Refusal ''configuration tree escapes HOME or shadows daemon authority'')
     else if chromeProfileConflict (trim_prefix dest (agents_home @ ''/'')) (\<not> directory)
     then Some (profile_refusal name) else None)"

fun collect_tree :: "env \<Rightarrow> string \<Rightarrow> tree \<Rightarrow> config_group \<Rightarrow> config_error + config_group"
  and collect_entries :: "env \<Rightarrow> string \<Rightarrow> (string \<times> tree) list \<Rightarrow> config_group \<Rightarrow> config_error + config_group" where
  "collect_tree e dest (Directory entries) g =
    (case walk_refusal (cg_Name g) dest True of
       Some x \<Rightarrow> Inl x
     | None \<Rightarrow> collect_entries e dest entries (add_directory (trim_prefix dest (agents_home @ ''/'')) g))"
| "collect_tree e dest (Regular executable content) g =
    (case walk_refusal (cg_Name g) dest False of
       Some x \<Rightarrow> Inl x
     | None \<Rightarrow>
         (if MaxGroupBytes < int (length content)
          then Inl (Refusal ''configuration payload is not a bounded regular file'')
          else Inr (add_file e (trim_prefix dest (agents_home @ ''/'')) executable content g)))"
| "collect_tree e dest Special g =
    (case walk_refusal (cg_Name g) dest False of
       Some x \<Rightarrow> Inl x
     | None \<Rightarrow> Inl (Refusal ''configuration tree contains a link or special file''))"
| "collect_entries e dest [] g = Inr g"
| "collect_entries e dest ((name, t) # entries) g =
    (case collect_tree e (path_join [dest, name]) t g of
       Inl x \<Rightarrow> Inl x
     | Inr h \<Rightarrow> collect_entries e dest entries h)"

definition collect :: "env \<Rightarrow> config_group \<Rightarrow> tree \<Rightarrow> string \<Rightarrow> config_error + config_group" where
  "collect e g source target =
    (if source = Special then Inl (Refusal ''configuration input contains a link or special file'')
     else collect_tree e (path_join [target]) source g)"

text \<open>What the capture finds of its sources: whether a source group has a payload, and the tree of a
  rule below it.\<close>

record sources =
  so_group :: "string \<Rightarrow> config_error option"
  so_tree :: "copy_rule \<Rightarrow> config_error + tree"

definition empty_group :: "string \<Rightarrow> config_group" where
  "empty_group name = \<lparr>cg_Name = name, cg_Directories = Some [], cg_Files = Some []\<rparr>"

fun capture_groups ::
  "env \<Rightarrow> sources \<Rightarrow> (string \<times> config_group) list \<Rightarrow> copy_rule list \<Rightarrow> config_error + (string \<times> config_group) list" where
  "capture_groups e src groups [] = Inr groups"
| "capture_groups e src groups (c # cs) =
    (let name = cp_SourceGroup c in
     case (if map_of groups name = None then so_group src name else None) of
       Some x \<Rightarrow> Inl (ForGroup ''configuration_source_invalid'' name x)
     | None \<Rightarrow>
         (case so_tree src c of
            Inl x \<Rightarrow> Inl x
          | Inr t \<Rightarrow>
              (case collect e (case map_of groups name of None \<Rightarrow> empty_group name | Some g \<Rightarrow> g) t (cp_Target c) of
                 Inl x \<Rightarrow> Inl (ForGroup ''configuration_payload_invalid'' name x)
               | Inr g \<Rightarrow> capture_groups e src (AList.update name g groups) cs)))"

definition Capture :: "env \<Rightarrow> sources \<Rightarrow> copy_rule list \<Rightarrow> string \<Rightarrow> config_error + config_bundle" where
  "Capture e src copies inputRoot =
    (case ValidateCopies copies inputRoot of
       Inl x \<Rightarrow> Inl (ForGroup ''configuration_mapping_invalid'' [] x)
     | Inr _ \<Rightarrow>
         (case capture_groups e src [] copies of
            Inl x \<Rightarrow> Inl x
          | Inr groups \<Rightarrow>
              (let gs = sort_key cg_Name (map (normalize_group \<circ> snd) groups);
                   b = \<lparr>bu_Groups = Some gs, bu_Digest = groups_digest e gs\<rparr>
               in case Bundle_Validate e b of Inl x \<Rightarrow> Inl x | Inr _ \<Rightarrow> Inr b)))"

end
