(* ===== verification/Configuration_Properties.thy ===== *)
theory Configuration_Properties
  imports Configuration
begin

text \<open>
  What a valid bundle guarantees of its targets (each below the home, none above another one, no two groups
  for one file) and that what \<open>Capture\<close> returns can be applied to the home of the image.
\<close>

section \<open>Relative targets\<close>

lemma split_on_sep: "split_on d (s @ d # t) = split_on d s @ split_on d t"
  by (induction s) (auto split: list.splits)

lemma home_elems: "split_on CHR ''/'' agents_home = ['''', ''home'', ''multica'', ''agents'']"
  by (simp add: agents_home_def)

lemma home_path_canonical: "HomePath p d \<Longrightarrow> canonicalPath p"
proof -
  assume home: "HomePath p d"
  then obtain u where "p = (agents_home @ ''/'') @ u"
    by (auto simp: HomePath_def below_def prefix_def Let_def)
  then have "is_abs p"
    by (simp add: is_abs_def agents_home_def)
  with home show ?thesis
    by (auto simp: HomePath_def canonicalPath_def contains_any_iff Let_def)
qed

lemma relative_elems:
  assumes "relativeTarget v d"
  obtains es where "v = join_with CHR ''/'' es" "es \<noteq> []" "\<forall>w\<in>set es. good_elem w"
proof -
  let ?p = "agents_home @ CHR ''/'' # v"
  from assms have "canonicalPath ?p"
    by (auto simp: relativeTarget_def intro: home_path_canonical)
  then obtain ps where ps: "?p = abs_path ps" "\<forall>w\<in>set ps. good_elem w"
    by (rule canonicalPath_elems)
  have "split_on CHR ''/'' ?p = ['''', ''home'', ''multica'', ''agents''] @ split_on CHR ''/'' v"
    by (simp only: split_on_sep home_elems)
  then have "'''' # (if ps = [] then [''''] else ps) = ['''', ''home'', ''multica'', ''agents''] @ split_on CHR ''/'' v"
    by (simp only: ps(1) split_abs_path [OF ps(2)])
  then have "ps = [''home'', ''multica'', ''agents''] @ split_on CHR ''/'' v"
    by (cases "ps = []") simp_all
  then have "set (split_on CHR ''/'' v) \<subseteq> set ps"
    by (simp only: set_append Un_upper2)
  with ps(2) show thesis
    by (intro that [of "split_on CHR ''/'' v"]) auto
qed

lemma good_split: "\<forall>w\<in>set es. good_elem w \<Longrightarrow> es \<noteq> [] \<Longrightarrow> split_on CHR ''/'' (join_with CHR ''/'' es) = es"
  by (rule split_join) (auto simp: good_elem_def)

lemma good_join:
  assumes "\<forall>w\<in>set es. good_elem w" "es \<noteq> []"
  shows "join_with CHR ''/'' es \<noteq> ''.''" "\<not> is_abs (join_with CHR ''/'' es)" "join_with CHR ''/'' es \<noteq> []"
proof -
  let ?v = "join_with CHR ''/'' es"
  have es: "split_on CHR ''/'' ?v = es"
    using assms by (rule good_split)
  have no: "[] \<notin> set es" "''.'' \<notin> set es"
    using assms(1) by (auto simp: good_elem_def)
  show "?v \<noteq> ''.''"
  proof
    assume "?v = ''.''"
    with es have "es = [''.'']"
      by simp
    with no show False
      by simp
  qed
  show "\<not> is_abs ?v"
  proof
    assume "is_abs ?v"
    then obtain u where "?v = CHR ''/'' # u"
      by (auto simp: is_abs_def prefix_def)
    with es have "es = [] # split_on CHR ''/'' u"
      by simp
    with no show False
      by simp
  qed
  show "?v \<noteq> []"
  proof
    assume "?v = []"
    with es have "es = [[]]"
      by simp
    with no show False
      by simp
  qed
qed

lemma path_dir_relative:
  assumes "\<forall>w\<in>set es. good_elem w" "good_elem w"
  shows "path_dir (join_with CHR ''/'' (es @ [w])) = (if es = [] then ''.'' else join_with CHR ''/'' es)"
proof (cases "es = []")
  case True
  have "dropWhile (\<lambda>c. c \<noteq> CHR ''/'') (rev w) = []"
    using assms(2) by (auto simp: good_elem_def)
  moreover have "clean_path [] = ''.''"
    by (simp add: clean_path_def is_abs_def)
  ultimately have "path_dir w = ''.''"
    by (simp only: path_dir_def rev.simps)
  with True show ?thesis
    by simp
next
  case False
  have "CHR ''/'' \<notin> set w"
    using assms(2) by (simp add: good_elem_def)
  then have "rev (dropWhile (\<lambda>c. c \<noteq> CHR ''/'') (rev (join_with CHR ''/'' (es @ [w])))) = join_with CHR ''/'' es @ CHR ''/'' # []"
    using False by (simp add: join_with_append dropWhile_rev_elem)
  moreover have "split_on CHR ''/'' (join_with CHR ''/'' es @ CHR ''/'' # []) = es @ [[]]"
    using False assms by (simp add: split_on_sep good_split)
  moreover have "clean_elems rooted out (es @ [[]]) = rev out @ es" for rooted out
    using assms(1) by (induction es arbitrary: out) (auto simp: good_elem_def)
  moreover have "\<not> is_abs (join_with CHR ''/'' es @ CHR ''/'' # [])"
    using good_join [OF assms(1) False] by (cases "join_with CHR ''/'' es") (auto simp: is_abs_def)
  ultimately show ?thesis
    using False by (simp add: path_dir_def clean_path_def)
qed

lemma parents_fuel_above:
  assumes "us \<noteq> []" "\<forall>w\<in>set (ps @ us). good_elem w" "ps \<noteq> []" "length (join_with CHR ''/'' (ps @ us)) \<le> n"
  shows "join_with CHR ''/'' ps \<in> set (parents_fuel n (join_with CHR ''/'' (ps @ us)))"
  using assms
proof (induction us arbitrary: n rule: rev_induct)
  case (snoc u us)
  have good: "\<forall>w\<in>set (ps @ us). good_elem w" "good_elem u" "ps @ us \<noteq> []"
    using snoc.prems by auto
  have len: "length (join_with CHR ''/'' (ps @ us)) < length (join_with CHR ''/'' (ps @ us @ [u]))"
    using join_with_append [OF good(3), of "CHR ''/''" u] by simp
  then obtain k where n: "n = Suc k" "length (join_with CHR ''/'' (ps @ us)) \<le> k"
    using snoc.prems(4) by (cases n) auto
  have dir: "path_dir (join_with CHR ''/'' (ps @ us @ [u])) = join_with CHR ''/'' (ps @ us)"
    using path_dir_relative [OF good(1,2)] good(3) by (simp del: append_is_Nil_conv)
  have "join_with CHR ''/'' (ps @ us) \<noteq> ''.''"
    using good_join(1) [OF good(1,3)] .
  then show ?case
    using snoc.IH [of k] good n dir snoc.prems(3) by (cases "us = []") (simp_all add: Let_def)
qed simp

lemma parents_above:
  assumes t: "relativeTarget t d" and below: "below p t" "p \<noteq> []"
  shows "p \<in> set (parents t)"
proof -
  from t obtain es where es: "t = join_with CHR ''/'' es" "es \<noteq> []" "\<forall>w\<in>set es. good_elem w"
    by (rule relative_elems)
  from below obtain u where u: "t = p @ CHR ''/'' # u"
    by (auto simp: below_def prefix_def)
  have split: "es = split_on CHR ''/'' p @ split_on CHR ''/'' u"
    using good_split [OF es(3,2)] unfolding es(1) [symmetric] u by (simp add: split_on_sep)
  show ?thesis
    using parents_fuel_above [of "split_on CHR ''/'' u" "split_on CHR ''/'' p" "length t"] es(3)
    unfolding parents_def es(1) split by simp
qed

section \<open>Valid groups and bundles\<close>

lemma rising_sorted:
  "rising prior xs \<Longrightarrow> sorted_wrt (<) xs \<and> (\<forall>p. prior = Some p \<longrightarrow> (\<forall>x\<in>set xs. p < x))"
proof (induction prior xs rule: rising.induct)
  case (2 prior x xs)
  then show ?case
    by (auto split: option.splits)
qed simp

lemma rising_distinct: "rising prior xs \<Longrightarrow> distinct xs"
  using rising_sorted strict_sorted_iff by blast

definition targets_of :: "config_group \<Rightarrow> string set" where
  "targets_of g = set (directories_of g) \<union> set (file_targets g)"

lemma valid_group:
  assumes "Group_Validate e g = Inr ()"
  shows "cg_Name g \<noteq> []" "\<And>d. d \<in> set (directories_of g) \<Longrightarrow> relativeTarget d True"
    "\<And>t. t \<in> set (file_targets g) \<Longrightarrow> relativeTarget t False" "distinct (file_targets g)"
    "set (file_targets g) \<inter> set (directories_of g) = {}"
proof -
  have "\<not> matches group_rx []"
    by (simp add: group_rx_def Let_def)
  then show "cg_Name g \<noteq> []"
    using assms by (auto simp: Group_Validate_def GroupName_def split: if_splits)
  show "distinct (file_targets g)"
    using assms by (auto simp: Group_Validate_def intro: rising_distinct split: if_splits)
qed (use assms in \<open>auto simp: Group_Validate_def list_all_iff list_ex_iff file_ok_def file_targets_def split: if_splits\<close>)

lemma claim_directories_dom:
  "claim_directories name ts ds = Some us \<Longrightarrow>
    map_of us = (\<lambda>k. if k \<in> set ds then Some name else map_of ts k) \<and>
    (\<forall>d\<in>set ds. map_of ts d \<in> {None, Some [], Some name})"
proof (induction name ts ds rule: claim_directories.induct)
  case (2 name ts d ds)
  then show ?case
    by (auto simp: Let_def update_conv' fun_eq_iff split: if_splits option.splits)
qed (simp add: fun_eq_iff)

lemma claim_files_dom:
  "claim_files name ts fs = Some us \<Longrightarrow> name \<noteq> [] \<Longrightarrow>
    map_of us = (\<lambda>k. if k \<in> set fs then Some name else map_of ts k) \<and>
    (\<forall>f\<in>set fs. map_of ts f \<in> {None, Some []}) \<and> distinct fs"
proof (induction name ts fs rule: claim_files.induct)
  case (2 name ts f fs)
  then show ?case
    by (auto simp: Let_def update_conv' fun_eq_iff split: if_splits option.splits)
qed (simp add: fun_eq_iff)

text \<open>Names of claimed targets are not empty and not after the latest group.\<close>

definition named_before :: "string option \<Rightarrow> (string \<times> string) list \<Rightarrow> bool" where
  "named_before prior ts \<longleftrightarrow>
    (\<forall>k n. map_of ts k = Some n \<longrightarrow> n \<noteq> [] \<and> (\<exists>p. prior = Some p \<and> n \<le> p))"

definition all_targets :: "config_group list \<Rightarrow> string set" where
  "all_targets gs = (\<Union>g\<in>set gs. targets_of g)"

definition all_files :: "config_group list \<Rightarrow> string list" where
  "all_files gs = concat (map file_targets gs)"

definition all_directories :: "config_group list \<Rightarrow> string set" where
  "all_directories gs = (\<Union>g\<in>set gs. set (directories_of g))"

lemma claim_groups_apart:
  assumes "claim_groups e prior ts gs = Inr us" "named_before prior ts"
  shows "(\<forall>g\<in>set gs. Group_Validate e g = Inr ()) \<and> dom (map_of us) = dom (map_of ts) \<union> all_targets gs \<and>
    all_targets gs \<inter> dom (map_of ts) = {} \<and> distinct (all_files gs) \<and> set (all_files gs) \<inter> all_directories gs = {}"
  using assms
proof (induction e prior ts gs rule: claim_groups.induct)
  case (2 e prior ts g gs)
  from 2 obtain vs ws where steps: "Group_Validate e g = Inr ()" "claim_directories (cg_Name g) ts (directories_of g) = Some vs"
      "claim_files (cg_Name g) vs (file_targets g) = Some ws" "claim_groups e (Some (cg_Name g)) ws gs = Inr us"
      and after: "\<And>p. prior = Some p \<Longrightarrow> p < cg_Name g"
    by (auto split: if_splits option.splits sum.splits)
  note g = valid_group [OF steps(1)]
  note vs = claim_directories_dom [OF steps(2)] and ws = claim_files_dom [OF steps(3) g(1)]
  have name: "map_of ts k \<noteq> Some (cg_Name g)" "map_of ts k \<noteq> Some []" for k
    using "2.prems"(2) after by (fastforce simp: named_before_def)+
  have "named_before (Some (cg_Name g)) ws"
    using "2.prems"(2) vs ws g(1) after
    by (auto simp: named_before_def split: if_splits) (metis less_imp_le order_trans)
  then have IH: "(\<forall>h\<in>set gs. Group_Validate e h = Inr ()) \<and> dom (map_of us) = dom (map_of ws) \<union> all_targets gs \<and>
      all_targets gs \<inter> dom (map_of ws) = {} \<and> distinct (all_files gs) \<and> set (all_files gs) \<inter> all_directories gs = {}"
    using after steps by (intro "2.IH" [OF _ steps(1,2,3,4)]) (auto split: option.splits)
  have dirs: "set (directories_of g) \<inter> dom (map_of ts) = {}"
    using vs name by fastforce
  have files: "set (file_targets g) \<inter> dom (map_of ts) = {}"
    using ws vs name by (auto split: if_splits)
  have "dom (map_of ws) = dom (map_of ts) \<union> targets_of g"
    using vs ws by (auto simp: targets_of_def dom_def)
  moreover have "targets_of g \<inter> dom (map_of ts) = {}"
    using dirs files by (auto simp: targets_of_def)
  moreover have "set (all_files gs) \<subseteq> all_targets gs" "all_directories gs \<subseteq> all_targets gs"
    by (auto simp: all_files_def all_targets_def targets_of_def all_directories_def)
  ultimately show ?case
    using IH g(4,5) steps(1) by (auto simp: all_targets_def all_files_def all_directories_def targets_of_def)
qed (simp_all add: all_targets_def all_files_def all_directories_def)

lemma valid_bundle:
  assumes "Bundle_Validate e b = Inr ()"
  obtains us where "claim_groups e None [] (groups_of b) = Inr us"
    "\<And>t p. t \<in> dom (map_of us) \<Longrightarrow> p \<in> set (parents t) \<Longrightarrow> p \<notin> set (all_files (groups_of b))"
proof -
  from assms obtain us where us: "claim_groups e None [] (groups_of b) = Inr us"
      "\<not> list_ex (\<lambda>(t, _). list_ex (\<lambda>p. p \<in> set (all_files (groups_of b))) (parents t)) us"
    by (auto simp: Bundle_Validate_def all_files_def Let_def split: if_splits sum.splits)
  show thesis
  proof (rule that [OF us(1)])
    fix t p
    assume "t \<in> dom (map_of us)" "p \<in> set (parents t)"
    with us(2) show "p \<notin> set (all_files (groups_of b))"
      by (fastforce simp: list_ex_iff dest: map_of_SomeD)
  qed
qed

section \<open>Collected targets\<close>

definition kept_clear :: "config_group \<Rightarrow> bool" where
  "kept_clear g \<longleftrightarrow> \<not> profile_conflict g"

lemma collect_clear:
  "collect_tree e dest t g = Inr h \<Longrightarrow> kept_clear g \<Longrightarrow> kept_clear h"
  "collect_entries e dest entries g = Inr h \<Longrightarrow> kept_clear g \<Longrightarrow> kept_clear h"
proof (induction e dest t g and e dest entries g arbitrary: h and h rule: collect_tree_collect_entries.induct)
qed (auto simp: kept_clear_def profile_conflict_def walk_refusal_def add_directory_def add_file_def
      directories_of_def files_of_def file_targets_def split: if_splits sum.splits option.splits)

lemma update_members: "set (AList.update k v xs) \<subseteq> insert (k, v) (set xs)"
  by (induction xs) auto

lemma captured_clear:
  assumes "capture_groups e src groups cs = Inr gs" "\<forall>g\<in>snd ` set groups. kept_clear g"
  shows "\<forall>g\<in>snd ` set gs. kept_clear g"
  using assms
proof (induction e src groups cs rule: capture_groups.induct)
  case (2 e src groups c cs)
  let ?name = "cp_SourceGroup c"
  from 2(2) obtain t g where step: "collect e (case map_of groups ?name of None \<Rightarrow> empty_group ?name | Some g \<Rightarrow> g) t (cp_Target c) = Inr g"
      "capture_groups e src (AList.update ?name g groups) cs = Inr gs" "so_tree src c = Inr t"
      "(if map_of groups ?name = None then so_group src ?name else None) = None"
    by (auto simp: Let_def split: sum.splits option.splits)
  have "kept_clear (case map_of groups ?name of None \<Rightarrow> empty_group ?name | Some g \<Rightarrow> g)"
    using 2(3) by (auto simp: kept_clear_def profile_conflict_def empty_group_def directories_of_def file_targets_def
        files_of_def split: option.splits dest!: map_of_SomeD)
  then have "kept_clear g"
    using step(1) collect_clear by (auto simp: collect_def split: if_splits)
  then have "\<forall>h\<in>snd ` set (AList.update ?name g groups). kept_clear h"
    using 2(3) update_members by fastforce
  with 2(1) step show ?case
    by simp
qed simp

lemma normalize_clear: "kept_clear (normalize_group g) = kept_clear g"
  by (cases "cg_Directories g"; cases "cg_Files g")
    (simp_all add: kept_clear_def profile_conflict_def normalize_group_def directories_of_def files_of_def
      file_targets_def list_ex_iff)


section \<open>Properties\<close>

text \<open>C38: in a valid bundle no target is claimed twice and no file lies on the path of another target.\<close>

theorem bundle_targets_apart:
  assumes "Bundle_Validate e b = Inr ()"
  shows "distinct (all_files (groups_of b)) \<and> set (all_files (groups_of b)) \<inter> all_directories (groups_of b) = {} \<and>
    (\<forall>t\<in>all_targets (groups_of b). HomePath (agents_home @ ''/'' @ t) True \<and>
      (\<forall>f\<in>set (all_files (groups_of b)). \<not> below f t))"
proof -
  from assms obtain us where us: "claim_groups e None [] (groups_of b) = Inr us"
    "\<And>t p. t \<in> dom (map_of us) \<Longrightarrow> p \<in> set (parents t) \<Longrightarrow> p \<notin> set (all_files (groups_of b))"
    by (rule valid_bundle) blast
  have apart: "\<forall>g\<in>set (groups_of b). Group_Validate e g = Inr ()" "dom (map_of us) = all_targets (groups_of b)"
      "distinct (all_files (groups_of b))" "set (all_files (groups_of b)) \<inter> all_directories (groups_of b) = {}"
    using claim_groups_apart [OF us(1)] by (simp_all add: named_before_def)
  have target: "\<exists>d. relativeTarget t d" if "t \<in> all_targets (groups_of b)" for t
    using that apart(1) valid_group(2,3) by (fastforce simp: all_targets_def targets_of_def)
  have "HomePath (agents_home @ ''/'' @ t) True" if "t \<in> all_targets (groups_of b)" for t
    using target [OF that] by (auto simp: relativeTarget_def HomePath_def Let_def)
  moreover have "\<not> below f t" if t: "t \<in> all_targets (groups_of b)" and f: "f \<in> set (all_files (groups_of b))" for f t
  proof
    assume "below f t"
    have "f \<in> all_targets (groups_of b)"
      using f by (auto simp: all_files_def all_targets_def targets_of_def)
    then obtain d where "relativeTarget f d"
      using target by blast
    then have "f \<noteq> []"
      by (auto simp: relativeTarget_def is_local_def)
    moreover obtain d where "relativeTarget t d"
      using target t by blast
    ultimately show False
      using parents_above \<open>below f t\<close> us(2) apart(2) t f by blast
  qed
  ultimately show ?thesis
    using apart(3,4) by blast
qed

definition sample_rules :: "copy_rule list" where
  "sample_rules =
    [\<lparr>cp_SourceGroup = ''codex'', cp_Source = ''/opt/input/codex'', cp_Target = ''/home/multica/agents/.codex''\<rparr>]"

definition sample_sources :: sources where
  "sample_sources =
    \<lparr>so_group = (\<lambda>_. None),
     so_tree = (\<lambda>_. Inr (Directory [(''a'', Regular False ''x''), (''b'', Directory [(''c'', Regular True [])])]))\<rparr>"

definition sample_group :: config_group where
  "sample_group =
    \<lparr>cg_Name = ''codex'', cg_Directories = Some [''.codex'', ''.codex/b''],
     cg_Files = Some [\<lparr>cf_Target = ''.codex/a'', cf_Mode = 0x180, cf_SHA256 = replicate 64 CHR ''a'', cf_Content = ''x''\<rparr>,
       \<lparr>cf_Target = ''.codex/b/c'', cf_Mode = 0x1C0, cf_SHA256 = replicate 64 CHR ''a'', cf_Content = []\<rparr>]\<rparr>"

definition sample_bundle :: config_bundle where
  "sample_bundle = \<lparr>bu_Groups = Some [sample_group], bu_Digest = replicate 64 CHR ''a''\<rparr>"

lemma sample_rules_valid: "ValidateCopies sample_rules ''/opt/input'' = Inr ()"
  by code_simp

lemma sample_collected: "capture_groups (sample_env uuid_a) sample_sources [] sample_rules = Inr [(''codex'', sample_group)]"
  by code_simp

lemma sample_group_valid: "Group_Validate (sample_env uuid_a) sample_group = Inr ()" "normalize_group sample_group = sample_group"
  by code_simp+

lemma sample_targets: "file_targets sample_group = [''.codex/a'', ''.codex/b/c'']"
    "directories_of sample_group = [''.codex'', ''.codex/b'']" "cg_Name sample_group = ''codex''"
  by (simp_all add: sample_group_def file_targets_def files_of_def directories_of_def)

lemma sample_parents: "parents ''.codex/a'' = [''.codex'']" "parents ''.codex/b/c'' = [''.codex/b'', ''.codex'']"
    "parents ''.codex'' = []" "parents ''.codex/b'' = [''.codex'']"
  by code_simp+

lemma sample_bundle_valid: "Bundle_Validate (sample_env uuid_a) sample_bundle = Inr ()"
proof -
  have "groups_digest (sample_env uuid_a) gs = replicate 64 CHR ''a''" for gs
    by (simp add: groups_digest_def sample_env_def)
  moreover have "ValidSHA (replicate 64 CHR ''a'')"
    by code_simp
  moreover have "groups_of sample_bundle = [sample_group]" "bu_Groups sample_bundle \<noteq> None"
      "bu_Digest sample_bundle = replicate 64 CHR ''a''"
    by (simp_all add: sample_bundle_def groups_of_def)
  ultimately show ?thesis
    by (simp add: Bundle_Validate_def sample_targets sample_group_valid sample_parents)
qed

lemma sample_capture: "Capture (sample_env uuid_a) sample_sources sample_rules ''/opt/input'' = Inr sample_bundle"
proof -
  have "groups_digest (sample_env uuid_a) gs = replicate 64 CHR ''a''" for gs
    by (simp add: groups_digest_def sample_env_def)
  with sample_bundle_valid show ?thesis
    by (simp add: Capture_def sample_rules_valid sample_collected sample_group_valid(2) sample_bundle_def)
qed

text \<open>C39: what a capture returns can be applied to the home of the image.\<close>

theorem captured_applicable:
  assumes "Capture e src copies inputRoot = Inr b"
  shows "ValidateHomeConfiguration e b = Inr ()"
proof -
  from assms obtain groups where groups: "capture_groups e src [] copies = Inr groups" "Bundle_Validate e b = Inr ()"
      "groups_of b = sort_key cg_Name (map (normalize_group \<circ> snd) groups)"
    by (auto simp: Capture_def Let_def groups_of_def split: sum.splits)
  have "\<forall>g\<in>snd ` set groups. kept_clear g"
    using captured_clear [OF groups(1)] by simp
  then have "\<not> profile_conflict g" if "g \<in> set (groups_of b)" for g
    using that normalize_clear by (fastforce simp: groups(3) kept_clear_def)
  then have "find profile_conflict (groups_of b) = None"
    by (auto simp: find_None_iff)
  then show ?thesis
    by (simp add: ValidateHomeConfiguration_def groups(2))
qed

theorem captured_applicable_witness:
  "ValidateHomeConfiguration (sample_env uuid_a) sample_bundle = Inr ()"
  by (rule captured_applicable [OF sample_capture])

theorem bundle_targets_apart_witness:
  "distinct (all_files (groups_of sample_bundle)) \<and> ''.codex/b/c'' \<in> set (all_files (groups_of sample_bundle))"
  using bundle_targets_apart [OF sample_bundle_valid]
  by (simp add: sample_bundle_def groups_of_def all_files_def sample_targets)

end
