(* ===== verification/Drivers.thy ===== *)
theory Drivers
  imports Journal_Runs Task_History Task_Gateway Configuration
begin

text \<open>
  What the controller's own code is made of (\<^verbatim>\<open>controller/*.go\<close>): transactions on the journal and
  calls to the backend, to Kubernetes and to its own memory, one after another.  A function that
  makes them is a value of \<open>'a prog\<close>, its next action and what it does with the answer; the
  functions are translated in \<open>Supervisor\<close> and the theories after it, and \<open>Driver_Runs\<close> lets any
  number of them run against one journal, interleaved between any two actions.

  \<^item> The controller's locks (\<^verbatim>\<open>attemptLock\<close>, \<^verbatim>\<open>ExecutionGate\<close>, \<^verbatim>\<open>checkoutMu\<close>, \<^verbatim>\<open>mu\<close>) only exclude
    interleavings and are left out, so that what is shown needs none of them.  Logging is left out.
  \<^item> A call's answer is any \<open>answer\<close>: an error or the fields that the call reads.  What lives in
    memory only (cancelling, queues, the checkouts under way) is asked and told in the same way.
\<close>

section \<open>Errors\<close>

text \<open>An error of the journal, the sentinel errors of the controller and its clients, \<^verbatim>\<open>diagnostics.Wrap\<close>
  and \<^verbatim>\<open>errors.Join\<close>; \<open>Transient\<close> stands for the other network and API errors
  that \<^verbatim>\<open>transientObservation\<close> recognises.\<close>

datatype fault =
    JournalError err
  | NotSent
  | ResponseError nat
  | AssignmentChanged
  | PreparePending
  | StartupPodStopped
  | WriterUnknown
  | SecretPending
  | PodPending
  | ObservationPending
  | ResourceConflict
  | WritersUnproven
  | PreparationWritersUnproven
  | Cancelled
  | DeadlineExceeded
  | Transient
  | Diagnosed string fault
  | Joined fault fault
  | OtherFault string

fun is_fault :: "(fault \<Rightarrow> bool) \<Rightarrow> fault \<Rightarrow> bool" where
  "is_fault P (Diagnosed r f) = (P (Diagnosed r f) \<or> is_fault P f)"
| "is_fault P (Joined f h) = (P (Joined f h) \<or> is_fault P f \<or> is_fault P h)"
| "is_fault P f = P f"

definition isErr :: "err \<Rightarrow> fault \<Rightarrow> bool" where "isErr x = is_fault (\<lambda>f. f = JournalError x)"

definition RequestNotSent :: "fault \<Rightarrow> bool" where "RequestNotSent = is_fault (\<lambda>f. f = NotSent)"

fun response_status :: "fault \<Rightarrow> nat option" where
  "response_status (ResponseError n) = Some n"
| "response_status (Diagnosed r f) = response_status f"
| "response_status (Joined f h) = (case response_status f of Some n \<Rightarrow> Some n | None \<Rightarrow> response_status h)"
| "response_status _ = None"

fun diagnosis :: "fault \<Rightarrow> string option" where
  "diagnosis (Diagnosed r f) = Some r"
| "diagnosis (Joined f h) = (case diagnosis f of Some r \<Rightarrow> Some r | None \<Rightarrow> diagnosis h)"
| "diagnosis _ = None"

definition Wrap :: "string \<Rightarrow> fault \<Rightarrow> fault" where
  "Wrap reason cause = (if diagnosis cause \<noteq> None then cause else Diagnosed reason cause)"

definition transientObservation :: "fault \<Rightarrow> bool" where
  "transientObservation = is_fault (\<lambda>f. f = Cancelled \<or> f = DeadlineExceeded \<or> f = Transient)"

definition leaseRefused :: "fault \<Rightarrow> bool" where
  "leaseRefused f =
    (case response_status f of None \<Rightarrow> False | Some n \<Rightarrow> 400 \<le> n \<and> n < 500 \<and> n \<noteq> 408 \<and> n \<noteq> 429)"

text \<open>\<open>None\<close> is \<^verbatim>\<open>nil\<close>.\<close>

definition failureReason :: "fault option \<Rightarrow> string \<Rightarrow> string" where
  "failureReason cause fallback =
    (case cause of
       None \<Rightarrow> fallback
     | Some f \<Rightarrow>
         (case diagnosis f of
            Some reason \<Rightarrow> reason
          | None \<Rightarrow>
              (if is_fault (\<lambda>x. x = PreparationWritersUnproven) f then ''preparation_writers_unproven''
               else if isErr ErrConflict f then ''authority_conflict''
               else if isErr ErrUnauthorized f then ''attempt_unauthorized''
               else if isErr ErrStorageBusy f then ''task_storage_busy''
               else if is_fault (\<lambda>x. x = Cancelled) f then ''operation_cancelled''
               else if is_fault (\<lambda>x. x = DeadlineExceeded) f then ''operation_timeout''
               else if RequestNotSent f then ''backend_request_not_sent''
               else if response_status f \<noteq> None then ''backend_request_failed''
               else fallback)))"

definition forwardOutcome :: "fault + 'a \<Rightarrow> string" where
  "forwardOutcome r =
    (case r of
       Inr _ \<Rightarrow> ''delivered''
     | Inl f \<Rightarrow>
         (if RequestNotSent f then ''not-sent''
          else case response_status f of
            Some n \<Rightarrow> (if 400 \<le> n \<and> n < 500 then ''rejected'' else ''uncertain'')
          | None \<Rightarrow> ''uncertain''))"

section \<open>Calls and answers\<close>

text \<open>\<^verbatim>\<open>kubernetes.Reference\<close> and the record of what was
  asked of Kubernetes.  Pods and Secrets are the API server's types: their requests are kept as text.\<close>

record reference =
  kr_WorkerSessionID :: string
  kr_WorkspaceID :: string
  kr_WorkspaceAnchorTaskID :: string
  kr_Namespace :: string
  kr_Owner :: "string \<times> string"
  kr_TaskID :: string
  kr_StorageID :: string
  kr_AttemptID :: string
  kr_PodName :: string
  kr_SecretName :: string
  kr_PodUID :: string
  kr_SecretUID :: string
  kr_RequestDigest :: string
  kr_RuntimeRef :: runtime_ref
  kr_PodDigest :: string
  kr_OwnerID :: string
  kr_PVCName :: string
  kr_PVCUID :: string
  kr_NodeID :: string
  kr_TaskRoot :: string
  kr_NFSServer :: string

record resource_record =
  res_Reference :: reference
  res_SecretCreateRequested :: bool
  res_PodCreateRequested :: bool
  res_PodRequest :: "string option"
  res_SecretRequest :: "string option"

record task_assignment =
  tas_RuntimeID :: string
  tas_DispatchedAt :: string
  tas_Status :: string

text \<open>What the controller reads of a Pod, and \<^verbatim>\<open>kubernetes.StopObservation\<close>.\<close>

record pod_view =
  pv_NodeName :: string
  pv_Deleting :: bool
  pv_Phase :: string
  pv_InitFailed :: bool

record stop_observation =
  so_Stopped :: bool
  so_NeverStarted :: bool
  so_ObservedAt :: time

datatype hint =
    EnqueueAttempt string
  | EnqueueDelivery string
  | EnqueueSession string
  | WakeClaim
  | WakePending
  | CancelCheckouts string
  | CancelPreparation string
  | StoreIdle string u64 time time
  | DeleteIdle string

text \<open>The attempt (or session) in front of a call that changes something outside is not sent: it names
  the one for which the call is made.\<close>

datatype (plugins only: code size) driver_call =
    StartTask string string
  | StartClaimed string claim
  | ReportEvent string u64 string string string
  | SendTerminal string string terminal_kind string
  | PrepareLease string string
  | TaskStatus string
  | TaskAssignmentOf string string string
  | ClaimTaskAssignment claim
  | AgentTask claim string
  | IssueTaskHistory claim
  | ControllerTask claim
  | KubeAuthorize reference
  | KubeAuthorizeStop reference
  | PodState reference
  | ObserveTermination reference
  | DeletePod string reference
  | DeleteSessionPod string reference
  | Cleanup string reference
  | CleanupSession string reference
  | ResolveCleanupSecret reference
  | ResolveCleanupPod reference
  | FingerprintPod reference string
  | MakePodRequest reference string
  | FingerprintSessionPod reference string
  | MakeSessionPodRequest reference string
  | MakeSessionSecretRequest reference string
  | EnsurePod string reference string
  | EnsureSecret string reference string
  | EnsureSessionPod string reference string
  | EnsureSessionSecret string reference string
  | AnnotateTurn reference string string
  | ValidatePVC reference
  | PreparationStopped preparation_process
  | SyncTaskFilesystem string
  | SessionFile prepared string
  | TaskDirectory string
  | LoadIdle string
  | CheckoutRegister string
  | CheckoutActive string
  | CheckoutJoined string
  | CheckoutAlive string
  | CheckoutFinished string
  | RepositoryAccess string
  | ControllerProcess
  | RetainCheckout string string string string
  | CacheSnapshot string string string string
  | CopyCheckout string string string string string
  | PreparingHere string
  | Preparing string
  | ReservePreparation string
  | ReleasePreparation string
  | LaunchPreparation string
  | Prepare string
  | SelectTurn string
  | SessionChallenges
  | LocalTry string
  | ContextErr
  | Clock
  | Hint hint

record answer =
  an_Error :: "fault option"
  an_Time :: time
  an_Text :: string
  an_Flag :: bool
  an_Assignment :: task_assignment
  an_Pod :: pod_view
  an_Stop :: stop_observation
  an_Process :: preparation_process
  an_Row :: observation
  an_Rows :: "observation list"
  an_Idle :: "(u64 \<times> time \<times> time) option"
  an_Challenges :: challenges

section \<open>The controller\<close>

text \<open>Messages, usage and results are types of an imported package: what the controller reads of them.\<close>

datatype message_type =
    MessageText | MessageThinking | MessageError | MessageToolUse | MessageToolResult
  | MessageStatus | MessageLog | OtherMessage string

record provider_message =
  pm_Type :: message_type
  pm_Content :: string
  pm_Tool :: string
  pm_CallID :: string
  pm_Input :: json
  pm_Output :: string

record token_usage =
  tu_InputTokens :: int
  tu_OutputTokens :: int
  tu_CacheReadTokens :: int
  tu_CacheWriteTokens :: int
  tu_CostUSDTicks :: int

record provider_event =
  pe_Sequence :: u64
  pe_Message :: "provider_message option"
  pe_Usage :: "token_usage gomap"

record provider_result =
  pr_Status :: string
  pr_Output :: string
  pr_Error :: string
  pr_SessionID :: string
  pr_ResumeRejected :: bool
  pr_ResumeRejectedTransient :: bool

text \<open>The controller's configuration, and the imported code it calls: reading and writing records and
  messages that contain imported types, redaction, the text of a message type, and the session that a prepared
  run resumes.  Of the options of an execution the controller reads two and passes the rest on; they are read strictly or not.\<close>

record exec_options =
  eo_Cwd :: string
  eo_Timeout :: time
  eo_Json :: json

record host =
  h_Owner :: "string \<times> string"
  h_Namespace :: string
  h_GatewayURL :: string
  h_NFSServer :: string
  h_Configuration :: config_bundle
  h_Environment :: "string list option"
  h_GitHubApp :: bool
  h_Capacity :: int
  h_MaxResidentPods :: int
  h_ConversationIdleTimeout :: time
  h_PreparationSeconds :: int
  h_TaskDeadlineSeconds :: int
  h_TerminationGraceSeconds :: int
  h_RuntimeRef :: runtime_ref
  h_DecodeRecord :: "json \<Rightarrow> resource_record option"
  h_UnmarshalRecord :: "json \<Rightarrow> resource_record option"
  h_EncodeRecord :: "resource_record \<Rightarrow> string"
  h_DecodeOptions :: "bool \<Rightarrow> json \<Rightarrow> exec_options option"
  h_DecodeEvent :: "json \<Rightarrow> provider_event option"
  h_UnmarshalEvent :: "json \<Rightarrow> provider_event option"
  h_EncodeEvent :: "provider_event \<Rightarrow> string"
  h_DecodeResult :: "json \<Rightarrow> provider_result option"
  h_EncodeResult :: "provider_result \<Rightarrow> string"
  h_Redact :: "string \<Rightarrow> string"
  h_RedactInput :: "json \<Rightarrow> json"
  h_MessageText :: "message_type \<Rightarrow> string"
  h_ResumeSessionID :: "json \<Rightarrow> string option"
  h_FailureRules :: failure_rules
  h_Cache :: bool
  h_Origin :: "string \<Rightarrow> bool"

definition h_PreparationTimeout :: "host \<Rightarrow> time" where
  "h_PreparationTimeout h = h_PreparationSeconds h * second"

definition h_TerminationGrace :: "host \<Rightarrow> time" where
  "h_TerminationGrace h = h_TerminationGraceSeconds h * second"

section \<open>Programs\<close>

text \<open>The surroundings of a transaction: what it observes, why it could not be committed if it
  could not, and the journal as it is then.\<close>

record moment =
  m_call :: call
  m_fail :: "err option"
  m_journal :: registry

datatype 'a prog =
    Ret 'a
  | Txn "moment \<Rightarrow> registry" "moment \<Rightarrow> 'a prog"
  | Ext driver_call "answer \<Rightarrow> 'a prog"

primrec andthen :: "'a prog \<Rightarrow> ('a \<Rightarrow> 'b prog) \<Rightarrow> 'b prog" where
  "andthen (Ret a) f = f a"
| "andthen (Txn w k) f = Txn w (\<lambda>m. andthen (k m) f)"
| "andthen (Ext q k) f = Ext q (\<lambda>a. andthen (k a) f)"

text \<open>\<^verbatim>\<open>if err != nil { return err }\<close>\<close>

definition orfail :: "(fault + 'a) prog \<Rightarrow> ('a \<Rightarrow> (fault + 'b) prog) \<Rightarrow> (fault + 'b) prog" where
  "orfail p f = andthen p (\<lambda>r. case r of Inl x \<Rightarrow> Ret (Inl x) | Inr a \<Rightarrow> f a)"

definition ok :: "(fault + unit) prog" where "ok = Ret (Inr ())"

definition fault_of :: "err + 'a \<Rightarrow> fault + 'a" where
  "fault_of r = (case r of Inl x \<Rightarrow> Inl (JournalError x) | Inr a \<Rightarrow> Inr a)"

text \<open>A reading of the journal; an operation of the journal, committed or not.\<close>

definition reading :: "(call \<Rightarrow> registry \<Rightarrow> err + 'a) \<Rightarrow> (fault + 'a) prog" where
  "reading f = Txn m_journal
    (\<lambda>m. Ret (fault_of (case m_fail m of Some x \<Rightarrow> Inl x | None \<Rightarrow> f (m_call m) (m_journal m))))"

definition outcome :: "(call \<Rightarrow> registry \<Rightarrow> err + (registry \<times> 'a)) \<Rightarrow> moment \<Rightarrow> err + (registry \<times> 'a)" where
  "outcome f m = (case m_fail m of Some x \<Rightarrow> Inl x | None \<Rightarrow> f (m_call m) (m_journal m))"

definition writing :: "(call \<Rightarrow> registry \<Rightarrow> err + (registry \<times> 'a)) \<Rightarrow> (fault + 'a) prog" where
  "writing f = Txn
    (\<lambda>m. case outcome f m of Inl _ \<Rightarrow> m_journal m | Inr (st, _) \<Rightarrow> st)
    (\<lambda>m. Ret (fault_of (map_sum id snd (outcome f m))))"

definition ask :: "driver_call \<Rightarrow> (answer \<Rightarrow> 'a) \<Rightarrow> (fault + 'a) prog" where
  "ask q f = Ext q (\<lambda>a. Ret (case an_Error a of Some x \<Rightarrow> Inl x | None \<Rightarrow> Inr (f a)))"

definition tell :: "driver_call \<Rightarrow> (fault + unit) prog" where
  "tell q = ask q (\<lambda>_. ())"

definition look :: "driver_call \<Rightarrow> (answer \<Rightarrow> 'a) \<Rightarrow> 'a prog" where
  "look q f = Ext q (\<lambda>a. Ret (f a))"

definition hinting :: "hint \<Rightarrow> 'a prog \<Rightarrow> 'a prog" where
  "hinting h p = Ext (Hint h) (\<lambda>_. p)"

definition hint_if :: "bool \<Rightarrow> hint \<Rightarrow> 'a prog \<Rightarrow> 'a prog" where
  "hint_if b h p = (if b then hinting h p else p)"

section \<open>Their laws\<close>

lemma andthen_Ret [simp]: "andthen p Ret = p"
  by (induction p) simp_all

lemma andthen_assoc: "andthen (andthen p f) h = andthen p (\<lambda>a. andthen (f a) h)"
  by (induction p) simp_all

end
