(* ===== verification/Driver_Runs.thy ===== *)
theory Driver_Runs
  imports Drivers
begin

text \<open>
  Runs of the controller's programs.  A \<open>world\<close> is the journal, the programs under way and the log
  of the calls made; \<open>world_step\<close> lets any program take its next action, lets another one begin, lets the
  rest of the controller commit a step of the journal, and lets the controller crash, which loses the programs
  and restarts the journal.

  A \<open>discipline\<close> says what a program may do; \<open>wp\<close> is what a program must satisfy so that it
  keeps to it whatever the others do between its actions.  \<open>recording\<close> is the discipline for what a call
  must have in the journal before it is made, \<open>taking\<close> the one for what may happen only once.
  A transaction draws identifiers that are not in the journal yet (\<open>fresh_ids\<close>).
\<close>

section \<open>Worlds\<close>

record world =
  w_journal :: registry
  w_programs :: "unit prog list"
  w_log :: "(driver_call \<times> answer) list"

type_synonym surroundings = "registry \<Rightarrow> registry \<Rightarrow> bool"

inductive world_step :: "env \<Rightarrow> surroundings \<Rightarrow> unit prog set \<Rightarrow> world \<Rightarrow> world \<Rightarrow> bool" for e E H where
  elsewhere: "E (w_journal w) st \<Longrightarrow> world_step e E H w (w\<lparr>w_journal := st\<rparr>)"
| beginning: "p \<in> H \<Longrightarrow> world_step e E H w (w\<lparr>w_programs := w_programs w @ [p]\<rparr>)"
| transacting: "n < length (w_programs w) \<Longrightarrow> w_programs w ! n = Txn u k \<Longrightarrow> m_journal m = w_journal w \<Longrightarrow>
    fresh_ids (m_call m) (m_journal m) \<Longrightarrow> u m = w_journal w \<or> validated e (u m) \<Longrightarrow>
    world_step e E H w (w\<lparr>w_journal := u m, w_programs := (w_programs w)[n := k m]\<rparr>)"
| calling: "n < length (w_programs w) \<Longrightarrow> w_programs w ! n = Ext q k \<Longrightarrow>
    world_step e E H w (w\<lparr>w_programs := (w_programs w)[n := k a], w_log := w_log w @ [(q, a)]\<rparr>)"
| crashing: "validated e (restarted (w_journal w)) \<Longrightarrow>
    world_step e E H w (w\<lparr>w_journal := restarted (w_journal w), w_programs := []\<rparr>)"

abbreviation world_steps :: "env \<Rightarrow> surroundings \<Rightarrow> unit prog set \<Rightarrow> world \<Rightarrow> world \<Rightarrow> bool" where
  "world_steps e E H \<equiv> (world_step e E H)\<^sup>*\<^sup>*"

definition fresh_world :: "registry \<Rightarrow> world" where
  "fresh_world st = \<lparr>w_journal = st, w_programs = [], w_log = []\<rparr>"

definition running :: "'a prog \<Rightarrow> unit prog" where
  "running p = andthen p (\<lambda>_. Ret ())"

section \<open>Programs that only run operations of the journal\<close>

primrec lawful :: "env \<Rightarrow> 'a prog \<Rightarrow> bool" where
  "lawful e (Ret a) = True"
| "lawful e (Txn u k) =
    ((\<forall>m. fresh_ids (m_call m) (m_journal m) \<longrightarrow> u m = m_journal m \<or> journal_step e (m_journal m) (u m)) \<and>
     (\<forall>m. lawful e (k m)))"
| "lawful e (Ext q k) = (\<forall>a. lawful e (k a))"

named_theorems lawful

lemma lawful_Ret [lawful]: "lawful e (Ret a)"
  by simp

lemma lawful_andthen [lawful]: "lawful e p \<Longrightarrow> (\<And>a. lawful e (f a)) \<Longrightarrow> lawful e (andthen p f)"
  by (induction p) simp_all

lemma lawful_orfail [lawful]: "lawful e p \<Longrightarrow> (\<And>a. lawful e (f a)) \<Longrightarrow> lawful e (orfail p f)"
  by (auto simp: orfail_def intro!: lawful_andthen split: sum.splits)

lemma lawful_reading [lawful]: "lawful e (reading f)"
  by (simp add: reading_def)

lemma lawful_writing [lawful]:
  "(\<And>c st st' a. fresh_ids c st \<Longrightarrow> f c st = Inr (st', a) \<Longrightarrow> journal_step e st st') \<Longrightarrow> lawful e (writing f)"
  by (auto simp: writing_def outcome_def split: sum.splits option.splits prod.splits)

lemma lawful_calls [lawful]:
  "lawful e (ask q s)" "lawful e (tell q)" "lawful e (look q s)" "lawful e ok"
  by (simp_all add: ask_def tell_def look_def ok_def)

lemma lawful_hinting [lawful]: "lawful e p \<Longrightarrow> lawful e (hinting h p)"
  by (simp add: hinting_def)

lemma lawful_running [lawful]: "lawful e p \<Longrightarrow> lawful e (running p)"
  unfolding running_def by (rule lawful_andthen) simp_all

section \<open>Disciplines\<close>

text \<open>\<open>'g\<close> is what a program holds: \<open>d_next\<close> and \<open>d_call\<close> say how a transaction and a call change it,
  \<open>d_legal\<close> and \<open>d_allowed\<close> when it may make them.\<close>

record 'g discipline =
  d_legal :: "registry \<Rightarrow> registry \<Rightarrow> 'g \<Rightarrow> bool"
  d_next :: "registry \<Rightarrow> registry \<Rightarrow> 'g \<Rightarrow> 'g"
  d_allowed :: "registry \<Rightarrow> 'g \<Rightarrow> driver_call \<Rightarrow> bool"
  d_call :: "driver_call \<Rightarrow> answer \<Rightarrow> 'g \<Rightarrow> 'g"

definition later :: "env \<Rightarrow> registry \<Rightarrow> registry \<Rightarrow> bool" where
  "later e st st' \<longleftrightarrow> sound e st \<and> (committed e)\<^sup>*\<^sup>* st st'"

definition same_or_committed :: "env \<Rightarrow> registry \<Rightarrow> registry \<Rightarrow> bool" where
  "same_or_committed e st st' \<longleftrightarrow> st' = st \<or> committed e st st'"

primrec wp :: "env \<Rightarrow> 'g discipline \<Rightarrow> 'a prog \<Rightarrow> ('a \<Rightarrow> registry \<Rightarrow> 'g \<Rightarrow> bool) \<Rightarrow> registry \<Rightarrow> 'g \<Rightarrow> bool" where
  "wp e D (Ret a) Q st g = Q a st g"
| "wp e D (Txn u k) Q st g =
    (\<forall>m. later e st (m_journal m) \<longrightarrow> same_or_committed e (m_journal m) (u m) \<longrightarrow>
       d_legal D (m_journal m) (u m) g \<and> wp e D (k m) Q (u m) (d_next D (m_journal m) (u m) g))"
| "wp e D (Ext q k) Q st g = (d_allowed D st g q \<and> (\<forall>a. wp e D (k a) Q st (d_call D q a g)))"

lemma later_sound: "later e st st' \<Longrightarrow> sound e st'"
  by (auto simp: later_def intro: run_sound)

lemma later_refl: "sound e st \<Longrightarrow> later e st st"
  by (simp add: later_def)

lemma later_trans: "later e st st' \<Longrightarrow> later e st' st'' \<Longrightarrow> later e st st''"
  by (auto simp: later_def)

lemma later_step: "later e st st' \<Longrightarrow> same_or_committed e st' st'' \<Longrightarrow> later e st st''"
  by (auto simp: later_def same_or_committed_def)

lemma wp_andthen [simp]: "wp e D (andthen p f) Q st g = wp e D p (\<lambda>a. wp e D (f a) Q) st g"
  by (induction p arbitrary: st g) simp_all

lemma wp_mono: "wp e D p Q st g \<Longrightarrow> (\<And>a st g. Q a st g \<Longrightarrow> R a st g) \<Longrightarrow> wp e D p R st g"
  by (induction p arbitrary: st g) auto

lemma wp_orfail [simp]:
  "wp e D (orfail p f) Q st g =
    wp e D p (\<lambda>r. case r of Inl x \<Rightarrow> Q (Inl x) | Inr a \<Rightarrow> wp e D (f a) Q) st g"
  unfolding orfail_def wp_andthen
  by (rule arg_cong [where f = "\<lambda>R. wp e D p R st g"]) (auto simp: fun_eq_iff split: sum.splits)

lemma wp_look [simp]:
  "wp e D (look q s) Q st g = (d_allowed D st g q \<and> (\<forall>a. Q (s a) st (d_call D q a g)))"
  by (simp add: look_def)

lemma wp_hinting [simp]:
  "wp e D (hinting h p) Q st g = (d_allowed D st g (Hint h) \<and> (\<forall>a. wp e D p Q st (d_call D (Hint h) a g)))"
  by (simp add: hinting_def)

lemma wp_ok [simp]: "wp e D ok Q st g = Q (Inr ()) st g"
  by (simp add: ok_def)


text \<open>What is allowed stays allowed, and a transaction that changes nothing is free.\<close>

locale disciplined =
  fixes e :: env and D :: "'g discipline"
  assumes stable: "d_allowed D st g q \<Longrightarrow> later e st st' \<Longrightarrow> d_allowed D st' g q"
    and idle: "d_legal D st st g" "d_next D st st g = g"
begin

lemma wp_later:
  assumes Q: "\<And>a st g st'. Q a st g \<Longrightarrow> later e st st' \<Longrightarrow> Q a st' g"
  shows "wp e D p Q st g \<Longrightarrow> later e st st' \<Longrightarrow> wp e D p Q st' g"
proof (induction p arbitrary: st st' g)
  case (Ret a)
  then show ?case
    using Q by simp
next
  case (Txn u k)
  then show ?case
    using later_trans by fastforce
next
  case (Ext q k)
  then show ?case
    using stable by fastforce
qed

lemma wp_reading:
  assumes "\<And>x st'. later e st st' \<Longrightarrow> Q (Inl x) st' g"
    and "\<And>c a st'. later e st st' \<Longrightarrow> f c st' = Inr a \<Longrightarrow> Q (Inr a) st' g"
  shows "wp e D (reading f) Q st g"
  using assms by (auto simp: reading_def idle fault_of_def split: sum.splits option.splits)

lemma wp_writing:
  assumes "\<And>x st'. later e st st' \<Longrightarrow> Q (Inl x) st' g"
    and "\<And>c a st' st''. later e st st' \<Longrightarrow> f c st' = Inr (st'', a) \<Longrightarrow> same_or_committed e st' st'' \<Longrightarrow>
      d_legal D st' st'' g \<and> Q (Inr a) st'' (d_next D st' st'' g)"
  shows "wp e D (writing f) Q st g"
  using assms
  by (auto simp: writing_def outcome_def idle fault_of_def split: sum.splits option.splits prod.splits)

lemma wp_ask:
  assumes "d_allowed D st g q" "\<And>x a. an_Error a = Some x \<Longrightarrow> Q (Inl x) st (d_call D q a g)"
    and "\<And>a. an_Error a = None \<Longrightarrow> Q (Inr (s a)) st (d_call D q a g)"
  shows "wp e D (ask q s) Q st g"
  using assms by (auto simp: ask_def split: option.splits)

end

section \<open>Programs that keep to a discipline\<close>

text \<open>What a step of the world does to the journal, the log and what each program holds.\<close>

inductive holding_step ::
  "env \<Rightarrow> surroundings \<Rightarrow> 'g discipline \<Rightarrow> 'g \<Rightarrow> world \<Rightarrow> 'g list \<Rightarrow> world \<Rightarrow> 'g list \<Rightarrow> bool" for e E D g0 where
  "E (w_journal w) (w_journal w') \<Longrightarrow> w_log w' = w_log w \<Longrightarrow> holding_step e E D g0 w gs w' gs"
| "w_journal w' = w_journal w \<Longrightarrow> w_log w' = w_log w \<Longrightarrow> holding_step e E D g0 w gs w' (gs @ [g0])"
| "n < length gs \<Longrightarrow> same_or_committed e (w_journal w) (w_journal w') \<Longrightarrow> w_log w' = w_log w \<Longrightarrow>
    d_legal D (w_journal w) (w_journal w') (gs ! n) \<Longrightarrow>
    holding_step e E D g0 w gs w' (gs[n := d_next D (w_journal w) (w_journal w') (gs ! n)])"
| "n < length gs \<Longrightarrow> w_journal w' = w_journal w \<Longrightarrow> w_log w' = w_log w @ [(q, a)] \<Longrightarrow>
    d_allowed D (w_journal w) (gs ! n) q \<Longrightarrow> holding_step e E D g0 w gs w' (gs[n := d_call D q a (gs ! n)])"
| "w_journal w' = restarted (w_journal w) \<Longrightarrow> w_log w' = w_log w \<Longrightarrow> holding_step e E D g0 w gs w' []"

locale governed = disciplined +
  fixes E :: surroundings and H :: "unit prog set" and g0 :: 'a
  assumes outside: "E st st' \<Longrightarrow> sound e st \<Longrightarrow> committed e st st'"
    and programs: "p \<in> H \<Longrightarrow> lawful e p" "p \<in> H \<Longrightarrow> sound e st \<Longrightarrow> wp e D p (\<lambda>_ _ _. True) st g0"
begin

definition governs :: "world \<Rightarrow> 'a list \<Rightarrow> bool" where
  "governs w gs \<longleftrightarrow> sound e (w_journal w) \<and> (\<forall>p\<in>set (w_programs w). lawful e p) \<and>
    list_all2 (\<lambda>p g. wp e D p (\<lambda>_ _ _. True) (w_journal w) g) (w_programs w) gs"

lemma moved: "list_all2 (\<lambda>p g. wp e D p (\<lambda>_ _ _. True) st g) ps gs \<Longrightarrow> later e st st' \<Longrightarrow>
    list_all2 (\<lambda>p g. wp e D p (\<lambda>_ _ _. True) st' g) ps gs"
  by (erule list_all2_mono) (rule wp_later, auto)

lemma committed_later: "committed e st st' \<Longrightarrow> later e st st'"
  by (auto simp: later_def committed_def)

lemma governed_step:
  assumes "world_step e E H w w'" and gs: "governs w gs"
  obtains gs' where "governs w' gs'" "holding_step e E D g0 w gs w' gs'"
  using assms(1)
proof cases
  case (elsewhere st)
  then have "committed e (w_journal w) st"
    using gs by (auto simp: governs_def intro: outside)
  then have "governs w' gs"
    using gs elsewhere by (auto simp: governs_def dest: committed_sound intro: moved committed_later)
  with elsewhere show ?thesis
    by (intro that [of gs]) (auto intro: holding_step.intros)
next
  case (beginning p)
  then have "governs w' (gs @ [g0])"
    using gs programs by (auto simp: governs_def intro!: list_all2_appendI)
  with beginning show ?thesis
    by (intro that [of "gs @ [g0]"]) (auto intro: holding_step.intros)
next
  case (transacting n u k m)
  let ?st = "w_journal w" and ?p = "w_programs w ! n"
  from transacting(2) have p: "?p \<in> set (w_programs w)"
    by (rule nth_mem)
  have n: "n < length gs"
    using gs transacting by (auto simp: governs_def list_all2_conv_all_nth)
  have "lawful e ?p" "sound e ?st"
    using gs p by (simp_all add: governs_def)
  then have "lawful e (Txn u k)"
    by (simp add: transacting(3))
  then have step: "u m = ?st \<or> journal_step e ?st (u m)" and "lawful e (k m)"
    using transacting(5) unfolding lawful.simps transacting(4) [symmetric] by blast+
  from step transacting(6) \<open>sound e ?st\<close> have soc: "same_or_committed e ?st (u m)"
    by (auto simp: same_or_committed_def committed_def)
  from soc \<open>sound e ?st\<close> have later: "later e ?st (u m)"
    using later_refl later_step by blast
  have "wp e D ?p (\<lambda>_ _ _. True) ?st (gs ! n)"
    using gs n transacting by (auto simp: governs_def list_all2_conv_all_nth)
  then have "wp e D (Txn u k) (\<lambda>_ _ _. True) (m_journal m) (gs ! n)"
    by (simp add: transacting(3,4))
  moreover have "later e (m_journal m) (m_journal m)" "same_or_committed e (m_journal m) (u m)"
    using later_refl [OF \<open>sound e ?st\<close>] soc by (simp_all add: transacting(4))
  ultimately have "d_legal D (m_journal m) (u m) (gs ! n)"
      "wp e D (k m) (\<lambda>_ _ _. True) (u m) (d_next D (m_journal m) (u m) (gs ! n))"
    by simp_all
  then have "d_legal D ?st (u m) (gs ! n)"
      "wp e D (k m) (\<lambda>_ _ _. True) (u m) (d_next D ?st (u m) (gs ! n))"
    by (simp_all add: transacting(4))
  moreover have "list_all2 (\<lambda>p g. wp e D p (\<lambda>_ _ _. True) (u m) g) (w_programs w) gs"
    using gs later by (auto simp: governs_def intro: moved)
  ultimately have "governs w' (gs[n := d_next D ?st (u m) (gs ! n)])"
    using gs transacting \<open>lawful e (k m)\<close> later_sound [OF later]
    by (auto simp: governs_def intro!: list_all2_update_cong dest: in_set_butlastD set_update_subset_insert [THEN subsetD])
  moreover have w': "w_journal w' = u m" "w_log w' = w_log w"
    by (simp_all add: transacting(1))
  moreover have "holding_step e E D g0 w gs w' (gs[n := d_next D ?st (w_journal w') (gs ! n)])"
    using n soc \<open>d_legal D ?st (u m) (gs ! n)\<close> by (intro holding_step.intros(3)) (simp_all only: w')
  ultimately show ?thesis
    by (intro that) simp_all
next
  case (calling n q k a)
  let ?st = "w_journal w" and ?p = "w_programs w ! n"
  from calling(2) have p: "?p \<in> set (w_programs w)"
    by (rule nth_mem)
  have n: "n < length gs"
    using gs calling by (auto simp: governs_def list_all2_conv_all_nth)
  have "wp e D ?p (\<lambda>_ _ _. True) ?st (gs ! n)" "lawful e ?p"
    using gs calling p by (auto simp: governs_def list_all2_conv_all_nth)
  with calling have allowed: "d_allowed D ?st (gs ! n) q" and k: "lawful e (k a)"
      "wp e D (k a) (\<lambda>_ _ _. True) ?st (d_call D q a (gs ! n))"
    by simp_all
  then have "governs w' (gs[n := d_call D q a (gs ! n)])"
    using gs calling by (auto simp: governs_def intro!: list_all2_update_cong dest: set_update_subset_insert [THEN subsetD])
  moreover have "holding_step e E D g0 w gs w' (gs[n := d_call D q a (gs ! n)])"
    using n allowed by (intro holding_step.intros(4)) (simp_all add: calling(1))
  ultimately show ?thesis
    by (rule that)
next
  case crashing
  then have "committed e (w_journal w) (restarted (w_journal w))"
    using gs by (auto simp: governs_def committed_def intro: journal_step.intros)
  then have "governs w' []"
    using crashing by (auto simp: governs_def dest: committed_sound)
  with crashing show ?thesis
    by (intro that [of "[]"]) (auto intro: holding_step.intros)
qed

lemma governs_fresh: "sound e st \<Longrightarrow> governs (fresh_world st) []"
  by (simp add: governs_def fresh_world_def)

lemma governed_steps:
  assumes "world_steps e E H (fresh_world st) w" "sound e st" "I (fresh_world st) []"
    and "\<And>w gs w' gs'. governs w gs \<Longrightarrow> governs w' gs' \<Longrightarrow> I w gs \<Longrightarrow> holding_step e E D g0 w gs w' gs' \<Longrightarrow> I w' gs'"
  shows "\<exists>gs. governs w gs \<and> I w gs"
  using assms(1)
proof (induction rule: rtranclp_induct)
  case base
  then show ?case
    using assms(2,3) governs_fresh by blast
next
  case (step w w')
  then obtain gs where gs: "governs w gs" "I w gs"
    by blast
  with step obtain gs' where "governs w' gs'" "holding_step e E D g0 w gs w' gs'"
    by (blast elim: governed_step)
  with gs show ?case
    using assms(4) by blast
qed

text \<open>A run of the programs is a run of the journal.\<close>

lemma governed_journal:
  assumes "world_steps e E H (fresh_world st) w" "sound e st"
  shows "(committed e)\<^sup>*\<^sup>* st (w_journal w)"
proof -
  have "\<exists>gs. governs w gs \<and> (committed e)\<^sup>*\<^sup>* st (w_journal w)"
  proof (rule governed_steps [OF assms, where I = "\<lambda>w _. (committed e)\<^sup>*\<^sup>* st (w_journal w)"])
    fix w gs w' gs'
    assume "governs w gs" "governs w' gs'" and run: "(committed e)\<^sup>*\<^sup>* st (w_journal w)"
      and step: "holding_step e E D g0 w gs w' gs'"
    then have snd: "sound e (w_journal w)" "sound e (w_journal w')"
      by (simp_all add: governs_def)
    from step have "w_journal w' = w_journal w \<or> committed e (w_journal w) (w_journal w')"
    proof cases
      case 5
      with snd show ?thesis
        by (auto simp: committed_def sound_def intro: journal_step.intros)
    qed (use snd outside in \<open>auto simp: same_or_committed_def\<close>)
    with run show "(committed e)\<^sup>*\<^sup>* st (w_journal w')"
      by auto
  qed (simp add: fresh_world_def)
  then show ?thesis
    by blast
qed

end

section \<open>Calls for which the journal has the reason\<close>

definition recording :: "(registry \<Rightarrow> driver_call \<Rightarrow> bool) \<Rightarrow> unit discipline" where
  "recording \<Phi> = \<lparr>d_legal = \<lambda>_ _ _. True, d_next = \<lambda>_ _ g. g, d_allowed = \<lambda>st _ q. \<Phi> st q, d_call = \<lambda>_ _ g. g\<rparr>"

lemma recording_simps [simp]:
  "d_legal (recording \<Phi>) st st' g" "d_next (recording \<Phi>) st st' g = g"
  "d_allowed (recording \<Phi>) st g q = \<Phi> st q" "d_call (recording \<Phi>) q a g = g"
  by (simp_all add: recording_def)

lemma recorded_calls:
  assumes gov: "governed e (recording \<Phi>) E H ()"
    and run: "world_steps e E H (fresh_world st) w" "sound e st" and q: "(q, a) \<in> set (w_log w)"
  shows "\<Phi> (w_journal w) q"
proof -
  let ?I = "\<lambda>w _. \<forall>(q, a)\<in>set (w_log w). \<Phi> (w_journal w) q"
  have keep: "\<Phi> st q \<Longrightarrow> later e st st' \<Longrightarrow> \<Phi> st' q" for st st' q
    using disciplined.stable [OF governed.axioms(1) [OF gov], of st "()" q st'] by simp
  have "\<exists>gs. governed.governs e (recording \<Phi>) w gs \<and> ?I w gs"
  proof (rule governed.governed_steps [OF gov run])
    fix w gs w' gs'
    assume g: "governed.governs e (recording \<Phi>) w gs" "governed.governs e (recording \<Phi>) w' gs'" "?I w gs"
      "holding_step e E (recording \<Phi>) () w gs w' gs'"
    have snd: "sound e (w_journal w)"
      using g(1) by (simp add: governed.governs_def [OF gov])
    have sound': "sound e (w_journal w')"
      using g(2) by (simp add: governed.governs_def [OF gov])
    from g(4) show "?I w' gs'"
    proof cases
      case 1
      then show ?thesis
        using g(3) keep governed.outside [OF gov 1(2) snd] governed.committed_later [OF gov] by fastforce
    next
      case (3 n)
      then have "later e (w_journal w) (w_journal w')"
        using later_step [OF later_refl [OF snd]] by blast
      with 3 g(3) keep show ?thesis
        by fastforce
    next
      case 5
      then have "committed e (w_journal w) (w_journal w')"
        using snd sound' by (auto simp: committed_def sound_def intro: journal_step.intros)
      with 5 g(3) keep governed.committed_later [OF gov] show ?thesis
        by fastforce
    qed (use g(3) in auto)
  qed (simp add: fresh_world_def)
  with q show ?thesis
    by auto
qed

section \<open>Calls that are made once\<close>

text \<open>The journal has a token, taken by the transaction after which it is not \<open>free\<close>.  A call that \<open>needs\<close>
  the token is made by the program that took it; when the call \<open>spends\<close> it, it is gone.  A program that
  holds the token may give it back.\<close>

definition taking ::
  "(registry \<Rightarrow> bool) \<Rightarrow> (driver_call \<Rightarrow> bool) \<Rightarrow> (driver_call \<Rightarrow> answer \<Rightarrow> bool) \<Rightarrow> bool discipline" where
  "taking free needs spends =
    \<lparr>d_legal = \<lambda>st st' g. free st' \<and> \<not> free st \<longrightarrow> g,
     d_next = \<lambda>st st' g. if free st \<and> \<not> free st' then True else if free st' \<and> \<not> free st then False else g,
     d_allowed = \<lambda>_ g q. needs q \<longrightarrow> g, d_call = \<lambda>q a g. g \<and> \<not> spends q a\<rparr>"

definition held :: "bool list \<Rightarrow> nat" where "held gs = sum_list (map of_bool gs)"

definition spent :: "(driver_call \<Rightarrow> answer \<Rightarrow> bool) \<Rightarrow> (driver_call \<times> answer) list \<Rightarrow> nat" where
  "spent spends log = length (filter (\<lambda>(q, a). spends q a) log)"

lemma held_simps [simp]: "held [] = 0" "held (gs @ [False]) = held gs"
  by (simp_all add: held_def)

lemma held_update: "n < length gs \<Longrightarrow> held (gs[n := b]) + of_bool (gs ! n) = held gs + of_bool b"
proof (induction gs arbitrary: n)
  case (Cons g gs)
  then show ?case
    using Cons.IH [of "n - 1"] by (cases n) (simp_all add: held_def)
qed simp

lemma spent_snoc: "spent spends (log @ [(q, a)]) = spent spends log + of_bool (spends q a)"
  by (simp add: spent_def)

lemma once_invariant:
  assumes step: "holding_step e E (taking free needs spends) False w gs w' gs'"
    and inv: "held gs + spent spends (w_log w) + of_bool (free (w_journal w)) \<le> 1"
    and needs: "\<And>q a. spends q a \<Longrightarrow> needs q"
    and E: "\<And>st st'. E st st' \<Longrightarrow> free st' \<Longrightarrow> free st" "\<And>st. free (restarted st) \<Longrightarrow> free st"
  shows "held gs' + spent spends (w_log w') + of_bool (free (w_journal w')) \<le> 1"
  using step
proof cases
  case 1
  then have "free (w_journal w') \<longrightarrow> free (w_journal w)"
    using E(1) by auto
  with inv 1 show ?thesis
    by (cases "free (w_journal w)") (auto simp: held_simps)
next
  case (3 n)
  have "held gs' + of_bool (gs ! n) = held gs + of_bool (d_next (taking free needs spends) (w_journal w) (w_journal w') (gs ! n))"
    using held_update [OF 3(2)] 3(1) by simp
  then show ?thesis
    using inv 3 by (auto simp: taking_def split: if_splits)
next
  case (4 n q a)
  have "held gs' + of_bool (gs ! n) = held gs + of_bool (gs ! n \<and> \<not> spends q a)"
    using held_update [OF 4(2), of "gs ! n \<and> \<not> spends q a"] 4(1) by (simp add: taking_def)
  moreover have "spends q a \<longrightarrow> gs ! n"
    using 4 needs by (auto simp: taking_def)
  ultimately show ?thesis
    using inv 4 by (auto simp: spent_snoc)
next
  case 5
  then have "free (w_journal w') \<longrightarrow> free (w_journal w)"
    using E(2) by auto
  with inv 5 show ?thesis
    by (cases "free (w_journal w)") (auto simp: held_simps)
qed (use inv in simp)

lemma spent_once:
  assumes gov: "governed e (taking free needs spends) E H False"
    and run: "world_steps e E H (fresh_world st) w" "sound e st"
    and needs: "\<And>q a. spends q a \<Longrightarrow> needs q"
    and E: "\<And>st st'. E st st' \<Longrightarrow> free st' \<Longrightarrow> free st" "\<And>st. free (restarted st) \<Longrightarrow> free st"
  shows "spent spends (w_log w) + of_bool (free (w_journal w)) \<le> 1"
proof -
  let ?I = "\<lambda>w gs. held gs + spent spends (w_log w) + of_bool (free (w_journal w)) \<le> 1"
  have "\<exists>gs. governed.governs e (taking free needs spends) w gs \<and> ?I w gs"
  proof (rule governed.governed_steps [OF gov run])
    fix w gs w' gs'
    assume "?I w gs" "holding_step e E (taking free needs spends) False w gs w' gs'"
    then show "?I w' gs'"
      using once_invariant needs E by blast
  qed (simp add: fresh_world_def spent_def)
  then show ?thesis
    by auto
qed

end
