(* ===== verification/Driver_Rules.thy ===== *)
theory Driver_Rules
  imports Driver_Runs
begin

text \<open>
  Rules for reading off a handler's text what it may do.  \<open>tame e K p\<close>: every transaction of \<open>p\<close> is an operation
  of the journal and every call of \<open>p\<close> that changes something outside is of a class in \<open>K\<close>.  \<open>secure\<close>, in the
  locale of a discipline that leaves the journal alone: from any journal later than a given one the program
  keeps to the discipline, so that what was read from the journal may be used in the rest of it.
\<close>

section \<open>Classes of calls\<close>

datatype call_class = StartCall | EndCall | EventCall | DeleteCall | CleanCall | OtherCall

definition class_of :: "driver_call \<Rightarrow> call_class" where
  "class_of q =
    (case q of
       StartTask _ _ \<Rightarrow> StartCall
     | StartClaimed _ _ \<Rightarrow> StartCall
     | SendTerminal _ _ _ _ \<Rightarrow> EndCall
     | ReportEvent _ _ _ _ _ \<Rightarrow> EventCall
     | DeletePod _ _ \<Rightarrow> DeleteCall
     | DeleteSessionPod _ _ \<Rightarrow> DeleteCall
     | Cleanup _ _ \<Rightarrow> CleanCall
     | CleanupSession _ _ \<Rightarrow> CleanCall
     | _ \<Rightarrow> OtherCall)"

primrec calls_in :: "call_class set \<Rightarrow> 'a prog \<Rightarrow> bool" where
  "calls_in K (Ret a) = True"
| "calls_in K (Txn u k) = (\<forall>m. calls_in K (k m))"
| "calls_in K (Ext q k) = ((class_of q = OtherCall \<or> class_of q \<in> K) \<and> (\<forall>a. calls_in K (k a)))"

definition tame :: "env \<Rightarrow> call_class set \<Rightarrow> 'a prog \<Rightarrow> bool" where
  "tame e K p \<longleftrightarrow> lawful e p \<and> calls_in K p"

named_theorems tame

lemma tame_Ret [tame]: "tame e K (Ret a)"
  by (simp add: tame_def)

lemma tame_ok [tame]: "tame e K ok"
  by (simp add: ok_def tame_Ret)

lemma calls_in_andthen: "calls_in K p \<Longrightarrow> (\<And>a. calls_in K (f a)) \<Longrightarrow> calls_in K (andthen p f)"
  by (induction p) simp_all

lemma tame_andthen [tame]: "tame e K p \<Longrightarrow> (\<And>a. tame e K (f a)) \<Longrightarrow> tame e K (andthen p f)"
  by (auto simp: tame_def intro: lawful_andthen calls_in_andthen)

lemma tame_orfail [tame]: "tame e K p \<Longrightarrow> (\<And>a. tame e K (f a)) \<Longrightarrow> tame e K (orfail p f)"
  by (auto simp: orfail_def intro!: tame_andthen tame_Ret split: sum.splits)

lemma tame_reading [tame]: "tame e K (reading f)"
  by (simp add: tame_def lawful_reading) (simp add: reading_def)

lemma tame_writing [tame]:
  "(\<And>c st st' a. fresh_ids c st \<Longrightarrow> f c st = Inr (st', a) \<Longrightarrow> journal_step e st st') \<Longrightarrow> tame e K (writing f)"
  by (simp add: tame_def lawful_writing) (simp add: writing_def)

lemma tame_calls [tame]:
  "class_of q = OtherCall \<or> class_of q \<in> K \<Longrightarrow> tame e K (ask q s)"
  "class_of q = OtherCall \<or> class_of q \<in> K \<Longrightarrow> tame e K (tell q)"
  "class_of q = OtherCall \<or> class_of q \<in> K \<Longrightarrow> tame e K (look q t)"
  by (auto simp: tame_def lawful_calls) (auto simp: ask_def tell_def look_def)

lemma tame_hinting [tame]: "tame e K p \<Longrightarrow> tame e K (hinting h p)"
  by (auto simp: tame_def lawful_hinting) (simp add: hinting_def class_of_def)

lemma tame_hint_if [tame]: "tame e K p \<Longrightarrow> tame e K (hint_if b h p)"
  by (simp add: hint_if_def tame_hinting)

lemma tame_running [tame]: "tame e K p \<Longrightarrow> tame e K (running p)"
  unfolding running_def by (intro tame)

lemma tame_if [tame]: "(b \<Longrightarrow> tame e K p) \<Longrightarrow> (\<not> b \<Longrightarrow> tame e K q) \<Longrightarrow> tame e K (if b then p else q)"
  by simp

lemma tame_cases [tame]:
  "tame e K p \<Longrightarrow> (\<And>a. tame e K (f a)) \<Longrightarrow> tame e K (case_option p f x)"
  "(\<And>a. tame e K (h a)) \<Longrightarrow> (\<And>a. tame e K (f a)) \<Longrightarrow> tame e K (case_sum h f y)"
  "(\<And>a b. tame e K (s a b)) \<Longrightarrow> tame e K (case_prod s z)"
  "tame e K p \<Longrightarrow> (\<And>a as. tame e K (n a as)) \<Longrightarrow> tame e K (case_list p n l)"
  by (auto split: option.splits sum.splits prod.splits list.splits)

lemma tame_mono: "tame e K p \<Longrightarrow> K \<subseteq> L \<Longrightarrow> tame e L p"
proof -
  have "calls_in K p \<Longrightarrow> K \<subseteq> L \<Longrightarrow> calls_in L p"
    by (induction p) auto
  then show "tame e K p \<Longrightarrow> K \<subseteq> L \<Longrightarrow> tame e L p"
    by (simp add: tame_def)
qed

section \<open>Secure programs\<close>

lemma wp_reaches:
  "wp e D p Q st g \<Longrightarrow> sound e st \<Longrightarrow> wp e D p (\<lambda>a st' g'. Q a st' g' \<and> later e st st') st g"
proof (induction p arbitrary: st g)
  case (Txn u k)
  show ?case
    unfolding wp.simps
  proof (intro allI impI conjI)
    fix m
    assume m: "later e st (m_journal m)" "same_or_committed e (m_journal m) (u m)"
    then show "d_legal D (m_journal m) (u m) g"
      using Txn.prems by simp
    from m have um: "later e st (u m)"
      by (rule later_step)
    have "wp e D (k m) (\<lambda>a st' g'. Q a st' g' \<and> later e (u m) st') (u m) (d_next D (m_journal m) (u m) g)"
      using Txn m later_sound [OF um] by simp
    then show "wp e D (k m) (\<lambda>a st' g'. Q a st' g' \<and> later e st st') (u m) (d_next D (m_journal m) (u m) g)"
      by (rule wp_mono) (auto intro: later_trans [OF um])
  qed
qed (auto simp: later_refl)

text \<open>A discipline that never forbids a transaction.\<close>

locale lenient = disciplined +
  assumes legal: "sound e st \<Longrightarrow> same_or_committed e st st' \<Longrightarrow> d_legal D st st' g"
begin

definition secure :: "registry \<Rightarrow> 'b prog \<Rightarrow> bool" where
  "secure st0 p \<longleftrightarrow> (\<forall>st g. later e st0 st \<longrightarrow> wp e D p (\<lambda>_ _ _. True) st g)"

lemma secure_wp: "secure st p \<Longrightarrow> sound e st \<Longrightarrow> wp e D p (\<lambda>_ _ _. True) st g"
  by (simp add: secure_def later_refl)

lemma secure_later: "secure st p \<Longrightarrow> later e st st' \<Longrightarrow> secure st' p"
  by (auto simp: secure_def intro: later_trans)

lemma secure_Ret: "secure st (Ret a)"
  by (simp add: secure_def)

lemma secure_ok: "secure st ok"
  by (simp add: ok_def secure_Ret)

lemma secure_andthen:
  assumes p: "secure st p" and f: "\<And>a st'. later e st st' \<Longrightarrow> secure st' (f a)"
  shows "secure st (andthen p f)"
  unfolding secure_def wp_andthen
proof (intro allI impI)
  fix st' g
  assume st': "later e st st'"
  then have "wp e D p (\<lambda>_ _ _. True) st' g"
    using p by (simp add: secure_def)
  then have "wp e D p (\<lambda>_ st'' _. True \<and> later e st' st'') st' g"
    by (rule wp_reaches) (rule later_sound [OF st'])
  then show "wp e D p (\<lambda>a. wp e D (f a) (\<lambda>_ _ _. True)) st' g"
    by (rule wp_mono) (auto intro!: secure_wp f intro: later_trans [OF st'] later_sound)
qed

lemma secure_orfail:
  "secure st p \<Longrightarrow> (\<And>a st'. later e st st' \<Longrightarrow> secure st' (f a)) \<Longrightarrow> secure st (orfail p f)"
  by (auto simp: orfail_def intro!: secure_andthen secure_Ret split: sum.splits)

lemma secure_reading:
  assumes "\<And>x st'. later e st st' \<Longrightarrow> secure st' (k (Inl x))"
    and "\<And>c a st'. later e st st' \<Longrightarrow> f c st' = Inr a \<Longrightarrow> secure st' (k (Inr a))"
  shows "secure st (andthen (reading f) k)"
  unfolding secure_def wp_andthen
  by (intro allI impI wp_reading) (auto intro!: secure_wp assms intro: later_trans later_sound)

lemma secure_reading_orfail:
  assumes "\<And>c a st'. later e st st' \<Longrightarrow> f c st' = Inr a \<Longrightarrow> secure st' (k a)"
  shows "secure st (orfail (reading f) k)"
  unfolding orfail_def by (rule secure_reading) (simp_all add: secure_Ret assms)

lemma secure_writing:
  assumes "\<And>x st'. later e st st' \<Longrightarrow> secure st' (k (Inl x))"
    and "\<And>c a st' st''. later e st st' \<Longrightarrow> f c st' = Inr (st'', a) \<Longrightarrow> same_or_committed e st' st'' \<Longrightarrow>
      secure st'' (k (Inr a))"
  shows "secure st (andthen (writing f) k)"
  unfolding secure_def wp_andthen
proof (intro allI impI, rule wp_writing)
  fix st' g x st1
  assume "later e st st'" "later e st' st1"
  then have "later e st st1"
    by (rule later_trans)
  then show "wp e D (k (Inl x)) (\<lambda>_ _ _. True) st1 g"
    using assms(1) by (intro secure_wp later_sound)
next
  fix st' g c a st1 st2
  assume st: "later e st st'" "later e st' st1" "f c st1 = Inr (st2, a)" "same_or_committed e st1 st2"
  from st(1,2) have st1: "later e st st1"
    by (rule later_trans)
  then have "d_legal D st1 st2 g"
    using st(4) by (intro legal later_sound)
  moreover have "secure st2 (k (Inr a))"
    using assms(2) st1 st(3,4) by blast
  ultimately show "d_legal D st1 st2 g \<and> wp e D (k (Inr a)) (\<lambda>_ _ _. True) st2 (d_next D st1 st2 g)"
    using later_step [OF st1 st(4)] by (auto intro: secure_wp later_sound)
qed

lemma secure_writing_orfail:
  assumes "\<And>c a st' st''. later e st st' \<Longrightarrow> f c st' = Inr (st'', a) \<Longrightarrow> same_or_committed e st' st'' \<Longrightarrow>
    secure st'' (k a)"
  shows "secure st (orfail (writing f) k)"
  unfolding orfail_def by (rule secure_writing) (simp_all add: secure_Ret assms)

lemma secure_ask: "(\<And>st' g. later e st st' \<Longrightarrow> d_allowed D st' g q) \<Longrightarrow> secure st (ask q s)"
  by (auto simp: secure_def intro: wp_ask)

lemma secure_tell: "(\<And>st' g. later e st st' \<Longrightarrow> d_allowed D st' g q) \<Longrightarrow> secure st (tell q)"
  unfolding tell_def by (rule secure_ask)

lemma secure_hinting:
  "(\<And>st' g. later e st st' \<Longrightarrow> d_allowed D st' g (Hint h)) \<Longrightarrow> secure st p \<Longrightarrow> secure st (hinting h p)"
  by (simp add: secure_def)

lemma secure_if: "(b \<Longrightarrow> secure st p) \<Longrightarrow> (\<not> b \<Longrightarrow> secure st q) \<Longrightarrow> secure st (if b then p else q)"
  by simp

lemma secure_cases:
  "(x = None \<Longrightarrow> secure st p) \<Longrightarrow> (\<And>a. x = Some a \<Longrightarrow> secure st (f a)) \<Longrightarrow> secure st (case_option p f x)"
  "(\<And>a. y = Inl a \<Longrightarrow> secure st (h a)) \<Longrightarrow> (\<And>a. y = Inr a \<Longrightarrow> secure st (k a)) \<Longrightarrow> secure st (case_sum h k y)"
  "(\<And>a b. z = (a, b) \<Longrightarrow> secure st (s a b)) \<Longrightarrow> secure st (case_prod s z)"
  "(l = [] \<Longrightarrow> secure st p) \<Longrightarrow> (\<And>a b. l = a # b \<Longrightarrow> secure st (t a b)) \<Longrightarrow> secure st (case_list p t l)"
  by (auto split: option.splits sum.splits prod.splits list.splits)

lemma secure_calls_in:
  assumes K: "\<And>q st g. class_of q = OtherCall \<or> class_of q \<in> K \<Longrightarrow> d_allowed D st g q"
  shows "calls_in K p \<Longrightarrow> secure st p"
proof -
  have "calls_in K p \<Longrightarrow> sound e st \<Longrightarrow> wp e D p (\<lambda>_ _ _. True) st g" for st g
  proof (induction p arbitrary: st g)
    case (Txn u k st g)
    show ?case
      unfolding wp.simps
    proof (intro allI impI conjI)
      fix m
      assume m: "later e st (m_journal m)" "same_or_committed e (m_journal m) (u m)"
      show "d_legal D (m_journal m) (u m) g"
        by (rule legal [OF later_sound [OF m(1)] m(2)])
      show "wp e D (k m) (\<lambda>_ _ _. True) (u m) (d_next D (m_journal m) (u m) g)"
        using Txn.prems(1) later_sound [OF later_step [OF m]] by (intro Txn.IH) simp_all
    qed
  next
    case (Ext q k st g)
    then show ?case
      by (simp add: K)
  qed simp
  then show "calls_in K p \<Longrightarrow> secure st p"
    unfolding secure_def using later_sound by blast
qed

end

section \<open>Both disciplines are lenient\<close>

text \<open>Under \<open>recording\<close> the calls outside \<open>K\<close> have a reason in the journal that lasts.\<close>

lemma lenient_recording:
  assumes "\<And>st q st'. \<Phi> st q \<Longrightarrow> later e st st' \<Longrightarrow> \<Phi> st' q"
  shows "lenient e (recording \<Phi>)"
  using assms by unfold_locales auto

text \<open>Under \<open>taking\<close> a token that is gone does not come back.\<close>

lemma lenient_taking:
  assumes "\<And>st st'. committed e st st' \<Longrightarrow> free st' \<Longrightarrow> free st"
  shows "lenient e (taking free needs spends)"
  using assms by unfold_locales (auto simp: taking_def same_or_committed_def)

end
