(* ===== verification/Request_Bodies.thy ===== *)
theory Request_Bodies
  imports Validate_Grants Task_History
begin

text \<open>
  The bodies a worker sends to the controller and how they are read: \<^verbatim>\<open>decodeBody\<close> of
  \<^verbatim>\<open>controller/gateway.go\<close> with \<^verbatim>\<open>runtimeimage.Decode\<close>, which refuses unknown fields and
  anything after the document, for the receipts of \<^verbatim>\<open>workspace\<close>; and the JSON of two of them,
  which the controller compares by digest.
\<close>

definition MaxRequestBytes :: int where "MaxRequestBytes = 2 ^ 20"

definition decodeBody :: "(json \<Rightarrow> 'a option) \<Rightarrow> string option \<Rightarrow> 'a option" where
  "decodeBody dec body =
    (case body of
       None \<Rightarrow> None
     | Some raw \<Rightarrow> (if int (length raw) > MaxRequestBytes then None else unmarshal dec raw))"

section \<open>Turn receipts\<close>

definition turn_receipt_names :: "string list" where
  "turn_receipt_names =
    [''workerSessionID'', ''taskID'', ''attemptID'', ''generation'', ''turnSequence'', ''inputDigest'', ''podUID'',
     ''pvcUID'', ''resultDigest'', ''requestDigest'', ''nonce'', ''writersStopped'', ''flushOK'', ''signature'']"

definition zero_turn_receipt :: turn_receipt where
  "zero_turn_receipt =
    \<lparr>tr_WorkerSessionID = [], tr_TaskID = [], tr_AttemptID = [], tr_Generation = 0, tr_TurnSequence = 0,
     tr_InputDigest = [], tr_PodUID = [], tr_PVCUID = [], tr_ResultDigest = [], tr_RequestDigest = [],
     tr_Nonce = [], tr_WritersStopped = False, tr_FlushOK = False, tr_Signature = []\<rparr>"

definition dec_turn_receipt :: "json \<Rightarrow> turn_receipt option" where
  "dec_turn_receipt =
    (let names = turn_receipt_names; str = (\<lambda>n ms. dec_field dec_string [] names n ms);
         nat = (\<lambda>n ms. dec_field dec_u64 0 names n ms); flag = (\<lambda>n ms. dec_field dec_bool False names n ms)
     in dec_strict zero_turn_receipt names (\<lambda>ms. do {
       session \<leftarrow> str ''workerSessionID'' ms; task \<leftarrow> str ''taskID'' ms; attempt \<leftarrow> str ''attemptID'' ms;
       generation \<leftarrow> nat ''generation'' ms; turn \<leftarrow> nat ''turnSequence'' ms; input \<leftarrow> str ''inputDigest'' ms;
       pod \<leftarrow> str ''podUID'' ms; pvc \<leftarrow> str ''pvcUID'' ms; result \<leftarrow> str ''resultDigest'' ms;
       request \<leftarrow> str ''requestDigest'' ms; nonce \<leftarrow> str ''nonce'' ms; stopped \<leftarrow> flag ''writersStopped'' ms;
       flushed \<leftarrow> flag ''flushOK'' ms; signature \<leftarrow> dec_field dec_bytes [] names ''signature'' ms;
       Some \<lparr>tr_WorkerSessionID = session, tr_TaskID = task, tr_AttemptID = attempt, tr_Generation = generation,
         tr_TurnSequence = turn, tr_InputDigest = input, tr_PodUID = pod, tr_PVCUID = pvc, tr_ResultDigest = result,
         tr_RequestDigest = request, tr_Nonce = nonce, tr_WritersStopped = stopped, tr_FlushOK = flushed,
         tr_Signature = signature\<rparr>
     }))"

definition turn_receipt_json :: "turn_receipt \<Rightarrow> json" where
  "turn_receipt_json r =
    JObj [(''workerSessionID'', jstr (tr_WorkerSessionID r)), (''taskID'', jstr (tr_TaskID r)),
      (''attemptID'', jstr (tr_AttemptID r)), (''generation'', ju64 (tr_Generation r)),
      (''turnSequence'', ju64 (tr_TurnSequence r)), (''inputDigest'', jstr (tr_InputDigest r)),
      (''podUID'', jstr (tr_PodUID r)), (''pvcUID'', jstr (tr_PVCUID r)), (''resultDigest'', jstr (tr_ResultDigest r)),
      (''requestDigest'', jstr (tr_RequestDigest r)), (''nonce'', jstr (tr_Nonce r)),
      (''writersStopped'', JBool (tr_WritersStopped r)), (''flushOK'', JBool (tr_FlushOK r)),
      (''signature'', jbytes_or_null (tr_Signature r))]"

section \<open>Result receipts\<close>

definition result_receipt_names :: "string list" where
  "result_receipt_names =
    [''workerSessionID'', ''turnSequence'', ''taskID'', ''attemptID'', ''podUID'', ''pvcUID'', ''requestDigest'',
     ''nonce'', ''signature'']"

definition zero_result_receipt :: result_receipt where
  "zero_result_receipt =
    \<lparr>rc_WorkerSessionID = [], rc_TurnSequence = 0, rc_TaskID = [], rc_AttemptID = [], rc_PodUID = [], rc_PVCUID = [],
     rc_RequestDigest = [], rc_Nonce = [], rc_Signature = []\<rparr>"

definition dec_result_receipt :: "json \<Rightarrow> result_receipt option" where
  "dec_result_receipt =
    (let names = result_receipt_names; str = (\<lambda>n ms. dec_field dec_string [] names n ms)
     in dec_strict zero_result_receipt names (\<lambda>ms. do {
       session \<leftarrow> str ''workerSessionID'' ms; turn \<leftarrow> dec_field dec_u64 0 names ''turnSequence'' ms;
       task \<leftarrow> str ''taskID'' ms; attempt \<leftarrow> str ''attemptID'' ms; pod \<leftarrow> str ''podUID'' ms;
       pvc \<leftarrow> str ''pvcUID'' ms; request \<leftarrow> str ''requestDigest'' ms; nonce \<leftarrow> str ''nonce'' ms;
       signature \<leftarrow> dec_field dec_bytes [] names ''signature'' ms;
       Some \<lparr>rc_WorkerSessionID = session, rc_TurnSequence = turn, rc_TaskID = task, rc_AttemptID = attempt,
         rc_PodUID = pod, rc_PVCUID = pvc, rc_RequestDigest = request, rc_Nonce = nonce, rc_Signature = signature\<rparr>
     }))"

definition result_receipt_json :: "result_receipt \<Rightarrow> json" where
  "result_receipt_json r =
    JObj (jomit (rc_WorkerSessionID r = []) ''workerSessionID'' (jstr (rc_WorkerSessionID r)) @
      jomit (rc_TurnSequence r = 0) ''turnSequence'' (ju64 (rc_TurnSequence r)) @
      [(''taskID'', jstr (rc_TaskID r)), (''attemptID'', jstr (rc_AttemptID r)), (''podUID'', jstr (rc_PodUID r)),
       (''pvcUID'', jstr (rc_PVCUID r)), (''requestDigest'', jstr (rc_RequestDigest r)), (''nonce'', jstr (rc_Nonce r)),
       (''signature'', jbytes_or_null (rc_Signature r))])"

section \<open>Shutdown and stop receipts\<close>

definition signed_receipt_names :: "string list" where
  "signed_receipt_names =
    [''taskID'', ''attemptID'', ''requestDigest'', ''podUID'', ''pvcUID'', ''nonce'', ''writersStopped'', ''flushOK'',
     ''signature'']"

definition dec_signed_receipt :: "json \<Rightarrow> signed_receipt option" where
  "dec_signed_receipt =
    (let names = signed_receipt_names; str = (\<lambda>n ms. dec_field dec_string [] names n ms)
     in dec_strict \<lparr>sg_TaskID = [], sg_AttemptID = [], sg_RequestDigest = [], sg_PodUID = [], sg_PVCUID = [],
         sg_Nonce = [], sg_WritersStopped = False, sg_FlushOK = False, sg_Signature = []\<rparr> names (\<lambda>ms. do {
       task \<leftarrow> str ''taskID'' ms; attempt \<leftarrow> str ''attemptID'' ms; request \<leftarrow> str ''requestDigest'' ms;
       pod \<leftarrow> str ''podUID'' ms; pvc \<leftarrow> str ''pvcUID'' ms; nonce \<leftarrow> str ''nonce'' ms;
       stopped \<leftarrow> dec_field dec_bool False names ''writersStopped'' ms;
       flushed \<leftarrow> dec_field dec_bool False names ''flushOK'' ms;
       signature \<leftarrow> dec_field dec_bytes [] names ''signature'' ms;
       Some \<lparr>sg_TaskID = task, sg_AttemptID = attempt, sg_RequestDigest = request, sg_PodUID = pod, sg_PVCUID = pvc,
         sg_Nonce = nonce, sg_WritersStopped = stopped, sg_FlushOK = flushed, sg_Signature = signature\<rparr>
     }))"

definition stop_receipt_names :: "string list" where
  "stop_receipt_names =
    [''workerSessionID'', ''turnSequence'', ''taskID'', ''attemptID'', ''generation'', ''podUID'', ''pvcUID'',
     ''revision'', ''nonce'', ''writersStopped'', ''flushOK'', ''signature'']"

definition dec_stop_receipt :: "json \<Rightarrow> stop_receipt option" where
  "dec_stop_receipt =
    (let names = stop_receipt_names; str = (\<lambda>n ms. dec_field dec_string [] names n ms);
         nat = (\<lambda>n ms. dec_field dec_u64 0 names n ms)
     in dec_strict \<lparr>sr_WorkerSessionID = [], sr_TurnSequence = 0, sr_TaskID = [], sr_AttemptID = [], sr_Generation = 0,
         sr_PodUID = [], sr_PVCUID = [], sr_Revision = 0, sr_Nonce = [], sr_WritersStopped = False, sr_FlushOK = False,
         sr_Signature = []\<rparr> names (\<lambda>ms. do {
       session \<leftarrow> str ''workerSessionID'' ms; turn \<leftarrow> nat ''turnSequence'' ms; task \<leftarrow> str ''taskID'' ms;
       attempt \<leftarrow> str ''attemptID'' ms; generation \<leftarrow> nat ''generation'' ms; pod \<leftarrow> str ''podUID'' ms;
       pvc \<leftarrow> str ''pvcUID'' ms; revision \<leftarrow> nat ''revision'' ms; nonce \<leftarrow> str ''nonce'' ms;
       stopped \<leftarrow> dec_field dec_bool False names ''writersStopped'' ms;
       flushed \<leftarrow> dec_field dec_bool False names ''flushOK'' ms;
       signature \<leftarrow> dec_field dec_bytes [] names ''signature'' ms;
       Some \<lparr>sr_WorkerSessionID = session, sr_TurnSequence = turn, sr_TaskID = task, sr_AttemptID = attempt,
         sr_Generation = generation, sr_PodUID = pod, sr_PVCUID = pvc, sr_Revision = revision, sr_Nonce = nonce,
         sr_WritersStopped = stopped, sr_FlushOK = flushed, sr_Signature = signature\<rparr>
     }))"

section \<open>Admission and stop requests\<close>

record admission_body =
  ab_PublicKey :: string
  ab_PodUID :: string
  ab_PVCUID :: string
  ab_BootstrapDigest :: string

definition dec_admission :: "json \<Rightarrow> admission_body option" where
  "dec_admission =
    (let names = [''publicKey'', ''podUID'', ''pvcUID'', ''bootstrapDigest'']
     in dec_strict \<lparr>ab_PublicKey = [], ab_PodUID = [], ab_PVCUID = [], ab_BootstrapDigest = []\<rparr> names (\<lambda>ms. do {
       key \<leftarrow> dec_field dec_bytes [] names ''publicKey'' ms; pod \<leftarrow> dec_field dec_string [] names ''podUID'' ms;
       pvc \<leftarrow> dec_field dec_string [] names ''pvcUID'' ms; digest \<leftarrow> dec_field dec_string [] names ''bootstrapDigest'' ms;
       Some \<lparr>ab_PublicKey = key, ab_PodUID = pod, ab_PVCUID = pvc, ab_BootstrapDigest = digest\<rparr>
     }))"

definition dec_reason :: "json \<Rightarrow> string option" where
  "dec_reason = dec_strict [] [''reason''] (\<lambda>ms. dec_field dec_string [] [''reason''] ''reason'' ms)"

section \<open>Checkouts\<close>

record checkout_request =
  cor_URL :: string
  cor_WorkspaceID :: string
  cor_WorkDir :: string
  cor_Ref :: string
  cor_AgentName :: string
  cor_TaskID :: string
  cor_CheckoutMode :: string
  cor_RetryBusy :: bool
  cor_Fresh :: bool

definition checkout_names :: "string list" where
  "checkout_names =
    [''url'', ''workspace_id'', ''workdir'', ''ref'', ''agent_name'', ''task_id'', ''checkout_mode'', ''retry_busy'',
     ''fresh'']"

definition dec_checkout :: "json \<Rightarrow> checkout_request option" where
  "dec_checkout =
    (let names = checkout_names; str = (\<lambda>n ms. dec_field dec_string [] names n ms)
     in dec_strict \<lparr>cor_URL = [], cor_WorkspaceID = [], cor_WorkDir = [], cor_Ref = [], cor_AgentName = [],
         cor_TaskID = [], cor_CheckoutMode = [], cor_RetryBusy = False, cor_Fresh = False\<rparr> names (\<lambda>ms. do {
       url \<leftarrow> str ''url'' ms; workspace \<leftarrow> str ''workspace_id'' ms; dir \<leftarrow> str ''workdir'' ms; ref \<leftarrow> str ''ref'' ms;
       agent \<leftarrow> str ''agent_name'' ms; task \<leftarrow> str ''task_id'' ms; mode \<leftarrow> str ''checkout_mode'' ms;
       retry \<leftarrow> dec_field dec_bool False names ''retry_busy'' ms; fresh \<leftarrow> dec_field dec_bool False names ''fresh'' ms;
       Some \<lparr>cor_URL = url, cor_WorkspaceID = workspace, cor_WorkDir = dir, cor_Ref = ref, cor_AgentName = agent,
         cor_TaskID = task, cor_CheckoutMode = mode, cor_RetryBusy = retry, cor_Fresh = fresh\<rparr>
     }))"

end
