(* ===== verification/Controller_Ops.thy ===== *)
theory Controller_Ops
  imports Driver_Runs Request_Bodies Session_Reservation
begin

text \<open>
  What the controller's handlers share (\<^verbatim>\<open>controller/reconcile.go\<close>, \<^verbatim>\<open>stop.go\<close>,
  \<^verbatim>\<open>dispatch.go\<close>, \<^verbatim>\<open>execution.go\<close>, and of \<^verbatim>\<open>daemonapi/client.go\<close> and \<^verbatim>\<open>observation.go\<close> the
  checks before a request is sent): recording a failure, asking for a stop, observing the assignment of a
  task at the backend, taking in a worker's events and its result.
\<close>

section \<open>Requests to the backend\<close>

definition API_Start :: "string \<Rightarrow> string \<Rightarrow> (fault + unit) prog" where
  "API_Start attempt task =
    (if \<not> segment task then Ret (Inl (OtherFault ''invalid task'')) else tell (StartTask attempt task))"

definition API_StartClaim :: "env \<Rightarrow> string \<Rightarrow> claim \<Rightarrow> (fault + unit) prog" where
  "API_StartClaim e attempt cl =
    (if \<not> cl_StartClaimSupported cl then Ret (Inl (OtherFault ''generation-bound task start unavailable''))
     else if \<not> observationID e (cl_ID cl) \<or> \<not> observationID e (cl_RuntimeID cl) \<or>
        (case parse_time (cl_DispatchedAt cl) of None \<Rightarrow> True | Some t \<Rightarrow> t mod second mod 1000 \<noteq> 0)
     then Ret (Inl (OtherFault ''invalid task start generation''))
     else tell (StartClaimed attempt cl))"

definition API_Report :: "string \<Rightarrow> u64 \<Rightarrow> string \<Rightarrow> string \<Rightarrow> string \<Rightarrow> (fault + unit) prog" where
  "API_Report attempt sequence task kind body =
    (if \<not> segment task \<or> kind \<noteq> ''messages'' \<and> kind \<noteq> ''usage'' \<and> kind \<noteq> ''progress''
     then Ret (Inl (OtherFault ''invalid task report''))
     else tell (ReportEvent attempt sequence task kind body))"

definition terminalKind :: "terminal_kind \<Rightarrow> bool" where
  "terminalKind kind \<longleftrightarrow> kind \<in> {KindComplete, KindFail, KindCancelAck}"

definition API_Terminal :: "string \<Rightarrow> string \<Rightarrow> terminal_kind \<Rightarrow> string \<Rightarrow> (fault + unit) prog" where
  "API_Terminal attempt task kind body =
    (if \<not> segment task \<or> \<not> terminalKind kind \<or> \<not> json_valid body
     then Ret (Inl (OtherFault ''invalid terminal callback''))
     else tell (SendTerminal attempt task kind body))"

definition API_TerminalObservation ::
  "string \<Rightarrow> string \<Rightarrow> terminal_kind \<Rightarrow> string \<Rightarrow> (fault + observation) prog" where
  "API_TerminalObservation attempt task kind body =
    (if \<not> segment task \<or> \<not> terminalKind kind \<or> \<not> json_valid body
     then Ret (Inl (OtherFault ''invalid terminal callback''))
     else orfail (ask (SendTerminal attempt task kind body) an_Row) (\<lambda>row.
       Ret (if ob_ID row \<noteq> task then Inl (OtherFault ''invalid terminal observation'') else Inr row)))"

definition API_TaskStatus :: "string \<Rightarrow> (fault + string) prog" where
  "API_TaskStatus task =
    (if \<not> segment task then Ret (Inl (OtherFault ''invalid task''))
     else orfail (ask (TaskStatus task) an_Text) (\<lambda>status.
       Ret (if status = [] then Inl (OtherFault ''missing task status'') else Inr status)))"

definition terminal_status :: "string \<Rightarrow> bool" where
  "terminal_status status \<longleftrightarrow> status \<in> {''cancelled'', ''completed'', ''failed''}"

section \<open>Failures and stops\<close>

definition failure_body :: "fault option \<Rightarrow> string" where
  "failure_body cause =
    (if (case cause of None \<Rightarrow> False | Some f \<Rightarrow> isErr ErrAdmissionBudget f)
     then ''{\"error\":\"Task admission budget exhausted; existing data retained\"}''
     else case (case cause of None \<Rightarrow> None | Some f \<Rightarrow> diagnosis f) of
       None \<Rightarrow> ''{\"error\":\"Runtime worker unavailable; task storage retained\"}''
     | Some reason \<Rightarrow>
         (if reason = ''preparation_controller_restarted''
          then ''{\"error\":\"Preparation interrupted by controller restart; task storage retained\"}''
          else if reason = ''worker_initialization_failed''
          then ''{\"error\":\"Worker initialization failed before execution admission; task storage retained\",\"failure_reason\":\"agent_error.unknown\"}''
          else if reason = ''worker_startup_failed''
          then ''{\"error\":\"Worker stopped before execution admission; task storage retained\",\"failure_reason\":\"agent_error.unknown\"}''
          else ''{\"error\":\"Runtime worker unavailable; task storage retained\"}''))"

definition recordFailure :: "env \<Rightarrow> task_grant \<Rightarrow> fault option \<Rightarrow> (fault + unit) prog" where
  "recordFailure e g cause =
    andthen (writing (\<lambda>c. ReceiveFailure e c (g_AttemptID g) (failure_body cause))) (\<lambda>r.
      hinting (CancelCheckouts (g_AttemptID g))
        (Ret (case r of Inl x \<Rightarrow> if isErr ErrConflict x then Inr () else Inl x | Inr _ \<Rightarrow> Inr ())))"

definition requestStop :: "task_grant \<Rightarrow> string \<Rightarrow> (fault + task_grant) prog" where
  "requestStop g reason =
    andthen (writing (\<lambda>c. RequestStop c (g_AttemptID g) reason)) (\<lambda>r.
      hinting (CancelCheckouts (g_AttemptID g))
        (case r of
           Inl x \<Rightarrow> Ret (Inl x)
         | Inr current \<Rightarrow>
             hinting (CancelPreparation (g_AttemptID g))
               (hint_if (g_Stop g = None) (EnqueueAttempt (g_AttemptID g))
                 (hint_if (g_WorkerSessionID g \<noteq> []) (EnqueueSession (g_WorkerSessionID g)) (Ret (Inr current))))))"

section \<open>The assignment at the backend\<close>

definition dispatched_at :: "string \<Rightarrow> string" where
  "dispatched_at envelope =
    (case unmarshal (dec_struct [] (\<lambda>ms. dec_field dec_string [] [''dispatched_at''] ''dispatched_at'' ms)) envelope of
       None \<Rightarrow> [] | Some t \<Rightarrow> t)"

definition same_dispatch :: "task_grant \<Rightarrow> string \<Rightarrow> task_assignment \<Rightarrow> bool" where
  "same_dispatch g claimed current =
    (tas_RuntimeID current = g_RuntimeID g \<and>
     (case (parse_time claimed, parse_time (tas_DispatchedAt current)) of
        (Some a, Some b) \<Rightarrow> whole_second b = whole_second a
      | _ \<Rightarrow> False))"

definition assignment :: "task_grant \<Rightarrow> (fault + task_assignment) prog" where
  "assignment g =
    (let claimed = dispatched_at (g_Envelope g) in
     if claimed = [] then Ret (Inl (OtherFault ''original dispatch identity unavailable''))
     else orfail
       (if g_SessionProtocol g then
          (case ParseClaim (g_Envelope g) of
             Inl x \<Rightarrow> Ret (Inl (JournalError x))
           | Inr original \<Rightarrow> ask (ClaimTaskAssignment original) an_Assignment)
        else ask (TaskAssignmentOf (g_WorkspaceID g) (g_AgentID g) (g_TaskID g)) an_Assignment)
       (\<lambda>current. Ret (if same_dispatch g claimed current then Inr current else Inl AssignmentChanged)))"

definition sameAssignment :: "task_grant \<Rightarrow> bool prog" where
  "sameAssignment g = andthen (assignment g) (\<lambda>r. Ret (case r of Inl _ \<Rightarrow> False | Inr _ \<Rightarrow> True))"

definition deliveryStatus :: "task_grant \<Rightarrow> (fault + string) prog" where
  "deliveryStatus g =
    (let observed = orfail (assignment g) (\<lambda>current. Ret (Inr (tas_Status current)))
     in if g_SessionProtocol g then
          andthen (API_TaskStatus (g_TaskID g)) (\<lambda>r.
            case r of
              Inr status \<Rightarrow> if terminal_status status then Ret (Inr status) else observed
            | Inl _ \<Rightarrow> observed)
        else observed)"

definition terminalAllowed :: "terminal_kind \<Rightarrow> string \<Rightarrow> bool" where
  "terminalAllowed kind status =
    (if kind = KindComplete then status = ''running''
     else if kind = KindCancelAck then status = ''cancelled''
     else status \<in> {''dispatched'', ''running'', ''waiting_local_directory''})"

definition backendStopReason :: "task_grant \<Rightarrow> string \<Rightarrow> string" where
  "backendStopReason g status =
    (if status = ''cancelled'' then ''backend_cancelled''
     else if (status = ''failed'' \<or> status = ''completed'') \<and> g_State g \<noteq> TerminalReceived then ''backend_terminal''
     else [])"

text \<open>Whether the attempt was told to stop, and the error if there is one.\<close>

definition stop_requested :: "task_grant \<Rightarrow> string \<Rightarrow> (bool \<times> fault option) prog" where
  "stop_requested g reason =
    andthen (requestStop g reason) (\<lambda>r. Ret (True, case r of Inl x \<Rightarrow> Some x | Inr _ \<Rightarrow> None))"

definition join_faults :: "fault option \<Rightarrow> fault \<Rightarrow> fault" where
  "join_faults a b = (case a of None \<Rightarrow> b | Some x \<Rightarrow> Joined x b)"

text \<open>What follows the reading of the assignment: \<open>r\<close> is its outcome, \<open>statusErr\<close> the error of the status.\<close>

definition assignment_stop ::
  "task_grant \<Rightarrow> fault option \<Rightarrow> fault + task_assignment \<Rightarrow> (bool \<times> fault option) prog" where
  "assignment_stop g statusErr r =
    (case r of
       Inl x \<Rightarrow>
         (if is_fault (\<lambda>f. f = AssignmentChanged) x then stop_requested g ''assignment_changed''
          else Ret (False, Some (join_faults statusErr x)))
     | Inr current \<Rightarrow>
         (let reason = backendStopReason g (tas_Status current)
          in if reason = [] then Ret (False, statusErr) else stop_requested g reason))"

definition observe_assignment :: "task_grant \<Rightarrow> fault option \<Rightarrow> (bool \<times> fault option) prog" where
  "observe_assignment g0 statusErr =
    andthen (assignment g0) (\<lambda>observed.
      if \<not> g_SessionProtocol g0 then assignment_stop g0 statusErr observed
      else andthen (reading (\<lambda>_. Get (g_AttemptID g0))) (\<lambda>r.
        case r of
          Inl x \<Rightarrow> Ret (False, Some x)
        | Inr g \<Rightarrow>
            (if g_State g = Closed \<or> g_TurnComplete g then Ret (False, None)
             else assignment_stop g statusErr observed)))"

definition observeBackendStop :: "task_grant \<Rightarrow> (bool \<times> fault option) prog" where
  "observeBackendStop g0 =
    (if \<not> g_SessionProtocol g0 then observe_assignment g0 None
     else andthen (API_TaskStatus (g_TaskID g0)) (\<lambda>status.
       andthen (reading (\<lambda>_. Get (g_AttemptID g0))) (\<lambda>r.
         case r of
           Inl x \<Rightarrow> Ret (False, Some x)
         | Inr g \<Rightarrow>
             (if g_State g = Closed \<or> g_TurnComplete g then Ret (False, None)
              else case status of
                Inr s \<Rightarrow>
                  (if terminal_status s then
                     (if backendStopReason g s = [] then Ret (False, None) else stop_requested g (backendStopReason g s))
                   else observe_assignment g None)
              | Inl x \<Rightarrow> observe_assignment g (Some x)))))"

section \<open>Kubernetes objects of an attempt\<close>

definition zero_reference :: reference where
  "zero_reference =
    \<lparr>kr_WorkerSessionID = [], kr_WorkspaceID = [], kr_WorkspaceAnchorTaskID = [], kr_Namespace = [], kr_Owner = ([], []),
     kr_TaskID = [], kr_StorageID = [], kr_AttemptID = [], kr_PodName = [], kr_SecretName = [], kr_PodUID = [],
     kr_SecretUID = [], kr_RequestDigest = [], kr_RuntimeRef = zero_runtime_ref, kr_PodDigest = [], kr_OwnerID = [],
     kr_PVCName = [], kr_PVCUID = [], kr_NodeID = [], kr_TaskRoot = [], kr_NFSServer = []\<rparr>"

definition zero_record :: resource_record where
  "zero_record =
    \<lparr>res_Reference = zero_reference, res_SecretCreateRequested = False, res_PodCreateRequested = False,
     res_PodRequest = None, res_SecretRequest = None\<rparr>"

definition grant_record :: "host \<Rightarrow> task_grant \<Rightarrow> fault + resource_record" where
  "grant_record h g =
    (if g_Resources g = [] then Inr zero_record
     else case unmarshal (h_DecodeRecord h) (g_Resources g) of
       None \<Rightarrow> Inl (OtherFault ''invalid resource journal'')
     | Some r \<Rightarrow>
         (let ref = res_Reference r in
          if g_WorkerSessionID g \<noteq> [] then
            (if kr_WorkerSessionID ref \<noteq> g_WorkerSessionID g \<or> kr_WorkspaceID ref \<noteq> g_WorkspaceID g \<or>
                kr_WorkspaceAnchorTaskID ref \<noteq> g_WorkspaceAnchorTaskID g \<or> kr_StorageID ref \<noteq> g_StorageID g \<or>
                kr_OwnerID ref \<noteq> g_OwnerID g \<or> kr_PVCName ref \<noteq> g_PVCName g \<or> kr_TaskRoot ref \<noteq> g_TaskRoot g \<or>
                \<not> Ref_Equal (kr_RuntimeRef ref) (g_RuntimeRef g)
             then Inl (OtherFault ''journal session resource identity mismatch'') else Inr r)
          else
            (if kr_TaskID ref \<noteq> g_TaskID g \<or> kr_AttemptID ref \<noteq> g_AttemptID g \<or> kr_StorageID ref \<noteq> g_StorageID g \<or>
                kr_OwnerID ref \<noteq> g_OwnerID g \<or> kr_PVCName ref \<noteq> g_PVCName g \<or> kr_TaskRoot ref \<noteq> g_TaskRoot g \<or>
                \<not> Ref_Equal (kr_RuntimeRef ref) (g_RuntimeRef g)
             then Inl (OtherFault ''journal resource identity mismatch'') else Inr r)))"

definition saveResources :: "env \<Rightarrow> host \<Rightarrow> string \<Rightarrow> resource_record \<Rightarrow> (fault + unit) prog" where
  "saveResources e h i r = writing (\<lambda>_. SetResources e i (h_EncodeRecord h r))"

definition owns_turn :: "task_grant \<Rightarrow> worker_session \<Rightarrow> bool" where
  "owns_turn g ws =
    (ws_ActiveAttempt ws = g_AttemptID g \<and> ws_TurnSequence ws = g_TurnSequence g \<and> ws_PodUID ws = g_PodUID g \<and>
     ws_Stop ws = None)"

definition authorized_pod :: "host \<Rightarrow> task_grant \<Rightarrow> resource_record \<Rightarrow> string \<Rightarrow> (fault + pod_view) prog" where
  "authorized_pod h g r bootstrapDigest =
    (let ref = res_Reference r in
     if kr_PodUID ref \<noteq> g_PodUID g \<or> kr_PVCUID ref \<noteq> g_PVCUID g \<or> kr_RequestDigest ref \<noteq> bootstrapDigest \<or> g_PodUID g = []
     then Ret (Inl (OtherFault ''live attempt identity differs from grant''))
     else ask (KubeAuthorize (ref\<lparr>kr_Owner := h_Owner h\<rparr>)) an_Pod)"

definition admittedPod :: "host \<Rightarrow> task_grant \<Rightarrow> (fault + pod_view) prog" where
  "admittedPod h g =
    (case grant_record h g of
       Inl x \<Rightarrow> Ret (Inl x)
     | Inr r \<Rightarrow>
         (if g_WorkerSessionID g = [] then authorized_pod h g r (g_BootstrapDigest g)
          else andthen (reading (\<lambda>_. GetSession (g_WorkerSessionID g))) (\<lambda>s.
            case s of
              Inl _ \<Rightarrow> Ret (Inl (OtherFault ''worker session no longer owns this turn''))
            | Inr ws \<Rightarrow>
                (if owns_turn g ws then authorized_pod h g r (ws_BootstrapDigest ws)
                 else Ret (Inl (OtherFault ''worker session no longer owns this turn''))))))"

section \<open>Events\<close>

definition Redacted :: "host \<Rightarrow> provider_event \<Rightarrow> provider_event" where
  "Redacted h ev =
    ev\<lparr>pe_Message := map_option (\<lambda>m. m\<lparr>pm_Input := h_RedactInput h (pm_Input m),
      pm_Content := h_Redact h (pm_Content m), pm_Output := h_Redact h (pm_Output m)\<rparr>) (pe_Message ev)\<rparr>"

definition prior_use :: "host \<Rightarrow> string \<Rightarrow> event \<Rightarrow> provider_message option" where
  "prior_use h callID ev =
    (case unmarshal (h_UnmarshalEvent h) (e_Body ev) of
       None \<Rightarrow> None
     | Some p \<Rightarrow>
         (case pe_Message p of
            None \<Rightarrow> None
          | Some m \<Rightarrow> (if pm_Type m = MessageToolUse \<and> pm_CallID m = callID then Some m else None)))"

definition tool_of :: "host \<Rightarrow> task_grant \<Rightarrow> provider_message \<Rightarrow> string" where
  "tool_of h g m =
    (if pm_Type m = MessageToolResult \<and> pm_Tool m = [] \<and> pm_CallID m \<noteq> [] then
       (case List.map_filter (prior_use h (pm_CallID m)) (rev (g_Events g)) of [] \<Rightarrow> pm_Tool m | u # _ \<Rightarrow> pm_Tool u)
     else pm_Tool m)"

definition wire_type :: "host \<Rightarrow> message_type \<Rightarrow> string" where
  "wire_type h ty =
    (case ty of MessageToolUse \<Rightarrow> ''tool_use'' | MessageToolResult \<Rightarrow> ''tool_result'' | _ \<Rightarrow> h_MessageText h ty)"

definition messages_body :: "host \<Rightarrow> task_grant \<Rightarrow> event \<Rightarrow> provider_message \<Rightarrow> json \<Rightarrow> string" where
  "messages_body h g ev m created =
    json_text (JObj [(''messages'', JArr [JObj
      [(''content'', jstr (pm_Content m)), (''created_at'', created), (''input'', pm_Input m),
       (''output'', jstr (pm_Output m)), (''output_truncated'', JBool False), (''seq'', ju64 (e_UpstreamSequence ev)),
       (''tool'', jstr (tool_of h g m)), (''type'', jstr (wire_type h (pm_Type m)))]])])"

definition usage_ok :: "token_usage \<Rightarrow> bool" where
  "usage_ok u \<longleftrightarrow> 0 \<le> tu_InputTokens u \<and> 0 \<le> tu_OutputTokens u \<and> 0 \<le> tu_CacheReadTokens u \<and>
    0 \<le> tu_CacheWriteTokens u \<and> 0 \<le> tu_CostUSDTicks u"

definition usage_body :: "string \<Rightarrow> token_usage gomap \<Rightarrow> string" where
  "usage_body provider usage =
    json_text (JObj [(''usage'', JArr (map (\<lambda>(model, u). JObj
      [(''cache_read_tokens'', jint (tu_CacheReadTokens u)), (''cache_write_tokens'', jint (tu_CacheWriteTokens u)),
       (''cost_usd_ticks'', jint (tu_CostUSDTicks u)), (''input_tokens'', jint (tu_InputTokens u)),
       (''model'', jstr model), (''output_tokens'', jint (tu_OutputTokens u)), (''provider'', jstr provider)]) usage))])"

text \<open>Sending an event and recording what became of it.\<close>

definition forward_event ::
  "task_grant \<Rightarrow> u64 \<Rightarrow> string \<Rightarrow> string \<Rightarrow> (fault + unit) prog" where
  "forward_event g sequence kind body =
    orfail (writing (\<lambda>_. EventDelivery (g_AttemptID g) sequence EvReceived EvForwarding)) (\<lambda>_.
      andthen (API_Report (g_AttemptID g) sequence (g_TaskID g) kind body) (\<lambda>sent.
        let after = (case sent of
              Inr _ \<Rightarrow> EvDelivered
            | Inl x \<Rightarrow> if RequestNotSent x then EvReceived else EvUncertain)
        in orfail (writing (\<lambda>_. EventDelivery (g_AttemptID g) sequence EvForwarding after)) (\<lambda>_.
             Ret (if after = EvReceived then sent else Inr ()))))"

definition keep_local :: "task_grant \<Rightarrow> u64 \<Rightarrow> (fault + unit) prog" where
  "keep_local g sequence = writing (\<lambda>_. EventDelivery (g_AttemptID g) sequence EvReceived EvLocal)"

definition report_event :: "host \<Rightarrow> task_grant \<Rightarrow> provider_event \<Rightarrow> event \<Rightarrow> (fault + unit) prog" where
  "report_event h g input ev =
    (case pe_Message input of
       Some m \<Rightarrow>
         (case pm_Type m of
            MessageStatus \<Rightarrow> keep_local g (pe_Sequence input)
          | MessageLog \<Rightarrow> keep_local g (pe_Sequence input)
          | OtherMessage _ \<Rightarrow> Ret (Inl (OtherFault ''unsupported provider message''))
          | _ \<Rightarrow>
              andthen (look Clock an_Time) (\<lambda>now.
                forward_event g (pe_Sequence input) ''messages''
                  (messages_body h g ev m (case jtime now of None \<Rightarrow> JNull | Some t \<Rightarrow> t))))
     | None \<Rightarrow>
         (if list_ex (\<lambda>(_, u). \<not> usage_ok u) (pe_Usage input) then Ret (Inl (OtherFault ''invalid provider usage''))
          else case g_Prepared g of
            None \<Rightarrow> Ret (Inl (OtherFault ''nil pointer dereference''))
          | Some prep \<Rightarrow> forward_event g (pe_Sequence input) ''usage'' (usage_body (p_Provider prep) (pe_Usage input))))"

definition receiveEvent :: "env \<Rightarrow> host \<Rightarrow> task_grant \<Rightarrow> provider_event \<Rightarrow> (fault + unit) prog" where
  "receiveEvent e h g input0 =
    (if (pe_Message input0 = None) = (pe_Usage input0 = []) then
       Ret (Inl (OtherFault ''event must contain one provider observation''))
     else
       (let input = Redacted h input0 in
        orfail (writing (\<lambda>_. ReceiveEvent e (g_AttemptID g) (pe_Sequence input) (h_EncodeEvent h input))) (\<lambda>ev.
          if g_ExecutionRevoked g \<and> e_State ev = EvReceived then keep_local g (pe_Sequence input)
          else if e_State ev \<noteq> EvReceived then ok
          else report_event h g input ev)))"

section \<open>Results\<close>

definition seal_command :: "terminal \<Rightarrow> string \<times> string \<times> bool" where
  "seal_command t = (t_RequestDigest t, t_Nonce t, False)"

text \<open>The kind of a result and the field that carries its text; \<open>None\<close> for a status the controller does not know.\<close>

definition result_kind :: "host \<Rightarrow> task_grant \<Rightarrow> provider_result \<Rightarrow> (string \<times> (string \<times> json)) option" where
  "result_kind h g r =
    (if pr_Status r = ''completed'' then Some (''complete'', (''output'', jstr (h_Redact h (pr_Output r))))
     else if pr_Status r = ''cancelled'' \<or> pr_Status r = ''aborted'' then
       (if (case g_Stop g of None \<Rightarrow> False | Some s \<Rightarrow> sp_Reason s = ''backend_cancelled'')
        then Some (''cancel-ack'', (''error_message'', jstr (h_Redact h (pr_Error r))))
        else Some (''fail'', (''error'', jstr ''provider interrupted before completion'')))
     else if pr_Status r = ''failed'' \<or> pr_Status r = ''timeout'' then
       Some (''fail'', (''error'', jstr (h_Redact h (pr_Error r))))
     else None)"

definition rejected_transient :: "task_grant \<Rightarrow> provider_result \<Rightarrow> bool" where
  "rejected_transient g r =
    (g_WorkerSessionID g \<noteq> [] \<and> pr_ResumeRejectedTransient r \<and> \<not> pr_ResumeRejected r \<and> pr_Status r = ''failed'' \<and>
     pr_SessionID r = [] \<and> (case g_Prepared g of None \<Rightarrow> False | Some p \<Rightarrow> p_Provider p = ''pi'') \<and> g_ResumeSession g \<noteq> [])"

text \<open>The session of a result: published only when its file is there.\<close>

definition result_session ::
  "task_grant \<Rightarrow> provider_result \<Rightarrow> (fault + (resume_pointers \<times> (string \<times> json) list)) prog" where
  "result_session g r =
    (let resume = \<lparr>rp_MissingSessionID = [], rp_SessionID = pr_SessionID r, rp_WorkDir = g_TaskRoot g @ ''/workdir'',
           rp_RetiredSessionID = [], rp_SessionRolloutMissing = False, rp_ResumeRejectedTransient = rejected_transient g r\<rparr>
     in if pr_SessionID r = [] then Ret (Inr (resume, []))
        else case g_Prepared g of
          None \<Rightarrow> Ret (Inl (OtherFault ''terminal has no prepared task''))
        | Some p \<Rightarrow>
            andthen (look (SessionFile p (pr_SessionID r)) an_Flag) (\<lambda>found.
              Ret (Inr (if found then (resume, [(''session_id'', jstr (pr_SessionID r))])
                        else (resume\<lparr>rp_MissingSessionID := pr_SessionID r, rp_SessionID := [],
                                rp_SessionRolloutMissing := True\<rparr>, [(''session_rollout_missing'', JBool True)])))))"

definition result_retired ::
  "host \<Rightarrow> task_grant \<Rightarrow> provider_result \<Rightarrow> resume_pointers \<times> (string \<times> json) list \<Rightarrow>
   fault + (resume_pointers \<times> (string \<times> json) list)" where
  "result_retired h g r = (\<lambda>(resume, body).
    if \<not> pr_ResumeRejected r then Inr (resume, body)
    else case unmarshal (h_ResumeSessionID h) (g_Execution g) of
      None \<Rightarrow> Inl (OtherFault ''invalid execution'')
    | Some retired \<Rightarrow>
        Inr (resume\<lparr>rp_RetiredSessionID := retired\<rparr>, body @ [(''retired_session_id'', jstr retired)]))"

definition receiveResult ::
  "env \<Rightarrow> host \<Rightarrow> task_grant \<Rightarrow> provider_result \<Rightarrow> (fault + (string \<times> string \<times> bool)) prog" where
  "receiveResult e h g r =
    (let digest = e_digest e (h_EncodeResult h r) in
     andthen (reading (\<lambda>_. Terminal_get (g_AttemptID g))) (\<lambda>old.
       case old of
         Inr t \<Rightarrow>
           (if t_Source t \<noteq> SourceWorker \<or> t_ResultDigest t \<noteq> digest then Ret (Inl (JournalError ErrConflict))
            else hinting (CancelCheckouts (g_AttemptID g)) (Ret (Inr (seal_command t))))
       | Inl x \<Rightarrow>
           (if \<not> isErr ErrUnauthorized x then Ret (Inl x)
            else case result_kind h g r of
              None \<Rightarrow> Ret (Inl (OtherFault ''unsupported provider terminal''))
            | Some (kind, field) \<Rightarrow>
                orfail (result_session g r) (\<lambda>session.
                  case result_retired h g r session of
                    Inl y \<Rightarrow> Ret (Inl y)
                  | Inr (resume, extra) \<Rightarrow>
                      (let body = json_text (JObj (sort_key fst
                             (field # (''work_dir'', jstr (g_TaskRoot g @ ''/workdir'')) # extra)))
                       in orfail (writing (\<lambda>c. ReceiveTerminal e c (g_AttemptID g) kind body resume digest)) (\<lambda>t.
                            hinting (CancelCheckouts (g_AttemptID g)) (Ret (Inr (seal_command t)))))))))"

end
