(* ===== verification/Checkouts.thy ===== *)
theory Checkouts
  imports Controller_Ops
begin

text \<open>
  Repository checkouts of a running task (\<^verbatim>\<open>controller/checkout.go\<close>): selecting the repository,
  registering the writer in memory and in the journal, copying, and the fence that stops
  writers before a storage is given away.
\<close>

text \<open>What a handler answers.\<close>

datatype reply =
    HttpError nat
  | AcceptedReply
  | EmptyReply
  | ExecutionInput string
  | SealReply "string \<times> string \<times> bool"
  | StopReply bool u64 string
  | CheckoutReply string string

definition bearer :: "http_request \<Rightarrow> string option" where
  "bearer r =
    (let v = header_get (hr_Header r) ''Authorization''
     in if prefix ''Bearer '' v then Some (trim_prefix v ''Bearer '') else None)"

definition selectedCheckout :: "task_grant \<Rightarrow> checkout_request \<Rightarrow> string \<Rightarrow> err + repository" where
  "selectedCheckout g input authorization =
    (if g_CheckoutClosed g \<or> g_Stop g \<noteq> None \<or> g_ExecutionRevoked g \<or>
        g_State g \<notin> {Ready, Offered, Starting, Started} \<or> cor_Fresh input \<or>
        cor_CheckoutMode input \<noteq> [] \<and> cor_CheckoutMode input \<noteq> ''isolated'' \<or>
        cor_TaskID input \<noteq> g_TaskID g \<or> cor_WorkspaceID input \<noteq> g_WorkspaceID g \<or>
        (case g_Prepared g of None \<Rightarrow> True | Some p \<Rightarrow> cor_WorkDir input \<noteq> ne_WorkDir (p_Environment p))
     then Inl ErrUnauthorized
     else case ParseClaim (g_Envelope g) of
       Inl _ \<Rightarrow> Inl ErrUnauthorized
     | Inr cl \<Rightarrow>
         (if authorization \<noteq> ''Bearer '' @ cl_AuthToken cl then Inl ErrUnauthorized
          else case find (\<lambda>repo. cor_URL input = repo_URL repo \<and> (cor_Ref input = [] \<or> cor_Ref input = repo_Ref repo))
              (g_Repositories g) of
            None \<Rightarrow> Inl ErrUnauthorized
          | Some repo \<Rightarrow> Inr repo))"

definition beginCheckout ::
  "env \<Rightarrow> string \<Rightarrow> string \<Rightarrow> checkout_request \<Rightarrow> string \<Rightarrow> (fault + (task_grant \<times> repository)) prog" where
  "beginCheckout e token i input authorization =
    orfail (reading (\<lambda>c. Authorize e c token ''supervisor'')) (\<lambda>g.
      if g_AttemptID g \<noteq> i then Ret (Inl (JournalError ErrUnauthorized))
      else case selectedCheckout g input authorization of
        Inl x \<Rightarrow> Ret (Inl (JournalError x))
      | Inr repo \<Rightarrow>
          andthen (look (CheckoutRegister i) an_Flag) (\<lambda>registered.
            Ret (if registered then Inr (g, repo)
                 else Inl (OtherFault ''repository checkout is already in progress''))))"

definition authorizeCheckout ::
  "env \<Rightarrow> string \<Rightarrow> string \<Rightarrow> checkout_request \<Rightarrow> string \<Rightarrow> (fault + unit) prog" where
  "authorizeCheckout e i token input authorization =
    orfail (tell (CheckoutAlive i)) (\<lambda>_.
      orfail (reading (\<lambda>c. Authorize e c token ''supervisor'')) (\<lambda>g.
        Ret (case selectedCheckout g input authorization of Inl x \<Rightarrow> Inl (JournalError x) | Inr _ \<Rightarrow> Inr ())))"

text \<open>A registered checkout ends with the recorded writer if there is one, whether its writers are known to
  have stopped, and the answer.\<close>

definition finishCheckout :: "string \<Rightarrow> preparation_process option \<times> bool \<times> reply \<Rightarrow> reply prog" where
  "finishCheckout i = (\<lambda>(process, unproven, answer).
    andthen (case process of
        Some p \<Rightarrow> if unproven then ok else writing (\<lambda>_. CompleteCheckout i p)
      | None \<Rightarrow> ok) (\<lambda>_.
      andthen (look (CheckoutFinished i) (\<lambda>_. ())) (\<lambda>_. Ret answer)))"

definition unproven_by :: "fault \<Rightarrow> bool" where
  "unproven_by = is_fault (\<lambda>f. f = WritersUnproven)"

definition confirm_checkout ::
  "env \<Rightarrow> string \<Rightarrow> string \<Rightarrow> checkout_request \<Rightarrow> string \<Rightarrow> preparation_process \<Rightarrow> reply \<Rightarrow>
   (preparation_process option \<times> bool \<times> reply) prog" where
  "confirm_checkout e i token input authorization p answer =
    andthen (authorizeCheckout e i token input authorization) (\<lambda>r.
      Ret (Some p, False, case r of Inl _ \<Rightarrow> HttpError 403 | Inr _ \<Rightarrow> answer))"

definition copy_checkout ::
  "env \<Rightarrow> host \<Rightarrow> string \<Rightarrow> string \<Rightarrow> checkout_request \<Rightarrow> string \<Rightarrow> task_grant \<Rightarrow> repository \<Rightarrow> string \<Rightarrow>
   preparation_process \<Rightarrow> (preparation_process option \<times> bool \<times> reply) prog" where
  "copy_checkout e h i token input authorization g repo identity p =
    (let refused = (\<lambda>n. Ret (Some p, False, HttpError n)) in
     if \<not> h_Cache h then refused 503
     else andthen (ask (CacheSnapshot (g_WorkspaceID g) (repo_URL repo) (repo_Ref repo) identity) an_Text) (\<lambda>baseline.
       case baseline of
         Inl _ \<Rightarrow> refused 502
       | Inr root \<Rightarrow>
           andthen (ask (RepositoryAccess (repo_URL repo)) an_Text) (\<lambda>current.
             case current of
               Inl _ \<Rightarrow> refused 403
             | Inr now \<Rightarrow>
                 (if now \<noteq> identity then refused 403
                  else andthen (admittedPod h g) (\<lambda>pod.
                    case pod of
                      Inl _ \<Rightarrow> refused 403
                    | Inr _ \<Rightarrow>
                        andthen (authorizeCheckout e i token input authorization) (\<lambda>allowed.
                          case allowed of
                            Inl _ \<Rightarrow> refused 403
                          | Inr _ \<Rightarrow>
                              andthen (ask (CopyCheckout i (g_TaskRoot g) (cor_WorkDir input) (repo_URL repo) root) an_Text)
                                (\<lambda>copied.
                                  case copied of
                                    Inl x \<Rightarrow> Ret (Some p, unproven_by x, HttpError 409)
                                  | Inr path \<Rightarrow>
                                      confirm_checkout e i token input authorization p (CheckoutReply path []))))))))"

definition write_checkout ::
  "env \<Rightarrow> host \<Rightarrow> string \<Rightarrow> string \<Rightarrow> checkout_request \<Rightarrow> string \<Rightarrow> task_grant \<Rightarrow> repository \<Rightarrow> string \<Rightarrow>
   (preparation_process option \<times> bool \<times> reply) prog" where
  "write_checkout e h i token input authorization g repo identity =
    andthen (orfail (ask ControllerProcess an_Process) (\<lambda>p.
        orfail (writing (\<lambda>_. BeginCheckout e i p)) (\<lambda>_. Ret (Inr p)))) (\<lambda>begun.
      case begun of
        Inl _ \<Rightarrow> Ret (None, False, HttpError 503)
      | Inr p \<Rightarrow>
          andthen (ask (RetainCheckout i (g_TaskRoot g) (cor_WorkDir input) (repo_URL repo)) (\<lambda>a. (an_Text a, an_Flag a)))
            (\<lambda>kept.
              case kept of
                Inl x \<Rightarrow> Ret (Some p, unproven_by x, HttpError 409)
              | Inr (path, retained) \<Rightarrow>
                  (if retained
                   then confirm_checkout e i token input authorization p (CheckoutReply path ''local_work'')
                   else copy_checkout e h i token input authorization g repo identity p)))"

definition checkout :: "env \<Rightarrow> host \<Rightarrow> http_request \<Rightarrow> string \<Rightarrow> reply prog" where
  "checkout e h r i =
    (if hr_Method r \<noteq> ''POST'' then Ret (HttpError 403)
     else case (bearer r, decodeBody dec_checkout (hr_Body r)) of
       (Some token, Some input) \<Rightarrow>
         (let authorization = header_get (hr_Header r) ''X-Multica-Task-Authorization'' in
          andthen (beginCheckout e token i input authorization) (\<lambda>begun.
            case begun of
              Inl _ \<Rightarrow> Ret (HttpError 403)
            | Inr (g, repo) \<Rightarrow>
                andthen
                  (andthen (admittedPod h g) (\<lambda>pod.
                    case pod of
                      Inl _ \<Rightarrow> Ret (None, False, HttpError 403)
                    | Inr _ \<Rightarrow>
                        andthen (ask (RepositoryAccess (repo_URL repo)) an_Text) (\<lambda>access.
                          case access of
                            Inl _ \<Rightarrow> Ret (None, False, HttpError 403)
                          | Inr identity \<Rightarrow> write_checkout e h i token input authorization g repo identity)))
                  (finishCheckout i)))
     | _ \<Rightarrow> Ret (HttpError 403))"

section \<open>The fence\<close>

definition recoverCheckoutWriter :: "string \<Rightarrow> (fault + unit) prog" where
  "recoverCheckoutWriter i =
    andthen (look (CheckoutActive i) an_Flag) (\<lambda>active.
      orfail (reading (\<lambda>_. Get i)) (\<lambda>g.
        case g_CheckoutProcess g of
          None \<Rightarrow> ok
        | Some p \<Rightarrow>
            (if active then ok
             else orfail (ask (PreparationStopped p) an_Flag) (\<lambda>stopped.
               if \<not> stopped then Ret (Inl WritersUnproven) else writing (\<lambda>_. CompleteCheckout i p)))))"

definition stopCheckoutWriters :: "string \<Rightarrow> (fault + unit) prog" where
  "stopCheckoutWriters i =
    andthen (writing (\<lambda>_. CloseCheckouts i)) (\<lambda>closed.
      hinting (CancelCheckouts i)
        (case closed of
           Inl x \<Rightarrow> Ret (Inl x)
         | Inr _ \<Rightarrow> orfail (tell (CheckoutJoined i)) (\<lambda>_. recoverCheckoutWriter i)))"

definition stopCheckoutWrites :: "string \<Rightarrow> (fault + unit) prog" where
  "stopCheckoutWrites i =
    orfail (stopCheckoutWriters i) (\<lambda>_.
      orfail (reading (\<lambda>_. Get i)) (\<lambda>g.
        if \<not> g_CheckoutNeedsFlush g then ok
        else orfail (tell (SyncTaskFilesystem (g_TaskRoot g))) (\<lambda>_. writing (\<lambda>_. CheckoutsFlushed i))))"

definition authorize_stop :: "env \<Rightarrow> string \<Rightarrow> (fault + (task_grant \<times> err option)) prog" where
  "authorize_stop e token = reading (\<lambda>c st. Inr (AuthorizeStop e c token st))"

definition checkoutStop :: "env \<Rightarrow> host \<Rightarrow> http_request \<Rightarrow> string \<Rightarrow> reply prog" where
  "checkoutStop e h r i =
    (case bearer r of
       None \<Rightarrow> Ret (HttpError 403)
     | Some token \<Rightarrow>
         (if hr_Method r \<noteq> ''POST'' then Ret (HttpError 403)
          else andthen (authorize_stop e token) (\<lambda>a.
            case a of
              Inl _ \<Rightarrow> Ret (HttpError 403)
            | Inr (g, x) \<Rightarrow>
                (if x = Some ErrPodBindingPending \<and> g_AttemptID g = i then Ret (HttpError 503)
                 else if x \<noteq> None \<or> g_AttemptID g \<noteq> i then Ret (HttpError 403)
                 else case grant_record h g of
                   Inl _ \<Rightarrow> Ret (HttpError 503)
                 | Inr rec \<Rightarrow>
                     andthen (ask (KubeAuthorizeStop ((res_Reference rec)\<lparr>kr_PodUID := g_PodUID g, kr_PVCUID := g_PVCUID g\<rparr>))
                       an_Pod) (\<lambda>pod.
                       case pod of
                         Inl _ \<Rightarrow> Ret (HttpError 503)
                       | Inr _ \<Rightarrow>
                           andthen (stopCheckoutWrites i) (\<lambda>stopped.
                             Ret (case stopped of Inl _ \<Rightarrow> HttpError 503 | Inr _ \<Rightarrow> AcceptedReply)))))))"

end
