(* ===== verification/Supervisor.thy ===== *)
theory Supervisor
  imports Checkouts
begin

text \<open>
  The routes of a worker's supervisor (\<^verbatim>\<open>controller/gateway.go\<close>, \<^verbatim>\<open>stopControl\<close> of
  \<^verbatim>\<open>stop.go\<close>): fetching the input, admission, the start of the execution, events, the result and
  its receipts, polling for the end, and the stop protocol.
\<close>

section \<open>Acknowledging again\<close>

text \<open>A committed receipt is acknowledged again by comparing digests; it authorises nothing.\<close>

definition retry_matches :: "env \<Rightarrow> host \<Rightarrow> string \<Rightarrow> string option \<Rightarrow> task_grant \<Rightarrow> terminal \<Rightarrow> bool" where
  "retry_matches e h action body g t =
    (if action = ''turn-receipt'' then
       (case (decodeBody dec_turn_receipt body, g_TurnReceipt g) of
          (Some r, Some stored) \<Rightarrow>
            e_digest e (json_text (turn_receipt_json r)) = e_digest e (json_text (turn_receipt_json stored))
        | _ \<Rightarrow> False)
     else if action = ''result-receipt'' then
       (case (decodeBody dec_result_receipt body, t_ResultReceipt t) of
          (Some r, Some stored) \<Rightarrow>
            e_digest e (json_text (result_receipt_json r)) = e_digest e (json_text (result_receipt_json stored))
        | _ \<Rightarrow> False)
     else
       (case decodeBody (h_DecodeResult h) body of
          None \<Rightarrow> False
        | Some r \<Rightarrow> e_digest e (h_EncodeResult h r) = t_ResultDigest t))"

text \<open>\<open>None\<close>: not such a repetition.\<close>

definition acknowledgeTurnRetry ::
  "env \<Rightarrow> host \<Rightarrow> http_request \<Rightarrow> string \<Rightarrow> string \<Rightarrow> reply option prog" where
  "acknowledgeTurnRetry e h r i action =
    (if hr_Method r \<noteq> ''POST'' \<or> action \<notin> {''turn-receipt'', ''result-receipt'', ''result''} then Ret None
     else andthen (reading (\<lambda>_. Get i)) (\<lambda>got.
       case got of
         Inl _ \<Rightarrow> Ret None
       | Inr g \<Rightarrow>
           (if g_WorkerSessionID g = [] then Ret None
            else andthen (reading (\<lambda>_. Terminal_get i)) (\<lambda>ended.
              case ended of
                Inl _ \<Rightarrow> Ret None
              | Inr t \<Rightarrow>
                  (if (if action = ''turn-receipt'' then g_TurnReceipt g = None else t_ResultReceipt t = None)
                   then Ret None
                   else andthen (reading (\<lambda>_. CapabilityToken i ''supervisor'')) (\<lambda>expected.
                     Ret (Some
                       (case (bearer r, expected) of
                          (Some token, Inr known) \<Rightarrow>
                            (if token \<noteq> known \<or> \<not> retry_matches e h action (hr_Body r) g t then HttpError 403
                             else if action = ''result'' then SealReply (seal_command t)
                             else EmptyReply)
                        | _ \<Rightarrow> HttpError 403))))))))"

section \<open>Waiting for the end\<close>

definition legacy_draining :: "worker_session \<Rightarrow> bool" where
  "legacy_draining ws = (ws_ProtocolVersion ws = legacy_protocol \<and> ws_Stop ws \<noteq> None)"

definition cancel_reply :: reply where "cancel_reply = SealReply ([], [], True)"

definition end_of_attempt :: "task_grant \<Rightarrow> reply prog" where
  "end_of_attempt g =
    andthen (assignment g) (\<lambda>r.
      case r of
        Inl x \<Rightarrow>
          (if is_fault (\<lambda>f. f = AssignmentChanged) x then
             andthen (requestStop g ''backend_terminal'') (\<lambda>s.
               Ret (case s of Inl _ \<Rightarrow> HttpError 503 | Inr _ \<Rightarrow> cancel_reply))
           else Ret (HttpError 503))
      | Inr current \<Rightarrow>
          (if terminal_status (tas_Status current) then
             andthen (requestStop g ''backend_terminal'') (\<lambda>s.
               Ret (case s of Inl _ \<Rightarrow> HttpError 503 | Inr _ \<Rightarrow> cancel_reply))
           else Ret (SealReply ([], [], False))))"

definition terminal_poll :: "host \<Rightarrow> string \<Rightarrow> task_grant \<Rightarrow> reply prog" where
  "terminal_poll h i g =
    andthen (admittedPod h g) (\<lambda>pod.
      case pod of
        Inl _ \<Rightarrow> Ret (HttpError 403)
      | Inr _ \<Rightarrow>
          andthen (reading (\<lambda>_. Terminal_get i)) (\<lambda>ended.
            case ended of
              Inr t \<Rightarrow> Ret (SealReply (seal_command t))
            | Inl x \<Rightarrow>
                (if \<not> isErr ErrUnauthorized x then Ret (HttpError 503)
                 else if g_ExecutionRevoked g then Ret cancel_reply
                 else end_of_attempt g)))"

definition waitForTerminal :: "env \<Rightarrow> host \<Rightarrow> http_request \<Rightarrow> string \<Rightarrow> reply prog" where
  "waitForTerminal e h r i =
    (case bearer r of
       None \<Rightarrow> Ret (HttpError 403)
     | Some token \<Rightarrow>
         andthen (reading (\<lambda>c. Authorize e c token ''supervisor'')) (\<lambda>a.
           case a of
             Inl _ \<Rightarrow> Ret (HttpError 403)
           | Inr g \<Rightarrow>
               (if g_AttemptID g \<noteq> i then Ret (HttpError 403)
                else if g_WorkerSessionID g = [] then terminal_poll h i g
                else andthen (reading (\<lambda>_. GetSession (g_WorkerSessionID g))) (\<lambda>s.
                  if (case s of Inl _ \<Rightarrow> False | Inr ws \<Rightarrow> legacy_draining ws) then
                    (case grant_record h g of
                       Inl _ \<Rightarrow> Ret (HttpError 503)
                     | Inr rec \<Rightarrow>
                         andthen (ask (KubeAuthorizeStop (res_Reference rec)) an_Pod) (\<lambda>pod.
                           Ret (case pod of Inl _ \<Rightarrow> HttpError 503 | Inr _ \<Rightarrow> cancel_reply)))
                  else terminal_poll h i g))))"

section \<open>The stop protocol\<close>

definition stop_command :: "task_grant \<Rightarrow> reply" where
  "stop_command g =
    (case g_Stop g of None \<Rightarrow> StopReply False 0 [] | Some s \<Rightarrow> StopReply True (sp_Revision s) (sp_Nonce s))"

definition answer_stop :: "string \<Rightarrow> reply prog" where
  "answer_stop i =
    andthen (reading (\<lambda>_. Get i)) (\<lambda>got. Ret (case got of Inl _ \<Rightarrow> HttpError 503 | Inr g \<Rightarrow> stop_command g))"

definition stop_admit :: "host \<Rightarrow> http_request \<Rightarrow> string \<Rightarrow> task_grant \<Rightarrow> reply prog" where
  "stop_admit h r i g =
    (case decodeBody dec_admission (hr_Body r) of
       None \<Rightarrow> Ret (HttpError 403)
     | Some input \<Rightarrow>
         (if length (ab_PublicKey input) \<noteq> key_size \<or> ab_PodUID input \<noteq> g_PodUID g \<or> ab_PVCUID input \<noteq> g_PVCUID g \<or>
             ab_BootstrapDigest input \<noteq> g_BootstrapDigest g then Ret (HttpError 403)
          else case grant_record h g of
            Inl _ \<Rightarrow> Ret (HttpError 503)
          | Inr rec \<Rightarrow>
              andthen (ask (KubeAuthorizeStop ((res_Reference rec)\<lparr>kr_PodUID := g_PodUID g, kr_PVCUID := g_PVCUID g\<rparr>)) an_Pod)
                (\<lambda>a.
                  case a of
                    Inl _ \<Rightarrow> Ret (HttpError 503)
                  | Inr pod \<Rightarrow>
                      (if pv_NodeName pod = [] then Ret (HttpError 503)
                       else andthen (writing (\<lambda>_. PinStopSupervisor i (ab_PodUID input) (ab_PVCUID input) (pv_NodeName pod)
                           (ab_PublicKey input))) (\<lambda>pinned.
                         case pinned of Inl _ \<Rightarrow> Ret (HttpError 409) | Inr _ \<Rightarrow> answer_stop i)))))"

definition stop_asked :: "env \<Rightarrow> http_request \<Rightarrow> string \<Rightarrow> task_grant \<Rightarrow> reply prog" where
  "stop_asked e r i g0 =
    (case decodeBody dec_reason (hr_Body r) of
       None \<Rightarrow> Ret (HttpError 403)
     | Some reason \<Rightarrow>
         (if reason \<noteq> ''worker_startup_failed'' \<and> reason \<noteq> ''worker_shutdown'' then Ret (HttpError 403)
          else andthen (observeBackendStop g0) (\<lambda>(stopped, fault).
            if stopped \<and> fault \<noteq> None then Ret (HttpError 503)
            else andthen (reading (\<lambda>_. Get i)) (\<lambda>got.
              case got of
                Inl _ \<Rightarrow> Ret (HttpError 503)
              | Inr g \<Rightarrow>
                  (if g_Stop g \<noteq> None then answer_stop i
                   else andthen (recordFailure e g None) (\<lambda>failed.
                     case failed of
                       Inl _ \<Rightarrow> Ret (HttpError 503)
                     | Inr _ \<Rightarrow>
                         andthen (requestStop g reason) (\<lambda>s.
                           case s of Inl _ \<Rightarrow> Ret (HttpError 503) | Inr _ \<Rightarrow> answer_stop i)))))))"

definition stopControl :: "env \<Rightarrow> host \<Rightarrow> http_request \<Rightarrow> string \<Rightarrow> string \<Rightarrow> reply prog" where
  "stopControl e h r i action =
    (case bearer r of
       None \<Rightarrow> Ret (HttpError 403)
     | Some token \<Rightarrow>
         andthen (authorize_stop e token) (\<lambda>a.
           case a of
             Inl _ \<Rightarrow> Ret (HttpError 403)
           | Inr (g, x) \<Rightarrow>
               (let post = (hr_Method r = ''POST''); get = (hr_Method r = ''GET'') in
                if x = Some ErrPodBindingPending \<and> g_AttemptID g = i \<and>
                   (action = ''stop-admit'' \<and> post \<or> action = ''stop-control'' \<and> get) then Ret (HttpError 503)
                else if x \<noteq> None \<or> g_AttemptID g \<noteq> i then Ret (HttpError 403)
                else if action = ''stop-receipt'' \<and> post then
                  (case decodeBody dec_stop_receipt (hr_Body r) of
                     None \<Rightarrow> Ret (HttpError 409)
                   | Some receipt \<Rightarrow>
                       andthen (writing (\<lambda>_. ReceiveStopReceipt e i receipt)) (\<lambda>taken.
                         case taken of
                           Inl _ \<Rightarrow> Ret (HttpError 409)
                         | Inr _ \<Rightarrow> hinting (EnqueueAttempt i) (Ret AcceptedReply)))
                else if g_State g = Closed then Ret (stop_command g)
                else if action = ''stop-admit'' \<and> post then stop_admit h r i g
                else if action = ''stop-request'' \<and> post then stop_asked e r i g
                else if action = ''stop-control'' \<and> get then answer_stop i
                else Ret (HttpError 403))))"

section \<open>The actions of a running attempt\<close>

text \<open>An action answers by itself or has an outcome, which \<^verbatim>\<open>supervisor\<close> then answers.\<close>

datatype action_result = Answered reply | Outcome "fault + unit"

definition with_outcome :: "(fault + unit) prog \<Rightarrow> action_result prog" where
  "with_outcome p = andthen p (\<lambda>r. Ret (Outcome r))"

definition backend_start :: "env \<Rightarrow> task_grant \<Rightarrow> (fault + unit) prog" where
  "backend_start e g =
    (if g_WorkerSessionID g \<noteq> [] then
       (case ParseClaim (g_Envelope g) of
          Inl x \<Rightarrow> Ret (Inl (JournalError x))
        | Inr cl \<Rightarrow>
            (if cl_StartClaimSupported cl then API_StartClaim e (g_AttemptID g) cl
             else API_Start (g_AttemptID g) (g_TaskID g)))
     else API_Start (g_AttemptID g) (g_TaskID g))"

definition start_execution :: "env \<Rightarrow> task_grant \<Rightarrow> (fault + unit) prog" where
  "start_execution e g =
    andthen (sameAssignment g) (\<lambda>same.
      if \<not> same then Ret (Inl (OtherFault ''task assignment changed''))
      else andthen (writing (\<lambda>_. Offer (g_AttemptID g))) (\<lambda>offered.
        if (case offered of Inl _ \<Rightarrow> True | Inr (_, granted) \<Rightarrow> \<not> granted)
        then Ret (Inl (OtherFault ''execution permission already consumed''))
        else orfail (writing (\<lambda>c. BeginStart c (g_AttemptID g))) (\<lambda>_.
          orfail (backend_start e g) (\<lambda>_. writing (\<lambda>c. MarkStarted c (g_AttemptID g))))))"

definition input_ready :: "task_grant \<Rightarrow> bool" where
  "input_ready g =
    (g_Prepared g \<noteq> None \<and>
     (g_State g = Intent \<or> g_State g = Ready \<or> g_WorkerSessionID g \<noteq> [] \<and> g_State g = Assigned \<and> g_TurnAccepted g))"

definition take_result :: "env \<Rightarrow> host \<Rightarrow> task_grant \<Rightarrow> string option \<Rightarrow> action_result prog" where
  "take_result e h g body =
    (case decodeBody (h_DecodeResult h) body of
       None \<Rightarrow> Ret (Outcome (Inl (OtherFault ''invalid result'')))
     | Some input \<Rightarrow>
         andthen (receiveResult e h g input) (\<lambda>r.
           case r of
             Inl x \<Rightarrow> Ret (Outcome (Inl x))
           | Inr command \<Rightarrow> hinting (EnqueueAttempt (g_AttemptID g)) (Ret (Answered (SealReply command)))))"

definition take_result_receipt :: "env \<Rightarrow> task_grant \<Rightarrow> string option \<Rightarrow> (fault + unit) prog" where
  "take_result_receipt e g body =
    (case decodeBody dec_result_receipt body of
       None \<Rightarrow> Ret (Inl (OtherFault ''invalid receipt''))
     | Some receipt \<Rightarrow>
         orfail (writing (\<lambda>_. RecordResultReceipt e (g_AttemptID g) receipt)) (\<lambda>_.
           hinting (EnqueueDelivery (g_AttemptID g)) ok))"

definition take_turn_receipt :: "env \<Rightarrow> task_grant \<Rightarrow> string option \<Rightarrow> (fault + unit) prog" where
  "take_turn_receipt e g body =
    (case decodeBody dec_turn_receipt body of
       None \<Rightarrow> Ret (Inl (OtherFault ''invalid receipt''))
     | Some receipt \<Rightarrow>
         orfail (writing (\<lambda>_. RecordTurnReceipt e (g_AttemptID g) receipt)) (\<lambda>_.
           hinting (EnqueueDelivery (g_AttemptID g))
             (hinting (EnqueueSession (g_WorkerSessionID g)) (hinting WakeClaim ok))))"

definition take_seal :: "env \<Rightarrow> task_grant \<Rightarrow> string option \<Rightarrow> (fault + unit) prog" where
  "take_seal e g body =
    (case decodeBody dec_signed_receipt body of
       None \<Rightarrow> Ret (Inl (OtherFault ''invalid receipt''))
     | Some receipt \<Rightarrow>
         andthen (writing (\<lambda>_. Seal e (g_AttemptID g) receipt)) (\<lambda>sealed.
           case sealed of
             Inl x \<Rightarrow>
               andthen (writing (\<lambda>c. Quarantine c (g_AttemptID g))) (\<lambda>_.
                 hinting (CancelCheckouts (g_AttemptID g)) (Ret (Inl x)))
           | Inr _ \<Rightarrow> hinting (EnqueueDelivery (g_AttemptID g)) ok))"

definition admit_supervisor ::
  "env \<Rightarrow> host \<Rightarrow> task_grant \<Rightarrow> pod_view \<Rightarrow> string option \<Rightarrow> action_result prog" where
  "admit_supervisor e h g pod body =
    (case decodeBody dec_admission body of
       None \<Rightarrow> Ret (Answered (HttpError 403))
     | Some input \<Rightarrow>
         (if ab_PodUID input \<noteq> g_PodUID g \<or> ab_PVCUID input \<noteq> g_PVCUID g \<or>
             ab_BootstrapDigest input \<noteq> g_BootstrapDigest g \<or> length (ab_PublicKey input) \<noteq> key_size
          then Ret (Answered (HttpError 403))
          else with_outcome
            (case grant_record h g of
               Inl x \<Rightarrow> Ret (Inl x)
             | Inr rec \<Rightarrow>
                 (if pv_NodeName pod = [] then Ret (Inl (OtherFault ''worker scheduling pending''))
                  else orfail
                    (if g_State g \<noteq> Intent then ok
                     else orfail (writing (\<lambda>_. BindPod (g_AttemptID g) (g_PodName g) (g_PodUID g) (pv_NodeName pod))) (\<lambda>_.
                       saveResources e h (g_AttemptID g)
                         (rec\<lparr>res_Reference := (res_Reference rec)\<lparr>kr_NodeID := pv_NodeName pod\<rparr>\<rparr>)))
                    (\<lambda>_. writing (\<lambda>_. Admit (g_AttemptID g) (ab_PublicKey input)))))))"

definition attempt_action ::
  "env \<Rightarrow> host \<Rightarrow> http_request \<Rightarrow> string \<Rightarrow> task_grant \<Rightarrow> pod_view \<Rightarrow> action_result prog" where
  "attempt_action e h r action g pod =
    (let post = (hr_Method r = ''POST''); body = hr_Body r in
     if hr_Method r = ''GET'' \<and> action = ''input'' then
       (if input_ready g then Ret (Answered (ExecutionInput (g_Execution g)))
        else Ret (Outcome (Inl (OtherFault ''prepared input unavailable''))))
     else if post \<and> action = ''start'' then with_outcome (start_execution e g)
     else if post \<and> action = ''event'' then
       (case decodeBody (h_DecodeEvent h) body of
          None \<Rightarrow> Ret (Outcome (Inl (OtherFault ''invalid event'')))
        | Some input \<Rightarrow> with_outcome (receiveEvent e h g input))
     else if post \<and> action = ''result'' then take_result e h g body
     else if post \<and> action = ''result-receipt'' then with_outcome (take_result_receipt e g body)
     else if post \<and> action = ''turn-receipt'' then with_outcome (take_turn_receipt e g body)
     else if post \<and> action = ''admit'' then admit_supervisor e h g pod body
     else if post \<and> action = ''receipt'' then with_outcome (take_seal e g body)
     else if post \<and> action = ''abort'' then with_outcome (recordFailure e g None)
     else Ret (Answered (HttpError 403)))"

definition stopped_action :: "task_grant \<Rightarrow> string \<Rightarrow> bool" where
  "stopped_action g action \<longleftrightarrow> g_Stop g \<noteq> None \<and> action \<in> {''input'', ''admit'', ''start''}"

text \<open>The Pod that makes the request: for results, receipts and the events of a draining worker of the old protocol it need only
  be the recorded one; for everything else it must be admitted to run.\<close>

definition requesting_pod :: "host \<Rightarrow> string \<Rightarrow> task_grant \<Rightarrow> (fault + pod_view) prog" where
  "requesting_pod h action g =
    andthen (if g_WorkerSessionID g = [] then Ret False
        else andthen (reading (\<lambda>_. GetSession (g_WorkerSessionID g))) (\<lambda>s.
          Ret (case s of Inl _ \<Rightarrow> False | Inr ws \<Rightarrow> legacy_draining ws))) (\<lambda>draining.
      if action \<in> {''result'', ''result-receipt'', ''receipt'', ''turn-receipt''} \<or> action = ''event'' \<and> draining then
        (case grant_record h g of
           Inl x \<Rightarrow> Ret (Inl x)
         | Inr rec \<Rightarrow> ask (KubeAuthorizeStop (res_Reference rec)) an_Pod)
      else admittedPod h g)"

definition answer_action :: "string \<Rightarrow> task_grant \<Rightarrow> action_result \<Rightarrow> reply prog" where
  "answer_action action g res =
    (case res of
       Answered answer \<Rightarrow> Ret answer
     | Outcome (Inl _) \<Rightarrow> Ret (HttpError 409)
     | Outcome (Inr _) \<Rightarrow> hint_if (action \<noteq> ''event'') (EnqueueAttempt (g_AttemptID g)) (Ret AcceptedReply))"

definition attempt_request :: "env \<Rightarrow> host \<Rightarrow> http_request \<Rightarrow> string \<Rightarrow> string \<Rightarrow> reply prog" where
  "attempt_request e h r i action =
    (case bearer r of
       None \<Rightarrow> Ret (HttpError 403)
     | Some token \<Rightarrow>
         andthen (reading (\<lambda>c. Authorize e c token ''supervisor'')) (\<lambda>a.
           case a of
             Inl _ \<Rightarrow> Ret (HttpError 403)
           | Inr g0 \<Rightarrow>
               (if g_AttemptID g0 \<noteq> i then Ret (HttpError 403)
                else if stopped_action g0 action then Ret (HttpError 410)
                else andthen (requesting_pod h action g0) (\<lambda>p.
                  case p of
                    Inl _ \<Rightarrow> Ret (HttpError 503)
                  | Inr pod \<Rightarrow>
                      andthen (reading (\<lambda>c. Authorize e c token ''supervisor'')) (\<lambda>b.
                        case b of
                          Inl _ \<Rightarrow> Ret (HttpError 403)
                        | Inr g \<Rightarrow>
                            (if stopped_action g action then Ret (HttpError 410)
                             else andthen (attempt_action e h r action g pod) (answer_action action g)))))))"

text \<open>\<^verbatim>\<open>/internal/attempts/<id>/<action>\<close>\<close>

definition supervisor :: "env \<Rightarrow> host \<Rightarrow> http_request \<Rightarrow> reply prog" where
  "supervisor e h r =
    (case split_on CHR ''/'' (hr_Path r) of
       [_, a, b, i, action] \<Rightarrow>
         (if a \<noteq> ''internal'' \<or> b \<noteq> ''attempts'' \<or> \<not> wire_UUID e i \<or> hr_RawPath r \<noteq> [] \<or> hr_RawQuery r \<noteq> []
          then Ret (HttpError 403)
          else if prefix ''stop-'' action then stopControl e h r i action
          else if action = ''checkout'' then checkout e h r i
          else if action = ''checkout-stop'' then checkoutStop e h r i
          else if hr_Method r = ''GET'' \<and> action = ''control'' then waitForTerminal e h r i
          else andthen (acknowledgeTurnRetry e h r i action) (\<lambda>again.
            case again of Some answer \<Rightarrow> Ret answer | None \<Rightarrow> attempt_request e h r i action))
     | _ \<Rightarrow> Ret (HttpError 403))"

end
