(* ===== verification/Session_Wire.thy ===== *)
theory Session_Wire
  imports Supervisor Continuity
begin

text \<open>
  The payload of a worker session (\<^verbatim>\<open>wire/session.go\<close>): the bootstrap of one Pod, read without
  unknown fields and validated.  Whether \<^verbatim>\<open>url.Parse\<close> finds a plain HTTP origin is a parameter
  (\<open>origin\<close>).
\<close>

section \<open>Reading strictly\<close>

text \<open>A decoder for a struct that may also refuse unknown fields, and one for a map of structs.\<close>

definition dec_known ::
  "bool \<Rightarrow> 'a \<Rightarrow> string list \<Rightarrow> ((string \<times> json) list \<Rightarrow> 'a option) \<Rightarrow> json \<Rightarrow> 'a option" where
  "dec_known strict z names f = dec_struct z (\<lambda>ms. if strict \<and> \<not> known_keys names ms then None else f ms)"

definition strictly :: "string list \<Rightarrow> ('a \<Rightarrow> json \<Rightarrow> 'a option) \<Rightarrow> 'a \<Rightarrow> json \<Rightarrow> 'a option" where
  "strictly names dec z v =
    (case v of JObj ms \<Rightarrow> if known_keys names ms then dec z v else None | _ \<Rightarrow> dec z v)"

fun dec_members :: "(json \<Rightarrow> 'a option) \<Rightarrow> 'a gomap \<Rightarrow> (string \<times> json) list \<Rightarrow> 'a gomap option" where
  "dec_members dec z [] = Some z"
| "dec_members dec z ((k, v) # ms) =
    (case dec v of None \<Rightarrow> None | Some a \<Rightarrow> dec_members dec (AList.update (unquote k) a z) ms)"

definition dec_map :: "(json \<Rightarrow> 'a option) \<Rightarrow> 'a gomap \<Rightarrow> json \<Rightarrow> 'a gomap option" where
  "dec_map dec z v = (case v of JNull \<Rightarrow> Some [] | JObj ms \<Rightarrow> dec_members dec z ms | _ \<Rightarrow> None)"

definition executable_names :: "string list" where
  "executable_names = [''path'', ''version'', ''sha256'']"

definition dec_executable :: "bool \<Rightarrow> executable \<Rightarrow> json \<Rightarrow> executable option" where
  "dec_executable strict z =
    dec_known strict z executable_names (\<lambda>ms. do {
      p \<leftarrow> dec_field dec_string (ex_Path z) executable_names ''path'' ms;
      v \<leftarrow> dec_field dec_string (ex_Version z) executable_names ''version'' ms;
      h \<leftarrow> dec_field dec_string (ex_SHA256 z) executable_names ''sha256'' ms;
      Some \<lparr>ex_Path = p, ex_Version = v, ex_SHA256 = h\<rparr>
    })"

definition daemon_names :: "string list" where
  "daemon_names = executable_names @ [''adapterContract'']"

definition dec_daemon :: "bool \<Rightarrow> daemon \<Rightarrow> json \<Rightarrow> daemon option" where
  "dec_daemon strict z =
    dec_known strict z daemon_names (\<lambda>ms. do {
      p \<leftarrow> dec_field dec_string (ex_Path (dm_Executable z)) daemon_names ''path'' ms;
      v \<leftarrow> dec_field dec_string (ex_Version (dm_Executable z)) daemon_names ''version'' ms;
      h \<leftarrow> dec_field dec_string (ex_SHA256 (dm_Executable z)) daemon_names ''sha256'' ms;
      a \<leftarrow> dec_field dec_string (dm_AdapterContract z) daemon_names ''adapterContract'' ms;
      Some \<lparr>dm_Executable = \<lparr>ex_Path = p, ex_Version = v, ex_SHA256 = h\<rparr>, dm_AdapterContract = a\<rparr>
    })"

definition contract_names :: "string list" where
  "contract_names = [''buildID'', ''platform'', ''runtimePath'', ''runtimeSHA256'', ''goVersion'']"

definition dec_contract :: "bool \<Rightarrow> contract \<Rightarrow> json \<Rightarrow> contract option" where
  "dec_contract strict z =
    (let str = (\<lambda>w n ms. dec_field dec_string w contract_names n ms) in
     dec_known strict z contract_names (\<lambda>ms. do {
       b \<leftarrow> str (co_BuildID z) ''buildID'' ms; p \<leftarrow> str (co_Platform z) ''platform'' ms;
       r \<leftarrow> str (co_RuntimePath z) ''runtimePath'' ms; h \<leftarrow> str (co_RuntimeSHA256 z) ''runtimeSHA256'' ms;
       v \<leftarrow> str (co_GoVersion z) ''goVersion'' ms;
       Some \<lparr>co_BuildID = b, co_Platform = p, co_RuntimePath = r, co_RuntimeSHA256 = h, co_GoVersion = v\<rparr>
     }))"

definition ref_names :: "string list" where
  "ref_names =
    [''image'', ''platform'', ''imageBuildID'', ''descriptorDigest'', ''controller'', ''daemon'', ''providers'',
     ''configurationDigest'']"

definition dec_runtime_ref :: "bool \<Rightarrow> runtime_ref \<Rightarrow> json \<Rightarrow> runtime_ref option" where
  "dec_runtime_ref strict z =
    (let str = (\<lambda>w n ms. dec_field dec_string w ref_names n ms) in
     dec_known strict z ref_names (\<lambda>ms. do {
       i \<leftarrow> str (rr_Image z) ''image'' ms; p \<leftarrow> str (rr_Platform z) ''platform'' ms;
       b \<leftarrow> str (rr_ImageBuildID z) ''imageBuildID'' ms; d \<leftarrow> str (rr_DescriptorDigest z) ''descriptorDigest'' ms;
       c \<leftarrow> dec_field (dec_contract strict) (rr_Controller z) ref_names ''controller'' ms;
       m \<leftarrow> dec_field (dec_daemon strict) (rr_Daemon z) ref_names ''daemon'' ms;
       ps \<leftarrow> dec_field (dec_map (dec_executable strict (dm_Executable (rr_Daemon zero_runtime_ref)))) (rr_Providers z)
              ref_names ''providers'' ms;
       f \<leftarrow> str (rr_ConfigurationDigest z) ''configurationDigest'' ms;
       Some \<lparr>rr_Image = i, rr_Platform = p, rr_ImageBuildID = b, rr_DescriptorDigest = d, rr_Controller = c,
         rr_Daemon = m, rr_Providers = ps, rr_ConfigurationDigest = f\<rparr>
     }))"

section \<open>The bootstrap of a session\<close>

record session_bootstrap =
  sb_Version :: int
  sb_WorkerSessionID :: string
  sb_Conversation :: conversation_key
  sb_StorageID :: string
  sb_WorkspaceAnchorTaskID :: string
  sb_CompatibilityDigest :: string
  sb_TaskRoot :: string
  sb_PVCName :: string
  sb_PVCUID :: string
  sb_NFSServer :: string
  sb_GatewayURL :: string
  sb_Provider :: string
  sb_RuntimeID :: string
  sb_RuntimeRef :: runtime_ref
  sb_ControlCapability :: string
  sb_TerminationGraceSeconds :: int

definition zero_session_bootstrap :: session_bootstrap where
  "zero_session_bootstrap =
    \<lparr>sb_Version = 0, sb_WorkerSessionID = [], sb_Conversation = zero_conversation_key, sb_StorageID = [],
     sb_WorkspaceAnchorTaskID = [], sb_CompatibilityDigest = [], sb_TaskRoot = [], sb_PVCName = [], sb_PVCUID = [],
     sb_NFSServer = [], sb_GatewayURL = [], sb_Provider = [], sb_RuntimeID = [], sb_RuntimeRef = zero_runtime_ref,
     sb_ControlCapability = [], sb_TerminationGraceSeconds = 0\<rparr>"

definition session_bootstrap_names :: "string list" where
  "session_bootstrap_names =
    [''version'', ''workerSessionID'', ''conversation'', ''storageID'', ''workspaceAnchorTaskID'',
     ''compatibilityDigest'', ''taskRoot'', ''pvcName'', ''pvcUID'', ''nfsServer'', ''gatewayURL'', ''provider'',
     ''runtimeID'', ''runtimeRef'', ''controlCapability'', ''terminationGraceSeconds'']"

definition key_names :: "string list" where
  "key_names = [''ownerID'', ''workspaceID'', ''kind'', ''subjectID'', ''agentID'']"

definition dec_session_bootstrap :: "json \<Rightarrow> session_bootstrap option" where
  "dec_session_bootstrap =
    (let names = session_bootstrap_names; str = (\<lambda>n ms. dec_field dec_string [] names n ms) in
     dec_strict zero_session_bootstrap names (\<lambda>ms. do {
       version \<leftarrow> dec_field dec_int 0 names ''version'' ms; session \<leftarrow> str ''workerSessionID'' ms;
       key \<leftarrow> dec_field (strictly key_names dec_key) zero_conversation_key names ''conversation'' ms;
       storage \<leftarrow> str ''storageID'' ms; anchor \<leftarrow> str ''workspaceAnchorTaskID'' ms;
       fit \<leftarrow> str ''compatibilityDigest'' ms; root \<leftarrow> str ''taskRoot'' ms; pvc \<leftarrow> str ''pvcName'' ms;
       pvcUID \<leftarrow> str ''pvcUID'' ms; server \<leftarrow> str ''nfsServer'' ms; url \<leftarrow> str ''gatewayURL'' ms;
       provider \<leftarrow> str ''provider'' ms; runtime \<leftarrow> str ''runtimeID'' ms;
       ref \<leftarrow> dec_field (dec_runtime_ref True) zero_runtime_ref names ''runtimeRef'' ms;
       capability \<leftarrow> str ''controlCapability'' ms; grace \<leftarrow> dec_field dec_int 0 names ''terminationGraceSeconds'' ms;
       Some \<lparr>sb_Version = version, sb_WorkerSessionID = session, sb_Conversation = key, sb_StorageID = storage,
         sb_WorkspaceAnchorTaskID = anchor, sb_CompatibilityDigest = fit, sb_TaskRoot = root, sb_PVCName = pvc,
         sb_PVCUID = pvcUID, sb_NFSServer = server, sb_GatewayURL = url, sb_Provider = provider, sb_RuntimeID = runtime,
         sb_RuntimeRef = ref, sb_ControlCapability = capability, sb_TerminationGraceSeconds = grace\<rparr>
     }))"

definition SessionBootstrap_Validate :: "env \<Rightarrow> (string \<Rightarrow> bool) \<Rightarrow> session_bootstrap \<Rightarrow> err + unit" where
  "SessionBootstrap_Validate e origin b =
    (if sb_Version b \<noteq> session_protocol \<and> sb_Version b \<noteq> legacy_protocol \<or> \<not> wire_UUID e (sb_WorkerSessionID b) \<or>
        \<not> ConversationKey_Valid e (sb_Conversation b) \<or> \<not> wire_UUID e (sb_StorageID b) \<or>
        \<not> wire_UUID e (sb_WorkspaceAnchorTaskID b) \<or> \<not> wire_UUID e (sb_RuntimeID b) \<or> sb_PVCName b = [] \<or>
        sb_PVCUID b = [] \<or> \<not> ValidSHA (sb_CompatibilityDigest b) \<or> sb_TerminationGraceSeconds b < 1
     then Inl (ErrText ''invalid worker session identity'')
     else if ValidateTaskRoot e workspace_root (sb_TaskRoot b) (ck_WorkspaceID (sb_Conversation b))
           (sb_WorkspaceAnchorTaskID b) \<noteq> Inr () \<or>
        \<not> e_parse_ip e (sb_NFSServer b) \<or> \<not> SupportedProvider (sb_Provider b)
     then Inl (ErrText ''invalid conversation mount'')
     else if \<not> origin (sb_GatewayURL b) then Inl (ErrText ''worker gateway requires a fixed HTTP origin'')
     else if length (sb_ControlCapability b) < 32 \<or>
        contains_any (sb_ControlCapability b) [nul_char, cr_char, nl_char, CHR '' '', CHR 0x09]
     then Inl (ErrText ''invalid session enrollment capability'')
     else bind_res (Ref_Validate e (sb_RuntimeRef b)) (\<lambda>_.
       if map_of (rr_Providers (sb_RuntimeRef b)) (sb_Provider b) = None
       then Inl (ErrText ''session provider is not in the image'') else Inr ()))"

text \<open>The decoded value comes back beside the error of the validation, as in the code.\<close>

definition DecodeSessionBootstrap ::
  "env \<Rightarrow> (string \<Rightarrow> bool) \<Rightarrow> string \<Rightarrow> session_bootstrap \<times> err option" where
  "DecodeSessionBootstrap e origin raw =
    (if int (length raw) > MaxRequestBytes
     then (zero_session_bootstrap, Some (ErrText ''session bootstrap exceeds Secret payload limit''))
     else case unmarshal dec_session_bootstrap raw of
       None \<Rightarrow> (zero_session_bootstrap, Some (ErrText ''invalid session bootstrap''))
     | Some b \<Rightarrow> (b, case SessionBootstrap_Validate e origin b of Inl x \<Rightarrow> Some x | Inr _ \<Rightarrow> None))"

definition sessionTerminationGrace :: "env \<Rightarrow> host \<Rightarrow> worker_session \<Rightarrow> fault + time" where
  "sessionTerminationGrace e h ws =
    (if ws_Bootstrap ws = [] then Inr (h_TerminationGrace h)
     else case DecodeSessionBootstrap e (h_Origin h) (ws_Bootstrap ws) of
       (_, Some x) \<Rightarrow> Inl (JournalError x)
     | (b, None) \<Rightarrow> Inr (sb_TerminationGraceSeconds b * second))"

end
