(* ===== verification/Turn_Wire.thy ===== *)
theory Turn_Wire
  imports Session_Wire
begin

text \<open>
  The bootstrap of one attempt and the assignment of one turn (\<^verbatim>\<open>wire/bootstrap.go\<close>,
  \<^verbatim>\<open>wire/run.go\<close>, \<^verbatim>\<open>wire/session.go\<close>): what they hold, how they are read and written, and when a
  worker's session may be given an assignment.  A nil \<^verbatim>\<open>[]byte\<close> of a configuration file is read as the
  empty one.
\<close>

section \<open>Reading and writing the configuration\<close>

definition dec_slice :: "(json \<Rightarrow> 'a option) \<Rightarrow> 'a list option \<Rightarrow> json \<Rightarrow> 'a list option option" where
  "dec_slice f z v =
    (case v of JNull \<Rightarrow> Some None | JArr vs \<Rightarrow> map_option Some (those (map f vs)) | _ \<Rightarrow> None)"

definition dec_gomap :: "(json \<Rightarrow> 'a option) \<Rightarrow> 'a gomap option \<Rightarrow> json \<Rightarrow> 'a gomap option option" where
  "dec_gomap f z v =
    (if v = JNull then Some None else map_option Some (dec_map f (case z of None \<Rightarrow> [] | Some m \<Rightarrow> m) v))"

definition dec_u32 :: "32 word \<Rightarrow> json \<Rightarrow> 32 word option" where
  "dec_u32 z v =
    (if v = JNull then Some z
     else case dec_u64 0 v of
       None \<Rightarrow> None
     | Some n \<Rightarrow> if unat n < 2 ^ 32 then Some (of_nat (unat n)) else None)"

definition dec_config_file :: "bool \<Rightarrow> json \<Rightarrow> config_file option" where
  "dec_config_file strict =
    (let names = [''target'', ''mode'', ''sha256'', ''content''] in
     dec_strict \<lparr>cf_Target = [], cf_Mode = 0, cf_SHA256 = [], cf_Content = []\<rparr> names (\<lambda>ms. do {
       t \<leftarrow> dec_field dec_string [] names ''target'' ms; m \<leftarrow> dec_field dec_u32 0 names ''mode'' ms;
       d \<leftarrow> dec_field dec_string [] names ''sha256'' ms; c \<leftarrow> dec_field dec_bytes [] names ''content'' ms;
       Some \<lparr>cf_Target = t, cf_Mode = m, cf_SHA256 = d, cf_Content = c\<rparr>
     }))"

definition dec_config_group :: "bool \<Rightarrow> json \<Rightarrow> config_group option" where
  "dec_config_group strict =
    (let names = [''name'', ''directories'', ''files''] in
     dec_strict \<lparr>cg_Name = [], cg_Directories = None, cg_Files = None\<rparr> names (\<lambda>ms. do {
       n \<leftarrow> dec_field dec_string [] names ''name'' ms;
       ds \<leftarrow> dec_field (dec_slice (dec_string [])) None names ''directories'' ms;
       fs \<leftarrow> dec_field (dec_slice (dec_config_file strict)) None names ''files'' ms;
       Some \<lparr>cg_Name = n, cg_Directories = ds, cg_Files = fs\<rparr>
     }))"

definition dec_bundle :: "bool \<Rightarrow> config_bundle \<Rightarrow> json \<Rightarrow> config_bundle option" where
  "dec_bundle strict z =
    (let names = [''groups'', ''digest''] in
     dec_strict z names (\<lambda>ms. do {
       gs \<leftarrow> dec_field (dec_slice (dec_config_group strict)) (bu_Groups z) names ''groups'' ms;
       d \<leftarrow> dec_field dec_string (bu_Digest z) names ''digest'' ms;
       Some \<lparr>bu_Groups = gs, bu_Digest = d\<rparr>
     }))"

definition config_file_json :: "config_file \<Rightarrow> json" where
  "config_file_json f =
    JObj [(''target'', jstr (cf_Target f)), (''mode'', jnat (unat (cf_Mode f))), (''sha256'', jstr (cf_SHA256 f)),
      (''content'', jbytes (cf_Content f))]"

definition config_group_json :: "config_group \<Rightarrow> json" where
  "config_group_json g =
    JObj [(''name'', jstr (cg_Name g)), (''directories'', jopt (\<lambda>ds. JArr (map jstr ds)) (cg_Directories g)),
      (''files'', jopt (\<lambda>fs. JArr (map config_file_json fs)) (cg_Files g))]"

definition bundle_json :: "config_bundle \<Rightarrow> json" where
  "bundle_json b =
    JObj [(''groups'', jopt (\<lambda>gs. JArr (map config_group_json gs)) (bu_Groups b)), (''digest'', jstr (bu_Digest b))]"

section \<open>The bootstrap of an attempt\<close>

record attempt_bootstrap =
  bt_WorkerSessionID :: string
  bt_TurnSequence :: u64
  bt_WorkspaceAnchorTaskID :: string
  bt_OwnerID :: string
  bt_TaskID :: string
  bt_AttemptID :: string
  bt_StorageID :: string
  bt_RuntimeID :: string
  bt_WorkspaceID :: string
  bt_AgentID :: string
  bt_Generation :: u64
  bt_TaskRoot :: string
  bt_NFSServer :: string
  bt_Provider :: string
  bt_AllowedLinks :: "string gomap option"
  bt_PreparedDigest :: string
  bt_NativeMetadataDigest :: string
  bt_PVCName :: string
  bt_PVCUID :: string
  bt_RuntimeRef :: runtime_ref
  bt_GatewayURL :: string
  bt_APICapability :: string
  bt_SupervisorCapability :: string
  bt_StopCapability :: string
  bt_CacheCapability :: string
  bt_ExpiresAt :: string
  bt_Configuration :: config_bundle
  bt_Environment :: "string list option"
  bt_GitHubApp :: bool
  bt_TerminationGraceSeconds :: int

definition zero_attempt_bootstrap :: attempt_bootstrap where
  "zero_attempt_bootstrap =
    \<lparr>bt_WorkerSessionID = [], bt_TurnSequence = 0, bt_WorkspaceAnchorTaskID = [], bt_OwnerID = [], bt_TaskID = [],
     bt_AttemptID = [], bt_StorageID = [], bt_RuntimeID = [], bt_WorkspaceID = [], bt_AgentID = [], bt_Generation = 0,
     bt_TaskRoot = [], bt_NFSServer = [], bt_Provider = [], bt_AllowedLinks = None, bt_PreparedDigest = [],
     bt_NativeMetadataDigest = [], bt_PVCName = [], bt_PVCUID = [], bt_RuntimeRef = zero_runtime_ref,
     bt_GatewayURL = [], bt_APICapability = [], bt_SupervisorCapability = [], bt_StopCapability = [],
     bt_CacheCapability = [], bt_ExpiresAt = [], bt_Configuration = \<lparr>bu_Groups = None, bu_Digest = []\<rparr>,
     bt_Environment = None, bt_GitHubApp = False, bt_TerminationGraceSeconds = 0\<rparr>"

definition attempt_bootstrap_names :: "string list" where
  "attempt_bootstrap_names =
    [''workerSessionID'', ''turnSequence'', ''workspaceAnchorTaskID'', ''ownerID'', ''taskID'', ''attemptID'',
     ''storageID'', ''runtimeID'', ''workspaceID'', ''agentID'', ''generation'', ''taskRoot'', ''nfsServer'', ''provider'',
     ''allowedLinks'', ''preparedDigest'', ''nativeMetadataDigest'', ''pvcName'', ''pvcUID'', ''runtimeRef'',
     ''gatewayURL'', ''apiCapability'', ''supervisorCapability'', ''stopCapability'', ''cacheCapability'', ''expiresAt'',
     ''configuration'', ''environment'', ''githubApp'', ''terminationGraceSeconds'']"

definition dec_bootstrap_identity :: "attempt_bootstrap \<Rightarrow> (string \<times> json) list \<Rightarrow> attempt_bootstrap option" where
  "dec_bootstrap_identity z ms =
    (let str = (\<lambda>w n. dec_field dec_string w attempt_bootstrap_names n ms);
         num = (\<lambda>w n. dec_field dec_u64 w attempt_bootstrap_names n ms) in do {
       session \<leftarrow> str (bt_WorkerSessionID z) ''workerSessionID''; turn \<leftarrow> num (bt_TurnSequence z) ''turnSequence'';
       anchor \<leftarrow> str (bt_WorkspaceAnchorTaskID z) ''workspaceAnchorTaskID''; owner \<leftarrow> str (bt_OwnerID z) ''ownerID'';
       task \<leftarrow> str (bt_TaskID z) ''taskID''; attempt \<leftarrow> str (bt_AttemptID z) ''attemptID'';
       storage \<leftarrow> str (bt_StorageID z) ''storageID''; runtime \<leftarrow> str (bt_RuntimeID z) ''runtimeID'';
       workspace \<leftarrow> str (bt_WorkspaceID z) ''workspaceID''; agent \<leftarrow> str (bt_AgentID z) ''agentID'';
       generation \<leftarrow> num (bt_Generation z) ''generation'';
       Some (z\<lparr>bt_WorkerSessionID := session, bt_TurnSequence := turn, bt_WorkspaceAnchorTaskID := anchor,
         bt_OwnerID := owner, bt_TaskID := task, bt_AttemptID := attempt, bt_StorageID := storage,
         bt_RuntimeID := runtime, bt_WorkspaceID := workspace, bt_AgentID := agent, bt_Generation := generation\<rparr>)
     })"

definition dec_bootstrap_mount :: "bool \<Rightarrow> attempt_bootstrap \<Rightarrow> (string \<times> json) list \<Rightarrow> attempt_bootstrap option" where
  "dec_bootstrap_mount strict z ms =
    (let names = attempt_bootstrap_names; str = (\<lambda>w n. dec_field dec_string w names n ms) in do {
       root \<leftarrow> str (bt_TaskRoot z) ''taskRoot''; server \<leftarrow> str (bt_NFSServer z) ''nfsServer'';
       provider \<leftarrow> str (bt_Provider z) ''provider'';
       links \<leftarrow> dec_field (dec_gomap (dec_string [])) (bt_AllowedLinks z) names ''allowedLinks'' ms;
       prep \<leftarrow> str (bt_PreparedDigest z) ''preparedDigest'';
       native \<leftarrow> str (bt_NativeMetadataDigest z) ''nativeMetadataDigest'';
       pvc \<leftarrow> str (bt_PVCName z) ''pvcName''; pvcUID \<leftarrow> str (bt_PVCUID z) ''pvcUID'';
       ref \<leftarrow> dec_field (dec_runtime_ref strict) (bt_RuntimeRef z) names ''runtimeRef'' ms;
       Some (z\<lparr>bt_TaskRoot := root, bt_NFSServer := server, bt_Provider := provider, bt_AllowedLinks := links,
         bt_PreparedDigest := prep, bt_NativeMetadataDigest := native, bt_PVCName := pvc, bt_PVCUID := pvcUID,
         bt_RuntimeRef := ref\<rparr>)
     })"

definition dec_bootstrap_authority :: "bool \<Rightarrow> attempt_bootstrap \<Rightarrow> (string \<times> json) list \<Rightarrow> attempt_bootstrap option" where
  "dec_bootstrap_authority strict z ms =
    (let names = attempt_bootstrap_names; str = (\<lambda>w n. dec_field dec_string w names n ms) in do {
       url \<leftarrow> str (bt_GatewayURL z) ''gatewayURL''; api \<leftarrow> str (bt_APICapability z) ''apiCapability'';
       supervisor \<leftarrow> str (bt_SupervisorCapability z) ''supervisorCapability'';
       stop \<leftarrow> str (bt_StopCapability z) ''stopCapability''; cache \<leftarrow> str (bt_CacheCapability z) ''cacheCapability'';
       expires \<leftarrow> str (bt_ExpiresAt z) ''expiresAt'';
       config \<leftarrow> dec_field (dec_bundle strict) (bt_Configuration z) names ''configuration'' ms;
       environment \<leftarrow> dec_field (dec_slice (dec_string [])) (bt_Environment z) names ''environment'' ms;
       github \<leftarrow> dec_field dec_bool (bt_GitHubApp z) names ''githubApp'' ms;
       grace \<leftarrow> dec_field dec_int (bt_TerminationGraceSeconds z) names ''terminationGraceSeconds'' ms;
       Some (z\<lparr>bt_GatewayURL := url, bt_APICapability := api, bt_SupervisorCapability := supervisor,
         bt_StopCapability := stop, bt_CacheCapability := cache, bt_ExpiresAt := expires, bt_Configuration := config,
         bt_Environment := environment, bt_GitHubApp := github, bt_TerminationGraceSeconds := grace\<rparr>)
     })"

definition dec_attempt_bootstrap :: "bool \<Rightarrow> attempt_bootstrap \<Rightarrow> json \<Rightarrow> attempt_bootstrap option" where
  "dec_attempt_bootstrap strict z =
    dec_strict z attempt_bootstrap_names (\<lambda>ms. do {
      a \<leftarrow> dec_bootstrap_identity z ms; b \<leftarrow> dec_bootstrap_mount strict a ms; dec_bootstrap_authority strict b ms
    })"

definition bootstrap_json :: "attempt_bootstrap \<Rightarrow> json" where
  "bootstrap_json b =
    JObj (jomit (bt_WorkerSessionID b = []) ''workerSessionID'' (jstr (bt_WorkerSessionID b)) @
      jomit (bt_TurnSequence b = 0) ''turnSequence'' (ju64 (bt_TurnSequence b)) @
      jomit (bt_WorkspaceAnchorTaskID b = []) ''workspaceAnchorTaskID'' (jstr (bt_WorkspaceAnchorTaskID b)) @
      [(''ownerID'', jstr (bt_OwnerID b)), (''taskID'', jstr (bt_TaskID b)), (''attemptID'', jstr (bt_AttemptID b)),
       (''storageID'', jstr (bt_StorageID b)), (''runtimeID'', jstr (bt_RuntimeID b)),
       (''workspaceID'', jstr (bt_WorkspaceID b)), (''agentID'', jstr (bt_AgentID b)),
       (''generation'', ju64 (bt_Generation b)), (''taskRoot'', jstr (bt_TaskRoot b)),
       (''nfsServer'', jstr (bt_NFSServer b)), (''provider'', jstr (bt_Provider b)),
       (''allowedLinks'', jopt (jmap jstr) (bt_AllowedLinks b)), (''preparedDigest'', jstr (bt_PreparedDigest b))] @
      jomit (bt_NativeMetadataDigest b = []) ''nativeMetadataDigest'' (jstr (bt_NativeMetadataDigest b)) @
      [(''pvcName'', jstr (bt_PVCName b)), (''pvcUID'', jstr (bt_PVCUID b)), (''runtimeRef'', ref_json (bt_RuntimeRef b)),
       (''gatewayURL'', jstr (bt_GatewayURL b)), (''apiCapability'', jstr (bt_APICapability b)),
       (''supervisorCapability'', jstr (bt_SupervisorCapability b)), (''stopCapability'', jstr (bt_StopCapability b)),
       (''cacheCapability'', jstr (bt_CacheCapability b)), (''expiresAt'', jstr (bt_ExpiresAt b)),
       (''configuration'', bundle_json (bt_Configuration b)),
       (''environment'', jopt (\<lambda>vs. JArr (map jstr vs)) (bt_Environment b)), (''githubApp'', JBool (bt_GitHubApp b)),
       (''terminationGraceSeconds'', jint (bt_TerminationGraceSeconds b))])"

definition capability_ok :: "string \<Rightarrow> bool" where
  "capability_ok token = (32 \<le> length token \<and> \<not> contains_any token [nul_char, cr_char, nl_char, CHR '' ''])"

definition config_text :: "config_error \<Rightarrow> string" where
  "config_text x = (case x of Refusal s \<Rightarrow> s | RefusalOf reason _ _ \<Rightarrow> reason)"

definition turn_binding_refusal :: "env \<Rightarrow> attempt_bootstrap \<Rightarrow> string option" where
  "turn_binding_refusal e b =
    (if bt_WorkerSessionID b \<noteq> [] then
       (if \<not> wire_UUID e (bt_WorkerSessionID b) \<or> bt_TurnSequence b = 0 \<or> \<not> wire_UUID e (bt_WorkspaceAnchorTaskID b)
        then Some ''invalid worker turn binding'' else None)
     else if bt_TurnSequence b \<noteq> 0 \<or> bt_WorkspaceAnchorTaskID b \<noteq> []
     then Some ''turn binding requires a worker session'' else None)"

definition Bootstrap_Validate :: "env \<Rightarrow> (string \<Rightarrow> bool) \<Rightarrow> attempt_bootstrap \<Rightarrow> err + unit" where
  "Bootstrap_Validate e origin b =
    (if bt_Generation b = 0 \<or> \<not> list_all (wire_UUID e) [bt_OwnerID b, bt_TaskID b, bt_AttemptID b, bt_StorageID b,
          bt_RuntimeID b, bt_WorkspaceID b, bt_AgentID b] \<or> bt_PVCName b = [] \<or> bt_PVCUID b = [] \<or>
        bt_TerminationGraceSeconds b < 1
     then Inl (ErrText ''invalid worker bootstrap identity'')
     else case turn_binding_refusal e b of
       Some x \<Rightarrow> Inl (ErrText x)
     | None \<Rightarrow>
         (let anchor = (if bt_WorkerSessionID b \<noteq> [] then bt_WorkspaceAnchorTaskID b else bt_TaskID b) in
          if ValidateTaskRoot e workspace_root (bt_TaskRoot b) (bt_WorkspaceID b) anchor \<noteq> Inr () \<or>
             \<not> e_parse_ip e (bt_NFSServer b) \<or> \<not> ValidSHA (bt_PreparedDigest b) \<or> \<not> SupportedProvider (bt_Provider b)
          then Inl (ErrText ''invalid prepared task mount'')
          else if bt_NativeMetadataDigest b \<noteq> [] \<and> (bt_WorkerSessionID b = [] \<or> \<not> ValidSHA (bt_NativeMetadataDigest b))
          then Inl (ErrText ''invalid native metadata binding'')
          else if \<not> origin (bt_GatewayURL b) then Inl (ErrText ''worker gateway requires a fixed HTTP origin'')
          else if \<not> list_all capability_ok [bt_APICapability b, bt_SupervisorCapability b, bt_StopCapability b,
               bt_CacheCapability b]
          then Inl (ErrText ''invalid attempt capability'')
          else bind_res (Ref_Validate e (bt_RuntimeRef b)) (\<lambda>_.
            case Bundle_Validate e (bt_Configuration b) of
              Inl x \<Rightarrow> Inl (ErrText (config_text x))
            | Inr _ \<Rightarrow>
                (if ExecutionDigest e (bt_Configuration b) (bt_Environment b) \<noteq> rr_ConfigurationDigest (bt_RuntimeRef b)
                 then Inl (ErrText ''configuration differs from admitted image reference'') else Inr ()))))"

definition DecodeBootstrap :: "env \<Rightarrow> (string \<Rightarrow> bool) \<Rightarrow> string \<Rightarrow> err + attempt_bootstrap" where
  "DecodeBootstrap e origin raw =
    (if int (length raw) > MaxRequestBytes then Inl (ErrText ''worker bootstrap exceeds Secret payload limit'')
     else case unmarshal (dec_attempt_bootstrap True zero_attempt_bootstrap) raw of
       None \<Rightarrow> Inl (ErrText ''invalid worker bootstrap'')
     | Some b \<Rightarrow> bind_res (Bootstrap_Validate e origin b) (\<lambda>_. Inr b))"

definition WorkerTerminationSeconds :: "int \<Rightarrow> int" where
  "WorkerTerminationSeconds grace = 2 * grace + 125"

section \<open>The assignment of a turn\<close>

record provider_run =
  rn_Provider :: string
  rn_Prompt :: string
  rn_Options :: exec_options
  rn_Environment :: "string gomap option"
  rn_TaskConfig :: string
  rn_RuntimeBrief :: string
  rn_NativeMetadata :: "native_metadata option"

definition run_names :: "string list" where
  "run_names = [''provider'', ''prompt'', ''options'', ''environment'', ''taskConfig'', ''runtimeBrief'', ''nativeMetadata'']"

definition zero_run :: provider_run where
  "zero_run =
    \<lparr>rn_Provider = [], rn_Prompt = [], rn_Options = \<lparr>eo_Cwd = [], eo_Timeout = 0, eo_Json = JObj []\<rparr>,
     rn_Environment = None, rn_TaskConfig = [], rn_RuntimeBrief = [], rn_NativeMetadata = None\<rparr>"

definition metadata_known :: "json \<Rightarrow> bool" where
  "metadata_known v =
    (case v of
       JObj ms \<Rightarrow>
         known_keys native_metadata_names ms \<and>
         list_all (\<lambda>w. case w of
             JArr vs \<Rightarrow> list_all (\<lambda>a. case a of JObj xs \<Rightarrow> known_keys [''path'', ''sha256'', ''size''] xs | _ \<Rightarrow> True) vs
           | _ \<Rightarrow> True) (field_values native_metadata_names ''artifacts'' ms)
     | _ \<Rightarrow> True)"

definition dec_run :: "bool \<Rightarrow> host \<Rightarrow> provider_run \<Rightarrow> json \<Rightarrow> provider_run option" where
  "dec_run strict h z =
    dec_known strict z run_names (\<lambda>ms. do {
      p \<leftarrow> dec_field dec_string (rn_Provider z) run_names ''provider'' ms;
      q \<leftarrow> dec_field dec_string (rn_Prompt z) run_names ''prompt'' ms;
      os \<leftarrow> dec_field (\<lambda>_. h_DecodeOptions h strict) (rn_Options z) run_names ''options'' ms;
      vs \<leftarrow> dec_field (dec_gomap (dec_string [])) (rn_Environment z) run_names ''environment'' ms;
      c \<leftarrow> dec_field dec_raw (rn_TaskConfig z) run_names ''taskConfig'' ms;
      b \<leftarrow> dec_field dec_string (rn_RuntimeBrief z) run_names ''runtimeBrief'' ms;
      m \<leftarrow> dec_field (\<lambda>w v. if strict \<and> \<not> metadata_known v then None else dec_metadata_ptr w v) (rn_NativeMetadata z)
             run_names ''nativeMetadata'' ms;
      Some \<lparr>rn_Provider = p, rn_Prompt = q, rn_Options = os, rn_Environment = vs, rn_TaskConfig = c,
        rn_RuntimeBrief = b, rn_NativeMetadata = m\<rparr>
    })"

text \<open>\<open>None\<close> when a raw message cannot be written.\<close>

definition raw_json :: "string \<Rightarrow> json option" where
  "raw_json raw = (if raw = [] then Some JNull else marshal_raw raw)"

definition run_json :: "provider_run \<Rightarrow> json option" where
  "run_json r =
    (case (raw_json (rn_TaskConfig r),
           case rn_NativeMetadata r of None \<Rightarrow> Some [] | Some m \<Rightarrow> map_option (jfield ''nativeMetadata'') (native_metadata_json m)) of
       (Some c, Some ms) \<Rightarrow>
         Some (JObj ([(''provider'', jstr (rn_Provider r)), (''prompt'', jstr (rn_Prompt r)),
           (''options'', eo_Json (rn_Options r)), (''environment'', jopt (jmap jstr) (rn_Environment r)),
           (''taskConfig'', c), (''runtimeBrief'', jstr (rn_RuntimeBrief r))] @ ms))
     | _ \<Rightarrow> None)"

record turn_input =
  ti_WorkerSessionID :: string
  ti_PodUID :: string
  ti_TurnSequence :: u64
  ti_InputDigest :: string
  ti_Bootstrap :: attempt_bootstrap
  ti_Run :: provider_run
  ti_Deadline :: time

definition turn_input_names :: "string list" where
  "turn_input_names =
    [''workerSessionID'', ''podUID'', ''turnSequence'', ''inputDigest'', ''bootstrap'', ''run'', ''deadline'']"

definition turn_input_json :: "turn_input \<Rightarrow> json option" where
  "turn_input_json a =
    (case (run_json (ti_Run a), jtime (ti_Deadline a)) of
       (Some r, Some d) \<Rightarrow>
         Some (JObj [(''workerSessionID'', jstr (ti_WorkerSessionID a)), (''podUID'', jstr (ti_PodUID a)),
           (''turnSequence'', ju64 (ti_TurnSequence a)), (''inputDigest'', jstr (ti_InputDigest a)),
           (''bootstrap'', bootstrap_json (ti_Bootstrap a)), (''run'', r), (''deadline'', d)])
     | _ \<Rightarrow> None)"

definition MaxAssignmentBytes :: int where "MaxAssignmentBytes = 8 * 2 ^ 20"

definition TurnAssignment_Digest :: "env \<Rightarrow> turn_input \<Rightarrow> string" where
  "TurnAssignment_Digest e a =
    (case turn_input_json a of
       None \<Rightarrow> []
     | Some v \<Rightarrow> (case TurnInputDigest e (json_text v) of Inl _ \<Rightarrow> [] | Inr d \<Rightarrow> d))"

definition dec_turn_input :: "bool \<Rightarrow> host \<Rightarrow> json \<Rightarrow> turn_input option" where
  "dec_turn_input strict h =
    (let names = turn_input_names; str = (\<lambda>n ms. dec_field dec_string [] names n ms) in
     dec_known strict \<lparr>ti_WorkerSessionID = [], ti_PodUID = [], ti_TurnSequence = 0, ti_InputDigest = [],
       ti_Bootstrap = zero_attempt_bootstrap, ti_Run = zero_run, ti_Deadline = 0\<rparr> names (\<lambda>ms. do {
       w \<leftarrow> str ''workerSessionID'' ms; p \<leftarrow> str ''podUID'' ms; n \<leftarrow> dec_field dec_u64 0 names ''turnSequence'' ms;
       d \<leftarrow> str ''inputDigest'' ms;
       b \<leftarrow> dec_field (dec_attempt_bootstrap strict) zero_attempt_bootstrap names ''bootstrap'' ms;
       r \<leftarrow> dec_field (dec_run strict h) zero_run names ''run'' ms; t \<leftarrow> dec_field dec_time 0 names ''deadline'' ms;
       Some \<lparr>ti_WorkerSessionID = w, ti_PodUID = p, ti_TurnSequence = n, ti_InputDigest = d, ti_Bootstrap = b,
         ti_Run = r, ti_Deadline = t\<rparr>
     }))"

definition DecodeTurnAssignment :: "env \<Rightarrow> host \<Rightarrow> string \<Rightarrow> err + turn_input" where
  "DecodeTurnAssignment e h raw =
    (case (if MaxAssignmentBytes < int (length raw) then None else unmarshal (dec_turn_input True h) raw) of
       None \<Rightarrow> Inl (ErrText ''invalid worker turn assignment'')
     | Some a \<Rightarrow>
         (let b = ti_Bootstrap a in
          if Bootstrap_Validate e (h_Origin h) b \<noteq> Inr () \<or> \<not> wire_UUID e (ti_WorkerSessionID a) \<or>
             \<not> wire_UUID e (ti_PodUID a) \<or> ti_TurnSequence a = 0 \<or> bt_WorkerSessionID b \<noteq> ti_WorkerSessionID a \<or>
             bt_TurnSequence b \<noteq> ti_TurnSequence a \<or> \<not> ValidSHA (ti_InputDigest a) \<or>
             ti_InputDigest a \<noteq> TurnAssignment_Digest e a \<or> ti_Deadline a = 0
          then Inl (ErrText ''invalid worker turn binding'') else Inr a))"

definition matches_session :: "turn_input \<Rightarrow> session_bootstrap \<Rightarrow> bool" where
  "matches_session a s =
    (let b = ti_Bootstrap a; key = sb_Conversation s in
     ti_WorkerSessionID a = sb_WorkerSessionID s \<and> ti_TurnSequence a \<noteq> 0 \<and>
     bt_WorkerSessionID b = ti_WorkerSessionID a \<and> bt_TurnSequence b = ti_TurnSequence a \<and>
     bt_OwnerID b = ck_OwnerID key \<and> bt_WorkspaceID b = ck_WorkspaceID key \<and> bt_AgentID b = ck_AgentID key \<and>
     bt_WorkspaceAnchorTaskID b = sb_WorkspaceAnchorTaskID s \<and> bt_StorageID b = sb_StorageID s \<and>
     bt_TaskRoot b = sb_TaskRoot s \<and> bt_PVCName b = sb_PVCName s \<and> bt_PVCUID b = sb_PVCUID s \<and>
     bt_NFSServer b = sb_NFSServer s \<and> bt_Provider b = sb_Provider s \<and> bt_RuntimeID b = sb_RuntimeID s \<and>
     Ref_Equal (bt_RuntimeRef b) (sb_RuntimeRef s) \<and> bt_GatewayURL b = sb_GatewayURL s \<and>
     bt_TerminationGraceSeconds b = sb_TerminationGraceSeconds s)"

definition TurnAssignment_Validate :: "env \<Rightarrow> host \<Rightarrow> turn_input \<Rightarrow> session_bootstrap \<Rightarrow> string \<Rightarrow> err + unit" where
  "TurnAssignment_Validate e h a s podUID =
    (if sb_Version s \<noteq> session_protocol then Inl (ErrText ''historical session cannot receive a new assignment'')
     else bind_res (SessionBootstrap_Validate e (h_Origin h) s) (\<lambda>_.
       bind_res (Bootstrap_Validate e (h_Origin h) (ti_Bootstrap a)) (\<lambda>_.
         case turn_input_json a of
           None \<Rightarrow> Inl (ErrText ''invalid worker turn assignment'')
         | Some v \<Rightarrow>
             (if MaxAssignmentBytes < int (length (json_text v)) then Inl (ErrText ''invalid worker turn assignment'')
              else case TurnInputDigest e (json_text v) of
                Inl _ \<Rightarrow> Inl (ErrText ''invalid worker turn assignment'')
              | Inr inputDigest \<Rightarrow>
                  (let b = ti_Bootstrap a in
                   if \<not> wire_UUID e podUID \<or> ti_PodUID a \<noteq> podUID \<or> \<not> ValidSHA (ti_InputDigest a) \<or>
                      ti_InputDigest a \<noteq> inputDigest \<or> ti_Deadline a = 0 \<or> \<not> matches_session a s
                   then Inl (ErrText ''assignment differs from the admitted session'')
                   else if ck_Kind (sb_Conversation s) = ConversationTask \<and> bt_TaskID b \<noteq> ck_SubjectID (sb_Conversation s)
                   then Inl (ErrText ''task-scoped session cannot accept another task'')
                   else if rn_Provider (ti_Run a) \<noteq> bt_Provider b \<or> eo_Cwd (rn_Options (ti_Run a)) \<noteq> bt_TaskRoot b @ ''/workdir'' \<or>
                      eo_Timeout (rn_Options (ti_Run a)) \<le> 0
                   then Inl (ErrText ''assignment input differs from its prepared root'')
                   else case parse_time (bt_ExpiresAt b) of
                     None \<Rightarrow> Inl (ErrText ''assignment exceeds its turn authority lifetime'')
                   | Some expiry \<Rightarrow>
                       (if expiry < ti_Deadline a then Inl (ErrText ''assignment exceeds its turn authority lifetime'')
                        else Inr ()))))))"

section \<open>Requests of a worker's session\<close>

record session_admission =
  sad_WorkerSessionID :: string
  sad_PodUID :: string
  sad_PVCUID :: string
  sad_BootstrapDigest :: string
  sad_PublicKey :: string

record session_stop_command =
  ssc_Reason :: string
  ssc_Revision :: u64
  ssc_Nonce :: string
  ssc_TurnSequence :: u64
  ssc_AttemptID :: string
  ssc_InputDigest :: string
  ssc_ControllerWritersStopped :: bool

record session_poll_response =
  spr_WorkerSessionID :: string
  spr_TurnSequence :: u64
  spr_SettledTurnSequence :: u64
  spr_State :: session_state
  spr_Assignment :: "turn_input option"
  spr_IdleDeadline :: time
  spr_Stop :: "session_stop_command option"

definition dec_session_admission :: "json \<Rightarrow> session_admission option" where
  "dec_session_admission =
    (let names = [''workerSessionID'', ''podUID'', ''pvcUID'', ''bootstrapDigest'', ''publicKey'']; str = (\<lambda>n ms. dec_field dec_string [] names n ms) in
     dec_strict \<lparr>sad_WorkerSessionID = [], sad_PodUID = [], sad_PVCUID = [], sad_BootstrapDigest = [], sad_PublicKey = []\<rparr>
       names (\<lambda>ms. do {
         w \<leftarrow> str ''workerSessionID'' ms; p \<leftarrow> str ''podUID'' ms; v \<leftarrow> str ''pvcUID'' ms; d \<leftarrow> str ''bootstrapDigest'' ms;
         k \<leftarrow> dec_field dec_bytes [] names ''publicKey'' ms;
         Some \<lparr>sad_WorkerSessionID = w, sad_PodUID = p, sad_PVCUID = v, sad_BootstrapDigest = d, sad_PublicKey = k\<rparr>
       }))"

definition dec_challenge_request :: "json \<Rightarrow> (string \<times> string) option" where
  "dec_challenge_request =
    (let names = [''operation'', ''bodyDigest''] in
     dec_strict ([], []) names (\<lambda>ms. do {
       p \<leftarrow> dec_field dec_string [] names ''operation'' ms; d \<leftarrow> dec_field dec_string [] names ''bodyDigest'' ms;
       Some (p, d)
     }))"

definition dec_session_accept :: "json \<Rightarrow> (u64 \<times> string) option" where
  "dec_session_accept =
    (let names = [''turnSequence'', ''inputDigest''] in
     dec_strict (0, []) names (\<lambda>ms. do {
       n \<leftarrow> dec_field dec_u64 0 names ''turnSequence'' ms; d \<leftarrow> dec_field dec_string [] names ''inputDigest'' ms;
       Some (n, d)
     }))"

definition dec_stop_request :: "json \<Rightarrow> string option" where
  "dec_stop_request =
    (let names = [''reason''] in dec_strict [] names (\<lambda>ms. dec_field dec_string [] names ''reason'' ms))"

end
