(* ===== verification/Result_Delivery.thy ===== *)
theory Result_Delivery
  imports Session_Wire
begin

text \<open>
  Delivering results and ending turns (\<^verbatim>\<open>controller/turn_delivery.go\<close>, the delivery functions of
  \<^verbatim>\<open>stop.go\<close> and \<^verbatim>\<open>reconcile.go\<close>): what is sent to the backend and when, what its answer settles,
  and when a turn is complete.
\<close>

section \<open>Ending a turn\<close>

definition turnCanSettle :: "terminal \<Rightarrow> bool" where
  "turnCanSettle t = (t_Kind t = KindComplete \<or> t_Kind t = KindFail)"

definition stopUnacceptedTurn :: "task_grant \<Rightarrow> (fault + unit) prog" where
  "stopUnacceptedTurn g =
    orfail (reading (\<lambda>_. GetSession (g_WorkerSessionID g))) (\<lambda>ws.
      if ws_Stop ws \<noteq> None then ok
      else orfail (writing (\<lambda>c. RequestSessionStop c (g_WorkerSessionID g) ''completion_not_accepted'')) (\<lambda>_.
        hinting (EnqueueSession (g_WorkerSessionID g)) (hinting WakeClaim ok)))"

text \<open>The first event that is not settled decides.\<close>

definition unsettled_event :: "task_grant \<Rightarrow> event option" where
  "unsettled_event g = find (\<lambda>ev. e_State ev \<noteq> EvDelivered \<and> e_State ev \<noteq> EvLocal) (g_Events g)"

definition checkpoint_wanted :: "task_grant \<Rightarrow> storage \<Rightarrow> bool" where
  "checkpoint_wanted g b =
    ((case g_Selection g of None \<Rightarrow> False | Some s \<Rightarrow> sel_WorkspaceReuseEligible s) \<and>
     src_AttemptID (b_LatestWriter b) = g_AttemptID g \<and> b_Checkpoint b = None)"

definition complete_turn :: "env \<Rightarrow> task_grant \<Rightarrow> (fault + unit) prog" where
  "complete_turn e g =
    andthen (writing (\<lambda>c. CompleteTurn e c (g_AttemptID g))) (\<lambda>r.
      case r of
        Inl x \<Rightarrow>
          (if isErr ErrConflict x then hinting (EnqueueSession (g_WorkerSessionID g)) ok else Ret (Inl x))
      | Inr _ \<Rightarrow>
          hinting (EnqueueSession (g_WorkerSessionID g)) (hinting WakePending (hinting WakeClaim ok)))"

definition settle_turn :: "env \<Rightarrow> task_grant \<Rightarrow> terminal \<Rightarrow> (fault + unit) prog" where
  "settle_turn e g t =
    (if g_CompletionWitness g = None \<or> t_State t \<noteq> DDelivered then hinting (EnqueueDelivery (g_AttemptID g)) ok
     else orfail (reading (\<lambda>_. GetSession (g_WorkerSessionID g))) (\<lambda>ws.
       let conclude = (if g_TurnReceipt g = None \<and> g_TurnExecutionReceipt g = None \<and> ws_State ws \<noteq> SessionClosed
             then ok else complete_turn e g)
       in if \<not> g_TurnComplete g then conclude
          else if ws_State ws \<noteq> SessionClosed then ok
          else orfail (reading (\<lambda>_. GetStorage (g_StorageID g))) (\<lambda>b.
            if checkpoint_wanted g b then conclude else ok)))"

definition finish_unsettled :: "task_grant \<Rightarrow> terminal \<Rightarrow> event \<Rightarrow> (fault + unit) prog" where
  "finish_unsettled g t ev =
    (if e_State ev \<noteq> EvUncertain then ok
     else orfail (writing (\<lambda>c. RequestSessionStop c (g_WorkerSessionID g) ''event_delivery_uncertain'')) (\<lambda>_.
       hinting (EnqueueSession (g_WorkerSessionID g))
         (hint_if (t_State t \<noteq> DDelivered \<and> t_State t \<noteq> DRejected) (EnqueueDelivery (g_AttemptID g)) ok)))"

definition finishTurn :: "env \<Rightarrow> string \<Rightarrow> (fault + unit) prog" where
  "finishTurn e i =
    orfail (tell ContextErr) (\<lambda>_.
    orfail (reading (\<lambda>_. Get i)) (\<lambda>g.
      andthen (reading (\<lambda>_. Terminal_get (g_AttemptID g))) (\<lambda>r.
        case r of
          Inl x \<Rightarrow> if isErr ErrUnauthorized x then ok else Ret (Inl x)
        | Inr t \<Rightarrow>
            (if g_WorkerSessionID g = [] \<or> t_Source t \<noteq> SourceWorker \<or> \<not> turnCanSettle t \<or> t_RecoveryFailure t \<noteq> None
             then ok
             else if t_State t = DRejected then stopUnacceptedTurn g
             else case unsettled_event g of
               Some ev \<Rightarrow> finish_unsettled g t ev
             | None \<Rightarrow> settle_turn e g t))))"

section \<open>An observed result\<close>

definition row_accepts :: "env \<Rightarrow> host \<Rightarrow> task_grant \<Rightarrow> terminal \<Rightarrow> resume_pointers \<Rightarrow> observation \<Rightarrow> claim \<Rightarrow> bool" where
  "row_accepts e h g t resume row cl =
    (if t_Kind t = KindFail then
       (if rp_ResumeRejectedTransient resume then AcceptsTransientFailure e (h_FailureRules h) row cl (t_Body t)
        else AcceptsFailure e (h_FailureRules h) row cl (t_Body t))
     else AcceptsCompletion e row cl (t_Body t))"

definition observed_witness :: "task_grant \<Rightarrow> terminal \<Rightarrow> resume_pointers \<Rightarrow> observation \<Rightarrow> time \<Rightarrow> completion_witness" where
  "observed_witness g t resume row now =
    \<lparr>cw_TaskID = g_TaskID g, cw_AttemptID = g_AttemptID g, cw_WorkerSessionID = g_WorkerSessionID g,
     cw_StorageID = g_StorageID g, cw_TurnSequence = g_TurnSequence g, cw_RequestDigest = t_RequestDigest t,
     cw_ResultDigest = t_ResultDigest t, cw_Status = ob_Status row,
     cw_SessionID = (if t_Kind t = KindFail \<or> rp_SessionRolloutMissing resume \<or>
                        rp_SessionID resume = rp_RetiredSessionID resume then [] else rp_SessionID resume),
     cw_WorkDir = rp_WorkDir resume, cw_AcknowledgedAt = now\<rparr>"

definition recordObservedTurnCompletion :: "env \<Rightarrow> host \<Rightarrow> string \<Rightarrow> observation \<Rightarrow> (fault + bool) prog" where
  "recordObservedTurnCompletion e h i row =
    orfail (reading (\<lambda>_. Get i)) (\<lambda>g.
      andthen (reading (\<lambda>_. Terminal_get (g_AttemptID g))) (\<lambda>r.
        case r of
          Inl x \<Rightarrow> Ret (if isErr ErrUnauthorized x then Inr False else Inl x)
        | Inr t \<Rightarrow>
            (case g_PendingResume g of
               None \<Rightarrow> Ret (Inr False)
             | Some resume \<Rightarrow>
                 (if g_WorkerSessionID g = [] \<or> \<not> g_StartConfirmed g \<or> t_Source t \<noteq> SourceWorker \<or> \<not> turnCanSettle t \<or>
                     t_ResultReceipt t = None \<or> t_RecoveryFailure t \<noteq> None \<or> t_State t = DRejected
                  then Ret (Inr False)
                  else case ParseClaim (g_Envelope g) of
                    Inl x \<Rightarrow> Ret (Inl (JournalError x))
                  | Inr cl \<Rightarrow>
                      (if \<not> row_accepts e h g t resume row cl then Ret (Inr False)
                       else if g_CompletionWitness g \<noteq> None \<and> t_State t = DDelivered then Ret (Inr True)
                       else andthen (look Clock an_Time) (\<lambda>now.
                         orfail (writing (\<lambda>_. RecordCompletionWitness e (g_AttemptID g)
                             (observed_witness g t resume row now))) (\<lambda>_.
                           hinting (EnqueueAttempt (g_AttemptID g)) (hinting WakeClaim (Ret (Inr True))))))))))"

text \<open>The credentials with which the row is asked for: the task's own, then those of other open turns of the
  agent, each token once, the latest grant first.\<close>

fun other_claims :: "string list \<Rightarrow> task_grant \<Rightarrow> task_grant list \<Rightarrow> claim list" where
  "other_claims seen g [] = []"
| "other_claims seen g (x # xs) =
    (if g_AttemptID x = g_AttemptID g \<or> g_State x = Closed \<or> g_WorkspaceID x \<noteq> g_WorkspaceID g \<or>
        g_AgentID x \<noteq> g_AgentID g then other_claims seen g xs
     else case ParseClaim (g_Envelope x) of
       Inl _ \<Rightarrow> other_claims seen g xs
     | Inr cl \<Rightarrow>
         (if cl_AuthToken cl \<in> set seen then other_claims seen g xs
          else cl # other_claims (cl_AuthToken cl # seen) g xs))"

fun observe_with :: "claim \<Rightarrow> fault option \<Rightarrow> claim list \<Rightarrow> (fault + observation) prog" where
  "observe_with original failed [] =
    andthen (ask (ControllerTask original) an_Row) (\<lambda>r.
      Ret (case r of Inl x \<Rightarrow> Inl (join_faults failed x) | Inr row \<Rightarrow> Inr row))"
| "observe_with original failed (cl # cls) =
    andthen (ask (AgentTask cl (cl_ID original)) an_Row) (\<lambda>r.
      case r of
        Inr row \<Rightarrow> Ret (Inr row)
      | Inl x \<Rightarrow>
          (if cl_IssueID cl = [] \<or> cl_IssueID cl \<noteq> cl_IssueID original then observe_with original (Some x) cls
           else andthen (ask (IssueTaskHistory cl) an_Rows) (\<lambda>r.
             case r of
               Inl y \<Rightarrow> observe_with original (Some y) cls
             | Inr rows \<Rightarrow>
                 (case find (\<lambda>row. ob_ID row = cl_ID original) rows of
                    Some row \<Rightarrow> Ret (Inr row)
                  | None \<Rightarrow> observe_with original failed cls))))"

definition observeTurnTask :: "task_grant \<Rightarrow> claim \<Rightarrow> (fault + observation) prog" where
  "observeTurnTask g original =
    orfail (reading (\<lambda>_ st. Inr (List_grants st))) (\<lambda>grants.
      observe_with original None (original # other_claims [cl_AuthToken original] g (rev grants)))"

text \<open>Rows of a current claim's history complete other turns of the agent.  A storage that is not in the
  journal reads as the zero value.\<close>

definition may_complete :: "storage \<Rightarrow> task_grant \<Rightarrow> worker_session \<Rightarrow> bool" where
  "may_complete b g ws = (ws_State ws = SessionClosed \<and> checkpoint_wanted g b)"

definition complete_from :: "env \<Rightarrow> host \<Rightarrow> observation list \<Rightarrow> task_grant \<Rightarrow> (fault + unit) prog" where
  "complete_from e h rows g =
    (case find (\<lambda>row. ob_ID row = g_TaskID g) (rev rows) of
       None \<Rightarrow> ok
     | Some row \<Rightarrow>
         orfail (recordObservedTurnCompletion e h (g_AttemptID g) row) (\<lambda>recorded.
           if recorded then finishTurn e (g_AttemptID g) else ok))"

fun complete_turns ::
  "env \<Rightarrow> host \<Rightarrow> claim \<Rightarrow> storage list \<Rightarrow> observation list \<Rightarrow> task_grant list \<Rightarrow> (fault + unit) prog" where
  "complete_turns e h current storages rows [] = ok"
| "complete_turns e h current storages rows (g # gs) =
    (let go_on = (\<lambda>p. orfail p (\<lambda>_. complete_turns e h current storages rows gs)) in
     if g_WorkerSessionID g = [] \<or> g_WorkspaceID g \<noteq> cl_WorkspaceID current \<or> g_AgentID g \<noteq> cl_AgentID current
     then go_on ok
     else if g_TurnComplete g \<and> g_CompletionWitness g \<noteq> None then
       orfail (reading (\<lambda>_. GetSession (g_WorkerSessionID g))) (\<lambda>ws.
         let b = (case find (\<lambda>b. b_ID b = g_StorageID g) (rev storages) of None \<Rightarrow> zero_storage | Some b \<Rightarrow> b)
         in go_on (if may_complete b g ws then complete_from e h rows g else ok))
     else go_on (complete_from e h rows g))"

definition reconcileTurnCompletion ::
  "env \<Rightarrow> host \<Rightarrow> claim \<Rightarrow> observation list \<Rightarrow> (fault + unit) prog" where
  "reconcileTurnCompletion e h current rows =
    orfail (reading (\<lambda>_ st. Inr (List_grants st))) (\<lambda>grants.
      orfail (reading (\<lambda>_ st. Inr (ListStorages st))) (\<lambda>storages.
        complete_turns e h current storages
          (filter (\<lambda>row. ob_WorkspaceID row = cl_WorkspaceID current \<and> ob_AgentID row = cl_AgentID current) rows) grants))"

section \<open>Delivery to the backend\<close>

definition settled_outcome :: "string \<Rightarrow> bool" where
  "settled_outcome result \<longleftrightarrow> result \<in> {''delivered'', ''rejected''}"

definition wake_if :: "bool \<Rightarrow> 'a prog \<Rightarrow> 'a prog" where
  "wake_if b p = hint_if b WakePending (hint_if b WakeClaim p)"

text \<open>The status that rules a delivery out: \<open>None\<close> to go on, an error to give up.\<close>

definition refuses :: "terminal_kind \<Rightarrow> fault + string \<Rightarrow> bool" where
  "refuses kind status =
    (case status of
       Inl x \<Rightarrow> is_fault (\<lambda>f. f = AssignmentChanged) x
     | Inr s \<Rightarrow> \<not> terminalAllowed kind s)"

definition unresolved :: "delivery \<Rightarrow> bool" where
  "unresolved s = (s = DUncertain \<or> s = DForwarding)"

definition forward_failure :: "task_grant \<Rightarrow> terminal \<Rightarrow> (fault + unit) prog" where
  "forward_failure g t =
    orfail (writing (\<lambda>_. BeginFailureForward (g_AttemptID g))) (\<lambda>_.
      andthen (API_Terminal (g_AttemptID g) (g_TaskID g) KindFail (t_Body t)) (\<lambda>sent.
        let result = forwardOutcome sent
        in orfail (writing (\<lambda>_. FinishForward (g_AttemptID g) result)) (\<lambda>_. wake_if (settled_outcome result) ok)))"

definition deliverFailure :: "task_grant \<Rightarrow> (fault + unit) prog" where
  "deliverFailure g =
    andthen (reading (\<lambda>_. Terminal_get (g_AttemptID g))) (\<lambda>r.
      case r of
        Inl x \<Rightarrow> if isErr ErrUnauthorized x then ok else Ret (Inl x)
      | Inr t \<Rightarrow>
          (if t_Source t \<noteq> SourceController \<or> t_State t \<notin> {DReceived, DUncertain, DForwarding} then ok
           else andthen (deliveryStatus g) (\<lambda>status.
             if refuses KindFail status then
               orfail (writing (\<lambda>_. RejectFailure (g_AttemptID g))) (\<lambda>_. wake_if True ok)
             else case status of
               Inl x \<Rightarrow> Ret (Inl x)
             | Inr s \<Rightarrow>
                 (if \<not> unresolved (t_State t) then forward_failure g t
                  else if \<not> g_StartConfirmed g \<or> s \<noteq> ''running'' then ok
                  else orfail (writing (\<lambda>_. ResumeForward (g_AttemptID g))) (\<lambda>_. forward_failure g t)))))"

definition forward_recovery :: "task_grant \<Rightarrow> recovery_failure \<Rightarrow> (fault + unit) prog" where
  "forward_recovery g rec =
    orfail (writing (\<lambda>_. BeginRecoveryForward (g_AttemptID g))) (\<lambda>_.
      andthen (API_Terminal (g_AttemptID g) (g_TaskID g) KindFail (rf_Body rec)) (\<lambda>sent.
        let result = forwardOutcome sent
        in orfail (writing (\<lambda>_. FinishRecoveryForward (g_AttemptID g) result)) (\<lambda>_.
             wake_if (settled_outcome result) ok)))"

definition deliverRecoveryFailure :: "task_grant \<Rightarrow> recovery_failure \<Rightarrow> (fault + unit) prog" where
  "deliverRecoveryFailure g rec =
    (if rf_State rec = DDelivered \<or> rf_State rec = DRejected then ok
     else andthen (deliveryStatus g) (\<lambda>status.
       if refuses KindFail status then
         orfail (writing (\<lambda>_. RejectRecoveryFailure (g_AttemptID g))) (\<lambda>_. wake_if True ok)
       else case status of
         Inl x \<Rightarrow> Ret (Inl x)
       | Inr s \<Rightarrow>
           (if \<not> unresolved (rf_State rec) then forward_recovery g rec
            else if \<not> g_StartConfirmed g \<or> s \<noteq> ''running'' then ok
            else orfail (writing (\<lambda>_. ResumeForward (g_AttemptID g))) (\<lambda>_. forward_recovery g rec))))"

definition send_turn_result :: "env \<Rightarrow> host \<Rightarrow> task_grant \<Rightarrow> terminal \<Rightarrow> (fault + unit) prog" where
  "send_turn_result e h g t =
    orfail (writing (\<lambda>_. BeginForward (g_AttemptID g))) (\<lambda>_.
      andthen (API_TerminalObservation (g_AttemptID g) (g_TaskID g) (t_Kind t) (t_Body t)) (\<lambda>sent.
        case sent of
          Inr row \<Rightarrow>
            orfail (recordObservedTurnCompletion e h (g_AttemptID g) row) (\<lambda>recorded.
              if recorded then finishTurn e (g_AttemptID g)
              else orfail (writing (\<lambda>_. FinishForward (g_AttemptID g) ''rejected'')) (\<lambda>_. stopUnacceptedTurn g))
        | Inl _ \<Rightarrow>
            (let result = forwardOutcome sent
             in orfail (writing (\<lambda>_. FinishForward (g_AttemptID g) result)) (\<lambda>_.
                  if result = ''rejected'' then stopUnacceptedTurn g else ok))))"

definition reject_turn :: "task_grant \<Rightarrow> bool \<Rightarrow> (fault + unit) prog" where
  "reject_turn g wake =
    orfail (writing (\<lambda>_. RejectTerminal (g_AttemptID g))) (\<lambda>_. hint_if wake WakeClaim (stopUnacceptedTurn g))"

definition deliver_observed_turn ::
  "env \<Rightarrow> host \<Rightarrow> task_grant \<Rightarrow> terminal \<Rightarrow> claim \<Rightarrow> observation \<Rightarrow> (fault + unit) prog" where
  "deliver_observed_turn e h g t cl row =
    orfail (recordObservedTurnCompletion e h (g_AttemptID g) row) (\<lambda>recorded.
      if recorded then finishTurn e (g_AttemptID g)
      else if \<not> MatchesResultClaim e row cl \<or> ob_Status row \<noteq> ''running'' then
        (if t_State t = DDelivered then stopUnacceptedTurn g else reject_turn g False)
      else if t_State t = DDelivered then Ret (Inl (OtherFault ''transport acknowledgement lacks an accepted completion''))
      else if \<not> unresolved (t_State t) then send_turn_result e h g t
      else if \<not> g_StartConfirmed g then ok
      else orfail (writing (\<lambda>_. ResumeForward (g_AttemptID g))) (\<lambda>_. send_turn_result e h g t))"

definition deliver_turn :: "env \<Rightarrow> host \<Rightarrow> task_grant \<Rightarrow> terminal \<Rightarrow> claim \<Rightarrow> (fault + unit) prog" where
  "deliver_turn e h g t cl =
    andthen (observeTurnTask g cl) (\<lambda>observed.
      case observed of
        Inr row \<Rightarrow> deliver_observed_turn e h g t cl row
      | Inl x \<Rightarrow>
          andthen (API_TaskStatus (g_TaskID g)) (\<lambda>status.
            if (case status of
                  Inl _ \<Rightarrow> False
                | Inr s \<Rightarrow> s = ''cancelled'' \<or> t_Kind t = KindFail \<and> (s = ''failed'' \<or> s = ''completed''))
            then (if t_State t \<noteq> DDelivered then reject_turn g True else stopUnacceptedTurn g)
            else Ret (Inl x)))"

definition deliverTurnResult :: "env \<Rightarrow> host \<Rightarrow> string \<Rightarrow> (fault + unit) prog" where
  "deliverTurnResult e h i =
    orfail (reading (\<lambda>_. Get i)) (\<lambda>g.
      andthen (reading (\<lambda>_. Terminal_get (g_AttemptID g))) (\<lambda>r.
        case r of
          Inl x \<Rightarrow> if isErr ErrUnauthorized x then ok else Ret (Inl x)
        | Inr t \<Rightarrow>
            (if \<not> g_SessionProtocol g \<or> g_WorkerSessionID g = [] \<or> t_Source t \<noteq> SourceWorker \<or> \<not> turnCanSettle t
             then Ret (Inl (OtherFault ''completion does not belong to a conversation turn''))
             else case t_RecoveryFailure t of
               Some rec \<Rightarrow> deliverRecoveryFailure g rec
             | None \<Rightarrow>
                 (if t_ResultReceipt t = None then ok
                  else if t_State t = DRejected then stopUnacceptedTurn g
                  else if g_CompletionWitness g \<noteq> None then finishTurn e (g_AttemptID g)
                  else case ParseClaim (g_Envelope g) of
                    Inl x \<Rightarrow> Ret (Inl (JournalError x))
                  | Inr cl \<Rightarrow> deliver_turn e h g t cl))))"

definition forward_result :: "task_grant \<Rightarrow> terminal \<Rightarrow> (fault + unit) prog" where
  "forward_result g t =
    orfail (writing (\<lambda>_. BeginForward (g_AttemptID g))) (\<lambda>_.
      andthen (API_Terminal (g_AttemptID g) (g_TaskID g) (t_Kind t) (t_Body t)) (\<lambda>sent.
        let result = forwardOutcome sent
        in orfail (writing (\<lambda>_. FinishForward (g_AttemptID g) result)) (\<lambda>_. wake_if (settled_outcome result) ok)))"

definition deliverable :: "terminal \<Rightarrow> bool" where
  "deliverable t =
    (t_State t \<in> {DSealed, DUncertain, DForwarding} \<or> t_State t = DReceived \<and> t_ResultReceipt t \<noteq> None)"

definition deliverResult :: "env \<Rightarrow> host \<Rightarrow> task_grant \<Rightarrow> (fault + unit) prog" where
  "deliverResult e h g =
    andthen (reading (\<lambda>_. Terminal_get (g_AttemptID g))) (\<lambda>r.
      case r of
        Inl x \<Rightarrow> if isErr ErrUnauthorized x then ok else Ret (Inl x)
      | Inr t \<Rightarrow>
          (if t_Source t = SourceController then deliverFailure g
           else case t_RecoveryFailure t of
             Some rec \<Rightarrow> deliverRecoveryFailure g rec
           | None \<Rightarrow>
               (if g_WorkerSessionID g \<noteq> [] \<and> turnCanSettle t then deliverTurnResult e h (g_AttemptID g)
                else if \<not> deliverable t then ok
                else andthen (deliveryStatus g) (\<lambda>status.
                  if refuses (t_Kind t) status then
                    orfail (writing (\<lambda>_. RejectTerminal (g_AttemptID g))) (\<lambda>_. wake_if True ok)
                  else case status of
                    Inl x \<Rightarrow> Ret (Inl x)
                  | Inr s \<Rightarrow>
                      (if \<not> unresolved (t_State t) then forward_result g t
                       else if \<not> (g_StartConfirmed g \<and> s = ''running'') \<and>
                          \<not> (t_Kind t = KindCancelAck \<and> s = ''cancelled'') then ok
                       else orfail (writing (\<lambda>_. ResumeForward (g_AttemptID g))) (\<lambda>_. forward_result g t))))))"

end
