(* ===== verification/Provision.thy ===== *)
theory Provision
  imports Turn_Wire Result_Delivery
begin

text \<open>
  Giving a claim its Pod (\<^verbatim>\<open>controller/dispatch.go\<close>, \<^verbatim>\<open>session_provision.go\<close>, of
  \<^verbatim>\<open>prepare.go\<close> the start and the end of a preparation, of \<^verbatim>\<open>turn_inputs.go\<close> the activation of a turn):
  every request to Kubernetes is in the journal before it is made, and is the one that is made again.

  Deadlines of contexts are left out: a call may fail at any time.  \<open>Prepare\<close> (the files of an attempt) and
  \<open>SelectTurn\<close> (what a turn may reuse) are calls here; the journal operations that they use are the steps that
  the rest of the controller takes.
\<close>

definition of_fault :: "fault option \<Rightarrow> fault + unit" where
  "of_fault x = (case x of None \<Rightarrow> Inr () | Some f \<Rightarrow> Inl f)"

definition whole_second_text :: "time \<Rightarrow> string" where
  "whole_second_text t = rfc3339_nano (t div second * second)"

definition pending_fault :: "fault \<Rightarrow> bool" where
  "pending_fault = is_fault (\<lambda>f. f = PreparePending)"

text \<open>Nothing may be provisioned for an attempt that is past its intent or that stops.\<close>

definition provisionable :: "task_grant \<Rightarrow> bool" where
  "provisionable g = (g_State g = Intent \<and> g_Stop g = None)"

section \<open>Capabilities\<close>

definition capability :: "env \<Rightarrow> string \<Rightarrow> string \<Rightarrow> time \<Rightarrow> (fault + string) prog" where
  "capability e i audience expiry =
    andthen (reading (\<lambda>_. CapabilityToken i audience)) (\<lambda>r.
      case r of Inr token \<Rightarrow> Ret (Inr token) | Inl _ \<Rightarrow> writing (\<lambda>c. IssueCapability e c i audience expiry))"

text \<open>For the daemon, the supervisor, the cache and the stop, in this order.\<close>

definition capability_set :: "env \<Rightarrow> string \<Rightarrow> time \<Rightarrow> time \<Rightarrow> (fault + string \<times> string \<times> string \<times> string) prog" where
  "capability_set e i expiry stopExpiry =
    orfail (capability e i ''daemon'' expiry) (\<lambda>api.
    orfail (capability e i ''supervisor'' expiry) (\<lambda>control.
    orfail (capability e i ''cache'' expiry) (\<lambda>cache.
    orfail (capability e i ''stop'' stopExpiry) (\<lambda>stop. Ret (Inr (api, control, cache, stop))))))"

definition prepared_bootstrap :: "env \<Rightarrow> task_grant \<Rightarrow> attempt_bootstrap \<Rightarrow> attempt_bootstrap" where
  "prepared_bootstrap e g b =
    (case g_Prepared g of
       None \<Rightarrow> b
     | Some p \<Rightarrow>
         b\<lparr>bt_PreparedDigest := p_Digest p, bt_AllowedLinks := p_AllowedLinks p, bt_Provider := p_Provider p,
           bt_NativeMetadataDigest := (case p_NativeMetadata p of None \<Rightarrow> [] | Some m \<Rightarrow> NativeMetadata_Digest e m)\<rparr>)"

definition task_bootstrap :: "host \<Rightarrow> task_grant \<Rightarrow> time \<Rightarrow> string \<times> string \<times> string \<times> string \<Rightarrow> attempt_bootstrap" where
  "task_bootstrap h g expiry tokens =
    (case tokens of (api, control, cache, stop) \<Rightarrow>
       zero_attempt_bootstrap\<lparr>bt_OwnerID := g_OwnerID g, bt_TaskID := g_TaskID g, bt_AttemptID := g_AttemptID g,
         bt_StorageID := g_StorageID g, bt_RuntimeID := g_RuntimeID g, bt_WorkspaceID := g_WorkspaceID g,
         bt_AgentID := g_AgentID g, bt_Generation := g_Generation g, bt_PVCName := g_PVCName g, bt_PVCUID := g_PVCUID g,
         bt_TaskRoot := g_TaskRoot g, bt_NFSServer := h_NFSServer h, bt_RuntimeRef := g_RuntimeRef g,
         bt_GatewayURL := h_GatewayURL h, bt_APICapability := api, bt_SupervisorCapability := control,
         bt_StopCapability := stop, bt_CacheCapability := cache, bt_ExpiresAt := whole_second_text expiry,
         bt_Configuration := h_Configuration h, bt_Environment := h_Environment h, bt_GitHubApp := h_GitHubApp h,
         bt_TerminationGraceSeconds := h_TerminationGraceSeconds h\<rparr>)"

definition task_expiry :: "host \<Rightarrow> task_grant \<Rightarrow> time" where
  "task_expiry h g =
    g_CreatedAt g + (h_PreparationSeconds h + h_TaskDeadlineSeconds h + h_TerminationGraceSeconds h + 300) * second"

definition stop_expiry :: "host \<Rightarrow> task_grant \<Rightarrow> time" where
  "stop_expiry h g =
    (let podDeadline = h_PreparationSeconds h + h_TaskDeadlineSeconds h + h_TerminationGraceSeconds h + 30
     in g_CreatedAt g + (h_PreparationSeconds h + podDeadline + WorkerTerminationSeconds (h_TerminationGraceSeconds h) + 300) * second)"

section \<open>Preparing\<close>

definition releasing :: "string \<Rightarrow> fault \<Rightarrow> (fault + unit) prog" where
  "releasing i x = andthen (tell (ReleasePreparation i)) (\<lambda>_. Ret (Inl x))"

definition launch_preparation :: "string \<Rightarrow> (fault + unit) prog" where
  "launch_preparation i =
    andthen (reading (\<lambda>_. Get i)) (\<lambda>current.
      hint_if (case current of Inl _ \<Rightarrow> True | Inr g \<Rightarrow> g_Stop g \<noteq> None) (CancelPreparation i)
        (andthen (tell (LaunchPreparation i)) (\<lambda>_. Ret (Inl PreparePending))))"

definition startPreparation :: "env \<Rightarrow> string \<Rightarrow> (fault + unit) prog" where
  "startPreparation e i =
    orfail (reading (\<lambda>_. Get i)) (\<lambda>g.
      if \<not> provisionable g \<or> g_Prepared g \<noteq> None then Ret (Inl PreparePending)
      else if g_PreparationStarted g then
        andthen (look (Preparing i) an_Flag) (\<lambda>active.
          Ret (Inl (if active then PreparePending else PreparationWritersUnproven)))
      else andthen (look (ReservePreparation i) an_Flag) (\<lambda>reserved.
        if \<not> reserved then Ret (Inl PreparePending)
        else andthen (ask ControllerProcess an_Process) (\<lambda>observed.
          case observed of
            Inl x \<Rightarrow> releasing i (if is_fault (\<lambda>f. f = ObservationPending) x then PreparePending else x)
          | Inr process \<Rightarrow>
              andthen (writing (\<lambda>_. BeginPreparation e i process)) (\<lambda>r.
                case r of Inl x \<Rightarrow> releasing i x | Inr _ \<Rightarrow> launch_preparation i))))"

text \<open>What the goroutine does with the outcome of the preparation.\<close>

definition prepared_outcome :: "env \<Rightarrow> string \<Rightarrow> fault + unit \<Rightarrow> (fault + unit) prog" where
  "prepared_outcome e i r =
    (case r of
       Inr _ \<Rightarrow> ok
     | Inl x \<Rightarrow>
         orfail (reading (\<lambda>_. Get i)) (\<lambda>current.
         orfail (if \<not> g_PreparationStopped current \<and> \<not> is_fault (\<lambda>f. f = PreparationWritersUnproven) x
                 then writing (\<lambda>_. CompletePreparation e i None []) else ok) (\<lambda>_.
           if g_Stop current = None then recordFailure e current (Some x) else ok)))"

definition preparation_job :: "env \<Rightarrow> string \<Rightarrow> (fault + unit) prog" where
  "preparation_job e i =
    andthen (tell (Prepare i)) (\<lambda>r.
      andthen (prepared_outcome e i r) (\<lambda>s.
        andthen (tell (ReleasePreparation i)) (\<lambda>_. hinting (EnqueueAttempt i) (hinting WakePending (Ret s)))))"

section \<open>The Pod of an attempt\<close>

definition with_reference :: "(reference \<Rightarrow> reference) \<Rightarrow> resource_record \<Rightarrow> resource_record" where
  "with_reference f r = r\<lparr>res_Reference := f (res_Reference r)\<rparr>"

definition recover_request :: "attempt_bootstrap \<Rightarrow> resource_record \<Rightarrow> (fault + string option) prog" where
  "recover_request b r =
    (let ref = res_Reference r in
     if \<not> res_PodCreateRequested r then Ret (Inr None)
     else orfail (ask (ResolveCleanupPod ref) an_Text) (\<lambda>uid.
       if uid \<noteq> [] then Ret (Inr (Some uid))
       else andthen (ask (FingerprintPod ref (json_text (bootstrap_json b))) an_Text) (\<lambda>digest.
         Ret (if bt_StopCapability b = [] \<or> digest \<noteq> Inr (kr_PodDigest ref) then Inl PreparePending else Inr None))))"

definition ensure_pod :: "env \<Rightarrow> host \<Rightarrow> string \<Rightarrow> resource_record \<Rightarrow> string \<Rightarrow> (fault + string \<times> resource_record) prog" where
  "ensure_pod e h i r request =
    (let issued = r\<lparr>res_PodRequest := Some request, res_PodCreateRequested := True\<rparr> in
     orfail (saveResources e h i issued) (\<lambda>_.
       andthen (ask (EnsurePod i (res_Reference issued) request) an_Text) (\<lambda>created.
         Ret (case created of
                Inl x \<Rightarrow> Inl (if is_fault (\<lambda>f. f = PodPending) x then PreparePending else x)
              | Inr uid \<Rightarrow> Inr (uid, issued)))))"

text \<open>The UID of the Pod and the record as it is then; no UID is the empty one.\<close>

definition provisionPod ::
  "env \<Rightarrow> host \<Rightarrow> task_grant \<Rightarrow> resource_record \<Rightarrow> attempt_bootstrap \<Rightarrow> (fault + string \<times> resource_record) prog" where
  "provisionPod e h g r b =
    (case res_PodRequest r of
       Some request \<Rightarrow> ensure_pod e h (g_AttemptID g) r request
     | None \<Rightarrow>
         orfail (recover_request b r) (\<lambda>found.
           case found of
             Some uid \<Rightarrow> Ret (Inr (uid, r))
           | None \<Rightarrow>
               orfail (ask (MakePodRequest (res_Reference r) (json_text (bootstrap_json b))) an_Text) (\<lambda>request.
                 ensure_pod e h (g_AttemptID g) r request)))"

definition task_reference :: "host \<Rightarrow> task_grant \<Rightarrow> reference" where
  "task_reference h g =
    zero_reference\<lparr>kr_Namespace := h_Namespace h, kr_Owner := h_Owner h, kr_OwnerID := g_OwnerID g,
      kr_TaskID := g_TaskID g, kr_StorageID := g_StorageID g, kr_AttemptID := g_AttemptID g, kr_PodName := g_PodName g,
      kr_SecretName := ''task-'' @ g_AttemptID g, kr_RuntimeRef := g_RuntimeRef g, kr_PVCName := g_PVCName g,
      kr_PVCUID := g_PVCUID g, kr_TaskRoot := g_TaskRoot g, kr_NFSServer := h_NFSServer h\<rparr>"

definition first_record :: "env \<Rightarrow> host \<Rightarrow> task_grant \<Rightarrow> (fault + resource_record) prog" where
  "first_record e h g =
    (case grant_record h g of
       Inl x \<Rightarrow> Ret (Inl x)
     | Inr r \<Rightarrow>
         (if g_Resources g \<noteq> [] then Ret (Inr r)
          else let fresh = r\<lparr>res_Reference := task_reference h g\<rparr>
               in orfail (saveResources e h (g_AttemptID g) fresh) (\<lambda>_. Ret (Inr fresh))))"

definition observed_volume :: "task_grant \<Rightarrow> resource_record \<Rightarrow> (fault + resource_record) prog" where
  "observed_volume g r =
    (if g_PVCUID g = [] then Ret (Inr r)
     else if kr_PVCUID (res_Reference r) \<noteq> [] \<and> kr_PVCUID (res_Reference r) \<noteq> g_PVCUID g
     then Ret (Inl (OtherFault ''recorded PVC UID conflict''))
     else let s = with_reference (kr_PVCUID_update (\<lambda>_. g_PVCUID g)) r
          in orfail (tell (ValidatePVC (res_Reference s))) (\<lambda>_. Ret (Inr s)))"

definition stopped_pod :: "pod_view \<Rightarrow> bool" where
  "stopped_pod pod = (pv_Deleting pod \<or> pv_Phase pod = ''Failed'' \<or> pv_Phase pod = ''Succeeded'')"

definition observed_pod :: "task_grant \<Rightarrow> resource_record \<Rightarrow> (fault + resource_record) prog" where
  "observed_pod g r =
    (if g_PodUID g = [] then Ret (Inr r)
     else if kr_PodUID (res_Reference r) \<noteq> [] \<and> kr_PodUID (res_Reference r) \<noteq> g_PodUID g
     then Ret (Inl (OtherFault ''recorded Pod UID conflict''))
     else let s = with_reference (kr_PodUID_update (\<lambda>_. g_PodUID g)) r
          in orfail (ask (PodState (res_Reference s)) an_Pod) (\<lambda>pod.
               Ret (if stopped_pod pod
                    then Inl (Wrap (if pv_InitFailed pod then ''worker_initialization_failed'' else ''worker_startup_failed'')
                           StartupPodStopped)
                    else Inr s)))"

text \<open>The bootstrap that the attempt has or is given; \<open>None\<close> when it is not prepared yet.\<close>

definition issued_bootstrap ::
  "env \<Rightarrow> host \<Rightarrow> task_grant \<Rightarrow> (fault + (attempt_bootstrap \<times> string) option) prog" where
  "issued_bootstrap e h g =
    (if g_Bootstrap g \<noteq> [] then
       (case DecodeBootstrap e (h_Origin h) (g_Bootstrap g) of
          Inl x \<Rightarrow> Ret (Inl (JournalError x))
        | Inr b \<Rightarrow> Ret (Inr (Some (b, g_BootstrapDigest g))))
     else orfail (capability_set e (g_AttemptID g) (task_expiry h g) (stop_expiry h g)) (\<lambda>tokens.
       if g_Prepared g = None then Ret (Inr None)
       else
         (let b = prepared_bootstrap e g (task_bootstrap h g (task_expiry h g) tokens); raw = json_text (bootstrap_json b)
          in case DecodeBootstrap e (h_Origin h) raw of
               Inl x \<Rightarrow> Ret (Inl (JournalError x))
             | Inr _ \<Rightarrow>
                 orfail (writing (\<lambda>_. SetBootstrap e (g_AttemptID g) raw)) (\<lambda>_. Ret (Inr (Some (b, e_digest e raw)))))))"

definition fingerprinted :: "attempt_bootstrap \<Rightarrow> resource_record \<Rightarrow> (fault + resource_record) prog" where
  "fingerprinted b r =
    (if res_PodCreateRequested r then Ret (Inr r)
     else orfail (ask (FingerprintPod (res_Reference r) (json_text (bootstrap_json b))) an_Text) (\<lambda>digest.
       Ret (Inr (with_reference (kr_PodDigest_update (\<lambda>_. digest)) r))))"

definition ensured_secret :: "env \<Rightarrow> host \<Rightarrow> string \<Rightarrow> attempt_bootstrap \<Rightarrow> resource_record \<Rightarrow> (fault + resource_record) prog" where
  "ensured_secret e h i b r =
    (if kr_SecretUID (res_Reference r) \<noteq> [] then Ret (Inr r)
     else
       (let asked = r\<lparr>res_SecretCreateRequested := True\<rparr> in
        orfail (if res_SecretCreateRequested r then ok else saveResources e h i asked) (\<lambda>_.
          andthen (ask (EnsureSecret i (res_Reference asked) (json_text (bootstrap_json b))) an_Text) (\<lambda>created.
            case created of
              Inl x \<Rightarrow> Ret (Inl (if is_fault (\<lambda>f. f = SecretPending) x then PreparePending else x))
            | Inr uid \<Rightarrow>
                (let s = with_reference (kr_SecretUID_update (\<lambda>_. uid)) asked
                 in orfail (saveResources e h i s) (\<lambda>_. Ret (Inr s)))))))"

definition bind_worker :: "env \<Rightarrow> host \<Rightarrow> task_grant \<Rightarrow> attempt_bootstrap \<Rightarrow> resource_record \<Rightarrow> (fault + unit) prog" where
  "bind_worker e h g b r =
    (if kr_PodUID (res_Reference r) \<noteq> [] then ok
     else orfail (provisionPod e h g r b) (\<lambda>(uid, s).
       if uid = [] then Ret (Inl PreparePending)
       else orfail (writing (\<lambda>_. BindPod (g_AttemptID g) (g_PodName g) uid [])) (\<lambda>_.
         saveResources e h (g_AttemptID g) (with_reference (kr_PodUID_update (\<lambda>_. uid)) s))))"

definition provision_resources ::
  "env \<Rightarrow> host \<Rightarrow> task_grant \<Rightarrow> resource_record \<Rightarrow> attempt_bootstrap \<Rightarrow> string \<Rightarrow> (fault + unit) prog" where
  "provision_resources e h g r b digest =
    (let i = g_AttemptID g in
     orfail (fingerprinted b (with_reference (kr_RequestDigest_update (\<lambda>_. digest)) r)) (\<lambda>r.
     orfail (saveResources e h i r) (\<lambda>_.
     orfail (ensured_secret e h i b r) (\<lambda>r.
     orfail (reading (\<lambda>_. Get i)) (\<lambda>current.
       if provisionable current then bind_worker e h g b r else ok)))))"

definition lease :: "task_grant \<Rightarrow> (fault + unit) prog" where
  "lease g =
    andthen (tell (PrepareLease (g_RuntimeID g) (g_TaskID g))) (\<lambda>r.
      Ret (case r of Inl x \<Rightarrow> Inl (if leaseRefused x then x else PreparePending) | Inr _ \<Rightarrow> Inr ()))"

definition provision_task :: "env \<Rightarrow> host \<Rightarrow> string \<Rightarrow> (fault + unit) prog" where
  "provision_task e h i =
    orfail (reading (\<lambda>_. Get i)) (\<lambda>g.
      if \<not> provisionable g then ok
      else
        orfail (first_record e h g) (\<lambda>r.
        orfail (observed_volume g (with_reference (kr_Owner_update (\<lambda>_. h_Owner h)) r)) (\<lambda>r.
        orfail (observed_pod g r) (\<lambda>r.
        orfail (saveResources e h i r) (\<lambda>_.
        orfail (lease g) (\<lambda>_.
        orfail (reading (\<lambda>_. Get i)) (\<lambda>g.
          if \<not> provisionable g then ok
          else orfail (issued_bootstrap e h g) (\<lambda>issued.
            case issued of
              None \<Rightarrow> startPreparation e i
            | Some (b, digest) \<Rightarrow> provision_resources e h g r b digest))))))))"

end
