(* ===== verification/Session_Provision.thy ===== *)
theory Session_Provision
  imports Provision
begin

text \<open>
  The Pod of a worker's session and the assignment of a turn to it (\<^verbatim>\<open>controller/session_provision.go\<close>,
  \<^verbatim>\<open>sessionRecord\<close> of \<^verbatim>\<open>session_gateway.go\<close>), and the activation of a waiting claim
  (\<^verbatim>\<open>dispatch.go\<close>, \<^verbatim>\<open>turn_inputs.go\<close>).
\<close>

section \<open>Records of a session\<close>

definition session_reference_ok :: "worker_session \<Rightarrow> reference \<Rightarrow> bool" where
  "session_reference_ok ws ref =
    (kr_WorkerSessionID ref = ws_ID ws \<and> kr_WorkspaceID ref = ck_WorkspaceID (ws_Conversation ws) \<and>
     kr_OwnerID ref = ck_OwnerID (ws_Conversation ws) \<and> kr_WorkspaceAnchorTaskID ref = ws_WorkspaceAnchorTaskID ws \<and>
     kr_StorageID ref = ws_StorageID ws \<and> kr_PodName ref = ws_PodName ws \<and> kr_PVCName ref = ws_PVCName ws \<and>
     kr_PVCUID ref = ws_PVCUID ws \<and> kr_TaskRoot ref = ws_TaskRoot ws \<and> kr_RequestDigest ref = ws_BootstrapDigest ws \<and>
     Ref_Equal (kr_RuntimeRef ref) (ws_RuntimeRef ws) \<and> kr_TaskID ref = [] \<and> kr_AttemptID ref = [] \<and>
     (kr_PodUID ref = [] \<or> kr_PodUID ref = ws_PodUID ws))"

definition sessionRecord :: "host \<Rightarrow> worker_session \<Rightarrow> fault + resource_record" where
  "sessionRecord h ws =
    (if ws_Resources ws = [] then Inl PreparePending
     else case unmarshal (h_UnmarshalRecord h) (ws_Resources ws) of
       None \<Rightarrow> Inl (OtherFault ''invalid session resource journal'')
     | Some r \<Rightarrow>
         (if \<not> session_reference_ok ws (res_Reference r)
          then Inl (OtherFault ''session resource identity differs from journal'')
          else Inr (with_reference (\<lambda>ref. ref\<lparr>kr_PodUID := ws_PodUID ws, kr_NodeID := ws_NodeID ws\<rparr>) r)))"

definition saveSessionResources :: "env \<Rightarrow> host \<Rightarrow> string \<Rightarrow> resource_record \<Rightarrow> (fault + unit) prog" where
  "saveSessionResources e h i r = writing (\<lambda>_. SetSessionResources e i (h_EncodeRecord h r))"

section \<open>Resources of a session\<close>

definition session_reference :: "host \<Rightarrow> worker_session \<Rightarrow> session_bootstrap \<Rightarrow> reference" where
  "session_reference h ws b =
    zero_reference\<lparr>kr_Namespace := h_Namespace h, kr_Owner := h_Owner h, kr_OwnerID := ck_OwnerID (ws_Conversation ws),
      kr_WorkerSessionID := ws_ID ws, kr_WorkspaceID := ck_WorkspaceID (ws_Conversation ws),
      kr_WorkspaceAnchorTaskID := ws_WorkspaceAnchorTaskID ws, kr_StorageID := ws_StorageID ws,
      kr_PodName := ws_PodName ws, kr_SecretName := ws_PodName ws, kr_RequestDigest := ws_BootstrapDigest ws,
      kr_RuntimeRef := ws_RuntimeRef ws, kr_PVCName := ws_PVCName ws, kr_PVCUID := ws_PVCUID ws,
      kr_TaskRoot := ws_TaskRoot ws, kr_NFSServer := sb_NFSServer b\<rparr>"

definition new_session_record ::
  "env \<Rightarrow> host \<Rightarrow> worker_session \<Rightarrow> session_bootstrap \<Rightarrow> (fault + resource_record) prog" where
  "new_session_record e h ws b =
    (let ref = session_reference h ws b in
     orfail (ask (FingerprintSessionPod ref (ws_Bootstrap ws)) an_Text) (\<lambda>digest.
       let named = ref\<lparr>kr_PodDigest := digest\<rparr> in
       orfail (ask (MakeSessionPodRequest named (ws_Bootstrap ws)) an_Text) (\<lambda>pod.
       orfail (ask (MakeSessionSecretRequest named (ws_Bootstrap ws)) an_Text) (\<lambda>secret.
         let r = zero_record\<lparr>res_Reference := named, res_PodRequest := Some pod, res_SecretRequest := Some secret\<rparr>
         in orfail (saveSessionResources e h (ws_ID ws) r) (\<lambda>_. Ret (Inr r))))))"

definition session_pod_known ::
  "env \<Rightarrow> host \<Rightarrow> worker_session \<Rightarrow> resource_record \<Rightarrow> (fault + resource_record) prog" where
  "session_pod_known e h ws r =
    (if ws_PodUID ws = [] then Ret (Inr r)
     else if kr_PodUID (res_Reference r) \<noteq> [] \<and> kr_PodUID (res_Reference r) \<noteq> ws_PodUID ws
     then Ret (Inl (OtherFault ''session Pod UID differs from its create record''))
     else let s = with_reference (kr_PodUID_update (\<lambda>_. ws_PodUID ws)) r
          in orfail (saveSessionResources e h (ws_ID ws) s) (\<lambda>_. Ret (Inr s)))"

text \<open>\<open>None\<close>: the session stops before anything was requested.\<close>

definition session_secret ::
  "env \<Rightarrow> host \<Rightarrow> worker_session \<Rightarrow> resource_record \<Rightarrow> (fault + resource_record option) prog" where
  "session_secret e h ws r =
    (if kr_SecretUID (res_Reference r) \<noteq> [] then Ret (Inr (Some r))
     else if \<not> res_SecretCreateRequested r \<and> ws_Stop ws \<noteq> None then Ret (Inr None)
     else
       (let asked = r\<lparr>res_SecretCreateRequested := True\<rparr> in
        orfail (if res_SecretCreateRequested r then ok else saveSessionResources e h (ws_ID ws) asked) (\<lambda>_.
        orfail (ask (EnsureSessionSecret (ws_ID ws) (res_Reference asked)
            (case res_SecretRequest asked of None \<Rightarrow> [] | Some s \<Rightarrow> s)) an_Text) (\<lambda>uid.
          let s = with_reference (kr_SecretUID_update (\<lambda>_. uid)) asked
          in orfail (saveSessionResources e h (ws_ID ws) s) (\<lambda>_. Ret (Inr (Some s)))))))"

definition session_pod :: "env \<Rightarrow> host \<Rightarrow> worker_session \<Rightarrow> resource_record \<Rightarrow> (fault + unit) prog" where
  "session_pod e h ws r =
    (if kr_PodUID (res_Reference r) \<noteq> [] then ok
     else if \<not> res_PodCreateRequested r \<and> ws_Stop ws \<noteq> None then ok
     else
       (let asked = r\<lparr>res_PodCreateRequested := True\<rparr> in
        orfail (if res_PodCreateRequested r then ok else saveSessionResources e h (ws_ID ws) asked) (\<lambda>_.
        orfail (ask (EnsureSessionPod (ws_ID ws) (res_Reference asked)
            (case res_PodRequest asked of None \<Rightarrow> [] | Some p \<Rightarrow> p)) an_Text) (\<lambda>uid.
        orfail (writing (\<lambda>_. BindSessionPod (ws_ID ws) (ws_PodName ws) uid [])) (\<lambda>_.
          saveSessionResources e h (ws_ID ws) (with_reference (kr_PodUID_update (\<lambda>_. uid)) asked))))))"

definition session_resources ::
  "env \<Rightarrow> host \<Rightarrow> worker_session \<Rightarrow> resource_record \<Rightarrow> (fault + unit) prog" where
  "session_resources e h ws r =
    orfail (session_pod_known e h ws (with_reference (kr_Owner_update (\<lambda>_. h_Owner h)) r)) (\<lambda>r.
    orfail (tell (ValidatePVC (res_Reference r))) (\<lambda>_.
    orfail (session_secret e h ws r) (\<lambda>found.
      case found of
        None \<Rightarrow> ok
      | Some r \<Rightarrow> orfail (reading (\<lambda>_. GetSession (ws_ID ws))) (\<lambda>ws. session_pod e h ws r))))"

definition ensureSessionResources :: "env \<Rightarrow> host \<Rightarrow> string \<Rightarrow> (fault + unit) prog" where
  "ensureSessionResources e h i =
    orfail (reading (\<lambda>_. GetSession i)) (\<lambda>ws.
      if ws_ResourcesCleaned ws \<or> ws_State ws = SessionClosed then ok
      else case DecodeSessionBootstrap e (h_Origin h) (ws_Bootstrap ws) of
        (_, Some x) \<Rightarrow> Ret (Inl (JournalError x))
      | (b, None) \<Rightarrow>
          (if ws_Resources ws = [] then
             (if ws_Stop ws \<noteq> None then ok
              else orfail (new_session_record e h ws b) (session_resources e h ws))
           else case sessionRecord h ws of
             Inl x \<Rightarrow> Ret (Inl x)
           | Inr r \<Rightarrow> session_resources e h ws r))"

section \<open>Assigning a turn\<close>

definition turn_capabilities :: "env \<Rightarrow> string \<Rightarrow> time \<Rightarrow> (fault + string \<times> string \<times> string \<times> string) prog" where
  "turn_capabilities e i expiry = capability_set e i expiry expiry"

definition turn_bootstrap_of ::
  "env \<Rightarrow> host \<Rightarrow> task_grant \<Rightarrow> string \<times> string \<times> int \<Rightarrow> (fault + attempt_bootstrap) prog" where
  "turn_bootstrap_of e h g place =
    (case place of (url, server, grace) \<Rightarrow>
       let expiry = g_CreatedAt g + (h_PreparationSeconds h + h_TaskDeadlineSeconds h + grace + 300) * second in
       orfail (turn_capabilities e (g_AttemptID g) expiry) (\<lambda>tokens.
         Ret (Inr (prepared_bootstrap e g ((task_bootstrap h g expiry tokens)\<lparr>bt_WorkerSessionID := g_WorkerSessionID g,
           bt_TurnSequence := g_TurnSequence g, bt_WorkspaceAnchorTaskID := g_WorkspaceAnchorTaskID g,
           bt_NFSServer := server, bt_GatewayURL := url, bt_ExpiresAt := rfc3339_nano expiry,
           bt_TerminationGraceSeconds := grace\<rparr>)))))"

definition turnBootstrap :: "env \<Rightarrow> host \<Rightarrow> task_grant \<Rightarrow> (fault + attempt_bootstrap) prog" where
  "turnBootstrap e h g =
    orfail (reading (\<lambda>_. GetSession (g_WorkerSessionID g))) (\<lambda>ws.
      if ws_Bootstrap ws = [] then turn_bootstrap_of e h g (h_GatewayURL h, h_NFSServer h, h_TerminationGraceSeconds h)
      else case DecodeSessionBootstrap e (h_Origin h) (ws_Bootstrap ws) of
        (_, Some x) \<Rightarrow> Ret (Inl (JournalError x))
      | (b, None) \<Rightarrow> turn_bootstrap_of e h g (sb_GatewayURL b, sb_NFSServer b, sb_TerminationGraceSeconds b))"

definition session_bootstrap_json :: "session_bootstrap \<Rightarrow> json" where
  "session_bootstrap_json b =
    JObj [(''version'', jint (sb_Version b)), (''workerSessionID'', jstr (sb_WorkerSessionID b)),
      (''conversation'', conversation_key_json (sb_Conversation b)), (''storageID'', jstr (sb_StorageID b)),
      (''workspaceAnchorTaskID'', jstr (sb_WorkspaceAnchorTaskID b)),
      (''compatibilityDigest'', jstr (sb_CompatibilityDigest b)), (''taskRoot'', jstr (sb_TaskRoot b)),
      (''pvcName'', jstr (sb_PVCName b)), (''pvcUID'', jstr (sb_PVCUID b)), (''nfsServer'', jstr (sb_NFSServer b)),
      (''gatewayURL'', jstr (sb_GatewayURL b)), (''provider'', jstr (sb_Provider b)),
      (''runtimeID'', jstr (sb_RuntimeID b)), (''runtimeRef'', ref_json (sb_RuntimeRef b)),
      (''controlCapability'', jstr (sb_ControlCapability b)),
      (''terminationGraceSeconds'', jint (sb_TerminationGraceSeconds b))]"

definition new_session_bootstrap :: "host \<Rightarrow> worker_session \<Rightarrow> string \<Rightarrow> session_bootstrap" where
  "new_session_bootstrap h ws provider =
    \<lparr>sb_Version = session_protocol, sb_WorkerSessionID = ws_ID ws, sb_Conversation = ws_Conversation ws,
     sb_StorageID = ws_StorageID ws, sb_WorkspaceAnchorTaskID = ws_WorkspaceAnchorTaskID ws,
     sb_CompatibilityDigest = ws_CompatibilityDigest ws, sb_TaskRoot = ws_TaskRoot ws, sb_PVCName = ws_PVCName ws,
     sb_PVCUID = ws_PVCUID ws, sb_NFSServer = h_NFSServer h, sb_GatewayURL = h_GatewayURL h, sb_Provider = provider,
     sb_RuntimeID = ws_RuntimeID ws, sb_RuntimeRef = ws_RuntimeRef ws, sb_ControlCapability = ws_ControlToken ws,
     sb_TerminationGraceSeconds = h_TerminationGraceSeconds h\<rparr>"

definition publish_bootstrap :: "env \<Rightarrow> host \<Rightarrow> worker_session \<Rightarrow> string \<Rightarrow> (fault + unit) prog" where
  "publish_bootstrap e h ws provider =
    (if ws_Bootstrap ws \<noteq> [] then ok
     else let b = new_session_bootstrap h ws provider in
       case SessionBootstrap_Validate e (h_Origin h) b of
         Inl x \<Rightarrow> Ret (Inl (JournalError x))
       | Inr _ \<Rightarrow> writing (\<lambda>_. SetSessionBootstrap e (ws_ID ws) (json_text (session_bootstrap_json b))))"

definition turn_assignment_of :: "env \<Rightarrow> host \<Rightarrow> task_grant \<Rightarrow> worker_session \<Rightarrow> attempt_bootstrap \<Rightarrow> provider_run \<Rightarrow> turn_input" where
  "turn_assignment_of e h g ws b run =
    (let a = \<lparr>ti_WorkerSessionID = ws_ID ws, ti_PodUID = ws_PodUID ws, ti_TurnSequence = g_TurnSequence g, ti_InputDigest = [],
           ti_Bootstrap = b, ti_Run = run,
           ti_Deadline = g_CreatedAt g + (h_PreparationSeconds h + h_TaskDeadlineSeconds h) * second\<rparr>
     in a\<lparr>ti_InputDigest := TurnAssignment_Digest e a\<rparr>)"

definition publish_turn ::
  "env \<Rightarrow> host \<Rightarrow> task_grant \<Rightarrow> worker_session \<Rightarrow> turn_input \<Rightarrow> (fault + unit) prog" where
  "publish_turn e h g ws a =
    (case sessionRecord h ws of
       Inl x \<Rightarrow> Ret (Inl x)
     | Inr r \<Rightarrow>
         orfail (saveResources e h (g_AttemptID g) r) (\<lambda>_.
           andthen (tell (AnnotateTurn (res_Reference r) (g_TaskID g) (g_AttemptID g))) (\<lambda>noted.
             case noted of
               Inl x \<Rightarrow> Ret (Inl (if is_fault (\<lambda>f. f = ResourceConflict) x then PreparePending else x))
             | Inr _ \<Rightarrow>
                 (case turn_input_json a of
                    None \<Rightarrow> Ret (Inl (OtherFault ''turn assignment exceeds its transport budget''))
                  | Some v \<Rightarrow>
                      (if MaxAssignmentBytes < int (length (json_text v))
                       then Ret (Inl (OtherFault ''turn assignment exceeds its transport budget''))
                       else writing (\<lambda>c. PublishTurn e c (g_AttemptID g) (json_text v)))))))"

definition assign_turn ::
  "env \<Rightarrow> host \<Rightarrow> task_grant \<Rightarrow> worker_session \<Rightarrow> (fault + unit) prog" where
  "assign_turn e h g ws =
    (case DecodeSessionBootstrap e (h_Origin h) (ws_Bootstrap ws) of
       (_, Some x) \<Rightarrow> Ret (Inl (JournalError x))
     | (boot, None) \<Rightarrow>
         orfail (turnBootstrap e h g) (\<lambda>b.
           case unmarshal (dec_run False h zero_run) (g_Execution g) of
             None \<Rightarrow> Ret (Inl (OtherFault ''prepared turn input is unavailable''))
           | Some run \<Rightarrow>
               (let a = turn_assignment_of e h g ws b run in
                case TurnAssignment_Validate e h a boot (ws_PodUID ws) of
                  Inl x \<Rightarrow> Ret (Inl (JournalError x))
                | Inr _ \<Rightarrow> publish_turn e h g ws a)))"

definition session_assignable :: "env \<Rightarrow> host \<Rightarrow> string \<Rightarrow> string \<Rightarrow> (fault + unit) prog" where
  "session_assignable e h i s =
    orfail (ensureSessionResources e h s) (\<lambda>_.
    orfail (reading (\<lambda>_. GetSession s)) (\<lambda>ws.
      if ws_Stop ws \<noteq> None \<or> ws_SupervisorKey ws = [] then Ret (Inl PreparePending)
      else orfail (reading (\<lambda>_. Get i)) (\<lambda>g. if g_ExecutionRevoked g then ok else assign_turn e h g ws)))"

definition turn_open :: "task_grant \<Rightarrow> bool" where
  "turn_open g = (g_State g = Intent \<and> \<not> g_ExecutionRevoked g)"

definition provisionTurn :: "env \<Rightarrow> host \<Rightarrow> string \<Rightarrow> (fault + unit) prog" where
  "provisionTurn e h i =
    orfail (reading (\<lambda>_. Get i)) (\<lambda>g.
    andthen (look (LocalTry (''session:'' @ g_WorkerSessionID g)) an_Flag) (\<lambda>locked.
      if \<not> locked then Ret (Inl PreparePending)
      else orfail (reading (\<lambda>_. Get i)) (\<lambda>g.
        if \<not> turn_open g then ok
        else orfail (lease g) (\<lambda>_.
        orfail (reading (\<lambda>_. Get i)) (\<lambda>g.
        if \<not> turn_open g then ok
        else orfail (reading (\<lambda>_. GetSession (g_WorkerSessionID g))) (\<lambda>ws.
          if ws_ActiveAttempt ws \<noteq> g_AttemptID g \<or> ws_Stop ws \<noteq> None then ok
          else if g_Assignment g \<noteq> [] then ok
          else orfail (turnBootstrap e h g) (\<lambda>_.
            case g_Prepared g of
              None \<Rightarrow> startPreparation e i
            | Some p \<Rightarrow>
                orfail (publish_bootstrap e h ws (p_Provider p)) (\<lambda>_. session_assignable e h i (ws_ID ws)))))))))"

section \<open>Provisioning and activation\<close>

definition provision :: "env \<Rightarrow> host \<Rightarrow> task_grant \<Rightarrow> (fault + unit) prog" where
  "provision e h g =
    andthen (if g_WorkerSessionID g \<noteq> [] then provisionTurn e h (g_AttemptID g) else provision_task e h (g_AttemptID g)) (\<lambda>r.
      case r of
        Inr _ \<Rightarrow> ok
      | Inl x \<Rightarrow>
          (if \<not> isErr ErrConflict x \<and> \<not> leaseRefused x then Ret (Inl x)
           else andthen (reading (\<lambda>_. Get (g_AttemptID g))) (\<lambda>current.
             Ret (Inl (case current of
                 Inl _ \<Rightarrow> x
               | Inr now \<Rightarrow> if provisionable now then x else PreparePending)))))"

definition resident_limit :: "host \<Rightarrow> int" where
  "resident_limit h = (if h_MaxResidentPods h = 0 then h_Capacity h else h_MaxResidentPods h)"

definition put_off :: "fault \<Rightarrow> bool" where
  "put_off x = (pending_fault x \<or> transientObservation x)"

text \<open>An earlier claim of the same conversation waits as well.\<close>

definition waits_before :: "env \<Rightarrow> task_grant \<Rightarrow> conversation_key \<Rightarrow> task_grant \<Rightarrow> bool" where
  "waits_before e g key x =
    (g_AttemptID x \<noteq> g_AttemptID g \<and> g_State x = WaitingStorage \<and> g_SessionProtocol x \<and> \<not> g_ExecutionRevoked x \<and>
     \<not> g_CreatedAt g < g_CreatedAt x \<and> \<not> (g_CreatedAt x = g_CreatedAt g \<and> g_AttemptID g < g_AttemptID x) \<and>
     (case ParseClaim (g_Envelope x) of Inl _ \<Rightarrow> False | Inr cl \<Rightarrow> ConversationIdentity e (g_OwnerID x) cl = key))"

definition reserve_and_provision :: "env \<Rightarrow> host \<Rightarrow> task_grant \<Rightarrow> (fault + unit) prog" where
  "reserve_and_provision e h g =
    (case g_Selection g of
       None \<Rightarrow> Ret (Inl (OtherFault ''nil pointer dereference''))
     | Some s \<Rightarrow>
         andthen (writing (\<lambda>c. ReserveTurn e c (g_AttemptID g) s (g_CompatibilityDigest g)
             (h_ConversationIdleTimeout h) (resident_limit h))) (\<lambda>r.
           let refused = (\<lambda>x. if isErr ErrStorageBusy x \<or> isErr ErrResidentCapacity x then ok else recordFailure e g (Some x))
           in case r of
             Inl x \<Rightarrow> refused x
           | Inr (Inl x) \<Rightarrow> refused (JournalError x)
           | Inr (Inr (reserved, ws)) \<Rightarrow>
               hinting (EnqueueSession (ws_ID ws))
                 (andthen (provision e h reserved) (\<lambda>r.
                   case r of
                     Inr _ \<Rightarrow> ok
                   | Inl x \<Rightarrow> if put_off x then ok else recordFailure e reserved (Some x)))))"

definition activateTurn :: "env \<Rightarrow> host \<Rightarrow> task_grant \<Rightarrow> (fault + unit) prog" where
  "activateTurn e h g =
    (if g_WorkerSessionID g = [] \<and> \<not> Ref_Equal (g_RuntimeRef g) (h_RuntimeRef h)
     then recordFailure e g (Some (OtherFault ''queued task image does not support the current worker session protocol''))
     else case ParseClaim (g_Envelope g) of
       Inl x \<Rightarrow> Ret (Inl (JournalError x))
     | Inr cl \<Rightarrow>
         (let key = ConversationIdentity e (g_OwnerID g) cl in
          andthen (look (LocalTry (''conversation:'' @ ConversationKey_Digest e key)) an_Flag) (\<lambda>locked.
            if \<not> locked then ok
            else orfail (reading (\<lambda>_ st. Inr (List_grants st))) (\<lambda>grants.
              case find (waits_before e g key) grants of
                Some x \<Rightarrow> hinting (EnqueueAttempt (g_AttemptID x)) ok
              | None \<Rightarrow>
                  (if g_Selection g \<noteq> None then reserve_and_provision e h g
                   else andthen (tell (SelectTurn (g_AttemptID g))) (\<lambda>chosen.
                     case chosen of
                       Inl x \<Rightarrow> if isErr ErrStorageBusy x \<or> transientObservation x then ok else recordFailure e g (Some x)
                     | Inr _ \<Rightarrow> orfail (reading (\<lambda>_. Get (g_AttemptID g))) (reserve_and_provision e h)))))))"

definition activate_task :: "env \<Rightarrow> host \<Rightarrow> task_grant \<Rightarrow> (fault + unit) prog" where
  "activate_task e h input =
    andthen (writing (\<lambda>c. Create e c input (Some (resident_limit h)))) (\<lambda>r.
      let refused = (\<lambda>x.
            if isErr ErrAdmissionBudget x then recordFailure e input (Some x)
            else if isErr ErrStorageBusy x \<or> isErr ErrResidentCapacity x then ok else Ret (Inl x))
      in case r of
        Inl x \<Rightarrow> refused x
      | Inr (Inl x) \<Rightarrow> refused (JournalError x)
      | Inr (Inr g) \<Rightarrow>
          andthen (provision e h g) (\<lambda>r.
            case r of
              Inr _ \<Rightarrow> ok
            | Inl x \<Rightarrow> if put_off x then ok else recordFailure e g None))"

definition lease_failed :: "env \<Rightarrow> task_grant \<Rightarrow> fault \<Rightarrow> (fault + unit) prog" where
  "lease_failed e g x =
    andthen (observeBackendStop g) (\<lambda>(stopped, stopErr).
      if stopped then Ret (of_fault stopErr)
      else if leaseRefused x then recordFailure e g None
      else andthen (API_TaskStatus (g_TaskID g)) (\<lambda>status.
        case status of
          Inr s \<Rightarrow> if terminal_status s then recordFailure e g None else ok
        | Inl _ \<Rightarrow> ok))"

definition activate :: "env \<Rightarrow> host \<Rightarrow> task_grant \<Rightarrow> (fault + unit) prog" where
  "activate e h g =
    orfail (reading (\<lambda>_. Get (g_AttemptID g))) (\<lambda>current.
      if g_Stop current \<noteq> None then ok
      else andthen (look Clock an_Time) (\<lambda>now.
        if \<not> now < g_CreatedAt g + h_PreparationTimeout h then recordFailure e g None
        else andthen (tell (PrepareLease (g_RuntimeID g) (g_TaskID g))) (\<lambda>r.
          case r of
            Inl x \<Rightarrow> lease_failed e g x
          | Inr _ \<Rightarrow> if g_SessionProtocol g then activateTurn e h g else activate_task e h g)))"

end
