(* ===== verification/Reconcile.thy ===== *)
theory Reconcile
  imports Session_Provision
begin

text \<open>
  Reconciliation of an attempt (\<^verbatim>\<open>controller/reconcile.go\<close>, \<^verbatim>\<open>stop.go\<close>): what the
  controller does when an attempt is woken, from the first claim to the cleanup of its Pod and the
  delivery of its result.  Timeouts of contexts are left out.
\<close>

section \<open>Results that were not sealed\<close>

definition final_receipt_for :: "task_grant \<Rightarrow> session_stop_receipt \<Rightarrow> bool" where
  "final_receipt_for g r =
    (ssr_WritersStopped r \<and> ssr_FlushOK r \<and> ssr_WorkerSessionID r = g_WorkerSessionID g \<and>
     ssr_AttemptID r = g_AttemptID g \<and> ssr_TurnSequence r = g_TurnSequence g \<and> ssr_InputDigest r = g_InputDigest g \<and>
     ssr_PodUID r = g_PodUID g \<and> ssr_PVCUID r = g_PVCUID g)"

definition session_stop_settles :: "task_grant \<Rightarrow> terminal \<Rightarrow> worker_session \<Rightarrow> bool" where
  "session_stop_settles g t ws =
    (t_ResultReceipt t \<noteq> None \<and>
     (case ws_Stop ws of
        None \<Rightarrow> False
      | Some s \<Rightarrow>
          ssp_ActiveAttempt s = g_AttemptID g \<and> ssp_ControllerWritersStopped s \<and>
          (case ssp_Receipt s of None \<Rightarrow> False | Some r \<Rightarrow> final_receipt_for g r)))"

definition recovery_body :: string where
  "recovery_body =
    ''{\"error\":\"Execution result was recorded, but worker shutdown proof was not received; task data retained\",\"failure_reason\":\"agent_error.unknown\"}''"

definition record_recovery :: "env \<Rightarrow> task_grant \<Rightarrow> (fault + bool) prog" where
  "record_recovery e g =
    orfail (stopCheckoutWriters (g_AttemptID g)) (\<lambda>_.
      andthen (writing (\<lambda>c. RecordRecoveryFailure e c (g_AttemptID g) recovery_body)) (\<lambda>r.
        case r of
          Inr _ \<Rightarrow> Ret (Inr False)
        | Inl x \<Rightarrow>
            (if \<not> isErr ErrConflict x then Ret (Inl x)
             else andthen (reading (\<lambda>_. Terminal_get (g_AttemptID g))) (\<lambda>current.
               Ret (case current of
                      Inr t \<Rightarrow> if t_Seal t \<noteq> None \<or> t_ResultReceipt t \<noteq> None then Inr False else Inl x
                    | Inl _ \<Rightarrow> Inl x)))))"

text \<open>Whether the attempt must wait for its worker's proof; an error waits too.\<close>

definition await_proof :: "env \<Rightarrow> task_grant \<Rightarrow> terminal \<Rightarrow> stop_evidence \<Rightarrow> time \<Rightarrow> (fault + bool) prog" where
  "await_proof e g t ev grace =
    andthen (look Clock an_Time) (\<lambda>now.
      if now - se_ObservedAt ev < grace then Ret (Inr True)
      else if t_ResultReceipt t \<noteq> None then Ret (Inr False)
      else record_recovery e g)"

definition unsealed :: "task_grant \<Rightarrow> terminal \<Rightarrow> bool" where
  "unsealed g t =
    (t_Source t = SourceWorker \<and> t_Seal t = None \<and> t_RecoveryFailure t = None \<and>
     (t_State t = DReceived \<or> t_ResultReceipt t \<noteq> None) \<and>
     \<not> (t_ResultReceipt t \<noteq> None \<and>
        (case g_Stop g of
           None \<Rightarrow> False
         | Some s \<Rightarrow> (case sp_Receipt s of None \<Rightarrow> False | Some r \<Rightarrow> sr_WritersStopped r \<and> sr_FlushOK r))))"

definition recoverUnsealedResult :: "env \<Rightarrow> host \<Rightarrow> task_grant \<Rightarrow> (fault + bool) prog" where
  "recoverUnsealedResult e h g =
    andthen (reading (\<lambda>_. Terminal_get (g_AttemptID g))) (\<lambda>r.
      case r of
        Inl x \<Rightarrow> Ret (if isErr ErrUnauthorized x then Inr False else Inl x)
      | Inr t \<Rightarrow>
          (if \<not> unsealed g t then Ret (Inr False)
           else case (case g_Stop g of None \<Rightarrow> None | Some s \<Rightarrow> sp_Evidence s) of
             None \<Rightarrow> Ret (Inr True)
           | Some ev \<Rightarrow>
               (if g_WorkerSessionID g = [] then await_proof e g t ev (h_TerminationGrace h)
                else orfail (reading (\<lambda>_. GetSession (g_WorkerSessionID g))) (\<lambda>ws.
                  case sessionTerminationGrace e h ws of
                    Inl x \<Rightarrow> Ret (Inl x)
                  | Inr grace \<Rightarrow>
                      (if session_stop_settles g t ws then Ret (Inr False) else await_proof e g t ev grace)))))"

section \<open>Stopping an attempt\<close>

definition resolved_secret :: "env \<Rightarrow> host \<Rightarrow> task_grant \<Rightarrow> resource_record \<Rightarrow> (fault + resource_record) prog" where
  "resolved_secret e h g r =
    (if \<not> res_SecretCreateRequested r \<or> kr_SecretUID (res_Reference r) \<noteq> [] then Ret (Inr r)
     else orfail (ask (ResolveCleanupSecret (res_Reference r)) an_Text) (\<lambda>uid.
       if uid = [] then Ret (Inr r)
       else let s = with_reference (kr_SecretUID_update (\<lambda>_. uid)) r
            in orfail (saveResources e h (g_AttemptID g) s) (\<lambda>_. Ret (Inr s))))"

text \<open>The Pod of a request that was made before the stop: found, or created by that request.\<close>

definition issued_pod ::
  "env \<Rightarrow> host \<Rightarrow> task_grant \<Rightarrow> resource_record \<Rightarrow> (fault + string \<times> resource_record) prog" where
  "issued_pod e h g r =
    orfail (ask (ResolveCleanupPod (res_Reference r)) an_Text) (\<lambda>uid.
      if uid \<noteq> [] then Ret (Inr (uid, r))
      else case DecodeBootstrap e (h_Origin h) (g_Bootstrap g) of
        Inl x \<Rightarrow> Ret (Inl (JournalError x))
      | Inr b \<Rightarrow>
          orfail (provisionPod e h g (with_reference (kr_Owner_update (\<lambda>_. h_Owner h)) r) b) (\<lambda>(uid, s).
            Ret (if uid = [] then Inl (OtherFault ''worker creation outcome is unresolved'') else Inr (uid, s))))"

definition bound_pod ::
  "env \<Rightarrow> host \<Rightarrow> task_grant \<Rightarrow> resource_record \<Rightarrow> (fault + task_grant \<times> resource_record) prog" where
  "bound_pod e h g r =
    (if g_PodUID g \<noteq> [] \<or> \<not> res_PodCreateRequested r then Ret (Inr (g, r))
     else orfail (issued_pod e h g r) (\<lambda>(uid, s).
       orfail (writing (\<lambda>_. BindPod (g_AttemptID g) (g_PodName g) uid [])) (\<lambda>_.
       orfail (reading (\<lambda>_. Get (g_AttemptID g))) (\<lambda>g. Ret (Inr (g, s))))))"

text \<open>The kind of the evidence and its time; \<open>None\<close> while the Pod is still to stop.\<close>

definition termination_evidence :: "stop_observation \<Rightarrow> evidence_kind \<times> time" where
  "termination_evidence seen = (if so_NeverStarted seen then EvNeverStarted else EvTerminated, so_ObservedAt seen)"

definition stop_kind ::
  "env \<Rightarrow> host \<Rightarrow> task_grant \<Rightarrow> resource_record \<Rightarrow> (fault + (evidence_kind \<times> time) option) prog" where
  "stop_kind e h g r =
    andthen (look Clock an_Time) (\<lambda>now.
      if g_PodUID g = [] then Ret (Inr (Some (EvNoWorker, now)))
      else
        (let s = with_reference (\<lambda>ref. ref\<lparr>kr_PodUID := g_PodUID g, kr_PVCUID := g_PVCUID g\<rparr>) r in
         orfail (saveResources e h (g_AttemptID g) s) (\<lambda>_.
         orfail (ask (ObserveTermination (res_Reference s)) an_Stop) (\<lambda>seen.
           if \<not> so_Stopped seen
           then orfail (tell (DeletePod (g_AttemptID g) (res_Reference s))) (\<lambda>_. Ret (Inr None))
           else Ret (Inr (Some (termination_evidence seen)))))))"

definition prepared_flush :: "task_grant \<Rightarrow> evidence_kind \<Rightarrow> bool prog" where
  "prepared_flush g kind =
    (if kind \<noteq> EvTerminated \<and> g_Prepared g \<noteq> None \<and> g_PreparationStopped g then
       andthen (tell (SyncTaskFilesystem (g_TaskRoot g))) (\<lambda>r. Ret (r = Inr ()))
     else Ret False)"

text \<open>Whether the stop is proven.\<close>

definition prove_stop :: "env \<Rightarrow> host \<Rightarrow> task_grant \<Rightarrow> resource_record \<Rightarrow> (fault + bool) prog" where
  "prove_stop e h g r =
    (if (case g_Stop g of None \<Rightarrow> False | Some s \<Rightarrow> sp_Evidence s \<noteq> None) then Ret (Inr True)
     else orfail (bound_pod e h g r) (\<lambda>(g, r).
       orfail (stop_kind e h g r) (\<lambda>found.
         case found of
           None \<Rightarrow> Ret (Inr False)
         | Some (kind, observed) \<Rightarrow>
             andthen (prepared_flush g kind) (\<lambda>flushed.
             orfail (writing (\<lambda>_. ObserveStop (g_AttemptID g)
                 \<lparr>se_PodUID = g_PodUID g, se_PVCUID = g_PVCUID g, se_Kind = kind, se_ObservedAt = observed,
                  se_PreparedFlushOK = flushed\<rparr>)) (\<lambda>_. Ret (Inr True))))))"

definition close_stopped :: "env \<Rightarrow> host \<Rightarrow> string \<Rightarrow> (fault + unit) prog" where
  "close_stopped e h i =
    orfail (reading (\<lambda>_. Get i)) (\<lambda>g.
    orfail (recoverUnsealedResult e h g) (\<lambda>waiting.
      if waiting then ok
      else orfail (writing (\<lambda>_. CloseStopped i)) (\<lambda>_. hinting WakeClaim (hinting (EnqueueDelivery i) ok))))"

definition stop_open :: "env \<Rightarrow> host \<Rightarrow> task_grant \<Rightarrow> (fault + unit) prog" where
  "stop_open e h g =
    hinting (CancelPreparation (g_AttemptID g))
      (if g_PreparationStarted g \<and> \<not> g_PreparationStopped g then ok
       else case grant_record h g of
         Inl x \<Rightarrow> Ret (Inl x)
       | Inr r \<Rightarrow>
           orfail (resolved_secret e h g r) (\<lambda>r.
           orfail (prove_stop e h g r) (\<lambda>proven. if proven then close_stopped e h (g_AttemptID g) else ok)))"

definition reconcileStop :: "env \<Rightarrow> host \<Rightarrow> task_grant \<Rightarrow> (fault + unit) prog" where
  "reconcileStop e h g =
    (let i = g_AttemptID g in
     if g_Stop g = None then Ret (Inl (OtherFault ''stop intent missing''))
     else if g_WorkerSessionID g \<noteq> [] then hinting (EnqueueSession (g_WorkerSessionID g)) (hinting (EnqueueDelivery i) ok)
     else hint_if (g_State g = TerminalReceived) (EnqueueDelivery i)
       (orfail (stopCheckoutWrites i) (\<lambda>_.
        orfail (reading (\<lambda>_. Get i)) (\<lambda>g.
          if g_State g = Closed then hinting (EnqueueDelivery i) ok else stop_open e h g))))"

section \<open>Closed attempts\<close>

definition cleaned :: "host \<Rightarrow> task_grant \<Rightarrow> (fault + unit) prog" where
  "cleaned h g =
    (case grant_record h g of
       Inl x \<Rightarrow> Ret (Inl x)
     | Inr r \<Rightarrow>
         orfail (tell (Cleanup (g_AttemptID g) (res_Reference r))) (\<lambda>_.
         orfail (writing (\<lambda>_. MarkCleaned (g_AttemptID g))) (\<lambda>_. hinting WakePending ok)))"

text \<open>The cleanup of a stopped attempt: a record that cannot be read ends the whole reconciliation
  (\<open>Inl\<close>), any other error is joined to the one of the delivery.\<close>

definition cleanup_stopped :: "host \<Rightarrow> task_grant \<Rightarrow> (fault + fault option) prog" where
  "cleanup_stopped h g =
    (if g_CleanupComplete g then Ret (Inr None)
     else case grant_record h g of
       Inl x \<Rightarrow> Ret (Inl x)
     | Inr r \<Rightarrow>
         andthen (orfail (if res_SecretCreateRequested r \<or> res_PodCreateRequested r
                          then tell (Cleanup (g_AttemptID g) (res_Reference r)) else ok) (\<lambda>_.
             orfail (writing (\<lambda>_. MarkCleaned (g_AttemptID g))) (\<lambda>_. hinting WakePending ok)))
           (\<lambda>s. Ret (Inr (case s of Inl x \<Rightarrow> Some x | Inr _ \<Rightarrow> None))))"

definition joined :: "fault option \<Rightarrow> fault + unit \<Rightarrow> fault + unit" where
  "joined x r =
    (case r of
       Inl y \<Rightarrow> Inl (join_faults x y)
     | Inr _ \<Rightarrow> of_fault x)"

definition reconcileClosed :: "env \<Rightarrow> host \<Rightarrow> task_grant \<Rightarrow> (fault + unit) prog" where
  "reconcileClosed e h g =
    (if g_WorkerSessionID g \<noteq> [] then deliverResult e h g
     else if g_Stop g = None then (if g_CleanupComplete g then ok else cleaned h g)
     else orfail (recoverUnsealedResult e h g) (\<lambda>waiting.
       if waiting then ok
       else orfail (cleanup_stopped h g) (\<lambda>x. andthen (deliverResult e h g) (\<lambda>r. Ret (joined x r)))))"

definition deliverable_now :: "task_grant \<Rightarrow> terminal \<Rightarrow> bool" where
  "deliverable_now g t =
    (t_Source t = SourceWorker \<and> (t_Seal t \<noteq> None \<or> t_ResultReceipt t \<noteq> None) \<and>
     (g_StartConfirmed g \<or> t_Kind t = KindCancelAck \<and> g_ExecutionRevoked g))"

definition reconcileDelivery :: "env \<Rightarrow> host \<Rightarrow> string \<Rightarrow> (fault + unit) prog" where
  "reconcileDelivery e h i =
    orfail (reading (\<lambda>_. Get i)) (\<lambda>g.
      if g_WorkerSessionID g \<noteq> [] \<and> g_State g = Closed then
        orfail (deliverResult e h g) (\<lambda>_. finishTurn e i)
      else if g_State g = TerminalReceived then
        orfail (reading (\<lambda>_. Terminal_get i)) (\<lambda>t. if deliverable_now g t then deliverResult e h g else ok)
      else if g_State g \<noteq> Closed then ok
      else orfail (reading (\<lambda>_. Get i)) (reconcileClosed e h))"

section \<open>Open attempts\<close>

definition deliver :: "env \<Rightarrow> host \<Rightarrow> string \<Rightarrow> (fault + unit) prog" where
  "deliver e h i =
    orfail (reading (\<lambda>_. Get i)) (\<lambda>g.
      if g_Stop g \<noteq> None then reconcileStop e h g
      else if g_State g \<noteq> TerminalReceived then Ret (Inl (OtherFault ''terminal attempt inactive''))
      else orfail (reading (\<lambda>_. Terminal_get i)) (\<lambda>t.
        if t_Seal t = None \<and> t_ResultReceipt t = None then ok
        else if g_WorkerSessionID g \<noteq> [] \<and> turnCanSettle t then hinting (EnqueueDelivery i) (finishTurn e i)
        else hinting (EnqueueDelivery i)
          (orfail (requestStop g ''execution_finished'') (reconcileStop e h))))"

definition stop_and_reconcile :: "env \<Rightarrow> host \<Rightarrow> task_grant \<Rightarrow> string \<Rightarrow> (fault + unit) prog" where
  "stop_and_reconcile e h g reason = orfail (requestStop g reason) (reconcileStop e h)"

definition stopFailedStartup :: "env \<Rightarrow> host \<Rightarrow> string \<Rightarrow> fault \<Rightarrow> (fault + unit) prog" where
  "stopFailedStartup e h i cause =
    orfail (reading (\<lambda>_. Get i)) (\<lambda>current.
      if \<not> provisionable current then hinting (EnqueueAttempt i) ok
      else orfail (recordFailure e current (Some cause)) (\<lambda>_.
        orfail (reading (\<lambda>_. Get i)) (\<lambda>current.
          if g_State current \<noteq> Quarantined \<and> g_State current \<noteq> Unexecuted then hinting (EnqueueAttempt i) ok
          else stop_and_reconcile e h current (failureReason (Some cause) ''worker_startup_failed''))))"

definition reconcile_intent :: "env \<Rightarrow> host \<Rightarrow> bool \<Rightarrow> task_grant \<Rightarrow> (fault + unit) prog" where
  "reconcile_intent e h preparing g =
    andthen (look Clock an_Time) (\<lambda>now.
      if h_PreparationTimeout h < now - g_CreatedAt g then (if preparing then ok else recordFailure e g None)
      else andthen (provision e h g) (\<lambda>r.
        case r of
          Inr _ \<Rightarrow> ok
        | Inl x \<Rightarrow>
            (if put_off x then ok
             else andthen (observeBackendStop g) (\<lambda>(stopped, stopErr).
               if stopped then Ret (of_fault stopErr)
               else if is_fault (\<lambda>f. f = StartupPodStopped) x then stopFailedStartup e h (g_AttemptID g) x
               else recordFailure e g (Some x)))))"

definition reconcile_terminal :: "env \<Rightarrow> host \<Rightarrow> task_grant \<Rightarrow> (fault + unit) prog" where
  "reconcile_terminal e h g =
    orfail (reading (\<lambda>_. Terminal_get (g_AttemptID g))) (\<lambda>t.
      if \<not> (t_State t = DReceived \<and> t_ResultReceipt t = None) then deliver e h (g_AttemptID g)
      else case grant_record h g of
        Inl x \<Rightarrow> Ret (Inl x)
      | Inr r \<Rightarrow>
          orfail (ask (ObserveTermination (res_Reference r)) an_Stop) (\<lambda>seen.
            if so_Stopped seen then stop_and_reconcile e h g ''worker_unsealed''
            else deliver e h (g_AttemptID g)))"

text \<open>Whether the reconciliation of a pending attempt goes on after its lease, and with what it ends.\<close>

definition running_upstream :: "task_grant \<Rightarrow> bool prog" where
  "running_upstream g =
    (if g_State g \<noteq> Starting then Ret False
     else andthen (sameAssignment g) (\<lambda>same.
       if \<not> same then Ret False
       else andthen (API_TaskStatus (g_TaskID g)) (\<lambda>status. Ret (status = Inr ''running''))))"

definition lease_refusal :: "env \<Rightarrow> string \<Rightarrow> fault \<Rightarrow> (fault + unit) option prog" where
  "lease_refusal e i x =
    andthen (reading (\<lambda>_. Get i)) (\<lambda>r.
      case r of
        Inl y \<Rightarrow> Ret (Some (Inl y))
      | Inr current \<Rightarrow>
          (if g_State current = Started \<or> g_State current = TerminalReceived then Ret (Some (Inr ()))
           else andthen (observeBackendStop current) (\<lambda>(stopped, stopErr).
             if stopped then Ret (Some (of_fault stopErr))
             else andthen (running_upstream current) (\<lambda>running.
               if running then Ret (Some (Inr ()))
               else if leaseRefused x then andthen (recordFailure e current (Some x)) (\<lambda>s. Ret (Some s))
               else Ret None))))"

definition renew_lease :: "env \<Rightarrow> host \<Rightarrow> task_grant \<Rightarrow> (fault + unit) option prog" where
  "renew_lease e h g =
    (if g_State g \<notin> {Assigned, Ready, Offered, Starting} then Ret None
     else andthen (look Clock an_Time) (\<lambda>now.
       if h_PreparationTimeout h < now - g_CreatedAt g then andthen (recordFailure e g None) (\<lambda>s. Ret (Some s))
       else andthen (tell (PrepareLease (g_RuntimeID g) (g_TaskID g))) (\<lambda>r.
         case r of Inr _ \<Rightarrow> Ret None | Inl x \<Rightarrow> lease_refusal e (g_AttemptID g) x)))"

definition turn_overdue :: "env \<Rightarrow> host \<Rightarrow> task_grant \<Rightarrow> (fault + bool) prog" where
  "turn_overdue e h g =
    (if g_WorkerSessionID g = [] \<or> g_State g \<noteq> Started then Ret (Inr False)
     else case DecodeTurnAssignment e h (g_Assignment g) of
       Inl x \<Rightarrow> Ret (Inl (JournalError x))
     | Inr a \<Rightarrow> andthen (look Clock an_Time) (\<lambda>now. Ret (Inr (\<not> now < ti_Deadline a))))"

definition check_pod :: "env \<Rightarrow> host \<Rightarrow> task_grant \<Rightarrow> (fault + unit) prog" where
  "check_pod e h g =
    (case grant_record h g of
       Inl x \<Rightarrow> Ret (Inl x)
     | Inr r \<Rightarrow>
         andthen (ask (PodState (res_Reference r)) an_Pod) (\<lambda>seen.
           case seen of
             Inl x \<Rightarrow> if transientObservation x then Ret (Inl x) else recordFailure e g None
           | Inr pod \<Rightarrow> if stopped_pod pod then recordFailure e g None else ok))"

definition reconcile_pending :: "env \<Rightarrow> host \<Rightarrow> task_grant \<Rightarrow> (fault + unit) prog" where
  "reconcile_pending e h g =
    andthen (renew_lease e h g) (\<lambda>ended.
      case ended of
        Some r \<Rightarrow> Ret r
      | None \<Rightarrow>
          orfail (turn_overdue e h g) (\<lambda>late.
            if late then stop_and_reconcile e h g ''task_deadline_exceeded'' else check_pod e h g))"

definition reconcile_open :: "env \<Rightarrow> host \<Rightarrow> bool \<Rightarrow> task_grant \<Rightarrow> (fault + unit) prog" where
  "reconcile_open e h preparing g =
    (if g_Stop g \<noteq> None then reconcileStop e h g
     else andthen (observeBackendStop g) (\<lambda>(stopped, stopErr).
       if stopped then
         orfail (Ret (of_fault stopErr)) (\<lambda>_. orfail (reading (\<lambda>_. Get (g_AttemptID g))) (reconcileStop e h))
       else if g_State g = Quarantined \<or> g_State g = Unexecuted then stop_and_reconcile e h g ''worker_unavailable''
       else if g_State g = WaitingStorage then activate e h g
       else if g_State g = Intent then reconcile_intent e h preparing g
       else if g_State g = TerminalReceived then reconcile_terminal e h g
       else reconcile_pending e h g))"

text \<open>A preparation that an earlier controller process left behind.\<close>

definition interrupted_preparation :: "env \<Rightarrow> task_grant \<Rightarrow> preparation_process \<Rightarrow> (fault + task_grant) prog" where
  "interrupted_preparation e g p =
    (let i = g_AttemptID g in
     orfail (writing (\<lambda>c. InterruptPreparation e c i p)) (\<lambda>_.
     orfail (reading (\<lambda>_. Get i)) (\<lambda>g.
       if \<not> provisionable g then Ret (Inr g)
       else orfail (recordFailure e g (Some (Diagnosed ''preparation_controller_restarted''
              (OtherFault ''preparation container terminated'')))) (\<lambda>_. reading (\<lambda>_. Get i)))))"

definition adopt_preparation :: "env \<Rightarrow> bool \<Rightarrow> task_grant \<Rightarrow> (fault + task_grant) prog" where
  "adopt_preparation e startedHere g =
    (case g_PreparationProcess g of
       None \<Rightarrow> Ret (Inr g)
     | Some p \<Rightarrow>
         (if \<not> g_PreparationStarted g \<or> g_PreparationStopped g \<or> startedHere then Ret (Inr g)
          else orfail (ask (PreparationStopped p) an_Flag) (\<lambda>stopped.
            if stopped then interrupted_preparation e g p else Ret (Inr g))))"

definition reconcileAttempt :: "env \<Rightarrow> host \<Rightarrow> string \<Rightarrow> (fault + unit) prog" where
  "reconcileAttempt e h i =
    andthen (look (LocalTry i) an_Flag) (\<lambda>locked.
      orfail (reading (\<lambda>_. Get i)) (\<lambda>g.
        if g_State g = Closed then hinting (EnqueueDelivery i) ok
        else if \<not> locked then ok
        else
          orfail (recoverCheckoutWriter i) (\<lambda>_.
          orfail (reading (\<lambda>_. Get i)) (\<lambda>g.
          andthen (look (PreparingHere i) an_Flag) (\<lambda>startedHere.
          andthen (look (Preparing i) an_Flag) (\<lambda>preparing.
          orfail (adopt_preparation e startedHere g) (reconcile_open e h preparing)))))))"

end
