(* ===== verification/Session_Gateway.thy ===== *)
theory Session_Gateway
  imports Reconcile
begin

text \<open>
  The routes of a resident worker (\<^verbatim>\<open>controller/session_gateway.go\<close>) and the reconciliation of its
  session (\<^verbatim>\<open>session_reconcile.go\<close>).  The one-time challenges live in the controller's memory; a
  transaction is given the table as it finds it.
\<close>

section \<open>Reading the requests\<close>

definition challenge_names :: "string list" where
  "challenge_names =
    [''operation'', ''workerSessionID'', ''podUID'', ''pvcUID'', ''turnSequence'', ''attemptID'', ''bodyDigest'', ''nonce'',
     ''expiresAt'', ''signature'']"

definition zero_proof :: session_proof where
  "zero_proof =
    \<lparr>pf_Challenge = \<lparr>ch_Operation = [], ch_WorkerSessionID = [], ch_PodUID = [], ch_PVCUID = [], ch_TurnSequence = 0,
       ch_AttemptID = [], ch_BodyDigest = [], ch_Nonce = [], ch_ExpiresAt = 0\<rparr>, pf_Signature = []\<rparr>"

definition dec_proof :: "session_proof \<Rightarrow> json \<Rightarrow> session_proof option" where
  "dec_proof z =
    (let c = pf_Challenge z; str = (\<lambda>w n ms. dec_field dec_string w challenge_names n ms) in
     dec_strict z challenge_names (\<lambda>ms. do {
       p \<leftarrow> str (ch_Operation c) ''operation'' ms; w \<leftarrow> str (ch_WorkerSessionID c) ''workerSessionID'' ms;
       pod \<leftarrow> str (ch_PodUID c) ''podUID'' ms; pvc \<leftarrow> str (ch_PVCUID c) ''pvcUID'' ms;
       n \<leftarrow> dec_field dec_u64 (ch_TurnSequence c) challenge_names ''turnSequence'' ms;
       i \<leftarrow> str (ch_AttemptID c) ''attemptID'' ms; d \<leftarrow> str (ch_BodyDigest c) ''bodyDigest'' ms;
       nonce \<leftarrow> str (ch_Nonce c) ''nonce'' ms; t \<leftarrow> dec_field dec_time (ch_ExpiresAt c) challenge_names ''expiresAt'' ms;
       s \<leftarrow> dec_field dec_bytes (pf_Signature z) challenge_names ''signature'' ms;
       Some \<lparr>pf_Challenge = \<lparr>ch_Operation = p, ch_WorkerSessionID = w, ch_PodUID = pod, ch_PVCUID = pvc, ch_TurnSequence = n,
         ch_AttemptID = i, ch_BodyDigest = d, ch_Nonce = nonce, ch_ExpiresAt = t\<rparr>, pf_Signature = s\<rparr>
     }))"

text \<open>A proof and the raw body it is for.\<close>

definition dec_control_request :: "json \<Rightarrow> (session_proof \<times> string) option" where
  "dec_control_request =
    (let names = [''proof'', ''body''] in
     dec_strict (zero_proof, []) names (\<lambda>ms. do {
       p \<leftarrow> dec_field dec_proof zero_proof names ''proof'' ms; b \<leftarrow> dec_field dec_raw [] names ''body'' ms;
       Some (p, b)
     }))"

definition session_state_of :: "string \<Rightarrow> session_state" where
  "session_state_of s =
    (if s = ''creating'' then SessionCreating else if s = ''reserved'' then SessionReserved
     else if s = ''running'' then SessionRunning else if s = ''finishing'' then SessionFinishing
     else if s = ''idle'' then SessionIdle else OtherSession s)"

definition dec_session_poll :: "json \<Rightarrow> (u64 \<times> session_state) option" where
  "dec_session_poll =
    (let names = [''turnSequence'', ''state''] in
     dec_strict (0, OtherSession []) names (\<lambda>ms. do {
       n \<leftarrow> dec_field dec_u64 0 names ''turnSequence'' ms; s \<leftarrow> dec_field dec_string [] names ''state'' ms;
       Some (n, session_state_of s)
     }))"

definition session_stop_receipt_names :: "string list" where
  "session_stop_receipt_names =
    [''workerSessionID'', ''attemptID'', ''inputDigest'', ''turnSequence'', ''podUID'', ''pvcUID'', ''revision'', ''nonce'',
     ''writersStopped'', ''flushOK'', ''signature'']"

definition dec_session_stop_receipt :: "json \<Rightarrow> session_stop_receipt option" where
  "dec_session_stop_receipt =
    (let names = session_stop_receipt_names; str = (\<lambda>n ms. dec_field dec_string [] names n ms);
         num = (\<lambda>n ms. dec_field dec_u64 0 names n ms); flag = (\<lambda>n ms. dec_field dec_bool False names n ms) in
     dec_strict \<lparr>ssr_WorkerSessionID = [], ssr_AttemptID = [], ssr_InputDigest = [], ssr_TurnSequence = 0, ssr_PodUID = [],
       ssr_PVCUID = [], ssr_Revision = 0, ssr_Nonce = [], ssr_WritersStopped = False, ssr_FlushOK = False,
       ssr_Signature = []\<rparr> names (\<lambda>ms. do {
       w \<leftarrow> str ''workerSessionID'' ms; i \<leftarrow> str ''attemptID'' ms; d \<leftarrow> str ''inputDigest'' ms; n \<leftarrow> num ''turnSequence'' ms;
       pod \<leftarrow> str ''podUID'' ms; pvc \<leftarrow> str ''pvcUID'' ms; v \<leftarrow> num ''revision'' ms; nonce \<leftarrow> str ''nonce'' ms;
       stopped \<leftarrow> flag ''writersStopped'' ms; flushed \<leftarrow> flag ''flushOK'' ms; s \<leftarrow> dec_field dec_bytes [] names ''signature'' ms;
       Some \<lparr>ssr_WorkerSessionID = w, ssr_AttemptID = i, ssr_InputDigest = d, ssr_TurnSequence = n, ssr_PodUID = pod,
         ssr_PVCUID = pvc, ssr_Revision = v, ssr_Nonce = nonce, ssr_WritersStopped = stopped, ssr_FlushOK = flushed,
         ssr_Signature = s\<rparr>
     }))"

definition execution_receipt_names :: "string list" where
  "execution_receipt_names =
    [''workerSessionID'', ''conversation'', ''storageID'', ''taskID'', ''attemptID'', ''generation'', ''turnSequence'',
     ''inputDigest'', ''podUID'', ''pvcUID'', ''resultDigest'', ''requestDigest'', ''nonce'', ''taskProcessesStopped'',
     ''localRequestsClosed'', ''privateStateCleared'', ''signature'']"

definition zero_execution_receipt :: turn_execution_receipt where
  "zero_execution_receipt =
    \<lparr>ter_WorkerSessionID = [], ter_Conversation = zero_conversation_key, ter_StorageID = [], ter_TaskID = [],
     ter_AttemptID = [], ter_Generation = 0, ter_TurnSequence = 0, ter_InputDigest = [], ter_PodUID = [], ter_PVCUID = [],
     ter_ResultDigest = [], ter_RequestDigest = [], ter_Nonce = [], ter_TaskProcessesStopped = False,
     ter_LocalRequestsClosed = False, ter_PrivateStateCleared = False, ter_Signature = []\<rparr>"

definition dec_execution_receipt :: "json \<Rightarrow> turn_execution_receipt option" where
  "dec_execution_receipt =
    (let names = execution_receipt_names; str = (\<lambda>n ms. dec_field dec_string [] names n ms);
         num = (\<lambda>n ms. dec_field dec_u64 0 names n ms); flag = (\<lambda>n ms. dec_field dec_bool False names n ms) in
     dec_strict zero_execution_receipt names (\<lambda>ms. do {
       w \<leftarrow> str ''workerSessionID'' ms;
       key \<leftarrow> dec_field (strictly key_names dec_key) zero_conversation_key names ''conversation'' ms;
       storage \<leftarrow> str ''storageID'' ms; task \<leftarrow> str ''taskID'' ms; i \<leftarrow> str ''attemptID'' ms; gen \<leftarrow> num ''generation'' ms;
       n \<leftarrow> num ''turnSequence'' ms; d \<leftarrow> str ''inputDigest'' ms; pod \<leftarrow> str ''podUID'' ms; pvc \<leftarrow> str ''pvcUID'' ms;
       result \<leftarrow> str ''resultDigest'' ms; request \<leftarrow> str ''requestDigest'' ms; nonce \<leftarrow> str ''nonce'' ms;
       stopped \<leftarrow> flag ''taskProcessesStopped'' ms; closed \<leftarrow> flag ''localRequestsClosed'' ms;
       cleared \<leftarrow> flag ''privateStateCleared'' ms; s \<leftarrow> dec_field dec_bytes [] names ''signature'' ms;
       Some \<lparr>ter_WorkerSessionID = w, ter_Conversation = key, ter_StorageID = storage, ter_TaskID = task,
         ter_AttemptID = i, ter_Generation = gen, ter_TurnSequence = n, ter_InputDigest = d, ter_PodUID = pod,
         ter_PVCUID = pvc, ter_ResultDigest = result, ter_RequestDigest = request, ter_Nonce = nonce,
         ter_TaskProcessesStopped = stopped, ter_LocalRequestsClosed = closed, ter_PrivateStateCleared = cleared,
         ter_Signature = s\<rparr>
     }))"

section \<open>Stopping the controller's writers\<close>

text \<open>The writers of the turn that was active at the stop: preparation and checkouts.\<close>

definition writers_joined :: "task_grant \<Rightarrow> bool" where
  "writers_joined g \<longleftrightarrow>
    (g_PreparationStarted g \<longrightarrow> g_PreparationStopped g) \<and> g_CheckoutProcess g = None \<and> g_CheckoutClosed g"

definition active_at_stop :: "worker_session \<Rightarrow> string" where
  "active_at_stop ws = (case ws_Stop ws of None \<Rightarrow> [] | Some s \<Rightarrow> ssp_ActiveAttempt s)"

definition stopSessionControllerWriters :: "worker_session \<Rightarrow> (fault + bool) prog" where
  "stopSessionControllerWriters ws =
    (if ws_Stop ws = None then Ret (Inl (JournalError ErrConflict))
     else if active_at_stop ws = [] then Ret (Inr True)
     else hinting (CancelPreparation (active_at_stop ws))
       (orfail (stopCheckoutWriters (active_at_stop ws)) (\<lambda>_.
        orfail (reading (\<lambda>_. Get (active_at_stop ws))) (\<lambda>g. Ret (Inr (writers_joined g))))))"

definition fenceSessionWriters :: "worker_session \<Rightarrow> (fault + bool) prog" where
  "fenceSessionWriters ws =
    orfail (stopSessionControllerWriters ws) (\<lambda>stopped.
      if \<not> stopped then Ret (Inr False)
      else andthen (ask (TaskDirectory (ws_TaskRoot ws)) an_Flag) (\<lambda>found.
        if found \<noteq> Inr True then Ret (Inr False)
        else andthen (tell (SyncTaskFilesystem (ws_TaskRoot ws))) (\<lambda>synced.
          if synced \<noteq> Inr () then Ret (Inr False)
          else if active_at_stop ws = [] then Ret (Inr True)
          else orfail (writing (\<lambda>_. CheckoutsFlushed (active_at_stop ws))) (\<lambda>_. Ret (Inr True)))))"

definition zero_stop_command :: session_stop_command where
  "zero_stop_command =
    \<lparr>ssc_Reason = [], ssc_Revision = 0, ssc_Nonce = [], ssc_TurnSequence = 0, ssc_AttemptID = [], ssc_InputDigest = [],
     ssc_ControllerWritersStopped = False\<rparr>"

definition sessionStopIdentity :: "worker_session \<Rightarrow> session_stop_command" where
  "sessionStopIdentity ws =
    (case ws_Stop ws of
       None \<Rightarrow> zero_stop_command
     | Some s \<Rightarrow>
         \<lparr>ssc_Reason = (if ws_ProtocolVersion ws = session_protocol then ssp_Reason s else []), ssc_Revision = ssp_Revision s,
          ssc_Nonce = ssp_Nonce s, ssc_TurnSequence = ws_TurnSequence ws, ssc_AttemptID = ws_LastAttemptID ws,
          ssc_InputDigest = ws_InputDigest ws, ssc_ControllerWritersStopped = ssp_ControllerWritersStopped s\<rparr>)"

definition sessionStopCommand :: "worker_session \<Rightarrow> (fault + session_stop_command) prog" where
  "sessionStopCommand ws =
    (case ws_Stop ws of
       None \<Rightarrow> Ret (Inr zero_stop_command)
     | Some s \<Rightarrow>
         (if ssp_ControllerWritersStopped s then Ret (Inr (sessionStopIdentity ws))
          else orfail (fenceSessionWriters ws) (\<lambda>fenced.
            if \<not> fenced then Ret (Inr (sessionStopIdentity ws))
            else orfail (writing (\<lambda>_. RecordSessionControllerFlush (ws_ID ws))) (\<lambda>_.
              orfail (reading (\<lambda>_. GetSession (ws_ID ws))) (\<lambda>now. Ret (Inr (sessionStopIdentity now)))))))"

section \<open>Polling\<close>

datatype session_reply =
    SessionRefused nat
  | SessionDone
  | SessionPolled session_poll_response
  | SessionStopped session_stop_command
  | SessionChallenged session_challenge

definition session_error :: "fault \<Rightarrow> session_reply" where
  "session_error x =
    SessionRefused (if isErr ErrUnauthorized x then 403 else if isErr ErrConflict x then 409 else 503)"

definition liveSession :: "host \<Rightarrow> worker_session \<Rightarrow> (fault + unit) prog" where
  "liveSession h ws =
    (case sessionRecord h ws of
       Inl x \<Rightarrow> Ret (Inl x)
     | Inr r \<Rightarrow> tell (KubeAuthorize ((res_Reference r)\<lparr>kr_Owner := h_Owner h\<rparr>)))"

definition authorize_session :: "env \<Rightarrow> session_proof \<Rightarrow> (fault + worker_session) prog" where
  "authorize_session e p =
    andthen (look SessionChallenges an_Challenges) (\<lambda>chs. reading (\<lambda>c. AuthorizeSession e c chs p))"

definition poll_base :: "worker_session \<Rightarrow> session_poll_response" where
  "poll_base ws =
    \<lparr>spr_WorkerSessionID = ws_ID ws, spr_TurnSequence = ws_TurnSequence ws, spr_SettledTurnSequence = 0,
     spr_State = ws_State ws, spr_Assignment = None, spr_IdleDeadline = ws_IdleDeadline ws, spr_Stop = None\<rparr>"

definition settled_turn :: "worker_session \<Rightarrow> (fault + u64) prog" where
  "settled_turn ws =
    (if ws_LastCompleteAttempt ws = [] then Ret (Inr 0)
     else andthen (reading (\<lambda>_. Get (ws_LastCompleteAttempt ws))) (\<lambda>r.
       Ret (case r of
              Inr g \<Rightarrow> if g_TurnComplete g \<and> g_WorkerSessionID g = ws_ID ws then Inr (g_TurnSequence g)
                      else Inl (JournalError ErrConflict)
            | Inl _ \<Rightarrow> Inl (JournalError ErrConflict))))"

definition same_binding :: "worker_session \<Rightarrow> fault + worker_session \<Rightarrow> bool" where
  "same_binding ws r =
    (case r of
       Inl _ \<Rightarrow> False
     | Inr now \<Rightarrow> ws_Revision now = ws_Revision ws \<and> ws_ActiveAttempt now = ws_ActiveAttempt ws \<and> ws_Stop now = None)"

text \<open>What a reserved session is to run; \<open>None\<close> when there is nothing to hand out.\<close>

definition offered_assignment :: "env \<Rightarrow> host \<Rightarrow> worker_session \<Rightarrow> u64 \<Rightarrow> (fault + turn_input option) prog" where
  "offered_assignment e h ws polled =
    (let refused = Ret (Inl (JournalError ErrConflict)) in
     if ws_ActiveAttempt ws = [] then Ret (Inr None)
     else andthen (reading (\<lambda>_. Get (ws_ActiveAttempt ws))) (\<lambda>r.
       case r of
         Inl _ \<Rightarrow> refused
       | Inr g \<Rightarrow>
           (if g_WorkerSessionID g \<noteq> ws_ID ws \<or> g_TurnSequence g \<noteq> ws_TurnSequence ws then refused
            else if polled < ws_TurnSequence ws \<and> (ws_State ws = SessionRunning \<or> ws_State ws = SessionFinishing) then refused
            else if ws_State ws \<noteq> SessionReserved \<or> g_Assignment g = [] then Ret (Inr None)
            else case (DecodeSessionBootstrap e (h_Origin h) (ws_Bootstrap ws),
                unmarshal (dec_turn_input False h) (g_Assignment g)) of
              ((b, None), Some a) \<Rightarrow>
                (if TurnAssignment_Validate e h a b (ws_PodUID ws) \<noteq> Inr () \<or> ti_InputDigest a \<noteq> g_InputDigest g then refused
                 else andthen (look Clock an_Time) (\<lambda>now. if now < ti_Deadline a then Ret (Inr (Some a)) else refused))
            | _ \<Rightarrow> refused)))"

definition live_poll ::
  "env \<Rightarrow> host \<Rightarrow> worker_session \<Rightarrow> u64 \<Rightarrow> session_proof \<Rightarrow> session_poll_response \<Rightarrow> (fault + session_poll_response) prog" where
  "live_poll e h ws polled p response =
    orfail (liveSession h ws) (\<lambda>_.
      andthen (authorize_session e p) (\<lambda>current.
        if \<not> same_binding ws current then Ret (Inl PreparePending)
        else orfail (offered_assignment e h ws polled) (\<lambda>a. Ret (Inr (response\<lparr>spr_Assignment := a\<rparr>)))))"

definition sessionPoll ::
  "env \<Rightarrow> host \<Rightarrow> worker_session \<Rightarrow> u64 \<times> session_state \<Rightarrow> session_proof \<Rightarrow> (fault + session_poll_response) prog" where
  "sessionPoll e h ws poll p =
    (case poll of (polled, state) \<Rightarrow>
       if state \<notin> {SessionCreating, SessionReserved, SessionRunning, SessionFinishing, SessionIdle} \<or>
          ws_TurnSequence ws < polled
       then Ret (Inl (JournalError ErrConflict))
       else orfail (settled_turn ws) (\<lambda>settled.
         let response = (poll_base ws)\<lparr>spr_SettledTurnSequence := settled\<rparr> in
         if ws_Stop ws \<noteq> None then
           orfail (sessionStopCommand ws) (\<lambda>command. Ret (Inr (response\<lparr>spr_Stop := Some command\<rparr>)))
         else live_poll e h ws polled p response))"

section \<open>Enrollment\<close>

definition answered :: "(fault + 'a) prog \<Rightarrow> ('a \<Rightarrow> session_reply prog) \<Rightarrow> session_reply prog" where
  "answered p f = andthen p (\<lambda>r. case r of Inl x \<Rightarrow> Ret (session_error x) | Inr a \<Rightarrow> f a)"

definition new_challenge :: "env \<Rightarrow> http_request \<Rightarrow> string \<Rightarrow> string \<Rightarrow> session_reply prog" where
  "new_challenge e r i token =
    (case decodeBody dec_challenge_request (hr_Body r) of
       None \<Rightarrow> Ret (SessionRefused 403)
     | Some (op, digest) \<Rightarrow>
         andthen (look SessionChallenges an_Challenges) (\<lambda>chs.
           answered (writing (\<lambda>c. CreateSessionChallenge c chs i token op digest)) (\<lambda>(_, challenge).
             Ret (SessionChallenged challenge))))"

definition bind_session :: "host \<Rightarrow> worker_session \<Rightarrow> session_admission \<Rightarrow> (fault + unit) prog" where
  "bind_session h ws input =
    orfail (case sessionRecord h ws of
        Inl x \<Rightarrow> Ret (Inl x)
      | Inr r \<Rightarrow>
          orfail (ask (KubeAuthorizeStop ((res_Reference r)\<lparr>kr_Owner := h_Owner h\<rparr>)) an_Pod) (\<lambda>pod.
            if pv_NodeName pod = [] then Ret (Inl PreparePending)
            else writing (\<lambda>_. BindSessionPod (ws_ID ws) (ws_PodName ws) (ws_PodUID ws) (pv_NodeName pod))))
      (\<lambda>_. writing (\<lambda>_. AdmitSession (ws_ID ws) (sad_BootstrapDigest input) (sad_PublicKey input)))"

definition admit_worker :: "env \<Rightarrow> host \<Rightarrow> http_request \<Rightarrow> worker_session \<Rightarrow> session_reply prog" where
  "admit_worker e h r ws =
    (case decodeBody dec_session_admission (hr_Body r) of
       None \<Rightarrow> Ret (SessionRefused 403)
     | Some input \<Rightarrow>
         (if sad_WorkerSessionID input \<noteq> ws_ID ws \<or> \<not> wire_UUID e (sad_PodUID input) \<or> sad_PVCUID input \<noteq> ws_PVCUID ws \<or>
             sad_BootstrapDigest input \<noteq> ws_BootstrapDigest ws \<or> length (sad_PublicKey input) \<noteq> key_size
          then Ret (SessionRefused 403)
          else if ws_PodUID ws = [] then Ret (session_error PreparePending)
          else if sad_PodUID input \<noteq> ws_PodUID ws then Ret (SessionRefused 403)
          else if ws_SupervisorKey ws \<noteq> [] then
            Ret (if ws_SupervisorKey ws = sad_PublicKey input then SessionDone else SessionRefused 403)
          else answered (bind_session h ws input) (\<lambda>_.
            hinting (EnqueueSession (ws_ID ws))
              (hint_if (ws_ActiveAttempt ws \<noteq> []) (EnqueueAttempt (ws_ActiveAttempt ws)) (Ret SessionDone)))))"

definition sessionEnrollment :: "env \<Rightarrow> host \<Rightarrow> http_request \<Rightarrow> string \<Rightarrow> string \<Rightarrow> session_reply prog" where
  "sessionEnrollment e h r i action =
    (case bearer r of
       None \<Rightarrow> Ret (SessionRefused 403)
     | Some token \<Rightarrow>
         answered (reading (\<lambda>_. AuthorizeSessionEnrollment i token)) (\<lambda>ws.
           if action = op_stop_control \<and> hr_Method r = ''GET'' then
             Ret (if ws_SupervisorKey ws \<noteq> [] then SessionRefused 403 else SessionStopped (sessionStopIdentity ws))
           else if hr_Method r \<noteq> ''POST'' then Ret (SessionRefused 403)
           else if action = ''challenge'' then new_challenge e r i token
           else admit_worker e h r ws))"

section \<open>Control\<close>

definition body_of :: "(json \<Rightarrow> 'a option) \<Rightarrow> string \<Rightarrow> 'a option" where
  "body_of dec raw = unmarshal dec raw"

definition control_poll :: "env \<Rightarrow> host \<Rightarrow> session_proof \<Rightarrow> string \<Rightarrow> session_reply prog" where
  "control_poll e h p body =
    (case body_of dec_session_poll body of
       None \<Rightarrow> Ret (SessionRefused 403)
     | Some poll \<Rightarrow>
         answered (authorize_session e p) (\<lambda>ws.
           answered (sessionPoll e h ws poll p) (\<lambda>response. Ret (SessionPolled response))))"

definition accepted_before :: "string \<Rightarrow> u64 \<Rightarrow> string \<Rightarrow> session_proof \<Rightarrow> fault + task_grant \<Rightarrow> bool" where
  "accepted_before i sequence digest p old =
    (case old of
       Inl _ \<Rightarrow> False
     | Inr g \<Rightarrow> g_WorkerSessionID g = i \<and> g_TurnSequence g = sequence \<and> g_InputDigest g = digest \<and> g_AcceptProof g = Some p)"

definition control_accept :: "env \<Rightarrow> host \<Rightarrow> string \<Rightarrow> session_proof \<Rightarrow> string \<Rightarrow> session_reply prog" where
  "control_accept e h i p body =
    (case body_of dec_session_accept body of
       None \<Rightarrow> Ret (SessionRefused 403)
     | Some (sequence, digest) \<Rightarrow>
         andthen (reading (\<lambda>_. Get (ch_AttemptID (pf_Challenge p)))) (\<lambda>old.
           if accepted_before i sequence digest p old then Ret SessionDone
           else answered (reading (\<lambda>_. GetSession i)) (\<lambda>ws.
             answered (liveSession h ws) (\<lambda>_.
               andthen (look SessionChallenges an_Challenges) (\<lambda>chs.
                 answered (writing (\<lambda>c. AcceptTurn e c chs i sequence digest p)) (\<lambda>g.
                   hinting (EnqueueAttempt (g_AttemptID g)) (Ret SessionDone)))))))"

definition stop_answer :: "worker_session \<Rightarrow> session_reply prog" where
  "stop_answer ws = answered (sessionStopCommand ws) (\<lambda>command. Ret (SessionStopped command))"

definition dec_empty :: "json \<Rightarrow> unit option" where
  "dec_empty = dec_strict () [] (\<lambda>_. Some ())"

definition control_stop :: "env \<Rightarrow> session_proof \<Rightarrow> string \<Rightarrow> session_reply prog" where
  "control_stop e p body =
    (case body_of dec_empty body of
       None \<Rightarrow> Ret (SessionRefused 403)
     | Some _ \<Rightarrow> answered (authorize_session e p) stop_answer)"

definition control_stop_request :: "env \<Rightarrow> string \<Rightarrow> session_proof \<Rightarrow> string \<Rightarrow> session_reply prog" where
  "control_stop_request e i p body =
    (case body_of dec_stop_request body of
       None \<Rightarrow> Ret (SessionRefused 403)
     | Some reason \<Rightarrow>
         andthen (look SessionChallenges an_Challenges) (\<lambda>chs.
           answered (writing (\<lambda>c. RequestSessionStopSigned e c chs i reason p)) (\<lambda>ws.
             hinting (EnqueueSession i) (stop_answer ws))))"

definition control_stop_receipt :: "env \<Rightarrow> string \<Rightarrow> session_proof \<Rightarrow> string \<Rightarrow> session_reply prog" where
  "control_stop_receipt e i p body =
    (case body_of dec_session_stop_receipt body of
       None \<Rightarrow> Ret (SessionRefused 403)
     | Some receipt \<Rightarrow>
         andthen (look SessionChallenges an_Challenges) (\<lambda>chs.
           answered (writing (\<lambda>c. RecordSessionStopReceipt e c chs i receipt p)) (\<lambda>_.
             hinting (EnqueueSession i) (Ret SessionDone))))"

definition control_execution_receipt :: "env \<Rightarrow> string \<Rightarrow> session_proof \<Rightarrow> string \<Rightarrow> session_reply prog" where
  "control_execution_receipt e i p body =
    (case body_of dec_execution_receipt body of
       None \<Rightarrow> Ret (SessionRefused 403)
     | Some receipt \<Rightarrow>
         (if ter_WorkerSessionID receipt \<noteq> i then Ret (SessionRefused 403)
          else andthen (look SessionChallenges an_Challenges) (\<lambda>chs.
            answered (writing (\<lambda>c. RecordTurnExecutionReceipt e c chs (ter_AttemptID receipt) receipt p)) (\<lambda>_.
              hinting (EnqueueDelivery (ter_AttemptID receipt))
                (hinting (EnqueueSession i) (hinting WakeClaim (Ret SessionDone)))))))"

definition session_action :: "env \<Rightarrow> host \<Rightarrow> string \<Rightarrow> string \<Rightarrow> session_proof \<Rightarrow> string \<Rightarrow> session_reply prog" where
  "session_action e h i action p body =
    (if action = op_poll then control_poll e h p body
     else if action = op_accept then control_accept e h i p body
     else if action = op_stop_control then control_stop e p body
     else if action = op_stop_request then control_stop_request e i p body
     else if action = op_stop_receipt then control_stop_receipt e i p body
     else if action = op_turn_execution then control_execution_receipt e i p body
     else Ret (session_error (JournalError ErrUnauthorized)))"

definition workerSessionControl :: "env \<Rightarrow> host \<Rightarrow> http_request \<Rightarrow> session_reply prog" where
  "workerSessionControl e h r =
    (case split_on CHR ''/'' (hr_Path r) of
       [_, a, b, i, action] \<Rightarrow>
         (if a \<noteq> ''internal'' \<or> b \<noteq> ''worker-sessions'' \<or> \<not> wire_UUID e i \<or> hr_RawPath r \<noteq> [] \<or> hr_RawQuery r \<noteq> []
          then Ret (SessionRefused 403)
          else if action = ''admit'' \<or> action = ''challenge'' \<or> action = op_stop_control \<and> hr_Method r = ''GET''
          then sessionEnrollment e h r i action
          else if hr_Method r \<noteq> ''POST'' then Ret (SessionRefused 403)
          else case decodeBody dec_control_request (hr_Body r) of
            None \<Rightarrow> Ret (SessionRefused 403)
          | Some (p, body) \<Rightarrow>
              (if ch_WorkerSessionID (pf_Challenge p) \<noteq> i \<or> ch_Operation (pf_Challenge p) \<noteq> action \<or> \<not> json_valid body \<or>
                  ch_BodyDigest (pf_Challenge p) \<noteq> e_digest e body
               then Ret (SessionRefused 403)
               else session_action e h i action p body))
     | _ \<Rightarrow> Ret (SessionRefused 403))"

end
