(* ===== verification/Session_Reconcile.thy ===== *)
theory Session_Reconcile
  imports Session_Gateway
begin

text \<open>
  Reconciliation of a worker session (\<^verbatim>\<open>controller/session_reconcile.go\<close>): the idle timer, the loss of the
  Pod, and the stop: fencing the controller's own writers, proving that the Pod is gone, closing and cleaning.
  The table of idle deadlines lives in memory.  The deadline in it is on the monotonic clock; \<open>Clock\<close> answers
  both clocks with one number, and since any answer is possible this rules nothing out.
\<close>

section \<open>The idle timer\<close>

definition expire_idle :: "host \<Rightarrow> worker_session \<Rightarrow> (fault + unit) prog" where
  "expire_idle h ws =
    (let deadline = min (ws_IdleSince ws + h_ConversationIdleTimeout h) (ws_IdleDeadline ws) in
     andthen (look Clock an_Time) (\<lambda>now.
       if deadline \<noteq> ws_IdleDeadline ws \<or> now < ws_IdleSince ws \<or> \<not> now < deadline
       then orfail (writing (\<lambda>c. ExpireSession c (ws_ID ws) (h_ConversationIdleTimeout h))) (\<lambda>_. ok)
       else ok))"

text \<open>The revision for which the deadline was recorded and the deadline on the monotonic clock.\<close>

definition idle_deadline :: "worker_session \<Rightarrow> time \<Rightarrow> (u64 \<times> time) prog" where
  "idle_deadline ws now =
    andthen (look (LoadIdle (ws_ID ws)) an_Idle) (\<lambda>found.
      let fresh = now + max 0 (ws_IdleDeadline ws - now);
          store = hinting (StoreIdle (ws_ID ws) (ws_Revision ws) (ws_IdleDeadline ws) fresh)
            (Ret (ws_Revision ws, fresh))
      in case found of
           None \<Rightarrow> store
         | Some (revision, recorded, monotonic) \<Rightarrow>
             (if revision \<noteq> ws_Revision ws \<or> recorded \<noteq> ws_IdleDeadline ws then store
              else Ret (revision, monotonic)))"

definition drain_idle :: "worker_session \<Rightarrow> (fault + unit) prog" where
  "drain_idle ws =
    andthen (look Clock an_Time) (\<lambda>now.
      andthen (idle_deadline ws now) (\<lambda>(revision, monotonic).
        if now < monotonic then ok
        else orfail (writing (\<lambda>c. DrainIdleSession c (ws_ID ws) revision ''idle_expired'')) (\<lambda>_. ok)))"

definition watch_idle :: "host \<Rightarrow> worker_session \<Rightarrow> (fault + unit) prog" where
  "watch_idle h ws =
    (if ws_State ws \<noteq> SessionIdle then ok
     else orfail (expire_idle h ws) (\<lambda>_.
       orfail (reading (\<lambda>_. GetSession (ws_ID ws))) (\<lambda>ws. if ws_State ws = SessionIdle then drain_idle ws else ok)))"

section \<open>The Pod of a session\<close>

text \<open>A Pod that may still write under an unknown name quarantines its session.\<close>

definition unless_unknown :: "string \<Rightarrow> (fault + 'a) \<Rightarrow> ('a \<Rightarrow> (fault + unit) prog) \<Rightarrow> (fault + unit) prog" where
  "unless_unknown i r f =
    (case r of
       Inl x \<Rightarrow> if is_fault (\<lambda>f. f = WriterUnknown) x then writing (\<lambda>c. QuarantineSession c i) else Ret (Inl x)
     | Inr a \<Rightarrow> f a)"

definition watch_pod :: "host \<Rightarrow> worker_session \<Rightarrow> (fault + unit) prog" where
  "watch_pod h ws =
    (if ws_PodUID ws = [] then ok
     else case sessionRecord h ws of
       Inl x \<Rightarrow> Ret (Inl x)
     | Inr r \<Rightarrow>
         andthen (ask (PodState (res_Reference r)) an_Pod) (\<lambda>seen.
           unless_unknown (ws_ID ws) seen (\<lambda>pod.
             if \<not> stopped_pod pod then ok
             else orfail (writing (\<lambda>c. RequestSessionStop c (ws_ID ws) ''worker_stopped'')) (\<lambda>_.
               hinting (EnqueueSession (ws_ID ws)) ok))))"

section \<open>Stopping a session\<close>

definition prepared_flushed :: "worker_session \<Rightarrow> task_grant \<Rightarrow> bool" where
  "prepared_flushed ws g \<longleftrightarrow>
    g_Prepared g \<noteq> None \<and> g_PreparationStopped g \<and>
    (case ws_Stop ws of None \<Rightarrow> False | Some s \<Rightarrow> ssp_ControllerWritersStopped s)"

definition record_evidence :: "worker_session \<Rightarrow> stop_evidence \<Rightarrow> (fault + worker_session) prog" where
  "record_evidence ws ev =
    orfail
      (if se_Kind ev \<noteq> EvTerminated \<and> ws_ActiveAttempt ws \<noteq> [] then
         orfail (reading (\<lambda>_. Get (ws_ActiveAttempt ws))) (\<lambda>g.
           Ret (Inr (ev\<lparr>se_PreparedFlushOK := prepared_flushed ws g\<rparr>)))
       else Ret (Inr ev))
      (\<lambda>ev. orfail (writing (\<lambda>_. ObserveSessionStop (ws_ID ws) ev)) (\<lambda>_. reading (\<lambda>_. GetSession (ws_ID ws))))"

definition session_evidence_of :: "worker_session \<Rightarrow> evidence_kind \<Rightarrow> time \<Rightarrow> stop_evidence" where
  "session_evidence_of ws kind observed =
    \<lparr>se_PodUID = ws_PodUID ws, se_PVCUID = ws_PVCUID ws, se_Kind = kind, se_ObservedAt = observed,
     se_PreparedFlushOK = False\<rparr>"

text \<open>Before the stop is proven the reconciliation ends here: with an error, or without one when
  the session was quarantined or its Pod is told to go.\<close>

definition prove_session_stop ::
  "host \<Rightarrow> worker_session \<Rightarrow> (worker_session \<Rightarrow> (fault + unit) prog) \<Rightarrow> (fault + unit) prog" where
  "prove_session_stop h ws go_on =
    (if session_evidence ws \<noteq> None then go_on ws
     else andthen (look Clock an_Time) (\<lambda>now.
       if ws_PodUID ws = [] then orfail (record_evidence ws (session_evidence_of ws EvNoWorker now)) go_on
       else case sessionRecord h ws of
         Inl x \<Rightarrow> Ret (Inl x)
       | Inr r \<Rightarrow>
           andthen (ask (ObserveTermination (res_Reference r)) an_Stop) (\<lambda>seen.
             unless_unknown (ws_ID ws) seen (\<lambda>s.
               if \<not> so_Stopped s then tell (DeleteSessionPod (ws_ID ws) (res_Reference r))
               else orfail (record_evidence ws
                 (session_evidence_of ws (if so_NeverStarted s then EvNeverStarted else EvTerminated) (so_ObservedAt s)))
                 go_on))))"

definition awaits_receipt :: "worker_session \<Rightarrow> time \<Rightarrow> time \<Rightarrow> bool" where
  "awaits_receipt ws grace now \<longleftrightarrow>
    (case ws_Stop ws of
       None \<Rightarrow> False
     | Some s \<Rightarrow>
         (case ssp_Evidence s of
            None \<Rightarrow> False
          | Some ev \<Rightarrow> se_Kind ev = EvTerminated \<and> ssp_Receipt s = None \<and> now - se_ObservedAt ev < grace))"

definition lost_turn :: "task_grant \<Rightarrow> fault" where
  "lost_turn g =
    (let cause = OtherFault ''worker session stopped without a terminal result''
     in if \<not> g_StartConfirmed g then Wrap ''worker_startup_failed'' cause else cause)"

text \<open>The active turn gets its result before the session is closed: \<open>True\<close> while it still waits for its worker's.\<close>

definition settle_active :: "env \<Rightarrow> host \<Rightarrow> worker_session \<Rightarrow> (fault + bool) prog" where
  "settle_active e h ws =
    (if ws_ActiveAttempt ws = [] then Ret (Inr False)
     else orfail (reading (\<lambda>_. Get (ws_ActiveAttempt ws))) (\<lambda>g.
       orfail (recoverUnsealedResult e h g) (\<lambda>waiting.
         if waiting then Ret (Inr True)
         else andthen (reading (\<lambda>_. Terminal_get (g_AttemptID g))) (\<lambda>t.
           let done = hinting (EnqueueDelivery (g_AttemptID g)) (Ret (Inr False)) in
           case t of
             Inr _ \<Rightarrow> done
           | Inl x \<Rightarrow>
               (if \<not> isErr ErrUnauthorized x then Ret (Inl x)
                else orfail (recordFailure e g (Some (lost_turn g))) (\<lambda>_. done))))))"

definition close_session :: "env \<Rightarrow> host \<Rightarrow> worker_session \<Rightarrow> (fault + unit) prog \<Rightarrow> (fault + unit) prog" where
  "close_session e h ws go_on =
    (case sessionTerminationGrace e h ws of
       Inl x \<Rightarrow> Ret (Inl x)
     | Inr grace \<Rightarrow>
         andthen (look Clock an_Time) (\<lambda>now.
           if awaits_receipt ws grace now then ok
           else orfail (settle_active e h ws) (\<lambda>waiting.
             if waiting then ok
             else orfail (writing (\<lambda>c. CloseSession e c (ws_ID ws))) (\<lambda>_. hinting WakeClaim go_on))))"

definition clean_session :: "host \<Rightarrow> string \<Rightarrow> (fault + unit) prog" where
  "clean_session h i =
    orfail (reading (\<lambda>_. GetSession i)) (\<lambda>ws.
      orfail
        (if ws_Resources ws = [] then ok
         else case sessionRecord h ws of
           Inl x \<Rightarrow> Ret (Inl x)
         | Inr r \<Rightarrow> tell (CleanupSession i (res_Reference r)))
        (\<lambda>_. orfail (writing (\<lambda>_. MarkSessionCleaned i)) (\<lambda>_. hinting WakePending (hinting WakeClaim ok))))"

definition stop_open_session :: "env \<Rightarrow> host \<Rightarrow> worker_session \<Rightarrow> (fault + unit) prog" where
  "stop_open_session e h ws =
    (let i = ws_ID ws in
     orfail (if ws_Resources ws = [] then ok else ensureSessionResources e h i) (\<lambda>_.
     orfail (sessionStopCommand ws) (\<lambda>_.
     orfail (reading (\<lambda>_. GetSession i)) (\<lambda>ws.
     orfail (stopSessionControllerWriters ws) (\<lambda>stopped.
       if \<not> stopped then ok
       else prove_session_stop h ws (\<lambda>ws. close_session e h ws (clean_session h i)))))))"

definition reconcileSessionStop :: "env \<Rightarrow> host \<Rightarrow> worker_session \<Rightarrow> (fault + unit) prog" where
  "reconcileSessionStop e h ws =
    (if ws_ResourcesCleaned ws then ok
     else if ws_State ws = SessionClosed then clean_session h (ws_ID ws)
     else stop_open_session e h ws)"

definition reconcileSession :: "env \<Rightarrow> host \<Rightarrow> string \<Rightarrow> (fault + unit) prog" where
  "reconcileSession e h i =
    andthen (look (LocalTry (''session:'' @ i)) an_Flag) (\<lambda>locked.
      if \<not> locked then ok
      else orfail (reading (\<lambda>_. GetSession i)) (\<lambda>ws.
        orfail (watch_idle h ws) (\<lambda>_.
        orfail (reading (\<lambda>_. GetSession i)) (\<lambda>ws.
          hint_if (ws_State ws \<noteq> SessionIdle) (DeleteIdle i)
            (if ws_Stop ws = None then watch_pod h ws else reconcileSessionStop e h ws)))))"

end
