(* ===== verification/Driver_Steps.thy ===== *)
theory Driver_Steps
  imports Driver_Rules Session_Reconcile
begin

text \<open>
  Every function of the controller that is modelled is \<open>tame\<close>: it changes the journal only by the
  journal's own operations, and it makes calls of the classes that are listed with it.
\<close>

lemma tame_message [tame]:
  "(\<And>x. tame e K (f x)) \<Longrightarrow> tame e K p1 \<Longrightarrow> tame e K p2 \<Longrightarrow> tame e K p3 \<Longrightarrow> tame e K p4 \<Longrightarrow> tame e K p5 \<Longrightarrow> tame e K p6 \<Longrightarrow>
   tame e K p7 \<Longrightarrow> tame e K (case_message_type p1 p2 p3 p4 p5 p6 p7 f t)"
  by (cases t) simp_all

lemma tame_result [tame]:
  "(\<And>x. tame e K (f x)) \<Longrightarrow> (\<And>x. tame e K (g x)) \<Longrightarrow> tame e K (case_action_result f g r)"
  by (cases r) simp_all

lemmas tame_steps = journal_step.intros(1-66) do_ReserveTurn [rotated]

section \<open>\<^verbatim>\<open>Controller_Ops\<close>\<close>

lemma tame_controller_ops_1 [tame]:
  "tame e K (API_TaskStatus x1)" "tame e K (recordFailure e x2 x3)" "tame e K (requestStop x4 x5)"
    "tame e K (assignment x6)" "tame e K (saveResources e h x7 x8)" "tame e K (authorized_pod h x9 x10 x11)"
    "tame e K (keep_local x12 x13)" "tame e K (result_session x14 x15)"
  unfolding API_TaskStatus_def recordFailure_def requestStop_def assignment_def saveResources_def authorized_pod_def keep_local_def result_session_def Let_def
  by (rule tame | simp add: class_of_def | erule tame_steps)+

lemma tame_controller_ops_2 [tame]:
  assumes "EndCall \<in> K"
  shows "tame e K (API_Terminal x1 x2 x3 x4)" "tame e K (API_TerminalObservation x5 x6 x7 x8)"
  unfolding API_Terminal_def API_TerminalObservation_def Let_def
  by (rule tame | simp add: assms class_of_def | erule tame_steps)+

lemma tame_controller_ops_3 [tame]:
  assumes "EventCall \<in> K"
  shows "tame e K (API_Report x1 x2 x3 x4 x5)"
  unfolding API_Report_def Let_def
  by (rule tame | simp add: assms class_of_def | erule tame_steps)+

lemma tame_controller_ops_4 [tame]:
  assumes "StartCall \<in> K"
  shows "tame e K (API_Start x1 x2)" "tame e K (API_StartClaim e x3 x4)"
  unfolding API_Start_def API_StartClaim_def Let_def
  by (rule tame | simp add: assms class_of_def | erule tame_steps)+

lemma tame_controller_ops_5 [tame]:
  "tame e K (sameAssignment x1)" "tame e K (deliveryStatus x2)" "tame e K (stop_requested x3 x4)"
    "tame e K (admittedPod h x5)" "tame e K (receiveResult e h x6 x7)"
  unfolding sameAssignment_def deliveryStatus_def stop_requested_def admittedPod_def receiveResult_def Let_def
  by (rule tame | simp add: class_of_def | erule tame_steps)+

lemma tame_controller_ops_6 [tame]:
  assumes "EventCall \<in> K"
  shows "tame e K (forward_event x1 x2 x3 x4)"
  unfolding forward_event_def Let_def
  by (rule tame | simp add: assms class_of_def | erule tame_steps)+

lemma tame_controller_ops_7 [tame]:
  "tame e K (assignment_stop x1 x2 x3)"
  unfolding assignment_stop_def Let_def
  by (rule tame | simp add: class_of_def | erule tame_steps)+

lemma tame_controller_ops_8 [tame]:
  assumes "EventCall \<in> K"
  shows "tame e K (report_event h x1 x2 x3)"
  unfolding report_event_def Let_def
  by (rule tame | simp add: assms class_of_def | erule tame_steps)+

lemma tame_controller_ops_9 [tame]:
  "tame e K (observe_assignment x1 x2)"
  unfolding observe_assignment_def Let_def
  by (rule tame | simp add: class_of_def | erule tame_steps)+

lemma tame_controller_ops_10 [tame]:
  assumes "EventCall \<in> K"
  shows "tame e K (receiveEvent e h x1 x2)"
  unfolding receiveEvent_def Let_def
  by (rule tame | simp add: assms class_of_def | erule tame_steps)+

lemma tame_controller_ops_11 [tame]:
  "tame e K (observeBackendStop x1)"
  unfolding observeBackendStop_def Let_def
  by (rule tame | simp add: class_of_def | erule tame_steps)+

section \<open>\<^verbatim>\<open>Checkouts\<close>\<close>

lemma tame_checkouts_1 [tame]:
  "tame e K (beginCheckout e x1 x2 x3 x4)" "tame e K (authorizeCheckout e x5 x6 x7 x8)"
    "tame e K (finishCheckout x9 x10)" "tame e K (recoverCheckoutWriter x11)"
    "tame e K (authorize_stop e x12)"
  unfolding beginCheckout_def authorizeCheckout_def finishCheckout_def recoverCheckoutWriter_def authorize_stop_def Let_def
  by (rule tame | simp add: class_of_def | erule tame_steps)+

lemma tame_checkouts_2 [tame]:
  "tame e K (confirm_checkout e x1 x2 x3 x4 x5 x6)" "tame e K (stopCheckoutWriters x7)"
  unfolding confirm_checkout_def stopCheckoutWriters_def Let_def
  by (rule tame | simp add: class_of_def | erule tame_steps)+

lemma tame_checkouts_3 [tame]:
  "tame e K (copy_checkout e h x1 x2 x3 x4 x5 x6 x7 x8)" "tame e K (stopCheckoutWrites x9)"
  unfolding copy_checkout_def stopCheckoutWrites_def Let_def
  by (rule tame | simp add: class_of_def | erule tame_steps)+

lemma tame_checkouts_4 [tame]:
  "tame e K (write_checkout e h x1 x2 x3 x4 x5 x6 x7)" "tame e K (checkoutStop e h x8 x9)"
  unfolding write_checkout_def checkoutStop_def Let_def
  by (rule tame | simp add: class_of_def | erule tame_steps)+

lemma tame_checkouts_5 [tame]:
  "tame e K (checkout e h x1 x2)"
  unfolding checkout_def Let_def
  by (rule tame | simp add: class_of_def | erule tame_steps)+

section \<open>\<^verbatim>\<open>Supervisor\<close>\<close>

lemma tame_with_outcome [tame]: "tame e K x1 \<Longrightarrow> tame e K (with_outcome x1)"
  unfolding with_outcome_def Let_def
  by (rule tame | assumption | simp add: class_of_def | erule tame_steps)+

lemma tame_supervisor_1 [tame]:
  "tame e K (acknowledgeTurnRetry e h x1 x2 x3)" "tame e K (end_of_attempt x4)" "tame e K (answer_stop x5)"
    "tame e K (take_result e h x6 x7)" "tame e K (take_result_receipt e x8 x9)"
    "tame e K (take_turn_receipt e x10 x11)" "tame e K (take_seal e x12 x13)"
    "tame e K (requesting_pod h x14 x15)" "tame e K (answer_action x16 x17 x18)"
  unfolding acknowledgeTurnRetry_def end_of_attempt_def answer_stop_def take_result_def take_result_receipt_def take_turn_receipt_def take_seal_def requesting_pod_def answer_action_def Let_def
  by (rule tame | simp add: class_of_def | erule tame_steps)+

lemma tame_supervisor_2 [tame]:
  assumes "StartCall \<in> K"
  shows "tame e K (backend_start e x1)"
  unfolding backend_start_def Let_def
  by (rule tame | simp add: assms class_of_def | erule tame_steps)+

lemma tame_supervisor_3 [tame]:
  "tame e K (terminal_poll h x1 x2)" "tame e K (stop_admit h x3 x4 x5)" "tame e K (stop_asked e x6 x7 x8)"
    "tame e K (admit_supervisor e h x9 x10 x11)"
  unfolding terminal_poll_def stop_admit_def stop_asked_def admit_supervisor_def Let_def
  by (rule tame | simp add: class_of_def | erule tame_steps)+

lemma tame_supervisor_4 [tame]:
  assumes "StartCall \<in> K"
  shows "tame e K (start_execution e x1)"
  unfolding start_execution_def Let_def
  by (rule tame | simp add: assms class_of_def | erule tame_steps)+

lemma tame_supervisor_5 [tame]:
  "tame e K (waitForTerminal e h x1 x2)" "tame e K (stopControl e h x3 x4 x5)"
  unfolding waitForTerminal_def stopControl_def Let_def
  by (rule tame | simp add: class_of_def | erule tame_steps)+

lemma tame_supervisor_6 [tame]:
  assumes "StartCall \<in> K" "EventCall \<in> K"
  shows "tame e K (attempt_action e h x1 x2 x3 x4)"
  unfolding attempt_action_def Let_def
  by (rule tame | simp add: assms class_of_def | erule tame_steps)+

lemma tame_supervisor_7 [tame]:
  assumes "StartCall \<in> K" "EventCall \<in> K"
  shows "tame e K (attempt_request e h x1 x2 x3)"
  unfolding attempt_request_def Let_def
  by (rule tame | simp add: assms class_of_def | erule tame_steps)+

lemma tame_supervisor_8 [tame]:
  assumes "StartCall \<in> K" "EventCall \<in> K"
  shows "tame e K (supervisor e h x1)"
  unfolding supervisor_def Let_def
  by (rule tame | simp add: assms class_of_def | erule tame_steps)+

section \<open>\<^verbatim>\<open>Result_Delivery\<close>\<close>

lemma tame_observe_with [tame]: "tame e K (observe_with x1 x2 x3)"
proof (induction x3 arbitrary: x2)
  case Nil
  show ?case
    unfolding observe_with.simps Let_def by (rule tame | simp add: class_of_def | erule tame_steps)+
next
  case (Cons a as)
  show ?case
    unfolding observe_with.simps Let_def by (rule Cons.IH tame | simp add: class_of_def | erule tame_steps)+
qed

lemma tame_wake_if [tame]: "tame e K x2 \<Longrightarrow> tame e K (wake_if x1 x2)"
  unfolding wake_if_def Let_def
  by (rule tame | assumption | simp add: class_of_def | erule tame_steps)+

lemma tame_result_delivery_1 [tame]:
  "tame e K (stopUnacceptedTurn x1)" "tame e K (complete_turn e x2)" "tame e K (finish_unsettled x3 x4 x5)"
    "tame e K (recordObservedTurnCompletion e h x6 x7)"
  unfolding stopUnacceptedTurn_def complete_turn_def finish_unsettled_def recordObservedTurnCompletion_def Let_def
  by (rule tame | simp add: class_of_def | erule tame_steps)+

lemma tame_result_delivery_2 [tame]:
  "tame e K (settle_turn e x1 x2)" "tame e K (observeTurnTask x3 x4)" "tame e K (reject_turn x5 x6)"
  unfolding settle_turn_def observeTurnTask_def reject_turn_def Let_def
  by (rule tame | simp add: class_of_def | erule tame_steps)+

lemma tame_result_delivery_3 [tame]:
  assumes "EndCall \<in> K"
  shows "tame e K (forward_failure x1 x2)" "tame e K (forward_recovery x3 x4)" "tame e K (forward_result x5 x6)"
  unfolding forward_failure_def forward_recovery_def forward_result_def Let_def
  by (rule tame | simp add: assms class_of_def | erule tame_steps)+

lemma tame_result_delivery_4 [tame]:
  "tame e K (finishTurn e x1)"
  unfolding finishTurn_def Let_def
  by (rule tame | simp add: class_of_def | erule tame_steps)+

lemma tame_result_delivery_5 [tame]:
  assumes "EndCall \<in> K"
  shows "tame e K (deliverFailure x1)" "tame e K (deliverRecoveryFailure x2 x3)"
  unfolding deliverFailure_def deliverRecoveryFailure_def Let_def
  by (rule tame | simp add: assms class_of_def | erule tame_steps)+

lemma tame_result_delivery_6 [tame]:
  "tame e K (complete_from e h x1 x2)"
  unfolding complete_from_def Let_def
  by (rule tame | simp add: class_of_def | erule tame_steps)+

lemma tame_result_delivery_7 [tame]:
  assumes "EndCall \<in> K"
  shows "tame e K (send_turn_result e h x1 x2)"
  unfolding send_turn_result_def Let_def
  by (rule tame | simp add: assms class_of_def | erule tame_steps)+

lemma tame_complete_turns [tame]: "tame e K (complete_turns e h x1 x2 x3 x4)"
proof (induction x4)
  case Nil
  show ?case
    unfolding complete_turns.simps Let_def by (rule tame | simp add: class_of_def | erule tame_steps)+
next
  case (Cons a as)
  show ?case
    unfolding complete_turns.simps Let_def by (rule Cons.IH tame | simp add: class_of_def | erule tame_steps)+
qed

lemma tame_result_delivery_8 [tame]:
  assumes "EndCall \<in> K"
  shows "tame e K (deliver_observed_turn e h x1 x2 x3 x4)"
  unfolding deliver_observed_turn_def Let_def
  by (rule tame | simp add: assms class_of_def | erule tame_steps)+

lemma tame_result_delivery_9 [tame]:
  "tame e K (reconcileTurnCompletion e h x1 x2)"
  unfolding reconcileTurnCompletion_def Let_def
  by (rule tame | simp add: class_of_def | erule tame_steps)+

lemma tame_result_delivery_10 [tame]:
  assumes "EndCall \<in> K"
  shows "tame e K (deliver_turn e h x1 x2 x3)"
  unfolding deliver_turn_def Let_def
  by (rule tame | simp add: assms class_of_def | erule tame_steps)+

lemma tame_result_delivery_11 [tame]:
  assumes "EndCall \<in> K"
  shows "tame e K (deliverTurnResult e h x1)"
  unfolding deliverTurnResult_def Let_def
  by (rule tame | simp add: assms class_of_def | erule tame_steps)+

lemma tame_result_delivery_12 [tame]:
  assumes "EndCall \<in> K"
  shows "tame e K (deliverResult e h x1)"
  unfolding deliverResult_def Let_def
  by (rule tame | simp add: assms class_of_def | erule tame_steps)+

section \<open>\<^verbatim>\<open>Provision\<close>\<close>

lemma tame_provision_1 [tame]:
  "tame e K (capability e x1 x2 x3)" "tame e K (releasing x4 x5)" "tame e K (launch_preparation x6)"
    "tame e K (prepared_outcome e x7 x8)" "tame e K (recover_request x9 x10)"
    "tame e K (ensure_pod e h x11 x12 x13)" "tame e K (first_record e h x14)"
    "tame e K (observed_volume x15 x16)" "tame e K (observed_pod x17 x18)" "tame e K (fingerprinted x19 x20)"
    "tame e K (ensured_secret e h x21 x22 x23)" "tame e K (lease x24)"
  unfolding capability_def releasing_def launch_preparation_def prepared_outcome_def recover_request_def ensure_pod_def first_record_def observed_volume_def observed_pod_def fingerprinted_def ensured_secret_def lease_def Let_def
  by (rule tame | simp add: class_of_def | erule tame_steps)+

lemma tame_provision_2 [tame]:
  "tame e K (capability_set e x1 x2 x3)" "tame e K (startPreparation e x4)"
    "tame e K (preparation_job e x5)" "tame e K (provisionPod e h x6 x7 x8)"
  unfolding capability_set_def startPreparation_def preparation_job_def provisionPod_def Let_def
  by (rule tame | simp add: class_of_def | erule tame_steps)+

lemma tame_provision_3 [tame]:
  "tame e K (issued_bootstrap e h x1)" "tame e K (bind_worker e h x2 x3 x4)"
  unfolding issued_bootstrap_def bind_worker_def Let_def
  by (rule tame | simp add: class_of_def | erule tame_steps)+

lemma tame_provision_4 [tame]:
  "tame e K (provision_resources e h x1 x2 x3 x4)"
  unfolding provision_resources_def Let_def
  by (rule tame | simp add: class_of_def | erule tame_steps)+

lemma tame_provision_5 [tame]:
  "tame e K (provision_task e h x1)"
  unfolding provision_task_def Let_def
  by (rule tame | simp add: class_of_def | erule tame_steps)+

section \<open>\<^verbatim>\<open>Session_Provision\<close>\<close>

lemma tame_session_provision_1 [tame]:
  "tame e K (saveSessionResources e h x1 x2)" "tame e K (turn_capabilities e x3 x4)"
    "tame e K (publish_bootstrap e h x5 x6)" "tame e K (publish_turn e h x7 x8 x9)"
    "tame e K (lease_failed e x10 x11)"
  unfolding saveSessionResources_def turn_capabilities_def publish_bootstrap_def publish_turn_def lease_failed_def Let_def
  by (rule tame | simp add: class_of_def | erule tame_steps)+

lemma tame_session_provision_2 [tame]:
  "tame e K (new_session_record e h x1 x2)" "tame e K (session_pod_known e h x3 x4)"
    "tame e K (session_secret e h x5 x6)" "tame e K (session_pod e h x7 x8)"
    "tame e K (turn_bootstrap_of e h x9 x10)"
  unfolding new_session_record_def session_pod_known_def session_secret_def session_pod_def turn_bootstrap_of_def Let_def
  by (rule tame | simp add: class_of_def | erule tame_steps)+

lemma tame_session_provision_3 [tame]:
  "tame e K (session_resources e h x1 x2)" "tame e K (turnBootstrap e h x3)"
  unfolding session_resources_def turnBootstrap_def Let_def
  by (rule tame | simp add: class_of_def | erule tame_steps)+

lemma tame_session_provision_4 [tame]:
  "tame e K (ensureSessionResources e h x1)" "tame e K (assign_turn e h x2 x3)"
  unfolding ensureSessionResources_def assign_turn_def Let_def
  by (rule tame | simp add: class_of_def | erule tame_steps)+

lemma tame_session_provision_5 [tame]:
  "tame e K (session_assignable e h x1 x2)"
  unfolding session_assignable_def Let_def
  by (rule tame | simp add: class_of_def | erule tame_steps)+

lemma tame_session_provision_6 [tame]:
  "tame e K (provisionTurn e h x1)"
  unfolding provisionTurn_def Let_def
  by (rule tame | simp add: class_of_def | erule tame_steps)+

lemma tame_session_provision_7 [tame]:
  "tame e K (provision e h x1)"
  unfolding provision_def Let_def
  by (rule tame | simp add: class_of_def | erule tame_steps)+

lemma tame_session_provision_8 [tame]:
  "tame e K (reserve_and_provision e h x1)" "tame e K (activate_task e h x2)"
  unfolding reserve_and_provision_def activate_task_def Let_def
  by (rule tame | simp add: class_of_def | erule tame_steps)+

lemma tame_session_provision_9 [tame]:
  "tame e K (activateTurn e h x1)"
  unfolding activateTurn_def Let_def
  by (rule tame | simp add: class_of_def | erule tame_steps)+

lemma tame_session_provision_10 [tame]:
  "tame e K (activate e h x1)"
  unfolding activate_def Let_def
  by (rule tame | simp add: class_of_def | erule tame_steps)+

section \<open>\<^verbatim>\<open>Reconcile\<close>\<close>

lemma tame_reconcile_1 [tame]:
  "tame e K (record_recovery e x1)" "tame e K (resolved_secret e h x2 x3)"
    "tame e K (issued_pod e h x4 x5)" "tame e K (prepared_flush x6 x7)" "tame e K (running_upstream x8)"
    "tame e K (turn_overdue e h x9)" "tame e K (check_pod e h x10)"
    "tame e K (interrupted_preparation e x11 x12)"
  unfolding record_recovery_def resolved_secret_def issued_pod_def prepared_flush_def running_upstream_def turn_overdue_def check_pod_def interrupted_preparation_def Let_def
  by (rule tame | simp add: class_of_def | erule tame_steps)+

lemma tame_reconcile_2 [tame]:
  assumes "CleanCall \<in> K"
  shows "tame e K (cleaned h x1)" "tame e K (cleanup_stopped h x2)"
  unfolding cleaned_def cleanup_stopped_def Let_def
  by (rule tame | simp add: assms class_of_def | erule tame_steps)+

lemma tame_reconcile_3 [tame]:
  assumes "DeleteCall \<in> K"
  shows "tame e K (stop_kind e h x1 x2)"
  unfolding stop_kind_def Let_def
  by (rule tame | simp add: assms class_of_def | erule tame_steps)+

lemma tame_reconcile_4 [tame]:
  "tame e K (await_proof e x1 x2 x3 x4)" "tame e K (bound_pod e h x5 x6)"
    "tame e K (lease_refusal e x7 x8)" "tame e K (adopt_preparation e x9 x10)"
  unfolding await_proof_def bound_pod_def lease_refusal_def adopt_preparation_def Let_def
  by (rule tame | simp add: class_of_def | erule tame_steps)+

lemma tame_reconcile_5 [tame]:
  "tame e K (recoverUnsealedResult e h x1)" "tame e K (renew_lease e h x2)"
  unfolding recoverUnsealedResult_def renew_lease_def Let_def
  by (rule tame | simp add: class_of_def | erule tame_steps)+

lemma tame_reconcile_6 [tame]:
  assumes "DeleteCall \<in> K"
  shows "tame e K (prove_stop e h x1 x2)"
  unfolding prove_stop_def Let_def
  by (rule tame | simp add: assms class_of_def | erule tame_steps)+

lemma tame_reconcile_7 [tame]:
  "tame e K (close_stopped e h x1)"
  unfolding close_stopped_def Let_def
  by (rule tame | simp add: class_of_def | erule tame_steps)+

lemma tame_reconcile_8 [tame]:
  assumes "EndCall \<in> K" "CleanCall \<in> K"
  shows "tame e K (reconcileClosed e h x1)"
  unfolding reconcileClosed_def Let_def
  by (rule tame | simp add: assms class_of_def | erule tame_steps)+

lemma tame_reconcile_9 [tame]:
  assumes "DeleteCall \<in> K"
  shows "tame e K (stop_open e h x1)"
  unfolding stop_open_def Let_def
  by (rule tame | simp add: assms class_of_def | erule tame_steps)+

lemma tame_reconcile_10 [tame]:
  assumes "EndCall \<in> K" "CleanCall \<in> K"
  shows "tame e K (reconcileDelivery e h x1)"
  unfolding reconcileDelivery_def Let_def
  by (rule tame | simp add: assms class_of_def | erule tame_steps)+

lemma tame_reconcile_11 [tame]:
  assumes "DeleteCall \<in> K"
  shows "tame e K (reconcileStop e h x1)"
  unfolding reconcileStop_def Let_def
  by (rule tame | simp add: assms class_of_def | erule tame_steps)+

lemma tame_reconcile_12 [tame]:
  assumes "DeleteCall \<in> K"
  shows "tame e K (deliver e h x1)" "tame e K (stop_and_reconcile e h x2 x3)"
  unfolding deliver_def stop_and_reconcile_def Let_def
  by (rule tame | simp add: assms class_of_def | erule tame_steps)+

lemma tame_reconcile_13 [tame]:
  assumes "DeleteCall \<in> K"
  shows "tame e K (stopFailedStartup e h x1 x2)" "tame e K (reconcile_terminal e h x3)"
    "tame e K (reconcile_pending e h x4)"
  unfolding stopFailedStartup_def reconcile_terminal_def reconcile_pending_def Let_def
  by (rule tame | simp add: assms class_of_def | erule tame_steps)+

lemma tame_reconcile_14 [tame]:
  assumes "DeleteCall \<in> K"
  shows "tame e K (reconcile_intent e h x1 x2)"
  unfolding reconcile_intent_def Let_def
  by (rule tame | simp add: assms class_of_def | erule tame_steps)+

lemma tame_reconcile_15 [tame]:
  assumes "DeleteCall \<in> K"
  shows "tame e K (reconcile_open e h x1 x2)"
  unfolding reconcile_open_def Let_def
  by (rule tame | simp add: assms class_of_def | erule tame_steps)+

lemma tame_reconcile_16 [tame]:
  assumes "DeleteCall \<in> K"
  shows "tame e K (reconcileAttempt e h x1)"
  unfolding reconcileAttempt_def Let_def
  by (rule tame | simp add: assms class_of_def | erule tame_steps)+

section \<open>\<^verbatim>\<open>Session_Gateway\<close>\<close>

lemma tame_answered [tame]: "tame e K x1 \<Longrightarrow> (\<And>a. tame e K (x2 a)) \<Longrightarrow> tame e K (answered x1 x2)"
  unfolding answered_def Let_def
  by (rule tame | assumption | simp add: class_of_def | erule tame_steps)+

lemma tame_session_gateway_1 [tame]:
  "tame e K (stopSessionControllerWriters x1)" "tame e K (liveSession h x2)"
    "tame e K (authorize_session e x3)" "tame e K (settled_turn x4)"
    "tame e K (offered_assignment e h x5 x6)" "tame e K (bind_session h x7 x8)"
  unfolding stopSessionControllerWriters_def liveSession_def authorize_session_def settled_turn_def offered_assignment_def bind_session_def Let_def
  by (rule tame | simp add: class_of_def | erule tame_steps)+

lemma tame_session_gateway_2 [tame]:
  "tame e K (fenceSessionWriters x1)" "tame e K (live_poll e h x2 x3 x4 x5)"
    "tame e K (new_challenge e x6 x7 x8)" "tame e K (admit_worker e h x9 x10)"
    "tame e K (control_accept e h x11 x12 x13)" "tame e K (control_stop_receipt e x14 x15 x16)"
    "tame e K (control_execution_receipt e x17 x18 x19)"
  unfolding fenceSessionWriters_def live_poll_def new_challenge_def admit_worker_def control_accept_def control_stop_receipt_def control_execution_receipt_def Let_def
  by (rule tame | simp add: class_of_def | erule tame_steps)+

lemma tame_session_gateway_3 [tame]:
  "tame e K (sessionStopCommand x1)" "tame e K (sessionEnrollment e h x2 x3 x4)"
  unfolding sessionStopCommand_def sessionEnrollment_def Let_def
  by (rule tame | simp add: class_of_def | erule tame_steps)+

lemma tame_session_gateway_4 [tame]:
  "tame e K (sessionPoll e h x1 x2 x3)" "tame e K (stop_answer x4)"
  unfolding sessionPoll_def stop_answer_def Let_def
  by (rule tame | simp add: class_of_def | erule tame_steps)+

lemma tame_session_gateway_5 [tame]:
  "tame e K (control_poll e h x1 x2)" "tame e K (control_stop e x3 x4)"
    "tame e K (control_stop_request e x5 x6 x7)"
  unfolding control_poll_def control_stop_def control_stop_request_def Let_def
  by (rule tame | simp add: class_of_def | erule tame_steps)+

lemma tame_session_gateway_6 [tame]:
  "tame e K (session_action e h x1 x2 x3 x4)"
  unfolding session_action_def Let_def
  by (rule tame | simp add: class_of_def | erule tame_steps)+

lemma tame_session_gateway_7 [tame]:
  "tame e K (workerSessionControl e h x1)"
  unfolding workerSessionControl_def Let_def
  by (rule tame | simp add: class_of_def | erule tame_steps)+

section \<open>\<^verbatim>\<open>Session_Reconcile\<close>\<close>

lemma tame_unless_unknown [tame]: "(\<And>a. tame e K (x3 a)) \<Longrightarrow> tame e K (unless_unknown x1 x2 x3)"
  unfolding unless_unknown_def Let_def
  by (rule tame | assumption | simp add: class_of_def | erule tame_steps)+

lemma tame_session_reconcile_1 [tame]:
  "tame e K (expire_idle h x1)" "tame e K (idle_deadline x2 x3)" "tame e K (record_evidence x4 x5)"
    "tame e K (settle_active e h x6)"
  unfolding expire_idle_def idle_deadline_def record_evidence_def settle_active_def Let_def
  by (rule tame | simp add: class_of_def | erule tame_steps)+

lemma tame_session_reconcile_2 [tame]:
  assumes "CleanCall \<in> K"
  shows "tame e K (clean_session h x1)"
  unfolding clean_session_def Let_def
  by (rule tame | simp add: assms class_of_def | erule tame_steps)+

lemma tame_close_session [tame]: "tame e K x2 \<Longrightarrow> tame e K (close_session e h x1 x2)"
  unfolding close_session_def Let_def
  by (rule tame | assumption | simp add: class_of_def | erule tame_steps)+

lemma tame_session_reconcile_3 [tame]:
  "tame e K (drain_idle x1)" "tame e K (watch_pod h x2)"
  unfolding drain_idle_def watch_pod_def Let_def
  by (rule tame | simp add: class_of_def | erule tame_steps)+

lemma tame_prove_session_stop [tame]: "DeleteCall \<in> K \<Longrightarrow> (\<And>ws. tame e K (x2 ws)) \<Longrightarrow> tame e K (prove_session_stop h x1 x2)"
  unfolding prove_session_stop_def Let_def
  by (rule tame | assumption | simp add: class_of_def | erule tame_steps)+

lemma tame_session_reconcile_4 [tame]:
  "tame e K (watch_idle h x1)"
  unfolding watch_idle_def Let_def
  by (rule tame | simp add: class_of_def | erule tame_steps)+

lemma tame_session_reconcile_5 [tame]:
  assumes "DeleteCall \<in> K" "CleanCall \<in> K"
  shows "tame e K (stop_open_session e h x1)"
  unfolding stop_open_session_def Let_def
  by (rule tame | simp add: assms class_of_def | erule tame_steps)+

lemma tame_session_reconcile_6 [tame]:
  assumes "DeleteCall \<in> K" "CleanCall \<in> K"
  shows "tame e K (reconcileSessionStop e h x1)"
  unfolding reconcileSessionStop_def Let_def
  by (rule tame | simp add: assms class_of_def | erule tame_steps)+

lemma tame_session_reconcile_7 [tame]:
  assumes "DeleteCall \<in> K" "CleanCall \<in> K"
  shows "tame e K (reconcileSession e h x1)"
  unfolding reconcileSession_def Let_def
  by (rule tame | simp add: assms class_of_def | erule tame_steps)+

end
