(* ===== verification/Driver_Reasons.thy ===== *)
theory Driver_Reasons
  imports Driver_Steps
begin

text \<open>
  What the journal must say when the controller makes a call that cannot be taken back (\<open>reason\<close>), that
  it goes on saying so, and that every handler makes such a call only then.
\<close>

section \<open>What was read of the journal\<close>

definition knows :: "registry \<Rightarrow> task_grant \<Rightarrow> bool" where
  "knows st g \<longleftrightarrow> (\<exists>h. grant_of st (g_AttemptID g) = Some h \<and> grant_le g h)"

definition knows_result :: "registry \<Rightarrow> string \<Rightarrow> terminal \<Rightarrow> bool" where
  "knows_result st i t \<longleftrightarrow> (\<exists>u. terminal_of st i = Some u \<and> terminal_le t u)"

definition knows_session :: "registry \<Rightarrow> worker_session \<Rightarrow> bool" where
  "knows_session st ws \<longleftrightarrow> (\<exists>v. session_of st (ws_ID ws) = Some v \<and> session_le ws v)"

lemma later_grant: "later e st st' \<Longrightarrow> grant_of st i = Some g \<Longrightarrow> \<exists>h. grant_of st' i = Some h \<and> grant_le g h"
  by (auto simp: later_def intro: grants.run_record)

lemma later_terminal:
  "later e st st' \<Longrightarrow> terminal_of st i = Some t \<Longrightarrow> \<exists>u. terminal_of st' i = Some u \<and> terminal_le t u"
  by (auto simp: later_def intro: terminals.run_record)

lemma later_session:
  "later e st st' \<Longrightarrow> session_of st i = Some ws \<Longrightarrow> \<exists>v. session_of st' i = Some v \<and> session_le ws v"
  by (auto simp: later_def intro: sessions.run_record)

lemma knows_later: "knows st g \<Longrightarrow> later e st st' \<Longrightarrow> knows st' g"
  by (auto simp: knows_def dest!: later_grant intro: grant_le_trans)

lemma knows_result_later: "knows_result st i t \<Longrightarrow> later e st st' \<Longrightarrow> knows_result st' i t"
  by (auto simp: knows_result_def dest!: later_terminal intro: terminal_le_trans)

lemma knows_session_later: "knows_session st ws \<Longrightarrow> later e st st' \<Longrightarrow> knows_session st' ws"
  by (auto simp: knows_session_def dest!: later_session intro: session_le_trans)

lemmas knowledge = knows_later knows_result_later knows_session_later

lemma Get_knows:
  assumes "sound e st" "Get i st = Inr g"
  shows "g_AttemptID g = i" "knows st g"
proof -
  from assms(2) have g: "grant_of st i = Some g"
    by (simp add: Get_def split: option.splits)
  with assms(1) show "g_AttemptID g = i"
    by (auto simp: sound_def grant_identity_ok_def dest!: validated_grant_identity(1))
  with g show "knows st g"
    by (simp add: knows_def)
qed

lemma Terminal_get_knows: "sound e st \<Longrightarrow> Terminal_get i st = Inr t \<Longrightarrow> knows_result st i t"
  by (simp add: Terminal_get_def knows_result_def split: option.splits)

lemma GetSession_knows:
  assumes "sound e st" "GetSession i st = Inr ws"
  shows "ws_ID ws = i" "knows_session st ws"
proof -
  from assms(2) have ws: "session_of st i = Some ws"
    by (simp add: GetSession_def split: option.splits)
  with assms(1) show "ws_ID ws = i"
    by (auto simp: sound_def intro: session_key)
  with ws show "knows_session st ws"
    by (simp add: knows_session_def)
qed

lemma Authorize_grant: "Authorize e c token audience st = Inr g \<Longrightarrow> \<exists>i. grant_of st i = Some g"
  by (cases "capability_of st (e_digest e token)"; cases "grant_of st (cap_AttemptID (the (capability_of st (e_digest e token))))";
      cases "g_State (the (grant_of st (cap_AttemptID (the (capability_of st (e_digest e token))))))")
    (auto simp: Authorize_def AuthorizeWithExpiry_def split: if_splits)

lemma Authorize_knows: "sound e st \<Longrightarrow> Authorize e c token audience st = Inr g \<Longrightarrow> knows st g"
  by (auto simp: knows_def sound_def grant_key dest!: Authorize_grant)

section \<open>Reasons\<close>

text \<open>A failure that the controller decided itself, or a worker's result whose recovery it decided, is sent
  as a failure; every other result as what it is.\<close>

definition carries :: "terminal \<Rightarrow> terminal_kind \<Rightarrow> string \<Rightarrow> bool" where
  "carries t kind body \<longleftrightarrow>
    (if t_Source t = SourceController then kind = KindFail \<and> body = t_Body t
     else kind = t_Kind t \<and> body = t_Body t \<or>
       (case t_RecoveryFailure t of None \<Rightarrow> False | Some r \<Rightarrow> kind = KindFail \<and> body = rf_Body r))"

definition turn_closed :: "registry \<Rightarrow> string \<Rightarrow> bool" where
  "turn_closed st i \<longleftrightarrow> (case grant_of st i of None \<Rightarrow> False | Some g \<Rightarrow> g_CheckoutClosed g)"

definition reason :: "registry \<Rightarrow> driver_call \<Rightarrow> bool" where
  "reason st q =
    (case q of
       StartTask i task \<Rightarrow>
         (case grant_of st i of None \<Rightarrow> False | Some g \<Rightarrow> 5 \<le> state_rank (g_State g) \<and> g_TaskID g = task)
     | StartClaimed i cl \<Rightarrow> (case grant_of st i of None \<Rightarrow> False | Some g \<Rightarrow> 5 \<le> state_rank (g_State g))
     | SendTerminal i task kind body \<Rightarrow>
         (case (grant_of st i, terminal_of st i) of
            (Some g, Some t) \<Rightarrow> g_TaskID g = task \<and> carries t kind body
          | _ \<Rightarrow> False)
     | DeletePod i _ \<Rightarrow>
         (case grant_of st i of None \<Rightarrow> False | Some g \<Rightarrow> g_Stop g \<noteq> None \<and> g_CheckoutClosed g)
     | DeleteSessionPod i _ \<Rightarrow>
         (case session_of st i of
            None \<Rightarrow> False
          | Some ws \<Rightarrow> ws_Stop ws \<noteq> None \<and> (active_at_stop ws = [] \<or> turn_closed st (active_at_stop ws)))
     | Cleanup i _ \<Rightarrow> (case grant_of st i of None \<Rightarrow> False | Some g \<Rightarrow> g_State g = Closed)
     | CleanupSession i _ \<Rightarrow> (case session_of st i of None \<Rightarrow> False | Some ws \<Rightarrow> ws_State ws = SessionClosed)
     | _ \<Rightarrow> True)"

lemma closed_rank: "9 \<le> state_rank s \<longleftrightarrow> s = Closed"
  by (cases s) simp_all

lemma grant_le_facts:
  "grant_le g h \<Longrightarrow> g_AttemptID h = g_AttemptID g" "grant_le g h \<Longrightarrow> g_TaskID h = g_TaskID g"
  "grant_le g h \<Longrightarrow> n \<le> state_rank (g_State g) \<Longrightarrow> n \<le> state_rank (g_State h)"
  "grant_le g h \<Longrightarrow> g_State g = Closed \<Longrightarrow> g_State h = Closed"
  "grant_le g h \<Longrightarrow> g_Stop g \<noteq> None \<Longrightarrow> g_Stop h \<noteq> None"
  "grant_le g h \<Longrightarrow> g_CheckoutClosed g \<Longrightarrow> g_CheckoutClosed h"
  by (auto simp: grant_le_defs same_stop_def closed_rank [symmetric] split: option.splits)

lemma session_le_facts:
  "session_le v w \<Longrightarrow> ws_ID w = ws_ID v" "session_le v w \<Longrightarrow> ws_State v = SessionClosed \<Longrightarrow> ws_State w = SessionClosed"
  "session_le v w \<Longrightarrow> ws_Stop v \<noteq> None \<Longrightarrow> ws_Stop w \<noteq> None"
  "session_le v w \<Longrightarrow> ws_Stop v \<noteq> None \<Longrightarrow> active_at_stop w = active_at_stop v"
  by (auto simp: session_le_defs same_session_stop_def active_at_stop_def split: option.splits)

lemma carries_le: "terminal_le t u \<Longrightarrow> carries t kind body \<Longrightarrow> carries u kind body"
  by (auto simp: carries_def terminal_le_defs split: option.splits if_splits)

lemma turn_closed_later: "turn_closed st i \<Longrightarrow> later e st st' \<Longrightarrow> turn_closed st' i"
  by (auto simp: turn_closed_def grant_le_facts split: option.splits dest!: later_grant)

lemma reason_lasts:
  assumes "reason st q" "later e st st'"
  shows "reason st' q"
proof (cases "class_of q = OtherCall \<or> class_of q = EventCall")
  case True
  then show ?thesis
    by (auto simp: reason_def class_of_def split: driver_call.splits)
next
  case False
  then show ?thesis
    using assms turn_closed_later [OF _ assms(2)]
    by (cases q)
      (fastforce simp: reason_def class_of_def grant_le_facts session_le_facts carries_le split: option.splits
        dest: later_grant [OF assms(2)] later_terminal [OF assms(2)] later_session [OF assms(2)])+
qed

interpretation reasoned: lenient e "recording reason" for e
  by (rule lenient_recording) (rule reason_lasts)

lemma reason_other: "class_of q = OtherCall \<or> class_of q \<in> {EventCall} \<Longrightarrow> reason st q"
  by (auto simp: reason_def class_of_def split: driver_call.splits)


abbreviation sure :: "env \<Rightarrow> registry \<Rightarrow> 'a prog \<Rightarrow> bool" where
  "sure e \<equiv> lenient.secure e (recording reason)"

lemma sure_calls:
  "reason st q \<Longrightarrow> sure e st (ask q s)" "reason st q \<Longrightarrow> sure e st (tell q)"
  by (auto intro!: reasoned.secure_ask reasoned.secure_tell intro: reason_lasts)

lemma sure_tame: "tame e {EventCall} p \<Longrightarrow> sure e st p"
  by (rule reasoned.secure_calls_in [where K = "{EventCall}"]) (auto simp: tame_def intro: reason_other)

lemma sure_look:
  assumes "class_of q = OtherCall" "\<And>a. sure e st (f a)"
  shows "sure e st (andthen (look q s) f)"
  using assms reason_other [of q] by (simp add: lenient.secure_def [OF reasoned.lenient_axioms])

lemma sure_hinting: "sure e st p \<Longrightarrow> sure e st (hinting x p)"
  by (rule reasoned.secure_hinting) (simp_all add: reason_def)

lemma sure_hint_if: "sure e st p \<Longrightarrow> sure e st (hint_if b x p)"
  by (simp add: hint_if_def sure_hinting)

lemma sure_known:
  "sure e st (p a) \<Longrightarrow> sure e st (case_sum p q (Inl a))" "sure e st (q b) \<Longrightarrow> sure e st (case_sum p q (Inr b))"
  "sure e st (s u v) \<Longrightarrow> sure e st (case_prod s (u, v))"
  by simp_all

lemmas sure_rules = sure_known
  reasoned.secure_Ret reasoned.secure_ok reasoned.secure_reading_orfail reasoned.secure_reading
  reasoned.secure_writing_orfail reasoned.secure_writing sure_look sure_hinting sure_hint_if reasoned.secure_if
  reasoned.secure_cases reasoned.secure_orfail reasoned.secure_andthen

section \<open>Results\<close>

definition due :: "registry \<Rightarrow> task_grant \<Rightarrow> terminal \<Rightarrow> bool" where
  "due st g t \<longleftrightarrow> knows st g \<and> knows_result st (g_AttemptID g) t"

lemma due_later: "due st g t \<Longrightarrow> later e st st' \<Longrightarrow> due st' g t"
  by (auto simp: due_def intro: knowledge)

lemma due_step: "due st g t \<Longrightarrow> later e st st1 \<Longrightarrow> same_or_committed e st1 st2 \<Longrightarrow> due st2 g t"
  by (blast intro: due_later later_step)

lemma due_reason: "due st g t \<Longrightarrow> carries t kind body \<Longrightarrow> reason st (SendTerminal (g_AttemptID g) (g_TaskID g) kind body)"
  by (auto simp: due_def knows_def knows_result_def reason_def grant_le_facts carries_le)

lemma sure_terminal:
  assumes "due st g t" "carries t kind body"
  shows "sure e st (API_Terminal (g_AttemptID g) (g_TaskID g) kind body)"
    "sure e st (API_TerminalObservation (g_AttemptID g) (g_TaskID g) kind body)"
  unfolding API_Terminal_def API_TerminalObservation_def
  by (rule sure_rules sure_calls due_reason [OF assms])+

lemma sure_forward:
  assumes "due st g t"
  shows "carries t KindFail (t_Body t) \<Longrightarrow> sure e st (forward_failure g t)"
    "carries t KindFail (rf_Body rec) \<Longrightarrow> sure e st (forward_recovery g rec)"
    "carries t (t_Kind t) (t_Body t) \<Longrightarrow> sure e st (forward_result g t)"
    "carries t (t_Kind t) (t_Body t) \<Longrightarrow> sure e st (send_turn_result e h g t)"
  unfolding forward_failure_def forward_recovery_def forward_result_def send_turn_result_def Let_def
  by (rule sure_rules sure_terminal due_step [OF assms] sure_tame tame | assumption)+

lemma due_read: "knows st g \<Longrightarrow> later e st st' \<Longrightarrow> Terminal_get (g_AttemptID g) st' = Inr t \<Longrightarrow> due st' g t"
  by (auto simp: due_def intro: knowledge Terminal_get_knows dest: later_sound)

lemma knows_read:
  "later e st st' \<Longrightarrow> Get i st' = Inr g \<Longrightarrow> g_AttemptID g = i"
  "later e st st' \<Longrightarrow> Get i st' = Inr g \<Longrightarrow> knows st' g"
  by (auto dest: Get_knows later_sound)

lemma due_knows: "due st g t \<Longrightarrow> knows st g"
  by (simp add: due_def)

lemma carries_failure:
  "t_Source t = SourceController \<Longrightarrow> carries t KindFail (t_Body t)"
  "t_Source t \<noteq> SourceController \<Longrightarrow> t_RecoveryFailure t = Some rec \<Longrightarrow> carries t KindFail (rf_Body rec)"
  "t_Source t \<noteq> SourceController \<Longrightarrow> carries t (t_Kind t) (t_Body t)"
  by (simp_all add: carries_def)

lemma sure_deliverFailure: "knows st g \<Longrightarrow> sure e st (deliverFailure g)"
  unfolding deliverFailure_def
  by (rule sure_rules | (rule sure_forward(1), meson due_read due_later due_step, simp add: carries_failure) |
      (rule sure_tame; (rule tame)+; fail))+

lemma sure_deliverRecoveryFailure:
  assumes "due st g t" "carries t KindFail (rf_Body rec)"
  shows "sure e st (deliverRecoveryFailure g rec)"
  unfolding deliverRecoveryFailure_def
  by (rule sure_rules | (rule sure_forward(2) [where t = t], meson due_later due_step assms(1), rule assms(2)) |
      (rule sure_tame; (rule tame)+; fail))+

lemma sure_deliver_observed_turn:
  assumes "due st g t" "carries t (t_Kind t) (t_Body t)"
  shows "sure e st (deliver_observed_turn e h g t cl row)"
  unfolding deliver_observed_turn_def
  by (rule sure_rules | (rule sure_forward(4), meson due_later due_step assms(1), rule assms(2)) |
      (rule sure_tame; (rule tame)+; fail))+

lemma sure_deliver_turn:
  assumes "due st g t" "carries t (t_Kind t) (t_Body t)"
  shows "sure e st (deliver_turn e h g t cl)"
  unfolding deliver_turn_def
  by (rule sure_rules | (rule sure_deliver_observed_turn, meson due_later due_step assms(1), rule assms(2)) |
      (rule sure_tame; (rule tame)+; fail))+

lemma sure_deliverTurnResult: "sure e st (deliverTurnResult e h i)"
  unfolding deliverTurnResult_def
  by (rule sure_rules |
      (rule sure_deliver_turn sure_deliverRecoveryFailure, erule (3) due_read [OF knows_read(2)], simp add: carries_failure) |
      (rule sure_tame; (rule tame)+; fail))+

lemma sure_deliverResult: "knows st g \<Longrightarrow> sure e st (deliverResult e h g)"
  unfolding deliverResult_def
  by (rule sure_rules sure_deliverTurnResult | (rule sure_deliverFailure, meson knows_later due_read) |
      (rule sure_forward(3), meson due_read due_later due_step, simp add: carries_failure) |
      (rule sure_deliverRecoveryFailure, erule (2) due_read, simp add: carries_failure) |
      (rule sure_tame; (rule tame)+; fail))+

section \<open>Closed attempts\<close>

definition closed_attempt :: "registry \<Rightarrow> task_grant \<Rightarrow> bool" where
  "closed_attempt st g \<longleftrightarrow> knows st g \<and> g_State g = Closed"

lemma closed_later: "closed_attempt st g \<Longrightarrow> later e st st' \<Longrightarrow> closed_attempt st' g"
  by (auto simp: closed_attempt_def intro: knowledge)

lemma closed_knows: "closed_attempt st g \<Longrightarrow> knows st g"
  by (simp add: closed_attempt_def)

lemma closed_reason: "closed_attempt st g \<Longrightarrow> reason st (Cleanup (g_AttemptID g) ref)"
  by (auto simp: closed_attempt_def knows_def reason_def dest: grant_le_facts(4))

lemma sure_cleaned:
  assumes "closed_attempt st g"
  shows "sure e st (cleaned h g)" "sure e st (cleanup_stopped h g)"
  unfolding cleaned_def cleanup_stopped_def
  by (rule sure_rules sure_calls closed_reason assms)+

lemma sure_reconcileClosed: "closed_attempt st g \<Longrightarrow> sure e st (reconcileClosed e h g)"
  unfolding reconcileClosed_def
  by (rule sure_rules sure_cleaned | assumption | (rule sure_deliverResult, meson closed_knows closed_later) |
      (erule (1) closed_later) | (rule sure_tame; (rule tame)+; fail))+

lemma closed_read:
  assumes "later e st0 st" "Get i st = Inr g0" "g_State g0 = Closed" "later e st st'" "Get i st' = Inr g"
  shows "closed_attempt st' g"
  using assms knows_read [OF assms(1,2)] knows_read [OF assms(4,5)]
  by (auto simp: closed_attempt_def knows_def Get_def split: option.splits dest!: later_grant intro: grant_le_facts(4))

lemma sure_reconcileDelivery: "sure e st (reconcileDelivery e h i)"
  unfolding reconcileDelivery_def
  by (rule sure_rules | (rule sure_deliverResult, meson knows_read knows_later) |
      (rule sure_reconcileClosed, rule closed_read, assumption, assumption, simp, assumption, assumption) |
      (rule sure_tame; (rule tame)+; fail))+

section \<open>Stopped attempts\<close>

lemma orfail_laws:
  "orfail (Ret (Inr a)) f = f a" "orfail (Ret (Inl x)) f = Ret (Inl x)"
  "orfail (andthen q g) f = andthen q (\<lambda>a. orfail (g a) f)" "orfail (orfail r k) f = orfail r (\<lambda>a. orfail (k a) f)"
  "orfail (hinting n p) f = hinting n (orfail p f)" "orfail (if b then p else p') f = (if b then orfail p f else orfail p' f)"
  "orfail (case_prod s z) f = (case z of (u, v) \<Rightarrow> orfail (s u v) f)"
  "orfail (case_sum l m y) f = (case y of Inl x \<Rightarrow> orfail (l x) f | Inr a \<Rightarrow> orfail (m a) f)"
  by (auto simp: orfail_def andthen_assoc hinting_def split: sum.splits prod.splits intro!: arg_cong [of _ _ "andthen _"] ext)

definition stopping :: "registry \<Rightarrow> task_grant \<Rightarrow> bool" where
  "stopping st g \<longleftrightarrow> knows st g \<and> g_Stop g \<noteq> None \<and> turn_closed st (g_AttemptID g)"

lemma stopping_later: "stopping st g \<Longrightarrow> later e st st' \<Longrightarrow> stopping st' g"
  by (auto simp: stopping_def intro: knowledge turn_closed_later)

lemma stopping_reason: "stopping st g \<Longrightarrow> reason st (DeletePod (g_AttemptID g) ref)"
  by (auto simp: stopping_def knows_def reason_def turn_closed_def dest: grant_le_facts(5) split: option.splits)

lemma knows_again:
  assumes "knows st g0" "g_Stop g0 \<noteq> None" "later e st st'" "Get (g_AttemptID g0) st' = Inr g"
  shows "g_AttemptID g = g_AttemptID g0" "knows st' g" "g_Stop g \<noteq> None"
proof -
  show "g_AttemptID g = g_AttemptID g0" "knows st' g"
    using knows_read [OF assms(3,4)] by simp_all
  have "knows st' g0"
    using assms(1,3) by (rule knows_later)
  then show "g_Stop g \<noteq> None"
    using assms(2,4) by (auto simp: knows_def Get_def dest: grant_le_facts(5) split: option.splits)
qed

lemma stopping_again:
  "stopping st g0 \<Longrightarrow> later e st st' \<Longrightarrow> Get (g_AttemptID g0) st' = Inr g \<Longrightarrow> stopping st' g"
  using knows_again [of st g0 e st' g] turn_closed_later [of st "g_AttemptID g0" e st'] by (auto simp: stopping_def)

lemma CloseCheckouts_closed: "CloseCheckouts i st = Inr (st', a) \<Longrightarrow> turn_closed st' i"
  by (auto simp: CloseCheckouts_def CloseCheckouts_step_def update_grant_def turn_closed_def bind_res_eq_Inr
    split: option.splits)

lemma sure_stopCheckoutWriters:
  assumes k: "\<And>st' a. later e st st' \<Longrightarrow> turn_closed st' i \<Longrightarrow> sure e st' (k a)"
  shows "sure e st (orfail (stopCheckoutWriters i) k)" "sure e st (orfail (stopCheckoutWrites i) k)"
  unfolding stopCheckoutWrites_def stopCheckoutWriters_def orfail_laws
  by (rule sure_rules |
      (rule k, (meson later_trans later_step), meson CloseCheckouts_closed turn_closed_later later_step later_refl later_sound) |
      (rule sure_tame; (rule tame | erule tame_steps | simp add: class_of_def)+; fail))+

lemma RequestStop_grant: "RequestStop c i r st = Inr (st', g) \<Longrightarrow> grant_of st' i = Some g"
  by (auto simp: RequestStop_def RequestStop_step_def update_grant_def bind_res_eq_Inr Let_def
    split: option.splits if_splits prod.splits sum.splits)

lemma RequestStop_knows:
  assumes "later e st st'" "RequestStop c i r st' = Inr (st'', g)" "same_or_committed e st' st''"
  shows "knows st'' g"
proof -
  have "grant_of st'' i = Some g"
    using assms(2) by (rule RequestStop_grant)
  moreover from this have "g_AttemptID g = i"
    using later_sound [OF later_step [OF assms(1,3)]] by (auto simp: sound_def intro: grant_key)
  ultimately show ?thesis
    by (simp add: knows_def)
qed

lemma sure_requestStop:
  assumes "\<And>st' g'. later e st st' \<Longrightarrow> knows st' g' \<Longrightarrow> sure e st' (k g')"
  shows "sure e st (orfail (requestStop g r) k)"
  unfolding requestStop_def orfail_laws hint_if_def
  by (rule sure_rules | (rule assms, (meson later_trans later_step), erule (2) RequestStop_knows))+

lemma sure_sound: "(sound e st \<Longrightarrow> sure e st p) \<Longrightarrow> sure e st p"
  by (auto simp: lenient.secure_def [OF reasoned.lenient_axioms] later_def)

lemma sure_bound_pod:
  assumes k: "\<And>st' g' r'. later e st st' \<Longrightarrow> stopping st' g' \<Longrightarrow> sure e st' (k (g', r'))" and g: "stopping st g"
  shows "sure e st (orfail (bound_pod e h g r) k)"
proof (rule sure_sound)
  assume st: "sound e st"
  have again: "Get (g_AttemptID g) s' = Inr a \<Longrightarrow> later e s s' \<Longrightarrow> later e st s \<Longrightarrow> stopping s' a" for s s' a
    using stopping_again [OF stopping_later [OF g]] by blast
  show ?thesis
    unfolding bound_pod_def orfail_laws
    by (rule sure_rules | (rule k, rule later_refl [OF st], rule g) |
        (rule k, (meson later_trans later_step), erule (1) again, meson later_trans later_step) |
        (rule sure_tame; (rule tame | erule tame_steps | simp add: class_of_def)+; fail))+
qed

lemma sure_stop_kind: "stopping st g \<Longrightarrow> sure e st (stop_kind e h g r)"
  unfolding stop_kind_def Let_def
  by (rule sure_rules | (rule sure_calls, rule stopping_reason, meson stopping_later) |
      (rule sure_tame; (rule tame | erule tame_steps | simp add: class_of_def)+; fail))+

lemma sure_prove_stop: "stopping st g \<Longrightarrow> sure e st (prove_stop e h g r)"
  unfolding prove_stop_def
  by (rule sure_bound_pod sure_rules | assumption | (rule sure_stop_kind, assumption) |
      (rule sure_tame; (rule tame | erule tame_steps | simp add: class_of_def)+; fail))+

lemma sure_stop_open: "stopping st g \<Longrightarrow> sure e st (stop_open e h g)"
  unfolding stop_open_def
  by (rule sure_rules | (rule sure_prove_stop, erule (1) stopping_later) |
      (rule sure_tame; (rule tame | erule tame_steps | simp add: class_of_def)+; fail))+

lemma sure_reconcileStop:
  assumes g: "knows st g"
  shows "sure e st (reconcileStop e h g)"
proof (cases "g_Stop g")
  case None
  then show ?thesis
    by (simp add: reconcileStop_def reasoned.secure_Ret)
next
  case (Some s)
  have again: "stopping s2 a"
    if "Get (g_AttemptID g) s2 = Inr a" "later e s1 s2" "later e st s1" "turn_closed s1 (g_AttemptID g)" for s1 s2 a
    using that Some knows_again [OF knows_later [OF g that(3)] _ that(2,1)] turn_closed_later [OF that(4,2)]
    by (simp add: stopping_def)
  show ?thesis
    unfolding reconcileStop_def Let_def
    by (rule sure_stopCheckoutWriters sure_rules | (rule sure_stop_open, erule (3) again) |
        (rule sure_tame; (rule tame | erule tame_steps | simp add: class_of_def)+; fail))+
qed

lemma sure_stop_and_reconcile: "sure e st (stop_and_reconcile e h g r)"
  unfolding stop_and_reconcile_def by (rule sure_requestStop sure_reconcileStop | assumption)+

lemma sure_deliver: "sure e st (deliver e h i)"
  unfolding deliver_def
  by (rule sure_requestStop sure_rules | (rule sure_reconcileStop, (assumption | erule (1) knows_read(2))) |
      (rule sure_tame; (rule tame | erule tame_steps | simp add: class_of_def)+; fail))+

lemma sure_reconcile_parts:
  "sure e st (stopFailedStartup e h i x)" "sure e st (reconcile_intent e h preparing g)"
  "sure e st (reconcile_terminal e h g)" "sure e st (reconcile_pending e h g)"
  unfolding stopFailedStartup_def reconcile_intent_def reconcile_terminal_def reconcile_pending_def
  by (rule sure_stop_and_reconcile sure_deliver sure_rules |
      (rule sure_tame; (rule tame | erule tame_steps | simp add: class_of_def)+; fail))+

lemma sure_reconcile_open: "knows st g \<Longrightarrow> sure e st (reconcile_open e h preparing g)"
  unfolding reconcile_open_def
  by (rule sure_stop_and_reconcile sure_reconcile_parts sure_rules | (rule sure_reconcileStop, (assumption | erule (1) knows_read(2))) |
      (rule sure_tame; (rule tame | erule tame_steps | simp add: class_of_def)+; fail))+

lemma sure_interrupted:
  assumes k: "\<And>st' g'. later e st st' \<Longrightarrow> knows st' g' \<Longrightarrow> sure e st' (k g')"
  shows "sure e st (orfail (interrupted_preparation e g p) k)"
proof -
  have k2: "sure e s4 (k a)"
    if "later e st s1" "same_or_committed e s1 s2" "later e s2 s3" "Get i s3 = Inr a" "later e s3 s4" for i s1 s2 s3 s4 a
    using that by (intro k) (meson later_trans later_step, meson knows_read(2) knows_later)
  have k3: "sure e s5 (k b)"
    if "later e st s1" "same_or_committed e s1 s2" "later e s2 s3" "later e s3 s4" "later e s4 s5" "Get i s5 = Inr b" for i s1 s2 s3 s4 s5 b
    using that by (intro k) (meson later_trans later_step, meson knows_read(2))
  have k1: "sure e s3 (k a)"
    if "later e st s1" "same_or_committed e s1 s2" "later e s2 s3" "Get i s3 = Inr a" for i s1 s2 s3 a
    using that later_refl [OF later_sound [OF that(3)]] by (rule k2)
  show ?thesis
    unfolding interrupted_preparation_def Let_def orfail_laws
    by (rule sure_rules | (erule (3) k1) | (erule (5) k3) |
        (rule sure_tame; (rule tame | erule tame_steps | simp add: class_of_def)+; fail))+
qed

lemma sure_adopt:
  assumes k: "\<And>st' g'. later e st st' \<Longrightarrow> knows st' g' \<Longrightarrow> sure e st' (k g')" and g: "knows st g"
  shows "sure e st (orfail (adopt_preparation e here g) k)"
proof (rule sure_sound)
  assume st: "sound e st"
  have k': "sure e st' (k g)" if "later e st st'" for st'
    using that by (intro k knows_later [OF g])
  have k2: "sure e st' (orfail (interrupted_preparation e g p) k)" if "later e st st'" for st' p
    using that by (intro sure_interrupted k) (rule later_trans)
  show ?thesis
    unfolding adopt_preparation_def
    by (cases "g_PreparationProcess g"; simp only: option.case orfail_laws)
      (rule k' later_refl [OF st] k2 sure_rules | assumption | (rule sure_tame; (rule tame | simp add: class_of_def)+; fail))+
qed

lemma sure_reconcileAttempt: "sure e st (reconcileAttempt e h i)"
  unfolding reconcileAttempt_def
  by (rule sure_adopt sure_rules | (rule sure_reconcile_open, assumption) | (erule (1) knows_read(2)) |
      (rule knows_later, erule (1) knows_read(2), assumption) | (simp add: class_of_def; fail) |
      (rule sure_tame; (rule tame | erule tame_steps | simp add: class_of_def)+; fail))+

section \<open>Sessions\<close>

definition session_closed :: "registry \<Rightarrow> string \<Rightarrow> bool" where
  "session_closed st i \<longleftrightarrow> (case session_of st i of None \<Rightarrow> False | Some ws \<Rightarrow> ws_State ws = SessionClosed)"

lemma session_closed_later: "session_closed st i \<Longrightarrow> later e st st' \<Longrightarrow> session_closed st' i"
  by (auto simp: session_closed_def session_le_facts split: option.splits dest!: later_session)

lemma recoverClosedCheckpoint_sessions: "recoverClosedCheckpoint e c st g now = Inr st' \<Longrightarrow> session_of st' = session_of st"
  by (auto simp: recoverClosedCheckpoint_def Let_def split: step_splits)

lemma CloseSession_closed: "CloseSession e c i st = Inr (st', a) \<Longrightarrow> session_closed st' i"
  by (auto simp: CloseSession_def Let_def session_closed_def dest!: recoverClosedCheckpoint_sessions
    split: option.splits if_splits sum.splits)

lemma sure_clean_session:
  assumes "session_closed st i"
  shows "sure e st (clean_session h i)"
proof -
  have "reason st' (CleanupSession i ref)" if "later e st st'" for st' ref
    using session_closed_later [OF assms that] by (simp add: reason_def session_closed_def)
  then show ?thesis
    unfolding clean_session_def
    by (intro sure_rules sure_calls)
qed

lemma sure_close_session:
  assumes "\<And>st'. session_closed st' (ws_ID ws) \<Longrightarrow> sure e st' go"
  shows "sure e st (close_session e h ws go)"
  unfolding close_session_def
  by (rule sure_rules | (rule assms, erule CloseSession_closed) | (simp add: class_of_def; fail) |
      (rule sure_tame; (rule tame | simp add: class_of_def)+; fail))+

definition draining :: "registry \<Rightarrow> worker_session \<Rightarrow> bool" where
  "draining st ws \<longleftrightarrow>
    knows_session st ws \<and> ws_Stop ws \<noteq> None \<and> (active_at_stop ws = [] \<or> turn_closed st (active_at_stop ws))"

lemma draining_later: "draining st ws \<Longrightarrow> later e st st' \<Longrightarrow> draining st' ws"
  by (auto simp: draining_def intro: knowledge turn_closed_later)

lemma draining_reason: "draining st ws \<Longrightarrow> reason st (DeleteSessionPod (ws_ID ws) ref)"
  by (auto simp: draining_def knows_session_def reason_def session_le_facts split: option.splits dest: session_le_facts(3))

lemma sure_prove_session_stop:
  assumes go: "\<And>st' ws'. ws_ID ws' = ws_ID ws \<Longrightarrow> sure e st' (go ws')" and ws: "draining st ws"
  shows "sure e st (prove_session_stop h ws go)"
  unfolding prove_session_stop_def record_evidence_def unless_unknown_def orfail_laws
  by (rule sure_rules | (rule go, (rule refl | erule (1) GetSession_knows(1) [OF later_sound])) |
      (rule sure_calls, rule draining_reason, (rule ws | (rule draining_later [OF ws], assumption))) |
      (simp add: class_of_def; fail) |
      (rule sure_tame; (rule tame | erule tame_steps | simp add: class_of_def)+; fail))+

lemma sure_stopSessionControllerWriters:
  assumes k: "\<And>st' b. later e st st' \<Longrightarrow> draining st' ws \<Longrightarrow> sure e st' (k b)" and ws: "knows_session st ws"
  shows "sure e st (orfail (stopSessionControllerWriters ws) k)"
proof (cases "ws_Stop ws = None")
  case True
  then show ?thesis
    by (simp add: stopSessionControllerWriters_def orfail_laws reasoned.secure_Ret)
next
  case False
  show ?thesis
  proof (cases "active_at_stop ws = []")
    case True
    with False ws have "draining st ws"
      by (simp add: draining_def)
    then show ?thesis
      using True False by - (rule sure_sound, simp add: stopSessionControllerWriters_def orfail_laws k later_refl reasoned.secure_Ret)
  next
    case nonempty: False
    have drained: "draining s2 ws"
      if "later e st s1" "turn_closed s1 (active_at_stop ws)" "later e s1 s2" for s1 s2
      using that False knows_session_later [OF ws later_trans [OF that(1,3)]] by (auto simp: draining_def intro: turn_closed_later)
    show ?thesis
      unfolding stopSessionControllerWriters_def orfail_laws
      by (rule sure_stopCheckoutWriters sure_rules | (rule k, erule (1) later_trans, erule (2) drained) |
          (rule notE [OF nonempty], assumption))+
  qed
qed

lemma sure_stop_open_session: "sure e st (stop_open_session e h ws)"
proof -
  have close: "sure e s1 (prove_session_stop h w (\<lambda>v. close_session e h v (clean_session h (ws_ID ws))))"
    if "later e s s0" "GetSession (ws_ID ws) s0 = Inr w" "draining s1 w" for s s0 s1 w
    using GetSession_knows(1) [OF later_sound [OF that(1)] that(2)] that(3)
    by (intro sure_prove_session_stop sure_close_session sure_clean_session) simp_all
  show ?thesis
    unfolding stop_open_session_def Let_def
    by (rule sure_stopSessionControllerWriters sure_rules | (erule (2) close) |
        (rule GetSession_knows(2) [OF later_sound]; assumption) |
        (rule sure_tame; (rule tame | erule tame_steps | simp add: class_of_def)+; fail))+
qed

lemma sure_reconcileSessionStop: "knows_session st ws \<Longrightarrow> sure e st (reconcileSessionStop e h ws)"
  unfolding reconcileSessionStop_def
  by (rule sure_stop_open_session sure_clean_session sure_rules |
      (auto simp: knows_session_def session_closed_def session_le_facts; fail))+

lemma sure_reconcileSession: "sure e st (reconcileSession e h i)"
  unfolding reconcileSession_def
  by (rule sure_rules | (rule sure_reconcileSessionStop, erule (1) GetSession_knows(2) [OF later_sound]) |
      (simp add: class_of_def; fail) | (rule sure_tame; (rule tame | erule tame_steps | simp add: class_of_def)+; fail))+

section \<open>The start of an execution\<close>

definition begun :: "registry \<Rightarrow> task_grant \<Rightarrow> bool" where
  "begun st g \<longleftrightarrow> (case grant_of st (g_AttemptID g) of None \<Rightarrow> False | Some h \<Rightarrow> 5 \<le> state_rank (g_State h) \<and> g_TaskID h = g_TaskID g)"

lemma BeginStart_begun: "knows st g \<Longrightarrow> BeginStart c (g_AttemptID g) st = Inr (st', a) \<Longrightarrow> begun st' g"
  by (auto simp: knows_def begun_def BeginStart_def update_grant_def transition_step_def bind_res_eq_Inr grant_le_facts Let_def
      split: if_splits option.splits)

lemma begun_reason:
  "begun st g \<Longrightarrow> reason st (StartTask (g_AttemptID g) (g_TaskID g))" "begun st g \<Longrightarrow> reason st (StartClaimed (g_AttemptID g) cl)"
  by (auto simp: begun_def reason_def split: option.splits)

lemma sure_backend_start: "begun st g \<Longrightarrow> sure e st (backend_start e g)"
  unfolding backend_start_def API_Start_def API_StartClaim_def
  by (rule sure_rules sure_calls begun_reason | assumption)+

lemma sure_start_execution:
  assumes g: "knows st g"
  shows "sure e st (start_execution e g)"
proof -
  have begun: "begun s5 g"
    if "later e st s1" "later e s1 s2" "same_or_committed e s2 s3" "later e s3 s4" "BeginStart c (g_AttemptID g) s4 = Inr (s5, a)"
    for s1 s2 s3 s4 s5 c a
    using BeginStart_begun [OF knows_later [OF g] that(5)] that by (meson later_trans later_step)
  show ?thesis
    unfolding start_execution_def
    by (rule sure_rules | (erule notE, simp; fail) | (rule sure_backend_start, erule (4) begun) |
        (rule sure_tame; (rule tame | erule tame_steps | simp add: class_of_def)+; fail))+
qed

lemma sure_attempt_action: "knows st g \<Longrightarrow> sure e st (attempt_action e h r action g pod)"
  unfolding attempt_action_def with_outcome_def Let_def
  by (rule sure_rules | (rule sure_start_execution, assumption) |
      (rule sure_tame; (rule tame | erule tame_steps | simp add: class_of_def)+; fail))+

lemma sure_attempt_request: "sure e st (attempt_request e h r i action)"
  unfolding attempt_request_def
  by (rule sure_rules | (rule sure_attempt_action, erule (1) Authorize_knows [OF later_sound]) |
      (rule sure_tame; (rule tame | erule tame_steps | simp add: class_of_def)+; fail))+

lemma sure_supervisor: "sure e st (supervisor e h r)"
  unfolding supervisor_def
  by (rule sure_attempt_request sure_rules |
      (rule sure_tame; (rule tame | erule tame_steps | simp add: class_of_def)+; fail))+

lemma sure_running: "sure e st p \<Longrightarrow> sure e st (running p)"
  unfolding running_def by (rule reasoned.secure_andthen, assumption, rule reasoned.secure_Ret)

section \<open>The handlers of the controller\<close>

text \<open>Each request and each wake-up of the controller that is modelled, as a program that may be begun at any time.\<close>

inductive_set controller_programs :: "env \<Rightarrow> host \<Rightarrow> unit prog set" for e h where
  "running (supervisor e h r) \<in> controller_programs e h"
| "running (workerSessionControl e h r) \<in> controller_programs e h"
| "running (reconcileAttempt e h i) \<in> controller_programs e h"
| "running (reconcileDelivery e h i) \<in> controller_programs e h"
| "running (reconcileSession e h i) \<in> controller_programs e h"
| "running (preparation_job e i) \<in> controller_programs e h"
| "running (reconcileTurnCompletion e h cl rows) \<in> controller_programs e h"

lemma controller_tame: "p \<in> controller_programs e h \<Longrightarrow> tame e UNIV p"
  by (induction rule: controller_programs.induct) (rule tame | simp)+

lemma controller_sure: "p \<in> controller_programs e h \<Longrightarrow> sure e st p"
  by (induction rule: controller_programs.induct)
    (rule sure_running sure_supervisor sure_reconcileAttempt sure_reconcileDelivery sure_reconcileSession |
      (rule sure_tame; (rule tame)+; fail))+

interpretation reasoned: governed e "recording reason" "committed e" "controller_programs e h" "()" for e h
proof
  show "sound e st \<Longrightarrow> wp e (recording reason) p (\<lambda>_ _ _. True) st ()" if "p \<in> controller_programs e h" for p st
    using controller_sure [OF that] by (simp add: reasoned.secure_wp)
qed (use controller_tame in \<open>auto simp: tame_def\<close>)

end
