(* ===== verification/Driver_Starts.thy ===== *)
theory Driver_Starts
  imports Driver_Reasons
begin

text \<open>
  The backend is told to start a task by the handler that took the attempt from \<open>Offered\<close> to \<open>Starting\<close> in
  the journal, and by no other: the transition is the token of the discipline \<open>taking\<close>, and the call spends it.
\<close>

section \<open>The token\<close>

definition unstarted :: "string \<Rightarrow> registry \<Rightarrow> bool" where
  "unstarted i st \<longleftrightarrow> (case grant_of st i of None \<Rightarrow> True | Some g \<Rightarrow> state_rank (g_State g) < 5)"

definition starts :: "string \<Rightarrow> driver_call \<Rightarrow> bool" where
  "starts i q \<longleftrightarrow> (case q of StartTask j _ \<Rightarrow> j = i | StartClaimed j _ \<Rightarrow> j = i | _ \<Rightarrow> False)"

abbreviation start_discipline :: "string \<Rightarrow> bool discipline" where
  "start_discipline i \<equiv> taking (unstarted i) (starts i) (\<lambda>q _. starts i q)"

lemma unstarted_before:
  assumes "committed e st st'" "unstarted i st'"
  shows "unstarted i st"
proof (cases "grant_of st i")
  case (Some g)
  then obtain h where "grant_of st' i = Some h" "grant_le g h"
    using advances_grant_of [OF committed_advances [OF assms(1)]] by blast
  then show ?thesis
    using assms(2) Some by (auto simp: unstarted_def grant_le_def flags_advance_def)
qed (simp add: unstarted_def)

interpretation starting: lenient e "start_discipline i" for e i
  by (rule lenient_taking) (rule unstarted_before)

abbreviation fits :: "string \<Rightarrow> env \<Rightarrow> registry \<Rightarrow> 'a prog \<Rightarrow> bool" where
  "fits i e \<equiv> lenient.secure e (start_discipline i)"

lemma starts_class: "starts i q \<Longrightarrow> class_of q = StartCall"
  by (auto simp: starts_def class_of_def split: driver_call.splits)

lemma fits_tame: "tame e (UNIV - {StartCall}) p \<Longrightarrow> fits i e st p"
  by (rule starting.secure_calls_in [where K = "UNIV - {StartCall}"])
    (auto simp: tame_def taking_def dest: starts_class)

lemmas fits_rules =
  starting.secure_Ret starting.secure_ok starting.secure_reading_orfail starting.secure_reading
  starting.secure_writing_orfail starting.secure_writing starting.secure_if starting.secure_cases
  starting.secure_orfail starting.secure_andthen

section \<open>The start of an execution\<close>

lemma wp_backend_start:
  assumes "g_AttemptID g = i \<longrightarrow> b" "\<And>r b'. Q r st b'"
  shows "wp e (start_discipline i) (backend_start e g) Q st b"
  using assms
  by (auto simp: backend_start_def API_Start_def API_StartClaim_def tell_def taking_def starts_def ask_def split: sum.splits)

lemma BeginStart_takes: "BeginStart c i st = Inr (st', a) \<Longrightarrow> unstarted i st \<and> \<not> unstarted i st'"
  by (auto simp: unstarted_def BeginStart_def update_grant_def transition_step_def Let_def split: option.splits if_splits)

lemma fits_begin:
  "fits i e st (orfail (writing (\<lambda>c. BeginStart c (g_AttemptID g)))
     (\<lambda>_. orfail (backend_start e g) (\<lambda>_. writing (\<lambda>c. MarkStarted c (g_AttemptID g)))))"
  unfolding starting.secure_def wp_orfail
proof (intro allI impI, rule starting.wp_writing)
  fix st' b c a s1 s2
  assume st: "later e st st'" "later e st' s1" "BeginStart c (g_AttemptID g) s1 = Inr (s2, a)" "same_or_committed e s1 s2"
  let ?b = "d_next (start_discipline i) s1 s2 b"
  have "sound e s1" "sound e s2"
    using st later_sound later_step by blast+
  then have "d_legal (start_discipline i) s1 s2 b"
    using st(4) by (intro starting.legal)
  moreover have "g_AttemptID g = i \<longrightarrow> ?b"
    using BeginStart_takes [OF st(3)] by (auto simp: taking_def)
  moreover have "wp e (start_discipline i) (writing (\<lambda>c. MarkStarted c (g_AttemptID g))) (\<lambda>_ _ _. True) s2 b'" for b'
    by (rule starting.secure_wp [OF fits_tame \<open>sound e s2\<close>]) (rule tame | erule tame_steps)+
  ultimately show "d_legal (start_discipline i) s1 s2 b \<and>
      (case Inr a of Inl x \<Rightarrow> \<lambda>_ _. True
       | Inr _ \<Rightarrow> wp e (start_discipline i) (backend_start e g)
           (\<lambda>r. case r of Inl x \<Rightarrow> \<lambda>_ _. True
             | Inr _ \<Rightarrow> wp e (start_discipline i) (writing (\<lambda>c. MarkStarted c (g_AttemptID g))) (\<lambda>_ _ _. True))) s2 ?b"
    by (auto intro!: wp_backend_start split: sum.splits)
qed simp

lemma fits_start_execution: "fits i e st (start_execution e g)"
  unfolding start_execution_def
  by (rule fits_begin fits_rules |
      (rule fits_tame; (rule tame | erule tame_steps | simp add: class_of_def)+; fail))+

lemma fits_supervisor: "fits i e st (supervisor e h r)"
  unfolding supervisor_def attempt_request_def attempt_action_def with_outcome_def Let_def
  by (rule fits_start_execution fits_rules |
      (rule fits_tame; (rule tame | erule tame_steps | simp add: class_of_def)+; fail))+

lemma fits_running: "fits i e st p \<Longrightarrow> fits i e st (running p)"
  unfolding running_def by (rule starting.secure_andthen, assumption, rule starting.secure_Ret)

lemma controller_fits: "p \<in> controller_programs e h \<Longrightarrow> fits i e st p"
  by (induction rule: controller_programs.induct)
    (rule fits_running, rule fits_supervisor | (rule fits_tame; (rule tame | simp)+; fail))+

interpretation starting: governed e "start_discipline i" "committed e" "controller_programs e h" False for e i h
proof
  show "sound e st \<Longrightarrow> wp e (start_discipline i) p (\<lambda>_ _ _. True) st False" if "p \<in> controller_programs e h" for p st
    using controller_fits [OF that] by (simp add: starting.secure_wp)
qed (use controller_tame in \<open>auto simp: tame_def\<close>)

end
