(* ===== verification/Sample_Runs.thy ===== *)
theory Sample_Runs
  imports Driver_Starts Sample_Claims
begin

text \<open>
  A concrete run of the controller: an attempt whose Pod was never created is closed, and its cleanup and its
  failure are still to be done.
\<close>

section \<open>The journals of the run\<close>

definition ended_stop :: stop_record where
  "ended_stop = (stop_record_for ''stop'' 100 uuid_d)\<lparr>sp_Evidence := Some
     \<lparr>se_PodUID = [], se_PVCUID = ''uid'', se_Kind = EvNoWorker, se_ObservedAt = 100, se_PreparedFlushOK = False\<rparr>\<rparr>"

definition ended_envelope :: string where
  "ended_envelope = ''{\"dispatched_at\":\"2025-01-02T03:04:05Z\"}''"

definition ended_resources :: string where
  "ended_resources = ''{\"secretCreateRequested\":true,\"podCreateRequested\":false}''"

definition ended_grant :: "bool \<Rightarrow> task_grant" where
  "ended_grant clean = writing_grant\<lparr>g_State := Closed, g_Stop := Some ended_stop, g_ExecutionRevoked := True,
     g_CheckoutClosed := True, g_Envelope := ended_envelope, g_Resources := ended_resources, g_CleanupComplete := clean\<rparr>"

definition ended_failure :: "delivery \<Rightarrow> terminal" where
  "ended_failure d = (controller_terminal (sample_env uuid_a) sample_call uuid_c ''{}'' writing_grant)\<lparr>t_State := d\<rparr>"

definition ended_storage :: storage where
  "ended_storage = written_storage\<lparr>b_ActiveAttempt := [], b_Dirty := True\<rparr>"

definition ended_journal :: "bool \<Rightarrow> delivery \<Rightarrow> registry" where
  "ended_journal clean d = volume_journal\<lparr>r_Grants := [(uuid_c, ended_grant clean)], r_Storages := [(uuid_d, ended_storage)],
     r_Terminals := [(uuid_c, ended_failure d)]\<rparr>"

lemma ended_texts:
  "json_valid ended_envelope" "json_valid ended_resources" "resources_without_worker ended_resources"
  "dispatched_at ended_envelope = ''2025-01-02T03:04:05Z''" "validOpaque ''stop''" "ended_resources \<noteq> []"
  by code_simp+

lemma ended_sizes: "length ended_envelope \<le> 8388608" "length ended_resources \<le> 8388608"
  by (simp_all add: ended_envelope_def ended_resources_def)

lemma ended_journal_fields [simp]:
  "r_OwnerID (ended_journal clean d) = uuid_a" "r_Terminals (ended_journal clean d) = [(uuid_c, ended_failure d)]"
  "r_Grants (ended_journal clean d) = [(uuid_c, ended_grant clean)]" "r_Storages (ended_journal clean d) = [(uuid_d, ended_storage)]"
  "r_Capabilities (ended_journal clean d) = []" "r_Conversations (ended_journal clean d) = []"
  "r_Sessions (ended_journal clean d) = []" "r_WorkspaceClaim (ended_journal clean d) = ''claim''"
  "r_WorkspaceUID (ended_journal clean d) = ''uid''" "r_NFSServer (ended_journal clean d) = ''10.0.0.1''"
  "r_SchemaVersion (ended_journal clean d) = schema_version"
  by (simp_all add: ended_journal_def volume_journal_def empty_registry_def)

lemma ended_lookups [simp]:
  "grant_of (ended_journal clean d) i = (if i = uuid_c then Some (ended_grant clean) else None)"
  "storage_of (ended_journal clean d) i = (if i = uuid_d then Some ended_storage else None)"
  "terminal_of (ended_journal clean d) i = (if i = uuid_c then Some (ended_failure d) else None)"
  "session_of (ended_journal clean d) i = None"
  "put_grant uuid_c (ended_grant c1) (ended_journal clean d) = ended_journal c1 d"
  "put_terminal uuid_c (ended_failure d1) (ended_journal clean d) = ended_journal clean d1"
  by (simp_all add: grant_of_def storage_of_def terminal_of_def session_of_def put_grant_def put_terminal_def ended_journal_def
      volume_journal_def empty_registry_def)

lemma ended_grant_fields [simp]:
  "g_State (ended_grant clean) = Closed" "g_AttemptID (ended_grant clean) = uuid_c" "g_StorageID (ended_grant clean) = uuid_d"
  "g_WorkerSessionID (ended_grant clean) = []" "g_TaskID (ended_grant clean) = uuid_b" "g_Stop (ended_grant clean) = Some ended_stop"
  "g_CleanupComplete (ended_grant clean) = clean" "g_Resources (ended_grant clean) = ended_resources"
  "g_Envelope (ended_grant clean) = ended_envelope" "g_SessionProtocol (ended_grant clean) = False"
  "(ended_grant clean)\<lparr>g_CleanupComplete := c1\<rparr> = ended_grant c1" "g_RuntimeID (ended_grant clean) = ''rt''"
  "g_WorkspaceID (ended_grant clean) = uuid_a" "g_AgentID (ended_grant clean) = ''agent''"
  by (simp_all add: ended_grant_def) (simp_all add: writing_grant_def claimed_grant_def sample_claim_def zero_grant_def)

lemma ended_failure_fields [simp]:
  "t_Source (ended_failure d) = SourceController" "t_Kind (ended_failure d) = KindFail" "t_State (ended_failure d) = d"
  "t_Body (ended_failure d) = ''{}''" "(ended_failure d)\<lparr>t_State := d1\<rparr> = ended_failure d1" "t_RecoveryFailure (ended_failure d) = None"
  "t_Seal (ended_failure d) = None" "t_ResultReceipt (ended_failure d) = None"
  by (simp_all add: ended_failure_def controller_terminal_def zero_terminal_def)

lemma ended_validated_grant: "validate_grant (sample_env uuid_a) (ended_journal clean d) (uuid_c, ended_grant clean) = Inr ()"
proof -
  have "list_all (\<lambda>(bad, _). \<not> bad) (grant_checks (sample_env uuid_a) (ended_journal clean d) uuid_c (ended_grant clean))"
    by (simp add: grant_checks_def grant_identity_ok_def record_fits_def ended_texts)
     (simp add: ended_grant_def writing_grant_def claimed_grant_def sample_claim_def zero_grant_def given_def start_unproven_def
        stop_key_unbound_def RuntimeFingerprint_def scopeDigest_def sample_opaque ended_stop_def stop_record_for_def stop_intent_bad_def
        validStopEvidence_def noWorkerCreated_def ended_texts ended_sizes sample_ref_valid)
  moreover have "list_all (\<lambda>(bad, _). \<not> bad) (task_checks (sample_env uuid_a) (ended_journal clean d) uuid_c (ended_grant clean))"
    by (simp add: task_checks_def task_state_checks_def storage_binds_def get_by_lookup given_def Let_def)
     (simp add: ended_grant_def writing_grant_def claimed_grant_def sample_claim_def zero_grant_def given_def session_fields_set_def
         ended_storage_def written_storage_def zero_storage_def stop_evidence_of_def ended_stop_def)
  ultimately show ?thesis
    by (simp add: validate_grant_def bind_res_eq_Inr first_failure_Inr)
qed

lemma ended_sound:
  assumes "d = DReceived \<or> d = DForwarding"
  shows "sound (sample_env uuid_a) (ended_journal clean d)"
proof -
  have "storages_ok (sample_env uuid_a) (ended_journal clean d) [] (r_Storages (ended_journal clean d)) = Inr ()"
    by (simp add: storage_identity_ok_def sample_root_valid task_storage_checks_def first_failure_Inr ended_storage_def)
      (simp add: written_storage_def zero_storage_def given_def eval)
  moreover have "validate_terminal (sample_env uuid_a) (ended_journal clean d) (uuid_c, ended_failure d) = Inr ()"
    using assms by (auto simp: validate_terminal_def first_failure_Inr terminal_checks_def terminal_identity_ok_def source_checks_def
        delivery_checks_def given_def record_fits_def stop_evidence_of_def ended_stop_def)
      (simp_all add: ended_failure_def controller_terminal_def zero_terminal_def sample_call_def TerminalDigest_def ended_grant_def
        writing_grant_def claimed_grant_def sample_claim_def zero_grant_def)
  ultimately show ?thesis
    using ended_validated_grant sample_uuid_laws
    by (simp add: sound_def validated_def validate_registry_def validateRegistry_def registry_checks_def
        first_failure_Inr validateConversations_def maps_ok_def distinct_keys_def)
qed

section \<open>The run\<close>

text \<open>A program played by a script: for each of its actions the surroundings of a transaction or the answer of a call.\<close>

datatype turn = At call "err option" | Says answer

fun play :: "env \<Rightarrow> turn list \<Rightarrow> unit prog \<Rightarrow> registry \<Rightarrow> (driver_call \<times> answer) list \<Rightarrow> world option" where
  "play e [] p st log = Some \<lparr>w_journal = st, w_programs = [p], w_log = log\<rparr>"
| "play e (At c x # ts) (Txn u k) st log =
    (let m = \<lparr>m_call = c, m_fail = x, m_journal = st\<rparr> in
     if fresh_ids c st \<and> (u m = st \<or> validated e (u m)) then play e ts (k m) (u m) log else None)"
| "play e (Says a # ts) (Ext q k) st log = play e ts (k a) st (log @ [(q, a)])"
| "play _ _ _ _ _ = None"

lemma play_steps:
  "play e ts p st log = Some w \<Longrightarrow>
   world_steps e E H \<lparr>w_journal = st, w_programs = [p], w_log = log\<rparr> w"
proof (induction e ts p st log rule: play.induct)
  case (2 e c x ts u k st log)
  let ?m = "\<lparr>m_call = c, m_fail = x, m_journal = st\<rparr>"
  let ?w = "\<lparr>w_journal = st, w_programs = [Txn u k], w_log = log\<rparr>"
  from 2(2) have ok: "fresh_ids c st" "u ?m = st \<or> validated e (u ?m)" "play e ts (k ?m) (u ?m) log = Some w"
    by (auto simp: Let_def split: if_splits)
  have "world_step e E H ?w (?w\<lparr>w_journal := u ?m, w_programs := (w_programs ?w)[0 := k ?m]\<rparr>)"
    using ok by (intro world_step.transacting) auto
  then show ?case
    using 2(1) [OF refl] ok by (auto intro: converse_rtranclp_into_rtranclp)
next
  case (3 e a ts q k st log)
  let ?w = "\<lparr>w_journal = st, w_programs = [Ext q k], w_log = log\<rparr>"
  have "world_step e E H ?w (?w\<lparr>w_programs := (w_programs ?w)[0 := k a], w_log := w_log ?w @ [(q, a)]\<rparr>)"
    by (rule world_step.calling) auto
  then show ?case
    using 3 by (auto intro: converse_rtranclp_into_rtranclp)
qed auto

lemma played:
  assumes "play e ts p st [] = Some w" "p \<in> H"
  shows "world_steps e E H (fresh_world st) w"
proof -
  have "world_step e E H (fresh_world st) ((fresh_world st)\<lparr>w_programs := w_programs (fresh_world st) @ [p]\<rparr>)"
    using assms(2) by (rule world_step.beginning)
  then show ?thesis
    using play_steps [OF assms(1)] by (auto simp: fresh_world_def intro: converse_rtranclp_into_rtranclp)
qed

definition run_call :: call where "run_call = sample_call\<lparr>c_uuid := \<lambda>_. uuid_a\<rparr>"

definition run_answer :: answer where
  "run_answer =
    \<lparr>an_Error = None, an_Time = 100, an_Text = [], an_Flag = True,
     an_Assignment = \<lparr>tas_RuntimeID = ''rt'', tas_DispatchedAt = ''2025-01-02T03:04:05Z'', tas_Status = ''running''\<rparr>,
     an_Pod = \<lparr>pv_NodeName = [], pv_Deleting = False, pv_Phase = [], pv_InitFailed = False\<rparr>,
     an_Stop = \<lparr>so_Stopped = True, so_NeverStarted = True, so_ObservedAt = 100\<rparr>,
     an_Process = undefined, an_Row = undefined, an_Rows = [], an_Idle = None, an_Challenges = undefined\<rparr>"

definition run_record :: resource_record where
  "run_record = zero_record\<lparr>res_Reference := zero_reference\<lparr>kr_TaskID := uuid_b, kr_AttemptID := uuid_c, kr_StorageID := uuid_d,
     kr_OwnerID := uuid_a, kr_PVCName := ''claim'', kr_TaskRoot := sample_root, kr_RuntimeRef := sample_ref\<rparr>,
     res_SecretCreateRequested := True\<rparr>"

definition run_host :: host where
  "run_host =
    \<lparr>h_Owner = ([], []), h_Namespace = [], h_GatewayURL = [], h_NFSServer = ''10.0.0.1'', h_Configuration = undefined,
     h_Environment = None, h_GitHubApp = False, h_Capacity = 1, h_MaxResidentPods = 1, h_ConversationIdleTimeout = 1,
     h_PreparationSeconds = 1, h_TaskDeadlineSeconds = 1, h_TerminationGraceSeconds = 1, h_RuntimeRef = sample_ref,
     h_DecodeRecord = (\<lambda>_. Some run_record), h_UnmarshalRecord = (\<lambda>_. Some run_record), h_EncodeRecord = (\<lambda>_. ended_resources),
     h_DecodeOptions = (\<lambda>_ _. None), h_DecodeEvent = (\<lambda>_. None), h_UnmarshalEvent = (\<lambda>_. None), h_EncodeEvent = (\<lambda>_. []),
     h_DecodeResult = (\<lambda>_. None), h_EncodeResult = (\<lambda>_. []), h_Redact = (\<lambda>s. s), h_RedactInput = (\<lambda>j. j),
     h_MessageText = (\<lambda>_. []), h_ResumeSessionID = (\<lambda>_. None), h_FailureRules = undefined, h_Cache = False,
     h_Origin = (\<lambda>_. True)\<rparr>"

definition run_script :: "turn list" where
  "run_script = map (\<lambda>b. if b then At run_call None else Says run_answer)
     [True, True, True, False, True, False, True, True, False, True, False]"

definition run_world :: world where
  "run_world = the (play (sample_env uuid_a) run_script (running (reconcileDelivery (sample_env uuid_a) run_host uuid_c))
     (ended_journal False DReceived) [])"

lemma run_calls [simp]: "fresh_ids run_call (ended_journal clean d)" "an_Error run_answer = None"
  "an_Assignment run_answer = \<lparr>tas_RuntimeID = ''rt'', tas_DispatchedAt = ''2025-01-02T03:04:05Z'', tas_Status = ''running''\<rparr>"
  by (simp_all add: fresh_ids_def run_call_def run_answer_def) (simp add: uuid_a_def uuid_d_def)

lemma ended_validated [simp]: "d = DReceived \<or> d = DForwarding \<Longrightarrow> validated (sample_env uuid_a) (ended_journal clean d)"
  using ended_sound [of d clean] by (simp add: sound_def)

lemma run_flags: "res_SecretCreateRequested run_record"
  by (simp add: run_record_def)

lemma run_record_read: "grant_record run_host (ended_grant clean) = Inr run_record"
proof -
  have "\<exists>v. parse_json ended_resources = Some v"
    using ended_texts(2) by (simp add: json_valid_def split: option.splits)
  moreover have "Ref_Equal sample_ref sample_ref"
    by (simp add: Ref_Equal_def)
  ultimately show ?thesis
    by (auto simp: grant_record_def unmarshal_def run_host_def ended_texts)
      (simp_all add: run_record_def zero_record_def zero_reference_def ended_grant_def writing_grant_def claimed_grant_def
        sample_claim_def zero_grant_def Let_def)
qed

lemma run_operations:
  "MarkCleaned uuid_c (ended_journal False d) = Inr (ended_journal True d, ())"
  "BeginFailureForward uuid_c (ended_journal clean DReceived) = Inr (ended_journal clean DForwarding, ())"
  "Get uuid_c (ended_journal clean d) = Inr (ended_grant clean)"
  "Terminal_get uuid_c (ended_journal clean d) = Inr (ended_failure d)"
  by (simp_all add: MarkCleaned_def MarkCleaned_step_def BeginFailureForward_def BeginFailureForward_step_def update_grant_def
    update_terminal_def Get_def Terminal_get_def ended_stop_def)


lemma run_dispatch: "same_dispatch (ended_grant clean) ''2025-01-02T03:04:05Z''
    \<lparr>tas_RuntimeID = ''rt'', tas_DispatchedAt = ''2025-01-02T03:04:05Z'', tas_Status = ''running''\<rparr>"
proof -
  have "parse_time ''2025-01-02T03:04:05Z'' \<noteq> None"
    by code_simp
  then show ?thesis
    by (auto simp: same_dispatch_def)
qed

lemma run_segment: "segment uuid_b" "json_valid ''{}''"
  by code_simp+

lemma run_played:
  "\<exists>p. play (sample_env uuid_a) run_script (running (reconcileDelivery (sample_env uuid_a) run_host uuid_c)) (ended_journal False DReceived) [] =
   Some \<lparr>w_journal = ended_journal True DForwarding, w_programs = [p],
     w_log = [(Cleanup uuid_c (res_Reference run_record), run_answer), (Hint WakePending, run_answer),
       (TaskAssignmentOf uuid_a ''agent'' uuid_b, run_answer), (SendTerminal uuid_c uuid_b KindFail ''{}'', run_answer)]\<rparr>"
  unfolding run_script_def running_def reconcileDelivery_def reconcileClosed_def recoverUnsealedResult_def cleanup_stopped_def
    deliverResult_def deliverFailure_def deliveryStatus_def assignment_def forward_failure_def API_Terminal_def orfail_def
    reading_def writing_def tell_def ask_def hinting_def outcome_def
  by (simp add: run_operations run_record_read Let_def fault_of_def unsealed_def run_flags ok_def ended_texts run_dispatch run_segment
    refuses_def terminalAllowed_def unresolved_def terminalKind_def)

end
