(* ===== verification/Driver_Properties.thy ===== *)
theory Driver_Properties
  imports Sample_Runs
begin

text \<open>
  What the controller keeps to, however its handlers, the rest of it and crashes are interleaved.
\<close>

section \<open>Runs of the controller\<close>

abbreviation controller_run :: "env \<Rightarrow> host \<Rightarrow> registry \<Rightarrow> world \<Rightarrow> bool" where
  "controller_run e h st \<equiv> world_steps e (committed e) (controller_programs e h) (fresh_world st)"

lemma sample_run: "controller_run (sample_env uuid_a) run_host (ended_journal False DReceived) run_world"
proof -
  obtain p where "play (sample_env uuid_a) run_script (running (reconcileDelivery (sample_env uuid_a) run_host uuid_c))
      (ended_journal False DReceived) [] =
    Some \<lparr>w_journal = ended_journal True DForwarding, w_programs = [p],
     w_log = [(Cleanup uuid_c (res_Reference run_record), run_answer), (Hint WakePending, run_answer),
       (TaskAssignmentOf uuid_a ''agent'' uuid_b, run_answer), (SendTerminal uuid_c uuid_b KindFail ''{}'', run_answer)]\<rparr>"
    using run_played by blast
  then show ?thesis
    unfolding run_world_def by - (rule played [OF _ controller_programs.intros(4)], simp)
qed

lemma sample_run_log:
  "w_journal run_world = ended_journal True DForwarding"
  "w_log run_world = [(Cleanup uuid_c (res_Reference run_record), run_answer), (Hint WakePending, run_answer),
     (TaskAssignmentOf uuid_a ''agent'' uuid_b, run_answer), (SendTerminal uuid_c uuid_b KindFail ''{}'', run_answer)]"
  using run_played by (auto simp: run_world_def)

lemma sample_run_sound: "sound (sample_env uuid_a) (ended_journal False DReceived)"
  by (rule ended_sound) simp

text \<open>C1: In every such run the backend is asked at most once to start an attempt, and only after the journal has taken the
  attempt out of the states in which it may be started; no lock of the controller is needed for it.\<close>

theorem start_requested_once:
  assumes "controller_run e h st w" "sound e st"
  shows "length (filter (\<lambda>(q, a). starts i q) (w_log w)) + of_bool (unstarted i (w_journal w)) \<le> 1"
proof -
  have "unstarted i (restarted st') \<Longrightarrow> unstarted i st'" for st'
    using advances_grant_of [OF restarted_advances, of st' i]
    by (cases "grant_of st' i") (auto simp: unstarted_def grant_le_def flags_advance_def)
  then show ?thesis
    using spent_once [OF starting.governed_axioms assms] unstarted_before by (simp add: spent_def)
qed

theorem start_requested_once_witness:
  "length (filter (\<lambda>(q, a). starts uuid_c q) (w_log run_world)) = 0 \<and> \<not> unstarted uuid_c (w_journal run_world)"
  using start_requested_once [OF sample_run sample_run_sound, of uuid_c] by (simp add: sample_run_log unstarted_def starts_def)

text \<open>C3: A result is sent to the backend only for the task of a recorded attempt and with the kind and the body that the
  journal holds for it: the worker's result, or a failure that was decided and recorded before.\<close>

theorem results_recorded:
  assumes "controller_run e h st w" "sound e st" "(SendTerminal i task kind body, a) \<in> set (w_log w)"
  shows "\<exists>g t. grant_of (w_journal w) i = Some g \<and> g_TaskID g = task \<and> terminal_of (w_journal w) i = Some t \<and> carries t kind body"
  using recorded_calls [OF reasoned.governed_axioms assms] by (auto simp: reason_def split: option.splits)

theorem results_recorded_witness:
  "\<exists>g t. grant_of (w_journal run_world) uuid_c = Some g \<and> g_TaskID g = uuid_b \<and>
     terminal_of (w_journal run_world) uuid_c = Some t \<and> carries t KindFail ''{}''"
  by (rule results_recorded [OF sample_run sample_run_sound, where a = run_answer]) (simp add: sample_run_log)

text \<open>C4: A Pod is deleted only for an attempt or session whose stop is recorded and whose checkouts are closed to new writers,
  and the resources of an attempt or session are removed only when it is closed.\<close>

theorem removal_justified:
  assumes "controller_run e h st w" "sound e st" "(q, a) \<in> set (w_log w)"
  shows "case q of
      DeletePod i _ \<Rightarrow> \<exists>g. grant_of (w_journal w) i = Some g \<and> g_Stop g \<noteq> None \<and> g_CheckoutClosed g
    | DeleteSessionPod i _ \<Rightarrow>
        \<exists>ws. session_of (w_journal w) i = Some ws \<and> ws_Stop ws \<noteq> None \<and>
          (active_at_stop ws = [] \<or> turn_closed (w_journal w) (active_at_stop ws))
    | Cleanup i _ \<Rightarrow> \<exists>g. grant_of (w_journal w) i = Some g \<and> g_State g = Closed
    | CleanupSession i _ \<Rightarrow> \<exists>ws. session_of (w_journal w) i = Some ws \<and> ws_State ws = SessionClosed
    | _ \<Rightarrow> True"
  using recorded_calls [OF reasoned.governed_axioms assms] by (cases q) (auto simp: reason_def split: option.splits)

theorem removal_justified_witness:
  "\<exists>g. grant_of (w_journal run_world) uuid_c = Some g \<and> g_State g = Closed"
  using removal_justified [OF sample_run sample_run_sound, of "Cleanup uuid_c (res_Reference run_record)" run_answer]
  by (simp add: sample_run_log)

section \<open>Requests without a token\<close>

text \<open>The program does nothing but read the journal and ends with the given answer.\<close>

primrec only_answers :: "'a \<Rightarrow> 'a prog \<Rightarrow> bool" where
  "only_answers x (Ret a) = (a = x)"
| "only_answers x (Txn u k) = ((\<forall>m. u m = m_journal m) \<and> (\<forall>m. only_answers x (k m)))"
| "only_answers x (Ext q k) = False"

lemma only_answers_reading: "(\<And>r. only_answers x (f r)) \<Longrightarrow> only_answers x (andthen (reading p) f)"
  by (simp add: reading_def)

text \<open>C40: A request to any of a supervisor's routes that carries no bearer token is answered with 403, whatever it asks
  for: the controller writes nothing to the journal and makes no call on its behalf.\<close>

theorem supervisor_needs_token:
  assumes "bearer r = None"
  shows "only_answers (HttpError 403) (supervisor e h r)"
  using assms
  by (auto simp: supervisor_def stopControl_def checkout_def checkoutStop_def waitForTerminal_def attempt_request_def
      acknowledgeTurnRetry_def andthen_assoc split: list.splits intro!: only_answers_reading split: sum.splits)

definition bare_request :: http_request where
  "bare_request =
    \<lparr>hr_Method = ''POST'', hr_Path = ''/internal/attempts/'' @ uuid_c @ ''/start'', hr_RawPath = [], hr_ForceQuery = False,
     hr_RawQuery = [], hr_Fragment = [], hr_Absolute = False, hr_Header = [], hr_Body = None\<rparr>"

theorem supervisor_needs_token_witness: "only_answers (HttpError 403) (supervisor (sample_env uuid_a) run_host bare_request)"
  by (rule supervisor_needs_token) code_simp

end
