(* ===== verification/Spec2Isabelle.thy ===== *)
theory Spec2Isabelle
  imports Journal_Properties Store_Properties Outbox_Properties Lifecycle_Properties Authority_Properties
    Reservation_Properties Admission_Retries Invariant_Properties Claim_Types Continuity_Properties
    Gateway_Properties Configuration_Properties Driver_Properties
begin

text \<open>
  \<^bold>\<open>A verified model of the controller and its private journal.\<close>

  The runtime controller takes tasks from a backend and runs each in a Kubernetes Pod.  What it
  has promised (claims, Pods, turns of a worker session, results it must still deliver) is kept
  in one private journal, the package \<^verbatim>\<open>src/src/internal/workspace\<close>.  Every other part of the
  program (controller, gateway, reconciliation, worker control) acts by calling the journal's
  operations; each is one transaction: copy the committed journal, change the copy, validate it,
  write it, and only then make it the committed one.  The development models that journal: all
  its records, every operation that changes it, its validation, its migration and its store; and, above it, the
  handlers of the controller that call it, as programs whose actions may be interleaved in any way.

  \<^bold>\<open>Layers.\<close>

  \<^item> Prelude and what the code uses of Go: \<open>Prelude\<close> (results, Go maps), \<open>Go_Strings\<close> (bytes, UTF-8,
    paths), \<open>Go_Json\<close> (\<^verbatim>\<open>encoding/json\<close>), \<open>Go_Time\<close> (RFC 3339), \<open>Go_Regexp\<close>.
  \<^item> Data: \<open>Journal_Types\<close>, \<open>Journal_State\<close>: the structs of \<^verbatim>\<open>grant.go\<close>, \<^verbatim>\<open>conversation_types.go\<close>,
    \<^verbatim>\<open>conversation.go\<close>, \<^verbatim>\<open>outbox.go\<close>, \<^verbatim>\<open>stop.go\<close>, \<^verbatim>\<open>events.go\<close>, \<^verbatim>\<open>capability.go\<close> as records with
    the same fields (prefixed: \<open>g_\<close> grant, \<open>b_\<close> storage, \<open>t_\<close> terminal, \<open>ws_\<close> worker session,
    \<open>r_\<close> the whole registry), enumerated strings as datatypes.
  \<^item> Values: \<open>Identity\<close> (\<^verbatim>\<open>paths.go\<close>, helpers of \<^verbatim>\<open>store.go\<close>), \<open>Messages\<close> (what is signed and how it is
    checked), \<open>Runtime_Image\<close> (\<^verbatim>\<open>runtimeimage/types.go\<close>, \<^verbatim>\<open>verify.go\<close>), \<open>Prepared\<close> (\<^verbatim>\<open>prepare.go\<close>,
    \<^verbatim>\<open>native_metadata.go\<close>: digests and validation).
  \<^item> Operations, a definition per method with the method's name, \<open>f_step\<close> being the closure that
    \<^verbatim>\<open>f\<close> passes to \<^verbatim>\<open>updateGrant\<close> or \<^verbatim>\<open>updateTerminal\<close>: \<open>Journal_Updates\<close>, \<open>Resident\<close>
    (\<^verbatim>\<open>resident.go\<close>), \<open>Claims\<close> and \<open>Grant_Ops\<close> (\<^verbatim>\<open>grant.go\<close>, \<^verbatim>\<open>checkout.go\<close>, \<^verbatim>\<open>events.go\<close>),
    \<open>Stop_Ops\<close> (\<^verbatim>\<open>stop.go\<close>), \<open>Outbox\<close> (\<^verbatim>\<open>outbox.go\<close>, \<^verbatim>\<open>result_receipt.go\<close>), \<open>Capabilities\<close>
    (\<^verbatim>\<open>capability.go\<close>), \<open>Compatibility\<close> (\<^verbatim>\<open>conversation.go\<close>, \<^verbatim>\<open>authority.go\<close>), \<open>Session_Control\<close>,
    \<open>Session_Lifecycle\<close>, \<open>Session_Reservation\<close> (the files of those names).
  \<^item> Callers of the journal: \<open>Observation\<close> and \<open>Task_History\<close> (\<^verbatim>\<open>daemonapi\<close>: \<^verbatim>\<open>claim.go\<close>, \<^verbatim>\<open>observation.go\<close>, \<^verbatim>\<open>history.go\<close>,
    \<^verbatim>\<open>authority.go\<close>: decoding a claim, what an observed row proves), \<open>Continuity\<close>
    (\<^verbatim>\<open>controller/continuity_selection.go\<close>: which earlier turn a claim continues), \<open>Task_Gateway\<close>
    (\<^verbatim>\<open>daemonapi/policy.go\<close>, \<^verbatim>\<open>gateway.go\<close>, \<^verbatim>\<open>proxy.go\<close>: what a task may ask of the backend).
  \<^item> Configuration: \<open>Configuration\<close> (\<^verbatim>\<open>configuration/bundle.go\<close>, \<^verbatim>\<open>capture.go\<close>, \<^verbatim>\<open>home.go\<close>: validation,
    digests and capture of the bundles that are applied to a worker's home).
  \<^item> The controller's programs: \<open>Drivers\<close> (errors, calls and answers, and the type \<open>'a prog\<close> of a function that
    runs transactions and makes calls), \<open>Request_Bodies\<close>, \<open>Session_Wire\<close>, \<open>Turn_Wire\<close> (\<^verbatim>\<open>wire/*.go\<close>),
    \<open>Controller_Ops\<close> and \<open>Checkouts\<close> (what the handlers share; \<^verbatim>\<open>checkout.go\<close>), \<open>Supervisor\<close> (\<^verbatim>\<open>gateway.go\<close>, the stop
    protocol of \<^verbatim>\<open>stop.go\<close>), \<open>Result_Delivery\<close> (\<^verbatim>\<open>turn_delivery.go\<close>, \<^verbatim>\<open>stop.go\<close>), \<open>Provision\<close> and
    \<open>Session_Provision\<close> (\<^verbatim>\<open>dispatch.go\<close>, \<^verbatim>\<open>session_provision.go\<close>, \<^verbatim>\<open>prepare.go\<close>, \<^verbatim>\<open>turn_inputs.go\<close>), \<open>Reconcile\<close>
    (\<^verbatim>\<open>reconcile.go\<close>, \<^verbatim>\<open>stop.go\<close>), \<open>Session_Gateway\<close> and \<open>Session_Reconcile\<close> (the files of those names).
  \<^item> The whole journal: \<open>Validate_Grants\<close>, \<open>Validate\<close> (\<^verbatim>\<open>validate.go\<close>, \<^verbatim>\<open>session_validate.go\<close>),
    \<open>Migration\<close> (\<^verbatim>\<open>session_migration.go\<close>, reading in \<^verbatim>\<open>store.go\<close>), \<open>Store\<close> (\<^verbatim>\<open>store.go\<close>: opening, budgets,
    transactions, publication, restart, closing).

  An operation is \<open>registry \<Rightarrow> err + (registry \<times> 'a)\<close>: \<open>Inl\<close> is the error return, which discards the
  copy; where the code commits and still reports an error (\<^verbatim>\<open>Create\<close>, \<^verbatim>\<open>ReserveTurn\<close>) the \<open>'a\<close> is
  itself a sum.  What a call sees of its surroundings is an argument: \<open>call\<close> (clock, fresh UUIDs,
  random bytes, the file check of a session) and \<open>env\<close> (the options of the store; SHA-256, Ed25519
  verification, the UUID and IP parsers).  These are code outside the repository; the theorems hold
  for all of them, except that \<open>sound\<close> asks of the UUID functions that printing what was parsed and
  parsing it again agree (\<open>uuid_laws\<close>).  Further parameters: the classification of failures by an
  imported package (\<open>failure_rules\<close>), the controller's configuration with the reading and writing of records of
  imported types and their redaction (\<open>host\<close>), the comparison of a grant with its actual Pod (\<open>gw_Admission\<close>), and
  whether \<^verbatim>\<open>net/http\<close> takes a method and URL (\<open>ac_Accepts\<close>) and the context still runs (\<open>ac_Live\<close>).

  \<^bold>\<open>What is proved.\<close>

  \<^item> \<open>Wellformed\<close> reads off the validation what every committed journal satisfies.  \<open>Histories\<close> gives
    grants, terminals and sessions an order of progress and states, as the locale \<open>history\<close>, what a
    relation that respects such an order promises of its runs.  \<open>Advance_Grants\<close>, \<open>Advance_Stops\<close>
    and \<open>Advance_Sessions\<close> show for every operation that it advances the journal.  \<open>Journal_Runs\<close> makes the
    journal a state machine (\<open>journal_step\<close>, one rule per operation, \<open>committed\<close> with validation and
    restarts) and interprets the locale for the three kinds of record.
  \<^item> \<open>Journal_Properties\<close>: what is never undone in any history (a start, a stop, a result, a delivery, a
    settlement, the end of a session).  \<open>Invariant_Properties\<close>: one writer per storage, distinct roots and
    residents.
  \<^item> \<open>Store_Properties\<close>: transactions are atomic; the lives of a store (\<open>store_step\<close>: transactions, reservations,
    challenges, readings, closing, crash and reopening) refine the state machine; a failed store is inert.
    \<open>Delivery_Frames\<close>: the validation of a journal does not refuse a result's next delivery state.
    \<open>Outbox_Properties\<close>: budgets, numbering of events, which results can be delivered, what an opened store holds.
  \<^item> \<open>Admission_Properties\<close>, \<open>Admission_Retries\<close>, \<open>Reservation_Properties\<close>: the Pod budget, reclaiming
    capacity and that retrying ends, what a reserved turn binds.  \<open>Claim_Properties\<close>, \<open>Claim_Types\<close>, \<open>Json_Text\<close>:
    the normal form of claims and of documents.  \<open>Capability_Runs\<close> (what becomes of a capability over a history) and
    \<open>Authority_Properties\<close>: capabilities and reuse evidence.
    \<open>Lifecycle_Properties\<close>: completing turns, closing and expiring sessions, upgrades.
  \<^item> \<open>Continuity_Properties\<close>: a continued execution rests on witnessed turns of the conversation and passes
    the journal's own check.  \<open>Gateway_Properties\<close>: what reaches the backend and what is disclosed.
  \<^item> \<open>Configuration_Properties\<close>: the files of a valid bundle do not collide, what is captured can be applied.
  \<^item> \<open>Driver_Runs\<close> runs any number of programs against one journal (\<open>world_step\<close>), with other committed steps and
    crashes in between, and gives two disciplines for what a program may do: \<open>recording\<close> (the journal has the
    reason of a call) and \<open>taking\<close> (a call spends a token that one transaction took).  The locales \<open>disciplined\<close>,
    \<open>governed\<close> and, in \<open>Driver_Rules\<close>, \<open>lenient\<close> hold their rules.  \<open>Driver_Steps\<close> shows of every function of the
    controller that it changes the journal only by the journal's operations and which calls it makes;
    \<open>Driver_Reasons\<close> and \<open>Driver_Starts\<close> interpret the locales for the calls that cannot be taken back.
    \<open>Driver_Properties\<close>: a task is started at most once, results are recorded before they are sent, Pods are removed
    only after a recorded stop, and nothing is done for a request without a token.
  \<^item> \<open>Sample_Runs\<close> (a played run of the controller), \<open>Samples\<close>, \<open>Sample_Claims\<close>, \<open>Sample_Turns\<close>, \<open>Sample_Continuity\<close> (with \<open>Plain_Text\<close>, which reads
    back the documents it writes): concrete journals, reached by the operations themselves,
    on which the theorems' hypotheses hold.

  \<^bold>\<open>Bounds and fuel.\<close>  \<open>uint64\<close> counters are \<open>64 word\<close>; \<open>reserve_turn_binds\<close> and \<open>event_taken_once\<close> show
  that turn and event numbers do not wrap.  Lengths, budgets and clock readings are \<open>int\<close> (the code bounds
  them far below \<^verbatim>\<open>MaxInt64\<close>).  The JSON parser and the scanners over UTF-8 take fuel: twice the
  length of the text plus one, and the length of the text; each recursive call consumes at least one byte of the rest or
  descends to a call that does, and \<open>parse_text\<close> proves that the fuel suffices for every document
  the parser can make.  The nesting limit of 10000 is Go's own.

  \<^bold>\<open>Order of iteration.\<close>  A Go map is an association list; its order stands for the order
  \<^verbatim>\<open>range\<close> happens to take and the theorems hold for each.  Operations run one after another
  because the store holds its mutex through a transaction; concurrency is the arbitrary order of
  \<open>journal_step\<close>s.  A field that repeats in a document is decoded afresh, not merged into what its first
  occurrence left, and raw JSON is kept in compact form.

  \<^bold>\<open>Not modelled.\<close>  File-system work of the workspace (\<^verbatim>\<open>prepare.go\<close> beyond validation,
  \<^verbatim>\<open>prepare_resident.go\<close>, \<^verbatim>\<open>clone.go\<close>, \<^verbatim>\<open>volume.go\<close>, \<^verbatim>\<open>sync_*.go\<close>): I/O whose outcomes enter as
  arguments.  Of the controller the claim loop, the work queues, the capacity log and the choice of a turn's
  workspace; of \<^verbatim>\<open>daemonapi\<close> the execution documents and the MCP routes; \<^verbatim>\<open>kubernetes\<close>, \<^verbatim>\<open>worker\<close> and
  the helpers \<^verbatim>\<open>repocache\<close>, \<^verbatim>\<open>githubapp\<close>, \<^verbatim>\<open>githubauth\<close>, \<^verbatim>\<open>initprocess\<close>, \<^verbatim>\<open>processgroup\<close>, \<^verbatim>\<open>checkout\<close>: network, processes and
  files.  Where the modelled handlers call them, any answer is allowed.  The controller's locks, timeouts and logging
  are left out: what is shown of its runs needs no lock.  About the rest the properties
  say nothing.  Read caches, cloning and logging of the store are left out because values are immutable here.
\<close>

end
